(* ===== verification/Kube_Prelude.thy ===== *)
theory Kube_Prelude
  imports Main "HOL-Library.Word" "HOL-Library.State_Monad"
begin

text \<open>
  Shared vocabulary of the development: Go's maps and strings, errors as values, and a small
  program logic for the reconciler, whose methods are programs of the library's state monad.

  \<^item> A Go map that the code ranges over is an association list (\<open>'v gomap\<close>): the order of the list
    is the iteration order the run happens to pick. A Go map that the code only indexes, copies
    and compares (labels, annotations, data) is a HOL map. Indexing a missing key yields the zero
    value, which is what \<open>mget\<close> does.
  \<^item> A Go function that returns \<open>([]error)\<close> returns a list here; one that returns \<open>error\<close> returns an
    option or, with a value, a sum.
  \<^item> \<open>triple P m Q\<close> is the Hoare triple of a program of the state monad; the rules in the collection
    \<open>triple_rules\<close> follow the shapes in which the models below are written.
\<close>

subsection \<open>Collections\<close>

named_theorems triple_rules \<open>introduction rules for triples over the shapes of reconciler code\<close>
named_theorems call_defs \<open>definitions of the primitive calls of a reconcile\<close>

subsection \<open>Go maps and strings\<close>

type_synonym 'v gomap = "(string \<times> 'v) list"
type_synonym smap = "string \<rightharpoonup> string"
type_synonym float64 = "64 word" \<comment> \<open>the IEEE bit pattern\<close>

definition mget :: "smap \<Rightarrow> string \<Rightarrow> string" where
  "mget m k = (case m k of None \<Rightarrow> '''' | Some v \<Rightarrow> v)"

lemma mget_upd [simp]: "mget (m(k \<mapsto> v)) k' = (if k' = k then v else mget m k')"
  by (simp add: mget_def)

lemma mget_empty [simp]: "mget Map.empty k = ''''"
  by (simp add: mget_def)

lemma mget_add [simp]: "mget (m ++ n) k = (case n k of None \<Rightarrow> mget m k | Some v \<Rightarrow> v)"
  by (simp add: mget_def map_add_def split: option.splits)

definition gget :: "string gomap \<Rightarrow> string \<Rightarrow> string" where
  "gget m k = mget (map_of m) k"

definition gput :: "string \<Rightarrow> 'v \<Rightarrow> 'v gomap \<Rightarrow> 'v gomap" where
  "gput k v m = (k, v) # filter (\<lambda>p. fst p \<noteq> k) m"

lemma map_of_filter_key: "map_of (filter (\<lambda>p. fst p \<noteq> k) m) x = (if x = k then None else map_of m x)"
  by (induction m) auto

lemma map_of_gput [simp]: "map_of (gput k v m) = (map_of m)(k \<mapsto> v)"
  by (rule ext) (simp add: gput_def map_of_filter_key)

lemma gget_gput [simp]: "gget (gput k v m) k' = (if k' = k then v else gget m k')"
  by (simp add: gget_def)

definition gmap_has :: "'v gomap \<Rightarrow> string \<Rightarrow> bool" where
  "gmap_has m k \<longleftrightarrow> map_of m k \<noteq> None"

fun has_prefix :: "string \<Rightarrow> string \<Rightarrow> bool" where
  "has_prefix s [] = True"
| "has_prefix [] (p # ps) = False"
| "has_prefix (c # s) (p # ps) = (c = p \<and> has_prefix s ps)"

lemma has_prefix_append: "has_prefix s p \<longleftrightarrow> (\<exists>t. s = p @ t)"
  by (induction s p rule: has_prefix.induct) auto

text \<open>The white space of \<open>strings.TrimSpace\<close> for ASCII text, and NEL and NBSP in their Latin-1
  positions are not stripped since a Go string holds their UTF-8 encodings.\<close>

definition is_space :: "char \<Rightarrow> bool" where
  "is_space c \<longleftrightarrow> of_char c \<in> {9, 10, 11, 12, 13, 32 :: nat}"

definition trim_space :: "string \<Rightarrow> string" where
  "trim_space s = rev (dropWhile is_space (rev (dropWhile is_space s)))"

fun join_strings :: "string \<Rightarrow> string list \<Rightarrow> string" where
  "join_strings sep [] = ''''"
| "join_strings sep [x] = x"
| "join_strings sep (x # y # zs) = x @ sep @ join_strings sep (y # zs)"

subsection \<open>Pointers to booleans\<close>

definition deref_or :: "bool \<Rightarrow> bool option \<Rightarrow> bool" where
  "deref_or d p = (case p of None \<Rightarrow> d | Some b \<Rightarrow> b)"

lemma deref_or_simps [simp]:
  "deref_or d None = d" "deref_or d (Some b) = b"
  by (simp_all add: deref_or_def)

subsection \<open>Hoare triples for the state monad\<close>

definition triple :: "('w \<Rightarrow> bool) \<Rightarrow> ('w, 'a) state \<Rightarrow> ('a \<Rightarrow> 'w \<Rightarrow> bool) \<Rightarrow> bool" where
  "triple P m Q \<longleftrightarrow> (\<forall>w. P w \<longrightarrow> Q (fst (run_state m w)) (snd (run_state m w)))"

lemma tripleI: "(\<And>w a w'. P w \<Longrightarrow> run_state m w = (a, w') \<Longrightarrow> Q a w') \<Longrightarrow> triple P m Q"
  by (simp add: triple_def)

lemma tripleD: "triple P m Q \<Longrightarrow> P w \<Longrightarrow> run_state m w = (a, w') \<Longrightarrow> Q a w'"
  unfolding triple_def by (metis fst_conv snd_conv)

lemma triple_return [triple_rules]: "(\<And>w. P w \<Longrightarrow> Q a w) \<Longrightarrow> triple P (State_Monad.return a) Q"
  by (simp add: triple_def State_Monad.return_def)

lemma run_bind:
  "run_state (State_Monad.bind m f) w = run_state (f (fst (run_state m w))) (snd (run_state m w))"
  by (simp split: prod.splits)

lemma triple_bind:
  "triple P m R \<Longrightarrow> (\<And>a. triple (R a) (f a) Q) \<Longrightarrow> triple P (State_Monad.bind m f) Q"
  by (simp add: triple_def run_bind del: run_state_bind)

lemma triple_conseq:
  "triple P' m Q' \<Longrightarrow> (\<And>w. P w \<Longrightarrow> P' w) \<Longrightarrow> (\<And>a w. Q' a w \<Longrightarrow> Q a w) \<Longrightarrow> triple P m Q"
  by (simp add: triple_def)

lemma triple_if [triple_rules]:
  "(b \<Longrightarrow> triple P m Q) \<Longrightarrow> (\<not> b \<Longrightarrow> triple P n Q) \<Longrightarrow> triple P (if b then m else n) Q"
  by simp

lemma triple_case_sum [triple_rules]:
  "(\<And>e. x = Inl e \<Longrightarrow> triple P (f e) Q) \<Longrightarrow> (\<And>v. x = Inr v \<Longrightarrow> triple P (g v) Q) \<Longrightarrow>
   triple P (case x of Inl e \<Rightarrow> f e | Inr v \<Rightarrow> g v) Q"
  by (cases x) simp_all

lemma triple_case_option [triple_rules]:
  "(x = None \<Longrightarrow> triple P f Q) \<Longrightarrow> (\<And>v. x = Some v \<Longrightarrow> triple P (g v) Q) \<Longrightarrow>
   triple P (case x of None \<Rightarrow> f | Some v \<Rightarrow> g v) Q"
  by (cases x) simp_all

lemma triple_case_prod [triple_rules]:
  "(\<And>a b. x = (a, b) \<Longrightarrow> triple P (f a b) Q) \<Longrightarrow> triple P (case x of (a, b) \<Rightarrow> f a b) Q"
  by (cases x) simp

lemma triple_let [triple_rules]: "(\<And>y. y = x \<Longrightarrow> triple P (f y) Q) \<Longrightarrow> triple P (Let x f) Q"
  by simp

text \<open>An invariant of a program: kept whatever the program returns.\<close>

definition keeps :: "('w \<Rightarrow> bool) \<Rightarrow> ('w, 'a) state \<Rightarrow> bool" where
  "keeps I m \<longleftrightarrow> triple I m (\<lambda>_. I)"

lemma keepsD: "keeps I m \<Longrightarrow> I w \<Longrightarrow> I (snd (run_state m w))"
  by (simp add: keeps_def triple_def)

lemma keeps_return [triple_rules]: "keeps I (State_Monad.return a)"
  by (simp add: keeps_def triple_return)

lemma keeps_bind [triple_rules]:
  "keeps I m \<Longrightarrow> (\<And>a. keeps I (f a)) \<Longrightarrow> keeps I (State_Monad.bind m f)"
  unfolding keeps_def by (rule triple_bind)

lemma keeps_if [triple_rules]: "(b \<Longrightarrow> keeps I m) \<Longrightarrow> (\<not> b \<Longrightarrow> keeps I n) \<Longrightarrow> keeps I (if b then m else n)"
  by simp

lemma keeps_case_sum [triple_rules]:
  "(\<And>e. x = Inl e \<Longrightarrow> keeps I (f e)) \<Longrightarrow> (\<And>v. x = Inr v \<Longrightarrow> keeps I (g v)) \<Longrightarrow>
   keeps I (case x of Inl e \<Rightarrow> f e | Inr v \<Rightarrow> g v)"
  by (cases x) simp_all

lemma keeps_case_option [triple_rules]:
  "(x = None \<Longrightarrow> keeps I f) \<Longrightarrow> (\<And>v. x = Some v \<Longrightarrow> keeps I (g v)) \<Longrightarrow>
   keeps I (case x of None \<Rightarrow> f | Some v \<Rightarrow> g v)"
  by (cases x) simp_all

lemma keeps_case_prod [triple_rules]:
  "(\<And>a b. x = (a, b) \<Longrightarrow> keeps I (f a b)) \<Longrightarrow> keeps I (case x of (a, b) \<Rightarrow> f a b)"
  by (cases x) simp

lemma keeps_let [triple_rules]: "(\<And>y. y = x \<Longrightarrow> keeps I (f y)) \<Longrightarrow> keeps I (Let x f)"
  by simp

lemma triple_strengthen: "triple P' m Q \<Longrightarrow> (\<And>w. P w \<Longrightarrow> P' w) \<Longrightarrow> triple P m Q"
  by (simp add: triple_def)

lemma triple_bind_from:
  "triple P' m R \<Longrightarrow> (\<And>w. P w \<Longrightarrow> P' w) \<Longrightarrow> (\<And>a. triple (R a) (f a) Q) \<Longrightarrow>
   triple P (State_Monad.bind m f) Q"
  by (rule triple_bind [OF triple_strengthen])

lemma triple_bind_sum:
  "triple P m R \<Longrightarrow> (\<And>e. triple (R (Inl e)) (f e) Q) \<Longrightarrow> (\<And>v. triple (R (Inr v)) (g v) Q) \<Longrightarrow>
   triple P (State_Monad.bind m (\<lambda>r. case r of Inl e \<Rightarrow> f e | Inr v \<Rightarrow> g v)) Q"
  by (erule triple_bind) (auto split: sum.splits)

lemma triple_keeps: "keeps I m \<Longrightarrow> (\<And>w. P w \<Longrightarrow> I w) \<Longrightarrow> triple P m (\<lambda>_. I)"
  unfolding keeps_def triple_def by blast

lemma keeps_of_triple: "triple I m (\<lambda>r w. I w \<and> Q r w) \<Longrightarrow> keeps I m"
  by (auto simp: keeps_def triple_def)

end
