(* ===== verification/Api_Types.thy ===== *)
theory Api_Types
  imports Kube_Prelude
begin

text \<open>
  The custom resource of the operator, \<^verbatim>\<open>api/v1alpha2/kubernaut_types.go\<close>: one record per Go struct,
  in dependency order, each field under its Go name behind the struct's name. A pointer is an
  option, a slice a list, a map that the code ranges over an association list, and an
  embedded struct a field. The integers of the spec are never added or multiplied, only compared
  with constants, so an \<open>int\<close> stands for Go's \<open>int\<close>, \<open>int32\<close> and \<open>int64\<close>. \<open>zero_T\<close> is Go's
  zero value of the struct \<open>T\<close>.

  The first records are the types of the Kubernetes libraries that the structs mention.
\<close>

subsection \<open>Types of the Kubernetes API that the structs mention\<close>

record owner_reference =
  owner_APIVersion :: string
  owner_Kind :: string
  owner_Name :: string
  owner_UID :: string
  owner_Controller :: "bool option"
  owner_BlockOwnerDeletion :: "bool option"

record object_meta =
  meta_Name :: string
  meta_Namespace :: string
  meta_UID :: string
  meta_ResourceVersion :: string
  meta_Generation :: int
  meta_CreationTimestamp :: int
  meta_DeletionTimestamp :: "int option"
  meta_Labels :: smap
  meta_Annotations :: smap
  meta_OwnerReferences :: "owner_reference list"
  meta_Finalizers :: "string list"

definition zero_object_meta :: object_meta where
  "zero_object_meta = \<lparr>meta_Name = '''', meta_Namespace = '''', meta_UID = '''',
     meta_ResourceVersion = '''', meta_Generation = 0, meta_CreationTimestamp = 0,
     meta_DeletionTimestamp = None, meta_Labels = Map.empty, meta_Annotations = Map.empty,
     meta_OwnerReferences = [], meta_Finalizers = []\<rparr>"

record condition =
  cond_Type :: string
  cond_Status :: string
  cond_Reason :: string
  cond_Message :: string
  cond_ObservedGeneration :: int
  cond_LastTransitionTime :: int

record label_requirement =
  requirement_Key :: string
  requirement_Operator :: string
  requirement_Values :: "string list"

record label_selector =
  selector_MatchLabels :: smap
  selector_MatchExpressions :: "label_requirement list"

record resource_requirements =
  resources_Requests :: "string gomap"
  resources_Limits :: "string gomap"

definition zero_resource_requirements :: resource_requirements where
  "zero_resource_requirements = \<lparr>resources_Requests = [], resources_Limits = []\<rparr>"

subsection \<open>The structs of the custom resource\<close>

record ImageSpec =
  image_PullPolicy :: "string"
  image_PullSecrets :: "string list"
  image_Overrides :: "string gomap"

definition zero_ImageSpec :: ImageSpec where
  "zero_ImageSpec = \<lparr>image_PullPolicy = '''',
     image_PullSecrets = [],
     image_Overrides = []\<rparr>"

record PostgreSQLSpec =
  postgreSQL_SecretName :: "string"
  postgreSQL_Host :: "string"
  postgreSQL_Port :: "int"
  postgreSQL_SSLMode :: "string"

definition zero_PostgreSQLSpec :: PostgreSQLSpec where
  "zero_PostgreSQLSpec = \<lparr>postgreSQL_SecretName = '''',
     postgreSQL_Host = '''',
     postgreSQL_Port = 0,
     postgreSQL_SSLMode = ''''\<rparr>"

record ValkeyTLSSpec =
  valkeyTLS_Enabled :: "bool"
  valkeyTLS_CASecretName :: "string"
  valkeyTLS_ClientCertSecretName :: "string"

record ValkeySpec =
  valkey_SecretName :: "string"
  valkey_Host :: "string"
  valkey_Port :: "int"
  valkey_TLS :: "ValkeyTLSSpec option"

definition zero_ValkeySpec :: ValkeySpec where
  "zero_ValkeySpec = \<lparr>valkey_SecretName = '''',
     valkey_Host = '''',
     valkey_Port = 0,
     valkey_TLS = None\<rparr>"

record NotificationSecretRef =
  notificationSecretRef_Name :: "string"
  notificationSecretRef_Key :: "string"

record NotificationCredentialSpec =
  notificationCredential_Name :: "string"
  notificationCredential_SecretRef :: "NotificationSecretRef"

record ConfigMapRef =
  configMapRef_ConfigMapName :: "string"

record LoggingSpec =
  logging_Level :: "string"

definition zero_LoggingSpec :: LoggingSpec where
  "zero_LoggingSpec = \<lparr>logging_Level = ''''\<rparr>"

record NotificationSpec =
  notification_Credentials :: "NotificationCredentialSpec list"
  notification_Routing :: "ConfigMapRef option"
  notification_Logging :: "LoggingSpec"
  notification_Resources :: "resource_requirements"

definition zero_NotificationSpec :: NotificationSpec where
  "zero_NotificationSpec = \<lparr>notification_Credentials = [],
     notification_Routing = None,
     notification_Logging = zero_LoggingSpec,
     notification_Resources = zero_resource_requirements\<rparr>"

record PolicyConfigMapRef =
  policyConfigMapRef_ConfigMapName :: "string"

definition zero_PolicyConfigMapRef :: PolicyConfigMapRef where
  "zero_PolicyConfigMapRef = \<lparr>policyConfigMapRef_ConfigMapName = ''''\<rparr>"

record AIAnalysisSpec =
  aiAnalysis_Policy :: "PolicyConfigMapRef"
  aiAnalysis_ConfidenceThreshold :: "float64 option"
  aiAnalysis_LowConfidenceFloor :: "string"
  aiAnalysis_Logging :: "LoggingSpec"
  aiAnalysis_Resources :: "resource_requirements"

definition zero_AIAnalysisSpec :: AIAnalysisSpec where
  "zero_AIAnalysisSpec = \<lparr>aiAnalysis_Policy = zero_PolicyConfigMapRef,
     aiAnalysis_ConfidenceThreshold = None,
     aiAnalysis_LowConfidenceFloor = '''',
     aiAnalysis_Logging = zero_LoggingSpec,
     aiAnalysis_Resources = zero_resource_requirements\<rparr>"

record FleetOverrideSpec =
  fleetOverride_OAuth2CredentialsSecretRef :: "string"

record SignalProcessingSpec =
  signalProcessing_Policy :: "PolicyConfigMapRef"
  signalProcessing_Logging :: "LoggingSpec"
  signalProcessing_Resources :: "resource_requirements"
  signalProcessing_Fleet :: "FleetOverrideSpec option"

definition zero_SignalProcessingSpec :: SignalProcessingSpec where
  "zero_SignalProcessingSpec = \<lparr>signalProcessing_Policy = zero_PolicyConfigMapRef,
     signalProcessing_Logging = zero_LoggingSpec,
     signalProcessing_Resources = zero_resource_requirements,
     signalProcessing_Fleet = None\<rparr>"

record ROTimeoutsSpec =
  roTimeouts_Global :: "string"
  roTimeouts_Processing :: "string"
  roTimeouts_Analyzing :: "string"
  roTimeouts_Executing :: "string"
  roTimeouts_AwaitingApproval :: "string"
  roTimeouts_Verifying :: "string"

definition zero_ROTimeoutsSpec :: ROTimeoutsSpec where
  "zero_ROTimeoutsSpec = \<lparr>roTimeouts_Global = '''',
     roTimeouts_Processing = '''',
     roTimeouts_Analyzing = '''',
     roTimeouts_Executing = '''',
     roTimeouts_AwaitingApproval = '''',
     roTimeouts_Verifying = ''''\<rparr>"

record RORoutingSpec =
  roRouting_ConsecutiveFailureThreshold :: "int option"
  roRouting_ConsecutiveFailureCooldown :: "string"
  roRouting_RecentlyRemediatedCooldown :: "string"
  roRouting_ExponentialBackoffBase :: "string"
  roRouting_ExponentialBackoffMax :: "string"
  roRouting_ExponentialBackoffMaxExponent :: "int option"
  roRouting_ScopeBackoffBase :: "string"
  roRouting_ScopeBackoffMax :: "string"
  roRouting_NoActionRequiredDelayHours :: "int option"
  roRouting_IneffectiveChainThreshold :: "int option"
  roRouting_RecurrenceCountThreshold :: "int option"
  roRouting_IneffectiveTimeWindow :: "string"

definition zero_RORoutingSpec :: RORoutingSpec where
  "zero_RORoutingSpec = \<lparr>roRouting_ConsecutiveFailureThreshold = None,
     roRouting_ConsecutiveFailureCooldown = '''',
     roRouting_RecentlyRemediatedCooldown = '''',
     roRouting_ExponentialBackoffBase = '''',
     roRouting_ExponentialBackoffMax = '''',
     roRouting_ExponentialBackoffMaxExponent = None,
     roRouting_ScopeBackoffBase = '''',
     roRouting_ScopeBackoffMax = '''',
     roRouting_NoActionRequiredDelayHours = None,
     roRouting_IneffectiveChainThreshold = None,
     roRouting_RecurrenceCountThreshold = None,
     roRouting_IneffectiveTimeWindow = ''''\<rparr>"

record ROEffectivenessSpec =
  roEffectiveness_StabilizationWindow :: "string"

definition zero_ROEffectivenessSpec :: ROEffectivenessSpec where
  "zero_ROEffectivenessSpec = \<lparr>roEffectiveness_StabilizationWindow = ''''\<rparr>"

record ROAsyncPropagationSpec =
  roAsyncPropagation_GitOpsSyncDelay :: "string"
  roAsyncPropagation_OperatorReconcileDelay :: "string"
  roAsyncPropagation_ProactiveAlertDelay :: "string"

definition zero_ROAsyncPropagationSpec :: ROAsyncPropagationSpec where
  "zero_ROAsyncPropagationSpec = \<lparr>roAsyncPropagation_GitOpsSyncDelay = '''',
     roAsyncPropagation_OperatorReconcileDelay = '''',
     roAsyncPropagation_ProactiveAlertDelay = ''''\<rparr>"

record RONotificationsSpec =
  roNotifications_NotifySelfResolved :: "bool"

definition zero_RONotificationsSpec :: RONotificationsSpec where
  "zero_RONotificationsSpec = \<lparr>roNotifications_NotifySelfResolved = False\<rparr>"

record RORetentionSpec =
  roRetention_Period :: "string"

definition zero_RORetentionSpec :: RORetentionSpec where
  "zero_RORetentionSpec = \<lparr>roRetention_Period = ''''\<rparr>"

record RemediationOrchestratorSpec =
  remediationOrchestrator_Timeouts :: "ROTimeoutsSpec"
  remediationOrchestrator_Routing :: "RORoutingSpec"
  remediationOrchestrator_EffectivenessAssessment :: "ROEffectivenessSpec"
  remediationOrchestrator_AsyncPropagation :: "ROAsyncPropagationSpec"
  remediationOrchestrator_DryRun :: "bool"
  remediationOrchestrator_DryRunHoldPeriod :: "string"
  remediationOrchestrator_Notifications :: "RONotificationsSpec"
  remediationOrchestrator_Retention :: "RORetentionSpec"
  remediationOrchestrator_Logging :: "LoggingSpec"
  remediationOrchestrator_Resources :: "resource_requirements"
  remediationOrchestrator_Fleet :: "FleetOverrideSpec option"

definition zero_RemediationOrchestratorSpec :: RemediationOrchestratorSpec where
  "zero_RemediationOrchestratorSpec = \<lparr>remediationOrchestrator_Timeouts = zero_ROTimeoutsSpec,
     remediationOrchestrator_Routing = zero_RORoutingSpec,
     remediationOrchestrator_EffectivenessAssessment = zero_ROEffectivenessSpec,
     remediationOrchestrator_AsyncPropagation = zero_ROAsyncPropagationSpec,
     remediationOrchestrator_DryRun = False,
     remediationOrchestrator_DryRunHoldPeriod = '''',
     remediationOrchestrator_Notifications = zero_RONotificationsSpec,
     remediationOrchestrator_Retention = zero_RORetentionSpec,
     remediationOrchestrator_Logging = zero_LoggingSpec,
     remediationOrchestrator_Resources = zero_resource_requirements,
     remediationOrchestrator_Fleet = None\<rparr>"

record TektonSpec =
  tekton_Enabled :: "bool option"

definition zero_TektonSpec :: TektonSpec where
  "zero_TektonSpec = \<lparr>tekton_Enabled = None\<rparr>"

record SecretKeyRef =
  secretKeyRef_Name :: "string"
  secretKeyRef_Key :: "string"

record CACertSecretRef =
  caCertSecretRef_Name :: "string"
  caCertSecretRef_Key :: "string"

record AnsibleSpec =
  ansible_Enabled :: "bool"
  ansible_APIURL :: "string"
  ansible_OrganizationID :: "int"
  ansible_TokenSecretRef :: "SecretKeyRef option"
  ansible_CACertSecretRef :: "CACertSecretRef option"

definition zero_AnsibleSpec :: AnsibleSpec where
  "zero_AnsibleSpec = \<lparr>ansible_Enabled = False,
     ansible_APIURL = '''',
     ansible_OrganizationID = 0,
     ansible_TokenSecretRef = None,
     ansible_CACertSecretRef = None\<rparr>"

record WorkflowExecutionFleetSpec =
  workflowExecutionFleet_OAuth2CredentialsSecretRef :: "string"

definition zero_WorkflowExecutionFleetSpec :: WorkflowExecutionFleetSpec where
  "zero_WorkflowExecutionFleetSpec = \<lparr>workflowExecutionFleet_OAuth2CredentialsSecretRef = ''''\<rparr>"

record WorkflowExecutionSpec =
  workflowExecution_WorkflowNamespace :: "string"
  workflowExecution_CooldownPeriod :: "string"
  workflowExecution_RetainFailedExecutions :: "bool"
  workflowExecution_FailedExecutionRetentionSeconds :: "int option"
  workflowExecution_Tekton :: "TektonSpec"
  workflowExecution_Ansible :: "AnsibleSpec"
  workflowExecution_Fleet :: "WorkflowExecutionFleetSpec"
  workflowExecution_Logging :: "LoggingSpec"
  workflowExecution_Resources :: "resource_requirements"

definition zero_WorkflowExecutionSpec :: WorkflowExecutionSpec where
  "zero_WorkflowExecutionSpec = \<lparr>workflowExecution_WorkflowNamespace = '''',
     workflowExecution_CooldownPeriod = '''',
     workflowExecution_RetainFailedExecutions = False,
     workflowExecution_FailedExecutionRetentionSeconds = None,
     workflowExecution_Tekton = zero_TektonSpec,
     workflowExecution_Ansible = zero_AnsibleSpec,
     workflowExecution_Fleet = zero_WorkflowExecutionFleetSpec,
     workflowExecution_Logging = zero_LoggingSpec,
     workflowExecution_Resources = zero_resource_requirements\<rparr>"

record EMAssessmentSpec =
  emAssessment_StabilizationWindow :: "string"
  emAssessment_ValidityWindow :: "string"

definition zero_EMAssessmentSpec :: EMAssessmentSpec where
  "zero_EMAssessmentSpec = \<lparr>emAssessment_StabilizationWindow = '''',
     emAssessment_ValidityWindow = ''''\<rparr>"

record EffectivenessMonitorSpec =
  effectivenessMonitor_Assessment :: "EMAssessmentSpec"
  effectivenessMonitor_Logging :: "LoggingSpec"
  effectivenessMonitor_Resources :: "resource_requirements"
  effectivenessMonitor_Fleet :: "FleetOverrideSpec option"

definition zero_EffectivenessMonitorSpec :: EffectivenessMonitorSpec where
  "zero_EffectivenessMonitorSpec = \<lparr>effectivenessMonitor_Assessment = zero_EMAssessmentSpec,
     effectivenessMonitor_Logging = zero_LoggingSpec,
     effectivenessMonitor_Resources = zero_resource_requirements,
     effectivenessMonitor_Fleet = None\<rparr>"

record MonitoringTLSSpec =
  monitoringTLS_CACertSecretRef :: "CACertSecretRef option"

record PrometheusSpec =
  prometheus_Enabled :: "bool option"
  prometheus_URL :: "string"

definition zero_PrometheusSpec :: PrometheusSpec where
  "zero_PrometheusSpec = \<lparr>prometheus_Enabled = None,
     prometheus_URL = ''''\<rparr>"

record AlertManagerSpec =
  alertManager_Enabled :: "bool option"
  alertManager_URL :: "string"

definition zero_AlertManagerSpec :: AlertManagerSpec where
  "zero_AlertManagerSpec = \<lparr>alertManager_Enabled = None,
     alertManager_URL = ''''\<rparr>"

record MonitoringSpec =
  monitoring_TLS :: "MonitoringTLSSpec option"
  monitoring_Prometheus :: "PrometheusSpec"
  monitoring_AlertManager :: "AlertManagerSpec"

definition zero_MonitoringSpec :: MonitoringSpec where
  "zero_MonitoringSpec = \<lparr>monitoring_TLS = None,
     monitoring_Prometheus = zero_PrometheusSpec,
     monitoring_AlertManager = zero_AlertManagerSpec\<rparr>"

record OAuth2Spec =
  oAuth2_Enabled :: "bool"
  oAuth2_TokenURL :: "string"
  oAuth2_Scopes :: "string list"
  oAuth2_CredentialsSecretRef :: "string"

record LLMReasoningSpec =
  llmReasoning_Enabled :: "bool"
  llmReasoning_BudgetTokens :: "int option"
  llmReasoning_Effort :: "string"
  llmReasoning_CapabilityOverride :: "string"

record LLMProfileSpec =
  llmProfile_Provider :: "string"
  llmProfile_Model :: "string"
  llmProfile_CredentialsSecretName :: "string"
  llmProfile_Endpoint :: "string"
  llmProfile_Temperature :: "string"
  llmProfile_MaxRetries :: "int option"
  llmProfile_TimeoutSeconds :: "int option"
  llmProfile_VertexProject :: "string"
  llmProfile_VertexLocation :: "string"
  llmProfile_BedrockRegion :: "string"
  llmProfile_AzureAPIVersion :: "string"
  llmProfile_TLSCaFile :: "string"
  llmProfile_TLSCaSecretRef :: "CACertSecretRef option"
  llmProfile_TLSCertFile :: "string"
  llmProfile_TLSKeyFile :: "string"
  llmProfile_TLSClientSecretRef :: "string"
  llmProfile_OAuth2 :: "OAuth2Spec"
  llmProfile_Reasoning :: "LLMReasoningSpec option"

record InvestigationSpec =
  investigation_LLMProfileRef :: "string"
  investigation_MaxTurns :: "int option"

definition zero_InvestigationSpec :: InvestigationSpec where
  "zero_InvestigationSpec = \<lparr>investigation_LLMProfileRef = '''',
     investigation_MaxTurns = None\<rparr>"

record WorkflowDiscoverySpec =
  workflowDiscovery_LLMProfileRef :: "string"
  workflowDiscovery_MaxEvidenceHandoffBytes :: "int option"

definition zero_WorkflowDiscoverySpec :: WorkflowDiscoverySpec where
  "zero_WorkflowDiscoverySpec = \<lparr>workflowDiscovery_LLMProfileRef = '''',
     workflowDiscovery_MaxEvidenceHandoffBytes = None\<rparr>"

record SessionSpec =
  session_TTL :: "string"
  session_MaxConcurrentInvestigations :: "int"

definition zero_SessionSpec :: SessionSpec where
  "zero_SessionSpec = \<lparr>session_TTL = '''',
     session_MaxConcurrentInvestigations = 0\<rparr>"

record AuditSpec =
  audit_Enabled :: "bool option"
  audit_FlushIntervalSeconds :: "string"
  audit_BufferSize :: "int option"
  audit_BatchSize :: "int option"

definition zero_AuditSpec :: AuditSpec where
  "zero_AuditSpec = \<lparr>audit_Enabled = None,
     audit_FlushIntervalSeconds = '''',
     audit_BufferSize = None,
     audit_BatchSize = None\<rparr>"

record AlignmentCheckSpec =
  alignmentCheck_Enabled :: "bool"
  alignmentCheck_Timeout :: "string"
  alignmentCheck_MaxStepTokens :: "int"
  alignmentCheck_LLMProfileRef :: "string"

definition zero_AlignmentCheckSpec :: AlignmentCheckSpec where
  "zero_AlignmentCheckSpec = \<lparr>alignmentCheck_Enabled = False,
     alignmentCheck_Timeout = '''',
     alignmentCheck_MaxStepTokens = 0,
     alignmentCheck_LLMProfileRef = ''''\<rparr>"

record SummarizerSpec =
  summarizer_Threshold :: "int"
  summarizer_MaxToolOutputSize :: "int"

definition zero_SummarizerSpec :: SummarizerSpec where
  "zero_SummarizerSpec = \<lparr>summarizer_Threshold = 0,
     summarizer_MaxToolOutputSize = 0\<rparr>"

record TelemetryTLSConfig =
  telemetryTLSConfig_CAFile :: "string"
  telemetryTLSConfig_CACertSecretRef :: "CACertSecretRef option"
  telemetryTLSConfig_CertFile :: "string"
  telemetryTLSConfig_KeyFile :: "string"
  telemetryTLSConfig_TLSClientSecretRef :: "string"

definition zero_TelemetryTLSConfig :: TelemetryTLSConfig where
  "zero_TelemetryTLSConfig = \<lparr>telemetryTLSConfig_CAFile = '''',
     telemetryTLSConfig_CACertSecretRef = None,
     telemetryTLSConfig_CertFile = '''',
     telemetryTLSConfig_KeyFile = '''',
     telemetryTLSConfig_TLSClientSecretRef = ''''\<rparr>"

record TelemetrySpec =
  telemetry_Endpoint :: "string"
  telemetry_LogSink :: "bool option"
  telemetry_TLS :: "TelemetryTLSConfig"

definition zero_TelemetrySpec :: TelemetrySpec where
  "zero_TelemetrySpec = \<lparr>telemetry_Endpoint = '''',
     telemetry_LogSink = None,
     telemetry_TLS = zero_TelemetryTLSConfig\<rparr>"

record SanitizationSpec =
  sanitization_InjectionPatternsEnabled :: "bool option"
  sanitization_CredentialScrubEnabled :: "bool option"

definition zero_SanitizationSpec :: SanitizationSpec where
  "zero_SanitizationSpec = \<lparr>sanitization_InjectionPatternsEnabled = None,
     sanitization_CredentialScrubEnabled = None\<rparr>"

record AnomalySpec =
  anomaly_MaxToolCallsPerTool :: "int option"
  anomaly_MaxTotalToolCalls :: "int option"
  anomaly_MaxRepeatedFailures :: "int option"

definition zero_AnomalySpec :: AnomalySpec where
  "zero_AnomalySpec = \<lparr>anomaly_MaxToolCallsPerTool = None,
     anomaly_MaxTotalToolCalls = None,
     anomaly_MaxRepeatedFailures = None\<rparr>"

record SafetySpec =
  safety_Sanitization :: "SanitizationSpec"
  safety_Anomaly :: "AnomalySpec"

definition zero_SafetySpec :: SafetySpec where
  "zero_SafetySpec = \<lparr>safety_Sanitization = zero_SanitizationSpec,
     safety_Anomaly = zero_AnomalySpec\<rparr>"

record InteractiveSpec =
  interactive_Enabled :: "bool option"
  interactive_SessionTTL :: "string"
  interactive_InactivityTimeout :: "string"
  interactive_MaxConcurrentSessions :: "int option"
  interactive_RateLimitPerUser :: "int option"

record KARateLimitSpec =
  kaRateLimit_RequestsPerSecond :: "int option"
  kaRateLimit_Burst :: "int option"

record ShutdownSpec =
  shutdown_DrainSeconds :: "int option"

definition zero_ShutdownSpec :: ShutdownSpec where
  "zero_ShutdownSpec = \<lparr>shutdown_DrainSeconds = None\<rparr>"

record KubernautAgentSpec =
  kubernautAgent_Investigation :: "InvestigationSpec"
  kubernautAgent_WorkflowDiscovery :: "WorkflowDiscoverySpec"
  kubernautAgent_RuntimeConfigMapName :: "string"
  kubernautAgent_Session :: "SessionSpec"
  kubernautAgent_Audit :: "AuditSpec"
  kubernautAgent_AlignmentCheck :: "AlignmentCheckSpec"
  kubernautAgent_Summarizer :: "SummarizerSpec"
  kubernautAgent_Telemetry :: "TelemetrySpec"
  kubernautAgent_Safety :: "SafetySpec"
  kubernautAgent_Interactive :: "InteractiveSpec option"
  kubernautAgent_ServerRateLimit :: "KARateLimitSpec option"
  kubernautAgent_Shutdown :: "ShutdownSpec"
  kubernautAgent_Logging :: "LoggingSpec"
  kubernautAgent_Resources :: "resource_requirements"
  kubernautAgent_Fleet :: "FleetOverrideSpec option"

definition zero_KubernautAgentSpec :: KubernautAgentSpec where
  "zero_KubernautAgentSpec = \<lparr>kubernautAgent_Investigation = zero_InvestigationSpec,
     kubernautAgent_WorkflowDiscovery = zero_WorkflowDiscoverySpec,
     kubernautAgent_RuntimeConfigMapName = '''',
     kubernautAgent_Session = zero_SessionSpec,
     kubernautAgent_Audit = zero_AuditSpec,
     kubernautAgent_AlignmentCheck = zero_AlignmentCheckSpec,
     kubernautAgent_Summarizer = zero_SummarizerSpec,
     kubernautAgent_Telemetry = zero_TelemetrySpec,
     kubernautAgent_Safety = zero_SafetySpec,
     kubernautAgent_Interactive = None,
     kubernautAgent_ServerRateLimit = None,
     kubernautAgent_Shutdown = zero_ShutdownSpec,
     kubernautAgent_Logging = zero_LoggingSpec,
     kubernautAgent_Resources = zero_resource_requirements,
     kubernautAgent_Fleet = None\<rparr>"

record GatewayCORSSpec =
  gatewayCORS_AllowedOrigins :: "string list"
  gatewayCORS_AllowedMethods :: "string list"
  gatewayCORS_AllowCredentials :: "bool option"
  gatewayCORS_MaxAge :: "int option"

definition zero_GatewayCORSSpec :: GatewayCORSSpec where
  "zero_GatewayCORSSpec = \<lparr>gatewayCORS_AllowedOrigins = [],
     gatewayCORS_AllowedMethods = [],
     gatewayCORS_AllowCredentials = None,
     gatewayCORS_MaxAge = None\<rparr>"

record GatewayServerSpec =
  gatewayServer_MaxConcurrentRequests :: "int option"
  gatewayServer_ReadTimeout :: "string"
  gatewayServer_WriteTimeout :: "string"
  gatewayServer_IdleTimeout :: "string"

record GatewayRetrySpec =
  gatewayRetry_MaxAttempts :: "int option"
  gatewayRetry_InitialBackoff :: "string"
  gatewayRetry_MaxBackoff :: "string"

record GatewayConfigSpec =
  gatewayConfig_K8sRequestTimeout :: "string"
  gatewayConfig_TrustedProxyCIDRs :: "string list"
  gatewayConfig_CORS :: "GatewayCORSSpec"
  gatewayConfig_DeduplicationCooldown :: "string"
  gatewayConfig_Telemetry :: "TelemetrySpec"
  gatewayConfig_Server :: "GatewayServerSpec option"
  gatewayConfig_Retry :: "GatewayRetrySpec option"

definition zero_GatewayConfigSpec :: GatewayConfigSpec where
  "zero_GatewayConfigSpec = \<lparr>gatewayConfig_K8sRequestTimeout = '''',
     gatewayConfig_TrustedProxyCIDRs = [],
     gatewayConfig_CORS = zero_GatewayCORSSpec,
     gatewayConfig_DeduplicationCooldown = '''',
     gatewayConfig_Telemetry = zero_TelemetrySpec,
     gatewayConfig_Server = None,
     gatewayConfig_Retry = None\<rparr>"

record GatewayAlertManagerAuthSpec =
  gatewayAlertManagerAuth_TokenSecretName :: "string"

definition zero_GatewayAlertManagerAuthSpec :: GatewayAlertManagerAuthSpec where
  "zero_GatewayAlertManagerAuthSpec = \<lparr>gatewayAlertManagerAuth_TokenSecretName = ''''\<rparr>"

record GatewayAuthSpec =
  gatewayAuth_Enabled :: "bool option"
  gatewayAuth_AlertManager :: "GatewayAlertManagerAuthSpec"

definition zero_GatewayAuthSpec :: GatewayAuthSpec where
  "zero_GatewayAuthSpec = \<lparr>gatewayAuth_Enabled = None,
     gatewayAuth_AlertManager = zero_GatewayAlertManagerAuthSpec\<rparr>"

record GatewaySpec =
  gateway_Enabled :: "bool option"
  gateway_Config :: "GatewayConfigSpec"
  gateway_Logging :: "LoggingSpec"
  gateway_Auth :: "GatewayAuthSpec"
  gateway_Resources :: "resource_requirements"
  gateway_Fleet :: "FleetOverrideSpec option"

definition zero_GatewaySpec :: GatewaySpec where
  "zero_GatewaySpec = \<lparr>gateway_Enabled = None,
     gateway_Config = zero_GatewayConfigSpec,
     gateway_Logging = zero_LoggingSpec,
     gateway_Auth = zero_GatewayAuthSpec,
     gateway_Resources = zero_resource_requirements,
     gateway_Fleet = None\<rparr>"

record AuthWebhookSpec =
  authWebhook_Logging :: "LoggingSpec"
  authWebhook_Resources :: "resource_requirements"

definition zero_AuthWebhookSpec :: AuthWebhookSpec where
  "zero_AuthWebhookSpec = \<lparr>authWebhook_Logging = zero_LoggingSpec,
     authWebhook_Resources = zero_resource_requirements\<rparr>"

record DataStorageRateLimitSpec =
  dataStorageRateLimit_RequestsPerSecond :: "int option"
  dataStorageRateLimit_Burst :: "int option"

record DataStorageServerSpec =
  dataStorageServer_ReadTimeout :: "string"
  dataStorageServer_WriteTimeout :: "string"
  dataStorageServer_MaxBodySize :: "string"
  dataStorageServer_MaxConcurrentRequests :: "int option"
  dataStorageServer_CORSAllowedOrigins :: "string list"
  dataStorageServer_RateLimit :: "DataStorageRateLimitSpec option"

record DataStorageDatabaseSpec =
  dataStorageDatabase_MaxOpenConns :: "int option"
  dataStorageDatabase_MaxIdleConns :: "int option"
  dataStorageDatabase_ConnMaxLifetime :: "string"
  dataStorageDatabase_ConnMaxIdleTime :: "string"

record DataStorageRedisSpec =
  dataStorageRedis_DLQMaxLen :: "int option"

record RetentionSpec =
  retention_Enabled :: "bool option"
  retention_Interval :: "string"
  retention_BatchSize :: "int option"
  retention_DefaultDays :: "int option"

record SigningCertSpec =
  signingCert_SecretName :: "string"
  signingCert_MountPath :: "string"

record DataStorageAuditHashKeySpec =
  dataStorageAuditHashKey_ExistingSecret :: "string"
  dataStorageAuditHashKey_SecretKey :: "string"

record DataStorageAuditSpec =
  dataStorageAudit_Retention :: "RetentionSpec option"
  dataStorageAudit_SigningCertificate :: "SigningCertSpec option"
  dataStorageAudit_HashKey :: "DataStorageAuditHashKeySpec option"

record DataStorageSpec =
  dataStorage_Server :: "DataStorageServerSpec option"
  dataStorage_Database :: "DataStorageDatabaseSpec option"
  dataStorage_Redis :: "DataStorageRedisSpec option"
  dataStorage_Audit :: "DataStorageAuditSpec option"
  dataStorage_EndpointPropagationDelay :: "string"
  dataStorage_Logging :: "LoggingSpec"
  dataStorage_Resources :: "resource_requirements"
  dataStorage_Telemetry :: "TelemetrySpec"

definition zero_DataStorageSpec :: DataStorageSpec where
  "zero_DataStorageSpec = \<lparr>dataStorage_Server = None,
     dataStorage_Database = None,
     dataStorage_Redis = None,
     dataStorage_Audit = None,
     dataStorage_EndpointPropagationDelay = '''',
     dataStorage_Logging = zero_LoggingSpec,
     dataStorage_Resources = zero_resource_requirements,
     dataStorage_Telemetry = zero_TelemetrySpec\<rparr>"

record MetricsScrapeSource =
  metricsScrapeSource_Namespace :: "string"
  metricsScrapeSource_PodLabels :: "string gomap"

record NetworkPolicyIngressOverride =
  networkPolicyIngressOverride_IngressCIDRs :: "string list"
  networkPolicyIngressOverride_IngressNamespaceSelectors :: "label_selector list"

definition zero_NetworkPolicyIngressOverride :: NetworkPolicyIngressOverride where
  "zero_NetworkPolicyIngressOverride = \<lparr>networkPolicyIngressOverride_IngressCIDRs = [],
     networkPolicyIngressOverride_IngressNamespaceSelectors = []\<rparr>"

record NetworkPolicyNamedIngressOverride =
  networkPolicyNamedIngressOverride_NetworkPolicyIngressOverride :: "NetworkPolicyIngressOverride"
  networkPolicyNamedIngressOverride_IngressNamespaces :: "string list"

definition zero_NetworkPolicyNamedIngressOverride :: NetworkPolicyNamedIngressOverride where
  "zero_NetworkPolicyNamedIngressOverride = \<lparr>networkPolicyNamedIngressOverride_NetworkPolicyIngressOverride = zero_NetworkPolicyIngressOverride,
     networkPolicyNamedIngressOverride_IngressNamespaces = []\<rparr>"

record NetworkPoliciesSpec =
  networkPolicies_ScrapeSources :: "MetricsScrapeSource list"
  networkPolicies_Gateway :: "NetworkPolicyNamedIngressOverride"
  networkPolicies_APIFrontend :: "NetworkPolicyNamedIngressOverride"
  networkPolicies_Console :: "NetworkPolicyNamedIngressOverride"
  networkPolicies_DataStorage :: "NetworkPolicyIngressOverride"
  networkPolicies_KubernautAgent :: "NetworkPolicyIngressOverride"

definition zero_NetworkPoliciesSpec :: NetworkPoliciesSpec where
  "zero_NetworkPoliciesSpec = \<lparr>networkPolicies_ScrapeSources = [],
     networkPolicies_Gateway = zero_NetworkPolicyNamedIngressOverride,
     networkPolicies_APIFrontend = zero_NetworkPolicyNamedIngressOverride,
     networkPolicies_Console = zero_NetworkPolicyNamedIngressOverride,
     networkPolicies_DataStorage = zero_NetworkPolicyIngressOverride,
     networkPolicies_KubernautAgent = zero_NetworkPolicyIngressOverride\<rparr>"

record InterServiceTLSConfig =
  interServiceTLSConfig_CertDir :: "string"
  interServiceTLSConfig_CAFile :: "string"

record ManualTLSConfig =
  manualTLSConfig_InternalCASecretName :: "string"
  manualTLSConfig_ServiceTLSSecretNames :: "string gomap"

record TLSIssuerRef =
  tlsIssuerRef_Name :: "string"
  tlsIssuerRef_Kind :: "string"
  tlsIssuerRef_Group :: "string"

record CertManagerTLSProvisioning =
  certManagerTLSProvisioning_Enabled :: "bool option"
  certManagerTLSProvisioning_BootstrapIssuerName :: "string"
  certManagerTLSProvisioning_InternalCACertificateName :: "string"
  certManagerTLSProvisioning_InternalCAIssuerName :: "string"
  certManagerTLSProvisioning_InternalCASecretName :: "string"
  certManagerTLSProvisioning_Duration :: "string"
  certManagerTLSProvisioning_RenewBefore :: "string"
  certManagerTLSProvisioning_InternalCADuration :: "string"
  certManagerTLSProvisioning_ExtraSANs :: "string list"
  certManagerTLSProvisioning_SigningCertificateName :: "string"
  certManagerTLSProvisioning_SigningCertificateSecretName :: "string"

definition zero_TLSIssuerRef :: TLSIssuerRef where
  "zero_TLSIssuerRef = \<lparr>tlsIssuerRef_Name = '''', tlsIssuerRef_Kind = '''', tlsIssuerRef_Group = ''''\<rparr>"

record CertManagerTLSConfig =
  certManagerTLSConfig_Issuer :: "TLSIssuerRef"
  certManagerTLSConfig_IssuerRef :: "TLSIssuerRef"
  certManagerTLSConfig_InternalCASecretName :: "string"
  certManagerTLSConfig_ServiceTLSSecretNames :: "string gomap"
  certManagerTLSConfig_Provisioning :: "CertManagerTLSProvisioning option"

record TLSConfigSpec =
  tlsConfig_Mode :: "string"
  tlsConfig_InterService :: "InterServiceTLSConfig option"
  tlsConfig_Manual :: "ManualTLSConfig option"
  tlsConfig_CertManager :: "CertManagerTLSConfig option"

definition zero_TLSConfigSpec :: TLSConfigSpec where
  "zero_TLSConfigSpec = \<lparr>tlsConfig_Mode = '''',
     tlsConfig_InterService = None,
     tlsConfig_Manual = None,
     tlsConfig_CertManager = None\<rparr>"

record ClaimMappingsSpec =
  claimMappings_Username :: "string"
  claimMappings_Groups :: "string"

record JWTProviderSpec =
  jwtProvider_Name :: "string"
  jwtProvider_IssuerURL :: "string"
  jwtProvider_JWKSURL :: "string"
  jwtProvider_Audiences :: "string list"
  jwtProvider_ClaimMappings :: "ClaimMappingsSpec option"

record APIFrontendAuthSpec =
  apiFrontendAuth_IssuerURL :: "string"
  apiFrontendAuth_Audience :: "string"
  apiFrontendAuth_JWKSURL :: "string"
  apiFrontendAuth_OIDCCAFile :: "string"
  apiFrontendAuth_AllowInsecureIssuers :: "bool"
  apiFrontendAuth_JWTProviders :: "JWTProviderSpec list"

definition zero_APIFrontendAuthSpec :: APIFrontendAuthSpec where
  "zero_APIFrontendAuthSpec = \<lparr>apiFrontendAuth_IssuerURL = '''',
     apiFrontendAuth_Audience = '''',
     apiFrontendAuth_JWKSURL = '''',
     apiFrontendAuth_OIDCCAFile = '''',
     apiFrontendAuth_AllowInsecureIssuers = False,
     apiFrontendAuth_JWTProviders = []\<rparr>"

record APIFrontendRateLimitSpec =
  apiFrontendRateLimit_IPRequestsPerSec :: "int option"
  apiFrontendRateLimit_UserRequestsPerSec :: "int option"
  apiFrontendRateLimit_MaxConcurrentSessions :: "int option"
  apiFrontendRateLimit_ToolCallsPerMinute :: "int option"

definition zero_APIFrontendRateLimitSpec :: APIFrontendRateLimitSpec where
  "zero_APIFrontendRateLimitSpec = \<lparr>apiFrontendRateLimit_IPRequestsPerSec = None,
     apiFrontendRateLimit_UserRequestsPerSec = None,
     apiFrontendRateLimit_MaxConcurrentSessions = None,
     apiFrontendRateLimit_ToolCallsPerMinute = None\<rparr>"

record APIFrontendSeverityTriageSpec =
  apiFrontendSeverityTriage_LLMProfileRef :: "string"
  apiFrontendSeverityTriage_LLMEnabled :: "bool option"
  apiFrontendSeverityTriage_CacheTTLSeconds :: "int option"
  apiFrontendSeverityTriage_LLMConfidence :: "string"

record ToolRoleBinding =
  toolRoleBinding_Role :: "string"
  toolRoleBinding_ClusterRoleName :: "string"
  toolRoleBinding_Groups :: "string list"

record APIFrontendRBACSpec =
  apiFrontendRBAC_SARCacheTTL :: "string"
  apiFrontendRBAC_RoleBindings :: "ToolRoleBinding list"
  apiFrontendRBAC_ConsoleAccessGroups :: "string list option"
  apiFrontendRBAC_ConsoleAccessAuthorizationCheckEnabled :: "bool option"

record APIFrontendSessionSpec =
  apiFrontendSession_DisconnectTTL :: "string"
  apiFrontendSession_RetentionTTL :: "string"

record APIFrontendMCPSpec =
  apiFrontendMCP_SessionIdleTimeout :: "string"
  apiFrontendMCP_ToolTimeout :: "string"
  apiFrontendMCP_ToolTimeouts :: "string gomap"

record APIFrontendSpec =
  apiFrontend_Enabled :: "bool option"
  apiFrontend_Auth :: "APIFrontendAuthSpec"
  apiFrontend_RateLimit :: "APIFrontendRateLimitSpec"
  apiFrontend_Shutdown :: "ShutdownSpec"
  apiFrontend_LLMProfileRef :: "string"
  apiFrontend_SeverityTriage :: "APIFrontendSeverityTriageSpec option"
  apiFrontend_AgentCardURL :: "string"
  apiFrontend_RBACRolesConfigMapRef :: "ConfigMapRef option"
  apiFrontend_RBAC :: "APIFrontendRBACSpec option"
  apiFrontend_Logging :: "LoggingSpec"
  apiFrontend_MetricsPort :: "int option"
  apiFrontend_HealthPort :: "int option"
  apiFrontend_Resources :: "resource_requirements"
  apiFrontend_Fleet :: "FleetOverrideSpec option"
  apiFrontend_Session :: "APIFrontendSessionSpec option"
  apiFrontend_MCP :: "APIFrontendMCPSpec option"

definition zero_APIFrontendSpec :: APIFrontendSpec where
  "zero_APIFrontendSpec = \<lparr>apiFrontend_Enabled = None,
     apiFrontend_Auth = zero_APIFrontendAuthSpec,
     apiFrontend_RateLimit = zero_APIFrontendRateLimitSpec,
     apiFrontend_Shutdown = zero_ShutdownSpec,
     apiFrontend_LLMProfileRef = '''',
     apiFrontend_SeverityTriage = None,
     apiFrontend_AgentCardURL = '''',
     apiFrontend_RBACRolesConfigMapRef = None,
     apiFrontend_RBAC = None,
     apiFrontend_Logging = zero_LoggingSpec,
     apiFrontend_MetricsPort = None,
     apiFrontend_HealthPort = None,
     apiFrontend_Resources = zero_resource_requirements,
     apiFrontend_Fleet = None,
     apiFrontend_Session = None,
     apiFrontend_MCP = None\<rparr>"

record ConsoleAuthSpec =
  consoleAuth_SecretName :: "string"
  consoleAuth_RedirectURL :: "string"
  consoleAuth_ProviderLogoutURL :: "string"

definition zero_ConsoleAuthSpec :: ConsoleAuthSpec where
  "zero_ConsoleAuthSpec = \<lparr>consoleAuth_SecretName = '''',
     consoleAuth_RedirectURL = '''',
     consoleAuth_ProviderLogoutURL = ''''\<rparr>"

record ConsoleSpec =
  console_Enabled :: "bool option"
  console_Auth :: "ConsoleAuthSpec"
  console_Resources :: "resource_requirements"
  console_EnableRawThinking :: "bool option"

definition zero_ConsoleSpec :: ConsoleSpec where
  "zero_ConsoleSpec = \<lparr>console_Enabled = None,
     console_Auth = zero_ConsoleAuthSpec,
     console_Resources = zero_resource_requirements,
     console_EnableRawThinking = None\<rparr>"

record FleetTrustSpec =
  fleetTrust_Source :: "string"
  fleetTrust_CAFile :: "string"
  fleetTrust_CACertSecretRef :: "CACertSecretRef option"

record FleetMCPGatewaySpec =
  fleetMCPGateway_Type :: "string"
  fleetMCPGateway_Endpoint :: "string"
  fleetMCPGateway_Namespace :: "string"
  fleetMCPGateway_TLS :: "FleetTrustSpec option"

definition zero_FleetMCPGatewaySpec :: FleetMCPGatewaySpec where
  "zero_FleetMCPGatewaySpec = \<lparr>fleetMCPGateway_Type = '''',
     fleetMCPGateway_Endpoint = '''',
     fleetMCPGateway_Namespace = '''',
     fleetMCPGateway_TLS = None\<rparr>"

record FleetACMScopeCheckSpec =
  fleetACMScopeCheck_Endpoint :: "string"
  fleetACMScopeCheck_TLS :: "FleetTrustSpec option"
  fleetACMScopeCheck_TokenSecretRef :: "SecretKeyRef option"

record FleetScopeCheckSpec =
  fleetScopeCheck_Backend :: "string"
  fleetScopeCheck_ACM :: "FleetACMScopeCheckSpec option"

definition zero_FleetScopeCheckSpec :: FleetScopeCheckSpec where
  "zero_FleetScopeCheckSpec = \<lparr>fleetScopeCheck_Backend = '''',
     fleetScopeCheck_ACM = None\<rparr>"

record FleetOAuth2Spec =
  fleetOAuth2_TokenURL :: "string"
  fleetOAuth2_Scopes :: "string list"
  fleetOAuth2_CredentialsSecretRef :: "string"
  fleetOAuth2_TLS :: "FleetTrustSpec option"

definition zero_FleetOAuth2Spec :: FleetOAuth2Spec where
  "zero_FleetOAuth2Spec = \<lparr>fleetOAuth2_TokenURL = '''',
     fleetOAuth2_Scopes = [],
     fleetOAuth2_CredentialsSecretRef = '''',
     fleetOAuth2_TLS = None\<rparr>"

record FleetMCPClientRetrySpec =
  fleetMCPClientRetry_InitialInterval :: "string"
  fleetMCPClientRetry_MaxInterval :: "string"
  fleetMCPClientRetry_MaxElapsedTime :: "string"

record FleetMCPClientTimeoutsSpec =
  fleetMCPClientTimeouts_TokenRefresh :: "string"
  fleetMCPClientTimeouts_Connect :: "string"
  fleetMCPClientTimeouts_DiscoverProbe :: "string"

record FleetMCPClientSpec =
  fleetMCPClient_Retry :: "FleetMCPClientRetrySpec option"
  fleetMCPClient_Timeouts :: "FleetMCPClientTimeoutsSpec option"

record FleetSpec =
  fleet_Enabled :: "bool option"
  fleet_MCPGateway :: "FleetMCPGatewaySpec"
  fleet_ScopeCheck :: "FleetScopeCheckSpec"
  fleet_OAuth2 :: "FleetOAuth2Spec"
  fleet_MCPClient :: "FleetMCPClientSpec option"

definition zero_FleetSpec :: FleetSpec where
  "zero_FleetSpec = \<lparr>fleet_Enabled = None,
     fleet_MCPGateway = zero_FleetMCPGatewaySpec,
     fleet_ScopeCheck = zero_FleetScopeCheckSpec,
     fleet_OAuth2 = zero_FleetOAuth2Spec,
     fleet_MCPClient = None\<rparr>"

record FleetMetadataCacheSpec =
  fleetMetadataCache_Fleet :: "FleetOverrideSpec option"
  fleetMetadataCache_SyncInterval :: "string"
  fleetMetadataCache_KeyTTL :: "string"
  fleetMetadataCache_Logging :: "LoggingSpec"
  fleetMetadataCache_Resources :: "resource_requirements"

definition zero_FleetMetadataCacheSpec :: FleetMetadataCacheSpec where
  "zero_FleetMetadataCacheSpec = \<lparr>fleetMetadataCache_Fleet = None,
     fleetMetadataCache_SyncInterval = '''',
     fleetMetadataCache_KeyTTL = '''',
     fleetMetadataCache_Logging = zero_LoggingSpec,
     fleetMetadataCache_Resources = zero_resource_requirements\<rparr>"

record DebugSpec =
  debug_PprofEnabled :: "bool"

definition zero_DebugSpec :: DebugSpec where
  "zero_DebugSpec = \<lparr>debug_PprofEnabled = False\<rparr>"

record KubernautSpec =
  spec_Image :: "ImageSpec"
  spec_PostgreSQL :: "PostgreSQLSpec"
  spec_Valkey :: "ValkeySpec"
  spec_Notification :: "NotificationSpec"
  spec_AIAnalysis :: "AIAnalysisSpec"
  spec_SignalProcessing :: "SignalProcessingSpec"
  spec_RemediationOrchestrator :: "RemediationOrchestratorSpec"
  spec_WorkflowExecution :: "WorkflowExecutionSpec"
  spec_EffectivenessMonitor :: "EffectivenessMonitorSpec"
  spec_Monitoring :: "MonitoringSpec"
  spec_LLMProfiles :: "LLMProfileSpec gomap"
  spec_KubernautAgent :: "KubernautAgentSpec"
  spec_Gateway :: "GatewaySpec"
  spec_AuthWebhook :: "AuthWebhookSpec"
  spec_DataStorage :: "DataStorageSpec"
  spec_NetworkPolicies :: "NetworkPoliciesSpec"
  spec_TLS :: "TLSConfigSpec"
  spec_APIFrontend :: "APIFrontendSpec"
  spec_Console :: "ConsoleSpec"
  spec_Fleet :: "FleetSpec"
  spec_FleetMetadataCache :: "FleetMetadataCacheSpec"
  spec_AdditionalClusterRoles :: "string list"
  spec_Debug :: "DebugSpec"

definition zero_KubernautSpec :: KubernautSpec where
  "zero_KubernautSpec = \<lparr>spec_Image = zero_ImageSpec,
     spec_PostgreSQL = zero_PostgreSQLSpec,
     spec_Valkey = zero_ValkeySpec,
     spec_Notification = zero_NotificationSpec,
     spec_AIAnalysis = zero_AIAnalysisSpec,
     spec_SignalProcessing = zero_SignalProcessingSpec,
     spec_RemediationOrchestrator = zero_RemediationOrchestratorSpec,
     spec_WorkflowExecution = zero_WorkflowExecutionSpec,
     spec_EffectivenessMonitor = zero_EffectivenessMonitorSpec,
     spec_Monitoring = zero_MonitoringSpec,
     spec_LLMProfiles = [],
     spec_KubernautAgent = zero_KubernautAgentSpec,
     spec_Gateway = zero_GatewaySpec,
     spec_AuthWebhook = zero_AuthWebhookSpec,
     spec_DataStorage = zero_DataStorageSpec,
     spec_NetworkPolicies = zero_NetworkPoliciesSpec,
     spec_TLS = zero_TLSConfigSpec,
     spec_APIFrontend = zero_APIFrontendSpec,
     spec_Console = zero_ConsoleSpec,
     spec_Fleet = zero_FleetSpec,
     spec_FleetMetadataCache = zero_FleetMetadataCacheSpec,
     spec_AdditionalClusterRoles = [],
     spec_Debug = zero_DebugSpec\<rparr>"

record ServiceStatus =
  serviceStatus_Name :: "string"
  serviceStatus_Ready :: "bool"
  serviceStatus_ReadyReplicas :: "int"
  serviceStatus_DesiredReplicas :: "int"

record KubernautStatus =
  status_Phase :: "string"
  status_Conditions :: "condition list"
  status_Services :: "ServiceStatus list"
  status_LastMigrationHash :: "string"
  status_LastMigrationTime :: "int option"
  status_BoundAdditionalClusterRoles :: "string list"
  status_BoundToolRoleBindings :: "string list"

definition zero_KubernautStatus :: KubernautStatus where
  "zero_KubernautStatus = \<lparr>status_Phase = '''',
     status_Conditions = [],
     status_Services = [],
     status_LastMigrationHash = '''',
     status_LastMigrationTime = None,
     status_BoundAdditionalClusterRoles = [],
     status_BoundToolRoleBindings = []\<rparr>"

record Kubernaut =
  kn_ObjectMeta :: object_meta
  kn_Spec :: KubernautSpec
  kn_Status :: KubernautStatus

definition zero_Kubernaut :: Kubernaut where
  "zero_Kubernaut = \<lparr>kn_ObjectMeta = zero_object_meta, kn_Spec = zero_KubernautSpec,
     kn_Status = zero_KubernautStatus\<rparr>"

record KubernautList =
  knList_Items :: "Kubernaut list"

abbreviation kn_Name :: "Kubernaut \<Rightarrow> string" where
  "kn_Name kn \<equiv> meta_Name (kn_ObjectMeta kn)"

abbreviation kn_Namespace :: "Kubernaut \<Rightarrow> string" where
  "kn_Namespace kn \<equiv> meta_Namespace (kn_ObjectMeta kn)"

abbreviation kn_UID :: "Kubernaut \<Rightarrow> string" where
  "kn_UID kn \<equiv> meta_UID (kn_ObjectMeta kn)"

abbreviation kn_Generation :: "Kubernaut \<Rightarrow> int" where
  "kn_Generation kn \<equiv> meta_Generation (kn_ObjectMeta kn)"

subsection \<open>Phases, condition types and fixed names\<close>

definition PhaseValidating :: string where "PhaseValidating = ''Validating''"
definition PhaseMigrating :: string where "PhaseMigrating = ''Migrating''"
definition PhaseDeploying :: string where "PhaseDeploying = ''Deploying''"
definition PhaseRunning :: string where "PhaseRunning = ''Running''"
definition PhaseDegraded :: string where "PhaseDegraded = ''Degraded''"
definition PhaseError :: string where "PhaseError = ''Error''"

lemmas phase_names = PhaseValidating_def PhaseMigrating_def PhaseDeploying_def PhaseRunning_def
  PhaseDegraded_def PhaseError_def

definition FinalizerName :: string where "FinalizerName = ''kubernaut.ai/cleanup''"
definition SingletonName :: string where "SingletonName = ''kubernaut''"

subsection \<open>Feature switches\<close>

definition ValkeyTLSEnabled :: "ValkeySpec \<Rightarrow> bool" where
  "ValkeyTLSEnabled v = (case valkey_TLS v of None \<Rightarrow> False | Some t \<Rightarrow> valkeyTLS_Enabled t)"

definition FleetEnabled :: "KubernautSpec \<Rightarrow> bool" where
  "FleetEnabled s = deref_or False (fleet_Enabled (spec_Fleet s))"

definition FleetMetadataCacheEnabled :: "KubernautSpec \<Rightarrow> bool" where
  "FleetMetadataCacheEnabled s \<longleftrightarrow> FleetEnabled s \<and>
     fleetScopeCheck_Backend (fleet_ScopeCheck (spec_Fleet s)) = ''fleetmetadatacache''"

definition InteractiveEnabled :: "InteractiveSpec \<Rightarrow> bool" where
  "InteractiveEnabled s = deref_or True (interactive_Enabled s)"

definition AuditEnabled :: "AuditSpec \<Rightarrow> bool" where
  "AuditEnabled s = deref_or True (audit_Enabled s)"

definition AuthenticationEnabled :: "GatewayAuthSpec option \<Rightarrow> bool" where
  "AuthenticationEnabled s = (case s of None \<Rightarrow> False | Some a \<Rightarrow> deref_or False (gatewayAuth_Enabled a))"

definition EnableRawThinkingValue :: "ConsoleSpec \<Rightarrow> bool" where
  "EnableRawThinkingValue s = deref_or False (console_EnableRawThinking s)"

definition EffectiveIssuerRef :: "CertManagerTLSConfig option \<Rightarrow> TLSIssuerRef" where
  "EffectiveIssuerRef c = (case c of
     None \<Rightarrow> zero_TLSIssuerRef
   | Some m \<Rightarrow>
       (if tlsIssuerRef_Name (certManagerTLSConfig_IssuerRef m) \<noteq> '''' \<or>
           tlsIssuerRef_Kind (certManagerTLSConfig_IssuerRef m) \<noteq> ''''
        then certManagerTLSConfig_IssuerRef m else certManagerTLSConfig_Issuer m))"

definition LLMTriageEnabled :: "APIFrontendSeverityTriageSpec option \<Rightarrow> bool" where
  "LLMTriageEnabled s = (case s of None \<Rightarrow> True
     | Some t \<Rightarrow> deref_or True (apiFrontendSeverityTriage_LLMEnabled t))"

definition APIFrontendEnabled :: "KubernautSpec \<Rightarrow> bool" where
  "APIFrontendEnabled s = deref_or False (apiFrontend_Enabled (spec_APIFrontend s))"

definition GatewayEnabled :: "KubernautSpec \<Rightarrow> bool" where
  "GatewayEnabled s = deref_or True (gateway_Enabled (spec_Gateway s))"

definition ConsoleEnabled :: "KubernautSpec \<Rightarrow> bool" where
  "ConsoleEnabled s = deref_or False (console_Enabled (spec_Console s))"

definition EffectiveIssuerURL :: "KubernautSpec \<Rightarrow> string" where
  "EffectiveIssuerURL s =
     (case apiFrontendAuth_JWTProviders (apiFrontend_Auth (spec_APIFrontend s)) of
        p # _ \<Rightarrow> jwtProvider_IssuerURL p
      | [] \<Rightarrow> apiFrontendAuth_IssuerURL (apiFrontend_Auth (spec_APIFrontend s)))"

definition PrometheusEnabled :: "PrometheusSpec \<Rightarrow> bool" where
  "PrometheusEnabled s = deref_or True (prometheus_Enabled s)"

definition AlertManagerEnabled :: "AlertManagerSpec \<Rightarrow> bool" where
  "AlertManagerEnabled s = deref_or True (alertManager_Enabled s)"

lemmas feature_switches = FleetEnabled_def FleetMetadataCacheEnabled_def APIFrontendEnabled_def
  GatewayEnabled_def ConsoleEnabled_def PrometheusEnabled_def AlertManagerEnabled_def

end
