(* ===== verification/Kube_World.thy ===== *)
theory Kube_World
  imports Api_Types
begin

text \<open>
  What the reconciler acts on: Kubernetes objects, Go errors, the code outside the repository that
  the reconciler calls, and the state of a run.

  Everything the repository imports (the API server behind controller-runtime's client, the helpers
  of apimachinery and controllerutil, JSON encoding with SHA-256, YAML) is a field of the
  record \<open>env\<close> that every model takes as its argument \<open>E\<close>. The cluster is a type variable
  \<open>'s\<close>, every call may change it, and no field is constrained: a theorem with no hypothesis
  on \<open>E\<close> holds whatever the server answers, with any interleaving of other writers, with
  every transient failure.

  The state of a run (\<open>world\<close>) is the cluster, the in-memory custom resource \<open>w_kn\<close> that the Go
  code passes around as the pointer \<open>kn\<close> (\<open>knV2\<close> is the same pointer in every call), the events
  recorded, and the trace of the calls made so far, latest first. The trace is ghost state: no
  model reads it.
\<close>

subsection \<open>Objects\<close>

type_synonym key = "string \<times> string" \<comment> \<open>namespace and name\<close>

record service_port =
  port_Name :: string
  port_Protocol :: string
  port_Port :: int
  port_TargetPort :: string
  port_NodePort :: int

record service_spec =
  service_Selector :: smap
  service_Ports :: "service_port list"
  service_Type :: string
  service_SessionAffinity :: string
  service_ExternalName :: string
  service_PublishNotReadyAddresses :: bool
  service_ExternalTrafficPolicy :: string
  service_HealthCheckNodePort :: int
  service_LoadBalancerClass :: "string option"
  service_AllocateLoadBalancerNodePorts :: "bool option"
  service_ClusterIP :: string
  service_ClusterIPs :: "string list"
  service_IPFamilies :: "string list"

record netpol_peer =
  peer_PodSelector :: "label_selector option"
  peer_NamespaceSelector :: "label_selector option"
  peer_IPBlock :: "string option"

record netpol_port =
  netpolPort_Port :: "int option"
  netpolPort_Protocol :: "string option"

record netpol_rule =
  rule_From :: "netpol_peer list"
  rule_Ports :: "netpol_port list"

record netpol_spec =
  netpol_PodSelector :: label_selector
  netpol_PolicyTypes :: "string list"
  netpol_Ingress :: "netpol_rule list"
  netpol_Egress :: "netpol_rule list"

record policy_rule =
  rbac_APIGroups :: "string list"
  rbac_Resources :: "string list"
  rbac_ResourceNames :: "string list"
  rbac_Verbs :: "string list"

record role_ref =
  roleRef_APIGroup :: string
  roleRef_Kind :: string
  roleRef_Name :: string

record subject =
  subject_Kind :: string
  subject_APIGroup :: string
  subject_Name :: string
  subject_Namespace :: string

record key_to_path =
  item_Key :: string
  item_Path :: string

datatype volume_projection =
    SecretProjection string "key_to_path list" \<comment> \<open>name, items\<close>
  | ConfigMapProjection string "key_to_path list"
  | ServiceAccountTokenProjection string int \<comment> \<open>path, seconds to expiration\<close>
  | DownwardAPIProjection "(string \<times> string) list" \<comment> \<open>path, field path\<close>

datatype volume_source =
    ConfigMapVolumeSource string "key_to_path list" "bool option" \<comment> \<open>name, items, optional\<close>
  | SecretVolumeSource string "key_to_path list" "bool option"
  | ProjectedVolumeSource "volume_projection list"
  | EmptyDirVolumeSource

record volume =
  volume_Name :: string
  volume_Source :: volume_source

record volume_mount =
  mount_Name :: string
  mount_MountPath :: string
  mount_SubPath :: string
  mount_ReadOnly :: bool

record pod_security_context =
  podSecurity_RunAsNonRoot :: "bool option"
  podSecurity_SeccompProfile :: string

record security_context =
  security_AllowPrivilegeEscalation :: "bool option"
  security_ReadOnlyRootFilesystem :: "bool option"
  security_Drop :: "string list"
  security_RunAsNonRoot :: "bool option"
  security_SeccompProfile :: string

datatype env_source = EnvValue string | EnvFieldRef string | EnvSecretKeyRef string string

record env_var =
  envVar_Name :: string
  envVar_Source :: env_source

record container_port =
  containerPort_Name :: string
  containerPort_Port :: int
  containerPort_Protocol :: string

text \<open>An HTTP probe.\<close>

record probe =
  probe_Path :: string
  probe_Port :: int
  probe_InitialDelaySeconds :: int
  probe_PeriodSeconds :: int
  probe_TimeoutSeconds :: int
  probe_FailureThreshold :: int

record container =
  container_Name :: string
  container_Image :: string
  container_ImagePullPolicy :: string
  container_Command :: "string list"
  container_Args :: "string list"
  container_Ports :: "container_port list"
  container_Env :: "env_var list"
  container_EnvFromSecrets :: "string list"
  container_VolumeMounts :: "volume_mount list"
  container_SecurityContext :: security_context
  container_Resources :: resource_requirements
  container_LivenessProbe :: "probe option"
  container_ReadinessProbe :: "probe option"
  container_StartupProbe :: "probe option"

record weighted_affinity =
  affinity_Weight :: int
  affinity_MatchLabels :: smap
  affinity_TopologyKey :: string

record pod_spec =
  pod_AutomountServiceAccountToken :: "bool option"
  pod_RestartPolicy :: string
  pod_SecurityContext :: pod_security_context
  pod_Containers :: "container list"
  pod_Volumes :: "volume list"
  pod_ImagePullSecrets :: "string list"
  pod_ServiceAccountName :: string
  pod_InitContainers :: "container list"
  pod_PreferredAntiAffinity :: "weighted_affinity list"
  pod_TerminationGracePeriodSeconds :: "int option"

text \<open>Go's zero values, which a composite literal gives to the fields it does not name.\<close>

definition zero_security_context :: security_context where
  "zero_security_context = \<lparr>security_AllowPrivilegeEscalation = None, security_ReadOnlyRootFilesystem = None, security_Drop = [],
     security_RunAsNonRoot = None, security_SeccompProfile = []\<rparr>"

definition zero_container :: container where
  "zero_container = \<lparr>container_Name = [], container_Image = [], container_ImagePullPolicy = [], container_Command = [],
     container_Args = [], container_Ports = [], container_Env = [], container_EnvFromSecrets = [], container_VolumeMounts = [],
     container_SecurityContext = zero_security_context, container_Resources = zero_resource_requirements,
     container_LivenessProbe = None, container_ReadinessProbe = None, container_StartupProbe = None\<rparr>"

definition zero_pod_spec :: pod_spec where
  "zero_pod_spec = \<lparr>pod_AutomountServiceAccountToken = None, pod_RestartPolicy = [],
     pod_SecurityContext = \<lparr>podSecurity_RunAsNonRoot = None, podSecurity_SeccompProfile = []\<rparr>, pod_Containers = [],
     pod_Volumes = [], pod_ImagePullSecrets = [], pod_ServiceAccountName = [], pod_InitContainers = [],
     pod_PreferredAntiAffinity = [], pod_TerminationGracePeriodSeconds = None\<rparr>"

record deployment_spec =
  deployment_Selector :: smap
  deployment_Strategy :: string
  deployment_Pod :: pod_spec

record hpa_metric =
  metric_Name :: string
  metric_AverageUtilization :: int

record hpa_spec =
  hpa_ScaleTargetRef :: "string \<times> string \<times> string" \<comment> \<open>API version, kind and name\<close>
  hpa_MinReplicas :: int
  hpa_MaxReplicas :: int
  hpa_Metrics :: "hpa_metric list"

record relabel_config =
  relabel_SourceLabels :: "string list"
  relabel_TargetLabel :: string
  relabel_Replacement :: string

record monitor_endpoint =
  endpoint_Port :: string
  endpoint_Path :: string
  endpoint_Interval :: string
  endpoint_Scheme :: string
  endpoint_RelabelConfigs :: "relabel_config list"

record service_monitor_spec =
  monitor_JobLabel :: string
  monitor_Selector :: smap
  monitor_Endpoints :: "monitor_endpoint list"
  monitor_MatchNames :: "string list"

record alert_rule =
  alert_Alert :: string
  alert_Expr :: string
  alert_For :: string
  alert_Labels :: "(string \<times> string) list"
  alert_Annotations :: "(string \<times> string) list"

record rule_group =
  ruleGroup_Name :: string
  ruleGroup_Rules :: "alert_rule list"

record alertmanager_webhook =
  amWebhook_URL :: string
  amWebhook_SendResolved :: bool
  amWebhook_CA :: "string \<times> string" \<comment> \<open>ConfigMap and key\<close>
  amWebhook_Authorization :: "(string \<times> string \<times> string) option" \<comment> \<open>type, Secret and key\<close>

record alertmanager_spec =
  amConfig_Receiver :: string
  amConfig_GroupBy :: "string list"
  amConfig_GroupWait :: string
  amConfig_GroupInterval :: string
  amConfig_Receivers :: "(string \<times> alertmanager_webhook list) list"

text \<open>\<^verbatim>\<open>spec.tlsSecurityProfile\<close> of OpenShift's APIServer: its type and, for a custom profile, the minimum TLS version.\<close>

record tls_security_profile =
  profile_Type :: string
  profile_Custom :: "string option"

record job_spec =
  job_BackoffLimit :: int
  job_PodLabels :: smap
  job_Pod :: pod_spec

record job_condition =
  jobCond_Type :: string
  jobCond_Status :: string
  jobCond_Reason :: string
  jobCond_Message :: string

record hook_rule =
  hookRule_Operations :: "string list"
  hookRule_APIGroups :: "string list"
  hookRule_APIVersions :: "string list"
  hookRule_Resources :: "string list"
  hookRule_Scope :: string

record webhook =
  hook_Name :: string
  hook_AdmissionReviewVersions :: "string list"
  hook_SideEffects :: string
  hook_FailurePolicy :: string
  hook_MatchPolicy :: string
  hook_TimeoutSeconds :: int
  hook_Service :: key \<comment> \<open>namespace and name\<close>
  hook_Path :: string
  hook_Port :: int
  hook_CABundle :: string
  hook_NamespaceSelector :: "label_selector option"
  hook_Rules :: "hook_rule list"

record issuer_ref =
  issuerRef_Name :: string
  issuerRef_Kind :: string
  issuerRef_Group :: string

datatype issuer_spec = SelfSigned | CASecret string

record certificate_spec =
  certSpec_IsCA :: bool
  certSpec_CommonName :: string
  certSpec_SecretName :: string
  certSpec_Duration :: string
  certSpec_RenewBefore :: string
  certSpec_KeyAlgorithm :: string
  certSpec_KeySize :: int
  certSpec_IssuerRef :: issuer_ref
  certSpec_Usages :: "string list"
  certSpec_DNSNames :: "string list"
  certSpec_IPAddresses :: "string list"

record cm_condition =
  cmCond_Type :: string
  cmCond_Status :: string
  cmCond_Reason :: string
  cmCond_Message :: string

text \<open>\<^verbatim>\<open>status.conditions\<close> of a live Certificate: not a list, absent, or a list of which some entries may not be
  objects.\<close>

datatype cm_conditions = ConditionsMalformed | ConditionsAbsent | Conditions "cm_condition option list"

datatype body =
    ConfigMapBody (body_Data: "string gomap") (body_BinaryData: "string gomap")
  | SecretBody (body_SecretData: "string gomap") (body_Immutable: "bool option") (body_SecretType: string)
  | ServiceBody (body_Service: service_spec)
  | JobBody (body_JobSpec: job_spec) (body_JobConditions: "job_condition list")
  | NetworkPolicyBody (body_NetPol: netpol_spec)
  | RoleBody (body_Rules: "policy_rule list")
  | BindingBody (body_RoleRef: role_ref) (body_Subjects: "subject list")
  | DeploymentBody (body_Replicas: "int option") (body_ReadyReplicas: int) (body_PodLabels: smap) (body_PodAnnotations: smap)
      (body_DeploymentSpec: deployment_spec) \<comment> \<open>the rest of the spec\<close>
  | ServiceAccountBody (body_AutomountToken: "bool option")
  | WebhooksBody (body_Webhooks: "webhook list")
  | IssuerBody (body_Issuer: issuer_spec)
  | CertificateBody (body_Certificate: certificate_spec) (body_CertificateConditions: cm_conditions)
  | PDBBody (body_MaxUnavailable: int) (body_PDBSelector: smap)
  | HPABody (body_HPA: hpa_spec)
  | ServiceMonitorBody (body_Monitor: service_monitor_spec)
  | PrometheusRuleBody (body_RuleGroups: "rule_group list")
  | AlertmanagerConfigBody (body_Alertmanager: alertmanager_spec)
  | APIServerBody (body_TLSProfile: "tls_security_profile option")
  | NoBody \<comment> \<open>a kind with metadata only\<close>
  | OpaqueBody string \<comment> \<open>kinds whose content no modelled operation looks into\<close>

record kobj =
  obj_Kind :: string
  obj_Meta :: object_meta
  obj_Body :: body

abbreviation obj_Name :: "kobj \<Rightarrow> string" where "obj_Name x \<equiv> meta_Name (obj_Meta x)"
abbreviation obj_Namespace :: "kobj \<Rightarrow> string" where "obj_Namespace x \<equiv> meta_Namespace (obj_Meta x)"
abbreviation obj_UID :: "kobj \<Rightarrow> string" where "obj_UID x \<equiv> meta_UID (obj_Meta x)"
abbreviation obj_RV :: "kobj \<Rightarrow> string" where "obj_RV x \<equiv> meta_ResourceVersion (obj_Meta x)"
abbreviation obj_Labels :: "kobj \<Rightarrow> smap" where "obj_Labels x \<equiv> meta_Labels (obj_Meta x)"
abbreviation obj_Annotations :: "kobj \<Rightarrow> smap" where "obj_Annotations x \<equiv> meta_Annotations (obj_Meta x)"
abbreviation obj_Owners :: "kobj \<Rightarrow> owner_reference list" where
  "obj_Owners x \<equiv> meta_OwnerReferences (obj_Meta x)"
abbreviation obj_terminating :: "kobj \<Rightarrow> bool" where
  "obj_terminating x \<equiv> meta_DeletionTimestamp (obj_Meta x) \<noteq> None"

definition obj_key :: "kobj \<Rightarrow> key" where
  "obj_key x = (obj_Namespace x, obj_Name x)"

definition set_labels :: "smap \<Rightarrow> kobj \<Rightarrow> kobj" where
  "set_labels l x = x\<lparr>obj_Meta := (obj_Meta x)\<lparr>meta_Labels := l\<rparr>\<rparr>"

definition set_annotations :: "smap \<Rightarrow> kobj \<Rightarrow> kobj" where
  "set_annotations a x = x\<lparr>obj_Meta := (obj_Meta x)\<lparr>meta_Annotations := a\<rparr>\<rparr>"

definition set_rv :: "string \<Rightarrow> kobj \<Rightarrow> kobj" where
  "set_rv v x = x\<lparr>obj_Meta := (obj_Meta x)\<lparr>meta_ResourceVersion := v\<rparr>\<rparr>"

definition set_owners :: "owner_reference list \<Rightarrow> kobj \<Rightarrow> kobj" where
  "set_owners rs x = x\<lparr>obj_Meta := (obj_Meta x)\<lparr>meta_OwnerReferences := rs\<rparr>\<rparr>"

lemmas object_setters = set_labels_def set_annotations_def set_rv_def set_owners_def

lemma setter_sels [simp]:
  "obj_Kind (set_labels l x) = obj_Kind x" "obj_Body (set_labels l x) = obj_Body x"
  "obj_Labels (set_labels l x) = l" "obj_Annotations (set_labels l x) = obj_Annotations x"
  "obj_Owners (set_labels l x) = obj_Owners x" "obj_RV (set_labels l x) = obj_RV x"
  "obj_key (set_labels l x) = obj_key x" "obj_UID (set_labels l x) = obj_UID x"
  "obj_Kind (set_annotations a x) = obj_Kind x" "obj_Body (set_annotations a x) = obj_Body x"
  "obj_Labels (set_annotations a x) = obj_Labels x" "obj_Annotations (set_annotations a x) = a"
  "obj_Owners (set_annotations a x) = obj_Owners x" "obj_RV (set_annotations a x) = obj_RV x"
  "obj_key (set_annotations a x) = obj_key x" "obj_UID (set_annotations a x) = obj_UID x"
  "obj_Kind (set_rv v x) = obj_Kind x" "obj_Body (set_rv v x) = obj_Body x"
  "obj_Labels (set_rv v x) = obj_Labels x" "obj_Annotations (set_rv v x) = obj_Annotations x"
  "obj_Owners (set_rv v x) = obj_Owners x" "obj_RV (set_rv v x) = v"
  "obj_key (set_rv v x) = obj_key x" "obj_UID (set_rv v x) = obj_UID x"
  "obj_Kind (set_owners r x) = obj_Kind x" "obj_Body (set_owners r x) = obj_Body x"
  "obj_Labels (set_owners r x) = obj_Labels x" "obj_Annotations (set_owners r x) = obj_Annotations x"
  "obj_Owners (set_owners r x) = r" "obj_RV (set_owners r x) = obj_RV x"
  "obj_key (set_owners r x) = obj_key x" "obj_UID (set_owners r x) = obj_UID x"
  by (simp_all add: object_setters obj_key_def)

lemma setter_terminating [simp]:
  "meta_DeletionTimestamp (obj_Meta (set_labels l x)) = meta_DeletionTimestamp (obj_Meta x)"
  "meta_DeletionTimestamp (obj_Meta (set_annotations a x)) = meta_DeletionTimestamp (obj_Meta x)"
  "meta_DeletionTimestamp (obj_Meta (set_rv v x)) = meta_DeletionTimestamp (obj_Meta x)"
  "meta_DeletionTimestamp (obj_Meta (set_owners r x)) = meta_DeletionTimestamp (obj_Meta x)"
  by (simp_all add: object_setters)

lemma setter_names [simp]:
  "obj_Namespace (set_labels l x) = obj_Namespace x" "obj_Name (set_labels l x) = obj_Name x"
  "obj_Namespace (set_annotations a x) = obj_Namespace x" "obj_Name (set_annotations a x) = obj_Name x"
  "obj_Namespace (set_rv v x) = obj_Namespace x" "obj_Name (set_rv v x) = obj_Name x"
  "obj_Namespace (set_owners r x) = obj_Namespace x" "obj_Name (set_owners r x) = obj_Name x"
  by (simp_all add: object_setters)

subsection \<open>Errors\<close>

datatype api_reason = NotFound | AlreadyExists | Conflict | NoMatch | OtherReason
datatype api_error = APIError (api_reason: api_reason) (api_message: string)

text \<open>\<open>ErrOwnershipConflict\<close> wraps the sentinel of \<^verbatim>\<open>internal/resources/ownership.go\<close>; \<open>Wrap\<close> is
  \<^verbatim>\<open>fmt.Errorf("...: %w", err)\<close> and \<open>Join\<close> is \<^verbatim>\<open>errors.Join\<close>.\<close>

datatype go_error =
    ErrOwnershipConflict string
  | API api_error
  | Msg string
  | Wrap string go_error
  | Join "go_error list"

fun is_ownership_conflict :: "go_error \<Rightarrow> bool" where
  "is_ownership_conflict (ErrOwnershipConflict m) = True"
| "is_ownership_conflict (API e) = False"
| "is_ownership_conflict (Msg m) = False"
| "is_ownership_conflict (Wrap m e) = is_ownership_conflict e"
| "is_ownership_conflict (Join es) = list_ex is_ownership_conflict es"

fun error_text :: "go_error \<Rightarrow> string" where
  "error_text (ErrOwnershipConflict m) = ''ownership conflict: '' @ m"
| "error_text (API e) = api_message e"
| "error_text (Msg m) = m"
| "error_text (Wrap m e) = m @ '': '' @ error_text e"
| "error_text (Join es) = join_strings [CHR 10] (map error_text es)"

definition IsNotFound :: "api_error \<Rightarrow> bool" where "IsNotFound e \<longleftrightarrow> api_reason e = NotFound"
definition IsAlreadyExists :: "api_error \<Rightarrow> bool" where "IsAlreadyExists e \<longleftrightarrow> api_reason e = AlreadyExists"
definition IsNoMatchError :: "api_error \<Rightarrow> bool" where "IsNoMatchError e \<longleftrightarrow> api_reason e = NoMatch"

subsection \<open>The code outside the repository\<close>

type_synonym 'v go = "go_error + 'v"

record 's env =
  e_get :: "'s \<Rightarrow> string \<Rightarrow> key \<Rightarrow> (api_error + kobj) \<times> 's"
  e_apiGet :: "'s \<Rightarrow> string \<Rightarrow> key \<Rightarrow> (api_error + kobj) \<times> 's"
  e_list :: "'s \<Rightarrow> string \<Rightarrow> string option \<Rightarrow> (string \<times> string) list \<Rightarrow> (api_error + kobj list) \<times> 's"
  e_create :: "'s \<Rightarrow> kobj \<Rightarrow> (api_error + kobj) \<times> 's"
  e_update :: "'s \<Rightarrow> kobj \<Rightarrow> (api_error + kobj) \<times> 's"
  e_delete :: "'s \<Rightarrow> kobj \<Rightarrow> api_error option \<times> 's"
  e_getKn :: "'s \<Rightarrow> key \<Rightarrow> (api_error + Kubernaut) \<times> 's"
  e_listKn :: "'s \<Rightarrow> (api_error + Kubernaut list) \<times> 's"
  e_updateKn :: "'s \<Rightarrow> Kubernaut \<Rightarrow> (api_error + Kubernaut) \<times> 's"
  e_patchStatusKn :: "'s \<Rightarrow> Kubernaut \<Rightarrow> Kubernaut \<Rightarrow> (api_error + Kubernaut) \<times> 's"
  e_setControllerReference :: "Kubernaut \<Rightarrow> kobj \<Rightarrow> kobj go"
  e_hasController :: "kobj \<Rightarrow> bool"
  e_parseGroup :: "string \<Rightarrow> string option"
  e_setStatusCondition :: "condition list \<Rightarrow> condition \<Rightarrow> condition list"
  e_containsFinalizer :: "string list \<Rightarrow> string \<Rightarrow> bool"
  e_addFinalizer :: "string list \<Rightarrow> string \<Rightarrow> string list"
  e_removeFinalizer :: "string list \<Rightarrow> string \<Rightarrow> string list"
  e_jsonDigest :: "kobj \<Rightarrow> string"
  e_isStatusConditionTrue :: "condition list \<Rightarrow> string \<Rightarrow> bool"
  e_removeStatusCondition :: "condition list \<Rightarrow> string \<Rightarrow> condition list"
  e_restMapping :: "(string \<Rightarrow> string \<Rightarrow> bool) option" \<comment> \<open>group and kind; absent without a mapper\<close>

subsection \<open>Calls, events and the state of a run\<close>

datatype call =
    Read string key kobj \<comment> \<open>the kind and key asked for, and the object returned\<close>
  | CreateCall kobj
  | UpdateCall kobj
  | DeleteCall kobj \<comment> \<open>the preconditions are the UID and the resource version of the object\<close>
  | UpdateKnCall Kubernaut
  | PatchStatusCall Kubernaut Kubernaut

datatype event_type = Normal | Warning

record event =
  event_Type :: event_type
  event_Reason :: string

record 's world =
  w_cluster :: 's
  w_kn :: Kubernaut
  w_trace :: "call list"
  w_events :: "event list"

type_synonym ('s, 'a) prog = "('s world, 'a) state"

definition reads_of :: "string \<Rightarrow> key \<Rightarrow> api_error + kobj \<Rightarrow> call list" where
  "reads_of kind k r = (case r of Inl e \<Rightarrow> [] | Inr x \<Rightarrow> [Read kind k x])"

definition Get :: "'s env \<Rightarrow> string \<Rightarrow> key \<Rightarrow> ('s, api_error + kobj) prog" where
  "Get E kind k = State (\<lambda>w. case e_get E (w_cluster w) kind k of
     (r, s) \<Rightarrow> (r, w\<lparr>w_cluster := s, w_trace := reads_of kind k r @ w_trace w\<rparr>))"

definition OwnershipGet :: "'s env \<Rightarrow> string \<Rightarrow> key \<Rightarrow> ('s, api_error + kobj) prog" where
  "OwnershipGet E kind k = State (\<lambda>w. case e_apiGet E (w_cluster w) kind k of
     (r, s) \<Rightarrow> (r, w\<lparr>w_cluster := s, w_trace := reads_of kind k r @ w_trace w\<rparr>))"

definition ListObjs ::
  "'s env \<Rightarrow> string \<Rightarrow> string option \<Rightarrow> (string \<times> string) list \<Rightarrow> ('s, api_error + kobj list) prog" where
  "ListObjs E kind ns sel = State (\<lambda>w. case e_list E (w_cluster w) kind ns sel of
     (r, s) \<Rightarrow> (r, w\<lparr>w_cluster := s,
       w_trace := (case r of Inl e \<Rightarrow> [] | Inr xs \<Rightarrow> map (\<lambda>x. Read kind (obj_key x) x) xs) @ w_trace w\<rparr>))"

definition Create :: "'s env \<Rightarrow> kobj \<Rightarrow> ('s, api_error + kobj) prog" where
  "Create E x = State (\<lambda>w. case e_create E (w_cluster w) x of
     (r, s) \<Rightarrow> (r, w\<lparr>w_cluster := s, w_trace := CreateCall x # w_trace w\<rparr>))"

definition Update :: "'s env \<Rightarrow> kobj \<Rightarrow> ('s, api_error + kobj) prog" where
  "Update E x = State (\<lambda>w. case e_update E (w_cluster w) x of
     (r, s) \<Rightarrow> (r, w\<lparr>w_cluster := s, w_trace := UpdateCall x # w_trace w\<rparr>))"

definition deleteObservedResource :: "'s env \<Rightarrow> kobj \<Rightarrow> ('s, api_error option) prog" where
  "deleteObservedResource E x = State (\<lambda>w. case e_delete E (w_cluster w) x of
     (r, s) \<Rightarrow> (r, w\<lparr>w_cluster := s, w_trace := DeleteCall x # w_trace w\<rparr>))"

definition GetKn :: "'s env \<Rightarrow> key \<Rightarrow> ('s, api_error + Kubernaut) prog" where
  "GetKn E k = State (\<lambda>w. case e_getKn E (w_cluster w) k of (r, s) \<Rightarrow> (r, w\<lparr>w_cluster := s\<rparr>))"

definition ListKn :: "'s env \<Rightarrow> ('s, api_error + Kubernaut list) prog" where
  "ListKn E = State (\<lambda>w. case e_listKn E (w_cluster w) of (r, s) \<Rightarrow> (r, w\<lparr>w_cluster := s\<rparr>))"

definition UpdateKn :: "'s env \<Rightarrow> Kubernaut \<Rightarrow> ('s, api_error + Kubernaut) prog" where
  "UpdateKn E kn = State (\<lambda>w. case e_updateKn E (w_cluster w) kn of
     (r, s) \<Rightarrow> (r, w\<lparr>w_cluster := s, w_trace := UpdateKnCall kn # w_trace w\<rparr>))"

definition StatusPatch :: "'s env \<Rightarrow> Kubernaut \<Rightarrow> Kubernaut \<Rightarrow> ('s, api_error + Kubernaut) prog" where
  "StatusPatch E old new = State (\<lambda>w. case e_patchStatusKn E (w_cluster w) old new of
     (r, s) \<Rightarrow> (r, w\<lparr>w_cluster := s, w_trace := PatchStatusCall old new # w_trace w\<rparr>))"

definition Eventf :: "event_type \<Rightarrow> string \<Rightarrow> ('s, unit) prog" where
  "Eventf t reason = State (\<lambda>w. ((), w\<lparr>w_events := \<lparr>event_Type = t, event_Reason = reason\<rparr> # w_events w\<rparr>))"

definition the_kn :: "('s, Kubernaut) prog" where
  "the_kn = State (\<lambda>w. (w_kn w, w))"

definition set_kn :: "Kubernaut \<Rightarrow> ('s, unit) prog" where
  "set_kn kn = State (\<lambda>w. ((), w\<lparr>w_kn := kn\<rparr>))"

lemmas call_definitions [call_defs] = Get_def OwnershipGet_def ListObjs_def Create_def Update_def
  deleteObservedResource_def GetKn_def ListKn_def UpdateKn_def StatusPatch_def Eventf_def the_kn_def
  set_kn_def

subsection \<open>Loops\<close>

text \<open>The two loops of the reconciler: stop at the first error, or go on and collect every error.\<close>

fun for_each :: "('a \<Rightarrow> ('s, go_error option) prog) \<Rightarrow> 'a list \<Rightarrow> ('s, go_error option) prog" where
  "for_each f [] = State_Monad.return None"
| "for_each f (x # xs) = do {
     r \<leftarrow> f x;
     (case r of Some e \<Rightarrow> State_Monad.return (Some e) | None \<Rightarrow> for_each f xs) }"

fun collect :: "('a \<Rightarrow> ('s, go_error list) prog) \<Rightarrow> 'a list \<Rightarrow> ('s, go_error list) prog" where
  "collect f [] = State_Monad.return []"
| "collect f (x # xs) = do {
     e \<leftarrow> f x;
     es \<leftarrow> collect f xs;
     State_Monad.return (e @ es) }"

text \<open>The two shapes of error handling around a call: \<^verbatim>\<open>if err := m; err != nil { return err }\<close> before the rest, and
  \<^verbatim>\<open>return fmt.Errorf("message: %w", err)\<close>.\<close>

definition and_then :: "('s, go_error option) prog \<Rightarrow> ('s, go_error option) prog \<Rightarrow> ('s, go_error option) prog" where
  "and_then m n = do {
     r \<leftarrow> m;
     (case r of Some e \<Rightarrow> State_Monad.return (Some e) | None \<Rightarrow> n) }"

definition wrapping :: "string \<Rightarrow> ('s, go_error option) prog \<Rightarrow> ('s, go_error option) prog" where
  "wrapping message m = do {
     r \<leftarrow> m;
     State_Monad.return (map_option (Wrap message) r) }"

lemma keeps_and_then [triple_rules]: "keeps I m \<Longrightarrow> keeps I n \<Longrightarrow> keeps I (and_then m n)"
  unfolding and_then_def by (intro triple_rules)

lemma keeps_wrapping [triple_rules]: "keeps I m \<Longrightarrow> keeps I (wrapping message m)"
  unfolding wrapping_def by (intro triple_rules)

lemma keeps_for_each [triple_rules]: "(\<And>x. x \<in> set xs \<Longrightarrow> keeps I (f x)) \<Longrightarrow> keeps I (for_each f xs)"
  by (induction xs) (auto intro!: triple_rules)

lemma keeps_collect [triple_rules]: "(\<And>x. x \<in> set xs \<Longrightarrow> keeps I (f x)) \<Longrightarrow> keeps I (collect f xs)"
  by (induction xs) (auto intro!: triple_rules)

subsection \<open>Which calls a program can make\<close>

text \<open>\<open>emits P m\<close>: a run of \<open>m\<close> only adds calls that satisfy \<open>P\<close> to the trace.\<close>

definition emits :: "(call \<Rightarrow> bool) \<Rightarrow> ('s, 'a) prog \<Rightarrow> bool" where
  "emits P m \<longleftrightarrow> (\<forall>w. \<exists>cs. w_trace (snd (run_state m w)) = cs @ w_trace w \<and> list_all P cs)"

named_theorems emits_rules \<open>rules for the calls a program can make\<close>

lemma emitsD: "emits P m \<Longrightarrow> run_state m w = (a, w') \<Longrightarrow> \<exists>cs. w_trace w' = cs @ w_trace w \<and> list_all P cs"
  unfolding emits_def by (metis snd_conv)

lemma emits_return [emits_rules]: "emits P (State_Monad.return a)"
  by (simp add: emits_def State_Monad.return_def)

lemma emits_bind [emits_rules]:
  assumes "emits P m" and "\<And>a. emits P (f a)"
  shows "emits P (State_Monad.bind m f)"
  unfolding emits_def
proof
  fix w
  let ?a = "fst (run_state m w)" and ?v = "snd (run_state m w)"
  obtain cs where cs: "w_trace ?v = cs @ w_trace w" "list_all P cs" using assms(1) by (auto simp: emits_def)
  obtain ds where ds: "w_trace (snd (run_state (f ?a) ?v)) = ds @ w_trace ?v" "list_all P ds"
    using assms(2) [of ?a] by (auto simp: emits_def)
  have "run_state (State_Monad.bind m f) w = run_state (f ?a) ?v" by (rule run_bind)
  then show "\<exists>cs. w_trace (snd (run_state (State_Monad.bind m f) w)) = cs @ w_trace w \<and> list_all P cs"
    using cs ds by (intro exI [of _ "ds @ cs"]) (simp del: run_state_bind)
qed

lemma emits_if [emits_rules]: "(b \<Longrightarrow> emits P m) \<Longrightarrow> (\<not> b \<Longrightarrow> emits P n) \<Longrightarrow> emits P (if b then m else n)"
  by simp

lemma emits_case_sum [emits_rules]:
  "(\<And>e. x = Inl e \<Longrightarrow> emits P (f e)) \<Longrightarrow> (\<And>v. x = Inr v \<Longrightarrow> emits P (g v)) \<Longrightarrow>
   emits P (case x of Inl e \<Rightarrow> f e | Inr v \<Rightarrow> g v)"
  by (cases x) simp_all

lemma emits_case_option [emits_rules]:
  "(x = None \<Longrightarrow> emits P f) \<Longrightarrow> (\<And>v. x = Some v \<Longrightarrow> emits P (g v)) \<Longrightarrow>
   emits P (case x of None \<Rightarrow> f | Some v \<Rightarrow> g v)"
  by (cases x) simp_all

lemma emits_case_prod [emits_rules]:
  "(\<And>a b. x = (a, b) \<Longrightarrow> emits P (f a b)) \<Longrightarrow> emits P (case x of (a, b) \<Rightarrow> f a b)"
  by (cases x) simp

lemma emits_let [emits_rules]: "(\<And>y. y = x \<Longrightarrow> emits P (f y)) \<Longrightarrow> emits P (Let x f)"
  by simp

lemma emits_mono: "emits P m \<Longrightarrow> (\<And>c. P c \<Longrightarrow> Q c) \<Longrightarrow> emits Q m"
  unfolding emits_def by (metis list.pred_mono_strong)

lemma emits_for_each [emits_rules]: "(\<And>x. x \<in> set xs \<Longrightarrow> emits P (f x)) \<Longrightarrow> emits P (for_each f xs)"
  by (induction xs) (auto intro!: emits_rules)

lemma emits_collect [emits_rules]: "(\<And>x. x \<in> set xs \<Longrightarrow> emits P (f x)) \<Longrightarrow> emits P (collect f xs)"
  by (induction xs) (auto intro!: emits_rules)

lemma emits_and_then [emits_rules]: "emits P m \<Longrightarrow> emits P n \<Longrightarrow> emits P (and_then m n)"
  unfolding and_then_def by (intro emits_rules)

lemma emits_wrapping [emits_rules]: "emits P m \<Longrightarrow> emits P (wrapping message m)"
  unfolding wrapping_def by (intro emits_rules)

lemma emits_silent [emits_rules]:
  "emits P (Eventf t r)" "emits P the_kn" "emits P (set_kn kn)" "emits P (GetKn E k)" "emits P (ListKn E)"
  by (simp_all add: emits_def call_defs split: prod.splits)

lemma emits_calls [emits_rules]:
  "(\<And>x. P (Read kind k x)) \<Longrightarrow> emits P (Get E kind k)"
  "(\<And>x. P (Read kind k x)) \<Longrightarrow> emits P (OwnershipGet E kind k)"
  "(\<And>x. P (Read kind (obj_key x) x)) \<Longrightarrow> emits P (ListObjs E kind ns sel)"
  "P (CreateCall y) \<Longrightarrow> emits P (Create E y)"
  "P (UpdateCall y) \<Longrightarrow> emits P (Update E y)"
  "P (DeleteCall y) \<Longrightarrow> emits P (deleteObservedResource E y)"
  "P (UpdateKnCall kn) \<Longrightarrow> emits P (UpdateKn E kn)"
  "P (PatchStatusCall old new) \<Longrightarrow> emits P (StatusPatch E old new)"
  by (auto simp: emits_def call_defs reads_of_def list_all_iff split: prod.splits sum.splits)

end
