(* ===== verification/Status.thy ===== *)
theory Status
  imports Kube_World
begin

text \<open>
  The status of the custom resource: the phase that only moves forward, the conditions, and the
  merge patch that either lands or leaves the in-memory resource as it was
  (\<^verbatim>\<open>setPhase\<close>, \<^verbatim>\<open>patchStatus\<close>, \<^verbatim>\<open>setConditionAndRequeue\<close> of
  \<^verbatim>\<open>internal/controller/kubernaut_controller.go\<close>).
\<close>

subsection \<open>Results of a reconcile\<close>

text \<open>A \<^verbatim>\<open>ctrl.Result\<close> is its \<open>RequeueAfter\<close>, a duration in nanoseconds.\<close>

type_synonym result = int

definition second :: int where "second = 1000000000"
definition millisecond :: int where "millisecond = 1000000"
definition requeueMigrationPoll :: result where "requeueMigrationPoll = 10 * second"
definition requeueDegraded :: result where "requeueDegraded = 15 * second"
definition requeueError :: result where "requeueError = 30 * second"
definition requeueRunning :: result where "requeueRunning = 60 * second"

lemmas requeue_defs = second_def millisecond_def requeueMigrationPoll_def requeueDegraded_def
  requeueError_def requeueRunning_def

subsection \<open>The phase\<close>

definition phaseOrder :: "string \<Rightarrow> int" where
  "phaseOrder p =
     (if p = '''' then 0
      else if p = PhaseValidating then 1
      else if p = PhaseMigrating then 2
      else if p = PhaseDeploying then 3
      else if p = PhaseRunning then 4
      else if p = PhaseDegraded then 4
      else if p = PhaseError then - 1
      else 0)"

abbreviation kn_Phase :: "Kubernaut \<Rightarrow> string" where
  "kn_Phase kn \<equiv> status_Phase (kn_Status kn)"

definition put_phase :: "string \<Rightarrow> Kubernaut \<Rightarrow> Kubernaut" where
  "put_phase p kn = kn\<lparr>kn_Status := (kn_Status kn)\<lparr>status_Phase := p\<rparr>\<rparr>"

definition setPhase :: "string \<Rightarrow> Kubernaut \<Rightarrow> Kubernaut" where
  "setPhase phase kn =
     (if phase = PhaseError then put_phase phase kn
      else (let cur = phaseOrder (kn_Phase kn);
                next = phaseOrder phase
            in if next \<ge> cur then put_phase phase kn else kn))"

subsection \<open>Conditions\<close>

definition ConditionTrue :: string where "ConditionTrue = ''True''"
definition ConditionFalse :: string where "ConditionFalse = ''False''"

definition conditionStatus :: "bool \<Rightarrow> string" where
  "conditionStatus ready = (if ready then ConditionTrue else ConditionFalse)"

text \<open>\<^verbatim>\<open>meta.SetStatusCondition(&kn.Status.Conditions, metav1.Condition{...})\<close>, with the generation that
  every caller in the reconciler passes.\<close>

definition set_condition ::
  "'s env \<Rightarrow> string \<Rightarrow> string \<Rightarrow> string \<Rightarrow> string \<Rightarrow> Kubernaut \<Rightarrow> Kubernaut" where
  "set_condition E type status reason message kn =
     kn\<lparr>kn_Status := (kn_Status kn)\<lparr>status_Conditions :=
       e_setStatusCondition E (status_Conditions (kn_Status kn))
         \<lparr>cond_Type = type, cond_Status = status, cond_Reason = reason, cond_Message = message,
          cond_ObservedGeneration = kn_Generation kn, cond_LastTransitionTime = 0\<rparr>\<rparr>\<rparr>"

subsection \<open>Patching\<close>

definition patchStatus :: "'s env \<Rightarrow> (Kubernaut \<Rightarrow> Kubernaut) \<Rightarrow> ('s, go_error option) prog" where
  "patchStatus E mutate = do {
     patched \<leftarrow> the_kn;
     set_kn (mutate patched);
     r \<leftarrow> StatusPatch E patched (mutate patched);
     (case r of
        Inl e \<Rightarrow> do { set_kn patched; State_Monad.return (Some (API e)) }
      | Inr kn \<Rightarrow> do { set_kn kn; State_Monad.return None }) }"

definition setConditionAndRequeue ::
  "'s env \<Rightarrow> string \<Rightarrow> string \<Rightarrow> string \<Rightarrow> ('s, result \<times> go_error option) prog" where
  "setConditionAndRequeue E condType reason message = do {
     err \<leftarrow> patchStatus E (\<lambda>kn. setPhase PhaseError
              (set_condition E condType ConditionFalse reason message kn));
     (case err of
        Some e \<Rightarrow> State_Monad.return (0, Some e)
      | None \<Rightarrow> State_Monad.return (requeueError, None)) }"

subsection \<open>What the phase does\<close>

lemma phaseOrder_simps [simp]:
  "phaseOrder '''' = 0" "phaseOrder PhaseValidating = 1" "phaseOrder PhaseMigrating = 2"
  "phaseOrder PhaseDeploying = 3" "phaseOrder PhaseRunning = 4" "phaseOrder PhaseDegraded = 4"
  "phaseOrder PhaseError = - 1"
  by (simp_all add: phaseOrder_def phase_names)

lemma phaseOrder_le_4: "phaseOrder p \<le> 4"
  by (simp add: phaseOrder_def)

lemma phaseOrder_minus1: "phaseOrder p = - 1 \<longleftrightarrow> p = PhaseError"
  by (auto simp: phaseOrder_def phase_names)

lemma phaseOrder_ge_minus1: "- 1 \<le> phaseOrder p"
  by (simp add: phaseOrder_def)

lemma phaseOrder_4: "phaseOrder p = 4 \<longleftrightarrow> p = PhaseRunning \<or> p = PhaseDegraded"
  by (auto simp: phaseOrder_def phase_names)

lemma put_phase_sels [simp]:
  "kn_Phase (put_phase p kn) = p" "kn_ObjectMeta (put_phase p kn) = kn_ObjectMeta kn"
  "kn_Spec (put_phase p kn) = kn_Spec kn"
  "status_Conditions (kn_Status (put_phase p kn)) = status_Conditions (kn_Status kn)"
  by (simp_all add: put_phase_def)

lemma setPhase_meta [simp]:
  "kn_ObjectMeta (setPhase p kn) = kn_ObjectMeta kn" "kn_Spec (setPhase p kn) = kn_Spec kn"
  "status_Conditions (kn_Status (setPhase p kn)) = status_Conditions (kn_Status kn)"
  by (simp_all add: setPhase_def Let_def)

lemma set_condition_meta [simp]:
  "kn_ObjectMeta (set_condition E t s r m kn) = kn_ObjectMeta kn"
  "kn_Spec (set_condition E t s r m kn) = kn_Spec kn"
  "kn_Phase (set_condition E t s r m kn) = kn_Phase kn"
  by (simp_all add: set_condition_def)

lemma setPhase_phase:
  "kn_Phase (setPhase p kn) =
     (if p = PhaseError \<or> phaseOrder (kn_Phase kn) \<le> phaseOrder p then p else kn_Phase kn)"
  by (simp add: setPhase_def Let_def)

lemma setPhase_Error [simp]: "kn_Phase (setPhase PhaseError kn) = PhaseError"
  by (simp add: setPhase_phase)

lemma setPhase_order:
  "phaseOrder (kn_Phase (setPhase p kn)) =
     (if p = PhaseError then - 1 else max (phaseOrder (kn_Phase kn)) (phaseOrder p))"
  by (simp add: setPhase_phase)

text \<open>A sequence of phase changes, the earliest first.\<close>

definition run_phases :: "string list \<Rightarrow> Kubernaut \<Rightarrow> Kubernaut" where
  "run_phases ps kn = fold setPhase ps kn"

lemma run_phases_simps [simp]:
  "run_phases [] kn = kn" "run_phases (p # ps) kn = run_phases ps (setPhase p kn)"
  by (simp_all add: run_phases_def)

lemma run_phases_mono:
  "PhaseError \<notin> set ps \<Longrightarrow> phaseOrder (kn_Phase kn) \<le> phaseOrder (kn_Phase (run_phases ps kn))"
proof (induction ps arbitrary: kn)
  case Nil
  then show ?case by simp
next
  case (Cons p ps)
  have "phaseOrder (kn_Phase kn) \<le> phaseOrder (kn_Phase (setPhase p kn))"
    using Cons.prems by (auto simp: setPhase_order)
  also have "\<dots> \<le> phaseOrder (kn_Phase (run_phases ps (setPhase p kn)))"
    using Cons by simp
  finally show ?case by simp
qed

text \<open>C21: The phase never regresses: over any sequence of phase changes with no error among them,
  the position of the phase in the lifecycle only grows, and once the platform was running it
  ends running or degraded.\<close>

theorem phase_never_regresses:
  assumes "PhaseError \<notin> set ps"
  shows "phaseOrder (kn_Phase kn) \<le> phaseOrder (kn_Phase (run_phases ps kn))
    \<and> (kn_Phase kn \<in> {PhaseRunning, PhaseDegraded}
        \<longrightarrow> kn_Phase (run_phases ps kn) \<in> {PhaseRunning, PhaseDegraded})"
proof -
  have mono: "phaseOrder (kn_Phase kn) \<le> phaseOrder (kn_Phase (run_phases ps kn))"
    using assms by (rule run_phases_mono)
  have "phaseOrder (kn_Phase (run_phases ps kn)) = 4" if "phaseOrder (kn_Phase kn) = 4"
    using mono that phaseOrder_le_4 by (metis order_antisym)
  then show ?thesis using mono by (auto simp: phaseOrder_4)
qed

theorem phase_never_regresses_witness:
  "PhaseError \<notin> set [PhaseValidating, PhaseDegraded]
   \<and> kn_Phase (run_phases [PhaseValidating, PhaseDegraded] (put_phase PhaseRunning zero_Kubernaut))
       \<in> {PhaseRunning, PhaseDegraded}"
  using phase_never_regresses [of "[PhaseValidating, PhaseDegraded]" "put_phase PhaseRunning zero_Kubernaut"]
  by (simp add: phase_names)

subsection \<open>What a status patch does\<close>

lemma run_patchStatus:
  "run_state (patchStatus E f) w =
     (case e_patchStatusKn E (w_cluster w) (w_kn w) (f (w_kn w)) of
        (Inl e, s) \<Rightarrow> (Some (API e), w\<lparr>w_cluster := s,
           w_trace := PatchStatusCall (w_kn w) (f (w_kn w)) # w_trace w\<rparr>)
      | (Inr kn, s) \<Rightarrow> (None, w\<lparr>w_cluster := s, w_kn := kn,
           w_trace := PatchStatusCall (w_kn w) (f (w_kn w)) # w_trace w\<rparr>))"
  by (simp add: patchStatus_def call_defs split: prod.splits sum.splits)

text \<open>A status patch is all or nothing in memory: when the server refuses it, the resource the
  reconciler goes on with is the one it had, and when it accepts it, it is the one the server
  returned. Exactly one patch is sent, from the resource as it was to the mutated one.\<close>

lemma patchStatus_all_or_nothing:
  "(case run_state (patchStatus E mutate) w of
      (Some e, w') \<Rightarrow> w_kn w' = w_kn w
    | (None, w') \<Rightarrow> e_patchStatusKn E (w_cluster w) (w_kn w) (mutate (w_kn w)) = (Inr (w_kn w'), w_cluster w'))
   \<and> w_trace (snd (run_state (patchStatus E mutate) w))
       = PatchStatusCall (w_kn w) (mutate (w_kn w)) # w_trace w"
  by (simp add: run_patchStatus split: prod.splits sum.splits option.splits)

lemma run_setConditionAndRequeue:
  "run_state (setConditionAndRequeue E t r m) w =
     (case run_state (patchStatus E (\<lambda>kn. setPhase PhaseError (set_condition E t ConditionFalse r m kn))) w of
        (Some e, w') \<Rightarrow> ((0, Some e), w') | (None, w') \<Rightarrow> ((requeueError, None), w'))"
  by (simp add: setConditionAndRequeue_def split: prod.splits option.splits)

text \<open>Every way out of a failed check asks to be run again: it returns an error or a positive delay.\<close>

lemma setConditionAndRequeue_retries:
  "run_state (setConditionAndRequeue E t r m) w = ((res, err), w') \<Longrightarrow> err \<noteq> None \<or> res > 0"
  by (auto simp: run_setConditionAndRequeue requeue_defs split: prod.splits option.splits)

end
