(* ===== verification/Sample_Cluster.thy ===== *)
theory Sample_Cluster
  imports Kube_World
begin

text \<open>
  A small API server, so that the models can be run: objects with optimistic concurrency (a write
  must carry the resource version it read), creation that fails when the object is there, deletion
  with the UID and resource-version preconditions, and the helpers of apimachinery and
  controllerutil as documented. The examples that accompany the theorems run on it; no
  theorem about the operator assumes it.
\<close>

record cluster =
  cl_objects :: "kobj list"
  cl_clock :: nat
  cl_kubernauts :: "Kubernaut list"

fun unary :: "nat \<Rightarrow> string" where
  "unary 0 = ''v''"
| "unary (Suc n) = CHR ''i'' # unary n"

definition is_at :: "string \<Rightarrow> key \<Rightarrow> kobj \<Rightarrow> bool" where
  "is_at kind k x \<longleftrightarrow> obj_Kind x = kind \<and> obj_key x = k"

definition same_place :: "kobj \<Rightarrow> kobj \<Rightarrow> bool" where
  "same_place x y \<longleftrightarrow> is_at (obj_Kind x) (obj_key x) y"

definition api_fail :: "api_reason \<Rightarrow> api_error + 'a" where
  "api_fail r = Inl (APIError r ''failed'')"

definition sample_get :: "cluster \<Rightarrow> string \<Rightarrow> key \<Rightarrow> (api_error + kobj) \<times> cluster" where
  "sample_get s kind k = (case find (is_at kind k) (cl_objects s) of
     None \<Rightarrow> (api_fail NotFound, s) | Some x \<Rightarrow> (Inr x, s))"

definition sample_list ::
  "cluster \<Rightarrow> string \<Rightarrow> string option \<Rightarrow> (string \<times> string) list \<Rightarrow> (api_error + kobj list) \<times> cluster" where
  "sample_list s kind ns sel = (Inr (filter (\<lambda>x. obj_Kind x = kind
     \<and> (case ns of None \<Rightarrow> True | Some n \<Rightarrow> obj_Namespace x = n)
     \<and> list_all (\<lambda>(k, v). obj_Labels x k = Some v) sel) (cl_objects s)), s)"

definition stamp_meta :: "nat \<Rightarrow> kobj \<Rightarrow> kobj" where
  "stamp_meta n x = x\<lparr>obj_Meta := (obj_Meta x)\<lparr>meta_ResourceVersion := unary n,
     meta_UID := (if obj_UID x = '''' then unary n else obj_UID x)\<rparr>\<rparr>"

definition sample_create :: "cluster \<Rightarrow> kobj \<Rightarrow> (api_error + kobj) \<times> cluster" where
  "sample_create s x = (case find (same_place x) (cl_objects s) of
     Some y \<Rightarrow> (api_fail AlreadyExists, s)
   | None \<Rightarrow> (let y = stamp_meta (cl_clock s) x
       in (Inr y, s\<lparr>cl_objects := y # cl_objects s, cl_clock := Suc (cl_clock s)\<rparr>)))"

definition sample_update :: "cluster \<Rightarrow> kobj \<Rightarrow> (api_error + kobj) \<times> cluster" where
  "sample_update s x = (case find (same_place x) (cl_objects s) of
     None \<Rightarrow> (api_fail NotFound, s)
   | Some live \<Rightarrow>
      (if obj_RV x \<noteq> '''' \<and> obj_RV x \<noteq> obj_RV live then (api_fail Conflict, s)
       else let y = stamp_meta (cl_clock s) (x\<lparr>obj_Meta := (obj_Meta x)\<lparr>meta_UID := obj_UID live\<rparr>\<rparr>)
            in (Inr y, s\<lparr>cl_objects := y # filter (\<lambda>z. \<not> same_place x z) (cl_objects s),
                  cl_clock := Suc (cl_clock s)\<rparr>)))"

definition sample_delete :: "cluster \<Rightarrow> kobj \<Rightarrow> api_error option \<times> cluster" where
  "sample_delete s x = (case find (same_place x) (cl_objects s) of
     None \<Rightarrow> (Some (APIError NotFound ''failed''), s)
   | Some live \<Rightarrow>
      (if obj_RV x \<noteq> obj_RV live \<or> obj_UID x \<noteq> obj_UID live then (Some (APIError Conflict ''failed''), s)
       else (None, s\<lparr>cl_objects := filter (\<lambda>z. \<not> same_place x z) (cl_objects s)\<rparr>)))"

definition same_kn :: "Kubernaut \<Rightarrow> Kubernaut \<Rightarrow> bool" where
  "same_kn a b \<longleftrightarrow> kn_Namespace a = kn_Namespace b \<and> kn_Name a = kn_Name b"

definition sample_getKn :: "cluster \<Rightarrow> key \<Rightarrow> (api_error + Kubernaut) \<times> cluster" where
  "sample_getKn s k = (case find (\<lambda>kn. (kn_Namespace kn, kn_Name kn) = k) (cl_kubernauts s) of
     None \<Rightarrow> (api_fail NotFound, s) | Some kn \<Rightarrow> (Inr kn, s))"

definition put_kn :: "Kubernaut \<Rightarrow> cluster \<Rightarrow> cluster" where
  "put_kn kn s = s\<lparr>cl_kubernauts := map (\<lambda>k. if same_kn k kn then kn else k) (cl_kubernauts s)\<rparr>"

definition sample_patchStatusKn :: "cluster \<Rightarrow> Kubernaut \<Rightarrow> Kubernaut \<Rightarrow> (api_error + Kubernaut) \<times> cluster" where
  "sample_patchStatusKn s old new =
     (let kn = old\<lparr>kn_Status := kn_Status new\<rparr> in (Inr kn, put_kn kn s))"

definition sample_updateKn :: "cluster \<Rightarrow> Kubernaut \<Rightarrow> (api_error + Kubernaut) \<times> cluster" where
  "sample_updateKn s kn = (Inr kn, put_kn kn s)"

definition sample_controller_ref :: "Kubernaut \<Rightarrow> owner_reference" where
  "sample_controller_ref kn = \<lparr>owner_APIVersion = ''kubernaut.ai/v1alpha2'', owner_Kind = ''Kubernaut'',
     owner_Name = kn_Name kn, owner_UID = kn_UID kn, owner_Controller = Some True,
     owner_BlockOwnerDeletion = Some True\<rparr>"

definition sample_setControllerReference :: "Kubernaut \<Rightarrow> kobj \<Rightarrow> kobj go" where
  "sample_setControllerReference kn x =
     (if obj_Namespace x \<noteq> kn_Namespace kn then Inl (Msg ''cross-namespace owner references are disallowed'')
      else if list_ex (\<lambda>r. owner_Controller r = Some True \<and> owner_UID r \<noteq> kn_UID kn) (obj_Owners x)
      then Inl (Msg ''already owned by another controller'')
      else Inr (set_owners (sample_controller_ref kn # filter (\<lambda>r. owner_UID r \<noteq> kn_UID kn) (obj_Owners x)) x))"

definition sample_setStatusCondition :: "condition list \<Rightarrow> condition \<Rightarrow> condition list" where
  "sample_setStatusCondition cs c =
     (if list_ex (\<lambda>d. cond_Type d = cond_Type c) cs
      then map (\<lambda>d. if cond_Type d = cond_Type c then c else d) cs else cs @ [c])"

definition sample_env :: "cluster env" where
  "sample_env = \<lparr>
     e_get = sample_get, e_apiGet = sample_get, e_list = sample_list, e_create = sample_create,
     e_update = sample_update, e_delete = sample_delete, e_getKn = sample_getKn,
     e_listKn = (\<lambda>s. (Inr (cl_kubernauts s), s)), e_updateKn = sample_updateKn,
     e_patchStatusKn = sample_patchStatusKn, e_setControllerReference = sample_setControllerReference,
     e_hasController = (\<lambda>x. list_ex (\<lambda>r. owner_Controller r = Some True) (obj_Owners x)),
     e_parseGroup = (\<lambda>v. if v = ''kubernaut.ai/v1alpha2'' then Some ''kubernaut.ai'' else None),
     e_setStatusCondition = sample_setStatusCondition,
     e_containsFinalizer = (\<lambda>fs f. f \<in> set fs),
     e_addFinalizer = (\<lambda>fs f. if f \<in> set fs then fs else fs @ [f]),
     e_removeFinalizer = (\<lambda>fs f. filter (\<lambda>g. g \<noteq> f) fs),
     e_jsonDigest = (\<lambda>x. obj_Name x @ ''-digest''),
     e_isStatusConditionTrue = (\<lambda>cs t. list_ex (\<lambda>c. cond_Type c = t \<and> cond_Status c = ''True'') cs),
     e_removeStatusCondition = (\<lambda>cs t. filter (\<lambda>c. cond_Type c \<noteq> t) cs),
     e_restMapping = None\<rparr>"

definition sample_kn :: Kubernaut where
  "sample_kn = zero_Kubernaut\<lparr>kn_ObjectMeta := zero_object_meta\<lparr>meta_Name := ''kubernaut'',
     meta_Namespace := ''kubernaut-system'', meta_UID := ''u1'', meta_ResourceVersion := ''7'', meta_Generation := 1\<rparr>\<rparr>"

definition sample_world :: "kobj list \<Rightarrow> cluster world" where
  "sample_world xs = \<lparr>w_cluster = \<lparr>cl_objects = xs, cl_clock = 0, cl_kubernauts = [sample_kn]\<rparr>,
     w_kn = sample_kn, w_trace = [], w_events = []\<rparr>"

definition sample_object :: "string \<Rightarrow> string \<Rightarrow> body \<Rightarrow> kobj" where
  "sample_object kind name b = \<lparr>obj_Kind = kind, obj_Meta = zero_object_meta\<lparr>meta_Name := name,
     meta_Namespace := ''kubernaut-system''\<rparr>, obj_Body = b\<rparr>"

lemmas sample_defs = sample_env_def sample_get_def sample_list_def sample_create_def sample_update_def
  sample_delete_def sample_getKn_def sample_patchStatusKn_def sample_updateKn_def
  sample_setControllerReference_def sample_controller_ref_def sample_setStatusCondition_def
  sample_kn_def sample_world_def sample_object_def is_at_def same_place_def api_fail_def stamp_meta_def
  same_kn_def put_kn_def zero_object_meta_def

lemma sample_env_sels [simp]:
  "e_get sample_env = sample_get" "e_apiGet sample_env = sample_get" "e_list sample_env = sample_list"
  "e_create sample_env = sample_create" "e_update sample_env = sample_update"
  "e_delete sample_env = sample_delete" "e_getKn sample_env = sample_getKn"
  "e_listKn sample_env = (\<lambda>s. (Inr (cl_kubernauts s), s))" "e_updateKn sample_env = sample_updateKn"
  "e_patchStatusKn sample_env = sample_patchStatusKn"
  "e_setControllerReference sample_env = sample_setControllerReference"
  "e_hasController sample_env x = list_ex (\<lambda>r. owner_Controller r = Some True) (obj_Owners x)"
  "e_parseGroup sample_env v = (if v = ''kubernaut.ai/v1alpha2'' then Some ''kubernaut.ai'' else None)"
  "e_setStatusCondition sample_env = sample_setStatusCondition"
  "e_containsFinalizer sample_env fs f = (f \<in> set fs)"
  "e_addFinalizer sample_env fs f = (if f \<in> set fs then fs else fs @ [f])"
  "e_removeFinalizer sample_env fs f = filter (\<lambda>g. g \<noteq> f) fs"
  "e_jsonDigest sample_env x = obj_Name x @ ''-digest''"
  "e_isStatusConditionTrue sample_env cs t = list_ex (\<lambda>c. cond_Type c = t \<and> cond_Status c = ''True'') cs"
  "e_removeStatusCondition sample_env cs t = filter (\<lambda>c. cond_Type c \<noteq> t) cs"
  "e_restMapping sample_env = None"
  by (simp_all add: sample_env_def)

lemma sample_kn_sels [simp]:
  "kn_Name sample_kn = ''kubernaut''" "kn_Namespace sample_kn = ''kubernaut-system''" "kn_UID sample_kn = ''u1''"
  "meta_DeletionTimestamp (kn_ObjectMeta sample_kn) = None"
  "meta_ResourceVersion (kn_ObjectMeta sample_kn) = ''7''"
  "kn_Spec sample_kn = kn_Spec zero_Kubernaut" "kn_Status sample_kn = kn_Status zero_Kubernaut"
  by (simp_all add: sample_kn_def zero_object_meta_def)

lemma sample_world_sels [simp]:
  "w_cluster (sample_world xs) = \<lparr>cl_objects = xs, cl_clock = 0, cl_kubernauts = [sample_kn]\<rparr>"
  "w_kn (sample_world xs) = sample_kn" "w_trace (sample_world xs) = []" "w_events (sample_world xs) = []"
  by (simp_all add: sample_world_def)

lemma sample_object_sels [simp]:
  "obj_Kind (sample_object kind name b) = kind" "obj_Body (sample_object kind name b) = b"
  "obj_Name (sample_object kind name b) = name" "obj_Namespace (sample_object kind name b) = ''kubernaut-system''"
  "obj_Owners (sample_object kind name b) = []" "meta_DeletionTimestamp (obj_Meta (sample_object kind name b)) = None"
  "obj_Labels (sample_object kind name b) = Map.empty" "obj_Annotations (sample_object kind name b) = Map.empty"
  "obj_RV (sample_object kind name b) = ''''" "obj_UID (sample_object kind name b) = ''''"
  by (simp_all add: sample_object_def zero_object_meta_def)

lemma stamp_meta_sels [simp]:
  "obj_Kind (stamp_meta n x) = obj_Kind x" "obj_Body (stamp_meta n x) = obj_Body x"
  "obj_Name (stamp_meta n x) = obj_Name x" "obj_Namespace (stamp_meta n x) = obj_Namespace x"
  "obj_Labels (stamp_meta n x) = obj_Labels x" "obj_Annotations (stamp_meta n x) = obj_Annotations x"
  "obj_Owners (stamp_meta n x) = obj_Owners x" "obj_key (stamp_meta n x) = obj_key x"
  "meta_DeletionTimestamp (obj_Meta (stamp_meta n x)) = meta_DeletionTimestamp (obj_Meta x)"
  "obj_RV (stamp_meta n x) = unary n" "obj_UID (stamp_meta n x) = (if obj_UID x = '''' then unary n else obj_UID x)"
  by (simp_all add: stamp_meta_def obj_key_def)

end
