(* ===== verification/Ownership.thy ===== *)
theory Ownership
  imports Status Sample_Cluster
begin

text \<open>
  Who owns an object (\<^verbatim>\<open>internal/resources/ownership.go\<close>, the label helpers of
  \<^verbatim>\<open>internal/resources/common.go\<close>, and the pure part of \<^verbatim>\<open>internal/controller/ownership.go\<close>).

  \<open>ResourceOwnershipError\<close> is the gate in front of every update and delete. \<open>owned\<close> says
  declaratively when it opens; \<open>StampOwnership\<close> writes the marker that opens it again.
\<close>

subsection \<open>Labels\<close>

definition LabelManagedBy :: string where "LabelManagedBy = ''app.kubernetes.io/managed-by''"
definition LabelPartOf :: string where "LabelPartOf = ''app.kubernetes.io/part-of''"
definition LabelInstance :: string where "LabelInstance = ''app.kubernetes.io/instance''"
definition LabelComponent :: string where "LabelComponent = ''app.kubernetes.io/component''"
definition operatorManagedBy :: string where "operatorManagedBy = ''kubernaut-operator''"

definition CommonLabels :: "Kubernaut \<Rightarrow> smap" where
  "CommonLabels kn = [LabelManagedBy \<mapsto> operatorManagedBy, LabelPartOf \<mapsto> ''kubernaut'',
     LabelInstance \<mapsto> kn_Name kn]"

definition ComponentLabels :: "Kubernaut \<Rightarrow> string \<Rightarrow> smap" where
  "ComponentLabels kn component = (CommonLabels kn)(LabelComponent \<mapsto> component, ''app'' \<mapsto> component)"

definition SelectorLabels :: "string \<Rightarrow> smap" where
  "SelectorLabels component = [''app'' \<mapsto> component]"

definition ObjectMeta :: "Kubernaut \<Rightarrow> string \<Rightarrow> string \<Rightarrow> object_meta" where
  "ObjectMeta kn name component = zero_object_meta\<lparr>meta_Name := name, meta_Namespace := kn_Namespace kn,
     meta_Labels := ComponentLabels kn component\<rparr>"

definition ownershipLabelKeys :: "string list" where
  "ownershipLabelKeys = [LabelManagedBy, LabelPartOf, LabelInstance]"

definition AnnotationOwnerNamespace :: string where
  "AnnotationOwnerNamespace = ''kubernaut.ai/owner-namespace''"
definition AnnotationOwnerUID :: string where "AnnotationOwnerUID = ''kubernaut.ai/owner-uid''"
definition crdGroup :: string where "crdGroup = ''kubernaut.ai''"

lemmas label_names = LabelManagedBy_def LabelPartOf_def LabelInstance_def LabelComponent_def
  operatorManagedBy_def
lemmas annotation_names = AnnotationOwnerNamespace_def AnnotationOwnerUID_def

lemma label_names_distinct [simp]:
  "LabelManagedBy \<noteq> LabelPartOf" "LabelManagedBy \<noteq> LabelInstance" "LabelPartOf \<noteq> LabelManagedBy"
  "LabelPartOf \<noteq> LabelInstance" "LabelInstance \<noteq> LabelManagedBy" "LabelInstance \<noteq> LabelPartOf"
  "AnnotationOwnerNamespace \<noteq> AnnotationOwnerUID" "AnnotationOwnerUID \<noteq> AnnotationOwnerNamespace"
  by (simp_all add: label_names annotation_names)

subsection \<open>The gate\<close>

definition resourceOwnerMatches :: "'s env \<Rightarrow> Kubernaut \<Rightarrow> kobj \<Rightarrow> bool \<Rightarrow> bool go" where
  "resourceOwnerMatches E kn obj controllerOwned =
     (case obj_Owners obj of
        [] \<Rightarrow> Inr False
      | refs \<Rightarrow>
         (if \<not> controllerOwned \<or> obj_Namespace obj \<noteq> kn_Namespace kn \<or> length refs \<noteq> 1
          then Inl (ErrOwnershipConflict ''foreign or invalid-scope owner references'')
          else
            (let ref = hd refs;
                 gv = e_parseGroup E (owner_APIVersion ref);
                 uid = mget (obj_Annotations obj) AnnotationOwnerUID
             in if gv \<noteq> Some crdGroup \<or> owner_Kind ref \<noteq> ''Kubernaut'' \<or> owner_Name ref \<noteq> kn_Name kn
                   \<or> owner_Controller ref \<noteq> Some True
                then Inl (ErrOwnershipConflict ''foreign owner reference'')
                else if uid \<noteq> '''' \<and> uid \<noteq> owner_UID ref
                then Inl (ErrOwnershipConflict ''owner uid marker contradicts reference'')
                else Inr (owner_UID ref = kn_UID kn))))"

fun ownershipLabelsComplete :: "smap \<Rightarrow> smap \<Rightarrow> string list \<Rightarrow> bool \<Rightarrow> bool go" where
  "ownershipLabelsComplete expected labels [] complete = Inr complete"
| "ownershipLabelsComplete expected labels (k # ks) complete =
     (case labels k of
        Some v \<Rightarrow>
          (if v \<noteq> mget expected k
           then Inl (ErrOwnershipConflict (k @ '' differs from the expected value''))
           else ownershipLabelsComplete expected labels ks complete)
      | None \<Rightarrow> ownershipLabelsComplete expected labels ks False)"

definition ownershipMarkerMatches :: "Kubernaut \<Rightarrow> kobj \<Rightarrow> bool go" where
  "ownershipMarkerMatches kn obj =
     (let annotations = obj_Annotations obj;
          namespace = mget annotations AnnotationOwnerNamespace
      in if namespace \<noteq> '''' \<and> namespace \<noteq> kn_Namespace kn
         then Inl (ErrOwnershipConflict ''owner namespace differs'')
         else if mget annotations AnnotationOwnerUID \<noteq> '''' \<and> namespace = ''''
         then Inl (ErrOwnershipConflict ''owner uid marker lacks an owner namespace'')
         else ownershipLabelsComplete (CommonLabels kn) (obj_Labels obj) ownershipLabelKeys True)"

definition ResourceOwnershipError :: "'s env \<Rightarrow> Kubernaut \<Rightarrow> kobj \<Rightarrow> bool \<Rightarrow> go_error option" where
  "ResourceOwnershipError E kn obj controllerOwned =
     (if obj_terminating obj then Some (ErrOwnershipConflict ''resource is terminating'')
      else case ownershipMarkerMatches kn obj of
        Inl e \<Rightarrow> Some e
      | Inr completeMarker \<Rightarrow>
         (case resourceOwnerMatches E kn obj controllerOwned of
            Inl e \<Rightarrow> Some e
          | Inr currentOwner \<Rightarrow>
             (if currentOwner \<or> completeMarker then None
              else Some (ErrOwnershipConflict
                ''no current controller owner or complete operator ownership marker''))))"

definition StampOwnership :: "Kubernaut \<Rightarrow> kobj \<Rightarrow> kobj" where
  "StampOwnership kn obj =
     set_annotations ((obj_Annotations obj)(AnnotationOwnerNamespace \<mapsto> kn_Namespace kn,
                                            AnnotationOwnerUID \<mapsto> kn_UID kn))
       (set_labels (obj_Labels obj ++ CommonLabels kn) obj)"

definition ownershipMetadataMatches :: "kobj \<Rightarrow> kobj \<Rightarrow> bool" where
  "ownershipMetadataMatches desired existing \<longleftrightarrow>
     list_all (\<lambda>k. mget (obj_Annotations existing) k = mget (obj_Annotations desired) k)
       [AnnotationOwnerNamespace, AnnotationOwnerUID] \<and>
     list_all (\<lambda>k. mget (obj_Labels existing) k = mget (obj_Labels desired) k) ownershipLabelKeys \<and>
     obj_Owners desired = obj_Owners existing"

subsection \<open>When the gate opens\<close>

text \<open>The identity of an instance: all the gate looks at in the custom resource.\<close>

definition ident :: "Kubernaut \<Rightarrow> string \<times> string \<times> string" where
  "ident kn = (kn_Namespace kn, kn_Name kn, kn_UID kn)"

definition marker_consistent :: "Kubernaut \<Rightarrow> kobj \<Rightarrow> bool" where
  "marker_consistent kn obj \<longleftrightarrow>
     mget (obj_Annotations obj) AnnotationOwnerNamespace \<in> {'''', kn_Namespace kn} \<and>
     (mget (obj_Annotations obj) AnnotationOwnerUID = '''' \<or>
      mget (obj_Annotations obj) AnnotationOwnerNamespace \<noteq> '''') \<and>
     (\<forall>k \<in> set ownershipLabelKeys. obj_Labels obj k \<in> {None, CommonLabels kn k})"

definition marker_complete :: "kobj \<Rightarrow> bool" where
  "marker_complete obj \<longleftrightarrow> (\<forall>k \<in> set ownershipLabelKeys. obj_Labels obj k \<noteq> None)"

definition controller_ref :: "'s env \<Rightarrow> Kubernaut \<Rightarrow> kobj \<Rightarrow> owner_reference \<Rightarrow> bool" where
  "controller_ref E kn obj ref \<longleftrightarrow>
     obj_Namespace obj = kn_Namespace kn \<and>
     e_parseGroup E (owner_APIVersion ref) = Some crdGroup \<and> owner_Kind ref = ''Kubernaut'' \<and>
     owner_Name ref = kn_Name kn \<and> owner_Controller ref = Some True \<and>
     mget (obj_Annotations obj) AnnotationOwnerUID \<in> {'''', owner_UID ref}"

definition owned :: "'s env \<Rightarrow> Kubernaut \<Rightarrow> kobj \<Rightarrow> bool \<Rightarrow> bool" where
  "owned E kn obj controllerOwned \<longleftrightarrow>
     \<not> obj_terminating obj \<and> marker_consistent kn obj \<and>
     ((obj_Owners obj = [] \<and> marker_complete obj) \<or>
      (controllerOwned \<and> (\<exists>ref. obj_Owners obj = [ref] \<and> controller_ref E kn obj ref \<and>
         (owner_UID ref = kn_UID kn \<or> marker_complete obj))))"

lemma ownershipLabelsComplete_Inr:
  "ownershipLabelsComplete expected labels ks c = Inr c' \<longleftrightarrow>
     (\<forall>k \<in> set ks. labels k \<in> {None, Some (mget expected k)}) \<and>
     c' = (c \<and> (\<forall>k \<in> set ks. labels k \<noteq> None))"
  by (induction ks arbitrary: c) (auto split: option.splits)

lemma ownershipLabelsComplete_cases:
  "(\<exists>m. ownershipLabelsComplete expected labels ks c = Inl (ErrOwnershipConflict m)) \<or>
   (\<exists>c'. ownershipLabelsComplete expected labels ks c = Inr c')"
  by (induction ks arbitrary: c) (auto split: option.splits)

lemma CommonLabels_keys [simp]:
  "CommonLabels kn LabelManagedBy = Some operatorManagedBy"
  "CommonLabels kn LabelPartOf = Some ''kubernaut''"
  "CommonLabels kn LabelInstance = Some (kn_Name kn)"
  by (simp_all add: CommonLabels_def)

lemma mget_CommonLabels:
  "k \<in> set ownershipLabelKeys \<Longrightarrow> Some (mget (CommonLabels kn) k) = CommonLabels kn k"
  by (auto simp: ownershipLabelKeys_def mget_def)

lemma ownershipMarkerMatches_Inr:
  "ownershipMarkerMatches kn obj = Inr c \<longleftrightarrow> marker_consistent kn obj \<and> c = marker_complete obj"
  by (auto simp: ownershipMarkerMatches_def Let_def ownershipLabelsComplete_Inr marker_consistent_def
      marker_complete_def mget_CommonLabels)

lemma resourceOwnerMatches_Inr:
  "resourceOwnerMatches E kn obj co = Inr c \<longleftrightarrow>
     (obj_Owners obj = [] \<and> \<not> c) \<or>
     (co \<and> (\<exists>ref. obj_Owners obj = [ref] \<and> controller_ref E kn obj ref \<and> c = (owner_UID ref = kn_UID kn)))"
  by (auto simp: resourceOwnerMatches_def controller_ref_def Let_def length_Suc_conv split: list.splits)

lemma gate_errors_are_conflicts:
  "ownershipMarkerMatches kn obj = Inl e \<Longrightarrow> \<exists>m. e = ErrOwnershipConflict m"
  "resourceOwnerMatches E kn obj co = Inl e \<Longrightarrow> \<exists>m. e = ErrOwnershipConflict m"
  using ownershipLabelsComplete_cases [of "CommonLabels kn" "obj_Labels obj" ownershipLabelKeys True]
  by (auto simp: ownershipMarkerMatches_def resourceOwnerMatches_def Let_def split: if_splits list.splits)

lemma gate_iff:
  "ResourceOwnershipError E kn obj controllerOwned = None \<longleftrightarrow> owned E kn obj controllerOwned"
proof -
  consider (bad) e where "ownershipMarkerMatches kn obj = Inl e"
    | (foreign) c e where "ownershipMarkerMatches kn obj = Inr c"
        and "resourceOwnerMatches E kn obj controllerOwned = Inl e"
    | (ok) c d where "ownershipMarkerMatches kn obj = Inr c"
        and "resourceOwnerMatches E kn obj controllerOwned = Inr d"
    by (metis sum.exhaust)
  then show ?thesis
  proof cases
    case bad
    then have "\<not> marker_consistent kn obj" by (metis ownershipMarkerMatches_Inr Inl_Inr_False)
    with bad show ?thesis by (simp add: ResourceOwnershipError_def owned_def)
  next
    case foreign
    then have "obj_Owners obj \<noteq> []"
      and "\<not> (controllerOwned \<and> (\<exists>ref. obj_Owners obj = [ref] \<and> controller_ref E kn obj ref))"
      by (metis resourceOwnerMatches_Inr Inl_Inr_False)+
    with foreign show ?thesis by (auto simp: ResourceOwnershipError_def owned_def)
  next
    case ok
    then have "marker_consistent kn obj" and c: "c = marker_complete obj"
      and d: "obj_Owners obj = [] \<and> \<not> d \<or>
        controllerOwned \<and> (\<exists>ref. obj_Owners obj = [ref] \<and> controller_ref E kn obj ref \<and>
          d = (owner_UID ref = kn_UID kn))"
      by (simp_all add: ownershipMarkerMatches_Inr resourceOwnerMatches_Inr)
    moreover have "ResourceOwnershipError E kn obj controllerOwned = None \<longleftrightarrow>
        \<not> obj_terminating obj \<and> (d \<or> c)"
      using ok by (simp add: ResourceOwnershipError_def)
    ultimately show ?thesis by (auto simp: owned_def)
  qed
qed

text \<open>C4: The ownership gate implements its specification: it lets an object through exactly when
  the object is not being deleted, carries no marker of another instance, and either has no owner
  references and the complete label marker, or, where a controller reference is allowed, has this
  instance's kind of controller reference as its only one, with the current UID or the complete
  marker.\<close>

theorem ResourceOwnershipError_correct:
  "ResourceOwnershipError E kn obj controllerOwned = None \<longleftrightarrow> owned E kn obj controllerOwned"
  by (fact gate_iff)

lemma ResourceOwnershipError_conflict:
  "ResourceOwnershipError E kn obj co = Some e \<Longrightarrow> is_ownership_conflict e"
  by (auto simp: ResourceOwnershipError_def split: if_splits sum.splits dest: gate_errors_are_conflicts)

lemma owned_ident: "ident kn = ident kn' \<Longrightarrow> owned E kn obj co = owned E kn' obj co"
  by (simp add: owned_def ident_def marker_consistent_def controller_ref_def CommonLabels_def)

subsection \<open>Stamping\<close>

lemma StampOwnership_sels [simp]:
  "obj_Kind (StampOwnership kn x) = obj_Kind x" "obj_Body (StampOwnership kn x) = obj_Body x"
  "obj_key (StampOwnership kn x) = obj_key x" "obj_Owners (StampOwnership kn x) = obj_Owners x"
  "obj_RV (StampOwnership kn x) = obj_RV x" "obj_UID (StampOwnership kn x) = obj_UID x"
  "obj_Namespace (StampOwnership kn x) = obj_Namespace x" "obj_Name (StampOwnership kn x) = obj_Name x"
  "meta_DeletionTimestamp (obj_Meta (StampOwnership kn x)) = meta_DeletionTimestamp (obj_Meta x)"
  "obj_Labels (StampOwnership kn x) = obj_Labels x ++ CommonLabels kn"
  "obj_Annotations (StampOwnership kn x) =
     (obj_Annotations x)(AnnotationOwnerNamespace \<mapsto> kn_Namespace kn, AnnotationOwnerUID \<mapsto> kn_UID kn)"
  by (simp_all add: StampOwnership_def)

lemma stamped_marker:
  "kn_Namespace kn \<noteq> '''' \<Longrightarrow> marker_consistent kn (StampOwnership kn x)"
  "marker_complete (StampOwnership kn x)"
  by (auto simp: marker_consistent_def marker_complete_def ownershipLabelKeys_def)

text \<open>The reference that \<^verbatim>\<open>controllerutil.SetControllerReference\<close> writes: the documented effect on an
  object of the owner's namespace that has no controller yet.\<close>

definition controller_reference_to :: "'s env \<Rightarrow> Kubernaut \<Rightarrow> owner_reference \<Rightarrow> bool" where
  "controller_reference_to E kn ref \<longleftrightarrow>
     e_parseGroup E (owner_APIVersion ref) = Some crdGroup \<and> owner_Kind ref = ''Kubernaut'' \<and>
     owner_Name ref = kn_Name kn \<and> owner_UID ref = kn_UID kn \<and> owner_Controller ref = Some True"

lemma stamped_owned:
  assumes "kn_Namespace kn \<noteq> ''''" and "\<not> obj_terminating x"
    and "obj_Owners x = [] \<or> (controllerOwned \<and> obj_Namespace x = kn_Namespace kn \<and>
           (\<exists>ref. obj_Owners x = [ref] \<and> controller_reference_to E kn ref))"
  shows "owned E kn (StampOwnership kn x) controllerOwned"
  using assms stamped_marker [of kn x]
  by (auto simp: owned_def controller_ref_def controller_reference_to_def)

text \<open>What the operator stamps, it may touch again: an object that is not being deleted, has no
  owner references or only the instance's own controller reference, passes the gate of the
  instance that stamped it.\<close>

lemma stamped_is_owned:
  assumes "kn_Namespace kn \<noteq> ''''" and "\<not> obj_terminating x"
    and "obj_Owners x = [] \<or> (controllerOwned \<and> obj_Namespace x = kn_Namespace kn \<and>
           (\<exists>ref. obj_Owners x = [ref] \<and> controller_reference_to E kn ref))"
  shows "ResourceOwnershipError E kn (StampOwnership kn x) controllerOwned = None"
  using assms by (simp add: gate_iff stamped_owned)

lemma stamped_is_owned_example:
  "ResourceOwnershipError sample_env sample_kn
     (StampOwnership sample_kn (set_owners [sample_controller_ref sample_kn]
        (sample_object ''Deployment'' ''gateway'' (OpaqueBody ''spec'')))) True = None"
  by (rule stamped_is_owned) (simp_all add: controller_reference_to_def sample_controller_ref_def crdGroup_def)

text \<open>No other instance may touch it: once stamped by an instance, an object is refused to every
  instance of another namespace or another name, with or without controller references allowed.\<close>

lemma stamped_is_exclusive:
  assumes "kn_Namespace kn \<noteq> ''''"
    and "kn_Namespace other \<noteq> kn_Namespace kn \<or> kn_Name other \<noteq> kn_Name kn"
  shows "ResourceOwnershipError E other (StampOwnership kn x) controllerOwned \<noteq> None"
proof -
  have "\<not> marker_consistent other (StampOwnership kn x)"
    using assms by (auto simp: marker_consistent_def ownershipLabelKeys_def)
  then show ?thesis by (simp add: gate_iff owned_def)
qed

lemma stamped_is_exclusive_example:
  "ResourceOwnershipError sample_env zero_Kubernaut
     (StampOwnership sample_kn (sample_object ''Deployment'' ''gateway'' (OpaqueBody ''spec''))) True \<noteq> None"
  by (rule stamped_is_exclusive) (simp_all add: zero_Kubernaut_def zero_object_meta_def)

subsection \<open>The contract of an ownership gate\<close>

text \<open>
  The reconciler has two gates, this one and the one for network policies. What every caller
  relies on is the same: objects being deleted and objects with no marker are refused, every
  refusal is an ownership conflict, and the verdict does not depend on the content or on the
  resource version.
\<close>

locale ownership_gate =
  fixes refuse :: "kobj \<Rightarrow> go_error option"
  assumes refuses_terminating: "obj_terminating x \<Longrightarrow> refuse x \<noteq> None"
    and refuses_unmarked: "obj_Labels x = Map.empty \<Longrightarrow> obj_Owners x = [] \<Longrightarrow> refuse x \<noteq> None"
    and refusal_is_conflict: "refuse x = Some e \<Longrightarrow> is_ownership_conflict e"
    and verdict_ignores_content: "obj_Meta y = (obj_Meta x)\<lparr>meta_ResourceVersion := v\<rparr> \<Longrightarrow>
          (refuse y = None) = (refuse x = None)"
begin

lemma accepted_is_live: "refuse x = None \<Longrightarrow> meta_DeletionTimestamp (obj_Meta x) = None"
  using refuses_terminating by blast

lemma accepted_is_marked: "refuse x = None \<Longrightarrow> obj_Labels x \<noteq> Map.empty \<or> obj_Owners x \<noteq> []"
  using refuses_unmarked by blast

lemma accepted_set_rv: "(refuse (set_rv v x) = None) = (refuse x = None)"
  by (rule verdict_ignores_content [where v = v]) (simp add: set_rv_def)

end

lemma owned_set_rv_meta:
  assumes "obj_Meta y = (obj_Meta x)\<lparr>meta_ResourceVersion := v\<rparr>"
  shows "owned E kn y co = owned E kn x co"
  using assms by (simp add: owned_def marker_consistent_def marker_complete_def controller_ref_def)

interpretation resource_gate: ownership_gate "\<lambda>x. ResourceOwnershipError E kn x controllerOwned"
  for E :: "'s env" and kn controllerOwned
proof unfold_locales
  fix x show "obj_terminating x \<Longrightarrow> ResourceOwnershipError E kn x controllerOwned \<noteq> None"
    by (simp add: gate_iff owned_def)
next
  fix x :: kobj
  assume "obj_Labels x = Map.empty" and "obj_Owners x = []"
  then show "ResourceOwnershipError E kn x controllerOwned \<noteq> None"
    by (auto simp: gate_iff owned_def marker_complete_def ownershipLabelKeys_def)
next
  fix x e
  show "ResourceOwnershipError E kn x controllerOwned = Some e \<Longrightarrow> is_ownership_conflict e"
    by (rule ResourceOwnershipError_conflict)
next
  fix x y :: kobj and v
  assume "obj_Meta y = (obj_Meta x)\<lparr>meta_ResourceVersion := v\<rparr>"
  then show "(ResourceOwnershipError E kn y controllerOwned = None) =
      (ResourceOwnershipError E kn x controllerOwned = None)"
    by (simp add: gate_iff owned_set_rv_meta)
qed

end
