(* ===== verification/Components.thy ===== *)
theory Components
  imports Ownership
begin

text \<open>
  The components of the platform and the defaults of the custom resource
  (\<^verbatim>\<open>internal/resources/common.go\<close>): which components are active, which image, port, endpoint, policy
  and LLM profile each one gets, and the check on host names. The process environment that
  \<^verbatim>\<open>ResolveImage\<close> reads is the argument \<open>getenv\<close>.
\<close>

subsection \<open>Components\<close>

definition ComponentGateway :: string where "ComponentGateway = ''gateway''"
definition ComponentDataStorage :: string where "ComponentDataStorage = ''data-storage''"
definition ComponentAIAnalysis :: string where "ComponentAIAnalysis = ''aianalysis''"
definition ComponentSignalProcessing :: string where "ComponentSignalProcessing = ''signalprocessing''"
definition ComponentRemediationOrchestrator :: string where
  "ComponentRemediationOrchestrator = ''remediationorchestrator''"
definition ComponentWorkflowExecution :: string where "ComponentWorkflowExecution = ''workflowexecution''"
definition ComponentEffectivenessMonitor :: string where
  "ComponentEffectivenessMonitor = ''effectivenessmonitor''"
definition ComponentNotification :: string where "ComponentNotification = ''notification''"
definition ComponentKubernautAgent :: string where "ComponentKubernautAgent = ''kubernaut-agent''"
definition ComponentAuthWebhook :: string where "ComponentAuthWebhook = ''authwebhook''"
definition ComponentAPIFrontend :: string where "ComponentAPIFrontend = ''apifrontend''"
definition ComponentConsole :: string where "ComponentConsole = ''kubernaut-console''"
definition ComponentFleetMetadataCache :: string where "ComponentFleetMetadataCache = ''fleetmetadatacache''"

lemmas component_names = ComponentGateway_def ComponentDataStorage_def ComponentAIAnalysis_def
  ComponentSignalProcessing_def ComponentRemediationOrchestrator_def ComponentWorkflowExecution_def
  ComponentEffectivenessMonitor_def ComponentNotification_def ComponentKubernautAgent_def
  ComponentAuthWebhook_def ComponentAPIFrontend_def ComponentConsole_def ComponentFleetMetadataCache_def

lemma component_distinct [simp]:
  "ComponentGateway \<noteq> ComponentDataStorage" "ComponentGateway \<noteq> ComponentAIAnalysis"
  "ComponentGateway \<noteq> ComponentSignalProcessing"
  "ComponentGateway \<noteq> ComponentRemediationOrchestrator"
  "ComponentGateway \<noteq> ComponentWorkflowExecution"
  "ComponentGateway \<noteq> ComponentEffectivenessMonitor"
  "ComponentGateway \<noteq> ComponentNotification" "ComponentGateway \<noteq> ComponentKubernautAgent"
  "ComponentGateway \<noteq> ComponentAuthWebhook" "ComponentGateway \<noteq> ComponentAPIFrontend"
  "ComponentGateway \<noteq> ComponentConsole" "ComponentGateway \<noteq> ComponentFleetMetadataCache"
  "ComponentDataStorage \<noteq> ComponentGateway" "ComponentDataStorage \<noteq> ComponentAIAnalysis"
  "ComponentDataStorage \<noteq> ComponentSignalProcessing"
  "ComponentDataStorage \<noteq> ComponentRemediationOrchestrator"
  "ComponentDataStorage \<noteq> ComponentWorkflowExecution"
  "ComponentDataStorage \<noteq> ComponentEffectivenessMonitor"
  "ComponentDataStorage \<noteq> ComponentNotification"
  "ComponentDataStorage \<noteq> ComponentKubernautAgent"
  "ComponentDataStorage \<noteq> ComponentAuthWebhook" "ComponentDataStorage \<noteq> ComponentAPIFrontend"
  "ComponentDataStorage \<noteq> ComponentConsole"
  "ComponentDataStorage \<noteq> ComponentFleetMetadataCache"
  "ComponentAIAnalysis \<noteq> ComponentGateway" "ComponentAIAnalysis \<noteq> ComponentDataStorage"
  "ComponentAIAnalysis \<noteq> ComponentSignalProcessing"
  "ComponentAIAnalysis \<noteq> ComponentRemediationOrchestrator"
  "ComponentAIAnalysis \<noteq> ComponentWorkflowExecution"
  "ComponentAIAnalysis \<noteq> ComponentEffectivenessMonitor"
  "ComponentAIAnalysis \<noteq> ComponentNotification"
  "ComponentAIAnalysis \<noteq> ComponentKubernautAgent" "ComponentAIAnalysis \<noteq> ComponentAuthWebhook"
  "ComponentAIAnalysis \<noteq> ComponentAPIFrontend" "ComponentAIAnalysis \<noteq> ComponentConsole"
  "ComponentAIAnalysis \<noteq> ComponentFleetMetadataCache"
  "ComponentSignalProcessing \<noteq> ComponentGateway"
  "ComponentSignalProcessing \<noteq> ComponentDataStorage"
  "ComponentSignalProcessing \<noteq> ComponentAIAnalysis"
  "ComponentSignalProcessing \<noteq> ComponentRemediationOrchestrator"
  "ComponentSignalProcessing \<noteq> ComponentWorkflowExecution"
  "ComponentSignalProcessing \<noteq> ComponentEffectivenessMonitor"
  "ComponentSignalProcessing \<noteq> ComponentNotification"
  "ComponentSignalProcessing \<noteq> ComponentKubernautAgent"
  "ComponentSignalProcessing \<noteq> ComponentAuthWebhook"
  "ComponentSignalProcessing \<noteq> ComponentAPIFrontend"
  "ComponentSignalProcessing \<noteq> ComponentConsole"
  "ComponentSignalProcessing \<noteq> ComponentFleetMetadataCache"
  "ComponentRemediationOrchestrator \<noteq> ComponentGateway"
  "ComponentRemediationOrchestrator \<noteq> ComponentDataStorage"
  "ComponentRemediationOrchestrator \<noteq> ComponentAIAnalysis"
  "ComponentRemediationOrchestrator \<noteq> ComponentSignalProcessing"
  "ComponentRemediationOrchestrator \<noteq> ComponentWorkflowExecution"
  "ComponentRemediationOrchestrator \<noteq> ComponentEffectivenessMonitor"
  "ComponentRemediationOrchestrator \<noteq> ComponentNotification"
  "ComponentRemediationOrchestrator \<noteq> ComponentKubernautAgent"
  "ComponentRemediationOrchestrator \<noteq> ComponentAuthWebhook"
  "ComponentRemediationOrchestrator \<noteq> ComponentAPIFrontend"
  "ComponentRemediationOrchestrator \<noteq> ComponentConsole"
  "ComponentRemediationOrchestrator \<noteq> ComponentFleetMetadataCache"
  "ComponentWorkflowExecution \<noteq> ComponentGateway"
  "ComponentWorkflowExecution \<noteq> ComponentDataStorage"
  "ComponentWorkflowExecution \<noteq> ComponentAIAnalysis"
  "ComponentWorkflowExecution \<noteq> ComponentSignalProcessing"
  "ComponentWorkflowExecution \<noteq> ComponentRemediationOrchestrator"
  "ComponentWorkflowExecution \<noteq> ComponentEffectivenessMonitor"
  "ComponentWorkflowExecution \<noteq> ComponentNotification"
  "ComponentWorkflowExecution \<noteq> ComponentKubernautAgent"
  "ComponentWorkflowExecution \<noteq> ComponentAuthWebhook"
  "ComponentWorkflowExecution \<noteq> ComponentAPIFrontend"
  "ComponentWorkflowExecution \<noteq> ComponentConsole"
  "ComponentWorkflowExecution \<noteq> ComponentFleetMetadataCache"
  "ComponentEffectivenessMonitor \<noteq> ComponentGateway"
  "ComponentEffectivenessMonitor \<noteq> ComponentDataStorage"
  "ComponentEffectivenessMonitor \<noteq> ComponentAIAnalysis"
  "ComponentEffectivenessMonitor \<noteq> ComponentSignalProcessing"
  "ComponentEffectivenessMonitor \<noteq> ComponentRemediationOrchestrator"
  "ComponentEffectivenessMonitor \<noteq> ComponentWorkflowExecution"
  "ComponentEffectivenessMonitor \<noteq> ComponentNotification"
  "ComponentEffectivenessMonitor \<noteq> ComponentKubernautAgent"
  "ComponentEffectivenessMonitor \<noteq> ComponentAuthWebhook"
  "ComponentEffectivenessMonitor \<noteq> ComponentAPIFrontend"
  "ComponentEffectivenessMonitor \<noteq> ComponentConsole"
  "ComponentEffectivenessMonitor \<noteq> ComponentFleetMetadataCache"
  "ComponentNotification \<noteq> ComponentGateway" "ComponentNotification \<noteq> ComponentDataStorage"
  "ComponentNotification \<noteq> ComponentAIAnalysis"
  "ComponentNotification \<noteq> ComponentSignalProcessing"
  "ComponentNotification \<noteq> ComponentRemediationOrchestrator"
  "ComponentNotification \<noteq> ComponentWorkflowExecution"
  "ComponentNotification \<noteq> ComponentEffectivenessMonitor"
  "ComponentNotification \<noteq> ComponentKubernautAgent"
  "ComponentNotification \<noteq> ComponentAuthWebhook"
  "ComponentNotification \<noteq> ComponentAPIFrontend" "ComponentNotification \<noteq> ComponentConsole"
  "ComponentNotification \<noteq> ComponentFleetMetadataCache"
  "ComponentKubernautAgent \<noteq> ComponentGateway"
  "ComponentKubernautAgent \<noteq> ComponentDataStorage"
  "ComponentKubernautAgent \<noteq> ComponentAIAnalysis"
  "ComponentKubernautAgent \<noteq> ComponentSignalProcessing"
  "ComponentKubernautAgent \<noteq> ComponentRemediationOrchestrator"
  "ComponentKubernautAgent \<noteq> ComponentWorkflowExecution"
  "ComponentKubernautAgent \<noteq> ComponentEffectivenessMonitor"
  "ComponentKubernautAgent \<noteq> ComponentNotification"
  "ComponentKubernautAgent \<noteq> ComponentAuthWebhook"
  "ComponentKubernautAgent \<noteq> ComponentAPIFrontend"
  "ComponentKubernautAgent \<noteq> ComponentConsole"
  "ComponentKubernautAgent \<noteq> ComponentFleetMetadataCache"
  "ComponentAuthWebhook \<noteq> ComponentGateway" "ComponentAuthWebhook \<noteq> ComponentDataStorage"
  "ComponentAuthWebhook \<noteq> ComponentAIAnalysis"
  "ComponentAuthWebhook \<noteq> ComponentSignalProcessing"
  "ComponentAuthWebhook \<noteq> ComponentRemediationOrchestrator"
  "ComponentAuthWebhook \<noteq> ComponentWorkflowExecution"
  "ComponentAuthWebhook \<noteq> ComponentEffectivenessMonitor"
  "ComponentAuthWebhook \<noteq> ComponentNotification"
  "ComponentAuthWebhook \<noteq> ComponentKubernautAgent"
  "ComponentAuthWebhook \<noteq> ComponentAPIFrontend" "ComponentAuthWebhook \<noteq> ComponentConsole"
  "ComponentAuthWebhook \<noteq> ComponentFleetMetadataCache"
  "ComponentAPIFrontend \<noteq> ComponentGateway" "ComponentAPIFrontend \<noteq> ComponentDataStorage"
  "ComponentAPIFrontend \<noteq> ComponentAIAnalysis"
  "ComponentAPIFrontend \<noteq> ComponentSignalProcessing"
  "ComponentAPIFrontend \<noteq> ComponentRemediationOrchestrator"
  "ComponentAPIFrontend \<noteq> ComponentWorkflowExecution"
  "ComponentAPIFrontend \<noteq> ComponentEffectivenessMonitor"
  "ComponentAPIFrontend \<noteq> ComponentNotification"
  "ComponentAPIFrontend \<noteq> ComponentKubernautAgent"
  "ComponentAPIFrontend \<noteq> ComponentAuthWebhook" "ComponentAPIFrontend \<noteq> ComponentConsole"
  "ComponentAPIFrontend \<noteq> ComponentFleetMetadataCache" "ComponentConsole \<noteq> ComponentGateway"
  "ComponentConsole \<noteq> ComponentDataStorage" "ComponentConsole \<noteq> ComponentAIAnalysis"
  "ComponentConsole \<noteq> ComponentSignalProcessing"
  "ComponentConsole \<noteq> ComponentRemediationOrchestrator"
  "ComponentConsole \<noteq> ComponentWorkflowExecution"
  "ComponentConsole \<noteq> ComponentEffectivenessMonitor"
  "ComponentConsole \<noteq> ComponentNotification" "ComponentConsole \<noteq> ComponentKubernautAgent"
  "ComponentConsole \<noteq> ComponentAuthWebhook" "ComponentConsole \<noteq> ComponentAPIFrontend"
  "ComponentConsole \<noteq> ComponentFleetMetadataCache"
  "ComponentFleetMetadataCache \<noteq> ComponentGateway"
  "ComponentFleetMetadataCache \<noteq> ComponentDataStorage"
  "ComponentFleetMetadataCache \<noteq> ComponentAIAnalysis"
  "ComponentFleetMetadataCache \<noteq> ComponentSignalProcessing"
  "ComponentFleetMetadataCache \<noteq> ComponentRemediationOrchestrator"
  "ComponentFleetMetadataCache \<noteq> ComponentWorkflowExecution"
  "ComponentFleetMetadataCache \<noteq> ComponentEffectivenessMonitor"
  "ComponentFleetMetadataCache \<noteq> ComponentNotification"
  "ComponentFleetMetadataCache \<noteq> ComponentKubernautAgent"
  "ComponentFleetMetadataCache \<noteq> ComponentAuthWebhook"
  "ComponentFleetMetadataCache \<noteq> ComponentAPIFrontend"
  "ComponentFleetMetadataCache \<noteq> ComponentConsole"
  by (simp_all add: component_names)

definition AllComponents :: "string list" where
  "AllComponents = [ComponentGateway, ComponentDataStorage, ComponentAIAnalysis, ComponentSignalProcessing,
     ComponentRemediationOrchestrator, ComponentWorkflowExecution, ComponentEffectivenessMonitor,
     ComponentNotification, ComponentKubernautAgent, ComponentAuthWebhook, ComponentAPIFrontend,
     ComponentFleetMetadataCache]"

definition isComponentActive :: "Kubernaut \<Rightarrow> Kubernaut \<Rightarrow> string \<Rightarrow> bool" where
  "isComponentActive kn knV2 component =
     (if component = ComponentAPIFrontend then APIFrontendEnabled (kn_Spec kn)
      else if component = ComponentGateway then GatewayEnabled (kn_Spec kn)
      else if component = ComponentConsole then ConsoleEnabled (kn_Spec kn)
      else if component = ComponentFleetMetadataCache then FleetMetadataCacheEnabled (kn_Spec knV2)
      else True)"

definition ActiveComponents :: "Kubernaut \<Rightarrow> Kubernaut \<Rightarrow> string list" where
  "ActiveComponents kn knV2 = filter (isComponentActive kn knV2) AllComponents"

definition controllerSuffix :: "string list" where
  "controllerSuffix = [ComponentAIAnalysis, ComponentSignalProcessing, ComponentRemediationOrchestrator,
     ComponentWorkflowExecution, ComponentEffectivenessMonitor, ComponentNotification]"

definition DeploymentName :: "string \<Rightarrow> string" where
  "DeploymentName component =
     (if component \<in> set controllerSuffix then component @ ''-controller'' else component)"

subsection \<open>Images\<close>

definition componentEnvSuffix :: smap where
  "componentEnvSuffix = map_of
     [(''gateway'', ''GATEWAY''), (''datastorage'', ''DATA_STORAGE''), (''aianalysis'', ''AIANALYSIS''),
      (''signalprocessing'', ''SIGNALPROCESSING''), (''remediationorchestrator'', ''REMEDIATIONORCHESTRATOR''),
      (''workflowexecution'', ''WORKFLOWEXECUTION''), (''effectivenessmonitor'', ''EFFECTIVENESSMONITOR''),
      (''notification'', ''NOTIFICATION''), (''kubernautagent'', ''KUBERNAUT_AGENT''),
      (''authwebhook'', ''AUTHWEBHOOK''), (''apifrontend'', ''API_FRONTEND''), (''db-migrate'', ''DB_MIGRATE''),
      (''init-ubi-minimal'', ''INIT_UBI_MINIMAL''), (''console'', ''CONSOLE''), (''oauth2-proxy'', ''OAUTH2_PROXY''),
      (''fleetmetadatacache'', ''FLEETMETADATACACHE'')]"

text \<open>\<^verbatim>\<open>strings.ToUpper\<close> on ASCII letters.\<close>

definition to_upper :: "char \<Rightarrow> char" where
  "to_upper c = (let n = of_char c :: nat in if 97 \<le> n \<and> n \<le> 122 then char_of (n - 32) else c)"

definition default_suffix :: "string \<Rightarrow> string" where
  "default_suffix s = map (\<lambda>c. to_upper (if c = CHR ''-'' then CHR ''_'' else c)) s"

definition related_image :: "(string \<Rightarrow> string) \<Rightarrow> string \<Rightarrow> string go" where
  "related_image getenv imageName =
     (let suffix = (case componentEnvSuffix imageName of Some s \<Rightarrow> s | None \<Rightarrow> default_suffix imageName);
          img = getenv (''RELATED_IMAGE_'' @ suffix)
      in if img \<noteq> '''' then Inr img else Inl (Msg (''no image found for component '' @ imageName)))"

definition ResolveImage :: "(string \<Rightarrow> string) \<Rightarrow> Kubernaut \<Rightarrow> string \<Rightarrow> string go" where
  "ResolveImage getenv kn imageName =
     (case map_of (image_Overrides (spec_Image (kn_Spec kn))) imageName of
        Some img \<Rightarrow> (if img \<noteq> '''' then Inr img else related_image getenv imageName)
      | None \<Rightarrow> related_image getenv imageName)"

subsection \<open>Resources\<close>

definition DefaultResources :: resource_requirements where
  "DefaultResources = \<lparr>resources_Requests = [(''cpu'', ''100m''), (''memory'', ''128Mi'')],
     resources_Limits = [(''cpu'', ''500m''), (''memory'', ''256Mi'')]\<rparr>"

definition DefaultBootstrapResources :: resource_requirements where
  "DefaultBootstrapResources = \<lparr>resources_Requests = [(''cpu'', ''500m''), (''memory'', ''256Mi'')],
     resources_Limits = [(''cpu'', ''500m''), (''memory'', ''256Mi'')]\<rparr>"

definition MergeResources :: "resource_requirements \<Rightarrow> resource_requirements" where
  "MergeResources userSpec =
     (if resources_Requests userSpec \<noteq> [] \<or> resources_Limits userSpec \<noteq> [] then userSpec else DefaultResources)"

subsection \<open>Ports and addresses\<close>

definition PortHTTPS :: int where "PortHTTPS = 8443"
definition PortMetrics :: int where "PortMetrics = 9090"
definition PortAuthWebhookService :: int where "PortAuthWebhookService = 443"
definition PortHealthProbe :: int where "PortHealthProbe = 8081"
definition PortWebhookServer :: int where "PortWebhookServer = 9443"
definition DefaultPostgreSQLPort :: int where "DefaultPostgreSQLPort = 5432"
definition DefaultValkeyPort :: int where "DefaultValkeyPort = 6379"

lemmas port_numbers = PortHTTPS_def PortMetrics_def PortAuthWebhookService_def PortHealthProbe_def

fun digits :: "nat \<Rightarrow> string" where
  "digits n = (if n < 10 then [char_of (48 + n)] else digits (n div 10) @ [char_of (48 + n mod 10)])"

declare digits.simps [simp del]

definition show_int :: "int \<Rightarrow> string" where
  "show_int i = (if i < 0 then CHR ''-'' # digits (nat (- i)) else digits (nat i))"

definition PostgreSQLPort :: "Kubernaut \<Rightarrow> int" where
  "PostgreSQLPort kn = (let p = postgreSQL_Port (spec_PostgreSQL (kn_Spec kn)) in
     if p \<noteq> 0 then p else DefaultPostgreSQLPort)"

definition ValkeyAddr :: "ValkeySpec \<Rightarrow> string" where
  "ValkeyAddr spec = (let port = (if valkey_Port spec = 0 then DefaultValkeyPort else valkey_Port spec)
     in valkey_Host spec @ '':'' @ show_int port)"

definition DataStorageURL :: "string \<Rightarrow> string" where
  "DataStorageURL namespace = ''https://data-storage-service.'' @ namespace @ ''.svc.cluster.local:8443''"

definition DataStorageHealthURL :: "string \<Rightarrow> string" where
  "DataStorageHealthURL namespace = DataStorageURL namespace @ ''/readyz''"

definition GatewayURL :: "string \<Rightarrow> string" where
  "GatewayURL namespace = ''https://gateway-service.'' @ namespace @ ''.svc.cluster.local:8443''"

definition FleetMetadataCacheURL :: "string \<Rightarrow> string" where
  "FleetMetadataCacheURL namespace = ''https://fleetmetadatacache-service.'' @ namespace @ ''.svc.cluster.local:8080''"

definition resolveFleetEndpoint :: "Kubernaut \<Rightarrow> string" where
  "resolveFleetEndpoint knV2 =
     (let fleet = spec_Fleet (kn_Spec knV2) in
      if fleet_Enabled fleet \<noteq> Some True then ''''
      else if FleetMetadataCacheEnabled (kn_Spec knV2) then FleetMetadataCacheURL (kn_Namespace knV2)
      else case fleetScopeCheck_ACM (fleet_ScopeCheck fleet) of
        None \<Rightarrow> ''''
      | Some acm \<Rightarrow> fleetACMScopeCheck_Endpoint acm)"

definition withDefault :: "string \<Rightarrow> string \<Rightarrow> string" where
  "withDefault v d = (if v = '''' then d else v)"

definition effectiveFleetOAuth2SecretRef :: "FleetOverrideSpec option \<Rightarrow> string \<Rightarrow> string" where
  "effectiveFleetOAuth2SecretRef override fleetDefault =
     (case override of None \<Rightarrow> fleetDefault
      | Some ov \<Rightarrow> withDefault (fleetOverride_OAuth2CredentialsSecretRef ov) fleetDefault)"

definition OCPPrometheusURL :: string where
  "OCPPrometheusURL = ''https://thanos-querier.openshift-monitoring.svc:9091''"
definition OCPAlertManagerURL :: string where
  "OCPAlertManagerURL = ''https://alertmanager-main.openshift-monitoring.svc:9094''"

definition effectivePrometheusURL :: "Kubernaut \<Rightarrow> string" where
  "effectivePrometheusURL knV2 = (let p = monitoring_Prometheus (spec_Monitoring (kn_Spec knV2)) in
     if \<not> PrometheusEnabled p then '''' else if prometheus_URL p \<noteq> '''' then prometheus_URL p else OCPPrometheusURL)"

definition effectiveAlertManagerURL :: "Kubernaut \<Rightarrow> string" where
  "effectiveAlertManagerURL knV2 = (let a = monitoring_AlertManager (spec_Monitoring (kn_Spec knV2)) in
     if \<not> AlertManagerEnabled a then '''' else if alertManager_URL a \<noteq> '''' then alertManager_URL a else OCPAlertManagerURL)"

subsection \<open>Names\<close>

definition DefaultWorkflowNamespace :: string where "DefaultWorkflowNamespace = ''kubernaut-workflows''"

definition ResolveWorkflowNamespace :: "Kubernaut \<Rightarrow> string" where
  "ResolveWorkflowNamespace kn = (let n = workflowExecution_WorkflowNamespace (spec_WorkflowExecution (kn_Spec kn))
     in if n \<noteq> '''' then n else DefaultWorkflowNamespace)"

definition AIAnalysisPolicyName :: "Kubernaut \<Rightarrow> string" where
  "AIAnalysisPolicyName kn = (let n = policyConfigMapRef_ConfigMapName (aiAnalysis_Policy (spec_AIAnalysis (kn_Spec kn)))
     in if n \<noteq> '''' then n else ''aianalysis-policy'')"

definition SignalProcessingPolicyName :: "Kubernaut \<Rightarrow> string" where
  "SignalProcessingPolicyName kn =
     (let n = policyConfigMapRef_ConfigMapName (signalProcessing_Policy (spec_SignalProcessing (kn_Spec kn)))
      in if n \<noteq> '''' then n else ''signalprocessing-policy'')"

definition KubernautAgentLLMRuntimeConfigName :: "Kubernaut \<Rightarrow> string" where
  "KubernautAgentLLMRuntimeConfigName kn = (let n = kubernautAgent_RuntimeConfigMapName (spec_KubernautAgent (kn_Spec kn))
     in if n \<noteq> '''' then n else ''kubernaut-agent-llm-runtime'')"

subsection \<open>Paths of the inter-service certificates\<close>

definition TLSModeCertManager :: string where "TLSModeCertManager = ''cert-manager''"
definition TLSModeManual :: string where "TLSModeManual = ''manual''"
definition TLSModeServiceCA :: string where "TLSModeServiceCA = ''service-ca''"

lemmas tls_modes = TLSModeCertManager_def TLSModeManual_def TLSModeServiceCA_def

abbreviation kn_TLS :: "Kubernaut \<Rightarrow> TLSConfigSpec" where "kn_TLS kn \<equiv> spec_TLS (kn_Spec kn)"

definition isHelmTLSMode :: "Kubernaut \<Rightarrow> bool" where
  "isHelmTLSMode kn \<longleftrightarrow> tlsConfig_Mode (kn_TLS kn) \<in> {TLSModeCertManager, TLSModeManual}"

definition usesOpenShiftServiceCA :: "Kubernaut \<Rightarrow> bool" where
  "usesOpenShiftServiceCA kn \<longleftrightarrow> tlsConfig_Mode (kn_TLS kn) = '''' \<or> tlsConfig_Mode (kn_TLS kn) = TLSModeServiceCA"

definition InterServiceTLSCertDir :: string where "InterServiceTLSCertDir = ''/etc/tls''"
definition InterServiceTLSCAFile :: string where "InterServiceTLSCAFile = ''/etc/tls-ca/service-ca.crt''"
definition chartInterServiceTLSCertDir :: string where "chartInterServiceTLSCertDir = ''/etc/tls''"
definition chartInterServiceTLSCAFile :: string where "chartInterServiceTLSCAFile = ''/etc/tls-ca/ca.crt''"

definition InterServiceTLSCertDirFor :: "Kubernaut \<Rightarrow> string" where
  "InterServiceTLSCertDirFor kn =
     (case tlsConfig_InterService (kn_TLS kn) of
        Some i \<Rightarrow> (if interServiceTLSConfig_CertDir i \<noteq> '''' then interServiceTLSConfig_CertDir i
                    else chartInterServiceTLSCertDir)
      | None \<Rightarrow> (if isHelmTLSMode kn then chartInterServiceTLSCertDir else InterServiceTLSCertDir))"

definition InterServiceTLSCAFileFor :: "Kubernaut \<Rightarrow> string" where
  "InterServiceTLSCAFileFor kn =
     (case tlsConfig_InterService (kn_TLS kn) of
        Some i \<Rightarrow> (if interServiceTLSConfig_CAFile i \<noteq> '''' then interServiceTLSConfig_CAFile i
                    else chartInterServiceTLSCAFile)
      | None \<Rightarrow> (if isHelmTLSMode kn then chartInterServiceTLSCAFile else InterServiceTLSCAFile))"

definition InterServiceTLSCAKeyFor :: "Kubernaut \<Rightarrow> string" where
  "InterServiceTLSCAKeyFor kn =
     (if tlsConfig_Mode (kn_TLS kn) = '''' \<or> tlsConfig_Mode (kn_TLS kn) = TLSModeServiceCA
      then ''service-ca.crt'' else ''ca.crt'')"

definition MonitoringTLSCAFile :: string where "MonitoringTLSCAFile = ''/etc/monitoring-tls/ca.crt''"

definition EffectiveMonitoringTLSCAFile :: "Kubernaut \<Rightarrow> string" where
  "EffectiveMonitoringTLSCAFile kn =
     (case monitoring_TLS (spec_Monitoring (kn_Spec kn)) of
        None \<Rightarrow> ''''
      | Some t \<Rightarrow> (case monitoringTLS_CACertSecretRef t of
          None \<Rightarrow> ''''
        | Some r \<Rightarrow> (if caCertSecretRef_Name r = '''' then '''' else MonitoringTLSCAFile)))"

subsection \<open>LLM profiles\<close>

definition ResolveLLMProfile :: "Kubernaut \<Rightarrow> string \<Rightarrow> LLMProfileSpec option" where
  "ResolveLLMProfile kn ref = (if ref = '''' then None else map_of (spec_LLMProfiles (kn_Spec kn)) ref)"

definition effectiveLLMProfileRef :: "Kubernaut \<Rightarrow> string \<Rightarrow> string" where
  "effectiveLLMProfileRef kn explicit =
     (if explicit \<noteq> '''' then explicit
      else case spec_LLMProfiles (kn_Spec kn) of [(name, _)] \<Rightarrow> name | _ \<Rightarrow> '''')"

definition EffectiveInvestigationLLMProfileRef :: "Kubernaut \<Rightarrow> string" where
  "EffectiveInvestigationLLMProfileRef kn =
     effectiveLLMProfileRef kn (investigation_LLMProfileRef (kubernautAgent_Investigation (spec_KubernautAgent (kn_Spec kn))))"

definition EffectiveWorkflowDiscoveryLLMProfileRef :: "Kubernaut \<Rightarrow> string" where
  "EffectiveWorkflowDiscoveryLLMProfileRef kn =
     effectiveLLMProfileRef kn (workflowDiscovery_LLMProfileRef (kubernautAgent_WorkflowDiscovery (spec_KubernautAgent (kn_Spec kn))))"

definition EffectiveAlignmentCheckLLMProfileRef :: "Kubernaut \<Rightarrow> string" where
  "EffectiveAlignmentCheckLLMProfileRef kn =
     effectiveLLMProfileRef kn (alignmentCheck_LLMProfileRef (kubernautAgent_AlignmentCheck (spec_KubernautAgent (kn_Spec kn))))"

definition AFLLMProfileRef :: "Kubernaut \<Rightarrow> string" where
  "AFLLMProfileRef kn = effectiveLLMProfileRef kn (apiFrontend_LLMProfileRef (spec_APIFrontend (kn_Spec kn)))"

subsection \<open>Host names\<close>

definition hostname_char :: "char \<Rightarrow> bool" where
  "hostname_char c \<longleftrightarrow>
     (let n = of_char c :: nat in
      97 \<le> n \<and> n \<le> 122 \<or> 65 \<le> n \<and> n \<le> 90 \<or> 48 \<le> n \<and> n \<le> 57 \<or>
      c = CHR ''.'' \<or> c = CHR ''_'' \<or> c = CHR '':'' \<or> c = CHR ''['' \<or> c = CHR '']'' \<or> c = CHR ''-'')"

definition ValidateHostname :: "string \<Rightarrow> go_error option" where
  "ValidateHostname host =
     (if host = '''' then Some (Msg ''hostname must not be empty'')
      else if \<not> list_all hostname_char host then Some (Msg (''hostname '' @ host @ '' contains invalid characters''))
      else None)"

subsection \<open>What holds of them\<close>

lemma AllComponents_distinct: "distinct AllComponents"
  by (simp add: AllComponents_def component_names)

lemma ActiveComponents_iff:
  "c \<in> set (ActiveComponents kn knV2) \<longleftrightarrow> c \<in> set AllComponents \<and> isComponentActive kn knV2 c"
  by (auto simp: ActiveComponents_def)

lemma ActiveComponents_distinct: "distinct (ActiveComponents kn knV2)"
  by (simp add: ActiveComponents_def AllComponents_distinct)

lemma isComponentActive_switch:
  "isComponentActive kn knV2 ComponentGateway = GatewayEnabled (kn_Spec kn)"
  "isComponentActive kn knV2 ComponentAPIFrontend = APIFrontendEnabled (kn_Spec kn)"
  "isComponentActive kn knV2 ComponentFleetMetadataCache = FleetMetadataCacheEnabled (kn_Spec knV2)"
  "isComponentActive kn knV2 ComponentDataStorage" "isComponentActive kn knV2 ComponentAIAnalysis"
  "isComponentActive kn knV2 ComponentSignalProcessing" "isComponentActive kn knV2 ComponentRemediationOrchestrator"
  "isComponentActive kn knV2 ComponentWorkflowExecution" "isComponentActive kn knV2 ComponentEffectivenessMonitor"
  "isComponentActive kn knV2 ComponentNotification" "isComponentActive kn knV2 ComponentKubernautAgent"
  "isComponentActive kn knV2 ComponentAuthWebhook"
  by (simp_all add: isComponentActive_def component_names)

text \<open>The components that no switch turns off.\<close>

definition core_components :: "string list" where
  "core_components = [ComponentDataStorage, ComponentAIAnalysis, ComponentSignalProcessing,
     ComponentRemediationOrchestrator, ComponentWorkflowExecution, ComponentEffectivenessMonitor,
     ComponentNotification, ComponentKubernautAgent, ComponentAuthWebhook]"

text \<open>The active components are the core ones, always, and the gateway, the API frontend and
  the fleet metadata cache exactly when their switches are on; each once, and never the
  console.\<close>

lemma ActiveComponents_correct:
  "distinct (ActiveComponents kn knV2) \<and>
   set (ActiveComponents kn knV2) = set core_components
     \<union> {c. c = ComponentGateway \<and> GatewayEnabled (kn_Spec kn)}
     \<union> {c. c = ComponentAPIFrontend \<and> APIFrontendEnabled (kn_Spec kn)}
     \<union> {c. c = ComponentFleetMetadataCache \<and> FleetMetadataCacheEnabled (kn_Spec knV2)} \<and>
   ComponentConsole \<notin> set (ActiveComponents kn knV2)"
proof -
  have "set (ActiveComponents kn knV2) = set core_components
     \<union> {c. c = ComponentGateway \<and> GatewayEnabled (kn_Spec kn)}
     \<union> {c. c = ComponentAPIFrontend \<and> APIFrontendEnabled (kn_Spec kn)}
     \<union> {c. c = ComponentFleetMetadataCache \<and> FleetMetadataCacheEnabled (kn_Spec knV2)}"
    by (auto simp: ActiveComponents_iff AllComponents_def core_components_def isComponentActive_switch)
  moreover have "ComponentConsole \<notin> set AllComponents" by (simp add: AllComponents_def component_names)
  then have "ComponentConsole \<notin> set (ActiveComponents kn knV2)" by (simp add: ActiveComponents_iff)
  ultimately show ?thesis using ActiveComponents_distinct by blast
qed

text \<open>Images are resolved in the documented order: a non-empty override of the custom resource
  wins, then the environment variable of the component, and an error is returned exactly when
  both are missing; a resolved image is never empty.\<close>

lemma ResolveImage_order:
  "(case ResolveImage getenv kn name of
      Inr img \<Rightarrow> img \<noteq> '''' \<and>
        (case map_of (image_Overrides (spec_Image (kn_Spec kn))) name of
           Some v \<Rightarrow> if v \<noteq> '''' then img = v else Inr img = related_image getenv name
         | None \<Rightarrow> Inr img = related_image getenv name)
    | Inl e \<Rightarrow> map_of (image_Overrides (spec_Image (kn_Spec kn))) name \<in> {None, Some ''''} \<and>
        getenv (''RELATED_IMAGE_'' @ (case componentEnvSuffix name of Some s \<Rightarrow> s | None \<Rightarrow> default_suffix name)) = '''')"
  by (auto simp: ResolveImage_def related_image_def Let_def split: option.splits sum.splits)

text \<open>A profile is never guessed: an inferred reference is the only profile there is, so with no
  explicit reference the lookup either fails or returns that profile, and with an explicit one it
  is the lookup of that reference.\<close>

lemma effectiveLLMProfileRef_unambiguous:
  "ResolveLLMProfile kn (effectiveLLMProfileRef kn explicit) =
     (if explicit \<noteq> '''' then map_of (spec_LLMProfiles (kn_Spec kn)) explicit
      else case spec_LLMProfiles (kn_Spec kn) of
        [(name, p)] \<Rightarrow> if name = '''' then None else Some p
      | _ \<Rightarrow> None)"
  by (auto simp: ResolveLLMProfile_def effectiveLLMProfileRef_def split: list.splits)

definition dsn_unsafe :: "char list" where
  "dsn_unsafe = [CHR '' '', CHR ''='', CHR '';'', CHR ''&'', CHR ''?'', CHR ''/'', CHR ''@'', CHR ''$'', CHR 0x60,
     CHR 0x27, CHR 0x22, CHR ''('', CHR '')'', CHR ''|'', CHR ''<'', CHR ''>'', CHR 0x5C, CHR 0x0A, CHR 0x0D, CHR 0x09]"

text \<open>An accepted host name cannot carry a shell or connection-string injection: it is not
  empty and holds no white space, quote, separator or expansion character, on any line of it.\<close>

lemma ValidateHostname_blocks_injection:
  assumes "ValidateHostname host = None"
  shows "host \<noteq> '''' \<and> set host \<inter> set dsn_unsafe = {}"
proof -
  have "\<not> hostname_char c" if "c \<in> set dsn_unsafe" for c
    using that by (auto simp: dsn_unsafe_def hostname_char_def Let_def)
  with assms show ?thesis
    by (auto simp: ValidateHostname_def list_all_iff split: if_splits)
qed

lemma ValidateHostname_blocks_injection_example:
  "''db.example-1:5432'' \<noteq> '''' \<and> set ''db.example-1:5432'' \<inter> set dsn_unsafe = {}"
  by (rule ValidateHostname_blocks_injection)
    (simp add: ValidateHostname_def hostname_char_def Let_def)

end
