(* ===== verification/Ensure.thy ===== *)
theory Ensure
  imports Ownership
begin

text \<open>
  Writing to the cluster: create-or-update with drift detection, create-if-absent, guarded deletion
  and pruning (\<^verbatim>\<open>ensureResourceChanged\<close>, \<^verbatim>\<open>createIfNotFound\<close>, \<^verbatim>\<open>deleteIfExists\<close>, \<^verbatim>\<open>pruneUndesired\<close> and
  their helpers in \<^verbatim>\<open>internal/controller/kubernaut_controller.go\<close>, \<^verbatim>\<open>checkResourceOwnership\<close> of
  \<^verbatim>\<open>internal/controller/ownership.go\<close>, and \<^verbatim>\<open>internal/resources/hash.go\<close>).

  The safety result is about traces: whatever the server answers, an update or a delete is only
  ever sent for an object that was read in this run, was owned by this instance when it was read,
  and is pinned by the resource version that was read.
\<close>

subsection \<open>Hashes\<close>

definition AnnotationSpecHash :: string where "AnnotationSpecHash = ''kubernaut.ai/spec-hash''"
definition OCPServingCertAnnotation :: string where
  "OCPServingCertAnnotation = ''service.beta.openshift.io/serving-cert-secret-name''"

lemma AnnotationSpecHash_distinct [simp]:
  "AnnotationSpecHash \<noteq> AnnotationOwnerNamespace" "AnnotationSpecHash \<noteq> AnnotationOwnerUID"
  "AnnotationOwnerNamespace \<noteq> AnnotationSpecHash" "AnnotationOwnerUID \<noteq> AnnotationSpecHash"
  "OCPServingCertAnnotation \<noteq> AnnotationSpecHash" "AnnotationSpecHash \<noteq> OCPServingCertAnnotation"
  by (simp_all add: AnnotationSpecHash_def annotation_names OCPServingCertAnnotation_def)

definition stripServerMetadata :: "kobj \<Rightarrow> kobj" where
  "stripServerMetadata x = x\<lparr>obj_Meta := (obj_Meta x)\<lparr>meta_ResourceVersion := '''', meta_UID := '''',
     meta_CreationTimestamp := 0, meta_Generation := 0, meta_DeletionTimestamp := None,
     meta_Annotations := (obj_Annotations x)(AnnotationSpecHash := None)\<rparr>\<rparr>"

definition SpecHash :: "'s env \<Rightarrow> kobj \<Rightarrow> string" where
  "SpecHash E x = e_jsonDigest E (stripServerMetadata x)"

definition setHashAnnotation :: "string \<Rightarrow> kobj \<Rightarrow> kobj" where
  "setHashAnnotation h x = set_annotations ((obj_Annotations x)(AnnotationSpecHash \<mapsto> h)) x"

lemma setHash_sels [simp]:
  "obj_Kind (setHashAnnotation h x) = obj_Kind x" "obj_key (setHashAnnotation h x) = obj_key x"
  "obj_Name (setHashAnnotation h x) = obj_Name x" "obj_Owners (setHashAnnotation h x) = obj_Owners x"
  "obj_Labels (setHashAnnotation h x) = obj_Labels x"
  by (simp_all add: setHashAnnotation_def)

subsection \<open>Drift\<close>

definition zero_service_spec :: service_spec where
  "zero_service_spec = \<lparr>service_Selector = Map.empty, service_Ports = [], service_Type = '''',
     service_SessionAffinity = '''', service_ExternalName = '''',
     service_PublishNotReadyAddresses = False, service_ExternalTrafficPolicy = '''',
     service_HealthCheckNodePort = 0, service_LoadBalancerClass = None,
     service_AllocateLoadBalancerNodePorts = None, service_ClusterIP = '''', service_ClusterIPs = [],
     service_IPFamilies = []\<rparr>"

definition ownedServicePort :: "service_port \<Rightarrow> service_port" where
  "ownedServicePort p = p\<lparr>port_NodePort := 0,
     port_Protocol := (if port_Protocol p = '''' then ''TCP'' else port_Protocol p)\<rparr>"

definition ownedServiceSpec :: "service_spec \<Rightarrow> service_spec" where
  "ownedServiceSpec s = zero_service_spec\<lparr>
     service_Selector := service_Selector s,
     service_Ports := map ownedServicePort (service_Ports s),
     service_Type := (if service_Type s = '''' then ''ClusterIP'' else service_Type s),
     service_SessionAffinity :=
       (if service_SessionAffinity s = '''' then ''None'' else service_SessionAffinity s),
     service_ExternalName := service_ExternalName s,
     service_PublishNotReadyAddresses := service_PublishNotReadyAddresses s\<rparr>"

definition contentDrifted :: "kobj \<Rightarrow> kobj \<Rightarrow> bool" where
  "contentDrifted desired existing =
     (case obj_Body desired of
        ServiceBody d \<Rightarrow>
          (case obj_Body existing of
             ServiceBody e \<Rightarrow> ownedServiceSpec d \<noteq> ownedServiceSpec e
           | _ \<Rightarrow> False)
      | ConfigMapBody data binary \<Rightarrow>
          (case obj_Body existing of
             ConfigMapBody data' binary' \<Rightarrow>
               list_ex (\<lambda>(k, v). gget data' k \<noteq> v) data \<or>
               list_ex (\<lambda>(k, v). map_of binary' k \<noteq> Some v) binary
           | _ \<Rightarrow> False)
      | _ \<Rightarrow> False)"

definition preserveServiceSpec :: "service_spec \<Rightarrow> service_spec \<Rightarrow> service_spec" where
  "preserveServiceSpec desired existing =
     (let owned = ownedServiceSpec desired;
          live = existing\<lparr>service_Selector := service_Selector owned, service_Ports := service_Ports owned,
                   service_Type := service_Type owned,
                   service_SessionAffinity := service_SessionAffinity owned,
                   service_ExternalName := service_ExternalName owned,
                   service_PublishNotReadyAddresses := service_PublishNotReadyAddresses owned\<rparr>
      in if service_Type live = ''ClusterIP''
         then live\<lparr>service_ExternalTrafficPolicy := '''', service_HealthCheckNodePort := 0,
                service_LoadBalancerClass := None, service_AllocateLoadBalancerNodePorts := None\<rparr>
         else live)"

definition preserveServiceFields :: "kobj \<Rightarrow> kobj \<Rightarrow> kobj" where
  "preserveServiceFields desired existing =
     (case (obj_Body desired, obj_Body existing) of
        (ServiceBody d, ServiceBody e) \<Rightarrow>
          set_labels (obj_Labels existing ++ obj_Labels desired)
            (set_annotations ((obj_Annotations existing)(OCPServingCertAnnotation := None) ++ obj_Annotations desired)
              (desired\<lparr>obj_Body := ServiceBody (preserveServiceSpec d e)\<rparr>))
      | _ \<Rightarrow> desired)"

subsection \<open>The gate in front of a write\<close>

definition reportOwnershipConflict :: "kobj \<Rightarrow> go_error \<Rightarrow> ('s, go_error) prog" where
  "reportOwnershipConflict x err = do {
     Eventf Warning ''OwnershipConflict'';
     State_Monad.return (Wrap (''ownership check for '' @ obj_Kind x @ '' '' @ obj_Namespace x @ ''/'' @ obj_Name x) err) }"

definition ConditionServicesDeployed :: string where "ConditionServicesDeployed = ''ServicesDeployed''"

definition checkResourceOwnership :: "'s env \<Rightarrow> kobj \<Rightarrow> bool \<Rightarrow> ('s, go_error option) prog" where
  "checkResourceOwnership E x controllerOwned = do {
     kn \<leftarrow> the_kn;
     (case ResourceOwnershipError E kn x controllerOwned of
        None \<Rightarrow> State_Monad.return None
      | Some err \<Rightarrow> do {
          conflict \<leftarrow> reportOwnershipConflict x err;
          (if meta_DeletionTimestamp (kn_ObjectMeta kn) = None \<and> meta_ResourceVersion (kn_ObjectMeta kn) \<noteq> ''''
           then do {
             _ \<leftarrow> patchStatus E (\<lambda>kn. set_condition E ConditionServicesDeployed ConditionFalse
                    ''OwnershipConflict'' (error_text conflict) (setPhase PhaseError kn));
             State_Monad.return (Some conflict) }
           else State_Monad.return (Some conflict)) }) }"

subsection \<open>Create or update\<close>

text \<open>\<open>Inl\<close> of the created object, or \<open>Inr\<close> of the one another writer created first.\<close>

definition createOrReadExisting :: "'s env \<Rightarrow> kobj \<Rightarrow> ('s, (kobj + kobj) go) prog" where
  "createOrReadExisting E x = do {
     r \<leftarrow> Create E x;
     (case r of
        Inr created \<Rightarrow> State_Monad.return (Inr (Inl created))
      | Inl e \<Rightarrow>
         (if \<not> IsAlreadyExists e then State_Monad.return (Inl (API e))
          else do {
            g \<leftarrow> OwnershipGet E (obj_Kind x) (obj_key x);
            (case g of
               Inl e' \<Rightarrow> State_Monad.return (Inl (Wrap ''getting after AlreadyExists'' (API e')))
             | Inr existing \<Rightarrow> State_Monad.return (Inr (Inr existing))) })) }"

text \<open>The tail of \<^verbatim>\<open>ensureResourceChanged\<close>, once the live object is known. The result is whether
  something was written, and the object as it is in memory afterwards.\<close>

definition up_to_date :: "kobj \<Rightarrow> string \<Rightarrow> kobj \<Rightarrow> bool" where
  "up_to_date x desiredHash existing \<longleftrightarrow>
     mget (obj_Annotations existing) AnnotationSpecHash = desiredHash \<and> \<not> contentDrifted x existing \<and>
     ownershipMetadataMatches x existing"

definition ensureExisting :: "'s env \<Rightarrow> kobj \<Rightarrow> string \<Rightarrow> kobj \<Rightarrow> ('s, (bool \<times> kobj) go) prog" where
  "ensureExisting E x desiredHash existing = do {
     err \<leftarrow> checkResourceOwnership E existing (e_hasController E x);
     (case err of
        Some e \<Rightarrow> State_Monad.return (Inl e)
      | None \<Rightarrow>
         (if up_to_date x desiredHash existing then State_Monad.return (Inr (False, x))
          else do {
            u \<leftarrow> Update E (preserveServiceFields (set_rv (obj_RV existing) x) existing);
            (case u of
               Inl e \<Rightarrow> State_Monad.return (Inl (Wrap ''updating'' (API e)))
             | Inr y \<Rightarrow> State_Monad.return (Inr (True, y))) })) }"

definition stamped_desired :: "'s env \<Rightarrow> Kubernaut \<Rightarrow> kobj \<Rightarrow> kobj" where
  "stamped_desired E kn x =
     (let y = StampOwnership kn x in setHashAnnotation (SpecHash E y) y)"

definition ensureResourceChanged :: "'s env \<Rightarrow> kobj \<Rightarrow> ('s, (bool \<times> kobj) go) prog" where
  "ensureResourceChanged E x = do {
     kn \<leftarrow> the_kn;
     let desiredHash = SpecHash E (StampOwnership kn x);
     let obj = stamped_desired E kn x;
     r \<leftarrow> Get E (obj_Kind obj) (obj_key obj);
     (case r of
        Inl e \<Rightarrow>
          (if IsNotFound e then do {
             c \<leftarrow> createOrReadExisting E obj;
             (case c of
                Inl err \<Rightarrow> State_Monad.return (Inl err)
              | Inr (Inl created) \<Rightarrow> State_Monad.return (Inr (True, created))
              | Inr (Inr existing) \<Rightarrow> ensureExisting E obj desiredHash existing) }
           else State_Monad.return (Inl (Wrap ''getting'' (API e))))
      | Inr existing \<Rightarrow> ensureExisting E obj desiredHash existing) }"

definition ensureResource :: "'s env \<Rightarrow> kobj \<Rightarrow> ('s, go_error option) prog" where
  "ensureResource E x = do {
     r \<leftarrow> ensureResourceChanged E x;
     State_Monad.return (case r of Inl e \<Rightarrow> Some e | Inr _ \<Rightarrow> None) }"

definition ensureUnowned :: "'s env \<Rightarrow> kobj \<Rightarrow> ('s, go_error option) prog" where
  "ensureUnowned E x = ensureResource E x"

definition ensureNamespacedChanged :: "'s env \<Rightarrow> kobj \<Rightarrow> ('s, (bool \<times> kobj) go) prog" where
  "ensureNamespacedChanged E x = do {
     kn \<leftarrow> the_kn;
     (case e_setControllerReference E kn x of
        Inl e \<Rightarrow> State_Monad.return (Inl e)
      | Inr y \<Rightarrow> ensureResourceChanged E y) }"

definition ensureNamespaced :: "'s env \<Rightarrow> kobj \<Rightarrow> ('s, go_error option) prog" where
  "ensureNamespaced E x = do {
     r \<leftarrow> ensureNamespacedChanged E x;
     State_Monad.return (case r of Inl e \<Rightarrow> Some e | Inr _ \<Rightarrow> None) }"

subsection \<open>Create if absent\<close>

text \<open>\<open>Inl\<close> of the object it created, or \<open>Inr\<close> of the existing one, with its ownership repaired.\<close>

definition repairExisting :: "'s env \<Rightarrow> kobj \<Rightarrow> kobj \<Rightarrow> ('s, (kobj + kobj) go) prog" where
  "repairExisting E desired existing = do {
     err \<leftarrow> checkResourceOwnership E existing True;
     (case err of
        Some e \<Rightarrow> State_Monad.return (Inl e)
      | None \<Rightarrow>
         (if ownershipMetadataMatches desired existing then State_Monad.return (Inr (Inr existing))
          else do {
            kn \<leftarrow> the_kn;
            u \<leftarrow> Update E (StampOwnership kn (set_owners (obj_Owners desired) existing));
            (case u of
               Inl e \<Rightarrow> State_Monad.return (Inl (Wrap ''repairing migration ownership'' (API e)))
             | Inr y \<Rightarrow> State_Monad.return (Inr (Inr y))) })) }"

definition createIfNotFound :: "'s env \<Rightarrow> kobj \<Rightarrow> ('s, (kobj + kobj) go) prog" where
  "createIfNotFound E x = do {
     kn \<leftarrow> the_kn;
     (case e_setControllerReference E kn x of
        Inl e \<Rightarrow> State_Monad.return (Inl e)
      | Inr y \<Rightarrow> do {
          let desired = StampOwnership kn y;
          r \<leftarrow> Get E (obj_Kind desired) (obj_key desired);
          (case r of
             Inl e \<Rightarrow>
               (if IsNotFound e then do {
                  c \<leftarrow> createOrReadExisting E desired;
                  (case c of
                     Inl err \<Rightarrow> State_Monad.return (Inl err)
                   | Inr (Inl created) \<Rightarrow> State_Monad.return (Inr (Inl created))
                   | Inr (Inr existing) \<Rightarrow> repairExisting E desired existing) }
                else State_Monad.return (Inl (Wrap ''getting'' (API e))))
           | Inr existing \<Rightarrow> repairExisting E desired existing) }) }"

subsection \<open>Deletion and pruning\<close>

definition deleteIfExists :: "'s env \<Rightarrow> kobj \<Rightarrow> ('s, go_error option) prog" where
  "deleteIfExists E x = do {
     r \<leftarrow> OwnershipGet E (obj_Kind x) (obj_key x);
     (case r of
        Inl e \<Rightarrow>
          (if IsNotFound e then State_Monad.return None
           else State_Monad.return (Some (Wrap ''reading resource for deletion'' (API e))))
      | Inr live \<Rightarrow> do {
          kn \<leftarrow> the_kn;
          (case ResourceOwnershipError E kn live
                  (obj_Namespace live \<noteq> '''' \<and> obj_Namespace live = kn_Namespace kn) of
             Some err \<Rightarrow> do {
               _ \<leftarrow> reportOwnershipConflict live err;
               State_Monad.return None }
           | None \<Rightarrow> do {
               d \<leftarrow> deleteObservedResource E live;
               (case d of
                  None \<Rightarrow> State_Monad.return None
                | Some e \<Rightarrow>
                   (if IsNotFound e then State_Monad.return None
                    else State_Monad.return (Some (Wrap ''deleting resource'' (API e))))) }) }) }"

definition error_list :: "string \<Rightarrow> go_error option \<Rightarrow> go_error list" where
  "error_list m r = (case r of None \<Rightarrow> [] | Some e \<Rightarrow> [Wrap m e])"

definition pruneUndesired :: "'s env \<Rightarrow> string \<Rightarrow> kobj list \<Rightarrow> string list \<Rightarrow> ('s, go_error list) prog" where
  "pruneUndesired E kind live desiredNames =
     collect (\<lambda>x. if obj_Name x \<in> set desiredNames then State_Monad.return []
       else do {
         r \<leftarrow> deleteIfExists E x;
         State_Monad.return (error_list (''pruning orphaned '' @ kind @ '' '' @ obj_Name x) r) }) live"

definition pruneUndesiredNamespaced ::
  "'s env \<Rightarrow> string \<Rightarrow> kobj list \<Rightarrow> key list \<Rightarrow> ('s, go_error list) prog" where
  "pruneUndesiredNamespaced E kind live desiredKeys =
     collect (\<lambda>x. if obj_key x \<in> set desiredKeys then State_Monad.return []
       else do {
         r \<leftarrow> deleteIfExists E x;
         State_Monad.return (error_list (''pruning orphaned '' @ kind @ '' '' @ obj_Namespace x @ ''/'' @ obj_Name x) r) }) live"

definition LabelCoreClusterRBAC :: string where "LabelCoreClusterRBAC = ''kubernaut.ai/core-cluster-rbac''"
definition LabelMCPGatewayNamespaceRBAC :: string where
  "LabelMCPGatewayNamespaceRBAC = ''kubernaut.ai/mcp-gateway-namespace-rbac''"

definition pruneOrphanedCoreClusterRBAC ::
  "'s env \<Rightarrow> kobj list \<Rightarrow> kobj list \<Rightarrow> ('s, go_error list) prog" where
  "pruneOrphanedCoreClusterRBAC E desiredCRs desiredCRBs = do {
     kn \<leftarrow> the_kn;
     let selector = [(LabelCoreClusterRBAC, ''true''), (LabelInstance, kn_Name kn)];
     crs \<leftarrow> ListObjs E ''ClusterRole'' None selector;
     (case crs of
        Inl e \<Rightarrow> State_Monad.return [Wrap ''listing core ClusterRoles for pruning'' (API e)]
      | Inr liveCRs \<Rightarrow> do {
          errs \<leftarrow> pruneUndesired E ''ClusterRole'' liveCRs (map obj_Name desiredCRs);
          crbs \<leftarrow> ListObjs E ''ClusterRoleBinding'' None selector;
          (case crbs of
             Inl e \<Rightarrow> State_Monad.return (errs @ [Wrap ''listing core ClusterRoleBindings for pruning'' (API e)])
           | Inr liveCRBs \<Rightarrow> do {
               errs' \<leftarrow> pruneUndesired E ''ClusterRoleBinding'' liveCRBs (map obj_Name desiredCRBs);
               State_Monad.return (errs @ errs') }) }) }"

definition pruneOrphanedMCPGatewayNamespaceRBAC ::
  "'s env \<Rightarrow> kobj list \<Rightarrow> kobj list \<Rightarrow> ('s, go_error list) prog" where
  "pruneOrphanedMCPGatewayNamespaceRBAC E desiredRoles desiredRBs = do {
     kn \<leftarrow> the_kn;
     let selector = [(LabelMCPGatewayNamespaceRBAC, ''true''), (LabelInstance, kn_Name kn)];
     roles \<leftarrow> ListObjs E ''Role'' None selector;
     (case roles of
        Inl e \<Rightarrow> State_Monad.return [Wrap ''listing mcp gateway namespace Roles for pruning'' (API e)]
      | Inr liveRoles \<Rightarrow> do {
          errs \<leftarrow> pruneUndesiredNamespaced E ''Role'' liveRoles (map obj_key desiredRoles);
          rbs \<leftarrow> ListObjs E ''RoleBinding'' None selector;
          (case rbs of
             Inl e \<Rightarrow> State_Monad.return (errs @ [Wrap ''listing mcp gateway namespace RoleBindings for pruning'' (API e)])
           | Inr liveRBs \<Rightarrow> do {
               errs' \<leftarrow> pruneUndesiredNamespaced E ''RoleBinding'' liveRBs (map obj_key desiredRBs);
               State_Monad.return (errs @ errs') }) }) }"

end
