(* ===== verification/Serving.thy ===== *)
theory Serving
  imports Components Ensure
begin

text \<open>
  Serving certificates and Services: which TLS material each mode selects
  (\<^verbatim>\<open>ResolveTLSMaterial\<close> of \<^verbatim>\<open>internal/resources/tls.go\<close> and the settings of
  \<^verbatim>\<open>internal/resources/tls_certmanager.go\<close>), and the Services the operator builds
  (\<^verbatim>\<open>internal/resources/services.go\<close>, \<^verbatim>\<open>FleetMetadataCacheService\<close>), with the metrics ports derived from
  them. An integer target port is kept as its decimal text.
\<close>

subsection \<open>TLS material\<close>

definition TLSServiceGateway :: string where "TLSServiceGateway = ''gateway''"
definition TLSServiceDataStorage :: string where "TLSServiceDataStorage = ''datastorage''"
definition TLSServiceKubernautAgent :: string where "TLSServiceKubernautAgent = ''kubernautagent''"
definition TLSServiceAPIFrontend :: string where "TLSServiceAPIFrontend = ''apifrontend''"
definition TLSServiceAuthWebhook :: string where "TLSServiceAuthWebhook = ''authwebhook''"
definition TLSServiceFleetMetadataCache :: string where "TLSServiceFleetMetadataCache = ''fleetmetadatacache''"

lemmas tls_services = TLSServiceGateway_def TLSServiceDataStorage_def TLSServiceKubernautAgent_def
  TLSServiceAPIFrontend_def TLSServiceAuthWebhook_def TLSServiceFleetMetadataCache_def

lemma tls_services_distinct_names [simp]:
  "TLSServiceGateway \<noteq> TLSServiceDataStorage" "TLSServiceGateway \<noteq> TLSServiceKubernautAgent"
  "TLSServiceGateway \<noteq> TLSServiceAPIFrontend" "TLSServiceGateway \<noteq> TLSServiceAuthWebhook"
  "TLSServiceGateway \<noteq> TLSServiceFleetMetadataCache"
  "TLSServiceDataStorage \<noteq> TLSServiceGateway"
  "TLSServiceDataStorage \<noteq> TLSServiceKubernautAgent"
  "TLSServiceDataStorage \<noteq> TLSServiceAPIFrontend"
  "TLSServiceDataStorage \<noteq> TLSServiceAuthWebhook"
  "TLSServiceDataStorage \<noteq> TLSServiceFleetMetadataCache"
  "TLSServiceKubernautAgent \<noteq> TLSServiceGateway"
  "TLSServiceKubernautAgent \<noteq> TLSServiceDataStorage"
  "TLSServiceKubernautAgent \<noteq> TLSServiceAPIFrontend"
  "TLSServiceKubernautAgent \<noteq> TLSServiceAuthWebhook"
  "TLSServiceKubernautAgent \<noteq> TLSServiceFleetMetadataCache"
  "TLSServiceAPIFrontend \<noteq> TLSServiceGateway" "TLSServiceAPIFrontend \<noteq> TLSServiceDataStorage"
  "TLSServiceAPIFrontend \<noteq> TLSServiceKubernautAgent"
  "TLSServiceAPIFrontend \<noteq> TLSServiceAuthWebhook"
  "TLSServiceAPIFrontend \<noteq> TLSServiceFleetMetadataCache"
  "TLSServiceAuthWebhook \<noteq> TLSServiceGateway" "TLSServiceAuthWebhook \<noteq> TLSServiceDataStorage"
  "TLSServiceAuthWebhook \<noteq> TLSServiceKubernautAgent"
  "TLSServiceAuthWebhook \<noteq> TLSServiceAPIFrontend"
  "TLSServiceAuthWebhook \<noteq> TLSServiceFleetMetadataCache"
  "TLSServiceFleetMetadataCache \<noteq> TLSServiceGateway"
  "TLSServiceFleetMetadataCache \<noteq> TLSServiceDataStorage"
  "TLSServiceFleetMetadataCache \<noteq> TLSServiceKubernautAgent"
  "TLSServiceFleetMetadataCache \<noteq> TLSServiceAPIFrontend"
  "TLSServiceFleetMetadataCache \<noteq> TLSServiceAuthWebhook"
  by (simp_all add: tls_services)

definition TLSMaterialSourceServiceCA :: string where "TLSMaterialSourceServiceCA = ''ServiceCA''"
definition TLSMaterialSourceManual :: string where "TLSMaterialSourceManual = ''Manual''"
definition TLSMaterialSourceCertManager :: string where "TLSMaterialSourceCertManager = ''CertManager''"

definition InterServiceCAConfigMapName :: string where "InterServiceCAConfigMapName = ''inter-service-ca''"
definition FleetMetadataCacheTLSSecretName :: string where "FleetMetadataCacheTLSSecretName = ''fleetmetadatacache-tls''"

record TLSMaterial =
  tlsMaterial_Source :: string
  tlsMaterial_InternalCASecretName :: string
  tlsMaterial_InternalCAConfigMapName :: string
  tlsMaterial_ServiceTLSSecretNames :: smap
  tlsMaterial_OwnsSecrets :: bool

definition addFleetMetadataCacheTLSSecret :: "Kubernaut \<Rightarrow> smap \<Rightarrow> smap" where
  "addFleetMetadataCacheTLSSecret kn serviceNames =
     (if FleetMetadataCacheEnabled (kn_Spec kn)
      then serviceNames(TLSServiceFleetMetadataCache \<mapsto> FleetMetadataCacheTLSSecretName) else serviceNames)"

definition defaultCertManagerServiceSecretNames :: "Kubernaut \<Rightarrow> smap" where
  "defaultCertManagerServiceSecretNames kn = addFleetMetadataCacheTLSSecret kn
     [TLSServiceGateway \<mapsto> ''gateway-tls'', TLSServiceDataStorage \<mapsto> ''datastorage-tls'',
      TLSServiceKubernautAgent \<mapsto> ''kubernautagent-tls'', TLSServiceAPIFrontend \<mapsto> ''apifrontend-tls'',
      TLSServiceAuthWebhook \<mapsto> ''authwebhook-tls'']"

definition openShiftServiceTLSMaterial :: "Kubernaut \<Rightarrow> TLSMaterial" where
  "openShiftServiceTLSMaterial kn = \<lparr>tlsMaterial_Source = TLSMaterialSourceServiceCA,
     tlsMaterial_InternalCASecretName = InterServiceCAConfigMapName, tlsMaterial_InternalCAConfigMapName = '''',
     tlsMaterial_ServiceTLSSecretNames = addFleetMetadataCacheTLSSecret kn
       [TLSServiceGateway \<mapsto> ''gateway-tls'', TLSServiceDataStorage \<mapsto> ''datastorage-tls'',
        TLSServiceKubernautAgent \<mapsto> ''kubernautagent-tls'', TLSServiceAPIFrontend \<mapsto> ''apifrontend-tls'',
        TLSServiceAuthWebhook \<mapsto> ''authwebhook-tls''],
     tlsMaterial_OwnsSecrets = False\<rparr>"

definition CertManagerTLSProvisioningEnabled :: "Kubernaut \<Rightarrow> bool" where
  "CertManagerTLSProvisioningEnabled kn =
     (if tlsConfig_Mode (kn_TLS kn) \<noteq> TLSModeCertManager then False
      else case tlsConfig_CertManager (kn_TLS kn) of
        None \<Rightarrow> False
      | Some cfg \<Rightarrow> (case certManagerTLSConfig_Provisioning cfg of
          None \<Rightarrow> False
        | Some p \<Rightarrow> deref_or True (certManagerTLSProvisioning_Enabled p)))"

definition firstNonEmpty :: "string list \<Rightarrow> string" where
  "firstNonEmpty vs = (case find (\<lambda>v. v \<noteq> '''') vs of None \<Rightarrow> '''' | Some v \<Rightarrow> v)"

definition override_names :: "smap \<Rightarrow> string gomap \<Rightarrow> smap" where
  "override_names names overrides = names ++ map_of (filter (\<lambda>(k, v). v \<noteq> '''') overrides)"

definition signing_secret_override :: "Kubernaut \<Rightarrow> string" where
  "signing_secret_override kn =
     (case dataStorage_Audit (spec_DataStorage (kn_Spec kn)) of
        None \<Rightarrow> ''''
      | Some a \<Rightarrow> (case dataStorageAudit_SigningCertificate a of None \<Rightarrow> '''' | Some s \<Rightarrow> signingCert_SecretName s))"

record certManagerProvisioningValues =
  cmp_bootstrapIssuerName :: string
  cmp_caCertificateName :: string
  cmp_caIssuerName :: string
  cmp_caSecretName :: string
  cmp_duration :: string
  cmp_renewBefore :: string
  cmp_caDuration :: string
  cmp_extraSANs :: "string list"
  cmp_serviceSecretNames :: smap
  cmp_signingCertificateName :: string
  cmp_signingSecretName :: string

definition certManagerDefaults :: "Kubernaut \<Rightarrow> CertManagerTLSConfig \<Rightarrow> certManagerProvisioningValues" where
  "certManagerDefaults kn cfg = \<lparr>
     cmp_bootstrapIssuerName = ''kubernaut-interservice-bootstrap-issuer'',
     cmp_caCertificateName = ''kubernaut-interservice-ca'',
     cmp_caIssuerName = ''kubernaut-interservice-ca-issuer'',
     cmp_caSecretName = firstNonEmpty [certManagerTLSConfig_InternalCASecretName cfg, ''kubernaut-interservice-ca-secret''],
     cmp_duration = ''8760h'', cmp_renewBefore = ''720h'', cmp_caDuration = ''87600h'', cmp_extraSANs = [],
     cmp_serviceSecretNames = defaultCertManagerServiceSecretNames kn,
     cmp_signingCertificateName = ''datastorage-signing-cert'',
     cmp_signingSecretName = ''datastorage-signing-cert''\<rparr>"

definition provisioned_values ::
  "CertManagerTLSProvisioning \<Rightarrow> certManagerProvisioningValues \<Rightarrow> certManagerProvisioningValues" where
  "provisioned_values p s = s\<lparr>
     cmp_bootstrapIssuerName := firstNonEmpty [certManagerTLSProvisioning_BootstrapIssuerName p, cmp_bootstrapIssuerName s],
     cmp_caCertificateName := firstNonEmpty [certManagerTLSProvisioning_InternalCACertificateName p, cmp_caCertificateName s],
     cmp_caIssuerName := firstNonEmpty [certManagerTLSProvisioning_InternalCAIssuerName p, cmp_caIssuerName s],
     cmp_caSecretName := firstNonEmpty [certManagerTLSProvisioning_InternalCASecretName p, cmp_caSecretName s],
     cmp_duration := firstNonEmpty [certManagerTLSProvisioning_Duration p, cmp_duration s],
     cmp_renewBefore := firstNonEmpty [certManagerTLSProvisioning_RenewBefore p, cmp_renewBefore s],
     cmp_caDuration := firstNonEmpty [certManagerTLSProvisioning_InternalCADuration p, cmp_caDuration s],
     cmp_extraSANs := certManagerTLSProvisioning_ExtraSANs p\<rparr>"

definition signing_values ::
  "Kubernaut \<Rightarrow> CertManagerTLSProvisioning \<Rightarrow> certManagerProvisioningValues \<Rightarrow> certManagerProvisioningValues" where
  "signing_values kn p s = s\<lparr>
     cmp_signingCertificateName := firstNonEmpty [certManagerTLSProvisioning_SigningCertificateName p, cmp_signingCertificateName s],
     cmp_signingSecretName := (if signing_secret_override kn = ''''
       then firstNonEmpty [certManagerTLSProvisioning_SigningCertificateSecretName p, cmp_signingSecretName s]
       else cmp_signingSecretName s)\<rparr>"

definition certManagerProvisioningValuesFor ::
  "Kubernaut \<Rightarrow> CertManagerTLSConfig \<Rightarrow> certManagerProvisioningValues" where
  "certManagerProvisioningValuesFor kn cfg =
     (let d = certManagerDefaults kn cfg;
          s1 = (case certManagerTLSConfig_Provisioning cfg of None \<Rightarrow> d | Some p \<Rightarrow> provisioned_values p d);
          s2 = s1\<lparr>cmp_serviceSecretNames := override_names (cmp_serviceSecretNames s1) (certManagerTLSConfig_ServiceTLSSecretNames cfg)\<rparr>;
          s3 = (if signing_secret_override kn \<noteq> '''' then s2\<lparr>cmp_signingSecretName := signing_secret_override kn\<rparr> else s2)
      in case certManagerTLSConfig_Provisioning cfg of None \<Rightarrow> s3 | Some p \<Rightarrow> signing_values kn p s3)"

fun required_names :: "string gomap \<Rightarrow> string list \<Rightarrow> smap \<Rightarrow> smap go" where
  "required_names input [] result = Inr result"
| "required_names input (k # ks) result =
     (if gget input k = '''' then Inl (Msg (''serviceTLSSecretNames['' @ k @ ''] is required''))
      else required_names input ks (result(k \<mapsto> gget input k)))"

definition required_tls_keys :: "bool \<Rightarrow> string list" where
  "required_tls_keys includeFleetMetadataCache =
     [TLSServiceGateway, TLSServiceDataStorage, TLSServiceKubernautAgent, TLSServiceAPIFrontend, TLSServiceAuthWebhook]
     @ (if includeFleetMetadataCache then [TLSServiceFleetMetadataCache] else [])"

definition requiredServiceTLSSecretNames :: "string gomap \<Rightarrow> bool \<Rightarrow> smap go" where
  "requiredServiceTLSSecretNames input includeFleetMetadataCache =
     (if input = [] then Inl (Msg ''serviceTLSSecretNames is required'')
      else required_names input (required_tls_keys includeFleetMetadataCache) Map.empty)"

definition zero_CertManagerTLSConfig :: CertManagerTLSConfig where
  "zero_CertManagerTLSConfig = \<lparr>certManagerTLSConfig_Issuer = zero_TLSIssuerRef,
     certManagerTLSConfig_IssuerRef = zero_TLSIssuerRef, certManagerTLSConfig_InternalCASecretName = '''',
     certManagerTLSConfig_ServiceTLSSecretNames = [], certManagerTLSConfig_Provisioning = None\<rparr>"

definition resolveCertManagerTLS :: "Kubernaut \<Rightarrow> TLSMaterial go" where
  "resolveCertManagerTLS kn =
     (let cfg = (case tlsConfig_CertManager (kn_TLS kn) of None \<Rightarrow> zero_CertManagerTLSConfig | Some c \<Rightarrow> c);
          provisioning = CertManagerTLSProvisioningEnabled kn
      in if tlsIssuerRef_Name (EffectiveIssuerRef (Some cfg)) = '''' \<and> \<not> provisioning
         then Inl (Msg ''tls.certManager.issuer.name is required'')
         else if provisioning
         then (let settings = certManagerProvisioningValuesFor kn cfg
               in Inr \<lparr>tlsMaterial_Source = TLSMaterialSourceCertManager,
                       tlsMaterial_InternalCASecretName = cmp_caSecretName settings,
                       tlsMaterial_InternalCAConfigMapName = '''',
                       tlsMaterial_ServiceTLSSecretNames = cmp_serviceSecretNames settings,
                       tlsMaterial_OwnsSecrets = False\<rparr>)
         else case requiredServiceTLSSecretNames (certManagerTLSConfig_ServiceTLSSecretNames cfg)
                     (FleetMetadataCacheEnabled (kn_Spec kn)) of
             Inl e \<Rightarrow> Inl (Wrap ''tls.certManager'' e)
           | Inr names \<Rightarrow>
              (if certManagerTLSConfig_InternalCASecretName cfg = ''''
               then Inl (Msg ''tls.certManager.internalCASecretName is required'')
               else Inr \<lparr>tlsMaterial_Source = TLSMaterialSourceCertManager,
                         tlsMaterial_InternalCASecretName = certManagerTLSConfig_InternalCASecretName cfg,
                         tlsMaterial_InternalCAConfigMapName = '''',
                         tlsMaterial_ServiceTLSSecretNames = names, tlsMaterial_OwnsSecrets = False\<rparr>))"

definition resolveManualTLS :: "Kubernaut \<Rightarrow> TLSMaterial go" where
  "resolveManualTLS kn =
     (let names = defaultCertManagerServiceSecretNames kn;
          m = \<lparr>tlsMaterial_Source = TLSMaterialSourceManual, tlsMaterial_InternalCASecretName = '''',
               tlsMaterial_InternalCAConfigMapName = InterServiceCAConfigMapName,
               tlsMaterial_ServiceTLSSecretNames = names, tlsMaterial_OwnsSecrets = False\<rparr>
      in case tlsConfig_Manual (kn_TLS kn) of
           None \<Rightarrow> Inr m
         | Some cfg \<Rightarrow>
            (let m = m\<lparr>tlsMaterial_ServiceTLSSecretNames := override_names names (manualTLSConfig_ServiceTLSSecretNames cfg)\<rparr>
             in if manualTLSConfig_InternalCASecretName cfg = '''' then Inr m
                else Inr (m\<lparr>tlsMaterial_InternalCASecretName := manualTLSConfig_InternalCASecretName cfg,
                             tlsMaterial_InternalCAConfigMapName := ''''\<rparr>)))"

definition ResolveTLSMaterial :: "Kubernaut \<Rightarrow> TLSMaterial go" where
  "ResolveTLSMaterial kn =
     (let mode = tlsConfig_Mode (kn_TLS kn) in
      if mode = '''' then Inr (openShiftServiceTLSMaterial kn)
      else if mode = TLSModeServiceCA then Inr (openShiftServiceTLSMaterial kn)
      else if mode = TLSModeCertManager then resolveCertManagerTLS kn
      else if mode = TLSModeManual then resolveManualTLS kn
      else Inl (Msg (''tls.mode '' @ mode @ '' is unsupported'')))"

definition DataStorageSigningSecretName :: "Kubernaut \<Rightarrow> string" where
  "DataStorageSigningSecretName kn =
     (if signing_secret_override kn \<noteq> '''' then signing_secret_override kn
      else if CertManagerTLSProvisioningEnabled kn
      then (case tlsConfig_CertManager (kn_TLS kn) of
              Some cfg \<Rightarrow> cmp_signingSecretName (certManagerProvisioningValuesFor kn cfg)
            | None \<Rightarrow> '''')
      else if tlsConfig_Mode (kn_TLS kn) = TLSModeManual then ''datastorage-signing-cert'' else '''')"

definition tlsServiceNames :: smap where
  "tlsServiceNames = [TLSServiceGateway \<mapsto> ''gateway-service'', TLSServiceDataStorage \<mapsto> ''data-storage-service'',
     TLSServiceKubernautAgent \<mapsto> ''kubernaut-agent'', TLSServiceAPIFrontend \<mapsto> ''apifrontend'',
     TLSServiceAuthWebhook \<mapsto> ''authwebhook-service'', TLSServiceFleetMetadataCache \<mapsto> ''fleetmetadatacache-service'']"

definition dns_names :: "string \<Rightarrow> string \<Rightarrow> string list" where
  "dns_names base namespace = [base, base @ ''.'' @ namespace, base @ ''.'' @ namespace @ ''.svc'',
     base @ ''.'' @ namespace @ ''.svc.cluster.local'']"

definition TLSServiceDNSNames :: "string \<Rightarrow> string \<Rightarrow> string list" where
  "TLSServiceDNSNames serviceKey namespace =
     (let serviceName = mget tlsServiceNames serviceKey in
      if serviceName = '''' then []
      else dns_names serviceName namespace
        @ (if serviceName = ''authwebhook-service'' then dns_names ''authwebhook'' namespace else []))"

subsection \<open>Services\<close>

record serviceDefinition =
  def_Component :: string
  def_ServiceName :: string
  def_Ports :: "service_port list"
  def_Annotations :: "string gomap"

definition ServicePort :: "string \<Rightarrow> int \<Rightarrow> service_port" where
  "ServicePort name port = \<lparr>port_Name = name, port_Protocol = ''TCP'', port_Port = port,
     port_TargetPort = show_int port, port_NodePort = 0\<rparr>"

definition apiServices :: "serviceDefinition list" where
  "apiServices =
     [\<lparr>def_Component = ComponentGateway, def_ServiceName = ''gateway-service'', def_Ports =
         [ServicePort ''https'' PortHTTPS, ServicePort ''health'' PortHealthProbe, ServicePort ''metrics'' PortMetrics],
       def_Annotations = []\<rparr>,
      \<lparr>def_Component = ComponentDataStorage, def_ServiceName = ''data-storage-service'', def_Ports =
         [ServicePort ''https'' PortHTTPS, ServicePort ''metrics'' PortMetrics, ServicePort ''health'' PortHealthProbe],
       def_Annotations = []\<rparr>,
      \<lparr>def_Component = ComponentAIAnalysis, def_ServiceName = ''aianalysis-service'', def_Ports =
         [ServicePort ''https'' PortHTTPS, ServicePort ''metrics'' PortMetrics, ServicePort ''health'' PortHealthProbe],
       def_Annotations = []\<rparr>,
      \<lparr>def_Component = ComponentKubernautAgent, def_ServiceName = ''kubernaut-agent'', def_Ports =
         [ServicePort ''https'' PortHTTPS, ServicePort ''health'' PortHealthProbe, ServicePort ''metrics'' PortMetrics],
       def_Annotations = []\<rparr>]"

definition metricsServiceDefinitions :: "serviceDefinition list" where
  "metricsServiceDefinitions =
     [\<lparr>def_Component = ComponentSignalProcessing, def_ServiceName = ''signalprocessing-controller-metrics'',
       def_Ports = [ServicePort ''metrics'' PortMetrics],
       def_Annotations = []\<rparr>,
      \<lparr>def_Component = ComponentRemediationOrchestrator, def_ServiceName = ''remediationorchestrator-controller'',
       def_Ports = [ServicePort ''metrics'' PortMetrics],
       def_Annotations = []\<rparr>,
      \<lparr>def_Component = ComponentWorkflowExecution, def_ServiceName = ''workflowexecution-controller-metrics'',
       def_Ports = [ServicePort ''metrics'' PortMetrics],
       def_Annotations = []\<rparr>,
      \<lparr>def_Component = ComponentEffectivenessMonitor, def_ServiceName = ''effectivenessmonitor-metrics'',
       def_Ports = [ServicePort ''metrics'' PortMetrics],
       def_Annotations = []\<rparr>,
      \<lparr>def_Component = ComponentNotification, def_ServiceName = ''notification-metrics'',
       def_Ports = [ServicePort ''metrics'' PortMetrics],
       def_Annotations = []\<rparr>]"

definition service_object :: "Kubernaut \<Rightarrow> string \<Rightarrow> string \<Rightarrow> service_port list \<Rightarrow> kobj" where
  "service_object kn name component ports = \<lparr>obj_Kind = ''Service'', obj_Meta = ObjectMeta kn name component,
     obj_Body = ServiceBody (zero_service_spec\<lparr>service_Selector := SelectorLabels component, service_Ports := ports\<rparr>)\<rparr>"

definition buildService :: "Kubernaut \<Rightarrow> serviceDefinition \<Rightarrow> kobj" where
  "buildService kn d =
     (let svc = service_object kn (def_ServiceName d) (def_Component d) (def_Ports d)
      in if def_Annotations d \<noteq> [] then set_annotations (map_of (def_Annotations d)) svc else svc)"

definition tlsServiceKey :: "string \<Rightarrow> string" where
  "tlsServiceKey component =
     (if component = ComponentGateway then TLSServiceGateway
      else if component = ComponentDataStorage then TLSServiceDataStorage
      else if component = ComponentKubernautAgent then TLSServiceKubernautAgent
      else if component = ComponentAPIFrontend then TLSServiceAPIFrontend
      else if component = ComponentAuthWebhook then TLSServiceAuthWebhook
      else if component = ComponentFleetMetadataCache then TLSServiceFleetMetadataCache
      else component)"

definition TLSSecretName :: "Kubernaut \<Rightarrow> string \<Rightarrow> string" where
  "TLSSecretName kn component =
     (case ResolveTLSMaterial kn of
        Inl e \<Rightarrow> ''''
      | Inr material \<Rightarrow> mget (tlsMaterial_ServiceTLSSecretNames material) (tlsServiceKey component))"

definition applyTLSServiceMetadata :: "Kubernaut \<Rightarrow> string \<Rightarrow> kobj \<Rightarrow> kobj" where
  "applyTLSServiceMetadata kn component svc =
     (case ResolveTLSMaterial kn of
        Inl e \<Rightarrow> svc
      | Inr material \<Rightarrow>
         (let secretName = mget (tlsMaterial_ServiceTLSSecretNames material) (tlsServiceKey component) in
          if secretName = '''' then svc
          else if tlsMaterial_Source material = TLSMaterialSourceServiceCA
          then set_annotations ((obj_Annotations svc)(OCPServingCertAnnotation \<mapsto> secretName)) svc
          else svc))"

definition fleetMetadataCacheAPIPort :: int where "fleetMetadataCacheAPIPort = 8080"

definition FleetMetadataCacheService :: "Kubernaut \<Rightarrow> kobj" where
  "FleetMetadataCacheService kn = applyTLSServiceMetadata kn ComponentFleetMetadataCache
     (service_object kn ''fleetmetadatacache-service'' ComponentFleetMetadataCache
       [ServicePort ''api'' fleetMetadataCacheAPIPort, ServicePort ''health'' PortHealthProbe,
        ServicePort ''metrics'' PortMetrics])"

definition authWebhookService :: "Kubernaut \<Rightarrow> kobj" where
  "authWebhookService kn = applyTLSServiceMetadata kn ComponentAuthWebhook
     (service_object kn ''authwebhook-service'' ComponentAuthWebhook
       [\<lparr>port_Name = ''https'', port_Protocol = ''TCP'', port_Port = PortAuthWebhookService,
         port_TargetPort = ''webhook'', port_NodePort = 0\<rparr>])"

definition apiFrontendService :: "Kubernaut \<Rightarrow> kobj" where
  "apiFrontendService kn =
     (let af = spec_APIFrontend (kn_Spec kn);
          metrics = (case apiFrontend_MetricsPort af of Some p \<Rightarrow> p | None \<Rightarrow> PortMetrics);
          health = (case apiFrontend_HealthPort af of Some p \<Rightarrow> p | None \<Rightarrow> PortHealthProbe)
      in applyTLSServiceMetadata kn ComponentAPIFrontend
           (service_object kn ''apifrontend'' ComponentAPIFrontend
             [ServicePort ''https'' PortHTTPS, ServicePort ''health'' health, ServicePort ''metrics'' metrics]))"

definition Services :: "Kubernaut \<Rightarrow> Kubernaut \<Rightarrow> kobj list" where
  "Services kn knV2 =
     map (\<lambda>d. applyTLSServiceMetadata kn (def_Component d) (buildService kn d))
       (filter (\<lambda>d. \<not> (def_Component d = ComponentGateway \<and> \<not> GatewayEnabled (kn_Spec kn))) apiServices)
     @ [authWebhookService kn]
     @ (if APIFrontendEnabled (kn_Spec kn) then [apiFrontendService kn] else [])
     @ (if FleetMetadataCacheEnabled (kn_Spec knV2)
        then [applyTLSServiceMetadata knV2 ComponentFleetMetadataCache (FleetMetadataCacheService kn)] else [])"

definition MetricsServices :: "Kubernaut \<Rightarrow> kobj list" where
  "MetricsServices kn = map (buildService kn) metricsServiceDefinitions"

subsection \<open>Metrics ports\<close>

text \<open>\<^verbatim>\<open>ports[service.Spec.Selector["app"]] = port.Port\<close> for every port named metrics, later services and
  ports overwriting earlier ones.\<close>

definition metrics_entries :: "kobj \<Rightarrow> (string \<times> int) list" where
  "metrics_entries svc =
     (case obj_Body svc of
        ServiceBody s \<Rightarrow> map (\<lambda>p. (mget (service_Selector s) ''app'', port_Port p))
                          (filter (\<lambda>p. port_Name p = ''metrics'') (service_Ports s))
      | _ \<Rightarrow> [])"

definition generatedMetricsPorts :: "Kubernaut \<Rightarrow> Kubernaut \<Rightarrow> int gomap" where
  "generatedMetricsPorts kn knV2 =
     fold (\<lambda>(app, port) m. gput app port m) (concat (map metrics_entries (Services kn knV2 @ MetricsServices kn))) []"

subsection \<open>Every serving component has a certificate\<close>

definition serving_keys :: "Kubernaut \<Rightarrow> string list" where
  "serving_keys kn = required_tls_keys (FleetMetadataCacheEnabled (kn_Spec kn))"

definition names_all :: "smap \<Rightarrow> string list \<Rightarrow> bool" where
  "names_all m ks \<longleftrightarrow> (\<forall>k \<in> set ks. mget m k \<noteq> '''')"

lemma default_names_all: "names_all (defaultCertManagerServiceSecretNames kn) (serving_keys kn)"
  by (simp add: names_all_def serving_keys_def required_tls_keys_def defaultCertManagerServiceSecretNames_def
      addFleetMetadataCacheTLSSecret_def FleetMetadataCacheTLSSecretName_def)

lemma openshift_names: "tlsMaterial_ServiceTLSSecretNames (openShiftServiceTLSMaterial kn) = defaultCertManagerServiceSecretNames kn"
  by (simp add: openShiftServiceTLSMaterial_def defaultCertManagerServiceSecretNames_def)

lemma override_names_all: "names_all m ks \<Longrightarrow> names_all (override_names m ov) ks"
proof -
  have "map_of (filter (\<lambda>(k, v). v \<noteq> '''') ov) k \<noteq> Some ''''" for k
    by (auto dest!: map_of_SomeD)
  then show "names_all m ks \<Longrightarrow> names_all (override_names m ov) ks"
    by (auto simp: names_all_def override_names_def split: option.splits)
qed

lemma required_names_spec:
  "required_names input ks acc = Inr m \<Longrightarrow>
     (\<forall>k \<in> set ks. mget m k \<noteq> '''') \<and> (\<forall>k. k \<notin> set ks \<longrightarrow> m k = acc k)"
proof (induction ks arbitrary: acc)
  case (Cons k ks)
  then have ne: "gget input k \<noteq> ''''" and run: "required_names input ks (acc(k \<mapsto> gget input k)) = Inr m"
    by (auto split: if_splits)
  have "mget m k \<noteq> ''''" if "k \<notin> set ks"
    using Cons.IH [OF run] that ne by (simp add: mget_def)
  then show ?case using Cons.IH [OF run] by auto
qed simp

lemma cmp_steps [simp]:
  "cmp_serviceSecretNames (certManagerDefaults kn cfg) = defaultCertManagerServiceSecretNames kn"
  "cmp_serviceSecretNames (provisioned_values p s) = cmp_serviceSecretNames s"
  "cmp_serviceSecretNames (signing_values kn p s) = cmp_serviceSecretNames s"
  by (simp_all add: certManagerDefaults_def provisioned_values_def signing_values_def)

lemma provisioning_names:
  "cmp_serviceSecretNames (certManagerProvisioningValuesFor kn cfg) =
     override_names (defaultCertManagerServiceSecretNames kn) (certManagerTLSConfig_ServiceTLSSecretNames cfg)"
  by (simp add: certManagerProvisioningValuesFor_def Let_def split: option.splits)

lemma requiredServiceTLSSecretNames_all:
  "requiredServiceTLSSecretNames input (FleetMetadataCacheEnabled (kn_Spec kn)) = Inr m \<Longrightarrow> names_all m (serving_keys kn)"
proof -
  assume "requiredServiceTLSSecretNames input (FleetMetadataCacheEnabled (kn_Spec kn)) = Inr m"
  then have "required_names input (serving_keys kn) Map.empty = Inr m"
    by (simp add: requiredServiceTLSSecretNames_def serving_keys_def split: if_splits)
  from required_names_spec [OF this] show ?thesis by (simp add: names_all_def)
qed

lemma resolved_names_all:
  assumes "ResolveTLSMaterial kn = Inr m"
  shows "names_all (tlsMaterial_ServiceTLSSecretNames m) (serving_keys kn)"
proof -
  have cert: "names_all (tlsMaterial_ServiceTLSSecretNames m) (serving_keys kn)" if "resolveCertManagerTLS kn = Inr m"
    using that
    by (auto simp: resolveCertManagerTLS_def Let_def provisioning_names
        intro!: override_names_all default_names_all dest: requiredServiceTLSSecretNames_all split: if_splits sum.splits)
  have "names_all (tlsMaterial_ServiceTLSSecretNames m) (serving_keys kn)" if "resolveManualTLS kn = Inr m"
    using that
    by (auto simp: resolveManualTLS_def Let_def intro!: override_names_all default_names_all split: if_splits option.splits)
  with cert assms show ?thesis
    by (auto simp: ResolveTLSMaterial_def Let_def openshift_names default_names_all split: if_splits)
qed

definition serving_components :: "string list" where
  "serving_components = [ComponentGateway, ComponentDataStorage, ComponentKubernautAgent, ComponentAPIFrontend,
     ComponentAuthWebhook, ComponentFleetMetadataCache]"

lemma serving_component_key:
  "c \<in> set serving_components \<Longrightarrow> isComponentActive kn kn c \<Longrightarrow> tlsServiceKey c \<in> set (serving_keys kn)"
  by (auto simp: serving_components_def tlsServiceKey_def serving_keys_def required_tls_keys_def isComponentActive_def)

text \<open>No serving component is left without a certificate: whenever the TLS configuration
  resolves, in every mode, each active component that serves TLS has a non-empty serving Secret,
  the fleet metadata cache included when it is on.\<close>

lemma serving_components_have_certificates:
  assumes "ResolveTLSMaterial kn = Inr m"
    and "c \<in> set serving_components" and "c \<in> set (ActiveComponents kn kn)"
  shows "TLSSecretName kn c \<noteq> ''''"
  using assms resolved_names_all [OF assms(1)] serving_component_key
  by (auto simp: TLSSecretName_def ActiveComponents_iff names_all_def)

definition cert_manager_kn :: Kubernaut where
  "cert_manager_kn = sample_kn\<lparr>kn_Spec := (kn_Spec sample_kn)\<lparr>spec_TLS := zero_TLSConfigSpec\<lparr>tlsConfig_Mode := TLSModeManual\<rparr>\<rparr>\<rparr>"

lemma serving_components_have_certificates_example:
  "TLSSecretName cert_manager_kn ComponentGateway \<noteq> ''''"
  by (rule serving_components_have_certificates
      [where m = "\<lparr>tlsMaterial_Source = TLSMaterialSourceManual, tlsMaterial_InternalCASecretName = '''',
         tlsMaterial_InternalCAConfigMapName = InterServiceCAConfigMapName,
         tlsMaterial_ServiceTLSSecretNames = defaultCertManagerServiceSecretNames cert_manager_kn, tlsMaterial_OwnsSecrets = False\<rparr>"])
    (simp_all add: ResolveTLSMaterial_def resolveManualTLS_def cert_manager_kn_def zero_TLSConfigSpec_def tls_modes Let_def
      serving_components_def ActiveComponents_iff AllComponents_def isComponentActive_switch GatewayEnabled_def
      zero_Kubernaut_def zero_KubernautSpec_def zero_GatewaySpec_def)

subsection \<open>Metrics ports follow the active components\<close>

lemma map_of_fold_gput:
  "map_of (fold (\<lambda>(k, v) m. gput k v m) es m) = map_of m ++ map_of (rev es)"
  by (induction es arbitrary: m) (auto simp: map_add_def fun_eq_iff split: option.splits)

lemma metrics_entries_apply [simp]:
  "metrics_entries (applyTLSServiceMetadata kn c svc) = metrics_entries svc"
  by (simp add: applyTLSServiceMetadata_def metrics_entries_def Let_def split: sum.splits)

lemma metrics_entries_service_object [simp]:
  "metrics_entries (service_object kn n c ports) =
     map (\<lambda>p. (c, port_Port p)) (filter (\<lambda>p. port_Name p = ''metrics'') ports)"
  by (simp add: metrics_entries_def service_object_def SelectorLabels_def)

definition api_frontend_metrics_port :: "Kubernaut \<Rightarrow> int" where
  "api_frontend_metrics_port kn =
     (case apiFrontend_MetricsPort (spec_APIFrontend (kn_Spec kn)) of Some p \<Rightarrow> p | None \<Rightarrow> PortMetrics)"

lemma all_metrics_entries:
  "concat (map metrics_entries (Services kn kn @ MetricsServices kn)) =
     (if GatewayEnabled (kn_Spec kn) then [(ComponentGateway, PortMetrics)] else [])
     @ [(ComponentDataStorage, PortMetrics), (ComponentAIAnalysis, PortMetrics), (ComponentKubernautAgent, PortMetrics)]
     @ (if APIFrontendEnabled (kn_Spec kn) then [(ComponentAPIFrontend, api_frontend_metrics_port kn)] else [])
     @ (if FleetMetadataCacheEnabled (kn_Spec kn) then [(ComponentFleetMetadataCache, PortMetrics)] else [])
     @ [(ComponentSignalProcessing, PortMetrics), (ComponentRemediationOrchestrator, PortMetrics),
        (ComponentWorkflowExecution, PortMetrics), (ComponentEffectivenessMonitor, PortMetrics),
        (ComponentNotification, PortMetrics)]"
proof -
  have "ComponentDataStorage \<noteq> ComponentGateway" "ComponentAIAnalysis \<noteq> ComponentGateway"
    "ComponentKubernautAgent \<noteq> ComponentGateway" by simp_all
  then show ?thesis
    by (simp add: Services_def MetricsServices_def apiServices_def metricsServiceDefinitions_def buildService_def
        authWebhookService_def apiFrontendService_def FleetMetadataCacheService_def ServicePort_def Let_def
        api_frontend_metrics_port_def)
qed

lemma generatedMetricsPorts_iff:
  "map_of (generatedMetricsPorts kn kn) c = Some p \<longleftrightarrow>
     c \<in> set (ActiveComponents kn kn) - {ComponentAuthWebhook} \<and>
     p = (if c = ComponentAPIFrontend then api_frontend_metrics_port kn else PortMetrics)"
proof -
  let ?es = "concat (map metrics_entries (Services kn kn @ MetricsServices kn))"
  have "distinct (map fst ?es)" unfolding all_metrics_entries by simp
  then have "distinct (map fst (rev ?es))" by (metis distinct_rev rev_map)
  then have "map_of (generatedMetricsPorts kn kn) c = Some p \<longleftrightarrow> (c, p) \<in> set ?es"
    by (simp only: generatedMetricsPorts_def map_of_fold_gput map_of.simps(1) empty_map_add map_of_eq_Some_iff set_rev)
  also have "\<dots> \<longleftrightarrow> c \<in> set (ActiveComponents kn kn) - {ComponentAuthWebhook} \<and>
     p = (if c = ComponentAPIFrontend then api_frontend_metrics_port kn else PortMetrics)"
    unfolding all_metrics_entries
    by (auto simp: ActiveComponents_iff AllComponents_def isComponentActive_switch)
  finally show ?thesis .
qed

text \<open>Metrics ports are authorised exactly for what is deployed and serves metrics: a component has
  one just when it is active and is not the admission webhook, and it is 9090, or the
  configured one for the API frontend.\<close>

lemma generatedMetricsPorts_correct:
  "map_of (generatedMetricsPorts kn kn) c = Some p \<longleftrightarrow>
     c \<in> set (ActiveComponents kn kn) - {ComponentAuthWebhook} \<and>
     p = (if c = ComponentAPIFrontend then api_frontend_metrics_port kn else PortMetrics)"
  by (fact generatedMetricsPorts_iff)

lemma gput_distinct: "distinct (map fst m) \<Longrightarrow> distinct (map fst (gput k v m))"
  by (induction m) (auto simp: gput_def)

lemma fold_gput_distinct: "distinct (map fst m) \<Longrightarrow> distinct (map fst (fold (\<lambda>(k, v) m. gput k v m) es m))"
  by (induction es arbitrary: m) (auto simp: gput_distinct)

lemma generatedMetricsPorts_range:
  assumes "1 \<le> api_frontend_metrics_port kn" and "api_frontend_metrics_port kn \<le> 65535"
    and "(c, p) \<in> set (generatedMetricsPorts kn kn)"
  shows "1 \<le> p \<and> p \<le> 65535"
proof -
  have "distinct (map fst (generatedMetricsPorts kn kn))"
    unfolding generatedMetricsPorts_def by (rule fold_gput_distinct) simp
  with assms(3) have "map_of (generatedMetricsPorts kn kn) c = Some p" by simp
  with assms(1,2) show ?thesis by (auto simp: generatedMetricsPorts_iff PortMetrics_def split: if_splits)
qed

end
