(* ===== verification/Go_Net.thy ===== *)
theory Go_Net
  imports Kube_Prelude
begin

text \<open>
  The part of Go's standard library \<^verbatim>\<open>net\<close> that network policies and certificates rely on: when
  \<^verbatim>\<open>net.ParseCIDR\<close> and \<^verbatim>\<open>net.ParseIP\<close> accept a string. It is the published algorithm of \<^verbatim>\<open>netip.ParseAddr\<close>: four decimal
  fields without leading zeros, or up to eight hexadecimal fields with at most one ellipsis and
  an optional trailing IPv4 part; then a prefix length of at most 32 or 128. A zone is refused.
\<close>

definition is_digit :: "char \<Rightarrow> bool" where
  "is_digit c \<longleftrightarrow> (let n = of_char c :: nat in 48 \<le> n \<and> n \<le> 57)"

definition digit_value :: "char \<Rightarrow> nat" where
  "digit_value c = of_char c - 48"

definition is_hex :: "char \<Rightarrow> bool" where
  "is_hex c \<longleftrightarrow> is_digit c \<or> (let n = of_char c :: nat in 97 \<le> n \<and> n \<le> 102 \<or> 65 \<le> n \<and> n \<le> 70)"

definition decimal :: "string \<Rightarrow> nat" where
  "decimal s = foldl (\<lambda>n c. 10 * n + digit_value c) 0 s"

fun split_on :: "char \<Rightarrow> string \<Rightarrow> string list" where
  "split_on d [] = [[]]"
| "split_on d (c # cs) = (if c = d then [] # split_on d cs
     else case split_on d cs of (f # fs) \<Rightarrow> (c # f) # fs | [] \<Rightarrow> [[c]])"

text \<open>A decimal field: one to three digits, no leading zero, at most 255.\<close>

definition v4_field :: "string \<Rightarrow> bool" where
  "v4_field f \<longleftrightarrow> f \<noteq> [] \<and> list_all is_digit f \<and> (hd f = CHR ''0'' \<longrightarrow> length f = 1) \<and> decimal f \<le> 255"

definition v4_addr :: "string \<Rightarrow> bool" where
  "v4_addr s \<longleftrightarrow> length (split_on CHR ''.'' s) = 4 \<and> list_all v4_field (split_on CHR ''.'' s)"

text \<open>The loop over the fields: \<open>i\<close> bytes are filled, \<open>ell\<close> says whether an ellipsis was seen. Every turn
  fills two bytes, so the bytes left decrease. The result is the final \<open>i\<close> and \<open>ell\<close>.\<close>

function v6_fields :: "nat \<Rightarrow> bool \<Rightarrow> string \<Rightarrow> (nat \<times> bool) option" where
  "v6_fields i ell s =
     (if 16 \<le> i then (if s = [] then Some (i, ell) else None)
      else let f = takeWhile is_hex s; rest = dropWhile is_hex s in
        if f = [] \<or> 4 < length f then None
        else case rest of
          [] \<Rightarrow> Some (i + 2, ell)
        | c # cs \<Rightarrow>
           (if c = CHR ''.'' then
              (if \<not> ell \<and> i \<noteq> 12 then None else if 16 < i + 4 then None
               else if v4_addr s then Some (i + 4, ell) else None)
            else if c \<noteq> CHR '':'' then None
            else case cs of
              [] \<Rightarrow> None
            | d # ds \<Rightarrow>
               (if d = CHR '':'' then
                  (if ell then None else if ds = [] then Some (i + 2, True) else v6_fields (i + 2) True ds)
                else v6_fields (i + 2) ell (d # ds))))"
  by pat_completeness auto
termination by (relation "measure (\<lambda>(i, _, _). 16 - i)") auto

declare v6_fields.simps [simp del]

definition v6_addr :: "string \<Rightarrow> bool" where
  "v6_addr s \<longleftrightarrow> CHR ''%'' \<notin> set s \<and>
     (let lead = (take 2 s = ''::''); body = (if lead then drop 2 s else s) in
      if lead \<and> body = [] then True
      else case v6_fields 0 lead body of
        None \<Rightarrow> False
      | Some (i, ell) \<Rightarrow> (if i < 16 then ell else \<not> ell))"

text \<open>\<^verbatim>\<open>dtoi\<close>: decimal digits only, below \<^verbatim>\<open>0xFFFFFF\<close>.\<close>

definition prefix_length :: "string \<Rightarrow> nat option" where
  "prefix_length m = (if m \<noteq> [] \<and> list_all is_digit m \<and> decimal m < 0xFFFFFF then Some (decimal m) else None)"

definition ParseCIDR_ok :: "string \<Rightarrow> bool" where
  "ParseCIDR_ok s =
     (let addr = takeWhile (\<lambda>c. c \<noteq> CHR ''/'') s; rest = dropWhile (\<lambda>c. c \<noteq> CHR ''/'') s in
      if rest = [] then False
      else case (find (\<lambda>c. c = CHR ''.'' \<or> c = CHR '':'' \<or> c = CHR ''%'') addr, prefix_length (tl rest)) of
        (Some c, Some n) \<Rightarrow>
          (if c = CHR ''.'' then v4_addr addr \<and> n \<le> 32
           else if c = CHR '':'' then v6_addr addr \<and> n \<le> 128 else False)
      | _ \<Rightarrow> False)"

text \<open>\<^verbatim>\<open>net.ParseIP(s) != nil\<close>.\<close>

definition ParseIP_ok :: "string \<Rightarrow> bool" where
  "ParseIP_ok s =
     (case find (\<lambda>c. c = CHR ''.'' \<or> c = CHR '':'' \<or> c = CHR ''%'') s of
        None \<Rightarrow> False
      | Some c \<Rightarrow> (if c = CHR ''.'' then v4_addr s else if c = CHR '':'' then v6_addr s else False))"

lemma ParseCIDR_has_slash: "ParseCIDR_ok s \<Longrightarrow> CHR ''/'' \<in> set s"
  by (auto simp: ParseCIDR_ok_def Let_def split: if_splits dest: set_dropWhileD)

end
