(* ===== verification/Pods.thy ===== *)
theory Pods
  imports Serving Go_Net
begin

text \<open>
  Pieces of pod templates shared by the workloads: security contexts, volumes and mounts
  (\<^verbatim>\<open>PodSecurityContext\<close>, \<^verbatim>\<open>ContainerSecurityContext\<close>, \<^verbatim>\<open>InterServiceTLSCAVolume\<close>,
  \<^verbatim>\<open>InterServiceTLSCAMount\<close> of \<^verbatim>\<open>internal/resources/common.go\<close>, \<^verbatim>\<open>configMapVolume\<close> of
  \<^verbatim>\<open>internal/resources/deployments.go\<close>), with the two functions of Go's package \<^verbatim>\<open>path\<close> they use.
\<close>

subsection \<open>Slash-separated paths\<close>

text \<open>\<^verbatim>\<open>path.Clean\<close> drops empty and dot elements and lets a dot-dot element remove the one before it;
  the accumulator holds the elements kept so far, latest first.\<close>

fun clean_elements :: "bool \<Rightarrow> string list \<Rightarrow> string list \<Rightarrow> string list" where
  "clean_elements rooted [] kept = rev kept"
| "clean_elements rooted (e # es) kept =
     (if e = '''' \<or> e = ''.'' then clean_elements rooted es kept
      else if e = ''..'' then
        (case kept of
           [] \<Rightarrow> clean_elements rooted es (if rooted then [] else [''..''])
         | k # ks \<Rightarrow> clean_elements rooted es (if k = ''..'' then ''..'' # kept else ks))
      else clean_elements rooted es (e # kept))"

definition path_Clean :: "string \<Rightarrow> string" where
  "path_Clean p =
     (let rooted = has_prefix p ''/'';
          s = (if rooted then ''/'' else '''') @ join_strings ''/'' (clean_elements rooted (split_on CHR ''/'' p) [])
      in if s = '''' then ''.'' else s)"

definition path_Dir :: "string \<Rightarrow> string" where
  "path_Dir p = path_Clean (rev (dropWhile (\<lambda>c. c \<noteq> CHR ''/'') (rev p)))"

definition path_Base :: "string \<Rightarrow> string" where
  "path_Base p =
     (if p = '''' then ''.''
      else let trimmed = dropWhile (\<lambda>c. c = CHR ''/'') (rev p);
               base = rev (takeWhile (\<lambda>c. c \<noteq> CHR ''/'') trimmed)
           in if base = '''' then ''/'' else base)"

lemma path_examples:
  "path_Dir ''/etc/tls-ca/ca.crt'' = ''/etc/tls-ca''" "path_Base ''/etc/tls-ca/ca.crt'' = ''ca.crt''"
  "path_Dir ''/a//b/../c/x'' = ''/a/c''" "path_Dir ''x'' = ''.''" "path_Base ''/'' = ''/''"
  by (simp_all add: path_Dir_def path_Base_def path_Clean_def Let_def)

subsection \<open>Security contexts\<close>

definition PodSecurityContext :: pod_security_context where
  "PodSecurityContext = \<lparr>podSecurity_RunAsNonRoot = Some True, podSecurity_SeccompProfile = ''RuntimeDefault''\<rparr>"

definition ContainerSecurityContext :: security_context where
  "ContainerSecurityContext = \<lparr>security_AllowPrivilegeEscalation = Some False,
     security_ReadOnlyRootFilesystem = Some True, security_Drop = [''ALL''], security_RunAsNonRoot = None, security_SeccompProfile = ''''\<rparr>"

text \<open>What the restricted Pod Security Standard asks of these fields.\<close>

definition restricted_pod :: "pod_spec \<Rightarrow> bool" where
  "restricted_pod p \<longleftrightarrow> podSecurity_RunAsNonRoot (pod_SecurityContext p) = Some True \<and>
     podSecurity_SeccompProfile (pod_SecurityContext p) = ''RuntimeDefault'' \<and>
     list_all (\<lambda>c. security_AllowPrivilegeEscalation (container_SecurityContext c) = Some False \<and>
       ''ALL'' \<in> set (security_Drop (container_SecurityContext c))) (pod_InitContainers p @ pod_Containers p)"

subsection \<open>Volumes\<close>

definition TrustBundleConfigMapName :: string where "TrustBundleConfigMapName = ''inter-service-trust-bundle''"

definition configMapVolume :: "string \<Rightarrow> string \<Rightarrow> volume" where
  "configMapVolume name cmName = \<lparr>volume_Name = name, volume_Source = ConfigMapVolumeSource cmName [] None\<rparr>"

definition secretVolume :: "string \<Rightarrow> string \<Rightarrow> volume" where
  "secretVolume name secretName = \<lparr>volume_Name = name, volume_Source = SecretVolumeSource secretName [] None\<rparr>"

definition InterServiceTLSCADirFor :: "Kubernaut \<Rightarrow> string" where
  "InterServiceTLSCADirFor kn = path_Dir (InterServiceTLSCAFileFor kn)"

definition InterServiceTLSCAVolume :: "Kubernaut \<Rightarrow> volume" where
  "InterServiceTLSCAVolume kn =
     (let caPath = path_Base (InterServiceTLSCAFileFor kn);
          manual = [\<lparr>item_Key = ''ca.crt'', item_Path = caPath\<rparr>];
          cm = ConfigMapVolumeSource InterServiceCAConfigMapName manual None
      in \<lparr>volume_Name = ''tls-ca'', volume_Source =
           (if tlsConfig_Mode (kn_TLS kn) = TLSModeManual
            then (case tlsConfig_Manual (kn_TLS kn) of
                    Some cfg \<Rightarrow> (if manualTLSConfig_InternalCASecretName cfg \<noteq> ''''
                                 then SecretVolumeSource (manualTLSConfig_InternalCASecretName cfg) manual None else cm)
                  | None \<Rightarrow> cm)
            else ConfigMapVolumeSource TrustBundleConfigMapName
                   [\<lparr>item_Key = InterServiceTLSCAKeyFor kn, item_Path = caPath\<rparr>] (Some True))\<rparr>)"

definition InterServiceTLSCAMount :: "Kubernaut \<Rightarrow> volume_mount" where
  "InterServiceTLSCAMount kn = \<lparr>mount_Name = ''tls-ca'', mount_MountPath = InterServiceTLSCADirFor kn, mount_SubPath = '''', mount_ReadOnly = True\<rparr>"

text \<open>Every mount of a container names a volume of its pod.\<close>

definition mounts_resolved :: "pod_spec \<Rightarrow> bool" where
  "mounts_resolved p \<longleftrightarrow> list_all (\<lambda>c. list_all (\<lambda>m. mount_Name m \<in> set (map volume_Name (pod_Volumes p)))
     (container_VolumeMounts c)) (pod_InitContainers p @ pod_Containers p)"

lemma InterServiceTLSCAVolume_name [simp]: "volume_Name (InterServiceTLSCAVolume kn) = ''tls-ca''"
  by (simp add: InterServiceTLSCAVolume_def Let_def)

end
