(* ===== verification/Write_Safety.thy ===== *)
theory Write_Safety
  imports Ensure
begin

text \<open>
  The safety of writes, as an invariant of the trace of calls. \<open>guarded ok\<close> says of a whole trace
  that every update and every delete in it was pinned when it was sent: the trace before it
  holds a read of the object, the object passed \<open>ok\<close>, and the call carries the resource version
  that was read (a delete carries the UID too, since it is sent for the very object read).
\<close>

subsection \<open>Guarded traces\<close>

definition addresses :: "kobj \<Rightarrow> string \<Rightarrow> key \<Rightarrow> kobj \<Rightarrow> bool" where
  "addresses x kind k y \<longleftrightarrow>
     (obj_Kind x = kind \<and> obj_key x = k) \<or> (obj_Kind x = obj_Kind y \<and> obj_key x = obj_key y)"

definition pinned :: "(kobj \<Rightarrow> bool) \<Rightarrow> call \<Rightarrow> call list \<Rightarrow> bool" where
  "pinned ok c tr =
     (case c of
        UpdateCall x \<Rightarrow> (\<exists>kind k y. Read kind k y \<in> set tr \<and> addresses x kind k y \<and> obj_RV x = obj_RV y \<and> ok y)
      | DeleteCall x \<Rightarrow> (\<exists>kind k. Read kind k x \<in> set tr) \<and> ok x
      | _ \<Rightarrow> True)"

fun guarded :: "(kobj \<Rightarrow> bool) \<Rightarrow> call list \<Rightarrow> bool" where
  "guarded ok [] = True"
| "guarded ok (c # tr) = (pinned ok c tr \<and> guarded ok tr)"

lemma pinned_simps [simp]:
  "pinned ok (Read kind k x) tr" "pinned ok (CreateCall x) tr" "pinned ok (UpdateKnCall kn) tr"
  "pinned ok (PatchStatusCall kn kn') tr"
  by (simp_all add: pinned_def)

lemma guarded_reads [simp]:
  "guarded ok (reads_of kind k r @ tr) = guarded ok tr"
  "guarded ok (map (\<lambda>x. Read kind (obj_key x) x) xs @ tr) = guarded ok tr"
  by (simp add: reads_of_def split: sum.splits) (induction xs, simp_all)

lemma pinned_mono: "(\<And>y. ok y \<Longrightarrow> ok' y) \<Longrightarrow> pinned ok c tr \<Longrightarrow> pinned ok' c tr"
  unfolding pinned_def by (cases c) (simp_all, blast)

lemma guarded_mono: "(\<And>y. ok y \<Longrightarrow> ok' y) \<Longrightarrow> guarded ok tr \<Longrightarrow> guarded ok' tr"
  by (induction tr) (auto intro: pinned_mono)

lemma guarded_member:
  "guarded ok tr \<Longrightarrow> DeleteCall x \<in> set tr \<Longrightarrow> ok x"
  by (induction tr) (auto simp: pinned_def)

lemma guarded_delete_read:
  "guarded ok tr \<Longrightarrow> DeleteCall x \<in> set tr \<Longrightarrow> \<exists>kind k. Read kind k x \<in> set tr"
proof (induction tr)
  case (Cons c tr)
  show ?case
  proof (cases "c = DeleteCall x")
    case True
    with Cons.prems(1) have "\<exists>kind k. Read kind k x \<in> set tr" unfolding pinned_def guarded.simps by simp
    then show ?thesis by (metis list.set_intros(2))
  next
    case False
    with Cons.prems have "\<exists>kind k. Read kind k x \<in> set tr" using Cons.IH by simp
    then show ?thesis by (metis list.set_intros(2))
  qed
qed simp

subsection \<open>The instance and its objects\<close>

text \<open>The API server does not change the identity of a resource: namespace, name and UID of what
  comes back from a write are those of what went in.\<close>

definition identity_stable :: "'s env \<Rightarrow> bool" where
  "identity_stable E \<longleftrightarrow>
     (\<forall>s old new kn s'. e_patchStatusKn E s old new = (Inr kn, s') \<longrightarrow> ident kn = ident old) \<and>
     (\<forall>s old kn s'. e_updateKn E s old = (Inr kn, s') \<longrightarrow> ident kn = ident old) \<and>
     (\<forall>s k kn s'. e_getKn E s k = (Inr kn, s') \<longrightarrow> k = (kn_Namespace kn, kn_Name kn))"

definition mine :: "'s env \<Rightarrow> string \<times> string \<times> string \<Rightarrow> kobj \<Rightarrow> bool" where
  "mine E me x \<longleftrightarrow> (\<exists>kn. ident kn = me \<and> owned E kn x True)"

lemma owned_any: "owned E kn x co \<Longrightarrow> owned E kn x True"
  by (auto simp: owned_def)

lemma mineI: "ident kn = me \<Longrightarrow> ResourceOwnershipError E kn x co = None \<Longrightarrow> mine E me x"
  unfolding mine_def by (metis gate_iff owned_any)

lemma mine_iff: "ident kn = me \<Longrightarrow> mine E me x \<longleftrightarrow> owned E kn x True"
  unfolding mine_def by (metis owned_ident)

text \<open>The invariant of a run for an instance, relative to what else may be written.\<close>

definition safe :: "(kobj \<Rightarrow> bool) \<Rightarrow> string \<times> string \<times> string \<Rightarrow> 's world \<Rightarrow> bool" where
  "safe ok me w \<longleftrightarrow> ident (w_kn w) = me \<and> guarded ok (w_trace w)"

definition seen :: "string \<Rightarrow> key \<Rightarrow> kobj \<Rightarrow> 's world \<Rightarrow> bool" where
  "seen kind k x w \<longleftrightarrow> Read kind k x \<in> set (w_trace w)"

subsection \<open>Primitive calls\<close>

lemma safe_Get: "triple (safe ok me) (Get E kind k)
    (\<lambda>r w. safe ok me w \<and> (\<forall>x. r = Inr x \<longrightarrow> seen kind k x w))"
  by (rule tripleI) (auto simp: call_defs safe_def seen_def reads_of_def split: prod.splits sum.splits)

lemma safe_OwnershipGet: "triple (safe ok me) (OwnershipGet E kind k)
    (\<lambda>r w. safe ok me w \<and> (\<forall>x. r = Inr x \<longrightarrow> seen kind k x w))"
  by (rule tripleI) (auto simp: call_defs safe_def seen_def reads_of_def split: prod.splits sum.splits)

lemma safe_ListObjs: "triple (safe ok me) (ListObjs E kind ns sel)
    (\<lambda>r w. safe ok me w \<and> (\<forall>xs. r = Inr xs \<longrightarrow> (\<forall>x \<in> set xs. seen kind (obj_key x) x w)))"
  by (rule tripleI) (auto simp: call_defs safe_def seen_def split: prod.splits sum.splits)

lemmas safe_reads [triple_rules] = safe_Get [THEN keeps_of_triple]
  safe_OwnershipGet [THEN keeps_of_triple] safe_ListObjs [THEN keeps_of_triple]

lemma safe_Create [triple_rules]: "keeps (safe ok me) (Create E x)"
  unfolding keeps_def by (rule tripleI) (auto simp: call_defs safe_def split: prod.splits)

lemma safe_the_kn [triple_rules]: "keeps (safe ok me) the_kn"
  unfolding keeps_def by (rule tripleI) (auto simp: call_defs)

lemma safe_Eventf [triple_rules]: "keeps (safe ok me) (Eventf t r)"
  unfolding keeps_def by (rule tripleI) (auto simp: call_defs safe_def)

lemma safe_Update: "triple (\<lambda>w. safe ok me w \<and> seen kind k y w \<and> addresses x kind k y \<and> obj_RV x = obj_RV y \<and> ok y)
    (Update E x) (\<lambda>r. safe ok me)"
proof (rule tripleI)
  fix w r w'
  assume P: "safe ok me w \<and> seen kind k y w \<and> addresses x kind k y \<and> obj_RV x = obj_RV y \<and> ok y"
    and run: "run_state (Update E x) w = (r, w')"
  from P have "pinned ok (UpdateCall x) (w_trace w)"
    unfolding pinned_def call.case seen_def by blast
  with P run show "safe ok me w'" by (auto simp: call_defs safe_def split: prod.splits)
qed

lemma safe_delete: "triple (\<lambda>w. safe ok me w \<and> seen kind k x w \<and> ok x)
    (deleteObservedResource E x) (\<lambda>r. safe ok me)"
proof (rule tripleI)
  fix w r w'
  assume P: "safe ok me w \<and> seen kind k x w \<and> ok x"
    and run: "run_state (deleteObservedResource E x) w = (r, w')"
  from P have "pinned ok (DeleteCall x) (w_trace w)"
    unfolding pinned_def call.case seen_def by blast
  with P run show "safe ok me w'" by (auto simp: call_defs safe_def split: prod.splits)
qed

lemma identity_stable_patch:
  "identity_stable E \<Longrightarrow> e_patchStatusKn E s old new = (Inr kn, s') \<Longrightarrow> ident kn = ident old"
  unfolding identity_stable_def by blast

lemma safe_patchStatus [triple_rules]: "identity_stable E \<Longrightarrow> keeps (safe ok me) (patchStatus E f)"
  unfolding keeps_def
  by (rule tripleI) (auto simp: run_patchStatus safe_def dest: identity_stable_patch split: prod.splits sum.splits)

lemma safe_setConditionAndRequeue [triple_rules]:
  "identity_stable E \<Longrightarrow> keeps (safe ok me) (setConditionAndRequeue E t r m)"
  unfolding setConditionAndRequeue_def by (intro triple_rules)

lemma safe_reportOwnershipConflict [triple_rules]: "keeps (safe ok me) (reportOwnershipConflict x e)"
  unfolding reportOwnershipConflict_def by (intro triple_rules)

text \<open>Reading on: a later call may rely on what was seen earlier.\<close>

lemma seen_Get: "triple (\<lambda>w. safe ok me w \<and> seen kind k x w) the_kn
    (\<lambda>kn w. safe ok me w \<and> seen kind k x w \<and> ident kn = me)"
  by (rule tripleI) (auto simp: call_defs safe_def seen_def)

lemma safe_checkResourceOwnership:
  assumes "identity_stable E"
  shows "triple (\<lambda>w. safe ok me w \<and> seen kind k x w) (checkResourceOwnership E x co)
    (\<lambda>r w. safe ok me w \<and> (r = None \<longrightarrow> seen kind k x w \<and> mine E me x))"
  unfolding checkResourceOwnership_def
proof (rule triple_bind [OF seen_Get])
  fix kn
  let ?Q = "\<lambda>r w. safe ok me w \<and> (r = None \<longrightarrow> seen kind k x w \<and> mine E me x)"
  let ?P = "\<lambda>w. safe ok me w \<and> seen kind k x w \<and> ident kn = me"
  show "triple ?P
     (case ResourceOwnershipError E kn x co of
        None \<Rightarrow> State_Monad.return None
      | Some err \<Rightarrow> do {
          conflict \<leftarrow> reportOwnershipConflict x err;
          (if meta_DeletionTimestamp (kn_ObjectMeta kn) = None \<and> meta_ResourceVersion (kn_ObjectMeta kn) \<noteq> ''''
           then do {
             _ \<leftarrow> patchStatus E (\<lambda>kn. set_condition E ConditionServicesDeployed ConditionFalse
                    ''OwnershipConflict'' (error_text conflict) (setPhase PhaseError kn));
             State_Monad.return (Some conflict) }
           else State_Monad.return (Some conflict)) }) ?Q"
  proof (intro triple_case_option triple_return)
    fix w assume "?P w" and "ResourceOwnershipError E kn x co = None"
    then show "?Q None w" by (auto intro: mineI)
  next
    fix err
    show "triple ?P (do {
          conflict \<leftarrow> reportOwnershipConflict x err;
          (if meta_DeletionTimestamp (kn_ObjectMeta kn) = None \<and> meta_ResourceVersion (kn_ObjectMeta kn) \<noteq> ''''
           then do {
             _ \<leftarrow> patchStatus E (\<lambda>kn. set_condition E ConditionServicesDeployed ConditionFalse
                    ''OwnershipConflict'' (error_text conflict) (setPhase PhaseError kn));
             State_Monad.return (Some conflict) }
           else State_Monad.return (Some conflict)) }) ?Q"
      by (rule triple_bind [where R = "\<lambda>_. safe ok me"], rule triple_keeps, intro triple_rules, simp,
          rule triple_if, rule triple_bind [where R = "\<lambda>_. safe ok me"], rule triple_keeps)
        (intro triple_rules assms, simp_all add: triple_return)
  qed
qed

subsection \<open>Create or update\<close>

lemma preserveServiceFields_sels [simp]:
  "obj_Kind (preserveServiceFields d x) = obj_Kind d" "obj_key (preserveServiceFields d x) = obj_key d"
  "obj_RV (preserveServiceFields d x) = obj_RV d" "obj_Owners (preserveServiceFields d x) = obj_Owners d"
  by (simp_all add: preserveServiceFields_def set_labels_def set_annotations_def obj_key_def split: body.splits)

lemma addressesI: "obj_Kind x = kind \<Longrightarrow> obj_key x = k \<Longrightarrow> addresses x kind k y"
  by (simp add: addresses_def)

lemma triple_seen_mine:
  "(\<And>y. mine E me y \<Longrightarrow> ok y) \<Longrightarrow>
   triple (\<lambda>w. safe ok me w \<and> seen kind k y w \<and> ok y) m Q \<Longrightarrow>
   triple (\<lambda>w. safe ok me w \<and> (None = None \<longrightarrow> seen kind k y w \<and> mine E me y)) m Q"
  by (erule triple_conseq) auto

lemma safe_ensureExisting:
  assumes "identity_stable E" and "\<And>y. mine E me y \<Longrightarrow> ok y" and "obj_Kind x = kind" and "obj_key x = k"
  shows "triple (\<lambda>w. safe ok me w \<and> seen kind k existing w) (ensureExisting E x h existing) (\<lambda>_. safe ok me)"
  unfolding ensureExisting_def
proof (rule triple_bind [OF safe_checkResourceOwnership [OF assms(1)]], rule triple_case_option)
  fix r assume r: "r = None"
  let ?u = "preserveServiceFields (set_rv (obj_RV existing) x) existing"
  have upd: "triple (\<lambda>w. safe ok me w \<and> seen kind k existing w \<and> ok existing) (Update E ?u) (\<lambda>_. safe ok me)"
    by (rule triple_conseq [OF safe_Update [where y = existing]]) (auto intro!: addressesI simp: assms)
  show "triple (\<lambda>w. safe ok me w \<and> (r = None \<longrightarrow> seen kind k existing w \<and> mine E me existing))
     (if up_to_date x h existing then State_Monad.return (Inr (False, x))
      else do {
        u \<leftarrow> Update E ?u;
        (case u of Inl e \<Rightarrow> State_Monad.return (Inl (Wrap ''updating'' (API e)))
         | Inr y \<Rightarrow> State_Monad.return (Inr (True, y))) }) (\<lambda>_. safe ok me)"
    unfolding r
    by (rule triple_seen_mine [OF assms(2)], assumption)
      (intro triple_if triple_return triple_bind [OF upd] triple_case_sum, simp_all)
qed (simp add: triple_return)

lemma safe_createOrReadExisting:
  "triple (safe ok me) (createOrReadExisting E x)
     (\<lambda>r w. safe ok me w \<and> (\<forall>y. r = Inr (Inr y) \<longrightarrow> seen (obj_Kind x) (obj_key x) y w))"
  unfolding createOrReadExisting_def
  by (rule triple_bind [OF safe_Create [unfolded keeps_def]])
    (intro triple_case_sum triple_if triple_return triple_bind [OF safe_OwnershipGet], simp_all)

lemma stamped_desired_sels [simp]:
  "obj_Kind (stamped_desired E kn x) = obj_Kind x" "obj_key (stamped_desired E kn x) = obj_key x"
  "obj_Owners (stamped_desired E kn x) = obj_Owners x"
  by (simp_all add: stamped_desired_def setHashAnnotation_def Let_def)

lemma safe_ensureResourceChanged [triple_rules]:
  assumes "identity_stable E" and "\<And>y. mine E me y \<Longrightarrow> ok y"
  shows "keeps (safe ok me) (ensureResourceChanged E x)"
proof -
  have existing: "triple (\<lambda>w. safe ok me w \<and> seen (obj_Kind x) (obj_key x) y w)
      (ensureExisting E (stamped_desired E kn x) h y) (\<lambda>_. safe ok me)" for kn h y
    by (rule safe_ensureExisting [OF assms]) simp_all
  show ?thesis
    unfolding keeps_def ensureResourceChanged_def Let_def stamped_desired_sels
    by (rule triple_bind [OF safe_the_kn [unfolded keeps_def]], rule triple_bind [OF safe_Get],
        intro triple_case_sum triple_if triple_return triple_bind_from [OF safe_createOrReadExisting])
      (auto intro!: triple_strengthen [OF existing])
qed

lemma safe_ensure [triple_rules]:
  assumes "identity_stable E" and "\<And>y. mine E me y \<Longrightarrow> ok y"
  shows "keeps (safe ok me) (ensureResource E x)" "keeps (safe ok me) (ensureUnowned E x)"
    "keeps (safe ok me) (ensureNamespacedChanged E x)" "keeps (safe ok me) (ensureNamespaced E x)"
  unfolding ensureResource_def ensureUnowned_def ensureNamespaced_def ensureNamespacedChanged_def
  by (intro triple_rules assms; assumption?)+

subsection \<open>Create if absent\<close>

lemma safe_repairExisting:
  assumes "identity_stable E" and "\<And>y. mine E me y \<Longrightarrow> ok y"
  shows "triple (\<lambda>w. safe ok me w \<and> seen kind k existing w) (repairExisting E desired existing) (\<lambda>_. safe ok me)"
  unfolding repairExisting_def
proof (rule triple_bind [OF safe_checkResourceOwnership [OF assms(1)]], rule triple_case_option)
  fix r assume r: "r = None"
  let ?u = "\<lambda>kn. StampOwnership kn (set_owners (obj_Owners desired) existing)"
  have upd: "triple (\<lambda>w. (safe ok me w \<and> seen kind k existing w \<and> ident kn = me) \<and> ok existing)
      (Update E (?u kn)) (\<lambda>_. safe ok me)" for kn
    by (rule triple_conseq [OF safe_Update [where y = existing]]) (auto simp: addresses_def)
  have kn: "triple (\<lambda>w. safe ok me w \<and> seen kind k existing w \<and> ok existing) the_kn
      (\<lambda>kn w. (safe ok me w \<and> seen kind k existing w \<and> ident kn = me) \<and> ok existing)"
    using seen_Get [of ok me kind k existing] by (auto simp: triple_def)
  show "triple (\<lambda>w. safe ok me w \<and> (r = None \<longrightarrow> seen kind k existing w \<and> mine E me existing))
     (if ownershipMetadataMatches desired existing then State_Monad.return (Inr (Inr existing))
      else do {
        kn \<leftarrow> the_kn;
        u \<leftarrow> Update E (?u kn);
        (case u of
           Inl e \<Rightarrow> State_Monad.return (Inl (Wrap ''repairing migration ownership'' (API e)))
         | Inr y \<Rightarrow> State_Monad.return (Inr (Inr y))) }) (\<lambda>_. safe ok me)"
    unfolding r
    by (rule triple_seen_mine [OF assms(2)], assumption)
      (intro triple_if triple_return triple_bind [OF kn] triple_bind [OF upd] triple_case_sum, simp_all)
qed (simp add: triple_return)

lemma safe_createIfNotFound [triple_rules]:
  assumes "identity_stable E" and "\<And>y. mine E me y \<Longrightarrow> ok y"
  shows "keeps (safe ok me) (createIfNotFound E x)"
  unfolding keeps_def createIfNotFound_def Let_def
  by (rule triple_bind [OF safe_the_kn [unfolded keeps_def]],
      intro triple_case_sum triple_if triple_return triple_bind_from [OF safe_Get]
        triple_bind_from [OF safe_createOrReadExisting])
    (auto intro!: triple_strengthen [OF safe_repairExisting [OF assms]])

subsection \<open>Deletion and pruning\<close>

lemma seen_report: "triple (\<lambda>w. safe ok me w \<and> seen kind k live w \<and> ident kn = me)
    (reportOwnershipConflict live e) (\<lambda>_. safe ok me)"
  by (rule triple_keeps [OF safe_reportOwnershipConflict]) simp

lemma read_the_kn:
  fixes live :: kobj
  shows "triple (\<lambda>w. safe ok me w \<and> (\<forall>y. (Inr live :: api_error + kobj) = Inr y \<longrightarrow> seen kind k y w)) the_kn
    (\<lambda>kn w. safe ok me w \<and> seen kind k live w \<and> ident kn = me)"
  by (rule triple_strengthen [OF seen_Get]) simp

lemma safe_deleteIfExists [triple_rules]:
  assumes "\<And>y. mine E me y \<Longrightarrow> ok y"
  shows "keeps (safe ok me) (deleteIfExists E x)"
proof -
  let ?K = "obj_Kind x" and ?k = "obj_key x"
  have del: "triple (\<lambda>w. safe ok me w \<and> seen ?K ?k live w \<and> ident kn = me)
      (deleteObservedResource E live) (\<lambda>_. safe ok me)"
    if "ResourceOwnershipError E kn live co = None" for kn live co
    by (rule triple_conseq [OF safe_delete [of ok me ?K ?k]]) (auto intro: assms mineI [OF _ that])
  show ?thesis
    unfolding keeps_def deleteIfExists_def
    by (rule triple_bind_sum [OF safe_OwnershipGet];
        intro triple_case_option triple_if triple_return triple_bind [OF seen_report]
          triple_bind [OF del] triple_bind [OF read_the_kn]) auto
qed

lemma safe_prune [triple_rules]:
  assumes "\<And>y. mine E me y \<Longrightarrow> ok y"
  shows "keeps (safe ok me) (pruneUndesired E kind live names)"
    "keeps (safe ok me) (pruneUndesiredNamespaced E kind live keys)"
    "keeps (safe ok me) (pruneOrphanedCoreClusterRBAC E crs crbs)"
    "keeps (safe ok me) (pruneOrphanedMCPGatewayNamespaceRBAC E roles rbs)"
  unfolding pruneUndesired_def pruneUndesiredNamespaced_def pruneOrphanedCoreClusterRBAC_def
    pruneOrphanedMCPGatewayNamespaceRBAC_def
  by (intro triple_rules assms; assumption?)+

subsection \<open>Lists of objects read earlier\<close>

definition all_seen :: "string \<Rightarrow> kobj list \<Rightarrow> 's world \<Rightarrow> bool" where
  "all_seen kind xs w \<longleftrightarrow> (\<forall>x \<in> set xs. seen kind (obj_key x) x w)"

lemma keeps_all_seen:
  assumes "triple (\<lambda>w. safe ok me w \<and> all_seen kind xs w) m (\<lambda>_. safe ok me)" and "emits (\<lambda>_. True) m"
  shows "keeps (\<lambda>w. safe ok me w \<and> all_seen kind xs w) m"
  unfolding keeps_def
proof (rule tripleI)
  fix w a w'
  assume P: "safe ok me w \<and> all_seen kind xs w" and run: "run_state m w = (a, w')"
  obtain cs where "w_trace w' = cs @ w_trace w" using emitsD [OF assms(2) run] by auto
  with P have "all_seen kind xs w'" by (auto simp: all_seen_def seen_def)
  with tripleD [OF assms(1) P run] show "safe ok me w' \<and> all_seen kind xs w'" by simp
qed

lemma safe_list_then:
  assumes "\<And>e. keeps (safe ok me) (f e)"
    and "\<And>xs. triple (\<lambda>w. safe ok me w \<and> all_seen kind xs w) (g xs) (\<lambda>_. safe ok me)"
  shows "keeps (safe ok me) (do { r \<leftarrow> ListObjs E kind ns sel; (case r of Inl e \<Rightarrow> f e | Inr xs \<Rightarrow> g xs) })"
  unfolding keeps_def
  by (rule triple_bind_sum [OF safe_ListObjs];
      rule triple_strengthen [OF assms(1) [unfolded keeps_def]] triple_strengthen [OF assms(2)])
    (auto simp: all_seen_def)

text \<open>\<^verbatim>\<open>controllerutil.SetControllerReference\<close> writes owner references and nothing else.\<close>

definition sets_only_owners :: "'s env \<Rightarrow> bool" where
  "sets_only_owners E \<longleftrightarrow> (\<forall>kn x y. e_setControllerReference E kn x = Inr y \<longrightarrow> (\<exists>refs. y = set_owners refs x))"

lemma sets_only_ownersD:
  assumes "sets_only_owners E" and "e_setControllerReference E kn x = Inr y"
  shows "obj_Kind y = obj_Kind x" "obj_key y = obj_key x" "obj_Labels y = obj_Labels x" "obj_Body y = obj_Body x"
  using assms unfolding sets_only_owners_def by fastforce+

text \<open>A program that starts by looking at the resource may rely on its identity.\<close>

lemma safe_with_kn:
  assumes "\<And>kn. ident kn = me \<Longrightarrow> keeps (safe ok me) (f kn)"
  shows "keeps (safe ok me) (State_Monad.bind the_kn f)"
  unfolding keeps_def
proof (rule tripleI)
  fix w a w'
  assume P: "safe ok me w" and run: "run_state (State_Monad.bind the_kn f) w = (a, w')"
  then have "run_state (f (w_kn w)) w = (a, w')" by (simp add: call_defs)
  moreover have "keeps (safe ok me) (f (w_kn w))" using P assms by (simp add: safe_def)
  ultimately show "safe ok me w'" using P keepsD by (metis snd_conv)
qed

subsection \<open>The sample server meets the assumptions\<close>

lemma sample_identity_stable: "identity_stable sample_env"
  by (auto simp: identity_stable_def sample_patchStatusKn_def sample_updateKn_def sample_getKn_def ident_def Let_def
      api_fail_def find_Some_iff split: option.splits)

lemma sample_sets_only_owners: "sets_only_owners sample_env"
  by (auto simp: sets_only_owners_def sample_setControllerReference_def split: if_splits)

end
