(* ===== verification/Ensure_Behaviour.thy ===== *)
theory Ensure_Behaviour
  imports Write_Safety Sample_Cluster
begin

text \<open>
  What the write operations do: every branch of \<^verbatim>\<open>ensureResourceChanged\<close> and
  \<^verbatim>\<open>deleteIfExists\<close> as one equation on runs, refusal, convergence (a second run finds nothing to
  write), what an update keeps of a live Service, and completeness of pruning.
\<close>

subsection \<open>Runs of the parts\<close>

lemma run_Get: "e_get E (w_cluster w) kind k = (r, s) \<Longrightarrow>
  run_state (Get E kind k) w = (r, w\<lparr>w_cluster := s, w_trace := reads_of kind k r @ w_trace w\<rparr>)"
  by (simp add: call_defs)

lemma run_checkResourceOwnership_ok:
  "ResourceOwnershipError E (w_kn w) x co = None \<Longrightarrow> run_state (checkResourceOwnership E x co) w = (None, w)"
  by (simp add: checkResourceOwnership_def call_defs)

text \<open>What a refusal may do besides failing: record an event and patch the status.\<close>

fun is_status_patch :: "call \<Rightarrow> bool" where
  "is_status_patch (PatchStatusCall kn kn') = True"
| "is_status_patch c = False"

fun is_write :: "call \<Rightarrow> bool" where
  "is_write (CreateCall x) = True"
| "is_write (UpdateCall x) = True"
| "is_write (DeleteCall x) = True"
| "is_write c = False"

lemma run_checkResourceOwnership_refused:
  assumes "ResourceOwnershipError E (w_kn w) x co = Some e"
  shows "\<exists>cs err w'. run_state (checkResourceOwnership E x co) w = (Some err, w') \<and>
     is_ownership_conflict err \<and> w_trace w' = cs @ w_trace w \<and> list_all is_status_patch cs \<and>
     \<lparr>event_Type = Warning, event_Reason = ''OwnershipConflict''\<rparr> \<in> set (w_events w')"
  using assms ResourceOwnershipError_conflict [OF assms]
  by (auto simp: checkResourceOwnership_def reportOwnershipConflict_def call_defs run_patchStatus
      split: prod.splits sum.splits)

lemma run_ensureExisting_refused:
  assumes "ResourceOwnershipError E (w_kn w) existing (e_hasController E x) = Some e"
  shows "\<exists>cs err w'. run_state (ensureExisting E x h existing) w = (Inl err, w') \<and>
     is_ownership_conflict err \<and> w_trace w' = cs @ w_trace w \<and> list_all is_status_patch cs"
  using run_checkResourceOwnership_refused [OF assms] by (auto simp: ensureExisting_def)

lemma run_ensureExisting_accepted:
  assumes "ResourceOwnershipError E (w_kn w) existing (e_hasController E x) = None"
  shows "run_state (ensureExisting E x h existing) w =
    (if up_to_date x h existing then (Inr (False, x), w)
     else let sent = preserveServiceFields (set_rv (obj_RV existing) x) existing
          in case e_update E (w_cluster w) sent of
               (Inl e, s) \<Rightarrow> (Inl (Wrap ''updating'' (API e)), w\<lparr>w_cluster := s, w_trace := UpdateCall sent # w_trace w\<rparr>)
             | (Inr y, s) \<Rightarrow> (Inr (True, y), w\<lparr>w_cluster := s, w_trace := UpdateCall sent # w_trace w\<rparr>))"
  using run_checkResourceOwnership_ok [OF assms]
  by (simp add: ensureExisting_def call_defs Let_def split: prod.splits sum.splits)

lemma run_ensureResourceChanged_found:
  assumes "e_get E (w_cluster w) (obj_Kind x) (obj_key x) = (Inr existing, s)"
  shows "run_state (ensureResourceChanged E x) w =
    run_state (ensureExisting E (stamped_desired E (w_kn w) x) (SpecHash E (StampOwnership (w_kn w) x)) existing)
      (w\<lparr>w_cluster := s, w_trace := Read (obj_Kind x) (obj_key x) existing # w_trace w\<rparr>)"
  using assms by (simp add: ensureResourceChanged_def call_defs reads_of_def Let_def)

lemma run_ensureResourceChanged_absent:
  assumes "e_get E (w_cluster w) (obj_Kind x) (obj_key x) = (Inl e, s)"
  shows "run_state (ensureResourceChanged E x) w =
    (let d = stamped_desired E (w_kn w) x in
     if \<not> IsNotFound e then (Inl (Wrap ''getting'' (API e)), w\<lparr>w_cluster := s\<rparr>)
     else case e_create E s d of
       (Inr y, s') \<Rightarrow> (Inr (True, y), w\<lparr>w_cluster := s', w_trace := CreateCall d # w_trace w\<rparr>)
     | (Inl e', s') \<Rightarrow>
        (if \<not> IsAlreadyExists e' then (Inl (API e'), w\<lparr>w_cluster := s', w_trace := CreateCall d # w_trace w\<rparr>)
         else case e_apiGet E s' (obj_Kind x) (obj_key x) of
           (Inl e'', s'') \<Rightarrow> (Inl (Wrap ''getting after AlreadyExists'' (API e'')),
              w\<lparr>w_cluster := s'', w_trace := CreateCall d # w_trace w\<rparr>)
         | (Inr ex, s'') \<Rightarrow> run_state (ensureExisting E d (SpecHash E (StampOwnership (w_kn w) x)) ex)
              (w\<lparr>w_cluster := s'', w_trace := Read (obj_Kind x) (obj_key x) ex # CreateCall d # w_trace w\<rparr>)))"
  using assms
  by (simp add: ensureResourceChanged_def createOrReadExisting_def call_defs reads_of_def Let_def
      split: prod.splits sum.splits)

subsection \<open>Refusal\<close>

lemma ensure_refused:
  assumes "e_get E (w_cluster w) (obj_Kind x) (obj_key x) = (Inr existing, s)"
    and "ResourceOwnershipError E (w_kn w) existing (e_hasController E (stamped_desired E (w_kn w) x)) \<noteq> None"
  shows "\<exists>cs err w'. run_state (ensureResourceChanged E x) w = (Inl err, w') \<and> is_ownership_conflict err \<and>
     w_trace w' = cs @ w_trace w \<and> list_all (\<lambda>c. \<not> is_write c) cs"
proof -
  let ?w = "w\<lparr>w_cluster := s, w_trace := Read (obj_Kind x) (obj_key x) existing # w_trace w\<rparr>"
  obtain e where "ResourceOwnershipError E (w_kn ?w) existing (e_hasController E (stamped_desired E (w_kn w) x)) = Some e"
    using assms(2) by auto
  from run_ensureExisting_refused [OF this, of "SpecHash E (StampOwnership (w_kn w) x)"]
  obtain cs err w' where run: "run_state (ensureResourceChanged E x) w = (Inl err, w')"
    and "is_ownership_conflict err" and tr: "w_trace w' = cs @ w_trace ?w" and cs: "list_all is_status_patch cs"
    using run_ensureResourceChanged_found [OF assms(1)] by auto
  moreover have "w_trace w' = (cs @ [Read (obj_Kind x) (obj_key x) existing]) @ w_trace w" using tr by simp
  moreover have "list_all (\<lambda>c. \<not> is_write c) cs"
    using cs by (rule list.pred_mono_strong) (auto elim: is_status_patch.elims)
  then have "list_all (\<lambda>c. \<not> is_write c) (cs @ [Read (obj_Kind x) (obj_key x) existing])" by simp
  ultimately show ?thesis by blast
qed

text \<open>C5: Create-or-update never touches an object it does not own: when the live object fails the
  ownership gate, the run ends with an ownership conflict and sends no create, update or
  delete.\<close>

theorem ensureResourceChanged_refuses_foreign:
  assumes "e_get E (w_cluster w) (obj_Kind x) (obj_key x) = (Inr existing, s)"
    and "\<not> owned E (w_kn w) existing (e_hasController E (stamped_desired E (w_kn w) x))"
  shows "\<exists>cs err w'. run_state (ensureResourceChanged E x) w = (Inl err, w') \<and> is_ownership_conflict err \<and>
     w_trace w' = cs @ w_trace w \<and> list_all (\<lambda>c. \<not> is_write c) cs"
  using ensure_refused [OF assms(1)] assms(2) by (simp add: gate_iff)

theorem ensureResourceChanged_refuses_foreign_witness:
  "\<exists>cs err w'. run_state (ensureResourceChanged sample_env (sample_object ''ConfigMap'' ''c'' (ConfigMapBody [] [])))
      (sample_world [sample_object ''ConfigMap'' ''c'' (ConfigMapBody [] [])]) = (Inl err, w') \<and>
     is_ownership_conflict err \<and> w_trace w' = cs \<and> list_all (\<lambda>c. \<not> is_write c) cs"
  using ensureResourceChanged_refuses_foreign [of sample_env
      "sample_world [sample_object ''ConfigMap'' ''c'' (ConfigMapBody [] [])]"
      "sample_object ''ConfigMap'' ''c'' (ConfigMapBody [] [])"]
  by (simp add: sample_get_def is_at_def owned_def marker_complete_def ownershipLabelKeys_def)

subsection \<open>What an update keeps of a live Service\<close>

lemma ownedServicePort_idem [simp]: "ownedServicePort (ownedServicePort p) = ownedServicePort p"
  by (simp add: ownedServicePort_def)

lemma ownedServicePorts_idem [simp]: "map ownedServicePort (map ownedServicePort ps) = map ownedServicePort ps"
  by simp

lemma ownedServiceSpec_preserved: "ownedServiceSpec (preserveServiceSpec d e) = ownedServiceSpec d"
  by (simp add: preserveServiceSpec_def ownedServiceSpec_def Let_def comp_def)

lemma preserved_allocations:
  "service_ClusterIP (preserveServiceSpec d e) = service_ClusterIP e"
  "service_ClusterIPs (preserveServiceSpec d e) = service_ClusterIPs e"
  "service_IPFamilies (preserveServiceSpec d e) = service_IPFamilies e"
  by (simp_all add: preserveServiceSpec_def Let_def)

text \<open>Updating a Service sends the operator's own fields and keeps the server's: the update
  has the desired owned part, so the drift it repairs is gone, the live cluster IPs and IP families,
  and every label and annotation the operator does not set, but for the serving-certificate
  annotation, which goes unless it is desired.\<close>

lemma preserveServiceFields_merges:
  assumes "obj_Body desired = ServiceBody d" and "obj_Body existing = ServiceBody e"
  shows "\<not> contentDrifted desired (preserveServiceFields desired existing) \<and>
    (\<exists>s. obj_Body (preserveServiceFields desired existing) = ServiceBody s \<and>
       service_ClusterIP s = service_ClusterIP e \<and> service_ClusterIPs s = service_ClusterIPs e \<and>
       service_IPFamilies s = service_IPFamilies e) \<and>
    obj_Labels (preserveServiceFields desired existing) = obj_Labels existing ++ obj_Labels desired \<and>
    (\<forall>k. obj_Annotations (preserveServiceFields desired existing) k =
       (case obj_Annotations desired k of
          Some v \<Rightarrow> Some v
        | None \<Rightarrow> if k = OCPServingCertAnnotation then None else obj_Annotations existing k))"
  using assms
  by (simp add: preserveServiceFields_def contentDrifted_def ownedServiceSpec_preserved
      preserved_allocations map_add_def object_setters split: option.splits)

lemma preserveServiceFields_merges_example:
  "\<not> contentDrifted (sample_object ''Service'' ''gateway'' (ServiceBody (zero_service_spec\<lparr>service_Type := ''ClusterIP''\<rparr>)))
     (preserveServiceFields
       (sample_object ''Service'' ''gateway'' (ServiceBody (zero_service_spec\<lparr>service_Type := ''ClusterIP''\<rparr>)))
       (sample_object ''Service'' ''gateway'' (ServiceBody (zero_service_spec\<lparr>service_Type := ''NodePort'', service_ClusterIP := ''10.0.0.7''\<rparr>))))"
  using preserveServiceFields_merges [of
      "sample_object ''Service'' ''gateway'' (ServiceBody (zero_service_spec\<lparr>service_Type := ''ClusterIP''\<rparr>))" _
      "sample_object ''Service'' ''gateway'' (ServiceBody (zero_service_spec\<lparr>service_Type := ''NodePort'', service_ClusterIP := ''10.0.0.7''\<rparr>))"]
  by (simp add: sample_object_def)

subsection \<open>Convergence\<close>

text \<open>What the operator put into an object, as a later read returns it: the same content, whatever
  resource version and UID the server assigned.\<close>

definition same_content :: "kobj \<Rightarrow> kobj \<Rightarrow> bool" where
  "same_content x y \<longleftrightarrow> obj_Kind x = obj_Kind y \<and> obj_key x = obj_key y \<and> obj_Labels x = obj_Labels y \<and>
     obj_Annotations x = obj_Annotations y \<and> obj_Owners x = obj_Owners y \<and> obj_Body x = obj_Body y \<and>
     meta_DeletionTimestamp (obj_Meta x) = meta_DeletionTimestamp (obj_Meta y)"

fun written :: "call \<Rightarrow> kobj option" where
  "written (CreateCall x) = Some x"
| "written (UpdateCall x) = Some x"
| "written c = None"

text \<open>The maps of a Go object have no duplicate keys.\<close>

fun go_body :: "body \<Rightarrow> bool" where
  "go_body (ConfigMapBody data binary) = (distinct (map fst data) \<and> distinct (map fst binary))"
| "go_body b = True"

lemma contentDrifted_refl: "go_body (obj_Body x) \<Longrightarrow> obj_Body y = obj_Body x \<Longrightarrow> \<not> contentDrifted x y"
  by (auto simp: contentDrifted_def gget_def mget_def list_ex_iff split: body.splits)

lemma contentDrifted_same_body:
  "obj_Body y = obj_Body y' \<Longrightarrow> contentDrifted x y = contentDrifted x y'"
  "obj_Body x = obj_Body x' \<Longrightarrow> contentDrifted x y = contentDrifted x' y"
  by (simp_all add: contentDrifted_def split: body.split)

lemma preserved_not_drifted:
  "go_body (obj_Body x) \<Longrightarrow> \<not> contentDrifted x (preserveServiceFields (set_rv v x) y)"
  by (cases "obj_Body x"; cases "obj_Body y")
    (auto simp: preserveServiceFields_def contentDrifted_def ownedServiceSpec_preserved object_setters
      gget_def mget_def list_ex_iff)

lemma preserved_desired_annotation:
  "obj_Annotations x k = Some v \<Longrightarrow> obj_Annotations (preserveServiceFields x y) k = Some v"
  by (simp add: preserveServiceFields_def map_add_def object_setters split: body.splits)

lemma preserved_desired_label:
  "obj_Labels x k = Some v \<Longrightarrow> obj_Labels (preserveServiceFields x y) k = Some v"
  by (simp add: preserveServiceFields_def map_add_def object_setters split: body.splits)

lemma stamped_desired_annotations:
  "obj_Annotations (stamped_desired E kn x) AnnotationSpecHash = Some (SpecHash E (StampOwnership kn x))"
  "obj_Annotations (stamped_desired E kn x) AnnotationOwnerNamespace = Some (kn_Namespace kn)"
  "obj_Annotations (stamped_desired E kn x) AnnotationOwnerUID = Some (kn_UID kn)"
  by (simp_all add: stamped_desired_def setHashAnnotation_def Let_def)

lemma stamped_desired_labels:
  "k \<in> set ownershipLabelKeys \<Longrightarrow> obj_Labels (stamped_desired E kn x) k = CommonLabels kn k"
  by (auto simp: stamped_desired_def setHashAnnotation_def Let_def ownershipLabelKeys_def)

text \<open>An object as this instance writes it.\<close>

definition bears_stamp :: "'s env \<Rightarrow> Kubernaut \<Rightarrow> kobj \<Rightarrow> kobj \<Rightarrow> bool" where
  "bears_stamp E kn x z \<longleftrightarrow>
     (\<forall>k \<in> {AnnotationSpecHash, AnnotationOwnerNamespace, AnnotationOwnerUID}.
        obj_Annotations z k = obj_Annotations (stamped_desired E kn x) k) \<and>
     (\<forall>k \<in> set ownershipLabelKeys. obj_Labels z k = CommonLabels kn k) \<and>
     obj_Owners z = obj_Owners x \<and> \<not> contentDrifted (stamped_desired E kn x) z"

lemma bears_stamp_up_to_date:
  "bears_stamp E kn x z \<Longrightarrow> up_to_date (stamped_desired E kn x) (SpecHash E (StampOwnership kn x)) z"
  by (auto simp: bears_stamp_def up_to_date_def ownershipMetadataMatches_def mget_def list_all_iff
      stamped_desired_annotations stamped_desired_labels)

lemma bears_stamp_same_content: "same_content z y \<Longrightarrow> bears_stamp E kn x z = bears_stamp E kn x y"
  by (auto simp: bears_stamp_def same_content_def contentDrifted_same_body(1) [of z y])

lemma stamped_desired_body [simp]:
  "obj_Body (stamped_desired E kn x) = obj_Body x"
  "obj_Namespace (stamped_desired E kn x) = obj_Namespace x"
  "meta_DeletionTimestamp (obj_Meta (stamped_desired E kn x)) = meta_DeletionTimestamp (obj_Meta x)"
  by (simp_all add: stamped_desired_def setHashAnnotation_def Let_def)

lemma sent_bears_stamp:
  assumes "go_body (obj_Body x)"
  shows "bears_stamp E kn x (stamped_desired E kn x)"
    and "bears_stamp E kn x (preserveServiceFields (set_rv v (stamped_desired E kn x)) y)"
proof -
  let ?d = "stamped_desired E kn x"
  have "obj_Labels (preserveServiceFields (set_rv v ?d) y) k = CommonLabels kn k"
    if k: "k \<in> set ownershipLabelKeys" for k
  proof -
    obtain l where "CommonLabels kn k = Some l" using k by (auto simp: ownershipLabelKeys_def)
    then show ?thesis
      using k preserved_desired_label [of "set_rv v ?d" k] by (simp add: stamped_desired_labels)
  qed
  then show "bears_stamp E kn x ?d" "bears_stamp E kn x (preserveServiceFields (set_rv v ?d) y)"
    using assms preserved_not_drifted [of ?d v y] contentDrifted_refl [of ?d ?d]
    by (auto simp: bears_stamp_def stamped_desired_annotations stamped_desired_labels
        intro!: preserved_desired_annotation)
qed

lemma preserved_terminating [simp]:
  "meta_DeletionTimestamp (obj_Meta (preserveServiceFields x y)) = meta_DeletionTimestamp (obj_Meta x)"
  "obj_Namespace (preserveServiceFields x y) = obj_Namespace x"
  by (simp_all add: preserveServiceFields_def object_setters split: body.splits)

definition own_reference :: "'s env \<Rightarrow> Kubernaut \<Rightarrow> kobj \<Rightarrow> bool" where
  "own_reference E kn x \<longleftrightarrow> obj_Owners x = [] \<or>
     (e_hasController E (stamped_desired E kn x) \<and> obj_Namespace x = kn_Namespace kn \<and>
      (\<exists>ref. obj_Owners x = [ref] \<and> controller_reference_to E kn ref))"

lemma bears_stamp_owned:
  assumes "bears_stamp E kn x z" and "kn_Namespace kn \<noteq> ''''" and "\<not> obj_terminating z"
    and "obj_key z = obj_key x" and "own_reference E kn x"
  shows "owned E kn z (e_hasController E (stamped_desired E kn x))"
proof -
  have "marker_consistent kn z" "marker_complete z"
    using assms by (auto simp: marker_consistent_def marker_complete_def bears_stamp_def mget_def
        stamped_desired_annotations ownershipLabelKeys_def)
  with assms show ?thesis
    by (auto simp: owned_def own_reference_def bears_stamp_def controller_ref_def controller_reference_to_def
        mget_def stamped_desired_annotations obj_key_def)
qed

lemma ensure_changed_sent:
  assumes "run_state (ensureResourceChanged E x) w = (Inr (True, y), w')" and "go_body (obj_Body x)"
  shows "w_kn w' = w_kn w \<and> (\<exists>c tr z. w_trace w' = c # tr \<and> written c = Some z \<and> bears_stamp E (w_kn w) x z \<and>
     obj_key z = obj_key x \<and> obj_terminating z = obj_terminating x)"
proof -
  let ?d = "stamped_desired E (w_kn w) x" and ?h = "SpecHash E (StampOwnership (w_kn w) x)"
  have existing: "w_kn w' = w_kn v \<and> (\<exists>c tr z. w_trace w' = c # tr \<and> written c = Some z \<and> bears_stamp E (w_kn w) x z \<and>
     obj_key z = obj_key x \<and> obj_terminating z = obj_terminating x)"
    if run: "run_state (ensureExisting E ?d ?h ex) v = (Inr (True, y), w')" for v ex
  proof (cases "ResourceOwnershipError E (w_kn v) ex (e_hasController E ?d)")
    case None
    then show ?thesis
      using run sent_bears_stamp(2) [OF assms(2)]
      by (auto simp: run_ensureExisting_accepted Let_def split: if_splits prod.splits sum.splits)
  next
    case (Some e)
    then show ?thesis using run run_ensureExisting_refused [OF Some, of ?h] by auto
  qed
  obtain r s where get: "e_get E (w_cluster w) (obj_Kind x) (obj_key x) = (r, s)" by fastforce
  show ?thesis
  proof (cases r)
    case (Inr ex)
    with assms(1) get have "run_state (ensureExisting E ?d ?h ex)
        (w\<lparr>w_cluster := s, w_trace := Read (obj_Kind x) (obj_key x) ex # w_trace w\<rparr>) = (Inr (True, y), w')"
      by (simp add: run_ensureResourceChanged_found)
    from existing [OF this] show ?thesis by simp
  next
    case (Inl e)
    with assms(1) get consider (created) s' where "w' = w\<lparr>w_cluster := s', w_trace := CreateCall ?d # w_trace w\<rparr>"
      | (raced) ex s' where "run_state (ensureExisting E ?d ?h ex) (w\<lparr>w_cluster := s',
          w_trace := Read (obj_Kind x) (obj_key x) ex # CreateCall ?d # w_trace w\<rparr>) = (Inr (True, y), w')"
      by (auto simp: run_ensureResourceChanged_absent Let_def split: if_splits prod.splits sum.splits)
    then show ?thesis
    proof cases
      case created
      then show ?thesis using sent_bears_stamp(1) [OF assms(2)] by simp
    next
      case raced
      from existing [OF this] show ?thesis by simp
    qed
  qed
qed

text \<open>C8: Create-or-update converges: when a run wrote something and the next read of the object
  returns the content that was sent, a second run for the same desired object sends nothing. It reads
  the object, finds the hash, the ownership marker and the content in place, and reports no
  change.\<close>

theorem ensureResourceChanged_converges:
  assumes "run_state (ensureResourceChanged E x) w = (Inr (True, y), w1)"
    and "go_body (obj_Body x)" and "own_reference E (w_kn w) x" and "kn_Namespace (w_kn w) \<noteq> ''''"
    and "\<not> obj_terminating x"
    and "w_trace w1 = c # tr" and "written c = Some sent"
    and "e_get E (w_cluster w1) (obj_Kind x) (obj_key x) = (Inr z, s)" and "same_content z sent"
  shows "run_state (ensureResourceChanged E x) w1 = (Inr (False, stamped_desired E (w_kn w) x),
    w1\<lparr>w_cluster := s, w_trace := Read (obj_Kind x) (obj_key x) z # w_trace w1\<rparr>)"
proof -
  from ensure_changed_sent [OF assms(1,2)] assms(6,7)
  have kn: "w_kn w1 = w_kn w" and stamp: "bears_stamp E (w_kn w) x sent"
    and key: "obj_key sent = obj_key x" "obj_terminating sent = obj_terminating x" by auto
  then have z: "bears_stamp E (w_kn w) x z" "obj_key z = obj_key x" "\<not> obj_terminating z"
    using assms(5,9) bears_stamp_same_content [OF assms(9)] by (auto simp: same_content_def)
  have "owned E (w_kn w) z (e_hasController E (stamped_desired E (w_kn w) x))"
    using z assms(3,4) by (auto intro: bears_stamp_owned)
  then show ?thesis
    using assms(8) kn bears_stamp_up_to_date [OF z(1)]
    by (simp add: run_ensureResourceChanged_found run_ensureExisting_accepted gate_iff)
qed

definition sample_config :: kobj where
  "sample_config = sample_object ''ConfigMap'' ''gateway-config'' (ConfigMapBody [(''config.yaml'', ''a: 1'')] [])"

lemmas ensure_defs = ensureResourceChanged_def createOrReadExisting_def ensureExisting_def
  stamped_desired_def setHashAnnotation_def SpecHash_def stripServerMetadata_def StampOwnership_def CommonLabels_def

theorem ensureResourceChanged_converges_witness:
  "fst (run_state (ensureResourceChanged sample_env sample_config)
      (snd (run_state (ensureResourceChanged sample_env sample_config) (sample_world []))))
    = Inr (False, stamped_desired sample_env sample_kn sample_config)"
proof -
  let ?d = "stamped_desired sample_env sample_kn sample_config"
  let ?y = "stamp_meta 0 ?d"
  let ?s = "\<lparr>cl_objects = [?y], cl_clock = Suc 0, cl_kubernauts = [sample_kn]\<rparr>"
  have get: "e_get sample_env (w_cluster (sample_world [])) (obj_Kind sample_config) (obj_key sample_config) =
      (Inl (APIError NotFound ''failed''), w_cluster (sample_world []))"
    by (simp add: sample_get_def api_fail_def)
  have first: "run_state (ensureResourceChanged sample_env sample_config) (sample_world []) =
      (Inr (True, ?y), sample_world []\<lparr>w_cluster := ?s, w_trace := [CreateCall ?d]\<rparr>)"
    unfolding run_ensureResourceChanged_absent [OF get] by (simp add: IsNotFound_def sample_create_def Let_def)
  show ?thesis
    unfolding first using ensureResourceChanged_converges [OF first,
        where z = ?y and s = ?s and c = "CreateCall ?d" and tr = "[]" and sent = ?d]
    by (simp add: own_reference_def sample_config_def same_content_def sample_get_def is_at_def)
qed

subsection \<open>Deletion\<close>

lemma run_deleteIfExists:
  "run_state (deleteIfExists E x) w =
    (case e_apiGet E (w_cluster w) (obj_Kind x) (obj_key x) of
       (Inl e, s) \<Rightarrow> (if IsNotFound e then None else Some (Wrap ''reading resource for deletion'' (API e)), w\<lparr>w_cluster := s\<rparr>)
     | (Inr live, s) \<Rightarrow>
        (let v = w\<lparr>w_cluster := s, w_trace := Read (obj_Kind x) (obj_key x) live # w_trace w\<rparr> in
         if ResourceOwnershipError E (w_kn w) live (obj_Namespace live \<noteq> '''' \<and> obj_Namespace live = kn_Namespace (w_kn w)) \<noteq> None
         then (None, v\<lparr>w_events := \<lparr>event_Type = Warning, event_Reason = ''OwnershipConflict''\<rparr> # w_events w\<rparr>)
         else case e_delete E s live of
             (d, s') \<Rightarrow> ((case d of None \<Rightarrow> None | Some e \<Rightarrow> if IsNotFound e then None else Some (Wrap ''deleting resource'' (API e))),
                 v\<lparr>w_cluster := s', w_trace := DeleteCall live # w_trace v\<rparr>)))"
  by (simp add: deleteIfExists_def reportOwnershipConflict_def call_defs reads_of_def Let_def
      split: prod.splits sum.splits option.splits)

text \<open>Guarded deletion succeeds in exactly three ways: the object was gone, it was not this
  instance's and was left alone with an event and no delete, or a delete was sent for the very
  object read and the server carried it out or found it gone. Any other answer of the server is
  returned as an error.\<close>

lemma deleteIfExists_outcomes:
  "fst (run_state (deleteIfExists E x) w) = None \<longleftrightarrow>
    (case e_apiGet E (w_cluster w) (obj_Kind x) (obj_key x) of
       (Inl e, s) \<Rightarrow> IsNotFound e
     | (Inr live, s) \<Rightarrow>
        (if owned E (w_kn w) live (obj_Namespace live \<noteq> '''' \<and> obj_Namespace live = kn_Namespace (w_kn w))
         then (DeleteCall live \<in> set (w_trace (snd (run_state (deleteIfExists E x) w))) \<and>
               (case fst (e_delete E s live) of None \<Rightarrow> True | Some e \<Rightarrow> IsNotFound e))
         else w_trace (snd (run_state (deleteIfExists E x) w)) = Read (obj_Kind x) (obj_key x) live # w_trace w \<and>
              \<lparr>event_Type = Warning, event_Reason = ''OwnershipConflict''\<rparr>
                \<in> set (w_events (snd (run_state (deleteIfExists E x) w)))))"
  unfolding gate_iff [symmetric]
  by (simp add: run_deleteIfExists Let_def split: prod.splits sum.splits option.splits)

subsection \<open>Pruning\<close>

lemma emits_reportOwnershipConflict [emits_rules]: "emits P (reportOwnershipConflict x e)"
  unfolding reportOwnershipConflict_def by (intro emits_rules)

lemma emits_deleteIfExists [emits_rules]:
  "(\<And>y. P (Read (obj_Kind x) (obj_key x) y)) \<Longrightarrow> (\<And>y. P (DeleteCall y)) \<Longrightarrow> emits P (deleteIfExists E x)"
  unfolding deleteIfExists_def by (intro emits_rules)

fun reads_one_of :: "kobj list \<Rightarrow> call \<Rightarrow> bool" where
  "reads_one_of xs (Read kind k y) = (\<exists>x \<in> set xs. kind = obj_Kind x \<and> k = obj_key x)"
| "reads_one_of xs (DeleteCall y) = True"
| "reads_one_of xs c = False"

lemma emits_pruneUndesired:
  "emits (reads_one_of (filter (\<lambda>x. obj_Name x \<notin> set names) live)) (pruneUndesired E kind live names)"
  unfolding pruneUndesired_def by (intro emits_rules) auto

text \<open>Pruning removes only what it may: of the objects listed, a run from a fresh trace reads
  only those not desired any more, deletes only objects it read, each owned by this instance when
  it was read, and creates and updates nothing.\<close>

lemma pruneUndesired_safe:
  assumes "w_trace w = []" and "run_state (pruneUndesired E kind live names) w = (errs, w')"
    and "c \<in> set (w_trace w')"
  shows "(\<exists>x \<in> set live. obj_Name x \<notin> set names \<and> (\<exists>y. c = Read (obj_Kind x) (obj_key x) y)) \<or>
    (\<exists>y. c = DeleteCall y \<and> owned E (w_kn w) y True \<and>
       (\<exists>x \<in> set live. obj_Name x \<notin> set names \<and> Read (obj_Kind x) (obj_key x) y \<in> set (w_trace w')))"
proof -
  let ?me = "ident (w_kn w)" and ?xs = "filter (\<lambda>x. obj_Name x \<notin> set names) live"
  have only: "\<forall>c \<in> set (w_trace w'). reads_one_of ?xs c"
    using emitsD [OF emits_pruneUndesired assms(2)] assms(1) by (auto simp: list_all_iff)
  have "safe (mine E ?me) ?me w" by (simp add: safe_def assms(1))
  from keepsD [OF safe_prune(1) [of E ?me "mine E ?me" kind live names] this]
  have guarded: "guarded (mine E ?me) (w_trace w')" using assms(2) by (auto simp: safe_def)
  show ?thesis
  proof (cases c)
    case (DeleteCall y)
    with assms(3) have y: "DeleteCall y \<in> set (w_trace w')" by simp
    then have "owned E (w_kn w) y True" using guarded_member [OF guarded] by (simp add: mine_iff)
    moreover obtain kind k where "Read kind k y \<in> set (w_trace w')" using guarded_delete_read [OF guarded y] by blast
    with only have "\<exists>x \<in> set live. obj_Name x \<notin> set names \<and> Read (obj_Kind x) (obj_key x) y \<in> set (w_trace w')"
      by fastforce
    ultimately show ?thesis using DeleteCall by blast
  qed (use only assms(3) in fastforce)+
qed

definition stale_role :: kobj where
  "stale_role = stamp_meta 0 (StampOwnership sample_kn (sample_object ''ClusterRole'' ''stale'' (OpaqueBody ''rules'')))"

lemma stale_role_sels [simp]:
  "obj_Kind stale_role = ''ClusterRole''" "obj_key stale_role = (''kubernaut-system'', ''stale'')"
  "obj_Name stale_role = ''stale''" "obj_Namespace stale_role = ''kubernaut-system''"
  by (simp_all add: stale_role_def obj_key_def)

lemma stale_role_accepted: "ResourceOwnershipError sample_env sample_kn stale_role co = None"
  by (simp add: gate_iff owned_def stale_role_def marker_consistent_def marker_complete_def ownershipLabelKeys_def)

lemma pruneUndesired_safe_example:
  "owned sample_env sample_kn stale_role True"
  using pruneUndesired_safe [of "sample_world [stale_role]" sample_env "''ClusterRole''" "[stale_role]" "[''kept'']" "[]"
      "snd (run_state (pruneUndesired sample_env ''ClusterRole'' [stale_role] [''kept'']) (sample_world [stale_role]))"
      "DeleteCall stale_role"]
  by (simp add: pruneUndesired_def run_deleteIfExists sample_get_def sample_delete_def is_at_def same_place_def
      stale_role_accepted error_list_def Let_def)

subsection \<open>Which calls create-or-update can make\<close>

lemma emits_patchStatus [emits_rules]: "(\<And>kn kn'. P (PatchStatusCall kn kn')) \<Longrightarrow> emits P (patchStatus E f)"
  by (simp add: emits_def run_patchStatus split: prod.splits sum.splits)

lemma emits_checkResourceOwnership [emits_rules]:
  "(\<And>kn kn'. P (PatchStatusCall kn kn')) \<Longrightarrow> emits P (checkResourceOwnership E x co)"
  unfolding checkResourceOwnership_def by (intro emits_rules; assumption)

text \<open>The calls that concern one object: reads of it, writes to it, and patches of the status.\<close>

definition concerns :: "string \<Rightarrow> key \<Rightarrow> call \<Rightarrow> bool" where
  "concerns kind k c = (case c of
     Read kind' k' x \<Rightarrow> kind' = kind \<and> k' = k
   | CreateCall x \<Rightarrow> obj_Kind x = kind \<and> obj_key x = k
   | UpdateCall x \<Rightarrow> obj_Kind x = kind \<and> obj_key x = k
   | DeleteCall x \<Rightarrow> False
   | UpdateKnCall kn \<Rightarrow> False
   | PatchStatusCall kn kn' \<Rightarrow> True)"

lemma emits_ensureExisting:
  "obj_Kind x = kind \<Longrightarrow> obj_key x = k \<Longrightarrow> emits (concerns kind k) (ensureExisting E x h ex)"
  unfolding ensureExisting_def by (intro emits_rules) (simp_all add: concerns_def)

lemma emits_ensureResourceChanged:
  "emits (concerns (obj_Kind x) (obj_key x)) (ensureResourceChanged E x)"
  unfolding ensureResourceChanged_def createOrReadExisting_def Let_def
  by (intro emits_rules emits_ensureExisting) (simp_all add: concerns_def)

lemma emits_ensureUnowned: "emits (concerns (obj_Kind x) (obj_key x)) (ensureUnowned E x)"
  unfolding ensureUnowned_def ensureResource_def by (intro emits_rules emits_ensureResourceChanged)

end
