(* ===== verification/Go_Crypto.thy ===== *)
theory Go_Crypto
  imports Kube_Prelude
begin

unbundle bit_operations_syntax

text \<open>
  SHA-256 as \<^verbatim>\<open>crypto/sha256\<close> computes it (\<^verbatim>\<open>Sum256\<close>), and the \<^verbatim>\<open>%x\<close> format of its result. Words are kept at their
  width: the additions of the compression function wrap at 32 bits.
\<close>

definition sha256_K :: "32 word list" where
  "sha256_K =
     [0x428A2F98, 0x71374491, 0xB5C0FBCF, 0xE9B5DBA5, 0x3956C25B, 0x59F111F1, 0x923F82A4, 0xAB1C5ED5,
      0xD807AA98, 0x12835B01, 0x243185BE, 0x550C7DC3, 0x72BE5D74, 0x80DEB1FE, 0x9BDC06A7, 0xC19BF174,
      0xE49B69C1, 0xEFBE4786, 0x0FC19DC6, 0x240CA1CC, 0x2DE92C6F, 0x4A7484AA, 0x5CB0A9DC, 0x76F988DA,
      0x983E5152, 0xA831C66D, 0xB00327C8, 0xBF597FC7, 0xC6E00BF3, 0xD5A79147, 0x06CA6351, 0x14292967,
      0x27B70A85, 0x2E1B2138, 0x4D2C6DFC, 0x53380D13, 0x650A7354, 0x766A0ABB, 0x81C2C92E, 0x92722C85,
      0xA2BFE8A1, 0xA81A664B, 0xC24B8B70, 0xC76C51A3, 0xD192E819, 0xD6990624, 0xF40E3585, 0x106AA070,
      0x19A4C116, 0x1E376C08, 0x2748774C, 0x34B0BCB5, 0x391C0CB3, 0x4ED8AA4A, 0x5B9CCA4F, 0x682E6FF3,
      0x748F82EE, 0x78A5636F, 0x84C87814, 0x8CC70208, 0x90BEFFFA, 0xA4506CEB, 0xBEF9A3F7, 0xC67178F2]"

definition sha256_init :: "32 word list" where
  "sha256_init =
     [0x6A09E667, 0xBB67AE85, 0x3C6EF372, 0xA54FF53A, 0x510E527F, 0x9B05688C, 0x1F83D9AB, 0x5BE0CD19]"

definition rotr :: "nat \<Rightarrow> 32 word \<Rightarrow> 32 word" where
  "rotr n x = drop_bit n x OR push_bit (32 - n) x"

definition sigma0 :: "32 word \<Rightarrow> 32 word" where "sigma0 x = rotr 7 x XOR rotr 18 x XOR drop_bit 3 x"
definition sigma1 :: "32 word \<Rightarrow> 32 word" where "sigma1 x = rotr 17 x XOR rotr 19 x XOR drop_bit 10 x"
definition Sigma0 :: "32 word \<Rightarrow> 32 word" where "Sigma0 x = rotr 2 x XOR rotr 13 x XOR rotr 22 x"
definition Sigma1 :: "32 word \<Rightarrow> 32 word" where "Sigma1 x = rotr 6 x XOR rotr 11 x XOR rotr 25 x"

fun message_schedule :: "nat \<Rightarrow> 32 word list \<Rightarrow> 32 word list" where
  "message_schedule 0 ws = ws"
| "message_schedule (Suc n) ws = (let t = length ws in
     message_schedule n (ws @ [sigma1 (ws ! (t - 2)) + ws ! (t - 7) + sigma0 (ws ! (t - 15)) + ws ! (t - 16)]))"

fun sha256_round :: "32 word \<times> 32 word \<Rightarrow> 32 word list \<Rightarrow> 32 word list" where
  "sha256_round (k, w) [a, b, c, d, e, f, g, h] =
     (let t1 = h + Sigma1 e + ((e AND f) XOR (NOT e AND g)) + k + w;
          t2 = Sigma0 a + ((a AND b) XOR (a AND c) XOR (b AND c))
      in [t1 + t2, a, b, c, d + t1, e, f, g])"
| "sha256_round kw s = s"

definition sha256_block :: "32 word list \<Rightarrow> 32 word list \<Rightarrow> 32 word list" where
  "sha256_block block s = map2 (+) s (fold sha256_round (zip sha256_K (message_schedule 48 block)) s)"

fun big_endian_words :: "int list \<Rightarrow> 32 word list" where
  "big_endian_words (a # b # c # d # rest) = word_of_int (((a * 256 + b) * 256 + c) * 256 + d) # big_endian_words rest"
| "big_endian_words _ = []"

fun big_endian_bytes :: "nat \<Rightarrow> int \<Rightarrow> int list" where
  "big_endian_bytes 0 n = []"
| "big_endian_bytes (Suc k) n = big_endian_bytes k (n div 256) @ [n mod 256]"

definition sha256_pad :: "int list \<Rightarrow> int list" where
  "sha256_pad m = m @ [128] @ replicate ((119 - length m mod 64) mod 64) 0 @ big_endian_bytes 8 (8 * int (length m))"

function sha256_blocks :: "32 word list \<Rightarrow> 32 word list \<Rightarrow> 32 word list" where
  "sha256_blocks ws s = (if length ws < 16 then s else sha256_blocks (drop 16 ws) (sha256_block (take 16 ws) s))"
  by pat_completeness auto

termination sha256_blocks
  by (relation "measure (\<lambda>(ws, s). length ws)") auto

declare sha256_blocks.simps [simp del]

definition Sum256 :: "string \<Rightarrow> int list" where
  "Sum256 s = concat (map (\<lambda>w. big_endian_bytes 4 (uint w))
     (sha256_blocks (big_endian_words (sha256_pad (map of_char s))) sha256_init))"

definition hex_digit :: "int \<Rightarrow> char" where
  "hex_digit n = char_of (if n < 10 then 48 + n else 87 + n)"

definition format_hex :: "int list \<Rightarrow> string" where
  "format_hex bytes = concat (map (\<lambda>b. [hex_digit (b div 16), hex_digit (b mod 16)]) bytes)"

definition sha256_hex :: "string \<Rightarrow> string" where
  "sha256_hex s = format_hex (Sum256 s)"

subsection \<open>Sizes\<close>

lemma length_sha256_round [simp]: "length (sha256_round kw s) = length s"
  by (cases "(kw, s)" rule: sha256_round.cases) (simp_all add: Let_def)

lemma length_fold_sha256_round [simp]: "length (fold sha256_round kws s) = length s"
  by (induction kws arbitrary: s) simp_all

lemma length_sha256_block [simp]: "length (sha256_block block s) = length s"
  by (simp add: sha256_block_def)

lemma length_sha256_blocks [simp]: "length (sha256_blocks ws s) = length s"
  by (induction ws s rule: sha256_blocks.induct) (simp add: sha256_blocks.simps)

lemma length_big_endian_bytes [simp]: "length (big_endian_bytes k n) = k"
  by (induction k arbitrary: n) simp_all

lemma length_concat_const: "(\<And>x. x \<in> set xs \<Longrightarrow> length (f x) = k) \<Longrightarrow> length (concat (map f xs)) = k * length xs"
  by (induction xs) simp_all

lemma length_Sum256 [simp]: "length (Sum256 s) = 32"
  by (simp add: Sum256_def length_concat_const [where k = 4] sha256_init_def)

lemma length_format_hex [simp]: "length (format_hex bytes) = 2 * length bytes"
  by (simp add: format_hex_def length_concat_const [where k = 2])

text \<open>The padded message is a whole number of blocks.\<close>

lemma pad_amount: "64 dvd n + (9 + (119 - n mod 64) mod 64)" for n :: nat
proof -
  define q r where "q = n div 64" and "r = n mod 64"
  have n: "n = 64 * q + r" and r: "r < 64" by (simp_all add: q_def r_def)
  have "n + (9 + (119 - r) mod 64) = (if r \<le> 55 then 64 * (q + 1) else 64 * (q + 2))"
  proof (cases "r \<le> 55")
    case True
    then have "(119 - r) mod 64 = 55 - r" using le_mod_geq [of 64 "119 - r"] by simp
    then show ?thesis using True n by simp
  next
    case False
    then have "(119 - r) mod 64 = 119 - r" by simp
    then show ?thesis using False n r by simp
  qed
  then have "64 dvd n + (9 + (119 - r) mod 64)" by (metis dvd_triv_left)
  then show ?thesis by (simp only: r_def)
qed

lemma sha256_pad_blocks: "64 dvd length (sha256_pad m)"
  using pad_amount [of "length m"] by (simp add: sha256_pad_def add.commute)

end
