(* ===== verification/Audit_Key.thy ===== *)
theory Audit_Key
  imports Components Ensure_Behaviour Go_Crypto
begin

text \<open>
  The audit HMAC key of the data storage (\<^verbatim>\<open>internal/resources/audit_hmac.go\<close>,
  \<^verbatim>\<open>ensureDataStorageAuditHashKey\<close> and its helpers in \<^verbatim>\<open>internal/controller/kubernaut_controller.go\<close>): a
  key that is generated once, never replaced, and whose loss stops the reconciler instead of being
  repaired. What the code takes from outside (the random source, the YAML decoder, the name
  check of apimachinery) is the record \<open>material\<close>; Base64 and SHA-256 are defined.
\<close>

subsection \<open>Material\<close>

record material =
  m_random :: "string go" \<comment> \<open>what \<^verbatim>\<open>rand.Read\<close> puts into the buffer of 32 bytes, or its error\<close>
  m_yaml :: "string \<Rightarrow> string gomap option" \<comment> \<open>\<^verbatim>\<open>yaml.Unmarshal\<close> into a \<^verbatim>\<open>map[string]string\<close>\<close>
  m_IsDNS1123Subdomain :: "string \<Rightarrow> bool"

definition base64_alphabet :: string where
  "base64_alphabet = ''ABCDEFGHIJKLMNOPQRSTUVWXYZabcdefghijklmnopqrstuvwxyz0123456789+/''"

definition b64 :: "nat \<Rightarrow> char" where "b64 n = base64_alphabet ! (n mod 64)"

fun base64 :: "nat list \<Rightarrow> string" where
  "base64 (a # b # c # bs) = b64 (a div 4) # b64 (a mod 4 * 16 + b div 16) # b64 (b mod 16 * 4 + c div 64) # b64 c # base64 bs"
| "base64 [a, b] = [b64 (a div 4), b64 (a mod 4 * 16 + b div 16), b64 (b mod 16 * 4), CHR ''='']"
| "base64 [a] = [b64 (a div 4), b64 (a mod 4 * 16), CHR ''='', CHR ''='']"
| "base64 [] = ''''"

definition EncodeToString :: "string \<Rightarrow> string" where
  "EncodeToString bytes = base64 (map of_char bytes)"

subsection \<open>The key\<close>

definition DataStorageAuditHashKeySecretName :: string where
  "DataStorageAuditHashKeySecretName = ''datastorage-audit-hmac-key''"
definition DataStorageAuditHashKeyStateConfigMapName :: string where
  "DataStorageAuditHashKeyStateConfigMapName = ''datastorage-audit-hmac-key-state''"
definition DataStorageAuditHashKeySecretDataKey :: string where
  "DataStorageAuditHashKeySecretDataKey = ''audit-hmac-key.yaml''"
definition DataStorageAuditHashKeyDefault :: string where "DataStorageAuditHashKeyDefault = ''hmacKey''"
definition DataStorageAuditHashKeySourceGenerated :: string where
  "DataStorageAuditHashKeySourceGenerated = ''operator-generated''"
definition DataStorageAuditHashKeySourceExisting :: string where
  "DataStorageAuditHashKeySourceExisting = ''administrator-managed''"
definition DataStorageAuditHashKeyStatePhaseKey :: string where "DataStorageAuditHashKeyStatePhaseKey = ''phase''"
definition DataStorageAuditHashKeyStateProvisioning :: string where
  "DataStorageAuditHashKeyStateProvisioning = ''provisioning''"
definition DataStorageAuditHashKeyStateReady :: string where "DataStorageAuditHashKeyStateReady = ''ready''"
definition DataStorageAuditHashKeyFinalizer :: string where
  "DataStorageAuditHashKeyFinalizer = ''kubernaut.ai/audit-hmac-key-protection''"
definition DataStorageAuditHashKeyManagedAnnotation :: string where
  "DataStorageAuditHashKeyManagedAnnotation = ''kubernaut.ai/audit-hmac-key''"
definition DataStorageAuditHashKeySourceAnnotation :: string where
  "DataStorageAuditHashKeySourceAnnotation = ''kubernaut.ai/audit-hmac-key-source''"

lemmas audit_names = DataStorageAuditHashKeySecretName_def DataStorageAuditHashKeyStateConfigMapName_def
  DataStorageAuditHashKeySecretDataKey_def DataStorageAuditHashKeyDefault_def DataStorageAuditHashKeySourceGenerated_def
  DataStorageAuditHashKeySourceExisting_def DataStorageAuditHashKeyStatePhaseKey_def
  DataStorageAuditHashKeyStateProvisioning_def DataStorageAuditHashKeyStateReady_def DataStorageAuditHashKeyFinalizer_def
  DataStorageAuditHashKeyManagedAnnotation_def DataStorageAuditHashKeySourceAnnotation_def

record DataStorageAuditHashKeyReference =
  ref_SecretName :: string
  ref_SecretKey :: string
  ref_Generated :: bool

definition DataStorageAuditHashKeyReferenceFor :: "Kubernaut \<Rightarrow> DataStorageAuditHashKeyReference" where
  "DataStorageAuditHashKeyReferenceFor kn =
     (let ref = \<lparr>ref_SecretName = DataStorageAuditHashKeySecretName, ref_SecretKey = DataStorageAuditHashKeyDefault,
                 ref_Generated = True\<rparr> in
      case dataStorage_Audit (spec_DataStorage (kn_Spec kn)) of
        None \<Rightarrow> ref
      | Some audit \<Rightarrow>
         (case dataStorageAudit_HashKey audit of
            None \<Rightarrow> ref
          | Some spec \<Rightarrow>
             (let ref1 = (if dataStorageAuditHashKey_ExistingSecret spec \<noteq> ''''
                          then ref\<lparr>ref_SecretName := dataStorageAuditHashKey_ExistingSecret spec, ref_Generated := False\<rparr>
                          else ref)
              in if dataStorageAuditHashKey_SecretKey spec \<noteq> ''''
                 then ref1\<lparr>ref_SecretKey := dataStorageAuditHashKey_SecretKey spec\<rparr> else ref1)))"

definition key_name_char :: "char \<Rightarrow> bool" where
  "key_name_char c \<longleftrightarrow> (let n = of_char c :: nat in 97 \<le> n \<and> n \<le> 122 \<or> 65 \<le> n \<and> n \<le> 90 \<or> 48 \<le> n \<and> n \<le> 57 \<or>
     c = CHR ''.'' \<or> c = CHR ''_'' \<or> c = CHR ''-'')"

definition validateDataStorageAuditHashKeyName :: "string \<Rightarrow> go_error option" where
  "validateDataStorageAuditHashKeyName keyName =
     (if keyName = '''' then Some (Msg ''audit HMAC key name is empty'')
      else if \<not> list_all key_name_char keyName
      then Some (Msg (''audit HMAC key name '' @ keyName @ '' contains unsupported characters''))
      else None)"

definition ValidateDataStorageAuditHashKeyReference ::
  "material \<Rightarrow> DataStorageAuditHashKeyReference \<Rightarrow> go_error option" where
  "ValidateDataStorageAuditHashKeyReference M ref =
     (case validateDataStorageAuditHashKeyName (ref_SecretKey ref) of
        Some e \<Rightarrow> Some e
      | None \<Rightarrow>
         (if \<not> m_IsDNS1123Subdomain M (ref_SecretName ref)
          then Some (Msg (''audit HMAC secret name '' @ ref_SecretName ref @ '' is invalid'')) else None))"

definition NewDataStorageAuditHashKeySecret ::
  "material \<Rightarrow> Kubernaut \<Rightarrow> DataStorageAuditHashKeyReference \<Rightarrow> kobj go" where
  "NewDataStorageAuditHashKeySecret M kn ref =
     (if \<not> ref_Generated ref then Inl (Msg (''audit HMAC secret '' @ ref_SecretName ref @ '' is administrator-managed''))
      else case ValidateDataStorageAuditHashKeyReference M ref of
        Some e \<Rightarrow> Inl e
      | None \<Rightarrow>
         (case m_random M of
            Inl e \<Rightarrow> Inl (Wrap ''generating audit HMAC key'' e)
          | Inr key \<Rightarrow>
             Inr \<lparr>obj_Kind = ''Secret'',
                  obj_Meta = zero_object_meta\<lparr>meta_Name := ref_SecretName ref, meta_Namespace := kn_Namespace kn,
                    meta_Labels := ComponentLabels kn ComponentDataStorage,
                    meta_Finalizers := [DataStorageAuditHashKeyFinalizer],
                    meta_Annotations := [DataStorageAuditHashKeyManagedAnnotation \<mapsto> ''true'',
                      DataStorageAuditHashKeySourceAnnotation \<mapsto> DataStorageAuditHashKeySourceGenerated]\<rparr>,
                  obj_Body = SecretBody [(DataStorageAuditHashKeySecretDataKey,
                      ref_SecretKey ref @ '': '' @ EncodeToString key @ [CHR 0x0A])] (Some True) ''Opaque''\<rparr>))"

definition secret_data :: "kobj \<Rightarrow> string gomap" where
  "secret_data x = (case obj_Body x of SecretBody d _ _ \<Rightarrow> d | _ \<Rightarrow> [])"

definition config_data :: "kobj \<Rightarrow> string \<Rightarrow> string" where
  "config_data x k = (case obj_Body x of ConfigMapBody d _ \<Rightarrow> gget d k | _ \<Rightarrow> '''')"

definition dataStorageAuditHashKeyValue :: "material \<Rightarrow> kobj \<Rightarrow> string \<Rightarrow> string go" where
  "dataStorageAuditHashKeyValue M secret keyName =
     (case validateDataStorageAuditHashKeyName keyName of
        Some e \<Rightarrow> Inl e
      | None \<Rightarrow>
         (let data = gget (secret_data secret) DataStorageAuditHashKeySecretDataKey in
          if data = '''' then Inl (Msg ''secret is missing required key'')
          else case m_yaml M data of
            None \<Rightarrow> Inl (Msg ''secret contains invalid YAML'')
          | Some values \<Rightarrow>
             (let v = gget values keyName in
              if trim_space v \<noteq> v then Inl (Msg ''key contains leading or trailing whitespace'')
              else if v = '''' then Inl (Msg ''key is empty or missing'')
              else if length v < 32 then Inl (Msg ''key must contain at least 32 bytes'')
              else Inr v)))"

definition ValidateDataStorageAuditHashKeySecret :: "material \<Rightarrow> kobj \<Rightarrow> string \<Rightarrow> go_error option" where
  "ValidateDataStorageAuditHashKeySecret M secret keyName =
     (case dataStorageAuditHashKeyValue M secret keyName of Inl e \<Rightarrow> Some e | Inr _ \<Rightarrow> None)"

definition DataStorageAuditHashKeyFingerprint :: "material \<Rightarrow> kobj \<Rightarrow> string \<Rightarrow> string go" where
  "DataStorageAuditHashKeyFingerprint M secret keyName =
     (case dataStorageAuditHashKeyValue M secret keyName of Inl e \<Rightarrow> Inl e | Inr v \<Rightarrow> Inr (sha256_hex v))"

definition DataStorageAuditHashKeyStateConfigMap :: "Kubernaut \<Rightarrow> DataStorageAuditHashKeyReference \<Rightarrow> kobj" where
  "DataStorageAuditHashKeyStateConfigMap kn ref =
     \<lparr>obj_Kind = ''ConfigMap'',
      obj_Meta = (ObjectMeta kn DataStorageAuditHashKeyStateConfigMapName ComponentDataStorage)
        \<lparr>meta_Finalizers := [DataStorageAuditHashKeyFinalizer]\<rparr>,
      obj_Body = ConfigMapBody
        [(''secretName'', ref_SecretName ref), (''secretKey'', ref_SecretKey ref),
         (''source'', if ref_Generated ref then DataStorageAuditHashKeySourceGenerated else DataStorageAuditHashKeySourceExisting),
         (DataStorageAuditHashKeyStatePhaseKey, DataStorageAuditHashKeyStateReady)] []\<rparr>"

definition put_data :: "string \<Rightarrow> string \<Rightarrow> kobj \<Rightarrow> kobj" where
  "put_data k v x = (case obj_Body x of
     ConfigMapBody d b \<Rightarrow> x\<lparr>obj_Body := ConfigMapBody (gput k v d) b\<rparr> | _ \<Rightarrow> x)"

subsection \<open>The reconciler\<close>

definition containsAuditHashKeyFinalizer :: "string list \<Rightarrow> bool" where
  "containsAuditHashKeyFinalizer finalizers = list_ex (\<lambda>f. f = DataStorageAuditHashKeyFinalizer) finalizers"

definition secret_immutable :: "kobj \<Rightarrow> bool" where
  "secret_immutable x = (case obj_Body x of SecretBody _ im _ \<Rightarrow> im = Some True | _ \<Rightarrow> False)"

definition operatorGeneratedAuditHashKeySecret :: "kobj \<Rightarrow> bool" where
  "operatorGeneratedAuditHashKeySecret secret =
     (if obj_terminating secret \<or> \<not> secret_immutable secret then False
      else if mget (obj_Annotations secret) DataStorageAuditHashKeyManagedAnnotation \<noteq> ''true'' \<or>
         mget (obj_Annotations secret) DataStorageAuditHashKeySourceAnnotation \<noteq> DataStorageAuditHashKeySourceGenerated
      then False
      else containsAuditHashKeyFinalizer (meta_Finalizers (obj_Meta secret)))"

definition validateAuditHashKeyIdentity :: "kobj \<Rightarrow> DataStorageAuditHashKeyReference \<Rightarrow> go_error option" where
  "validateAuditHashKeyIdentity state ref =
     (if config_data state ''secretName'' \<noteq> ref_SecretName ref \<or> config_data state ''secretKey'' \<noteq> ref_SecretKey ref
      then Some (Msg ''audit HMAC secret identity cannot change after initialization'')
      else if config_data state ''source'' \<noteq> (if ref_Generated ref then DataStorageAuditHashKeySourceGenerated
                                           else DataStorageAuditHashKeySourceExisting)
      then Some (Msg ''audit HMAC secret source cannot change after initialization'')
      else None)"

definition validateAuditHashKeyState :: "kobj \<Rightarrow> DataStorageAuditHashKeyReference \<Rightarrow> go_error option" where
  "validateAuditHashKeyState state ref =
     (if obj_terminating state \<or> \<not> containsAuditHashKeyFinalizer (meta_Finalizers (obj_Meta state))
      then Some (Msg ''audit HMAC state configmap is not protected from deletion'')
      else case validateAuditHashKeyIdentity state ref of
        Some e \<Rightarrow> Some e
      | None \<Rightarrow>
         (if config_data state DataStorageAuditHashKeyStatePhaseKey \<noteq> DataStorageAuditHashKeyStateReady
          then Some (Msg ''audit HMAC state configmap is not committed'')
          else if config_data state ''keyFingerprint'' = ''''
          then Some (Msg ''audit HMAC secret fingerprint is missing from state'')
          else None))"

definition canCorrectPendingBYOIdentity :: "kobj \<Rightarrow> DataStorageAuditHashKeyReference \<Rightarrow> bool" where
  "canCorrectPendingBYOIdentity state ref \<longleftrightarrow>
     config_data state DataStorageAuditHashKeyStatePhaseKey = DataStorageAuditHashKeyStateProvisioning \<and>
     config_data state ''keyFingerprint'' = '''' \<and> \<not> ref_Generated ref \<and>
     config_data state ''source'' = DataStorageAuditHashKeySourceExisting"

definition auditHashKeyState :: "'s env \<Rightarrow> string \<Rightarrow> ('s, (kobj option) go) prog" where
  "auditHashKeyState E namespace = do {
     r \<leftarrow> Get E ''ConfigMap'' (namespace, DataStorageAuditHashKeyStateConfigMapName);
     State_Monad.return (case r of
        Inl e \<Rightarrow> if IsNotFound e then Inr None else Inl (Wrap ''reading audit HMAC state ConfigMap'' (API e))
      | Inr state \<Rightarrow> Inr (Some state)) }"

definition createOrGetAuditHashKeySecret ::
  "'s env \<Rightarrow> material \<Rightarrow> DataStorageAuditHashKeyReference \<Rightarrow> ('s, kobj go) prog" where
  "createOrGetAuditHashKeySecret E M ref = do {
     kn \<leftarrow> the_kn;
     r \<leftarrow> Get E ''Secret'' (kn_Namespace kn, ref_SecretName ref);
     (case r of
        Inr secret \<Rightarrow>
          (if ref_Generated ref \<and> \<not> operatorGeneratedAuditHashKeySecret secret
           then State_Monad.return (Inl (Msg ''generated audit HMAC secret is not an operator-generated secret''))
           else State_Monad.return (Inr secret))
      | Inl e \<Rightarrow>
         (if \<not> IsNotFound e then State_Monad.return (Inl (Wrap ''reading audit HMAC secret'' (API e)))
          else if \<not> ref_Generated ref
          then State_Monad.return (Inl (Msg ''administrator-managed audit HMAC secret not found''))
          else case NewDataStorageAuditHashKeySecret M kn ref of
            Inl err \<Rightarrow> State_Monad.return (Inl err)
          | Inr generated \<Rightarrow> do {
              c \<leftarrow> Create E generated;
              State_Monad.return (case c of
                 Inr created \<Rightarrow> Inr created
               | Inl e' \<Rightarrow> Inl (Wrap ''creating generated audit HMAC secret'' (API e'))) })) }"

definition initializeAuditHashKey ::
  "'s env \<Rightarrow> material \<Rightarrow> DataStorageAuditHashKeyReference \<Rightarrow> ('s, go_error option) prog" where
  "initializeAuditHashKey E M ref = do {
     r \<leftarrow> createOrGetAuditHashKeySecret E M ref;
     (case r of
        Inl e \<Rightarrow> State_Monad.return (Some e)
      | Inr secret \<Rightarrow>
         (case ValidateDataStorageAuditHashKeySecret M secret (ref_SecretKey ref) of
            Some e \<Rightarrow> State_Monad.return (Some e)
          | None \<Rightarrow>
             (case DataStorageAuditHashKeyFingerprint M secret (ref_SecretKey ref) of
                Inl e \<Rightarrow> State_Monad.return (Some e)
              | Inr fingerprint \<Rightarrow> do {
                  kn \<leftarrow> the_kn;
                  ensureUnowned E (put_data ''keyFingerprint'' fingerprint
                    (put_data DataStorageAuditHashKeyStatePhaseKey DataStorageAuditHashKeyStateReady
                      (DataStorageAuditHashKeyStateConfigMap kn ref))) }))) }"

definition provisioning_marker :: "Kubernaut \<Rightarrow> DataStorageAuditHashKeyReference \<Rightarrow> kobj" where
  "provisioning_marker kn ref = put_data DataStorageAuditHashKeyStatePhaseKey DataStorageAuditHashKeyStateProvisioning
     (DataStorageAuditHashKeyStateConfigMap kn ref)"

definition initializeNewAuditHashKey ::
  "'s env \<Rightarrow> material \<Rightarrow> DataStorageAuditHashKeyReference \<Rightarrow> ('s, go_error option) prog" where
  "initializeNewAuditHashKey E M ref = (
     let write_marker = do {
           kn \<leftarrow> the_kn;
           err \<leftarrow> ensureUnowned E (provisioning_marker kn ref);
           (case err of
              Some e \<Rightarrow> State_Monad.return (Some e)
            | None \<Rightarrow> initializeAuditHashKey E M ref) } in
     if ref_Generated ref then do {
       kn \<leftarrow> the_kn;
       r \<leftarrow> Get E ''Secret'' (kn_Namespace kn, ref_SecretName ref);
       (case r of
          Inr _ \<Rightarrow> State_Monad.return (Some (Msg
            ''generated audit HMAC secret already exists before its state marker; refusing adoption''))
        | Inl e \<Rightarrow>
           (if \<not> IsNotFound e then State_Monad.return (Some (Wrap ''reading audit HMAC secret'' (API e)))
            else write_marker)) }
     else write_marker)"

definition validateEffectiveAuditHashKeySecret ::
  "'s env \<Rightarrow> material \<Rightarrow> DataStorageAuditHashKeyReference \<Rightarrow> string \<Rightarrow> ('s, go_error option) prog" where
  "validateEffectiveAuditHashKeySecret E M ref expectedFingerprint = do {
     kn \<leftarrow> the_kn;
     r \<leftarrow> Get E ''Secret'' (kn_Namespace kn, ref_SecretName ref);
     State_Monad.return (case r of
        Inl e \<Rightarrow>
          (if IsNotFound e \<and> expectedFingerprint \<noteq> ''''
           then Some (Msg ''initialized audit HMAC secret is missing; restore it instead of generating a replacement'')
           else Some (Wrap ''reading audit HMAC secret'' (API e)))
      | Inr secret \<Rightarrow>
         (if obj_terminating secret then Some (Msg ''audit HMAC secret is terminating'')
          else if ref_Generated ref \<and> \<not> operatorGeneratedAuditHashKeySecret secret
          then Some (Msg ''audit HMAC secret is not an operator-generated secret'')
          else case ValidateDataStorageAuditHashKeySecret M secret (ref_SecretKey ref) of
            Some e \<Rightarrow> Some e
          | None \<Rightarrow>
             (case DataStorageAuditHashKeyFingerprint M secret (ref_SecretKey ref) of
                Inl e \<Rightarrow> Some e
              | Inr fingerprint \<Rightarrow>
                 (if expectedFingerprint \<noteq> '''' \<and> fingerprint \<noteq> expectedFingerprint
                  then Some (Msg ''audit HMAC secret fingerprint changed after initialization'') else None)))) }"

text \<open>The part of \<^verbatim>\<open>reconcileExistingAuditHashKeyState\<close> after the identity of the marker is settled.\<close>

definition reconcileMarker ::
  "'s env \<Rightarrow> material \<Rightarrow> kobj \<Rightarrow> DataStorageAuditHashKeyReference \<Rightarrow> ('s, go_error option) prog" where
  "reconcileMarker E M state ref =
     (if config_data state DataStorageAuditHashKeyStatePhaseKey = DataStorageAuditHashKeyStateProvisioning \<and>
         config_data state ''keyFingerprint'' = ''''
      then initializeAuditHashKey E M ref
      else case validateAuditHashKeyState state ref of
        Some e \<Rightarrow> State_Monad.return (Some e)
      | None \<Rightarrow> validateEffectiveAuditHashKeySecret E M ref (config_data state ''keyFingerprint''))"

definition reconcileExistingAuditHashKeyState ::
  "'s env \<Rightarrow> material \<Rightarrow> kobj \<Rightarrow> DataStorageAuditHashKeyReference \<Rightarrow> ('s, go_error option) prog" where
  "reconcileExistingAuditHashKeyState E M state ref = do {
     kn \<leftarrow> the_kn;
     (case ResourceOwnershipError E kn state False of
        Some err \<Rightarrow> State_Monad.return (Some (Wrap ''audit HMAC state configmap ownership conflict'' err))
      | None \<Rightarrow>
         (case validateAuditHashKeyIdentity state ref of
            None \<Rightarrow> reconcileMarker E M state ref
          | Some err \<Rightarrow>
             (if \<not> canCorrectPendingBYOIdentity state ref then State_Monad.return (Some err)
              else do {
                r \<leftarrow> ensureResourceChanged E (provisioning_marker kn ref);
                (case r of
                   Inl e \<Rightarrow> State_Monad.return (Some e)
                 | Inr (_, state') \<Rightarrow> reconcileMarker E M state' ref) }))) }"

definition ensureDataStorageAuditHashKey :: "'s env \<Rightarrow> material \<Rightarrow> ('s, go_error option) prog" where
  "ensureDataStorageAuditHashKey E M = do {
     kn \<leftarrow> the_kn;
     let ref = DataStorageAuditHashKeyReferenceFor kn;
     (case ValidateDataStorageAuditHashKeyReference M ref of
        Some e \<Rightarrow> State_Monad.return (Some e)
      | None \<Rightarrow> do {
          r \<leftarrow> auditHashKeyState E (kn_Namespace kn);
          (case r of
             Inl e \<Rightarrow> State_Monad.return (Some e)
           | Inr (Some state) \<Rightarrow> reconcileExistingAuditHashKeyState E M state ref
           | Inr None \<Rightarrow> initializeNewAuditHashKey E M ref) }) }"

subsection \<open>The key is create-only\<close>

lemma put_data_sels [simp]:
  "obj_Kind (put_data k v x) = obj_Kind x" "obj_key (put_data k v x) = obj_key x" "obj_Meta (put_data k v x) = obj_Meta x"
  by (simp_all add: put_data_def obj_key_def split: body.splits)

lemma state_sels [simp]:
  "obj_Kind (DataStorageAuditHashKeyStateConfigMap kn ref) = ''ConfigMap''"
  "obj_key (DataStorageAuditHashKeyStateConfigMap kn ref) = (kn_Namespace kn, DataStorageAuditHashKeyStateConfigMapName)"
  "obj_Kind (provisioning_marker kn ref) = ''ConfigMap''"
  "obj_key (provisioning_marker kn ref) = (kn_Namespace kn, DataStorageAuditHashKeyStateConfigMapName)"
  by (simp_all add: DataStorageAuditHashKeyStateConfigMap_def provisioning_marker_def ObjectMeta_def obj_key_def)

definition marker_key :: "key \<Rightarrow> bool" where
  "marker_key k \<longleftrightarrow> snd k = DataStorageAuditHashKeyStateConfigMapName"

text \<open>The writes a provisioning run may make: the marker, and the creation of an immutable Secret that
  deletion cannot remove.\<close>

definition audit_write :: "call \<Rightarrow> bool" where
  "audit_write c = (case c of
     CreateCall x \<Rightarrow> (obj_Kind x = ''ConfigMap'' \<and> marker_key (obj_key x)) \<or>
       (obj_Kind x = ''Secret'' \<and> operatorGeneratedAuditHashKeySecret x)
   | UpdateCall x \<Rightarrow> obj_Kind x = ''ConfigMap'' \<and> marker_key (obj_key x)
   | DeleteCall x \<Rightarrow> False
   | UpdateKnCall kn \<Rightarrow> False
   | _ \<Rightarrow> True)"

lemma concerns_audit_write: "marker_key k \<Longrightarrow> concerns ''ConfigMap'' k c \<Longrightarrow> audit_write c"
  by (auto simp: concerns_def audit_write_def split: call.splits)

lemma generated_is_operator_generated:
  "NewDataStorageAuditHashKeySecret M kn ref = Inr x \<Longrightarrow> obj_Kind x = ''Secret'' \<and> operatorGeneratedAuditHashKeySecret x"
  by (auto simp: NewDataStorageAuditHashKeySecret_def operatorGeneratedAuditHashKeySecret_def secret_immutable_def
      containsAuditHashKeyFinalizer_def audit_names zero_object_meta_def split: if_splits option.splits sum.splits)

lemma emits_marker: "emits audit_write (ensureUnowned E (put_data k v (put_data k' v' (DataStorageAuditHashKeyStateConfigMap kn ref))))"
  "emits audit_write (ensureUnowned E (provisioning_marker kn ref))"
  "emits audit_write (ensureResourceChanged E (provisioning_marker kn ref))"
proof -
  have marker: "marker_key (kn_Namespace kn, DataStorageAuditHashKeyStateConfigMapName)" by (simp add: marker_key_def)
  show "emits audit_write (ensureUnowned E (put_data k v (put_data k' v' (DataStorageAuditHashKeyStateConfigMap kn ref))))"
    "emits audit_write (ensureUnowned E (provisioning_marker kn ref))"
    by (rule emits_mono [OF emits_ensureUnowned], auto intro: concerns_audit_write [OF marker])+
  show "emits audit_write (ensureResourceChanged E (provisioning_marker kn ref))"
    by (rule emits_mono [OF emits_ensureResourceChanged], auto intro: concerns_audit_write [OF marker])
qed

lemma audit_write_simps [simp]:
  "audit_write (Read kind k x)" "audit_write (PatchStatusCall kn kn')"
  "obj_Kind x = ''Secret'' \<Longrightarrow> operatorGeneratedAuditHashKeySecret x \<Longrightarrow> audit_write (CreateCall x)"
  by (simp_all add: audit_write_def)

lemma emits_initializeAuditHashKey: "emits audit_write (initializeAuditHashKey E M ref)"
  unfolding initializeAuditHashKey_def createOrGetAuditHashKeySecret_def
  by (intro emits_rules emits_marker) (auto dest: generated_is_operator_generated)

lemma emits_reconcileMarker: "emits audit_write (reconcileMarker E M state ref)"
  unfolding reconcileMarker_def validateEffectiveAuditHashKeySecret_def
  by (intro emits_rules emits_initializeAuditHashKey) simp_all

lemma emits_ensureDataStorageAuditHashKey: "emits audit_write (ensureDataStorageAuditHashKey E M)"
  unfolding ensureDataStorageAuditHashKey_def auditHashKeyState_def reconcileExistingAuditHashKeyState_def
    initializeNewAuditHashKey_def Let_def
  by (intro emits_rules emits_initializeAuditHashKey emits_reconcileMarker emits_marker) simp_all

text \<open>The audit key is create-only: whatever the server answers, a provisioning run never updates or
  deletes a Secret; the only writes it can make are to the marker, and the creation of a Secret that is
  immutable, marked as generated and protected by the finalizer.\<close>

lemma audit_key_create_only:
  "\<exists>cs. w_trace (snd (run_state (ensureDataStorageAuditHashKey E M) w)) = cs @ w_trace w \<and> list_all audit_write cs"
  using emits_ensureDataStorageAuditHashKey unfolding emits_def by blast

subsection \<open>An initialized key is never regenerated\<close>

lemma reconcileMarker_initialized:
  assumes "config_data state ''keyFingerprint'' \<noteq> ''''"
  shows "run_state (reconcileMarker E M state ref) w =
    (case validateAuditHashKeyState state ref of
       Some e \<Rightarrow> (Some e, w)
     | None \<Rightarrow> run_state (validateEffectiveAuditHashKeySecret E M ref (config_data state ''keyFingerprint'')) w)"
  using assms by (simp add: reconcileMarker_def split: option.splits)

lemma existing_initialized:
  assumes "config_data state ''keyFingerprint'' \<noteq> ''''"
  shows "run_state (reconcileExistingAuditHashKeyState E M state ref) w =
    (case ResourceOwnershipError E (w_kn w) state False of
       Some e \<Rightarrow> (Some (Wrap ''audit HMAC state configmap ownership conflict'' e), w)
     | None \<Rightarrow>
        (case validateAuditHashKeyIdentity state ref of
           Some e \<Rightarrow> (Some e, w)
         | None \<Rightarrow> run_state (reconcileMarker E M state ref) w))"
  using assms
  by (simp add: reconcileExistingAuditHashKeyState_def canCorrectPendingBYOIdentity_def call_defs split: option.splits)

lemma run_validateEffective:
  "\<exists>cs. w_trace (snd (run_state (validateEffectiveAuditHashKeySecret E M ref fp) w)) = cs @ w_trace w \<and>
     list_all (\<lambda>c. \<not> is_write c) cs"
  "fp \<noteq> '''' \<Longrightarrow> fst (run_state (validateEffectiveAuditHashKeySecret E M ref fp) w) = None \<Longrightarrow>
     \<exists>secret s'. e_get E (w_cluster w) ''Secret'' (kn_Namespace (w_kn w), ref_SecretName ref) = (Inr secret, s') \<and>
       \<not> obj_terminating secret \<and> DataStorageAuditHashKeyFingerprint M secret (ref_SecretKey ref) = Inr fp"
  by (auto simp: validateEffectiveAuditHashKeySecret_def call_defs reads_of_def split: prod.splits sum.splits if_splits option.splits)

text \<open>C9: An initialized key fails closed: once the marker carries a fingerprint, a run writes nothing at
  all, and it succeeds only if the marker is this instance's and names this very source, and the Secret
  is there, is not being deleted, and its key still has the recorded fingerprint. A lost or replaced
  key is an error, never regenerated.\<close>

theorem initialized_audit_key_fails_closed:
  assumes "e_get E (w_cluster w) ''ConfigMap'' (kn_Namespace (w_kn w), DataStorageAuditHashKeyStateConfigMapName) = (Inr state, s)"
    and "config_data state ''keyFingerprint'' \<noteq> ''''"
    and "run_state (ensureDataStorageAuditHashKey E M) w = (res, w')"
  shows "(\<exists>cs. w_trace w' = cs @ w_trace w \<and> list_all (\<lambda>c. \<not> is_write c) cs) \<and>
    (res = None \<longrightarrow>
      (let ref = DataStorageAuditHashKeyReferenceFor (w_kn w) in
       owned E (w_kn w) state False \<and> validateAuditHashKeyIdentity state ref = None \<and>
       (\<exists>secret s'. e_get E s ''Secret'' (kn_Namespace (w_kn w), ref_SecretName ref) = (Inr secret, s') \<and>
          \<not> obj_terminating secret \<and>
          DataStorageAuditHashKeyFingerprint M secret (ref_SecretKey ref) = Inr (config_data state ''keyFingerprint''))))"
proof -
  let ?ref = "DataStorageAuditHashKeyReferenceFor (w_kn w)" and ?fp = "config_data state ''keyFingerprint''"
  let ?w = "w\<lparr>w_cluster := s, w_trace := Read ''ConfigMap'' (kn_Namespace (w_kn w), DataStorageAuditHashKeyStateConfigMapName) state # w_trace w\<rparr>"
  let ?read = "Read ''ConfigMap'' (kn_Namespace (w_kn w), DataStorageAuditHashKeyStateConfigMapName) state"
  have run: "(res, w') = (case ValidateDataStorageAuditHashKeyReference M ?ref of
      Some e \<Rightarrow> (Some e, w)
    | None \<Rightarrow> (case ResourceOwnershipError E (w_kn w) state False of
        Some e \<Rightarrow> (Some (Wrap ''audit HMAC state configmap ownership conflict'' e), ?w)
      | None \<Rightarrow> (case validateAuditHashKeyIdentity state ?ref of
          Some e \<Rightarrow> (Some e, ?w)
        | None \<Rightarrow> (case validateAuditHashKeyState state ?ref of
            Some e \<Rightarrow> (Some e, ?w)
          | None \<Rightarrow> run_state (validateEffectiveAuditHashKeySecret E M ?ref ?fp) ?w))))"
    unfolding assms(3) [symmetric]
    using assms(1) existing_initialized [OF assms(2), of E M ?ref ?w] reconcileMarker_initialized [OF assms(2), of E M ?ref ?w]
    by (simp add: ensureDataStorageAuditHashKey_def auditHashKeyState_def call_defs reads_of_def Let_def split: option.splits)
  show ?thesis
  proof (cases "ValidateDataStorageAuditHashKeyReference M ?ref = None \<and> ResourceOwnershipError E (w_kn w) state False = None
      \<and> validateAuditHashKeyIdentity state ?ref = None \<and> validateAuditHashKeyState state ?ref = None")
    case True
    with run have eff: "run_state (validateEffectiveAuditHashKeySecret E M ?ref ?fp) ?w = (res, w')" by simp
    obtain cs where "w_trace w' = cs @ w_trace ?w" "list_all (\<lambda>c. \<not> is_write c) cs"
      using run_validateEffective(1) [of E M ?ref ?fp ?w] eff by auto
    then have "\<exists>cs. w_trace w' = cs @ w_trace w \<and> list_all (\<lambda>c. \<not> is_write c) cs"
      by (intro exI [of _ "cs @ [?read]"]) simp
    moreover have "res = None \<Longrightarrow> \<exists>secret s'. e_get E s ''Secret'' (kn_Namespace (w_kn w), ref_SecretName ?ref) = (Inr secret, s') \<and>
          \<not> obj_terminating secret \<and> DataStorageAuditHashKeyFingerprint M secret (ref_SecretKey ?ref) = Inr ?fp"
      using run_validateEffective(2) [OF assms(2), of E M ?ref ?w] eff by simp
    ultimately show ?thesis using True by (simp add: gate_iff Let_def)
  next
    case False
    with run have "res \<noteq> None" "w_trace w' = [] @ w_trace w \<or> w_trace w' = [?read] @ w_trace w"
      by (auto split: option.splits)
    moreover from this(2) have "\<exists>cs. w_trace w' = cs @ w_trace w \<and> list_all (\<lambda>c. \<not> is_write c) cs"
      by (metis is_write.simps(4) list.pred_inject)
    ultimately show ?thesis by blast
  qed
qed

definition sample_material :: material where
  "sample_material = \<lparr>m_random = Inr (replicate 32 CHR ''k''),
     m_yaml = (\<lambda>d. Some [(''hmacKey'', EncodeToString (replicate 32 CHR ''k''))]),
     m_IsDNS1123Subdomain = (\<lambda>n. n \<noteq> '''')\<rparr>"

definition ready_marker :: kobj where
  "ready_marker = StampOwnership sample_kn (put_data ''keyFingerprint'' ''abcd''
     (DataStorageAuditHashKeyStateConfigMap sample_kn (DataStorageAuditHashKeyReferenceFor sample_kn)))"

lemma ready_marker_sels:
  "obj_Kind ready_marker = ''ConfigMap''"
  "obj_key ready_marker = (''kubernaut-system'', DataStorageAuditHashKeyStateConfigMapName)"
  "config_data ready_marker ''keyFingerprint'' = ''abcd''"
  by (simp_all add: ready_marker_def)
    (simp add: config_data_def put_data_def DataStorageAuditHashKeyStateConfigMap_def)

text \<open>With the marker in place and the Secret lost, nothing is written.\<close>

theorem initialized_audit_key_fails_closed_witness:
  "list_all (\<lambda>c. \<not> is_write c)
     (w_trace (snd (run_state (ensureDataStorageAuditHashKey sample_env sample_material) (sample_world [ready_marker]))))"
proof -
  have "e_get sample_env (w_cluster (sample_world [ready_marker])) ''ConfigMap''
      (kn_Namespace (w_kn (sample_world [ready_marker])), DataStorageAuditHashKeyStateConfigMapName)
      = (Inr ready_marker, w_cluster (sample_world [ready_marker]))"
    by (simp add: sample_get_def is_at_def ready_marker_sels)
  from initialized_audit_key_fails_closed [OF this _ prod.collapse [symmetric], where M = sample_material] show ?thesis
    by (simp add: ready_marker_sels)
qed

subsection \<open>A generated key is a valid key\<close>

lemma base64_length: "length (base64 bs) = 4 * ((length bs + 2) div 3)"
proof (induction bs rule: base64.induct)
  case (1 a b c bs)
  have "(length (a # b # c # bs) + 2) div 3 = (length bs + 2) div 3 + 1" by simp
  with 1 show ?case by simp
qed simp_all

lemma alphabet_length: "length base64_alphabet = 64"
  by (simp add: base64_alphabet_def)

lemma alphabet_no_space: "c \<in> set base64_alphabet \<Longrightarrow> \<not> is_space c"
proof -
  have "list_all (\<lambda>c. \<not> is_space c) base64_alphabet" by (simp add: base64_alphabet_def is_space_def)
  then show "c \<in> set base64_alphabet \<Longrightarrow> \<not> is_space c" by (simp add: list_all_iff)
qed

lemma b64_no_space: "\<not> is_space (b64 n)"
  by (rule alphabet_no_space) (simp add: b64_def alphabet_length)

lemma base64_no_space: "c \<in> set (base64 bs) \<Longrightarrow> \<not> is_space c"
proof -
  have pad: "\<not> is_space CHR ''=''" by (simp add: is_space_def)
  show "c \<in> set (base64 bs) \<Longrightarrow> \<not> is_space c"
    by (induction bs rule: base64.induct) (auto simp: b64_no_space pad)
qed

lemma trim_space_id:
  assumes "\<And>c. c \<in> set s \<Longrightarrow> \<not> is_space c"
  shows "trim_space s = s"
proof -
  have "dropWhile is_space t = t" if "set t \<subseteq> set s" for t
    using that assms by (cases t) auto
  then show ?thesis by (simp add: trim_space_def)
qed

text \<open>C20: A generated key is valid from the start: if the random source fills the 32 bytes and the YAML
  decoder reads back the one line the operator writes, the new Secret passes the validation that
  every later run applies, and it is recognised as operator-generated.\<close>

theorem generated_audit_key_validates:
  assumes "NewDataStorageAuditHashKeySecret M kn ref = Inr secret"
    and "m_random M = Inr key" and "length key = 32"
    and "m_yaml M (ref_SecretKey ref @ '': '' @ EncodeToString key @ [CHR 0x0A]) = Some [(ref_SecretKey ref, EncodeToString key)]"
  shows "ValidateDataStorageAuditHashKeySecret M secret (ref_SecretKey ref) = None \<and>
    DataStorageAuditHashKeyFingerprint M secret (ref_SecretKey ref) = Inr (sha256_hex (EncodeToString key)) \<and>
    operatorGeneratedAuditHashKeySecret secret \<and> obj_key secret = (kn_Namespace kn, ref_SecretName ref)"
proof -
  let ?v = "EncodeToString key"
  have len: "length ?v = 44" using assms(3) by (simp add: EncodeToString_def base64_length)
  have trim: "trim_space ?v = ?v" by (rule trim_space_id) (simp add: EncodeToString_def base64_no_space)
  from assms(1,2) have name: "validateDataStorageAuditHashKeyName (ref_SecretKey ref) = None"
    and data: "secret_data secret = [(DataStorageAuditHashKeySecretDataKey, ref_SecretKey ref @ '': '' @ ?v @ [CHR 0x0A])]"
    and key: "obj_key secret = (kn_Namespace kn, ref_SecretName ref)"
    by (auto simp: NewDataStorageAuditHashKeySecret_def ValidateDataStorageAuditHashKeyReference_def secret_data_def
        obj_key_def split: if_splits option.splits)
  have "dataStorageAuditHashKeyValue M secret (ref_SecretKey ref) = Inr ?v"
    using name data assms(4) len trim
    by (auto simp: dataStorageAuditHashKeyValue_def gget_def mget_def Let_def)
  then show ?thesis
    using generated_is_operator_generated [OF assms(1)] key
    by (simp add: ValidateDataStorageAuditHashKeySecret_def DataStorageAuditHashKeyFingerprint_def)
qed

theorem generated_audit_key_validates_witness:
  "\<exists>secret. NewDataStorageAuditHashKeySecret sample_material sample_kn
      \<lparr>ref_SecretName = ''datastorage-audit-hmac-key'', ref_SecretKey = ''hmacKey'', ref_Generated = True\<rparr> = Inr secret \<and>
     ValidateDataStorageAuditHashKeySecret sample_material secret ''hmacKey'' = None"
proof -
  let ?ref = "\<lparr>ref_SecretName = ''datastorage-audit-hmac-key'', ref_SecretKey = ''hmacKey'', ref_Generated = True\<rparr>"
  have "validateDataStorageAuditHashKeyName ''hmacKey'' = None"
    by (simp add: validateDataStorageAuditHashKeyName_def key_name_char_def Let_def)
  then obtain secret where new: "NewDataStorageAuditHashKeySecret sample_material sample_kn ?ref = Inr secret"
    by (simp add: NewDataStorageAuditHashKeySecret_def ValidateDataStorageAuditHashKeyReference_def sample_material_def)
  show ?thesis
    using generated_audit_key_validates [OF new, of "replicate 32 CHR ''k''"] new by (simp add: sample_material_def)
qed

subsection \<open>Safety of the writes\<close>

lemma safe_createOrGet [triple_rules]: "keeps (safe ok me) (createOrGetAuditHashKeySecret E M ref)"
  unfolding createOrGetAuditHashKeySecret_def by (intro triple_rules)

lemma safe_auditHashKeyState [triple_rules]: "keeps (safe ok me) (auditHashKeyState E ns)"
  "keeps (safe ok me) (validateEffectiveAuditHashKeySecret E M ref fp)"
  unfolding auditHashKeyState_def validateEffectiveAuditHashKeySecret_def by (intro triple_rules)+

lemma safe_ensureDataStorageAuditHashKey [triple_rules]:
  assumes "identity_stable E" and "\<And>y. mine E me y \<Longrightarrow> ok y"
  shows "keeps (safe ok me) (ensureDataStorageAuditHashKey E M)"
  unfolding ensureDataStorageAuditHashKey_def initializeNewAuditHashKey_def reconcileExistingAuditHashKeyState_def
    reconcileMarker_def initializeAuditHashKey_def Let_def
  by (intro triple_rules assms; assumption?)

end
