(* ===== verification/Migration.thy ===== *)
theory Migration
  imports Pods Audit_Key
begin

text \<open>
  The migration phase: the shared CRDs of the operands (\<^verbatim>\<open>internal/resources/crds.go\<close>), the migration
  Job and its ConfigMap (\<^verbatim>\<open>internal/resources/migration.go\<close>), and the handling of the Job's life
  (\<^verbatim>\<open>ensureMigrationJob\<close>, \<^verbatim>\<open>handleCompleteMigrationJob\<close>, \<^verbatim>\<open>handleFailedMigrationJob\<close> of
  \<^verbatim>\<open>internal/controller/kubernaut_controller.go\<close>, \<^verbatim>\<open>postgresqlCredentialRevision\<close> of
  \<^verbatim>\<open>internal/controller/datastorage_material.go\<close>).

  The files embedded in the imported assets package and the YAML decoder are the record \<open>assets\<close>; the
  environment variables are the argument \<open>getenv\<close>, and \<open>now\<close> is the clock.
\<close>

subsection \<open>Embedded files\<close>

record assets =
  fs_ReadDir :: "string \<Rightarrow> (string \<times> bool) list go" \<comment> \<open>name and \<^verbatim>\<open>IsDir()\<close> of each entry\<close>
  fs_ReadFile :: "string \<Rightarrow> string go"
  a_YAMLToJSON :: "string \<Rightarrow> string go"
  a_UnmarshalJSON :: "string \<Rightarrow> kobj go"

definition yamlToUnstructured :: "assets \<Rightarrow> string \<Rightarrow> kobj go" where
  "yamlToUnstructured A data =
     (case a_YAMLToJSON A data of Inl e \<Rightarrow> Inl e | Inr json \<Rightarrow> a_UnmarshalJSON A json)"

subsection \<open>Shared custom resource definitions\<close>

definition CRDKind :: string where "CRDKind = ''CustomResourceDefinition''"

definition shared_crd :: "'s env \<Rightarrow> kobj \<Rightarrow> kobj" where
  "shared_crd E desired =
     (let d = set_labels ((obj_Labels desired)(LabelManagedBy \<mapsto> ''kubernaut-operator'')) desired
      in set_annotations ((obj_Annotations d)(AnnotationSpecHash \<mapsto> SpecHash E d)) d)"

definition merged_crd :: "kobj \<Rightarrow> kobj \<Rightarrow> kobj" where
  "merged_crd desired live =
     set_rv (obj_RV live)
       (set_annotations (obj_Annotations desired ++ (obj_Annotations live)(AnnotationSpecHash := None))
         (set_labels (obj_Labels desired ++ obj_Labels live) desired))"

definition updateSharedCRD :: "'s env \<Rightarrow> kobj \<Rightarrow> kobj \<Rightarrow> ('s, go_error option) prog" where
  "updateSharedCRD E desired live =
     (if mget (obj_Labels live) LabelManagedBy \<noteq> ''kubernaut-operator'' \<or> obj_Owners live \<noteq> [] \<or> obj_terminating live
      then State_Monad.return (Some (ErrOwnershipConflict (''CustomResourceDefinition '' @ obj_Name desired)))
      else if mget (obj_Annotations live) AnnotationSpecHash = mget (obj_Annotations desired) AnnotationSpecHash
      then State_Monad.return None
      else do {
        u \<leftarrow> Update E (merged_crd desired live);
        State_Monad.return (case u of Inl e \<Rightarrow> Some (Wrap (''updating CRD '' @ obj_Name desired) (API e)) | Inr _ \<Rightarrow> None) })"

definition ensureSharedCRD :: "'s env \<Rightarrow> kobj \<Rightarrow> ('s, go_error option) prog" where
  "ensureSharedCRD E d = (
     let desired = shared_crd E d;
         failed = (\<lambda>e. State_Monad.return (Some (Wrap (''getting CRD '' @ obj_Name d) (API e)))) in do {
     r \<leftarrow> OwnershipGet E CRDKind ('''', obj_Name d);
     (case r of
        Inr live \<Rightarrow> updateSharedCRD E desired live
      | Inl e \<Rightarrow>
         (if \<not> IsNotFound e then failed e
          else do {
            c \<leftarrow> Create E desired;
            (case c of
               Inr _ \<Rightarrow> State_Monad.return None
             | Inl e' \<Rightarrow>
                (if \<not> IsAlreadyExists e' then State_Monad.return (Some (Wrap (''creating CRD '' @ obj_Name d) (API e')))
                 else do {
                   g \<leftarrow> OwnershipGet E CRDKind ('''', obj_Name d);
                   (case g of
                      Inl e'' \<Rightarrow> failed e''
                    | Inr live \<Rightarrow> updateSharedCRD E desired live) })) })) })"

definition ensureEmbeddedCRDs :: "'s env \<Rightarrow> assets \<Rightarrow> ('s, go_error option) prog" where
  "ensureEmbeddedCRDs E A =
     (case fs_ReadDir A ''crds'' of
        Inl e \<Rightarrow> State_Monad.return (Some (Wrap ''reading embedded CRD directory'' e))
      | Inr entries \<Rightarrow> for_each (\<lambda>(name, isDir).
          if isDir then State_Monad.return None
          else case fs_ReadFile A (''crds/'' @ name) of
              Inl e \<Rightarrow> State_Monad.return (Some (Wrap (''reading embedded CRD '' @ name) e))
            | Inr data \<Rightarrow>
               (case yamlToUnstructured A data of
                  Inl e \<Rightarrow> State_Monad.return (Some (Wrap (''parsing CRD '' @ name) e))
                | Inr desired \<Rightarrow> ensureSharedCRD E desired)) entries)"

subsection \<open>The ConfigMap and the Job\<close>

fun migration_files :: "assets \<Rightarrow> (string \<times> bool) list \<Rightarrow> string gomap go" where
  "migration_files A [] = Inr []"
| "migration_files A ((name, isDir) # es) =
     (if isDir then migration_files A es
      else case fs_ReadFile A (''migrations/'' @ name) of
        Inl e \<Rightarrow> Inl (Wrap (''reading migration '' @ name) e)
      | Inr content \<Rightarrow>
         (case migration_files A es of Inl e \<Rightarrow> Inl e | Inr rest \<Rightarrow> Inr ((name, content) # rest)))"

definition MigrationConfigMap :: "assets \<Rightarrow> Kubernaut \<Rightarrow> kobj go" where
  "MigrationConfigMap A kn =
     (case fs_ReadDir A ''migrations'' of
        Inl e \<Rightarrow> Inl (Wrap ''reading embedded migrations'' e)
      | Inr entries \<Rightarrow>
         (case migration_files A entries of
            Inl e \<Rightarrow> Inl e
          | Inr data \<Rightarrow> Inr \<lparr>obj_Kind = ''ConfigMap'', obj_Meta = ObjectMeta kn ''kubernaut-migrations'' ''migration'',
              obj_Body = ConfigMapBody data []\<rparr>))"

definition migrationJobName :: string where "migrationJobName = ''kubernaut-db-migration''"
definition DefaultSSLMode :: string where "DefaultSSLMode = ''verify-full''"
definition MigrationBackoffLimit :: int where "MigrationBackoffLimit = 3"

definition migration_sslMode :: "Kubernaut \<Rightarrow> string" where
  "migration_sslMode kn = withDefault (postgreSQL_SSLMode (spec_PostgreSQL (kn_Spec kn))) DefaultSSLMode"

definition migration_dsn :: "Kubernaut \<Rightarrow> string" where
  "migration_dsn kn =
     ''host='' @ postgreSQL_Host (spec_PostgreSQL (kn_Spec kn)) @ '' port='' @ show_int (PostgreSQLPort kn)
     @ '' dbname=$(POSTGRES_DB) user=$(POSTGRES_USER) password=$(POSTGRES_PASSWORD) sslmode='' @ migration_sslMode kn
     @ (if migration_sslMode kn = DefaultSSLMode then '' sslrootcert='' @ InterServiceTLSCAFileFor kn else '''')"

definition MigrationJob :: "(string \<Rightarrow> string) \<Rightarrow> Kubernaut \<Rightarrow> kobj go" where
  "MigrationJob getenv kn =
     (case ResolveImage getenv kn ''db-migrate'' of
        Inl e \<Rightarrow> Inl e
      | Inr img \<Rightarrow>
         (let verify = (migration_sslMode kn = DefaultSSLMode);
              volumes = [configMapVolume ''migrations'' ''kubernaut-migrations''] @ (if verify then [InterServiceTLSCAVolume kn] else []);
              mounts = [\<lparr>mount_Name = ''migrations'', mount_MountPath = ''/migrations'', mount_SubPath = '''', mount_ReadOnly = True\<rparr>]
                @ (if verify then [InterServiceTLSCAMount kn] else [])
          in Inr \<lparr>obj_Kind = ''Job'', obj_Meta = ObjectMeta kn migrationJobName ''migration'',
               obj_Body = JobBody \<lparr>job_BackoffLimit = MigrationBackoffLimit, job_PodLabels = ComponentLabels kn ''migration'',
                 job_Pod = zero_pod_spec\<lparr>pod_AutomountServiceAccountToken := Some False, pod_RestartPolicy := ''OnFailure'',
                   pod_SecurityContext := PodSecurityContext,
                   pod_Containers := [zero_container\<lparr>container_Name := ''db-migrate'', container_Image := img,
                     container_ImagePullPolicy := image_PullPolicy (spec_Image (kn_Spec kn)),
                     container_Command := [''goose'', ''-dir'', ''/migrations'', ''postgres'', migration_dsn kn, ''up''],
                     container_EnvFromSecrets := [postgreSQL_SecretName (spec_PostgreSQL (kn_Spec kn))],
                     container_VolumeMounts := mounts, container_SecurityContext := ContainerSecurityContext,
                     container_Resources := DefaultBootstrapResources\<rparr>],
                   pod_Volumes := volumes, pod_ImagePullSecrets := image_PullSecrets (spec_Image (kn_Spec kn))\<rparr>\<rparr> []\<rparr>))"

subsection \<open>The life of the Job\<close>

definition ConditionCRDsInstalled :: string where "ConditionCRDsInstalled = ''CRDsInstalled''"
definition ConditionMigrationComplete :: string where "ConditionMigrationComplete = ''MigrationComplete''"
definition ReasonCRDsReady :: string where "ReasonCRDsReady = ''CRDsReady''"
definition ReasonMigrationComplete :: string where "ReasonMigrationComplete = ''MigrationComplete''"
definition ReasonMigrationFailed :: string where "ReasonMigrationFailed = ''MigrationFailed''"
definition ReasonMigrationInProgress :: string where "ReasonMigrationInProgress = ''MigrationInProgress''"
definition AnnotationPostgreSQLCredentialRevision :: string where
  "AnnotationPostgreSQLCredentialRevision = ''kubernaut.ai/postgresql-credential-revision''"

definition setCRDsReady :: "'s env \<Rightarrow> Kubernaut \<Rightarrow> Kubernaut" where
  "setCRDsReady E = set_condition E ConditionCRDsInstalled ConditionTrue ReasonCRDsReady ''All workload CRDs installed''"

definition hashDataStorageDependencyRevision :: "string \<Rightarrow> string" where
  "hashDataStorageDependencyRevision value = sha256_hex value"

definition credential_revision :: "Kubernaut \<Rightarrow> kobj \<Rightarrow> string" where
  "credential_revision kn secret =
     (let pg = spec_PostgreSQL (kn_Spec kn) in
      hashDataStorageDependencyRevision
        (''postgresql/'' @ kn_Namespace kn @ ''/'' @ postgreSQL_SecretName pg @ ''@'' @ obj_RV secret
         @ ''|host='' @ postgreSQL_Host pg @ ''|port='' @ show_int (PostgreSQLPort kn)
         @ ''|sslMode='' @ (if postgreSQL_SSLMode pg = '''' then DefaultSSLMode else postgreSQL_SSLMode pg)))"

definition postgresqlCredentialRevision :: "'s env \<Rightarrow> ('s, string go) prog" where
  "postgresqlCredentialRevision E = do {
     kn \<leftarrow> the_kn;
     r \<leftarrow> Get E ''Secret'' (kn_Namespace kn, postgreSQL_SecretName (spec_PostgreSQL (kn_Spec kn)));
     State_Monad.return (case r of
        Inl e \<Rightarrow> Inl (Wrap ''reading PostgreSQL Secret for credential revision'' (API e))
      | Inr secret \<Rightarrow> Inr (credential_revision kn secret)) }"

text \<open>The Job's conditions are scanned in order for the first terminal one.\<close>

datatype outcome = Complete | Failed

fun job_outcome :: "job_condition list \<Rightarrow> outcome option" where
  "job_outcome [] = None"
| "job_outcome (c # cs) =
     (if jobCond_Type c = ''Complete'' \<and> jobCond_Status c = ''True'' then Some Complete
      else if jobCond_Type c = ''Failed'' \<and> jobCond_Status c = ''True'' then Some Failed
      else job_outcome cs)"

definition job_conditions :: "kobj \<Rightarrow> job_condition list" where
  "job_conditions x = (case obj_Body x of JobBody _ cs \<Rightarrow> cs | _ \<Rightarrow> [])"

definition delete_stale_job :: "'s env \<Rightarrow> string \<Rightarrow> kobj \<Rightarrow> ('s, result \<times> go_error option) prog" where
  "delete_stale_job E message job = do {
     d \<leftarrow> deleteObservedResource E job;
     State_Monad.return (case d of
        Some e \<Rightarrow> (if IsNotFound e then (millisecond, None) else (0, Some (Wrap message (API e))))
      | None \<Rightarrow> (millisecond, None)) }"

definition handleCompleteMigrationJob :: "'s env \<Rightarrow> int \<Rightarrow> kobj \<Rightarrow> string \<Rightarrow> ('s, result \<times> go_error option) prog" where
  "handleCompleteMigrationJob E now existingJob desiredHash =
     (if mget (obj_Annotations existingJob) AnnotationSpecHash = desiredHash
      then do {
        err \<leftarrow> patchStatus E (\<lambda>kn. kn\<lparr>kn_Status := (kn_Status kn)\<lparr>status_LastMigrationHash := desiredHash,
                 status_LastMigrationTime := Some now\<rparr>\<rparr>);
        State_Monad.return (0, err) }
      else delete_stale_job E ''deleting stale migration job'' existingJob)"

definition migration_failure :: "job_condition list \<Rightarrow> string" where
  "migration_failure cs =
     (case find (\<lambda>c. jobCond_Type c = ''Failed'' \<and> (jobCond_Reason c \<noteq> '''' \<or> jobCond_Message c \<noteq> '''')) cs of
        Some c \<Rightarrow> trim_space (join_strings '': '' [jobCond_Reason c, jobCond_Message c])
      | None \<Rightarrow> ''migration job reached a terminal failed state'')"

definition handleFailedMigrationJob :: "'s env \<Rightarrow> kobj \<Rightarrow> string \<Rightarrow> ('s, result \<times> go_error option) prog" where
  "handleFailedMigrationJob E existingJob credentialRevision =
     (if mget (obj_Annotations existingJob) AnnotationPostgreSQLCredentialRevision \<noteq> credentialRevision
      then delete_stale_job E ''deleting stale failed migration job'' existingJob
      else do {
        Eventf Warning ReasonMigrationFailed;
        setConditionAndRequeue E ConditionMigrationComplete ReasonMigrationFailed
          (''Database migration failed: '' @ migration_failure (job_conditions existingJob)
           @ ''; correct the referenced PostgreSQL dependency and update its Secret before retrying'') })"

definition await_migration :: "'s env \<Rightarrow> ('s, result \<times> go_error option) prog" where
  "await_migration E = do {
     err \<leftarrow> patchStatus E (\<lambda>kn. set_condition E ConditionMigrationComplete ConditionFalse ReasonMigrationInProgress
              ''Database migration job is running'' (setCRDsReady E (setPhase PhaseMigrating kn)));
     State_Monad.return (case err of Some e \<Rightarrow> (0, Some e) | None \<Rightarrow> (requeueMigrationPoll, None)) }"

definition checkMigrationJob ::
  "'s env \<Rightarrow> int \<Rightarrow> kobj \<Rightarrow> string \<Rightarrow> string \<Rightarrow> ('s, result \<times> go_error option) prog" where
  "checkMigrationJob E now existingJob desiredHash credentialRevision =
     (case job_outcome (job_conditions existingJob) of
        Some Complete \<Rightarrow> handleCompleteMigrationJob E now existingJob desiredHash
      | Some Failed \<Rightarrow> handleFailedMigrationJob E existingJob credentialRevision
      | None \<Rightarrow> do {
          kn \<leftarrow> the_kn;
          (if status_LastMigrationHash (kn_Status kn) = desiredHash then State_Monad.return (0, None)
           else await_migration E) })"

definition revised_job :: "string \<Rightarrow> kobj \<Rightarrow> kobj" where
  "revised_job revision job = set_annotations ((obj_Annotations job)(AnnotationPostgreSQLCredentialRevision \<mapsto> revision)) job"

definition ensureMigrationJob ::
  "'s env \<Rightarrow> (string \<Rightarrow> string) \<Rightarrow> int \<Rightarrow> ('s, result \<times> go_error option) prog" where
  "ensureMigrationJob E getenv now = do {
     kn \<leftarrow> the_kn;
     (case MigrationJob getenv kn of
        Inl e \<Rightarrow> State_Monad.return (0, Some (Wrap ''building migration job'' e))
      | Inr job \<Rightarrow> do {
          revision \<leftarrow> postgresqlCredentialRevision E;
          (case revision of
             Inl e \<Rightarrow> State_Monad.return (0, Some e)
           | Inr credentialRevision \<Rightarrow> do {
               let migrationJob = revised_job credentialRevision job;
               let desiredHash = SpecHash E migrationJob;
               c \<leftarrow> createIfNotFound E (setHashAnnotation desiredHash migrationJob);
               (case c of
                  Inl e \<Rightarrow> State_Monad.return (0, Some (Wrap ''ensuring migration job'' e))
                | Inr (Inl created) \<Rightarrow> checkMigrationJob E now created desiredHash credentialRevision
                | Inr (Inr existing) \<Rightarrow> checkMigrationJob E now existing desiredHash credentialRevision) }) }) }"


subsection \<open>When the migration phase is passed\<close>

lemma run_checkMigrationJob_done:
  assumes "run_state (checkMigrationJob E now job h rv) w = ((res, None), w')" and "\<not> res > 0"
  shows "job_outcome (job_conditions job) = Some Complete \<and> mget (obj_Annotations job) AnnotationSpecHash = h \<or>
    job_outcome (job_conditions job) = None \<and> status_LastMigrationHash (kn_Status (w_kn w)) = h"
  using assms
  by (auto simp: checkMigrationJob_def handleCompleteMigrationJob_def handleFailedMigrationJob_def delete_stale_job_def
      await_migration_def call_defs run_setConditionAndRequeue requeue_defs
      split: option.splits outcome.splits if_splits prod.splits)

lemma run_postgresqlCredentialRevision:
  "run_state (postgresqlCredentialRevision E) w =
     (case e_get E (w_cluster w) ''Secret'' (kn_Namespace (w_kn w), postgreSQL_SecretName (spec_PostgreSQL (kn_Spec (w_kn w)))) of
        (Inl e, s) \<Rightarrow> (Inl (Wrap ''reading PostgreSQL Secret for credential revision'' (API e)), w\<lparr>w_cluster := s\<rparr>)
      | (Inr secret, s) \<Rightarrow> (Inr (credential_revision (w_kn w) secret), w\<lparr>w_cluster := s,
          w_trace := Read ''Secret'' (kn_Namespace (w_kn w), postgreSQL_SecretName (spec_PostgreSQL (kn_Spec (w_kn w)))) secret # w_trace w\<rparr>))"
  by (simp add: postgresqlCredentialRevision_def call_defs reads_of_def split: prod.splits sum.splits)

text \<open>C7: The migration phase is passed only on evidence for the current configuration: for a Job built
  from the present specification and the present revision of the PostgreSQL Secret, the Job that
  create-if-absent found or created is complete and carries the hash of exactly that Job, or it is
  not terminal and the status records that this very hash was already migrated. A failed Job never
  lets the phase pass.\<close>

theorem migration_phase_gate:
  assumes "run_state (ensureMigrationJob E getenv now) w = ((res, None), w')" and "\<not> res > 0"
  shows "\<exists>job secret rv h v v' live.
    MigrationJob getenv (w_kn w) = Inr job \<and>
    run_state (postgresqlCredentialRevision E) w = (Inr rv, v) \<and>
    fst (e_get E (w_cluster w) ''Secret'' (kn_Namespace (w_kn w), postgreSQL_SecretName (spec_PostgreSQL (kn_Spec (w_kn w)))))
      = Inr secret \<and> rv = credential_revision (w_kn w) secret \<and> h = SpecHash E (revised_job rv job) \<and>
    run_state (createIfNotFound E (setHashAnnotation h (revised_job rv job))) v \<in> {(Inr (Inl live), v'), (Inr (Inr live), v')} \<and>
    (job_outcome (job_conditions live) = Some Complete \<and> mget (obj_Annotations live) AnnotationSpecHash = h \<or>
     job_outcome (job_conditions live) = None \<and> status_LastMigrationHash (kn_Status (w_kn v')) = h)"
proof -
  obtain job where job: "MigrationJob getenv (w_kn w) = Inr job"
    using assms(1) by (cases "MigrationJob getenv (w_kn w)") (simp_all add: ensureMigrationJob_def call_defs)
  obtain r v where rev: "run_state (postgresqlCredentialRevision E) w = (r, v)" by fastforce
  with assms(1) job obtain rv where r: "r = Inr rv"
    by (cases r) (simp_all add: ensureMigrationJob_def call_defs)
  let ?h = "SpecHash E (revised_job rv job)"
  obtain c v' where create: "run_state (createIfNotFound E (setHashAnnotation ?h (revised_job rv job))) v = (c, v')" by fastforce
  from assms(1) job rev r create obtain live
    where c: "c = Inr (Inl live) \<or> c = Inr (Inr live)"
      and check: "run_state (checkMigrationJob E now live ?h rv) v' = ((res, None), w')"
    by (cases c) (auto simp: ensureMigrationJob_def call_defs Let_def split: sum.splits)
  obtain secret where secret: "fst (e_get E (w_cluster w) ''Secret''
      (kn_Namespace (w_kn w), postgreSQL_SecretName (spec_PostgreSQL (kn_Spec (w_kn w))))) = Inr secret"
    and rv: "rv = credential_revision (w_kn w) secret"
    using rev r by (auto simp: run_postgresqlCredentialRevision split: prod.splits sum.splits)
  note verdict = run_checkMigrationJob_done [OF check assms(2)]
  show ?thesis
    by (rule exI [of _ job], rule exI [of _ secret], rule exI [of _ rv], rule exI [of _ ?h], rule exI [of _ v],
        rule exI [of _ v'], rule exI [of _ live])
      (use job rev r secret rv create c verdict in auto)
qed

definition sample_job_spec :: job_spec where
  "sample_job_spec = \<lparr>job_BackoffLimit = 3, job_PodLabels = Map.empty,
     job_Pod = zero_pod_spec\<lparr>pod_AutomountServiceAccountToken := Some False, pod_RestartPolicy := ''OnFailure'',
       pod_SecurityContext := PodSecurityContext\<rparr>\<rparr>"

definition sample_job :: "job_condition list \<Rightarrow> kobj" where
  "sample_job cs = StampOwnership sample_kn (set_owners [sample_controller_ref sample_kn]
     (set_annotations [AnnotationSpecHash \<mapsto> ''kubernaut-db-migration-digest'']
       (sample_object ''Job'' migrationJobName (JobBody sample_job_spec cs))))"

definition sample_secret :: kobj where
  "sample_secret = sample_object ''Secret'' '''' (SecretBody [] None '''')"

definition completed :: job_condition where
  "completed = \<lparr>jobCond_Type = ''Complete'', jobCond_Status = ''True'', jobCond_Reason = '''', jobCond_Message = ''''\<rparr>"

lemma sample_job_sels [simp]:
  "obj_Kind (sample_job cs) = ''Job''" "obj_Name (sample_job cs) = migrationJobName"
  "obj_Namespace (sample_job cs) = ''kubernaut-system''" "obj_Owners (sample_job cs) = [sample_controller_ref sample_kn]"
  "job_conditions (sample_job cs) = cs"
  "mget (obj_Annotations (sample_job cs)) AnnotationSpecHash = ''kubernaut-db-migration-digest''"
  by (simp_all add: sample_job_def job_conditions_def StampOwnership_def)

lemma sample_job_owned: "ResourceOwnershipError sample_env sample_kn (sample_job cs) True = None"
  by (simp add: gate_iff owned_def sample_job_def marker_consistent_def marker_complete_def ownershipLabelKeys_def
      controller_ref_def sample_controller_ref_def crdGroup_def)

lemma sample_createIfNotFound:
  assumes "obj_Kind x = ''Job''" and "obj_key x = (''kubernaut-system'', migrationJobName)" and "obj_Owners x = []"
    and "w_kn w = sample_kn" and "cl_objects (w_cluster w) = [sample_job cs, sample_secret]"
  shows "run_state (createIfNotFound sample_env x) w =
    (Inr (Inr (sample_job cs)), w\<lparr>w_trace := Read ''Job'' (''kubernaut-system'', migrationJobName) (sample_job cs) # w_trace w\<rparr>)"
proof -
  have ref: "sample_setControllerReference sample_kn x = Inr (set_owners [sample_controller_ref sample_kn] x)"
    using assms(2,3) by (simp add: sample_setControllerReference_def obj_key_def)
  have matches: "ownershipMetadataMatches (StampOwnership sample_kn (set_owners [sample_controller_ref sample_kn] x)) (sample_job cs)"
    by (simp add: ownershipMetadataMatches_def sample_job_def ownershipLabelKeys_def CommonLabels_def label_names)
  show ?thesis
    using assms
    by (simp add: createIfNotFound_def repairExisting_def checkResourceOwnership_def call_defs ref matches sample_job_owned
        sample_get_def is_at_def reads_of_def obj_key_def Let_def)
qed

lemma MigrationJob_sels:
  assumes "MigrationJob getenv kn = Inr job"
  shows "obj_Kind job = ''Job''" "obj_key job = (kn_Namespace kn, migrationJobName)" "obj_Name job = migrationJobName"
    "obj_Owners job = []"
  using assms by (auto simp: MigrationJob_def Let_def obj_key_def ObjectMeta_def zero_object_meta_def split: sum.splits)

lemma revised_job_sels [simp]:
  "obj_Kind (revised_job rv x) = obj_Kind x" "obj_key (revised_job rv x) = obj_key x"
  "obj_Name (revised_job rv x) = obj_Name x" "obj_Owners (revised_job rv x) = obj_Owners x"
  by (simp_all add: revised_job_def)

lemma SpecHash_sample [simp]: "SpecHash sample_env x = obj_Name x @ ''-digest''"
  by (simp add: SpecHash_def stripServerMetadata_def)

lemma sample_secret_sels [simp]:
  "obj_Kind sample_secret = ''Secret''" "obj_key sample_secret = (''kubernaut-system'', '''')"
  "postgreSQL_SecretName (spec_PostgreSQL (kn_Spec zero_Kubernaut)) = ''''"
  by (simp_all add: sample_secret_def obj_key_def zero_Kubernaut_def zero_KubernautSpec_def zero_PostgreSQLSpec_def)

lemma sample_job_facts [simp]:
  "jobCond_Type completed = ''Complete''" "jobCond_Status completed = ''True''" "migrationJobName @ ''-digest'' = ''kubernaut-db-migration-digest''"
  by (simp_all add: completed_def migrationJobName_def)

theorem migration_phase_gate_witness:
  "\<exists>w' job live. run_state (ensureMigrationJob sample_env (\<lambda>_. ''img'') 0)
       (sample_world [sample_job [completed], sample_secret]) = ((0, None), w') \<and>
     MigrationJob (\<lambda>_. ''img'') sample_kn = Inr job \<and>
     (job_outcome (job_conditions live) = Some Complete \<or> job_outcome (job_conditions live) = None)"
proof -
  let ?w = "sample_world [sample_job [completed], sample_secret]"
  obtain job where job: "MigrationJob (\<lambda>_. ''img'') sample_kn = Inr job"
    by (simp add: MigrationJob_def ResolveImage_def related_image_def zero_Kubernaut_def zero_KubernautSpec_def zero_ImageSpec_def Let_def)
  have "\<exists>w'. run_state (ensureMigrationJob sample_env (\<lambda>_. ''img'') 0) ?w = ((0, None), w')"
    using MigrationJob_sels [OF job]
    by (simp add: ensureMigrationJob_def the_kn_def job run_postgresqlCredentialRevision sample_get_def is_at_def
        sample_createIfNotFound [where cs = "[completed]"] checkMigrationJob_def handleCompleteMigrationJob_def
        run_patchStatus sample_patchStatusKn_def Let_def)
  then obtain w' where "run_state (ensureMigrationJob sample_env (\<lambda>_. ''img'') 0) ?w = ((0, None), w')" ..
  with migration_phase_gate [OF this] show ?thesis by auto
qed

subsection \<open>Which Jobs are deleted\<close>

lemma emits_setConditionAndRequeue [emits_rules]:
  "(\<And>kn kn'. P (PatchStatusCall kn kn')) \<Longrightarrow> emits P (setConditionAndRequeue E t r m)"
  unfolding setConditionAndRequeue_def by (intro emits_rules)

fun deletes :: "kobj \<Rightarrow> bool \<Rightarrow> call \<Rightarrow> bool" where
  "deletes job stale (DeleteCall x) = (x = job \<and> stale)"
| "deletes job stale (PatchStatusCall kn kn') = True"
| "deletes job stale c = False"

definition stale_job :: "kobj \<Rightarrow> string \<Rightarrow> string \<Rightarrow> bool" where
  "stale_job job h rv =
     (case job_outcome (job_conditions job) of
        Some Complete \<Rightarrow> mget (obj_Annotations job) AnnotationSpecHash \<noteq> h
      | Some Failed \<Rightarrow> mget (obj_Annotations job) AnnotationPostgreSQLCredentialRevision \<noteq> rv
      | None \<Rightarrow> False)"

lemma emits_case_outcome [emits_rules]:
  "(x = Complete \<Longrightarrow> emits P f) \<Longrightarrow> (x = Failed \<Longrightarrow> emits P g) \<Longrightarrow>
   emits P (case x of Complete \<Rightarrow> f | Failed \<Rightarrow> g)"
  by (cases x) simp_all

lemma emits_checkMigrationJob: "emits (deletes job (stale_job job h rv)) (checkMigrationJob E now job h rv)"
  unfolding checkMigrationJob_def handleCompleteMigrationJob_def handleFailedMigrationJob_def delete_stale_job_def
    await_migration_def
  by (intro emits_rules) (simp_all add: stale_job_def)

text \<open>A migration Job is deleted only when it is terminal and out of date: complete with the hash of
  another Job, or failed for another revision of the PostgreSQL credentials. Looking at a Job makes no
  other call than that delete and patches of the status, and a Job that failed for the present
  revision is retained while the reconciler reports the failure and asks to be run again.\<close>

lemma migration_job_retention:
  assumes "run_state (checkMigrationJob E now job h rv) w = ((res, err), w')"
  shows "(\<exists>cs. w_trace w' = cs @ w_trace w \<and> list_all (deletes job (stale_job job h rv)) cs) \<and>
    (job_outcome (job_conditions job) = Some Failed \<and> \<not> stale_job job h rv
      \<longrightarrow> (err \<noteq> None \<or> res > 0) \<and> \<lparr>event_Type = Warning, event_Reason = ReasonMigrationFailed\<rparr> \<in> set (w_events w'))"
proof -
  have "(err \<noteq> None \<or> res > 0) \<and> \<lparr>event_Type = Warning, event_Reason = ReasonMigrationFailed\<rparr> \<in> set (w_events w')"
    if "job_outcome (job_conditions job) = Some Failed" and "\<not> stale_job job h rv"
    using assms that
    by (auto simp: checkMigrationJob_def stale_job_def handleFailedMigrationJob_def run_setConditionAndRequeue
        run_patchStatus Eventf_def requeue_defs split: prod.splits sum.splits option.splits)
  then show ?thesis using emitsD [OF emits_checkMigrationJob assms] by blast
qed

definition failed :: job_condition where
  "failed = \<lparr>jobCond_Type = ''Failed'', jobCond_Status = ''True'', jobCond_Reason = ''BackoffLimitExceeded'', jobCond_Message = ''''\<rparr>"

lemma migration_job_retention_example:
  "\<exists>res err w'. run_state (checkMigrationJob sample_env 0 (sample_job [failed]) ''h'' '''') (sample_world []) = ((res, err), w') \<and>
     (err \<noteq> None \<or> res > 0)"
proof -
  obtain res err w' where run: "run_state (checkMigrationJob sample_env 0 (sample_job [failed]) ''h'' '''') (sample_world [])
      = ((res, err), w')" by (metis prod.exhaust)
  have "mget (obj_Annotations (sample_job [failed])) AnnotationPostgreSQLCredentialRevision = ''''"
    by (simp add: sample_job_def AnnotationPostgreSQLCredentialRevision_def annotation_names AnnotationSpecHash_def)
  with migration_job_retention [OF run] have "err \<noteq> None \<or> res > 0" by (simp add: stale_job_def failed_def)
  with run show ?thesis by blast
qed

subsection \<open>The Job's pod and its connection string\<close>

lemma split_on_absent: "d \<notin> set a \<Longrightarrow> split_on d a = [a]"
  by (induction a) auto

lemma split_on_append: "d \<notin> set a \<Longrightarrow> split_on d (a @ d # b) = a # split_on d b"
  by (induction a) auto

lemma digits_no_space: "CHR '' '' \<notin> set (digits n)"
proof (induction n rule: digits.induct)
  case (1 n)
  have "char_of (48 + m) \<noteq> CHR '' ''" if "m < 10" for m :: nat
  proof
    assume "char_of (48 + m) = CHR '' ''"
    then have "of_char (char_of (48 + m) :: char) = (32 :: nat)" by simp
    with that show False by simp
  qed
  then show ?case using 1 by (subst digits.simps) (auto dest: sym)
qed

lemma show_int_no_space: "CHR '' '' \<notin> set (show_int i)"
  by (simp add: show_int_def digits_no_space)

lemma hostname_no_space: "ValidateHostname host = None \<Longrightarrow> CHR '' '' \<notin> set host"
  by (auto simp: ValidateHostname_def list_all_iff hostname_char_def Let_def split: if_splits)

lemma words_cons: "CHR '' '' \<notin> set a \<Longrightarrow> split_on CHR '' '' (a @ '' '' @ b) = a # split_on CHR '' '' b"
  by (simp add: split_on_append)

definition dsn_words :: "Kubernaut \<Rightarrow> string list" where
  "dsn_words kn = [''host='' @ postgreSQL_Host (spec_PostgreSQL (kn_Spec kn)), ''port='' @ show_int (PostgreSQLPort kn),
     ''dbname=$(POSTGRES_DB)'', ''user=$(POSTGRES_USER)'', ''password=$(POSTGRES_PASSWORD)'', ''sslmode='' @ migration_sslMode kn]
     @ (if migration_sslMode kn = DefaultSSLMode then [''sslrootcert='' @ InterServiceTLSCAFileFor kn] else [])"

lemma migration_dsn_words:
  assumes "ValidateHostname (postgreSQL_Host (spec_PostgreSQL (kn_Spec kn))) = None"
    and "CHR '' '' \<notin> set (migration_sslMode kn)" and "CHR '' '' \<notin> set (InterServiceTLSCAFileFor kn)"
  shows "split_on CHR '' '' (migration_dsn kn) = dsn_words kn"
proof -
  let ?pg = "spec_PostgreSQL (kn_Spec kn)" and ?m = "migration_sslMode kn" and ?ca = "InterServiceTLSCAFileFor kn"
  let ?tail = "if ?m = DefaultSSLMode then '' '' @ (''sslrootcert='' @ ?ca) else ''''"
  have dsn: "migration_dsn kn = (''host='' @ postgreSQL_Host ?pg) @ '' '' @ (''port='' @ show_int (PostgreSQLPort kn)) @ '' '' @
      ''dbname=$(POSTGRES_DB)'' @ '' '' @ ''user=$(POSTGRES_USER)'' @ '' '' @ ''password=$(POSTGRES_PASSWORD)'' @ '' '' @
      ((''sslmode='' @ ?m) @ ?tail)"
    by (simp add: migration_dsn_def)
  have "split_on CHR '' '' ((''sslmode='' @ ?m) @ ?tail) = (''sslmode='' @ ?m) #
      (if ?m = DefaultSSLMode then [''sslrootcert='' @ ?ca] else [])"
  proof (cases "?m = DefaultSSLMode")
    case True
    then have "(''sslmode='' @ ?m) @ ?tail = (''sslmode='' @ ?m) @ '' '' @ (''sslrootcert='' @ ?ca)" by simp
    moreover have "split_on CHR '' '' (''sslrootcert='' @ ?ca) = [''sslrootcert='' @ ?ca]"
      by (rule split_on_absent) (simp add: assms(3))
    ultimately show ?thesis using True words_cons [of "''sslmode='' @ ?m" "''sslrootcert='' @ ?ca"] assms(2) by (simp del: append.simps)
  next
    case False
    then show ?thesis using split_on_absent [of "CHR '' ''" "''sslmode='' @ ?m"] assms(2) by (simp del: append.simps)
  qed
  then show ?thesis
    unfolding dsn dsn_words_def
    using hostname_no_space [OF assms(1)] show_int_no_space
    by (subst words_cons, simp, subst words_cons, simp, subst words_cons, simp, subst words_cons, simp, subst words_cons, simp) simp
qed


definition postgres_kn :: Kubernaut where
  "postgres_kn = sample_kn\<lparr>kn_Spec := (kn_Spec sample_kn)\<lparr>spec_PostgreSQL :=
     (spec_PostgreSQL (kn_Spec sample_kn))\<lparr>postgreSQL_Host := ''db.local'', postgreSQL_SecretName := ''pg''\<rparr>\<rparr>\<rparr>"


subsection \<open>Safety of the shared definitions\<close>

definition crd_ok :: "kobj \<Rightarrow> bool" where
  "crd_ok x \<longleftrightarrow> mget (obj_Labels x) LabelManagedBy = ''kubernaut-operator'' \<and> obj_Owners x = [] \<and> \<not> obj_terminating x"

definition crd_assets :: "assets \<Rightarrow> bool" where
  "crd_assets A \<longleftrightarrow> (\<forall>data x. yamlToUnstructured A data = Inr x \<longrightarrow> obj_Kind x = CRDKind \<and> obj_Namespace x = '''')"

lemma shared_crd_sels [simp]:
  "obj_Kind (shared_crd E x) = obj_Kind x" "obj_key (shared_crd E x) = obj_key x" "obj_Name (shared_crd E x) = obj_Name x"
  "obj_Namespace (shared_crd E x) = obj_Namespace x"
  by (simp_all add: shared_crd_def Let_def)

lemma merged_crd_sels [simp]:
  "obj_Kind (merged_crd d live) = obj_Kind d" "obj_key (merged_crd d live) = obj_key d" "obj_RV (merged_crd d live) = obj_RV live"
  by (simp_all add: merged_crd_def)

lemma safe_updateSharedCRD:
  assumes "\<And>y. crd_ok y \<Longrightarrow> ok y" and "obj_Kind d = kind" and "obj_key d = k"
  shows "triple (\<lambda>w. safe ok me w \<and> seen kind k live w) (updateSharedCRD E d live) (\<lambda>_. safe ok me)"
proof -
  have upd: "triple (\<lambda>w. safe ok me w \<and> seen kind k live w) (Update E (merged_crd d live)) (\<lambda>_. safe ok me)" if "crd_ok live"
    using that by (intro triple_conseq [OF safe_Update [where y = live]]) (auto intro!: addressesI simp: assms)
  show ?thesis
    unfolding updateSharedCRD_def
    by (intro triple_if triple_return triple_bind [OF upd]) (auto simp: crd_ok_def)
qed

lemma safe_ensureSharedCRD:
  assumes "\<And>y. crd_ok y \<Longrightarrow> ok y" and "obj_Kind d = CRDKind" and "obj_Namespace d = ''''"
  shows "keeps (safe ok me) (ensureSharedCRD E d)"
proof -
  have upd: "triple (\<lambda>w. safe ok me w \<and> seen CRDKind ('''', obj_Name d) live w)
      (updateSharedCRD E (shared_crd E d) live) (\<lambda>_. safe ok me)" for live
    by (rule safe_updateSharedCRD [OF assms(1)]) (simp_all add: assms(2,3) obj_key_def)
  show ?thesis
    unfolding keeps_def ensureSharedCRD_def Let_def
    by (rule triple_bind_sum [OF safe_OwnershipGet];
        (intro triple_case_sum triple_if triple_return triple_bind_from [OF safe_Create [unfolded keeps_def]]
          triple_bind_sum [OF safe_OwnershipGet])?)
      (auto intro!: triple_strengthen [OF upd])
qed

lemma safe_ensureEmbeddedCRDs:
  assumes "\<And>y. crd_ok y \<Longrightarrow> ok y" and "crd_assets A"
  shows "keeps (safe ok me) (ensureEmbeddedCRDs E A)"
  unfolding ensureEmbeddedCRDs_def
  by (intro triple_rules safe_ensureSharedCRD [OF assms(1)]; (assumption | use assms(2) in \<open>auto simp: crd_assets_def\<close>)?)

text \<open>Shared definitions of others are left alone: installing the embedded CRDs updates only
  definitions that it read in the run and that carry the operator's label, have no owner and are
  not being deleted, pinned to the version read; and an update keeps every label of the live
  definition and every annotation of it but the hash.\<close>

lemma ensureEmbeddedCRDs_safe:
  assumes "crd_assets A" and "w_trace w = []"
  shows "guarded crd_ok (w_trace (snd (run_state (ensureEmbeddedCRDs E A) w))) \<and>
    (\<forall>d live. obj_Labels live \<subseteq>\<^sub>m obj_Labels (merged_crd d live) \<and>
       (obj_Annotations live)(AnnotationSpecHash := None) \<subseteq>\<^sub>m obj_Annotations (merged_crd d live))"
proof -
  have "safe crd_ok (ident (w_kn w)) w" by (simp add: safe_def assms(2))
  from keepsD [OF safe_ensureEmbeddedCRDs [OF _ assms(1)] this, of E] show ?thesis
    by (auto simp: safe_def merged_crd_def)
qed

definition sample_crd :: kobj where
  "sample_crd = \<lparr>obj_Kind = CRDKind, obj_Meta = zero_object_meta\<lparr>meta_Name := ''workflows.kubernaut.ai''\<rparr>, obj_Body = NoBody\<rparr>"

definition sample_assets :: assets where
  "sample_assets = \<lparr>fs_ReadDir = (\<lambda>d. Inr [(''workflows.yaml'', False)]), fs_ReadFile = (\<lambda>f. Inr f),
     a_YAMLToJSON = (\<lambda>y. Inr y), a_UnmarshalJSON = (\<lambda>j. Inr sample_crd)\<rparr>"

lemma sample_crd_assets: "crd_assets sample_assets"
  by (simp add: crd_assets_def yamlToUnstructured_def sample_assets_def sample_crd_def zero_object_meta_def)

lemma ensureEmbeddedCRDs_safe_example:
  "guarded crd_ok (w_trace (snd (run_state (ensureEmbeddedCRDs sample_env sample_assets) (sample_world [sample_crd]))))"
  using ensureEmbeddedCRDs_safe [OF sample_crd_assets, of "sample_world [sample_crd]" sample_env] by simp

end
