(* ===== verification/Startup_Inputs.thy ===== *)
theory Startup_Inputs
  imports Migration
begin

text \<open>
  The administrator-owned inputs that are checked before anything is migrated or deployed: the database
  credentials (\<^verbatim>\<open>internal/resources/credentials.go\<close>), the pre-created ConfigMaps and Secrets that the
  specification refers to, the Fleet trust and token Secrets and the monitoring CA
  (\<^verbatim>\<open>internal/controller/kubernaut_controller.go\<close>), and the telemetry material
  (\<^verbatim>\<open>internal/controller/telemetry.go\<close>, \<^verbatim>\<open>internal/resources/telemetry.go\<close>). All of it is only read.

  Go's PEM, X.509, JSON and YAML decoders are fields of the record \<open>decoders\<close>. The result of
  \<^verbatim>\<open>pem.Decode\<close> is the block with the position of its last byte, so that the rest is what follows it.
\<close>

subsection \<open>Decoders\<close>

record certificate =
  cert_Raw :: string
  cert_IsCA :: bool
  cert_NotBefore :: int
  cert_NotAfter :: int
  cert_ExtKeyUsage :: "int list"

record pem_block =
  pem_Type :: string
  pem_Bytes :: string
  pem_Last :: nat

record decoders =
  d_pemDecode :: "string \<Rightarrow> pem_block option"
  d_parseCertificate :: "string \<Rightarrow> certificate go"
  d_appendCertsFromPEM :: "string \<Rightarrow> bool"
  d_x509KeyPair :: "string \<Rightarrow> string \<Rightarrow> go_error option"
  d_jsonValid :: "string \<Rightarrow> bool"
  d_yamlObject :: "string \<Rightarrow> nat go" \<comment> \<open>the number of entries of the object\<close>
  d_yamlCredential :: "string \<Rightarrow> (string \<times> string) option" \<comment> \<open>username and password\<close>
  d_now :: int

subsection \<open>Database credentials\<close>

definition PostgreSQLDataStorageSecretKey :: string where
  "PostgreSQLDataStorageSecretKey = ''db-secrets.yaml''"

record dataStorageCredentialYAML =
  credential_Username :: string
  credential_Password :: string

definition requiredSecretValue :: "kobj \<Rightarrow> string \<Rightarrow> string go" where
  "requiredSecretValue secret key =
     (case map_of (secret_data secret) key of
        None \<Rightarrow> Inl (Msg (''postgresql secret '' @ obj_Name secret @ '' is missing required key '' @ key))
      | Some raw \<Rightarrow>
         if trim_space raw = ''''
         then Inl (Msg (''postgresql secret '' @ obj_Name secret @ '' is missing required key '' @ key))
         else Inr raw)"

definition parseDataStorageCredential :: "decoders \<Rightarrow> kobj \<Rightarrow> dataStorageCredentialYAML go" where
  "parseDataStorageCredential D secret =
     (let raw = gget (secret_data secret) PostgreSQLDataStorageSecretKey in
      if raw = ''''
      then Inl (Msg (''postgresql secret '' @ obj_Name secret @ '' is missing required key '' @ PostgreSQLDataStorageSecretKey))
      else case d_yamlCredential D raw of
        None \<Rightarrow> Inl (Msg (''postgresql secret '' @ obj_Name secret @ '' contains invalid credential YAML''))
      | Some (username, password) \<Rightarrow>
         if trim_space username = ''''
         then Inl (Msg (''postgresql secret '' @ obj_Name secret @ '' is missing a non-empty username''))
         else if trim_space password = ''''
         then Inl (Msg (''postgresql secret '' @ obj_Name secret @ '' is missing a non-empty password''))
         else Inr \<lparr>credential_Username = username, credential_Password = password\<rparr>)"

definition ValidatePostgreSQLSecret :: "decoders \<Rightarrow> kobj \<Rightarrow> go_error option" where
  "ValidatePostgreSQLSecret D secret =
     (case requiredSecretValue secret ''POSTGRES_USER'' of
        Inl e \<Rightarrow> Some e
      | Inr user \<Rightarrow>
     (case requiredSecretValue secret ''POSTGRES_PASSWORD'' of
        Inl e \<Rightarrow> Some e
      | Inr password \<Rightarrow>
     (case requiredSecretValue secret ''POSTGRES_DB'' of
        Inl e \<Rightarrow> Some e
      | Inr _ \<Rightarrow>
     (case parseDataStorageCredential D secret of
        Inl e \<Rightarrow> Some e
      | Inr runtime \<Rightarrow>
         if credential_Username runtime \<noteq> user
         then Some (Msg (''postgresql secret '' @ obj_Name secret @ '' has inconsistent database username''))
         else if credential_Password runtime \<noteq> password
         then Some (Msg (''postgresql secret '' @ obj_Name secret @ '' has inconsistent database password''))
         else None))))"

definition ValidateValkeySecret :: "decoders \<Rightarrow> kobj \<Rightarrow> go_error option" where
  "ValidateValkeySecret D secret =
     (let raw = gget (secret_data secret) ''valkey-secrets.yaml'' in
      if raw = ''''
      then Some (Msg (''valkey secret '' @ obj_Name secret @ '' is missing required key valkey-secrets.yaml''))
      else case d_yamlCredential D raw of
        None \<Rightarrow> Some (Msg (''valkey secret '' @ obj_Name secret @ '' contains invalid credential YAML''))
      | Some (_, password) \<Rightarrow>
         if trim_space password = ''''
         then Some (Msg (''valkey secret '' @ obj_Name secret @ '' is missing a non-empty password''))
         else None)"

definition validatePostgreSQLSecret :: "'s env \<Rightarrow> decoders \<Rightarrow> ('s, go_error option) prog" where
  "validatePostgreSQLSecret E D = do {
     kn \<leftarrow> the_kn;
     let name = postgreSQL_SecretName (spec_PostgreSQL (kn_Spec kn));
     r \<leftarrow> Get E ''Secret'' (kn_Namespace kn, name);
     State_Monad.return (case r of
        Inl e \<Rightarrow> Some (Wrap (''reading PostgreSQL secret '' @ name) (API e))
      | Inr secret \<Rightarrow> ValidatePostgreSQLSecret D secret) }"

definition validateValkeySecret :: "'s env \<Rightarrow> decoders \<Rightarrow> ('s, go_error option) prog" where
  "validateValkeySecret E D = do {
     kn \<leftarrow> the_kn;
     let name = valkey_SecretName (spec_Valkey (kn_Spec kn));
     r \<leftarrow> Get E ''Secret'' (kn_Namespace kn, name);
     State_Monad.return (case r of
        Inl e \<Rightarrow> Some (Wrap (''reading Valkey secret '' @ name) (API e))
      | Inr secret \<Rightarrow> ValidateValkeySecret D secret) }"

definition validateSecret :: "'s env \<Rightarrow> string \<Rightarrow> string \<Rightarrow> string list \<Rightarrow> ('s, go_error option) prog" where
  "validateSecret E namespace name requiredKeys = do {
     r \<leftarrow> Get E ''Secret'' (namespace, name);
     State_Monad.return (case r of
        Inl e \<Rightarrow> Some (Wrap (''secret '' @ name @ '' not found'') (API e))
      | Inr secret \<Rightarrow>
         (case find (\<lambda>key. \<not> gmap_has (secret_data secret) key) requiredKeys of
            None \<Rightarrow> None
          | Some key \<Rightarrow> Some (Msg (''secret '' @ name @ '' is missing required key '' @ key)))) }"

subsection \<open>Certificates\<close>

definition begin_marker :: string where "begin_marker = ''-----BEGIN ''"

lemma length_trim_space: "length (trim_space s) \<le> length s"
proof -
  have "length (dropWhile is_space t) \<le> length t" for t by (rule length_dropWhile_le)
  then show ?thesis unfolding trim_space_def by (metis length_rev order_trans)
qed

text \<open>\<open>remaining\<close> is the trimmed rest of the data; the certificates found so far are what the callers of
  the recursion put in front.\<close>

function parse_certificates :: "decoders \<Rightarrow> string \<Rightarrow> certificate list go" where
  "parse_certificates D remaining =
     (if remaining = '''' then Inr []
      else if \<not> has_prefix remaining begin_marker then Inl (Msg ''contains non-pem data'')
      else case d_pemDecode D remaining of
        None \<Rightarrow> Inl (Msg ''contains malformed pem'')
      | Some block \<Rightarrow>
         if pem_Type block \<noteq> ''CERTIFICATE'' then Inl (Msg (''contains unsupported pem block '' @ pem_Type block))
         else case d_parseCertificate D (pem_Bytes block) of
           Inl e \<Rightarrow> Inl (Wrap ''contains an invalid certificate'' e)
         | Inr c \<Rightarrow>
            (case parse_certificates D (trim_space (drop (Suc (pem_Last block)) remaining)) of
               Inl e \<Rightarrow> Inl e
             | Inr cs \<Rightarrow> Inr (c # cs)))"
  by pat_completeness auto
termination
proof (relation "measure (\<lambda>(D, s). length s)", goal_cases)
  case (2 D remaining block certificate)
  have "length (trim_space (drop (Suc (pem_Last block)) remaining)) \<le> length (drop (Suc (pem_Last block)) remaining)"
    by (rule length_trim_space)
  also have "\<dots> < length remaining" using 2 by (cases remaining) simp_all
  finally show ?case by simp
qed simp

declare parse_certificates.simps [simp del]

definition parseTelemetryCertificates :: "decoders \<Rightarrow> string \<Rightarrow> certificate list go" where
  "parseTelemetryCertificates D data =
     (case parse_certificates D (trim_space data) of
        Inl e \<Rightarrow> Inl e
      | Inr cs \<Rightarrow> if cs = [] then Inl (Msg ''does not contain a certificate'') else Inr cs)"

text \<open>The check that three callers make of a bundle: every certificate is a CA and valid now.\<close>

definition ca_problem :: "decoders \<Rightarrow> string \<Rightarrow> certificate \<Rightarrow> go_error option" where
  "ca_problem D what c =
     (if \<not> cert_IsCA c then Some (Msg (what @ '' contains a non-ca certificate''))
      else if d_now D < cert_NotBefore c \<or> cert_NotAfter c < d_now D
      then Some (Msg (what @ '' contains an expired or not-yet-valid ca certificate''))
      else None)"

fun first_ca_problem :: "decoders \<Rightarrow> string \<Rightarrow> certificate list \<Rightarrow> go_error option" where
  "first_ca_problem D what [] = None"
| "first_ca_problem D what (c # cs) = (case ca_problem D what c of Some e \<Rightarrow> Some e | None \<Rightarrow> first_ca_problem D what cs)"

definition ca_bundle_problem :: "decoders \<Rightarrow> string \<Rightarrow> string \<Rightarrow> go_error option" where
  "ca_bundle_problem D what data =
     (case parseTelemetryCertificates D data of
        Inl e \<Rightarrow> Some (Wrap (what @ '' does not contain valid ca pem'') e)
      | Inr cs \<Rightarrow> first_ca_problem D what cs)"


subsection \<open>Monitoring trust\<close>

definition monitoringTLSDefaultCAKey :: string where "monitoringTLSDefaultCAKey = ''ca.crt''"
definition monitoringTLSSecretKind :: string where "monitoringTLSSecretKind = ''secret''"

abbreviation monitoring_ref :: "Kubernaut \<Rightarrow> CACertSecretRef option" where
  "monitoring_ref kn \<equiv> (case monitoring_TLS (spec_Monitoring (kn_Spec kn)) of
     None \<Rightarrow> None | Some tls \<Rightarrow> monitoringTLS_CACertSecretRef tls)"

definition monitoringTLSConfigured :: "Kubernaut \<Rightarrow> bool" where
  "monitoringTLSConfigured kn = (case monitoring_ref kn of None \<Rightarrow> False | Some ref \<Rightarrow> caCertSecretRef_Name ref \<noteq> '''')"

definition monitoringTLSKey :: "string \<Rightarrow> string" where
  "monitoringTLSKey key = (if key = '''' then monitoringTLSDefaultCAKey else key)"

text \<open>\<open>Some\<close> of kind, name and key, or \<open>None\<close> for a false last result.\<close>

definition monitoringTLSSecretReference :: "MonitoringTLSSpec option \<Rightarrow> (string \<times> string \<times> string) option" where
  "monitoringTLSSecretReference tls =
     (case tls of
        None \<Rightarrow> None
      | Some t \<Rightarrow>
         (case monitoringTLS_CACertSecretRef t of
            None \<Rightarrow> None
          | Some ref \<Rightarrow>
             if caCertSecretRef_Name ref = '''' then None
             else Some (monitoringTLSSecretKind, caCertSecretRef_Name ref, monitoringTLSKey (caCertSecretRef_Key ref))))"

definition monitoringTLSReference :: "Kubernaut \<Rightarrow> (string \<times> string \<times> string) option" where
  "monitoringTLSReference kn = monitoringTLSSecretReference (monitoring_TLS (spec_Monitoring (kn_Spec kn)))"

definition validateMonitoringTLSCAData :: "decoders \<Rightarrow> string \<Rightarrow> string \<Rightarrow> string \<Rightarrow> go_error option" where
  "validateMonitoringTLSCAData D data name key =
     ca_bundle_problem D (''monitoring tls secret '' @ name @ '' key '' @ key) data"

definition validateMonitoringTLSSecret ::
  "'s env \<Rightarrow> decoders \<Rightarrow> string \<Rightarrow> CACertSecretRef \<Rightarrow> ('s, go_error option) prog" where
  "validateMonitoringTLSSecret E D namespace ref = do {
     let key = (if caCertSecretRef_Key ref = '''' then monitoringTLSDefaultCAKey else caCertSecretRef_Key ref);
     r \<leftarrow> Get E ''Secret'' (namespace, caCertSecretRef_Name ref);
     State_Monad.return (case r of
        Inl e \<Rightarrow> Some (Wrap (''monitoring tls secret '' @ caCertSecretRef_Name ref @ '' could not be read'') (API e))
      | Inr secret \<Rightarrow>
         (let data = gget (secret_data secret) key in
          if data = ''''
          then Some (Msg (''monitoring tls secret '' @ caCertSecretRef_Name ref @ '' is missing key '' @ key))
          else validateMonitoringTLSCAData D data (caCertSecretRef_Name ref) key)) }"

definition validateMonitoringTLS :: "'s env \<Rightarrow> decoders \<Rightarrow> ('s, go_error option) prog" where
  "validateMonitoringTLS E D = do {
     kn \<leftarrow> the_kn;
     (case monitoring_ref kn of
        None \<Rightarrow> State_Monad.return None
      | Some ref \<Rightarrow>
         if caCertSecretRef_Name ref = ''''
         then State_Monad.return (Some (Msg ''spec.monitoring.tls.caCertSecretRef is required when configured''))
         else validateMonitoringTLSSecret E D (kn_Namespace kn) ref) }"

definition monitoringTLSMaterialRevision :: "'s env \<Rightarrow> ('s, string go) prog" where
  "monitoringTLSMaterialRevision E = do {
     kn \<leftarrow> the_kn;
     (case monitoringTLSReference kn of
        None \<Rightarrow> State_Monad.return (Inr '''')
      | Some (kind, name, key) \<Rightarrow> do {
          r \<leftarrow> Get E ''Secret'' (kn_Namespace kn, name);
          State_Monad.return (case r of
             Inl e \<Rightarrow> Inl (Wrap (''monitoring tls Secret '' @ name @ '' could not be read'') (API e))
           | Inr secret \<Rightarrow> Inr (sha256_hex
               (kind @ ''='' @ kn_Namespace kn @ ''/'' @ name @ ''@'' @ obj_RV secret @ ''#'' @ key))) }) }"

subsection \<open>Fleet trust\<close>

definition FleetTrustSourceSecret :: string where "FleetTrustSourceSecret = ''secret''"
definition fleetBackendACM :: string where "fleetBackendACM = ''acm''"

abbreviation kn_Fleet :: "Kubernaut \<Rightarrow> FleetSpec" where "kn_Fleet kn \<equiv> spec_Fleet (kn_Spec kn)"

definition fleet_trust_lanes :: "Kubernaut \<Rightarrow> (string \<times> FleetTrustSpec option) list" where
  "fleet_trust_lanes kn =
     [(''spec.fleet.scopeCheck.acm.tls'',
        (case fleetScopeCheck_ACM (fleet_ScopeCheck (kn_Fleet kn)) of None \<Rightarrow> None | Some acm \<Rightarrow> fleetACMScopeCheck_TLS acm)),
      (''spec.fleet.mcpGateway.tls'', fleetMCPGateway_TLS (fleet_MCPGateway (kn_Fleet kn))),
      (''spec.fleet.oauth2.tls'', fleetOAuth2_TLS (fleet_OAuth2 (kn_Fleet kn)))]"

text \<open>The Secret reference of a trust lane that is backed by a Secret.\<close>

definition trust_secret :: "FleetTrustSpec option \<Rightarrow> CACertSecretRef option" where
  "trust_secret trust =
     (case trust of
        None \<Rightarrow> None
      | Some t \<Rightarrow> if fleetTrust_Source t \<noteq> FleetTrustSourceSecret then None else fleetTrust_CACertSecretRef t)"

definition validate_trust_secret ::
  "'s env \<Rightarrow> decoders \<Rightarrow> string \<Rightarrow> string \<times> FleetTrustSpec option \<Rightarrow> ('s, go_error option) prog" where
  "validate_trust_secret E D namespace lane =
     (case trust_secret (snd lane) of
        None \<Rightarrow> State_Monad.return None
      | Some ref \<Rightarrow> do {
          let name = caCertSecretRef_Name ref;
          let key = (if caCertSecretRef_Key ref = '''' then ''ca.crt'' else caCertSecretRef_Key ref);
          r \<leftarrow> Get E ''Secret'' (namespace, name);
          State_Monad.return (case r of
             Inl e \<Rightarrow> Some (Wrap (fst lane @ ''.caCertSecretRef: secret '' @ name @ '' could not be read'') (API e))
           | Inr secret \<Rightarrow>
              (let caPEM = gget (secret_data secret) key in
               if caPEM = '''' then Some (Msg (fst lane @ ''.caCertSecretRef: secret '' @ name @ '' is missing key '' @ key))
               else if \<not> d_appendCertsFromPEM D caPEM
               then Some (Msg (fst lane @ ''.caCertSecretRef: secret '' @ name @ '' key '' @ key @ '' does not contain valid ca pem''))
               else None)) })"

definition validateFleetTrustSecrets :: "'s env \<Rightarrow> decoders \<Rightarrow> ('s, go_error option) prog" where
  "validateFleetTrustSecrets E D = do {
     kn \<leftarrow> the_kn;
     (if \<not> FleetEnabled (kn_Spec kn) then State_Monad.return None
      else for_each (validate_trust_secret E D (kn_Namespace kn)) (fleet_trust_lanes kn)) }"

definition fleetTrustSecretReferenced :: "Kubernaut \<Rightarrow> string \<Rightarrow> bool" where
  "fleetTrustSecretReferenced kn name =
     (if \<not> FleetEnabled (kn_Spec kn) then False
      else list_ex (\<lambda>lane. case trust_secret (snd lane) of None \<Rightarrow> False | Some ref \<Rightarrow> caCertSecretRef_Name ref = name)
        (fleet_trust_lanes kn))"

definition validateFleetTokenSecret :: "'s env \<Rightarrow> ('s, go_error option) prog" where
  "validateFleetTokenSecret E = do {
     kn \<leftarrow> the_kn;
     (if \<not> FleetEnabled (kn_Spec kn) \<or> fleetScopeCheck_Backend (fleet_ScopeCheck (kn_Fleet kn)) \<noteq> fleetBackendACM
      then State_Monad.return None
      else case fleetScopeCheck_ACM (fleet_ScopeCheck (kn_Fleet kn)) of
        None \<Rightarrow> State_Monad.return None
      | Some acm \<Rightarrow>
         (case fleetACMScopeCheck_TokenSecretRef acm of
            None \<Rightarrow> State_Monad.return None
          | Some ref \<Rightarrow> do {
              err \<leftarrow> validateSecret E (kn_Namespace kn) (secretKeyRef_Name ref)
                [if secretKeyRef_Key ref = '''' then ''token'' else secretKeyRef_Key ref];
              State_Monad.return (map_option (Wrap ''spec.fleet.scopeCheck.acm.tokenSecretRef'') err) })) }"


subsection \<open>Telemetry\<close>

record TelemetrySecretReference =
  telemetryRef_Name :: string
  telemetryRef_Keys :: "string list"

record telemetryMaterial =
  telemetryMaterial_network :: bool
  telemetryMaterial_caFile :: string
  telemetryMaterial_caSecretName :: string
  telemetryMaterial_caSecretKey :: string
  telemetryMaterial_certFile :: string
  telemetryMaterial_keyFile :: string
  telemetryMaterial_clientSecretName :: string

definition telemetryCAFile :: string where "telemetryCAFile = ''/etc/telemetry/ca.crt''"

definition TelemetryNetworkEnabled :: "TelemetrySpec \<Rightarrow> bool" where
  "TelemetryNetworkEnabled telemetry \<longleftrightarrow> telemetry_Endpoint telemetry \<noteq> '''' \<and> telemetry_Endpoint telemetry \<noteq> ''stdout''"

definition resolveTelemetryMaterial :: "TelemetrySpec \<Rightarrow> telemetryMaterial" where
  "resolveTelemetryMaterial telemetry =
     (let tls = telemetry_TLS telemetry;
          m = \<lparr>telemetryMaterial_network = TelemetryNetworkEnabled telemetry,
               telemetryMaterial_caFile = telemetryTLSConfig_CAFile tls,
               telemetryMaterial_caSecretName = '''', telemetryMaterial_caSecretKey = '''',
               telemetryMaterial_certFile = telemetryTLSConfig_CertFile tls,
               telemetryMaterial_keyFile = telemetryTLSConfig_KeyFile tls,
               telemetryMaterial_clientSecretName = telemetryTLSConfig_TLSClientSecretRef tls\<rparr>
      in case telemetryTLSConfig_CACertSecretRef tls of
           None \<Rightarrow> m
         | Some ref \<Rightarrow> m\<lparr>telemetryMaterial_caFile := telemetryCAFile,
             telemetryMaterial_caSecretName := caCertSecretRef_Name ref,
             telemetryMaterial_caSecretKey := (if caCertSecretRef_Key ref = '''' then ''ca.crt'' else caCertSecretRef_Key ref)\<rparr>)"

definition TelemetrySecretReferences :: "TelemetrySpec \<Rightarrow> TelemetrySecretReference list" where
  "TelemetrySecretReferences telemetry =
     (if \<not> TelemetryNetworkEnabled telemetry then []
      else let m = resolveTelemetryMaterial telemetry in
        (if telemetryMaterial_caSecretName m \<noteq> ''''
         then [\<lparr>telemetryRef_Name = telemetryMaterial_caSecretName m, telemetryRef_Keys = [telemetryMaterial_caSecretKey m]\<rparr>] else []) @
        (if telemetryMaterial_clientSecretName m \<noteq> ''''
         then [\<lparr>telemetryRef_Name = telemetryMaterial_clientSecretName m, telemetryRef_Keys = [''tls.crt'', ''tls.key'']\<rparr>] else []))"

record telemetryLane =
  lane_component :: string
  lane_fieldPath :: string
  lane_spec :: TelemetrySpec

definition telemetryLanes :: "Kubernaut \<Rightarrow> telemetryLane list" where
  "telemetryLanes kn =
     (if GatewayEnabled (kn_Spec kn)
      then [\<lparr>lane_component = ComponentGateway, lane_fieldPath = ''spec.gateway.config.telemetry'',
             lane_spec = gatewayConfig_Telemetry (gateway_Config (spec_Gateway (kn_Spec kn)))\<rparr>] else []) @
     [\<lparr>lane_component = ComponentDataStorage, lane_fieldPath = ''spec.dataStorage.telemetry'',
       lane_spec = dataStorage_Telemetry (spec_DataStorage (kn_Spec kn))\<rparr>,
      \<lparr>lane_component = ComponentKubernautAgent, lane_fieldPath = ''spec.kubernautAgent.telemetry'',
       lane_spec = kubernautAgent_Telemetry (spec_KubernautAgent (kn_Spec kn))\<rparr>]"

definition hasNetworkTelemetry :: "Kubernaut \<Rightarrow> bool" where
  "hasNetworkTelemetry kn = list_ex (\<lambda>lane. TelemetryNetworkEnabled (lane_spec lane)) (telemetryLanes kn)"

definition validateTelemetryCASecret :: "decoders \<Rightarrow> kobj \<Rightarrow> string \<Rightarrow> go_error option" where
  "validateTelemetryCASecret D secret key =
     (let data = gget (secret_data secret) key in
      if data = '''' then Some (Msg (''secret '' @ obj_Name secret @ '' is missing key '' @ key))
      else ca_bundle_problem D (''secret '' @ obj_Name secret @ '' key '' @ key) data)"

text \<open>The constants \<^verbatim>\<open>x509.ExtKeyUsageAny\<close> and \<^verbatim>\<open>x509.ExtKeyUsageClientAuth\<close> are 0 and 2.\<close>

definition telemetryClientAuthUsage :: "int list \<Rightarrow> bool" where
  "telemetryClientAuthUsage usages = list_ex (\<lambda>u. u = 2 \<or> u = 0) usages"

definition validateTelemetryClientSecret :: "decoders \<Rightarrow> kobj \<Rightarrow> go_error option" where
  "validateTelemetryClientSecret D secret =
     (let certificatePEM = gget (secret_data secret) ''tls.crt''; keyPEM = gget (secret_data secret) ''tls.key'';
          name = ''secret '' @ obj_Name secret in
      if certificatePEM = '''' then Some (Msg (name @ '' is missing key tls.crt''))
      else if keyPEM = '''' then Some (Msg (name @ '' is missing key tls.key''))
      else case parseTelemetryCertificates D certificatePEM of
        Inl e \<Rightarrow> Some (Wrap (name @ '' contains an invalid client certificate'') e)
      | Inr certificates \<Rightarrow>
         (case d_x509KeyPair D certificatePEM keyPEM of
            Some e \<Rightarrow> Some (Wrap (name @ '' contains an invalid tls key pair'') e)
          | None \<Rightarrow>
             (let c = hd certificates in
              if d_now D < cert_NotBefore c \<or> cert_NotAfter c < d_now D
              then Some (Msg (name @ '' contains an expired or not-yet-valid client certificate''))
              else if cert_IsCA c then Some (Msg (name @ '' contains a CA certificate instead of a client certificate''))
              else if cert_ExtKeyUsage c \<noteq> [] \<and> \<not> telemetryClientAuthUsage (cert_ExtKeyUsage c)
              then Some (Msg (name @ '' client certificate does not allow client authentication''))
              else None)))"

definition validate_telemetry_reference ::
  "'s env \<Rightarrow> decoders \<Rightarrow> string \<Rightarrow> string \<Rightarrow> TelemetrySecretReference \<Rightarrow> ('s, go_error option) prog" where
  "validate_telemetry_reference E D namespace fieldPath ref = do {
     r \<leftarrow> Get E ''Secret'' (namespace, telemetryRef_Name ref);
     State_Monad.return (case r of
        Inl e \<Rightarrow> Some (Wrap (fieldPath @ '' secret '' @ telemetryRef_Name ref @ '' could not be read'') (API e))
      | Inr secret \<Rightarrow>
         (if length (telemetryRef_Keys ref) = 1
          then map_option (Wrap (fieldPath @ ''.tls.caCertSecretRef'')) (validateTelemetryCASecret D secret (hd (telemetryRef_Keys ref)))
          else map_option (Wrap (fieldPath @ ''.tls.tlsClientSecretRef'')) (validateTelemetryClientSecret D secret))) }"

definition validateTelemetrySecrets :: "'s env \<Rightarrow> decoders \<Rightarrow> ('s, go_error option) prog" where
  "validateTelemetrySecrets E D = do {
     kn \<leftarrow> the_kn;
     for_each (\<lambda>lane. if \<not> TelemetryNetworkEnabled (lane_spec lane) then State_Monad.return None
       else for_each (validate_telemetry_reference E D (kn_Namespace kn) (lane_fieldPath lane))
         (TelemetrySecretReferences (lane_spec lane))) (telemetryLanes kn) }"

definition telemetrySecretReferenced :: "Kubernaut \<Rightarrow> string \<Rightarrow> bool" where
  "telemetrySecretReferenced kn secretName =
     list_ex (\<lambda>lane. list_ex (\<lambda>ref. telemetryRef_Name ref = secretName) (TelemetrySecretReferences (lane_spec lane))) (telemetryLanes kn)"

definition ambientTrustSecretReferenced :: "Kubernaut \<Rightarrow> string \<Rightarrow> bool" where
  "ambientTrustSecretReferenced kn secretName =
     (if \<not> hasNetworkTelemetry kn then False
      else case ResolveTLSMaterial kn of
        Inl e \<Rightarrow> False
      | Inr m \<Rightarrow> tlsMaterial_Source m \<noteq> TLSMaterialSourceServiceCA \<and>
          tlsMaterial_InternalCASecretName m \<noteq> '''' \<and> tlsMaterial_InternalCASecretName m = secretName)"

definition monitoringTLSSecretReferenced :: "Kubernaut \<Rightarrow> string \<Rightarrow> bool" where
  "monitoringTLSSecretReferenced kn secretName =
     (if \<not> monitoringTLSConfigured kn then False
      else case monitoringTLSReference kn of
        None \<Rightarrow> False
      | Some (kind, name, key) \<Rightarrow> kind = monitoringTLSSecretKind \<and> name = secretName)"

text \<open>What \<^verbatim>\<open>validateTelemetryAmbientTrust\<close> returns: an error, and whether it wraps
  \<^verbatim>\<open>errTelemetryAmbientTrustPending\<close>.\<close>

datatype ambient_error = AmbientPending string | AmbientInvalid go_error


definition ambient_config_map :: "Kubernaut \<Rightarrow> string" where
  "ambient_config_map kn =
     (if tlsConfig_Mode (kn_TLS kn) = TLSModeManual then InterServiceCAConfigMapName else TrustBundleConfigMapName)"

definition configmap_data :: "kobj \<Rightarrow> string gomap" where
  "configmap_data x = (case obj_Body x of ConfigMapBody d b \<Rightarrow> d | _ \<Rightarrow> [])"

definition configmap_binary :: "kobj \<Rightarrow> string gomap" where
  "configmap_binary x = (case obj_Body x of ConfigMapBody d b \<Rightarrow> b | _ \<Rightarrow> [])"

definition validateTelemetryAmbientTrust :: "'s env \<Rightarrow> decoders \<Rightarrow> ('s, ambient_error option) prog" where
  "validateTelemetryAmbientTrust E D = do {
     kn \<leftarrow> the_kn;
     (if \<not> hasNetworkTelemetry kn then State_Monad.return None
      else case ResolveTLSMaterial kn of
        Inl e \<Rightarrow> State_Monad.return (Some (AmbientInvalid (Wrap ''resolving ambient trust source'' e)))
      | Inr m \<Rightarrow>
         (if tlsConfig_Mode (kn_TLS kn) = TLSModeManual \<and> tlsMaterial_InternalCASecretName m \<noteq> ''''
          then State_Monad.return None
          else do {
            let name = ambient_config_map kn;
            r \<leftarrow> Get E ''ConfigMap'' (kn_Namespace kn, name);
            State_Monad.return (case r of
               Inl e \<Rightarrow>
                 (if IsNotFound e then Some (AmbientPending (''ambient telemetry trust is pending: ConfigMap '' @ name @ '' does not exist''))
                  else Some (AmbientInvalid (Wrap (''reading ambient trust ConfigMap '' @ name) (API e))))
             | Inr cm \<Rightarrow>
                (let key = InterServiceTLSCAKeyFor kn; caPEM = trim_space (gget (configmap_data cm) key) in
                 if caPEM = ''''
                 then Some (AmbientPending (''ambient telemetry trust is pending: ConfigMap '' @ name @ '' key '' @ key @ '' is empty''))
                 else map_option AmbientInvalid (ca_bundle_problem D (''ambient trust ConfigMap '' @ name @ '' key '' @ key) caPEM))) })) }"


subsection \<open>References to pre-created objects\<close>

datatype precreatedReferenceKind = precreatedConfigMapReference | precreatedSecretReference

record precreatedReference =
  pre_kind :: precreatedReferenceKind
  pre_path :: string
  pre_name :: string
  pre_requiredKeys :: "string list"
  pre_pemKeys :: "string list"
  pre_jsonKeys :: "string list"
  pre_noNewlineKeys :: "string list"

text \<open>The collector remembers a reference under its kind, name and keys.\<close>

record precreatedReferenceCollector =
  collector_references :: "precreatedReference list"
  collector_errs :: "go_error list"
  collector_seen :: "string list"

definition newPrecreatedReferenceCollector :: precreatedReferenceCollector where
  "newPrecreatedReferenceCollector = \<lparr>collector_references = [], collector_errs = [], collector_seen = []\<rparr>"

fun kind_name :: "precreatedReferenceKind \<Rightarrow> string" where
  "kind_name precreatedConfigMapReference = ''ConfigMap''"
| "kind_name precreatedSecretReference = ''Secret''"

definition reference_identity :: "precreatedReferenceKind \<Rightarrow> string \<Rightarrow> string list \<Rightarrow> string" where
  "reference_identity kind name requiredKeys = kind_name kind @ ''/'' @ name @ ''/'' @ join_strings [CHR 0x00] requiredKeys"

definition add_reference ::
  "precreatedReferenceKind \<Rightarrow> string \<Rightarrow> string \<Rightarrow> string list \<Rightarrow> precreatedReferenceCollector \<Rightarrow> precreatedReferenceCollector" where
  "add_reference kind path name requiredKeys c =
     (if name = '''' then c\<lparr>collector_errs := collector_errs c @ [Msg (path @ '': name must be set'')]\<rparr>
      else if reference_identity kind name requiredKeys \<in> set (collector_seen c) then c
      else c\<lparr>collector_seen := collector_seen c @ [reference_identity kind name requiredKeys],
             collector_references := collector_references c @
               [\<lparr>pre_kind = kind, pre_path = path, pre_name = name, pre_requiredKeys = requiredKeys,
                 pre_pemKeys = [], pre_jsonKeys = [], pre_noNewlineKeys = []\<rparr>]\<rparr>)"

definition addError :: "go_error \<Rightarrow> precreatedReferenceCollector \<Rightarrow> precreatedReferenceCollector" where
  "addError err c = c\<lparr>collector_errs := collector_errs c @ [err]\<rparr>"

text \<open>The loops that change the first matching reference and return.\<close>

fun update_first :: "('a \<Rightarrow> bool) \<Rightarrow> ('a \<Rightarrow> 'a) \<Rightarrow> 'a list \<Rightarrow> 'a list" where
  "update_first P f [] = []"
| "update_first P f (x # xs) = (if P x then f x # xs else x # update_first P f xs)"

definition append_new :: "string list \<Rightarrow> string list \<Rightarrow> string list" where
  "append_new keys ks = fold (\<lambda>k acc. if k \<in> set acc then acc else acc @ [k]) keys ks"

definition secret_with_key :: "string \<Rightarrow> string \<Rightarrow> precreatedReference \<Rightarrow> bool" where
  "secret_with_key name key ref \<longleftrightarrow>
     pre_kind ref = precreatedSecretReference \<and> pre_name ref = name \<and> pre_requiredKeys ref = [key]"

definition addPEMSecretReference :: "string \<Rightarrow> string \<Rightarrow> string \<Rightarrow> precreatedReferenceCollector \<Rightarrow> precreatedReferenceCollector" where
  "addPEMSecretReference path name key c =
     (let c = add_reference precreatedSecretReference path name [key] c in
      c\<lparr>collector_references := update_first (secret_with_key name key)
          (\<lambda>ref. ref\<lparr>pre_pemKeys := append_new [key] (pre_pemKeys ref)\<rparr>) (collector_references c)\<rparr>)"

definition addNoNewlineSecretKeys :: "string \<Rightarrow> string \<Rightarrow> string list \<Rightarrow> precreatedReferenceCollector \<Rightarrow> precreatedReferenceCollector" where
  "addNoNewlineSecretKeys path name keys c =
     c\<lparr>collector_references := update_first
         (\<lambda>ref. pre_kind ref = precreatedSecretReference \<and> pre_path ref = path \<and> pre_name ref = name)
         (\<lambda>ref. ref\<lparr>pre_noNewlineKeys := append_new keys (pre_noNewlineKeys ref)\<rparr>) (collector_references c)\<rparr>"

definition addJSONSecretReference :: "string \<Rightarrow> string \<Rightarrow> string \<Rightarrow> precreatedReferenceCollector \<Rightarrow> precreatedReferenceCollector" where
  "addJSONSecretReference path name key c =
     (let c = add_reference precreatedSecretReference path name [key] c in
      c\<lparr>collector_references := update_first (secret_with_key name key)
          (\<lambda>ref. ref\<lparr>pre_jsonKeys := append_new [key] (pre_jsonKeys ref)\<rparr>) (collector_references c)\<rparr>)"

definition appendPrecreatedConfigMapReferences :: "Kubernaut \<Rightarrow> precreatedReferenceCollector \<Rightarrow> precreatedReferenceCollector" where
  "appendPrecreatedConfigMapReferences kn c =
     (let name = kubernautAgent_RuntimeConfigMapName (spec_KubernautAgent (kn_Spec kn));
          c = (if name \<noteq> ''''
               then add_reference precreatedConfigMapReference ''spec.kubernautAgent.runtimeConfigMapName'' name [''llm-runtime.yaml''] c else c)
      in case notification_Routing (spec_Notification (kn_Spec kn)) of
           None \<Rightarrow> c
         | Some ref \<Rightarrow> add_reference precreatedConfigMapReference ''spec.notification.routing.configMapName''
             (configMapRef_ConfigMapName ref) [''routing.yaml''] c)"

definition credential_path :: "nat \<Rightarrow> string" where
  "credential_path i = ''spec.notification.credentials['' @ show_int (int i) @ ''].secretRef''"

definition appendPrecreatedConsoleSecret :: "Kubernaut \<Rightarrow> precreatedReferenceCollector \<Rightarrow> precreatedReferenceCollector" where
  "appendPrecreatedConsoleSecret kn c =
     (if \<not> ConsoleEnabled (kn_Spec kn) then c
      else let name = consoleAuth_SecretName (console_Auth (spec_Console (kn_Spec kn))) in
        addNoNewlineSecretKeys ''spec.console.auth.secretName'' name [''client-id'', ''client-secret'']
          (add_reference precreatedSecretReference ''spec.console.auth.secretName'' name
            [''client-id'', ''client-secret'', ''cookie-secret''] c))"

definition appendPrecreatedValkeyTLSSecrets :: "Kubernaut \<Rightarrow> precreatedReferenceCollector \<Rightarrow> precreatedReferenceCollector" where
  "appendPrecreatedValkeyTLSSecrets kn c =
     (if \<not> ValkeyTLSEnabled (spec_Valkey (kn_Spec kn)) then c
      else case valkey_TLS (spec_Valkey (kn_Spec kn)) of
        None \<Rightarrow> c
      | Some tls \<Rightarrow>
         (let c = (if valkeyTLS_CASecretName tls \<noteq> ''''
                   then addPEMSecretReference ''spec.valkey.tls.caSecretName'' (valkeyTLS_CASecretName tls) ''ca.crt'' c else c)
          in if valkeyTLS_ClientCertSecretName tls \<noteq> ''''
             then add_reference precreatedSecretReference ''spec.valkey.tls.clientCertSecretName''
                    (valkeyTLS_ClientCertSecretName tls) [''tls.crt'', ''tls.key''] c else c))"

definition appendPrecreatedFeatureSecretReferences :: "Kubernaut \<Rightarrow> precreatedReferenceCollector \<Rightarrow> precreatedReferenceCollector" where
  "appendPrecreatedFeatureSecretReferences kn c =
     appendPrecreatedValkeyTLSSecrets kn (appendPrecreatedConsoleSecret kn
       (fold (\<lambda>(i, credential). add_reference precreatedSecretReference (credential_path i)
            (notificationSecretRef_Name (notificationCredential_SecretRef credential))
            [notificationSecretRef_Key (notificationCredential_SecretRef credential)])
          (enumerate 0 (notification_Credentials (spec_Notification (kn_Spec kn)))) c))"

definition LLMProviderVertexAI :: string where "LLMProviderVertexAI = ''vertex_ai''"

definition profile_path :: "string \<Rightarrow> string" where
  "profile_path ref = ''spec.llmProfiles['' @ ref @ '']''"

definition append_profile :: "string \<Rightarrow> LLMProfileSpec \<Rightarrow> precreatedReferenceCollector \<Rightarrow> precreatedReferenceCollector" where
  "append_profile path profile c =
     (let c = (if llmProfile_Provider profile = LLMProviderVertexAI
               then addJSONSecretReference (path @ ''.credentialsSecretName'') (llmProfile_CredentialsSecretName profile) ''credentials.json'' c
               else add_reference precreatedSecretReference (path @ ''.credentialsSecretName'')
                      (llmProfile_CredentialsSecretName profile) [''api_key''] c);
          oauth2 = llmProfile_OAuth2 profile;
          c = (if \<not> oAuth2_Enabled oauth2 then c
               else if oAuth2_CredentialsSecretRef oauth2 = ''''
               then addError (Msg (path @ ''.oauth2.credentialsSecretRef: must be set when OAuth2 is enabled'')) c
               else add_reference precreatedSecretReference (path @ ''.oauth2.credentialsSecretRef'')
                      (oAuth2_CredentialsSecretRef oauth2) [''client-id'', ''client-secret''] c);
          c = (if llmProfile_TLSClientSecretRef profile \<noteq> ''''
               then add_reference precreatedSecretReference (path @ ''.tlsClientSecretRef'')
                      (llmProfile_TLSClientSecretRef profile) [''tls.crt'', ''tls.key''] c else c)
      in case llmProfile_TLSCaSecretRef profile of
           None \<Rightarrow> c
         | Some ca \<Rightarrow> addPEMSecretReference (path @ ''.tlsCaSecretRef'') (caCertSecretRef_Name ca)
             (if caCertSecretRef_Key ca = '''' then monitoringTLSDefaultCAKey else caCertSecretRef_Key ca) c)"

definition appendPrecreatedLLMProfileReference ::
  "Kubernaut \<Rightarrow> string \<Rightarrow> precreatedReferenceCollector \<Rightarrow> precreatedReferenceCollector" where
  "appendPrecreatedLLMProfileReference kn profileRef c =
     (if profileRef = '''' then c
      else case ResolveLLMProfile kn profileRef of
        None \<Rightarrow> c
      | Some profile \<Rightarrow> append_profile (profile_path profileRef) profile c)"

text \<open>The profiles whose Secrets must exist, in the order of \<^verbatim>\<open>appendPrecreatedLLMReferences\<close>.\<close>

definition llm_profile_refs :: "Kubernaut \<Rightarrow> string list" where
  "llm_profile_refs kn =
     [EffectiveInvestigationLLMProfileRef kn, EffectiveWorkflowDiscoveryLLMProfileRef kn] @
     (if alignmentCheck_Enabled (kubernautAgent_AlignmentCheck (spec_KubernautAgent (kn_Spec kn)))
      then [EffectiveAlignmentCheckLLMProfileRef kn] else []) @
     (if \<not> APIFrontendEnabled (kn_Spec kn) then []
      else AFLLMProfileRef kn #
        (case apiFrontend_SeverityTriage (spec_APIFrontend (kn_Spec kn)) of
           None \<Rightarrow> []
         | Some triage \<Rightarrow>
            (if LLMTriageEnabled (Some triage) \<and> apiFrontendSeverityTriage_LLMProfileRef triage \<noteq> ''''
             then [apiFrontendSeverityTriage_LLMProfileRef triage] else [])))"

definition appendPrecreatedLLMReferences :: "Kubernaut \<Rightarrow> precreatedReferenceCollector \<Rightarrow> precreatedReferenceCollector" where
  "appendPrecreatedLLMReferences kn c = fold (appendPrecreatedLLMProfileReference kn) (llm_profile_refs kn) c"

definition fleet_credential :: "Kubernaut \<Rightarrow> FleetOverrideSpec option \<Rightarrow> string" where
  "fleet_credential kn override =
     (case override of
        Some ov \<Rightarrow> if fleetOverride_OAuth2CredentialsSecretRef ov \<noteq> '''' then fleetOverride_OAuth2CredentialsSecretRef ov
                  else fleetOAuth2_CredentialsSecretRef (fleet_OAuth2 (kn_Fleet kn))
      | None \<Rightarrow> fleetOAuth2_CredentialsSecretRef (fleet_OAuth2 (kn_Fleet kn)))"

definition fleet_credentials :: "Kubernaut \<Rightarrow> (string \<times> string) list" where
  "fleet_credentials kn =
     (let s = kn_Spec kn in
      (if GatewayEnabled s then [(''spec.gateway.fleet.oauth2CredentialsSecretRef'', fleet_credential kn (gateway_Fleet (spec_Gateway s)))] else []) @
      [(''spec.remediationOrchestrator.fleet.oauth2CredentialsSecretRef'', fleet_credential kn (remediationOrchestrator_Fleet (spec_RemediationOrchestrator s))),
       (''spec.signalProcessing.fleet.oauth2CredentialsSecretRef'', fleet_credential kn (signalProcessing_Fleet (spec_SignalProcessing s)))] @
      (if APIFrontendEnabled s then [(''spec.apiFrontend.fleet.oauth2CredentialsSecretRef'', fleet_credential kn (apiFrontend_Fleet (spec_APIFrontend s)))] else []) @
      [(''spec.effectivenessMonitor.fleet.oauth2CredentialsSecretRef'', fleet_credential kn (effectivenessMonitor_Fleet (spec_EffectivenessMonitor s))),
       (''spec.kubernautAgent.fleet.oauth2CredentialsSecretRef'', fleet_credential kn (kubernautAgent_Fleet (spec_KubernautAgent s)))] @
      (if FleetMetadataCacheEnabled s
       then [(''spec.fleetMetadataCache.fleet.oauth2CredentialsSecretRef'', fleet_credential kn (fleetMetadataCache_Fleet (spec_FleetMetadataCache s)))] else []) @
      [(''spec.workflowExecution.fleet.oauth2CredentialsSecretRef'',
        workflowExecutionFleet_OAuth2CredentialsSecretRef (workflowExecution_Fleet (spec_WorkflowExecution s)))])"

definition appendPrecreatedFleetReferences :: "Kubernaut \<Rightarrow> precreatedReferenceCollector \<Rightarrow> precreatedReferenceCollector" where
  "appendPrecreatedFleetReferences kn c =
     (if \<not> FleetEnabled (kn_Spec kn) then c
      else fold (\<lambda>(path, name). add_reference precreatedSecretReference path name [''client-id'', ''client-secret'']) (fleet_credentials kn) c)"

definition appendPrecreatedOptionalReferences :: "Kubernaut \<Rightarrow> precreatedReferenceCollector \<Rightarrow> precreatedReferenceCollector" where
  "appendPrecreatedOptionalReferences kn c =
     appendPrecreatedFleetReferences kn (appendPrecreatedLLMReferences kn
       (appendPrecreatedFeatureSecretReferences kn (appendPrecreatedConfigMapReferences kn c)))"

definition precreatedConfigurationReferences :: "Kubernaut \<Rightarrow> precreatedReference list \<times> go_error list" where
  "precreatedConfigurationReferences kn =
     (let c = appendPrecreatedOptionalReferences kn
         (add_reference precreatedConfigMapReference ''spec.signalProcessing.policy.configMapName'' (SignalProcessingPolicyName kn) [''policy.rego'']
           (add_reference precreatedConfigMapReference ''spec.aiAnalysis.policy.configMapName'' (AIAnalysisPolicyName kn) [''approval.rego'']
             newPrecreatedReferenceCollector))
      in (collector_references c, collector_errs c))"


subsection \<open>Checking the pre-created objects\<close>

text \<open>\<^verbatim>\<open>strings.Split(s, "\n")\<close> and \<^verbatim>\<open>strings.HasPrefix\<close> of each trimmed line.\<close>

definition has_rego_package :: "string \<Rightarrow> bool" where
  "has_rego_package text = list_ex (\<lambda>line. has_prefix (trim_space line) ''package '') (split_on (CHR 10) text)"

definition validatePrecreatedConfigMapValue :: "decoders \<Rightarrow> precreatedReference \<Rightarrow> string \<Rightarrow> string \<Rightarrow> go_error option" where
  "validatePrecreatedConfigMapValue D reference key value =
     (let trimmed = trim_space value; what = pre_path reference @ '': ConfigMap '' @ pre_name reference @ '' key '' @ key in
      if key \<in> {''approval.rego'', ''policy.rego''}
      then (if has_rego_package trimmed then None else Some (Msg (what @ '' must contain a Rego package declaration'')))
      else if key \<in> {''llm-runtime.yaml'', ''proactive-signal-mappings.yaml'', ''routing.yaml''}
      then (case d_yamlObject D trimmed of
              Inl e \<Rightarrow> Some (Wrap (what @ '' contains invalid YAML'') e)
            | Inr n \<Rightarrow> if n = 0 then Some (Msg (what @ '' must contain a YAML object'')) else None)
      else None)"

fun first_problem :: "('a \<Rightarrow> go_error option) \<Rightarrow> 'a list \<Rightarrow> go_error option" where
  "first_problem f [] = None"
| "first_problem f (x # xs) = (case f x of Some e \<Rightarrow> Some e | None \<Rightarrow> first_problem f xs)"

definition configmap_key_problem :: "decoders \<Rightarrow> kobj \<Rightarrow> precreatedReference \<Rightarrow> string \<Rightarrow> go_error option" where
  "configmap_key_problem D configMap reference key =
     (let what = pre_path reference @ '': ConfigMap '' @ pre_name reference in
      case map_of (configmap_data configMap) key of
        Some value \<Rightarrow>
          if value = '''' then Some (Msg (what @ '' key '' @ key @ '' is empty''))
          else validatePrecreatedConfigMapValue D reference key value
      | None \<Rightarrow>
         (case map_of (configmap_binary configMap) key of
            Some value \<Rightarrow>
              if value = '''' then Some (Msg (what @ '' key '' @ key @ '' is empty''))
              else validatePrecreatedConfigMapValue D reference key value
          | None \<Rightarrow> Some (Msg (what @ '' is missing required key '' @ key))))"

definition validatePrecreatedConfigMapKeys :: "decoders \<Rightarrow> kobj \<Rightarrow> precreatedReference \<Rightarrow> go_error option" where
  "validatePrecreatedConfigMapKeys D configMap reference =
     first_problem (configmap_key_problem D configMap reference) (pre_requiredKeys reference)"

definition secret_key_problem :: "kobj \<Rightarrow> precreatedReference \<Rightarrow> string \<Rightarrow> go_error option" where
  "secret_key_problem secret reference key =
     (let what = pre_path reference @ '': Secret '' @ pre_name reference in
      case map_of (secret_data secret) key of
        None \<Rightarrow> Some (Msg (what @ '' is missing required key '' @ key))
      | Some value \<Rightarrow> if value = '''' then Some (Msg (what @ '' key '' @ key @ '' is empty'')) else None)"

text \<open>The map \<^verbatim>\<open>values\<close> of the required keys.\<close>

definition required_values :: "kobj \<Rightarrow> precreatedReference \<Rightarrow> smap" where
  "required_values secret reference = map_of (secret_data secret) |` set (pre_requiredKeys reference)"

definition validatePrecreatedSecretPEMKeys :: "decoders \<Rightarrow> smap \<Rightarrow> precreatedReference \<Rightarrow> go_error option" where
  "validatePrecreatedSecretPEMKeys D values reference =
     first_problem (\<lambda>key. if \<not> d_appendCertsFromPEM D (mget values key)
       then Some (Msg (pre_path reference @ '': Secret '' @ pre_name reference @ '' key '' @ key @ '' does not contain valid CA PEM''))
       else None) (pre_pemKeys reference)"

definition json_key_problem :: "decoders \<Rightarrow> smap \<Rightarrow> precreatedReference \<Rightarrow> string \<Rightarrow> go_error option" where
  "json_key_problem D values reference key =
     (case values key of
        None \<Rightarrow> None
      | Some value \<Rightarrow>
         if \<not> d_jsonValid D value
         then Some (Msg (pre_path reference @ '': Secret '' @ pre_name reference @ '' key '' @ key @ '' contains invalid JSON'')) else None)"

definition key_pair_problem :: "decoders \<Rightarrow> smap \<Rightarrow> precreatedReference \<Rightarrow> go_error option" where
  "key_pair_problem D values reference =
     (case (values ''tls.crt'', values ''tls.key'') of
        (Some cert, Some key) \<Rightarrow> map_option
          (Wrap (pre_path reference @ '': Secret '' @ pre_name reference @ '' contains an invalid TLS certificate/key pair''))
          (d_x509KeyPair D cert key)
      | _ \<Rightarrow> None)"

definition newline_problem :: "smap \<Rightarrow> precreatedReference \<Rightarrow> string \<Rightarrow> go_error option" where
  "newline_problem values reference key =
     (if CHR 13 \<in> set (mget values key) \<or> CHR 10 \<in> set (mget values key)
      then Some (Msg (pre_path reference @ '': secret '' @ pre_name reference @ '' key '' @ key @ '' must not contain newlines''))
      else None)"

definition validatePrecreatedSecretKeys :: "decoders \<Rightarrow> kobj \<Rightarrow> precreatedReference \<Rightarrow> go_error option" where
  "validatePrecreatedSecretKeys D secret reference =
     (case first_problem (secret_key_problem secret reference) (pre_requiredKeys reference) of
        Some e \<Rightarrow> Some e
      | None \<Rightarrow>
         (let values = required_values secret reference in
          case first_problem (newline_problem values reference) (pre_noNewlineKeys reference) of
            Some e \<Rightarrow> Some e
          | None \<Rightarrow>
             (case validatePrecreatedSecretPEMKeys D values reference of
                Some e \<Rightarrow> Some e
              | None \<Rightarrow>
                 (case first_problem (json_key_problem D values reference) (pre_jsonKeys reference) of
                    Some e \<Rightarrow> Some e
                  | None \<Rightarrow> key_pair_problem D values reference))))"

definition validatePrecreatedReference ::
  "'s env \<Rightarrow> decoders \<Rightarrow> string \<Rightarrow> precreatedReference \<Rightarrow> ('s, go_error option) prog" where
  "validatePrecreatedReference E D namespace reference =
     (case pre_kind reference of
        precreatedConfigMapReference \<Rightarrow> do {
          r \<leftarrow> Get E ''ConfigMap'' (namespace, pre_name reference);
          State_Monad.return (case r of
             Inl e \<Rightarrow> Some (Wrap (pre_path reference @ '': ConfigMap '' @ pre_name reference @ '' could not be read'') (API e))
           | Inr configMap \<Rightarrow> validatePrecreatedConfigMapKeys D configMap reference) }
      | precreatedSecretReference \<Rightarrow> do {
          r \<leftarrow> Get E ''Secret'' (namespace, pre_name reference);
          State_Monad.return (case r of
             Inl e \<Rightarrow> Some (Wrap (pre_path reference @ '': Secret '' @ pre_name reference @ '' could not be read'') (API e))
           | Inr secret \<Rightarrow> validatePrecreatedSecretKeys D secret reference) })"

definition validatePrecreatedConfiguration :: "'s env \<Rightarrow> decoders \<Rightarrow> ('s, go_error option) prog" where
  "validatePrecreatedConfiguration E D = do {
     kn \<leftarrow> the_kn;
     (case precreatedConfigurationReferences kn of (references, referenceErrs) \<Rightarrow> do {
        errs \<leftarrow> collect (\<lambda>reference. do {
          err \<leftarrow> validatePrecreatedReference E D (kn_Namespace kn) reference;
          State_Monad.return (case err of None \<Rightarrow> [] | Some e \<Rightarrow> [e]) }) references;
        State_Monad.return (if referenceErrs @ errs = [] then None
          else Some (Msg (''pre-created configuration validation failed: '' @
            join_strings ''; '' (map error_text (referenceErrs @ errs))))) }) }"


subsection \<open>What must exist, independently of how it is collected\<close>

type_synonym demand = "precreatedReferenceKind \<times> string \<times> string list"

definition profile_demands :: "LLMProfileSpec \<Rightarrow> demand list" where
  "profile_demands p =
     [(precreatedSecretReference, llmProfile_CredentialsSecretName p,
        [if llmProfile_Provider p = LLMProviderVertexAI then ''credentials.json'' else ''api_key''])] @
     (if oAuth2_Enabled (llmProfile_OAuth2 p)
      then [(precreatedSecretReference, oAuth2_CredentialsSecretRef (llmProfile_OAuth2 p), [''client-id'', ''client-secret''])] else []) @
     (if llmProfile_TLSClientSecretRef p \<noteq> ''''
      then [(precreatedSecretReference, llmProfile_TLSClientSecretRef p, [''tls.crt'', ''tls.key''])] else []) @
     (case llmProfile_TLSCaSecretRef p of
        None \<Rightarrow> []
      | Some ca \<Rightarrow> [(precreatedSecretReference, caCertSecretRef_Name ca, [monitoringTLSKey (caCertSecretRef_Key ca)])])"

definition demanded_inputs :: "Kubernaut \<Rightarrow> demand list" where
  "demanded_inputs kn =
     [(precreatedConfigMapReference, AIAnalysisPolicyName kn, [''approval.rego'']),
      (precreatedConfigMapReference, SignalProcessingPolicyName kn, [''policy.rego''])] @
     (if kubernautAgent_RuntimeConfigMapName (spec_KubernautAgent (kn_Spec kn)) = '''' then []
      else [(precreatedConfigMapReference, kubernautAgent_RuntimeConfigMapName (spec_KubernautAgent (kn_Spec kn)), [''llm-runtime.yaml''])]) @
     (case notification_Routing (spec_Notification (kn_Spec kn)) of
        None \<Rightarrow> [] | Some ref \<Rightarrow> [(precreatedConfigMapReference, configMapRef_ConfigMapName ref, [''routing.yaml''])]) @
     map (\<lambda>credential. (precreatedSecretReference, notificationSecretRef_Name (notificationCredential_SecretRef credential),
         [notificationSecretRef_Key (notificationCredential_SecretRef credential)]))
       (notification_Credentials (spec_Notification (kn_Spec kn))) @
     (if ConsoleEnabled (kn_Spec kn)
      then [(precreatedSecretReference, consoleAuth_SecretName (console_Auth (spec_Console (kn_Spec kn))),
             [''client-id'', ''client-secret'', ''cookie-secret''])] else []) @
     (case valkey_TLS (spec_Valkey (kn_Spec kn)) of
        None \<Rightarrow> []
      | Some tls \<Rightarrow> if \<not> valkeyTLS_Enabled tls then [] else
          (if valkeyTLS_CASecretName tls = '''' then [] else [(precreatedSecretReference, valkeyTLS_CASecretName tls, [''ca.crt''])]) @
          (if valkeyTLS_ClientCertSecretName tls = '''' then []
           else [(precreatedSecretReference, valkeyTLS_ClientCertSecretName tls, [''tls.crt'', ''tls.key''])])) @
     concat (map (\<lambda>ref. case ResolveLLMProfile kn ref of None \<Rightarrow> [] | Some p \<Rightarrow> profile_demands p) (llm_profile_refs kn)) @
     (if FleetEnabled (kn_Spec kn)
      then map (\<lambda>(path, name). (precreatedSecretReference, name, [''client-id'', ''client-secret''])) (fleet_credentials kn) else [])"

definition identity :: "demand \<Rightarrow> string" where
  "identity d = (case d of (kind, name, keys) \<Rightarrow> reference_identity kind name keys)"

definition collected :: "precreatedReferenceCollector \<Rightarrow> demand set" where
  "collected c = (\<lambda>r. (pre_kind r, pre_name r, pre_requiredKeys r)) ` set (collector_references c)"

definition tidy :: "precreatedReferenceCollector \<Rightarrow> bool" where
  "tidy c \<longleftrightarrow> set (collector_seen c) = identity ` collected c"

text \<open>\<open>covers ds f\<close>: \<open>f\<close> adds nothing but \<open>ds\<close> to a collector, and all of it unless it reports an error.\<close>

definition covers :: "demand list \<Rightarrow> (precreatedReferenceCollector \<Rightarrow> precreatedReferenceCollector) \<Rightarrow> bool" where
  "covers ds f \<longleftrightarrow> (\<forall>c. tidy c \<longrightarrow> tidy (f c) \<and> collected c \<subseteq> collected (f c) \<and> collected (f c) \<subseteq> collected c \<union> set ds \<and>
     (collector_errs (f c) = [] \<longrightarrow> collector_errs c = [] \<and> identity ` set ds \<subseteq> identity ` collected (f c)))"

named_theorems covers_rules \<open>what the steps of the collector demand\<close>

lemma covers_id [covers_rules]: "covers [] (\<lambda>c. c)"
  by (simp add: covers_def)

lemma covers_comp:
  assumes "covers ds f" and "covers es g"
  shows "covers (ds @ es) (\<lambda>c. g (f c))"
  unfolding covers_def
proof (intro allI impI)
  fix c assume "tidy c"
  note 1 = assms(1) [unfolded covers_def, rule_format, OF this]
  note 2 = assms(2) [unfolded covers_def, rule_format, OF conjunct1 [OF 1]]
  have "identity ` set (ds @ es) \<subseteq> identity ` collected (g (f c))" if "collector_errs (g (f c)) = []"
  proof -
    have es: "identity ` set es \<subseteq> identity ` collected (g (f c))" and "collector_errs (f c) = []" using 2 that by blast+
    then have "identity ` set ds \<subseteq> identity ` collected (f c)" using 1 by blast
    also have "\<dots> \<subseteq> identity ` collected (g (f c))" using 2 by (intro image_mono) blast
    finally show ?thesis using es by (simp add: image_Un)
  qed
  with 1 2 show "tidy (g (f c)) \<and> collected c \<subseteq> collected (g (f c)) \<and> collected (g (f c)) \<subseteq> collected c \<union> set (ds @ es) \<and>
     (collector_errs (g (f c)) = [] \<longrightarrow> collector_errs c = [] \<and> identity ` set (ds @ es) \<subseteq> identity ` collected (g (f c)))"
    by (auto simp del: image_subset_iff)
qed

lemma covers_fold [covers_rules]:
  "(\<And>x. x \<in> set xs \<Longrightarrow> covers (D x) (F x)) \<Longrightarrow> covers (concat (map D xs)) (fold F xs)"
proof (induction xs)
  case Nil
  have "fold F [] = (\<lambda>c. c)" by (rule ext) simp
  then show ?case using covers_id by simp
next
  case (Cons x xs)
  have "fold F (x # xs) = (\<lambda>c. fold F xs (F x c))" by (rule ext) simp
  then show ?case using covers_comp [OF Cons.prems [of x] Cons.IH] Cons.prems by simp
qed

lemma covers_add [covers_rules]: "covers [(kind, name, keys)] (add_reference kind path name keys)"
  by (auto simp: covers_def add_reference_def tidy_def collected_def identity_def)

lemma covers_error [covers_rules]: "covers ds (addError e)"
  by (auto simp: covers_def addError_def tidy_def collected_def)

lemma covers_if: "(b \<Longrightarrow> covers ds f) \<Longrightarrow> (\<not> b \<Longrightarrow> covers es g) \<Longrightarrow> covers (if b then ds else es) (\<lambda>c. if b then f c else g c)"
  by simp

lemma update_first_image: "(\<And>r. h (f r) = h r) \<Longrightarrow> h ` set (update_first P f rs) = h ` set rs"
  by (induction rs) auto

lemma covers_mark:
  assumes "covers ds f" and "\<And>r. (pre_kind (g r), pre_name (g r), pre_requiredKeys (g r)) = (pre_kind r, pre_name r, pre_requiredKeys r)"
  shows "covers ds (\<lambda>c. (f c)\<lparr>collector_references := update_first P g (collector_references (f c))\<rparr>)"
proof -
  have "collected (c\<lparr>collector_references := update_first P g (collector_references c)\<rparr>) = collected c" for c
    using update_first_image [of "\<lambda>r. (pre_kind r, pre_name r, pre_requiredKeys r)" g P "collector_references c"] assms(2)
    by (simp add: collected_def)
  then show ?thesis using assms(1) by (simp add: covers_def tidy_def)
qed

lemma covers_marked [covers_rules]:
  "covers [(precreatedSecretReference, name, [key])] (addPEMSecretReference path name key)"
  "covers [(precreatedSecretReference, name, [key])] (addJSONSecretReference path name key)"
  "covers [] (addNoNewlineSecretKeys path' name keys)"
  unfolding addPEMSecretReference_def [abs_def] addJSONSecretReference_def [abs_def] addNoNewlineSecretKeys_def [abs_def] Let_def
  by (rule covers_mark, rule covers_add covers_id, simp)+

text \<open>Every function of the collector demands its part of the inputs.\<close>

lemma covers_profile:
  "covers (profile_demands p) (append_profile path p)"
proof -
  let ?oauth = "llmProfile_OAuth2 p"
  have 1: "covers [(precreatedSecretReference, llmProfile_CredentialsSecretName p,
        [if llmProfile_Provider p = LLMProviderVertexAI then ''credentials.json'' else ''api_key''])]
      (\<lambda>c. if llmProfile_Provider p = LLMProviderVertexAI
        then addJSONSecretReference (path @ ''.credentialsSecretName'') (llmProfile_CredentialsSecretName p) ''credentials.json'' c
        else add_reference precreatedSecretReference (path @ ''.credentialsSecretName'') (llmProfile_CredentialsSecretName p) [''api_key''] c)"
    using covers_marked(2) covers_add by simp
  have 2: "covers (if oAuth2_Enabled ?oauth then [(precreatedSecretReference, oAuth2_CredentialsSecretRef ?oauth, [''client-id'', ''client-secret''])] else [])
      (\<lambda>c. if \<not> oAuth2_Enabled ?oauth then c
        else if oAuth2_CredentialsSecretRef ?oauth = ''''
        then addError (Msg (path @ ''.oauth2.credentialsSecretRef: must be set when OAuth2 is enabled'')) c
        else add_reference precreatedSecretReference (path @ ''.oauth2.credentialsSecretRef'')
               (oAuth2_CredentialsSecretRef ?oauth) [''client-id'', ''client-secret''] c)"
    using covers_add covers_error covers_id by (cases "oAuth2_CredentialsSecretRef ?oauth = []") simp_all
  have 3: "covers (if llmProfile_TLSClientSecretRef p \<noteq> '''' then [(precreatedSecretReference, llmProfile_TLSClientSecretRef p, [''tls.crt'', ''tls.key''])] else [])
      (\<lambda>c. if llmProfile_TLSClientSecretRef p \<noteq> '''' then add_reference precreatedSecretReference (path @ ''.tlsClientSecretRef'')
               (llmProfile_TLSClientSecretRef p) [''tls.crt'', ''tls.key''] c else c)"
    using covers_add covers_id by simp
  have 4: "covers (case llmProfile_TLSCaSecretRef p of None \<Rightarrow> []
        | Some ca \<Rightarrow> [(precreatedSecretReference, caCertSecretRef_Name ca, [monitoringTLSKey (caCertSecretRef_Key ca)])])
      (\<lambda>c. case llmProfile_TLSCaSecretRef p of None \<Rightarrow> c
        | Some ca \<Rightarrow> addPEMSecretReference (path @ ''.tlsCaSecretRef'') (caCertSecretRef_Name ca)
            (if caCertSecretRef_Key ca = '''' then monitoringTLSDefaultCAKey else caCertSecretRef_Key ca) c)"
    using covers_marked(1) covers_id by (simp add: monitoringTLSKey_def split: option.splits)
  show ?thesis
    using covers_comp [OF covers_comp [OF covers_comp [OF 1 2] 3] 4]
    unfolding append_profile_def [abs_def] profile_demands_def Let_def append.assoc .
qed

lemma covers_LLM:
  "covers (concat (map (\<lambda>ref. case ResolveLLMProfile kn ref of None \<Rightarrow> [] | Some p \<Rightarrow> profile_demands p) (llm_profile_refs kn)))
     (appendPrecreatedLLMReferences kn)"
  unfolding appendPrecreatedLLMReferences_def [abs_def]
proof (rule covers_fold)
  fix ref
  show "covers (case ResolveLLMProfile kn ref of None \<Rightarrow> [] | Some p \<Rightarrow> profile_demands p) (appendPrecreatedLLMProfileReference kn ref)"
    unfolding appendPrecreatedLLMProfileReference_def [abs_def]
    using covers_profile covers_id by (simp add: ResolveLLMProfile_def split: option.splits)
qed

lemma covers_config_maps:
  "covers ((if kubernautAgent_RuntimeConfigMapName (spec_KubernautAgent (kn_Spec kn)) = '''' then []
      else [(precreatedConfigMapReference, kubernautAgent_RuntimeConfigMapName (spec_KubernautAgent (kn_Spec kn)), [''llm-runtime.yaml''])]) @
     (case notification_Routing (spec_Notification (kn_Spec kn)) of
        None \<Rightarrow> [] | Some ref \<Rightarrow> [(precreatedConfigMapReference, configMapRef_ConfigMapName ref, [''routing.yaml''])]))
    (appendPrecreatedConfigMapReferences kn)"
proof -
  let ?name = "kubernautAgent_RuntimeConfigMapName (spec_KubernautAgent (kn_Spec kn))"
  have 1: "covers (if ?name = '''' then [] else [(precreatedConfigMapReference, ?name, [''llm-runtime.yaml''])])
      (\<lambda>c. if ?name \<noteq> '''' then add_reference precreatedConfigMapReference ''spec.kubernautAgent.runtimeConfigMapName'' ?name [''llm-runtime.yaml''] c else c)"
    using covers_add covers_id by simp
  have 2: "covers (case notification_Routing (spec_Notification (kn_Spec kn)) of
        None \<Rightarrow> [] | Some ref \<Rightarrow> [(precreatedConfigMapReference, configMapRef_ConfigMapName ref, [''routing.yaml''])])
      (\<lambda>c. case notification_Routing (spec_Notification (kn_Spec kn)) of None \<Rightarrow> c
         | Some ref \<Rightarrow> add_reference precreatedConfigMapReference ''spec.notification.routing.configMapName''
             (configMapRef_ConfigMapName ref) [''routing.yaml''] c)"
    using covers_add covers_id by (simp split: option.splits)
  show ?thesis using covers_comp [OF 1 2] unfolding appendPrecreatedConfigMapReferences_def [abs_def] Let_def .
qed

lemma map_enumerate: "map (\<lambda>p. f (snd p)) (enumerate n xs) = map f xs"
  by (induction xs arbitrary: n) simp_all

lemma covers_features:
  "covers (map (\<lambda>credential. (precreatedSecretReference, notificationSecretRef_Name (notificationCredential_SecretRef credential),
         [notificationSecretRef_Key (notificationCredential_SecretRef credential)]))
       (notification_Credentials (spec_Notification (kn_Spec kn))) @
     (if ConsoleEnabled (kn_Spec kn)
      then [(precreatedSecretReference, consoleAuth_SecretName (console_Auth (spec_Console (kn_Spec kn))),
             [''client-id'', ''client-secret'', ''cookie-secret''])] else []) @
     (case valkey_TLS (spec_Valkey (kn_Spec kn)) of
        None \<Rightarrow> []
      | Some tls \<Rightarrow> if \<not> valkeyTLS_Enabled tls then [] else
          (if valkeyTLS_CASecretName tls = '''' then [] else [(precreatedSecretReference, valkeyTLS_CASecretName tls, [''ca.crt''])]) @
          (if valkeyTLS_ClientCertSecretName tls = '''' then []
           else [(precreatedSecretReference, valkeyTLS_ClientCertSecretName tls, [''tls.crt'', ''tls.key''])])))
    (appendPrecreatedFeatureSecretReferences kn)"
  (is "covers (?credentials @ ?console @ ?valkey) _")
proof -
  let ?xs = "notification_Credentials (spec_Notification (kn_Spec kn))"
  let ?demand = "\<lambda>credential. (precreatedSecretReference, notificationSecretRef_Name (notificationCredential_SecretRef credential),
         [notificationSecretRef_Key (notificationCredential_SecretRef credential)])"
  let ?add = "\<lambda>(i, credential). add_reference precreatedSecretReference (credential_path i)
            (notificationSecretRef_Name (notificationCredential_SecretRef credential))
            [notificationSecretRef_Key (notificationCredential_SecretRef credential)]"
  have 1: "covers ?credentials (fold ?add (enumerate 0 ?xs))"
    using covers_fold [of "enumerate 0 ?xs" "\<lambda>p. [?demand (snd p)]" ?add] covers_add
    by (simp add: split_def map_enumerate [of ?demand])
  have 2: "covers ?console (appendPrecreatedConsoleSecret kn)"
    using covers_comp [OF covers_add covers_marked(3)] covers_id
    unfolding appendPrecreatedConsoleSecret_def [abs_def] Let_def by simp
  have 3: "covers ?valkey (appendPrecreatedValkeyTLSSecrets kn)"
  proof (cases "valkey_TLS (spec_Valkey (kn_Spec kn))")
    case None
    then show ?thesis using covers_id by (simp add: appendPrecreatedValkeyTLSSecrets_def [abs_def] ValkeyTLSEnabled_def)
  next
    case (Some tls)
    let ?ca = "valkeyTLS_CASecretName tls" and ?cc = "valkeyTLS_ClientCertSecretName tls"
    have a: "covers (if ?ca = '''' then [] else [(precreatedSecretReference, ?ca, [''ca.crt''])])
        (\<lambda>c. if ?ca \<noteq> '''' then addPEMSecretReference ''spec.valkey.tls.caSecretName'' ?ca ''ca.crt'' c else c)"
      using covers_marked(1) covers_id by simp
    have b: "covers (if ?cc = '''' then [] else [(precreatedSecretReference, ?cc, [''tls.crt'', ''tls.key''])])
        (\<lambda>c. if ?cc \<noteq> '''' then add_reference precreatedSecretReference ''spec.valkey.tls.clientCertSecretName'' ?cc [''tls.crt'', ''tls.key''] c else c)"
      using covers_add covers_id by simp
    show ?thesis
      using Some covers_comp [OF a b] covers_id
      by (simp add: appendPrecreatedValkeyTLSSecrets_def [abs_def] ValkeyTLSEnabled_def Let_def)
  qed
  show ?thesis
    unfolding appendPrecreatedFeatureSecretReferences_def [abs_def] by (rule covers_comp [OF 1 covers_comp [OF 2 3]])
qed

lemma covers_fleet:
  "covers (if FleetEnabled (kn_Spec kn)
      then map (\<lambda>(path, name). (precreatedSecretReference, name, [''client-id'', ''client-secret''])) (fleet_credentials kn) else [])
    (appendPrecreatedFleetReferences kn)"
proof -
  let ?add = "\<lambda>(path, name). add_reference precreatedSecretReference path name [''client-id'', ''client-secret'']"
  have "covers (concat (map (\<lambda>(path, name). [(precreatedSecretReference, name, [''client-id'', ''client-secret''])]) xs)) (fold ?add xs)" for xs
    by (rule covers_fold) (auto intro: covers_add)
  moreover have "concat (map (\<lambda>(path, name). [(precreatedSecretReference, name, [''client-id'', ''client-secret''])]) xs) =
      map (\<lambda>(path, name). (precreatedSecretReference, name, [''client-id'', ''client-secret''])) xs" for xs :: "(string \<times> string) list"
    by (induction xs) auto
  ultimately show ?thesis
    using covers_id by (simp add: appendPrecreatedFleetReferences_def [abs_def])
qed

lemma covers_all:
  assumes "precreatedConfigurationReferences kn = (refs, [])"
  shows "identity ` set (demanded_inputs kn) \<subseteq> identity ` (\<lambda>r. (pre_kind r, pre_name r, pre_requiredKeys r)) ` set refs"
    "(\<lambda>r. (pre_kind r, pre_name r, pre_requiredKeys r)) ` set refs \<subseteq> set (demanded_inputs kn)"
proof -
  have "covers (demanded_inputs kn) (\<lambda>c. appendPrecreatedOptionalReferences kn
         (add_reference precreatedConfigMapReference ''spec.signalProcessing.policy.configMapName'' (SignalProcessingPolicyName kn) [''policy.rego'']
           (add_reference precreatedConfigMapReference ''spec.aiAnalysis.policy.configMapName'' (AIAnalysisPolicyName kn) [''approval.rego''] c)))"
    (is "covers _ ?f")
    using covers_comp [OF covers_comp [OF covers_add covers_add]
        covers_comp [OF covers_config_maps covers_comp [OF covers_features covers_comp [OF covers_LLM covers_fleet]]]]
    by (simp only: demanded_inputs_def appendPrecreatedOptionalReferences_def append.assoc append_Cons append_Nil)
  note covers = this [unfolded covers_def, rule_format, of newPrecreatedReferenceCollector]
  have "tidy newPrecreatedReferenceCollector" "collected newPrecreatedReferenceCollector = {}"
    by (simp_all add: tidy_def collected_def newPrecreatedReferenceCollector_def)
  moreover have "collector_references (?f newPrecreatedReferenceCollector) = refs" "collector_errs (?f newPrecreatedReferenceCollector) = []"
    using assms by (simp_all add: precreatedConfigurationReferences_def Let_def)
  ultimately show "identity ` set (demanded_inputs kn) \<subseteq> identity ` (\<lambda>r. (pre_kind r, pre_name r, pre_requiredKeys r)) ` set refs"
    "(\<lambda>r. (pre_kind r, pre_name r, pre_requiredKeys r)) ` set refs \<subseteq> set (demanded_inputs kn)"
    using covers unfolding collected_def by (simp_all del: image_subset_iff)
qed


subsection \<open>Identities are unambiguous for admissible names\<close>

definition admissible :: "demand \<Rightarrow> bool" where
  "admissible d = (case d of (kind, name, keys) \<Rightarrow>
     CHR ''/'' \<notin> set name \<and> keys \<noteq> [] \<and> list_all (\<lambda>k. CHR 0x00 \<notin> set k) keys)"

lemma split_join:
  "keys \<noteq> [] \<Longrightarrow> list_all (\<lambda>k. d \<notin> set k) keys \<Longrightarrow> split_on d (join_strings [d] keys) = keys"
proof (induction "[d]" keys rule: join_strings.induct)
  case (2 x)
  then show ?case by (simp add: split_on_absent)
next
  case (3 x y zs)
  then show ?case using split_on_append [of d x "join_strings [d] (y # zs)"] by simp
qed simp

lemma append_Cons_inject:
  "c \<notin> set a \<Longrightarrow> c \<notin> set a' \<Longrightarrow> a @ c # b = a' @ c # b' \<longleftrightarrow> a = a' \<and> b = b'"
proof (induction a arbitrary: a')
  case Nil
  then show ?case by (cases a') auto
next
  case (Cons x a)
  then show ?case by (cases a') auto
qed

lemma kind_name_facts: "CHR ''/'' \<notin> set (kind_name k)" "kind_name k = kind_name k' \<longleftrightarrow> k = k'"
  by (cases k; cases k'; simp)+

lemma join_inject:
  "keys \<noteq> [] \<Longrightarrow> list_all (\<lambda>k. d \<notin> set k) keys \<Longrightarrow> keys' \<noteq> [] \<Longrightarrow> list_all (\<lambda>k. d \<notin> set k) keys' \<Longrightarrow>
   join_strings [d] keys = join_strings [d] keys' \<Longrightarrow> keys = keys'"
  by (metis split_join)

lemma identity_inject: "admissible d \<Longrightarrow> admissible d' \<Longrightarrow> identity d = identity d' \<Longrightarrow> d = d'"
  by (cases d; cases d')
    (auto simp: admissible_def identity_def reference_identity_def append_Cons_inject kind_name_facts intro: join_inject)


subsection \<open>Accepted inputs are there\<close>

text \<open>The value of a key of a ConfigMap or Secret as read.\<close>

definition value_of :: "precreatedReferenceKind \<Rightarrow> kobj \<Rightarrow> string \<Rightarrow> string option" where
  "value_of kind x key =
     (case kind of
        precreatedConfigMapReference \<Rightarrow>
          (case map_of (configmap_data x) key of None \<Rightarrow> map_of (configmap_binary x) key | Some v \<Rightarrow> Some v)
      | precreatedSecretReference \<Rightarrow> map_of (secret_data x) key)"

definition present :: "string \<Rightarrow> call list \<Rightarrow> demand \<Rightarrow> bool" where
  "present namespace tr d = (case d of (kind, name, keys) \<Rightarrow>
     \<exists>x. Read (kind_name kind) (namespace, name) x \<in> set tr \<and> (\<forall>key \<in> set keys. \<exists>v. value_of kind x key = Some v \<and> v \<noteq> ''''))"

lemma first_problem_None: "first_problem f xs = None \<longleftrightarrow> (\<forall>x \<in> set xs. f x = None)"
  by (induction xs) (auto split: option.splits)

lemma validated_keys:
  "validatePrecreatedConfigMapKeys D x r = None \<Longrightarrow> key \<in> set (pre_requiredKeys r) \<Longrightarrow>
     \<exists>v. value_of precreatedConfigMapReference x key = Some v \<and> v \<noteq> ''''"
  "validatePrecreatedSecretKeys D x r = None \<Longrightarrow> key \<in> set (pre_requiredKeys r) \<Longrightarrow>
     \<exists>v. value_of precreatedSecretReference x key = Some v \<and> v \<noteq> ''''"
  by (auto simp: validatePrecreatedConfigMapKeys_def validatePrecreatedSecretKeys_def first_problem_None value_of_def
      configmap_key_problem_def secret_key_problem_def Let_def split: option.splits if_splits)

lemma present_mono: "present ns tr d \<Longrightarrow> present ns (cs @ tr) d"
  by (auto simp: present_def split: prod.splits)

lemma run_validatePrecreatedReference:
  assumes "run_state (validatePrecreatedReference E D ns r) w = (None, w')"
  shows "present ns (w_trace w') (pre_kind r, pre_name r, pre_requiredKeys r)"
proof -
  have "\<exists>x. Read (kind_name (pre_kind r)) (ns, pre_name r) x \<in> set (w_trace w') \<and>
      (case pre_kind r of precreatedConfigMapReference \<Rightarrow> validatePrecreatedConfigMapKeys D x r
         | precreatedSecretReference \<Rightarrow> validatePrecreatedSecretKeys D x r) = None"
    using assms
    by (auto simp: validatePrecreatedReference_def Get_def reads_of_def
        split: precreatedReferenceKind.splits prod.splits sum.splits)
  then show ?thesis by (cases "pre_kind r") (auto simp: present_def dest: validated_keys)
qed

lemma emits_validatePrecreatedReference: "emits (\<lambda>c. \<not> is_write c) (validatePrecreatedReference E D ns r)"
  unfolding validatePrecreatedReference_def by (cases "pre_kind r") (simp_all, (intro emits_rules; simp)+)

lemma run_collect_present:
  assumes "run_state (collect (\<lambda>r. do {
          err \<leftarrow> validatePrecreatedReference E D ns r;
          State_Monad.return (case err of None \<Rightarrow> [] | Some e \<Rightarrow> [e]) }) rs) w = ([], w')"
  shows "(\<forall>r \<in> set rs. present ns (w_trace w') (pre_kind r, pre_name r, pre_requiredKeys r)) \<and>
    (\<exists>cs. w_trace w' = cs @ w_trace w \<and> list_all (\<lambda>c. \<not> is_write c) cs)"
  using assms
proof (induction rs arbitrary: w)
  case (Cons r rs)
  obtain err v where step: "run_state (validatePrecreatedReference E D ns r) w = (err, v)" by fastforce
  have err: "err = None" and rest: "run_state (collect (\<lambda>r. do {
          err \<leftarrow> validatePrecreatedReference E D ns r;
          State_Monad.return (case err of None \<Rightarrow> [] | Some e \<Rightarrow> [e]) }) rs) v = ([], w')"
    using Cons.prems step by (auto split: prod.splits option.splits)
  note IH = Cons.IH [OF rest]
  obtain cs where cs: "w_trace v = cs @ w_trace w" "list_all (\<lambda>c. \<not> is_write c) cs"
    using emitsD [OF emits_validatePrecreatedReference step] by blast
  from IH obtain ds where ds: "w_trace w' = ds @ w_trace v" "list_all (\<lambda>c. \<not> is_write c) ds" by blast
  have "present ns (w_trace w') (pre_kind r, pre_name r, pre_requiredKeys r)"
    using run_validatePrecreatedReference [OF step [unfolded err]] present_mono ds(1) by metis
  then show ?case using IH cs ds by (auto intro: exI [of _ "ds @ cs"])
qed simp

text \<open>C15: A startup input that the specification demands is there: when the check of the pre-created configuration
  succeeds, then for every demand of the specification (policies, agent runtime, routing, notification
  credentials, console login, Valkey TLS, every LLM profile in use and the fleet credentials of every
  active component) an object of that name was read in the run in which each required key is set and
  non-empty. Sharing a Secret between features never drops a demand, and nothing is written.\<close>

theorem precreated_inputs_present:
  assumes "run_state (validatePrecreatedConfiguration E D) w = (None, w')"
    and "list_all admissible (demanded_inputs (w_kn w))"
  shows "(\<forall>d \<in> set (demanded_inputs (w_kn w)). present (kn_Namespace (w_kn w)) (w_trace w') d) \<and>
    (\<exists>cs. w_trace w' = cs @ w_trace w \<and> list_all (\<lambda>c. \<not> is_write c) cs)"
proof -
  let ?kn = "w_kn w" and ?id = "\<lambda>r. (pre_kind r, pre_name r, pre_requiredKeys r)"
  obtain refs errs where refs: "precreatedConfigurationReferences ?kn = (refs, errs)" by fastforce
  have errs: "errs = []" and run: "run_state (collect (\<lambda>reference. do {
          err \<leftarrow> validatePrecreatedReference E D (kn_Namespace ?kn) reference;
          State_Monad.return (case err of None \<Rightarrow> [] | Some e \<Rightarrow> [e]) }) refs) w = ([], w')"
    using assms(1) refs by (auto simp: validatePrecreatedConfiguration_def the_kn_def split: prod.splits if_splits)
  note all = run_collect_present [OF run]
  note cov = covers_all [OF refs [unfolded errs]]
  have "present (kn_Namespace ?kn) (w_trace w') d" if "d \<in> set (demanded_inputs ?kn)" for d
  proof -
    from cov(1) that obtain r where r: "r \<in> set refs" "identity d = identity (?id r)" by blast
    then have "?id r \<in> set (demanded_inputs ?kn)" using cov(2) by blast
    then have "d = ?id r" using identity_inject r(2) that assms(2) by (auto simp: list_all_iff)
    then show ?thesis using all r(1) by simp
  qed
  then show ?thesis using all by blast
qed


definition rego_map :: "string \<Rightarrow> string \<Rightarrow> kobj" where
  "rego_map name key = sample_object ''ConfigMap'' name (ConfigMapBody [(key, ''package policy'')] [])"

definition sample_decoders :: decoders where
  "sample_decoders = \<lparr>d_pemDecode = (\<lambda>s. Some \<lparr>pem_Type = ''CERTIFICATE'', pem_Bytes = s, pem_Last = length s\<rparr>),
     d_parseCertificate = (\<lambda>s. Inr \<lparr>cert_Raw = s, cert_IsCA = True, cert_NotBefore = 0, cert_NotAfter = 10, cert_ExtKeyUsage = []\<rparr>),
     d_appendCertsFromPEM = (\<lambda>s. True), d_x509KeyPair = (\<lambda>c k. None), d_jsonValid = (\<lambda>s. True),
     d_yamlObject = (\<lambda>s. Inr 1), d_yamlCredential = (\<lambda>s. Some (''u'', ''p'')), d_now = 5\<rparr>"

lemma zero_inputs:
  "\<not> FleetEnabled (kn_Spec zero_Kubernaut)" "\<not> ConsoleEnabled (kn_Spec zero_Kubernaut)"
  "kubernautAgent_RuntimeConfigMapName (spec_KubernautAgent (kn_Spec zero_Kubernaut)) = []"
  "notification_Routing (spec_Notification (kn_Spec zero_Kubernaut)) = None"
  "notification_Credentials (spec_Notification (kn_Spec zero_Kubernaut)) = []"
  "valkey_TLS (spec_Valkey (kn_Spec zero_Kubernaut)) = None" "spec_LLMProfiles (kn_Spec zero_Kubernaut) = []"
  "AIAnalysisPolicyName sample_kn = ''aianalysis-policy''" "SignalProcessingPolicyName sample_kn = ''signalprocessing-policy''"
  by (simp_all add: zero_Kubernaut_def zero_KubernautSpec_def zero_FleetSpec_def FleetEnabled_def ConsoleEnabled_def zero_ConsoleSpec_def
      zero_KubernautAgentSpec_def zero_NotificationSpec_def zero_ValkeySpec_def AIAnalysisPolicyName_def SignalProcessingPolicyName_def
      zero_AIAnalysisSpec_def zero_SignalProcessingSpec_def zero_PolicyConfigMapRef_def)

lemma sample_profiles: "ResolveLLMProfile sample_kn ref = None"
  by (simp add: ResolveLLMProfile_def zero_inputs)

lemma sample_demands:
  "demanded_inputs sample_kn = [(precreatedConfigMapReference, ''aianalysis-policy'', [''approval.rego'']),
     (precreatedConfigMapReference, ''signalprocessing-policy'', [''policy.rego''])]"
  by (simp add: demanded_inputs_def zero_inputs sample_profiles)

lemma sample_references:
  "precreatedConfigurationReferences sample_kn =
     (map (\<lambda>(path, name, key). \<lparr>pre_kind = precreatedConfigMapReference, pre_path = path, pre_name = name, pre_requiredKeys = [key],
        pre_pemKeys = [], pre_jsonKeys = [], pre_noNewlineKeys = []\<rparr>)
       [(''spec.aiAnalysis.policy.configMapName'', ''aianalysis-policy'', ''approval.rego''),
        (''spec.signalProcessing.policy.configMapName'', ''signalprocessing-policy'', ''policy.rego'')], [])"
proof -
  have "appendPrecreatedLLMProfileReference sample_kn ref = (\<lambda>c. c)" for ref
    by (rule ext) (simp add: appendPrecreatedLLMProfileReference_def sample_profiles)
  then have "fold (appendPrecreatedLLMProfileReference sample_kn) refs c = c" for refs c by (induction refs) simp_all
  then show ?thesis
    by (simp add: precreatedConfigurationReferences_def appendPrecreatedOptionalReferences_def appendPrecreatedFleetReferences_def
        appendPrecreatedLLMReferences_def appendPrecreatedFeatureSecretReferences_def appendPrecreatedConfigMapReferences_def
        appendPrecreatedConsoleSecret_def appendPrecreatedValkeyTLSSecrets_def ValkeyTLSEnabled_def zero_inputs Let_def
        add_reference_def newPrecreatedReferenceCollector_def reference_identity_def)
qed

theorem precreated_inputs_present_witness:
  "\<exists>w'. run_state (validatePrecreatedConfiguration sample_env sample_decoders)
       (sample_world [rego_map ''aianalysis-policy'' ''approval.rego'', rego_map ''signalprocessing-policy'' ''policy.rego'']) = (None, w') \<and>
     present ''kubernaut-system'' (w_trace w') (precreatedConfigMapReference, ''aianalysis-policy'', [''approval.rego''])"
proof -
  let ?w = "sample_world [rego_map ''aianalysis-policy'' ''approval.rego'', rego_map ''signalprocessing-policy'' ''policy.rego'']"
  have rego: "has_rego_package (trim_space ''package policy'')"
    by (simp add: has_rego_package_def trim_space_def is_space_def)
  have "\<exists>w'. run_state (validatePrecreatedConfiguration sample_env sample_decoders) ?w = (None, w')"
    by (simp add: validatePrecreatedConfiguration_def the_kn_def sample_references validatePrecreatedReference_def Get_def sample_get_def
        is_at_def obj_key_def rego_map_def reads_of_def validatePrecreatedConfigMapKeys_def configmap_key_problem_def configmap_data_def
        validatePrecreatedConfigMapValue_def rego Let_def)
  then obtain w' where run: "run_state (validatePrecreatedConfiguration sample_env sample_decoders) ?w = (None, w')" ..
  moreover have "list_all admissible (demanded_inputs (w_kn ?w))" by (simp add: sample_demands admissible_def)
  ultimately show ?thesis using precreated_inputs_present [OF run] by (simp add: sample_demands)
qed


subsection \<open>Database credentials are consistent\<close>

lemma requiredSecretValue_Inr:
  "requiredSecretValue secret key = Inr v \<longleftrightarrow> map_of (secret_data secret) key = Some v \<and> trim_space v \<noteq> ''''"
  by (auto simp: requiredSecretValue_def split: option.splits)

lemma parseDataStorageCredential_Inr:
  "parseDataStorageCredential D secret = Inr c \<longleftrightarrow>
     (\<exists>doc user password. map_of (secret_data secret) PostgreSQLDataStorageSecretKey = Some doc \<and> doc \<noteq> '''' \<and>
        d_yamlCredential D doc = Some (user, password) \<and> trim_space user \<noteq> '''' \<and> trim_space password \<noteq> '''' \<and>
        c = \<lparr>credential_Username = user, credential_Password = password\<rparr>)"
  by (auto simp: parseDataStorageCredential_def gget_def mget_def Let_def split: option.splits)

lemma ValidatePostgreSQLSecret_None:
  "ValidatePostgreSQLSecret D secret = None \<longleftrightarrow>
     (\<exists>user password db c. requiredSecretValue secret ''POSTGRES_USER'' = Inr user \<and>
        requiredSecretValue secret ''POSTGRES_PASSWORD'' = Inr password \<and> requiredSecretValue secret ''POSTGRES_DB'' = Inr db \<and>
        parseDataStorageCredential D secret = Inr c \<and> credential_Username c = user \<and> credential_Password c = password)"
  unfolding ValidatePostgreSQLSecret_def by (simp split: sum.splits)

text \<open>The migration and DataStorage log in as the same user: the PostgreSQL Secret is accepted exactly when user, password
  and database name are set and not blank, and the credential document of DataStorage decodes to this very
  user and password. The Valkey Secret is accepted exactly when its document decodes to a password that is not blank.\<close>

lemma database_credentials_consistent:
  "(ValidatePostgreSQLSecret D secret = None \<longleftrightarrow>
     (\<exists>user password db doc. map_of (secret_data secret) ''POSTGRES_USER'' = Some user \<and> trim_space user \<noteq> '''' \<and>
        map_of (secret_data secret) ''POSTGRES_PASSWORD'' = Some password \<and> trim_space password \<noteq> '''' \<and>
        map_of (secret_data secret) ''POSTGRES_DB'' = Some db \<and> trim_space db \<noteq> '''' \<and>
        map_of (secret_data secret) PostgreSQLDataStorageSecretKey = Some doc \<and> doc \<noteq> '''' \<and>
        d_yamlCredential D doc = Some (user, password))) \<and>
   (ValidateValkeySecret D secret = None \<longleftrightarrow>
     (\<exists>doc user password. map_of (secret_data secret) ''valkey-secrets.yaml'' = Some doc \<and> doc \<noteq> '''' \<and>
        d_yamlCredential D doc = Some (user, password) \<and> trim_space password \<noteq> ''''))"
proof
  show "ValidatePostgreSQLSecret D secret = None \<longleftrightarrow>
     (\<exists>user password db doc. map_of (secret_data secret) ''POSTGRES_USER'' = Some user \<and> trim_space user \<noteq> '''' \<and>
        map_of (secret_data secret) ''POSTGRES_PASSWORD'' = Some password \<and> trim_space password \<noteq> '''' \<and>
        map_of (secret_data secret) ''POSTGRES_DB'' = Some db \<and> trim_space db \<noteq> '''' \<and>
        map_of (secret_data secret) PostgreSQLDataStorageSecretKey = Some doc \<and> doc \<noteq> '''' \<and>
        d_yamlCredential D doc = Some (user, password))"
    unfolding ValidatePostgreSQLSecret_None requiredSecretValue_Inr parseDataStorageCredential_Inr by fastforce
  show "ValidateValkeySecret D secret = None \<longleftrightarrow>
     (\<exists>doc user password. map_of (secret_data secret) ''valkey-secrets.yaml'' = Some doc \<and> doc \<noteq> '''' \<and>
        d_yamlCredential D doc = Some (user, password) \<and> trim_space password \<noteq> '''')"
    by (auto simp: ValidateValkeySecret_def gget_def mget_def Let_def split: option.splits)
qed

end
