(* ===== verification/Network_Policies.thy ===== *)
theory Network_Policies
  imports Serving Write_Safety Go_Net "HOL-Library.List_Lexorder" "HOL-Library.Char_ord"
begin

text \<open>
  Network policies: the portable traffic intent, its validation and its rendering into standard
  Kubernetes NetworkPolicy objects (\<^verbatim>\<open>internal/policy\<close>), and their reconciliation
  (\<^verbatim>\<open>reconcileNetworkPolicies\<close> and its helpers in \<^verbatim>\<open>internal/controller\<close>). The name and label checks of
  apimachinery are the record \<open>validation\<close>.
\<close>

subsection \<open>Validation of the intent\<close>

record validation =
  v_IsDNS1123Label :: "string \<Rightarrow> bool"
  v_IsQualifiedName :: "string \<Rightarrow> bool"
  v_IsValidLabelValue :: "string \<Rightarrow> bool"
  v_LabelSelectorAsSelector :: "label_selector \<Rightarrow> go_error option"

definition maxIngressPeers :: nat where "maxIngressPeers = 16"

text \<open>Loops that return at the first error.\<close>

fun first_error :: "('a \<Rightarrow> go_error option) \<Rightarrow> 'a list \<Rightarrow> go_error option" where
  "first_error f [] = None"
| "first_error f (x # xs) = (case f x of Some e \<Rightarrow> Some e | None \<Rightarrow> first_error f xs)"

lemma first_error_None: "first_error f xs = None \<longleftrightarrow> (\<forall>x \<in> set xs. f x = None)"
  by (induction xs) (auto split: option.splits)

definition validateIngressOverride ::
  "validation \<Rightarrow> string \<Rightarrow> NetworkPolicyIngressOverride \<Rightarrow> go_error option" where
  "validateIngressOverride V component override =
     (if length (networkPolicyIngressOverride_IngressCIDRs override) > maxIngressPeers
      then Some (Msg (''network policy '' @ component @ '' supports at most 16 ingress CIDRs''))
      else if length (networkPolicyIngressOverride_IngressNamespaceSelectors override) > maxIngressPeers
      then Some (Msg (''network policy '' @ component @ '' supports at most 16 ingress namespace selectors''))
      else case first_error (\<lambda>cidr. if ParseCIDR_ok cidr then None
                  else Some (Msg (''network policy '' @ component @ '' ingress CIDR '' @ cidr @ '' is invalid'')))
                (networkPolicyIngressOverride_IngressCIDRs override) of
        Some e \<Rightarrow> Some e
      | None \<Rightarrow> first_error (\<lambda>selector.
          if selector_MatchLabels selector = Map.empty \<and> selector_MatchExpressions selector = []
          then Some (Msg (''network policy '' @ component @ '' ingress namespace selector must not be empty''))
          else case v_LabelSelectorAsSelector V selector of
            Some e \<Rightarrow> Some (Wrap (''network policy '' @ component @ '' ingress namespace selector is invalid'') e)
          | None \<Rightarrow> None)
          (networkPolicyIngressOverride_IngressNamespaceSelectors override))"

definition validateScrapeSource :: "validation \<Rightarrow> MetricsScrapeSource \<Rightarrow> go_error option" where
  "validateScrapeSource V source =
     (let labels = metricsScrapeSource_PodLabels source in
      if \<not> v_IsDNS1123Label V (metricsScrapeSource_Namespace source)
      then Some (Msg ''metrics scrape source requires a valid exact namespace'')
      else if length labels = 0 \<or> length labels > 16
      then Some (Msg ''metrics scrape source requires 1 to 16 exact pod labels'')
      else first_error (\<lambda>(key, value).
        if \<not> v_IsQualifiedName V key \<or> \<not> v_IsValidLabelValue V value
        then Some (Msg ''metrics scrape source has an invalid pod label'')
        else if key = ''kubernetes.io/metadata.name'' \<or> has_prefix key ''kubernetes.io/''
        then Some (Msg ''metrics scrape source cannot override reserved namespace identity'')
        else None) labels)"

definition validateScrapeSources :: "validation \<Rightarrow> MetricsScrapeSource list \<Rightarrow> go_error option" where
  "validateScrapeSources V sources =
     (if length sources > 16 then Some (Msg ''at most 16 metrics scrape sources are supported'')
      else first_error (validateScrapeSource V) sources)"

definition validateNamedOverride ::
  "validation \<Rightarrow> string \<times> NetworkPolicyNamedIngressOverride \<Rightarrow> go_error option" where
  "validateNamedOverride V entry =
     (let (component, override) = entry;
          namespaces = networkPolicyNamedIngressOverride_IngressNamespaces override in
      case validateIngressOverride V component (networkPolicyNamedIngressOverride_NetworkPolicyIngressOverride override) of
        Some e \<Rightarrow> Some e
      | None \<Rightarrow>
         (if length namespaces > maxIngressPeers
          then Some (Msg (''network policy '' @ component @ '' supports at most 16 ingress namespaces''))
          else first_error (\<lambda>namespace. if v_IsDNS1123Label V namespace then None
            else Some (Msg (''network policy '' @ component @ '' ingress namespace '' @ namespace @ '' is invalid''))) namespaces))"

definition ValidateNetworkPoliciesSpec :: "validation \<Rightarrow> NetworkPoliciesSpec \<Rightarrow> go_error option" where
  "ValidateNetworkPoliciesSpec V spec =
     (case validateScrapeSources V (networkPolicies_ScrapeSources spec) of
        Some e \<Rightarrow> Some e
      | None \<Rightarrow>
         (case first_error (validateNamedOverride V)
                 [(''gateway'', networkPolicies_Gateway spec), (''apifrontend'', networkPolicies_APIFrontend spec),
                  (''console'', networkPolicies_Console spec)] of
            Some e \<Rightarrow> Some e
          | None \<Rightarrow> first_error (\<lambda>(component, override). validateIngressOverride V component override)
              [(''datastorage'', networkPolicies_DataStorage spec), (''kubernautAgent'', networkPolicies_KubernautAgent spec)]))"

subsection \<open>The intent\<close>

record Intent =
  intent_Namespace :: string
  intent_InstanceName :: string
  intent_Components :: "string list"
  intent_ScrapeSources :: "MetricsScrapeSource list"
  intent_MetricsPorts :: "int gomap"
  intent_IngressOverrides :: "NetworkPolicyNamedIngressOverride gomap"

definition BuildIntent :: "string \<Rightarrow> string list \<Rightarrow> Intent go" where
  "BuildIntent namespace components =
     (if namespace = '''' then Inl (Msg ''policy namespace is required'')
      else let unique = remdups (filter (\<lambda>c. c \<noteq> '''') components) in
        if unique = [] then Inl (Msg ''at least one policy component is required'')
        else Inr \<lparr>intent_Namespace = namespace, intent_InstanceName = namespace, intent_Components = sort unique,
                  intent_ScrapeSources = [], intent_MetricsPorts = [], intent_IngressOverrides = []\<rparr>)"

definition networkPolicyIngressOverrides ::
  "NetworkPoliciesSpec \<Rightarrow> NetworkPolicyNamedIngressOverride gomap" where
  "networkPolicyIngressOverrides spec =
     [(''gateway'', networkPolicies_Gateway spec), (''apifrontend'', networkPolicies_APIFrontend spec),
      (''console'', networkPolicies_Console spec),
      (ComponentDataStorage, zero_NetworkPolicyNamedIngressOverride\<lparr>networkPolicyNamedIngressOverride_NetworkPolicyIngressOverride := networkPolicies_DataStorage spec\<rparr>),
      (''kubernaut-agent'', zero_NetworkPolicyNamedIngressOverride\<lparr>networkPolicyNamedIngressOverride_NetworkPolicyIngressOverride := networkPolicies_KubernautAgent spec\<rparr>)]"

subsection \<open>Rendering\<close>

definition ManagedPolicyLabel :: string where "ManagedPolicyLabel = ''kubernaut.ai/managed-policy''"
definition PolicyNamespaceLabel :: string where "PolicyNamespaceLabel = ''kubernaut.ai/policy-namespace''"
definition authWebhookComponent :: string where "authWebhookComponent = ''authwebhook''"
definition consoleComponent :: string where "consoleComponent = ''console''"
definition metadataNameLabel :: string where "metadataNameLabel = ''kubernetes.io/metadata.name''"

definition managedInstanceLabels :: "string \<Rightarrow> smap" where
  "managedInstanceLabels instance = [LabelManagedBy \<mapsto> ''kubernaut-operator'', LabelInstance \<mapsto> instance]"

definition managedPodLabels :: "string \<Rightarrow> string \<Rightarrow> smap" where
  "managedPodLabels instance component = (managedInstanceLabels instance)(''app'' \<mapsto> component)"

definition match_labels :: "smap \<Rightarrow> label_selector" where
  "match_labels m = \<lparr>selector_MatchLabels = m, selector_MatchExpressions = []\<rparr>"

definition zero_netpol_peer :: netpol_peer where
  "zero_netpol_peer = \<lparr>peer_PodSelector = None, peer_NamespaceSelector = None, peer_IPBlock = None\<rparr>"

definition ingressOverrideRules :: "NetworkPolicyNamedIngressOverride \<Rightarrow> netpol_rule list" where
  "ingressOverrideRules override =
     (let inner = networkPolicyNamedIngressOverride_NetworkPolicyIngressOverride override;
          from = (\<lambda>p. \<lparr>rule_From = [p], rule_Ports = []\<rparr>) in
      map (\<lambda>namespace. from (zero_netpol_peer\<lparr>peer_NamespaceSelector := Some (match_labels [metadataNameLabel \<mapsto> namespace])\<rparr>))
        (networkPolicyNamedIngressOverride_IngressNamespaces override)
      @ map (\<lambda>selector. from (zero_netpol_peer\<lparr>peer_NamespaceSelector := Some selector\<rparr>))
        (networkPolicyIngressOverride_IngressNamespaceSelectors inner)
      @ map (\<lambda>cidr. from (zero_netpol_peer\<lparr>peer_IPBlock := Some cidr\<rparr>))
        (networkPolicyIngressOverride_IngressCIDRs inner))"

definition metrics_rules :: "Intent \<Rightarrow> int \<Rightarrow> netpol_rule list" where
  "metrics_rules intent port =
     map (\<lambda>source. \<lparr>rule_From = [zero_netpol_peer\<lparr>
            peer_NamespaceSelector := Some (match_labels [metadataNameLabel \<mapsto> metricsScrapeSource_Namespace source]),
            peer_PodSelector := Some (match_labels (map_of (metricsScrapeSource_PodLabels source)))\<rparr>],
          rule_Ports = [\<lparr>netpolPort_Port = Some port, netpolPort_Protocol = Some ''TCP''\<rparr>]\<rparr>)
       (intent_ScrapeSources intent)"

definition policy_labels :: "string \<Rightarrow> string \<Rightarrow> string \<Rightarrow> smap" where
  "policy_labels namespace instance component =
     [ManagedPolicyLabel \<mapsto> ''true'', LabelManagedBy \<mapsto> ''kubernaut-operator'', PolicyNamespaceLabel \<mapsto> namespace,
      LabelInstance \<mapsto> instance, LabelComponent \<mapsto> component]"

definition renderPolicy :: "Intent \<Rightarrow> string \<Rightarrow> kobj" where
  "renderPolicy intent component =
     (let namespace = intent_Namespace intent;
          instance = intent_InstanceName intent;
          port = (case map_of (intent_MetricsPorts intent) component of None \<Rightarrow> 0 | Some p \<Rightarrow> p);
          override = (case map_of (intent_IngressOverrides intent) component of
                        None \<Rightarrow> zero_NetworkPolicyNamedIngressOverride | Some r \<Rightarrow> r)
      in \<lparr>obj_Kind = ''NetworkPolicy'',
          obj_Meta = zero_object_meta\<lparr>meta_Name := ''kubernaut-'' @ component, meta_Namespace := namespace,
            meta_Labels := policy_labels namespace instance component\<rparr>,
          obj_Body = NetworkPolicyBody \<lparr>netpol_PodSelector = match_labels (managedPodLabels instance component),
            netpol_PolicyTypes = [''Ingress''],
            netpol_Ingress = [\<lparr>rule_From = [zero_netpol_peer\<lparr>peer_PodSelector := Some (match_labels (managedInstanceLabels instance))\<rparr>],
                               rule_Ports = []\<rparr>]
              @ (if port \<noteq> 0 then metrics_rules intent port else [])
              @ ingressOverrideRules override,
            netpol_Egress = []\<rparr>\<rparr>)"

definition Render :: "validation \<Rightarrow> Intent \<Rightarrow> kobj list go" where
  "Render V intent =
     (if intent_Namespace intent = '''' then Inl (Msg ''policy namespace is required'')
      else let intent = (if intent_InstanceName intent = '''' then intent\<lparr>intent_InstanceName := intent_Namespace intent\<rparr> else intent) in
        case validateScrapeSources V (intent_ScrapeSources intent) of
          Some e \<Rightarrow> Inl e
        | None \<Rightarrow>
           (if list_ex (\<lambda>(component, port). port < 1 \<or> port > 65535) (intent_MetricsPorts intent)
            then Inl (Msg ''invalid metrics port'')
            else Inr (map (renderPolicy intent)
              (filter (\<lambda>c. \<not> (c = authWebhookComponent \<or> c = consoleComponent)) (intent_Components intent)))))"

subsection \<open>The ownership gate of network policies\<close>

definition foreign_policy_label :: "smap \<Rightarrow> smap \<Rightarrow> string list \<Rightarrow> bool" where
  "foreign_policy_label labels desiredLabels ks = list_ex (\<lambda>k. mget labels k \<noteq> mget desiredLabels k) ks"

definition OwnershipError :: "kobj \<Rightarrow> kobj \<Rightarrow> go_error option" where
  "OwnershipError existing desired =
     (let labels = obj_Labels existing; desiredLabels = obj_Labels desired in
      if mget labels ManagedPolicyLabel \<noteq> ''true'' then Some (Msg ''refusing to overwrite unmanaged NetworkPolicy'')
      else if foreign_policy_label labels desiredLabels [LabelManagedBy, PolicyNamespaceLabel, LabelInstance]
      then Some (Msg ''refusing to overwrite NetworkPolicy with different ownership'')
      else if obj_terminating existing then Some (Msg ''refusing to overwrite terminating NetworkPolicy'')
      else case obj_Owners existing of
        [] \<Rightarrow> None
      | refs \<Rightarrow>
         (if length refs \<noteq> 1 \<or> obj_Namespace existing \<noteq> mget desiredLabels PolicyNamespaceLabel
          then Some (Msg ''refusing to overwrite NetworkPolicy with foreign or invalid-scope owners'')
          else let ref = hd refs in
            if owner_APIVersion ref \<noteq> ''kubernaut.ai/v1alpha2'' \<or> owner_Kind ref \<noteq> ''Kubernaut'' \<or>
               owner_Name ref \<noteq> mget desiredLabels LabelInstance \<or> owner_Controller ref \<noteq> Some True
            then Some (Msg ''refusing to overwrite NetworkPolicy with foreign owner'')
            else None))"

definition networkPolicyOwnershipError :: "kobj \<Rightarrow> kobj \<Rightarrow> go_error option" where
  "networkPolicyOwnershipError existing desired =
     (case OwnershipError existing desired of
        Some err \<Rightarrow> Some (ErrOwnershipConflict (error_text err))
      | None \<Rightarrow> None)"

subsection \<open>Reconciliation\<close>

definition updateNetworkPolicy :: "'s env \<Rightarrow> kobj \<Rightarrow> kobj \<Rightarrow> string \<Rightarrow> ('s, go_error option) prog" where
  "updateNetworkPolicy E existing desired desiredHash =
     (case networkPolicyOwnershipError existing desired of
        Some e \<Rightarrow> State_Monad.return (Some e)
      | None \<Rightarrow>
         (if mget (obj_Annotations existing) AnnotationSpecHash = desiredHash \<and> obj_Owners existing = obj_Owners desired \<and>
             obj_Body existing = obj_Body desired \<and> obj_Labels existing = obj_Labels desired
          then State_Monad.return None
          else do {
            u \<leftarrow> Update E (set_rv (obj_RV existing) desired);
            State_Monad.return (case u of Inl e \<Rightarrow> Some (API e) | Inr _ \<Rightarrow> None) }))"

definition ensureNetworkPolicy :: "'s env \<Rightarrow> kobj \<Rightarrow> ('s, go_error option) prog" where
  "ensureNetworkPolicy E d = (
     let desiredHash = SpecHash E d;
         desired = setHashAnnotation desiredHash d in do {
     r \<leftarrow> Get E ''NetworkPolicy'' (obj_key d);
     (case r of
        Inr existing \<Rightarrow> updateNetworkPolicy E existing desired desiredHash
      | Inl e \<Rightarrow>
         (if \<not> IsNotFound e then State_Monad.return (Some (Wrap ''checking existing NetworkPolicy'' (API e)))
          else do {
            c \<leftarrow> Create E desired;
            (case c of
               Inr _ \<Rightarrow> State_Monad.return None
             | Inl e' \<Rightarrow>
                (if \<not> IsAlreadyExists e' then State_Monad.return (Some (Wrap ''creating NetworkPolicy'' (API e')))
                 else do {
                   g \<leftarrow> OwnershipGet E ''NetworkPolicy'' (obj_key d);
                   (case g of
                      Inl e'' \<Rightarrow> State_Monad.return (Some (Wrap ''getting raced NetworkPolicy'' (API e'')))
                    | Inr existing \<Rightarrow> updateNetworkPolicy E existing desired desiredHash) })) })) })"

definition policyObjectKey :: "kobj \<Rightarrow> string" where
  "policyObjectKey x = ''networking.k8s.io/v1/NetworkPolicy/'' @ obj_Namespace x @ ''/'' @ obj_Name x"

text \<open>The keys of the rendered policies, or the first error.\<close>

fun ensureRenderedNetworkPolicies :: "'s env \<Rightarrow> kobj list \<Rightarrow> ('s, string list go) prog" where
  "ensureRenderedNetworkPolicies E [] = State_Monad.return (Inr [])"
| "ensureRenderedNetworkPolicies E (x # xs) = do {
     kn \<leftarrow> the_kn;
     (case e_setControllerReference E kn x of
        Inl e \<Rightarrow> State_Monad.return (Inl (Wrap ''setting NetworkPolicy owner reference'' e))
      | Inr y \<Rightarrow> do {
          err \<leftarrow> ensureNetworkPolicy E y;
          (case err of
             Some e \<Rightarrow>
               (if is_ownership_conflict e
                then do {
                  Eventf Warning ''OwnershipConflict'';
                  State_Monad.return (Inl (Wrap (''ensuring NetworkPolicy '' @ obj_Name x) e)) }
                else State_Monad.return (Inl (Wrap (''ensuring NetworkPolicy '' @ obj_Name x) e)))
           | None \<Rightarrow> do {
               rest \<leftarrow> ensureRenderedNetworkPolicies E xs;
               State_Monad.return (case rest of Inl e \<Rightarrow> Inl e | Inr ks \<Rightarrow> Inr (policyObjectKey x # ks)) }) }) }"

definition managedPolicyTrue :: string where "managedPolicyTrue = ''true''"

definition expected_policy :: "string \<Rightarrow> string \<Rightarrow> string \<Rightarrow> kobj" where
  "expected_policy name namespace instance = \<lparr>obj_Kind = ''NetworkPolicy'',
     obj_Meta = zero_object_meta\<lparr>meta_Name := name, meta_Namespace := namespace,
       meta_Labels := [ManagedPolicyLabel \<mapsto> managedPolicyTrue, LabelManagedBy \<mapsto> operatorManagedBy,
         PolicyNamespaceLabel \<mapsto> namespace, LabelInstance \<mapsto> instance]\<rparr>,
     obj_Body = NetworkPolicyBody \<lparr>netpol_PodSelector = match_labels Map.empty, netpol_PolicyTypes = [],
       netpol_Ingress = [], netpol_Egress = []\<rparr>\<rparr>"

definition deleteObservedNetworkPolicy :: "'s env \<Rightarrow> kobj \<Rightarrow> string \<Rightarrow> ('s, go_error option) prog" where
  "deleteObservedNetworkPolicy E x instance =
     (let labels = obj_Labels x in
      if mget labels ManagedPolicyLabel \<noteq> managedPolicyTrue \<or> mget labels LabelManagedBy \<noteq> operatorManagedBy \<or>
         mget labels PolicyNamespaceLabel \<noteq> obj_Namespace x \<or> mget labels LabelInstance \<noteq> instance
      then State_Monad.return None
      else case OwnershipError x (expected_policy (obj_Name x) (obj_Namespace x) instance) of
        Some err \<Rightarrow> State_Monad.return (Some (ErrOwnershipConflict (''refusing to delete NetworkPolicy: '' @ error_text err)))
      | None \<Rightarrow> do {
          d \<leftarrow> deleteObservedResource E x;
          State_Monad.return (case d of None \<Rightarrow> None | Some e \<Rightarrow> if IsNotFound e then None else Some (API e)) })"

definition policy_selector :: "string \<Rightarrow> string \<Rightarrow> (string \<times> string) list" where
  "policy_selector namespace instance = [(ManagedPolicyLabel, ''true''), (LabelManagedBy, ''kubernaut-operator''),
     (PolicyNamespaceLabel, namespace), (LabelInstance, instance)]"

definition pruneNetworkPolicies :: "'s env \<Rightarrow> string \<Rightarrow> string \<Rightarrow> string list \<Rightarrow> ('s, go_error option) prog" where
  "pruneNetworkPolicies E namespace instance desired = do {
     r \<leftarrow> ListObjs E ''NetworkPolicy'' (Some namespace) (policy_selector namespace instance);
     (case r of
        Inl e \<Rightarrow> State_Monad.return (Some (Wrap ''listing stale NetworkPolicies'' (API e)))
      | Inr items \<Rightarrow> for_each (\<lambda>x.
          if policyObjectKey x \<in> set desired then State_Monad.return None
          else do {
            err \<leftarrow> deleteObservedNetworkPolicy E x instance;
            State_Monad.return (map_option (Wrap (''deleting stale NetworkPolicy '' @ obj_Name x)) err) }) items) }"

definition deleteNetworkPolicies :: "'s env \<Rightarrow> string \<Rightarrow> string \<Rightarrow> ('s, go_error list) prog" where
  "deleteNetworkPolicies E namespace instance = do {
     r \<leftarrow> ListObjs E ''NetworkPolicy'' (Some namespace) (policy_selector namespace instance);
     (case r of
        Inl e \<Rightarrow>
          (if IsNotFound e \<or> IsNoMatchError e then State_Monad.return []
           else State_Monad.return [Wrap ''listing NetworkPolicies'' (API e)])
      | Inr items \<Rightarrow> collect (\<lambda>x. do {
            err \<leftarrow> deleteObservedNetworkPolicy E x instance;
            State_Monad.return (error_list (''deleting NetworkPolicy '' @ obj_Name x) err) }) items) }"

definition ConditionNetworkPolicyReady :: string where "ConditionNetworkPolicyReady = ''NetworkPolicyReady''"
definition ReasonNetworkPolicyReady :: string where "ReasonNetworkPolicyReady = ''NetworkPolicyReady''"
definition ReasonNetworkPolicyApplyFailed :: string where
  "ReasonNetworkPolicyApplyFailed = ''NetworkPolicyApplyFailed''"
definition ReasonNetworkPolicyOwnershipConflict :: string where
  "ReasonNetworkPolicyOwnershipConflict = ''NetworkPolicyOwnershipConflict''"

definition patchNetworkPolicyStatus :: "'s env \<Rightarrow> bool \<Rightarrow> go_error option \<Rightarrow> ('s, go_error option) prog" where
  "patchNetworkPolicyStatus E ready reconcileErr = (
     let (reason, message) =
           (case reconcileErr of
              None \<Rightarrow> (ReasonNetworkPolicyReady,
                ''standard Kubernetes NetworkPolicy objects are applied; dataplane enforcement is not attested'')
            | Some e \<Rightarrow> (if is_ownership_conflict e then ReasonNetworkPolicyOwnershipConflict
                          else ReasonNetworkPolicyApplyFailed, error_text e)) in do {
     err \<leftarrow> patchStatus E (\<lambda>kn. set_condition E ConditionNetworkPolicyReady (conditionStatus ready) reason message
              (if \<not> ready \<and> kn_Phase kn = PhaseRunning then setPhase PhaseDegraded kn else kn));
     (case err of
        Some e \<Rightarrow> State_Monad.return (Some (Wrap ''patching NetworkPolicy status'' e))
      | None \<Rightarrow>
         (case reconcileErr of
            None \<Rightarrow> State_Monad.return None
          | Some e \<Rightarrow> do {
              Eventf Warning (if reason = ReasonNetworkPolicyOwnershipConflict
                then ReasonNetworkPolicyOwnershipConflict else ''NetworkPolicyUnavailable'');
              State_Monad.return (Some e) })) })"

definition policy_intent :: "Kubernaut \<Rightarrow> Intent \<Rightarrow> Intent" where
  "policy_intent kn intent = intent\<lparr>intent_InstanceName := kn_Name kn,
     intent_ScrapeSources := networkPolicies_ScrapeSources (spec_NetworkPolicies (kn_Spec kn)),
     intent_MetricsPorts := generatedMetricsPorts kn kn,
     intent_IngressOverrides := networkPolicyIngressOverrides (spec_NetworkPolicies (kn_Spec kn))\<rparr>"

definition reconcileNetworkPolicies :: "'s env \<Rightarrow> validation \<Rightarrow> Kubernaut \<Rightarrow> ('s, go_error option) prog" where
  "reconcileNetworkPolicies E V knV2 = do {
     kn \<leftarrow> the_kn;
     (case ValidateNetworkPoliciesSpec V (spec_NetworkPolicies (kn_Spec kn)) of
        Some e \<Rightarrow> patchNetworkPolicyStatus E False (Some e)
      | None \<Rightarrow>
         (case BuildIntent (kn_Namespace kn) (ActiveComponents kn knV2) of
            Inl e \<Rightarrow> patchNetworkPolicyStatus E False (Some e)
          | Inr intent \<Rightarrow>
             (case Render V (policy_intent kn intent) of
                Inl e \<Rightarrow> patchNetworkPolicyStatus E False (Some e)
              | Inr objects \<Rightarrow> do {
                  r \<leftarrow> ensureRenderedNetworkPolicies E objects;
                  (case r of
                     Inl e \<Rightarrow> patchNetworkPolicyStatus E False (Some e)
                   | Inr desired \<Rightarrow> do {
                       p \<leftarrow> pruneNetworkPolicies E (kn_Namespace kn) (kn_Name kn) desired;
                       (case p of
                          Some e \<Rightarrow> patchNetworkPolicyStatus E False (Some e)
                        | None \<Rightarrow> patchNetworkPolicyStatus E True None) }) }))) }"

subsection \<open>The gate and its scope\<close>

definition policy_scope :: "string \<Rightarrow> string \<Rightarrow> kobj \<Rightarrow> bool" where
  "policy_scope namespace instance x \<longleftrightarrow>
     mget (obj_Labels x) ManagedPolicyLabel = ''true'' \<and> mget (obj_Labels x) LabelManagedBy = operatorManagedBy \<and>
     mget (obj_Labels x) PolicyNamespaceLabel = namespace \<and> mget (obj_Labels x) LabelInstance = instance \<and>
     \<not> obj_terminating x \<and>
     (obj_Owners x = [] \<or> (obj_Namespace x = namespace \<and> (\<exists>ref. obj_Owners x = [ref] \<and>
        owner_APIVersion ref = ''kubernaut.ai/v1alpha2'' \<and> owner_Kind ref = ''Kubernaut'' \<and>
        owner_Name ref = instance \<and> owner_Controller ref = Some True)))"

lemma OwnershipError_scope:
  assumes "mget (obj_Labels d) LabelManagedBy = operatorManagedBy"
  shows "OwnershipError x d = None \<longleftrightarrow>
    policy_scope (mget (obj_Labels d) PolicyNamespaceLabel) (mget (obj_Labels d) LabelInstance) x"
  using assms
  by (auto simp: OwnershipError_def policy_scope_def foreign_policy_label_def Let_def length_Suc_conv split: list.splits)

lemma networkPolicyOwnershipError_None: "networkPolicyOwnershipError x d = None \<longleftrightarrow> OwnershipError x d = None"
  by (simp add: networkPolicyOwnershipError_def split: option.splits)

interpretation policy_gate: ownership_gate "\<lambda>x. networkPolicyOwnershipError x desired"
  for desired
proof unfold_locales
  fix x show "obj_terminating x \<Longrightarrow> networkPolicyOwnershipError x desired \<noteq> None"
    by (auto simp: networkPolicyOwnershipError_def OwnershipError_def Let_def)
next
  fix x :: kobj
  assume "obj_Labels x = Map.empty" and "obj_Owners x = []"
  then show "networkPolicyOwnershipError x desired \<noteq> None"
    by (simp add: networkPolicyOwnershipError_def OwnershipError_def)
next
  fix x e
  show "networkPolicyOwnershipError x desired = Some e \<Longrightarrow> is_ownership_conflict e"
    by (auto simp: networkPolicyOwnershipError_def split: option.splits)
next
  fix x y :: kobj and v
  assume "obj_Meta y = (obj_Meta x)\<lparr>meta_ResourceVersion := v\<rparr>"
  then have "obj_Labels y = obj_Labels x" "obj_Owners y = obj_Owners x" "obj_Namespace y = obj_Namespace x"
    "meta_DeletionTimestamp (obj_Meta y) = meta_DeletionTimestamp (obj_Meta x)" by simp_all
  then show "(networkPolicyOwnershipError y desired = None) = (networkPolicyOwnershipError x desired = None)"
    by (simp only: networkPolicyOwnershipError_def OwnershipError_def)
qed

subsection \<open>What the intent and the rendering guarantee\<close>

lemma BuildIntent_Inr:
  "BuildIntent ns cs = Inr i \<Longrightarrow> intent_Namespace i = ns \<and> ns \<noteq> '''' \<and> sorted (intent_Components i) \<and>
     distinct (intent_Components i) \<and> set (intent_Components i) = set cs - {''''}"
  by (auto simp: BuildIntent_def Let_def split: if_splits)

text \<open>Building the intent orders and deduplicates the components: it fails exactly when the namespace
  is empty or no component is named, and otherwise lists each named component once, in
  sorted order, whatever order and repetitions it was given.\<close>

lemma BuildIntent_correct:
  "(case BuildIntent ns cs of
      Inl e \<Rightarrow> ns = '''' \<or> set cs \<subseteq> {''''}
    | Inr i \<Rightarrow> ns \<noteq> '''' \<and> \<not> set cs \<subseteq> {''''} \<and> intent_Namespace i = ns \<and> sorted (intent_Components i) \<and>
        distinct (intent_Components i) \<and> set (intent_Components i) = set cs - {''''})"
  by (auto simp: BuildIntent_def Let_def filter_empty_conv split: sum.splits)

definition selector_nonempty :: "label_selector \<Rightarrow> bool" where
  "selector_nonempty s \<longleftrightarrow> selector_MatchLabels s \<noteq> Map.empty \<or> selector_MatchExpressions s \<noteq> []"

definition peer_restricts :: "netpol_peer \<Rightarrow> bool" where
  "peer_restricts p \<longleftrightarrow>
     (\<exists>s. peer_PodSelector p = Some s \<and> selector_nonempty s) \<or>
     (\<exists>s. peer_NamespaceSelector p = Some s \<and> selector_nonempty s) \<or>
     (\<exists>c. peer_IPBlock p = Some c \<and> ParseCIDR_ok c)"

definition rule_restricts :: "netpol_rule \<Rightarrow> bool" where
  "rule_restricts r \<longleftrightarrow> rule_From r \<noteq> [] \<and> list_all peer_restricts (rule_From r)"

lemma match_labels_nonempty [simp]: "selector_nonempty (match_labels m) \<longleftrightarrow> m \<noteq> Map.empty"
  by (simp add: selector_nonempty_def match_labels_def)

lemma override_rules_restrict:
  "validateIngressOverride V c (networkPolicyNamedIngressOverride_NetworkPolicyIngressOverride ov) = None \<Longrightarrow>
   list_all rule_restricts (ingressOverrideRules ov)"
  by (auto simp: ingressOverrideRules_def validateIngressOverride_def Let_def list_all_iff rule_restricts_def
      peer_restricts_def zero_netpol_peer_def first_error_None selector_nonempty_def match_labels_def
      split: if_splits option.splits)

lemma metrics_rules_restrict: "list_all rule_restricts (metrics_rules i port)"
  by (auto simp: metrics_rules_def list_all_iff rule_restricts_def peer_restricts_def match_labels_nonempty)

lemma zero_override_rules [simp]: "ingressOverrideRules zero_NetworkPolicyNamedIngressOverride = []"
  by (simp add: ingressOverrideRules_def zero_NetworkPolicyNamedIngressOverride_def
      zero_NetworkPolicyIngressOverride_def Let_def)

lemma validated_overrides:
  assumes "ValidateNetworkPoliciesSpec V spec = None"
    and "map_of (networkPolicyIngressOverrides spec) c = Some ov"
  shows "list_all rule_restricts (ingressOverrideRules ov)"
proof -
  from assms(1) have
    "validateIngressOverride V ''gateway'' (networkPolicyNamedIngressOverride_NetworkPolicyIngressOverride (networkPolicies_Gateway spec)) = None"
    "validateIngressOverride V ''apifrontend'' (networkPolicyNamedIngressOverride_NetworkPolicyIngressOverride (networkPolicies_APIFrontend spec)) = None"
    "validateIngressOverride V ''console'' (networkPolicyNamedIngressOverride_NetworkPolicyIngressOverride (networkPolicies_Console spec)) = None"
    "validateIngressOverride V ''datastorage'' (networkPolicies_DataStorage spec) = None"
    "validateIngressOverride V ''kubernautAgent'' (networkPolicies_KubernautAgent spec) = None"
    by (auto simp: ValidateNetworkPoliciesSpec_def first_error_None validateNamedOverride_def Let_def split: option.splits)
  moreover have "(c, ov) \<in> set (networkPolicyIngressOverrides spec)" using assms(2) by (rule map_of_SomeD)
  ultimately have "\<exists>n. validateIngressOverride V n (networkPolicyNamedIngressOverride_NetworkPolicyIngressOverride ov) = None"
    by (auto simp: networkPolicyIngressOverrides_def)
  then show ?thesis using override_rules_restrict by blast
qed

lemma renderPolicy_body:
  "\<exists>s. obj_Body (renderPolicy i c) = NetworkPolicyBody s \<and> netpol_Egress s = [] \<and> netpol_PolicyTypes s = [''Ingress''] \<and>
     netpol_PodSelector s = match_labels (managedPodLabels (intent_InstanceName i) c) \<and>
     netpol_Ingress s = [\<lparr>rule_From = [zero_netpol_peer\<lparr>peer_PodSelector := Some (match_labels (managedInstanceLabels (intent_InstanceName i)))\<rparr>],
                               rule_Ports = []\<rparr>]
        @ (case map_of (intent_MetricsPorts i) c of None \<Rightarrow> [] | Some p \<Rightarrow> if p \<noteq> 0 then metrics_rules i p else [])
        @ (case map_of (intent_IngressOverrides i) c of None \<Rightarrow> [] | Some ov \<Rightarrow> ingressOverrideRules ov)"
  by (simp add: renderPolicy_def Let_def split: option.splits)

lemma renderPolicy_sels [simp]:
  "obj_Kind (renderPolicy i c) = ''NetworkPolicy''" "obj_Name (renderPolicy i c) = ''kubernaut-'' @ c"
  "obj_Namespace (renderPolicy i c) = intent_Namespace i" "obj_Owners (renderPolicy i c) = []"
  "meta_DeletionTimestamp (obj_Meta (renderPolicy i c)) = None"
  "obj_Labels (renderPolicy i c) = policy_labels (intent_Namespace i) (intent_InstanceName i) c"
  by (simp_all add: renderPolicy_def Let_def zero_object_meta_def)

definition rendered_components :: "Intent \<Rightarrow> string list" where
  "rendered_components i = filter (\<lambda>c. \<not> (c = authWebhookComponent \<or> c = consoleComponent)) (intent_Components i)"

definition effective_intent :: "Intent \<Rightarrow> Intent" where
  "effective_intent i =
     (if intent_InstanceName i = [] then i\<lparr>intent_InstanceName := intent_Namespace i\<rparr> else i)"

lemma effective_intent_sels [simp]:
  "intent_Namespace (effective_intent i) = intent_Namespace i"
  "intent_Components (effective_intent i) = intent_Components i"
  "intent_ScrapeSources (effective_intent i) = intent_ScrapeSources i"
  "intent_MetricsPorts (effective_intent i) = intent_MetricsPorts i"
  "intent_IngressOverrides (effective_intent i) = intent_IngressOverrides i"
  by (simp_all add: effective_intent_def)

lemma Render_Inr:
  "Render V i = Inr ps \<Longrightarrow> intent_Namespace i \<noteq> [] \<and>
     ps = map (renderPolicy (effective_intent i)) (rendered_components i) \<and>
     validateScrapeSources V (intent_ScrapeSources i) = None \<and>
     (\<forall>(c, p) \<in> set (intent_MetricsPorts i). 1 \<le> p \<and> p \<le> 65535)"
  by (auto simp: Render_def Let_def rendered_components_def effective_intent_def list_ex_iff split: if_splits option.splits)

text \<open>Rendering stays within ingress and within the instance's own namespace: one policy per
  component but the admission webhook and the console, in the order of the components, each in the
  intent's namespace, of type ingress only, with no egress rule, selecting the pods of that component of
  that instance.\<close>

lemma Render_ingress_only:
  assumes "Render V i = Inr ps"
  shows "map obj_Name ps = map (\<lambda>c. ''kubernaut-'' @ c) (rendered_components i) \<and>
    (\<forall>x \<in> set ps. obj_Namespace x = intent_Namespace i \<and>
      (\<exists>s c. obj_Body x = NetworkPolicyBody s \<and> c \<in> set (intent_Components i) - {authWebhookComponent, consoleComponent} \<and>
         netpol_PolicyTypes s = [''Ingress''] \<and> netpol_Egress s = [] \<and>
         selector_MatchLabels (netpol_PodSelector s) ''app'' = Some c \<and>
         selector_MatchLabels (netpol_PodSelector s) LabelManagedBy = Some operatorManagedBy))"
proof -
  let ?j = "effective_intent i"
  have "\<exists>s. obj_Body (renderPolicy ?j c) = NetworkPolicyBody s \<and> netpol_PolicyTypes s = [''Ingress''] \<and> netpol_Egress s = [] \<and>
      selector_MatchLabels (netpol_PodSelector s) ''app'' = Some c \<and>
      selector_MatchLabels (netpol_PodSelector s) LabelManagedBy = Some operatorManagedBy" for c
    using renderPolicy_body [of ?j c]
    by (auto simp: match_labels_def managedPodLabels_def managedInstanceLabels_def label_names)
  then show ?thesis using Render_Inr [OF assms] by (fastforce simp: rendered_components_def)
qed

lemma rendered_rules_restrict:
  assumes "ValidateNetworkPoliciesSpec V spec = None" and "intent_IngressOverrides i = networkPolicyIngressOverrides spec"
    and "obj_Body (renderPolicy i c) = NetworkPolicyBody s" and "r \<in> set (netpol_Ingress s)"
  shows "rule_restricts r"
proof -
  have own: "rule_restricts \<lparr>rule_From = [zero_netpol_peer\<lparr>peer_PodSelector := Some (match_labels (managedInstanceLabels n))\<rparr>], rule_Ports = []\<rparr>" for n
    by (simp add: rule_restricts_def peer_restricts_def managedInstanceLabels_def)
  have ov: "map_of (networkPolicyIngressOverrides spec) c = Some v \<Longrightarrow> list_all rule_restricts (ingressOverrideRules v)" for v
    using validated_overrides [OF assms(1)] by blast
  show ?thesis
    using renderPolicy_body [of i c] assms(2-4) own metrics_rules_restrict [of i] ov
    by (auto simp: list_all_iff split: option.splits if_splits)
qed

text \<open>C12: No rendered policy opens a component to everyone: with a validated specification, every
  ingress rule of every rendered policy names at least one peer, and each peer is confined by
  a non-empty pod selector, a non-empty namespace selector or a well-formed address block.\<close>

theorem rendered_ingress_is_restricted:
  assumes "ValidateNetworkPoliciesSpec V (spec_NetworkPolicies (kn_Spec kn)) = None"
    and "Render V (policy_intent kn i) = Inr ps" and "x \<in> set ps"
    and "obj_Body x = NetworkPolicyBody s" and "r \<in> set (netpol_Ingress s)"
  shows "rule_restricts r"
proof -
  let ?j = "effective_intent (policy_intent kn i)"
  obtain c where "x = renderPolicy ?j c" using Render_Inr [OF assms(2)] assms(3) by auto
  moreover have "intent_IngressOverrides ?j = networkPolicyIngressOverrides (spec_NetworkPolicies (kn_Spec kn))"
    by (simp add: policy_intent_def)
  ultimately show ?thesis using rendered_rules_restrict [OF assms(1)] assms(4,5) by blast
qed

subsection \<open>A validated specification renders\<close>

lemma ActiveComponents_named: "'''' \<notin> set (ActiveComponents kn kn)" "ComponentDataStorage \<in> set (ActiveComponents kn kn)"
  by (simp add: ActiveComponents_iff AllComponents_def component_names)
    (simp add: ActiveComponents_iff AllComponents_def isComponentActive_switch)

lemma validated_renders:
  assumes "ValidateNetworkPoliciesSpec V (spec_NetworkPolicies (kn_Spec kn)) = None" and "kn_Namespace kn \<noteq> ''''"
    and "1 \<le> api_frontend_metrics_port kn" and "api_frontend_metrics_port kn \<le> 65535"
  shows "\<exists>i. BuildIntent (kn_Namespace kn) (ActiveComponents kn kn) = Inr i \<and>
    Render V (policy_intent kn i) =
      Inr (map (renderPolicy (effective_intent (policy_intent kn i))) (rendered_components (policy_intent kn i)))"
proof -
  have "filter (\<lambda>c. c \<noteq> '''') (ActiveComponents kn kn) \<noteq> []"
    unfolding filter_empty_conv by (metis ActiveComponents_named)
  then have "BuildIntent (kn_Namespace kn) (ActiveComponents kn kn) \<noteq> Inl e" for e
    using assms(2) by (auto simp: BuildIntent_def Let_def)
  then obtain i where i: "BuildIntent (kn_Namespace kn) (ActiveComponents kn kn) = Inr i"
    by (metis sum.exhaust)
  have "validateScrapeSources V (networkPolicies_ScrapeSources (spec_NetworkPolicies (kn_Spec kn))) = None"
    using assms(1) by (auto simp: ValidateNetworkPoliciesSpec_def split: option.splits)
  moreover have "\<not> list_ex (\<lambda>(component, port). port < 1 \<or> port > 65535) (generatedMetricsPorts kn kn)"
    using generatedMetricsPorts_range [OF assms(3,4)] by (fastforce simp: list_ex_iff)
  ultimately show ?thesis
    using i BuildIntent_Inr [OF i]
    by (auto simp: Render_def policy_intent_def effective_intent_def rendered_components_def Let_def)
qed

text \<open>C19: A validated specification always renders: for a resource in a named namespace whose API
  frontend metrics port is a port, the intent can be built and rendered, and the policies are those of
  the active components but the admission webhook, one each, in sorted order.\<close>

theorem validated_spec_renders:
  assumes "ValidateNetworkPoliciesSpec V (spec_NetworkPolicies (kn_Spec kn)) = None" and "kn_Namespace kn \<noteq> ''''"
    and "1 \<le> api_frontend_metrics_port kn" and "api_frontend_metrics_port kn \<le> 65535"
  shows "\<exists>i ps cs. BuildIntent (kn_Namespace kn) (ActiveComponents kn kn) = Inr i \<and>
    Render V (policy_intent kn i) = Inr ps \<and> map obj_Name ps = map (\<lambda>c. ''kubernaut-'' @ c) cs \<and>
    sorted cs \<and> distinct cs \<and> set cs = set (ActiveComponents kn kn) - {ComponentAuthWebhook}"
proof -
  obtain i where i: "BuildIntent (kn_Namespace kn) (ActiveComponents kn kn) = Inr i"
    and r: "Render V (policy_intent kn i) =
      Inr (map (renderPolicy (effective_intent (policy_intent kn i))) (rendered_components (policy_intent kn i)))"
    using validated_renders [OF assms] by blast
  let ?cs = "rendered_components (policy_intent kn i)"
  have comps: "intent_Components (policy_intent kn i) = intent_Components i" by (simp add: policy_intent_def)
  have "consoleComponent \<notin> set (ActiveComponents kn kn)"
    by (simp add: ActiveComponents_iff AllComponents_def component_names consoleComponent_def)
  then have "set ?cs = set (ActiveComponents kn kn) - {ComponentAuthWebhook}"
    using BuildIntent_Inr [OF i] ActiveComponents_named(1) [of kn]
    by (auto simp: rendered_components_def comps authWebhookComponent_def ComponentAuthWebhook_def)
  moreover have "sorted ?cs" "distinct ?cs"
    using BuildIntent_Inr [OF i] by (simp_all add: rendered_components_def comps sorted_wrt_filter)
  ultimately show ?thesis using i r by (intro exI conjI) (assumption | simp add: comp_def)+
qed

definition sample_validation :: validation where
  "sample_validation = \<lparr>v_IsDNS1123Label = (\<lambda>s. s \<noteq> ''''), v_IsQualifiedName = (\<lambda>s. s \<noteq> ''''),
     v_IsValidLabelValue = (\<lambda>s. True), v_LabelSelectorAsSelector = (\<lambda>s. None)\<rparr>"

lemma sample_validates: "ValidateNetworkPoliciesSpec sample_validation (spec_NetworkPolicies (kn_Spec sample_kn)) = None"
  by (simp add: ValidateNetworkPoliciesSpec_def validateScrapeSources_def validateNamedOverride_def validateIngressOverride_def
      zero_Kubernaut_def zero_KubernautSpec_def zero_NetworkPoliciesSpec_def zero_NetworkPolicyNamedIngressOverride_def
      zero_NetworkPolicyIngressOverride_def Let_def)

lemma sample_metrics_port: "api_frontend_metrics_port sample_kn = 9090"
  by (simp add: api_frontend_metrics_port_def zero_Kubernaut_def zero_KubernautSpec_def zero_APIFrontendSpec_def PortMetrics_def)

theorem validated_spec_renders_witness:
  "\<exists>i ps cs. BuildIntent ''kubernaut-system'' (ActiveComponents sample_kn sample_kn) = Inr i \<and>
    Render sample_validation (policy_intent sample_kn i) = Inr ps \<and> map obj_Name ps = map (\<lambda>c. ''kubernaut-'' @ c) cs \<and>
    sorted cs \<and> distinct cs \<and> set cs = set (ActiveComponents sample_kn sample_kn) - {ComponentAuthWebhook}"
  using validated_spec_renders [OF sample_validates] by (simp add: sample_metrics_port)

definition sample_intent :: Intent where
  "sample_intent = \<lparr>intent_Namespace = ''kubernaut-system'', intent_InstanceName = ''kubernaut'',
     intent_Components = [''authwebhook'', ''gateway''], intent_ScrapeSources = [],
     intent_MetricsPorts = [(''gateway'', 9090)], intent_IngressOverrides = []\<rparr>"

lemma Render_ingress_only_example:
  "map obj_Name (map (renderPolicy sample_intent) [''gateway'']) = [''kubernaut-gateway'']"
  using Render_ingress_only [of sample_validation sample_intent "map (renderPolicy sample_intent) [''gateway'']"]
  by (simp add: Render_def validateScrapeSources_def sample_intent_def rendered_components_def
      authWebhookComponent_def consoleComponent_def)

lemma gateway_rendered: "''gateway'' \<in> set (rendered_components (policy_intent sample_kn sample_intent))"
  by (simp add: rendered_components_def policy_intent_def sample_intent_def authWebhookComponent_def consoleComponent_def)

lemma sample_renders:
  "Render sample_validation (policy_intent sample_kn sample_intent) =
     Inr (map (renderPolicy (policy_intent sample_kn sample_intent)) (rendered_components (policy_intent sample_kn sample_intent)))"
proof -
  have "\<not> list_ex (\<lambda>(component, port). port < 1 \<or> port > 65535) (generatedMetricsPorts sample_kn sample_kn)"
    using generatedMetricsPorts_range [of sample_kn] by (fastforce simp: list_ex_iff sample_metrics_port)
  then show ?thesis
    by (simp add: Render_def policy_intent_def sample_intent_def rendered_components_def validateScrapeSources_def
        zero_Kubernaut_def zero_KubernautSpec_def zero_NetworkPoliciesSpec_def Let_def)
qed

theorem rendered_ingress_is_restricted_witness:
  "\<exists>s. obj_Body (renderPolicy (policy_intent sample_kn sample_intent) ''gateway'') = NetworkPolicyBody s \<and>
     netpol_Ingress s \<noteq> [] \<and> rule_restricts (hd (netpol_Ingress s))"
proof -
  let ?x = "renderPolicy (policy_intent sample_kn sample_intent) ''gateway''"
  obtain s where s: "obj_Body ?x = NetworkPolicyBody s" "netpol_Ingress s \<noteq> []"
    using renderPolicy_body [of "policy_intent sample_kn sample_intent" "''gateway''"] by auto
  then show ?thesis
    using rendered_ingress_is_restricted [OF sample_validates sample_renders, of ?x s "hd (netpol_Ingress s)"] gateway_rendered
    by auto
qed

subsection \<open>Safety of the writes\<close>

text \<open>What the reconciler may touch among network policies: those in the scope of the instance.\<close>

definition policy_ok :: "string \<times> string \<times> string \<Rightarrow> kobj \<Rightarrow> bool" where
  "policy_ok me x \<longleftrightarrow> (\<exists>namespace. policy_scope namespace (fst (snd me)) x)"

lemma safe_updateNetworkPolicy:
  assumes "\<And>y. policy_ok me y \<Longrightarrow> ok y" and "obj_Kind desired = ''NetworkPolicy''" and "obj_key desired = k"
    and "mget (obj_Labels desired) LabelManagedBy = operatorManagedBy"
    and "mget (obj_Labels desired) LabelInstance = fst (snd me)"
  shows "triple (\<lambda>w. safe ok me w \<and> seen ''NetworkPolicy'' k existing w) (updateNetworkPolicy E existing desired h) (\<lambda>_. safe ok me)"
  unfolding updateNetworkPolicy_def
proof (rule triple_case_option)
  assume "networkPolicyOwnershipError existing desired = None"
  then have "ok existing"
    using assms(1,4,5) by (auto simp: networkPolicyOwnershipError_None OwnershipError_scope policy_ok_def)
  then have upd: "triple (\<lambda>w. safe ok me w \<and> seen ''NetworkPolicy'' k existing w)
      (Update E (set_rv (obj_RV existing) desired)) (\<lambda>_. safe ok me)"
    by (intro triple_conseq [OF safe_Update [where y = existing]]) (auto intro!: addressesI simp: assms)
  show "triple (\<lambda>w. safe ok me w \<and> seen ''NetworkPolicy'' k existing w)
     (if mget (obj_Annotations existing) AnnotationSpecHash = h \<and> obj_Owners existing = obj_Owners desired \<and>
         obj_Body existing = obj_Body desired \<and> obj_Labels existing = obj_Labels desired
      then State_Monad.return None
      else do {
        u \<leftarrow> Update E (set_rv (obj_RV existing) desired);
        State_Monad.return (case u of Inl e \<Rightarrow> Some (API e) | Inr _ \<Rightarrow> None) }) (\<lambda>_. safe ok me)"
    by (intro triple_if triple_return triple_bind [OF upd]) simp_all
qed (auto intro!: triple_return)

lemma safe_ensureNetworkPolicy:
  assumes "\<And>y. policy_ok me y \<Longrightarrow> ok y" and "obj_Kind d = ''NetworkPolicy''"
    and "mget (obj_Labels d) LabelManagedBy = operatorManagedBy" and "mget (obj_Labels d) LabelInstance = fst (snd me)"
  shows "keeps (safe ok me) (ensureNetworkPolicy E d)"
proof -
  have upd: "triple (\<lambda>w. safe ok me w \<and> seen ''NetworkPolicy'' (obj_key d) y w)
      (updateNetworkPolicy E y (setHashAnnotation h d) h) (\<lambda>_. safe ok me)" for y h
    by (rule safe_updateNetworkPolicy [OF assms(1)]) (simp_all add: assms(2-4))
  show ?thesis
    unfolding keeps_def ensureNetworkPolicy_def Let_def
    by (rule triple_bind_sum [OF safe_Get];
        (intro triple_case_sum triple_if triple_return triple_bind_from [OF safe_Create [unfolded keeps_def]]
          triple_bind_sum [OF safe_OwnershipGet])?)
      (auto intro!: triple_strengthen [OF upd])
qed

definition own_policy :: "string \<times> string \<times> string \<Rightarrow> kobj \<Rightarrow> bool" where
  "own_policy me x \<longleftrightarrow> obj_Kind x = ''NetworkPolicy'' \<and> mget (obj_Labels x) LabelManagedBy = operatorManagedBy \<and>
     mget (obj_Labels x) LabelInstance = fst (snd me)"

lemma safe_ensureRenderedNetworkPolicies:
  assumes "\<And>y. policy_ok me y \<Longrightarrow> ok y" and "sets_only_owners E" and "\<forall>x \<in> set xs. own_policy me x"
  shows "keeps (safe ok me) (ensureRenderedNetworkPolicies E xs)"
  using assms(3)
proof (induction xs)
  case (Cons x xs)
  have "keeps (safe ok me) (ensureNetworkPolicy E y)" if "e_setControllerReference E kn x = Inr y" for kn y
    using sets_only_ownersD [OF assms(2) that] Cons.prems
    by (intro safe_ensureNetworkPolicy [OF assms(1)]) (auto simp: own_policy_def)
  then show ?case using Cons by (auto intro!: triple_rules)
qed (simp add: triple_rules)

lemma expected_policy_labels [simp]:
  "mget (obj_Labels (expected_policy n ns i)) LabelManagedBy = operatorManagedBy"
  "mget (obj_Labels (expected_policy n ns i)) PolicyNamespaceLabel = ns"
  "mget (obj_Labels (expected_policy n ns i)) LabelInstance = i"
  by (simp_all add: expected_policy_def label_names PolicyNamespaceLabel_def ManagedPolicyLabel_def)

lemma safe_deleteObservedNetworkPolicy:
  assumes "\<And>y. policy_ok me y \<Longrightarrow> ok y" and "instance = fst (snd me)"
  shows "triple (\<lambda>w. safe ok me w \<and> seen kind k x w) (deleteObservedNetworkPolicy E x instance) (\<lambda>_. safe ok me)"
proof -
  have del: "triple (\<lambda>w. safe ok me w \<and> seen kind k x w) (deleteObservedResource E x) (\<lambda>_. safe ok me)"
    if "OwnershipError x (expected_policy (obj_Name x) (obj_Namespace x) instance) = None"
  proof -
    have "ok x" using that assms by (auto simp: OwnershipError_scope policy_ok_def)
    then show ?thesis by (intro triple_conseq [OF safe_delete]) auto
  qed
  show ?thesis
    unfolding deleteObservedNetworkPolicy_def Let_def
    by (intro triple_if triple_case_option triple_return triple_bind [OF del]) auto
qed

lemma emits_deleteObservedNetworkPolicy [emits_rules]:
  "P (DeleteCall x) \<Longrightarrow> emits P (deleteObservedNetworkPolicy E x instance)"
  unfolding deleteObservedNetworkPolicy_def Let_def by (intro emits_rules)

lemma keeps_deleteObservedNetworkPolicy:
  assumes "\<And>y. policy_ok me y \<Longrightarrow> ok y" and "instance = fst (snd me)" and "x \<in> set xs"
  shows "keeps (\<lambda>w. safe ok me w \<and> all_seen kind xs w) (deleteObservedNetworkPolicy E x instance)"
  by (rule keeps_all_seen,
      rule triple_strengthen [OF safe_deleteObservedNetworkPolicy [OF assms(1,2), where kind = kind and k = "obj_key x"]])
    (use assms(3) in \<open>auto simp: all_seen_def intro!: emits_rules\<close>)

lemma triple_of_keeps: "keeps (\<lambda>w. I w \<and> J w) m \<Longrightarrow> triple (\<lambda>w. I w \<and> J w) m (\<lambda>_. I)"
  unfolding keeps_def triple_def by blast

lemma safe_pruneNetworkPolicies [triple_rules]:
  assumes "\<And>y. policy_ok me y \<Longrightarrow> ok y" and "instance = fst (snd me)"
  shows "keeps (safe ok me) (pruneNetworkPolicies E namespace instance desired)"
    "keeps (safe ok me) (deleteNetworkPolicies E namespace instance)"
  unfolding pruneNetworkPolicies_def deleteNetworkPolicies_def
  by (rule safe_list_then; (rule triple_of_keeps)?;
      intro triple_rules keeps_deleteObservedNetworkPolicy [OF assms]; assumption?)+

lemma safe_patchNetworkPolicyStatus [triple_rules]:
  "identity_stable E \<Longrightarrow> keeps (safe ok me) (patchNetworkPolicyStatus E ready err)"
  unfolding patchNetworkPolicyStatus_def by (intro triple_rules)

lemma policy_labels_sels [simp]:
  "mget (policy_labels ns i c) LabelManagedBy = operatorManagedBy"
  "mget (policy_labels ns i c) PolicyNamespaceLabel = ns"
  "mget (policy_labels ns i c) LabelInstance = i"
  "mget (policy_labels ns i c) ManagedPolicyLabel = ''true''"
  by (simp_all add: policy_labels_def label_names PolicyNamespaceLabel_def ManagedPolicyLabel_def)

lemma rendered_own_policy:
  assumes "Render V (policy_intent kn i) = Inr ps" and "ident kn = me" and "fst (snd me) \<noteq> ''''" and "x \<in> set ps"
  shows "own_policy me x"
proof -
  obtain c where "x = renderPolicy (effective_intent (policy_intent kn i)) c"
    using Render_Inr [OF assms(1)] assms(4) by auto
  then show ?thesis
    using assms(2,3) by (auto simp: own_policy_def effective_intent_def policy_intent_def ident_def)
qed

lemma safe_reconcileNetworkPolicies:
  assumes "identity_stable E" and "sets_only_owners E" and "\<And>y. policy_ok me y \<Longrightarrow> ok y" and "fst (snd me) \<noteq> ''''"
  shows "keeps (safe ok me) (reconcileNetworkPolicies E V knV2)"
proof -
  have rendered: "keeps (safe ok me) (ensureRenderedNetworkPolicies E ps)"
    if "Render V (policy_intent kn i) = Inr ps" and "ident kn = me" for kn i ps
    by (rule safe_ensureRenderedNetworkPolicies [OF assms(3,2)]) (use rendered_own_policy [OF that assms(4)] in auto)
  have prune: "keeps (safe ok me) (pruneNetworkPolicies E ns (kn_Name kn) ks)" if "ident kn = me" for kn ns ks
    by (rule safe_pruneNetworkPolicies [OF assms(3)]) (use that in \<open>auto simp: ident_def\<close>)
  show ?thesis
    unfolding reconcileNetworkPolicies_def
    by (rule safe_with_kn, intro keeps_case_option keeps_case_sum keeps_bind safe_patchNetworkPolicyStatus [OF assms(1)])
      (assumption | rule rendered prune)+
qed

text \<open>Administrators' policies are left alone: whatever the server answers, a reconciliation of the
  network policies updates or deletes only objects it read during the run, pinned to the version
  read, that carry the managed-policy label and the labels of this instance, are not being
  deleted, and have no owner but a Kubernaut of that name.\<close>

lemma reconcileNetworkPolicies_safe:
  assumes "identity_stable E" and "sets_only_owners E" and "kn_Name (w_kn w) \<noteq> ''''" and "w_trace w = []"
  shows "guarded (policy_ok (ident (w_kn w))) (w_trace (snd (run_state (reconcileNetworkPolicies E V knV2) w)))"
proof -
  have "safe (policy_ok (ident (w_kn w))) (ident (w_kn w)) w" by (simp add: safe_def assms(4))
  then have "safe (policy_ok (ident (w_kn w))) (ident (w_kn w)) (snd (run_state (reconcileNetworkPolicies E V knV2) w))"
    using assms(3) by (intro keepsD [OF safe_reconcileNetworkPolicies [OF assms(1,2)]]) (auto simp: ident_def)
  then show ?thesis by (simp add: safe_def)
qed

lemma reconcileNetworkPolicies_safe_example:
  "guarded (policy_ok (ident sample_kn))
     (w_trace (snd (run_state (reconcileNetworkPolicies sample_env sample_validation sample_kn) (sample_world []))))"
  using reconcileNetworkPolicies_safe [OF sample_identity_stable sample_sets_only_owners, of "sample_world []"] by simp

text \<open>The operator can update again what it rendered: a rendered policy with no owner, or with the
  instance's own controller reference, passes the gate against the policy rendered anew,
  and is refused to every instance of another name or namespace.\<close>

lemma rendered_policy_gate:
  assumes "obj_Owners y = [] \<or> (\<exists>ref. obj_Owners y = [ref] \<and> owner_APIVersion ref = ''kubernaut.ai/v1alpha2'' \<and>
      owner_Kind ref = ''Kubernaut'' \<and> owner_Name ref = intent_InstanceName i \<and> owner_Controller ref = Some True)"
    and "y = set_owners refs (renderPolicy i c)"
  shows "networkPolicyOwnershipError y (renderPolicy j d) = None \<longleftrightarrow>
    intent_InstanceName j = intent_InstanceName i \<and> intent_Namespace j = intent_Namespace i"
  using assms
  by (auto simp: networkPolicyOwnershipError_None OwnershipError_scope policy_scope_def)

lemma rendered_policy_gate_example:
  "networkPolicyOwnershipError (set_owners [sample_controller_ref sample_kn] (renderPolicy sample_intent ''gateway''))
     (renderPolicy sample_intent ''gateway'') = None"
  using rendered_policy_gate [of "set_owners [sample_controller_ref sample_kn] (renderPolicy sample_intent ''gateway'')"
      sample_intent _ "''gateway''" sample_intent "''gateway''"]
  by (simp add: sample_controller_ref_def sample_intent_def)

end
