(* ===== verification/Workflow_Namespace.thy ===== *)
theory Workflow_Namespace
  imports Network_Policies Ensure_Behaviour
begin

text \<open>
  The namespace in which workflows run and what the operator keeps in it: its creation or read-only reuse
  (\<^verbatim>\<open>deployWorkflowNamespace\<close> of \<^verbatim>\<open>internal/controller/kubernaut_controller.go\<close>,
  \<^verbatim>\<open>administratorWorkflowNamespaceReady\<close> of \<^verbatim>\<open>internal/controller/ownership.go\<close>, \<^verbatim>\<open>WorkflowNamespace\<close> and the
  pod-security labels of \<^verbatim>\<open>internal/resources/ocp.go\<close>), its roles (\<^verbatim>\<open>WorkflowNamespaceRBAC\<close> of
  \<^verbatim>\<open>internal/resources/rbac.go\<close>), and the service accounts of
  \<^verbatim>\<open>internal/resources/serviceaccounts.go\<close>.
\<close>

subsection \<open>Service accounts\<close>

definition serviceAccountNames :: smap where
  "serviceAccountNames = [ComponentGateway \<mapsto> ''gateway'', ComponentDataStorage \<mapsto> ''data-storage-sa'',
     ComponentAIAnalysis \<mapsto> ''aianalysis-controller'', ComponentSignalProcessing \<mapsto> ''signalprocessing-controller'',
     ComponentRemediationOrchestrator \<mapsto> ''remediationorchestrator-controller'',
     ComponentWorkflowExecution \<mapsto> ''workflowexecution-controller'',
     ComponentEffectivenessMonitor \<mapsto> ''effectivenessmonitor-controller'',
     ComponentNotification \<mapsto> ''notification-controller'', ComponentKubernautAgent \<mapsto> ''kubernaut-agent-sa'',
     ComponentAuthWebhook \<mapsto> ''authwebhook'', ComponentFleetMetadataCache \<mapsto> ''fleetmetadatacache'']"

definition ServiceAccountName :: "string \<Rightarrow> string" where
  "ServiceAccountName component = (case serviceAccountNames component of Some name \<Rightarrow> name | None \<Rightarrow> component)"

definition ServiceAccount :: "Kubernaut \<Rightarrow> string \<Rightarrow> kobj" where
  "ServiceAccount kn component = \<lparr>obj_Kind = ''ServiceAccount'',
     obj_Meta = ObjectMeta kn (ServiceAccountName component) component,
     obj_Body = ServiceAccountBody (if component = ComponentKubernautAgent then Some False else None)\<rparr>"

definition WorkflowRunnerServiceAccount :: "Kubernaut \<Rightarrow> kobj" where
  "WorkflowRunnerServiceAccount kn = \<lparr>obj_Kind = ''ServiceAccount'',
     obj_Meta = (ObjectMeta kn ''kubernaut-workflow-runner'' ComponentWorkflowExecution)
       \<lparr>meta_Namespace := ResolveWorkflowNamespace kn\<rparr>,
     obj_Body = ServiceAccountBody None\<rparr>"

definition deployServiceAccounts :: "'s env \<Rightarrow> ('s, go_error option) prog" where
  "deployServiceAccounts E = do {
     kn \<leftarrow> the_kn;
     err \<leftarrow> for_each (\<lambda>component. do {
         r \<leftarrow> ensureNamespaced E (ServiceAccount kn component);
         State_Monad.return (map_option (Wrap (''ensuring SA '' @ component)) r) }) AllComponents;
     (case err of
        Some e \<Rightarrow> State_Monad.return (Some e)
      | None \<Rightarrow> do {
          r \<leftarrow> ensureUnowned E (WorkflowRunnerServiceAccount kn);
          State_Monad.return (map_option (Wrap ''ensuring workflow runner SA'') r) }) }"

subsection \<open>Roles of the workflow namespace\<close>

definition zero_policy_rule :: policy_rule where
  "zero_policy_rule = \<lparr>rbac_APIGroups = [], rbac_Resources = [], rbac_ResourceNames = [], rbac_Verbs = []\<rparr>"

definition rule_on :: "string list \<Rightarrow> string list \<Rightarrow> string list \<Rightarrow> policy_rule" where
  "rule_on groups resources verbs = zero_policy_rule\<lparr>rbac_APIGroups := groups, rbac_Resources := resources, rbac_Verbs := verbs\<rparr>"

definition workflow_role :: "Kubernaut \<Rightarrow> string \<Rightarrow> policy_rule list \<Rightarrow> kobj" where
  "workflow_role kn name rules = \<lparr>obj_Kind = ''Role'',
     obj_Meta = zero_object_meta\<lparr>meta_Name := name, meta_Namespace := ResolveWorkflowNamespace kn, meta_Labels := CommonLabels kn\<rparr>,
     obj_Body = RoleBody rules\<rparr>"

definition workflow_binding :: "Kubernaut \<Rightarrow> string \<Rightarrow> string \<Rightarrow> string \<Rightarrow> string \<Rightarrow> kobj" where
  "workflow_binding kn name role account namespace = \<lparr>obj_Kind = ''RoleBinding'',
     obj_Meta = zero_object_meta\<lparr>meta_Name := name, meta_Namespace := ResolveWorkflowNamespace kn, meta_Labels := CommonLabels kn\<rparr>,
     obj_Body = BindingBody \<lparr>roleRef_APIGroup = ''rbac.authorization.k8s.io'', roleRef_Kind = ''Role'', roleRef_Name = role\<rparr>
       [\<lparr>subject_Kind = ''ServiceAccount'', subject_APIGroup = '''', subject_Name = account, subject_Namespace = namespace\<rparr>]\<rparr>"

definition workflow_roles :: "Kubernaut \<Rightarrow> kobj list" where
  "workflow_roles kn =
     [workflow_role kn ''datastorage-dep-reader'' [rule_on [''''] [''secrets'', ''configmaps''] [''get'']],
      workflow_role kn ''workflowexecution-dep-reader''
        [rule_on [''''] [''secrets'', ''configmaps''] [''get'', ''list'', ''watch'']],
      workflow_role kn ''workflow-runner-ns-writer''
        [rule_on [''''] [''secrets''] [''get'', ''list'', ''create'', ''delete'', ''patch'', ''update''],
         rule_on [''''] [''configmaps''] [''get'', ''list'', ''create'', ''update'', ''patch''],
         rule_on [''''] [''services''] [''get'', ''list'', ''create'', ''update'', ''patch''],
         rule_on [''''] [''persistentvolumeclaims''] [''get'', ''list'', ''create'', ''update'', ''patch'', ''delete''],
         rule_on [''batch''] [''jobs''] [''get'', ''list'', ''create'', ''delete'']]]"

definition workflow_bindings :: "Kubernaut \<Rightarrow> kobj list" where
  "workflow_bindings kn =
     [workflow_binding kn ''datastorage-dep-reader-binding'' ''datastorage-dep-reader''
        (ServiceAccountName ComponentDataStorage) (kn_Namespace kn),
      workflow_binding kn ''workflowexecution-dep-reader-binding'' ''workflowexecution-dep-reader''
        (ServiceAccountName ComponentWorkflowExecution) (kn_Namespace kn),
      workflow_binding kn ''workflow-runner-ns-writer-binding'' ''workflow-runner-ns-writer''
        ''kubernaut-workflow-runner'' (ResolveWorkflowNamespace kn)]"

definition WorkflowNamespaceRBAC :: "Kubernaut \<Rightarrow> kobj list \<times> kobj list" where
  "WorkflowNamespaceRBAC kn = (workflow_roles kn, workflow_bindings kn)"

subsection \<open>The namespace\<close>

definition AnnotationCreatedBy :: string where "AnnotationCreatedBy = ''kubernaut.ai/created-by''"

definition RestrictedPSALabels :: "string gomap" where
  "RestrictedPSALabels = [(''pod-security.kubernetes.io/enforce'', ''restricted''),
     (''pod-security.kubernetes.io/audit'', ''restricted''), (''pod-security.kubernetes.io/warn'', ''restricted'')]"

definition WorkflowNamespace :: "Kubernaut \<Rightarrow> kobj" where
  "WorkflowNamespace kn = \<lparr>obj_Kind = ''Namespace'',
     obj_Meta = zero_object_meta\<lparr>meta_Name := ResolveWorkflowNamespace kn,
       meta_Labels := CommonLabels kn ++ map_of RestrictedPSALabels,
       meta_Annotations := [AnnotationCreatedBy \<mapsto> ''kubernaut-operator'']\<rparr>, obj_Body = NoBody\<rparr>"

text \<open>The labels after the call, and whether it changed any.\<close>

definition EnsureRestrictedPSALabels :: "smap \<Rightarrow> smap \<times> bool" where
  "EnsureRestrictedPSALabels labels =
     (fold (\<lambda>(k, v) m. if mget m k \<noteq> v then m(k \<mapsto> v) else m) RestrictedPSALabels labels,
      list_ex (\<lambda>(k, v). mget labels k \<noteq> v) RestrictedPSALabels)"

definition administratorWorkflowNamespaceReady :: "kobj \<Rightarrow> bool" where
  "administratorWorkflowNamespaceReady namespace \<longleftrightarrow>
     \<not> (obj_terminating namespace \<or> obj_Owners namespace \<noteq> [] \<or>
        mget (obj_Labels namespace) LabelManagedBy = operatorManagedBy \<or>
        mget (obj_Annotations namespace) AnnotationOwnerNamespace \<noteq> '''' \<or>
        mget (obj_Annotations namespace) AnnotationOwnerUID \<noteq> '''') \<and>
     \<not> snd (EnsureRestrictedPSALabels (obj_Labels namespace))"

definition convergeWorkflowNamespace :: "'s env \<Rightarrow> kobj \<Rightarrow> kobj \<Rightarrow> ('s, go_error option) prog" where
  "convergeWorkflowNamespace E wfNs existing = do {
     kn \<leftarrow> the_kn;
     (if ResourceOwnershipError E kn existing False \<noteq> None
      then (if administratorWorkflowNamespaceReady existing then State_Monad.return None
            else checkResourceOwnership E existing False)
      else (case EnsureRestrictedPSALabels (obj_Labels existing) of (labels, changed) \<Rightarrow>
        let labelled = set_labels labels existing in
        if changed \<or> \<not> ownershipMetadataMatches wfNs labelled
        then do {
          u \<leftarrow> Update E (StampOwnership kn labelled);
          State_Monad.return (case u of
             Inl e \<Rightarrow> Some (Wrap ''patching restricted PSA labels on workflow namespace'' (API e))
           | Inr _ \<Rightarrow> None) }
        else State_Monad.return None)) }"

definition deployWorkflowNamespace :: "'s env \<Rightarrow> ('s, go_error option) prog" where
  "deployWorkflowNamespace E = do {
     kn \<leftarrow> the_kn;
     let wfNs = StampOwnership kn (WorkflowNamespace kn);
     r \<leftarrow> OwnershipGet E ''Namespace'' ('''', obj_Name wfNs);
     (case r of
        Inr existing \<Rightarrow> convergeWorkflowNamespace E wfNs existing
      | Inl e \<Rightarrow>
         (if \<not> IsNotFound e then State_Monad.return (Some (Wrap ''checking workflow namespace'' (API e)))
          else do {
            c \<leftarrow> Create E wfNs;
            (case c of
               Inr _ \<Rightarrow> State_Monad.return None
             | Inl e' \<Rightarrow>
                (if \<not> IsAlreadyExists e' then State_Monad.return (Some (Wrap ''creating workflow namespace'' (API e')))
                 else do {
                   g \<leftarrow> OwnershipGet E ''Namespace'' (obj_key wfNs);
                   (case g of
                      Inl e'' \<Rightarrow> State_Monad.return (Some (Wrap ''reading raced workflow namespace'' (API e'')))
                    | Inr existing \<Rightarrow> convergeWorkflowNamespace E wfNs existing) })) })) }"

subsection \<open>Restricted whenever it is used\<close>

definition restricted_labels :: "smap \<Rightarrow> bool" where
  "restricted_labels m \<longleftrightarrow> list_all (\<lambda>(k, v). mget m k = v) RestrictedPSALabels"

lemma ensured_restricted: "restricted_labels (fst (EnsureRestrictedPSALabels m))"
  by (simp add: restricted_labels_def EnsureRestrictedPSALabels_def RestrictedPSALabels_def)

lemma unchanged_restricted: "\<not> snd (EnsureRestrictedPSALabels m) \<longleftrightarrow> restricted_labels m"
  by (auto simp: restricted_labels_def EnsureRestrictedPSALabels_def list_ex_iff list_all_iff)

lemma ensured_unchanged: "restricted_labels m \<Longrightarrow> fst (EnsureRestrictedPSALabels m) = m"
  by (simp add: restricted_labels_def EnsureRestrictedPSALabels_def RestrictedPSALabels_def)

lemma stamped_restricted: "restricted_labels m \<Longrightarrow> restricted_labels (m ++ CommonLabels kn)"
  by (auto simp: restricted_labels_def RestrictedPSALabels_def CommonLabels_def label_names)

lemma WorkflowNamespace_restricted: "restricted_labels (obj_Labels (StampOwnership kn (WorkflowNamespace kn)))"
  by (simp, rule stamped_restricted) (simp add: WorkflowNamespace_def restricted_labels_def RestrictedPSALabels_def)

lemma WorkflowNamespace_sels [simp]:
  "obj_Kind (WorkflowNamespace kn) = ''Namespace''" "obj_Name (WorkflowNamespace kn) = ResolveWorkflowNamespace kn"
  "obj_key (WorkflowNamespace kn) = ('''', ResolveWorkflowNamespace kn)"
  by (simp_all add: WorkflowNamespace_def obj_key_def zero_object_meta_def)

lemma check_refuses:
  "ResourceOwnershipError E (w_kn w) x co \<noteq> None \<Longrightarrow> fst (run_state (checkResourceOwnership E x co) w) \<noteq> None"
  by (auto simp: checkResourceOwnership_def call_defs reportOwnershipConflict_def split: prod.splits)

lemma converge_restricted:
  assumes "run_state (convergeWorkflowNamespace E wfNs x) w = (None, w')"
  shows "\<exists>cs ns. w_trace w' = cs @ w_trace w \<and> restricted_labels (obj_Labels ns) \<and> (ns = x \<or> UpdateCall ns \<in> set cs)"
proof (cases "ResourceOwnershipError E (w_kn w) x False = None")
  case False
  then have "administratorWorkflowNamespaceReady x \<and> w' = w"
    using assms check_refuses [OF False] by (auto simp: convergeWorkflowNamespace_def the_kn_def split: if_splits)
  then show ?thesis
    by (intro exI [of _ "[]"] exI [of _ x]) (simp add: administratorWorkflowNamespaceReady_def unchanged_restricted)
next
  case True
  let ?l = "fst (EnsureRestrictedPSALabels (obj_Labels x))"
  let ?u = "StampOwnership (w_kn w) (set_labels ?l x)"
  have "restricted_labels (obj_Labels ?u)" by (simp add: ensured_restricted stamped_restricted)
  moreover have "w' = w \<and> restricted_labels (obj_Labels x) \<or> w_trace w' = [UpdateCall ?u] @ w_trace w"
    using assms True unchanged_restricted [of "obj_Labels x"]
    by (auto simp: convergeWorkflowNamespace_def call_defs Let_def split: prod.splits if_splits sum.splits)
  moreover have ?thesis if "w' = w" and "restricted_labels (obj_Labels x)"
    using that by (intro exI [of _ "[]"] exI [of _ x]) simp
  moreover have ?thesis if "w_trace w' = [UpdateCall ?u] @ w_trace w" and "restricted_labels (obj_Labels ?u)"
    using that by (intro exI [of _ "[UpdateCall ?u]"] exI [of _ ?u]) simp
  ultimately show ?thesis by blast
qed



subsection \<open>Administrators' namespaces are not adopted\<close>

lemma safe_convergeWorkflowNamespace:
  assumes "identity_stable E" and "\<And>y. mine E me y \<Longrightarrow> ok y"
  shows "triple (\<lambda>w. safe ok me w \<and> seen kind k x w) (convergeWorkflowNamespace E wfNs x) (\<lambda>_. safe ok me)"
proof -
  have upd: "triple (\<lambda>w. safe ok me w \<and> seen kind k x w \<and> ident kn = me) (Update E (StampOwnership kn (set_labels l x))) (\<lambda>_. safe ok me)"
    if "ResourceOwnershipError E kn x False = None" for kn l
    by (rule triple_conseq [OF safe_Update [where y = x and kind = kind and k = k]])
      (auto intro: assms(2) mineI [OF _ that] simp: addresses_def)
  have check: "triple (\<lambda>w. safe ok me w \<and> seen kind k x w \<and> ident kn = me) (checkResourceOwnership E x False) (\<lambda>_. safe ok me)" for kn
    by (rule triple_conseq [OF safe_checkResourceOwnership [OF assms(1), where kind = kind and k = k and me = me and ok = ok]]) simp_all
  show ?thesis
    unfolding convergeWorkflowNamespace_def Let_def
    by (rule triple_bind [OF seen_Get])
      (intro triple_if triple_return triple_case_prod check triple_bind [OF upd]; simp)
qed

lemma safe_deployWorkflowNamespace [triple_rules]:
  assumes "identity_stable E" and "\<And>y. mine E me y \<Longrightarrow> ok y"
  shows "keeps (safe ok me) (deployWorkflowNamespace E)"
  unfolding keeps_def deployWorkflowNamespace_def Let_def
  by (rule triple_bind [OF safe_the_kn [unfolded keeps_def]], rule triple_bind_sum [OF safe_OwnershipGet])
    (intro triple_if triple_return triple_bind_sum [OF safe_Create [unfolded keeps_def]]
        triple_bind_sum [OF safe_OwnershipGet] triple_strengthen [OF safe_convergeWorkflowNamespace [OF assms]]; auto)+

lemma safe_deployServiceAccounts [triple_rules]:
  assumes "identity_stable E" and "\<And>y. mine E me y \<Longrightarrow> ok y"
  shows "keeps (safe ok me) (deployServiceAccounts E)"
  unfolding deployServiceAccounts_def by (intro triple_rules assms; assumption?)

lemma emits_convergeWorkflowNamespace:
  "emits (\<lambda>c. \<forall>x. c \<noteq> DeleteCall x) (convergeWorkflowNamespace E wfNs x)"
  unfolding convergeWorkflowNamespace_def Let_def by (intro emits_rules) simp_all

lemma emits_deployWorkflowNamespace: "emits (\<lambda>c. \<forall>x. c \<noteq> DeleteCall x) (deployWorkflowNamespace E)"
  unfolding deployWorkflowNamespace_def Let_def by (intro emits_rules emits_convergeWorkflowNamespace) simp_all

text \<open>A namespace of an administrator is used as it is: whatever the server answers, preparing the
  workflow namespace never deletes anything, and updates only a namespace that it read in the run
  and that was this instance's then, pinned to the version read.\<close>

lemma workflow_namespace_not_adopted:
  assumes "identity_stable E" and "w_trace w = []"
  shows "guarded (mine E (ident (w_kn w))) (w_trace (snd (run_state (deployWorkflowNamespace E) w))) \<and>
    (\<forall>x. DeleteCall x \<notin> set (w_trace (snd (run_state (deployWorkflowNamespace E) w))))"
proof -
  have "safe (mine E (ident (w_kn w))) (ident (w_kn w)) w" by (simp add: safe_def assms(2))
  from keepsD [OF safe_deployWorkflowNamespace [OF assms(1)] this]
  have "guarded (mine E (ident (w_kn w))) (w_trace (snd (run_state (deployWorkflowNamespace E) w)))" by (simp add: safe_def)
  moreover have "\<forall>x. DeleteCall x \<notin> set (w_trace (snd (run_state (deployWorkflowNamespace E) w)))"
    using emits_deployWorkflowNamespace [of E] assms(2) unfolding emits_def list_all_iff
    by (metis append_Nil2)
  ultimately show ?thesis ..
qed

lemma workflow_namespace_not_adopted_example:
  "guarded (mine sample_env (ident sample_kn)) (w_trace (snd (run_state (deployWorkflowNamespace sample_env) (sample_world []))))"
  using workflow_namespace_not_adopted [OF sample_identity_stable, of "sample_world []"] by simp

end
