(* ===== verification/Deployments.thy ===== *)
theory Deployments
  imports Startup_Inputs Workflow_Namespace
begin

text \<open>
  The Deployments of the platform's components (\<^verbatim>\<open>internal/resources/deployments.go\<close>, with the pod parts of
  \<^verbatim>\<open>common.go\<close>, \<^verbatim>\<open>llm_tls.go\<close>, \<^verbatim>\<open>telemetry.go\<close> and \<^verbatim>\<open>fleetmetadatacache.go\<close>).

  The Go functions thread the slices \<^verbatim>\<open>volumes\<close> and \<^verbatim>\<open>mounts\<close> through the helpers that add to them; here they are one pair, and a
  helper maps pairs to pairs. The environment of the process (\<open>getenv\<close>) and the name service
  (\<open>lookup\<close>, \<^verbatim>\<open>net.DefaultResolver.LookupHost\<close>, with no answer for an error) are arguments.
\<close>

type_synonym pod_parts = "volume list \<times> volume_mount list"

subsection \<open>Volumes, mounts, variables and ports\<close>

definition secretKeyVolume :: "string \<Rightarrow> string \<Rightarrow> string \<Rightarrow> string \<Rightarrow> volume" where
  "secretKeyVolume name secretName secretKey itemPath =
     \<lparr>volume_Name = name, volume_Source = SecretVolumeSource secretName [\<lparr>item_Key = secretKey, item_Path = itemPath\<rparr>] None\<rparr>"

definition emptyDirVolume :: "string \<Rightarrow> volume" where
  "emptyDirVolume name = \<lparr>volume_Name = name, volume_Source = EmptyDirVolumeSource\<rparr>"

definition read_only_mount :: "string \<Rightarrow> string \<Rightarrow> volume_mount" where
  "read_only_mount name path = \<lparr>mount_Name = name, mount_MountPath = path, mount_SubPath = '''', mount_ReadOnly = True\<rparr>"

definition writable_mount :: "string \<Rightarrow> string \<Rightarrow> volume_mount" where
  "writable_mount name path = \<lparr>mount_Name = name, mount_MountPath = path, mount_SubPath = '''', mount_ReadOnly = False\<rparr>"

text \<open>\<^verbatim>\<open>volumes = append(volumes, v)\<close> and \<^verbatim>\<open>mounts = append(mounts, m)\<close>.\<close>

definition attach :: "volume \<Rightarrow> volume_mount \<Rightarrow> pod_parts \<Rightarrow> pod_parts" where
  "attach v m p = (fst p @ [v], snd p @ [m])"

definition env_value :: "string \<Rightarrow> string \<Rightarrow> env_var" where
  "env_value name v = \<lparr>envVar_Name = name, envVar_Source = EnvValue v\<rparr>"

definition env_field :: "string \<Rightarrow> string \<Rightarrow> env_var" where
  "env_field name path = \<lparr>envVar_Name = name, envVar_Source = EnvFieldRef path\<rparr>"

definition tcp_port :: "string \<Rightarrow> int \<Rightarrow> container_port" where
  "tcp_port name port = \<lparr>containerPort_Name = name, containerPort_Port = port, containerPort_Protocol = ''TCP''\<rparr>"

definition PortPprof :: int where "PortPprof = 6060"

definition pprofContainerPort :: "bool \<Rightarrow> container_port list" where
  "pprofContainerPort enabled = (if \<not> enabled then [] else [tcp_port ''pprof'' PortPprof])"

definition appendInterServiceTLSCA :: "Kubernaut \<Rightarrow> pod_parts \<Rightarrow> pod_parts" where
  "appendInterServiceTLSCA kn = attach (InterServiceTLSCAVolume kn) (InterServiceTLSCAMount kn)"

definition appendInterServiceTLSCAForMonitoringConsumer :: "Kubernaut \<Rightarrow> pod_parts \<Rightarrow> pod_parts" where
  "appendInterServiceTLSCAForMonitoringConsumer kn = attach (InterServiceTLSCAVolume kn) (InterServiceTLSCAMount kn)"

definition MonitoringTLSCADir :: string where "MonitoringTLSCADir = ''/etc/monitoring-tls''"
definition MonitoringTLSCAVolumeName :: string where "MonitoringTLSCAVolumeName = ''monitoring-tls''"

definition monitoringTLSVolumeSource :: "Kubernaut \<Rightarrow> volume_source option" where
  "monitoringTLSVolumeSource kn =
     (case monitoring_TLS (spec_Monitoring (kn_Spec kn)) of
        None \<Rightarrow> None
      | Some tls \<Rightarrow>
         (case monitoringTLS_CACertSecretRef tls of
            None \<Rightarrow> None
          | Some ref \<Rightarrow>
             (if caCertSecretRef_Name ref = '''' then None
              else let key = (if caCertSecretRef_Key ref \<noteq> '''' then caCertSecretRef_Key ref else ''ca.crt'')
                   in Some (SecretVolumeSource (caCertSecretRef_Name ref) [\<lparr>item_Key = key, item_Path = ''ca.crt''\<rparr>] None))))"

definition MonitoringTLSVolume :: "Kubernaut \<Rightarrow> volume option" where
  "MonitoringTLSVolume kn =
     map_option (\<lambda>source. \<lparr>volume_Name = MonitoringTLSCAVolumeName, volume_Source = source\<rparr>) (monitoringTLSVolumeSource kn)"

definition MonitoringTLSVolumeMount :: volume_mount where
  "MonitoringTLSVolumeMount = read_only_mount MonitoringTLSCAVolumeName MonitoringTLSCADir"

definition append_monitoring :: "Kubernaut \<Rightarrow> pod_parts \<Rightarrow> pod_parts" where
  "append_monitoring kn p = (case MonitoringTLSVolume kn of None \<Rightarrow> p | Some v \<Rightarrow> attach v MonitoringTLSVolumeMount p)"

subsection \<open>Telemetry material\<close>

definition AppendTelemetrySecretMounts :: "TelemetrySpec \<Rightarrow> pod_parts \<Rightarrow> pod_parts" where
  "AppendTelemetrySecretMounts telemetry p =
     (let m = resolveTelemetryMaterial telemetry;
          ca = telemetryMaterial_caSecretName m;
          client = telemetryMaterial_clientSecretName m;
          caItem = \<lparr>item_Key = telemetryMaterial_caSecretKey m, item_Path = path_Base (telemetryMaterial_caFile m)\<rparr>;
          clientItems = [\<lparr>item_Key = ''tls.crt'', item_Path = path_Base (telemetryMaterial_certFile m)\<rparr>,
                         \<lparr>item_Key = ''tls.key'', item_Path = path_Base (telemetryMaterial_keyFile m)\<rparr>];
          caDir = (if ca \<noteq> '''' then path_Dir (telemetryMaterial_caFile m) else '''');
          clientDir = (if client \<noteq> '''' then path_Dir (telemetryMaterial_certFile m) else '''')
      in if \<not> telemetryMaterial_network m \<or> (ca = '''' \<and> client = '''') then p
         else if caDir \<noteq> '''' \<and> clientDir \<noteq> '''' \<and> caDir = clientDir
         then attach \<lparr>volume_Name = ''telemetry-material'', volume_Source = ProjectedVolumeSource
                [SecretProjection ca [caItem], SecretProjection client clientItems]\<rparr>
                (read_only_mount ''telemetry-material'' caDir) p
         else let p1 = (if ca \<noteq> '''' then attach (secretKeyVolume ''telemetry-ca'' ca (item_Key caItem) (item_Path caItem))
                           (read_only_mount ''telemetry-ca'' caDir) p else p)
              in if client \<noteq> '''' then attach \<lparr>volume_Name = ''telemetry-client'', volume_Source = SecretVolumeSource client clientItems None\<rparr>
                   (read_only_mount ''telemetry-client'' clientDir) p1 else p1)"

subsection \<open>Fleet material\<close>

definition fleetMCPGatewayCAVolumeName :: string where "fleetMCPGatewayCAVolumeName = ''fleet-mcp-gateway-ca''"
definition fleetMCPGatewayCAMountDir :: string where "fleetMCPGatewayCAMountDir = ''/etc/fleet-tls/mcp-gateway''"

text \<open>The trust material of a lane that selects \<^verbatim>\<open>source: secret\<close>, as one volume and its mount.\<close>

definition append_trust :: "string \<Rightarrow> string \<Rightarrow> FleetTrustSpec option \<Rightarrow> pod_parts \<Rightarrow> pod_parts" where
  "append_trust volumeName dir trust p =
     (case trust_secret trust of
        None \<Rightarrow> p
      | Some ref \<Rightarrow> attach (secretKeyVolume volumeName (caCertSecretRef_Name ref) (withDefault (caCertSecretRef_Key ref) ''ca.crt'') ''ca.crt'')
          (read_only_mount volumeName dir) p)"

definition appendFleetMCPGatewayCASecretMount :: "FleetSpec \<Rightarrow> pod_parts \<Rightarrow> pod_parts" where
  "appendFleetMCPGatewayCASecretMount fleet =
     append_trust fleetMCPGatewayCAVolumeName fleetMCPGatewayCAMountDir (fleetMCPGateway_TLS (fleet_MCPGateway fleet))"

definition append_oauth2_trust :: "FleetSpec \<Rightarrow> pod_parts \<Rightarrow> pod_parts" where
  "append_oauth2_trust fleet = append_trust ''fleet-oauth2-ca'' ''/etc/fleet-tls/oauth2'' (fleetOAuth2_TLS (fleet_OAuth2 fleet))"

definition append_oauth2_credentials :: "string \<Rightarrow> string \<Rightarrow> pod_parts \<Rightarrow> pod_parts" where
  "append_oauth2_credentials componentEtcDir credentialsSecretRef p =
     (if credentialsSecretRef = '''' then p
      else attach (secretVolume ''fleet-oauth2'' credentialsSecretRef)
        (read_only_mount ''fleet-oauth2'' (componentEtcDir @ ''/'' @ credentialsSecretRef)) p)"

definition append_backend :: "FleetSpec \<Rightarrow> pod_parts \<Rightarrow> pod_parts" where
  "append_backend fleet p =
     (case fleetScopeCheck_ACM (fleet_ScopeCheck fleet) of
        None \<Rightarrow> p
      | Some acm \<Rightarrow>
         (let p1 = append_trust ''fleet-ca'' ''/etc/fleet-tls/scope-check'' (fleetACMScopeCheck_TLS acm) p
          in case fleetACMScopeCheck_TokenSecretRef acm of
               None \<Rightarrow> p1
             | Some ref \<Rightarrow>
                (if secretKeyRef_Name ref = '''' then p1
                 else attach (secretKeyVolume ''fleet-token'' (secretKeyRef_Name ref) (withDefault (secretKeyRef_Key ref) ''token'') ''token'')
                   (read_only_mount ''fleet-token'' ''/etc/fleet-token'') p1)))"

definition appendFleetSecretMountsVariant :: "Kubernaut \<Rightarrow> string \<Rightarrow> string \<Rightarrow> bool \<Rightarrow> pod_parts \<Rightarrow> pod_parts" where
  "appendFleetSecretMountsVariant knV2 componentEtcDir credentialsSecretRefOverride includeBackend p =
     (let fleet = spec_Fleet (kn_Spec knV2) in
      if fleet_Enabled fleet \<noteq> Some True then p
      else append_oauth2_credentials componentEtcDir
             (withDefault credentialsSecretRefOverride (fleetOAuth2_CredentialsSecretRef (fleet_OAuth2 fleet)))
           (append_oauth2_trust fleet
           ((if includeBackend then append_backend fleet else id)
           (appendFleetMCPGatewayCASecretMount fleet p))))"

definition appendFleetSecretMounts :: "Kubernaut \<Rightarrow> string \<Rightarrow> string \<Rightarrow> pod_parts \<Rightarrow> pod_parts" where
  "appendFleetSecretMounts knV2 componentEtcDir credentialsSecretRefOverride =
     appendFleetSecretMountsVariant knV2 componentEtcDir credentialsSecretRefOverride True"

definition appendMCPGatewayOnlyFleetSecretMount :: "Kubernaut \<Rightarrow> string \<Rightarrow> string \<Rightarrow> pod_parts \<Rightarrow> pod_parts" where
  "appendMCPGatewayOnlyFleetSecretMount knV2 componentEtcDir credentialsSecretRefOverride =
     appendFleetSecretMountsVariant knV2 componentEtcDir credentialsSecretRefOverride False"

definition appendWorkflowExecutionFleetSecretMount :: "Kubernaut \<Rightarrow> string \<Rightarrow> pod_parts \<Rightarrow> pod_parts" where
  "appendWorkflowExecutionFleetSecretMount knV2 componentEtcDir p =
     (let fleet = spec_Fleet (kn_Spec knV2) in
      if fleet_Enabled fleet \<noteq> Some True then p
      else append_oauth2_credentials componentEtcDir
             (workflowExecutionFleet_OAuth2CredentialsSecretRef (workflowExecution_Fleet (spec_WorkflowExecution (kn_Spec knV2))))
           (append_oauth2_trust fleet
           (appendFleetMCPGatewayCASecretMount fleet p)))"

subsection \<open>TLS material of LLM profiles\<close>

definition llmTLSRoleInvestigation :: string where "llmTLSRoleInvestigation = ''investigation''"
definition llmTLSRoleWorkflowDiscovery :: string where "llmTLSRoleWorkflowDiscovery = ''workflow_discovery''"
definition llmTLSRoleAlignment :: string where "llmTLSRoleAlignment = ''alignment''"
definition llmTLSRoleAPIFrontend :: string where "llmTLSRoleAPIFrontend = ''api_frontend''"
definition llmTLSRoleSeverityTriage :: string where "llmTLSRoleSeverityTriage = ''severity_triage''"

lemmas llm_roles = llmTLSRoleInvestigation_def llmTLSRoleWorkflowDiscovery_def llmTLSRoleAlignment_def llmTLSRoleAPIFrontend_def
  llmTLSRoleSeverityTriage_def

definition llmTLSMaterialMountPath :: "string \<Rightarrow> string" where
  "llmTLSMaterialMountPath role =
     (if role = llmTLSRoleWorkflowDiscovery then ''/etc/kubernaut-agent/workflow-tls''
      else if role = llmTLSRoleAlignment then ''/etc/kubernaut-agent/alignment-tls''
      else if role = llmTLSRoleAPIFrontend then ''/etc/apifrontend/llm-tls-client''
      else if role = llmTLSRoleSeverityTriage then ''/etc/apifrontend/severity-triage-tls''
      else ''/etc/kubernaut-agent/llm-tls-client'')"

definition llmTLSMaterialVolumeName :: "string \<Rightarrow> string" where
  "llmTLSMaterialVolumeName role =
     (if role = llmTLSRoleWorkflowDiscovery then ''workflow-discovery-llm-tls-client''
      else if role = llmTLSRoleAlignment then ''alignment-llm-tls-client''
      else if role = llmTLSRoleSeverityTriage then ''severity-triage-llm-tls-client''
      else ''llm-tls-client'')"

definition llmTLSCAKey :: "LLMProfileSpec \<Rightarrow> string" where
  "llmTLSCAKey profile =
     (case llmProfile_TLSCaSecretRef profile of
        None \<Rightarrow> ''ca.crt''
      | Some ref \<Rightarrow> (if caCertSecretRef_Key ref = '''' then ''ca.crt'' else caCertSecretRef_Key ref))"

definition llmTLSMaterialUsesOperatorMount :: "LLMProfileSpec \<Rightarrow> bool" where
  "llmTLSMaterialUsesOperatorMount profile \<longleftrightarrow>
     llmProfile_TLSCaSecretRef profile \<noteq> None \<or> llmProfile_TLSClientSecretRef profile \<noteq> ''''"

definition llmTLSMaterialFileName :: "string \<Rightarrow> string \<Rightarrow> string" where
  "llmTLSMaterialFileName path fallback = (if path = '''' then fallback else path_Base path)"

definition llmTLSMaterialIdentity :: "LLMProfileSpec \<Rightarrow> string" where
  "llmTLSMaterialIdentity profile =
     (let caSecret = (case llmProfile_TLSCaSecretRef profile of None \<Rightarrow> ''''
                      | Some ref \<Rightarrow> caCertSecretRef_Name ref @ ''#'' @ llmTLSCAKey profile)
      in join_strings [CHR 0x00] [caSecret, llmProfile_TLSClientSecretRef profile,
           llmTLSMaterialFileName (llmProfile_TLSCaFile profile) '''',
           llmTLSMaterialFileName (llmProfile_TLSCertFile profile) '''',
           llmTLSMaterialFileName (llmProfile_TLSKeyFile profile) ''''])"

definition llmTLSMaterialNeedsDedicatedMount :: "LLMProfileSpec \<Rightarrow> LLMProfileSpec \<Rightarrow> bool" where
  "llmTLSMaterialNeedsDedicatedMount profile base \<longleftrightarrow>
     llmTLSMaterialUsesOperatorMount profile \<and> llmTLSMaterialIdentity profile \<noteq> llmTLSMaterialIdentity base"

text \<open>\<^verbatim>\<open>filepath.Join\<close> of two elements, the first of them not empty.\<close>

definition path_Join :: "string \<Rightarrow> string \<Rightarrow> string" where
  "path_Join dir name = path_Clean (if name = '''' then dir else dir @ ''/'' @ name)"

definition llm_effective_role :: "LLMProfileSpec \<Rightarrow> LLMProfileSpec \<Rightarrow> string \<Rightarrow> string" where
  "llm_effective_role profile base role =
     (if role \<noteq> llmTLSRoleInvestigation \<and> \<not> llmTLSMaterialNeedsDedicatedMount profile base
      then (if role = llmTLSRoleWorkflowDiscovery \<or> role = llmTLSRoleAlignment then llmTLSRoleInvestigation else llmTLSRoleAPIFrontend)
      else role)"

definition llmTLSMaterialPaths :: "LLMProfileSpec \<Rightarrow> LLMProfileSpec \<Rightarrow> string \<Rightarrow> string \<times> string \<times> string" where
  "llmTLSMaterialPaths profile base role =
     (let caFile = llmProfile_TLSCaFile profile;
          certFile = llmProfile_TLSCertFile profile;
          keyFile = llmProfile_TLSKeyFile profile
      in if \<not> llmTLSMaterialUsesOperatorMount profile then (caFile, certFile, keyFile)
         else let mountPath = llmTLSMaterialMountPath (llm_effective_role profile base role);
                  client = (llmProfile_TLSClientSecretRef profile \<noteq> '''')
              in ((if llmProfile_TLSCaSecretRef profile \<noteq> None \<and> caFile \<noteq> ''''
                   then path_Join mountPath (llmTLSMaterialFileName caFile ''ca.crt'') else caFile),
                  (if client then path_Join mountPath (llmTLSMaterialFileName certFile ''tls.crt'') else certFile),
                  (if client then path_Join mountPath (llmTLSMaterialFileName keyFile ''tls.key'') else keyFile)))"

text \<open>The closure \<^verbatim>\<open>addProjection\<close>: add an item to the projection of the Secret, or start one.\<close>

fun add_projection :: "string \<Rightarrow> key_to_path \<Rightarrow> (string \<times> key_to_path list) list \<Rightarrow> (string \<times> key_to_path list) list" where
  "add_projection secretName item [] = [(secretName, [item])]"
| "add_projection secretName item ((n, items) # ps) =
     (if n = secretName then (n, items @ [item]) # ps else (n, items) # add_projection secretName item ps)"

definition llm_projections :: "LLMProfileSpec \<Rightarrow> string \<times> string \<times> string \<Rightarrow> (string \<times> key_to_path list) list" where
  "llm_projections profile = (\<lambda>(caFile, certFile, keyFile).
     let ps = (case llmProfile_TLSCaSecretRef profile of
                 None \<Rightarrow> []
               | Some ref \<Rightarrow> add_projection (caCertSecretRef_Name ref)
                   \<lparr>item_Key = llmTLSCAKey profile, item_Path = llmTLSMaterialFileName caFile ''ca.crt''\<rparr> []);
         client = llmProfile_TLSClientSecretRef profile
     in if client = '''' then ps
        else add_projection client \<lparr>item_Key = ''tls.key'', item_Path = llmTLSMaterialFileName keyFile ''tls.key''\<rparr>
               (add_projection client \<lparr>item_Key = ''tls.crt'', item_Path = llmTLSMaterialFileName certFile ''tls.crt''\<rparr> ps))"

definition llmTLSMaterialVolumeFor :: "LLMProfileSpec \<Rightarrow> LLMProfileSpec \<Rightarrow> string \<Rightarrow> (volume \<times> volume_mount) option" where
  "llmTLSMaterialVolumeFor profile base role =
     (if \<not> llmTLSMaterialUsesOperatorMount profile then None
      else let projections = llm_projections profile (llmTLSMaterialPaths profile base role);
               volumeName = llmTLSMaterialVolumeName role;
               source = (case projections of
                    [(name, items)] \<Rightarrow>
                      (if llmProfile_TLSCaSecretRef profile = None then SecretVolumeSource name items None
                       else ProjectedVolumeSource [SecretProjection name items])
                  | _ \<Rightarrow> ProjectedVolumeSource (map (\<lambda>(name, items). SecretProjection name items) projections))
           in Some (\<lparr>volume_Name = volumeName, volume_Source = source\<rparr>, read_only_mount volumeName (llmTLSMaterialMountPath role)))"

definition append_llm_tls :: "LLMProfileSpec \<Rightarrow> LLMProfileSpec \<Rightarrow> string \<Rightarrow> pod_parts \<Rightarrow> pod_parts" where
  "append_llm_tls profile base role p =
     (case llmTLSMaterialVolumeFor profile base role of None \<Rightarrow> p | Some (v, m) \<Rightarrow> attach v m p)"

subsection \<open>Probes\<close>

record ProbeConfig =
  probe_LivenessPath :: string
  probe_LivenessInitialDelay :: int
  probe_LivenessPeriod :: int
  probe_LivenessTimeout :: int
  probe_LivenessFailureThreshold :: int
  probe_ReadinessPath :: string
  probe_ReadinessInitialDelay :: int
  probe_ReadinessPeriod :: int
  probe_ReadinessTimeout :: int
  probe_ReadinessFailureThreshold :: int
  probe_StartupPath :: string
  probe_StartupInitialDelay :: int
  probe_StartupPeriod :: int
  probe_StartupTimeout :: int
  probe_StartupFailureThreshold :: int

definition probe_config ::
  "string \<times> int \<times> int \<times> int \<times> int \<Rightarrow> string \<times> int \<times> int \<times> int \<times> int \<Rightarrow> string \<times> int \<times> int \<times> int \<times> int \<Rightarrow> ProbeConfig" where
  "probe_config = (\<lambda>(lp, li, le, lt, lf) (rp, ri, re, rt, rf) (sp, si, se, st, sf).
     \<lparr>probe_LivenessPath = lp, probe_LivenessInitialDelay = li, probe_LivenessPeriod = le, probe_LivenessTimeout = lt,
      probe_LivenessFailureThreshold = lf, probe_ReadinessPath = rp, probe_ReadinessInitialDelay = ri, probe_ReadinessPeriod = re,
      probe_ReadinessTimeout = rt, probe_ReadinessFailureThreshold = rf, probe_StartupPath = sp, probe_StartupInitialDelay = si,
      probe_StartupPeriod = se, probe_StartupTimeout = st, probe_StartupFailureThreshold = sf\<rparr>)"

definition fleetAwareStartupProbe :: "string \<times> int \<times> int \<times> int \<times> int" where
  "fleetAwareStartupProbe = (''/healthz'', 5, 5, 5, 60)"

definition probeConfigForComponent :: "string \<Rightarrow> ProbeConfig" where
  "probeConfigForComponent component =
     (let none = ('''', 0, 0, 0, 0) in
      if component = ComponentGateway then
        probe_config (''/healthz'', 10, 10, 5, 3) (''/readyz'', 30, 5, 5, 6) fleetAwareStartupProbe
      else if component = ComponentDataStorage then
        probe_config (''/healthz'', 30, 10, 5, 3) (''/readyz'', 30, 5, 3, 3) none
      else if component = ComponentAIAnalysis then
        probe_config (''/healthz'', 30, 20, 5, 3) (''/healthz'', 30, 5, 3, 3) none
      else if component = ComponentKubernautAgent then
        probe_config (''/healthz'', 15, 20, 5, 3) (''/readyz'', 10, 10, 5, 6) none
      else if component = ComponentEffectivenessMonitor then
        probe_config (''/healthz'', 10, 10, 5, 3) (''/readyz'', 5, 5, 5, 3) fleetAwareStartupProbe
      else if component = ComponentNotification then
        probe_config (''/healthz'', 15, 20, 5, 3) (''/readyz'', 15, 10, 5, 6) none
      else if component = ComponentAuthWebhook then
        probe_config (''/healthz'', 15, 20, 5, 3) (''/readyz'', 15, 10, 5, 6) none
      else if component = ComponentAPIFrontend then
        probe_config (''/healthz'', 15, 10, 5, 3) (''/readyz'', 5, 5, 3, 3) fleetAwareStartupProbe
      else if component = ComponentFleetMetadataCache then
        probe_config (''/healthz'', 5, 10, 5, 3) (''/readyz'', 3, 5, 3, 3) fleetAwareStartupProbe
      else probe_config (''/healthz'', 15, 20, 5, 3) (''/readyz'', 5, 10, 5, 6) fleetAwareStartupProbe)"

subsection \<open>The common shape\<close>

record DeploymentParams =
  params_Component :: string
  params_ImageName :: string
  params_Resources :: resource_requirements
  params_VolumeMounts :: "volume_mount list"
  params_Volumes :: "volume list"
  params_InitContainers :: "container list"
  params_Ports :: "container_port list"
  params_Env :: "env_var list"
  params_Args :: "string list"
  params_ProbePort :: int
  params_Strategy :: "string option"
  params_LivenessPath :: string
  params_ReadinessPath :: string
  params_PodAnnotations :: smap
  params_TerminationGracePeriodSeconds :: "int option"

definition zero_params :: DeploymentParams where
  "zero_params = \<lparr>params_Component = '''', params_ImageName = '''', params_Resources = zero_resource_requirements,
     params_VolumeMounts = [], params_Volumes = [], params_InitContainers = [], params_Ports = [], params_Env = [], params_Args = [],
     params_ProbePort = 0, params_Strategy = None, params_LivenessPath = '''', params_ReadinessPath = '''',
     params_PodAnnotations = Map.empty, params_TerminationGracePeriodSeconds = None\<rparr>"

definition http_probe :: "string \<Rightarrow> int \<Rightarrow> int \<Rightarrow> int \<Rightarrow> int \<Rightarrow> int \<Rightarrow> probe" where
  "http_probe path port initialDelay period timeout failureThreshold =
     \<lparr>probe_Path = path, probe_Port = port, probe_InitialDelaySeconds = initialDelay, probe_PeriodSeconds = period,
      probe_TimeoutSeconds = timeout, probe_FailureThreshold = failureThreshold\<rparr>"

text \<open>The slice \<^verbatim>\<open>ports\<close> is never empty where this is called.\<close>

definition buildDeploymentProbes :: "DeploymentParams \<Rightarrow> container_port list \<Rightarrow> probe \<times> probe \<times> probe option" where
  "buildDeploymentProbes p ports =
     (let probePort = (if params_ProbePort p = 0 then containerPort_Port (hd ports) else params_ProbePort p);
          pc0 = probeConfigForComponent (params_Component p);
          pc1 = (if params_LivenessPath p \<noteq> '''' then pc0\<lparr>probe_LivenessPath := params_LivenessPath p\<rparr> else pc0);
          pc = (if params_ReadinessPath p \<noteq> '''' then pc1\<lparr>probe_ReadinessPath := params_ReadinessPath p\<rparr> else pc1)
      in (http_probe (probe_LivenessPath pc) probePort (probe_LivenessInitialDelay pc) (probe_LivenessPeriod pc)
            (probe_LivenessTimeout pc) (probe_LivenessFailureThreshold pc),
          http_probe (probe_ReadinessPath pc) probePort (probe_ReadinessInitialDelay pc) (probe_ReadinessPeriod pc)
            (probe_ReadinessTimeout pc) (probe_ReadinessFailureThreshold pc),
          if probe_StartupPath pc = '''' then None
          else Some (http_probe (probe_StartupPath pc) probePort (probe_StartupInitialDelay pc) (probe_StartupPeriod pc)
            (probe_StartupTimeout pc) (probe_StartupFailureThreshold pc))))"

definition preferredPodAntiAffinity :: "string \<Rightarrow> weighted_affinity list" where
  "preferredPodAntiAffinity component =
     [\<lparr>affinity_Weight = 100, affinity_MatchLabels = SelectorLabels component, affinity_TopologyKey = ''kubernetes.io/hostname''\<rparr>]"

definition params_ports :: "DeploymentParams \<Rightarrow> container_port list" where
  "params_ports p = (if params_Ports p = [] then [tcp_port ''https'' PortHTTPS] else params_Ports p)"

definition main_container :: "Kubernaut \<Rightarrow> DeploymentParams \<Rightarrow> string \<Rightarrow> container" where
  "main_container kn p img =
     (case buildDeploymentProbes p (params_ports p) of (liveness, readiness, startup) \<Rightarrow>
       zero_container\<lparr>container_Name := params_Component p, container_Image := img,
         container_ImagePullPolicy := image_PullPolicy (spec_Image (kn_Spec kn)), container_Ports := params_ports p,
         container_Env := params_Env p @ [env_value ''GODEBUG'' ''netdns=go''], container_Args := params_Args p,
         container_Resources := MergeResources (params_Resources p), container_SecurityContext := ContainerSecurityContext,
         container_VolumeMounts := params_VolumeMounts p, container_LivenessProbe := Some liveness,
         container_ReadinessProbe := Some readiness, container_StartupProbe := startup\<rparr>)"

definition component_pod :: "Kubernaut \<Rightarrow> DeploymentParams \<Rightarrow> string \<Rightarrow> pod_spec" where
  "component_pod kn p img = zero_pod_spec\<lparr>pod_ServiceAccountName := ServiceAccountName (params_Component p),
     pod_SecurityContext := PodSecurityContext, pod_ImagePullSecrets := image_PullSecrets (spec_Image (kn_Spec kn)),
     pod_PreferredAntiAffinity := preferredPodAntiAffinity (params_Component p), pod_InitContainers := params_InitContainers p,
     pod_Containers := [main_container kn p img], pod_Volumes := params_Volumes p,
     pod_TerminationGracePeriodSeconds := params_TerminationGracePeriodSeconds p\<rparr>"

definition buildDeployment :: "(string \<Rightarrow> string) \<Rightarrow> Kubernaut \<Rightarrow> DeploymentParams \<Rightarrow> kobj go" where
  "buildDeployment getenv kn p =
     (case ResolveImage getenv kn (params_ImageName p) of
        Inl e \<Rightarrow> Inl e
      | Inr img \<Rightarrow>
         Inr \<lparr>obj_Kind = ''Deployment'', obj_Meta = ObjectMeta kn (DeploymentName (params_Component p)) (params_Component p),
           obj_Body = DeploymentBody (Some 1) 0 (ComponentLabels kn (params_Component p)) (params_PodAnnotations p)
             \<lparr>deployment_Selector = SelectorLabels (params_Component p),
              deployment_Strategy = (case params_Strategy p of None \<Rightarrow> [] | Some s \<Rightarrow> s),
              deployment_Pod = component_pod kn p img\<rparr>\<rparr>)"

subsection \<open>Gateway\<close>

definition pod_identity_env :: "env_var list" where
  "pod_identity_env = [env_field ''POD_NAME'' ''metadata.name'', env_field ''POD_NAMESPACE'' ''metadata.namespace'']"

definition gateway_parts :: "Kubernaut \<Rightarrow> Kubernaut \<Rightarrow> pod_parts" where
  "gateway_parts kn knV2 =
     AppendTelemetrySecretMounts (gatewayConfig_Telemetry (gateway_Config (spec_Gateway (kn_Spec knV2))))
     (appendFleetSecretMounts knV2 ''/etc/gateway'' (effectiveFleetOAuth2SecretRef (gateway_Fleet (spec_Gateway (kn_Spec knV2))) '''')
     (attach (InterServiceTLSCAVolume kn) (InterServiceTLSCAMount kn)
     (attach (secretVolume ''tls-certs'' (TLSSecretName kn TLSServiceGateway)) (read_only_mount ''tls-certs'' (InterServiceTLSCertDirFor kn))
     (attach (configMapVolume ''config'' ''gateway-config'') (read_only_mount ''config'' ''/etc/gateway'') ([], [])))))"

definition GatewayDeployment :: "(string \<Rightarrow> string) \<Rightarrow> Kubernaut \<Rightarrow> Kubernaut \<Rightarrow> kobj go" where
  "GatewayDeployment getenv kn knV2 =
     (case gateway_parts kn knV2 of (volumes, mounts) \<Rightarrow>
       buildDeployment getenv kn (zero_params\<lparr>params_Component := ComponentGateway, params_ImageName := ''gateway'',
         params_Resources := gateway_Resources (spec_Gateway (kn_Spec kn)), params_VolumeMounts := mounts, params_Volumes := volumes,
         params_Env := pod_identity_env, params_Args := [''--config=/etc/gateway/config.yaml''], params_ProbePort := PortHealthProbe,
         params_Ports := [tcp_port ''https'' PortHTTPS, tcp_port ''health'' PortHealthProbe, tcp_port ''metrics'' PortMetrics]\<rparr>))"

subsection \<open>DataStorage\<close>

definition wait_for_postgres :: string where
  "wait_for_postgres = ''until bash -c '' @ [CHR 34] @ ''echo >/dev/tcp/$PGHOST/$PGPORT'' @ [CHR 34] @ '' 2>/dev/null; do echo ''
     @ [CHR 34] @ ''waiting for postgres at $PGHOST:$PGPORT'' @ [CHR 34] @ ''; sleep 2; done''"

definition postgres_address :: "(string \<Rightarrow> string list) \<Rightarrow> Kubernaut \<Rightarrow> string" where
  "postgres_address lookup kn =
     (let host = postgreSQL_Host (spec_PostgreSQL (kn_Spec kn)) in case lookup host of [] \<Rightarrow> host | a # _ \<Rightarrow> a)"

definition dataStorageInitContainer :: "(string \<Rightarrow> string) \<Rightarrow> (string \<Rightarrow> string list) \<Rightarrow> Kubernaut \<Rightarrow> container go" where
  "dataStorageInitContainer getenv lookup kn =
     (case ResolveImage getenv kn ''db-migrate'' of
        Inl e \<Rightarrow> Inl e
      | Inr migrateImage \<Rightarrow> Inr (zero_container\<lparr>container_Name := ''wait-for-postgres'', container_Image := migrateImage,
          container_ImagePullPolicy := image_PullPolicy (spec_Image (kn_Spec kn)),
          container_Command := [''bash'', ''-c'', wait_for_postgres],
          container_Env := [env_value ''PGHOST'' (postgres_address lookup kn), env_value ''PGPORT'' (show_int (PostgreSQLPort kn))],
          container_SecurityContext := ContainerSecurityContext, container_Resources := DefaultBootstrapResources\<rparr>))"

definition same_path :: "string \<Rightarrow> key_to_path list" where
  "same_path key = [\<lparr>item_Key = key, item_Path = key\<rparr>]"

definition data_storage_secrets :: "Kubernaut \<Rightarrow> volume" where
  "data_storage_secrets kn = \<lparr>volume_Name = ''secrets'', volume_Source = ProjectedVolumeSource
     [SecretProjection (postgreSQL_SecretName (spec_PostgreSQL (kn_Spec kn))) (same_path PostgreSQLDataStorageSecretKey),
      SecretProjection (valkey_SecretName (spec_Valkey (kn_Spec kn))) (same_path ''valkey-secrets.yaml''),
      SecretProjection (ref_SecretName (DataStorageAuditHashKeyReferenceFor kn)) (same_path DataStorageAuditHashKeySecretDataKey)]\<rparr>"

definition append_valkey_tls :: "Kubernaut \<Rightarrow> pod_parts \<Rightarrow> pod_parts" where
  "append_valkey_tls kn p =
     (case valkey_TLS (spec_Valkey (kn_Spec kn)) of
        None \<Rightarrow> p
      | Some t \<Rightarrow>
         (if \<not> ValkeyTLSEnabled (spec_Valkey (kn_Spec kn)) then p
          else let p1 = (if valkeyTLS_CASecretName t \<noteq> ''''
                   then attach (secretVolume ''valkey-ca'' (valkeyTLS_CASecretName t)) (read_only_mount ''valkey-ca'' ''/etc/valkey-tls/ca'') p
                   else p)
               in if valkeyTLS_ClientCertSecretName t \<noteq> ''''
                  then attach (secretVolume ''valkey-client-cert'' (valkeyTLS_ClientCertSecretName t))
                         (read_only_mount ''valkey-client-cert'' ''/etc/valkey-tls/client'') p1
                  else p1))"

definition signing_mount_path :: "Kubernaut \<Rightarrow> string" where
  "signing_mount_path kn =
     (case dataStorage_Audit (spec_DataStorage (kn_Spec kn)) of
        None \<Rightarrow> ''/etc/certs''
      | Some a \<Rightarrow> (case dataStorageAudit_SigningCertificate a of
          None \<Rightarrow> ''/etc/certs''
        | Some c \<Rightarrow> (if signingCert_MountPath c \<noteq> '''' then signingCert_MountPath c else ''/etc/certs'')))"

definition dataStorageVolumesAndMounts :: "Kubernaut \<Rightarrow> pod_parts" where
  "dataStorageVolumesAndMounts kn =
     attach (secretVolume ''signing-cert'' (withDefault (DataStorageSigningSecretName kn) (TLSSecretName kn TLSServiceDataStorage)))
       (read_only_mount ''signing-cert'' (signing_mount_path kn))
     (append_valkey_tls kn
     (attach (emptyDirVolume ''data'') (writable_mount ''data'' ''/data'')
     (attach (emptyDirVolume ''tmp'') (writable_mount ''tmp'' ''/tmp'')
     (attach (InterServiceTLSCAVolume kn) (InterServiceTLSCAMount kn)
     (attach (secretVolume ''tls-certs'' (TLSSecretName kn TLSServiceDataStorage)) (read_only_mount ''tls-certs'' (InterServiceTLSCertDirFor kn))
     (attach (data_storage_secrets kn) (read_only_mount ''secrets'' ''/etc/datastorage/secrets'')
     (attach (configMapVolume ''config'' ''datastorage-config'') (read_only_mount ''config'' ''/etc/datastorage'') ([], []))))))))"

definition DataStorageDeployment :: "(string \<Rightarrow> string) \<Rightarrow> (string \<Rightarrow> string list) \<Rightarrow> Kubernaut \<Rightarrow> kobj go" where
  "DataStorageDeployment getenv lookup kn =
     (case dataStorageInitContainer getenv lookup kn of
        Inl e \<Rightarrow> Inl e
      | Inr initContainer \<Rightarrow>
         (case AppendTelemetrySecretMounts (dataStorage_Telemetry (spec_DataStorage (kn_Spec kn))) (dataStorageVolumesAndMounts kn) of
           (volumes, mounts) \<Rightarrow>
             buildDeployment getenv kn (zero_params\<lparr>params_Component := ComponentDataStorage, params_ImageName := ''datastorage'',
               params_Resources := dataStorage_Resources (spec_DataStorage (kn_Spec kn)), params_VolumeMounts := mounts,
               params_Volumes := volumes, params_InitContainers := [initContainer],
               params_Env := [env_value ''CONFIG_PATH'' ''/etc/datastorage/config.yaml'', env_field ''POD_NAMESPACE'' ''metadata.namespace'']
                 @ (if withDefault (postgreSQL_SSLMode (spec_PostgreSQL (kn_Spec kn))) DefaultSSLMode = DefaultSSLMode
                    then [env_value ''PGSSLROOTCERT'' (InterServiceTLSCAFileFor kn)] else []),
               params_ProbePort := PortHealthProbe,
               params_Ports := [tcp_port ''https'' PortHTTPS, tcp_port ''health'' PortHealthProbe, tcp_port ''metrics'' PortMetrics],
               params_TerminationGracePeriodSeconds := Some 60\<rparr>)))"

subsection \<open>Controllers\<close>

definition controller_ports :: "Kubernaut \<Rightarrow> container_port list" where
  "controller_ports knV2 = pprofContainerPort (debug_PprofEnabled (spec_Debug (kn_Spec knV2)))"

definition AIAnalysisDeployment :: "(string \<Rightarrow> string) \<Rightarrow> Kubernaut \<Rightarrow> Kubernaut \<Rightarrow> kobj go" where
  "AIAnalysisDeployment getenv kn knV2 =
     (case appendInterServiceTLSCA kn
        (attach (configMapVolume ''rego-policies'' (AIAnalysisPolicyName kn)) (read_only_mount ''rego-policies'' ''/etc/aianalysis/policies'')
        (attach (configMapVolume ''config'' ''aianalysis-config'') (read_only_mount ''config'' ''/etc/aianalysis'') ([], []))) of
      (volumes, mounts) \<Rightarrow>
        buildDeployment getenv kn (zero_params\<lparr>params_Component := ComponentAIAnalysis, params_ImageName := ''aianalysis'',
          params_Resources := aiAnalysis_Resources (spec_AIAnalysis (kn_Spec kn)), params_VolumeMounts := mounts, params_Volumes := volumes,
          params_Env := [env_value ''CONFIG_PATH'' ''/etc/aianalysis/config.yaml''], params_ProbePort := PortHealthProbe,
          params_Args := [''-config'', ''/etc/aianalysis/config.yaml''],
          params_Ports := [tcp_port ''https'' PortHTTPS, tcp_port ''metrics'' PortMetrics, tcp_port ''health'' PortHealthProbe]
            @ controller_ports knV2\<rparr>))"

definition SignalProcessingProactiveSignalMappingsConfigMapName :: string where
  "SignalProcessingProactiveSignalMappingsConfigMapName = ''signalprocessing-default-proactive-signal-mappings''"

definition sub_path_mount :: "string \<Rightarrow> string \<Rightarrow> string \<Rightarrow> volume_mount" where
  "sub_path_mount name path sub = (writable_mount name path)\<lparr>mount_SubPath := sub\<rparr>"

definition signal_processing_parts :: "Kubernaut \<Rightarrow> Kubernaut \<Rightarrow> pod_parts" where
  "signal_processing_parts kn knV2 =
     appendMCPGatewayOnlyFleetSecretMount knV2 ''/etc/signalprocessing''
       (effectiveFleetOAuth2SecretRef (signalProcessing_Fleet (spec_SignalProcessing (kn_Spec knV2))) '''')
     (appendInterServiceTLSCA kn
     (attach (configMapVolume ''proactive-mappings'' SignalProcessingProactiveSignalMappingsConfigMapName)
        (sub_path_mount ''proactive-mappings'' ''/etc/signalprocessing/proactive-signal-mappings.yaml'' ''proactive-signal-mappings.yaml'')
     (attach (configMapVolume ''policy'' (SignalProcessingPolicyName kn)) (read_only_mount ''policy'' ''/etc/signalprocessing/policies'')
     (attach (configMapVolume ''config'' ''signalprocessing-config'')
        (sub_path_mount ''config'' ''/etc/signalprocessing/config.yaml'' ''config.yaml'') ([], [])))))"

definition SignalProcessingDeployment :: "(string \<Rightarrow> string) \<Rightarrow> Kubernaut \<Rightarrow> Kubernaut \<Rightarrow> kobj go" where
  "SignalProcessingDeployment getenv kn knV2 =
     (case signal_processing_parts kn knV2 of (volumes, mounts) \<Rightarrow>
        buildDeployment getenv kn (zero_params\<lparr>params_Component := ComponentSignalProcessing, params_ImageName := ''signalprocessing'',
          params_Resources := signalProcessing_Resources (spec_SignalProcessing (kn_Spec kn)), params_VolumeMounts := mounts,
          params_Volumes := volumes, params_ProbePort := PortHealthProbe,
          params_Args := [''--config=/etc/signalprocessing/config.yaml''],
          params_Ports := [tcp_port ''metrics'' PortMetrics, tcp_port ''health'' PortHealthProbe] @ controller_ports knV2\<rparr>))"

definition orchestrator_parts :: "Kubernaut \<Rightarrow> Kubernaut \<Rightarrow> pod_parts" where
  "orchestrator_parts kn knV2 =
     appendFleetSecretMounts knV2 ''/etc/remediationorchestrator''
       (effectiveFleetOAuth2SecretRef (remediationOrchestrator_Fleet (spec_RemediationOrchestrator (kn_Spec knV2))) '''')
     (appendInterServiceTLSCA kn
     (attach (configMapVolume ''config'' ''remediationorchestrator-config'') (read_only_mount ''config'' ''/etc/config'') ([], [])))"

definition RemediationOrchestratorDeployment :: "(string \<Rightarrow> string) \<Rightarrow> Kubernaut \<Rightarrow> Kubernaut \<Rightarrow> kobj go" where
  "RemediationOrchestratorDeployment getenv kn knV2 =
     (case orchestrator_parts kn knV2 of (volumes, mounts) \<Rightarrow>
        buildDeployment getenv kn (zero_params\<lparr>params_Component := ComponentRemediationOrchestrator,
          params_ImageName := ''remediationorchestrator'',
          params_Resources := remediationOrchestrator_Resources (spec_RemediationOrchestrator (kn_Spec kn)),
          params_VolumeMounts := mounts, params_Volumes := volumes,
          params_Args := [''--config=/etc/config/remediationorchestrator.yaml''], params_ProbePort := PortHealthProbe,
          params_Ports := [tcp_port ''health'' PortHealthProbe, tcp_port ''metrics'' PortMetrics] @ controller_ports knV2\<rparr>))"

definition workflow_parts :: "Kubernaut \<Rightarrow> Kubernaut \<Rightarrow> pod_parts" where
  "workflow_parts kn knV2 =
     appendWorkflowExecutionFleetSecretMount knV2 ''/etc/workflowexecution''
     (appendInterServiceTLSCA kn
     (attach (configMapVolume ''config'' ''workflowexecution-config'') (read_only_mount ''config'' ''/etc/config'') ([], [])))"

definition ansible_ca_parts :: "CACertSecretRef \<Rightarrow> pod_parts \<Rightarrow> pod_parts" where
  "ansible_ca_parts ref p =
     (fst p @ [\<lparr>volume_Name = ''aap-ca'', volume_Source = SecretVolumeSource (caCertSecretRef_Name ref)
                 [\<lparr>item_Key = (if caCertSecretRef_Key ref = '''' then ''ca.crt'' else caCertSecretRef_Key ref), item_Path = ''aap-ca.crt''\<rparr>] None\<rparr>,
               emptyDirVolume ''combined-ca''],
      snd p @ [read_only_mount ''combined-ca'' ''/etc/combined-ca''])"

definition ansible_ca_container :: "Kubernaut \<Rightarrow> string \<Rightarrow> container" where
  "ansible_ca_container kn ubiImage = zero_container\<lparr>container_Name := ''build-ca-bundle'', container_Image := ubiImage,
     container_ImagePullPolicy := image_PullPolicy (spec_Image (kn_Spec kn)), container_Command := [''sh'', ''-c''],
     container_Args := [''cat '' @ InterServiceTLSCAFileFor kn @ '' /aap-ca/aap-ca.crt > /combined/ca-bundle.crt''],
     container_VolumeMounts := [InterServiceTLSCAMount kn, read_only_mount ''aap-ca'' ''/aap-ca'', writable_mount ''combined-ca'' ''/combined''],
     container_SecurityContext := ContainerSecurityContext\<rparr>"

definition workflow_params :: "Kubernaut \<Rightarrow> Kubernaut \<Rightarrow> pod_parts \<Rightarrow> container list \<Rightarrow> DeploymentParams" where
  "workflow_params kn knV2 p initContainers =
     zero_params\<lparr>params_Component := ComponentWorkflowExecution, params_ImageName := ''workflowexecution'',
       params_Resources := workflowExecution_Resources (spec_WorkflowExecution (kn_Spec kn)), params_VolumeMounts := snd p,
       params_Volumes := fst p, params_InitContainers := initContainers,
       params_Args := [''--config=/etc/config/workflowexecution.yaml''], params_ProbePort := PortHealthProbe,
       params_Ports := [tcp_port ''metrics'' PortMetrics, tcp_port ''health'' PortHealthProbe] @ controller_ports knV2\<rparr>"

definition WorkflowExecutionDeployment :: "(string \<Rightarrow> string) \<Rightarrow> Kubernaut \<Rightarrow> Kubernaut \<Rightarrow> kobj go" where
  "WorkflowExecutionDeployment getenv kn knV2 =
     (let p = workflow_parts kn knV2 in
      case ansible_CACertSecretRef (workflowExecution_Ansible (spec_WorkflowExecution (kn_Spec kn))) of
        None \<Rightarrow> buildDeployment getenv kn (workflow_params kn knV2 p [])
      | Some ref \<Rightarrow>
         (case ResolveImage getenv kn ''init-ubi-minimal'' of
            Inl e \<Rightarrow> Inl e
          | Inr ubiImage \<Rightarrow> buildDeployment getenv kn (workflow_params kn knV2 (ansible_ca_parts ref p) [ansible_ca_container kn ubiImage])))"

definition wait_for_service_ca :: "Kubernaut \<Rightarrow> string \<Rightarrow> container" where
  "wait_for_service_ca kn img = zero_container\<lparr>container_Name := ''wait-for-service-ca'', container_Image := img,
     container_ImagePullPolicy := image_PullPolicy (spec_Image (kn_Spec kn)), container_Command := [''sh'', ''-c''],
     container_Args := [''while [ ! -s /etc/ssl/em/service-ca.crt ]; do echo '' @ [CHR 34] @ ''waiting for service-ca.crt...'' @ [CHR 34]
       @ ''; sleep 2; done''],
     container_VolumeMounts := [read_only_mount ''service-ca'' ''/etc/ssl/em''],
     container_SecurityContext := ContainerSecurityContext,
     container_Resources := \<lparr>resources_Requests = [(''cpu'', ''10m''), (''memory'', ''16Mi'')],
       resources_Limits = [(''cpu'', ''50m''), (''memory'', ''32Mi'')]\<rparr>\<rparr>"

definition monitor_parts :: "Kubernaut \<Rightarrow> Kubernaut \<Rightarrow> pod_parts" where
  "monitor_parts kn knV2 =
     appendMCPGatewayOnlyFleetSecretMount knV2 ''/etc/effectivenessmonitor''
       (effectiveFleetOAuth2SecretRef (effectivenessMonitor_Fleet (spec_EffectivenessMonitor (kn_Spec knV2))) '''')
     (append_monitoring knV2
     (appendInterServiceTLSCAForMonitoringConsumer kn
     ((if usesOpenShiftServiceCA kn
       then attach (configMapVolume ''service-ca'' ''effectivenessmonitor-service-ca'') (read_only_mount ''service-ca'' ''/etc/ssl/em'') else id)
     (attach (configMapVolume ''config'' ''effectivenessmonitor-config'') (read_only_mount ''config'' ''/etc/effectivenessmonitor'') ([], [])))))"

definition monitor_init :: "(string \<Rightarrow> string) \<Rightarrow> Kubernaut \<Rightarrow> container list go" where
  "monitor_init getenv kn =
     (if usesOpenShiftServiceCA kn then map_sum id (\<lambda>img. [wait_for_service_ca kn img]) (ResolveImage getenv kn ''init-ubi-minimal'')
      else Inr [])"

definition EffectivenessMonitorDeployment :: "(string \<Rightarrow> string) \<Rightarrow> Kubernaut \<Rightarrow> Kubernaut \<Rightarrow> kobj go" where
  "EffectivenessMonitorDeployment getenv kn knV2 =
     (case monitor_init getenv kn of
        Inl e \<Rightarrow> Inl e
      | Inr initContainers \<Rightarrow>
         (case monitor_parts kn knV2 of (volumes, mounts) \<Rightarrow>
            buildDeployment getenv kn (zero_params\<lparr>params_Component := ComponentEffectivenessMonitor,
              params_ImageName := ''effectivenessmonitor'',
              params_Resources := effectivenessMonitor_Resources (spec_EffectivenessMonitor (kn_Spec kn)),
              params_VolumeMounts := mounts, params_Volumes := volumes, params_InitContainers := initContainers,
              params_Args := [''--config=/etc/effectivenessmonitor/effectivenessmonitor.yaml''], params_ProbePort := PortHealthProbe,
              params_Ports := [tcp_port ''metrics'' PortMetrics, tcp_port ''health'' PortHealthProbe] @ controller_ports knV2\<rparr>)))"

definition routing_config_map :: "Kubernaut \<Rightarrow> string" where
  "routing_config_map kn =
     (case notification_Routing (spec_Notification (kn_Spec kn)) of
        None \<Rightarrow> ''notification-routing-config''
      | Some r \<Rightarrow> (if configMapRef_ConfigMapName r \<noteq> '''' then configMapRef_ConfigMapName r else ''notification-routing-config''))"

definition notification_credentials :: "Kubernaut \<Rightarrow> volume" where
  "notification_credentials kn =
     (let sources = map (\<lambda>c. SecretProjection (notificationSecretRef_Name (notificationCredential_SecretRef c))
            [\<lparr>item_Key = notificationSecretRef_Key (notificationCredential_SecretRef c), item_Path = notificationCredential_Name c\<rparr>])
          (notification_Credentials (spec_Notification (kn_Spec kn)))
      in \<lparr>volume_Name = ''credentials'', volume_Source = (if sources \<noteq> [] then ProjectedVolumeSource sources else EmptyDirVolumeSource)\<rparr>)"

definition notification_parts :: "Kubernaut \<Rightarrow> pod_parts" where
  "notification_parts kn =
     appendInterServiceTLSCA kn
     (attach (notification_credentials kn) (read_only_mount ''credentials'' ''/etc/notification/credentials'')
     (attach (emptyDirVolume ''notification-output'') (writable_mount ''notification-output'' ''/tmp/notifications'')
     (attach (configMapVolume ''routing-config'' (routing_config_map kn)) (read_only_mount ''routing-config'' ''/etc/notification-routing'')
     (attach (configMapVolume ''config'' ''notification-controller-config'') (read_only_mount ''config'' ''/etc/notification'') ([], [])))))"

definition NotificationDeployment :: "(string \<Rightarrow> string) \<Rightarrow> Kubernaut \<Rightarrow> Kubernaut \<Rightarrow> kobj go" where
  "NotificationDeployment getenv kn knV2 =
     (case notification_parts kn of (volumes, mounts) \<Rightarrow>
        buildDeployment getenv kn (zero_params\<lparr>params_Component := ComponentNotification, params_ImageName := ''notification'',
          params_Resources := notification_Resources (spec_Notification (kn_Spec kn)), params_VolumeMounts := mounts, params_Volumes := volumes,
          params_Env := [env_value ''CONFIG_PATH'' ''/etc/notification/config.yaml'', env_field ''POD_NAMESPACE'' ''metadata.namespace''],
          params_ProbePort := PortHealthProbe, params_Args := [''-config'', ''/etc/notification/config.yaml''],
          params_Ports := [tcp_port ''metrics'' PortMetrics, tcp_port ''health'' PortHealthProbe] @ controller_ports knV2\<rparr>))"

subsection \<open>The agent\<close>

definition zero_LLMProfileSpec :: LLMProfileSpec where
  "zero_LLMProfileSpec = \<lparr>llmProfile_Provider = '''', llmProfile_Model = '''', llmProfile_CredentialsSecretName = '''',
     llmProfile_Endpoint = '''', llmProfile_Temperature = '''', llmProfile_MaxRetries = None, llmProfile_TimeoutSeconds = None,
     llmProfile_VertexProject = '''', llmProfile_VertexLocation = '''', llmProfile_BedrockRegion = '''', llmProfile_AzureAPIVersion = '''',
     llmProfile_TLSCaFile = '''', llmProfile_TLSCaSecretRef = None, llmProfile_TLSCertFile = '''', llmProfile_TLSKeyFile = '''',
     llmProfile_TLSClientSecretRef = '''', llmProfile_OAuth2 = \<lparr>oAuth2_Enabled = False, oAuth2_TokenURL = '''', oAuth2_Scopes = [],
       oAuth2_CredentialsSecretRef = ''''\<rparr>, llmProfile_Reasoning = None\<rparr>"

text \<open>\<^verbatim>\<open>profile, _ := ResolveLLMProfile(...)\<close>: the zero value when there is none.\<close>

definition profile_or_zero :: "Kubernaut \<Rightarrow> string \<Rightarrow> LLMProfileSpec" where
  "profile_or_zero kn ref = (case ResolveLLMProfile kn ref of None \<Rightarrow> zero_LLMProfileSpec | Some p \<Rightarrow> p)"

definition phaseCredentialsVolumeName :: "string \<Rightarrow> string" where
  "phaseCredentialsVolumeName phase = ''phase-credentials-'' @ phase"

definition phaseCredentialsMountPath :: "string \<Rightarrow> string" where
  "phaseCredentialsMountPath phase = ''/etc/kubernaut-agent/phase-credentials/'' @ phase"

definition kaCoreVolumesMounts :: "Kubernaut \<Rightarrow> LLMProfileSpec \<Rightarrow> pod_parts" where
  "kaCoreVolumesMounts kn kaProfile =
     attach (secretVolume ''tls-certs'' (TLSSecretName kn TLSServiceKubernautAgent)) (read_only_mount ''tls-certs'' (InterServiceTLSCertDirFor kn))
     (attach (secretVolume ''llm-credentials'' (llmProfile_CredentialsSecretName kaProfile))
        (read_only_mount ''llm-credentials'' ''/etc/kubernaut-agent/credentials'')
     (attach (configMapVolume ''llm-runtime'' (KubernautAgentLLMRuntimeConfigName kn))
        (read_only_mount ''llm-runtime'' ''/etc/kubernaut-agent/llm-runtime'')
     (attach (configMapVolume ''config'' ''kubernaut-agent-config'') (read_only_mount ''config'' ''/etc/kubernaut-agent'') ([], []))))"

definition kaCoreEnv :: "Kubernaut \<Rightarrow> env_var list" where
  "kaCoreEnv kn = [env_value ''GOOGLE_APPLICATION_CREDENTIALS'' ''/etc/kubernaut-agent/credentials/credentials.json'',
     env_value ''IS_OPENSHIFT'' (if usesOpenShiftServiceCA kn then ''True'' else ''False'')]"

text \<open>The credentials of a second profile, where they are not the ones mounted for the base profile.\<close>

definition append_profile_credentials ::
  "LLMProfileSpec \<Rightarrow> LLMProfileSpec \<Rightarrow> string \<times> string \<Rightarrow> string \<times> string \<Rightarrow> string \<Rightarrow> pod_parts \<Rightarrow> pod_parts" where
  "append_profile_credentials profile base = (\<lambda>(credentialsVolume, credentialsPath) (oauthVolume, oauthPath) role p.
     let secret = llmProfile_CredentialsSecretName profile;
         oauth = llmProfile_OAuth2 profile; baseOAuth = llmProfile_OAuth2 base;
         p1 = (if secret \<noteq> '''' \<and> secret \<noteq> llmProfile_CredentialsSecretName base
               then attach (secretVolume credentialsVolume secret) (read_only_mount credentialsVolume credentialsPath) p else p);
         p2 = (if oAuth2_Enabled oauth \<and> oAuth2_CredentialsSecretRef oauth \<noteq> '''' \<and>
                  (\<not> oAuth2_Enabled baseOAuth \<or> oAuth2_CredentialsSecretRef oauth \<noteq> oAuth2_CredentialsSecretRef baseOAuth)
               then attach (secretVolume oauthVolume (oAuth2_CredentialsSecretRef oauth)) (read_only_mount oauthVolume oauthPath) p1 else p1)
     in if llmTLSMaterialNeedsDedicatedMount profile base then append_llm_tls profile base role p2 else p2)"

definition appendKAWorkflowDiscoveryCredentialMounts :: "Kubernaut \<Rightarrow> LLMProfileSpec \<Rightarrow> pod_parts \<Rightarrow> pod_parts" where
  "appendKAWorkflowDiscoveryCredentialMounts kn kaProfile p =
     (let workflowRef = EffectiveWorkflowDiscoveryLLMProfileRef kn in
      if workflowRef = '''' \<or> workflowRef = EffectiveInvestigationLLMProfileRef kn then p
      else append_profile_credentials (profile_or_zero kn workflowRef) kaProfile
        (phaseCredentialsVolumeName ''workflow_discovery'', phaseCredentialsMountPath ''workflow_discovery'')
        (''workflow-discovery-oauth2'', ''/etc/kubernaut-agent/oauth2/workflow-discovery'') llmTLSRoleWorkflowDiscovery p)"

definition appendKAAlignmentCredentialMounts :: "Kubernaut \<Rightarrow> LLMProfileSpec \<Rightarrow> pod_parts \<Rightarrow> pod_parts" where
  "appendKAAlignmentCredentialMounts kn kaProfile p =
     (if \<not> alignmentCheck_Enabled (kubernautAgent_AlignmentCheck (spec_KubernautAgent (kn_Spec kn))) then p
      else case ResolveLLMProfile kn (EffectiveAlignmentCheckLLMProfileRef kn) of
             None \<Rightarrow> p
           | Some alignmentProfile \<Rightarrow> append_profile_credentials alignmentProfile kaProfile
               (''alignment-credentials'', ''/etc/kubernaut-agent/alignment-credentials'')
               (''alignment-oauth2-credentials'', ''/etc/kubernaut-agent/alignment-oauth2'') llmTLSRoleAlignment p)"

definition kaCredentialVolumesAndMounts :: "Kubernaut \<Rightarrow> LLMProfileSpec \<Rightarrow> pod_parts \<Rightarrow> pod_parts" where
  "kaCredentialVolumesAndMounts kn kaProfile p =
     appendKAAlignmentCredentialMounts kn kaProfile
     (appendKAWorkflowDiscoveryCredentialMounts kn kaProfile
     ((if oAuth2_Enabled (llmProfile_OAuth2 kaProfile)
       then attach (secretVolume ''oauth2-credentials'' (oAuth2_CredentialsSecretRef (llmProfile_OAuth2 kaProfile)))
              (read_only_mount ''oauth2-credentials'' ''/etc/kubernaut-agent/oauth2'')
       else id)
     (append_llm_tls kaProfile kaProfile llmTLSRoleInvestigation p)))"

definition kaServiceAccountTokenVolume :: "volume \<times> volume_mount" where
  "kaServiceAccountTokenVolume =
     (\<lparr>volume_Name = ''sa-token'', volume_Source = ProjectedVolumeSource
        [ServiceAccountTokenProjection ''token'' 3600, ConfigMapProjection ''kube-root-ca.crt'' (same_path ''ca.crt''),
         DownwardAPIProjection [(''namespace'', ''metadata.namespace'')]]\<rparr>,
      read_only_mount ''sa-token'' ''/var/run/secrets/kubernetes.io/serviceaccount'')"

definition agent_parts :: "Kubernaut \<Rightarrow> Kubernaut \<Rightarrow> LLMProfileSpec \<Rightarrow> pod_parts" where
  "agent_parts kn knV2 kaProfile =
     attach (fst kaServiceAccountTokenVolume) (snd kaServiceAccountTokenVolume)
     (appendMCPGatewayOnlyFleetSecretMount knV2 ''/etc/kubernaut-agent''
        (effectiveFleetOAuth2SecretRef (kubernautAgent_Fleet (spec_KubernautAgent (kn_Spec knV2))) '''')
     (kaCredentialVolumesAndMounts kn kaProfile
     (AppendTelemetrySecretMounts (kubernautAgent_Telemetry (spec_KubernautAgent (kn_Spec knV2)))
     (append_monitoring knV2
     (appendInterServiceTLSCAForMonitoringConsumer kn
     (kaCoreVolumesMounts kn kaProfile))))))"

definition scrape_annotations :: "int \<Rightarrow> smap" where
  "scrape_annotations port = [''prometheus.io/scrape'' \<mapsto> ''true'', ''prometheus.io/port'' \<mapsto> show_int port, ''prometheus.io/path'' \<mapsto> ''/metrics'']"

definition KubernautAgentDeployment :: "(string \<Rightarrow> string) \<Rightarrow> Kubernaut \<Rightarrow> Kubernaut \<Rightarrow> kobj go" where
  "KubernautAgentDeployment getenv kn knV2 =
     (let kaProfile = profile_or_zero kn (EffectiveInvestigationLLMProfileRef kn);
          drainSec = (case shutdown_DrainSeconds (kubernautAgent_Shutdown (spec_KubernautAgent (kn_Spec kn))) of None \<Rightarrow> 30 | Some n \<Rightarrow> n)
      in if llmProfile_CredentialsSecretName kaProfile = ''''
         then Inl (Msg ''spec.kubernautAgent.investigation.llmProfileRef's profile must have a non-empty credentialsSecretName'')
         else case agent_parts kn knV2 kaProfile of (volumes, mounts) \<Rightarrow>
           buildDeployment getenv kn (zero_params\<lparr>params_Component := ComponentKubernautAgent, params_ImageName := ''kubernautagent'',
             params_Resources := MergeResources (kubernautAgent_Resources (spec_KubernautAgent (kn_Spec kn))),
             params_VolumeMounts := mounts, params_Volumes := volumes, params_Env := kaCoreEnv kn, params_ProbePort := PortHealthProbe,
             params_Args := [''-config'', ''/etc/kubernaut-agent/config.yaml'', ''-llm-runtime'',
               ''/etc/kubernaut-agent/llm-runtime/llm-runtime.yaml''],
             params_Ports := [tcp_port ''https'' PortHTTPS, tcp_port ''health'' PortHealthProbe, tcp_port ''metrics'' PortMetrics],
             params_PodAnnotations := scrape_annotations 9090,
             params_TerminationGracePeriodSeconds := Some (drainSec + 5)\<rparr>))"

subsection \<open>Webhook, frontend and metadata cache\<close>

definition authwebhook_parts :: "Kubernaut \<Rightarrow> pod_parts" where
  "authwebhook_parts kn =
     appendInterServiceTLSCA kn
     (attach (secretVolume ''webhook-certs'' (TLSSecretName kn TLSServiceAuthWebhook))
        (read_only_mount ''webhook-certs'' ''/tmp/k8s-webhook-server/serving-certs'')
     (attach (configMapVolume ''config'' ''authwebhook-config'') (read_only_mount ''config'' ''/etc/authwebhook'') ([], [])))"

definition AuthWebhookDeployment :: "(string \<Rightarrow> string) \<Rightarrow> Kubernaut \<Rightarrow> Kubernaut \<Rightarrow> kobj go" where
  "AuthWebhookDeployment getenv kn knV2 =
     (case authwebhook_parts kn of (volumes, mounts) \<Rightarrow>
        buildDeployment getenv kn (zero_params\<lparr>params_Component := ComponentAuthWebhook, params_ImageName := ''authwebhook'',
          params_Resources := authWebhook_Resources (spec_AuthWebhook (kn_Spec kn)), params_VolumeMounts := mounts, params_Volumes := volumes,
          params_Args := [''-config=/etc/authwebhook/authwebhook.yaml''],
          params_Ports := [tcp_port ''webhook'' PortWebhookServer, tcp_port ''health'' PortHealthProbe] @ controller_ports knV2,
          params_ProbePort := PortHealthProbe, params_Strategy := Some ''Recreate''\<rparr>))"

definition apifrontendBaseVolumesMounts :: "Kubernaut \<Rightarrow> pod_parts" where
  "apifrontendBaseVolumesMounts kn =
     append_monitoring kn
     (attach \<lparr>volume_Name = ''tls-ca'', volume_Source = ConfigMapVolumeSource TrustBundleConfigMapName
          [\<lparr>item_Key = ''service-ca.crt'', item_Path = ''ca.crt''\<rparr>] (Some True)\<rparr> (read_only_mount ''tls-ca'' ''/etc/apifrontend/tls-ca'')
     (attach (secretVolume ''tls-server'' (TLSSecretName kn TLSServiceAPIFrontend)) (read_only_mount ''tls-server'' ''/etc/apifrontend/tls'')
     (attach (configMapVolume ''config'' ''apifrontend-config'') (read_only_mount ''config'' ''/etc/apifrontend'') ([], []))))"

definition append_severity_triage :: "Kubernaut \<Rightarrow> LLMProfileSpec \<Rightarrow> pod_parts \<Rightarrow> pod_parts" where
  "append_severity_triage kn afProfile p =
     (case apiFrontend_SeverityTriage (spec_APIFrontend (kn_Spec kn)) of
        None \<Rightarrow> p
      | Some st \<Rightarrow>
         (case ResolveLLMProfile kn (apiFrontendSeverityTriage_LLMProfileRef st) of
            None \<Rightarrow> p
          | Some stProfile \<Rightarrow>
             (let secret = llmProfile_CredentialsSecretName stProfile;
                  p1 = (if secret \<noteq> '''' \<and> secret \<noteq> llmProfile_CredentialsSecretName afProfile
                        then attach (secretVolume ''severity-triage-credentials'' secret)
                               (read_only_mount ''severity-triage-credentials'' ''/etc/apifrontend/severity-triage-credentials'') p
                        else p)
              in if llmTLSMaterialNeedsDedicatedMount stProfile afProfile
                 then append_llm_tls stProfile afProfile llmTLSRoleSeverityTriage p1 else p1)))"

definition apifrontendCredentialVolumesMounts :: "Kubernaut \<Rightarrow> pod_parts \<Rightarrow> pod_parts" where
  "apifrontendCredentialVolumesMounts kn p =
     (let afProfile = profile_or_zero kn (AFLLMProfileRef kn); secret = llmProfile_CredentialsSecretName afProfile in
      (if oAuth2_Enabled (llmProfile_OAuth2 afProfile)
       then attach (secretVolume ''oauth2-credentials'' (oAuth2_CredentialsSecretRef (llmProfile_OAuth2 afProfile)))
              (read_only_mount ''oauth2-credentials'' ''/etc/apifrontend/oauth2'') else id)
      ((if valkey_SecretName (spec_Valkey (kn_Spec kn)) \<noteq> ''''
        then attach (secretVolume ''valkey-secrets'' (valkey_SecretName (spec_Valkey (kn_Spec kn))))
               (read_only_mount ''valkey-secrets'' ''/etc/apifrontend/valkey'') else id)
      (append_severity_triage kn afProfile
      (append_llm_tls afProfile afProfile llmTLSRoleAPIFrontend
      ((if secret \<noteq> '''' then attach (secretVolume ''llm-credentials'' secret) (read_only_mount ''llm-credentials'' ''/etc/apifrontend/llm-credentials'')
        else id) p)))))"

definition apifrontendEnv :: "Kubernaut \<Rightarrow> env_var list" where
  "apifrontendEnv kn = pod_identity_env
     @ (if llmProfile_CredentialsSecretName (profile_or_zero kn (AFLLMProfileRef kn)) \<noteq> ''''
        then [env_value ''GOOGLE_APPLICATION_CREDENTIALS'' ''/etc/apifrontend/llm-credentials/credentials.json''] else [])"

definition apifrontendPorts :: "Kubernaut \<Rightarrow> int \<times> int \<times> int" where
  "apifrontendPorts kn = (PortHTTPS,
     (case apiFrontend_MetricsPort (spec_APIFrontend (kn_Spec kn)) of None \<Rightarrow> PortMetrics | Some p \<Rightarrow> p),
     (case apiFrontend_HealthPort (spec_APIFrontend (kn_Spec kn)) of None \<Rightarrow> PortHealthProbe | Some p \<Rightarrow> p))"

definition apifrontend_parts :: "Kubernaut \<Rightarrow> Kubernaut \<Rightarrow> pod_parts" where
  "apifrontend_parts kn knV2 =
     appendFleetSecretMounts knV2 ''/etc/apifrontend'' (effectiveFleetOAuth2SecretRef (apiFrontend_Fleet (spec_APIFrontend (kn_Spec knV2))) '''')
     (apifrontendCredentialVolumesMounts kn (apifrontendBaseVolumesMounts kn))"

definition APIFrontendDeployment :: "(string \<Rightarrow> string) \<Rightarrow> Kubernaut \<Rightarrow> Kubernaut \<Rightarrow> kobj go" where
  "APIFrontendDeployment getenv kn knV2 =
     (let drainSec = (case shutdown_DrainSeconds (apiFrontend_Shutdown (spec_APIFrontend (kn_Spec kn))) of None \<Rightarrow> 15 | Some n \<Rightarrow> n)
      in case apifrontendPorts kn of (listenPort, metricsPort, healthPort) \<Rightarrow>
         case apifrontend_parts kn knV2 of (volumes, mounts) \<Rightarrow>
           buildDeployment getenv kn (zero_params\<lparr>params_Component := ComponentAPIFrontend, params_ImageName := ''apifrontend'',
             params_Resources := apiFrontend_Resources (spec_APIFrontend (kn_Spec kn)), params_VolumeMounts := mounts,
             params_Volumes := volumes, params_Env := apifrontendEnv kn, params_Args := [''--config=/etc/apifrontend/config.yaml''],
             params_Ports := [tcp_port ''https'' listenPort, tcp_port ''health'' healthPort, tcp_port ''metrics'' metricsPort],
             params_ProbePort := healthPort, params_PodAnnotations := scrape_annotations metricsPort,
             params_TerminationGracePeriodSeconds := Some (drainSec + 5)\<rparr>))"

definition fleetMetadataCacheOAuth2Dir :: string where "fleetMetadataCacheOAuth2Dir = ''/etc/fleetmetadatacache/fleet-oauth2''"

definition fleetMetadataCacheEffectiveOAuth2SecretRef :: "Kubernaut \<Rightarrow> string" where
  "fleetMetadataCacheEffectiveOAuth2SecretRef knV2 =
     effectiveFleetOAuth2SecretRef (fleetMetadataCache_Fleet (spec_FleetMetadataCache (kn_Spec knV2)))
       (fleetOAuth2_CredentialsSecretRef (fleet_OAuth2 (spec_Fleet (kn_Spec knV2))))"

definition metadata_cache_parts :: "Kubernaut \<Rightarrow> Kubernaut \<Rightarrow> pod_parts" where
  "metadata_cache_parts kn knV2 =
     append_valkey_tls kn
     (append_oauth2_trust (spec_Fleet (kn_Spec knV2))
     (appendFleetMCPGatewayCASecretMount (spec_Fleet (kn_Spec knV2))
     (attach (InterServiceTLSCAVolume knV2) (InterServiceTLSCAMount knV2)
     (attach (secretVolume ''tls-certs'' (TLSSecretName knV2 TLSServiceFleetMetadataCache)) (read_only_mount ''tls-certs'' (InterServiceTLSCertDirFor knV2))
     (attach (secretVolume ''fleet-oauth2'' (fleetMetadataCacheEffectiveOAuth2SecretRef knV2)) (read_only_mount ''fleet-oauth2'' fleetMetadataCacheOAuth2Dir)
     (attach (configMapVolume ''config'' ''fleetmetadatacache-config'') (read_only_mount ''config'' ''/etc/fleetmetadatacache'') ([], [])))))))"

definition FleetMetadataCacheDeployment :: "(string \<Rightarrow> string) \<Rightarrow> Kubernaut \<Rightarrow> Kubernaut \<Rightarrow> kobj go" where
  "FleetMetadataCacheDeployment getenv kn knV2 =
     (case metadata_cache_parts kn knV2 of (volumes, mounts) \<Rightarrow>
        buildDeployment getenv kn (zero_params\<lparr>params_Component := ComponentFleetMetadataCache, params_ImageName := ''fleetmetadatacache'',
          params_Resources := fleetMetadataCache_Resources (spec_FleetMetadataCache (kn_Spec knV2)), params_VolumeMounts := mounts,
          params_Volumes := volumes, params_Env := [env_value ''SSL_CERT_FILE'' (InterServiceTLSCAFileFor knV2)],
          params_Args := [''-config=/etc/fleetmetadatacache/config.yaml''],
          params_Ports := [tcp_port ''api'' fleetMetadataCacheAPIPort, tcp_port ''health'' PortHealthProbe, tcp_port ''metrics'' PortMetrics],
          params_ProbePort := PortHealthProbe\<rparr>))"

subsection \<open>What holds of every Deployment\<close>

text \<open>The volumes collected so far have distinct names out of \<open>N\<close>, and every mount names one of them.\<close>

definition sound_parts :: "string set \<Rightarrow> pod_parts \<Rightarrow> bool" where
  "sound_parts N p \<longleftrightarrow> distinct (map volume_Name (fst p)) \<and> set (map volume_Name (fst p)) \<subseteq> N \<and>
     set (map mount_Name (snd p)) \<subseteq> set (map volume_Name (fst p))"

named_theorems parts_rules \<open>rules for the volumes and mounts of a pod\<close>

lemma sound_empty: "sound_parts {} ([], [])"
  by (simp add: sound_parts_def)

lemma sound_weaken: "sound_parts N p \<Longrightarrow> N \<subseteq> M \<Longrightarrow> sound_parts M p"
  by (auto simp: sound_parts_def)

lemma sound_keep: "sound_parts N p \<Longrightarrow> sound_parts (insert n N) p" "sound_parts N p \<Longrightarrow> sound_parts (M \<union> N) p"
  by (auto simp: sound_parts_def)

lemma sound_attach [parts_rules]:
  "volume_Name v = n \<Longrightarrow> mount_Name m = n \<Longrightarrow> n \<notin> N \<Longrightarrow> sound_parts N p \<Longrightarrow> sound_parts (insert n N) (attach v m p)"
  by (auto simp: sound_parts_def attach_def)

lemma sound_attach_if [parts_rules]:
  "volume_Name v = n \<Longrightarrow> mount_Name m = n \<Longrightarrow> n \<notin> N \<Longrightarrow> sound_parts N p \<Longrightarrow> sound_parts (insert n N) (if b then attach v m p else p)"
  "volume_Name v = n \<Longrightarrow> mount_Name m = n \<Longrightarrow> n \<notin> N \<Longrightarrow> sound_parts N p \<Longrightarrow> sound_parts (insert n N) ((if b then attach v m else id) p)"
  by (simp_all add: sound_attach sound_keep)

lemma part_names [simp]:
  "volume_Name (secretVolume n s) = n" "volume_Name (configMapVolume n s) = n" "volume_Name (secretKeyVolume n s k i) = n"
  "volume_Name (emptyDirVolume n) = n" "mount_Name (read_only_mount n d) = n" "mount_Name (writable_mount n d) = n"
  "mount_Name (sub_path_mount n d s) = n" "mount_Name (InterServiceTLSCAMount kn) = ''tls-ca''"
  "volume_Name (data_storage_secrets kn) = ''secrets''" "volume_Name (notification_credentials kn) = ''credentials''"
  by (simp_all add: secretVolume_def configMapVolume_def secretKeyVolume_def emptyDirVolume_def read_only_mount_def writable_mount_def
      sub_path_mount_def InterServiceTLSCAMount_def data_storage_secrets_def notification_credentials_def Let_def)

lemma sound_trust: "sound_parts N p \<Longrightarrow> n \<notin> N \<Longrightarrow> sound_parts (insert n N) (append_trust n dir trust p)"
  by (simp add: append_trust_def sound_attach sound_keep split: option.split)

definition telemetry_volumes :: "string set" where
  "telemetry_volumes = insert ''telemetry-material'' (insert ''telemetry-client'' {''telemetry-ca''})"

lemma telemetry_shape:
  assumes "sound_parts N p" "N \<inter> telemetry_volumes = {}"
    and "volume_Name v1 = ''telemetry-material''" "mount_Name m1 = ''telemetry-material''"
    and "volume_Name v2 = ''telemetry-ca''" "mount_Name m2 = ''telemetry-ca''"
    and "volume_Name v3 = ''telemetry-client''" "mount_Name m3 = ''telemetry-client''"
  shows "sound_parts (telemetry_volumes \<union> N) (if b1 then p else if b2 then attach v1 m1 p
    else if b3 then attach v3 m3 (if b4 then attach v2 m2 p else p) else (if b4 then attach v2 m2 p else p))"
proof -
  have fresh: "''telemetry-material'' \<notin> N" "''telemetry-client'' \<notin> N" "''telemetry-ca'' \<notin> N"
    using assms(2) by (auto simp: telemetry_volumes_def)
  have "sound_parts (insert ''telemetry-material'' N) (attach v1 m1 p)" using assms fresh by (intro sound_attach)
  moreover have "sound_parts (insert ''telemetry-client'' (insert ''telemetry-ca'' N))
      (if b3 then attach v3 m3 (if b4 then attach v2 m2 p else p) else (if b4 then attach v2 m2 p else p))"
    using assms fresh by (intro sound_attach_if) auto
  ultimately show ?thesis using assms(1) by (auto simp: telemetry_volumes_def elim: sound_weaken)
qed

lemma sound_telemetry [parts_rules]:
  "sound_parts N p \<Longrightarrow> N \<inter> telemetry_volumes = {} \<Longrightarrow> sound_parts (telemetry_volumes \<union> N) (AppendTelemetrySecretMounts t p)"
  unfolding AppendTelemetrySecretMounts_def Let_def by (rule telemetry_shape) simp_all

lemma sound_monitoring [parts_rules]:
  "sound_parts N p \<Longrightarrow> ''monitoring-tls'' \<notin> N \<Longrightarrow> sound_parts (insert ''monitoring-tls'' N) (append_monitoring kn p)"
  by (auto simp: append_monitoring_def MonitoringTLSVolume_def MonitoringTLSVolumeMount_def MonitoringTLSCAVolumeName_def
      intro: sound_keep sound_attach split: option.splits)

lemma sound_oauth2: "sound_parts N p \<Longrightarrow> ''fleet-oauth2'' \<notin> N \<Longrightarrow> sound_parts (insert ''fleet-oauth2'' N) (append_oauth2_credentials dir ref p)"
  by (simp add: append_oauth2_credentials_def sound_keep sound_attach)

lemma sound_backend:
  assumes "sound_parts N p" "N \<inter> {''fleet-ca'', ''fleet-token''} = {}"
  shows "sound_parts (insert ''fleet-token'' (insert ''fleet-ca'' N)) (append_backend fleet p)"
  using assms by (simp add: append_backend_def Let_def sound_keep sound_attach sound_trust split: option.splits)

definition fleet_volumes :: "string set" where
  "fleet_volumes = {''fleet-mcp-gateway-ca'', ''fleet-ca'', ''fleet-token'', ''fleet-oauth2-ca'', ''fleet-oauth2''}"

lemma sound_gateway_ca [parts_rules]:
  "sound_parts N p \<Longrightarrow> ''fleet-mcp-gateway-ca'' \<notin> N \<Longrightarrow>
   sound_parts (insert ''fleet-mcp-gateway-ca'' N) (appendFleetMCPGatewayCASecretMount fleet p)"
  by (simp add: appendFleetMCPGatewayCASecretMount_def fleetMCPGatewayCAVolumeName_def sound_trust)

lemma sound_oauth2_ca [parts_rules]:
  "sound_parts N p \<Longrightarrow> ''fleet-oauth2-ca'' \<notin> N \<Longrightarrow> sound_parts (insert ''fleet-oauth2-ca'' N) (append_oauth2_trust fleet p)"
  by (simp add: append_oauth2_trust_def sound_trust)

lemma sound_fleet [parts_rules]:
  assumes "sound_parts N p" "N \<inter> fleet_volumes = {}"
  shows "sound_parts (fleet_volumes \<union> N) (appendFleetSecretMountsVariant knV2 dir ref backend p)"
    "sound_parts (fleet_volumes \<union> N) (appendWorkflowExecutionFleetSecretMount knV2 dir p)"
proof -
  let ?fleet = "spec_Fleet (kn_Spec knV2)"
  have 1: "sound_parts (insert ''fleet-mcp-gateway-ca'' N) (appendFleetMCPGatewayCASecretMount ?fleet p)" (is "sound_parts ?N ?p")
    using assms by (intro sound_gateway_ca) (auto simp: fleet_volumes_def)
  have 2: "sound_parts (insert ''fleet-token'' (insert ''fleet-ca'' ?N)) ((if b then append_backend ?fleet else id) ?p)" for b
    using sound_backend [OF 1, of ?fleet] assms(2) by (cases b) (simp_all add: fleet_volumes_def sound_keep 1)
  have 3: "sound_parts (insert ''fleet-oauth2-ca'' (insert ''fleet-token'' (insert ''fleet-ca'' ?N)))
      (append_oauth2_trust ?fleet ((if b then append_backend ?fleet else id) ?p))" for b
    using assms(2) by (intro sound_oauth2_ca 2) (auto simp: fleet_volumes_def)
  have 4: "sound_parts (fleet_volumes \<union> N) (append_oauth2_credentials dir r (append_oauth2_trust ?fleet ((if b then append_backend ?fleet else id) ?p)))" for b r
    using assms(2) by (intro sound_weaken [OF sound_oauth2 [OF 3]]) (auto simp: fleet_volumes_def)
  show "sound_parts (fleet_volumes \<union> N) (appendFleetSecretMountsVariant knV2 dir ref backend p)"
    using 4 sound_keep(2) [OF assms(1)] unfolding appendFleetSecretMountsVariant_def Let_def
    by (cases "fleet_Enabled ?fleet = Some True") (simp_all only: if_True if_False not_True_eq_False not_False_eq_True HOL.simp_thms)
  show "sound_parts (fleet_volumes \<union> N) (appendWorkflowExecutionFleetSecretMount knV2 dir p)"
    using 4 [where b = False] sound_keep(2) [OF assms(1)]
    by (simp add: appendWorkflowExecutionFleetSecretMount_def Let_def)
qed

lemma sound_valkey [parts_rules]:
  assumes "sound_parts N p" "N \<inter> {''valkey-ca'', ''valkey-client-cert''} = {}"
  shows "sound_parts (insert ''valkey-client-cert'' (insert ''valkey-ca'' N)) (append_valkey_tls kn p)"
  using assms by (simp add: append_valkey_tls_def Let_def sound_keep sound_attach sound_attach_if split: option.splits)

lemma llm_volume_name: "llmTLSMaterialVolumeFor profile base role = Some (v, m) \<Longrightarrow>
  volume_Name v = llmTLSMaterialVolumeName role \<and> mount_Name m = llmTLSMaterialVolumeName role"
  by (auto simp: llmTLSMaterialVolumeFor_def Let_def split: if_splits)

lemma sound_llm_tls [parts_rules]:
  "sound_parts N p \<Longrightarrow> llmTLSMaterialVolumeName role \<notin> N \<Longrightarrow>
   sound_parts (insert (llmTLSMaterialVolumeName role) N) (append_llm_tls profile base role p)"
  by (auto simp: append_llm_tls_def dest!: llm_volume_name intro: sound_keep sound_attach split: option.splits)

lemma sound_profile_credentials [parts_rules]:
  assumes "sound_parts N p" and "c \<notin> N" "o2 \<notin> insert c N" "llmTLSMaterialVolumeName role \<notin> insert o2 (insert c N)"
  shows "sound_parts (insert (llmTLSMaterialVolumeName role) (insert o2 (insert c N)))
    (append_profile_credentials profile base (c, cp) (o2, op) role p)"
proof -
  have "sound_parts (insert o2 (insert c N)) (if b2 then attach (secretVolume o2 s2) (read_only_mount o2 op)
      (if b1 then attach (secretVolume c s1) (read_only_mount c cp) p else p) else
      (if b1 then attach (secretVolume c s1) (read_only_mount c cp) p else p))" for b1 b2 s1 s2
    using assms by (intro sound_attach_if) simp_all
  then show ?thesis using assms(4) unfolding append_profile_credentials_def Let_def prod.case
    by (simp add: sound_llm_tls sound_keep)
qed

lemma llm_volume_names [simp]:
  "llmTLSMaterialVolumeName llmTLSRoleWorkflowDiscovery = ''workflow-discovery-llm-tls-client''"
  "llmTLSMaterialVolumeName llmTLSRoleAlignment = ''alignment-llm-tls-client''"
  "llmTLSMaterialVolumeName llmTLSRoleInvestigation = ''llm-tls-client''"
  "llmTLSMaterialVolumeName llmTLSRoleAPIFrontend = ''llm-tls-client''"
  "llmTLSMaterialVolumeName llmTLSRoleSeverityTriage = ''severity-triage-llm-tls-client''"
  by (simp_all add: llmTLSMaterialVolumeName_def llm_roles)

definition workflow_discovery_volumes :: "string set" where
  "workflow_discovery_volumes =
     insert ''workflow-discovery-llm-tls-client'' (insert ''workflow-discovery-oauth2'' {''phase-credentials-workflow_discovery''})"

definition alignment_volumes :: "string set" where
  "alignment_volumes = insert ''alignment-llm-tls-client'' (insert ''alignment-oauth2-credentials'' {''alignment-credentials''})"

lemma sound_workflow_discovery:
  assumes "sound_parts N p" "N \<inter> workflow_discovery_volumes = {}"
  shows "sound_parts (workflow_discovery_volumes \<union> N) (appendKAWorkflowDiscoveryCredentialMounts kn profile p)"
  using sound_profile_credentials [OF assms(1), of "''phase-credentials-workflow_discovery''" "''workflow-discovery-oauth2''" llmTLSRoleWorkflowDiscovery]
    assms
  by (simp add: sound_keep appendKAWorkflowDiscoveryCredentialMounts_def workflow_discovery_volumes_def phaseCredentialsVolumeName_def Let_def)

lemma sound_alignment:
  assumes "sound_parts N p" "N \<inter> alignment_volumes = {}"
  shows "sound_parts (alignment_volumes \<union> N) (appendKAAlignmentCredentialMounts kn profile p)"
  using sound_profile_credentials [OF assms(1), of "''alignment-credentials''" "''alignment-oauth2-credentials''" llmTLSRoleAlignment]
    assms
  by (simp add: sound_keep appendKAAlignmentCredentialMounts_def alignment_volumes_def Let_def split: option.split)

lemma sound_severity_triage:
  assumes "sound_parts N p" "''severity-triage-credentials'' \<notin> N" "''severity-triage-llm-tls-client'' \<notin> N"
  shows "sound_parts (insert ''severity-triage-llm-tls-client'' (insert ''severity-triage-credentials'' N)) (append_severity_triage kn profile p)"
proof -
  have 1: "sound_parts (insert ''severity-triage-credentials'' N) (if b then attach (secretVolume ''severity-triage-credentials'' s)
      (read_only_mount ''severity-triage-credentials'' d) p else p)" for b s d
    using assms by (intro sound_attach_if) simp_all
  have "sound_parts (insert ''severity-triage-llm-tls-client'' (insert ''severity-triage-credentials'' N))
      (append_llm_tls pr base llmTLSRoleSeverityTriage (if b then attach (secretVolume ''severity-triage-credentials'' s)
      (read_only_mount ''severity-triage-credentials'' d) p else p))" for pr base b s d
    using sound_llm_tls [OF 1, of llmTLSRoleSeverityTriage] assms by simp
  then show ?thesis using 1 sound_keep(1) [OF sound_keep(1) [OF assms(1)]]
    by (simp add: append_severity_triage_def Let_def sound_keep split: option.split)
qed


text \<open>The volumes each pod can have, and that they are put together soundly.\<close>

lemmas appends = appendFleetSecretMounts_def appendMCPGatewayOnlyFleetSecretMount_def appendInterServiceTLSCA_def
  appendInterServiceTLSCAForMonitoringConsumer_def

definition agent_volumes :: "string set" where
  "agent_volumes = insert ''sa-token'' (fleet_volumes \<union> (alignment_volumes \<union> (workflow_discovery_volumes \<union>
     insert ''oauth2-credentials'' (insert ''llm-tls-client'' (telemetry_volumes \<union> insert ''monitoring-tls'' (insert ''tls-ca''
       (insert ''tls-certs'' (insert ''llm-credentials'' (insert ''llm-runtime'' {''config''})))))))))"

lemmas volume_sets = fleet_volumes_def telemetry_volumes_def workflow_discovery_volumes_def alignment_volumes_def agent_volumes_def

lemma sound_gateway_parts:
  "sound_parts (telemetry_volumes \<union> (fleet_volumes \<union> {''tls-ca'', ''tls-certs'', ''config''})) (gateway_parts kn knV2)"
  unfolding gateway_parts_def appends by (intro sound_telemetry sound_fleet sound_attach sound_empty) (auto simp: volume_sets)

lemma sound_data_storage_parts:
  "sound_parts (telemetry_volumes \<union> {''signing-cert'', ''valkey-client-cert'', ''valkey-ca'', ''data'', ''tmp'', ''tls-ca'', ''tls-certs'', ''secrets'', ''config''})
     (AppendTelemetrySecretMounts t (dataStorageVolumesAndMounts kn))"
  unfolding dataStorageVolumesAndMounts_def appends by (intro sound_telemetry sound_valkey sound_attach sound_empty) (auto simp: volume_sets)

lemma sound_controller_parts:
  "sound_parts (fleet_volumes \<union> {''tls-ca'', ''proactive-mappings'', ''policy'', ''config''}) (signal_processing_parts kn knV2)"
  "sound_parts (fleet_volumes \<union> {''tls-ca'', ''config''}) (orchestrator_parts kn knV2)"
  "sound_parts (fleet_volumes \<union> {''tls-ca'', ''config''}) (workflow_parts kn knV2)"
  "sound_parts {''tls-ca'', ''credentials'', ''notification-output'', ''routing-config'', ''config''} (notification_parts kn)"
  "sound_parts {''tls-ca'', ''webhook-certs'', ''config''} (authwebhook_parts kn)"
  unfolding signal_processing_parts_def orchestrator_parts_def workflow_parts_def notification_parts_def authwebhook_parts_def appends
  by (intro sound_fleet sound_attach sound_empty; auto simp: volume_sets)+

lemma sound_monitor_parts:
  "sound_parts (fleet_volumes \<union> {''monitoring-tls'', ''tls-ca'', ''service-ca'', ''config''}) (monitor_parts kn knV2)"
  unfolding monitor_parts_def appends
  by (intro sound_fleet sound_monitoring sound_attach_if(2) sound_attach sound_empty) (auto simp: volume_sets)

lemma sound_base_tls:
  assumes "sound_parts N p" "''llm-tls-client'' \<notin> N"
  shows "sound_parts (insert ''llm-tls-client'' N) (append_llm_tls profile base llmTLSRoleInvestigation p)"
    "sound_parts (insert ''llm-tls-client'' N) (append_llm_tls profile base llmTLSRoleAPIFrontend p)"
  using sound_llm_tls [OF assms(1), of llmTLSRoleInvestigation] sound_llm_tls [OF assms(1), of llmTLSRoleAPIFrontend] assms(2)
  by simp_all

lemma sound_agent_parts: "sound_parts agent_volumes (agent_parts kn knV2 profile)"
  unfolding agent_parts_def kaCredentialVolumesAndMounts_def kaCoreVolumesMounts_def appends agent_volumes_def
  by (intro sound_fleet sound_monitoring sound_alignment sound_workflow_discovery sound_base_tls sound_telemetry sound_attach_if(2)
      sound_attach sound_empty)
    (auto simp: volume_sets kaServiceAccountTokenVolume_def)

lemma sound_frontend_parts:
  "sound_parts (fleet_volumes \<union> {''oauth2-credentials'', ''valkey-secrets'', ''severity-triage-llm-tls-client'',
     ''severity-triage-credentials'', ''llm-tls-client'', ''llm-credentials'', ''monitoring-tls'', ''tls-ca'', ''tls-server'', ''config''})
     (apifrontend_parts kn knV2)"
  unfolding apifrontend_parts_def apifrontendCredentialVolumesMounts_def apifrontendBaseVolumesMounts_def appends Let_def
  by (intro sound_fleet sound_monitoring sound_severity_triage sound_base_tls sound_attach_if(2) sound_attach sound_empty)
    (auto simp: volume_sets)

lemma sound_metadata_cache_parts:
  "sound_parts {''valkey-client-cert'', ''valkey-ca'', ''fleet-oauth2-ca'', ''fleet-mcp-gateway-ca'', ''tls-ca'', ''tls-certs'', ''fleet-oauth2'', ''config''}
     (metadata_cache_parts kn knV2)"
  unfolding metadata_cache_parts_def appends
  by (intro sound_valkey sound_oauth2_ca sound_gateway_ca sound_attach sound_empty) auto

text \<open>A Deployment that the cluster accepts and that is run hardened: the pod meets the restricted standard, the volumes have distinct
  names and resolve every mount, the selector selects the pods, and every probe asks a declared port.\<close>

definition probes_declared :: "container \<Rightarrow> bool" where
  "probes_declared c \<longleftrightarrow> list_all (\<lambda>p. case p of None \<Rightarrow> True | Some q \<Rightarrow> probe_Port q \<in> set (map containerPort_Port (container_Ports c)))
     [container_LivenessProbe c, container_ReadinessProbe c, container_StartupProbe c]"

definition well_formed_deployment :: "kobj \<Rightarrow> bool" where
  "well_formed_deployment dep \<longleftrightarrow> obj_Kind dep = ''Deployment'' \<and>
     (case obj_Body dep of
        DeploymentBody replicas ready labels annotations spec \<Rightarrow>
          restricted_pod (deployment_Pod spec) \<and> mounts_resolved (deployment_Pod spec) \<and>
          distinct (map volume_Name (pod_Volumes (deployment_Pod spec))) \<and> deployment_Selector spec \<subseteq>\<^sub>m labels \<and>
          list_all probes_declared (pod_Containers (deployment_Pod spec))
      | _ \<Rightarrow> False)"

definition hardened_init :: "string list \<Rightarrow> container \<Rightarrow> bool" where
  "hardened_init names c \<longleftrightarrow> container_SecurityContext c = ContainerSecurityContext \<and>
     list_all (\<lambda>m. mount_Name m \<in> set names) (container_VolumeMounts c)"

lemma selector_selects: "SelectorLabels component \<subseteq>\<^sub>m ComponentLabels kn component"
  by (simp add: map_le_def SelectorLabels_def ComponentLabels_def)

lemma component_pod_sels [simp]:
  "pod_SecurityContext (component_pod kn p img) = PodSecurityContext" "pod_Volumes (component_pod kn p img) = params_Volumes p"
  "pod_InitContainers (component_pod kn p img) = params_InitContainers p" "pod_Containers (component_pod kn p img) = [main_container kn p img]"
  by (simp_all add: component_pod_def)

lemma main_container_sels [simp]:
  "container_SecurityContext (main_container kn p img) = ContainerSecurityContext"
  "container_VolumeMounts (main_container kn p img) = params_VolumeMounts p" "container_Ports (main_container kn p img) = params_ports p"
  by (simp_all add: main_container_def split: prod.split)

lemma params_ports_nonempty [simp]: "params_ports p \<noteq> []"
  by (simp add: params_ports_def)

lemma main_container_probes:
  assumes "params_ProbePort p \<noteq> 0 \<longrightarrow> params_ProbePort p \<in> set (map containerPort_Port (params_ports p))"
  shows "probes_declared (main_container kn p img)"
  using assms by (auto simp: probes_declared_def main_container_def buildDeploymentProbes_def http_probe_def Let_def
      split: prod.split option.split if_splits)

lemma buildDeployment_well_formed:
  assumes "buildDeployment getenv kn p = Inr dep"
    and sound: "sound_parts N (params_Volumes p, params_VolumeMounts p)"
    and init: "list_all (hardened_init (map volume_Name (params_Volumes p))) (params_InitContainers p)"
    and probe: "params_ProbePort p \<noteq> 0 \<longrightarrow> params_ProbePort p \<in> set (map containerPort_Port (params_ports p))"
  shows "well_formed_deployment dep"
proof -
  have "restricted_pod (component_pod kn p img)" for img
    using init by (simp add: restricted_pod_def PodSecurityContext_def ContainerSecurityContext_def hardened_init_def list_all_iff)
  moreover have "mounts_resolved (component_pod kn p img)" for img
    using init sound by (auto simp: mounts_resolved_def hardened_init_def sound_parts_def list_all_iff)
  ultimately show ?thesis
    using assms(1) sound main_container_probes [OF probe] selector_selects
    by (auto simp: buildDeployment_def well_formed_deployment_def sound_parts_def split: sum.splits)
qed

subsection \<open>Every builder\<close>

lemma init_containers_hardened:
  "dataStorageInitContainer getenv lookup kn = Inr c \<Longrightarrow> hardened_init names c"
  "''tls-ca'' \<in> set names \<Longrightarrow> ''aap-ca'' \<in> set names \<Longrightarrow> ''combined-ca'' \<in> set names \<Longrightarrow> hardened_init names (ansible_ca_container kn img)"
  "''service-ca'' \<in> set names \<Longrightarrow> hardened_init names (wait_for_service_ca kn img)"
  by (auto simp: dataStorageInitContainer_def ansible_ca_container_def wait_for_service_ca_def hardened_init_def zero_container_def
      split: sum.splits)

lemmas port_lists = params_ports_def tcp_port_def controller_ports_def pprofContainerPort_def

lemma GatewayDeployment_well_formed: "GatewayDeployment getenv kn knV2 = Inr dep \<Longrightarrow> well_formed_deployment dep"
  using sound_gateway_parts [of kn knV2] unfolding GatewayDeployment_def
  by (auto elim!: buildDeployment_well_formed simp: zero_params_def port_lists split: prod.splits)

lemma DataStorageDeployment_well_formed: "DataStorageDeployment getenv lookup kn = Inr dep \<Longrightarrow> well_formed_deployment dep"
  using sound_data_storage_parts [of "dataStorage_Telemetry (spec_DataStorage (kn_Spec kn))" kn] unfolding DataStorageDeployment_def
  by (auto elim!: buildDeployment_well_formed simp: zero_params_def port_lists init_containers_hardened split: prod.splits sum.splits)

lemma controllers_well_formed:
  "AIAnalysisDeployment getenv kn knV2 = Inr dep \<Longrightarrow> well_formed_deployment dep"
  "SignalProcessingDeployment getenv kn knV2 = Inr dep \<Longrightarrow> well_formed_deployment dep"
  "RemediationOrchestratorDeployment getenv kn knV2 = Inr dep \<Longrightarrow> well_formed_deployment dep"
  "NotificationDeployment getenv kn knV2 = Inr dep \<Longrightarrow> well_formed_deployment dep"
  "AuthWebhookDeployment getenv kn knV2 = Inr dep \<Longrightarrow> well_formed_deployment dep"
proof -
  have "sound_parts {''tls-ca'', ''rego-policies'', ''config''} (appendInterServiceTLSCA kn
      (attach (configMapVolume ''rego-policies'' (AIAnalysisPolicyName kn)) (read_only_mount ''rego-policies'' ''/etc/aianalysis/policies'')
      (attach (configMapVolume ''config'' ''aianalysis-config'') (read_only_mount ''config'' ''/etc/aianalysis'') ([], []))))"
    unfolding appends by (intro sound_attach sound_empty) auto
  then show "AIAnalysisDeployment getenv kn knV2 = Inr dep \<Longrightarrow> well_formed_deployment dep"
    unfolding AIAnalysisDeployment_def
    by (auto elim!: buildDeployment_well_formed simp: zero_params_def port_lists split: prod.splits)
  show "SignalProcessingDeployment getenv kn knV2 = Inr dep \<Longrightarrow> well_formed_deployment dep"
    using sound_controller_parts(1) [of kn knV2] unfolding SignalProcessingDeployment_def
    by (auto elim!: buildDeployment_well_formed simp: zero_params_def port_lists split: prod.splits)
  show "RemediationOrchestratorDeployment getenv kn knV2 = Inr dep \<Longrightarrow> well_formed_deployment dep"
    using sound_controller_parts(2) [of kn knV2] unfolding RemediationOrchestratorDeployment_def
    by (auto elim!: buildDeployment_well_formed simp: zero_params_def port_lists split: prod.splits)
  show "NotificationDeployment getenv kn knV2 = Inr dep \<Longrightarrow> well_formed_deployment dep"
    using sound_controller_parts(4) [of kn] unfolding NotificationDeployment_def
    by (auto elim!: buildDeployment_well_formed simp: zero_params_def port_lists split: prod.splits)
  show "AuthWebhookDeployment getenv kn knV2 = Inr dep \<Longrightarrow> well_formed_deployment dep"
    using sound_controller_parts(5) [of kn] unfolding AuthWebhookDeployment_def
    by (auto elim!: buildDeployment_well_formed simp: zero_params_def port_lists split: prod.splits)
qed

lemma sound_ansible_ca:
  assumes "sound_parts N p" "N \<inter> {''aap-ca'', ''combined-ca''} = {}" "''tls-ca'' \<in> set (map volume_Name (fst p))"
  shows "sound_parts ({''aap-ca'', ''combined-ca''} \<union> N) (ansible_ca_parts ref p)"
    "list_all (hardened_init (map volume_Name (fst (ansible_ca_parts ref p)))) [ansible_ca_container kn img]"
  using assms init_containers_hardened(2) by (auto simp: sound_parts_def ansible_ca_parts_def)

lemma workflow_parts_ca: "''tls-ca'' \<in> set (map volume_Name (fst (workflow_parts kn knV2)))"
proof -
  have keep: "set (map volume_Name (fst p)) \<subseteq> set (map volume_Name (fst (appendWorkflowExecutionFleetSecretMount knV2 dir p)))" for dir p
    by (auto simp: appendWorkflowExecutionFleetSecretMount_def append_oauth2_credentials_def append_oauth2_trust_def append_trust_def
        appendFleetMCPGatewayCASecretMount_def attach_def Let_def split: option.splits)
  show ?thesis unfolding workflow_parts_def by (rule subsetD [OF keep]) (simp add: appends attach_def)
qed

lemma workflow_build:
  assumes "buildDeployment getenv kn (workflow_params kn knV2 p cs) = Inr dep"
    and "sound_parts N p" and "list_all (hardened_init (map volume_Name (fst p))) cs"
  shows "well_formed_deployment dep"
  using assms by (auto elim!: buildDeployment_well_formed simp: workflow_params_def zero_params_def port_lists)

lemma WorkflowExecutionDeployment_well_formed: "WorkflowExecutionDeployment getenv kn knV2 = Inr dep \<Longrightarrow> well_formed_deployment dep"
proof -
  assume build: "WorkflowExecutionDeployment getenv kn knV2 = Inr dep"
  let ?p = "workflow_parts kn knV2"
  have sound: "sound_parts (fleet_volumes \<union> {''tls-ca'', ''config''}) ?p" by (rule sound_controller_parts)
  have with_ca: "sound_parts ({''aap-ca'', ''combined-ca''} \<union> (fleet_volumes \<union> {''tls-ca'', ''config''})) (ansible_ca_parts ref ?p)"
    "list_all (hardened_init (map volume_Name (fst (ansible_ca_parts ref ?p)))) [ansible_ca_container kn img]" for ref img
    using sound_ansible_ca [OF sound _ workflow_parts_ca] by (auto simp: fleet_volumes_def)
  show ?thesis using build workflow_build [OF _ sound] workflow_build [OF _ with_ca]
    by (auto simp: WorkflowExecutionDeployment_def Let_def split: option.splits sum.splits)
qed

lemma monitor_parts_ca: "usesOpenShiftServiceCA kn \<Longrightarrow> ''service-ca'' \<in> set (map volume_Name (fst (monitor_parts kn knV2)))"
  by (auto simp: monitor_parts_def appends appendFleetSecretMountsVariant_def append_oauth2_credentials_def append_oauth2_trust_def
      append_trust_def appendFleetMCPGatewayCASecretMount_def append_monitoring_def attach_def Let_def split: option.splits)

lemma EffectivenessMonitorDeployment_well_formed: "EffectivenessMonitorDeployment getenv kn knV2 = Inr dep \<Longrightarrow> well_formed_deployment dep"
proof -
  assume build: "EffectivenessMonitorDeployment getenv kn knV2 = Inr dep"
  obtain cs where cs: "monitor_init getenv kn = Inr cs"
    using build by (auto simp: EffectivenessMonitorDeployment_def split: sum.splits)
  have "list_all (hardened_init (map volume_Name (fst (monitor_parts kn knV2)))) cs"
    using cs monitor_parts_ca [of kn knV2] init_containers_hardened(3)
    by (cases "ResolveImage getenv kn ''init-ubi-minimal''") (auto simp: monitor_init_def split: if_splits)
  then show ?thesis
    using build cs sound_monitor_parts [of kn knV2] unfolding EffectivenessMonitorDeployment_def
    by (auto elim!: buildDeployment_well_formed simp: zero_params_def port_lists split: prod.splits)
qed

lemma agent_frontend_cache_well_formed:
  "KubernautAgentDeployment getenv kn knV2 = Inr dep \<Longrightarrow> well_formed_deployment dep"
  "APIFrontendDeployment getenv kn knV2 = Inr dep \<Longrightarrow> well_formed_deployment dep"
  "FleetMetadataCacheDeployment getenv kn knV2 = Inr dep \<Longrightarrow> well_formed_deployment dep"
proof -
  show "KubernautAgentDeployment getenv kn knV2 = Inr dep \<Longrightarrow> well_formed_deployment dep"
    using sound_agent_parts [of kn knV2 "profile_or_zero kn (EffectiveInvestigationLLMProfileRef kn)"]
    unfolding KubernautAgentDeployment_def Let_def
    by (auto elim!: buildDeployment_well_formed simp: zero_params_def port_lists split: prod.splits if_splits)
  show "APIFrontendDeployment getenv kn knV2 = Inr dep \<Longrightarrow> well_formed_deployment dep"
    using sound_frontend_parts [of kn knV2] unfolding APIFrontendDeployment_def Let_def
    by (auto elim!: buildDeployment_well_formed simp: zero_params_def port_lists split: prod.splits)
  show "FleetMetadataCacheDeployment getenv kn knV2 = Inr dep \<Longrightarrow> well_formed_deployment dep"
    using sound_metadata_cache_parts [of kn knV2] unfolding FleetMetadataCacheDeployment_def
    by (auto elim!: buildDeployment_well_formed simp: zero_params_def port_lists split: prod.splits)
qed


definition component_builders :: "(string \<Rightarrow> string) \<Rightarrow> (string \<Rightarrow> string list) \<Rightarrow> (Kubernaut \<Rightarrow> Kubernaut \<Rightarrow> kobj go) list" where
  "component_builders getenv lookup =
     [\<lambda>kn knV2. DataStorageDeployment getenv lookup kn, AIAnalysisDeployment getenv, SignalProcessingDeployment getenv,
      RemediationOrchestratorDeployment getenv, WorkflowExecutionDeployment getenv, EffectivenessMonitorDeployment getenv,
      NotificationDeployment getenv, KubernautAgentDeployment getenv, AuthWebhookDeployment getenv, GatewayDeployment getenv,
      APIFrontendDeployment getenv, FleetMetadataCacheDeployment getenv]"

lemmas builders_well_formed = DataStorageDeployment_well_formed GatewayDeployment_well_formed controllers_well_formed
  WorkflowExecutionDeployment_well_formed EffectivenessMonitorDeployment_well_formed agent_frontend_cache_well_formed


lemma gateway_builds: "\<exists>dep. GatewayDeployment (\<lambda>_. ''img'') sample_kn sample_kn = Inr dep"
  by (simp add: GatewayDeployment_def buildDeployment_def ResolveImage_def related_image_def zero_params_def Let_def zero_Kubernaut_def
      zero_KubernautSpec_def zero_ImageSpec_def split: prod.split)


subsection \<open>A volume name the cluster rejects\<close>

text \<open>A volume is named by a DNS-1123 label.\<close>

definition label_char :: "char \<Rightarrow> bool" where
  "label_char c \<longleftrightarrow> (let n = of_char c :: nat in 97 \<le> n \<and> n \<le> 122 \<or> 48 \<le> n \<and> n \<le> 57)"

definition dns_label :: "string \<Rightarrow> bool" where
  "dns_label s \<longleftrightarrow> s \<noteq> '''' \<and> length s \<le> 63 \<and> list_all (\<lambda>c. label_char c \<or> c = CHR ''-'') s \<and> label_char (hd s) \<and> label_char (last s)"

definition deployment_volumes :: "kobj \<Rightarrow> string list" where
  "deployment_volumes dep = (case obj_Body dep of
     DeploymentBody _ _ _ _ spec \<Rightarrow> map volume_Name (pod_Volumes (deployment_Pod spec)) | _ \<Rightarrow> [])"

lemma attach_names: "set (map volume_Name (fst p)) \<subseteq> set (map volume_Name (fst (attach v m p)))"
  by (auto simp: attach_def)

lemma fleet_names: "set (map volume_Name (fst p)) \<subseteq> set (map volume_Name (fst (appendFleetSecretMountsVariant knV2 dir ref b p)))"
  by (auto simp: appendFleetSecretMountsVariant_def append_oauth2_credentials_def append_oauth2_trust_def append_trust_def append_backend_def
      appendFleetMCPGatewayCASecretMount_def attach_def Let_def split: option.splits)

lemma profile_names:
  "set (map volume_Name (fst p)) \<subseteq> set (map volume_Name (fst (append_profile_credentials profile base c o2 role p)))"
  by (auto simp: append_profile_credentials_def append_llm_tls_def attach_def Let_def split: prod.splits option.splits)

lemma alignment_names: "set (map volume_Name (fst p)) \<subseteq> set (map volume_Name (fst (appendKAAlignmentCredentialMounts kn profile p)))"
  using profile_names [of p] by (auto simp: appendKAAlignmentCredentialMounts_def split: option.splits)

lemma workflow_discovery_credentials_volume:
  assumes "EffectiveWorkflowDiscoveryLLMProfileRef kn \<notin> {'''', EffectiveInvestigationLLMProfileRef kn}"
    and "llmProfile_CredentialsSecretName (profile_or_zero kn (EffectiveWorkflowDiscoveryLLMProfileRef kn))
      \<notin> {'''', llmProfile_CredentialsSecretName profile}"
  shows "''phase-credentials-workflow_discovery'' \<in> set (map volume_Name (fst (appendKAWorkflowDiscoveryCredentialMounts kn profile p)))"
  using assms
  by (auto simp: appendKAWorkflowDiscoveryCredentialMounts_def append_profile_credentials_def append_llm_tls_def phaseCredentialsVolumeName_def
      attach_def Let_def split: option.splits)

text \<open>When workflow discovery uses credentials of its own, the agent's Deployment has a volume whose name contains an underscore.\<close>

lemma agent_volume_name_illegal:
  assumes "KubernautAgentDeployment getenv kn knV2 = Inr dep"
    and "EffectiveWorkflowDiscoveryLLMProfileRef kn \<notin> {'''', EffectiveInvestigationLLMProfileRef kn}"
    and "llmProfile_CredentialsSecretName (profile_or_zero kn (EffectiveWorkflowDiscoveryLLMProfileRef kn))
      \<notin> {'''', llmProfile_CredentialsSecretName (profile_or_zero kn (EffectiveInvestigationLLMProfileRef kn))}"
  shows "\<not> list_all dns_label (deployment_volumes dep)"
proof -
  let ?base = "profile_or_zero kn (EffectiveInvestigationLLMProfileRef kn)" and ?bad = "''phase-credentials-workflow_discovery''"
  have "?bad \<in> set (map volume_Name (fst (kaCredentialVolumesAndMounts kn ?base p)))" for p
    unfolding kaCredentialVolumesAndMounts_def
    by (rule subsetD [OF alignment_names]) (rule workflow_discovery_credentials_volume [OF assms(2,3)])
  then have "?bad \<in> set (map volume_Name (fst (agent_parts kn knV2 ?base)))"
    unfolding agent_parts_def appends by (intro subsetD [OF attach_names] subsetD [OF fleet_names])
  moreover have "deployment_volumes dep = map volume_Name (fst (agent_parts kn knV2 ?base))"
    using assms(1) by (auto simp: KubernautAgentDeployment_def buildDeployment_def deployment_volumes_def Let_def
        split: prod.splits sum.splits if_splits)
  moreover have "\<not> dns_label ?bad" by (simp add: dns_label_def label_char_def)
  ultimately show ?thesis by (auto simp: list_all_iff)
qed


subsection \<open>Services reach the pods\<close>

definition deployment_labels :: "kobj \<Rightarrow> smap" where
  "deployment_labels dep = (case obj_Body dep of DeploymentBody _ _ labels _ _ \<Rightarrow> labels | _ \<Rightarrow> Map.empty)"

definition deployment_ports :: "kobj \<Rightarrow> container_port list" where
  "deployment_ports dep = (case obj_Body dep of
     DeploymentBody _ _ _ _ spec \<Rightarrow> concat (map container_Ports (pod_Containers (deployment_Pod spec))) | _ \<Rightarrow> [])"

definition selects :: "kobj \<Rightarrow> kobj \<Rightarrow> bool" where
  "selects svc dep \<longleftrightarrow> (case obj_Body svc of ServiceBody s \<Rightarrow> service_Selector s \<subseteq>\<^sub>m deployment_labels dep | _ \<Rightarrow> False)"

text \<open>A target port is the name or the number of a port of the pod.\<close>

definition targets_declared :: "container_port list \<Rightarrow> kobj \<Rightarrow> bool" where
  "targets_declared ports svc \<longleftrightarrow> (case obj_Body svc of
     ServiceBody s \<Rightarrow> list_all (\<lambda>p. list_ex (\<lambda>c. port_TargetPort p \<in> {containerPort_Name c, show_int (containerPort_Port c)}) ports) (service_Ports s)
   | _ \<Rightarrow> False)"

definition declared_ports :: "Kubernaut \<Rightarrow> Kubernaut \<Rightarrow> (string \<times> container_port list) list" where
  "declared_ports kn knV2 =
     (let https = tcp_port ''https'' PortHTTPS; health = tcp_port ''health'' PortHealthProbe; metrics = tcp_port ''metrics'' PortMetrics;
          pprof = controller_ports knV2
      in [(ComponentGateway, [https, health, metrics]), (ComponentDataStorage, [https, health, metrics]),
          (ComponentAIAnalysis, [https, metrics, health] @ pprof), (ComponentSignalProcessing, [metrics, health] @ pprof),
          (ComponentRemediationOrchestrator, [health, metrics] @ pprof), (ComponentWorkflowExecution, [metrics, health] @ pprof),
          (ComponentEffectivenessMonitor, [metrics, health] @ pprof), (ComponentNotification, [metrics, health] @ pprof),
          (ComponentKubernautAgent, [https, health, metrics]), (ComponentAuthWebhook, [tcp_port ''webhook'' PortWebhookServer, health] @ pprof),
          (ComponentAPIFrontend, (case apifrontendPorts kn of (l, m, h) \<Rightarrow> [tcp_port ''https'' l, tcp_port ''health'' h, tcp_port ''metrics'' m])),
          (ComponentFleetMetadataCache, [tcp_port ''api'' fleetMetadataCacheAPIPort, health, metrics])])"

lemma declared_at:
  "map_of (declared_ports kn knV2) ComponentGateway = Some [tcp_port ''https'' PortHTTPS, tcp_port ''health'' PortHealthProbe, tcp_port ''metrics'' PortMetrics]"
  "map_of (declared_ports kn knV2) ComponentDataStorage = Some [tcp_port ''https'' PortHTTPS, tcp_port ''health'' PortHealthProbe, tcp_port ''metrics'' PortMetrics]"
  "map_of (declared_ports kn knV2) ComponentAIAnalysis =
     Some ([tcp_port ''https'' PortHTTPS, tcp_port ''metrics'' PortMetrics, tcp_port ''health'' PortHealthProbe] @ controller_ports knV2)"
  "map_of (declared_ports kn knV2) ComponentSignalProcessing = Some ([tcp_port ''metrics'' PortMetrics, tcp_port ''health'' PortHealthProbe] @ controller_ports knV2)"
  "map_of (declared_ports kn knV2) ComponentRemediationOrchestrator = Some ([tcp_port ''health'' PortHealthProbe, tcp_port ''metrics'' PortMetrics] @ controller_ports knV2)"
  "map_of (declared_ports kn knV2) ComponentWorkflowExecution = Some ([tcp_port ''metrics'' PortMetrics, tcp_port ''health'' PortHealthProbe] @ controller_ports knV2)"
  "map_of (declared_ports kn knV2) ComponentEffectivenessMonitor = Some ([tcp_port ''metrics'' PortMetrics, tcp_port ''health'' PortHealthProbe] @ controller_ports knV2)"
  "map_of (declared_ports kn knV2) ComponentNotification = Some ([tcp_port ''metrics'' PortMetrics, tcp_port ''health'' PortHealthProbe] @ controller_ports knV2)"
  "map_of (declared_ports kn knV2) ComponentKubernautAgent = Some [tcp_port ''https'' PortHTTPS, tcp_port ''health'' PortHealthProbe, tcp_port ''metrics'' PortMetrics]"
  "map_of (declared_ports kn knV2) ComponentAuthWebhook = Some ([tcp_port ''webhook'' PortWebhookServer, tcp_port ''health'' PortHealthProbe] @ controller_ports knV2)"
  "map_of (declared_ports kn knV2) ComponentAPIFrontend =
     Some (case apifrontendPorts kn of (l, m, h) \<Rightarrow> [tcp_port ''https'' l, tcp_port ''health'' h, tcp_port ''metrics'' m])"
  "map_of (declared_ports kn knV2) ComponentFleetMetadataCache =
     Some [tcp_port ''api'' fleetMetadataCacheAPIPort, tcp_port ''health'' PortHealthProbe, tcp_port ''metrics'' PortMetrics]"
  by (simp_all add: declared_ports_def Let_def)

definition listens :: "Kubernaut \<Rightarrow> Kubernaut \<Rightarrow> kobj \<Rightarrow> bool" where
  "listens kn knV2 dep \<longleftrightarrow> (\<exists>component. deployment_labels dep ''app'' = Some component \<and>
     map_of (declared_ports kn knV2) component = Some (deployment_ports dep))"

lemma buildDeployment_listens:
  assumes "buildDeployment getenv kn p = Inr dep" and "map_of (declared_ports kn knV2) (params_Component p) = Some (params_ports p)"
  shows "listens kn knV2 dep"
  using assms by (auto simp: buildDeployment_def listens_def deployment_labels_def deployment_ports_def ComponentLabels_def split: sum.splits)

lemma builders_listen:
  "DataStorageDeployment getenv lookup kn = Inr dep \<Longrightarrow> listens kn knV2 dep"
  "AIAnalysisDeployment getenv kn knV2 = Inr dep \<Longrightarrow> listens kn knV2 dep"
  "SignalProcessingDeployment getenv kn knV2 = Inr dep \<Longrightarrow> listens kn knV2 dep"
  "RemediationOrchestratorDeployment getenv kn knV2 = Inr dep \<Longrightarrow> listens kn knV2 dep"
  "WorkflowExecutionDeployment getenv kn knV2 = Inr dep \<Longrightarrow> listens kn knV2 dep"
  "EffectivenessMonitorDeployment getenv kn knV2 = Inr dep \<Longrightarrow> listens kn knV2 dep"
  "NotificationDeployment getenv kn knV2 = Inr dep \<Longrightarrow> listens kn knV2 dep"
  "KubernautAgentDeployment getenv kn knV2 = Inr dep \<Longrightarrow> listens kn knV2 dep"
  "AuthWebhookDeployment getenv kn knV2 = Inr dep \<Longrightarrow> listens kn knV2 dep"
  "GatewayDeployment getenv kn knV2 = Inr dep \<Longrightarrow> listens kn knV2 dep"
  "APIFrontendDeployment getenv kn knV2 = Inr dep \<Longrightarrow> listens kn knV2 dep"
  "FleetMetadataCacheDeployment getenv kn knV2 = Inr dep \<Longrightarrow> listens kn knV2 dep"
  unfolding DataStorageDeployment_def AIAnalysisDeployment_def SignalProcessingDeployment_def RemediationOrchestratorDeployment_def
    WorkflowExecutionDeployment_def workflow_params_def EffectivenessMonitorDeployment_def NotificationDeployment_def
    KubernautAgentDeployment_def AuthWebhookDeployment_def GatewayDeployment_def APIFrontendDeployment_def FleetMetadataCacheDeployment_def Let_def
  by (auto elim!: buildDeployment_listens simp: zero_params_def declared_at params_ports_def split: prod.splits sum.splits option.splits if_splits)

lemma selected_component: "SelectorLabels component \<subseteq>\<^sub>m labels \<longleftrightarrow> labels ''app'' = Some component"
  by (auto simp: SelectorLabels_def map_le_def)

definition service_fits :: "Kubernaut \<Rightarrow> Kubernaut \<Rightarrow> kobj \<Rightarrow> bool" where
  "service_fits kn knV2 svc \<longleftrightarrow> (\<exists>component ports s. obj_Body svc = ServiceBody s \<and> service_Selector s = SelectorLabels component \<and>
     map_of (declared_ports kn knV2) component = Some ports \<and> targets_declared ports svc)"

lemma tls_metadata_body [simp]: "obj_Body (applyTLSServiceMetadata kn c svc) = obj_Body svc"
  by (simp add: applyTLSServiceMetadata_def Let_def split: sum.split)

lemma service_object_fits:
  assumes "map_of (declared_ports kn knV2) component = Some ports" and "obj_Body svc = obj_Body (service_object kn name component sports)"
    and "list_all (\<lambda>p. list_ex (\<lambda>c. port_TargetPort p \<in> {containerPort_Name c, show_int (containerPort_Port c)}) ports) sports"
  shows "service_fits kn knV2 svc"
  using assms by (auto simp: service_fits_def service_object_def targets_declared_def)

lemma services_fit:
  assumes "svc \<in> set (Services kn knV2 @ MetricsServices kn)"
  shows "service_fits kn knV2 svc"
  using assms unfolding Services_def MetricsServices_def
  by (auto simp: apiServices_def metricsServiceDefinitions_def buildService_def authWebhookService_def apiFrontendService_def
      FleetMetadataCacheService_def declared_at ServicePort_def tcp_port_def apifrontendPorts_def Let_def
      intro!: service_object_fits split: if_splits option.split)

text \<open>C38: A pod that a Service selects listens where the Service sends its traffic: for every Service of the platform and every Deployment whose
  pods it selects, each target port of the Service, by name or by number, is a port the pod declares. This covers the ports of the API
  frontend that the custom resource can change.\<close>

theorem services_reach_pods:
  assumes "svc \<in> set (Services kn knV2 @ MetricsServices kn)"
    and "build \<in> set (component_builders getenv lookup)" and "build kn knV2 = Inr dep" and "selects svc dep"
  shows "targets_declared (deployment_ports dep) svc"
proof -
  have "listens kn knV2 dep" using assms(2,3) by (auto simp: component_builders_def intro: builders_listen)
  then obtain component where app: "deployment_labels dep ''app'' = Some component"
    and ports: "map_of (declared_ports kn knV2) component = Some (deployment_ports dep)" by (auto simp: listens_def)
  obtain c ports' s where "obj_Body svc = ServiceBody s" "service_Selector s = SelectorLabels c"
    "map_of (declared_ports kn knV2) c = Some ports'" "targets_declared ports' svc"
    using services_fit [OF assms(1)] by (auto simp: service_fits_def)
  then show ?thesis using assms(4) app ports by (auto simp: selects_def selected_component)
qed

theorem services_reach_pods_witness:
  "\<exists>dep. GatewayDeployment (\<lambda>_. ''img'') sample_kn sample_kn = Inr dep \<and>
     targets_declared (deployment_ports dep) (applyTLSServiceMetadata sample_kn ComponentGateway (buildService sample_kn (hd apiServices)))"
proof -
  obtain dep where dep: "GatewayDeployment (\<lambda>_. ''img'') sample_kn sample_kn = Inr dep" using gateway_builds by blast
  let ?svc = "applyTLSServiceMetadata sample_kn ComponentGateway (buildService sample_kn (hd apiServices))"
  have "?svc \<in> set (Services sample_kn sample_kn @ MetricsServices sample_kn)"
    by (simp add: Services_def apiServices_def GatewayEnabled_def zero_Kubernaut_def zero_KubernautSpec_def zero_GatewaySpec_def deref_or_def)
  moreover have "GatewayDeployment (\<lambda>_. ''img'') \<in> set (component_builders (\<lambda>_. ''img'') (\<lambda>_. []))" by (simp add: component_builders_def)
  moreover have "selects ?svc dep"
    using dep by (auto simp: selects_def GatewayDeployment_def buildDeployment_def deployment_labels_def buildService_def service_object_def
        apiServices_def zero_params_def selector_selects Let_def split: prod.splits sum.splits)
  ultimately show ?thesis
    using services_reach_pods [of ?svc sample_kn sample_kn "GatewayDeployment (\<lambda>_. ''img'')" "\<lambda>_. ''img''" "\<lambda>_. []" dep] dep
    by blast
qed

end
