(* ===== verification/Certificates.thy ===== *)
theory Certificates
  imports Startup_Inputs Go_Net
begin

text \<open>
  Certificates: what the operator demands of the certificate Secrets it is given
  (\<^verbatim>\<open>internal/resources/tls.go\<close>), the cert-manager Issuers and Certificates it asks for when it
  provisions them (\<^verbatim>\<open>internal/resources/tls_certmanager.go\<close>), and the ConfigMaps that publish the CA
  (\<^verbatim>\<open>internal/resources/tlsconfigmaps.go\<close>, \<^verbatim>\<open>trustbundle.go\<close>). The checks of \<^verbatim>\<open>crypto/x509\<close> and
  \<^verbatim>\<open>crypto/tls\<close> that need more than the parsed fields are the record \<open>x509_checks\<close>.
\<close>

record x509_checks =
  x_verify :: "certificate list \<Rightarrow> certificate \<Rightarrow> string \<Rightarrow> bool"
    \<comment> \<open>\<^verbatim>\<open>leaf.Verify\<close> against these roots, for this DNS name and server authentication, gives no error\<close>
  x_verifyHostname :: "certificate \<Rightarrow> string \<Rightarrow> bool"
  x_rsaBits :: "string \<Rightarrow> string \<Rightarrow> nat option" \<comment> \<open>the modulus of the private key of a key pair, when it is an RSA key\<close>

subsection \<open>Parsing\<close>

definition tlsCACertificateKey :: string where "tlsCACertificateKey = ''ca.crt''"
definition TLSCertKey :: string where "TLSCertKey = ''tls.crt''"
definition TLSPrivateKeyKey :: string where "TLSPrivateKeyKey = ''tls.key''"

definition parseCertificate :: "decoders \<Rightarrow> string \<Rightarrow> certificate go" where
  "parseCertificate D data =
     (case d_pemDecode D data of
        None \<Rightarrow> Inl (Msg ''certificate is not PEM encoded'')
      | Some block \<Rightarrow> d_parseCertificate D (pem_Bytes block))"

text \<open>\<open>rest\<close> is the trimmed rest of the bundle.\<close>

function bundle_certificates :: "decoders \<Rightarrow> string \<Rightarrow> certificate list go" where
  "bundle_certificates D rest =
     (if rest = '''' then Inr []
      else case d_pemDecode D rest of
        None \<Rightarrow> Inl (Msg ''certificate bundle is not PEM encoded'')
      | Some block \<Rightarrow>
         if pem_Type block \<noteq> ''CERTIFICATE'' then Inl (Msg (''certificate bundle contains PEM block '' @ pem_Type block))
         else case d_parseCertificate D (pem_Bytes block) of
           Inl e \<Rightarrow> Inl e
         | Inr c \<Rightarrow>
            (case bundle_certificates D (trim_space (drop (Suc (pem_Last block)) rest)) of
               Inl e \<Rightarrow> Inl e
             | Inr cs \<Rightarrow> Inr (c # cs)))"
  by pat_completeness auto
termination
proof (relation "measure (\<lambda>(D, s). length s)", goal_cases)
  case (2 D rest block certificate)
  have "length (trim_space (drop (Suc (pem_Last block)) rest)) \<le> length (drop (Suc (pem_Last block)) rest)"
    by (rule length_trim_space)
  also have "\<dots> < length rest" using 2 by (cases rest) simp_all
  finally show ?case by simp
qed simp

declare bundle_certificates.simps [simp del]

definition parseCertificates :: "decoders \<Rightarrow> string \<Rightarrow> certificate list go" where
  "parseCertificates D data =
     (case bundle_certificates D (trim_space data) of
        Inl e \<Rightarrow> Inl e
      | Inr cs \<Rightarrow> if cs = [] then Inl (Msg ''certificate bundle is empty'') else Inr cs)"

subsection \<open>The CA of the inter-service certificates\<close>

definition ca_material_key :: "kobj \<Rightarrow> string \<Rightarrow> string" where
  "ca_material_key secret source =
     (if source = TLSMaterialSourceCertManager \<and> gget (secret_data secret) TLSCertKey \<noteq> '''' then TLSCertKey
      else tlsCACertificateKey)"

definition internalCAMaterialForSource :: "decoders \<Rightarrow> kobj \<Rightarrow> string \<Rightarrow> (certificate list \<times> string) go" where
  "internalCAMaterialForSource D secret source =
     (let key = ca_material_key secret source;
          data = gget (secret_data secret) key in
      if data = ''''
      then Inl (Msg (if source = TLSMaterialSourceCertManager
             then ''secret '' @ obj_Name secret @ '' is missing ca.crt or tls.crt''
             else ''secret '' @ obj_Name secret @ '' is missing ca.crt''))
      else case parseCertificates D data of
        Inl e \<Rightarrow> Inl (Wrap (''secret '' @ obj_Name secret @ '' '' @ key @ '' is invalid'') e)
      | Inr certificates \<Rightarrow>
         if list_all cert_IsCA certificates then Inr (certificates, data)
         else Inl (Msg (''secret '' @ obj_Name secret @ '' '' @ key @ '' contains a non-CA certificate'')))"

definition InternalCAPEMForSource :: "decoders \<Rightarrow> kobj \<Rightarrow> string \<Rightarrow> string go" where
  "InternalCAPEMForSource D secret source = map_sum id snd (internalCAMaterialForSource D secret source)"

definition ValidateInternalCASecretForSource :: "decoders \<Rightarrow> kobj \<Rightarrow> string \<Rightarrow> go_error option" where
  "ValidateInternalCASecretForSource D secret source =
     (case InternalCAPEMForSource D secret source of Inl e \<Rightarrow> Some e | Inr _ \<Rightarrow> None)"

definition ValidateInternalCASecret :: "decoders \<Rightarrow> kobj \<Rightarrow> go_error option" where
  "ValidateInternalCASecret D secret = ValidateInternalCASecretForSource D secret ''''"

subsection \<open>Serving and signing Secrets\<close>

definition ValidateServingTLSSecret :: "decoders \<Rightarrow> kobj \<Rightarrow> go_error option" where
  "ValidateServingTLSSecret D secret =
     (let crt = gget (secret_data secret) TLSCertKey; key = gget (secret_data secret) TLSPrivateKeyKey in
      if crt = '''' \<or> key = '''' then Some (Msg (''secret '' @ obj_Name secret @ '' must contain tls.crt and tls.key''))
      else map_option (Wrap (''secret '' @ obj_Name secret @ '' contains an invalid TLS key pair'')) (d_x509KeyPair D crt key))"

definition ValidateDataStorageSigningTLSSecret :: "decoders \<Rightarrow> x509_checks \<Rightarrow> kobj \<Rightarrow> go_error option" where
  "ValidateDataStorageSigningTLSSecret D X secret =
     (let crt = gget (secret_data secret) TLSCertKey; key = gget (secret_data secret) TLSPrivateKeyKey in
      if crt = '''' \<or> key = '''' then Some (Msg (''secret '' @ obj_Name secret @ '' must contain tls.crt and tls.key''))
      else case parseCertificate D crt of
        Inl e \<Rightarrow> Some (Wrap (''secret '' @ obj_Name secret @ '' certificate is invalid'') e)
      | Inr _ \<Rightarrow>
         (case d_x509KeyPair D crt key of
            Some e \<Rightarrow> Some (Wrap (''secret '' @ obj_Name secret @ '' private key is invalid'') e)
          | None \<Rightarrow>
             if x_rsaBits X crt key \<noteq> Some 2048
             then Some (Msg (''secret '' @ obj_Name secret @ '' must contain an RSA-2048 private key''))
             else None))"

definition ValidateServingTLSSecretForServiceWithSource ::
  "decoders \<Rightarrow> x509_checks \<Rightarrow> kobj \<Rightarrow> kobj \<Rightarrow> string \<Rightarrow> string \<Rightarrow> string \<Rightarrow> go_error option" where
  "ValidateServingTLSSecretForServiceWithSource D X secret ca serviceKey namespace source =
     (case ValidateServingTLSSecret D secret of
        Some e \<Rightarrow> Some e
      | None \<Rightarrow>
     (case internalCAMaterialForSource D ca source of
        Inl e \<Rightarrow> Some e
      | Inr (caCertificates, _) \<Rightarrow>
     (case parseCertificate D (gget (secret_data secret) TLSCertKey) of
        Inl e \<Rightarrow> Some (Wrap (''secret '' @ obj_Name secret @ '' certificate is invalid'') e)
      | Inr leaf \<Rightarrow>
         if list_ex (x_verify X caCertificates leaf) (TLSServiceDNSNames serviceKey namespace) then None
         else Some (Msg (''secret '' @ obj_Name secret @ '' certificate is not signed by '' @ obj_Name ca @ '' for the '' @
                serviceKey @ '' service DNS names'')))))"

definition ValidateServingTLSSecretForService ::
  "decoders \<Rightarrow> x509_checks \<Rightarrow> kobj \<Rightarrow> kobj \<Rightarrow> string \<Rightarrow> string \<Rightarrow> go_error option" where
  "ValidateServingTLSSecretForService D X secret ca serviceKey namespace =
     ValidateServingTLSSecretForServiceWithSource D X secret ca serviceKey namespace ''''"

definition ValidateAuthWebhookTLSSecret :: "decoders \<Rightarrow> x509_checks \<Rightarrow> kobj \<Rightarrow> string \<Rightarrow> go_error option" where
  "ValidateAuthWebhookTLSSecret D X secret namespace =
     (case ValidateServingTLSSecret D secret of
        Some e \<Rightarrow> Some e
      | None \<Rightarrow>
     (case parseCertificate D (gget (secret_data secret) TLSCertKey) of
        Inl e \<Rightarrow> Some (Wrap (''secret '' @ obj_Name secret @ '' certificate is invalid'') e)
      | Inr certificate \<Rightarrow>
         if list_ex (x_verifyHostname X certificate) (TLSServiceDNSNames TLSServiceAuthWebhook namespace) then None
         else Some (Msg (''secret '' @ obj_Name secret @ '' certificate does not cover AuthWebhook Service DNS names''))))"

definition AuthWebhookCABundle :: "decoders \<Rightarrow> kobj option \<Rightarrow> string go" where
  "AuthWebhookCABundle D secret =
     (let name = (case secret of None \<Rightarrow> '''' | Some s \<Rightarrow> obj_Name s);
          data = (case secret of None \<Rightarrow> '''' | Some s \<Rightarrow> gget (secret_data s) tlsCACertificateKey) in
      if data = '''' then Inl (Msg (''AuthWebhook Secret '' @ name @ '' is missing ca.crt''))
      else case parseCertificates D data of
        Inl e \<Rightarrow> Inl (Wrap (''AuthWebhook Secret '' @ name @ '' has an invalid ca.crt'') e)
      | Inr certificates \<Rightarrow>
         if list_all cert_IsCA certificates then Inr data
         else Inl (Msg (''AuthWebhook Secret '' @ name @ '' ca.crt contains a non-CA certificate'')))"

subsection \<open>The cert-manager objects\<close>

definition defaultCertManagerGroup :: string where "defaultCertManagerGroup = ''cert-manager.io''"

record certManagerTLSLeaf =
  leaf_serviceKey :: string
  leaf_certificateName :: string
  leaf_dnsNameBase :: string
  leaf_secretName :: string

definition certManagerTLSLeaves :: "certManagerTLSLeaf list" where
  "certManagerTLSLeaves =
     [\<lparr>leaf_serviceKey = TLSServiceGateway, leaf_certificateName = ''gateway-tls'', leaf_dnsNameBase = ''gateway-service'',
        leaf_secretName = ''''\<rparr>,
      \<lparr>leaf_serviceKey = TLSServiceDataStorage, leaf_certificateName = ''datastorage-tls'',
        leaf_dnsNameBase = ''data-storage-service'', leaf_secretName = ''''\<rparr>,
      \<lparr>leaf_serviceKey = TLSServiceKubernautAgent, leaf_certificateName = ''kubernautagent-tls'',
        leaf_dnsNameBase = ''kubernaut-agent'', leaf_secretName = ''''\<rparr>,
      \<lparr>leaf_serviceKey = TLSServiceAPIFrontend, leaf_certificateName = ''apifrontend-tls'', leaf_dnsNameBase = ''apifrontend'',
        leaf_secretName = ''''\<rparr>]"

definition certManagerObject :: "Kubernaut \<Rightarrow> string \<Rightarrow> string \<Rightarrow> body \<Rightarrow> kobj" where
  "certManagerObject kn name kind spec = \<lparr>obj_Kind = kind,
     obj_Meta = zero_object_meta\<lparr>meta_Name := name, meta_Namespace := kn_Namespace kn, meta_Labels := CommonLabels kn\<rparr>,
     obj_Body = spec\<rparr>"

definition certManagerIssuer :: "Kubernaut \<Rightarrow> string \<Rightarrow> issuer_spec \<Rightarrow> kobj" where
  "certManagerIssuer kn name spec = certManagerObject kn name ''Issuer'' (IssuerBody spec)"

definition certManagerCertificate :: "Kubernaut \<Rightarrow> string \<Rightarrow> certificate_spec \<Rightarrow> kobj" where
  "certManagerCertificate kn name spec = certManagerObject kn name ''Certificate'' (CertificateBody spec ConditionsAbsent)"

definition internal_issuer :: "string \<Rightarrow> issuer_ref" where
  "internal_issuer name = \<lparr>issuerRef_Name = name, issuerRef_Kind = ''Issuer'', issuerRef_Group = defaultCertManagerGroup\<rparr>"

definition certManagerExternalIssuerRef :: "CertManagerTLSConfig \<Rightarrow> issuer_ref" where
  "certManagerExternalIssuerRef cfg =
     (let issuer = EffectiveIssuerRef (Some cfg) in
      \<lparr>issuerRef_Name = tlsIssuerRef_Name issuer,
       issuerRef_Kind = (if tlsIssuerRef_Kind issuer = '''' then ''ClusterIssuer'' else tlsIssuerRef_Kind issuer),
       issuerRef_Group = firstNonEmpty [tlsIssuerRef_Group issuer, defaultCertManagerGroup]\<rparr>)"

definition certManagerBootstrapResources :: "Kubernaut \<Rightarrow> certManagerProvisioningValues \<Rightarrow> kobj list" where
  "certManagerBootstrapResources kn settings =
     [certManagerIssuer kn (cmp_bootstrapIssuerName settings) SelfSigned,
      certManagerCertificate kn (cmp_caCertificateName settings)
        \<lparr>certSpec_IsCA = True, certSpec_CommonName = cmp_caCertificateName settings,
         certSpec_SecretName = cmp_caSecretName settings, certSpec_Duration = cmp_caDuration settings,
         certSpec_RenewBefore = cmp_renewBefore settings, certSpec_KeyAlgorithm = ''ECDSA'', certSpec_KeySize = 256,
         certSpec_IssuerRef = internal_issuer (cmp_bootstrapIssuerName settings), certSpec_Usages = [],
         certSpec_DNSNames = [], certSpec_IPAddresses = []\<rparr>,
      certManagerIssuer kn (cmp_caIssuerName settings) (CASecret (cmp_caSecretName settings))]"

text \<open>The trimmed extra subject names: addresses, and the others.\<close>

definition extra_names :: "string list \<Rightarrow> string list" where
  "extra_names extraSANs = filter (\<lambda>s. s \<noteq> '''') (map trim_space extraSANs)"

definition extra_addresses :: "string list \<Rightarrow> string list" where
  "extra_addresses extraSANs =
     (let ips = filter ParseIP_ok (extra_names extraSANs) in
      if extraSANs \<noteq> [] \<and> ''127.0.0.1'' \<notin> set ips then ips @ [''127.0.0.1''] else ips)"

definition certManagerLeafCertificate ::
  "Kubernaut \<Rightarrow> certManagerTLSLeaf \<Rightarrow> certManagerProvisioningValues \<Rightarrow> kobj" where
  "certManagerLeafCertificate kn leaf settings = certManagerCertificate kn (leaf_certificateName leaf)
     \<lparr>certSpec_IsCA = False, certSpec_CommonName = '''', certSpec_SecretName = leaf_secretName leaf,
      certSpec_Duration = cmp_duration settings, certSpec_RenewBefore = cmp_renewBefore settings,
      certSpec_KeyAlgorithm = ''ECDSA'', certSpec_KeySize = 256,
      certSpec_IssuerRef = internal_issuer (cmp_caIssuerName settings),
      certSpec_Usages = [''server auth'', ''client auth''],
      certSpec_DNSNames = dns_names (leaf_dnsNameBase leaf) (kn_Namespace kn)
        @ filter (\<lambda>s. \<not> ParseIP_ok s) (extra_names (cmp_extraSANs settings)),
      certSpec_IPAddresses = extra_addresses (cmp_extraSANs settings)\<rparr>"

definition leaf_for :: "smap \<Rightarrow> certManagerTLSLeaf \<Rightarrow> certManagerTLSLeaf" where
  "leaf_for names leaf =
     (case names (leaf_serviceKey leaf) of
        None \<Rightarrow> leaf
      | Some secretName \<Rightarrow> if secretName \<noteq> '''' then leaf\<lparr>leaf_secretName := secretName\<rparr> else leaf)"

definition active_leaves :: "Kubernaut \<Rightarrow> certManagerTLSLeaf list" where
  "active_leaves kn = certManagerTLSLeaves @
     (if FleetMetadataCacheEnabled (kn_Spec kn)
      then [\<lparr>leaf_serviceKey = TLSServiceFleetMetadataCache, leaf_certificateName = FleetMetadataCacheTLSSecretName,
             leaf_dnsNameBase = ''fleetmetadatacache-service'', leaf_secretName = FleetMetadataCacheTLSSecretName\<rparr>]
      else [])"

definition certManagerLeafResources :: "Kubernaut \<Rightarrow> certManagerProvisioningValues \<Rightarrow> kobj list" where
  "certManagerLeafResources kn settings =
     map (\<lambda>leaf. certManagerLeafCertificate kn (leaf_for (cmp_serviceSecretNames settings) leaf) settings) (active_leaves kn)"

definition certManagerAuthWebhookCertificate ::
  "Kubernaut \<Rightarrow> certManagerProvisioningValues \<Rightarrow> issuer_ref \<Rightarrow> kobj" where
  "certManagerAuthWebhookCertificate kn settings issuerRef = certManagerCertificate kn ''authwebhook-cert''
     \<lparr>certSpec_IsCA = False, certSpec_CommonName = '''',
      certSpec_SecretName = mget (cmp_serviceSecretNames settings) TLSServiceAuthWebhook,
      certSpec_Duration = cmp_duration settings, certSpec_RenewBefore = cmp_renewBefore settings,
      certSpec_KeyAlgorithm = ''RSA'', certSpec_KeySize = 2048, certSpec_IssuerRef = issuerRef, certSpec_Usages = [],
      certSpec_DNSNames = dns_names ''authwebhook'' (kn_Namespace kn) @ dns_names ''authwebhook-service'' (kn_Namespace kn),
      certSpec_IPAddresses = []\<rparr>"

definition certManagerSigningCertificate ::
  "Kubernaut \<Rightarrow> certManagerProvisioningValues \<Rightarrow> issuer_ref \<Rightarrow> kobj" where
  "certManagerSigningCertificate kn settings issuerRef = certManagerCertificate kn (cmp_signingCertificateName settings)
     \<lparr>certSpec_IsCA = False, certSpec_CommonName = cmp_signingCertificateName settings,
      certSpec_SecretName = cmp_signingSecretName settings, certSpec_Duration = cmp_duration settings,
      certSpec_RenewBefore = cmp_renewBefore settings, certSpec_KeyAlgorithm = ''RSA'', certSpec_KeySize = 2048,
      certSpec_IssuerRef = issuerRef, certSpec_Usages = [], certSpec_DNSNames = [], certSpec_IPAddresses = []\<rparr>"

definition CertManagerTLSResources :: "Kubernaut \<Rightarrow> kobj list" where
  "CertManagerTLSResources kn =
     (if \<not> CertManagerTLSProvisioningEnabled kn then []
      else case tlsConfig_CertManager (kn_TLS kn) of
        None \<Rightarrow> []
      | Some cfg \<Rightarrow>
         (let settings = certManagerProvisioningValuesFor kn cfg;
              issuerRef = certManagerExternalIssuerRef cfg
          in certManagerBootstrapResources kn settings @ certManagerLeafResources kn settings
             @ [certManagerAuthWebhookCertificate kn settings issuerRef, certManagerSigningCertificate kn settings issuerRef]))"

definition CertManagerBootstrapIssuerNames :: "Kubernaut \<Rightarrow> string list" where
  "CertManagerBootstrapIssuerNames kn =
     (if \<not> CertManagerTLSProvisioningEnabled kn then []
      else case tlsConfig_CertManager (kn_TLS kn) of
        None \<Rightarrow> []
      | Some cfg \<Rightarrow> (let settings = certManagerProvisioningValuesFor kn cfg
                     in [cmp_bootstrapIssuerName settings, cmp_caIssuerName settings]))"

subsection \<open>ConfigMaps with the CA\<close>

definition EffectivenessMonitorServiceCAConfigMapName :: string where
  "EffectivenessMonitorServiceCAConfigMapName = ''effectivenessmonitor-service-ca''"
definition KubernautAgentServiceCAConfigMapName :: string where
  "KubernautAgentServiceCAConfigMapName = ''kubernaut-agent-service-ca''"
definition APIFrontendServiceCAConfigMapName :: string where
  "APIFrontendServiceCAConfigMapName = ''apifrontend-service-ca''"

definition GenericTLSConfigMaps :: "Kubernaut \<Rightarrow> string \<Rightarrow> kobj list" where
  "GenericTLSConfigMaps kn caPEM =
     map (\<lambda>(name, component). \<lparr>obj_Kind = ''ConfigMap'', obj_Meta = ObjectMeta kn name component,
            obj_Body = ConfigMapBody [(''service-ca.crt'', caPEM), (''ca.crt'', caPEM)] []\<rparr>)
       [(InterServiceCAConfigMapName, ''inter-service-tls''),
        (TrustBundleConfigMapName, ''inter-service-tls''),
        (EffectivenessMonitorServiceCAConfigMapName, ComponentEffectivenessMonitor),
        (KubernautAgentServiceCAConfigMapName, ComponentKubernautAgent),
        (APIFrontendServiceCAConfigMapName, ComponentAPIFrontend)]"

definition trustBundleServiceCAKey :: string where "trustBundleServiceCAKey = ''service-ca.crt''"

definition MergeTrustBundle :: "string \<Rightarrow> string \<Rightarrow> string" where
  "MergeTrustBundle serviceCA routerCA =
     join_strings [CHR 0x0A] (filter (\<lambda>s. s \<noteq> '''') [trim_space serviceCA, trim_space routerCA])"

text \<open>The two live reads of the trust bundle are its arguments; either may have failed.\<close>

definition TrustBundleConfigMap :: "string go \<Rightarrow> string go \<Rightarrow> Kubernaut \<Rightarrow> kobj" where
  "TrustBundleConfigMap serviceCARead routerCARead kn =
     (let serviceCA = (case serviceCARead of Inl _ \<Rightarrow> '''' | Inr s \<Rightarrow> s);
          routerCA = (case routerCARead of Inl _ \<Rightarrow> '''' | Inr s \<Rightarrow> s)
      in \<lparr>obj_Kind = ''ConfigMap'', obj_Meta = ObjectMeta kn TrustBundleConfigMapName ''inter-service-tls'',
          obj_Body = ConfigMapBody [(trustBundleServiceCAKey, MergeTrustBundle serviceCA routerCA)] []\<rparr>)"

subsection \<open>What is asked of cert-manager is what is validated later\<close>

lemma internalCAMaterial_all_CA:
  "internalCAMaterialForSource D secret source = Inr (certificates, data) \<Longrightarrow>
     certificates \<noteq> [] \<and> list_all cert_IsCA certificates \<and> data \<noteq> ''''"
  by (auto simp: internalCAMaterialForSource_def parseCertificates_def Let_def split: if_splits sum.splits)

lemma resolved_provisioning:
  assumes "CertManagerTLSProvisioningEnabled kn" and "ResolveTLSMaterial kn = Inr m"
  shows "\<exists>cfg. tlsConfig_CertManager (kn_TLS kn) = Some cfg \<and>
     tlsMaterial_ServiceTLSSecretNames m = cmp_serviceSecretNames (certManagerProvisioningValuesFor kn cfg) \<and>
     tlsMaterial_InternalCASecretName m = cmp_caSecretName (certManagerProvisioningValuesFor kn cfg) \<and>
     tlsMaterial_Source m = TLSMaterialSourceCertManager"
proof -
  have mode: "tlsConfig_Mode (kn_TLS kn) = TLSModeCertManager" "TLSModeCertManager \<noteq> ''''" "TLSModeCertManager \<noteq> TLSModeServiceCA"
    using assms(1) by (simp_all add: CertManagerTLSProvisioningEnabled_def TLSModeCertManager_def TLSModeServiceCA_def split: if_splits)
  obtain cfg where "tlsConfig_CertManager (kn_TLS kn) = Some cfg"
    using assms(1) by (auto simp: CertManagerTLSProvisioningEnabled_def split: if_splits option.splits)
  with mode assms show ?thesis
    by (auto simp: ResolveTLSMaterial_def resolveCertManagerTLS_def Let_def)
qed

text \<open>The leaf of a service key other than AuthWebhook's.\<close>

lemma leaf_of_key:
  assumes "k \<in> set (serving_keys kn)" and "k \<noteq> TLSServiceAuthWebhook"
    and "mget (cmp_serviceSecretNames settings) k = name" and "name \<noteq> ''''"
  shows "\<exists>leaf. certManagerLeafCertificate kn leaf settings \<in> set (certManagerLeafResources kn settings) \<and>
     leaf_secretName leaf = name \<and> dns_names (leaf_dnsNameBase leaf) ns = TLSServiceDNSNames k ns"
proof -
  have named: "cmp_serviceSecretNames settings k = Some name"
    using assms(3,4) by (auto simp: mget_def split: option.splits)
  let ?names = "cmp_serviceSecretNames settings"
  have "\<exists>leaf \<in> set (active_leaves kn). leaf_serviceKey leaf = k \<and> dns_names (leaf_dnsNameBase leaf) ns = TLSServiceDNSNames k ns"
    using assms(1,2)
    by (auto simp: serving_keys_def required_tls_keys_def active_leaves_def certManagerTLSLeaves_def
        TLSServiceDNSNames_def tlsServiceNames_def Let_def)
  then obtain leaf where leaf: "leaf_serviceKey leaf = k" "dns_names (leaf_dnsNameBase leaf) ns = TLSServiceDNSNames k ns"
      "certManagerLeafCertificate kn (leaf_for ?names leaf) settings \<in> set (certManagerLeafResources kn settings)"
    by (auto simp: certManagerLeafResources_def)
  moreover have "leaf_secretName (leaf_for ?names leaf) = name" "leaf_dnsNameBase (leaf_for ?names leaf) = leaf_dnsNameBase leaf"
    using leaf(1) named assms(4) by (simp_all add: leaf_for_def)
  ultimately show ?thesis by (intro exI [of _ "leaf_for ?names leaf"]) simp
qed

definition certificate_for :: "Kubernaut \<Rightarrow> string \<Rightarrow> string \<Rightarrow> certificate_spec \<Rightarrow> bool" where
  "certificate_for kn name k spec \<longleftrightarrow>
     (\<exists>x \<in> set (CertManagerTLSResources kn). obj_Body x = CertificateBody spec ConditionsAbsent \<and> obj_Kind x = ''Certificate'') \<and>
     certSpec_SecretName spec = name \<and> set (TLSServiceDNSNames k (kn_Namespace kn)) \<subseteq> set (certSpec_DNSNames spec)"

text \<open>C16: What cert-manager is asked to issue is what the operator later validates and mounts: when it provisions
  certificates, for each TLS service there is a Certificate that is written to the very Secret the service
  mounts and carries all DNS names of the Service; for every service but AuthWebhook, whose issuer is external,
  it is signed by the issuer whose CA Secret is the one that the inter-service CA is read from.\<close>

theorem provisioned_certificates_cover_services:
  assumes "CertManagerTLSProvisioningEnabled kn" and "ResolveTLSMaterial kn = Inr m" and "k \<in> set (serving_keys kn)"
  shows "\<exists>spec. certificate_for kn (mget (tlsMaterial_ServiceTLSSecretNames m) k) k spec \<and>
     (k \<noteq> TLSServiceAuthWebhook \<longrightarrow> ''server auth'' \<in> set (certSpec_Usages spec) \<and>
        (\<exists>x \<in> set (CertManagerTLSResources kn). obj_Kind x = ''Issuer'' \<and> certSpec_IssuerRef spec = internal_issuer (obj_Name x) \<and>
           obj_Body x = IssuerBody (CASecret (tlsMaterial_InternalCASecretName m))))"
proof -
  obtain cfg where cfg: "tlsConfig_CertManager (kn_TLS kn) = Some cfg"
    and names: "tlsMaterial_ServiceTLSSecretNames m = cmp_serviceSecretNames (certManagerProvisioningValuesFor kn cfg)"
    and ca: "tlsMaterial_InternalCASecretName m = cmp_caSecretName (certManagerProvisioningValuesFor kn cfg)"
    using resolved_provisioning [OF assms(1,2)] by blast
  let ?s = "certManagerProvisioningValuesFor kn cfg" and ?ref = "certManagerExternalIssuerRef cfg"
  have resources: "CertManagerTLSResources kn = certManagerBootstrapResources kn ?s @ certManagerLeafResources kn ?s
      @ [certManagerAuthWebhookCertificate kn ?s ?ref, certManagerSigningCertificate kn ?s ?ref]"
    using assms(1) cfg by (simp add: CertManagerTLSResources_def Let_def)
  show ?thesis
  proof (cases "k = TLSServiceAuthWebhook")
    case True
    then show ?thesis
      by (intro exI [of _ "body_Certificate (obj_Body (certManagerAuthWebhookCertificate kn ?s ?ref))"])
        (auto simp: certificate_for_def resources names certManagerAuthWebhookCertificate_def certManagerCertificate_def
          certManagerObject_def TLSServiceDNSNames_def tlsServiceNames_def Let_def)
  next
    case False
    have "mget (cmp_serviceSecretNames ?s) k \<noteq> ''''"
      using resolved_names_all [OF assms(2)] assms(3) by (simp add: names_all_def names)
    from leaf_of_key [OF assms(3) False refl this, of "kn_Namespace kn"] obtain leaf where
      leaf: "certManagerLeafCertificate kn leaf ?s \<in> set (CertManagerTLSResources kn)"
        "leaf_secretName leaf = mget (cmp_serviceSecretNames ?s) k"
        "dns_names (leaf_dnsNameBase leaf) (kn_Namespace kn) = TLSServiceDNSNames k (kn_Namespace kn)"
      by (auto simp: resources)
    have issuer: "certManagerIssuer kn (cmp_caIssuerName ?s) (CASecret (cmp_caSecretName ?s)) \<in> set (CertManagerTLSResources kn)"
      by (simp add: resources certManagerBootstrapResources_def)
    show ?thesis
      using False leaf
      by (intro exI [of _ "body_Certificate (obj_Body (certManagerLeafCertificate kn leaf ?s))"] conjI impI bexI [OF _ issuer])
        (auto simp: certificate_for_def names ca certManagerLeafCertificate_def certManagerCertificate_def certManagerIssuer_def
          certManagerObject_def intro!: bexI [OF _ leaf(1)])
  qed
qed

definition provisioning_kn :: Kubernaut where
  "provisioning_kn = sample_kn\<lparr>kn_Spec := (kn_Spec sample_kn)\<lparr>spec_TLS := zero_TLSConfigSpec\<lparr>tlsConfig_Mode := TLSModeCertManager,
     tlsConfig_CertManager := Some (zero_CertManagerTLSConfig\<lparr>certManagerTLSConfig_Provisioning :=
       Some \<lparr>certManagerTLSProvisioning_Enabled = None, certManagerTLSProvisioning_BootstrapIssuerName = '''',
         certManagerTLSProvisioning_InternalCACertificateName = '''', certManagerTLSProvisioning_InternalCAIssuerName = '''',
         certManagerTLSProvisioning_InternalCASecretName = '''', certManagerTLSProvisioning_Duration = '''',
         certManagerTLSProvisioning_RenewBefore = '''', certManagerTLSProvisioning_InternalCADuration = '''',
         certManagerTLSProvisioning_ExtraSANs = [''10.0.0.7''], certManagerTLSProvisioning_SigningCertificateName = '''',
         certManagerTLSProvisioning_SigningCertificateSecretName = ''''\<rparr>\<rparr>)\<rparr>\<rparr>\<rparr>"

lemma provisioning_kn_enabled: "CertManagerTLSProvisioningEnabled provisioning_kn"
  by (simp add: provisioning_kn_def CertManagerTLSProvisioningEnabled_def)

lemma provisioning_kn_config:
  "tlsConfig_Mode (kn_TLS provisioning_kn) = TLSModeCertManager"
  "\<exists>cfg. tlsConfig_CertManager (kn_TLS provisioning_kn) = Some cfg \<and> certManagerTLSConfig_ServiceTLSSecretNames cfg = []"
  by (simp_all add: provisioning_kn_def zero_CertManagerTLSConfig_def)

lemma provisioning_kn_resolves: "\<exists>m. ResolveTLSMaterial provisioning_kn = Inr m \<and> mget (tlsMaterial_ServiceTLSSecretNames m) TLSServiceGateway = ''gateway-tls''"
proof -
  obtain cfg where cfg: "tlsConfig_CertManager (kn_TLS provisioning_kn) = Some cfg" "certManagerTLSConfig_ServiceTLSSecretNames cfg = []"
    using provisioning_kn_config(2) by blast
  have "mget (override_names (defaultCertManagerServiceSecretNames provisioning_kn) []) TLSServiceGateway = ''gateway-tls''"
    by (simp add: override_names_def defaultCertManagerServiceSecretNames_def addFleetMetadataCacheTLSSecret_def)
  moreover have "TLSModeCertManager \<noteq> ''''" "TLSModeCertManager \<noteq> TLSModeServiceCA"
    by (simp_all add: TLSModeCertManager_def TLSModeServiceCA_def)
  ultimately show ?thesis
    using cfg provisioning_kn_enabled provisioning_kn_config(1)
    by (simp add: ResolveTLSMaterial_def resolveCertManagerTLS_def Let_def provisioning_names)
qed

theorem provisioned_certificates_cover_services_witness:
  "\<exists>spec. certificate_for provisioning_kn ''gateway-tls'' TLSServiceGateway spec \<and> ''server auth'' \<in> set (certSpec_Usages spec)"
proof -
  obtain m where m: "ResolveTLSMaterial provisioning_kn = Inr m" "mget (tlsMaterial_ServiceTLSSecretNames m) TLSServiceGateway = ''gateway-tls''"
    using provisioning_kn_resolves by blast
  have "TLSServiceGateway \<in> set (serving_keys provisioning_kn)" by (simp add: serving_keys_def required_tls_keys_def)
  from provisioned_certificates_cover_services [OF provisioning_kn_enabled m(1) this] m(2) show ?thesis by auto
qed

end
