(* ===== verification/Cleanup.thy ===== *)
theory Cleanup
  imports Workflow_Namespace
begin

text \<open>
  Uninstalling: the cluster-scoped resources that garbage collection does not reach are deleted, and only
  then is the finalizer removed (\<^verbatim>\<open>reconcileDelete\<close>, \<^verbatim>\<open>runFinalizerCleanup\<close>,
  \<^verbatim>\<open>deleteClusterScopedResources\<close> and what they call, in \<^verbatim>\<open>internal/controller/kubernaut_controller.go\<close>, with the
  names from \<^verbatim>\<open>internal/resources/rbac.go\<close> and \<^verbatim>\<open>internal/resources/webhooks.go\<close>).

  Deletion looks at kind, namespace and name of what it is given and re-reads the rest, so the webhook
  configurations stand here with their metadata only.
\<close>

subsection \<open>What an instance leaves behind\<close>

definition clusterRoleName :: "Kubernaut \<Rightarrow> string \<Rightarrow> string" where
  "clusterRoleName kn base = kn_Namespace kn @ ''-'' @ base"

definition clusterRoleBinding :: "string \<Rightarrow> string \<Rightarrow> string \<Rightarrow> string \<Rightarrow> smap \<Rightarrow> kobj" where
  "clusterRoleBinding name roleName saName saNamespace labels = \<lparr>obj_Kind = ''ClusterRoleBinding'',
     obj_Meta = zero_object_meta\<lparr>meta_Name := name, meta_Labels := labels\<rparr>,
     obj_Body = BindingBody \<lparr>roleRef_APIGroup = ''rbac.authorization.k8s.io'', roleRef_Kind = ''ClusterRole'', roleRef_Name = roleName\<rparr>
       [\<lparr>subject_Kind = ''ServiceAccount'', subject_APIGroup = '''', subject_Name = saName, subject_Namespace = saNamespace\<rparr>]\<rparr>"

definition AnsibleRBAC :: "Kubernaut \<Rightarrow> kobj \<times> kobj" where
  "AnsibleRBAC kn =
     (\<lparr>obj_Kind = ''ClusterRole'',
       obj_Meta = zero_object_meta\<lparr>meta_Name := clusterRoleName kn ''workflowexecution-awx'', meta_Labels := CommonLabels kn\<rparr>,
       obj_Body = RoleBody [rule_on [''awx.ansible.com''] [''awxjobs'']
         [''get'', ''list'', ''watch'', ''create'', ''update'', ''patch'', ''delete'']]\<rparr>,
      clusterRoleBinding (clusterRoleName kn ''workflowexecution-awx-binding'') (clusterRoleName kn ''workflowexecution-awx'')
        ''kubernaut-workflow-runner'' (ResolveWorkflowNamespace kn) (CommonLabels kn))"

definition MonitoringCRBNames :: "Kubernaut \<Rightarrow> string list" where
  "MonitoringCRBNames kn = map (clusterRoleName kn)
     [''effectivenessmonitor-alertmanager-view-binding'', ''effectivenessmonitor-monitoring-view'',
      ''kubernaut-agent-monitoring-view'', ''kubernaut-agent-alertmanager-view-binding'',
      ''alertmanager-gateway-signal-source'', ''apifrontend-monitoring-view'']"

definition MonitoringClusterRoleNames :: "Kubernaut \<Rightarrow> string list" where
  "MonitoringClusterRoleNames kn = map (clusterRoleName kn) [''alertmanager-view'', ''gateway-signal-source'']"

record toolPersona =
  persona_name :: string
  persona_resourceNames :: "string list"

definition toolPersonas :: "toolPersona list" where
  "toolPersonas =
     [\<lparr>persona_name = ''tool-sre'', persona_resourceNames =
         [''kubernaut_list_remediations'', ''kubernaut_get_remediation'',
          ''kubernaut_approve'', ''kubernaut_cancel_remediation'', ''kubernaut_watch'',
          ''kubernaut_await_session'', ''kubernaut_investigate'',
          ''kubernaut_discover_workflows'', ''kubernaut_select_workflow'', ''kubernaut_present_decision'',
          ''kubernaut_list_workflows'', ''kubernaut_get_remediation_history'',
          ''kubernaut_get_effectiveness'', ''kubernaut_get_audit_trail'',
          ''kubernaut_message'', ''kubernaut_complete'',
          ''kubernaut_cancel'', ''kubernaut_status'', ''kubernaut_reconnect'',
          ''kubectl_get'', ''kubectl_list'', ''kubectl_list_events'',
          ''kubernaut_check_existing_remediation'', ''kubernaut_remediate'',
          ''list_alerts'', ''get_alert_details'', ''kubernaut_investigate_alert'',
          ''kubernaut_get_approval_request'', ''kubernaut_complete_no_action'']\<rparr>,
      \<lparr>persona_name = ''tool-ai-orchestrator'', persona_resourceNames =
         [''kubernaut_list_remediations'', ''kubernaut_get_remediation'', ''kubernaut_watch'',
          ''kubernaut_await_session'', ''kubernaut_investigate'',
          ''kubernaut_discover_workflows'', ''kubernaut_select_workflow'', ''kubernaut_present_decision'',
          ''kubernaut_message'', ''kubernaut_complete'',
          ''kubernaut_cancel'', ''kubernaut_status'', ''kubernaut_reconnect'',
          ''kubectl_get'', ''kubectl_list'', ''kubectl_list_events'',
          ''kubernaut_check_existing_remediation'', ''kubernaut_remediate'',
          ''list_alerts'', ''get_alert_details'', ''kubernaut_investigate_alert'']\<rparr>,
      \<lparr>persona_name = ''tool-cicd'', persona_resourceNames =
         [''kubernaut_list_remediations'', ''kubernaut_get_remediation'', ''kubernaut_watch'', ''kubernaut_await_session'']\<rparr>,
      \<lparr>persona_name = ''tool-observability'', persona_resourceNames =
         [''kubernaut_list_remediations'', ''kubernaut_get_remediation'', ''kubernaut_watch'', ''kubernaut_await_session'',
          ''kubernaut_get_effectiveness'', ''kubernaut_list_workflows'']\<rparr>,
      \<lparr>persona_name = ''tool-l3-audit'', persona_resourceNames =
         [''kubernaut_list_remediations'', ''kubernaut_get_remediation'',
          ''kubernaut_list_workflows'', ''kubernaut_get_remediation_history'',
          ''kubernaut_get_effectiveness'', ''kubernaut_get_audit_trail'']\<rparr>,
      \<lparr>persona_name = ''tool-remediation-approver'', persona_resourceNames =
         [''kubernaut_approve'', ''kubernaut_list_approval_requests'', ''kubernaut_get_approval_request'',
          ''kubernaut_list_remediations'', ''kubernaut_get_remediation'', ''kubernaut_watch'', ''kubernaut_await_session'']\<rparr>]"

definition ToolClusterRoles :: "Kubernaut \<Rightarrow> kobj list" where
  "ToolClusterRoles kn =
     (if \<not> APIFrontendEnabled (kn_Spec kn) then []
      else map (\<lambda>p. \<lparr>obj_Kind = ''ClusterRole'',
          obj_Meta = zero_object_meta\<lparr>meta_Name := clusterRoleName kn (persona_name p), meta_Labels := CommonLabels kn\<rparr>,
          obj_Body = RoleBody [\<lparr>rbac_APIGroups = [''kubernaut.ai''], rbac_Resources = [''tools''],
            rbac_ResourceNames = persona_resourceNames p, rbac_Verbs = [''use'']\<rparr>]\<rparr>) toolPersonas)"

definition ToolClusterRoleNames :: "Kubernaut \<Rightarrow> string list" where
  "ToolClusterRoleNames kn = map (\<lambda>p. clusterRoleName kn (persona_name p)) toolPersonas"

definition ConsoleAccessCRBName :: "Kubernaut \<Rightarrow> string" where
  "ConsoleAccessCRBName kn = clusterRoleName kn ''console-access-binding''"

definition OCPServiceCAInjectAnnotation :: string where
  "OCPServiceCAInjectAnnotation = ''service.beta.openshift.io/inject-cabundle''"

definition webhook_meta :: "Kubernaut \<Rightarrow> string \<Rightarrow> string \<Rightarrow> kobj" where
  "webhook_meta kn kind suffix = \<lparr>obj_Kind = kind,
     obj_Meta = zero_object_meta\<lparr>meta_Name := kn_Namespace kn @ suffix, meta_Labels := CommonLabels kn,
       meta_Annotations := [OCPServiceCAInjectAnnotation \<mapsto> ''true'']\<rparr>, obj_Body = NoBody\<rparr>"

definition mutating_webhook_meta :: "Kubernaut \<Rightarrow> kobj" where
  "mutating_webhook_meta kn = webhook_meta kn ''MutatingWebhookConfiguration'' ''-authwebhook-mutating''"

definition validating_webhook_meta :: "Kubernaut \<Rightarrow> kobj" where
  "validating_webhook_meta kn = webhook_meta kn ''ValidatingWebhookConfiguration'' ''-authwebhook-validating''"

definition named :: "string \<Rightarrow> string \<Rightarrow> kobj" where
  "named kind name = \<lparr>obj_Kind = kind, obj_Meta = zero_object_meta\<lparr>meta_Name := name\<rparr>, obj_Body = NoBody\<rparr>"

subsection \<open>Deleting it\<close>

definition LabelAdditionalComponentRBAC :: string where
  "LabelAdditionalComponentRBAC = ''kubernaut.ai/additional-component-rbac''"
definition LabelValueTrue :: string where "LabelValueTrue = ''true''"

definition pruneOrphanedAdditionalComponentRBAC :: "'s env \<Rightarrow> kobj list \<Rightarrow> ('s, go_error list) prog" where
  "pruneOrphanedAdditionalComponentRBAC E desiredCRBs = do {
     kn \<leftarrow> the_kn;
     r \<leftarrow> ListObjs E ''ClusterRoleBinding'' None [(LabelAdditionalComponentRBAC, LabelValueTrue), (LabelInstance, kn_Name kn)];
     (case r of
        Inl e \<Rightarrow> State_Monad.return [Wrap ''listing additional component CRBs for pruning'' (API e)]
      | Inr liveCRBs \<Rightarrow> pruneUndesired E ''additional component ClusterRoleBinding'' liveCRBs (map obj_Name desiredCRBs)) }"

text \<open>The pattern of every cleanup step: delete each, collect what fails and go on.\<close>

definition delete_each :: "'s env \<Rightarrow> (string \<times> kobj) list \<Rightarrow> ('s, go_error list) prog" where
  "delete_each E xs = collect (\<lambda>(message, x). do {
     r \<leftarrow> deleteIfExists E x;
     State_Monad.return (error_list message r) }) xs"

definition deleteCoreClusterRBAC :: "'s env \<Rightarrow> ('s, go_error list) prog" where
  "deleteCoreClusterRBAC E = pruneOrphanedCoreClusterRBAC E [] []"

definition ansible_targets :: "Kubernaut \<Rightarrow> (string \<times> kobj) list" where
  "ansible_targets kn = [(''deleting AWX ClusterRole'', fst (AnsibleRBAC kn)), (''deleting AWX CRB'', snd (AnsibleRBAC kn))]"

definition deleteAnsibleClusterRBAC :: "'s env \<Rightarrow> Kubernaut \<Rightarrow> ('s, go_error list) prog" where
  "deleteAnsibleClusterRBAC E kn = delete_each E (ansible_targets kn)"

definition monitoring_targets :: "Kubernaut \<Rightarrow> (string \<times> kobj) list" where
  "monitoring_targets kn =
     map (\<lambda>n. (''deleting monitoring CRB '' @ n, named ''ClusterRoleBinding'' n)) (MonitoringCRBNames kn)
     @ map (\<lambda>n. (''deleting monitoring ClusterRole '' @ n, named ''ClusterRole'' n)) (MonitoringClusterRoleNames kn)"

definition deleteMonitoringClusterRBAC :: "'s env \<Rightarrow> Kubernaut \<Rightarrow> ('s, go_error list) prog" where
  "deleteMonitoringClusterRBAC E kn = delete_each E (monitoring_targets kn)"

definition tool_targets :: "Kubernaut \<Rightarrow> (string \<times> kobj) list" where
  "tool_targets kn =
     map (\<lambda>n. (''deleting tool ClusterRole '' @ n, named ''ClusterRole'' n)) (ToolClusterRoleNames kn)
     @ map (\<lambda>n. (''deleting tool CRB '' @ n, named ''ClusterRoleBinding'' n)) (status_BoundToolRoleBindings (kn_Status kn))
     @ [(''deleting console-access CRB'', named ''ClusterRoleBinding'' (ConsoleAccessCRBName kn))]"

definition deleteAdditionalAgentAndToolRBAC :: "'s env \<Rightarrow> Kubernaut \<Rightarrow> ('s, go_error list) prog" where
  "deleteAdditionalAgentAndToolRBAC E kn = do {
     errs \<leftarrow> pruneOrphanedAdditionalComponentRBAC E [];
     errs' \<leftarrow> delete_each E (tool_targets kn);
     State_Monad.return (errs @ errs') }"

definition deleteMCPGatewayNamespaceRBAC :: "'s env \<Rightarrow> ('s, go_error list) prog" where
  "deleteMCPGatewayNamespaceRBAC E = pruneOrphanedMCPGatewayNamespaceRBAC E [] []"

definition deleteRBACResources :: "'s env \<Rightarrow> Kubernaut \<Rightarrow> ('s, go_error list) prog" where
  "deleteRBACResources E kn = do {
     core \<leftarrow> deleteCoreClusterRBAC E;
     ansible \<leftarrow> deleteAnsibleClusterRBAC E kn;
     monitoring \<leftarrow> deleteMonitoringClusterRBAC E kn;
     tools \<leftarrow> deleteAdditionalAgentAndToolRBAC E kn;
     gateway \<leftarrow> deleteMCPGatewayNamespaceRBAC E;
     State_Monad.return (core @ ansible @ monitoring @ tools @ gateway) }"

definition webhook_targets :: "Kubernaut \<Rightarrow> (string \<times> kobj) list" where
  "webhook_targets kn = [(''deleting MutatingWebhookConfiguration'', mutating_webhook_meta kn),
     (''deleting ValidatingWebhookConfiguration'', validating_webhook_meta kn)]"

definition deleteWebhookResources :: "'s env \<Rightarrow> Kubernaut \<Rightarrow> ('s, go_error list) prog" where
  "deleteWebhookResources E kn = delete_each E (webhook_targets kn)"

definition workflow_targets :: "Kubernaut \<Rightarrow> (string \<times> kobj) list" where
  "workflow_targets kn = (case WorkflowNamespaceRBAC kn of (wfRoles, wfRBs) \<Rightarrow>
     map (\<lambda>r. (''deleting wf role '' @ obj_Name r, r)) wfRoles
     @ map (\<lambda>r. (''deleting wf rb '' @ obj_Name r, r)) wfRBs
     @ [(''deleting workflow runner SA'', WorkflowRunnerServiceAccount kn)])"

definition deleteWorkflowResources :: "'s env \<Rightarrow> Kubernaut \<Rightarrow> ('s, go_error list) prog" where
  "deleteWorkflowResources E kn = delete_each E (workflow_targets kn)"

definition deleteClusterScopedResources :: "'s env \<Rightarrow> ('s, go_error option) prog" where
  "deleteClusterScopedResources E = do {
     kn \<leftarrow> the_kn;
     rbac \<leftarrow> deleteRBACResources E kn;
     webhooks \<leftarrow> deleteWebhookResources E kn;
     workflow \<leftarrow> deleteWorkflowResources E kn;
     policies \<leftarrow> deleteNetworkPolicies E (kn_Namespace kn) (kn_Name kn);
     let errs = rbac @ webhooks @ workflow @ policies;
     State_Monad.return (if errs \<noteq> [] then Some (Wrap ''cluster-scoped cleanup'' (Join errs)) else None) }"

subsection \<open>Removing the finalizer\<close>

definition without_finalizer :: "'s env \<Rightarrow> Kubernaut \<Rightarrow> Kubernaut" where
  "without_finalizer E kn = kn\<lparr>kn_ObjectMeta := (kn_ObjectMeta kn)\<lparr>meta_Finalizers :=
     e_removeFinalizer E (meta_Finalizers (kn_ObjectMeta kn)) FinalizerName\<rparr>\<rparr>"

definition removeCleanupFinalizer :: "'s env \<Rightarrow> ('s, result \<times> go_error option \<times> bool) prog" where
  "removeCleanupFinalizer E = do {
     kn \<leftarrow> the_kn;
     let bare = without_finalizer E kn;
     set_kn bare;
     r \<leftarrow> UpdateKn E bare;
     (case r of
        Inl e \<Rightarrow> State_Monad.return (0, Some (API e), True)
      | Inr updated \<Rightarrow> do {
          set_kn updated;
          Eventf Normal ''CleanupComplete'';
          State_Monad.return (0, None, False) }) }"

definition runFinalizerCleanup :: "'s env \<Rightarrow> ('s, result \<times> go_error option \<times> bool) prog" where
  "runFinalizerCleanup E = do {
     err \<leftarrow> deleteClusterScopedResources E;
     (case err of
        Some e \<Rightarrow> do {
          Eventf Warning ''CleanupFailed'';
          State_Monad.return (requeueError, Some e, True) }
      | None \<Rightarrow> removeCleanupFinalizer E) }"

definition reconcileDelete :: "'s env \<Rightarrow> ('s, result \<times> go_error option) prog" where
  "reconcileDelete E = do {
     kn \<leftarrow> the_kn;
     (if e_containsFinalizer E (meta_Finalizers (kn_ObjectMeta kn)) FinalizerName
      then do {
        r \<leftarrow> runFinalizerCleanup E;
        State_Monad.return (case r of (result, err, retry) \<Rightarrow> if retry then (result, err) else (0, None)) }
      else State_Monad.return (0, None)) }"

subsection \<open>What cleanup can do\<close>

fun is_cleanup_call :: "call \<Rightarrow> bool" where
  "is_cleanup_call (Read kind k x) = True"
| "is_cleanup_call (DeleteCall x) = True"
| "is_cleanup_call c = False"

lemma emits_delete_each [emits_rules]: "emits is_cleanup_call (delete_each E xs)"
  unfolding delete_each_def by (intro emits_rules) simp_all

lemma emits_prunes [emits_rules]:
  "emits is_cleanup_call (pruneUndesired E kind live names)"
  "emits is_cleanup_call (pruneUndesiredNamespaced E kind live keys)"
  unfolding pruneUndesired_def pruneUndesiredNamespaced_def by (intro emits_rules; simp)+

lemma emits_prunes_by_label [emits_rules]:
  "emits is_cleanup_call (pruneOrphanedCoreClusterRBAC E crs crbs)"
  "emits is_cleanup_call (pruneOrphanedMCPGatewayNamespaceRBAC E roles rbs)"
  "emits is_cleanup_call (pruneOrphanedAdditionalComponentRBAC E crbs)"
  unfolding pruneOrphanedCoreClusterRBAC_def pruneOrphanedMCPGatewayNamespaceRBAC_def pruneOrphanedAdditionalComponentRBAC_def
  by (intro emits_rules; simp)+

lemma emits_deleteNetworkPolicies [emits_rules]: "emits is_cleanup_call (deleteNetworkPolicies E ns i)"
  unfolding deleteNetworkPolicies_def by (intro emits_rules) simp_all

lemma emits_deleteClusterScopedResources: "emits is_cleanup_call (deleteClusterScopedResources E)"
  unfolding deleteClusterScopedResources_def deleteRBACResources_def deleteCoreClusterRBAC_def deleteAnsibleClusterRBAC_def
    deleteMonitoringClusterRBAC_def deleteAdditionalAgentAndToolRBAC_def deleteMCPGatewayNamespaceRBAC_def
    deleteWebhookResources_def deleteWorkflowResources_def Let_def
  by (intro emits_rules)

lemma run_reconcileDelete:
  assumes "e_containsFinalizer E (meta_Finalizers (kn_ObjectMeta (w_kn w))) FinalizerName"
    and "run_state (deleteClusterScopedResources E) w = (r, v)"
  shows "run_state (reconcileDelete E) w =
    (case r of
       Some e \<Rightarrow> ((requeueError, Some e), v\<lparr>w_events := \<lparr>event_Type = Warning, event_Reason = ''CleanupFailed''\<rparr> # w_events v\<rparr>)
     | None \<Rightarrow>
        (case e_updateKn E (w_cluster v) (without_finalizer E (w_kn v)) of
           (Inl e, s) \<Rightarrow> ((0, Some (API e)), v\<lparr>w_cluster := s, w_kn := without_finalizer E (w_kn v),
               w_trace := UpdateKnCall (without_finalizer E (w_kn v)) # w_trace v\<rparr>)
         | (Inr kn, s) \<Rightarrow> ((0, None), v\<lparr>w_cluster := s, w_kn := kn,
               w_trace := UpdateKnCall (without_finalizer E (w_kn v)) # w_trace v,
               w_events := \<lparr>event_Type = Normal, event_Reason = ''CleanupComplete''\<rparr> # w_events v\<rparr>)))"
  using assms by (simp add: reconcileDelete_def runFinalizerCleanup_def removeCleanupFinalizer_def call_defs Let_def split: option.splits prod.splits sum.splits)

text \<open>C6: The finalizer goes last: deletion first runs the whole cleanup, which only reads and deletes. If any
  step of it failed, the custom resource is not written, the failure is reported and the deletion is
  retried; only a cleanup without a failure is followed by the one write that removes the
  finalizer, and deletion succeeds exactly when the server accepts it.\<close>

theorem finalizer_only_after_cleanup:
  assumes "e_containsFinalizer E (meta_Finalizers (kn_ObjectMeta (w_kn w))) FinalizerName"
    and "run_state (reconcileDelete E) w = ((res, err), w')"
  shows "\<exists>v cs. snd (run_state (deleteClusterScopedResources E) w) = v \<and> w_trace v = cs @ w_trace w \<and> list_all is_cleanup_call cs \<and>
    (case fst (run_state (deleteClusterScopedResources E) w) of
       Some e \<Rightarrow> err = Some e \<and> res > 0 \<and> w_trace w' = w_trace v \<and> w_kn w' = w_kn v
     | None \<Rightarrow> w_trace w' = UpdateKnCall (without_finalizer E (w_kn v)) # w_trace v \<and>
        (err = None \<longleftrightarrow> (\<exists>kn s. e_updateKn E (w_cluster v) (without_finalizer E (w_kn v)) = (Inr kn, s))))"
proof -
  obtain r v where run: "run_state (deleteClusterScopedResources E) w = (r, v)" by fastforce
  obtain cs where cs: "w_trace v = cs @ w_trace w" "list_all is_cleanup_call cs"
    using emitsD [OF emits_deleteClusterScopedResources run] by blast
  show ?thesis
    using run_reconcileDelete [OF assms(1) run] assms(2) run cs
    by (intro exI [of _ v] exI [of _ cs]) (auto simp: requeue_defs split: option.splits prod.splits sum.splits)
qed

definition sample_terminating_kn :: Kubernaut where
  "sample_terminating_kn = sample_kn\<lparr>kn_ObjectMeta := (kn_ObjectMeta sample_kn)\<lparr>meta_Finalizers := [FinalizerName]\<rparr>\<rparr>"

theorem finalizer_only_after_cleanup_witness:
  "list_all is_cleanup_call (w_trace (snd (run_state (deleteClusterScopedResources sample_env)
     ((sample_world [])\<lparr>w_kn := sample_terminating_kn\<rparr>))))"
proof -
  let ?w = "(sample_world [])\<lparr>w_kn := sample_terminating_kn\<rparr>"
  have fin: "e_containsFinalizer sample_env (meta_Finalizers (kn_ObjectMeta (w_kn ?w))) FinalizerName"
    by (simp add: sample_terminating_kn_def)
  obtain res err w' where run: "run_state (reconcileDelete sample_env) ?w = ((res, err), w')" by (metis prod.exhaust)
  from finalizer_only_after_cleanup [OF fin run] show ?thesis by auto
qed

subsection \<open>Cleanup covers everything it knows of\<close>

lemma keeps_kn [triple_rules]:
  "keeps (\<lambda>v. w_kn v = kn) (Get E kind k)" "keeps (\<lambda>v. w_kn v = kn) (OwnershipGet E kind k)"
  "keeps (\<lambda>v. w_kn v = kn) (ListObjs E kind ns sel)" "keeps (\<lambda>v. w_kn v = kn) (deleteObservedResource E x)"
  "keeps (\<lambda>v. w_kn v = kn) (Eventf t r)" "keeps (\<lambda>v. w_kn v = kn) the_kn"
  by (auto simp: keeps_def call_defs intro!: tripleI split: prod.splits)

lemma kn_deleteIfExists [triple_rules]: "keeps (\<lambda>v. w_kn v = kn) (deleteIfExists E x)"
  unfolding deleteIfExists_def reportOwnershipConflict_def by (intro triple_rules)

lemma kn_cleanup_steps [triple_rules]:
  "keeps (\<lambda>v. w_kn v = kn) (delete_each E xs)"
  "keeps (\<lambda>v. w_kn v = kn) (pruneUndesired E kind live names)"
  "keeps (\<lambda>v. w_kn v = kn) (pruneUndesiredNamespaced E kind live keys)"
  unfolding delete_each_def pruneUndesired_def pruneUndesiredNamespaced_def by (intro triple_rules)+

lemma kn_prunes_by_label [triple_rules]:
  "keeps (\<lambda>v. w_kn v = kn) (pruneOrphanedCoreClusterRBAC E crs crbs)"
  "keeps (\<lambda>v. w_kn v = kn) (pruneOrphanedMCPGatewayNamespaceRBAC E roles rbs)"
  "keeps (\<lambda>v. w_kn v = kn) (pruneOrphanedAdditionalComponentRBAC E crbs)"
  unfolding pruneOrphanedCoreClusterRBAC_def pruneOrphanedMCPGatewayNamespaceRBAC_def pruneOrphanedAdditionalComponentRBAC_def
  by (intro triple_rules)+

lemma error_list_Nil [simp]: "error_list m r = [] \<longleftrightarrow> r = None"
  by (simp add: error_list_def split: option.splits)

text \<open>A small logic for steps that leave the custom resource in memory alone and only add to the trace: what is
  known of a result stays known while the trace grows.\<close>

definition steps :: "Kubernaut \<Rightarrow> call list \<Rightarrow> ('s, 'a) prog \<Rightarrow> ('a \<Rightarrow> call list \<Rightarrow> bool) \<Rightarrow> bool" where
  "steps kn base m Q \<longleftrightarrow> (\<forall>v r v'. w_kn v = kn \<and> (\<exists>ds. w_trace v = ds @ base) \<and> run_state m v = (r, v') \<longrightarrow>
     w_kn v' = kn \<and> (\<exists>cs. w_trace v' = cs @ w_trace v) \<and> Q r (w_trace v'))"

lemma steps_bind:
  assumes m: "steps kn base m Q" and f: "\<And>r. steps kn base (f r) (S r)"
    and mono: "\<And>r cs tr. Q r tr \<Longrightarrow> Q r (cs @ tr)"
  shows "steps kn base (State_Monad.bind m f) (\<lambda>s tr. \<exists>r. Q r tr \<and> S r s tr)"
  unfolding steps_def
proof (intro allI impI)
  fix v s v''
  assume v: "w_kn v = kn \<and> (\<exists>ds. w_trace v = ds @ base) \<and> run_state (State_Monad.bind m f) v = (s, v'')"
  obtain r v' where run: "run_state m v = (r, v')" by fastforce
  with v have run': "run_state (f r) v' = (s, v'')" by simp
  from m v run have "w_kn v' = kn" and Q: "Q r (w_trace v')" and cs: "\<exists>cs. w_trace v' = cs @ w_trace v"
    unfolding steps_def by blast+
  moreover from v cs have "\<exists>ds. w_trace v' = ds @ base" by (metis append.assoc)
  ultimately have "w_kn v'' = kn" "S r s (w_trace v'')" and ds: "\<exists>ds. w_trace v'' = ds @ w_trace v'"
    using f [of r] run' unfolding steps_def by blast+
  moreover from Q ds have "Q r (w_trace v'')" using mono by metis
  ultimately show "w_kn v'' = kn \<and> (\<exists>cs. w_trace v'' = cs @ w_trace v) \<and> (\<exists>r. Q r (w_trace v'') \<and> S r s (w_trace v''))"
    using cs by (metis append.assoc)
qed

lemma steps_return: "steps kn base (State_Monad.return a) (\<lambda>s tr. s = a)"
  by (simp add: steps_def State_Monad.return_def)

lemma steps_keeps:
  assumes "keeps (\<lambda>v. w_kn v = kn) m" and "emits P m"
  shows "steps kn base m (\<lambda>r tr. True)"
  unfolding steps_def
proof (intro allI impI, elim conjE, intro conjI)
  fix v r v' assume v: "w_kn v = kn" and run: "run_state m v = (r, v')"
  show "w_kn v' = kn" using keepsD [OF assms(1) v] run by simp
  show "\<exists>cs. w_trace v' = cs @ w_trace v" using emitsD [OF assms(2) run] by blast
qed simp

lemma steps_conseq: "steps kn base m Q \<Longrightarrow> (\<And>r tr. Q r tr \<Longrightarrow> Q' r tr) \<Longrightarrow> steps kn base m Q'"
  unfolding steps_def by blast

text \<open>At some point of the run the object was looked at, and what happened then is in the trace.\<close>

definition handled :: "'s env \<Rightarrow> Kubernaut \<Rightarrow> call list \<Rightarrow> kobj \<Rightarrow> call list \<Rightarrow> bool" where
  "handled E kn base x tr \<longleftrightarrow> (\<exists>v ds cs. w_kn v = kn \<and> w_trace v = ds @ base \<and>
     fst (run_state (deleteIfExists E x) v) = None \<and> tr = cs @ w_trace (snd (run_state (deleteIfExists E x) v)))"

definition handled_all :: "'s env \<Rightarrow> Kubernaut \<Rightarrow> call list \<Rightarrow> (string \<times> kobj) list \<Rightarrow> go_error list \<Rightarrow> call list \<Rightarrow> bool" where
  "handled_all E kn base xs errs tr \<longleftrightarrow> (errs = [] \<longrightarrow> (\<forall>x \<in> set (map snd xs). handled E kn base x tr))"

lemma handled_mono: "handled E kn base x tr \<Longrightarrow> handled E kn base x (cs @ tr)"
  unfolding handled_def by (metis append.assoc)

lemma handled_all_mono: "handled_all E kn base xs errs tr \<Longrightarrow> handled_all E kn base xs errs (cs @ tr)"
  unfolding handled_all_def by (blast intro: handled_mono)

lemma handledI:
  assumes "w_kn v = kn" and "w_trace v = ds @ base" and "run_state (deleteIfExists E x) v = (None, v')"
  shows "handled E kn base x (w_trace v')"
  unfolding handled_def
  by (rule exI [of _ v], rule exI [of _ ds], rule exI [of _ "[]"]) (simp add: assms)

lemma steps_deleteIfExists: "steps kn base (deleteIfExists E x) (\<lambda>r tr. r = None \<longrightarrow> handled E kn base x tr)"
  unfolding steps_def
proof (intro allI impI, elim conjE exE, intro conjI impI)
  fix v r v' ds
  assume v: "w_kn v = kn" "w_trace v = ds @ base" and run: "run_state (deleteIfExists E x) v = (r, v')"
  have "emits (\<lambda>_. True) (deleteIfExists E x)" by (rule emits_deleteIfExists) simp_all
  from emitsD [OF this run] show "\<exists>cs. w_trace v' = cs @ w_trace v" by blast
  show "w_kn v' = kn" using keepsD [OF kn_deleteIfExists v(1), of E x] run by simp
  show "handled E kn base x (w_trace v')" if "r = None" using handledI [OF v] run that by simp
qed

lemma steps_delete_each: "steps kn base (delete_each E xs) (handled_all E kn base xs)"
  unfolding delete_each_def
proof (induction xs)
  case Nil
  show ?case by (simp add: handled_all_def, rule steps_conseq [OF steps_return]) simp
next
  case (Cons mx xs)
  obtain m x where mx: "mx = (m, x)" by fastforce
  have one: "steps kn base (do { r \<leftarrow> deleteIfExists E x; State_Monad.return (error_list m r) })
      (\<lambda>es tr. es = [] \<longrightarrow> handled E kn base x tr)"
    by (rule steps_conseq [OF steps_bind [OF steps_deleteIfExists steps_return]]) (auto intro: handled_mono)
  show ?case
    unfolding mx collect.simps prod.case
    by (rule steps_conseq [OF steps_bind [OF one steps_bind [OF Cons.IH steps_return]]])
      (auto simp: handled_all_def intro: handled_mono)
qed

definition cleanup_targets :: "Kubernaut \<Rightarrow> kobj list" where
  "cleanup_targets kn = map snd (ansible_targets kn @ monitoring_targets kn @ tool_targets kn @ webhook_targets kn @ workflow_targets kn)"

lemmas steps_prunes = steps_keeps [OF kn_prunes_by_label(1) emits_prunes_by_label(1)]
  steps_keeps [OF kn_prunes_by_label(2) emits_prunes_by_label(2)]
  steps_keeps [OF kn_prunes_by_label(3) emits_prunes_by_label(3)]

lemma steps_deleteRBACResources:
  "steps kn base (deleteRBACResources E kn)
     (handled_all E kn base (ansible_targets kn @ monitoring_targets kn @ tool_targets kn))"
  unfolding deleteRBACResources_def deleteCoreClusterRBAC_def deleteAnsibleClusterRBAC_def deleteMonitoringClusterRBAC_def
    deleteAdditionalAgentAndToolRBAC_def deleteMCPGatewayNamespaceRBAC_def
  by (rule steps_conseq [OF steps_bind [OF steps_prunes(1) steps_bind [OF steps_delete_each steps_bind [OF steps_delete_each
        steps_bind [OF steps_bind [OF steps_prunes(3) steps_bind [OF steps_delete_each steps_return]]
          steps_bind [OF steps_prunes(2) steps_return]]]]]])
    (auto simp: handled_all_def intro: handled_mono)

lemma steps_deleteNetworkPolicies: "steps kn base (deleteNetworkPolicies E ns i) (\<lambda>r tr. True)"
  by (rule steps_keeps [OF _ emits_deleteNetworkPolicies])
    (unfold deleteNetworkPolicies_def deleteObservedNetworkPolicy_def Let_def, intro triple_rules)

lemma steps_deleteClusterScopedResources:
  "steps kn base (deleteClusterScopedResources E)
     (\<lambda>r tr. r = None \<longrightarrow> (\<forall>x \<in> set (cleanup_targets kn). handled E kn base x tr))"
proof -
  have rest: "steps kn base (do {
        rbac \<leftarrow> deleteRBACResources E kn; webhooks \<leftarrow> deleteWebhookResources E kn; workflow \<leftarrow> deleteWorkflowResources E kn;
        policies \<leftarrow> deleteNetworkPolicies E (kn_Namespace kn) (kn_Name kn);
        State_Monad.return (if rbac @ webhooks @ workflow @ policies \<noteq> []
          then Some (Wrap ''cluster-scoped cleanup'' (Join (rbac @ webhooks @ workflow @ policies))) else None) })
      (\<lambda>r tr. r = None \<longrightarrow> (\<forall>x \<in> set (cleanup_targets kn). handled E kn base x tr))"
    unfolding deleteWebhookResources_def deleteWorkflowResources_def
    by (rule steps_conseq [OF steps_bind [OF steps_deleteRBACResources steps_bind [OF steps_delete_each
          steps_bind [OF steps_delete_each steps_bind [OF steps_deleteNetworkPolicies steps_return]]]]])
      (auto simp: handled_all_def cleanup_targets_def intro: handled_mono)
  have "run_state (deleteClusterScopedResources E) v = run_state (do {
        rbac \<leftarrow> deleteRBACResources E kn; webhooks \<leftarrow> deleteWebhookResources E kn; workflow \<leftarrow> deleteWorkflowResources E kn;
        policies \<leftarrow> deleteNetworkPolicies E (kn_Namespace kn) (kn_Name kn);
        State_Monad.return (if rbac @ webhooks @ workflow @ policies \<noteq> []
          then Some (Wrap ''cluster-scoped cleanup'' (Join (rbac @ webhooks @ workflow @ policies))) else None) }) v"
    if "w_kn v = kn" for v
    using that by (simp add: deleteClusterScopedResources_def the_kn_def Let_def)
  with rest show ?thesis unfolding steps_def by (metis (no_types, lifting))
qed


lemma empty_deleteIfExists:
  "cl_objects (w_cluster w) = [] \<Longrightarrow> run_state (deleteIfExists sample_env x) w = (None, w)"
  by (simp add: run_deleteIfExists sample_get_def api_fail_def IsNotFound_def)

lemma empty_delete_each: "cl_objects (w_cluster w) = [] \<Longrightarrow> run_state (delete_each sample_env xs) w = ([], w)"
  unfolding delete_each_def by (induction xs) (auto simp: empty_deleteIfExists error_list_def)

lemma empty_ListObjs: "cl_objects (w_cluster w) = [] \<Longrightarrow> run_state (ListObjs sample_env kind ns sel) w = (Inr [], w)"
  by (simp add: ListObjs_def sample_list_def)

lemma empty_cleanup:
  "cl_objects (w_cluster w) = [] \<Longrightarrow> run_state (deleteClusterScopedResources sample_env) w = (None, w)"
  by (simp add: deleteClusterScopedResources_def deleteRBACResources_def deleteCoreClusterRBAC_def deleteAnsibleClusterRBAC_def
      deleteMonitoringClusterRBAC_def deleteAdditionalAgentAndToolRBAC_def deleteMCPGatewayNamespaceRBAC_def
      deleteWebhookResources_def deleteWorkflowResources_def pruneOrphanedCoreClusterRBAC_def
      pruneOrphanedMCPGatewayNamespaceRBAC_def pruneOrphanedAdditionalComponentRBAC_def deleteNetworkPolicies_def
      pruneUndesired_def pruneUndesiredNamespaced_def the_kn_def empty_delete_each empty_ListObjs Let_def)


subsection \<open>Cleanup touches nothing of others\<close>

lemma safe_delete_each [triple_rules]:
  "(\<And>y. mine E me y \<Longrightarrow> ok y) \<Longrightarrow> keeps (safe ok me) (delete_each E xs)"
  "(\<And>y. mine E me y \<Longrightarrow> ok y) \<Longrightarrow> keeps (safe ok me) (pruneOrphanedAdditionalComponentRBAC E crbs)"
  unfolding delete_each_def pruneOrphanedAdditionalComponentRBAC_def by (intro triple_rules; assumption?)+

lemma safe_deleteClusterScopedResources:
  assumes "\<And>y. mine E me y \<Longrightarrow> ok y" and "\<And>y. policy_ok me y \<Longrightarrow> ok y"
  shows "keeps (safe ok me) (deleteClusterScopedResources E)"
proof -
  have policies: "keeps (safe ok me) (deleteNetworkPolicies E ns (kn_Name kn))" if "ident kn = me" for kn ns
    by (rule safe_pruneNetworkPolicies(2) [OF assms(2)]) (use that in \<open>auto simp: ident_def\<close>)
  show ?thesis
    unfolding deleteClusterScopedResources_def deleteRBACResources_def deleteCoreClusterRBAC_def deleteAnsibleClusterRBAC_def
      deleteMonitoringClusterRBAC_def deleteAdditionalAgentAndToolRBAC_def deleteMCPGatewayNamespaceRBAC_def
      deleteWebhookResources_def deleteWorkflowResources_def
    by (rule safe_with_kn, intro keeps_bind keeps_let keeps_return safe_delete_each [OF assms(1)] safe_prune(3,4) [OF assms(1)])
      (assumption | rule policies)+
qed

lemma without_finalizer_ident [simp]: "ident (without_finalizer E kn) = ident kn"
  by (simp add: without_finalizer_def ident_def)

lemma identity_stable_update:
  "identity_stable E \<Longrightarrow> e_updateKn E s old = (Inr kn, s') \<Longrightarrow> ident kn = ident old"
  unfolding identity_stable_def by blast

lemma safe_reconcileDelete:
  assumes "identity_stable E" and "\<And>y. mine E me y \<Longrightarrow> ok y" and "\<And>y. policy_ok me y \<Longrightarrow> ok y"
  shows "keeps (safe ok me) (reconcileDelete E)"
proof -
  have update: "keeps (safe ok me) (removeCleanupFinalizer E)"
    unfolding keeps_def
    by (rule tripleI) (auto simp: removeCleanupFinalizer_def safe_def call_defs Let_def
        dest: identity_stable_update [OF assms(1)] split: prod.splits sum.splits)
  show ?thesis
    unfolding reconcileDelete_def runFinalizerCleanup_def
    by (intro keeps_bind safe_the_kn keeps_if keeps_return safe_deleteClusterScopedResources [OF assms(2,3)] keeps_case_option safe_Eventf
        update) (assumption+)
qed

fun is_object_write :: "call \<Rightarrow> bool" where
  "is_object_write (CreateCall x) = True"
| "is_object_write (UpdateCall x) = True"
| "is_object_write c = False"

lemma cleanup_no_object_write: "is_cleanup_call c \<Longrightarrow> \<not> is_object_write c"
  by (cases c) simp_all

lemma emits_reconcileDelete: "emits (\<lambda>c. \<not> is_object_write c) (reconcileDelete E)"
  unfolding reconcileDelete_def runFinalizerCleanup_def removeCleanupFinalizer_def Let_def
  by (intro emits_rules emits_mono [OF emits_deleteClusterScopedResources cleanup_no_object_write]) simp_all

text \<open>Uninstalling touches nothing of others: whatever the server answers, a deletion of the custom
  resource creates and updates no object, and deletes only objects it read in the run that are this
  instance's by the ownership gate, or network policies carrying its labels, each for the very UID and
  version it read.\<close>

lemma reconcileDelete_safe:
  assumes "identity_stable E" and "w_trace w = []" and "run_state (reconcileDelete E) w = (r, w')"
  shows "guarded (\<lambda>x. owned E (w_kn w) x True \<or> policy_ok (ident (w_kn w)) x) (w_trace w') \<and>
    list_all (\<lambda>c. \<not> is_object_write c) (w_trace w')"
proof -
  let ?me = "ident (w_kn w)" and ?ok = "\<lambda>x. owned E (w_kn w) x True \<or> policy_ok (ident (w_kn w)) x"
  have "safe ?ok ?me w" by (simp add: safe_def assms(2))
  moreover have "keeps (safe ?ok ?me) (reconcileDelete E)"
    by (rule safe_reconcileDelete [OF assms(1)]) (auto simp: mine_iff)
  ultimately have "safe ?ok ?me w'" using keepsD assms(3) by (metis snd_conv)
  then have "guarded ?ok (w_trace w')" by (simp add: safe_def)
  moreover have "list_all (\<lambda>c. \<not> is_object_write c) (w_trace w')"
    using emitsD [OF emits_reconcileDelete assms(3)] assms(2) by auto
  ultimately show ?thesis ..
qed

lemma reconcileDelete_safe_example:
  "guarded (\<lambda>x. owned sample_env sample_kn x True \<or> policy_ok (ident sample_kn) x)
     (w_trace (snd (run_state (reconcileDelete sample_env) (sample_world [stale_role]))))"
  using reconcileDelete_safe [OF sample_identity_stable, of "sample_world [stale_role]"] by (metis prod.collapse sample_world_sels(2,3))

subsection \<open>What the tool roles grant\<close>

text \<open>The tool roles grant tools and nothing else: every role has exactly one rule, which allows using a
  fixed non-empty list of tools without a wildcard; approving a remediation is in the roles of the
  site-reliability and the approver personas only; the roles have distinct names, and cleanup looks
  for all of them.\<close>

lemma tool_roles_least_privilege:
  "distinct (map obj_Name (ToolClusterRoles kn)) \<and>
   set (map obj_Name (ToolClusterRoles kn)) \<subseteq> set (ToolClusterRoleNames kn) \<and>
   list_all (\<lambda>r. case obj_Body r of
      RoleBody [rule] \<Rightarrow> rbac_APIGroups rule = [''kubernaut.ai''] \<and> rbac_Resources rule = [''tools''] \<and> rbac_Verbs rule = [''use''] \<and>
        rbac_ResourceNames rule \<noteq> [] \<and> ''*'' \<notin> set (rbac_ResourceNames rule) \<and>
        (''kubernaut_approve'' \<in> set (rbac_ResourceNames rule)
          \<longleftrightarrow> obj_Name r \<in> {clusterRoleName kn ''tool-sre'', clusterRoleName kn ''tool-remediation-approver''})
    | _ \<Rightarrow> False) (ToolClusterRoles kn)"
  by (simp add: ToolClusterRoles_def ToolClusterRoleNames_def toolPersonas_def clusterRoleName_def)

end
