(* ===== verification/Rbac_Roles.thy ===== *)
theory Rbac_Roles
  imports Cleanup
begin

text \<open>
  The ClusterRoles the operator grants its components: one builder per role of
  \<^verbatim>\<open>internal/resources/rbac.go\<close> (and the two of \<^verbatim>\<open>internal/resources/fleetmetadatacache.go\<close>), with every policy rule
  of the source.
\<close>

definition named_rule :: "string list \<Rightarrow> string list \<Rightarrow> string list \<Rightarrow> string list \<Rightarrow> policy_rule" where
  "named_rule groups resources names verbs = (rule_on groups resources verbs)\<lparr>rbac_ResourceNames := names\<rparr>"

definition cluster_role :: "string \<Rightarrow> smap \<Rightarrow> policy_rule list \<Rightarrow> kobj" where
  "cluster_role name labels rules = \<lparr>obj_Kind = ''ClusterRole'',
     obj_Meta = zero_object_meta\<lparr>meta_Name := name, meta_Labels := labels\<rparr>, obj_Body = RoleBody rules\<rparr>"

subsection \<open>Rules several roles share\<close>

definition ownerChainResolutionRules :: "policy_rule list" where
  "ownerChainResolutionRules =
     [rule_on [''policy''] [''poddisruptionbudgets''] [''get'', ''list'', ''watch''],
      rule_on [''networking.k8s.io''] [''ingresses''] [''get'', ''list'', ''watch'']]"

definition mcpGatewayTypeKuadrant :: string where "mcpGatewayTypeKuadrant = ''kuadrant''"

definition mcpGatewayCRDPolicyRules :: "string \<Rightarrow> policy_rule list" where
  "mcpGatewayCRDPolicyRules gatewayType =
     (if gatewayType = mcpGatewayTypeKuadrant
      then [rule_on [''mcp.kuadrant.io''] [''mcpserverregistrations''] [''get'', ''list'', ''watch''],
            rule_on [''gateway.networking.k8s.io''] [''gateways'', ''httproutes''] [''get'', ''list'', ''watch'']]
      else [rule_on [''gateway.envoyproxy.io''] [''backends''] [''get'', ''list'', ''watch''],
            rule_on [''aigateway.envoyproxy.io''] [''mcproutes''] [''get'', ''list'', ''watch'']])"

abbreviation mcp_gateway :: "Kubernaut \<Rightarrow> FleetMCPGatewaySpec" where
  "mcp_gateway kn \<equiv> fleet_MCPGateway (spec_Fleet (kn_Spec kn))"

definition mcpGatewayRemoteReadsEnabled :: "Kubernaut \<Rightarrow> bool" where
  "mcpGatewayRemoteReadsEnabled knV2 \<longleftrightarrow>
     fleet_Enabled (spec_Fleet (kn_Spec knV2)) = Some True \<and> fleetMCPGateway_Endpoint (mcp_gateway knV2) \<noteq> ''''"

definition fleetCallerRBACEnabled :: "Kubernaut \<Rightarrow> bool" where
  "fleetCallerRBACEnabled knV2 = mcpGatewayRemoteReadsEnabled knV2"

text \<open>What the roles of signal processing, effectiveness monitor and API frontend append: the gateway's rules, for the
  whole cluster, only as long as no gateway namespace is set.\<close>

definition remote_read_rules :: "Kubernaut \<Rightarrow> policy_rule list" where
  "remote_read_rules knV2 =
     (if mcpGatewayRemoteReadsEnabled knV2 \<and> fleetMCPGateway_Namespace (mcp_gateway knV2) = ''''
      then mcpGatewayCRDPolicyRules (fleetMCPGateway_Type (mcp_gateway knV2)) else [])"

definition fleetMetadataCacheServiceName :: string where
  "fleetMetadataCacheServiceName = ''fleetmetadatacache-service''"

subsection \<open>The roles\<close>

definition gatewayClusterRole :: "Kubernaut \<Rightarrow> smap \<Rightarrow> kobj" where
  "gatewayClusterRole kn labels = cluster_role (clusterRoleName kn ''gateway-role'') labels
     ([rule_on [''kubernaut.ai''] [''remediationrequests''] [''create'', ''get'', ''list'', ''watch'', ''update'',
          ''patch''],
       rule_on [''kubernaut.ai''] [''remediationrequests/status''] [''update'', ''patch''],
       rule_on [''''] [''namespaces''] [''get'', ''list'', ''watch''],
       rule_on [''''] [''nodes'', ''pods'', ''services'', ''persistentvolumes'', ''persistentvolumeclaims''] [''get'',
          ''list'', ''watch''],
       rule_on [''apps''] [''deployments'', ''replicasets'', ''statefulsets'', ''daemonsets''] [''get'', ''list'',
          ''watch''],
       rule_on [''batch''] [''jobs'', ''cronjobs''] [''get'', ''list'', ''watch''],
       rule_on [''autoscaling''] [''horizontalpodautoscalers''] [''get'', ''list'', ''watch''],
       rule_on [''coordination.k8s.io''] [''leases''] [''get'', ''create'', ''update'', ''delete''],
       rule_on [''authentication.k8s.io''] [''tokenreviews''] [''create''],
       rule_on [''authorization.k8s.io''] [''subjectaccessreviews''] [''create'']]
      @ ownerChainResolutionRules)"

definition aianalysisControllerClusterRole :: "Kubernaut \<Rightarrow> smap \<Rightarrow> kobj" where
  "aianalysisControllerClusterRole kn labels = cluster_role (clusterRoleName kn ''aianalysis-controller'') labels
     [rule_on [''kubernaut.ai''] [''aianalyses''] [''get'', ''list'', ''watch'', ''update'', ''patch''],
       rule_on [''kubernaut.ai''] [''aianalyses/status''] [''get'', ''update'', ''patch''],
       rule_on [''kubernaut.ai''] [''remediationrequests''] [''get'', ''list'', ''watch''],
       rule_on [''kubernaut.ai''] [''aianalyses/finalizers''] [''update''],
       rule_on [''kubernaut.ai''] [''agentsessions''] [''get'', ''list'', ''watch'', ''create'', ''update'',
          ''delete''],
       rule_on [''coordination.k8s.io''] [''leases''] [''get'', ''list'', ''watch'', ''create'', ''update'',
          ''patch'', ''delete''],
       rule_on [''''] [''events''] [''create'', ''patch'']]"

definition kubernautAgentClientClusterRole :: "Kubernaut \<Rightarrow> smap \<Rightarrow> kobj" where
  "kubernautAgentClientClusterRole kn labels = cluster_role (clusterRoleName kn ''kubernaut-agent-client'') labels
     [named_rule [''''] [''services''] [''kubernaut-agent''] [''create'', ''get'']]"

definition kubernautAgentInvestigatorClusterRole :: "Kubernaut \<Rightarrow> smap \<Rightarrow> kobj" where
  "kubernautAgentInvestigatorClusterRole kn labels = cluster_role (clusterRoleName kn ''kubernaut-agent-investigator'') labels
     [rule_on [''''] [''pods'', ''pods/log'', ''services'', ''endpoints'', ''configmaps'', ''secrets'', ''nodes'',
          ''namespaces'', ''replicationcontrollers'', ''persistentvolumeclaims'', ''persistentvolumes'',
          ''resourcequotas'', ''serviceaccounts''] [''get'', ''list'', ''watch''],
       rule_on [''''] [''nodes/proxy''] [''get''],
       rule_on [''''] [''events''] [''get'', ''list'', ''watch'', ''create'', ''patch''],
       rule_on [''apps''] [''deployments'', ''replicasets'', ''statefulsets'', ''daemonsets''] [''get'', ''list'',
          ''watch''],
       rule_on [''storage.k8s.io''] [''storageclasses'', ''csidrivers'', ''volumeattachments'',
          ''csinodes''] [''get'', ''list'', ''watch''],
       rule_on [''batch''] [''jobs'', ''cronjobs''] [''get'', ''list'', ''watch''],
       rule_on [''events.k8s.io''] [''events''] [''get'', ''list'', ''watch''],
       rule_on [''discovery.k8s.io''] [''endpointslices''] [''get'', ''list'', ''watch''],
       rule_on [''policy''] [''poddisruptionbudgets''] [''get'', ''list'', ''watch''],
       rule_on [''networking.k8s.io''] [''ingresses''] [''get'', ''list'', ''watch''],
       rule_on [''autoscaling''] [''horizontalpodautoscalers''] [''get'', ''list'', ''watch''],
       rule_on [''cert-manager.io''] [''certificates'', ''clusterissuers'', ''certificaterequests''] [''get'',
          ''list'', ''watch''],
       rule_on [''argoproj.io''] [''applications''] [''get'', ''list'', ''watch''],
       rule_on [''policy.linkerd.io''] [''servers'', ''authorizationpolicies'', ''meshtlsauthentications''] [''get'',
          ''list'', ''watch''],
       rule_on [''security.istio.io''] [''authorizationpolicies'', ''peerauthentications'',
          ''requestauthentications''] [''get'', ''list'', ''watch''],
       rule_on [''networking.istio.io''] [''virtualservices'', ''destinationrules'', ''gateways'',
          ''serviceentries''] [''get'', ''list'', ''watch''],
       rule_on [''monitoring.coreos.com''] [''prometheusrules'', ''servicemonitors'', ''podmonitors'',
          ''probes''] [''get'', ''list'', ''watch''],
       rule_on [''metrics.k8s.io''] [''pods'', ''nodes''] [''get'', ''list''],
       rule_on [''config.openshift.io''] [''nodes'', ''clusteroperators'', ''clusterversions'',
          ''infrastructures''] [''get'', ''list'', ''watch''],
       rule_on [''operators.coreos.com''] [''clusterserviceversions'', ''subscriptions'', ''installplans'',
          ''operatorgroups'', ''catalogsources'', ''operatorconditions''] [''get'', ''list'', ''watch''],
       rule_on [''packages.operators.coreos.com''] [''packagemanifests''] [''get'', ''list'', ''watch''],
       rule_on [''route.openshift.io''] [''routes''] [''get'', ''list'', ''watch''],
       rule_on [''apps.openshift.io''] [''deploymentconfigs''] [''get'', ''list'', ''watch''],
       rule_on [''security.openshift.io''] [''securitycontextconstraints''] [''get'', ''list'', ''watch''],
       rule_on [''image.openshift.io''] [''imagestreams'', ''imagestreamtags''] [''get'', ''list'', ''watch''],
       rule_on [''build.openshift.io''] [''builds'', ''buildconfigs''] [''get'', ''list'', ''watch''],
       rule_on [''machine.openshift.io''] [''machines'', ''machinesets'', ''machinehealthchecks''] [''get'', ''list'',
          ''watch''],
       rule_on [''machineconfiguration.openshift.io''] [''machineconfigs'', ''machineconfigpools''] [''get'',
          ''list'', ''watch''],
       rule_on [''quota.openshift.io''] [''clusterresourcequotas'', ''appliedclusterresourcequotas''] [''get'',
          ''list'', ''watch''],
       rule_on [''network.operator.openshift.io''] [''operatorpkis'', ''egressrouters''] [''get'', ''list'',
          ''watch''],
       rule_on [''rbac.authorization.k8s.io''] [''roles'', ''rolebindings'', ''clusterroles'',
          ''clusterrolebindings''] [''get'', ''list'', ''watch''],
       rule_on [''admissionregistration.k8s.io''] [''mutatingwebhookconfigurations'',
          ''validatingwebhookconfigurations''] [''get'', ''list'', ''watch''],
       rule_on [''apiextensions.k8s.io''] [''customresourcedefinitions''] [''get'', ''list'', ''watch''],
       rule_on [''scheduling.k8s.io''] [''priorityclasses''] [''get'', ''list'', ''watch''],
       rule_on [''kubernaut.ai''] [''remediationrequests'', ''remediationapprovalrequests'',
          ''investigationsessions'', ''aianalyses'', ''signalprocessings'', ''effectivenessassessments'',
          ''workflowexecutions''] [''get'', ''list'', ''watch''],
       rule_on [''kubernaut.ai''] [''agentsessions''] [''get'', ''list'', ''watch'', ''update'', ''patch''],
       rule_on [''kubernaut.ai''] [''agentsessions/status''] [''get'', ''update'', ''patch''],
       rule_on [''coordination.k8s.io''] [''leases''] [''get'', ''create'', ''update'', ''delete'', ''list''],
       rule_on [''kubevirt.io''] [''virtualmachines'', ''virtualmachineinstances'',
          ''virtualmachineinstancemigrations''] [''get'', ''list'', ''watch''],
       rule_on [''cdi.kubevirt.io''] [''datavolumes''] [''get'', ''list'', ''watch'']]"

definition fleetCallerNodeReaderClusterRole :: "Kubernaut \<Rightarrow> smap \<Rightarrow> kobj" where
  "fleetCallerNodeReaderClusterRole kn labels = cluster_role (clusterRoleName kn ''fleet-caller-node-reader'') labels
     [rule_on [''''] [''nodes''] [''get'', ''list'', ''watch'']]"

definition fleetCallerWorkflowExecutionClusterRole :: "Kubernaut \<Rightarrow> smap \<Rightarrow> kobj" where
  "fleetCallerWorkflowExecutionClusterRole kn labels = cluster_role (clusterRoleName kn ''fleet-caller-workflow-execution'') labels
     [rule_on [''batch''] [''jobs''] [''create'', ''get'', ''list'', ''watch'', ''delete'', ''patch'', ''update''],
       rule_on [''tekton.dev''] [''pipelineruns''] [''create'', ''get'', ''list'', ''watch'', ''delete'', ''patch'',
          ''update''],
       rule_on [''tekton.dev''] [''taskruns''] [''get'']]"

definition signalprocessingClusterRole :: "Kubernaut \<Rightarrow> Kubernaut \<Rightarrow> smap \<Rightarrow> kobj" where
  "signalprocessingClusterRole kn knV2 labels = cluster_role (clusterRoleName kn ''signalprocessing-controller'') labels
     ([rule_on [''kubernaut.ai''] [''remediationrequests''] [''get'', ''list'', ''watch''],
       rule_on [''kubernaut.ai''] [''signalprocessings''] [''get'', ''list'', ''watch'', ''create'', ''update'',
          ''patch'', ''delete''],
       rule_on [''kubernaut.ai''] [''signalprocessings/status'', ''signalprocessings/finalizers''] [''get'',
          ''update'', ''patch''],
       rule_on [''''] [''pods'', ''services'', ''namespaces'', ''nodes''] [''get'', ''list'', ''watch''],
       rule_on [''''] [''events''] [''create'', ''patch''],
       rule_on [''apps''] [''deployments'', ''replicasets'', ''statefulsets'', ''daemonsets''] [''get'', ''list'',
          ''watch''],
       rule_on [''autoscaling''] [''horizontalpodautoscalers''] [''get'', ''list'', ''watch''],
       rule_on [''policy''] [''poddisruptionbudgets''] [''get'', ''list'', ''watch''],
       rule_on [''coordination.k8s.io''] [''leases''] [''get'', ''list'', ''watch'', ''create'', ''update'',
          ''patch'', ''delete'']]
      @ remote_read_rules knV2)"

definition remediationOrchestratorClusterRole :: "Kubernaut \<Rightarrow> smap \<Rightarrow> kobj" where
  "remediationOrchestratorClusterRole kn labels = cluster_role (clusterRoleName kn ''remediationorchestrator-controller'') labels
     [rule_on [''kubernaut.ai''] [''remediationrequests'', ''remediationapprovalrequests''] [''get'', ''list'',
          ''watch'', ''create'', ''update'', ''patch'', ''delete''],
       rule_on [''kubernaut.ai''] [''remediationrequests/status'', ''remediationapprovalrequests/status''] [''get'',
          ''update'', ''patch''],
       rule_on [''kubernaut.ai''] [''remediationrequests/finalizers''] [''update''],
       rule_on [''kubernaut.ai''] [''investigationsessions''] [''get'', ''list'', ''watch''],
       rule_on [''kubernaut.ai''] [''signalprocessings''] [''get'', ''list'', ''watch'', ''create'', ''update'',
          ''patch''],
       rule_on [''kubernaut.ai''] [''signalprocessings/status''] [''get''],
       rule_on [''kubernaut.ai''] [''aianalyses''] [''get'', ''list'', ''watch'', ''create'', ''update'', ''patch''],
       rule_on [''kubernaut.ai''] [''aianalyses/status''] [''get''],
       rule_on [''kubernaut.ai''] [''workflowexecutions''] [''get'', ''list'', ''watch'', ''create'', ''update'',
          ''patch''],
       rule_on [''kubernaut.ai''] [''workflowexecutions/status''] [''get''],
       rule_on [''kubernaut.ai''] [''notificationrequests''] [''get'', ''list'', ''watch'', ''create'', ''update'',
          ''patch''],
       rule_on [''kubernaut.ai''] [''notificationrequests/status''] [''get''],
       rule_on [''kubernaut.ai''] [''effectivenessassessments''] [''get'', ''list'', ''watch'', ''create'',
          ''update'', ''patch''],
       rule_on [''kubernaut.ai''] [''effectivenessassessments/status''] [''get''],
       rule_on [''''] [''events''] [''create'', ''patch''],
       rule_on [''''] [''pods'', ''nodes'', ''services'', ''namespaces'', ''persistentvolumes'',
          ''configmaps''] [''get'', ''list'', ''watch''],
       rule_on [''apps''] [''deployments'', ''replicasets'', ''statefulsets'', ''daemonsets''] [''get'', ''list'',
          ''watch''],
       rule_on [''batch''] [''jobs'', ''cronjobs''] [''get'', ''list'', ''watch'']]"

definition workflowExecutionControllerClusterRole :: "Kubernaut \<Rightarrow> smap \<Rightarrow> kobj" where
  "workflowExecutionControllerClusterRole kn labels = cluster_role (clusterRoleName kn ''workflowexecution-controller'') labels
     [rule_on [''kubernaut.ai''] [''workflowexecutions''] [''get'', ''list'', ''watch'', ''create'', ''update'',
          ''patch'', ''delete''],
       rule_on [''kubernaut.ai''] [''workflowexecutions/status''] [''get'', ''update'', ''patch''],
       rule_on [''kubernaut.ai''] [''workflowexecutions/finalizers''] [''update''],
       rule_on [''kubernaut.ai''] [''remediationrequests''] [''get'', ''list'', ''watch''],
       rule_on [''tekton.dev''] [''pipelineruns''] [''get'', ''list'', ''watch'', ''create'', ''update'', ''patch'',
          ''delete''],
       rule_on [''tekton.dev''] [''taskruns''] [''get'', ''list'', ''watch''],
       rule_on [''batch''] [''jobs''] [''get'', ''list'', ''watch'', ''create'', ''update'', ''patch'', ''delete''],
       rule_on [''''] [''pods''] [''get'', ''list'', ''watch''],
       rule_on [''''] [''events''] [''get'', ''list'', ''watch'', ''create'', ''patch''],
       rule_on [''''] [''serviceaccounts/token''] [''create''],
       rule_on [''coordination.k8s.io''] [''leases''] [''get'', ''list'', ''watch'', ''create'', ''update'',
          ''patch'', ''delete'']]"

definition workflowRunnerClusterRole :: "Kubernaut \<Rightarrow> smap \<Rightarrow> kobj" where
  "workflowRunnerClusterRole kn labels = cluster_role (clusterRoleName kn ''workflow-runner'') labels
     [rule_on [''apps''] [''deployments'', ''statefulsets'', ''daemonsets''] [''get'', ''list'', ''patch'',
          ''update''],
       rule_on [''apps''] [''replicasets''] [''get'', ''list'', ''watch''],
       rule_on [''''] [''pods''] [''get'', ''list'', ''delete'', ''watch''],
       rule_on [''''] [''pods/eviction''] [''create''],
       rule_on [''''] [''nodes''] [''get'', ''list'', ''patch'', ''update''],
       rule_on [''''] [''namespaces''] [''get'', ''list''],
       rule_on [''policy''] [''poddisruptionbudgets''] [''get'', ''list'', ''patch''],
       rule_on [''autoscaling''] [''horizontalpodautoscalers''] [''get'', ''list'', ''patch''],
       rule_on [''''] [''serviceaccounts/token''] [''create''],
       rule_on [''kubernaut.ai''] [''workflowexecutions''] [''get''],
       rule_on [''storage.k8s.io''] [''storageclasses''] [''get'', ''list''],
       rule_on [''''] [''endpoints''] [''get'', ''list''],
       rule_on [''argoproj.io''] [''applications''] [''get'', ''list''],
       rule_on [''cert-manager.io''] [''certificates''] [''get'', ''list''],
       rule_on [''cert-manager.io''] [''clusterissuers''] [''get'', ''list''],
       rule_on [''policy.linkerd.io''] [''authorizationpolicies'', ''servers'', ''meshtlsauthentications''] [''get'',
          ''list'', ''delete''],
       rule_on [''security.istio.io''] [''authorizationpolicies'', ''peerauthentications'',
          ''requestauthentications''] [''get'', ''list'', ''delete''],
       rule_on [''networking.istio.io''] [''virtualservices'', ''destinationrules'', ''gateways'',
          ''serviceentries''] [''get'', ''list'', ''create'', ''update'', ''patch'', ''delete'']]"

definition effectivenessMonitorControllerClusterRole :: "Kubernaut \<Rightarrow> Kubernaut \<Rightarrow> smap \<Rightarrow> kobj" where
  "effectivenessMonitorControllerClusterRole kn knV2 labels = cluster_role (clusterRoleName kn ''effectivenessmonitor-controller'') labels
     ([rule_on [''kubernaut.ai''] [''effectivenessassessments''] [''get'', ''list'', ''watch'', ''update'', ''patch''],
       rule_on [''kubernaut.ai''] [''effectivenessassessments/status''] [''get'', ''update'', ''patch''],
       rule_on [''kubernaut.ai''] [''remediationrequests''] [''get'', ''list'', ''watch''],
       rule_on [''''] [''pods'', ''nodes'', ''services'', ''persistentvolumeclaims'', ''configmaps''] [''get'',
          ''list'', ''watch''],
       rule_on [''apps''] [''deployments'', ''replicasets'', ''statefulsets'', ''daemonsets''] [''get'', ''list''],
       rule_on [''autoscaling''] [''horizontalpodautoscalers''] [''get'', ''list''],
       rule_on [''batch''] [''jobs'', ''cronjobs''] [''get'', ''list''],
       rule_on [''''] [''events''] [''create'', ''patch'']]
      @ ownerChainResolutionRules
      @ remote_read_rules knV2)"

definition notificationControllerClusterRole :: "Kubernaut \<Rightarrow> smap \<Rightarrow> kobj" where
  "notificationControllerClusterRole kn labels = cluster_role (clusterRoleName kn ''notification-controller'') labels
     [rule_on [''kubernaut.ai''] [''notificationrequests''] [''get'', ''list'', ''watch'', ''create'', ''update'',
          ''patch'', ''delete''],
       rule_on [''kubernaut.ai''] [''notificationrequests/status''] [''get'', ''update'', ''patch''],
       rule_on [''kubernaut.ai''] [''notificationrequests/finalizers''] [''update''],
       rule_on [''''] [''events''] [''create'', ''patch'']]"

definition dataStorageAuthMiddlewareClusterRole :: "Kubernaut \<Rightarrow> smap \<Rightarrow> kobj" where
  "dataStorageAuthMiddlewareClusterRole kn labels = cluster_role (clusterRoleName kn ''data-storage-auth-middleware'') labels
     [rule_on [''authentication.k8s.io''] [''tokenreviews''] [''create''],
       rule_on [''authorization.k8s.io''] [''subjectaccessreviews''] [''create'']]"

definition dataStorageClientClusterRole :: "Kubernaut \<Rightarrow> smap \<Rightarrow> kobj" where
  "dataStorageClientClusterRole kn labels = cluster_role (clusterRoleName kn ''data-storage-client'') labels
     [named_rule [''''] [''services''] [''data-storage-service''] [''create'', ''get'', ''list'', ''update'',
          ''delete'']]"

definition fleetMetadataCacheAuthMiddlewareClusterRole :: "Kubernaut \<Rightarrow> smap \<Rightarrow> kobj" where
  "fleetMetadataCacheAuthMiddlewareClusterRole kn labels = cluster_role (clusterRoleName kn ''fleetmetadatacache-auth-middleware'') labels
     [rule_on [''authentication.k8s.io''] [''tokenreviews''] [''create''],
       rule_on [''authorization.k8s.io''] [''subjectaccessreviews''] [''create'']]"

definition fmcScopeCheckClientClusterRole :: "Kubernaut \<Rightarrow> smap \<Rightarrow> kobj" where
  "fmcScopeCheckClientClusterRole kn labels = cluster_role (clusterRoleName kn ''fmc-scope-check-client'') labels
     [named_rule [''''] [''services''] [fleetMetadataCacheServiceName] [''get'']]"

definition authWebhookClusterRole :: "Kubernaut \<Rightarrow> smap \<Rightarrow> kobj" where
  "authWebhookClusterRole kn labels = cluster_role (clusterRoleName kn ''authwebhook-role'') labels
     [rule_on [''kubernaut.ai''] [''workflowexecutions'', ''remediationapprovalrequests'', ''notificationrequests'',
          ''remediationrequests'', ''actiontypes''] [''get'', ''list'', ''watch''],
       rule_on [''kubernaut.ai''] [''remediationworkflows''] [''get'', ''list'', ''watch'', ''update'', ''patch''],
       rule_on [''kubernaut.ai''] [''remediationworkflows/finalizers''] [''update''],
       rule_on [''kubernaut.ai''] [''workflowexecutions/status'', ''remediationapprovalrequests/status'',
          ''remediationrequests/status'', ''remediationworkflows/status'', ''actiontypes/status''] [''update'',
          ''patch''],
       rule_on ['''', ''events.k8s.io''] [''events''] [''create'', ''patch'']]"

definition alertmanagerViewClusterRole :: "Kubernaut \<Rightarrow> smap \<Rightarrow> kobj" where
  "alertmanagerViewClusterRole kn labels = cluster_role (clusterRoleName kn ''alertmanager-view'') labels
     [rule_on [''monitoring.coreos.com''] [''alertmanagers/api''] [''get'']]"

definition gatewaySignalSourceClusterRole :: "Kubernaut \<Rightarrow> smap \<Rightarrow> kobj" where
  "gatewaySignalSourceClusterRole kn labels = cluster_role (clusterRoleName kn ''gateway-signal-source'') labels
     [named_rule [''''] [''services''] [''gateway-service''] [''create'']]"

definition apifrontendClusterRole :: "Kubernaut \<Rightarrow> Kubernaut \<Rightarrow> smap \<Rightarrow> kobj" where
  "apifrontendClusterRole kn knV2 labels = cluster_role (clusterRoleName kn ''apifrontend-role'') labels
     ([rule_on [''kubernaut.ai''] [''investigationsessions''] [''get'', ''list'', ''watch'', ''create'', ''update'',
          ''patch'', ''delete''],
       rule_on [''kubernaut.ai''] [''investigationsessions/status''] [''get'', ''update'', ''patch''],
       rule_on [''kubernaut.ai''] [''agentsessions''] [''get'', ''list'', ''watch'', ''update'', ''patch''],
       rule_on [''kubernaut.ai''] [''remediationrequests''] [''get'', ''list'', ''watch'', ''create'', ''update'',
          ''patch''],
       rule_on [''kubernaut.ai''] [''remediationrequests/status''] [''get'', ''update'', ''patch''],
       rule_on [''kubernaut.ai''] [''remediationapprovalrequests''] [''get'', ''list'', ''watch'', ''create'',
          ''update'', ''patch''],
       rule_on [''kubernaut.ai''] [''remediationapprovalrequests/status''] [''get'', ''update'', ''patch''],
       rule_on [''kubernaut.ai''] [''aianalyses''] [''get'', ''list'', ''watch''],
       rule_on [''kubernaut.ai''] [''effectivenessassessments''] [''get'', ''list'', ''watch''],
       rule_on [''coordination.k8s.io''] [''leases''] [''get'', ''list'', ''watch''],
       rule_on [''authorization.k8s.io''] [''subjectaccessreviews''] [''create''],
       rule_on [''authentication.k8s.io''] [''tokenreviews''] [''create''],
       named_rule [''''] [''services''] [''kubernaut-agent''] [''create''],
       rule_on [''''] [''events''] [''get'', ''list'', ''create'', ''patch''],
       rule_on [''''] [''pods'', ''replicationcontrollers'', ''services'', ''configmaps'', ''secrets'', ''endpoints'',
          ''namespaces'', ''nodes'', ''persistentvolumeclaims''] [''get'', ''list''],
       rule_on [''apps''] [''deployments'', ''replicasets'', ''statefulsets'', ''daemonsets''] [''get'', ''list''],
       rule_on [''batch''] [''jobs'', ''cronjobs''] [''get'', ''list''],
       rule_on [''networking.k8s.io''] [''ingresses''] [''get'', ''list''],
       rule_on [''autoscaling''] [''horizontalpodautoscalers''] [''get'', ''list''],
       rule_on [''policy''] [''poddisruptionbudgets''] [''get'', ''list''],
       rule_on [''cert-manager.io''] [''certificates''] [''get'', ''list''],
       rule_on [''kubevirt.io''] [''virtualmachines'', ''virtualmachineinstances'',
          ''virtualmachineinstancemigrations''] [''get'', ''list''],
       rule_on [''cdi.kubevirt.io''] [''datavolumes''] [''get'', ''list'']]
      @ remote_read_rules knV2)"


definition fleetMetadataCacheClusterRole :: "Kubernaut \<Rightarrow> Kubernaut \<Rightarrow> smap \<Rightarrow> kobj" where
  "fleetMetadataCacheClusterRole kn knV2 labels = cluster_role (clusterRoleName kn ''fleetmetadatacache'') labels
     (if fleetMCPGateway_Namespace (mcp_gateway knV2) = ''''
      then mcpGatewayCRDPolicyRules (fleetMCPGateway_Type (mcp_gateway knV2)) else [])"

definition fleetMetadataCacheClusterRoleBinding :: "Kubernaut \<Rightarrow> smap \<Rightarrow> kobj" where
  "fleetMetadataCacheClusterRoleBinding kn labels =
     clusterRoleBinding (clusterRoleName kn ''fleetmetadatacache-binding'') (clusterRoleName kn ''fleetmetadatacache'')
       (ServiceAccountName ComponentFleetMetadataCache) (kn_Namespace kn) labels"

definition ConsoleAccessClusterRoleName :: "Kubernaut \<Rightarrow> string" where
  "ConsoleAccessClusterRoleName kn = clusterRoleName kn ''console-access''"

definition ConsoleAccessClusterRole :: "Kubernaut \<Rightarrow> kobj option" where
  "ConsoleAccessClusterRole kn =
     (if \<not> APIFrontendEnabled (kn_Spec kn) then None
      else Some (cluster_role (ConsoleAccessClusterRoleName kn) (CommonLabels kn)
        [rule_on [''kubernaut.ai''] [''console''] [''use'']]))"

end
