(* ===== verification/Rbac.thy ===== *)
theory Rbac
  imports Rbac_Roles Go_Crypto
begin

text \<open>
  The sets of roles and bindings an instance gets (\<^verbatim>\<open>ClusterRoles\<close>, \<^verbatim>\<open>ClusterRoleBindings\<close> and the namespaced ones of
  \<^verbatim>\<open>internal/resources/rbac.go\<close>).

  The model of authorization is Kubernetes': permissions are additive, a rule allows a request when its API group,
  resource, verb and, if the rule names any, object name all match. Against it the lemmas show that the bindings refer
  to roles that exist, that no role can be used to gain others, and that the reads of the MCP gateway are granted either in
  one namespace or in the whole cluster, never in both.
\<close>

subsection \<open>Cluster-scoped core\<close>

definition markCoreClusterRBAC :: "kobj list \<Rightarrow> kobj list" where
  "markCoreClusterRBAC objs = map (\<lambda>o'. set_labels ((obj_Labels o')(LabelCoreClusterRBAC \<mapsto> LabelValueTrue)) o') objs"

definition ClusterRoles :: "Kubernaut \<Rightarrow> Kubernaut \<Rightarrow> kobj list" where
  "ClusterRoles kn knV2 =
     (let labels = CommonLabels kn in markCoreClusterRBAC
       ([aianalysisControllerClusterRole kn labels,
         kubernautAgentClientClusterRole kn labels,
         kubernautAgentInvestigatorClusterRole kn labels,
         signalprocessingClusterRole kn knV2 labels,
         remediationOrchestratorClusterRole kn labels,
         workflowExecutionControllerClusterRole kn labels,
         workflowRunnerClusterRole kn labels,
         effectivenessMonitorControllerClusterRole kn knV2 labels,
         notificationControllerClusterRole kn labels,
         dataStorageAuthMiddlewareClusterRole kn labels,
         dataStorageClientClusterRole kn labels,
         authWebhookClusterRole kn labels]
        @ (if GatewayEnabled (kn_Spec kn) then [gatewayClusterRole kn labels] else [])
        @ [alertmanagerViewClusterRole kn labels]
        @ (if GatewayEnabled (kn_Spec kn) then [gatewaySignalSourceClusterRole kn labels] else [])
        @ (if APIFrontendEnabled (kn_Spec kn)
           then apifrontendClusterRole kn knV2 labels
             # (case ConsoleAccessClusterRole kn of None \<Rightarrow> [] | Some r \<Rightarrow> [r]) else [])
        @ (if FleetMetadataCacheEnabled (kn_Spec knV2) \<and> fleetMCPGateway_Namespace (mcp_gateway knV2) = ''''
           then [fleetMetadataCacheClusterRole kn knV2 labels] else [])
        @ (if FleetMetadataCacheEnabled (kn_Spec knV2)
           then [fleetMetadataCacheAuthMiddlewareClusterRole kn labels, fmcScopeCheckClientClusterRole kn labels] else [])
        @ (if fleetCallerRBACEnabled knV2
           then [fleetCallerNodeReaderClusterRole kn labels, fleetCallerWorkflowExecutionClusterRole kn labels] else [])))"

definition FleetReadGroup :: string where "FleetReadGroup = ''oidc:kubernaut-fleet-read''"
definition FleetExecutionGroup :: string where "FleetExecutionGroup = ''oidc:kubernaut-fleet-workflow-execution''"
definition OCPMonitoringNamespace :: string where "OCPMonitoringNamespace = ''openshift-monitoring''"
definition OCPAlertManagerSAName :: string where "OCPAlertManagerSAName = ''alertmanager-main''"

definition groupClusterRoleBinding :: "string \<Rightarrow> string \<Rightarrow> string \<Rightarrow> smap \<Rightarrow> kobj" where
  "groupClusterRoleBinding name roleName groupName labels = \<lparr>obj_Kind = ''ClusterRoleBinding'',
     obj_Meta = zero_object_meta\<lparr>meta_Name := name, meta_Labels := labels\<rparr>,
     obj_Body = BindingBody \<lparr>roleRef_APIGroup = ''rbac.authorization.k8s.io'', roleRef_Kind = ''ClusterRole'', roleRef_Name = roleName\<rparr>
       [\<lparr>subject_Kind = ''Group'', subject_APIGroup = ''rbac.authorization.k8s.io'', subject_Name = groupName, subject_Namespace = ''''\<rparr>]\<rparr>"

definition monitoringClusterRoleBindings :: "Kubernaut \<Rightarrow> smap \<Rightarrow> kobj list" where
  "monitoringClusterRoleBindings kn labels =
     (let ns = kn_Namespace kn; p = clusterRoleName kn in
       [clusterRoleBinding (p ''effectivenessmonitor-alertmanager-view-binding'') (p ''alertmanager-view'')
          (ServiceAccountName ComponentEffectivenessMonitor) ns labels,
        clusterRoleBinding (p ''effectivenessmonitor-monitoring-view'') ''cluster-monitoring-view''
          (ServiceAccountName ComponentEffectivenessMonitor) ns labels,
        clusterRoleBinding (p ''kubernaut-agent-monitoring-view'') ''cluster-monitoring-view''
          (ServiceAccountName ComponentKubernautAgent) ns labels,
        clusterRoleBinding (p ''kubernaut-agent-alertmanager-view-binding'') (p ''alertmanager-view'')
          (ServiceAccountName ComponentKubernautAgent) ns labels]
       @ (if GatewayEnabled (kn_Spec kn)
          then [clusterRoleBinding (p ''alertmanager-gateway-signal-source'') (p ''gateway-signal-source'')
                  OCPAlertManagerSAName OCPMonitoringNamespace labels] else [])
       @ (if APIFrontendEnabled (kn_Spec kn)
          then [clusterRoleBinding (p ''apifrontend-monitoring-view'') ''cluster-monitoring-view''
                  (ServiceAccountName ComponentAPIFrontend) ns labels] else []))"

definition ClusterRoleBindings :: "Kubernaut \<Rightarrow> Kubernaut \<Rightarrow> kobj list" where
  "ClusterRoleBindings kn knV2 =
     (let labels = CommonLabels kn; ns = kn_Namespace kn; p = clusterRoleName kn;
          bind = (\<lambda>binding role component. clusterRoleBinding (p binding) (p role) (ServiceAccountName component) ns labels)
      in markCoreClusterRBAC
       ([bind ''aianalysis-controller-binding'' ''aianalysis-controller'' ComponentAIAnalysis,
         bind ''kubernaut-agent-investigator-binding'' ''kubernaut-agent-investigator'' ComponentKubernautAgent,
         bind ''kubernaut-agent-auth-middleware-binding'' ''data-storage-auth-middleware'' ComponentKubernautAgent,
         bind ''signalprocessing-controller-binding'' ''signalprocessing-controller'' ComponentSignalProcessing,
         bind ''remediationorchestrator-controller-binding'' ''remediationorchestrator-controller'' ComponentRemediationOrchestrator,
         bind ''workflowexecution-controller-binding'' ''workflowexecution-controller'' ComponentWorkflowExecution,
         bind ''effectivenessmonitor-controller-binding'' ''effectivenessmonitor-controller'' ComponentEffectivenessMonitor,
         bind ''notification-controller-binding'' ''notification-controller'' ComponentNotification,
         bind ''data-storage-auth-middleware-binding'' ''data-storage-auth-middleware'' ComponentDataStorage,
         bind ''authwebhook-binding'' ''authwebhook-role'' ComponentAuthWebhook]
        @ [clusterRoleBinding (p ''workflow-runner-binding'') (p ''workflow-runner'')
             ''kubernaut-workflow-runner'' (ResolveWorkflowNamespace kn) labels]
        @ (if GatewayEnabled (kn_Spec kn) then [bind ''gateway-role-binding'' ''gateway-role'' ComponentGateway] else [])
        @ monitoringClusterRoleBindings kn labels
        @ (if APIFrontendEnabled (kn_Spec kn) then [bind ''apifrontend-binding'' ''apifrontend-role'' ComponentAPIFrontend] else [])
        @ (if FleetMetadataCacheEnabled (kn_Spec knV2) \<and> fleetMCPGateway_Namespace (mcp_gateway knV2) = ''''
           then [fleetMetadataCacheClusterRoleBinding kn labels] else [])
        @ (if FleetMetadataCacheEnabled (kn_Spec knV2)
           then [bind ''fleetmetadatacache-auth-middleware-binding'' ''fleetmetadatacache-auth-middleware'' ComponentFleetMetadataCache]
             @ (if GatewayEnabled (kn_Spec kn)
                then [bind ''gateway-fmc-scope-check-client'' ''fmc-scope-check-client'' ComponentGateway] else [])
             @ [bind ''remediationorchestrator-fmc-scope-check-client'' ''fmc-scope-check-client'' ComponentRemediationOrchestrator]
           else [])
        @ (if fleetCallerRBACEnabled knV2
           then [groupClusterRoleBinding (p ''fleet-caller-read-view-binding'') ''view'' FleetReadGroup labels,
                 groupClusterRoleBinding (p ''fleet-caller-read-node-reader-binding'') (p ''fleet-caller-node-reader'') FleetReadGroup labels,
                 groupClusterRoleBinding (p ''fleet-caller-execution-binding'') (p ''fleet-caller-workflow-execution'')
                   FleetExecutionGroup labels]
           else [])))"


subsection \<open>Namespaced core\<close>

definition ns_role :: "string \<Rightarrow> string \<Rightarrow> smap \<Rightarrow> policy_rule list \<Rightarrow> kobj" where
  "ns_role namespace name labels rules = \<lparr>obj_Kind = ''Role'',
     obj_Meta = zero_object_meta\<lparr>meta_Name := name, meta_Namespace := namespace, meta_Labels := labels\<rparr>,
     obj_Body = RoleBody rules\<rparr>"

definition ns_binding :: "string \<Rightarrow> string \<Rightarrow> smap \<Rightarrow> string \<Rightarrow> string \<Rightarrow> string \<Rightarrow> string \<Rightarrow> kobj" where
  "ns_binding namespace name labels kind role account accountNamespace = \<lparr>obj_Kind = ''RoleBinding'',
     obj_Meta = zero_object_meta\<lparr>meta_Name := name, meta_Namespace := namespace, meta_Labels := labels\<rparr>,
     obj_Body = BindingBody \<lparr>roleRef_APIGroup = ''rbac.authorization.k8s.io'', roleRef_Kind = kind, roleRef_Name = role\<rparr>
       [\<lparr>subject_Kind = ''ServiceAccount'', subject_APIGroup = '''', subject_Name = account, subject_Namespace = accountNamespace\<rparr>]\<rparr>"

definition DataStorageClientRoleBindings :: "Kubernaut \<Rightarrow> kobj list" where
  "DataStorageClientRoleBindings kn =
     (let ns = kn_Namespace kn;
          consumers =
            [(''data-storage-client-aianalysis'', ServiceAccountName ComponentAIAnalysis),
             (''data-storage-client-signalprocessing'', ServiceAccountName ComponentSignalProcessing),
             (''data-storage-client-remediationorchestrator'', ServiceAccountName ComponentRemediationOrchestrator),
             (''data-storage-client-workflowexecution'', ServiceAccountName ComponentWorkflowExecution),
             (''data-storage-client-effectivenessmonitor'', ServiceAccountName ComponentEffectivenessMonitor),
             (''data-storage-client-notification'', ServiceAccountName ComponentNotification),
             (''data-storage-client-kubernaut-agent'', ServiceAccountName ComponentKubernautAgent),
             (''data-storage-client-authwebhook'', ServiceAccountName ComponentAuthWebhook),
             (''data-storage-client-datastorage'', ServiceAccountName ComponentDataStorage),
             (''data-storage-client-apifrontend'', ServiceAccountName ComponentAPIFrontend)]
            @ (if GatewayEnabled (kn_Spec kn) then [(''data-storage-client-gateway'', ServiceAccountName ComponentGateway)] else [])
      in map (\<lambda>(name, sa). ns_binding ns name (CommonLabels kn) ''ClusterRole'' (clusterRoleName kn ''data-storage-client'') sa ns) consumers)"

definition KubernautAgentClientRoleBinding :: "Kubernaut \<Rightarrow> kobj" where
  "KubernautAgentClientRoleBinding kn = ns_binding (kn_Namespace kn) ''kubernaut-agent-client-aianalysis'' (CommonLabels kn)
     ''ClusterRole'' (clusterRoleName kn ''kubernaut-agent-client'') (ServiceAccountName ComponentAIAnalysis) (kn_Namespace kn)"

definition KubernautAgentClientAPIfrontendRoleBinding :: "Kubernaut \<Rightarrow> kobj" where
  "KubernautAgentClientAPIfrontendRoleBinding kn = ns_binding (kn_Namespace kn) ''kubernaut-agent-client-apifrontend'' (CommonLabels kn)
     ''ClusterRole'' (clusterRoleName kn ''kubernaut-agent-client'') (ServiceAccountName ComponentAPIFrontend) (kn_Namespace kn)"

definition NamespaceRoles :: "Kubernaut \<Rightarrow> Kubernaut \<Rightarrow> kobj list" where
  "NamespaceRoles kn knV2 = map (\<lambda>c. ns_role (kn_Namespace kn) (c @ ''-ns-role'') (CommonLabels kn)
     [rule_on [''''] [''configmaps'', ''secrets''] [''get'', ''list'', ''watch'']]) (ActiveComponents kn knV2)"

definition NamespaceRoleBindings :: "Kubernaut \<Rightarrow> Kubernaut \<Rightarrow> kobj list" where
  "NamespaceRoleBindings kn knV2 = map (\<lambda>c. ns_binding (kn_Namespace kn) (c @ ''-ns-rolebinding'') (CommonLabels kn)
     ''Role'' (c @ ''-ns-role'') (ServiceAccountName c) (kn_Namespace kn)) (ActiveComponents kn knV2)"

record catalogGrant =
  grant_roleBase :: string
  grant_component :: string
  grant_resources :: "string list"
  grant_verbs :: "string list"

definition catalogGrants :: "catalogGrant list" where
  "catalogGrants =
     [\<lparr>grant_roleBase = ''kubernaut-agent-workflow-catalog'', grant_component = ComponentKubernautAgent,
       grant_resources = [''remediationworkflows'', ''actiontypes''], grant_verbs = [''list'', ''watch'']\<rparr>,
      \<lparr>grant_roleBase = ''authwebhook-workflow-catalog'', grant_component = ComponentAuthWebhook,
       grant_resources = [''remediationworkflows''], grant_verbs = [''list'']\<rparr>,
      \<lparr>grant_roleBase = ''workflowexecution-workflow-catalog'', grant_component = ComponentWorkflowExecution,
       grant_resources = [''remediationworkflows''], grant_verbs = [''list'']\<rparr>]"

definition TrustedWorkflowCatalogRBAC :: "Kubernaut \<Rightarrow> kobj list \<times> kobj list" where
  "TrustedWorkflowCatalogRBAC kn = (let ns = kn_Namespace kn in
     (map (\<lambda>g. ns_role ns (clusterRoleName kn (grant_roleBase g)) (CommonLabels kn)
        [rule_on [crdGroup] (grant_resources g) (grant_verbs g)]) catalogGrants,
      map (\<lambda>g. ns_binding ns (clusterRoleName kn (grant_roleBase g) @ ''-binding'') (CommonLabels kn) ''Role''
        (clusterRoleName kn (grant_roleBase g)) (ServiceAccountName (grant_component g)) ns) catalogGrants))"

text \<open>The four candidates of \<^verbatim>\<open>MCPGatewayNamespaceRBAC\<close>: whether they are active, the base of the role name, the component.\<close>

definition mcp_grants :: "Kubernaut \<Rightarrow> (bool \<times> string \<times> string) list" where
  "mcp_grants knV2 =
     [(FleetMetadataCacheEnabled (kn_Spec knV2), ''fleetmetadatacache-mcpgateway'', ComponentFleetMetadataCache),
      (mcpGatewayRemoteReadsEnabled knV2, ''signalprocessing-mcpgateway'', ComponentSignalProcessing),
      (mcpGatewayRemoteReadsEnabled knV2, ''apifrontend-mcpgateway'', ComponentAPIFrontend),
      (mcpGatewayRemoteReadsEnabled knV2, ''effectivenessmonitor-mcpgateway'', ComponentEffectivenessMonitor)]"

definition MCPGatewayNamespaceRBAC :: "Kubernaut \<Rightarrow> Kubernaut \<Rightarrow> kobj list \<times> kobj list" where
  "MCPGatewayNamespaceRBAC kn knV2 =
     (let labels = (CommonLabels kn)(LabelMCPGatewayNamespaceRBAC \<mapsto> LabelValueTrue);
          namespace = fleetMCPGateway_Namespace (mcp_gateway knV2);
          grants = filter (\<lambda>(active, _, _). active \<and> namespace \<noteq> '''') (mcp_grants knV2)
      in (map (\<lambda>(_, base, _). ns_role namespace (clusterRoleName kn base) labels
              (mcpGatewayCRDPolicyRules (fleetMCPGateway_Type (mcp_gateway knV2)))) grants,
          map (\<lambda>(_, base, component). ns_binding namespace (clusterRoleName kn base @ ''-binding'') labels ''Role''
              (clusterRoleName kn base) (ServiceAccountName component) (kn_Namespace kn)) grants))"

subsection \<open>Bindings the user asks for\<close>

definition maxK8sNameLen :: nat where "maxK8sNameLen = 253"

text \<open>\<open>None\<close> where the slice expression of the source is out of range.\<close>

definition AdditionalComponentCRBName :: "Kubernaut \<Rightarrow> string \<Rightarrow> string \<Rightarrow> string option" where
  "AdditionalComponentCRBName kn component role =
     (let prefix = kn_Namespace kn @ ''-'' @ component @ ''-ext-''; name = prefix @ role in
      if length name \<le> maxK8sNameLen then Some name
      else if maxK8sNameLen < length prefix + 1 + 8 then None
      else let hash = take 8 (format_hex (Sum256 role)); maxRoleLen = maxK8sNameLen - length prefix - 1 - 8
           in Some (prefix @ take maxRoleLen role @ ''-'' @ hash))"

definition AdditionalComponentCRB :: "Kubernaut \<Rightarrow> string \<Rightarrow> string \<Rightarrow> string \<Rightarrow> kobj option" where
  "AdditionalComponentCRB kn component saName crName =
     map_option (\<lambda>name. clusterRoleBinding name crName saName (kn_Namespace kn)
       ((CommonLabels kn)(LabelAdditionalComponentRBAC \<mapsto> LabelValueTrue)))
       (AdditionalComponentCRBName kn component crName)"

text \<open>\<^verbatim>\<open>ToolClusterRoleBindings\<close> folds over the entries with a map from keys to groups and the keys in the order of
  their first occurrence: one association list in that order.\<close>

definition binding_key :: "ToolRoleBinding \<Rightarrow> string" where
  "binding_key rb = (if toolRoleBinding_ClusterRoleName rb \<noteq> '''' then ''custom:'' @ toolRoleBinding_ClusterRoleName rb
     else ''persona:'' @ toolRoleBinding_Role rb)"

fun merge_groups :: "string \<Rightarrow> 'a list \<Rightarrow> (string \<times> 'a list) list \<Rightarrow> (string \<times> 'a list) list" where
  "merge_groups k gs [] = [(k, gs)]"
| "merge_groups k gs ((k', gs') # m) = (if k' = k then (k', gs' @ gs) # m else (k', gs') # merge_groups k gs m)"

definition merged_bindings :: "ToolRoleBinding list \<Rightarrow> (string \<times> string list) list" where
  "merged_bindings bs = fold (\<lambda>rb m. merge_groups (binding_key rb) (toolRoleBinding_Groups rb) m) bs []"

definition group_subject :: "string \<Rightarrow> subject" where
  "group_subject g = \<lparr>subject_Kind = ''Group'', subject_APIGroup = '''', subject_Name = g, subject_Namespace = ''''\<rparr>"

definition group_binding :: "Kubernaut \<Rightarrow> string \<Rightarrow> string \<Rightarrow> string list \<Rightarrow> kobj" where
  "group_binding kn name role groups = \<lparr>obj_Kind = ''ClusterRoleBinding'',
     obj_Meta = zero_object_meta\<lparr>meta_Name := name, meta_Labels := CommonLabels kn\<rparr>,
     obj_Body = BindingBody \<lparr>roleRef_APIGroup = ''rbac.authorization.k8s.io'', roleRef_Kind = ''ClusterRole'', roleRef_Name = role\<rparr>
       (map group_subject groups)\<rparr>"

definition tool_binding :: "Kubernaut \<Rightarrow> string \<times> string list \<Rightarrow> kobj" where
  "tool_binding kn = (\<lambda>(key, groups).
     if has_prefix key ''custom:''
     then let name = drop (length ''custom:'') key
          in group_binding kn (clusterRoleName kn (''tool-custom-'' @ name @ ''-binding'')) name groups
     else let name = drop (length ''persona:'') key
          in group_binding kn (clusterRoleName kn (''tool-'' @ name @ ''-binding'')) (clusterRoleName kn (''tool-'' @ name)) groups)"

definition ToolClusterRoleBindings :: "Kubernaut \<Rightarrow> kobj list" where
  "ToolClusterRoleBindings kn = (case apiFrontend_RBAC (spec_APIFrontend (kn_Spec kn)) of
     None \<Rightarrow> []
   | Some rbac \<Rightarrow> map (tool_binding kn) (merged_bindings (apiFrontendRBAC_RoleBindings rbac)))"

definition ToolCRBNames :: "Kubernaut \<Rightarrow> string list" where
  "ToolCRBNames kn = map obj_Name (ToolClusterRoleBindings kn)"

text \<open>\<open>None\<close> is Go's nil slice: unset, as against an explicit empty list.\<close>

definition effectiveConsoleAccessGroups :: "Kubernaut \<Rightarrow> string list" where
  "effectiveConsoleAccessGroups kn = (case apiFrontend_RBAC (spec_APIFrontend (kn_Spec kn)) of
     None \<Rightarrow> []
   | Some rbac \<Rightarrow>
      (case apiFrontendRBAC_ConsoleAccessGroups rbac of
         Some groups \<Rightarrow> groups
       | None \<Rightarrow> rev (fold (\<lambda>g seen. if g \<in> set seen then seen else g # seen)
           (concat (map toolRoleBinding_Groups (apiFrontendRBAC_RoleBindings rbac))) [])))"

definition ConsoleAccessClusterRoleBinding :: "Kubernaut \<Rightarrow> kobj option" where
  "ConsoleAccessClusterRoleBinding kn =
     (if \<not> APIFrontendEnabled (kn_Spec kn) then None
      else let groups = effectiveConsoleAccessGroups kn in
        if groups = [] then None
        else Some (group_binding kn (ConsoleAccessCRBName kn) (ConsoleAccessClusterRoleName kn) groups))"


subsection \<open>What a role allows\<close>

definition entry_covers :: "string list \<Rightarrow> string \<Rightarrow> bool" where
  "entry_covers xs x \<longleftrightarrow> ''*'' \<in> set xs \<or> x \<in> set xs"

definition rule_allows :: "policy_rule \<Rightarrow> string \<Rightarrow> string \<Rightarrow> string \<Rightarrow> string \<Rightarrow> bool" where
  "rule_allows r grp resource name verb \<longleftrightarrow>
     entry_covers (rbac_APIGroups r) grp \<and> entry_covers (rbac_Resources r) resource \<and> entry_covers (rbac_Verbs r) verb \<and>
     (rbac_ResourceNames r = [] \<or> name \<in> set (rbac_ResourceNames r))"

definition role_rules :: "kobj \<Rightarrow> policy_rule list" where
  "role_rules r = (case obj_Body r of RoleBody rs \<Rightarrow> rs | _ \<Rightarrow> [])"

definition binding_role :: "kobj \<Rightarrow> string" where
  "binding_role b = (case obj_Body b of BindingBody ref subjects \<Rightarrow> roleRef_Name ref | _ \<Rightarrow> '''')"

definition binding_subjects :: "kobj \<Rightarrow> subject list" where
  "binding_subjects b = (case obj_Body b of BindingBody ref subjects \<Rightarrow> subjects | _ \<Rightarrow> [])"

lemmas rbac_views = role_rules_def binding_role_def binding_subjects_def

definition role_allows :: "kobj \<Rightarrow> string \<Rightarrow> string \<Rightarrow> string \<Rightarrow> string \<Rightarrow> bool" where
  "role_allows r grp resource name verb \<longleftrightarrow> list_ex (\<lambda>p. rule_allows p grp resource name verb) (role_rules r)"

text \<open>The rules a service account gets through a set of bindings to a set of roles.\<close>

definition bound_rules :: "kobj list \<Rightarrow> kobj list \<Rightarrow> string \<Rightarrow> string \<Rightarrow> policy_rule list" where
  "bound_rules roles bindings account namespace =
     concat (map (\<lambda>b. concat (map role_rules (filter (\<lambda>r. obj_Name r = binding_role b) roles)))
       (filter (\<lambda>b. \<lparr>subject_Kind = ''ServiceAccount'', subject_APIGroup = '''', subject_Name = account,
          subject_Namespace = namespace\<rparr> \<in> set (binding_subjects b)) bindings))"

lemma views_set_labels [simp]:
  "role_rules (set_labels l x) = role_rules x" "binding_role (set_labels l x) = binding_role x"
  "binding_subjects (set_labels l x) = binding_subjects x"
  by (simp_all add: rbac_views)

lemma views_role [simp]:
  "role_rules (cluster_role n l rs) = rs" "obj_Name (cluster_role n l rs) = n"
  "role_rules (ns_role ns n l rs) = rs" "obj_Name (ns_role ns n l rs) = n"
  by (simp_all add: cluster_role_def ns_role_def rbac_views)

lemma views_binding [simp]:
  "binding_role (clusterRoleBinding n r sa ns l) = r" "obj_Name (clusterRoleBinding n r sa ns l) = n"
  "binding_role (groupClusterRoleBinding n r g l) = r" "obj_Name (groupClusterRoleBinding n r g l) = n"
  "binding_role (ns_binding ns n l k r sa sns) = r" "obj_Name (ns_binding ns n l k r sa sns) = n"
  "binding_role (group_binding kn n r gs) = r" "obj_Name (group_binding kn n r gs) = n"
  "binding_subjects (group_binding kn n r gs) = map group_subject gs"
  "binding_subjects (clusterRoleBinding n r sa ns l) =
     [\<lparr>subject_Kind = ''ServiceAccount'', subject_APIGroup = '''', subject_Name = sa, subject_Namespace = ns\<rparr>]"
  "binding_subjects (ns_binding ns n l k r sa sns) =
     [\<lparr>subject_Kind = ''ServiceAccount'', subject_APIGroup = '''', subject_Name = sa, subject_Namespace = sns\<rparr>]"
  "binding_subjects (groupClusterRoleBinding n r g l) =
     [\<lparr>subject_Kind = ''Group'', subject_APIGroup = ''rbac.authorization.k8s.io'', subject_Name = g, subject_Namespace = ''''\<rparr>]"
  by (simp_all add: clusterRoleBinding_def groupClusterRoleBinding_def ns_binding_def group_binding_def rbac_views)

lemma clusterRoleName_inject [simp]: "clusterRoleName kn a = clusterRoleName kn b \<longleftrightarrow> a = b"
  by (simp add: clusterRoleName_def)

lemmas cluster_role_defs = aianalysisControllerClusterRole_def kubernautAgentClientClusterRole_def
  kubernautAgentInvestigatorClusterRole_def signalprocessingClusterRole_def remediationOrchestratorClusterRole_def
  workflowExecutionControllerClusterRole_def workflowRunnerClusterRole_def effectivenessMonitorControllerClusterRole_def
  notificationControllerClusterRole_def dataStorageAuthMiddlewareClusterRole_def dataStorageClientClusterRole_def
  authWebhookClusterRole_def gatewayClusterRole_def alertmanagerViewClusterRole_def gatewaySignalSourceClusterRole_def
  apifrontendClusterRole_def fleetMetadataCacheClusterRole_def fleetMetadataCacheAuthMiddlewareClusterRole_def
  fmcScopeCheckClientClusterRole_def fleetCallerNodeReaderClusterRole_def fleetCallerWorkflowExecutionClusterRole_def

subsection \<open>The core set is closed\<close>

definition core_role_bases :: "Kubernaut \<Rightarrow> Kubernaut \<Rightarrow> string list" where
  "core_role_bases kn knV2 =
     [''aianalysis-controller'', ''kubernaut-agent-client'', ''kubernaut-agent-investigator'', ''signalprocessing-controller'',
      ''remediationorchestrator-controller'', ''workflowexecution-controller'', ''workflow-runner'',
      ''effectivenessmonitor-controller'', ''notification-controller'', ''data-storage-auth-middleware'',
      ''data-storage-client'', ''authwebhook-role'']
     @ (if GatewayEnabled (kn_Spec kn) then [''gateway-role''] else [])
     @ [''alertmanager-view'']
     @ (if GatewayEnabled (kn_Spec kn) then [''gateway-signal-source''] else [])
     @ (if APIFrontendEnabled (kn_Spec kn) then [''apifrontend-role'', ''console-access''] else [])
     @ (if FleetMetadataCacheEnabled (kn_Spec knV2) \<and> fleetMCPGateway_Namespace (mcp_gateway knV2) = ''''
        then [''fleetmetadatacache''] else [])
     @ (if FleetMetadataCacheEnabled (kn_Spec knV2) then [''fleetmetadatacache-auth-middleware'', ''fmc-scope-check-client''] else [])
     @ (if fleetCallerRBACEnabled knV2 then [''fleet-caller-node-reader'', ''fleet-caller-workflow-execution''] else [])"

lemma ClusterRoles_names: "map obj_Name (ClusterRoles kn knV2) = map (clusterRoleName kn) (core_role_bases kn knV2)"
  unfolding ClusterRoles_def Let_def markCoreClusterRBAC_def core_role_bases_def cluster_role_defs ConsoleAccessClusterRole_def
    ConsoleAccessClusterRoleName_def by simp

lemma distinct_core_role_bases: "distinct (core_role_bases kn knV2)"
  unfolding core_role_bases_def by auto

lemma inj_clusterRoleName: "inj (clusterRoleName kn)"
  by (rule injI) simp

lemma marked [simp]: "x \<in> set (markCoreClusterRBAC xs) \<Longrightarrow> obj_Labels x LabelCoreClusterRBAC = Some LabelValueTrue"
  by (auto simp: markCoreClusterRBAC_def)

definition core_binding_bases :: "Kubernaut \<Rightarrow> Kubernaut \<Rightarrow> string list" where
  "core_binding_bases kn knV2 =
     [''aianalysis-controller-binding'', ''kubernaut-agent-investigator-binding'', ''kubernaut-agent-auth-middleware-binding'',
      ''signalprocessing-controller-binding'', ''remediationorchestrator-controller-binding'',
      ''workflowexecution-controller-binding'', ''effectivenessmonitor-controller-binding'', ''notification-controller-binding'',
      ''data-storage-auth-middleware-binding'', ''authwebhook-binding'', ''workflow-runner-binding'']
     @ (if GatewayEnabled (kn_Spec kn) then [''gateway-role-binding''] else [])
     @ [''effectivenessmonitor-alertmanager-view-binding'', ''effectivenessmonitor-monitoring-view'',
        ''kubernaut-agent-monitoring-view'', ''kubernaut-agent-alertmanager-view-binding'']
     @ (if GatewayEnabled (kn_Spec kn) then [''alertmanager-gateway-signal-source''] else [])
     @ (if APIFrontendEnabled (kn_Spec kn) then [''apifrontend-monitoring-view'', ''apifrontend-binding''] else [])
     @ (if FleetMetadataCacheEnabled (kn_Spec knV2) \<and> fleetMCPGateway_Namespace (mcp_gateway knV2) = ''''
        then [''fleetmetadatacache-binding''] else [])
     @ (if FleetMetadataCacheEnabled (kn_Spec knV2)
        then [''fleetmetadatacache-auth-middleware-binding'']
          @ (if GatewayEnabled (kn_Spec kn) then [''gateway-fmc-scope-check-client''] else [])
          @ [''remediationorchestrator-fmc-scope-check-client''] else [])
     @ (if fleetCallerRBACEnabled knV2
        then [''fleet-caller-read-view-binding'', ''fleet-caller-read-node-reader-binding'', ''fleet-caller-execution-binding'']
        else [])"

lemmas core_binding_defs = ClusterRoleBindings_def Let_def markCoreClusterRBAC_def monitoringClusterRoleBindings_def
  fleetMetadataCacheClusterRoleBinding_def

lemma ClusterRoleBindings_names:
  "map obj_Name (ClusterRoleBindings kn knV2) = map (clusterRoleName kn) (core_binding_bases kn knV2)"
  unfolding core_binding_bases_def core_binding_defs by simp

lemma distinct_core_binding_bases: "distinct (core_binding_bases kn knV2)"
  unfolding core_binding_bases_def by auto

lemma core_bindings_refer:
  "list_all (\<lambda>b. binding_role b \<in> clusterRoleName kn ` set (core_role_bases kn knV2) \<union> {''view'', ''cluster-monitoring-view''})
     (ClusterRoleBindings kn knV2)"
  unfolding core_binding_defs core_role_bases_def by simp

lemma core_instance_labels:
  "list_all (\<lambda>x. obj_Labels x LabelInstance = Some (kn_Name kn)) (ClusterRoles kn knV2)"
  "list_all (\<lambda>x. obj_Labels x LabelInstance = Some (kn_Name kn)) (ClusterRoleBindings kn knV2)"
  unfolding core_binding_defs ClusterRoles_def cluster_role_defs ConsoleAccessClusterRole_def
  by (simp_all add: cluster_role_def clusterRoleBinding_def groupClusterRoleBinding_def CommonLabels_def
      LabelCoreClusterRBAC_def label_names)

text \<open>C35: For every setting of the feature switches the core RBAC of an instance is closed and can be pruned: the names of
  its ClusterRoles are distinct and so are those of its bindings, every binding refers to a ClusterRole of the same set or to one of
  the two roles the platform ships, and every object carries the marker and the instance label that the pruning pass
  selects on.\<close>

theorem core_rbac_closed:
  "distinct (map obj_Name (ClusterRoles kn knV2)) \<and> distinct (map obj_Name (ClusterRoleBindings kn knV2)) \<and>
   list_all (\<lambda>b. binding_role b \<in> set (map obj_Name (ClusterRoles kn knV2)) \<union> {''view'', ''cluster-monitoring-view''})
     (ClusterRoleBindings kn knV2) \<and>
   list_all (\<lambda>x. obj_Labels x LabelCoreClusterRBAC = Some LabelValueTrue \<and> obj_Labels x LabelInstance = Some (kn_Name kn))
     (ClusterRoles kn knV2 @ ClusterRoleBindings kn knV2)"
proof -
  have "list_all (\<lambda>x. obj_Labels x LabelCoreClusterRBAC = Some LabelValueTrue) (ClusterRoles kn knV2 @ ClusterRoleBindings kn knV2)"
    by (auto simp: list_all_iff ClusterRoles_def ClusterRoleBindings_def Let_def)
  then show ?thesis
    using core_bindings_refer [of kn knV2] core_instance_labels [of kn knV2]
    by (auto simp: ClusterRoles_names ClusterRoleBindings_names distinct_map inj_on_subset [OF inj_clusterRoleName]
        distinct_core_role_bases distinct_core_binding_bases list_all_iff)
qed


subsection \<open>No way to gain permissions\<close>

text \<open>What makes a rule harmless in this respect: no wildcards, none of the verbs with which RBAC is escalated, and only reads
  of secrets and of RBAC objects.\<close>

definition reads :: "string list" where "reads = [''get'', ''list'', ''watch'']"

definition escalation_verbs :: "string list" where "escalation_verbs = [''escalate'', ''bind'', ''impersonate'']"

definition modest :: "policy_rule \<Rightarrow> bool" where
  "modest p \<longleftrightarrow> ''*'' \<notin> set (rbac_APIGroups p) \<and> ''*'' \<notin> set (rbac_Resources p) \<and> ''*'' \<notin> set (rbac_Verbs p) \<and>
     list_all (\<lambda>v. v \<notin> set escalation_verbs) (rbac_Verbs p) \<and>
     (''secrets'' \<in> set (rbac_Resources p) \<or> ''rbac.authorization.k8s.io'' \<in> set (rbac_APIGroups p)
        \<longrightarrow> list_all (\<lambda>v. v \<in> set reads) (rbac_Verbs p))"

lemma modest_allows:
  assumes "modest p" and "rule_allows p grp res name verb"
  shows "verb \<notin> set escalation_verbs" and "res = ''secrets'' \<or> grp = ''rbac.authorization.k8s.io'' \<Longrightarrow> verb \<in> set reads"
  using assms by (auto simp: modest_def rule_allows_def entry_covers_def list_all_iff)

lemma modest_rule_on [simp]:
  "modest (rule_on gs rs vs) \<longleftrightarrow> ''*'' \<notin> set gs \<and> ''*'' \<notin> set rs \<and> ''*'' \<notin> set vs \<and>
     list_all (\<lambda>v. v \<notin> set escalation_verbs) vs \<and>
     (''secrets'' \<in> set rs \<or> ''rbac.authorization.k8s.io'' \<in> set gs \<longrightarrow> list_all (\<lambda>v. v \<in> set reads) vs)"
  by (simp add: modest_def rule_on_def)

lemma modest_named_rule [simp]: "modest (named_rule gs rs ns vs) = modest (rule_on gs rs vs)"
  by (simp add: named_rule_def modest_def)

lemma modest_shared:
  "list_all modest ownerChainResolutionRules" "list_all modest (mcpGatewayCRDPolicyRules t)"
  "list_all modest (remote_read_rules kn)"
  by (simp_all add: ownerChainResolutionRules_def mcpGatewayCRDPolicyRules_def remote_read_rules_def reads_def escalation_verbs_def)

lemma modest_builders:
  "list_all modest (role_rules (aianalysisControllerClusterRole kn labels))"
  "list_all modest (role_rules (kubernautAgentClientClusterRole kn labels))"
  "list_all modest (role_rules (kubernautAgentInvestigatorClusterRole kn labels))"
  "list_all modest (role_rules (signalprocessingClusterRole kn knV2 labels))"
  "list_all modest (role_rules (remediationOrchestratorClusterRole kn labels))"
  "list_all modest (role_rules (workflowExecutionControllerClusterRole kn labels))"
  "list_all modest (role_rules (workflowRunnerClusterRole kn labels))"
  "list_all modest (role_rules (effectivenessMonitorControllerClusterRole kn knV2 labels))"
  "list_all modest (role_rules (notificationControllerClusterRole kn labels))"
  "list_all modest (role_rules (dataStorageAuthMiddlewareClusterRole kn labels))"
  "list_all modest (role_rules (dataStorageClientClusterRole kn labels))"
  "list_all modest (role_rules (authWebhookClusterRole kn labels))"
  "list_all modest (role_rules (gatewayClusterRole kn labels))"
  "list_all modest (role_rules (alertmanagerViewClusterRole kn labels))"
  "list_all modest (role_rules (gatewaySignalSourceClusterRole kn labels))"
  "list_all modest (role_rules (apifrontendClusterRole kn knV2 labels))"
  "list_all modest (role_rules (fleetMetadataCacheClusterRole kn knV2 labels))"
  "list_all modest (role_rules (fleetMetadataCacheAuthMiddlewareClusterRole kn labels))"
  "list_all modest (role_rules (fmcScopeCheckClientClusterRole kn labels))"
  "list_all modest (role_rules (fleetCallerNodeReaderClusterRole kn labels))"
  "list_all modest (role_rules (fleetCallerWorkflowExecutionClusterRole kn labels))"
  by (simp_all add: cluster_role_defs modest_shared reads_def escalation_verbs_def)

lemma modest_core_roles: "list_all (\<lambda>r. list_all modest (role_rules r)) (ClusterRoles kn knV2)"
  by (simp add: ClusterRoles_def Let_def markCoreClusterRBAC_def ConsoleAccessClusterRole_def modest_builders
      reads_def escalation_verbs_def)

lemma modest_namespaced_roles:
  "list_all (\<lambda>r. list_all modest (role_rules r)) (NamespaceRoles kn knV2)"
  "list_all (\<lambda>r. list_all modest (role_rules r)) (fst (TrustedWorkflowCatalogRBAC kn))"
  "list_all (\<lambda>r. list_all modest (role_rules r)) (fst (MCPGatewayNamespaceRBAC kn knV2))"
  by (auto simp: NamespaceRoles_def TrustedWorkflowCatalogRBAC_def catalogGrants_def MCPGatewayNamespaceRBAC_def Let_def list_all_iff
      reads_def escalation_verbs_def crdGroup_def
      dest: modest_shared(2) [unfolded list_all_iff, rule_format])

text \<open>C36: Whoever holds a role of the core set (the ClusterRoles, the namespace roles, the catalog roles and the MCP gateway
  roles) can only read secrets and RBAC objects, and can use none of the verbs escalate, bind and impersonate on
  anything: whatever the group, resource and object name of a request, a rule that allows it does not have those verbs, and
  on a resource named secrets or in the group of RBAC its verb is get, list or watch.\<close>

theorem core_roles_only_read_secrets_and_rbac:
  assumes "r \<in> set (ClusterRoles kn knV2 @ NamespaceRoles kn knV2 @ fst (TrustedWorkflowCatalogRBAC kn)
      @ fst (MCPGatewayNamespaceRBAC kn knV2))"
    and "role_allows r grp res name verb"
  shows "verb \<notin> {''escalate'', ''bind'', ''impersonate''} \<and>
    (res = ''secrets'' \<or> grp = ''rbac.authorization.k8s.io'' \<longrightarrow> verb \<in> {''get'', ''list'', ''watch''})"
proof -
  obtain p where p: "p \<in> set (role_rules r)" "rule_allows p grp res name verb"
    using assms(2) by (auto simp: role_allows_def list_ex_iff)
  have "modest p"
    using assms(1) p(1) modest_core_roles [of kn knV2] modest_namespaced_roles(1,3) [of kn knV2] modest_namespaced_roles(2) [of kn]
    by (auto simp: list_all_iff)
  then show ?thesis using modest_allows [OF _ p(2)] by (auto simp: escalation_verbs_def reads_def)
qed

theorem core_roles_only_read_secrets_and_rbac_witness:
  "role_allows (kubernautAgentInvestigatorClusterRole zero_Kubernaut Map.empty) '''' ''secrets'' ''db'' ''get'' \<and>
   ''get'' \<notin> {''escalate'', ''bind'', ''impersonate''}"
proof -
  let ?r = "set_labels ((obj_Labels (kubernautAgentInvestigatorClusterRole zero_Kubernaut (CommonLabels zero_Kubernaut)))
    (LabelCoreClusterRBAC \<mapsto> LabelValueTrue)) (kubernautAgentInvestigatorClusterRole zero_Kubernaut (CommonLabels zero_Kubernaut))"
  have "?r \<in> set (ClusterRoles zero_Kubernaut zero_Kubernaut)" by (simp add: ClusterRoles_def markCoreClusterRBAC_def Let_def)
  moreover have allowed: "role_allows (kubernautAgentInvestigatorClusterRole zero_Kubernaut l) '''' ''secrets'' ''db'' ''get''" for l
    by (simp add: role_allows_def kubernautAgentInvestigatorClusterRole_def rule_allows_def entry_covers_def rule_on_def zero_policy_rule_def)
  moreover have "role_allows ?r '''' ''secrets'' ''db'' ''get''" using allowed by (simp add: role_allows_def)
  ultimately show ?thesis
    using core_roles_only_read_secrets_and_rbac [of ?r zero_Kubernaut zero_Kubernaut "''''" "''secrets''" "''db''" "''get''"] by simp
qed

text \<open>The comment on \<^verbatim>\<open>workflowRunnerClusterRole\<close> says that it contains only cluster-wide read access and CRD operations. It also
  writes core and apps objects in every namespace and mints tokens for any service account.\<close>

lemma workflow_runner_writes_cluster_wide:
  "role_allows (workflowRunnerClusterRole kn l) ''apps'' ''deployments'' name ''patch'' \<and>
   role_allows (workflowRunnerClusterRole kn l) '''' ''pods'' name ''delete'' \<and>
   role_allows (workflowRunnerClusterRole kn l) '''' ''nodes'' name ''update'' \<and>
   role_allows (workflowRunnerClusterRole kn l) '''' ''serviceaccounts/token'' name ''create''"
  by (simp add: role_allows_def workflowRunnerClusterRole_def rule_allows_def entry_covers_def rule_on_def zero_policy_rule_def)

subsection \<open>Reads of the MCP gateway\<close>

definition reads_gateway :: "Kubernaut \<Rightarrow> string \<Rightarrow> bool" where
  "reads_gateway kn component \<longleftrightarrow>
     component \<in> {ComponentSignalProcessing, ComponentEffectivenessMonitor} \<or>
     component = ComponentAPIFrontend \<and> APIFrontendEnabled (kn_Spec kn) \<or>
     component = ComponentFleetMetadataCache \<and> FleetMetadataCacheEnabled (kn_Spec kn)"


definition cluster_grants :: "Kubernaut \<Rightarrow> string \<Rightarrow> policy_rule list" where
  "cluster_grants kn component =
     bound_rules (ClusterRoles kn kn) (ClusterRoleBindings kn kn) (ServiceAccountName component) (kn_Namespace kn)"

definition gateway_grants :: "Kubernaut \<Rightarrow> string \<Rightarrow> policy_rule list" where
  "gateway_grants kn component = (case MCPGatewayNamespaceRBAC kn kn of (roles, bindings) \<Rightarrow>
     bound_rules roles bindings (ServiceAccountName component) (kn_Namespace kn))"

lemma in_bound_rules:
  "p \<in> set (bound_rules roles bindings account namespace) \<longleftrightarrow>
     (\<exists>b \<in> set bindings. \<exists>r \<in> set roles. \<lparr>subject_Kind = ''ServiceAccount'', subject_APIGroup = '''', subject_Name = account,
        subject_Namespace = namespace\<rparr> \<in> set (binding_subjects b) \<and> obj_Name r = binding_role b \<and> p \<in> set (role_rules r))"
  by (auto simp: bound_rules_def)

lemma bound_rules_empty [simp]: "bound_rules [] [] account namespace = []"
  by (simp add: bound_rules_def)

lemma account_names [simp]:
  "ServiceAccountName ComponentSignalProcessing = ''signalprocessing-controller''"
  "ServiceAccountName ComponentEffectivenessMonitor = ''effectivenessmonitor-controller''"
  "ServiceAccountName ComponentAPIFrontend = ''apifrontend''"
  "ServiceAccountName ComponentFleetMetadataCache = ''fleetmetadatacache''"
  by (simp_all add: ServiceAccountName_def serviceAccountNames_def component_names)

definition gateway_groups :: "string list" where
  "gateway_groups = [''mcp.kuadrant.io'', ''gateway.networking.k8s.io'', ''gateway.envoyproxy.io'', ''aigateway.envoyproxy.io'']"

definition off_gateway :: "policy_rule \<Rightarrow> bool" where
  "off_gateway p \<longleftrightarrow> list_all (\<lambda>g. g \<notin> set gateway_groups) (rbac_APIGroups p)"

lemma off_gateway_rule [simp]:
  "off_gateway (rule_on gs rs vs) \<longleftrightarrow> list_all (\<lambda>g. g \<notin> set gateway_groups) gs"
  "off_gateway (named_rule gs rs ns vs) \<longleftrightarrow> list_all (\<lambda>g. g \<notin> set gateway_groups) gs"
  by (simp_all add: off_gateway_def rule_on_def named_rule_def)

lemma gateway_rules_on_gateway: "p \<in> set (mcpGatewayCRDPolicyRules t) \<Longrightarrow> \<not> off_gateway p"
  by (auto simp: mcpGatewayCRDPolicyRules_def gateway_groups_def split: if_splits)

lemma core_roles_off_gateway:
  assumes "fleetMCPGateway_Namespace (mcp_gateway kn) \<noteq> ''''"
  shows "list_all (\<lambda>r. list_all off_gateway (role_rules r)) (ClusterRoles kn kn)"
proof -
  have "remote_read_rules kn = []" using assms by (simp add: remote_read_rules_def)
  then show ?thesis
    using assms by (simp add: ClusterRoles_def Let_def markCoreClusterRBAC_def ConsoleAccessClusterRole_def cluster_role_defs
        ownerChainResolutionRules_def gateway_groups_def)
qed

lemma cluster_grant:
  assumes "b \<in> set (ClusterRoleBindings kn kn)" and "r \<in> set (ClusterRoles kn kn)" and "obj_Name r = binding_role b"
    and "binding_subjects b = [\<lparr>subject_Kind = ''ServiceAccount'', subject_APIGroup = '''',
      subject_Name = ServiceAccountName component, subject_Namespace = kn_Namespace kn\<rparr>]"
  shows "set (role_rules r) \<subseteq> set (cluster_grants kn component)"
proof
  fix p
  assume "p \<in> set (role_rules r)"
  then show "p \<in> set (cluster_grants kn component)"
    unfolding cluster_grants_def in_bound_rules using assms by (intro bexI [of _ b] bexI [of _ r]) simp_all
qed

abbreviation marked_role :: "kobj \<Rightarrow> kobj" where
  "marked_role x \<equiv> set_labels ((obj_Labels x)(LabelCoreClusterRBAC \<mapsto> LabelValueTrue)) x"

lemma cluster_gateway_grants:
  assumes "reads_gateway kn component" and "mcpGatewayRemoteReadsEnabled kn" and "fleetMCPGateway_Namespace (mcp_gateway kn) = ''''"
  shows "set (mcpGatewayCRDPolicyRules (fleetMCPGateway_Type (mcp_gateway kn))) \<subseteq> set (cluster_grants kn component)"
proof -
  let ?l = "CommonLabels kn" and ?p = "clusterRoleName kn"
  let ?bind = "\<lambda>b r. marked_role (clusterRoleBinding (?p b) (?p r) (ServiceAccountName component) (kn_Namespace kn) ?l)"
  have granted: "set (role_rules x) \<subseteq> set (cluster_grants kn component)"
    if "marked_role x \<in> set (ClusterRoles kn kn)" "?bind b r \<in> set (ClusterRoleBindings kn kn)" "obj_Name x = ?p r" for x b r
    using cluster_grant [OF that(2,1), of component] that(3) by simp
  note members = ClusterRoles_def ClusterRoleBindings_def Let_def markCoreClusterRBAC_def fleetMetadataCacheClusterRoleBinding_def
  consider "component = ComponentSignalProcessing" | "component = ComponentEffectivenessMonitor"
    | "component = ComponentAPIFrontend" "APIFrontendEnabled (kn_Spec kn)"
    | "component = ComponentFleetMetadataCache" "FleetMetadataCacheEnabled (kn_Spec kn)"
    using assms(1) by (auto simp: reads_gateway_def)
  then show ?thesis
  proof cases
    case 1
    then have "set (role_rules (signalprocessingClusterRole kn kn ?l)) \<subseteq> set (cluster_grants kn component)"
      by (intro granted [of _ "''signalprocessing-controller-binding''" "''signalprocessing-controller''"])
        (simp_all add: members signalprocessingClusterRole_def)
    then show ?thesis using assms(2,3) by (auto simp: signalprocessingClusterRole_def remote_read_rules_def)
  next
    case 2
    then have "set (role_rules (effectivenessMonitorControllerClusterRole kn kn ?l)) \<subseteq> set (cluster_grants kn component)"
      by (intro granted [of _ "''effectivenessmonitor-controller-binding''" "''effectivenessmonitor-controller''"])
        (simp_all add: members effectivenessMonitorControllerClusterRole_def)
    then show ?thesis using assms(2,3) by (auto simp: effectivenessMonitorControllerClusterRole_def remote_read_rules_def)
  next
    case 3
    then have "set (role_rules (apifrontendClusterRole kn kn ?l)) \<subseteq> set (cluster_grants kn component)"
      by (intro granted [of _ "''apifrontend-binding''" "''apifrontend-role''"]) (simp_all add: members apifrontendClusterRole_def)
    then show ?thesis using assms(2,3) by (auto simp: apifrontendClusterRole_def remote_read_rules_def)
  next
    case 4
    then have "set (role_rules (fleetMetadataCacheClusterRole kn kn ?l)) \<subseteq> set (cluster_grants kn component)"
      by (intro granted [of _ "''fleetmetadatacache-binding''" "''fleetmetadatacache''"])
        (simp_all add: members fleetMetadataCacheClusterRole_def assms(3))
    then show ?thesis using assms(3) by (simp add: fleetMetadataCacheClusterRole_def)
  qed
qed

lemma namespaced_gateway_grants:
  assumes "reads_gateway kn component" and "mcpGatewayRemoteReadsEnabled kn"
  shows "set (gateway_grants kn component) =
    (if fleetMCPGateway_Namespace (mcp_gateway kn) = '''' then {}
     else set (mcpGatewayCRDPolicyRules (fleetMCPGateway_Type (mcp_gateway kn))))"
  using assms
  by (auto simp: gateway_grants_def reads_gateway_def MCPGatewayNamespaceRBAC_def Let_def mcp_grants_def in_bound_rules
      split: if_splits)

text \<open>When remote reads are enabled, each component that reads the MCP gateway (signal processing, the effectiveness monitor, the
  API frontend and the fleet metadata cache when they are enabled) is granted every gateway rule exactly once: through the core
  ClusterRoles as long as no gateway namespace is set, and through the roles of that namespace once it is.\<close>

lemma mcp_gateway_reads_granted_once:
  assumes "mcpGatewayRemoteReadsEnabled kn" and "reads_gateway kn component"
    and "p \<in> set (mcpGatewayCRDPolicyRules (fleetMCPGateway_Type (mcp_gateway kn)))"
  shows "(p \<in> set (cluster_grants kn component) \<longleftrightarrow> fleetMCPGateway_Namespace (mcp_gateway kn) = '''') \<and>
    (p \<in> set (gateway_grants kn component) \<longleftrightarrow> fleetMCPGateway_Namespace (mcp_gateway kn) \<noteq> '''')"
proof -
  have "p \<notin> set (cluster_grants kn component)" if "fleetMCPGateway_Namespace (mcp_gateway kn) \<noteq> ''''"
    using core_roles_off_gateway [OF that] gateway_rules_on_gateway [OF assms(3)]
    by (auto simp: cluster_grants_def in_bound_rules list_all_iff)
  then show ?thesis
    using assms(3) namespaced_gateway_grants [OF assms(2,1)] cluster_gateway_grants [OF assms(2,1)] by auto
qed

definition remote_kn :: Kubernaut where
  "remote_kn = zero_Kubernaut\<lparr>kn_Spec := zero_KubernautSpec\<lparr>spec_Fleet := zero_FleetSpec\<lparr>fleet_Enabled := Some True,
     fleet_MCPGateway := zero_FleetMCPGatewaySpec\<lparr>fleetMCPGateway_Endpoint := ''https://mcp'',
       fleetMCPGateway_Namespace := ''gateways''\<rparr>\<rparr>\<rparr>\<rparr>"

lemma mcp_gateway_reads_granted_once_example:
  "rule_on [''gateway.envoyproxy.io''] [''backends''] [''get'', ''list'', ''watch'']
     \<in> set (gateway_grants remote_kn ComponentSignalProcessing) - set (cluster_grants remote_kn ComponentSignalProcessing)"
  using mcp_gateway_reads_granted_once [of remote_kn ComponentSignalProcessing
      "rule_on [''gateway.envoyproxy.io''] [''backends''] [''get'', ''list'', ''watch'']"]
  by (simp add: remote_kn_def mcpGatewayRemoteReadsEnabled_def reads_gateway_def mcpGatewayCRDPolicyRules_def
      zero_FleetMCPGatewaySpec_def mcpGatewayTypeKuadrant_def)


subsection \<open>Bindings the user asks for\<close>

text \<open>The name of the binding of an additional ClusterRole always exists and is a legal length: for a namespace of at most 63
  characters and the three components such roles are bound to, the slice expression of the source is in range whatever the role is
  called, the name has at most 253 characters, starts with the namespace and the component, is the plain concatenation
  when that fits, and is otherwise cut to exactly 253 characters with eight hexadecimal digits of the role's SHA-256 at the end.\<close>

lemma additional_crb_name_fits:
  assumes "length (kn_Namespace kn) \<le> 63"
    and "component \<in> {ComponentKubernautAgent, ComponentEffectivenessMonitor, ComponentGateway}"
  shows "\<exists>name rest. AdditionalComponentCRBName kn component role = Some name \<and> length name \<le> 253 \<and>
    name = kn_Namespace kn @ ''-'' @ component @ ''-ext-'' @ rest \<and>
    (rest = role \<or> length name = 253 \<and>
       (\<exists>cut. rest = take cut role @ ''-'' @ take 8 (format_hex (Sum256 role)) \<and> cut < length role))"
proof -
  define prefix where "prefix = kn_Namespace kn @ ''-'' @ component @ ''-ext-''"
  have short: "length prefix \<le> 63 + 26" using assms by (auto simp: prefix_def component_names)
  show ?thesis
  proof (cases "length (prefix @ role) \<le> 253")
    case True
    then show ?thesis
      by (intro exI [of _ "prefix @ role"] exI [of _ role]) (simp add: AdditionalComponentCRBName_def prefix_def maxK8sNameLen_def)
  next
    case False
    let ?rest = "take (244 - length prefix) role @ ''-'' @ take 8 (format_hex (Sum256 role))"
    have "AdditionalComponentCRBName kn component role = Some (prefix @ ?rest)"
      using False short by (simp add: AdditionalComponentCRBName_def prefix_def maxK8sNameLen_def)
    then show ?thesis
      using False short by (intro exI [of _ "prefix @ ?rest"] exI [of _ ?rest] conjI disjI2 exI [of _ "244 - length prefix"])
        (auto simp: prefix_def)
  qed
qed

lemma additional_crb_name_fits_example:
  "\<exists>name. AdditionalComponentCRBName (zero_Kubernaut\<lparr>kn_ObjectMeta := zero_object_meta\<lparr>meta_Namespace := ''kubernaut''\<rparr>\<rparr>)
     ComponentGateway (replicate 300 (CHR ''r'')) = Some name \<and> length name \<le> 253"
  using additional_crb_name_fits [of "zero_Kubernaut\<lparr>kn_ObjectMeta := zero_object_meta\<lparr>meta_Namespace := ''kubernaut''\<rparr>\<rparr>"
      ComponentGateway "replicate 300 (CHR ''r'')"]
  by auto

text \<open>Merging neither loses nor invents a pair of a key and a group, and leaves one entry per key.\<close>

definition grants :: "(string \<times> 'a list) list \<Rightarrow> (string \<times> 'a) set" where
  "grants m = (\<Union>p \<in> set m. {fst p} \<times> set (snd p))"

lemma grants_merge [simp]: "grants (merge_groups k gs m) = grants m \<union> {k} \<times> set gs"
  by (induction k gs m rule: merge_groups.induct) (auto simp: grants_def)

lemma keys_merge [simp]: "set (map fst (merge_groups k gs m)) = insert k (set (map fst m))"
  by (induction k gs m rule: merge_groups.induct) auto

lemma distinct_merge: "distinct (map fst m) \<Longrightarrow> distinct (map fst (merge_groups k gs m))"
proof (induction k gs m rule: merge_groups.induct)
  case (2 k gs k' gs' m)
  then show ?case using keys_merge [of k gs m] by (cases "k' = k") auto
qed simp

lemma merged_bindings_correct:
  "distinct (map fst (merged_bindings bs))"
  "grants (merged_bindings bs) = {(binding_key rb, g) | rb g. rb \<in> set bs \<and> g \<in> set (toolRoleBinding_Groups rb)}"
  "set (map fst (merged_bindings bs)) = binding_key ` set bs"
proof -
  let ?f = "\<lambda>rb m. merge_groups (binding_key rb) (toolRoleBinding_Groups rb) m"
  have "distinct (map fst m) \<Longrightarrow> distinct (map fst (fold ?f bs m))"
    and "grants (fold ?f bs m) = grants m \<union> {(binding_key rb, g) | rb g. rb \<in> set bs \<and> g \<in> set (toolRoleBinding_Groups rb)}"
    and "set (map fst (fold ?f bs m)) = set (map fst m) \<union> binding_key ` set bs" for m
    by (induction bs arbitrary: m) (auto simp del: set_map simp: distinct_merge)
  from this [of "[]"] show "distinct (map fst (merged_bindings bs))"
    "grants (merged_bindings bs) = {(binding_key rb, g) | rb g. rb \<in> set bs \<and> g \<in> set (toolRoleBinding_Groups rb)}"
    "set (map fst (merged_bindings bs)) = binding_key ` set bs"
    by (simp_all add: merged_bindings_def grants_def)
qed

definition tool_role :: "Kubernaut \<Rightarrow> ToolRoleBinding \<Rightarrow> string" where
  "tool_role kn rb = (if toolRoleBinding_ClusterRoleName rb \<noteq> '''' then toolRoleBinding_ClusterRoleName rb
     else clusterRoleName kn (''tool-'' @ toolRoleBinding_Role rb))"

lemma tool_binding_of_key:
  "binding_role (tool_binding kn (binding_key rb, groups)) = tool_role kn rb"
  "binding_subjects (tool_binding kn (binding_key rb, groups)) = map group_subject groups"
  by (simp_all add: tool_binding_def binding_key_def tool_role_def Let_def)

lemma tool_role_of_key: "binding_key a = binding_key b \<Longrightarrow> tool_role kn a = tool_role kn b"
  by (simp add: binding_key_def tool_role_def split: if_splits)

lemma asked_iff:
  "(\<exists>rb \<in> set bs. (binding_key rb, g) \<in> grants (merged_bindings bs) \<and> tool_role kn rb = role) \<longleftrightarrow>
   (\<exists>rb \<in> set bs. tool_role kn rb = role \<and> g \<in> set (toolRoleBinding_Groups rb))"
  (is "?l \<longleftrightarrow> ?r")
proof
  assume ?l
  then obtain rb rb' where "tool_role kn rb = role" "binding_key rb = binding_key rb'" "rb' \<in> set bs" "g \<in> set (toolRoleBinding_Groups rb')"
    unfolding merged_bindings_correct(2) by blast
  then show ?r using tool_role_of_key [of rb rb' kn] by auto
next
  assume ?r
  then show ?l unfolding merged_bindings_correct(2) by blast
qed

lemma group_subject_inject [simp]: "group_subject a = group_subject b \<longleftrightarrow> a = b"
  by (simp add: group_subject_def)

text \<open>C40: The tool bindings grant exactly what the role bindings of the custom resource ask for: a group is a subject of a binding to a
  role if and only if some entry names that role (a custom ClusterRole by its own name, a persona by its prefixed name) and
  lists the group, however many entries repeat the role.\<close>

theorem tool_bindings_grant_what_is_asked:
  "(\<exists>b \<in> set (ToolClusterRoleBindings kn). binding_role b = role \<and> group_subject g \<in> set (binding_subjects b)) \<longleftrightarrow>
   (\<exists>rbac rb. apiFrontend_RBAC (spec_APIFrontend (kn_Spec kn)) = Some rbac \<and> rb \<in> set (apiFrontendRBAC_RoleBindings rbac) \<and>
      tool_role kn rb = role \<and> g \<in> set (toolRoleBinding_Groups rb))"
proof (cases "apiFrontend_RBAC (spec_APIFrontend (kn_Spec kn))")
  case None
  then show ?thesis by (simp add: ToolClusterRoleBindings_def)
next
  case (Some rbac)
  let ?bs = "apiFrontendRBAC_RoleBindings rbac"
  have "(\<exists>b \<in> set (ToolClusterRoleBindings kn). binding_role b = role \<and> group_subject g \<in> set (binding_subjects b)) \<longleftrightarrow>
    (\<exists>rb \<in> set ?bs. (binding_key rb, g) \<in> grants (merged_bindings ?bs) \<and> tool_role kn rb = role)" (is "?bound \<longleftrightarrow> ?asked")
  proof
    assume ?bound
    then obtain k hs where m: "(k, hs) \<in> set (merged_bindings ?bs)" "binding_role (tool_binding kn (k, hs)) = role"
      "group_subject g \<in> set (binding_subjects (tool_binding kn (k, hs)))" using Some by (auto simp: ToolClusterRoleBindings_def)
    then have "k \<in> set (map fst (merged_bindings ?bs))" by (metis fst_conv image_eqI set_map)
    then obtain rb where rb: "rb \<in> set ?bs" "k = binding_key rb" unfolding merged_bindings_correct(3) by blast
    have g: "g \<in> set hs" using m(3) unfolding rb(2) tool_binding_of_key by auto
    have "(binding_key rb, g) \<in> grants (merged_bindings ?bs)"
      unfolding grants_def by (rule UN_I [OF m(1)]) (simp add: rb(2) g)
    moreover have "tool_role kn rb = role" using m(2) unfolding rb(2) tool_binding_of_key .
    ultimately show ?asked using rb(1) by blast
  next
    assume ?asked
    then obtain rb hs where m: "rb \<in> set ?bs" "(binding_key rb, hs) \<in> set (merged_bindings ?bs)" "g \<in> set hs" "tool_role kn rb = role"
      by (auto simp: grants_def)
    then have "tool_binding kn (binding_key rb, hs) \<in> set (ToolClusterRoleBindings kn)"
      using Some by (simp add: ToolClusterRoleBindings_def)
    with m(3,4) show ?bound by (intro bexI [of _ "tool_binding kn (binding_key rb, hs)"]) (simp_all add: tool_binding_of_key)
  qed
  also have "\<dots> \<longleftrightarrow> (\<exists>rb \<in> set ?bs. tool_role kn rb = role \<and> g \<in> set (toolRoleBinding_Groups rb))"
    by (rule asked_iff)
  finally show ?thesis by (simp only: Some option.inject Bex_def) simp
qed

lemma dedupe_fold:
  "distinct acc \<Longrightarrow> distinct (fold (\<lambda>g seen. if g \<in> set seen then seen else g # seen) xs acc) \<and>
     set (fold (\<lambda>g seen. if g \<in> set seen then seen else g # seen) xs acc) = set acc \<union> set xs"
  by (induction xs arbitrary: acc) auto

text \<open>An explicit list of console groups, the empty one included, is used as it is; only an unset one is derived, as the set of the
  groups of all role bindings.\<close>

lemma effectiveConsoleAccessGroups_correct:
  "apiFrontend_RBAC (spec_APIFrontend (kn_Spec kn)) = Some rbac \<Longrightarrow>
     (apiFrontendRBAC_ConsoleAccessGroups rbac = Some gs \<longrightarrow> effectiveConsoleAccessGroups kn = gs) \<and>
     (apiFrontendRBAC_ConsoleAccessGroups rbac = None \<longrightarrow> distinct (effectiveConsoleAccessGroups kn) \<and>
        set (effectiveConsoleAccessGroups kn) = (\<Union>rb \<in> set (apiFrontendRBAC_RoleBindings rbac). set (toolRoleBinding_Groups rb)))"
  using dedupe_fold [of "[]" "concat (map toolRoleBinding_Groups (apiFrontendRBAC_RoleBindings rbac))"]
  by (simp add: effectiveConsoleAccessGroups_def)

end
