(* ===== verification/Go_Text.thy ===== *)
theory Go_Text
  imports Go_Net
begin

text \<open>
  The parts of Go's packages \<^verbatim>\<open>strings\<close>, \<^verbatim>\<open>strconv\<close>, \<^verbatim>\<open>time\<close> and \<^verbatim>\<open>net\<close> that the validation of the custom resource uses, after
  their documentation: searching and replacing, case folding, \<^verbatim>\<open>strconv.Atoi\<close>, \<^verbatim>\<open>time.ParseDuration\<close>,
  \<^verbatim>\<open>net.SplitHostPort\<close>, \<^verbatim>\<open>net.JoinHostPort\<close> and the classes of IP addresses.

  A string is the list of its bytes. Case folding is that of ASCII text, with the three code points outside ASCII that Go
  folds into it; other letters are left alone, which no comparison with an ASCII text can tell.
\<close>

subsection \<open>Searching\<close>

fun Contains :: "string \<Rightarrow> string \<Rightarrow> bool" where
  "Contains [] sub = (sub = [])"
| "Contains (c # s) sub = (has_prefix (c # s) sub \<or> Contains s sub)"

definition ContainsAny :: "string \<Rightarrow> string \<Rightarrow> bool" where
  "ContainsAny s chars = list_ex (\<lambda>c. c \<in> set chars) s"

text \<open>\<^verbatim>\<open>strings.ReplaceAll(s, old, "")\<close> and \<^verbatim>\<open>strings.Count\<close> for a non-empty \<^verbatim>\<open>old\<close>: occurrences do not overlap. Each turn
  consumes at least one byte.\<close>

function remove_all :: "string \<Rightarrow> string \<Rightarrow> string" where
  "remove_all s old =
     (if s = [] \<or> old = [] then s
      else if has_prefix s old then remove_all (drop (length old) s) old
      else hd s # remove_all (tl s) old)"
  by pat_completeness auto
termination by (relation "measure (\<lambda>(s, old). length s)") (auto simp: neq_Nil_conv)

declare remove_all.simps [simp del]

function Count :: "string \<Rightarrow> string \<Rightarrow> nat" where
  "Count s old =
     (if s = [] \<or> old = [] then 0
      else if has_prefix s old then Suc (Count (drop (length old) s) old)
      else Count (tl s) old)"
  by pat_completeness auto
termination by (relation "measure (\<lambda>(s, old). length s)") (auto simp: neq_Nil_conv)

declare Count.simps [simp del]

definition last_index :: "char \<Rightarrow> string \<Rightarrow> nat option" where
  "last_index c s = (if c \<in> set s then Some (length s - 1 - length (takeWhile (\<lambda>d. d \<noteq> c) (rev s))) else None)"

definition index_of :: "char \<Rightarrow> string \<Rightarrow> nat option" where
  "index_of c s = (if c \<in> set s then Some (length (takeWhile (\<lambda>d. d \<noteq> c) s)) else None)"

definition trim_set :: "string \<Rightarrow> string \<Rightarrow> string" where
  "trim_set s cutset = rev (dropWhile (\<lambda>c. c \<in> set cutset) (rev (dropWhile (\<lambda>c. c \<in> set cutset) s)))"

subsection \<open>Case\<close>

definition lower :: "char \<Rightarrow> char" where
  "lower c = (let n = of_char c :: nat in if 65 \<le> n \<and> n \<le> 90 then char_of (n + 32) else c)"

text \<open>U+212A lowers to k and U+0130 to i; U+212A and U+017F fold to k and s.\<close>

fun ToLower :: "string \<Rightarrow> string" where
  "ToLower s = (case s of
     [] \<Rightarrow> []
   | c # r \<Rightarrow> (if has_prefix s [CHR 0xE2, CHR 0x84, CHR 0xAA] then CHR ''k'' # ToLower (drop 2 r)
       else if has_prefix s [CHR 0xC4, CHR 0xB0] then CHR ''i'' # ToLower (drop 1 r)
       else lower c # ToLower r))"

declare ToLower.simps [simp del]

fun fold_case :: "string \<Rightarrow> string" where
  "fold_case s = (case s of
     [] \<Rightarrow> []
   | c # r \<Rightarrow> (if has_prefix s [CHR 0xE2, CHR 0x84, CHR 0xAA] then CHR ''k'' # fold_case (drop 2 r)
       else if has_prefix s [CHR 0xC5, CHR 0xBF] then CHR ''s'' # fold_case (drop 1 r)
       else lower c # fold_case r))"

declare fold_case.simps [simp del]

definition EqualFold :: "string \<Rightarrow> string \<Rightarrow> bool" where
  "EqualFold s t \<longleftrightarrow> fold_case s = fold_case t"

subsection \<open>Numbers\<close>

text \<open>\<^verbatim>\<open>int\<close> has 64 bits on the platforms the operator is built for.\<close>

definition Atoi :: "string \<Rightarrow> int option" where
  "Atoi s =
     (let neg = (s \<noteq> [] \<and> hd s = CHR ''-''); ds = (if s \<noteq> [] \<and> hd s \<in> {CHR ''-'', CHR ''+''} then tl s else s);
          n = (if neg then - int (decimal ds) else int (decimal ds))
      in if ds \<noteq> [] \<and> list_all is_digit ds \<and> - (2 ^ 63) \<le> n \<and> n < 2 ^ 63 then Some n else None)"

subsection \<open>Durations\<close>

text \<open>\<^verbatim>\<open>leadingInt\<close> fails when the number exceeds \<^verbatim>\<open>1<<63\<close>; \<^verbatim>\<open>leadingFraction\<close> stops counting digits instead. The fraction of a
  unit, \<^verbatim>\<open>uint64(float64(f) * (float64(unit) / scale))\<close>, is arithmetic on \<^verbatim>\<open>float64\<close>, which the parameter \<open>fraction\<close> stands for;
  its last argument is the exponent of the scale. The result is in nanoseconds.\<close>

definition limit63 :: nat where "limit63 = 2 ^ 63"

fun leadingInt :: "nat \<Rightarrow> string \<Rightarrow> (nat \<times> string) option" where
  "leadingInt x [] = Some (x, [])"
| "leadingInt x (c # s) =
     (if \<not> is_digit c then Some (x, c # s)
      else if x > limit63 div 10 then None
      else let y = 10 * x + digit_value c in if y > limit63 then None else leadingInt y s)"

fun leadingFraction :: "nat \<Rightarrow> nat \<Rightarrow> bool \<Rightarrow> string \<Rightarrow> nat \<times> nat \<times> string" where
  "leadingFraction x e over [] = (x, e, [])"
| "leadingFraction x e over (c # s) =
     (if \<not> is_digit c then (x, e, c # s)
      else if over then leadingFraction x e True s
      else if x > (limit63 - 1) div 10 then leadingFraction x e True s
      else let y = 10 * x + digit_value c in
        if y > limit63 then leadingFraction x e True s else leadingFraction y (Suc e) False s)"

definition unitMap :: "(string \<times> nat) list" where
  "unitMap = [(''ns'', 1), (''us'', 1000), ([CHR 0xC2, CHR 0xB5, CHR ''s''], 1000), ([CHR 0xCE, CHR 0xBC, CHR ''s''], 1000),
     (''ms'', 1000000), (''s'', 1000000000), (''m'', 60000000000), (''h'', 3600000000000)]"

lemma leadingInt_length: "leadingInt x s = Some (v, r) \<Longrightarrow> length r \<le> length s"
  by (induction x s rule: leadingInt.induct) (auto simp: Let_def split: if_splits)

lemma leadingFraction_length: "leadingFraction x e ov s = (f, k, r) \<Longrightarrow> length r \<le> length s"
proof (induction x e ov s rule: leadingFraction.induct)
  case (2 x e over c s)
  then show ?case by (fastforce simp: Let_def split: if_splits)
qed simp

text \<open>One turn of the loop: number, optional fraction and unit. It consumes the unit, which is not empty.\<close>

definition duration_step :: "(nat \<Rightarrow> nat \<Rightarrow> nat \<Rightarrow> nat) \<Rightarrow> string \<Rightarrow> (nat \<times> string) option" where
  "duration_step fraction s =
     (if s = [] \<or> \<not> (hd s = CHR ''.'' \<or> is_digit (hd s)) then None
      else case leadingInt 0 s of
        None \<Rightarrow> None
      | Some (v, s1) \<Rightarrow>
         (let pre = length s1 \<noteq> length s;
              dot = (s1 \<noteq> [] \<and> hd s1 = CHR ''.'');
              (f, e, s2) = (if dot then leadingFraction 0 0 False (tl s1) else (0, 0, s1));
              post = (dot \<and> length s2 \<noteq> length (tl s1));
              u = takeWhile (\<lambda>c. \<not> (c = CHR ''.'' \<or> is_digit c)) s2;
              rest = dropWhile (\<lambda>c. \<not> (c = CHR ''.'' \<or> is_digit c)) s2
          in if (\<not> pre \<and> \<not> post) \<or> u = [] then None
             else case map_of unitMap u of
               None \<Rightarrow> None
             | Some unit \<Rightarrow>
                (if v > limit63 div unit then None
                 else let w = v * unit + (if f > 0 then fraction f unit e else 0)
                      in if f > 0 \<and> w > limit63 then None else Some (w, rest))))"

lemma duration_step_length: "duration_step fraction s = Some (v, r) \<Longrightarrow> length r < length s"
proof -
  assume step: "duration_step fraction s = Some (v, r)"
  let ?unit = "\<lambda>c. \<not> (c = CHR ''.'' \<or> is_digit c)"
  have drop: "length (dropWhile ?unit t) < length t" if "takeWhile ?unit t \<noteq> []" for t
    using that length_dropWhile_le [of ?unit t] takeWhile_dropWhile_id [of ?unit t] by (metis append_self_conv2 length_append less_add_eq_less
        length_greater_0_conv less_add_same_cancel2)
  obtain v1 s1 where lead: "leadingInt 0 s = Some (v1, s1)" using step by (auto simp: duration_step_def split: if_splits option.splits)
  obtain f e s2 where frac: "(if s1 \<noteq> [] \<and> hd s1 = CHR ''.'' then leadingFraction 0 0 False (tl s1) else (0, 0, s1)) = (f, e, s2)"
    by (metis prod_cases3)
  have "takeWhile ?unit s2 \<noteq> []" "r = dropWhile ?unit s2"
    using step lead frac by (auto simp: duration_step_def Let_def split: if_splits option.splits)
  then have "length r < length s2" using drop by simp
  moreover have "length s2 \<le> length s1"
    using frac leadingFraction_length [of 0 0 False "tl s1" f e s2] by (auto split: if_splits)
  moreover have "length s1 \<le> length s" using leadingInt_length [OF lead] .
  ultimately show ?thesis by simp
qed

function duration_loop :: "(nat \<Rightarrow> nat \<Rightarrow> nat \<Rightarrow> nat) \<Rightarrow> nat \<Rightarrow> string \<Rightarrow> nat option" where
  "duration_loop fraction d s =
     (if s = [] then Some d
      else case duration_step fraction s of
        None \<Rightarrow> None
      | Some (v, rest) \<Rightarrow> (if d + v > limit63 then None else duration_loop fraction (d + v) rest))"
  by pat_completeness auto
termination by (relation "measure (\<lambda>(_, _, s). length s)") (auto dest: duration_step_length)

declare duration_loop.simps [simp del]

definition ParseDuration :: "(nat \<Rightarrow> nat \<Rightarrow> nat \<Rightarrow> nat) \<Rightarrow> string \<Rightarrow> int option" where
  "ParseDuration fraction orig =
     (let neg = (orig \<noteq> [] \<and> hd orig = CHR ''-''); s = (if orig \<noteq> [] \<and> hd orig \<in> {CHR ''-'', CHR ''+''} then tl orig else orig)
      in if s = ''0'' then Some 0
         else if s = [] then None
         else case duration_loop fraction 0 s of
           None \<Rightarrow> None
         | Some d \<Rightarrow> (if neg then Some (- int d) else if d > limit63 - 1 then None else Some (int d)))"

lemma ParseDuration_range: "ParseDuration fraction s = Some d \<Longrightarrow> - (2 ^ 63) \<le> d \<and> d < 2 ^ 63"
proof -
  have loop: "duration_loop fraction d0 t = Some n \<Longrightarrow> d0 \<le> limit63 \<Longrightarrow> n \<le> limit63" for d0 t n
    by (induction fraction d0 t rule: duration_loop.induct) (subst (asm) (2) duration_loop.simps, auto split: if_splits option.splits)
  assume "ParseDuration fraction s = Some d"
  then show ?thesis by (auto simp: ParseDuration_def Let_def limit63_def split: if_splits option.splits dest!: loop)
qed

subsection \<open>Hosts and ports\<close>

text \<open>\<^verbatim>\<open>net.SplitHostPort\<close>: the port follows the last colon; an address in brackets may contain colons.\<close>

definition SplitHostPort :: "string \<Rightarrow> (string \<times> string) option" where
  "SplitHostPort hostport =
     (case last_index CHR '':'' hostport of
        None \<Rightarrow> None
      | Some i \<Rightarrow>
         (if hd hostport = CHR ''['' then
            (case index_of CHR '']'' hostport of
               None \<Rightarrow> None
             | Some e \<Rightarrow>
                (if e + 1 \<noteq> i \<or> CHR ''['' \<in> set (drop 1 hostport) \<or> CHR '']'' \<in> set (drop (e + 1) hostport) then None
                 else Some (take (e - 1) (drop 1 hostport), drop (i + 1) hostport)))
          else if CHR '':'' \<in> set (take i hostport) \<or> CHR ''['' \<in> set hostport \<or> CHR '']'' \<in> set hostport then None
          else Some (take i hostport, drop (i + 1) hostport)))"

definition JoinHostPort :: "string \<Rightarrow> string \<Rightarrow> string" where
  "JoinHostPort host port = (if CHR '':'' \<in> set host then ''['' @ host @ '']:'' @ port else host @ '':'' @ port)"

subsection \<open>IP addresses\<close>

text \<open>\<^verbatim>\<open>net.ParseIP\<close> with its result, the sixteen bytes of the address; the loop is \<open>v6_fields\<close> with the bytes kept, and
  \<open>ell\<close> is where the ellipsis was.\<close>

definition v4_octets :: "string \<Rightarrow> nat list" where
  "v4_octets s = map decimal (split_on CHR ''.'' s)"

definition hex_value :: "char \<Rightarrow> nat" where
  "hex_value c = (let n = of_char c :: nat in if n \<le> 57 then n - 48 else if n \<le> 70 then n - 55 else n - 87)"

definition hex_number :: "string \<Rightarrow> nat" where
  "hex_number s = foldl (\<lambda>n c. 16 * n + hex_value c) 0 s"

function v6_bytes :: "nat list \<Rightarrow> nat option \<Rightarrow> string \<Rightarrow> (nat list \<times> nat option) option" where
  "v6_bytes bs ell s =
     (if 16 \<le> length bs then (if s = [] then Some (bs, ell) else None)
      else let f = takeWhile is_hex s; rest = dropWhile is_hex s; bs' = bs @ [hex_number f div 256, hex_number f mod 256] in
        if f = [] \<or> 4 < length f then None
        else case rest of
          [] \<Rightarrow> Some (bs', ell)
        | c # cs \<Rightarrow>
           (if c = CHR ''.'' then
              (if ell = None \<and> length bs \<noteq> 12 then None else if 16 < length bs + 4 then None
               else if v4_addr s then Some (bs @ v4_octets s, ell) else None)
            else if c \<noteq> CHR '':'' then None
            else case cs of
              [] \<Rightarrow> None
            | d # ds \<Rightarrow>
               (if d = CHR '':'' then
                  (if ell \<noteq> None then None
                   else if ds = [] then Some (bs', Some (length bs')) else v6_bytes bs' (Some (length bs')) ds)
                else v6_bytes bs' ell (d # ds))))"
  by pat_completeness auto
termination by (relation "measure (\<lambda>(bs, _, _). 16 - length bs)") auto

declare v6_bytes.simps [simp del]

definition expand :: "nat list \<Rightarrow> nat \<Rightarrow> nat list" where
  "expand bs e = take e bs @ replicate (16 - length bs) 0 @ drop e bs"

definition ParseIP :: "string \<Rightarrow> nat list option" where
  "ParseIP s =
     (case find (\<lambda>c. c = CHR ''.'' \<or> c = CHR '':'' \<or> c = CHR ''%'') s of
        None \<Rightarrow> None
      | Some c \<Rightarrow>
         (if c = CHR ''.'' then (if v4_addr s then Some (replicate 10 0 @ [255, 255] @ v4_octets s) else None)
          else if c = CHR '':'' \<and> CHR ''%'' \<notin> set s then
            (let lead = (take 2 s = ''::''); body = (if lead then drop 2 s else s) in
             if lead \<and> body = [] then Some (replicate 16 0)
             else case v6_bytes [] (if lead then Some 0 else None) body of
               None \<Rightarrow> None
             | Some (bs, ell) \<Rightarrow>
                (case ell of
                   None \<Rightarrow> (if length bs < 16 then None else Some bs)
                 | Some e \<Rightarrow> (if length bs < 16 then Some (expand bs e) else None)))
          else None))"

definition To4 :: "nat list \<Rightarrow> nat list option" where
  "To4 ip = (if take 12 ip = replicate 10 0 @ [255, 255] then Some (drop 12 ip) else None)"

definition IsLoopback :: "nat list \<Rightarrow> bool" where
  "IsLoopback ip = (case To4 ip of Some b \<Rightarrow> b ! 0 = 127 | None \<Rightarrow> ip = replicate 15 0 @ [1])"

definition IsUnspecified :: "nat list \<Rightarrow> bool" where
  "IsUnspecified ip \<longleftrightarrow> To4 ip = Some [0, 0, 0, 0] \<or> ip = replicate 16 0"

definition IsLinkLocalUnicast :: "nat list \<Rightarrow> bool" where
  "IsLinkLocalUnicast ip = (case To4 ip of Some b \<Rightarrow> b ! 0 = 169 \<and> b ! 1 = 254 | None \<Rightarrow> ip ! 0 = 254 \<and> ip ! 1 div 64 = 2)"

definition IsLinkLocalMulticast :: "nat list \<Rightarrow> bool" where
  "IsLinkLocalMulticast ip = (case To4 ip of Some b \<Rightarrow> take 3 b = [224, 0, 0] | None \<Rightarrow> ip ! 0 = 255 \<and> ip ! 1 mod 16 = 2)"

definition IsMulticast :: "nat list \<Rightarrow> bool" where
  "IsMulticast ip = (case To4 ip of Some b \<Rightarrow> b ! 0 div 16 = 14 | None \<Rightarrow> ip ! 0 = 255)"

text \<open>The parser with bytes accepts what the recogniser accepts, and an address has sixteen bytes.\<close>

lemma v6_bytes_fields:
  "map_option (\<lambda>(b, e). (length b, e \<noteq> None)) (v6_bytes bs ell s) = v6_fields (length bs) (ell \<noteq> None) s"
proof (induction bs ell s rule: v6_bytes.induct)
  case (1 bs ell s)
  let ?f = "takeWhile is_hex s" and ?rest = "dropWhile is_hex s"
  let ?bs = "bs @ [hex_number ?f div 256, hex_number ?f mod 256]"
  have octets: "v4_addr s \<Longrightarrow> length (v4_octets s) = 4" by (simp add: v4_addr_def v4_octets_def)
  show ?case
  proof (cases "16 \<le> length bs \<or> ?f = [] \<or> 4 < length ?f")
    case True
    then show ?thesis by (subst v6_bytes.simps, subst v6_fields.simps) (auto simp: Let_def)
  next
    case False
    show ?thesis
    proof (cases ?rest)
      case Nil
      then show ?thesis using False by (subst v6_bytes.simps, subst v6_fields.simps) (simp add: Let_def del: dropWhile_eq_Nil_conv takeWhile_eq_Nil_iff)
    next
      case (Cons c cs)
      note rest = Cons
      show ?thesis
      proof (cases "c = CHR '':''")
        case True
        have IH1: "cs = d # ds \<Longrightarrow> d = CHR '':'' \<Longrightarrow> ell = None \<Longrightarrow> ds \<noteq> [] \<Longrightarrow>
            map_option (\<lambda>(b, e). (length b, e \<noteq> None)) (v6_bytes ?bs (Some (length ?bs)) ds) = v6_fields (length ?bs) True ds" for d ds
          using "1.IH"(1) [OF _ refl refl refl _ rest] False True by simp
        have IH2: "cs = d # ds \<Longrightarrow> d \<noteq> CHR '':'' \<Longrightarrow>
            map_option (\<lambda>(b, e). (length b, e \<noteq> None)) (v6_bytes ?bs ell (d # ds)) = v6_fields (length ?bs) (ell \<noteq> None) (d # ds)" for d ds
          using "1.IH"(2) [OF _ refl refl refl _ rest] False True by simp
        show ?thesis
        proof (cases cs)
          case Nil
          then show ?thesis using False True rest by (subst v6_bytes.simps, subst v6_fields.simps) (simp add: Let_def del: dropWhile_eq_Nil_conv takeWhile_eq_Nil_iff)
        next
          case (Cons d ds)
          then show ?thesis using False True rest IH1 [OF Cons] IH2 [OF Cons]
            by (subst v6_bytes.simps, subst v6_fields.simps) (simp add: Let_def del: dropWhile_eq_Nil_conv takeWhile_eq_Nil_iff)
        qed
      next
        case False
        then show ?thesis using \<open>\<not> (16 \<le> length bs \<or> ?f = [] \<or> 4 < length ?f)\<close> rest octets
          by (subst v6_bytes.simps, subst v6_fields.simps) (simp add: Let_def del: dropWhile_eq_Nil_conv takeWhile_eq_Nil_iff)
      qed
    qed
  qed
qed

lemma ParseIP_accepts: "ParseIP s \<noteq> None \<longleftrightarrow> ParseIP_ok s"
proof -
  let ?lead = "take 2 s = ''::''"
  let ?r = "\<lambda>body. v6_bytes [] (if ?lead then Some 0 else None) body"
  have fields: "v6_fields 0 ?lead body = map_option (\<lambda>(b, e). (length b, e \<noteq> None)) (?r body)" for body
    using v6_bytes_fields [of "[]" "if ?lead then Some 0 else None" body] by (simp split: if_splits)
  show ?thesis
    by (auto simp: ParseIP_def ParseIP_ok_def v6_addr_def Let_def fields split: option.splits if_splits)
qed

lemma ParseDuration_examples:
  "ParseDuration fraction ''1h30m'' = Some 5400000000000" "ParseDuration fraction ''-5s'' = Some (- 5000000000)"
  "ParseDuration fraction ''10'' = None" "ParseDuration fraction ''s'' = None" "ParseDuration fraction '''' = None"
  by (simp_all add: ParseDuration_def duration_loop.simps duration_step_def limit63_def unitMap_def is_digit_def digit_value_def Let_def)

lemma SplitHostPort_examples:
  "SplitHostPort ''[::1]:443'' = Some (''::1'', ''443'')" "SplitHostPort ''collector:4317'' = Some (''collector'', ''4317'')"
  "SplitHostPort ''::1'' = None" "SplitHostPort ''[a]b:1'' = None"
  by (simp_all add: SplitHostPort_def last_index_def index_of_def)

lemma zeros: "replicate 10 (0 :: nat) = [0, 0, 0, 0, 0, 0, 0, 0, 0, 0]" "replicate 12 (0 :: nat) = [0, 0, 0, 0, 0, 0, 0, 0, 0, 0, 0, 0]"
  by (simp_all add: numeral_eq_Suc)

lemma ParseIP_examples:
  "ParseIP ''127.0.0.1'' = Some [0, 0, 0, 0, 0, 0, 0, 0, 0, 0, 255, 255, 127, 0, 0, 1]" "ParseIP ''localhost'' = None"
  "ParseIP ''fe80::12'' = Some [254, 128, 0, 0, 0, 0, 0, 0, 0, 0, 0, 0, 0, 0, 0, 18]"
  by (simp_all add: ParseIP_def v4_addr_def v4_field_def v4_octets_def v6_bytes.simps is_hex_def is_digit_def decimal_def digit_value_def
      hex_number_def hex_value_def expand_def zeros Let_def)

end
