(* ===== verification/Validation.thy ===== *)
theory Validation
  imports Deployments Certificates Rbac Go_Text
begin

text \<open>
  Validation of the custom resource (\<^verbatim>\<open>internal/resources/validation.go\<close>): every check of \<^verbatim>\<open>ValidateKubernaut\<close> and
  \<^verbatim>\<open>ValidateFleet\<close>, in the order of the source, each returning the errors it finds.

  The code calls \<^verbatim>\<open>net/url\<close>'s parsers, \<^verbatim>\<open>strconv.ParseFloat\<close> and three name checks of \<^verbatim>\<open>k8s.io/apimachinery\<close>; they are the
  fields of the record \<open>validators\<close>, an argument of the definitions that use them. A parsed URL is the record \<open>url\<close> of the parts
  that the checks look at, and \<^verbatim>\<open>Hostname\<close> and \<^verbatim>\<open>Port\<close> are computed from its host as \<^verbatim>\<open>net/url\<close> does. In messages, \<^verbatim>\<open>%q\<close> is
  the text between double quotes.
\<close>

subsection \<open>What the checks rely on\<close>

record url =
  url_Scheme :: string
  url_Opaque :: string
  url_User :: bool \<comment> \<open>whether user information is present\<close>
  url_Host :: string
  url_Path :: string
  url_EscapedPath :: string
  url_RawQuery :: string
  url_Fragment :: string

record validators =
  l_Parse :: "string \<Rightarrow> url option"
  l_ParseQuery :: "string \<Rightarrow> string list gomap option"
  l_finite_float :: "string \<Rightarrow> bool" \<comment> \<open>\<^verbatim>\<open>strconv.ParseFloat\<close> succeeds with a finite number\<close>
  l_fraction :: "nat \<Rightarrow> nat \<Rightarrow> nat \<Rightarrow> nat" \<comment> \<open>the \<^verbatim>\<open>float64\<close> arithmetic of \<^verbatim>\<open>time.ParseDuration\<close>\<close>
  l_DurationString :: "int \<Rightarrow> string"
  l_DurationError :: "string \<Rightarrow> string" \<comment> \<open>what \<^verbatim>\<open>time.ParseDuration\<close> says of a text it refuses\<close>
  l_IsDNS1123Subdomain :: "string \<Rightarrow> bool"
  l_IsConfigMapKey :: "string \<Rightarrow> bool"
  l_IsValidLabelValue :: "string \<Rightarrow> bool"

abbreviation duration :: "validators \<Rightarrow> string \<Rightarrow> int option" where
  "duration L \<equiv> ParseDuration (l_fraction L)"

definition validOptionalPort :: "string \<Rightarrow> bool" where
  "validOptionalPort port \<longleftrightarrow> port = '''' \<or> (hd port = CHR '':'' \<and> list_all is_digit (tl port))"

text \<open>\<^verbatim>\<open>splitHostPort\<close> of \<^verbatim>\<open>net/url\<close>: the colon and what follows it are a port only if it is numeric or empty.\<close>

definition url_split :: "string \<Rightarrow> string \<times> string" where
  "url_split hostPort =
     (let (host, port) = (case last_index CHR '':'' hostPort of
            None \<Rightarrow> (hostPort, '''')
          | Some i \<Rightarrow> (if validOptionalPort (drop i hostPort) then (take i hostPort, drop (i + 1) hostPort) else (hostPort, '''')))
      in (if host \<noteq> [] \<and> hd host = CHR ''['' \<and> last host = CHR '']'' then butlast (tl host) else host, port))"

definition url_Hostname :: "url \<Rightarrow> string" where "url_Hostname u = fst (url_split (url_Host u))"
definition url_Port :: "url \<Rightarrow> string" where "url_Port u = snd (url_split (url_Host u))"

definition quoted :: "string \<Rightarrow> string" where "quoted s = [CHR 0x22] @ s @ [CHR 0x22]"
definition em_dash :: string where "em_dash = [CHR 0xE2, CHR 0x80, CHR 0x94]"

definition optional_error :: "go_error option \<Rightarrow> go_error list" where
  "optional_error r = (case r of None \<Rightarrow> [] | Some e \<Rightarrow> [e])"

definition err_if :: "bool \<Rightarrow> string \<Rightarrow> go_error list" where
  "err_if b m = (if b then [Msg m] else [])"

lemma err_if_Nil [simp]: "err_if b m = [] \<longleftrightarrow> \<not> b" "optional_error r = [] \<longleftrightarrow> r = None"
  by (simp_all add: err_if_def optional_error_def split: option.split)

definition IsAbs :: "string \<Rightarrow> bool" where "IsAbs p \<longleftrightarrow> p \<noteq> [] \<and> hd p = CHR ''/''"

subsection \<open>Numbers and durations\<close>

definition validatePositiveDuration :: "validators \<Rightarrow> string \<Rightarrow> string \<Rightarrow> go_error list" where
  "validatePositiveDuration L path value =
     (if value = '''' then []
      else case duration L value of
        None \<Rightarrow> [Wrap (path @ '': invalid duration '' @ quoted value) (Msg (l_DurationError L value))]
      | Some d \<Rightarrow> err_if (d \<le> 0) (path @ '': duration must be positive, got '' @ quoted value))"

definition validateNonNegativeInt :: "string \<Rightarrow> int option \<Rightarrow> go_error list" where
  "validateNonNegativeInt path v = (case v of None \<Rightarrow> [] | Some n \<Rightarrow> err_if (n < 0) (path @ '' must be non-negative, got '' @ show_int n))"

definition validatePositiveInt :: "string \<Rightarrow> int option \<Rightarrow> go_error list" where
  "validatePositiveInt path v = (case v of None \<Rightarrow> [] | Some n \<Rightarrow> err_if (n < 1) (path @ '' must be positive, got '' @ show_int n))"

definition validateMaximumInt :: "string \<Rightarrow> int option \<Rightarrow> int \<Rightarrow> go_error list" where
  "validateMaximumInt path v maximum = (case v of None \<Rightarrow> []
     | Some n \<Rightarrow> err_if (n > maximum) (path @ '' must be at most '' @ show_int maximum @ '', got '' @ show_int n))"

subsection \<open>DataStorage\<close>

definition validateDataStorageServer :: "validators \<Rightarrow> DataStorageServerSpec option \<Rightarrow> go_error list" where
  "validateDataStorageServer L server = (case server of
     None \<Rightarrow> []
   | Some s \<Rightarrow>
       validatePositiveDuration L ''spec.dataStorage.server.readTimeout'' (dataStorageServer_ReadTimeout s)
       @ validatePositiveDuration L ''spec.dataStorage.server.writeTimeout'' (dataStorageServer_WriteTimeout s)
       @ validateNonNegativeInt ''spec.dataStorage.server.maxConcurrentRequests'' (dataStorageServer_MaxConcurrentRequests s)
       @ (case dataStorageServer_RateLimit s of
            None \<Rightarrow> []
          | Some r \<Rightarrow> validateNonNegativeInt ''spec.dataStorage.server.rateLimit.requestsPerSecond'' (dataStorageRateLimit_RequestsPerSecond r)
              @ validateNonNegativeInt ''spec.dataStorage.server.rateLimit.burst'' (dataStorageRateLimit_Burst r)))"

definition validateDataStorageDatabase :: "validators \<Rightarrow> DataStorageDatabaseSpec option \<Rightarrow> go_error list" where
  "validateDataStorageDatabase L database = (case database of
     None \<Rightarrow> []
   | Some d \<Rightarrow>
       validatePositiveDuration L ''spec.dataStorage.database.connMaxLifetime'' (dataStorageDatabase_ConnMaxLifetime d)
       @ validatePositiveDuration L ''spec.dataStorage.database.connMaxIdleTime'' (dataStorageDatabase_ConnMaxIdleTime d)
       @ validateNonNegativeInt ''spec.dataStorage.database.maxOpenConns'' (dataStorageDatabase_MaxOpenConns d)
       @ validateNonNegativeInt ''spec.dataStorage.database.maxIdleConns'' (dataStorageDatabase_MaxIdleConns d))"

definition validateDataStorageRedis :: "DataStorageRedisSpec option \<Rightarrow> go_error list" where
  "validateDataStorageRedis redis = (case redis of
     None \<Rightarrow> [] | Some r \<Rightarrow> validateNonNegativeInt ''spec.dataStorage.redis.dlqMaxLen'' (dataStorageRedis_DLQMaxLen r))"

definition validateDataStorageAudit :: "validators \<Rightarrow> DataStorageAuditSpec option \<Rightarrow> go_error list" where
  "validateDataStorageAudit L audit = (case audit of
     None \<Rightarrow> []
   | Some a \<Rightarrow> (case dataStorageAudit_Retention a of
       None \<Rightarrow> []
     | Some r \<Rightarrow>
         validatePositiveDuration L ''spec.dataStorage.audit.retention.interval'' (retention_Interval r)
         @ validatePositiveInt ''spec.dataStorage.audit.retention.batchSize'' (retention_BatchSize r)
         @ validatePositiveInt ''spec.dataStorage.audit.retention.defaultDays'' (retention_DefaultDays r)
         @ validateMaximumInt ''spec.dataStorage.audit.retention.defaultDays'' (retention_DefaultDays r) 2555))"

definition validateDataStorage :: "validators \<Rightarrow> Kubernaut \<Rightarrow> go_error list" where
  "validateDataStorage L kn =
     (let ds = spec_DataStorage (kn_Spec kn)
      in validatePositiveDuration L ''spec.dataStorage.endpointPropagationDelay'' (dataStorage_EndpointPropagationDelay ds)
         @ validateDataStorageServer L (dataStorage_Server ds)
         @ validateDataStorageDatabase L (dataStorage_Database ds)
         @ validateDataStorageRedis (dataStorage_Redis ds)
         @ validateDataStorageAudit L (dataStorage_Audit ds))"

subsection \<open>Notification credentials\<close>

fun notification_errors :: "validators \<Rightarrow> string list \<Rightarrow> int \<Rightarrow> NotificationCredentialSpec list \<Rightarrow> go_error list" where
  "notification_errors L old index [] = []"
| "notification_errors L old index (c # cs) =
     (let base = ''spec.notification.credentials['' @ show_int index @ '']''; secretPath = base @ ''.secretRef''
      in err_if (\<not> l_IsValidLabelValue L (notificationCredential_Name c)) (base @ ''.name must be a valid credential file name'')
         @ err_if (notificationCredential_Name c \<in> set old) (base @ ''.name must be unique'')
         @ err_if (\<not> l_IsDNS1123Subdomain L (notificationSecretRef_Name (notificationCredential_SecretRef c)))
             (secretPath @ ''.name must be a valid Kubernetes object name'')
         @ err_if (\<not> l_IsConfigMapKey L (notificationSecretRef_Key (notificationCredential_SecretRef c)))
             (secretPath @ ''.key must be a valid Secret key''))
     @ notification_errors L (notificationCredential_Name c # old) (index + 1) cs"

definition validateNotificationCredentials :: "validators \<Rightarrow> Kubernaut \<Rightarrow> go_error list" where
  "validateNotificationCredentials L kn = notification_errors L [] 0 (notification_Credentials (spec_Notification (kn_Spec kn)))"

subsection \<open>Monitoring\<close>

definition httpURLScheme :: string where "httpURLScheme = ''http''"
definition httpsURLScheme :: string where "httpsURLScheme = ''https''"

definition monitoring_endpoint_errors :: "validators \<Rightarrow> string \<times> string \<Rightarrow> go_error list" where
  "monitoring_endpoint_errors L = (\<lambda>(path, raw).
     let value = trim_space raw in
     if value = '''' then []
     else if value \<noteq> raw then [Msg (path @ '' must not contain leading or trailing whitespace'')]
     else err_if (case l_Parse L value of None \<Rightarrow> True
         | Some u \<Rightarrow> url_Scheme u \<noteq> httpsURLScheme \<or> url_Host u = '''' \<or> url_User u)
       (path @ '' must be an https URL without user information''))"

definition validateMonitoringEndpoints :: "validators \<Rightarrow> Kubernaut \<Rightarrow> go_error list" where
  "validateMonitoringEndpoints L kn =
     (let m = spec_Monitoring (kn_Spec kn)
      in concat (map (monitoring_endpoint_errors L)
           [(''spec.monitoring.prometheus.url'', prometheus_URL (monitoring_Prometheus m)),
            (''spec.monitoring.alertManager.url'', alertManager_URL (monitoring_AlertManager m))]))"

definition validateMonitoringCARef :: "validators \<Rightarrow> string \<Rightarrow> string \<Rightarrow> string \<Rightarrow> go_error list" where
  "validateMonitoringCARef L base name key =
     (if name = '''' then [Msg (base @ ''.name must not be empty'')]
      else err_if (\<not> l_IsDNS1123Subdomain L name) (base @ ''.name must be a valid Kubernetes object name''))
     @ err_if (\<not> l_IsConfigMapKey L (if key = '''' then tlsCACertificateKey else key)) (base @ ''.key must be a valid Secret key'')"

definition validateMonitoringTLS_spec :: "validators \<Rightarrow> Kubernaut \<Rightarrow> go_error list" where
  "validateMonitoringTLS_spec L kn =
     (case monitoring_TLS (spec_Monitoring (kn_Spec kn)) of
        None \<Rightarrow> []
      | Some tls \<Rightarrow> (case monitoringTLS_CACertSecretRef tls of
          None \<Rightarrow> []
        | Some ref \<Rightarrow> validateMonitoringCARef L ''spec.monitoring.tls.caCertSecretRef'' (caCertSecretRef_Name ref) (caCertSecretRef_Key ref)))"

subsection \<open>Telemetry\<close>

definition TelemetryMountDir :: string where "TelemetryMountDir = ''/etc/telemetry''"

definition validateTelemetryCA :: "string \<Rightarrow> TelemetryTLSConfig \<Rightarrow> go_error list" where
  "validateTelemetryCA base tls =
     (let caFile = telemetryTLSConfig_CAFile tls
      in err_if (caFile \<noteq> '''' \<and> telemetryTLSConfig_CACertSecretRef tls \<noteq> None)
           (base @ ''.tls.caFile and '' @ base @ ''.tls.caCertSecretRef are mutually exclusive'')
         @ err_if (caFile \<noteq> '''' \<and> \<not> IsAbs caFile) (base @ ''.tls.caFile must be an absolute path'')
         @ (case telemetryTLSConfig_CACertSecretRef tls of
              None \<Rightarrow> []
            | Some ref \<Rightarrow>
                err_if (caCertSecretRef_Name ref = '''') (base @ ''.tls.caCertSecretRef.name must not be empty'')
                @ (let key = caCertSecretRef_Key ref in
                   err_if (key \<noteq> '''' \<and> (path_Base key \<noteq> key \<or> ContainsAny key [CHR 0x5C, CHR ''/'']))
                     (base @ ''.tls.caCertSecretRef.key must be a Secret key name without path separators''))))"

definition validateTelemetryClientPaths :: "string \<Rightarrow> TelemetryTLSConfig \<Rightarrow> go_error list" where
  "validateTelemetryClientPaths base tls =
     (let certFile = telemetryTLSConfig_CertFile tls; keyFile = telemetryTLSConfig_KeyFile tls
      in err_if (\<not> IsAbs certFile) (base @ ''.tls.certFile must be an absolute path'')
         @ err_if (\<not> IsAbs keyFile) (base @ ''.tls.keyFile must be an absolute path'')
         @ err_if (path_Clean certFile = path_Clean keyFile)
             (base @ ''.tls.certFile and '' @ base @ ''.tls.keyFile must be different paths''))"

definition validateTelemetrySecretClientPaths :: "string \<Rightarrow> TelemetryTLSConfig \<Rightarrow> go_error list" where
  "validateTelemetrySecretClientPaths base tls =
     (let certFile = telemetryTLSConfig_CertFile tls; keyFile = telemetryTLSConfig_KeyFile tls
      in err_if (path_Dir certFile \<noteq> path_Dir keyFile)
           (base @ ''.tls.certFile and '' @ base @ ''.tls.keyFile must use the same directory for Secret-backed mTLS'')
         @ err_if (path_Dir (path_Clean certFile) \<noteq> TelemetryMountDir)
             (base @ ''.tls.certFile must be mounted below '' @ TelemetryMountDir @ '' for Secret-backed mTLS'')
         @ err_if (path_Base certFile = path_Base keyFile)
             (base @ ''.tls.certFile and '' @ base @ ''.tls.keyFile must have different filenames for Secret-backed mTLS'')
         @ err_if (telemetryTLSConfig_CACertSecretRef tls \<noteq> None \<and> (path_Clean certFile = telemetryCAFile \<or> path_Clean keyFile = telemetryCAFile))
             (base @ ''.tls client material must not overwrite the Secret-backed CA path '' @ telemetryCAFile))"

definition validateTelemetryClient :: "string \<Rightarrow> TelemetryTLSConfig \<Rightarrow> go_error list" where
  "validateTelemetryClient base tls =
     (let certFile = telemetryTLSConfig_CertFile tls; keyFile = telemetryTLSConfig_KeyFile tls;
          certSet = (certFile \<noteq> '''' \<or> keyFile \<noteq> ''''); ref = telemetryTLSConfig_TLSClientSecretRef tls
      in err_if (certSet \<and> (certFile = '''' \<or> keyFile = ''''))
           (base @ ''.tls.certFile and '' @ base @ ''.tls.keyFile must be set together'')
         @ err_if (ref \<noteq> '''' \<and> \<not> certSet) (base @ ''.tls.tlsClientSecretRef requires both certFile and keyFile'')
         @ (if \<not> certSet then []
            else validateTelemetryClientPaths base tls @ (if ref \<noteq> '''' then validateTelemetrySecretClientPaths base tls else [])))"

definition telemetryEndpointHostBlocked :: "string \<Rightarrow> bool" where
  "telemetryEndpointHostBlocked host =
     (if EqualFold host ''localhost'' \<or> EqualFold host ''metadata.google.internal'' \<or> EqualFold host ''instance-data'' then True
      else case ParseIP host of
        None \<Rightarrow> False
      | Some ip \<Rightarrow> IsLoopback ip \<or> IsUnspecified ip \<or> IsLinkLocalUnicast ip \<or> IsLinkLocalMulticast ip \<or> IsMulticast ip)"

definition allASCIIDigits :: "string \<Rightarrow> bool" where
  "allASCIIDigits value \<longleftrightarrow> value \<noteq> '''' \<and> list_all is_digit value"

definition validateTelemetryPort :: "string \<Rightarrow> go_error option" where
  "validateTelemetryPort port =
     (case Atoi port of
        None \<Rightarrow> Some (Msg ''must use a numeric TCP port; TLS is mandatory'')
      | Some n \<Rightarrow>
         (if \<not> allASCIIDigits port then Some (Msg ''must use a numeric TCP port; TLS is mandatory'')
          else if n < 1 \<or> n > 65535 then Some (Msg ''must use a TCP port from 1 to 65535; TLS is mandatory'') else None))"

definition validateTelemetryHostPort :: "string \<Rightarrow> go_error option" where
  "validateTelemetryHostPort endpoint =
     (case SplitHostPort endpoint of
        None \<Rightarrow> Some (Msg ''must be a host:port or https://host:port value; TLS is mandatory'')
      | Some (host, port) \<Rightarrow>
         (if host = '''' \<or> port = '''' then Some (Msg ''must be a host:port or https://host:port value; TLS is mandatory'')
          else if telemetryEndpointHostBlocked (trim_set host ''[]'')
          then Some (Msg ''must not target a loopback or cloud metadata hostname; use an approved collector endpoint'')
          else validateTelemetryPort port))"

definition normalizeTelemetryEndpoint :: "validators \<Rightarrow> string \<Rightarrow> string go" where
  "normalizeTelemetryEndpoint L endpoint =
     (if endpoint = '''' \<or> endpoint = ''stdout'' then Inr endpoint
      else if trim_space endpoint \<noteq> endpoint \<or> ContainsAny endpoint [CHR '' '', CHR 9, CHR 10, CHR 13]
      then Inl (Msg ''must be a host:port or https://host:port value without whitespace; TLS is mandatory'')
      else let parsed = (if Contains endpoint ''://''
               then (case l_Parse L endpoint of
                  None \<Rightarrow> None
                | Some u \<Rightarrow> (if \<not> EqualFold (url_Scheme u) ''https'' \<or> url_Host u = '''' \<or> url_User u \<or> url_RawQuery u \<noteq> ''''
                      \<or> url_Fragment u \<noteq> '''' \<or> (url_Path u \<noteq> '''' \<and> url_Path u \<noteq> ''/'') then None else Some (url_Host u)))
               else Some endpoint)
           in case parsed of
             None \<Rightarrow> Inl (Msg ''must use an https:// URI or host:port value; plaintext HTTP and other URI forms are unsupported'')
           | Some hostport \<Rightarrow> (case validateTelemetryHostPort hostport of Some e \<Rightarrow> Inl e | None \<Rightarrow> Inr hostport))"

definition validateTelemetryEndpoint :: "validators \<Rightarrow> string \<Rightarrow> go_error option" where
  "validateTelemetryEndpoint L endpoint = (case normalizeTelemetryEndpoint L endpoint of Inl e \<Rightarrow> Some e | Inr _ \<Rightarrow> None)"

definition validateTelemetrySpec :: "validators \<Rightarrow> string \<Rightarrow> TelemetrySpec \<Rightarrow> go_error list" where
  "validateTelemetrySpec L base telemetry =
     optional_error (map_option (Wrap (base @ ''.endpoint'')) (validateTelemetryEndpoint L (telemetry_Endpoint telemetry)))
     @ validateTelemetryCA base (telemetry_TLS telemetry)
     @ validateTelemetryClient base (telemetry_TLS telemetry)"

definition validateTelemetry :: "validators \<Rightarrow> Kubernaut \<Rightarrow> go_error list" where
  "validateTelemetry L kn =
     (if GatewayEnabled (kn_Spec kn)
      then validateTelemetrySpec L ''spec.gateway.config.telemetry'' (gatewayConfig_Telemetry (gateway_Config (spec_Gateway (kn_Spec kn)))) else [])
     @ validateTelemetrySpec L ''spec.dataStorage.telemetry'' (dataStorage_Telemetry (spec_DataStorage (kn_Spec kn)))
     @ validateTelemetrySpec L ''spec.kubernautAgent.telemetry'' (kubernautAgent_Telemetry (spec_KubernautAgent (kn_Spec kn)))"

subsection \<open>PostgreSQL\<close>

definition validatePostgreSQLSSLMode :: "Kubernaut \<Rightarrow> go_error list" where
  \<open>validatePostgreSQLSSLMode kn =
     err_if (ToLower (postgreSQL_SSLMode (spec_PostgreSQL (kn_Spec kn))) = ''disable'')
       ''spec.postgresql.sslMode: "disable" is rejected (FedRAMP SC-8); use "verify-full" or "verify-ca"''\<close>

definition validatePolicyPrerequisites :: "Kubernaut \<Rightarrow> go_error list" where
  "validatePolicyPrerequisites kn = []"

subsection \<open>LLM profiles\<close>

definition validateFleetHTTPSURL :: "validators \<Rightarrow> string \<Rightarrow> string \<Rightarrow> go_error option" where
  "validateFleetHTTPSURL L path value =
     (if trim_space value \<noteq> value then Some (Msg (path @ '' must not contain leading or trailing whitespace''))
      else case l_Parse L value of
        None \<Rightarrow> Some (Msg (path @ '' must be an absolute https URL without user information''))
      | Some u \<Rightarrow> (if url_Scheme u \<noteq> httpsURLScheme \<or> url_Host u = '''' \<or> url_User u
          then Some (Msg (path @ '' must be an absolute https URL without user information'')) else None))"

definition LLMProviderOpenAI :: string where "LLMProviderOpenAI = ''openai''"
definition LLMProviderAnthropic :: string where "LLMProviderAnthropic = ''anthropic''"

definition anthropicFamilyReasoningProviders :: "string list" where
  "anthropicFamilyReasoningProviders = [LLMProviderAnthropic, LLMProviderVertexAI]"

definition validateLLMProfileTuning :: "validators \<Rightarrow> string \<Rightarrow> LLMProfileSpec \<Rightarrow> go_error list" where
  "validateLLMProfileTuning L base llm =
     (case llmProfile_MaxRetries llm of None \<Rightarrow> [] | Some n \<Rightarrow> err_if (n < 0) (base @ ''.maxRetries: must be non-negative''))
     @ (case llmProfile_TimeoutSeconds llm of None \<Rightarrow> [] | Some n \<Rightarrow> err_if (n \<le> 0) (base @ ''.timeoutSeconds: must be positive''))
     @ err_if (llmProfile_Temperature llm \<noteq> '''' \<and> \<not> l_finite_float L (llmProfile_Temperature llm))
         (base @ ''.temperature: must be a finite number'')"

definition validateLLMProfileCA :: "validators \<Rightarrow> string \<Rightarrow> LLMProfileSpec \<Rightarrow> go_error list" where
  "validateLLMProfileCA L base llm =
     err_if (llmProfile_TLSCaFile llm \<noteq> '''' \<and> \<not> IsAbs (llmProfile_TLSCaFile llm)) (base @ ''.tlsCaFile must be an absolute path'')
     @ (case llmProfile_TLSCaSecretRef llm of
          None \<Rightarrow> []
        | Some ref \<Rightarrow>
            err_if (llmProfile_TLSCaFile llm = '''') (base @ ''.tlsCaFile is required when tlsCaSecretRef is configured'')
            @ (if caCertSecretRef_Name ref = '''' then [Msg (base @ ''.tlsCaSecretRef.name must not be empty'')]
               else err_if (\<not> l_IsDNS1123Subdomain L (caCertSecretRef_Name ref)) (base @ ''.tlsCaSecretRef.name must be a valid Kubernetes object name''))
            @ (let key = llmTLSCAKey llm in
               err_if (path_Base key \<noteq> key \<or> ContainsAny key [CHR 0x5C, CHR ''/''])
                 (base @ ''.tlsCaSecretRef.key must be a Secret key name without path separators'')))"

text \<open>The file names that are projected into one volume: \<open>used\<close> maps the names added so far to their fields.\<close>

fun projected_name_errors :: "string \<Rightarrow> (string \<times> string) list \<Rightarrow> (string \<times> string) list \<Rightarrow> go_error list" where
  "projected_name_errors base used [] = []"
| "projected_name_errors base used ((field, value) # rest) =
     (let name = path_Base value in
      if value = '''' then projected_name_errors base used rest
      else if name \<in> {''.'', ''..'', ''/''}
      then Msg (base @ ''.'' @ field @ '' must name a file below the deterministic TLS mount'') # projected_name_errors base used rest
      else case map_of used name of
        Some previous \<Rightarrow> Msg (base @ ''.'' @ previous @ '' and '' @ base @ ''.'' @ field @ '' must use different filenames for projected TLS material'')
          # projected_name_errors base used rest
      | None \<Rightarrow> projected_name_errors base ((name, field) # used) rest)"

definition validateLLMProfileTLSMaterialNames :: "string \<Rightarrow> LLMProfileSpec \<Rightarrow> go_error list" where
  "validateLLMProfileTLSMaterialNames base llm = projected_name_errors base []
     ((if llmProfile_TLSCaSecretRef llm \<noteq> None then [(''tlsCaFile'', llmProfile_TLSCaFile llm)] else [])
      @ (if llmProfile_TLSClientSecretRef llm \<noteq> ''''
         then [(''tlsCertFile'', llmProfile_TLSCertFile llm), (''tlsKeyFile'', llmProfile_TLSKeyFile llm)] else []))"

definition validateLLMProfileTLSPathCollisions :: "string \<Rightarrow> LLMProfileSpec \<Rightarrow> go_error list" where
  "validateLLMProfileTLSPathCollisions base llm =
     (if llmProfile_TLSCaSecretRef llm = None then []
      else err_if (path_Clean (llmProfile_TLSCaFile llm) = path_Clean (llmProfile_TLSCertFile llm))
             (base @ ''.tlsCaFile and '' @ base @ ''.tlsCertFile must be different paths'')
           @ err_if (path_Clean (llmProfile_TLSCaFile llm) = path_Clean (llmProfile_TLSKeyFile llm))
               (base @ ''.tlsCaFile and '' @ base @ ''.tlsKeyFile must be different paths''))"

definition validateLLMProfileTLS :: "validators \<Rightarrow> string \<Rightarrow> LLMProfileSpec \<Rightarrow> go_error list" where
  "validateLLMProfileTLS L base llm =
     (let certFile = llmProfile_TLSCertFile llm; keyFile = llmProfile_TLSKeyFile llm; certSet = (certFile \<noteq> '''' \<or> keyFile \<noteq> '''')
      in validateLLMProfileCA L base llm
         @ err_if (certSet \<and> (certFile = '''' \<or> keyFile = ''''))
             (base @ ''.tlsCertFile and '' @ base @ ''.tlsKeyFile must both be set or both empty for mTLS'')
         @ err_if (\<not> certSet \<and> llmProfile_TLSClientSecretRef llm \<noteq> '''')
             (base @ ''.tlsClientSecretRef: set but tlsCertFile/tlsKeyFile are empty '' @ em_dash @ '' both pairs are required for mTLS'')
         @ validateLLMProfileTLSMaterialNames base llm
         @ (if \<not> certSet then []
            else err_if (llmProfile_TLSClientSecretRef llm = '''') (base @ ''.tlsClientSecretRef: required when mTLS cert/key paths are configured'')
              @ err_if (\<not> IsAbs certFile \<or> \<not> IsAbs keyFile) (base @ ''.tlsCertFile and '' @ base @ ''.tlsKeyFile must be absolute paths for mTLS'')
              @ err_if (path_Dir certFile \<noteq> path_Dir keyFile) (base @ ''.tlsCertFile and '' @ base @ ''.tlsKeyFile must share one parent directory for mTLS'')
              @ validateLLMProfileTLSPathCollisions base llm))"

definition validateLLMProfileOAuth2 :: "validators \<Rightarrow> string \<Rightarrow> LLMProfileSpec \<Rightarrow> go_error list" where
  "validateLLMProfileOAuth2 L base llm =
     (let o2 = llmProfile_OAuth2 llm in
      if \<not> oAuth2_Enabled o2 then []
      else (if oAuth2_TokenURL o2 = '''' then [Msg (base @ ''.oauth2.tokenURL: required when OAuth2 is enabled'')]
            else optional_error (validateFleetHTTPSURL L (base @ ''.oauth2.tokenURL'') (oAuth2_TokenURL o2)))
           @ err_if (oAuth2_CredentialsSecretRef o2 = '''') (base @ ''.oauth2.credentialsSecretRef: required when OAuth2 is enabled''))"

definition validateLLMReasoning :: "string \<Rightarrow> LLMReasoningSpec option \<Rightarrow> string \<Rightarrow> go_error option" where
  \<open>validateLLMReasoning base r provider = (case r of
     None \<Rightarrow> None
   | Some r \<Rightarrow> (if llmReasoning_Enabled r \<and> llmReasoning_Effort r = ''none'' \<and> provider \<in> set anthropicFamilyReasoningProviders
       then Some (Msg (base @ ''.reasoning: effort: "none" is not supported for provider '' @ quoted provider @ '' while reasoning is enabled '' @
         ''(Anthropic has no "thinking enabled with zero effort" state) '' @ em_dash @ '' use enabled: false to fully '' @
         ''disable reasoning, or effort: "minimal" for Anthropic's lowest real tier''))
       else None))\<close>

definition validateLLMProfileContent :: "validators \<Rightarrow> string \<Rightarrow> LLMProfileSpec \<Rightarrow> go_error list" where
  \<open>validateLLMProfileContent L name llm =
     (let base = ''spec.llmProfiles['' @ quoted name @ '']''
      in err_if (llmProfile_Provider llm = '''')
           (base @ ''.provider: required '' @ em_dash @ '' specify the LLM provider (e.g. "openai", "vertexai")'')
         @ err_if (llmProfile_Model llm = '''')
             (base @ ''.model: required '' @ em_dash @ '' specify the LLM model name (e.g. "gpt-4o" for provider "openai", "claude-sonnet-5" for provider "vertexai"/"anthropic")'')
         @ err_if (llmProfile_CredentialsSecretName llm = '''')
             (base @ ''.credentialsSecretName: required '' @ em_dash @ '' provide a Secret with LLM API credentials'')
         @ validateLLMProfileTuning L base llm
         @ err_if (llmProfile_Provider llm = LLMProviderOpenAI \<and> llmProfile_Endpoint llm = '''')
             (base @ ''.endpoint: required when provider is '' @ quoted LLMProviderOpenAI @ '' '' @ em_dash @ '' both KA and AF need an explicit endpoint for OpenAI'')
         @ validateLLMProfileTLS L base llm
         @ validateLLMProfileOAuth2 L base llm
         @ optional_error (validateLLMReasoning base (llmProfile_Reasoning llm) (llmProfile_Provider llm)))\<close>

definition lookupProfileRef :: "LLMProfileSpec gomap \<Rightarrow> string \<Rightarrow> string \<Rightarrow> bool \<Rightarrow> go_error option" where
  "lookupProfileRef profiles ref fieldPath allowEmpty =
     (if ref = '''' \<and> allowEmpty then None
      else if map_of profiles ref = None
      then Some (Msg (fieldPath @ '': references undefined profile '' @ quoted ref @ '' '' @ em_dash @ '' must match a key in spec.llmProfiles''))
      else None)"

definition validateRequiredEffectiveProfile :: "LLMProfileSpec gomap \<Rightarrow> string \<Rightarrow> string \<Rightarrow> go_error list" where
  "validateRequiredEffectiveProfile profiles ref fieldPath =
     (if ref \<noteq> '''' then optional_error (lookupProfileRef profiles ref fieldPath False)
      else if profiles = [] then [Msg (fieldPath @ '': required '' @ em_dash @ '' spec.llmProfiles defines no profiles to infer from'')]
      else [Msg (fieldPath @ '': required '' @ em_dash @ '' spec.llmProfiles defines '' @ show_int (int (length profiles))
        @ '' profiles, so the profile is ambiguous without an explicit reference (auto-inferred only when exactly one profile is defined)'')])"

definition validateAFLLMProfileRefs :: "Kubernaut \<Rightarrow> LLMProfileSpec gomap \<Rightarrow> go_error list" where
  "validateAFLLMProfileRefs kn profiles =
     validateRequiredEffectiveProfile profiles (AFLLMProfileRef kn) ''spec.apiFrontend.llmProfileRef''
     @ (case apiFrontend_SeverityTriage (spec_APIFrontend (kn_Spec kn)) of
          None \<Rightarrow> []
        | Some st \<Rightarrow> optional_error (lookupProfileRef profiles (apiFrontendSeverityTriage_LLMProfileRef st)
            ''spec.apiFrontend.severityTriage.llmProfileRef'' True))"

definition validateLLMProfileRefs :: "Kubernaut \<Rightarrow> go_error list" where
  "validateLLMProfileRefs kn =
     (let profiles = spec_LLMProfiles (kn_Spec kn)
      in validateRequiredEffectiveProfile profiles (EffectiveInvestigationLLMProfileRef kn) ''spec.kubernautAgent.investigation.llmProfileRef''
         @ validateRequiredEffectiveProfile profiles (EffectiveWorkflowDiscoveryLLMProfileRef kn) ''spec.kubernautAgent.workflowDiscovery.llmProfileRef''
         @ (if alignmentCheck_Enabled (kubernautAgent_AlignmentCheck (spec_KubernautAgent (kn_Spec kn)))
            then validateRequiredEffectiveProfile profiles (EffectiveAlignmentCheckLLMProfileRef kn) ''spec.kubernautAgent.alignmentCheck.llmProfileRef''
            else [])
         @ (if APIFrontendEnabled (kn_Spec kn) then validateAFLLMProfileRefs kn profiles else []))"

definition validateLLMProfiles :: "validators \<Rightarrow> Kubernaut \<Rightarrow> go_error list" where
  "validateLLMProfiles L kn =
     concat (map (\<lambda>(name, profile). validateLLMProfileContent L name profile) (spec_LLMProfiles (kn_Spec kn)))
     @ validateLLMProfileRefs kn"

subsection \<open>API frontend\<close>

definition maxJWKSURLLength :: nat where "maxJWKSURLLength = 2048"

definition validateOIDCURL :: "validators \<Rightarrow> string \<Rightarrow> string \<Rightarrow> bool \<Rightarrow> string \<Rightarrow> go_error option" where
  "validateOIDCURL L raw path allowInsecure insecureFlagPath =
     (case l_Parse L raw of
        None \<Rightarrow> Some (Msg (path @ '': must be an absolute URL with scheme and host''))
      | Some u \<Rightarrow>
         (if url_Scheme u = '''' \<or> url_Host u = '''' then Some (Msg (path @ '': must be an absolute URL with scheme and host''))
          else let scheme = ToLower (url_Scheme u) in
            if scheme = httpsURLScheme \<or> (scheme = httpURLScheme \<and> allowInsecure) then None
            else Some (Msg (path @ '': scheme must be '' @ httpsURLScheme @ '' (got '' @ quoted (url_Scheme u) @ ''); set '' @ insecureFlagPath
              @ ''=true to permit HTTP for dev/test''))))"

definition validateJWTProviderJWKSURL :: "validators \<Rightarrow> string \<Rightarrow> string \<Rightarrow> bool \<Rightarrow> string \<Rightarrow> go_error option" where
  "validateJWTProviderJWKSURL L raw path allowInsecure insecureFlagPath =
     (if length raw > maxJWKSURLLength
      then Some (Msg (path @ ''.jwksURL: must be <= '' @ show_int (int maxJWKSURLLength) @ '' characters (got '' @ show_int (int (length raw)) @ '')''))
      else validateOIDCURL L raw (path @ ''.jwksURL'') allowInsecure insecureFlagPath)"

definition validateJWTProvider :: "validators \<Rightarrow> JWTProviderSpec \<Rightarrow> string \<Rightarrow> bool \<Rightarrow> string \<Rightarrow> go_error list" where
  "validateJWTProvider L provider path allowInsecure insecureFlagPath =
     (if jwtProvider_IssuerURL provider = '''' then [Msg (path @ ''.issuerURL: required'')]
      else optional_error (validateOIDCURL L (jwtProvider_IssuerURL provider) (path @ ''.issuerURL'') allowInsecure insecureFlagPath))
     @ err_if (jwtProvider_Audiences provider = []) (path @ ''.audiences: at least one audience required'')
     @ (if jwtProvider_JWKSURL provider \<noteq> ''''
        then optional_error (validateJWTProviderJWKSURL L (jwtProvider_JWKSURL provider) path allowInsecure insecureFlagPath) else [])"

fun jwt_provider_errors :: "validators \<Rightarrow> string list \<Rightarrow> int \<Rightarrow> JWTProviderSpec list \<Rightarrow> string \<Rightarrow> bool \<Rightarrow> string \<Rightarrow> go_error list" where
  "jwt_provider_errors L old i [] basePath allowInsecure insecureFlagPath = []"
| "jwt_provider_errors L old i (p # ps) basePath allowInsecure insecureFlagPath =
     (let path = basePath @ ''.jwtProviders['' @ show_int i @ '']''
      in err_if (jwtProvider_Name p \<in> set old) (path @ ''.name: duplicate provider name '' @ quoted (jwtProvider_Name p))
         @ validateJWTProvider L p path allowInsecure insecureFlagPath)
     @ jwt_provider_errors L (jwtProvider_Name p # old) (i + 1) ps basePath allowInsecure insecureFlagPath"

definition validateJWTProviderList :: "validators \<Rightarrow> JWTProviderSpec list \<Rightarrow> string \<Rightarrow> bool \<Rightarrow> string \<Rightarrow> go_error list" where
  "validateJWTProviderList L providers basePath allowInsecure insecureFlagPath =
     jwt_provider_errors L [] 0 providers basePath allowInsecure insecureFlagPath"

definition validToolPersonas :: "string list" where
  "validToolPersonas = [''sre'', ''ai-orchestrator'', ''cicd'', ''observability'', ''l3-audit'', ''remediation-approver'']"

text \<open>The map \<^verbatim>\<open>seen\<close> is threaded through: the result is the error and the names seen afterwards.\<close>

definition validateToolRoleBinding :: "ToolRoleBinding \<Rightarrow> int \<Rightarrow> string list \<Rightarrow> go_error option \<times> string list" where
  "validateToolRoleBinding rb index old =
     (let role = toolRoleBinding_Role rb; custom = toolRoleBinding_ClusterRoleName rb; base = ''spec.apiFrontend.rbac.roleBindings'' in
      if role \<noteq> '''' \<and> custom \<noteq> ''''
      then (Some (Msg (base @ ''['' @ show_int index @ '']: role and clusterRoleName are mutually exclusive'')), old)
      else if role = '''' \<and> custom = ''''
      then (Some (Msg (base @ ''['' @ show_int index @ '']: one of role or clusterRoleName must be set'')), old)
      else if role = '''' then
        (if custom \<in> set old then (Some (Msg (base @ '': duplicate clusterRoleName '' @ quoted custom)), old) else (None, custom # old))
      else if role \<in> set old then (Some (Msg (base @ '': duplicate role '' @ quoted role)), old)
      else if role \<notin> set validToolPersonas then (Some (Msg (base @ '': unknown persona '' @ quoted role)), role # old)
      else (None, role # old))"

fun tool_binding_errors :: "string list \<Rightarrow> int \<Rightarrow> ToolRoleBinding list \<Rightarrow> go_error list" where
  "tool_binding_errors old index [] = []"
| "tool_binding_errors old index (rb # rbs) =
     (case validateToolRoleBinding rb index old of (err, old') \<Rightarrow> optional_error err @ tool_binding_errors old' (index + 1) rbs)"

definition validateToolRoleBindings :: "validators \<Rightarrow> Kubernaut \<Rightarrow> go_error list" where
  "validateToolRoleBindings L kn =
     (case apiFrontend_RBAC (spec_APIFrontend (kn_Spec kn)) of
        None \<Rightarrow> []
      | Some rbac \<Rightarrow>
         (if apiFrontendRBAC_SARCacheTTL rbac \<noteq> '''' \<and> duration L (apiFrontendRBAC_SARCacheTTL rbac) = None
          then [Wrap (''spec.apiFrontend.rbac.sarCacheTTL: invalid Go duration '' @ quoted (apiFrontendRBAC_SARCacheTTL rbac))
            (Msg (l_DurationError L (apiFrontendRBAC_SARCacheTTL rbac)))] else [])
         @ tool_binding_errors [] 0 (apiFrontendRBAC_RoleBindings rbac))"

definition validateAPIFrontend :: "validators \<Rightarrow> Kubernaut \<Rightarrow> go_error list" where
  "validateAPIFrontend L kn =
     (if \<not> APIFrontendEnabled (kn_Spec kn) then []
      else let af = spec_APIFrontend (kn_Spec kn); auth = apiFrontend_Auth af; hasMultiProvider = (apiFrontendAuth_JWTProviders auth \<noteq> [])
        in (if apiFrontend_AgentCardURL af \<noteq> ''''
            then err_if (case l_Parse L (apiFrontend_AgentCardURL af) of None \<Rightarrow> True | Some u \<Rightarrow> url_Scheme u = '''' \<or> url_Host u = '''')
              ''spec.apiFrontend.agentCardURL: must be a valid URL with scheme and host'' else [])
           @ (if hasMultiProvider then []
              else if apiFrontendAuth_IssuerURL auth = '''' then [Msg ''spec.apiFrontend.auth.issuerURL: required when jwtProviders is empty'']
              else optional_error (validateOIDCURL L (apiFrontendAuth_IssuerURL auth) ''spec.apiFrontend.auth.issuerURL''
                (apiFrontendAuth_AllowInsecureIssuers auth) ''spec.apiFrontend.auth.allowInsecureIssuers''))
           @ (case apiFrontend_RBACRolesConfigMapRef af of
                None \<Rightarrow> []
              | Some ref \<Rightarrow> err_if (configMapRef_ConfigMapName ref = '''')
                  ''spec.apiFrontend.rbacRolesConfigMapRef.configMapName: must not be empty when rbacRolesConfigMapRef is set'')
           @ validateToolRoleBindings L kn
           @ (if hasMultiProvider
              then validateJWTProviderList L (apiFrontendAuth_JWTProviders auth) ''spec.apiFrontend.auth''
                (apiFrontendAuth_AllowInsecureIssuers auth) ''spec.apiFrontend.auth.allowInsecureIssuers'' else []))"

subsection \<open>Console\<close>

definition idTokenPlaceholder :: string where "idTokenPlaceholder = ''{id_token}''"

definition ConsoleIssuerURL :: "KubernautSpec \<Rightarrow> string" where "ConsoleIssuerURL s = EffectiveIssuerURL s"

abbreviation console_auth :: "Kubernaut \<Rightarrow> ConsoleAuthSpec" where
  "console_auth kn \<equiv> console_Auth (spec_Console (kn_Spec kn))"

definition validateConsoleEffectiveIssuer :: "Kubernaut \<Rightarrow> go_error option" where
  "validateConsoleEffectiveIssuer kn =
     (if ConsoleEnabled (kn_Spec kn) \<and> ConsoleIssuerURL (kn_Spec kn) = '''' then Some (Msg ''console requires a valid effective OIDC issuer'') else None)"

definition validateConsoleRedirectURL :: "validators \<Rightarrow> Kubernaut \<Rightarrow> go_error option" where
  "validateConsoleRedirectURL L kn =
     (if \<not> ConsoleEnabled (kn_Spec kn) then None
      else let path = ''spec.console.auth.redirectURL''; raw = consoleAuth_RedirectURL (console_auth kn) in
        if raw = '''' then Some (Msg (path @ '' is required when Console is enabled''))
        else if trim_space raw \<noteq> raw then Some (Msg (path @ '' must not contain leading or trailing whitespace''))
        else if (case l_Parse L raw of None \<Rightarrow> True
          | Some u \<Rightarrow> \<not> EqualFold (url_Scheme u) httpsURLScheme \<or> url_Host u = '''' \<or> url_Hostname u = '''' \<or> url_User u
              \<or> url_RawQuery u \<noteq> '''' \<or> url_Fragment u \<noteq> '''' \<or> url_EscapedPath u \<noteq> ''/oauth2/callback'')
        then Some (Msg (path @ '' must be an absolute https URL ending in /oauth2/callback'')) else None)"

definition validateConsoleLogoutURLShape :: "url \<Rightarrow> string \<Rightarrow> go_error option" where
  "validateConsoleLogoutURLShape u path =
     (if \<not> EqualFold (url_Scheme u) httpsURLScheme then Some (Msg (path @ '' must use https''))
      else if url_Hostname u = '''' then Some (Msg (path @ '' must include a host''))
      else if url_User u then Some (Msg (path @ '' must not include user information''))
      else if url_Fragment u \<noteq> '''' then Some (Msg (path @ '' must not include a fragment'')) else None)"

definition validateConsoleLogoutPlaceholders :: "string \<Rightarrow> string \<Rightarrow> go_error option" where
  "validateConsoleLogoutPlaceholders raw path =
     (if Count raw idTokenPlaceholder > 1
      then Some (Msg (path @ '' may contain at most one literal '' @ idTokenPlaceholder @ '' placeholder''))
      else if ContainsAny (remove_all raw idTokenPlaceholder) ''{}'' then Some (Msg (path @ '' contains an unsupported placeholder''))
      else None)"

definition queryContainsPlaceholder :: "string list gomap \<Rightarrow> bool" where
  "queryContainsPlaceholder query = list_ex (\<lambda>(_, vs). list_ex (\<lambda>v. Contains v idTokenPlaceholder) vs) query"

definition logout_parameters :: "string list" where
  "logout_parameters = [''id_token_hint'', ''logout_hint'', ''client_id'', ''ui_locales'']"

definition unsupportedConsoleLogoutQueryParameter :: "string list gomap \<Rightarrow> string" where
  "unsupportedConsoleLogoutQueryParameter query =
     (case find (\<lambda>(key, _). ToLower key \<notin> set logout_parameters) query of None \<Rightarrow> '''' | Some (key, _) \<Rightarrow> key)"

definition parseConsoleProviderLogoutURL :: "validators \<Rightarrow> string \<Rightarrow> string \<Rightarrow> url go" where
  "parseConsoleProviderLogoutURL L raw path =
     (if trim_space raw \<noteq> raw then Inl (Msg (path @ '' must not contain leading or trailing whitespace''))
      else case l_Parse L raw of
        None \<Rightarrow> Inl (Msg (path @ '' must be an absolute HTTPS URL''))
      | Some u \<Rightarrow>
         (if url_Scheme u = '''' \<or> url_Host u = '''' \<or> url_Opaque u \<noteq> '''' then Inl (Msg (path @ '' must be an absolute HTTPS URL''))
          else case validateConsoleLogoutURLShape u path of
            Some e \<Rightarrow> Inl e
          | None \<Rightarrow>
             (case validateConsoleLogoutPlaceholders raw path of
                Some e \<Rightarrow> Inl e
              | None \<Rightarrow>
                 (case l_ParseQuery L (url_RawQuery u) of
                    None \<Rightarrow> Inl (Msg (path @ '' contains an invalid query''))
                  | Some query \<Rightarrow>
                     (if \<not> Contains raw idTokenPlaceholder \<and> queryContainsPlaceholder query
                      then Inl (Msg (path @ '' must use the literal '' @ idTokenPlaceholder @ '' placeholder''))
                      else let key = unsupportedConsoleLogoutQueryParameter query in
                        if key \<noteq> '''' then Inl (Msg (path @ '' contains unsupported query parameter '' @ quoted key)) else Inr u)))))"

definition canonicalHTTPSAuthority :: "url \<Rightarrow> string" where
  "canonicalHTTPSAuthority u = JoinHostPort (ToLower (url_Hostname u)) (if url_Port u = '''' then ''443'' else url_Port u)"

definition validateConsoleLogoutAuthority :: "validators \<Rightarrow> Kubernaut \<Rightarrow> url \<Rightarrow> string \<Rightarrow> go_error option" where
  "validateConsoleLogoutAuthority L kn logoutURL path =
     (case l_Parse L (ConsoleIssuerURL (kn_Spec kn)) of
        None \<Rightarrow> Some (Msg (path @ '' cannot be validated without a valid effective OIDC issuer''))
      | Some u \<Rightarrow>
         (if url_Scheme u = '''' \<or> url_Host u = '''' \<or> url_User u
          then Some (Msg (path @ '' cannot be validated without a valid effective OIDC issuer''))
          else if \<not> EqualFold (url_Scheme u) httpsURLScheme then Some (Msg (path @ '' requires an HTTPS effective OIDC issuer''))
          else if canonicalHTTPSAuthority logoutURL \<noteq> canonicalHTTPSAuthority u
          then Some (Msg (path @ '' authority must match the effective OIDC issuer'')) else None))"

definition validateConsoleProviderLogoutURL :: "validators \<Rightarrow> Kubernaut \<Rightarrow> go_error option" where
  "validateConsoleProviderLogoutURL L kn =
     (let path = ''spec.console.auth.providerLogoutURL''; raw = consoleAuth_ProviderLogoutURL (console_auth kn) in
      if raw = '''' then None
      else case parseConsoleProviderLogoutURL L raw path of
        Inl e \<Rightarrow> Some e
      | Inr logoutURL \<Rightarrow> (if \<not> ConsoleEnabled (kn_Spec kn) then None else validateConsoleLogoutAuthority L kn logoutURL path))"

subsection \<open>Agent and orchestrator\<close>

definition alignmentCheckTimeoutMin :: int where "alignmentCheckTimeoutMin = 1000000000"
definition alignmentCheckTimeoutMax :: int where "alignmentCheckTimeoutMax = 60 * 1000000000"

definition validateAlignmentCheck :: "validators \<Rightarrow> Kubernaut \<Rightarrow> go_error list" where
  "validateAlignmentCheck L kn =
     (let ac = kubernautAgent_AlignmentCheck (spec_KubernautAgent (kn_Spec kn)); base = ''spec.kubernautAgent.alignmentCheck''; text = alignmentCheck_Timeout ac in
      if \<not> alignmentCheck_Enabled ac then []
      else (if text = '''' then []
            else case duration L text of
              None \<Rightarrow> [Wrap (base @ ''.timeout: invalid Go duration '' @ quoted text) (Msg (l_DurationError L text))]
            | Some d \<Rightarrow> err_if (d < alignmentCheckTimeoutMin \<or> d > alignmentCheckTimeoutMax)
                (base @ ''.timeout: must be between '' @ l_DurationString L alignmentCheckTimeoutMin @ '' and ''
                  @ l_DurationString L alignmentCheckTimeoutMax @ '', got '' @ l_DurationString L d))
           @ err_if (alignmentCheck_MaxStepTokens ac < 0)
               (base @ ''.maxStepTokens: must be positive, got '' @ show_int (alignmentCheck_MaxStepTokens ac)))"

definition validateDryRun :: "validators \<Rightarrow> Kubernaut \<Rightarrow> go_error list" where
  "validateDryRun L kn =
     (let ro = spec_RemediationOrchestrator (kn_Spec kn); period = remediationOrchestrator_DryRunHoldPeriod ro in
      if \<not> remediationOrchestrator_DryRun ro \<or> period = '''' then []
      else if duration L period = None
      then [Wrap (''spec.remediationOrchestrator.dryRunHoldPeriod: invalid Go duration '' @ quoted period) (Msg (l_DurationError L period))] else [])"

definition go_duration_errors :: "validators \<Rightarrow> string \<Rightarrow> string \<Rightarrow> go_error list" where
  "go_duration_errors L path value =
     (if value \<noteq> '''' \<and> duration L value = None
      then [Wrap (path @ '': invalid Go duration '' @ quoted value) (Msg (l_DurationError L value))] else [])"

definition validateInteractive :: "validators \<Rightarrow> Kubernaut \<Rightarrow> go_error list" where
  "validateInteractive L kn =
     (case kubernautAgent_Interactive (spec_KubernautAgent (kn_Spec kn)) of
        None \<Rightarrow> []
      | Some i \<Rightarrow>
         (if \<not> InteractiveEnabled i then []
          else go_duration_errors L ''spec.kubernautAgent.interactive.sessionTTL'' (interactive_SessionTTL i)
            @ go_duration_errors L ''spec.kubernautAgent.interactive.inactivityTimeout'' (interactive_InactivityTimeout i)))"

definition ValidateKubernaut :: "validators \<Rightarrow> Kubernaut \<Rightarrow> go_error list" where
  "ValidateKubernaut L kn =
     validatePostgreSQLSSLMode kn @ validatePolicyPrerequisites kn @ validateLLMProfiles L kn @ validateNotificationCredentials L kn
     @ validateTelemetry L kn @ validateMonitoringEndpoints L kn @ validateMonitoringTLS_spec L kn @ validateAPIFrontend L kn
     @ optional_error (validateConsoleEffectiveIssuer kn) @ optional_error (validateConsoleRedirectURL L kn)
     @ optional_error (validateConsoleProviderLogoutURL L kn)
     @ validateAlignmentCheck L kn @ validateDryRun L kn @ validateInteractive L kn @ validateDataStorage L kn"

subsection \<open>Fleet\<close>

definition FleetTrustSourceInterService :: string where "FleetTrustSourceInterService = ''interService''"
definition FleetTrustSourceSystem :: string where "FleetTrustSourceSystem = ''system''"
definition FleetTrustSourceFile :: string where "FleetTrustSourceFile = ''file''"

definition validMCPGatewayTypes :: "string list" where "validMCPGatewayTypes = [''eaigw'', mcpGatewayTypeKuadrant]"
definition validFleetBackends :: "string list" where "validFleetBackends = [ComponentFleetMetadataCache, fleetBackendACM]"

definition validateFleetTrust :: "string \<Rightarrow> FleetTrustSpec option \<Rightarrow> go_error list" where
  "validateFleetTrust path trust = (case trust of
     None \<Rightarrow> []
   | Some t \<Rightarrow>
      (let source = (if fleetTrust_Source t = '''' then FleetTrustSourceInterService else fleetTrust_Source t);
           hasFile = (fleetTrust_CAFile t \<noteq> ''''); hasSecret = (fleetTrust_CACertSecretRef t \<noteq> None) in
       if source = FleetTrustSourceInterService \<or> source = FleetTrustSourceSystem
       then err_if (hasFile \<or> hasSecret) (path @ '': source '' @ quoted source @ '' must not set caFile or caCertSecretRef'')
       else if source = FleetTrustSourceFile
       then (if \<not> hasFile then [Msg (path @ ''.caFile: must be set when source is file'')]
             else err_if (\<not> IsAbs (fleetTrust_CAFile t)) (path @ ''.caFile: must be an absolute path''))
         @ err_if hasSecret (path @ '': source file must not set caCertSecretRef'')
       else if source = FleetTrustSourceSecret
       then err_if (case fleetTrust_CACertSecretRef t of None \<Rightarrow> True | Some ref \<Rightarrow> caCertSecretRef_Name ref = '''')
           (path @ ''.caCertSecretRef.name: must be set when source is secret'')
         @ err_if hasFile (path @ '': source secret must not set caFile'')
       else [Msg (path @ ''.source: invalid value '' @ quoted source @ '' '' @ em_dash @ '' must be one of: interService, system, file, secret'')]))"

definition validateFleetScopeCheck :: "validators \<Rightarrow> FleetScopeCheckSpec \<Rightarrow> string \<Rightarrow> go_error list" where
  "validateFleetScopeCheck L scope base =
     (if fleetScopeCheck_Backend scope = fleetBackendACM
      then (case fleetScopeCheck_ACM scope of
          None \<Rightarrow> [Msg (base @ ''.scopeCheck.acm: must be set when backend is '' @ quoted fleetBackendACM)]
        | Some acm \<Rightarrow>
            (if fleetACMScopeCheck_Endpoint acm = '''' then [Msg (base @ ''.scopeCheck.acm.endpoint: must be set when backend is '' @ quoted fleetBackendACM)]
             else optional_error (validateFleetHTTPSURL L ''spec.fleet.scopeCheck.acm.endpoint'' (fleetACMScopeCheck_Endpoint acm)))
            @ err_if (case fleetACMScopeCheck_TokenSecretRef acm of None \<Rightarrow> True | Some ref \<Rightarrow> secretKeyRef_Name ref = '''')
                (base @ ''.scopeCheck.acm.tokenSecretRef: must be set when backend is '' @ quoted fleetBackendACM)
            @ validateFleetTrust ''spec.fleet.scopeCheck.acm.tls'' (fleetACMScopeCheck_TLS acm))
      else err_if (fleetScopeCheck_ACM scope \<noteq> None)
        (base @ ''.scopeCheck.acm: must be omitted when backend is '' @ quoted ComponentFleetMetadataCache))"

definition validateFleetMCPGateway :: "validators \<Rightarrow> FleetMCPGatewaySpec \<Rightarrow> string \<Rightarrow> go_error list" where
  "validateFleetMCPGateway L gateway base =
     (if fleetMCPGateway_Endpoint gateway = ''''
      then [Msg (base @ ''.mcpGateway.endpoint: must be set when fleet.enabled is true '' @ em_dash
        @ '' Gateway and RemediationOrchestrator require it for remote-cluster reads (upstream Fleet.ValidateFullFederation)'')]
      else optional_error (validateFleetHTTPSURL L ''spec.fleet.mcpGateway.endpoint'' (fleetMCPGateway_Endpoint gateway)))
     @ (if fleetMCPGateway_Type gateway = ''''
        then [Msg (base @ ''.mcpGateway.type: must be set when fleet.enabled is true '' @ em_dash @ '' must be one of: eaigw, kuadrant'')]
        else err_if (fleetMCPGateway_Type gateway \<notin> set validMCPGatewayTypes)
          (base @ ''.mcpGateway.type: invalid value '' @ quoted (fleetMCPGateway_Type gateway) @ '' '' @ em_dash @ '' must be one of: eaigw, kuadrant''))
     @ err_if (fleetMCPGateway_Namespace gateway = '''')
         (base @ ''.mcpGateway.namespace: must be set when fleet.enabled is true '' @ em_dash
           @ '' scopes every fleet-aware component's MCP Gateway CRD watch to a single namespace (kubernaut-operator#455)'')"

definition positive_go_duration :: "validators \<Rightarrow> string \<times> string \<Rightarrow> go_error list" where
  "positive_go_duration L = (\<lambda>(path, value).
     if value = '''' then [] else err_if (case duration L value of None \<Rightarrow> True | Some d \<Rightarrow> d \<le> 0) (path @ '': must be a positive Go duration''))"

definition validateFleetMCPClient :: "validators \<Rightarrow> FleetMCPClientSpec option \<Rightarrow> go_error list" where
  "validateFleetMCPClient L client = (case client of
     None \<Rightarrow> []
   | Some c \<Rightarrow> concat (map (positive_go_duration L)
       ((case fleetMCPClient_Retry c of
           None \<Rightarrow> []
         | Some r \<Rightarrow> [(''spec.fleet.mcpClient.retry.initialInterval'', fleetMCPClientRetry_InitialInterval r),
             (''spec.fleet.mcpClient.retry.maxInterval'', fleetMCPClientRetry_MaxInterval r),
             (''spec.fleet.mcpClient.retry.maxElapsedTime'', fleetMCPClientRetry_MaxElapsedTime r)])
        @ (case fleetMCPClient_Timeouts c of
             None \<Rightarrow> []
           | Some t \<Rightarrow> [(''spec.fleet.mcpClient.timeouts.tokenRefresh'', fleetMCPClientTimeouts_TokenRefresh t),
               (''spec.fleet.mcpClient.timeouts.connect'', fleetMCPClientTimeouts_Connect t),
               (''spec.fleet.mcpClient.timeouts.discoverProbe'', fleetMCPClientTimeouts_DiscoverProbe t)]))))"

definition fleet_overrides :: "Kubernaut \<Rightarrow> (string \<times> FleetOverrideSpec option) list" where
  "fleet_overrides knV2 =
     (let s = kn_Spec knV2
      in [(''spec.gateway.fleet.oauth2CredentialsSecretRef'', gateway_Fleet (spec_Gateway s)),
          (''spec.remediationOrchestrator.fleet.oauth2CredentialsSecretRef'', remediationOrchestrator_Fleet (spec_RemediationOrchestrator s)),
          (''spec.signalProcessing.fleet.oauth2CredentialsSecretRef'', signalProcessing_Fleet (spec_SignalProcessing s)),
          (''spec.apiFrontend.fleet.oauth2CredentialsSecretRef'', apiFrontend_Fleet (spec_APIFrontend s)),
          (''spec.effectivenessMonitor.fleet.oauth2CredentialsSecretRef'', effectivenessMonitor_Fleet (spec_EffectivenessMonitor s)),
          (''spec.kubernautAgent.fleet.oauth2CredentialsSecretRef'', kubernautAgent_Fleet (spec_KubernautAgent s))])"

definition validateFleetOAuth2 :: "validators \<Rightarrow> Kubernaut \<Rightarrow> FleetSpec \<Rightarrow> go_error list" where
  "validateFleetOAuth2 L knV2 fleet =
     (let base = ''spec.fleet''; o2 = fleet_OAuth2 fleet;
          missing = map fst (filter (\<lambda>(_, override). effectiveFleetOAuth2SecretRef override (fleetOAuth2_CredentialsSecretRef o2) = '''') (fleet_overrides knV2))
      in (if fleetOAuth2_TokenURL o2 = '''' then [Msg (base @ ''.oauth2.tokenURL: must be set when fleet.enabled is true'')]
          else optional_error (validateFleetHTTPSURL L ''spec.fleet.oauth2.tokenURL'' (fleetOAuth2_TokenURL o2)))
         @ (if missing = [] then []
            else if length missing = length (fleet_overrides knV2)
            then [Msg (base @ ''.oauth2.credentialsSecretRef: must be set when fleet.enabled is true'')]
            else [Msg (base @ ''.oauth2.credentialsSecretRef: must be set, or '' @ join_strings '' or '' missing
              @ '' must be set, when fleet.enabled is true (the other fleet-aware components already override their own)'')])
         @ err_if (workflowExecutionFleet_OAuth2CredentialsSecretRef (workflowExecution_Fleet (spec_WorkflowExecution (kn_Spec knV2))) = '''')
             (''spec.workflowExecution.fleet.oauth2CredentialsSecretRef: must be independently set when fleet.enabled is true -- ''
              @ ''WorkflowExecution's write-scoped MCP credential never falls back to the shared '' @ base @ ''.oauth2.credentialsSecretRef (least-privilege, DD-235)''))"

definition validateFleetConfig :: "validators \<Rightarrow> Kubernaut \<Rightarrow> go_error list" where
  "validateFleetConfig L knV2 =
     (let fleet = spec_Fleet (kn_Spec knV2); base = ''spec.fleet''; backend = fleetScopeCheck_Backend (fleet_ScopeCheck fleet) in
      if fleet_Enabled fleet \<noteq> Some True then []
      else (if backend = '''' then [Msg (base @ ''.scopeCheck.backend: must not be empty when fleet.enabled is true '' @ em_dash @ '' must be one of: fleetmetadatacache, acm'')]
            else err_if (backend \<notin> set validFleetBackends)
              (base @ ''.scopeCheck.backend: invalid backend '' @ quoted backend @ '' '' @ em_dash @ '' must be one of: fleetmetadatacache, acm''))
           @ validateFleetScopeCheck L (fleet_ScopeCheck fleet) base
           @ validateFleetMCPGateway L (fleet_MCPGateway fleet) base
           @ validateFleetTrust ''spec.fleet.mcpGateway.tls'' (fleetMCPGateway_TLS (fleet_MCPGateway fleet))
           @ validateFleetOAuth2 L knV2 fleet
           @ validateFleetTrust ''spec.fleet.oauth2.tls'' (fleetOAuth2_TLS (fleet_OAuth2 fleet))
           @ validateFleetMCPClient L (fleet_MCPClient fleet))"

definition validateFleetMetadataCache :: "Kubernaut \<Rightarrow> go_error list" where
  "validateFleetMetadataCache knV2 =
     (if \<not> FleetMetadataCacheEnabled (kn_Spec knV2) then []
      else err_if (effectiveFleetOAuth2SecretRef (fleetMetadataCache_Fleet (spec_FleetMetadataCache (kn_Spec knV2)))
          (fleetOAuth2_CredentialsSecretRef (fleet_OAuth2 (spec_Fleet (kn_Spec knV2)))) = '''')
        (''spec.fleetMetadataCache.fleet.oauth2CredentialsSecretRef: must be set, or spec.fleet.oauth2.credentialsSecretRef must be set, ''
         @ ''when fleetMetadataCache is active (fleet.enabled=true, backend=fleetmetadatacache)''))"

definition ValidateFleet :: "validators \<Rightarrow> Kubernaut \<Rightarrow> go_error list" where
  "ValidateFleet L knV2 = validateFleetConfig L knV2 @ validateFleetMetadataCache knV2"

end
