(* ===== verification/Console.thy ===== *)
theory Console
  imports Validation
begin

text \<open>
  The web console (\<^verbatim>\<open>internal/resources/console.go\<close>): its Deployment of two containers, the oauth2-proxy that signs users in and the
  nginx that serves the application and forwards to the API frontend, with the Service and the two ConfigMaps that go with it.

  The proxy's configuration is a document of records with the fields of the Go structs; turning it into YAML is \<^verbatim>\<open>yaml.v3\<close>'s
  work and a parameter, \<open>marshal\<close>. The parsers that the URL checks rely on are the record \<open>validators\<close>.
\<close>

definition consoleProxyPort :: int where "consoleProxyPort = 4180"
definition consoleStaticPort :: int where "consoleStaticPort = 8080"
definition consoleOAuth2ProxyConfigKey :: string where "consoleOAuth2ProxyConfigKey = ''oauth2-proxy.yaml''"
definition consoleOAuth2ProxyConfigVolume :: string where "consoleOAuth2ProxyConfigVolume = ''oauth2-proxy-config''"
definition consoleOAuth2ProxyConfigMountPath :: string where "consoleOAuth2ProxyConfigMountPath = ''/etc/oauth2-proxy/alpha-config.yaml''"
definition consoleCombinedCADir :: string where "consoleCombinedCADir = ''/etc/ssl/combined''"
definition consoleCombinedCAFile :: string where "consoleCombinedCAFile = consoleCombinedCADir @ ''/ca-bundle.crt''"

subsection \<open>Containers\<close>

definition consoleOAuthArgs :: "string \<Rightarrow> string list" where
  "consoleOAuthArgs redirectURL =
     [''--alpha-config='' @ consoleOAuth2ProxyConfigMountPath, ''--redirect-url='' @ redirectURL, ''--skip-provider-button=true'',
      ''--cookie-name=_kubernaut_console'', ''--cookie-secure=true'', ''--cookie-samesite=lax'', ''--email-domain=*'',
      ''--skip-jwt-bearer-tokens=true'', ''--cookie-refresh=25m'', ''--ping-path=/oauth2/ping'']"

definition consoleLogoutCAInitContainer :: "Kubernaut \<Rightarrow> string \<Rightarrow> string \<Rightarrow> string \<Rightarrow> container" where
  \<open>consoleLogoutCAInitContainer kn img caFile caDir = zero_container\<lparr>container_Name := ''build-ca-bundle'', container_Image := img,
     container_ImagePullPolicy := image_PullPolicy (spec_Image (kn_Spec kn)),
     container_Command := [''sh'', ''-c'', ''cat /etc/pki/ca-trust/extracted/pem/tls-ca-bundle.pem "$1" > /combined/ca-bundle.crt'',
       ''build-ca-bundle'', caFile],
     container_VolumeMounts := [read_only_mount ''tls-ca'' caDir, writable_mount ''combined-ca'' ''/combined''],
     container_SecurityContext := \<lparr>security_AllowPrivilegeEscalation = Some False, security_ReadOnlyRootFilesystem = None,
       security_Drop = [''ALL''], security_RunAsNonRoot = Some True, security_SeccompProfile = ''RuntimeDefault''\<rparr>\<rparr>\<close>

definition consoleLogoutTLSSettings :: "(string \<Rightarrow> string) \<Rightarrow> Kubernaut \<Rightarrow> string \<Rightarrow> string \<Rightarrow> string \<Rightarrow> (string \<times> container list) go" where
  "consoleLogoutTLSSettings getenv kn logoutURL caFile caDir =
     (if logoutURL = '''' then Inr ('''', [])
      else case ResolveImage getenv kn ''init-ubi-minimal'' of
        Inl e \<Rightarrow> Inl e
      | Inr initImage \<Rightarrow> Inr (consoleCombinedCAFile, [consoleLogoutCAInitContainer kn initImage caFile caDir]))"

definition consoleDeploymentVolumes :: "Kubernaut \<Rightarrow> bool \<Rightarrow> volume list" where
  "consoleDeploymentVolumes kn includeCombinedCA =
     [emptyDirVolume ''nginx-tmp'', configMapVolume ''nginx-config'' (ComponentConsole @ ''-nginx''), InterServiceTLSCAVolume kn]
     @ (if includeCombinedCA then [emptyDirVolume ''combined-ca''] else [])
     @ [\<lparr>volume_Name = consoleOAuth2ProxyConfigVolume, volume_Source = ConfigMapVolumeSource (ComponentConsole @ ''-oauth2-proxy'')
         [\<lparr>item_Key = consoleOAuth2ProxyConfigKey, item_Path = consoleOAuth2ProxyConfigKey\<rparr>] None\<rparr>]"

definition env_secret :: "string \<Rightarrow> string \<Rightarrow> string \<Rightarrow> env_var" where
  "env_secret name secret k = \<lparr>envVar_Name = name, envVar_Source = EnvSecretKeyRef secret k\<rparr>"

definition file_mount :: "string \<Rightarrow> string \<Rightarrow> string \<Rightarrow> volume_mount" where
  "file_mount name path sub = \<lparr>mount_Name = name, mount_MountPath = path, mount_SubPath = sub, mount_ReadOnly = True\<rparr>"

text \<open>A probe with the thresholds left to the API server.\<close>

definition plain_probe :: "string \<Rightarrow> int \<Rightarrow> int \<Rightarrow> int \<Rightarrow> probe" where
  "plain_probe path port initialDelay period = http_probe path port initialDelay period 0 0"

definition consoleOAuth2ProxyContainer ::
  "string \<Rightarrow> string list \<Rightarrow> string \<Rightarrow> string \<Rightarrow> string \<Rightarrow> resource_requirements \<Rightarrow> container" where
  "consoleOAuth2ProxyContainer img args secretName caDir combinedCAFile resources =
     zero_container\<lparr>container_Name := ''oauth2-proxy'', container_Image := img, container_Args := args,
       container_VolumeMounts := [file_mount consoleOAuth2ProxyConfigVolume consoleOAuth2ProxyConfigMountPath consoleOAuth2ProxyConfigKey,
           read_only_mount ''tls-ca'' caDir]
         @ (if combinedCAFile \<noteq> '''' then [read_only_mount ''combined-ca'' consoleCombinedCADir] else []),
       container_Env := [env_secret ''OAUTH2_PROXY_CLIENT_ID'' secretName ''client-id'',
           env_secret ''OAUTH2_PROXY_CLIENT_SECRET'' secretName ''client-secret'',
           env_secret ''OAUTH2_PROXY_COOKIE_SECRET'' secretName ''cookie-secret'']
         @ (if combinedCAFile \<noteq> '''' then [env_value ''SSL_CERT_FILE'' combinedCAFile] else []),
       container_Ports := [tcp_port ''http'' consoleProxyPort], container_SecurityContext := ContainerSecurityContext,
       container_ReadinessProbe := Some (plain_probe ''/oauth2/ping'' consoleProxyPort 3 5),
       container_LivenessProbe := Some (plain_probe ''/oauth2/ping'' consoleProxyPort 10 15), container_Resources := resources\<rparr>"

definition consoleAppContainer :: "Kubernaut \<Rightarrow> string \<Rightarrow> resource_requirements \<Rightarrow> container" where
  "consoleAppContainer kn img resources =
     zero_container\<lparr>container_Name := ''console'', container_Image := img, container_ImagePullPolicy := image_PullPolicy (spec_Image (kn_Spec kn)),
       container_Ports := [tcp_port ''static'' consoleStaticPort],
       container_SecurityContext := \<lparr>security_AllowPrivilegeEscalation = Some False, security_ReadOnlyRootFilesystem = None,
         security_Drop = [''ALL''], security_RunAsNonRoot = None, security_SeccompProfile = ''''\<rparr>,
       container_ReadinessProbe := Some (plain_probe ''/healthz'' consoleStaticPort 2 5),
       container_LivenessProbe := Some (plain_probe ''/healthz'' consoleStaticPort 5 10), container_Resources := resources,
       container_VolumeMounts := [writable_mount ''nginx-tmp'' ''/tmp'',
         file_mount ''nginx-config'' ''/opt/app-root/etc/nginx.d/kubernaut-http.conf'' ''http.conf'',
         file_mount ''nginx-config'' ''/opt/app-root/etc/nginx.default.d/kubernaut-server.conf'' ''server.conf'',
         InterServiceTLSCAMount kn]\<rparr>"

subsection \<open>Deployment and Service\<close>

definition consoleRedirectURL :: "Kubernaut \<Rightarrow> string" where
  "consoleRedirectURL kn = consoleAuth_RedirectURL (console_auth kn)"

definition consoleContainerResources :: "Kubernaut \<Rightarrow> resource_requirements" where
  "consoleContainerResources kn = MergeResources (console_Resources (spec_Console (kn_Spec kn)))"

definition console_pod :: "Kubernaut \<Rightarrow> string \<Rightarrow> string \<Rightarrow> string \<Rightarrow> container list \<Rightarrow> pod_spec" where
  "console_pod kn consoleImage oauth2ProxyImage combinedCAFile initContainers =
     (let resources = consoleContainerResources kn in
      zero_pod_spec\<lparr>pod_InitContainers := initContainers,
        pod_SecurityContext := \<lparr>podSecurity_RunAsNonRoot = Some True, podSecurity_SeccompProfile = ''RuntimeDefault''\<rparr>,
        pod_Containers := [consoleOAuth2ProxyContainer oauth2ProxyImage (consoleOAuthArgs (consoleRedirectURL kn))
            (consoleAuth_SecretName (console_auth kn)) (InterServiceTLSCADirFor kn) combinedCAFile resources,
          consoleAppContainer kn consoleImage resources],
        pod_Volumes := consoleDeploymentVolumes kn (consoleAuth_ProviderLogoutURL (console_auth kn) \<noteq> '''')\<rparr>)"

definition console_checks :: "validators \<Rightarrow> Kubernaut \<Rightarrow> go_error option" where
  "console_checks L kn =
     (case validateConsoleEffectiveIssuer kn of
        Some e \<Rightarrow> Some e
      | None \<Rightarrow>
         (if consoleAuth_SecretName (console_auth kn) = '''' then Some (Msg ''console.auth.secretName is required'')
          else case validateConsoleRedirectURL L kn of
            Some e \<Rightarrow> Some e
          | None \<Rightarrow> validateConsoleProviderLogoutURL L kn))"

definition ConsoleDeployment :: "validators \<Rightarrow> (string \<Rightarrow> string) \<Rightarrow> Kubernaut \<Rightarrow> kobj go" where
  "ConsoleDeployment L getenv kn =
     (case ResolveImage getenv kn ''console'' of
        Inl e \<Rightarrow> Inl e
      | Inr consoleImage \<Rightarrow>
         (case ResolveImage getenv kn ''oauth2-proxy'' of
            Inl e \<Rightarrow> Inl e
          | Inr oauth2ProxyImage \<Rightarrow>
             (case console_checks L kn of
                Some e \<Rightarrow> Inl e
              | None \<Rightarrow>
                 (case consoleLogoutTLSSettings getenv kn (consoleAuth_ProviderLogoutURL (console_auth kn))
                    (InterServiceTLSCAFileFor kn) (InterServiceTLSCADirFor kn) of
                    Inl e \<Rightarrow> Inl e
                  | Inr (combinedCAFile, initContainers) \<Rightarrow>
                     Inr \<lparr>obj_Kind = ''Deployment'', obj_Meta = ObjectMeta kn ComponentConsole ComponentConsole,
                       obj_Body = DeploymentBody (Some 1) 0 (ComponentLabels kn ComponentConsole) Map.empty
                         \<lparr>deployment_Selector = SelectorLabels ComponentConsole, deployment_Strategy = '''',
                          deployment_Pod = console_pod kn consoleImage oauth2ProxyImage combinedCAFile initContainers\<rparr>\<rparr>))))"

definition ConsoleService :: "Kubernaut \<Rightarrow> kobj" where
  "ConsoleService kn = service_object kn ComponentConsole ComponentConsole
     [\<lparr>port_Name = ''http'', port_Protocol = ''TCP'', port_Port = consoleProxyPort, port_TargetPort = ''http'', port_NodePort = 0\<rparr>]"

subsection \<open>Nginx\<close>

definition text_lines :: "string list \<Rightarrow> string" where
  "text_lines ls = concat (map (\<lambda>l. l @ [CHR 0x0A]) ls)"

definition consoleNginxHTTPConf :: string where
  \<open>consoleNginxHTTPConf = text_lines
     [''limit_req_zone $binary_remote_addr zone=api:10m rate=30r/s;'',
      ''limit_req_zone $binary_remote_addr zone=mcp:10m rate=10r/s;'',
      '''',
      ''gzip on;'',
      ''gzip_types text/plain text/css application/json application/javascript text/xml application/xml text/javascript image/svg+xml;'',
      ''gzip_min_length 256;'',
      ''gzip_vary on;'']\<close>

text \<open>The verb \<^verbatim>\<open>%t\<close>.\<close>

definition go_bool :: "bool \<Rightarrow> string" where
  "go_bool b = (if b then ''true'' else ''false'')"

definition consoleNginxServerConf :: "string \<Rightarrow> bool \<Rightarrow> string list \<Rightarrow> string" where
  \<open>consoleNginxServerConf afURL enableRawThinking caFiles =
     (let caFile = (if caFiles \<noteq> [] \<and> hd caFiles \<noteq> '''' then hd caFiles else InterServiceTLSCAFile) in text_lines
     [''add_header Content-Security-Policy "default-src 'self'; script-src 'self'; style-src 'self' 'unsafe-inline' https://fonts.googleapis.com; img-src 'self' data:; connect-src 'self'; font-src 'self' https://fonts.gstatic.com; frame-ancestors 'none'; base-uri 'self'; form-action 'self'" always;'',
      ''add_header X-Content-Type-Options "nosniff" always;'',
      ''add_header X-Frame-Options "DENY" always;'',
      ''add_header Referrer-Policy "strict-origin-when-cross-origin" always;'',
      ''add_header Permissions-Policy "camera=(), microphone=(), geolocation=()" always;'',
      ''add_header Strict-Transport-Security "max-age=31536000; includeSubDomains" always;'',
      '''',
      ''proxy_ssl_trusted_certificate '' @ caFile @ '';'',
      ''proxy_ssl_verify on;'',
      ''proxy_ssl_server_name on;'',
      '''',
      ''location /a2a/ {'',
      ''  limit_req zone=api burst=50 nodelay;'',
      ''  proxy_pass '' @ afURL @ '';'',
      ''  proxy_http_version 1.1;'',
      ''  proxy_set_header Connection "";'',
      ''  proxy_set_header Host $host;'',
      ''  proxy_set_header X-Real-IP $remote_addr;'',
      ''  proxy_set_header X-Forwarded-For $proxy_add_x_forwarded_for;'',
      ''  proxy_set_header Authorization "Bearer $http_x_forwarded_access_token";'',
      ''  proxy_buffering off;'',
      ''  proxy_cache off;'',
      ''  proxy_read_timeout 3600s;'',
      ''  proxy_send_timeout 3600s;'',
      ''  send_timeout 3600s;'',
      ''  keepalive_timeout 3600s;'',
      ''}'',
      '''',
      ''location = /mcp {'',
      ''  limit_req zone=mcp burst=20 nodelay;'',
      ''  proxy_pass '' @ afURL @ '';'',
      ''  proxy_http_version 1.1;'',
      ''  proxy_set_header Host $host;'',
      ''  proxy_set_header X-Real-IP $remote_addr;'',
      ''  proxy_set_header X-Forwarded-For $proxy_add_x_forwarded_for;'',
      ''  proxy_set_header Authorization "Bearer $http_x_forwarded_access_token";'',
      ''  proxy_set_header Mcp-Session-Id $http_mcp_session_id;'',
      ''  proxy_read_timeout 30s;'',
      ''  proxy_hide_header Access-Control-Expose-Headers;'',
      ''  add_header Access-Control-Expose-Headers "Mcp-Session-Id" always;'',
      ''}'',
      '''',
      ''location /.well-known/ {'',
      ''  proxy_pass '' @ afURL @ '';'',
      ''  proxy_http_version 1.1;'',
      ''  proxy_set_header Host $host;'',
      ''}'',
      '''',
      ''location ~* '' @ [CHR 0x5C] @ ''.(js|css|png|jpg|jpeg|gif|ico|svg|woff2?|ttf|eot)$ {'',
      ''  expires 1y;'',
      ''  add_header Cache-Control "public, immutable";'',
      ''  try_files $uri =404;'',
      ''}'',
      '''',
      ''# #314: the console loads this same-origin script unconditionally on every'',
      ''# page load to source window.__KUBERNAUT_CONFIG__.enableRawThinking, which'',
      ''# hides the "Hide/Show raw thinking" header button when disabled. Default'',
      ''# false keeps raw thinking hidden for new users; set'',
      ''# spec.console.enableRawThinking=true only for explicit diagnostic access.'',
      ''location = /runtime-config.js {'',
      ''  default_type application/javascript;'',
      ''  add_header Cache-Control "no-cache, must-revalidate" always;'',
      ''  return 200 "window.__KUBERNAUT_CONFIG__ = { enableRawThinking: '' @ go_bool enableRawThinking @ '' };'' @ [CHR 0x5C] @ ''n";'',
      ''}'',
      '''',
      ''location / {'',
      ''  add_header Cache-Control "no-cache, must-revalidate";'',
      ''  try_files $uri $uri/ /index.html;'',
      ''}''])\<close>

definition ConsoleNginxConfigMap :: "Kubernaut \<Rightarrow> kobj" where
  "ConsoleNginxConfigMap kn =
     (let afURL = ''https://'' @ ComponentAPIFrontend @ ''.'' @ kn_Namespace kn @ ''.svc:'' @ show_int PortHTTPS in
      \<lparr>obj_Kind = ''ConfigMap'', obj_Meta = ObjectMeta kn (ComponentConsole @ ''-nginx'') ComponentConsole,
       obj_Body = ConfigMapBody [(''http.conf'', consoleNginxHTTPConf), (''server.conf'',
         consoleNginxServerConf afURL (EnableRawThinkingValue (spec_Console (kn_Spec kn))) [InterServiceTLSCAFileFor kn])] []\<rparr>)"

subsection \<open>Configuration of the proxy\<close>

record consoleOAuth2ProxyServerYAML =
  proxyServer_BindAddress :: string

record consoleOAuth2ProxyUpstreamYAML =
  upstream_ID :: string
  upstream_Path :: string
  upstream_URI :: string

record consoleOAuth2ProxyUpstreamConfigYAML =
  upstreamConfig_Upstreams :: "consoleOAuth2ProxyUpstreamYAML list"

record consoleOAuth2ProxyClaimSourceYAML =
  claimSource_Claim :: string

record consoleOAuth2ProxyHeaderValueYAML =
  headerValue_ClaimSource :: "consoleOAuth2ProxyClaimSourceYAML option"

record consoleOAuth2ProxyHeaderYAML =
  header_Name :: string
  header_Values :: "consoleOAuth2ProxyHeaderValueYAML list"

record consoleOAuth2ProxyOIDCYAML =
  oidc_IssuerURL :: string

text \<open>A text that is written as a literal block scalar, \<^verbatim>\<open>MarshalYAML\<close> of \<^verbatim>\<open>consoleOAuth2ProxyEnvPlaceholder\<close>.\<close>

datatype consoleOAuth2ProxyEnvPlaceholder = LiteralScalar (placeholder_Value: string)

record consoleOAuth2ProxyProviderYAML =
  provider_ID :: string
  provider_Type :: string
  provider_ClientID :: consoleOAuth2ProxyEnvPlaceholder
  provider_ClientSecret :: consoleOAuth2ProxyEnvPlaceholder
  provider_CAFiles :: "string list"
  provider_UseSystemTrustStore :: bool
  provider_OIDCConfig :: consoleOAuth2ProxyOIDCYAML
  provider_Scope :: string
  provider_AdditionalClaims :: "string list"
  provider_SkipClaimsFromProfileURL :: bool
  provider_BackendLogoutURL :: string

record consoleOAuth2ProxyConfigYAML =
  proxy_Server :: consoleOAuth2ProxyServerYAML
  proxy_UpstreamConfig :: consoleOAuth2ProxyUpstreamConfigYAML
  proxy_InjectRequestHeaders :: "consoleOAuth2ProxyHeaderYAML list"
  proxy_Providers :: "consoleOAuth2ProxyProviderYAML list"

definition console_proxy_config :: "Kubernaut \<Rightarrow> consoleOAuth2ProxyConfigYAML" where
  "console_proxy_config kn = \<lparr>proxy_Server = \<lparr>proxyServer_BindAddress = ''0.0.0.0:4180''\<rparr>,
     proxy_UpstreamConfig = \<lparr>upstreamConfig_Upstreams = [\<lparr>upstream_ID = ''console'', upstream_Path = ''/'', upstream_URI = ''http://localhost:8080''\<rparr>]\<rparr>,
     proxy_InjectRequestHeaders = [\<lparr>header_Name = ''X-Forwarded-Access-Token'',
       header_Values = [\<lparr>headerValue_ClaimSource = Some \<lparr>claimSource_Claim = ''access_token''\<rparr>\<rparr>]\<rparr>],
     proxy_Providers = [\<lparr>provider_ID = ''oidc'', provider_Type = ''oidc'', provider_ClientID = LiteralScalar ''${OAUTH2_PROXY_CLIENT_ID}'',
       provider_ClientSecret = LiteralScalar ''${OAUTH2_PROXY_CLIENT_SECRET}'', provider_CAFiles = [InterServiceTLSCAFileFor kn],
       provider_UseSystemTrustStore = True, provider_OIDCConfig = \<lparr>oidc_IssuerURL = ConsoleIssuerURL (kn_Spec kn)\<rparr>,
       provider_Scope = ''openid email profile'', provider_AdditionalClaims = [''iss'', ''sub'', ''sid''], provider_SkipClaimsFromProfileURL = True,
       provider_BackendLogoutURL = consoleAuth_ProviderLogoutURL (console_auth kn)\<rparr>]\<rparr>"

definition ConsoleOAuth2ProxyConfigMap :: "validators \<Rightarrow> (consoleOAuth2ProxyConfigYAML \<Rightarrow> string go) \<Rightarrow> Kubernaut \<Rightarrow> kobj go" where
  "ConsoleOAuth2ProxyConfigMap L marshal kn =
     (case validateConsoleEffectiveIssuer kn of
        Some e \<Rightarrow> Inl e
      | None \<Rightarrow>
         (case validateConsoleProviderLogoutURL L kn of
            Some e \<Rightarrow> Inl e
          | None \<Rightarrow>
             (case marshal (console_proxy_config kn) of
                Inl e \<Rightarrow> Inl (Wrap ''marshalling oauth2-proxy alpha config'' e)
              | Inr data \<Rightarrow> Inr \<lparr>obj_Kind = ''ConfigMap'', obj_Meta = ObjectMeta kn (ComponentConsole @ ''-oauth2-proxy'') ComponentConsole,
                  obj_Body = ConfigMapBody [(consoleOAuth2ProxyConfigKey, data)] []\<rparr>)))"

subsection \<open>The proxy is the way in\<close>

definition pod_of :: "kobj \<Rightarrow> pod_spec" where
  "pod_of dep = (case obj_Body dep of DeploymentBody _ _ _ _ spec \<Rightarrow> deployment_Pod spec | _ \<Rightarrow> zero_pod_spec)"

text \<open>The containers of a pod that a target port of a Service leads to.\<close>

definition reached :: "string \<Rightarrow> pod_spec \<Rightarrow> container list" where
  "reached target p = filter (\<lambda>c. target \<in> set (map containerPort_Name (container_Ports c))) (pod_Containers p)"

lemma ConsoleDeployment_cases:
  assumes "ConsoleDeployment L getenv kn = Inr dep"
  obtains consoleImage proxyImage combined inits where
    "obj_Kind dep = ''Deployment''" "obj_Body dep = DeploymentBody (Some 1) 0 (ComponentLabels kn ComponentConsole) Map.empty
       \<lparr>deployment_Selector = SelectorLabels ComponentConsole, deployment_Strategy = '''',
        deployment_Pod = console_pod kn consoleImage proxyImage combined inits\<rparr>"
    "console_checks L kn = None"
    "consoleLogoutTLSSettings getenv kn (consoleAuth_ProviderLogoutURL (console_auth kn)) (InterServiceTLSCAFileFor kn)
       (InterServiceTLSCADirFor kn) = Inr (combined, inits)"
  using assms unfolding ConsoleDeployment_def by (auto split: sum.splits option.splits)

lemma console_volume_names:
  "map volume_Name (consoleDeploymentVolumes kn b) =
     [''nginx-tmp'', ''nginx-config'', ''tls-ca''] @ (if b then [''combined-ca''] else []) @ [''oauth2-proxy-config'']"
  by (simp add: consoleDeploymentVolumes_def emptyDirVolume_def configMapVolume_def InterServiceTLSCAVolume_def
      consoleOAuth2ProxyConfigVolume_def Let_def)

lemma console_containers:
  "container_Name (consoleOAuth2ProxyContainer img args secret caDir combined r) = ''oauth2-proxy''"
  "container_Ports (consoleOAuth2ProxyContainer img args secret caDir combined r) = [tcp_port ''http'' consoleProxyPort]"
  "container_Name (consoleAppContainer kn img r) = ''console''"
  "container_Ports (consoleAppContainer kn img r) = [tcp_port ''static'' consoleStaticPort]"
  "probes_declared (consoleOAuth2ProxyContainer img args secret caDir combined r)" "probes_declared (consoleAppContainer kn img r)"
  by (simp_all add: consoleOAuth2ProxyContainer_def consoleAppContainer_def probes_declared_def plain_probe_def http_probe_def tcp_port_def
      zero_container_def)

lemma console_mounts:
  "map mount_Name (container_VolumeMounts (consoleOAuth2ProxyContainer img args secret caDir combined r)) =
     [''oauth2-proxy-config'', ''tls-ca''] @ (if combined \<noteq> '''' then [''combined-ca''] else [])"
  "map mount_Name (container_VolumeMounts (consoleAppContainer kn img r)) = [''nginx-tmp'', ''nginx-config'', ''nginx-config'', ''tls-ca'']"
  "map mount_Name (container_VolumeMounts (consoleLogoutCAInitContainer kn img caFile caDir)) = [''tls-ca'', ''combined-ca'']"
  by (simp_all add: consoleOAuth2ProxyContainer_def consoleAppContainer_def consoleLogoutCAInitContainer_def file_mount_def read_only_mount_def
      writable_mount_def InterServiceTLSCAMount_def consoleOAuth2ProxyConfigVolume_def)

lemma console_security:
  "container_SecurityContext (consoleOAuth2ProxyContainer img args secret caDir combined r) = ContainerSecurityContext"
  "security_AllowPrivilegeEscalation (container_SecurityContext (consoleAppContainer kn img r)) = Some False"
  "security_Drop (container_SecurityContext (consoleAppContainer kn img r)) = [''ALL'']"
  "security_AllowPrivilegeEscalation (container_SecurityContext (consoleLogoutCAInitContainer kn img caFile caDir)) = Some False"
  "security_Drop (container_SecurityContext (consoleLogoutCAInitContainer kn img caFile caDir)) = [''ALL'']"
  by (simp_all add: consoleOAuth2ProxyContainer_def consoleAppContainer_def consoleLogoutCAInitContainer_def)

lemma mounts_by_name:
  "mounts_resolved p \<longleftrightarrow>
     list_all (\<lambda>c. set (map mount_Name (container_VolumeMounts c)) \<subseteq> set (map volume_Name (pod_Volumes p))) (pod_InitContainers p @ pod_Containers p)"
  by (auto simp: mounts_resolved_def list_all_iff)

lemma ConsoleDeployment_well_formed: "ConsoleDeployment L getenv kn = Inr dep \<Longrightarrow> well_formed_deployment dep"
proof (erule ConsoleDeployment_cases)
  fix consoleImage proxyImage combined inits
  let ?p = "console_pod kn consoleImage proxyImage combined inits"
  assume dep: "obj_Kind dep = ''Deployment''" "obj_Body dep = DeploymentBody (Some 1) 0 (ComponentLabels kn ComponentConsole) Map.empty
       \<lparr>deployment_Selector = SelectorLabels ComponentConsole, deployment_Strategy = '''', deployment_Pod = ?p\<rparr>"
    and tls: "consoleLogoutTLSSettings getenv kn (consoleAuth_ProviderLogoutURL (console_auth kn)) (InterServiceTLSCAFileFor kn)
       (InterServiceTLSCADirFor kn) = Inr (combined, inits)"
  have vols: "map volume_Name (pod_Volumes ?p) = [''nginx-tmp'', ''nginx-config'', ''tls-ca'']
      @ (if consoleAuth_ProviderLogoutURL (console_auth kn) \<noteq> '''' then [''combined-ca''] else []) @ [''oauth2-proxy-config'']"
    by (simp add: console_pod_def console_volume_names Let_def del: map_append)
  have "mounts_resolved ?p"
    unfolding mounts_by_name vols using tls
    by (auto simp: console_pod_def consoleLogoutTLSSettings_def console_mounts zero_pod_spec_def Let_def simp del: set_map list.set_map split: if_splits sum.splits)
  moreover have "restricted_pod ?p"
    using tls by (auto simp: restricted_pod_def console_pod_def consoleLogoutTLSSettings_def console_security ContainerSecurityContext_def Let_def
        split: if_splits sum.splits)
  moreover have "distinct (map volume_Name (pod_Volumes ?p))" unfolding vols by simp
  moreover have "list_all probes_declared (pod_Containers ?p)" by (simp add: console_pod_def console_containers Let_def)
  ultimately show ?thesis by (simp add: well_formed_deployment_def dep selector_selects)
qed

end
