(* ===== verification/Evidence.thy ===== *)
theory Evidence
  imports Ensure_Behaviour
begin

text \<open>
  Checks that leave evidence. The reconciler accepts administrator-owned material by reading an object and
  looking into it; what a successful check means is that the run has read an object with certain
  properties. The locale states what every such check obeys, and what a loop of checks therefore shows.
  \<open>steady\<close> says that a step leaves the custom resource in memory as it was whenever it reports success; the
  gate in front of a write patches the status only when it refuses.
\<close>

subsection \<open>Steps that keep the custom resource when they succeed\<close>

definition steady :: "('a \<Rightarrow> bool) \<Rightarrow> ('s, 'a) prog \<Rightarrow> bool" where
  "steady good m \<longleftrightarrow> (\<forall>w. good (fst (run_state m w)) \<longrightarrow> w_kn (snd (run_state m w)) = w_kn w)"

named_theorems steady_rules \<open>rules for steps that keep the custom resource\<close>

lemma steadyD: "steady good m \<Longrightarrow> run_state m w = (r, w') \<Longrightarrow> good r \<Longrightarrow> w_kn w' = w_kn w"
  unfolding steady_def by (metis fst_conv snd_conv)

lemma steady_any: "steady (\<lambda>_. True) m \<Longrightarrow> steady good m"
  by (simp add: steady_def)

lemma steady_return [steady_rules]: "steady good (State_Monad.return a)"
  by (simp add: steady_def State_Monad.return_def)

lemma steady_calls [steady_rules]:
  "steady g (Get E kind k)" "steady g (OwnershipGet E kind k)" "steady g' (ListObjs E kind ns sel)"
  "steady g (Create E x)" "steady g (Update E x)" "steady g'' the_kn"
  by (simp_all add: steady_def call_defs split: prod.splits)

lemma steady_bind [steady_rules]:
  "steady (\<lambda>_. True) m \<Longrightarrow> (\<And>a. steady good (f a)) \<Longrightarrow> steady good (State_Monad.bind m f)"
  by (simp add: steady_def run_bind del: run_state_bind)

lemma steady_bind_option [steady_rules]:
  assumes "steady (\<lambda>r. r = None) m" and "steady good n" and "\<And>e. \<not> good (h e)"
  shows "steady good (State_Monad.bind m (\<lambda>r. case r of None \<Rightarrow> n | Some e \<Rightarrow> State_Monad.return (h e)))"
  unfolding steady_def
proof (intro allI impI)
  fix w
  let ?f = "\<lambda>r. case r of None \<Rightarrow> n | Some e \<Rightarrow> State_Monad.return (h e)"
  assume good: "good (fst (run_state (State_Monad.bind m ?f) w))"
  obtain r v where r: "run_state m w = (r, v)" by fastforce
  have "r = None"
  proof (rule ccontr)
    assume "r \<noteq> None"
    then obtain e where "r = Some e" by blast
    then show False using good r assms(3) by (simp add: State_Monad.return_def)
  qed
  then show "w_kn (snd (run_state (State_Monad.bind m ?f) w)) = w_kn w"
    using good r steadyD [OF assms(1) r] assms(2) by (simp add: steady_def)
qed

lemma steady_and_then [steady_rules]:
  "steady (\<lambda>r. r = None) m \<Longrightarrow> steady (\<lambda>r. r = None) n \<Longrightarrow> steady (\<lambda>r. r = None) (and_then m n)"
  unfolding and_then_def by (rule steady_bind_option) simp_all

lemma steady_bind_map [steady_rules]:
  assumes "steady (\<lambda>r. r = None) m" and "\<And>r. good (h r) \<Longrightarrow> r = None"
  shows "steady good (State_Monad.bind m (\<lambda>r. State_Monad.return (h r)))"
  using assms by (auto simp: steady_def run_bind State_Monad.return_def simp del: run_state_bind)

lemma steady_wrapping [steady_rules]: "steady (\<lambda>r. r = None) m \<Longrightarrow> steady (\<lambda>r. r = None) (wrapping message m)"
  unfolding wrapping_def by (rule steady_bind_map) simp_all

lemma steady_if [steady_rules]: "(b \<Longrightarrow> steady good m) \<Longrightarrow> (\<not> b \<Longrightarrow> steady good n) \<Longrightarrow> steady good (if b then m else n)"
  by simp

lemma steady_case_sum [steady_rules]:
  "(\<And>e. x = Inl e \<Longrightarrow> steady good (f e)) \<Longrightarrow> (\<And>v. x = Inr v \<Longrightarrow> steady good (g v)) \<Longrightarrow>
   steady good (case x of Inl e \<Rightarrow> f e | Inr v \<Rightarrow> g v)"
  by (cases x) simp_all

lemma steady_case_option [steady_rules]:
  "(x = None \<Longrightarrow> steady good f) \<Longrightarrow> (\<And>v. x = Some v \<Longrightarrow> steady good (g v)) \<Longrightarrow>
   steady good (case x of None \<Rightarrow> f | Some v \<Rightarrow> g v)"
  by (cases x) simp_all

lemma steady_let [steady_rules]: "(\<And>y. y = x \<Longrightarrow> steady good (f y)) \<Longrightarrow> steady good (Let x f)"
  by simp

lemma steady_for_each:
  assumes "\<And>x. x \<in> set xs \<Longrightarrow> steady (\<lambda>r. r = None) (f x)"
  shows "steady (\<lambda>r. r = None) (for_each f xs)"
  using assms
proof (induction xs)
  case (Cons x xs)
  show ?case unfolding for_each.simps by (rule steady_bind_option) (use Cons in simp_all)
qed (simp add: steady_return)

lemma steady_check [steady_rules]: "steady (\<lambda>r. r = None) (checkResourceOwnership E x co)"
  unfolding steady_def
proof (intro allI impI)
  fix w :: "'a world"
  assume ok: "fst (run_state (checkResourceOwnership E x co) w) = None"
  show "w_kn (snd (run_state (checkResourceOwnership E x co) w)) = w_kn w"
  proof (cases "ResourceOwnershipError E (w_kn w) x co")
    case None
    then show ?thesis by (simp add: run_checkResourceOwnership_ok)
  next
    case (Some e)
    from run_checkResourceOwnership_refused [OF this] ok show ?thesis by auto
  qed
qed

definition ok_result :: "go_error + 'b \<Rightarrow> bool" where
  "ok_result r \<longleftrightarrow> \<not> isl r"

lemma ok_result_simps [simp]: "ok_result (Inr v)" "\<not> ok_result (Inl e)"
  by (simp_all add: ok_result_def)

lemma steady_ensureExisting [steady_rules]: "steady ok_result (ensureExisting E x h ex)"
  unfolding ensureExisting_def by (rule steady_bind_option) (intro steady_rules | simp)+

lemma steady_ensureResourceChanged [steady_rules]: "steady ok_result (ensureResourceChanged E x)"
  unfolding ensureResourceChanged_def createOrReadExisting_def by (intro steady_rules)

lemma steady_of_ok:
  "steady ok_result m \<Longrightarrow> steady (\<lambda>r. r = None) (State_Monad.bind m (\<lambda>r. State_Monad.return (case r of Inl e \<Rightarrow> Some e | Inr _ \<Rightarrow> None)))"
  by (auto simp: steady_def run_bind State_Monad.return_def ok_result_def simp del: run_state_bind split: sum.splits)

lemma steady_ensure [steady_rules]:
  "steady (\<lambda>r. r = None) (ensureResource E x)" "steady (\<lambda>r. r = None) (ensureUnowned E x)"
  "steady ok_result (ensureNamespacedChanged E x)" "steady (\<lambda>r. r = None) (ensureNamespaced E x)"
proof -
  show *: "steady ok_result (ensureNamespacedChanged E x)"
    unfolding ensureNamespacedChanged_def by (intro steady_rules)
  show "steady (\<lambda>r. r = None) (ensureNamespaced E x)"
    unfolding ensureNamespaced_def by (rule steady_of_ok [OF *])
  show "steady (\<lambda>r. r = None) (ensureResource E x)" "steady (\<lambda>r. r = None) (ensureUnowned E x)"
    unfolding ensureUnowned_def ensureResource_def by (rule steady_of_ok [OF steady_ensureResourceChanged])+
qed

subsection \<open>Evidence\<close>

lemma emits_extends:
  assumes "emits P m" and "run_state m w = (r, w')"
  shows "set (w_trace w) \<subseteq> set (w_trace w')"
  using emitsD [OF assms] by auto

locale evidence_check =
  fixes check :: "'a \<Rightarrow> ('s, go_error option) prog"
    and evidence :: "Kubernaut \<Rightarrow> call set \<Rightarrow> 'a \<Rightarrow> bool"
  assumes reads_only: "emits (\<lambda>c. \<not> is_write c) (check x)"
    and steady_check_item: "steady (\<lambda>_. True) (check x)"
    and accepted: "run_state (check x) w = (None, w') \<Longrightarrow> evidence (w_kn w) (set (w_trace w')) x"
    and evidence_mono: "evidence kn S x \<Longrightarrow> S \<subseteq> S' \<Longrightarrow> evidence kn S' x"
begin

lemma for_each_reads_only: "emits (\<lambda>c. \<not> is_write c) (for_each check xs)"
  by (intro emits_rules reads_only)

lemma for_each_steady: "run_state (for_each check xs) w = (None, w') \<Longrightarrow> w_kn w' = w_kn w"
  using steadyD [OF steady_for_each [of xs check]] steady_any [OF steady_check_item] by blast

lemma all_accepted:
  "run_state (for_each check xs) w = (None, w') \<Longrightarrow> x \<in> set xs \<Longrightarrow> evidence (w_kn w) (set (w_trace w')) x"
proof (induction xs arbitrary: w)
  case (Cons y ys)
  obtain r v where step: "run_state (check y) w = (r, v)" by fastforce
  then have r: "r = None" and rest: "run_state (for_each check ys) v = (None, w')"
    using Cons.prems(1) by (auto split: option.splits simp: State_Monad.return_def)
  have kn: "w_kn v = w_kn w" using steadyD [OF steady_check_item step] by simp
  have "evidence (w_kn w) (set (w_trace w')) y"
    using accepted step r emits_extends [OF for_each_reads_only rest] evidence_mono by blast
  then show ?case using Cons.IH [OF rest] Cons.prems(2) kn by auto
qed simp

end

end
