(* ===== verification/Rbac_Deploy.thy ===== *)
theory Rbac_Deploy
  imports Rbac Evidence
begin

text \<open>
  Bringing RBAC to the cluster (\<^verbatim>\<open>deployRBAC\<close> and what it calls in \<^verbatim>\<open>internal/controller/kubernaut_controller.go\<close>): the core set
  and its pruning, the roles of the MCP gateway namespace, the bindings of additional roles, the workflow namespace, the feature
  toggles, the tool roles and console access.

  A Go panic, which the slice expression of \<^verbatim>\<open>AdditionalComponentCRBName\<close> could raise for an illegal namespace, is an error of the
  reconcile: controller-runtime recovers it.
\<close>

subsection \<open>Core\<close>

definition ensure_each ::
  "(kobj \<Rightarrow> ('s, go_error option) prog) \<Rightarrow> (kobj \<Rightarrow> string) \<Rightarrow> kobj list \<Rightarrow> ('s, go_error option) prog" where
  "ensure_each ensure message xs = for_each (\<lambda>x. wrapping (message x) (ensure x)) xs"

definition joined :: "string \<Rightarrow> ('s, go_error list) prog \<Rightarrow> ('s, go_error option) prog" where
  "joined message m = do {
     errs \<leftarrow> m;
     State_Monad.return (if errs = [] then None else Some (Wrap message (Join errs))) }"

definition deployNamespacedCoreRBAC :: "'s env \<Rightarrow> ('s, go_error option) prog" where
  "deployNamespacedCoreRBAC E = do {
     kn \<leftarrow> the_kn;
     and_then (ensure_each (ensureNamespaced E) (\<lambda>x. ''ensuring ns role '' @ obj_Name x) (NamespaceRoles kn kn))
     (and_then (ensure_each (ensureNamespaced E) (\<lambda>x. ''ensuring ns rolebinding '' @ obj_Name x) (NamespaceRoleBindings kn kn))
     (and_then (ensure_each (ensureNamespaced E) (\<lambda>x. ''ensuring ds client rb '' @ obj_Name x) (DataStorageClientRoleBindings kn))
     (and_then (ensureNamespaced E (KubernautAgentClientRoleBinding kn))
     (and_then (if APIFrontendEnabled (kn_Spec kn) then ensureNamespaced E (KubernautAgentClientAPIfrontendRoleBinding kn)
                else State_Monad.return None)
     (and_then (ensure_each (ensureNamespaced E) (\<lambda>x. ''ensuring workflow catalog role '' @ obj_Name x) (fst (TrustedWorkflowCatalogRBAC kn)))
       (ensure_each (ensureNamespaced E) (\<lambda>x. ''ensuring workflow catalog rolebinding '' @ obj_Name x) (snd (TrustedWorkflowCatalogRBAC kn))))))))
   }"

definition deployClusterScopedCoreRBAC :: "'s env \<Rightarrow> ('s, go_error option) prog" where
  "deployClusterScopedCoreRBAC E = do {
     kn \<leftarrow> the_kn;
     let desiredCRs = ClusterRoles kn kn;
     let desiredCRBs = ClusterRoleBindings kn kn;
     and_then (ensure_each (ensureUnowned E) (\<lambda>x. ''ensuring ClusterRole '' @ obj_Name x) desiredCRs)
     (and_then (ensure_each (ensureUnowned E) (\<lambda>x. ''ensuring CRB '' @ obj_Name x) desiredCRBs)
       (joined ''pruning orphaned core cluster RBAC'' (pruneOrphanedCoreClusterRBAC E desiredCRs desiredCRBs))) }"

definition deployMCPGatewayNamespaceRBAC :: "'s env \<Rightarrow> ('s, go_error option) prog" where
  "deployMCPGatewayNamespaceRBAC E = do {
     kn \<leftarrow> the_kn;
     (case MCPGatewayNamespaceRBAC kn kn of (roles, rbs) \<Rightarrow>
       and_then (ensure_each (ensureUnowned E)
           (\<lambda>x. ''ensuring mcp gateway namespace role '' @ obj_Namespace x @ ''/'' @ obj_Name x) roles)
       (and_then (ensure_each (ensureUnowned E)
           (\<lambda>x. ''ensuring mcp gateway namespace rolebinding '' @ obj_Namespace x @ ''/'' @ obj_Name x) rbs)
         (joined ''pruning orphaned mcp gateway namespace RBAC'' (pruneOrphanedMCPGatewayNamespaceRBAC E roles rbs)))) }"

subsection \<open>Additional roles\<close>

fun deduplicate_from :: "string list \<Rightarrow> string list \<Rightarrow> string list" where
  "deduplicate_from old [] = []"
| "deduplicate_from old (s # ss) =
     (if s \<in> set old then deduplicate_from old ss else s # deduplicate_from (s # old) ss)"

definition deduplicate :: "string list \<Rightarrow> string list" where
  "deduplicate ss = deduplicate_from [] ss"

definition additionalRBACComponents :: "Kubernaut \<Rightarrow> (string \<times> string) list" where
  "additionalRBACComponents knV2 =
     [(ComponentKubernautAgent, ServiceAccountName ComponentKubernautAgent),
      (ComponentEffectivenessMonitor, ServiceAccountName ComponentEffectivenessMonitor)]
     @ (if GatewayEnabled (kn_Spec knV2) then [(ComponentGateway, ServiceAccountName ComponentGateway)] else [])"

fun recordAdditionalRBACBoundEvents :: "string list \<Rightarrow> string list \<Rightarrow> ('s, unit) prog" where
  "recordAdditionalRBACBoundEvents [] boundSet = State_Monad.return ()"
| "recordAdditionalRBACBoundEvents (crName # desiredSet) boundSet = do {
     (if crName \<in> set boundSet then State_Monad.return () else Eventf Normal ''AdditionalRBACBound'');
     recordAdditionalRBACBoundEvents desiredSet boundSet }"

fun detectMissingClusterRoles :: "'s env \<Rightarrow> string list \<Rightarrow> ('s, go_error + string list) prog" where
  "detectMissingClusterRoles E [] = State_Monad.return (Inr [])"
| "detectMissingClusterRoles E (crName # crNames) = do {
     r \<leftarrow> Get E ''ClusterRole'' ('''', crName);
     (case r of
        Inr cr \<Rightarrow> detectMissingClusterRoles E crNames
      | Inl e \<Rightarrow>
         (if \<not> IsNotFound e then State_Monad.return (Inl (Wrap (''checking ClusterRole '' @ crName) (API e)))
          else do {
            missing \<leftarrow> detectMissingClusterRoles E crNames;
            State_Monad.return (map_sum id (Cons crName) missing) })) }"

definition ConditionAdditionalRBACBound :: string where "ConditionAdditionalRBACBound = ''AdditionalRBACBound''"
definition ConditionToolRBACBound :: string where "ConditionToolRBACBound = ''ToolRBACBound''"
definition ReasonAdditionalRBACFullyBound :: string where "ReasonAdditionalRBACFullyBound = ''FullyBound''"
definition ReasonAdditionalRBACPartialBound :: string where "ReasonAdditionalRBACPartialBound = ''PartiallyBound''"

definition format_slice :: "string list \<Rightarrow> string" where
  "format_slice xs = ''['' @ join_strings '' '' xs @ '']''"

definition additionalRBACCondition :: "'s env \<Rightarrow> string list \<Rightarrow> string list \<Rightarrow> int \<Rightarrow> Kubernaut \<Rightarrow> Kubernaut" where
  "additionalRBACCondition E desiredSet missingRoles componentCount =
     (if missingRoles \<noteq> []
      then set_condition E ConditionAdditionalRBACBound ConditionFalse ReasonAdditionalRBACPartialBound
        (''ClusterRoleBindings created but ClusterRoles not found: '' @ format_slice missingRoles)
      else set_condition E ConditionAdditionalRBACBound ConditionTrue ReasonAdditionalRBACFullyBound
        (show_int (int (length desiredSet)) @ '' additional ClusterRole(s) bound across '' @ show_int componentCount
           @ '' component(s) ('' @ show_int (int (length desiredSet) * componentCount) @ '' ClusterRoleBindings)''))"

definition remove_condition :: "'s env \<Rightarrow> string \<Rightarrow> Kubernaut \<Rightarrow> Kubernaut" where
  "remove_condition E type kn =
     kn\<lparr>kn_Status := (kn_Status kn)\<lparr>status_Conditions := e_removeStatusCondition E (status_Conditions (kn_Status kn)) type\<rparr>\<rparr>"

definition additional_status :: "'s env \<Rightarrow> string list \<Rightarrow> string list \<Rightarrow> int \<Rightarrow> Kubernaut \<Rightarrow> Kubernaut" where
  "additional_status E desiredNames missingRoles componentCount kn =
     (let kn' = kn\<lparr>kn_Status := (kn_Status kn)\<lparr>status_BoundAdditionalClusterRoles := desiredNames\<rparr>\<rparr> in
      if desiredNames = [] then remove_condition E ConditionAdditionalRBACBound kn'
      else additionalRBACCondition E desiredNames missingRoles componentCount kn')"

definition ensureAdditionalCRB :: "'s env \<Rightarrow> Kubernaut \<Rightarrow> (string \<times> string) \<times> string \<Rightarrow> ('s, go_error option) prog" where
  "ensureAdditionalCRB E kn = (\<lambda>((component, sa), crName).
     case AdditionalComponentCRB kn component sa crName of
       None \<Rightarrow> State_Monad.return (Some (Msg ''panic: runtime error: slice bounds out of range''))
     | Some crb \<Rightarrow> wrapping (''ensuring additional CRB for '' @ component @ ''/'' @ crName) (ensureUnowned E crb))"

definition reportAdditionalRBAC :: "'s env \<Rightarrow> string list \<Rightarrow> string list \<Rightarrow> int \<Rightarrow> ('s, go_error option) prog" where
  "reportAdditionalRBAC E desiredNames missingRoles componentCount =
     and_then (wrapping ''patching additional RBAC status''
         (patchStatus E (additional_status E desiredNames missingRoles componentCount)))
       (do {
         (if missingRoles \<noteq> [] then Eventf Warning ''AdditionalRBACPartial'' else State_Monad.return ());
         State_Monad.return None })"

definition deployAdditionalComponentRBAC :: "'s env \<Rightarrow> ('s, go_error option) prog" where
  "deployAdditionalComponentRBAC E = do {
     kn \<leftarrow> the_kn;
     let desiredNames = deduplicate (spec_AdditionalClusterRoles (kn_Spec kn));
     let boundSet = status_BoundAdditionalClusterRoles (kn_Status kn);
     let components = additionalRBACComponents kn;
     let wanted = concat (map (\<lambda>comp. map (\<lambda>crName. (comp, crName)) desiredNames) components);
     let desiredCRBs = List.map_filter (\<lambda>((component, sa), crName). AdditionalComponentCRB kn component sa crName) wanted;
     and_then (for_each (ensureAdditionalCRB E kn) wanted)
     (and_then (joined ''pruning orphaned additional component RBAC'' (pruneOrphanedAdditionalComponentRBAC E desiredCRBs))
      (do {
        recordAdditionalRBACBoundEvents desiredNames boundSet;
        m \<leftarrow> detectMissingClusterRoles E desiredNames;
        (case m of
           Inl e \<Rightarrow> State_Monad.return (Some e)
         | Inr missingRoles \<Rightarrow> reportAdditionalRBAC E desiredNames missingRoles (int (length components))) })) }"

definition deployCoreRBAC :: "'s env \<Rightarrow> ('s, go_error option) prog" where
  "deployCoreRBAC E =
     and_then (deployNamespacedCoreRBAC E)
     (and_then (deployClusterScopedCoreRBAC E)
     (and_then (deployMCPGatewayNamespaceRBAC E)
       (deployAdditionalComponentRBAC E)))"

subsection \<open>Workflow namespace, toggles, tools and console\<close>

definition deployWorkflowRBAC :: "'s env \<Rightarrow> ('s, go_error option) prog" where
  "deployWorkflowRBAC E = do {
     kn \<leftarrow> the_kn;
     (case WorkflowNamespaceRBAC kn of (wfRoles, wfRBs) \<Rightarrow>
       and_then (ensure_each (ensureUnowned E) (\<lambda>x. ''ensuring wf role '' @ obj_Name x) wfRoles)
         (ensure_each (ensureUnowned E) (\<lambda>x. ''ensuring wf rb '' @ obj_Name x) wfRBs)) }"

definition pruneStaleAnsibleRBAC :: "'s env \<Rightarrow> kobj \<Rightarrow> kobj \<Rightarrow> ('s, go_error list) prog" where
  "pruneStaleAnsibleRBAC E cr crb =
     delete_each E [(''removing stale AWX ClusterRole'', cr), (''removing stale AWX CRB'', crb)]"

definition pruneStaleGatewayRBAC :: "'s env \<Rightarrow> Kubernaut \<Rightarrow> ('s, go_error list) prog" where
  "pruneStaleGatewayRBAC E kn = delete_each E [(''removing stale gateway DS client RoleBinding'',
     \<lparr>obj_Kind = ''RoleBinding'', obj_Meta = zero_object_meta\<lparr>meta_Name := ''data-storage-client-gateway'',
        meta_Namespace := kn_Namespace kn\<rparr>, obj_Body = NoBody\<rparr>)]"

definition deployToggleRBAC :: "'s env \<Rightarrow> ('s, go_error option) prog" where
  "deployToggleRBAC E = do {
     kn \<leftarrow> the_kn;
     let enabled = ansible_Enabled (workflowExecution_Ansible (spec_WorkflowExecution (kn_Spec kn)));
     (case AnsibleRBAC kn of (cr, crb) \<Rightarrow>
       and_then (if enabled
           then and_then (wrapping ''ensuring AWX ClusterRole'' (ensureUnowned E cr)) (wrapping ''ensuring AWX CRB'' (ensureUnowned E crb))
           else State_Monad.return None)
         (joined ''toggle cleanup'' (do {
            ansible \<leftarrow> (if \<not> enabled then pruneStaleAnsibleRBAC E cr crb else State_Monad.return []);
            gateway \<leftarrow> (if \<not> GatewayEnabled (kn_Spec kn) then pruneStaleGatewayRBAC E kn else State_Monad.return []);
            State_Monad.return (ansible @ gateway) }))) }"

definition tool_status :: "'s env \<Rightarrow> string list \<Rightarrow> Kubernaut \<Rightarrow> Kubernaut" where
  "tool_status E desiredCRBNames kn =
     (let kn' = kn\<lparr>kn_Status := (kn_Status kn)\<lparr>status_BoundToolRoleBindings := desiredCRBNames\<rparr>\<rparr> in
      if desiredCRBNames = [] then remove_condition E ConditionToolRBACBound kn'
      else set_condition E ConditionToolRBACBound ConditionTrue ''ToolRBACProvisioned''
        (show_int (int (length desiredCRBNames)) @ '' tool role bindings active'') kn')"

definition deployToolRBAC :: "'s env \<Rightarrow> ('s, go_error option) prog" where
  "deployToolRBAC E = do {
     kn \<leftarrow> the_kn;
     let desiredCRBNames = ToolCRBNames kn;
     let stale = filter (\<lambda>n. n \<notin> set desiredCRBNames) (status_BoundToolRoleBindings (kn_Status kn));
     let legacyCM = \<lparr>obj_Kind = ''ConfigMap'', obj_Meta = zero_object_meta\<lparr>meta_Name := ''apifrontend-rbac-roles'',
           meta_Namespace := kn_Namespace kn\<rparr>, obj_Body = NoBody\<rparr>;
     and_then (ensure_each (ensureUnowned E) (\<lambda>x. ''ensuring tool ClusterRole '' @ obj_Name x) (ToolClusterRoles kn))
     (and_then (ensure_each (ensureUnowned E) (\<lambda>x. ''ensuring tool CRB '' @ obj_Name x) (ToolClusterRoleBindings kn))
     (and_then (for_each (\<lambda>name. wrapping (''pruning stale tool CRB '' @ name) (deleteIfExists E (named ''ClusterRoleBinding'' name))) stale)
     (and_then (wrapping ''deleting orphaned apifrontend-rbac-roles ConfigMap'' (deleteIfExists E legacyCM))
       (patchStatus E (tool_status E desiredCRBNames))))) }"

definition deployConsoleAccessRBAC :: "'s env \<Rightarrow> ('s, go_error option) prog" where
  "deployConsoleAccessRBAC E = do {
     kn \<leftarrow> the_kn;
     (case ConsoleAccessClusterRoleBinding kn of
        None \<Rightarrow> wrapping ''deleting console-access CRB'' (deleteIfExists E (named ''ClusterRoleBinding'' (ConsoleAccessCRBName kn)))
      | Some crb \<Rightarrow> wrapping (''ensuring console-access CRB '' @ obj_Name crb) (ensureUnowned E crb)) }"

definition deployRBAC :: "'s env \<Rightarrow> ('s, go_error option) prog" where
  "deployRBAC E =
     and_then (deployCoreRBAC E)
     (and_then (deployWorkflowRBAC E)
     (and_then (deployToggleRBAC E)
     (and_then (deployToolRBAC E)
       (deployConsoleAccessRBAC E))))"


subsection \<open>Writes stay safe\<close>

lemma keeps_ensure_each [triple_rules]: "(\<And>x. x \<in> set xs \<Longrightarrow> keeps I (ensure x)) \<Longrightarrow> keeps I (ensure_each ensure message xs)"
  unfolding ensure_each_def by (intro triple_rules)

lemma keeps_joined [triple_rules]: "keeps I m \<Longrightarrow> keeps I (joined message m)"
  unfolding joined_def by (intro triple_rules)

lemma safe_silent_rbac [triple_rules]:
  "keeps (safe ok me) (recordAdditionalRBACBoundEvents names bound)" "keeps (safe ok me) (detectMissingClusterRoles E names)"
proof -
  show "keeps (safe ok me) (recordAdditionalRBACBoundEvents names bound)" by (induction names) (auto intro!: triple_rules)
  show "keeps (safe ok me) (detectMissingClusterRoles E names)"
    by (induction names) (auto intro!: triple_rules)
qed

lemma safe_pruneAdditional [triple_rules]:
  "(\<And>y. mine E me y \<Longrightarrow> ok y) \<Longrightarrow> keeps (safe ok me) (pruneOrphanedAdditionalComponentRBAC E crbs)"
  unfolding pruneOrphanedAdditionalComponentRBAC_def by (intro triple_rules; assumption?)

lemma safe_ensureAdditionalCRB [triple_rules]:
  assumes "identity_stable E" and "\<And>y. mine E me y \<Longrightarrow> ok y"
  shows "keeps (safe ok me) (ensureAdditionalCRB E kn p)"
  unfolding ensureAdditionalCRB_def by (cases p; cases "fst p"; simp) (intro triple_rules assms; assumption?)

lemma safe_core_rbac [triple_rules]:
  assumes "identity_stable E" and "\<And>y. mine E me y \<Longrightarrow> ok y"
  shows "keeps (safe ok me) (deployNamespacedCoreRBAC E)" "keeps (safe ok me) (deployClusterScopedCoreRBAC E)"
    "keeps (safe ok me) (deployMCPGatewayNamespaceRBAC E)" "keeps (safe ok me) (deployAdditionalComponentRBAC E)"
  unfolding deployNamespacedCoreRBAC_def deployClusterScopedCoreRBAC_def deployMCPGatewayNamespaceRBAC_def
    deployAdditionalComponentRBAC_def reportAdditionalRBAC_def
  by (intro triple_rules assms; assumption?)+

lemma safe_deployRBAC [triple_rules]:
  assumes "identity_stable E" and "\<And>y. mine E me y \<Longrightarrow> ok y"
  shows "keeps (safe ok me) (deployRBAC E)"
  unfolding deployRBAC_def deployCoreRBAC_def deployWorkflowRBAC_def deployToggleRBAC_def deployToolRBAC_def
    deployConsoleAccessRBAC_def pruneStaleAnsibleRBAC_def pruneStaleGatewayRBAC_def
  by (intro triple_rules assms; assumption?)+


subsection \<open>The reported state of additional roles\<close>

lemma run_the_kn: "run_state (State_Monad.bind the_kn f) w = run_state (f (w_kn w)) w"
  by (simp add: the_kn_def)

lemma and_then_None:
  "run_state (and_then m n) w = (None, w') \<longleftrightarrow> (\<exists>v. run_state m w = (None, v) \<and> run_state n v = (None, w'))"
  by (auto simp: and_then_def State_Monad.return_def split: prod.splits option.splits)

lemma wrapping_None [simp]: "run_state (wrapping message m) w = (None, w') \<longleftrightarrow> run_state m w = (None, w')"
  by (auto simp: wrapping_def State_Monad.return_def split: prod.splits)

lemma emits_detect [emits_rules]: "emits (\<lambda>c. \<exists>kind k x. c = Read kind k x) (detectMissingClusterRoles E names)"
  by (induction names) (auto intro!: emits_rules)

definition roles_read :: "string list \<Rightarrow> string list \<Rightarrow> call list \<Rightarrow> bool" where
  "roles_read names missing trace \<longleftrightarrow>
     list_all (\<lambda>cr. cr \<in> set missing \<or> list_ex (\<lambda>c. case c of Read kind k x \<Rightarrow> kind = ''ClusterRole'' \<and> k = ('''', cr) | _ \<Rightarrow> False) trace) names"

lemma roles_read_mono: "roles_read names missing t \<Longrightarrow> set t \<subseteq> set t' \<Longrightarrow> set missing \<subseteq> set missing' \<Longrightarrow> roles_read names missing' t'"
  by (auto simp: roles_read_def list_all_iff list_ex_iff)

lemma map_sum_eq_Inr: "map_sum f g s = Inr y \<longleftrightarrow> (\<exists>x. s = Inr x \<and> y = g x)"
  by (cases s) auto

lemma detectMissingClusterRoles_evidence:
  "run_state (detectMissingClusterRoles E names) w = (Inr missing, w') \<Longrightarrow> roles_read names missing (w_trace w')"
proof (induction names arbitrary: w missing)
  case Nil
  then show ?case by (simp add: roles_read_def)
next
  case (Cons name names)
  obtain r v where r: "run_state (Get E ''ClusterRole'' ('''', name)) w = (r, v)" by fastforce
  show ?case
  proof (cases r)
    case (Inr cr)
    then have rest: "run_state (detectMissingClusterRoles E names) v = (Inr missing, w')" using Cons.prems r by simp
    have "Read ''ClusterRole'' ('''', name) cr \<in> set (w_trace v)"
      using r Inr by (auto simp: call_defs reads_of_def split: prod.splits)
    then have "Read ''ClusterRole'' ('''', name) cr \<in> set (w_trace w')" using emits_extends [OF emits_detect rest] by blast
    then show ?thesis using Cons.IH [OF rest] by (force simp: roles_read_def list_ex_iff)
  next
    case (Inl e)
    then obtain rest where "run_state (detectMissingClusterRoles E names) v = (Inr rest, w')" and "missing = name # rest"
      using Cons.prems r by (auto simp: State_Monad.return_def map_sum_eq_Inr split: if_splits prod.splits)
    then show ?thesis using roles_read_mono [OF Cons.IH] by (auto simp: roles_read_def list_all_iff)
  qed
qed

lemma patchStatus_sent:
  assumes "run_state (patchStatus E f) w = (None, w')"
  shows "PatchStatusCall (w_kn w) (f (w_kn w)) \<in> set (w_trace w')" and "set (w_trace w) \<subseteq> set (w_trace w')"
  using assms by (auto simp: patchStatus_def call_defs State_Monad.return_def split: prod.splits sum.splits)

lemma reportAdditionalRBAC_sent:
  assumes "run_state (reportAdditionalRBAC E names missing n) w = (None, w')"
  shows "PatchStatusCall (w_kn w) (additional_status E names missing n (w_kn w)) \<in> set (w_trace w')"
    and "set (w_trace w) \<subseteq> set (w_trace w')"
proof -
  obtain v where v: "run_state (patchStatus E (additional_status E names missing n)) w = (None, v)"
    and tail: "run_state (do {
         (if missing \<noteq> [] then Eventf Warning ''AdditionalRBACPartial'' else State_Monad.return ());
         State_Monad.return None }) v = (None :: go_error option, w')"
    using assms unfolding reportAdditionalRBAC_def and_then_None wrapping_None by blast
  from tail have "w_trace w' = w_trace v" by (auto simp: call_defs State_Monad.return_def split: if_splits)
  then show "PatchStatusCall (w_kn w) (additional_status E names missing n (w_kn w)) \<in> set (w_trace w')"
    and "set (w_trace w) \<subseteq> set (w_trace w')" using patchStatus_sent [OF v] by simp_all
qed

text \<open>What is reported of additional roles is what was seen. When their provisioning succeeds, the status it sends lists the
  roles that are not known to exist, and every requested role outside that list was read from the cluster in this run: in
  particular the condition AdditionalRBACBound is reported as True only when all of them were.\<close>

lemma additional_roles_report_is_true:
  assumes "run_state (deployAdditionalComponentRBAC E) w = (None, w')"
  shows "\<exists>missing old. let names = deduplicate (spec_AdditionalClusterRoles (kn_Spec (w_kn w))) in
    PatchStatusCall old (additional_status E names missing (int (length (additionalRBACComponents (w_kn w)))) old) \<in> set (w_trace w') \<and>
    roles_read names missing (w_trace w')"
proof -
  let ?kn = "w_kn w"
  let ?names = "deduplicate (spec_AdditionalClusterRoles (kn_Spec ?kn))"
  let ?n = "int (length (additionalRBACComponents ?kn))"
  obtain v where "run_state (do {
        recordAdditionalRBACBoundEvents ?names (status_BoundAdditionalClusterRoles (kn_Status ?kn));
        m \<leftarrow> detectMissingClusterRoles E ?names;
        (case m of Inl e \<Rightarrow> State_Monad.return (Some e) | Inr missingRoles \<Rightarrow> reportAdditionalRBAC E ?names missingRoles ?n) }) v
      = (None, w')"
    using assms unfolding deployAdditionalComponentRBAC_def Let_def run_the_kn and_then_None by blast
  then obtain v1 v2 missing where 1: "run_state (detectMissingClusterRoles E ?names) v1 = (Inr missing, v2)"
    and 2: "run_state (reportAdditionalRBAC E ?names missing ?n) v2 = (None, w')"
    by (auto simp: State_Monad.return_def split: prod.splits sum.splits)
  have "roles_read ?names missing (w_trace w')"
    using roles_read_mono [OF detectMissingClusterRoles_evidence [OF 1]] reportAdditionalRBAC_sent(2) [OF 2] by simp
  then show ?thesis using reportAdditionalRBAC_sent(1) [OF 2] by (auto simp: Let_def)
qed


text \<open>A server that has every ClusterRole and nothing else.\<close>

definition roles_get :: "unit \<Rightarrow> string \<Rightarrow> key \<Rightarrow> (api_error + kobj) \<times> unit" where
  "roles_get s kind k = (if kind = ''ClusterRole'' then Inr (named ''ClusterRole'' (snd k)) else Inl (APIError NotFound ''absent''), s)"

definition roles_env :: "unit env" where
  "roles_env = \<lparr>e_get = roles_get, e_apiGet = roles_get, e_list = (\<lambda>s kind ns sel. (Inr [], s)), e_create = (\<lambda>s x. (Inr x, s)),
     e_update = (\<lambda>s x. (Inr x, s)), e_delete = (\<lambda>s x. (None, s)), e_getKn = (\<lambda>s k. (Inr sample_kn, s)),
     e_listKn = (\<lambda>s. (Inr [sample_kn], s)), e_updateKn = (\<lambda>s kn. (Inr kn, s)), e_patchStatusKn = (\<lambda>s old new. (Inr new, s)),
     e_setControllerReference = (\<lambda>kn x. Inr x), e_hasController = (\<lambda>x. False), e_parseGroup = (\<lambda>v. None),
     e_setStatusCondition = sample_setStatusCondition, e_containsFinalizer = (\<lambda>fs f. f \<in> set fs),
     e_addFinalizer = (\<lambda>fs f. f # fs), e_removeFinalizer = (\<lambda>fs f. remove1 f fs), e_jsonDigest = obj_Name,
     e_isStatusConditionTrue = (\<lambda>cs t. False), e_removeStatusCondition = (\<lambda>cs t. cs), e_restMapping = None\<rparr>"

lemma roles_env_sels [simp]:
  "e_get roles_env = roles_get" "e_list roles_env = (\<lambda>s kind ns sel. (Inr [], s))" "e_patchStatusKn roles_env = (\<lambda>s old new. (Inr new, s))"
  by (simp_all add: roles_env_def)

lemma roles_env_ensure [simp]:
  "obj_Kind x \<noteq> ''ClusterRole'' \<Longrightarrow> run_state (ensureUnowned roles_env x) w =
     (None, w\<lparr>w_trace := CreateCall (stamped_desired roles_env (w_kn w) x) # w_trace w\<rparr>)"
  by (simp add: ensureUnowned_def ensureResource_def ensureResourceChanged_def createOrReadExisting_def call_defs reads_of_def
      State_Monad.return_def stamped_desired_def StampOwnership_def setHashAnnotation_def roles_env_def roles_get_def IsNotFound_def Let_def)

definition additional_world :: "unit world" where
  "additional_world = \<lparr>w_cluster = (), w_kn = sample_kn\<lparr>kn_Spec := zero_KubernautSpec\<lparr>spec_AdditionalClusterRoles := [''reader'', ''reader'']\<rparr>\<rparr>,
     w_trace = [], w_events = []\<rparr>"

lemma additional_run: "fst (run_state (deployAdditionalComponentRBAC roles_env) additional_world) = None"
  by (simp add: deployAdditionalComponentRBAC_def deduplicate_def additionalRBACComponents_def additional_world_def Let_def
      the_kn_def and_then_def joined_def ensureAdditionalCRB_def AdditionalComponentCRB_def AdditionalComponentCRBName_def
      maxK8sNameLen_def component_names wrapping_def clusterRoleBinding_def pruneOrphanedAdditionalComponentRBAC_def
      pruneUndesired_def call_defs roles_get_def reads_of_def reportAdditionalRBAC_def patchStatus_def State_Monad.return_def)

lemma additional_roles_report_is_true_example:
  "\<exists>w' missing. run_state (deployAdditionalComponentRBAC roles_env) additional_world = (None, w') \<and>
     roles_read [''reader''] missing (w_trace w')"
proof -
  obtain w' where run: "run_state (deployAdditionalComponentRBAC roles_env) additional_world = (None, w')"
    using additional_run by (metis prod.collapse)
  have "deduplicate (spec_AdditionalClusterRoles (kn_Spec (w_kn additional_world))) = [''reader'']"
    by (simp add: additional_world_def deduplicate_def)
  then show ?thesis using additional_roles_report_is_true [OF run] run by (auto simp: Let_def)
qed

end
