(* ===== verification/Running.thy ===== *)
theory Running
  imports Migration Cleanup
begin

text \<open>
  The end of a reconcile: the conditions that summarise a deployment (\<^verbatim>\<open>finalizeDeployStatus\<close>,
  \<^verbatim>\<open>monitoringConfigView\<close>, \<^verbatim>\<open>monitoringCondition\<close>, \<^verbatim>\<open>handleRBACDeployError\<close>), the optional integrations
  (\<^verbatim>\<open>validateAnsibleConfig\<close>, \<^verbatim>\<open>validateAlertManagerAuthConfig\<close>) and the readiness of the services
  (\<^verbatim>\<open>phaseRunning\<close>), all of \<^verbatim>\<open>internal/controller/kubernaut_controller.go\<close>.
\<close>

subsection \<open>Condition and reason names\<close>

definition ConditionRBACProvisioned :: string where "ConditionRBACProvisioned = ''RBACProvisioned''"
definition ConditionWebhooksConfigured :: string where "ConditionWebhooksConfigured = ''WebhooksConfigured''"
definition ConditionAnsibleReady :: string where "ConditionAnsibleReady = ''AnsibleReady''"
definition ConditionAlertManagerAuthConfigured :: string where
  "ConditionAlertManagerAuthConfigured = ''AlertManagerAuthConfigured''"
definition ConditionExposureReady :: string where "ConditionExposureReady = ''ExposureReady''"
definition ConditionMonitoringReady :: string where "ConditionMonitoringReady = ''MonitoringReady''"
definition ReasonRBACReady :: string where "ReasonRBACReady = ''RBACReady''"
definition ReasonWebhooksReady :: string where "ReasonWebhooksReady = ''WebhooksReady''"
definition ReasonManifestsApplied :: string where "ReasonManifestsApplied = ''ManifestsApplied''"
definition ReasonExposureInternal :: string where "ReasonExposureInternal = ''InternalOnly''"
definition ReasonMonitoringAvailable :: string where "ReasonMonitoringAvailable = ''MonitoringAvailable''"
definition ReasonMonitoringDisabled :: string where "ReasonMonitoringDisabled = ''MonitoringDisabled''"
definition ReasonMonitoringUnavailable :: string where "ReasonMonitoringUnavailable = ''MonitoringUnavailable''"
definition ReasonRBACApplyFailed :: string where "ReasonRBACApplyFailed = ''RBACApplyFailed''"
definition ReasonAnsibleDisabled :: string where "ReasonAnsibleDisabled = ''Disabled''"
definition ReasonAnsibleReady :: string where "ReasonAnsibleReady = ''Ready''"
definition ReasonAnsibleTokenNotFound :: string where "ReasonAnsibleTokenNotFound = ''TokenSecretNotFound''"
definition ReasonAnsibleTokenKeyMissing :: string where "ReasonAnsibleTokenKeyMissing = ''TokenKeyMissing''"
definition ReasonAlertManagerAuthReady :: string where "ReasonAlertManagerAuthReady = ''Ready''"
definition ReasonAlertManagerAuthNotConfigured :: string where
  "ReasonAlertManagerAuthNotConfigured = ''SecretNameNotConfigured''"
definition ReasonAlertManagerAuthSecretMissing :: string where
  "ReasonAlertManagerAuthSecretMissing = ''TokenSecretNotFound''"
definition ReasonAlertManagerAuthKeyMissing :: string where "ReasonAlertManagerAuthKeyMissing = ''TokenKeyMissing''"
definition ReasonAlertManagerAuthGatewayDisabled :: string where
  "ReasonAlertManagerAuthGatewayDisabled = ''GatewayDisabled''"
definition ReasonAlertManagerAuthDisabled :: string where "ReasonAlertManagerAuthDisabled = ''Disabled''"

text \<open>A condition before it is set: its status, reason and message.\<close>

type_synonym verdict = "string \<times> string \<times> string"

definition put_verdict :: "'s env \<Rightarrow> string \<Rightarrow> verdict \<Rightarrow> Kubernaut \<Rightarrow> Kubernaut" where
  "put_verdict E type v kn = (case v of (status, reason, message) \<Rightarrow> set_condition E type status reason message kn)"

subsection \<open>The platform\<close>

definition openShiftAPIServerWatchSupported :: "(string \<Rightarrow> string \<Rightarrow> bool) option \<Rightarrow> bool" where
  "openShiftAPIServerWatchSupported mapper =
     (case mapper of None \<Rightarrow> False | Some mapping \<Rightarrow> mapping ''config.openshift.io'' ''APIServer'')"

definition openShiftPlatformDetected :: "'s env \<Rightarrow> ('s, bool) prog" where
  "openShiftPlatformDetected E =
     (if openShiftAPIServerWatchSupported (e_restMapping E) then State_Monad.return True
      else if (case e_restMapping E of None \<Rightarrow> False | Some mapping \<Rightarrow> mapping ''config.openshift.io'' ''Ingress'')
      then State_Monad.return True
      else do {
        r \<leftarrow> Get E ''Ingress.config.openshift.io'' ('''', ''cluster'');
        State_Monad.return (case r of Inl e \<Rightarrow> False | Inr _ \<Rightarrow> True) })"

definition hasCRD :: "'s env \<Rightarrow> string \<Rightarrow> ('s, bool) prog" where
  "hasCRD E crdName = do {
     r \<leftarrow> Get E CRDKind ('''', crdName);
     State_Monad.return (case r of Inl e \<Rightarrow> False | Inr _ \<Rightarrow> True) }"

subsection \<open>Monitoring\<close>

definition disable_unset_endpoints :: "Kubernaut \<Rightarrow> Kubernaut" where
  "disable_unset_endpoints view =
     (let m = spec_Monitoring (kn_Spec view);
          p = monitoring_Prometheus m;
          a = monitoring_AlertManager m;
          p' = (if prometheus_URL p = '''' then p\<lparr>prometheus_Enabled := Some False\<rparr> else p);
          a' = (if alertManager_URL a = '''' then a\<lparr>alertManager_Enabled := Some False\<rparr> else a)
      in view\<lparr>kn_Spec := (kn_Spec view)\<lparr>spec_Monitoring := m\<lparr>monitoring_Prometheus := p', monitoring_AlertManager := a'\<rparr>\<rparr>\<rparr>)"

definition monitoringConfigView :: "'s env \<Rightarrow> Kubernaut \<Rightarrow> ('s, Kubernaut) prog" where
  "monitoringConfigView E knV2 = do {
     openShift \<leftarrow> openShiftPlatformDetected E;
     State_Monad.return (if openShift then knV2 else disable_unset_endpoints knV2) }"

definition monitoringCondition :: "'s env \<Rightarrow> Kubernaut \<Rightarrow> ('s, verdict) prog" where
  "monitoringCondition E kn = (
     let prometheus = monitoring_Prometheus (spec_Monitoring (kn_Spec kn));
         alertManager = monitoring_AlertManager (spec_Monitoring (kn_Spec kn)) in
     if \<not> PrometheusEnabled prometheus \<and> \<not> AlertManagerEnabled alertManager
     then State_Monad.return (ConditionTrue, ReasonMonitoringDisabled, ''monitoring integrations are explicitly disabled'')
     else do {
       openShift \<leftarrow> openShiftPlatformDetected E;
       (if PrometheusEnabled prometheus \<and> prometheus_URL prometheus = '''' \<and> \<not> openShift
        then State_Monad.return (ConditionFalse, ReasonMonitoringUnavailable,
          ''Prometheus URL is required on generic Kubernetes when OpenShift monitoring was not discovered'')
        else if AlertManagerEnabled alertManager \<and> alertManager_URL alertManager = '''' \<and> \<not> openShift
        then State_Monad.return (ConditionFalse, ReasonMonitoringUnavailable,
          ''AlertManager URL is required on generic Kubernetes when OpenShift monitoring was not discovered'')
        else if PrometheusEnabled prometheus
        then do {
          sm \<leftarrow> hasCRD E ''servicemonitors.monitoring.coreos.com'';
          pr \<leftarrow> hasCRD E ''prometheusrules.monitoring.coreos.com'';
          let missing = (if sm then [] else [''ServiceMonitor'']) @ (if pr then [] else [''PrometheusRule'']);
          State_Monad.return (if missing \<noteq> []
            then (ConditionFalse, ReasonMonitoringUnavailable,
              ''Prometheus Operator APIs are unavailable: '' @ join_strings '', '' missing)
            else (ConditionTrue, ReasonMonitoringAvailable, ''configured monitoring integrations are available'')) }
        else State_Monad.return (ConditionTrue, ReasonMonitoringAvailable, ''configured monitoring integrations are available'')) })"

subsection \<open>The status of a deployment\<close>

text \<open>\<^verbatim>\<open>r.monitoringCondition\<close> is evaluated inside the closure that mutates the resource, before the patch is
  sent; it only reads, and it looks at the specification, which the closure leaves alone.\<close>

definition finalizeDeployStatus :: "'s env \<Rightarrow> ('s, go_error option) prog" where
  "finalizeDeployStatus E = do {
     kn \<leftarrow> the_kn;
     monitoring \<leftarrow> monitoringCondition E kn;
     patchStatus E (\<lambda>kn.
       set_condition E ConditionServicesDeployed ConditionTrue ReasonManifestsApplied ''All service manifests applied''
        (put_verdict E ConditionMonitoringReady monitoring
          (set_condition E ConditionExposureReady ConditionTrue ReasonExposureInternal
             ''external exposure is administrator-owned; operator-managed Services remain internal''
           (set_condition E ConditionWebhooksConfigured ConditionTrue ReasonWebhooksReady ''Admission webhooks configured''
             (set_condition E ConditionRBACProvisioned ConditionTrue ReasonRBACReady ''All RBAC resources provisioned''
               (setPhase PhaseDeploying kn)))))) }"

definition handleRBACDeployError :: "'s env \<Rightarrow> go_error \<Rightarrow> ('s, go_error) prog" where
  "handleRBACDeployError E err = do {
     _ \<leftarrow> patchStatus E (set_condition E ConditionRBACProvisioned ConditionFalse ReasonRBACApplyFailed (error_text err));
     Eventf Warning ReasonRBACApplyFailed;
     State_Monad.return err }"

subsection \<open>Optional integrations\<close>

definition validateAnsibleConfig :: "'s env \<Rightarrow> ('s, verdict) prog" where
  "validateAnsibleConfig E = do {
     kn \<leftarrow> the_kn;
     let ansible = workflowExecution_Ansible (spec_WorkflowExecution (kn_Spec kn));
     (if \<not> ansible_Enabled ansible
      then State_Monad.return (ConditionTrue, ReasonAnsibleDisabled, ''Ansible integration is disabled'')
      else case ansible_TokenSecretRef ansible of
        None \<Rightarrow> State_Monad.return (ConditionFalse, ReasonAnsibleTokenNotFound,
          ''spec.workflowExecution.ansible.tokenSecretRef is not configured'')
      | Some ref \<Rightarrow> do {
          r \<leftarrow> Get E ''Secret'' (kn_Namespace kn, secretKeyRef_Name ref);
          (case r of
             Inl e \<Rightarrow> State_Monad.return (ConditionFalse, ReasonAnsibleTokenNotFound,
               ''Secret '' @ secretKeyRef_Name ref @ '' not found'')
           | Inr secret \<Rightarrow>
              (let tokenKey = (if secretKeyRef_Key ref = '''' then ''token'' else secretKeyRef_Key ref) in
               if \<not> gmap_has (secret_data secret) tokenKey
               then State_Monad.return (ConditionFalse, ReasonAnsibleTokenKeyMissing,
                 ''Secret '' @ secretKeyRef_Name ref @ '' is missing key '' @ tokenKey)
               else State_Monad.return (ConditionTrue, ReasonAnsibleReady, ''Ansible token Secret is valid''))) }) }"

definition alertmanager_token_secret :: "Kubernaut \<Rightarrow> string" where
  "alertmanager_token_secret kn =
     gatewayAlertManagerAuth_TokenSecretName (gatewayAuth_AlertManager (gateway_Auth (spec_Gateway (kn_Spec kn))))"

definition validateAlertManagerAuthConfig :: "'s env \<Rightarrow> ('s, verdict) prog" where
  "validateAlertManagerAuthConfig E = do {
     kn \<leftarrow> the_kn;
     (if \<not> GatewayEnabled (kn_Spec kn)
      then State_Monad.return (ConditionTrue, ReasonAlertManagerAuthGatewayDisabled, ''Gateway is disabled'')
      else if \<not> AuthenticationEnabled (Some (gateway_Auth (spec_Gateway (kn_Spec kn))))
      then State_Monad.return (ConditionTrue, ReasonAlertManagerAuthDisabled,
        ''Gateway authentication is disabled; set spec.gateway.auth.enabled=true to enable it'')
      else (let secretName = alertmanager_token_secret kn in
        if secretName = ''''
        then State_Monad.return (ConditionFalse, ReasonAlertManagerAuthNotConfigured,
          ''spec.gateway.auth.alertManager.tokenSecretName is not set -- AlertManager'' @ [CHR 0x27] @
          ''s webhook calls to Gateway will be unauthenticated and rejected; see docs/installation/03-deploy.md'')
        else do {
          r \<leftarrow> Get E ''Secret'' (kn_Namespace kn, secretName);
          (case r of
             Inl e \<Rightarrow> State_Monad.return (ConditionFalse, ReasonAlertManagerAuthSecretMissing, ''Secret '' @ secretName @ '' not found'')
           | Inr secret \<Rightarrow>
              (if \<not> gmap_has (secret_data secret) ''token''
               then State_Monad.return (ConditionFalse, ReasonAlertManagerAuthKeyMissing,
                 ''Secret '' @ secretName @ '' is missing key token'')
               else State_Monad.return (ConditionTrue, ReasonAlertManagerAuthReady,
                 ''AlertManager gateway token Secret '' @ secretName @ '' is valid''))) })) }"

subsection \<open>Readiness\<close>

definition deployment_replicas :: "kobj \<Rightarrow> int" where
  "deployment_replicas dep = (case obj_Body dep of DeploymentBody (Some n) _ _ _ _ \<Rightarrow> n | _ \<Rightarrow> 1)"

definition deployment_ready :: "kobj \<Rightarrow> int" where
  "deployment_ready dep = (case obj_Body dep of DeploymentBody _ n _ _ _ \<Rightarrow> n | _ \<Rightarrow> 0)"

definition service_status :: "string \<Rightarrow> kobj \<Rightarrow> ServiceStatus" where
  "service_status component dep = \<lparr>serviceStatus_Name = component,
     serviceStatus_Ready = (deployment_ready dep \<ge> deployment_replicas dep),
     serviceStatus_ReadyReplicas = deployment_ready dep, serviceStatus_DesiredReplicas = deployment_replicas dep\<rparr>"

definition missing_status :: "string \<Rightarrow> ServiceStatus" where
  "missing_status component = \<lparr>serviceStatus_Name = component, serviceStatus_Ready = False,
     serviceStatus_ReadyReplicas = 0, serviceStatus_DesiredReplicas = 0\<rparr>"

fun serviceStatuses :: "'s env \<Rightarrow> string \<Rightarrow> string list \<Rightarrow> ('s, ServiceStatus list go) prog" where
  "serviceStatuses E namespace [] = State_Monad.return (Inr [])"
| "serviceStatuses E namespace (component # rest) = do {
     r \<leftarrow> Get E ''Deployment'' (namespace, DeploymentName component);
     (case r of
        Inl e \<Rightarrow>
          (if \<not> IsNotFound e then State_Monad.return (Inl (API e))
           else do {
             more \<leftarrow> serviceStatuses E namespace rest;
             State_Monad.return (case more of Inl e' \<Rightarrow> Inl e' | Inr ss \<Rightarrow> Inr (missing_status component # ss)) })
      | Inr dep \<Rightarrow> do {
          more \<leftarrow> serviceStatuses E namespace rest;
          State_Monad.return (case more of Inl e' \<Rightarrow> Inl e' | Inr ss \<Rightarrow> Inr (service_status component dep # ss)) }) }"

definition running_status ::
  "'s env \<Rightarrow> ServiceStatus list \<Rightarrow> bool \<Rightarrow> verdict \<Rightarrow> verdict \<Rightarrow> Kubernaut \<Rightarrow> Kubernaut" where
  "running_status E services allReady ansible amAuth kn =
     put_verdict E ConditionAlertManagerAuthConfigured amAuth
       (put_verdict E ConditionAnsibleReady ansible
         (setPhase (if allReady then PhaseRunning else PhaseDegraded)
           (kn\<lparr>kn_Status := (kn_Status kn)\<lparr>status_Services := services\<rparr>\<rparr>)))"

definition warn_if_false :: "string \<Rightarrow> verdict \<Rightarrow> ('s, unit) prog" where
  "warn_if_false reason v = (if fst v = ConditionFalse then Eventf Warning reason else State_Monad.return ())"

definition phaseRunning :: "'s env \<Rightarrow> ('s, result \<times> go_error option) prog" where
  "phaseRunning E = do {
     kn \<leftarrow> the_kn;
     r \<leftarrow> serviceStatuses E (kn_Namespace kn) (ActiveComponents kn kn);
     (case r of
        Inl e \<Rightarrow> State_Monad.return (0, Some e)
      | Inr services \<Rightarrow> do {
          let allReady = list_all serviceStatus_Ready services \<and>
                e_isStatusConditionTrue E (status_Conditions (kn_Status kn)) ConditionNetworkPolicyReady;
          ansible \<leftarrow> validateAnsibleConfig E;
          amAuth \<leftarrow> validateAlertManagerAuthConfig E;
          err \<leftarrow> patchStatus E (running_status E services allReady ansible amAuth);
          (case err of
             Some e \<Rightarrow> State_Monad.return (0, Some e)
           | None \<Rightarrow> do {
               warn_if_false ''AnsibleConfigInvalid'' ansible;
               warn_if_false ''AlertManagerAuthNotConfigured'' amAuth;
               State_Monad.return (if allReady then requeueRunning else requeueDegraded, None) }) }) }"

subsection \<open>Running means ready\<close>

lemma put_verdict_sels [simp]:
  "kn_Phase (put_verdict E t v kn) = kn_Phase kn" "kn_ObjectMeta (put_verdict E t v kn) = kn_ObjectMeta kn"
  "kn_Spec (put_verdict E t v kn) = kn_Spec kn"
  "status_Services (kn_Status (put_verdict E t v kn)) = status_Services (kn_Status kn)"
  by (simp_all add: put_verdict_def set_condition_def split: prod.splits)

lemma setPhase_services [simp]: "status_Services (kn_Status (setPhase p kn)) = status_Services (kn_Status kn)"
  by (simp add: setPhase_def put_phase_def Let_def)

lemma running_status_sels:
  "kn_Phase (running_status E services allReady a b kn) = (if allReady then PhaseRunning else PhaseDegraded)"
  "status_Services (kn_Status (running_status E services allReady a b kn)) = services"
  using phaseOrder_le_4 by (simp_all add: running_status_def setPhase_phase)

text \<open>What was observed of a component: its Deployment as read, or that there is none.\<close>

definition observed :: "string \<Rightarrow> call list \<Rightarrow> ServiceStatus \<Rightarrow> bool" where
  "observed namespace tr s \<longleftrightarrow> s = missing_status (serviceStatus_Name s) \<or>
     (\<exists>dep. Read ''Deployment'' (namespace, DeploymentName (serviceStatus_Name s)) dep \<in> set tr \<and>
        s = service_status (serviceStatus_Name s) dep)"

lemma observed_mono: "observed ns tr s \<Longrightarrow> observed ns (cs @ tr) s"
  by (auto simp: observed_def)

lemma run_serviceStatuses:
  assumes "run_state (serviceStatuses E ns cs) w = (Inr services, w')"
  shows "map serviceStatus_Name services = cs \<and> (\<forall>s \<in> set services. observed ns (w_trace w') s) \<and>
    w_kn w' = w_kn w \<and> (\<exists>ds. w_trace w' = ds @ w_trace w)"
  using assms
proof (induction cs arbitrary: w services)
  case (Cons c cs)
  obtain r s where get: "e_get E (w_cluster w) ''Deployment'' (ns, DeploymentName c) = (r, s)" by fastforce
  let ?v = "w\<lparr>w_cluster := s, w_trace := reads_of ''Deployment'' (ns, DeploymentName c) r @ w_trace w\<rparr>"
  obtain m v where rest: "run_state (serviceStatuses E ns cs) ?v = (m, v)" by fastforce
  let ?st = "case r of Inl e \<Rightarrow> missing_status c | Inr dep \<Rightarrow> service_status c dep"
  obtain ss where m: "m = Inr ss" and w': "w' = v" and services: "services = ?st # ss"
    using Cons.prems get rest by (cases r; cases m) (auto simp: Get_def split: if_splits)
  note IH = Cons.IH [OF rest [unfolded m, folded w']]
  have "observed ns (w_trace ?v) ?st"
    by (cases r) (auto simp: observed_def missing_status_def service_status_def reads_of_def)
  then have "observed ns (w_trace w') ?st" using IH observed_mono w' by metis
  moreover have "serviceStatus_Name ?st = c" by (cases r) (simp_all add: missing_status_def service_status_def)
  ultimately show ?case using IH services w' by auto
qed simp

lemma kn_integrations:
  "keeps (\<lambda>v. w_kn v = kn) (validateAnsibleConfig E)" "keeps (\<lambda>v. w_kn v = kn) (validateAlertManagerAuthConfig E)"
  unfolding validateAnsibleConfig_def validateAlertManagerAuthConfig_def by (intro triple_rules)+

lemma emits_integrations:
  "emits (\<lambda>c. \<not> is_write c) (validateAnsibleConfig E)" "emits (\<lambda>c. \<not> is_write c) (validateAlertManagerAuthConfig E)"
  unfolding validateAnsibleConfig_def validateAlertManagerAuthConfig_def Let_def by (intro emits_rules; simp)+

lemma run_warn_if_false:
  "w_trace (snd (run_state (warn_if_false r v) w)) = w_trace w" "w_kn (snd (run_state (warn_if_false r v) w)) = w_kn w"
  by (simp_all add: warn_if_false_def Eventf_def)

text \<open>C10: Running means ready: when the last phase succeeds, the status patch it sent lists exactly the active
  components in order, each with what was read of its Deployment in this run or as missing, and
  its phase is running, with the long interval until the next look, exactly if every one of them has its
  replicas ready and the isolation condition holds; otherwise it is degraded with the short interval.\<close>

theorem running_means_ready:
  assumes "run_state (phaseRunning E) w = ((res, None), w')"
  shows "\<exists>patched. PatchStatusCall (w_kn w) patched \<in> set (w_trace w') \<and>
    map serviceStatus_Name (status_Services (kn_Status patched)) = ActiveComponents (w_kn w) (w_kn w) \<and>
    (\<forall>s \<in> set (status_Services (kn_Status patched)). observed (kn_Namespace (w_kn w)) (w_trace w') s) \<and>
    (if list_all serviceStatus_Ready (status_Services (kn_Status patched)) \<and>
        e_isStatusConditionTrue E (status_Conditions (kn_Status (w_kn w))) ConditionNetworkPolicyReady
     then kn_Phase patched = PhaseRunning \<and> res = requeueRunning
     else kn_Phase patched = PhaseDegraded \<and> res = requeueDegraded)"
proof -
  let ?kn = "w_kn w"
  obtain r v where st: "run_state (serviceStatuses E (kn_Namespace ?kn) (ActiveComponents ?kn ?kn)) w = (r, v)" by fastforce
  then obtain services where r: "r = Inr services"
    using assms by (cases r) (simp_all add: phaseRunning_def the_kn_def)
  note obs = run_serviceStatuses [OF st [unfolded r]]
  let ?all = "list_all serviceStatus_Ready services \<and> e_isStatusConditionTrue E (status_Conditions (kn_Status ?kn)) ConditionNetworkPolicyReady"
  obtain a v1 where an: "run_state (validateAnsibleConfig E) v = (a, v1)" by fastforce
  obtain b v2 where am: "run_state (validateAlertManagerAuthConfig E) v1 = (b, v2)" by fastforce
  have kn: "w_kn v1 = ?kn" "w_kn v2 = ?kn"
    using keepsD [OF kn_integrations(1), of v ?kn E] keepsD [OF kn_integrations(2), of v1 ?kn E] an am obs by simp_all
  have grow: "\<exists>ds. w_trace v2 = ds @ w_trace v"
    using emitsD [OF emits_integrations(1) an] emitsD [OF emits_integrations(2) am] by (metis append.assoc)
  let ?p = "running_status E services ?all a b ?kn"
  obtain err v3 where patch: "run_state (patchStatus E (running_status E services ?all a b)) v2 = (err, v3)" by fastforce
  have tr: "w_trace v3 = PatchStatusCall ?kn ?p # w_trace v2"
    using patch kn by (auto simp: run_patchStatus split: prod.splits sum.splits)
  have run: "err = None" "w_trace w' = w_trace v3" "res = (if ?all then requeueRunning else requeueDegraded)"
    using assms st r an am patch
    by (auto simp: phaseRunning_def the_kn_def Let_def warn_if_false_def Eventf_def split: option.splits if_splits)
  have "\<forall>s \<in> set services. observed (kn_Namespace ?kn) (w_trace w') s"
  proof -
    from tr run(2) grow obtain ds where "w_trace w' = (PatchStatusCall ?kn ?p # ds) @ w_trace v" by auto
    then show ?thesis using obs observed_mono by metis
  qed
  then show ?thesis
    using obs tr run running_status_sels [of E services ?all a b ?kn]
    by (intro exI [of _ ?p]) (auto split: if_splits)
qed

lemma empty_serviceStatuses:
  "cl_objects (w_cluster w) = [] \<Longrightarrow> run_state (serviceStatuses sample_env ns cs) w = (Inr (map missing_status cs), w)"
  by (induction cs arbitrary: w) (simp_all add: Get_def sample_get_def api_fail_def IsNotFound_def reads_of_def)

theorem running_means_ready_witness:
  "\<exists>res w' patched. run_state (phaseRunning sample_env) (sample_world []) = ((res, None), w') \<and>
     PatchStatusCall sample_kn patched \<in> set (w_trace w') \<and>
     map serviceStatus_Name (status_Services (kn_Status patched)) = ActiveComponents sample_kn sample_kn"
proof -
  have off: "\<not> ansible_Enabled (workflowExecution_Ansible (spec_WorkflowExecution (kn_Spec zero_Kubernaut)))"
    "\<not> AuthenticationEnabled (Some (gateway_Auth (spec_Gateway (kn_Spec zero_Kubernaut))))"
    by (simp_all add: zero_Kubernaut_def zero_KubernautSpec_def zero_WorkflowExecutionSpec_def zero_AnsibleSpec_def
        zero_GatewaySpec_def zero_GatewayAuthSpec_def AuthenticationEnabled_def)
  have "\<exists>res w'. run_state (phaseRunning sample_env) (sample_world []) = ((res, None), w')"
    by (simp add: phaseRunning_def the_kn_def empty_serviceStatuses validateAnsibleConfig_def validateAlertManagerAuthConfig_def off
        run_patchStatus sample_patchStatusKn_def warn_if_false_def ConditionTrue_def ConditionFalse_def Let_def)
  then obtain res w' where run: "run_state (phaseRunning sample_env) (sample_world []) = ((res, None), w')" by blast
  from running_means_ready [OF run] run show ?thesis by auto
qed

subsection \<open>Generic clusters do not inherit OpenShift endpoints\<close>

definition only_monitoring_switches :: "Kubernaut \<Rightarrow> Kubernaut \<Rightarrow> bool" where
  "only_monitoring_switches kn view \<longleftrightarrow> (\<exists>p a. view = kn\<lparr>kn_Spec := (kn_Spec kn)\<lparr>spec_Monitoring :=
     (spec_Monitoring (kn_Spec kn))\<lparr>
       monitoring_Prometheus := (monitoring_Prometheus (spec_Monitoring (kn_Spec kn)))\<lparr>prometheus_Enabled := p\<rparr>,
       monitoring_AlertManager := (monitoring_AlertManager (spec_Monitoring (kn_Spec kn)))\<lparr>alertManager_Enabled := a\<rparr>\<rparr>\<rparr>\<rparr>)"

lemma disable_unset_endpoints_switches: "only_monitoring_switches kn (disable_unset_endpoints kn)"
  unfolding only_monitoring_switches_def disable_unset_endpoints_def Let_def
  by (rule exI [of _ "if prometheus_URL (monitoring_Prometheus (spec_Monitoring (kn_Spec kn))) = '''' then Some False
        else prometheus_Enabled (monitoring_Prometheus (spec_Monitoring (kn_Spec kn)))"],
      rule exI [of _ "if alertManager_URL (monitoring_AlertManager (spec_Monitoring (kn_Spec kn))) = '''' then Some False
        else alertManager_Enabled (monitoring_AlertManager (spec_Monitoring (kn_Spec kn)))"])
    simp

text \<open>A generic cluster never inherits OpenShift's monitoring endpoints: where OpenShift is not detected, the
  configuration the builders see points at the explicitly configured Prometheus and AlertManager, or
  at none; it differs from the resource in these two switches only, and where OpenShift is detected
  it is the resource itself.\<close>

lemma monitoring_view_never_guesses:
  assumes "run_state (openShiftPlatformDetected E) w = (openShift, v)"
  shows "(case fst (run_state (monitoringConfigView E kn) w) of view \<Rightarrow>
    only_monitoring_switches kn view \<and>
    (if openShift then view = kn
     else effectivePrometheusURL view =
            (if PrometheusEnabled (monitoring_Prometheus (spec_Monitoring (kn_Spec kn)))
             then prometheus_URL (monitoring_Prometheus (spec_Monitoring (kn_Spec kn))) else '''') \<and>
          effectiveAlertManagerURL view =
            (if AlertManagerEnabled (monitoring_AlertManager (spec_Monitoring (kn_Spec kn)))
             then alertManager_URL (monitoring_AlertManager (spec_Monitoring (kn_Spec kn))) else '''')))"
proof (cases openShift)
  case True
  have "only_monitoring_switches kn kn" unfolding only_monitoring_switches_def
    by (rule exI [of _ "prometheus_Enabled (monitoring_Prometheus (spec_Monitoring (kn_Spec kn)))"],
        rule exI [of _ "alertManager_Enabled (monitoring_AlertManager (spec_Monitoring (kn_Spec kn)))"]) simp
  with True assms show ?thesis by (simp add: monitoringConfigView_def)
next
  case False
  then have "fst (run_state (monitoringConfigView E kn) w) = disable_unset_endpoints kn"
    using assms by (simp add: monitoringConfigView_def)
  then show ?thesis
    using False disable_unset_endpoints_switches
    by (simp add: effectivePrometheusURL_def effectiveAlertManagerURL_def disable_unset_endpoints_def PrometheusEnabled_def
        AlertManagerEnabled_def Let_def)
qed

lemma monitoring_view_never_guesses_example:
  "effectivePrometheusURL (fst (run_state (monitoringConfigView sample_env sample_kn) (sample_world []))) = ''''"
proof -
  have "run_state (openShiftPlatformDetected sample_env) (sample_world []) = (False, sample_world [])"
    by (simp add: openShiftPlatformDetected_def openShiftAPIServerWatchSupported_def Get_def sample_get_def api_fail_def reads_of_def)
  from monitoring_view_never_guesses [OF this, of sample_kn] show ?thesis
    by (simp add: zero_Kubernaut_def zero_KubernautSpec_def zero_MonitoringSpec_def zero_PrometheusSpec_def)
qed

end
