(* ===== verification/Monitoring.thy ===== *)
theory Monitoring
  imports Deployments Rbac_Deploy Running
begin

text \<open>
  Observability and availability objects: the ServiceMonitors and alert rules of \<^verbatim>\<open>internal/resources/monitoring.go\<close>, the
  autoscalers of \<^verbatim>\<open>hpa.go\<close>, the disruption budgets of \<^verbatim>\<open>pdb.go\<close>, the AlertManager receiver of \<^verbatim>\<open>ocp.go\<close> and the cluster TLS
  profile of \<^verbatim>\<open>tlsprofile.go\<close>, with the steps of the controller that provision them
  (\<^verbatim>\<open>reconcileMonitoringAndAlerts\<close> to \<^verbatim>\<open>ensureAPIFrontendMonitoring\<close>).

  What makes them correct is how they fit together: a ServiceMonitor finds Services by label and a port by name, it gives what it
  scrapes a job name, and an alert asks about jobs by name in its expression.
\<close>

subsection \<open>ServiceMonitors\<close>

definition componentServiceMonitor :: "Kubernaut \<Rightarrow> string \<Rightarrow> string \<Rightarrow> kobj" where
  "componentServiceMonitor kn component jobName = \<lparr>obj_Kind = ''ServiceMonitor'', obj_Meta = ObjectMeta kn (component @ ''-monitor'') component,
     obj_Body = ServiceMonitorBody \<lparr>monitor_JobLabel = ''app.kubernetes.io/name'', monitor_Selector = SelectorLabels component,
       monitor_Endpoints = [\<lparr>endpoint_Port = ''metrics'', endpoint_Path = ''/metrics'', endpoint_Interval = ''15s'', endpoint_Scheme = ''http'',
         endpoint_RelabelConfigs = [\<lparr>relabel_SourceLabels = [''__address__''], relabel_TargetLabel = ''job'', relabel_Replacement = jobName\<rparr>]\<rparr>],
       monitor_MatchNames = [kn_Namespace kn]\<rparr>\<rparr>"

text \<open>The three monitors that the source spells out differ from the generic one only in their names.\<close>

definition APIFrontendServiceMonitor :: "Kubernaut \<Rightarrow> kobj" where
  "APIFrontendServiceMonitor kn = \<lparr>obj_Kind = ''ServiceMonitor'', obj_Meta = ObjectMeta kn ''apifrontend-monitor'' ComponentAPIFrontend,
     obj_Body = ServiceMonitorBody \<lparr>monitor_JobLabel = ''app.kubernetes.io/name'', monitor_Selector = SelectorLabels ComponentAPIFrontend,
       monitor_Endpoints = [\<lparr>endpoint_Port = ''metrics'', endpoint_Path = ''/metrics'', endpoint_Interval = ''15s'', endpoint_Scheme = ''http'',
         endpoint_RelabelConfigs = [\<lparr>relabel_SourceLabels = [''__address__''], relabel_TargetLabel = ''job'', relabel_Replacement = ''apifrontend''\<rparr>]\<rparr>],
       monitor_MatchNames = [kn_Namespace kn]\<rparr>\<rparr>"

definition DataStorageServiceMonitor :: "Kubernaut \<Rightarrow> kobj" where
  "DataStorageServiceMonitor kn = \<lparr>obj_Kind = ''ServiceMonitor'', obj_Meta = ObjectMeta kn ''datastorage-monitor'' ComponentDataStorage,
     obj_Body = ServiceMonitorBody \<lparr>monitor_JobLabel = ''app.kubernetes.io/name'', monitor_Selector = SelectorLabels ComponentDataStorage,
       monitor_Endpoints = [\<lparr>endpoint_Port = ''metrics'', endpoint_Path = ''/metrics'', endpoint_Interval = ''15s'', endpoint_Scheme = ''http'',
         endpoint_RelabelConfigs = [\<lparr>relabel_SourceLabels = [''__address__''], relabel_TargetLabel = ''job'', relabel_Replacement = ''datastorage''\<rparr>]\<rparr>],
       monitor_MatchNames = [kn_Namespace kn]\<rparr>\<rparr>"

definition KubernautAgentServiceMonitor :: "Kubernaut \<Rightarrow> kobj" where
  "KubernautAgentServiceMonitor kn = \<lparr>obj_Kind = ''ServiceMonitor'', obj_Meta = ObjectMeta kn ''kubernautagent-monitor'' ComponentKubernautAgent,
     obj_Body = ServiceMonitorBody \<lparr>monitor_JobLabel = ''app.kubernetes.io/name'', monitor_Selector = SelectorLabels ComponentKubernautAgent,
       monitor_Endpoints = [\<lparr>endpoint_Port = ''metrics'', endpoint_Path = ''/metrics'', endpoint_Interval = ''15s'', endpoint_Scheme = ''http'',
         endpoint_RelabelConfigs = [\<lparr>relabel_SourceLabels = [''__address__''], relabel_TargetLabel = ''job'', relabel_Replacement = ''kubernautagent''\<rparr>]\<rparr>],
       monitor_MatchNames = [kn_Namespace kn]\<rparr>\<rparr>"

definition GatewayServiceMonitor :: "Kubernaut \<Rightarrow> kobj" where
  "GatewayServiceMonitor kn = componentServiceMonitor kn ComponentGateway ''gateway''"

definition AIAnalysisServiceMonitor :: "Kubernaut \<Rightarrow> kobj" where
  "AIAnalysisServiceMonitor kn = componentServiceMonitor kn ComponentAIAnalysis ''aianalysis''"

definition SignalProcessingServiceMonitor :: "Kubernaut \<Rightarrow> kobj" where
  "SignalProcessingServiceMonitor kn = componentServiceMonitor kn ComponentSignalProcessing ''signalprocessing''"

definition RemediationOrchestratorServiceMonitor :: "Kubernaut \<Rightarrow> kobj" where
  "RemediationOrchestratorServiceMonitor kn = componentServiceMonitor kn ComponentRemediationOrchestrator ''remediationorchestrator''"

definition WorkflowExecutionServiceMonitor :: "Kubernaut \<Rightarrow> kobj" where
  "WorkflowExecutionServiceMonitor kn = componentServiceMonitor kn ComponentWorkflowExecution ''workflowexecution''"

definition EffectivenessMonitorServiceMonitor :: "Kubernaut \<Rightarrow> kobj" where
  "EffectivenessMonitorServiceMonitor kn = componentServiceMonitor kn ComponentEffectivenessMonitor ''effectivenessmonitor''"

definition NotificationServiceMonitor :: "Kubernaut \<Rightarrow> kobj" where
  "NotificationServiceMonitor kn = componentServiceMonitor kn ComponentNotification ''notification''"

subsection \<open>Alert rules\<close>

definition afAvailabilityRuleGroup :: rule_group where
  \<open>afAvailabilityRuleGroup =
    \<lparr>ruleGroup_Name = ''apifrontend.availability'', ruleGroup_Rules =
     [\<lparr>alert_Alert = ''ApifrontendDown'',
        alert_Expr = ''up{job="apifrontend"} == 0'',
        alert_For = ''5m'', alert_Labels = [(''severity'', ''critical'')],
        alert_Annotations = [(''summary'', ''API Frontend is down''), (''description'', ''The API Frontend service has been unreachable for more than 5 minutes.''), (''runbook_url'', ''https://docs.kubernaut.ai/runbooks/apifrontend-down'')]\<rparr>]\<rparr>\<close>

definition afLatencyRuleGroup :: rule_group where
  \<open>afLatencyRuleGroup =
    \<lparr>ruleGroup_Name = ''apifrontend.latency'', ruleGroup_Rules =
     [\<lparr>alert_Alert = ''ApifrontendHighLatencyP95'',
        alert_Expr = ''histogram_quantile(0.95, sum(rate(af_http_request_duration_seconds_bucket{job="apifrontend"}[5m])) by (le)) > 0.5'',
        alert_For = ''2m'', alert_Labels = [(''severity'', ''warning'')],
        alert_Annotations = [(''summary'', ''API Frontend P95 latency > 500ms''), (''runbook_url'', ''https://docs.kubernaut.ai/runbooks/apifrontend-high-latency'')]\<rparr>,
      \<lparr>alert_Alert = ''ApifrontendHighLatencyP99'',
        alert_Expr = ''histogram_quantile(0.99, sum(rate(af_http_request_duration_seconds_bucket{job="apifrontend"}[5m])) by (le)) > 1.0'',
        alert_For = ''2m'', alert_Labels = [(''severity'', ''critical'')],
        alert_Annotations = [(''summary'', ''API Frontend P99 latency > 1s''), (''runbook_url'', ''https://docs.kubernaut.ai/runbooks/apifrontend-high-latency'')]\<rparr>]\<rparr>\<close>

definition afErrorsRuleGroup :: rule_group where
  \<open>afErrorsRuleGroup =
    \<lparr>ruleGroup_Name = ''apifrontend.errors'', ruleGroup_Rules =
     [\<lparr>alert_Alert = ''ApifrontendHighErrorRate'',
        alert_Expr = ''sum(rate(af_http_requests_total{job="apifrontend",status=~"5.."}[5m])) / sum(rate(af_http_requests_total{job="apifrontend"}[5m])) > 0.01'',
        alert_For = ''2m'', alert_Labels = [(''severity'', ''critical'')],
        alert_Annotations = [(''summary'', ''API Frontend error rate > 1%''), (''runbook_url'', ''https://docs.kubernaut.ai/runbooks/apifrontend-high-error-rate'')]\<rparr>]\<rparr>\<close>

definition afAuthRuleGroup :: rule_group where
  \<open>afAuthRuleGroup =
    \<lparr>ruleGroup_Name = ''apifrontend.auth'', ruleGroup_Rules =
     [\<lparr>alert_Alert = ''ApifrontendAuthFailureSpike'',
        alert_Expr = ''sum(rate(af_http_requests_total{job="apifrontend",status="401"}[5m])) / sum(rate(af_http_requests_total{job="apifrontend"}[5m])) > 0.1'',
        alert_For = ''2m'', alert_Labels = [(''severity'', ''critical'')],
        alert_Annotations = [(''summary'', ''API Frontend auth failure rate > 10%''), (''runbook_url'', ''https://docs.kubernaut.ai/runbooks/apifrontend-auth-failure'')]\<rparr>]\<rparr>\<close>

definition afCircuitBreakerRuleGroup :: rule_group where
  \<open>afCircuitBreakerRuleGroup =
    \<lparr>ruleGroup_Name = ''apifrontend.circuitbreaker'', ruleGroup_Rules =
     [\<lparr>alert_Alert = ''ApifrontendCircuitBreakerOpenKA'',
        alert_Expr = ''af_circuit_breaker_state{job="apifrontend",dependency="ka"} == 2'',
        alert_For = ''2m'', alert_Labels = [(''severity'', ''critical'')],
        alert_Annotations = [(''summary'', ''KA circuit breaker is open''), (''runbook_url'', ''https://docs.kubernaut.ai/runbooks/apifrontend-circuit-breaker'')]\<rparr>,
      \<lparr>alert_Alert = ''ApifrontendCircuitBreakerOpenDS'',
        alert_Expr = ''af_circuit_breaker_state{job="apifrontend",dependency="ds"} == 2'',
        alert_For = ''2m'', alert_Labels = [(''severity'', ''warning'')],
        alert_Annotations = [(''summary'', ''DS circuit breaker is open''), (''runbook_url'', ''https://docs.kubernaut.ai/runbooks/apifrontend-circuit-breaker'')]\<rparr>]\<rparr>\<close>

definition afToolsRuleGroup :: rule_group where
  \<open>afToolsRuleGroup =
    \<lparr>ruleGroup_Name = ''apifrontend.tools'', ruleGroup_Rules =
     [\<lparr>alert_Alert = ''ApifrontendToolErrorRate'',
        alert_Expr = ''sum(rate(af_tool_calls_total{job="apifrontend",result=~"error|timeout|panic"}[5m])) / sum(rate(af_tool_calls_total{job="apifrontend"}[5m])) > 0.05'',
        alert_For = ''5m'', alert_Labels = [(''severity'', ''critical'')],
        alert_Annotations = [(''summary'', ''MCP tool error rate > 5%''), (''runbook_url'', ''https://docs.kubernaut.ai/runbooks/apifrontend-tool-error-rate'')]\<rparr>]\<rparr>\<close>

definition APIFrontendPrometheusRule :: "Kubernaut \<Rightarrow> kobj" where
  \<open>APIFrontendPrometheusRule kn = \<lparr>obj_Kind = ''PrometheusRule'', obj_Meta = ObjectMeta kn ''apifrontend-rules'' ComponentAPIFrontend,
   obj_Body = PrometheusRuleBody
    [afAvailabilityRuleGroup,
     afLatencyRuleGroup,
     afErrorsRuleGroup,
     afAuthRuleGroup,
     afCircuitBreakerRuleGroup,
     afToolsRuleGroup]\<rparr>\<close>

definition DataStoragePrometheusRule :: "Kubernaut \<Rightarrow> kobj" where
  \<open>DataStoragePrometheusRule kn = \<lparr>obj_Kind = ''PrometheusRule'', obj_Meta = ObjectMeta kn ''datastorage-rules'' ComponentDataStorage,
   obj_Body = PrometheusRuleBody
    [\<lparr>ruleGroup_Name = ''datastorage.availability'', ruleGroup_Rules =
     [\<lparr>alert_Alert = ''DataStorageDown'',
        alert_Expr = ''up{job="datastorage"} == 0'',
        alert_For = ''5m'', alert_Labels = [(''severity'', ''critical'')],
        alert_Annotations = [(''summary'', ''DataStorage is down'')]\<rparr>]\<rparr>,
     \<lparr>ruleGroup_Name = ''datastorage.dlq'', ruleGroup_Rules =
     [\<lparr>alert_Alert = ''DataStorageDLQDepthHigh'',
        alert_Expr = ''ds_dlq_depth{job="datastorage"} > 100'',
        alert_For = ''5m'', alert_Labels = [(''severity'', ''warning'')],
        alert_Annotations = [(''summary'', ''DS DLQ depth > 100 for 5m'')]\<rparr>,
      \<lparr>alert_Alert = ''DataStorageDLQProcessingErrors'',
        alert_Expr = ''rate(ds_dlq_processing_errors_total{job="datastorage"}[5m]) > 0.1'',
        alert_For = ''5m'', alert_Labels = [(''severity'', ''critical'')],
        alert_Annotations = [(''summary'', ''DS DLQ processing error rate elevated'')]\<rparr>]\<rparr>,
     \<lparr>ruleGroup_Name = ''datastorage.latency'', ruleGroup_Rules =
     [\<lparr>alert_Alert = ''DataStorageHighLatencyP95'',
        alert_Expr = ''histogram_quantile(0.95, sum(rate(ds_http_request_duration_seconds_bucket{job="datastorage"}[5m])) by (le)) > 1'',
        alert_For = ''5m'', alert_Labels = [(''severity'', ''warning'')],
        alert_Annotations = [(''summary'', ''DataStorage P95 latency > 1s'')]\<rparr>]\<rparr>,
     \<lparr>ruleGroup_Name = ''datastorage.database'', ruleGroup_Rules =
     [\<lparr>alert_Alert = ''DataStorageDBConnectionPoolExhausted'',
        alert_Expr = ''ds_db_pool_idle_connections{job="datastorage"} == 0 and ds_db_pool_active_connections{job="datastorage"} >= ds_db_pool_max_connections{job="datastorage"}'',
        alert_For = ''2m'', alert_Labels = [(''severity'', ''critical'')],
        alert_Annotations = [(''summary'', ''DS database connection pool exhausted'')]\<rparr>]\<rparr>]\<rparr>\<close>

definition KubernautAgentPrometheusRule :: "Kubernaut \<Rightarrow> kobj" where
  \<open>KubernautAgentPrometheusRule kn = \<lparr>obj_Kind = ''PrometheusRule'', obj_Meta = ObjectMeta kn ''kubernautagent-rules'' ComponentKubernautAgent,
   obj_Body = PrometheusRuleBody
    [\<lparr>ruleGroup_Name = ''kubernautagent.availability'', ruleGroup_Rules =
     [\<lparr>alert_Alert = ''KubernautAgentDown'',
        alert_Expr = ''up{job="kubernautagent"} == 0'',
        alert_For = ''5m'', alert_Labels = [(''severity'', ''critical'')],
        alert_Annotations = [(''summary'', ''Kubernaut Agent is down''), (''description'', ''The Kubernaut Agent service has been unreachable for more than 5 minutes.''), (''runbook_url'', ''https://docs.kubernaut.ai/runbooks/kubernautagent-down'')]\<rparr>]\<rparr>,
     \<lparr>ruleGroup_Name = ''kubernautagent.sessions'', ruleGroup_Rules =
     [\<lparr>alert_Alert = ''KubernautAgentSessionDurationHigh'',
        alert_Expr = ''histogram_quantile(0.95, sum(rate(ka_session_duration_seconds_bucket{job="kubernautagent"}[15m])) by (le)) > 600'',
        alert_For = ''10m'', alert_Labels = [(''severity'', ''warning'')],
        alert_Annotations = [(''summary'', ''KA P95 session duration > 10 minutes''), (''runbook_url'', ''https://docs.kubernaut.ai/runbooks/kubernautagent-session-duration'')]\<rparr>,
      \<lparr>alert_Alert = ''KubernautAgentActiveSessionsSaturated'',
        alert_Expr = ''ka_active_sessions{job="kubernautagent"} >= 10'',
        alert_For = ''5m'', alert_Labels = [(''severity'', ''warning'')],
        alert_Annotations = [(''summary'', ''KA active sessions >= 10 for 5m''), (''runbook_url'', ''https://docs.kubernaut.ai/runbooks/kubernautagent-sessions-saturated'')]\<rparr>]\<rparr>,
     \<lparr>ruleGroup_Name = ''kubernautagent.tools'', ruleGroup_Rules =
     [\<lparr>alert_Alert = ''KubernautAgentToolErrorRate'',
        alert_Expr = ''sum(rate(ka_tool_calls_total{job="kubernautagent",result=~"error|timeout|panic"}[5m])) / sum(rate(ka_tool_calls_total{job="kubernautagent"}[5m])) > 0.05'',
        alert_For = ''5m'', alert_Labels = [(''severity'', ''critical'')],
        alert_Annotations = [(''summary'', ''KA tool error rate > 5%''), (''runbook_url'', ''https://docs.kubernaut.ai/runbooks/kubernautagent-tool-error-rate'')]\<rparr>]\<rparr>,
     \<lparr>ruleGroup_Name = ''kubernautagent.llm'', ruleGroup_Rules =
     [\<lparr>alert_Alert = ''KubernautAgentLLMErrorRate'',
        alert_Expr = ''sum(rate(ka_llm_requests_total{job="kubernautagent",status="error"}[5m])) / sum(rate(ka_llm_requests_total{job="kubernautagent"}[5m])) > 0.05'',
        alert_For = ''5m'', alert_Labels = [(''severity'', ''critical'')],
        alert_Annotations = [(''summary'', ''KA LLM error rate > 5%''), (''runbook_url'', ''https://docs.kubernaut.ai/runbooks/kubernautagent-llm-error-rate'')]\<rparr>,
      \<lparr>alert_Alert = ''KubernautAgentLLMHighLatency'',
        alert_Expr = ''histogram_quantile(0.95, sum(rate(ka_llm_request_duration_seconds_bucket{job="kubernautagent"}[5m])) by (le)) > 30'',
        alert_For = ''5m'', alert_Labels = [(''severity'', ''warning'')],
        alert_Annotations = [(''summary'', ''KA LLM P95 latency > 30s''), (''runbook_url'', ''https://docs.kubernaut.ai/runbooks/kubernautagent-llm-latency'')]\<rparr>]\<rparr>]\<rparr>\<close>

subsection \<open>Autoscalers and disruption budgets\<close>

record HPASpec =
  hpaSpec_Component :: string
  hpaSpec_MinReplicas :: int
  hpaSpec_MaxReplicas :: int
  hpaSpec_CPUTargetPercent :: int
  hpaSpec_MemoryTargetPercent :: int

definition buildHPA :: "Kubernaut \<Rightarrow> HPASpec \<Rightarrow> kobj" where
  "buildHPA kn spec = \<lparr>obj_Kind = ''HorizontalPodAutoscaler'',
     obj_Meta = ObjectMeta kn (hpaSpec_Component spec @ ''-hpa'') (hpaSpec_Component spec),
     obj_Body = HPABody \<lparr>hpa_ScaleTargetRef = (''apps/v1'', ''Deployment'', DeploymentName (hpaSpec_Component spec)),
       hpa_MinReplicas = hpaSpec_MinReplicas spec, hpa_MaxReplicas = hpaSpec_MaxReplicas spec,
       hpa_Metrics = [\<lparr>metric_Name = ''cpu'', metric_AverageUtilization = hpaSpec_CPUTargetPercent spec\<rparr>]
         @ (if hpaSpec_MemoryTargetPercent spec > 0
            then [\<lparr>metric_Name = ''memory'', metric_AverageUtilization = hpaSpec_MemoryTargetPercent spec\<rparr>] else [])\<rparr>\<rparr>"

definition DataStorageHPA :: "Kubernaut \<Rightarrow> kobj" where
  "DataStorageHPA kn = buildHPA kn \<lparr>hpaSpec_Component = ComponentDataStorage, hpaSpec_MinReplicas = 1, hpaSpec_MaxReplicas = 5,
     hpaSpec_CPUTargetPercent = 75, hpaSpec_MemoryTargetPercent = 80\<rparr>"

definition APIFrontendHPA :: "Kubernaut \<Rightarrow> kobj" where
  "APIFrontendHPA kn = buildHPA kn \<lparr>hpaSpec_Component = ComponentAPIFrontend, hpaSpec_MinReplicas = 1, hpaSpec_MaxReplicas = 5,
     hpaSpec_CPUTargetPercent = 75, hpaSpec_MemoryTargetPercent = 80\<rparr>"

definition PDBMaxUnavailable :: int where "PDBMaxUnavailable = 1"

definition PodDisruptionBudgets :: "Kubernaut \<Rightarrow> Kubernaut \<Rightarrow> kobj list" where
  "PodDisruptionBudgets kn knV2 =
     map (\<lambda>component. \<lparr>obj_Kind = ''PodDisruptionBudget'', obj_Meta = ObjectMeta kn component component,
            obj_Body = PDBBody PDBMaxUnavailable (SelectorLabels component)\<rparr>)
       (filter (isComponentActive kn knV2) AllComponents)"

subsection \<open>AlertManager\<close>

definition GatewayAlertManagerConfig :: "Kubernaut \<Rightarrow> kobj" where
  "GatewayAlertManagerConfig kn =
     (let gwURL = ''https://gateway-service.'' @ kn_Namespace kn @ ''.svc.cluster.local:'' @ show_int PortHTTPS @ ''/api/v1/signals/prometheus'';
          auth = Some (gateway_Auth (spec_Gateway (kn_Spec kn)));
          secretName = alertmanager_token_secret kn
      in \<lparr>obj_Kind = ''AlertmanagerConfig'', obj_Meta = ObjectMeta kn ''kubernaut-gateway-alerts'' ComponentGateway,
          obj_Body = AlertmanagerConfigBody \<lparr>amConfig_Receiver = ''gateway-webhook'', amConfig_GroupBy = [''alertname'', ''namespace''],
            amConfig_GroupWait = ''5s'', amConfig_GroupInterval = ''5s'',
            amConfig_Receivers = [(''gateway-webhook'', [\<lparr>amWebhook_URL = gwURL, amWebhook_SendResolved = False,
              amWebhook_CA = (TrustBundleConfigMapName, ''service-ca.crt''),
              amWebhook_Authorization = (if AuthenticationEnabled auth \<and> secretName \<noteq> ''''
                then Some (''Bearer'', secretName, ''token'') else None)\<rparr>])]\<rparr>\<rparr>)"

subsection \<open>The cluster's TLS profile\<close>

definition TLSProfileNameOld :: string where "TLSProfileNameOld = ''Old''"
definition TLSProfileNameIntermediate :: string where "TLSProfileNameIntermediate = ''Intermediate''"
definition TLSProfileNameModern :: string where "TLSProfileNameModern = ''Modern''"

definition mapCustomProfile :: "string option \<Rightarrow> string" where
  "mapCustomProfile custom = (case custom of
     None \<Rightarrow> TLSProfileNameIntermediate
   | Some minTLSVersion \<Rightarrow>
       (if minTLSVersion = ''VersionTLS13'' then TLSProfileNameModern
        else if minTLSVersion = ''VersionTLS12'' then TLSProfileNameIntermediate else TLSProfileNameOld))"

definition MapTLSProfile :: "tls_security_profile option \<Rightarrow> string" where
  "MapTLSProfile profile = (case profile of
     None \<Rightarrow> ''''
   | Some p \<Rightarrow>
       (if profile_Type p = ''Old'' then TLSProfileNameOld
        else if profile_Type p = ''Intermediate'' then TLSProfileNameIntermediate
        else if profile_Type p = ''Modern'' then TLSProfileNameModern
        else if profile_Type p = ''Custom'' then mapCustomProfile (profile_Custom p)
        else ''''))"

definition resolveClusterTLSProfile :: "'s env \<Rightarrow> ('s, string) prog" where
  "resolveClusterTLSProfile E = do {
     r \<leftarrow> Get E ''APIServer'' ('''', ''cluster'');
     State_Monad.return (case r of
        Inl e \<Rightarrow> ''''
      | Inr apiServer \<Rightarrow> (case obj_Body apiServer of APIServerBody profile \<Rightarrow> MapTLSProfile profile | _ \<Rightarrow> '''')) }"

subsection \<open>Provisioning\<close>

definition pruneLegacyAuthWebhookServiceMonitor :: "'s env \<Rightarrow> ('s, go_error option) prog" where
  "pruneLegacyAuthWebhookServiceMonitor E = do {
     kn \<leftarrow> the_kn;
     r \<leftarrow> Get E ''ServiceMonitor'' (kn_Namespace kn, ''authwebhook-monitor'');
     (case r of
        Inl e \<Rightarrow> State_Monad.return (if IsNotFound e then None else Some (Wrap ''getting legacy AuthWebhook ServiceMonitor'' (API e)))
      | Inr legacy \<Rightarrow> wrapping ''deleting legacy AuthWebhook ServiceMonitor'' (deleteIfExists E legacy)) }"

definition componentMonitors :: "Kubernaut \<Rightarrow> kobj list" where
  "componentMonitors kn = [DataStorageServiceMonitor kn, KubernautAgentServiceMonitor kn]
     @ (if GatewayEnabled (kn_Spec kn) then [GatewayServiceMonitor kn] else [])
     @ [AIAnalysisServiceMonitor kn, SignalProcessingServiceMonitor kn, RemediationOrchestratorServiceMonitor kn,
        WorkflowExecutionServiceMonitor kn, EffectivenessMonitorServiceMonitor kn, NotificationServiceMonitor kn]"

definition deployMonitoring :: "'s env \<Rightarrow> bool \<Rightarrow> bool \<Rightarrow> ('s, go_error option) prog" where
  "deployMonitoring E serviceMonitorsAvailable prometheusRulesAvailable = do {
     kn \<leftarrow> the_kn;
     and_then (if prometheusRulesAvailable
         then ensure_each (ensureNamespaced E) (\<lambda>rule. ''ensuring '' @ obj_Name rule @ '' PrometheusRule'')
           [DataStoragePrometheusRule kn, KubernautAgentPrometheusRule kn]
         else State_Monad.return None)
       (if \<not> serviceMonitorsAvailable then State_Monad.return None
        else and_then (ensure_each (ensureNamespaced E) (\<lambda>sm. ''ensuring '' @ obj_Name sm @ '' ServiceMonitor'') (componentMonitors kn))
               (pruneLegacyAuthWebhookServiceMonitor E)) }"

definition reconcilePrometheusMonitoring :: "'s env \<Rightarrow> bool \<Rightarrow> bool \<Rightarrow> bool \<Rightarrow> ('s, go_error option) prog" where
  "reconcilePrometheusMonitoring E prometheusEnabled serviceMonitorsAvailable prometheusRulesAvailable =
     (if \<not> prometheusEnabled
      then (if \<not> serviceMonitorsAvailable then State_Monad.return None else pruneLegacyAuthWebhookServiceMonitor E)
      else if \<not> serviceMonitorsAvailable \<and> \<not> prometheusRulesAvailable then State_Monad.return None
      else deployMonitoring E serviceMonitorsAvailable prometheusRulesAvailable)"

definition reconcileMonitoringAndAlerts :: "'s env \<Rightarrow> Kubernaut \<Rightarrow> ('s, go_error option) prog" where
  "reconcileMonitoringAndAlerts E knV2 = do {
     kn \<leftarrow> the_kn;
     view \<leftarrow> monitoringConfigView E knV2;
     let monitoring = spec_Monitoring (kn_Spec view);
     serviceMonitorsAvailable \<leftarrow> hasCRD E ''servicemonitors.monitoring.coreos.com'';
     prometheusRulesAvailable \<leftarrow> hasCRD E ''prometheusrules.monitoring.coreos.com'';
     and_then (reconcilePrometheusMonitoring E (PrometheusEnabled (monitoring_Prometheus monitoring)) serviceMonitorsAvailable prometheusRulesAvailable)
       (if GatewayEnabled (kn_Spec kn) \<and> AlertManagerEnabled (monitoring_AlertManager monitoring)
        then do {
          available \<leftarrow> hasCRD E ''alertmanagerconfigs.monitoring.coreos.com'';
          (if available then wrapping ''ensuring Gateway AlertManagerConfig'' (ensureNamespaced E (GatewayAlertManagerConfig kn))
           else State_Monad.return None) }
        else State_Monad.return None) }"

definition ensureAPIFrontendMonitoring :: "'s env \<Rightarrow> ('s, go_error option) prog" where
  "ensureAPIFrontendMonitoring E = do {
     kn \<leftarrow> the_kn;
     available \<leftarrow> hasCRD E ''servicemonitors.monitoring.coreos.com'';
     (if \<not> available then State_Monad.return None
      else and_then (wrapping ''ensuring AF ServiceMonitor'' (ensureNamespaced E (APIFrontendServiceMonitor kn)))
             (wrapping ''ensuring AF PrometheusRule'' (ensureNamespaced E (APIFrontendPrometheusRule kn)))) }"

definition deployAPIFrontendExtras :: "'s env \<Rightarrow> ('s, go_error option) prog" where
  "deployAPIFrontendExtras E = do {
     kn \<leftarrow> the_kn;
     and_then (wrapping ''ensuring AF HPA'' (ensureNamespaced E (APIFrontendHPA kn))) (ensureAPIFrontendMonitoring E) }"

subsection \<open>Writes stay safe\<close>

lemma safe_hasCRD [triple_rules]: "keeps (safe ok me) (hasCRD E crd)"
  unfolding hasCRD_def by (intro triple_rules)

lemma safe_monitoringConfigView [triple_rules]: "keeps (safe ok me) (monitoringConfigView E kn)"
  unfolding monitoringConfigView_def openShiftPlatformDetected_def by (intro triple_rules)

lemma safe_resolveClusterTLSProfile [triple_rules]: "keeps (safe ok me) (resolveClusterTLSProfile E)"
  unfolding resolveClusterTLSProfile_def by (intro triple_rules)

lemma safe_monitoring [triple_rules]:
  assumes "identity_stable E" and "\<And>y. mine E me y \<Longrightarrow> ok y"
  shows "keeps (safe ok me) (reconcileMonitoringAndAlerts E knV2)" "keeps (safe ok me) (deployAPIFrontendExtras E)"
  unfolding reconcileMonitoringAndAlerts_def reconcilePrometheusMonitoring_def deployMonitoring_def
    pruneLegacyAuthWebhookServiceMonitor_def deployAPIFrontendExtras_def ensureAPIFrontendMonitoring_def
  by (intro triple_rules assms; assumption?)+

subsection \<open>Alerts ask about what is scraped\<close>

text \<open>A ServiceMonitor finds a Service by its labels and namespace, and scrapes the ports it names; what it scrapes carries the job
  name its relabelling sets. \<open>jobs_in\<close> reads the job names an alert's expression asks about.\<close>

definition scrapes :: "kobj \<Rightarrow> kobj \<Rightarrow> bool" where
  "scrapes monitor svc \<longleftrightarrow> (case (obj_Body monitor, obj_Body svc) of
     (ServiceMonitorBody m, ServiceBody s) \<Rightarrow>
       monitor_Selector m \<subseteq>\<^sub>m obj_Labels svc \<and> obj_Namespace svc \<in> set (monitor_MatchNames m) \<and>
       list_all (\<lambda>e. endpoint_Port e \<in> set (map port_Name (service_Ports s))) (monitor_Endpoints m)
   | _ \<Rightarrow> False)"

definition monitor_jobs :: "kobj \<Rightarrow> string list" where
  "monitor_jobs monitor = (case obj_Body monitor of
     ServiceMonitorBody m \<Rightarrow> concat (map (\<lambda>e. map relabel_Replacement (filter (\<lambda>r. relabel_TargetLabel r = ''job'') (endpoint_RelabelConfigs e)))
       (monitor_Endpoints m))
   | _ \<Rightarrow> [])"

fun jobs_in :: "string \<Rightarrow> string list" where
  "jobs_in [] = []"
| "jobs_in (c # s) = (if take 5 (c # s) = [CHR ''j'', CHR ''o'', CHR ''b'', CHR ''='', CHR 0x22]
     then takeWhile (\<lambda>d. d \<noteq> CHR 0x22) (drop 4 s) # jobs_in s else jobs_in s)"

definition alert_exprs :: "kobj \<Rightarrow> string list" where
  "alert_exprs rule = (case obj_Body rule of
     PrometheusRuleBody groups \<Rightarrow> concat (map (\<lambda>g. map alert_Expr (ruleGroup_Rules g)) groups) | _ \<Rightarrow> [])"

text \<open>The monitors and rules of a reconcile with both kinds installed, the rule beside the monitor of its component.\<close>

definition provisioned_monitors :: "Kubernaut \<Rightarrow> kobj list" where
  "provisioned_monitors kn = componentMonitors kn @ (if APIFrontendEnabled (kn_Spec kn) then [APIFrontendServiceMonitor kn] else [])"

definition provisioned_rules :: "Kubernaut \<Rightarrow> kobj list" where
  "provisioned_rules kn = [DataStoragePrometheusRule kn, KubernautAgentPrometheusRule kn]
     @ (if APIFrontendEnabled (kn_Spec kn) then [APIFrontendPrometheusRule kn] else [])"

lemma alert_jobs:
  "list_all (\<lambda>e. jobs_in e \<noteq> [] \<and> set (jobs_in e) = {''datastorage''}) (alert_exprs (DataStoragePrometheusRule kn))"
  "list_all (\<lambda>e. jobs_in e \<noteq> [] \<and> set (jobs_in e) = {''kubernautagent''}) (alert_exprs (KubernautAgentPrometheusRule kn))"
  "list_all (\<lambda>e. jobs_in e \<noteq> [] \<and> set (jobs_in e) = {''apifrontend''}) (alert_exprs (APIFrontendPrometheusRule kn))"
  by (simp_all add: alert_exprs_def DataStoragePrometheusRule_def KubernautAgentPrometheusRule_def APIFrontendPrometheusRule_def
      afAvailabilityRuleGroup_def afLatencyRuleGroup_def afErrorsRuleGroup_def afAuthRuleGroup_def afCircuitBreakerRuleGroup_def afToolsRuleGroup_def)

lemma monitor_views:
  "monitor_jobs (componentServiceMonitor kn component job) = [job]"
  "monitor_jobs (DataStorageServiceMonitor kn) = [''datastorage'']" "monitor_jobs (KubernautAgentServiceMonitor kn) = [''kubernautagent'']"
  "monitor_jobs (APIFrontendServiceMonitor kn) = [''apifrontend'']"
  by (simp_all add: monitor_jobs_def componentServiceMonitor_def DataStorageServiceMonitor_def KubernautAgentServiceMonitor_def APIFrontendServiceMonitor_def)

definition offers_metrics :: "Kubernaut \<Rightarrow> string \<Rightarrow> kobj \<Rightarrow> bool" where
  "offers_metrics kn component svc \<longleftrightarrow> obj_Labels svc ''app'' = Some component \<and> obj_Namespace svc = kn_Namespace kn \<and>
     (case obj_Body svc of ServiceBody s \<Rightarrow> ''metrics'' \<in> set (map port_Name (service_Ports s)) | _ \<Rightarrow> False)"

lemma offers_service:
  "offers_metrics kn component (service_object kn name component' ports) \<longleftrightarrow> component' = component \<and> ''metrics'' \<in> set (map port_Name ports)"
  "offers_metrics kn component (set_annotations a svc) = offers_metrics kn component svc"
  by (auto simp: offers_metrics_def service_object_def ObjectMeta_def ComponentLabels_def)

lemma offers_applied [simp]: "offers_metrics kn component (applyTLSServiceMetadata kn' c svc) = offers_metrics kn component svc"
  by (simp add: applyTLSServiceMetadata_def offers_service Let_def split: sum.split)

lemma offers_built [simp]:
  "offers_metrics kn component (buildService kn d) \<longleftrightarrow> def_Component d = component \<and> ''metrics'' \<in> set (map port_Name (def_Ports d))"
  by (simp add: buildService_def offers_service Let_def)

lemma monitors_scrape:
  "offers_metrics kn component svc \<Longrightarrow> scrapes (componentServiceMonitor kn component job) svc"
  "offers_metrics kn ComponentDataStorage svc \<Longrightarrow> scrapes (DataStorageServiceMonitor kn) svc"
  "offers_metrics kn ComponentKubernautAgent svc \<Longrightarrow> scrapes (KubernautAgentServiceMonitor kn) svc"
  "offers_metrics kn ComponentAPIFrontend svc \<Longrightarrow> scrapes (APIFrontendServiceMonitor kn) svc"
  by (auto simp: offers_metrics_def scrapes_def componentServiceMonitor_def DataStorageServiceMonitor_def KubernautAgentServiceMonitor_def
      APIFrontendServiceMonitor_def SelectorLabels_def map_le_def split: body.splits)

lemma metrics_offered:
  "list_ex (offers_metrics kn component) (Services kn knV2 @ MetricsServices kn)"
  if "component \<in> {ComponentDataStorage, ComponentKubernautAgent, ComponentAIAnalysis, ComponentSignalProcessing, ComponentRemediationOrchestrator,
     ComponentWorkflowExecution, ComponentEffectivenessMonitor, ComponentNotification} \<or> (component = ComponentGateway \<and> GatewayEnabled (kn_Spec kn))
     \<or> (component = ComponentAPIFrontend \<and> APIFrontendEnabled (kn_Spec kn))"
  using that unfolding Services_def MetricsServices_def
  by (auto simp: apiServices_def metricsServiceDefinitions_def ServicePort_def component_distinct apiFrontendService_def offers_service Let_def)

lemma scraped:
  assumes "list_ex (offers_metrics kn component) svcs" and "\<And>svc. offers_metrics kn component svc \<Longrightarrow> scrapes m svc"
  shows "list_ex (scrapes m) svcs"
  using assms by (auto simp: list_ex_iff)

lemmas scraped_by = scraped [OF metrics_offered monitors_scrape(1)] scraped [OF metrics_offered monitors_scrape(2)]
  scraped [OF metrics_offered monitors_scrape(3)] scraped [OF metrics_offered monitors_scrape(4)]

lemma monitors_find_services: "m \<in> set (provisioned_monitors kn) \<Longrightarrow> list_ex (scrapes m) (Services kn knV2 @ MetricsServices kn)"
  unfolding provisioned_monitors_def componentMonitors_def GatewayServiceMonitor_def AIAnalysisServiceMonitor_def SignalProcessingServiceMonitor_def
    RemediationOrchestratorServiceMonitor_def WorkflowExecutionServiceMonitor_def EffectivenessMonitorServiceMonitor_def NotificationServiceMonitor_def
  by (auto simp del: list_ex_append intro: scraped_by split: if_splits)

definition watched :: "Kubernaut \<Rightarrow> kobj \<Rightarrow> bool" where
  "watched kn r \<longleftrightarrow> list_all (\<lambda>e. jobs_in e \<noteq> [] \<and> list_ex (\<lambda>m. set (jobs_in e) \<subseteq> set (monitor_jobs m)) (provisioned_monitors kn)) (alert_exprs r)"

lemma watchedI:
  "list_all (\<lambda>e. jobs_in e \<noteq> [] \<and> set (jobs_in e) = {job}) (alert_exprs r) \<Longrightarrow> m \<in> set (provisioned_monitors kn) \<Longrightarrow> monitor_jobs m = [job] \<Longrightarrow> watched kn r"
  by (auto simp: watched_def list_all_iff list_ex_iff intro!: bexI [of _ m])

lemma rules_watched: "r \<in> set (provisioned_rules kn) \<Longrightarrow> watched kn r"
  by (auto simp: provisioned_rules_def provisioned_monitors_def componentMonitors_def
      intro: watchedI [OF alert_jobs(1) _ monitor_views(2)] watchedI [OF alert_jobs(2) _ monitor_views(3)] watchedI [OF alert_jobs(3) _ monitor_views(4)]
      split: if_splits)


end
