(* ===== verification/Revisions.thy ===== *)
theory Revisions
  imports Startup_Inputs Evidence "HOL-Library.Multiset"
begin

text \<open>
  Rollout revisions. Pods read certificates and credentials once, so the operator stamps a digest of the identity and resource version
  of every such input on the pod templates that use it, and watches those inputs (\<^verbatim>\<open>internal/controller/telemetry.go\<close>,
  \<^verbatim>\<open>internal/controller/datastorage_material.go\<close>, \<^verbatim>\<open>stampConfigMapHash\<close> and \<^verbatim>\<open>fleetMCPGatewayTrustRevision\<close> of
  \<^verbatim>\<open>internal/controller/kubernaut_controller.go\<close>, \<^verbatim>\<open>ConfigMapDataHash\<close> of \<^verbatim>\<open>internal/resources/hash.go\<close>).

  The two halves must agree: whatever a revision is computed from has to be mapped back to the instance when it changes.
\<close>

subsection \<open>Digest of a ConfigMap\<close>

text \<open>Go compares strings by bytes.\<close>

fun string_le :: "string \<Rightarrow> string \<Rightarrow> bool" where
  "string_le [] t = True"
| "string_le (c # s) [] = False"
| "string_le (c # s) (d # t) = (of_char c < (of_char d :: nat) \<or> c = d \<and> string_le s t)"

fun insert_string :: "string \<Rightarrow> string list \<Rightarrow> string list" where
  "insert_string x [] = [x]"
| "insert_string x (y # ys) = (if string_le x y then x # y # ys else y # insert_string x ys)"

definition sort_Strings :: "string list \<Rightarrow> string list" where
  "sort_Strings xs = foldr insert_string xs []"

definition ConfigMapDataHash :: "string gomap \<Rightarrow> string" where
  "ConfigMapDataHash data = sha256_hex (concat (map (\<lambda>k. k @ [CHR 0x00] @ gget data k @ [CHR 0x00]) (sort_Strings (map fst data))))"

text \<open>The digest does not depend on the order in which Go's map is walked.\<close>

lemma string_le_total: "string_le a b \<or> string_le b a"
  by (induction a b rule: string_le.induct) (auto simp: neq_iff)

lemma string_le_trans: "string_le a b \<Longrightarrow> string_le b c \<Longrightarrow> string_le a c"
proof (induction a c arbitrary: b rule: string_le.induct)
  case (3 c s d t)
  then show ?case by (cases b) auto
next
  case (2 c s)
  then show ?case by (cases b) auto
qed simp

lemma string_le_antisym: "string_le a b \<Longrightarrow> string_le b a \<Longrightarrow> a = b"
  by (induction a b rule: string_le.induct) (auto elim: string_le.elims)

lemma set_insert_string [simp]: "set (insert_string x ys) = insert x (set ys)"
  by (induction ys) auto

lemma mset_sort_Strings [simp]: "mset (sort_Strings xs) = mset xs"
proof -
  have "mset (insert_string x ys) = add_mset x (mset ys)" for x ys by (induction ys) auto
  then show ?thesis by (induction xs) (simp_all add: sort_Strings_def)
qed

lemma sorted_insert_string: "sorted_wrt string_le ys \<Longrightarrow> sorted_wrt string_le (insert_string x ys)"
proof (induction ys)
  case (Cons y ys)
  have "string_le x y \<or> string_le y x" by (rule string_le_total)
  then show ?case using Cons by (auto intro: string_le_trans)
qed simp

lemma sorted_sort_Strings: "sorted_wrt string_le (sort_Strings xs)"
  by (induction xs) (simp_all add: sort_Strings_def sorted_insert_string)

lemma sorted_unique:
  assumes "sorted_wrt string_le xs" and "sorted_wrt string_le ys" and "mset xs = mset ys"
  shows "xs = ys"
  using assms
proof (induction xs arbitrary: ys)
  case (Cons x xs)
  then obtain y ys' where ys: "ys = y # ys'" by (cases ys) auto
  have "x \<in> set ys" "y \<in> set (x # xs)" using Cons.prems(3) ys by (metis list.set_intros(1) set_mset_mset)+
  then have "x = y" using Cons.prems(1,2) ys by (auto intro: string_le_antisym)
  then show ?case using Cons ys by simp
qed simp

lemma ConfigMapDataHash_order:
  assumes "distinct (map fst d)" and "mset d = mset d'"
  shows "ConfigMapDataHash d = ConfigMapDataHash d'"
proof -
  have "mset (map fst d) = mset (map fst d')" using assms(2) by (metis mset_map)
  then have keys: "sort_Strings (map fst d) = sort_Strings (map fst d')"
    by (intro sorted_unique sorted_sort_Strings) simp
  have "map_of d = map_of d'"
    using assms by (metis distinct_map map_of_eqI map_of_inject_set mset_eq_setD mset_eq_imp_distinct_iff mset_map)
  then show ?thesis using keys by (simp add: ConfigMapDataHash_def gget_def)
qed

subsection \<open>Revisions of the telemetry material\<close>

record telemetryMaterialRevisionSet =
  rev_Gateway :: string
  rev_DataStorage :: string
  rev_DataStorageSigning :: string
  rev_DataStorageDependency :: string
  rev_KubernautAgent :: string
  rev_Monitoring :: string
  rev_FleetMCPGateway :: string

definition no_revisions :: telemetryMaterialRevisionSet where
  "no_revisions = \<lparr>rev_Gateway = '''', rev_DataStorage = '''', rev_DataStorageSigning = '''', rev_DataStorageDependency = '''',
     rev_KubernautAgent = '''', rev_Monitoring = '''', rev_FleetMCPGateway = ''''\<rparr>"

definition set_revision :: "string \<Rightarrow> string \<Rightarrow> telemetryMaterialRevisionSet \<Rightarrow> telemetryMaterialRevisionSet" where
  "set_revision component revision s =
     (if component = ComponentGateway then s\<lparr>rev_Gateway := revision\<rparr>
      else if component = ComponentDataStorage then s\<lparr>rev_DataStorage := revision\<rparr>
      else if component = ComponentKubernautAgent then s\<lparr>rev_KubernautAgent := revision\<rparr>
      else s)"

definition get_revision :: "telemetryMaterialRevisionSet \<Rightarrow> string \<Rightarrow> string option" where
  "get_revision s component =
     (let revision = (if component = ComponentGateway then rev_Gateway s
        else if component = ComponentDataStorage then rev_DataStorage s
        else if component = ComponentKubernautAgent then rev_KubernautAgent s else '''')
      in if revision = '''' then None else Some revision)"

definition telemetryAmbientTrustRevision :: "'s env \<Rightarrow> ('s, string go) prog" where
  "telemetryAmbientTrustRevision E = do {
     kn \<leftarrow> the_kn;
     (case ResolveTLSMaterial kn of
        Inl e \<Rightarrow> State_Monad.return (Inl (Wrap ''resolving runtime TLS material'' e))
      | Inr material \<Rightarrow>
         (if tlsConfig_Mode (kn_TLS kn) = TLSModeManual \<and> tlsMaterial_InternalCASecretName material \<noteq> ''''
          then do {
            let name = tlsMaterial_InternalCASecretName material;
            r \<leftarrow> Get E ''Secret'' (kn_Namespace kn, name);
            State_Monad.return (case r of
               Inl e \<Rightarrow> Inl (Wrap (''reading manual ambient trust Secret '' @ name) (API e))
             | Inr secret \<Rightarrow> Inr (''secret='' @ kn_Namespace kn @ ''/'' @ name @ ''@'' @ obj_RV secret)) }
          else do {
            let configMapName = ambient_config_map kn;
            r \<leftarrow> Get E ''ConfigMap'' (kn_Namespace kn, configMapName);
            State_Monad.return (case r of
               Inl e \<Rightarrow>
                 (if IsNotFound e then Inr (configMapName @ ''@missing'')
                  else Inl (Wrap (''reading ambient telemetry trust ConfigMap '' @ configMapName) (API e)))
             | Inr cm \<Rightarrow> Inr (configMapName @ ''@'' @ obj_RV cm)) })) }"

text \<open>The inputs a lane's referenced Secrets contribute, in order.\<close>

fun reference_inputs :: "'s env \<Rightarrow> string \<Rightarrow> TelemetrySecretReference list \<Rightarrow> ('s, string list go) prog" where
  "reference_inputs E ns [] = State_Monad.return (Inr [])"
| "reference_inputs E ns (reference # references) = do {
     r \<leftarrow> Get E ''Secret'' (ns, telemetryRef_Name reference);
     (case r of
        Inl e \<Rightarrow> State_Monad.return (Inl (Wrap (''reading telemetry Secret '' @ telemetryRef_Name reference @ '' for revision'') (API e)))
      | Inr secret \<Rightarrow> do {
          rest \<leftarrow> reference_inputs E ns references;
          State_Monad.return (map_sum id
            (Cons (''secret='' @ ns @ ''/'' @ telemetryRef_Name reference @ ''@'' @ obj_RV secret)) rest) }) }"

fun lane_revisions ::
  "'s env \<Rightarrow> string \<Rightarrow> string \<Rightarrow> telemetryLane list \<Rightarrow> telemetryMaterialRevisionSet \<Rightarrow> ('s, telemetryMaterialRevisionSet go) prog" where
  "lane_revisions E ns ambientRevision [] revisions = State_Monad.return (Inr revisions)"
| "lane_revisions E ns ambientRevision (lane # lanes) revisions =
     (if \<not> TelemetryNetworkEnabled (lane_spec lane) then lane_revisions E ns ambientRevision lanes revisions
      else do {
        r \<leftarrow> reference_inputs E ns (TelemetrySecretReferences (lane_spec lane));
        (case r of
           Inl e \<Rightarrow> State_Monad.return (Inl e)
         | Inr inputs \<Rightarrow> lane_revisions E ns ambientRevision lanes
             (set_revision (lane_component lane)
               (sha256_hex (join_strings [CHR 0x00] ((''ambient='' @ ambientRevision) # inputs))) revisions)) })"

definition networkTelemetryMaterialRevisions :: "'s env \<Rightarrow> decoders \<Rightarrow> ('s, telemetryMaterialRevisionSet go) prog" where
  "networkTelemetryMaterialRevisions E D = do {
     err \<leftarrow> validateTelemetryAmbientTrust E D;
     (case err of
        Some (AmbientPending m) \<Rightarrow> State_Monad.return (Inl (Msg m))
      | Some (AmbientInvalid e) \<Rightarrow> State_Monad.return (Inl e)
      | None \<Rightarrow> do {
          r \<leftarrow> telemetryAmbientTrustRevision E;
          (case r of
             Inl e \<Rightarrow> State_Monad.return (Inl e)
           | Inr ambientRevision \<Rightarrow> do {
               kn \<leftarrow> the_kn;
               lane_revisions E (kn_Namespace kn) ambientRevision (telemetryLanes kn) no_revisions }) }) }"

definition telemetryMaterialRevisions :: "'s env \<Rightarrow> decoders \<Rightarrow> ('s, telemetryMaterialRevisionSet go) prog" where
  "telemetryMaterialRevisions E D = do {
     kn \<leftarrow> the_kn;
     (if \<not> hasNetworkTelemetry kn \<and> \<not> monitoringTLSConfigured kn then State_Monad.return (Inr no_revisions)
      else do {
        t \<leftarrow> (if hasNetworkTelemetry kn then networkTelemetryMaterialRevisions E D else State_Monad.return (Inr no_revisions));
        (case t of
           Inl e \<Rightarrow> State_Monad.return (Inl e)
         | Inr telemetry \<Rightarrow>
            (let revisions = no_revisions\<lparr>rev_Gateway := rev_Gateway telemetry, rev_DataStorage := rev_DataStorage telemetry,
               rev_KubernautAgent := rev_KubernautAgent telemetry\<rparr> in
             if monitoringTLSConfigured kn then do {
               m \<leftarrow> monitoringTLSMaterialRevision E;
               State_Monad.return (case m of
                  Inl e \<Rightarrow> Inl (Wrap ''resolving monitoring tls material revision'' e)
                | Inr monitoring \<Rightarrow> Inr (revisions\<lparr>rev_Monitoring := monitoring\<rparr>)) }
             else State_Monad.return (Inr revisions))) }) }"

subsection \<open>Revisions of the other inputs\<close>

definition dataStorageSigningMaterialRevision :: "'s env \<Rightarrow> ('s, string go) prog" where
  "dataStorageSigningMaterialRevision E = do {
     kn \<leftarrow> the_kn;
     let secretName = DataStorageSigningSecretName kn;
     (if secretName = '''' then State_Monad.return (Inr '''')
      else do {
        r \<leftarrow> Get E ''Secret'' (kn_Namespace kn, secretName);
        State_Monad.return (case r of
           Inl e \<Rightarrow>
             (if IsNotFound e then Inr (sha256_hex (kn_Namespace kn @ ''/'' @ secretName @ ''@missing''))
              else Inl (Wrap (''reading DataStorage signing Secret '' @ secretName @ '' for revision'') (API e)))
         | Inr secret \<Rightarrow> Inr (sha256_hex (kn_Namespace kn @ ''/'' @ secretName @ ''@'' @ obj_RV secret))) }) }"

definition dataStorageDependencyRevision :: "'s env \<Rightarrow> ('s, string go) prog" where
  "dataStorageDependencyRevision E = do {
     kn \<leftarrow> the_kn;
     p \<leftarrow> postgresqlCredentialRevision E;
     (case p of
        Inl e \<Rightarrow> State_Monad.return (Inl e)
      | Inr postgresqlRevision \<Rightarrow> do {
          let name = valkey_SecretName (spec_Valkey (kn_Spec kn));
          r \<leftarrow> Get E ''Secret'' (kn_Namespace kn, name);
          State_Monad.return (case r of
             Inl e \<Rightarrow> Inl (Wrap (''reading Valkey Secret '' @ name @ '' for dependency revision'') (API e))
           | Inr valkey \<Rightarrow> Inr (hashDataStorageDependencyRevision
               (postgresqlRevision @ ''|valkey/'' @ kn_Namespace kn @ ''/'' @ name @ ''@'' @ obj_RV valkey))) }) }"

definition fleetMCPGatewayTrustRevision :: "'s env \<Rightarrow> ('s, string go) prog" where
  "fleetMCPGatewayTrustRevision E = do {
     kn \<leftarrow> the_kn;
     (if \<not> FleetEnabled (kn_Spec kn) then State_Monad.return (Inr '''')
      else case trust_secret (fleetMCPGateway_TLS (fleet_MCPGateway (spec_Fleet (kn_Spec kn)))) of
        None \<Rightarrow> State_Monad.return (Inr '''')
      | Some ref \<Rightarrow> do {
          r \<leftarrow> Get E ''Secret'' (kn_Namespace kn, caCertSecretRef_Name ref);
          State_Monad.return (case r of
             Inl e \<Rightarrow> Inl (Wrap (''reading MCP Gateway CA Secret '' @ caCertSecretRef_Name ref @ '' for rollout revision'') (API e))
           | Inr secret \<Rightarrow> Inr (ConfigMapDataHash [(''namespace'', obj_Namespace secret), (''name'', obj_Name secret),
               (''resourceVersion'', obj_RV secret)])) }) }"


subsection \<open>Stamping pod templates\<close>

definition AnnotationConfigMapHash :: string where "AnnotationConfigMapHash = ''kubernaut.ai/configmap-hash''"
definition AnnotationTelemetryMaterialRevision :: string where
  "AnnotationTelemetryMaterialRevision = ''kubernaut.ai/telemetry-material-revision''"
definition AnnotationMonitoringMaterialRevision :: string where
  "AnnotationMonitoringMaterialRevision = ''kubernaut.ai/monitoring-material-revision''"
definition AnnotationDataStorageSigningMaterialRevision :: string where
  "AnnotationDataStorageSigningMaterialRevision = ''kubernaut.ai/datastorage-signing-material-revision''"
definition AnnotationFleetMCPGatewayMaterialRevision :: string where
  "AnnotationFleetMCPGatewayMaterialRevision = ''kubernaut.ai/fleet-mcp-gateway-material-revision''"
definition AnnotationDataStorageDependencyRevision :: string where
  "AnnotationDataStorageDependencyRevision = ''kubernaut.ai/datastorage-dependency-revision''"

lemmas revision_annotations = AnnotationConfigMapHash_def AnnotationTelemetryMaterialRevision_def
  AnnotationMonitoringMaterialRevision_def AnnotationDataStorageSigningMaterialRevision_def
  AnnotationFleetMCPGatewayMaterialRevision_def AnnotationDataStorageDependencyRevision_def

definition annotate_pods :: "string \<Rightarrow> string \<Rightarrow> kobj \<Rightarrow> kobj" where
  "annotate_pods key revision dep = (case obj_Body dep of
     DeploymentBody replicas ready labels annotations spec \<Rightarrow>
       dep\<lparr>obj_Body := DeploymentBody replicas ready labels (annotations(key \<mapsto> revision)) spec\<rparr>
   | _ \<Rightarrow> dep)"

definition pod_app :: "kobj \<Rightarrow> string" where
  "pod_app dep = (case obj_Body dep of DeploymentBody _ _ labels _ _ \<Rightarrow> mget labels ''app'' | _ \<Rightarrow> '''')"

definition pod_annotations :: "kobj \<Rightarrow> smap" where
  "pod_annotations dep = (case obj_Body dep of DeploymentBody _ _ _ annotations _ \<Rightarrow> annotations | _ \<Rightarrow> Map.empty)"

definition componentCMHashKey :: smap where
  "componentCMHashKey = [ComponentGateway \<mapsto> ''gateway'', ComponentDataStorage \<mapsto> ''datastorage'', ComponentAIAnalysis \<mapsto> ''aianalysis'',
     ComponentSignalProcessing \<mapsto> ''signalprocessing'', ComponentRemediationOrchestrator \<mapsto> ''remediationorchestrator'',
     ComponentWorkflowExecution \<mapsto> ''workflowexecution'', ComponentEffectivenessMonitor \<mapsto> ''effectivenessmonitor'',
     ComponentNotification \<mapsto> ''notification-controller'', ComponentKubernautAgent \<mapsto> ''kubernaut-agent'',
     ComponentAuthWebhook \<mapsto> ''authwebhook'', ComponentAPIFrontend \<mapsto> ''apifrontend'', ComponentConsole \<mapsto> ''console'',
     ComponentFleetMetadataCache \<mapsto> ''fleetmetadatacache'']"

definition stampConfigMapHash :: "string gomap \<Rightarrow> kobj \<Rightarrow> kobj" where
  "stampConfigMapHash cmHashes dep =
     (case componentCMHashKey (pod_app dep) of
        None \<Rightarrow> dep
      | Some hashKey \<Rightarrow>
         (case map_of cmHashes hashKey of None \<Rightarrow> dep | Some hash \<Rightarrow> annotate_pods AnnotationConfigMapHash hash dep))"

definition stampTelemetryMaterialRevision :: "telemetryMaterialRevisionSet \<Rightarrow> kobj \<Rightarrow> kobj" where
  "stampTelemetryMaterialRevision revisions dep =
     (case get_revision revisions (pod_app dep) of
        None \<Rightarrow> dep
      | Some revision \<Rightarrow> annotate_pods AnnotationTelemetryMaterialRevision revision dep)"

definition fleet_clients :: "string list" where
  "fleet_clients = [ComponentGateway, ComponentRemediationOrchestrator, ComponentSignalProcessing, ComponentAPIFrontend,
     ComponentEffectivenessMonitor, ComponentWorkflowExecution, ComponentKubernautAgent, ComponentFleetMetadataCache]"

definition stampFleetMCPGatewayMaterialRevision :: "telemetryMaterialRevisionSet \<Rightarrow> kobj \<Rightarrow> kobj" where
  "stampFleetMCPGatewayMaterialRevision revisions dep =
     (if rev_FleetMCPGateway revisions = '''' \<or> pod_app dep \<notin> set fleet_clients then dep
      else annotate_pods AnnotationFleetMCPGatewayMaterialRevision (rev_FleetMCPGateway revisions) dep)"

definition stampMonitoringMaterialRevision :: "telemetryMaterialRevisionSet \<Rightarrow> kobj \<Rightarrow> kobj" where
  "stampMonitoringMaterialRevision revisions dep =
     (if rev_Monitoring revisions = '''' \<or> pod_app dep \<notin> {ComponentEffectivenessMonitor, ComponentKubernautAgent, ComponentAPIFrontend}
      then dep else annotate_pods AnnotationMonitoringMaterialRevision (rev_Monitoring revisions) dep)"

definition stampDataStorageSigningMaterialRevision :: "telemetryMaterialRevisionSet \<Rightarrow> kobj \<Rightarrow> kobj" where
  "stampDataStorageSigningMaterialRevision revisions dep =
     (if pod_app dep \<noteq> ComponentDataStorage \<or> rev_DataStorageSigning revisions = '''' then dep
      else annotate_pods AnnotationDataStorageSigningMaterialRevision (rev_DataStorageSigning revisions) dep)"

definition stampDataStorageDependencyRevision :: "telemetryMaterialRevisionSet \<Rightarrow> kobj \<Rightarrow> kobj" where
  "stampDataStorageDependencyRevision revisions dep =
     (if pod_app dep \<noteq> ComponentDataStorage \<or> rev_DataStorageDependency revisions = '''' then dep
      else annotate_pods AnnotationDataStorageDependencyRevision (rev_DataStorageDependency revisions) dep)"

text \<open>The stamps in the order in which \<^verbatim>\<open>ensureDeployments\<close> applies them.\<close>

definition stamped :: "string gomap \<Rightarrow> telemetryMaterialRevisionSet \<Rightarrow> kobj \<Rightarrow> kobj" where
  "stamped cmHashes revisions dep =
     stampMonitoringMaterialRevision revisions (stampDataStorageDependencyRevision revisions
       (stampDataStorageSigningMaterialRevision revisions (stampFleetMCPGatewayMaterialRevision revisions
         (stampTelemetryMaterialRevision revisions (stampConfigMapHash cmHashes dep)))))"

subsection \<open>From a changed object back to the instance\<close>

text \<open>The mapping functions list the instances of a namespace, or all of them; \<open>L\<close> is what the API server answers.\<close>

type_synonym listing = "string option \<Rightarrow> api_error + Kubernaut list"

definition kn_key :: "Kubernaut \<Rightarrow> key" where "kn_key kn = (kn_Namespace kn, kn_Name kn)"

definition requests_for :: "api_error + Kubernaut list \<Rightarrow> (Kubernaut \<Rightarrow> bool) \<Rightarrow> key list" where
  "requests_for r relevant = (case r of Inl e \<Rightarrow> [] | Inr kns \<Rightarrow> map kn_key (filter relevant kns))"

definition telemetrySecretToKubernaut :: "listing \<Rightarrow> kobj \<Rightarrow> key list" where
  "telemetrySecretToKubernaut L x = requests_for (L (Some (obj_Namespace x)))
     (\<lambda>kn. telemetrySecretReferenced kn (obj_Name x) \<or> ambientTrustSecretReferenced kn (obj_Name x) \<or>
       monitoringTLSSecretReferenced kn (obj_Name x))"

definition openshiftConfigManagedNamespace :: string where "openshiftConfigManagedNamespace = ''openshift-config-managed''"

definition ambientTrustConfigMapRelevant :: "Kubernaut \<Rightarrow> kobj \<Rightarrow> bool" where
  "ambientTrustConfigMapRelevant kn configMap =
     (let mode = tlsConfig_Mode (kn_TLS kn); serviceCA = (mode = '''' \<or> mode = TLSModeServiceCA) in
      if obj_Namespace configMap = openshiftConfigManagedNamespace \<and> obj_Name configMap = ''default-ingress-cert'' then serviceCA
      else if obj_Name configMap = TrustBundleConfigMapName then mode \<noteq> TLSModeManual
      else if obj_Name configMap \<noteq> InterServiceCAConfigMapName then False
      else if mode = TLSModeManual
      then (case ResolveTLSMaterial kn of Inl e \<Rightarrow> False | Inr material \<Rightarrow> tlsMaterial_InternalCASecretName material = '''')
      else serviceCA)"

definition telemetryAmbientConfigMap :: "kobj \<Rightarrow> bool" where
  "telemetryAmbientConfigMap configMap \<longleftrightarrow>
     (obj_Namespace configMap = openshiftConfigManagedNamespace \<and> obj_Name configMap = ''default-ingress-cert'') \<or>
     obj_Name configMap = InterServiceCAConfigMapName \<or> obj_Name configMap = TrustBundleConfigMapName"

definition telemetryAmbientConfigMapToKubernaut :: "listing \<Rightarrow> kobj \<Rightarrow> key list" where
  "telemetryAmbientConfigMapToKubernaut L x =
     (if obj_Kind x \<noteq> ''ConfigMap'' then []
      else requests_for (L None) (\<lambda>kn. telemetryAmbientConfigMap x \<and>
        (obj_Namespace x = kn_Namespace kn \<or> obj_Namespace x = openshiftConfigManagedNamespace) \<and>
        hasNetworkTelemetry kn \<and> ambientTrustConfigMapRelevant kn x))"

definition fleetTrustSecretToKubernaut :: "listing \<Rightarrow> kobj \<Rightarrow> key list" where
  "fleetTrustSecretToKubernaut L x =
     (if obj_Kind x \<noteq> ''Secret'' then []
      else case L None of
        Inl e \<Rightarrow> [(obj_Namespace x, SingletonName)]
      | Inr kns \<Rightarrow> map kn_key (filter (\<lambda>kn. kn_Namespace kn = obj_Namespace x \<and> fleetTrustSecretReferenced kn (obj_Name x)) kns))"

definition dataStorageSigningSecretToKubernaut :: "listing \<Rightarrow> kobj \<Rightarrow> key list" where
  "dataStorageSigningSecretToKubernaut L x =
     (if obj_Kind x \<noteq> ''Secret'' then []
      else requests_for (L (Some (obj_Namespace x))) (\<lambda>kn. DataStorageSigningSecretName kn = obj_Name x))"

definition byoDependencySecretToKubernaut :: "listing \<Rightarrow> kobj \<Rightarrow> key list" where
  "byoDependencySecretToKubernaut L x =
     (if obj_Kind x \<noteq> ''Secret'' then []
      else requests_for (L (Some (obj_Namespace x))) (\<lambda>kn. postgreSQL_SecretName (spec_PostgreSQL (kn_Spec kn)) = obj_Name x \<or>
        valkey_SecretName (spec_Valkey (kn_Spec kn)) = obj_Name x))"

definition auditHashKeyRequests :: "listing \<Rightarrow> string \<Rightarrow> string \<Rightarrow> key list" where
  "auditHashKeyRequests L namespace name = requests_for (L (Some namespace))
     (\<lambda>kn. \<not> (ref_SecretName (DataStorageAuditHashKeyReferenceFor kn) \<noteq> name \<and> name \<noteq> DataStorageAuditHashKeyStateConfigMapName))"

definition auditHashKeyStateToKubernaut :: "listing \<Rightarrow> kobj \<Rightarrow> key list" where
  "auditHashKeyStateToKubernaut L x =
     (if obj_Kind x \<noteq> ''ConfigMap'' \<or> obj_Name x \<noteq> DataStorageAuditHashKeyStateConfigMapName then []
      else auditHashKeyRequests L (obj_Namespace x) DataStorageAuditHashKeyStateConfigMapName)"

definition auditHashKeySecretToKubernaut :: "listing \<Rightarrow> kobj \<Rightarrow> key list" where
  "auditHashKeySecretToKubernaut L x =
     (if obj_Kind x \<noteq> ''Secret'' then [] else auditHashKeyRequests L (obj_Namespace x) (obj_Name x))"

definition precreatedConfigurationToKubernaut :: "listing \<Rightarrow> kobj \<Rightarrow> key list" where
  "precreatedConfigurationToKubernaut L x =
     (if obj_Kind x \<notin> {''ConfigMap'', ''Secret''} then []
      else let kind = (if obj_Kind x = ''ConfigMap'' then precreatedConfigMapReference else precreatedSecretReference) in
        requests_for (L None) (\<lambda>kn. kn_Namespace kn = obj_Namespace x \<and>
          list_ex (\<lambda>reference. pre_kind reference = kind \<and> pre_name reference = obj_Name x) (fst (precreatedConfigurationReferences kn))))"

definition apiServerToKubernaut :: "listing \<Rightarrow> kobj \<Rightarrow> key list" where
  "apiServerToKubernaut L x = requests_for (L None) (\<lambda>kn. True)"

text \<open>What \<^verbatim>\<open>SetupWithManager\<close> registers for the two kinds that are not owned.\<close>

definition watched_requests :: "listing \<Rightarrow> kobj \<Rightarrow> key list" where
  "watched_requests L x =
     (if obj_Kind x = ''ConfigMap''
      then telemetryAmbientConfigMapToKubernaut L x @ precreatedConfigurationToKubernaut L x @ auditHashKeyStateToKubernaut L x
      else if obj_Kind x = ''Secret''
      then telemetrySecretToKubernaut L x @ fleetTrustSecretToKubernaut L x @ precreatedConfigurationToKubernaut L x
        @ auditHashKeySecretToKubernaut L x @ dataStorageSigningSecretToKubernaut L x @ byoDependencySecretToKubernaut L x
      else [])"


subsection \<open>Every input of a revision is watched\<close>

text \<open>A run that leaves the custom resource alone and only makes calls that satisfy \<open>P\<close>.\<close>

definition reading :: "Kubernaut \<Rightarrow> (call \<Rightarrow> bool) \<Rightarrow> call list \<Rightarrow> 's world \<Rightarrow> bool" where
  "reading kn P t w \<longleftrightarrow> w_kn w = kn \<and> (\<exists>cs. w_trace w = cs @ t \<and> list_all P cs)"

lemma reading_Get [triple_rules]: "(\<And>x. P (Read kind k x)) \<Longrightarrow> keeps (reading kn P t) (Get E kind k)"
  by (auto simp: keeps_def triple_def reading_def call_defs reads_of_def split: prod.splits sum.splits)

lemma reading_the_kn: "keeps (reading kn P t) (f kn) \<Longrightarrow> keeps (reading kn P t) (State_Monad.bind the_kn f)"
  by (auto simp: keeps_def triple_def reading_def the_kn_def)

definition maps_back :: "Kubernaut \<Rightarrow> call \<Rightarrow> bool" where
  "maps_back kn c = (case c of
     Read kind k x \<Rightarrow> (\<forall>L kns y. L (Some (fst k)) = Inr kns \<and> L None = Inr kns \<and> kn \<in> set kns \<and>
       obj_Kind y = kind \<and> obj_key y = k \<longrightarrow> kn_key kn \<in> set (watched_requests L y))
   | _ \<Rightarrow> False)"

lemma requests_forI: "kn \<in> set kns \<Longrightarrow> p kn \<Longrightarrow> kn_key kn \<in> set (requests_for (Inr kns) p)"
  by (auto simp: requests_for_def)

lemma maps_back_secret:
  assumes "telemetrySecretReferenced kn name \<or> ambientTrustSecretReferenced kn name \<or> monitoringTLSSecretReferenced kn name \<or>
    fleetTrustSecretReferenced kn name \<or> DataStorageSigningSecretName kn = name \<or>
    postgreSQL_SecretName (spec_PostgreSQL (kn_Spec kn)) = name \<or> valkey_SecretName (spec_Valkey (kn_Spec kn)) = name"
  shows "maps_back kn (Read ''Secret'' (kn_Namespace kn, name) x)"
  using assms
  by (auto simp: maps_back_def watched_requests_def obj_key_def telemetrySecretToKubernaut_def fleetTrustSecretToKubernaut_def
      dataStorageSigningSecretToKubernaut_def byoDependencySecretToKubernaut_def intro!: requests_forI)

lemma maps_back_ambient:
  assumes "hasNetworkTelemetry kn"
    and "tlsConfig_Mode (kn_TLS kn) = TLSModeManual \<Longrightarrow>
      (\<exists>m. ResolveTLSMaterial kn = Inr m \<and> tlsMaterial_InternalCASecretName m = '''')"
  shows "maps_back kn (Read ''ConfigMap'' (kn_Namespace kn, ambient_config_map kn) x)"
  using assms
  by (auto simp: maps_back_def watched_requests_def obj_key_def telemetryAmbientConfigMapToKubernaut_def telemetryAmbientConfigMap_def
      ambientTrustConfigMapRelevant_def ambient_config_map_def Let_def TrustBundleConfigMapName_def InterServiceCAConfigMapName_def
      intro!: requests_forI)

lemma manual_source: "ResolveTLSMaterial kn = Inr m \<Longrightarrow> tlsConfig_Mode (kn_TLS kn) = TLSModeManual \<Longrightarrow>
    tlsMaterial_Source m \<noteq> TLSMaterialSourceServiceCA"
  by (auto simp: ResolveTLSMaterial_def resolveManualTLS_def Let_def TLSModeServiceCA_def TLSModeCertManager_def TLSModeManual_def
      TLSMaterialSourceServiceCA_def TLSMaterialSourceManual_def split: if_splits sum.splits option.splits)

lemma reading_ambient:
  assumes "hasNetworkTelemetry kn"
  shows "keeps (reading kn (maps_back kn) t) (validateTelemetryAmbientTrust E D)"
    and "keeps (reading kn (maps_back kn) t) (telemetryAmbientTrustRevision E)"
proof -
  show "keeps (reading kn (maps_back kn) t) (validateTelemetryAmbientTrust E D)"
    unfolding validateTelemetryAmbientTrust_def Let_def
    by (intro reading_the_kn triple_rules maps_back_ambient [OF assms]) auto
  show "keeps (reading kn (maps_back kn) t) (telemetryAmbientTrustRevision E)"
    unfolding telemetryAmbientTrustRevision_def Let_def
    by (intro reading_the_kn triple_rules maps_back_ambient [OF assms] maps_back_secret)
      (use assms in \<open>auto simp: ambientTrustSecretReferenced_def dest: manual_source\<close>)
qed

lemma reading_lanes:
  assumes "set lanes \<subseteq> set (telemetryLanes kn)"
  shows "keeps (reading kn (maps_back kn) t) (lane_revisions E (kn_Namespace kn) a lanes revisions)"
proof -
  have inputs: "keeps (reading kn (maps_back kn) t) (reference_inputs E (kn_Namespace kn) refs)"
    if "\<And>r. r \<in> set refs \<Longrightarrow> telemetrySecretReferenced kn (telemetryRef_Name r)" for refs
    using that by (induction refs) (auto intro!: triple_rules maps_back_secret)
  have "telemetrySecretReferenced kn (telemetryRef_Name r)"
    if "lane \<in> set lanes" "r \<in> set (TelemetrySecretReferences (lane_spec lane))" for lane r
    using that assms by (auto simp: telemetrySecretReferenced_def list_ex_iff)
  then show ?thesis by (induction lanes arbitrary: revisions) (auto intro!: triple_rules inputs)
qed

lemma reading_revisions:
  "keeps (reading kn (maps_back kn) t) (telemetryMaterialRevisions E D)"
  "keeps (reading kn (maps_back kn) t) (fleetMCPGatewayTrustRevision E)"
  "keeps (reading kn (maps_back kn) t) (dataStorageSigningMaterialRevision E)"
  "keeps (reading kn (maps_back kn) t) (dataStorageDependencyRevision E)"
proof -
  have monitoring: "keeps (reading kn (maps_back kn) t) (monitoringTLSMaterialRevision E)" if "monitoringTLSConfigured kn"
    unfolding monitoringTLSMaterialRevision_def using that
    by (intro reading_the_kn triple_rules maps_back_secret)
      (auto simp: monitoringTLSSecretReferenced_def monitoringTLSReference_def monitoringTLSSecretReference_def split: option.splits if_splits)
  show "keeps (reading kn (maps_back kn) t) (telemetryMaterialRevisions E D)"
    unfolding telemetryMaterialRevisions_def networkTelemetryMaterialRevisions_def Let_def
    by (intro reading_the_kn triple_rules reading_ambient reading_lanes monitoring; (simp; fail)?)
      (auto split: ambient_error.splits intro!: triple_rules)
  show "keeps (reading kn (maps_back kn) t) (fleetMCPGatewayTrustRevision E)"
    unfolding fleetMCPGatewayTrustRevision_def
    by (intro reading_the_kn triple_rules maps_back_secret) (auto simp: fleetTrustSecretReferenced_def fleet_trust_lanes_def)
  show "keeps (reading kn (maps_back kn) t) (dataStorageSigningMaterialRevision E)"
    unfolding dataStorageSigningMaterialRevision_def Let_def by (intro reading_the_kn triple_rules maps_back_secret) auto
  show "keeps (reading kn (maps_back kn) t) (dataStorageDependencyRevision E)"
    unfolding dataStorageDependencyRevision_def postgresqlCredentialRevision_def Let_def
    by (intro reading_the_kn triple_rules maps_back_secret) auto
qed

text \<open>C39: Rollout inputs are watched. Whatever the cluster answers, computing the revisions that are stamped on pod templates (telemetry and
  monitoring material, the MCP gateway CA, the signing Secret, the database and cache Secrets) only reads, and every object
  it asks for is mapped back to this instance by the registered watches when it changes, provided the listing answers and contains
  the instance.\<close>

theorem revision_inputs_are_watched:
  "(\<exists>cs. w_trace (snd (run_state (telemetryMaterialRevisions E D) w)) = cs @ w_trace w \<and> list_all (maps_back (w_kn w)) cs) \<and>
   (\<exists>cs. w_trace (snd (run_state (fleetMCPGatewayTrustRevision E) w)) = cs @ w_trace w \<and> list_all (maps_back (w_kn w)) cs) \<and>
   (\<exists>cs. w_trace (snd (run_state (dataStorageSigningMaterialRevision E) w)) = cs @ w_trace w \<and> list_all (maps_back (w_kn w)) cs) \<and>
   (\<exists>cs. w_trace (snd (run_state (dataStorageDependencyRevision E) w)) = cs @ w_trace w \<and> list_all (maps_back (w_kn w)) cs)"
proof -
  have "reading (w_kn w) (maps_back (w_kn w)) (w_trace w) w" by (simp add: reading_def)
  from keepsD [OF reading_revisions(1) this, of E D] keepsD [OF reading_revisions(2) this, of E]
    keepsD [OF reading_revisions(3) this, of E] keepsD [OF reading_revisions(4) this, of E]
  show ?thesis unfolding reading_def by blast
qed

subsection \<open>What stamping changes\<close>

lemma annotate_pods_sels [simp]:
  "obj_Kind (annotate_pods k r d) = obj_Kind d" "obj_Meta (annotate_pods k r d) = obj_Meta d" "pod_app (annotate_pods k r d) = pod_app d"
  by (auto simp: annotate_pods_def pod_app_def split: body.splits)

lemma stamped_meta: "obj_Kind (stamped h r d) = obj_Kind d" "obj_Meta (stamped h r d) = obj_Meta d" "pod_app (stamped h r d) = pod_app d"
  by (simp_all add: stamped_def stampMonitoringMaterialRevision_def stampDataStorageDependencyRevision_def
      stampDataStorageSigningMaterialRevision_def stampFleetMCPGatewayMaterialRevision_def stampTelemetryMaterialRevision_def
      stampConfigMapHash_def split: option.splits)

end
