(* ===== verification/Admission.thy ===== *)
theory Admission
  imports Running Startup_Inputs
begin

text \<open>
  Admission: the webhook configurations of the AuthWebhook component in their four TLS forms
  (\<^verbatim>\<open>internal/resources/webhooks.go\<close>), how the reconciler converges them without erasing the CA bundle that the
  platform, cert-manager or an administrator owns (\<^verbatim>\<open>deployAdmissionWebhooks\<close>, \<^verbatim>\<open>ensureWebhookConfiguration\<close>
  and \<^verbatim>\<open>preserveWebhookCABundle\<close> of \<^verbatim>\<open>internal/controller/kubernaut_controller.go\<close>), and the operator's
  own webhook that keeps the custom resource a singleton (\<^verbatim>\<open>internal/webhook/singleton_webhook.go\<close>).
\<close>

subsection \<open>Webhooks\<close>

definition kubernaut_rule :: "string list \<Rightarrow> string \<Rightarrow> string \<Rightarrow> hook_rule" where
  "kubernaut_rule operations version resource = \<lparr>hookRule_Operations = operations, hookRule_APIGroups = [''kubernaut.ai''],
     hookRule_APIVersions = [version], hookRule_Resources = [resource], hookRule_Scope = ''Namespaced''\<rparr>"

text \<open>The fields that all webhooks of the AuthWebhook component share; \<^verbatim>\<open>webhookClientConfig\<close> gives the Service.\<close>

definition authwebhook_hook ::
  "Kubernaut \<Rightarrow> string \<Rightarrow> string \<Rightarrow> int \<Rightarrow> string \<Rightarrow> label_selector option \<Rightarrow> hook_rule \<Rightarrow> webhook" where
  "authwebhook_hook kn name sideEffects timeout path selector rule =
     \<lparr>hook_Name = name, hook_AdmissionReviewVersions = [''v1''], hook_SideEffects = sideEffects, hook_FailurePolicy = ''Fail'',
      hook_MatchPolicy = ''Equivalent'', hook_TimeoutSeconds = timeout, hook_Service = (kn_Namespace kn, ''authwebhook-service''),
      hook_Path = path, hook_Port = PortAuthWebhookService, hook_CABundle = '''', hook_NamespaceSelector = selector, hook_Rules = [rule]\<rparr>"

definition own_namespace_only :: "Kubernaut \<Rightarrow> label_selector option" where
  "own_namespace_only kn = Some (match_labels [''kubernetes.io/metadata.name'' \<mapsto> kn_Namespace kn])"

definition mutating_hooks :: "Kubernaut \<Rightarrow> webhook list" where
  "mutating_hooks kn =
     [authwebhook_hook kn ''workflowexecution.mutate.kubernaut.ai'' ''None'' 10 ''/mutate-workflowexecution'' None
        (kubernaut_rule [''UPDATE''] ''v1alpha1'' ''workflowexecutions/status''),
      authwebhook_hook kn ''remediationapprovalrequest.mutate.kubernaut.ai'' ''None'' 10 ''/mutate-remediationapprovalrequest'' None
        (kubernaut_rule [''UPDATE''] ''v1alpha1'' ''remediationapprovalrequests/status''),
      authwebhook_hook kn ''remediationrequest.mutate.kubernaut.ai'' ''None'' 10 ''/mutate-remediationrequest'' None
        (kubernaut_rule [''UPDATE''] ''v1alpha1'' ''remediationrequests/status'')]"

definition MutatingWebhookConfiguration :: "Kubernaut \<Rightarrow> kobj" where
  "MutatingWebhookConfiguration kn = (mutating_webhook_meta kn)\<lparr>obj_Body := WebhooksBody (mutating_hooks kn)\<rparr>"

definition notificationRequestValidatingWebhook :: "Kubernaut \<Rightarrow> webhook" where
  "notificationRequestValidatingWebhook kn = authwebhook_hook kn ''notificationrequest.validate.kubernaut.ai'' ''None'' 10
     ''/validate-notificationrequest-delete'' None (kubernaut_rule [''DELETE''] ''v1alpha2'' ''notificationrequests'')"

definition remediationWorkflowValidatingWebhook :: "Kubernaut \<Rightarrow> webhook" where
  "remediationWorkflowValidatingWebhook kn = authwebhook_hook kn ''remediationworkflow.validate.kubernaut.ai'' ''NoneOnDryRun'' 15
     ''/validate-remediationworkflow'' (own_namespace_only kn)
     (kubernaut_rule [''CREATE'', ''UPDATE'', ''DELETE''] ''v1alpha1'' ''remediationworkflows'')"

definition actionTypeValidatingWebhook :: "Kubernaut \<Rightarrow> webhook" where
  "actionTypeValidatingWebhook kn = authwebhook_hook kn ''actiontype.validate.kubernaut.ai'' ''NoneOnDryRun'' 15
     ''/validate-actiontype'' (own_namespace_only kn)
     (kubernaut_rule [''CREATE'', ''UPDATE'', ''DELETE''] ''v1alpha1'' ''actiontypes'')"

definition agentSessionValidatingWebhook :: "Kubernaut \<Rightarrow> webhook" where
  "agentSessionValidatingWebhook kn = authwebhook_hook kn ''agentsession.validate.kubernaut.ai'' ''NoneOnDryRun'' 15
     ''/validate-agentsession'' (own_namespace_only kn) (kubernaut_rule [''CREATE''] ''v1alpha2'' ''agentsessions'')"

definition ValidatingWebhookConfiguration :: "Kubernaut \<Rightarrow> kobj" where
  "ValidatingWebhookConfiguration kn = (validating_webhook_meta kn)\<lparr>obj_Body := WebhooksBody
     [notificationRequestValidatingWebhook kn, remediationWorkflowValidatingWebhook kn, actionTypeValidatingWebhook kn,
      agentSessionValidatingWebhook kn]\<rparr>"

definition without_service_ca :: "kobj \<Rightarrow> kobj" where
  "without_service_ca x = set_annotations ((obj_Annotations x)(OCPServiceCAInjectAnnotation := None)) x"

definition with_ca_bundle :: "string \<Rightarrow> kobj \<Rightarrow> kobj" where
  "with_ca_bundle caBundle x =
     (case obj_Body x of
        WebhooksBody hooks \<Rightarrow> x\<lparr>obj_Body := WebhooksBody (map (\<lambda>h. h\<lparr>hook_CABundle := caBundle\<rparr>) hooks)\<rparr>
      | _ \<Rightarrow> x)"

definition injectCAFrom :: string where "injectCAFrom = ''cert-manager.io/inject-ca-from''"

definition with_injection :: "Kubernaut \<Rightarrow> kobj \<Rightarrow> kobj" where
  "with_injection kn x = set_annotations ((obj_Annotations x)(injectCAFrom \<mapsto> kn_Namespace kn @ ''/authwebhook-cert'')) x"

definition MutatingWebhookConfigurationWithCABundle :: "Kubernaut \<Rightarrow> string \<Rightarrow> kobj" where
  "MutatingWebhookConfigurationWithCABundle kn caBundle =
     with_ca_bundle caBundle (without_service_ca (MutatingWebhookConfiguration kn))"

definition ValidatingWebhookConfigurationWithCABundle :: "Kubernaut \<Rightarrow> string \<Rightarrow> kobj" where
  "ValidatingWebhookConfigurationWithCABundle kn caBundle =
     with_ca_bundle caBundle (without_service_ca (ValidatingWebhookConfiguration kn))"

definition MutatingWebhookConfigurationWithCertManagerCA :: "Kubernaut \<Rightarrow> string \<Rightarrow> kobj" where
  "MutatingWebhookConfigurationWithCertManagerCA kn caBundle = with_injection kn (MutatingWebhookConfigurationWithCABundle kn caBundle)"

definition ValidatingWebhookConfigurationWithCertManagerCA :: "Kubernaut \<Rightarrow> string \<Rightarrow> kobj" where
  "ValidatingWebhookConfigurationWithCertManagerCA kn caBundle = with_injection kn (ValidatingWebhookConfigurationWithCABundle kn caBundle)"

definition MutatingWebhookConfigurationWithCertManagerInjection :: "Kubernaut \<Rightarrow> kobj" where
  "MutatingWebhookConfigurationWithCertManagerInjection kn = with_injection kn (without_service_ca (MutatingWebhookConfiguration kn))"

definition ValidatingWebhookConfigurationWithCertManagerInjection :: "Kubernaut \<Rightarrow> kobj" where
  "ValidatingWebhookConfigurationWithCertManagerInjection kn = with_injection kn (without_service_ca (ValidatingWebhookConfiguration kn))"


definition SingletonValidatingWebhookConfiguration :: "string \<Rightarrow> smap \<Rightarrow> kobj" where
  "SingletonValidatingWebhookConfiguration namespace labels = \<lparr>obj_Kind = ''ValidatingWebhookConfiguration'',
     obj_Meta = zero_object_meta\<lparr>meta_Name := namespace @ ''-kubernaut-singleton'', meta_Labels := labels,
       meta_Annotations := [OCPServiceCAInjectAnnotation \<mapsto> ''true'']\<rparr>,
     obj_Body = WebhooksBody [\<lparr>hook_Name = ''singleton.validate.kubernaut.ai'', hook_AdmissionReviewVersions = [''v1''],
       hook_SideEffects = ''None'', hook_FailurePolicy = ''Ignore'', hook_MatchPolicy = ''Equivalent'', hook_TimeoutSeconds = 10,
       hook_Service = (namespace, ''kubernaut-operator-webhook''), hook_Path = ''/validate-kubernaut-singleton'',
       hook_Port = PortWebhookServer, hook_CABundle = '''', hook_NamespaceSelector = None,
       hook_Rules = [\<lparr>hookRule_Operations = [''CREATE''], hookRule_APIGroups = [''kubernaut.ai''], hookRule_APIVersions = [''v1alpha2''],
         hookRule_Resources = [''kubernauts''], hookRule_Scope = ''Cluster''\<rparr>]\<rparr>]\<rparr>"

subsection \<open>Converging the configurations\<close>

definition mutatingWebhookConfigurationForTLS :: "Kubernaut \<Rightarrow> TLSMaterial \<Rightarrow> string \<Rightarrow> kobj" where
  "mutatingWebhookConfigurationForTLS kn tlsMaterial tlsBundle =
     (if tlsMaterial_Source tlsMaterial = TLSMaterialSourceServiceCA then MutatingWebhookConfiguration kn
      else if tlsMaterial_Source tlsMaterial = TLSMaterialSourceCertManager \<and> CertManagerTLSProvisioningEnabled kn
      then MutatingWebhookConfigurationWithCertManagerInjection kn
      else if tlsConfig_Mode (kn_TLS kn) = TLSModeManual then without_service_ca (MutatingWebhookConfiguration kn)
      else MutatingWebhookConfigurationWithCABundle kn tlsBundle)"

definition validatingWebhookConfigurationForTLS :: "Kubernaut \<Rightarrow> TLSMaterial \<Rightarrow> string \<Rightarrow> kobj" where
  "validatingWebhookConfigurationForTLS kn tlsMaterial tlsBundle =
     (if tlsMaterial_Source tlsMaterial = TLSMaterialSourceServiceCA then ValidatingWebhookConfiguration kn
      else if tlsMaterial_Source tlsMaterial = TLSMaterialSourceCertManager \<and> CertManagerTLSProvisioningEnabled kn
      then ValidatingWebhookConfigurationWithCertManagerInjection kn
      else if tlsConfig_Mode (kn_TLS kn) = TLSModeManual then without_service_ca (ValidatingWebhookConfiguration kn)
      else ValidatingWebhookConfigurationWithCABundle kn tlsBundle)"

text \<open>The loop of \<^verbatim>\<open>preserveWebhookCABundle\<close> over the indices of the desired webhooks.\<close>

fun keep_bundles :: "webhook list \<Rightarrow> webhook list \<Rightarrow> webhook list" where
  "keep_bundles [] live = []"
| "keep_bundles (d # ds) [] = d # ds"
| "keep_bundles (d # ds) (l # ls) =
     (if hook_CABundle d = '''' then d\<lparr>hook_CABundle := hook_CABundle l\<rparr> else d) # keep_bundles ds ls"

definition preserveWebhookCABundle :: "kobj \<Rightarrow> kobj \<Rightarrow> kobj" where
  "preserveWebhookCABundle desired live =
     (case (obj_Body desired, obj_Body live) of
        (WebhooksBody ds, WebhooksBody ls) \<Rightarrow> desired\<lparr>obj_Body := WebhooksBody (keep_bundles ds ls)\<rparr>
      | _ \<Rightarrow> desired)"

definition mergeStringMap :: "smap \<Rightarrow> smap \<Rightarrow> smap" where
  "mergeStringMap existing desired = existing ++ desired"

definition webhook_annotations :: "smap \<Rightarrow> smap \<Rightarrow> smap" where
  "webhook_annotations desired live =
     (let merged = mergeStringMap live desired;
          merged = (if desired OCPServiceCAInjectAnnotation = None then merged(OCPServiceCAInjectAnnotation := None) else merged)
      in if desired injectCAFrom = None then merged(injectCAFrom := None) else merged)"

definition merged_webhook :: "kobj \<Rightarrow> kobj \<Rightarrow> kobj" where
  "merged_webhook desired live = preserveWebhookCABundle
     (set_annotations (webhook_annotations (obj_Annotations desired) (obj_Annotations live)) desired) live"

definition ensureWebhookConfiguration :: "'s env \<Rightarrow> kobj \<Rightarrow> ('s, go_error option) prog" where
  "ensureWebhookConfiguration E desired = do {
     r \<leftarrow> Get E (obj_Kind desired) (obj_key desired);
     (case r of
        Inl e \<Rightarrow> if IsNotFound e then ensureUnowned E desired
                else State_Monad.return (Some (Wrap (''getting webhook configuration '' @ obj_Name desired) (API e)))
      | Inr live \<Rightarrow> do {
          err \<leftarrow> checkResourceOwnership E live False;
          (case err of
             Some e \<Rightarrow> State_Monad.return (Some e)
           | None \<Rightarrow> ensureUnowned E (merged_webhook desired live)) }) }"

definition deployAdmissionWebhooks :: "'s env \<Rightarrow> TLSMaterial \<Rightarrow> string \<Rightarrow> ('s, go_error option) prog" where
  "deployAdmissionWebhooks E tlsMaterial tlsBundle = do {
     kn \<leftarrow> the_kn;
     m \<leftarrow> ensureWebhookConfiguration E (mutatingWebhookConfigurationForTLS kn tlsMaterial tlsBundle);
     (case m of
        Some e \<Rightarrow> State_Monad.return (Some (Wrap ''ensuring MutatingWebhookConfiguration'' e))
      | None \<Rightarrow> do {
          v \<leftarrow> ensureWebhookConfiguration E (validatingWebhookConfigurationForTLS kn tlsMaterial tlsBundle);
          State_Monad.return (map_option (Wrap ''ensuring ValidatingWebhookConfiguration'') v) }) }"

subsection \<open>The webhook that keeps the custom resource a singleton\<close>

text \<open>The parts of an admission request that the handler reads, and the three constructors of
  controller-runtime's responses. The decoder and the listing of the custom resources are the
  fields of \<^verbatim>\<open>SingletonValidator\<close>.\<close>

datatype admission_response = Allowed string | Denied string | Errored nat go_error

record 'q SingletonValidator =
  sv_List :: "go_error + Kubernaut list"
  sv_Decode :: "'q \<Rightarrow> go_error + Kubernaut"

definition Handle :: "'q SingletonValidator \<Rightarrow> string \<Rightarrow> 'q \<Rightarrow> admission_response" where
  "Handle v operation req =
     (if operation \<noteq> ''CREATE'' then Allowed ''only CREATE is gated''
      else case sv_Decode v req of
        Inl err \<Rightarrow> Errored 400 err
      | Inr kn \<Rightarrow>
         if kn_Name kn \<noteq> SingletonName
         then Denied (''Kubernaut CR name must be '' @ SingletonName @ ''; got '' @ kn_Name kn)
         else case sv_List v of
           Inl err \<Rightarrow> Errored 500 (Wrap ''listing Kubernaut CRs'' err)
         | Inr [] \<Rightarrow> Allowed ''singleton constraint satisfied''
         | Inr (x # _) \<Rightarrow> Denied (''a Kubernaut CR already exists ('' @ kn_Namespace x @ ''/'' @ kn_Name x @
             ''); only one instance is allowed cluster-wide''))"

subsection \<open>What is converged\<close>

lemma keep_bundles_length [simp]: "length (keep_bundles ds ls) = length ds"
  by (induction ds ls rule: keep_bundles.induct) simp_all

lemma keep_bundles_nth:
  "i < length ds \<Longrightarrow> keep_bundles ds ls ! i =
     (if i < length ls \<and> hook_CABundle (ds ! i) = '''' then (ds ! i)\<lparr>hook_CABundle := hook_CABundle (ls ! i)\<rparr> else ds ! i)"
  by (induction ds ls arbitrary: i rule: keep_bundles.induct) (auto simp: nth_Cons' less_Suc_eq_0_disj)

text \<open>What create-or-update sends for a desired object that is not a Service: the object itself, with the
  ownership marker and the hash.\<close>

definition sends :: "kobj \<Rightarrow> call \<Rightarrow> bool" where
  "sends d c \<longleftrightarrow> (\<forall>x. written c = Some x \<longrightarrow> obj_Kind x = obj_Kind d \<and> obj_key x = obj_key d \<and> obj_Body x = obj_Body d)"

lemma sends_simps [simp]:
  "sends d (Read kind k x)" "sends d (DeleteCall x)" "sends d (UpdateKnCall kn)" "sends d (PatchStatusCall kn kn')"
  by (simp_all add: sends_def)

lemma emits_sends_ensureExisting:
  "obj_Body d = WebhooksBody hs \<Longrightarrow> emits (sends d) (ensureExisting E (stamped_desired E kn d) h ex)"
  unfolding ensureExisting_def
  by (intro emits_rules) (simp_all add: sends_def preserveServiceFields_def)

lemma emits_sends:
  "obj_Body d = WebhooksBody hs \<Longrightarrow> emits (sends d) (ensureUnowned E d)"
  unfolding ensureUnowned_def ensureResource_def ensureResourceChanged_def createOrReadExisting_def Let_def
  by (intro emits_rules emits_sends_ensureExisting) (simp_all add: sends_def)

lemma merged_webhook_body:
  "obj_Body desired = WebhooksBody ds \<Longrightarrow> obj_Body live = WebhooksBody ls \<Longrightarrow>
   obj_Body (merged_webhook desired live) = WebhooksBody (keep_bundles ds ls)"
  by (simp add: merged_webhook_def preserveWebhookCABundle_def)

lemma merged_webhook_sels [simp]:
  "obj_Kind (merged_webhook desired live) = obj_Kind desired" "obj_key (merged_webhook desired live) = obj_key desired"
  "obj_Annotations (merged_webhook desired live) = webhook_annotations (obj_Annotations desired) (obj_Annotations live)"
  "obj_Owners (merged_webhook desired live) = obj_Owners desired"
  by (simp_all add: merged_webhook_def preserveWebhookCABundle_def obj_key_def split: body.splits)

lemma no_writes_checkResourceOwnership: "emits (\<lambda>c. written c = None) (checkResourceOwnership E x co)"
  by (intro emits_rules) simp

lemma run_ensureWebhookConfiguration_refused:
  assumes "e_get E (w_cluster w) (obj_Kind desired) (obj_key desired) = (Inr live, s)"
    and "ResourceOwnershipError E (w_kn w) live False = Some err"
    and "run_state (ensureWebhookConfiguration E desired) w = (r, w')"
  shows "r \<noteq> None \<and> (\<exists>cs. w_trace w' = cs @ w_trace w \<and> list_all (\<lambda>c. written c = None) cs)"
proof -
  let ?v = "w\<lparr>w_cluster := s, w_trace := Read (obj_Kind desired) (obj_key desired) live # w_trace w\<rparr>"
  obtain e u where check: "run_state (checkResourceOwnership E live False) ?v = (Some e, u)"
    using run_checkResourceOwnership_refused [of E ?v live False err] assms(2) by auto
  have "r = Some e" "w' = u"
    using assms(1,3) check by (auto simp: ensureWebhookConfiguration_def run_Get reads_of_def)
  moreover obtain cs where "w_trace u = cs @ w_trace ?v" "list_all (\<lambda>c. written c = None) cs"
    using emitsD [OF no_writes_checkResourceOwnership check] by blast
  ultimately show ?thesis
    by (intro conjI exI [of _ "cs @ [Read (obj_Kind desired) (obj_key desired) live]"]) simp_all
qed

lemma run_ensureWebhookConfiguration_accepted:
  assumes "e_get E (w_cluster w) (obj_Kind desired) (obj_key desired) = (Inr live, s)"
    and "ResourceOwnershipError E (w_kn w) live False = None"
  shows "run_state (ensureWebhookConfiguration E desired) w = run_state (ensureUnowned E (merged_webhook desired live))
     (w\<lparr>w_cluster := s, w_trace := Read (obj_Kind desired) (obj_key desired) live # w_trace w\<rparr>)"
  using assms by (simp add: ensureWebhookConfiguration_def run_Get run_checkResourceOwnership_ok reads_of_def)

text \<open>The webhooks \<open>hs\<close> are the desired ones \<open>ds\<close>, except that an empty bundle is the live webhook's.\<close>

definition keeps_bundles :: "webhook list \<Rightarrow> webhook list \<Rightarrow> webhook list \<Rightarrow> bool" where
  "keeps_bundles ds ls hs \<longleftrightarrow> length hs = length ds \<and> (\<forall>i < length ds.
     hs ! i = (ds ! i)\<lparr>hook_CABundle :=
       (if i < length ls \<and> hook_CABundle (ds ! i) = '''' then hook_CABundle (ls ! i) else hook_CABundle (ds ! i))\<rparr>)"

lemma keep_bundles_correct: "keeps_bundles ds ls (keep_bundles ds ls)"
  by (simp add: keeps_bundles_def keep_bundles_nth)

text \<open>C14: Converging a webhook configuration never erases a CA bundle. When the live configuration is not
  this instance's the convergence fails and writes nothing; otherwise everything it writes goes to that
  configuration and has the desired webhooks in which each empty bundle is replaced by the bundle of the
  live webhook at the same position and each bundle that is set stays.\<close>

theorem ca_bundle_survives:
  assumes "e_get E (w_cluster w) (obj_Kind desired) (obj_key desired) = (Inr live, s)"
    and "obj_Body desired = WebhooksBody ds" and "obj_Body live = WebhooksBody ls"
    and "run_state (ensureWebhookConfiguration E desired) w = (r, w')"
  shows "(owned E (w_kn w) live False \<or> r \<noteq> None) \<and>
    (\<exists>cs. w_trace w' = cs @ w_trace w \<and> (\<forall>c \<in> set cs. \<forall>x. written c = Some x \<longrightarrow>
       owned E (w_kn w) live False \<and> obj_Kind x = obj_Kind desired \<and> obj_key x = obj_key desired \<and>
       (\<exists>hs. obj_Body x = WebhooksBody hs \<and> keeps_bundles ds ls hs)))"
proof (cases "ResourceOwnershipError E (w_kn w) live False")
  case None
  let ?m = "merged_webhook desired live" and ?read = "Read (obj_Kind desired) (obj_key desired) live"
  have body: "obj_Body ?m = WebhooksBody (keep_bundles ds ls)" using assms(2,3) by (rule merged_webhook_body)
  from run_ensureWebhookConfiguration_accepted [OF assms(1) None, symmetric]
  have "run_state (ensureUnowned E ?m) (w\<lparr>w_cluster := s, w_trace := ?read # w_trace w\<rparr>) = (r, w')"
    using assms(4) by (rule trans)
  from emitsD [OF emits_sends [OF body] this] obtain cs where
    cs: "w_trace w' = cs @ ?read # w_trace w" "list_all (sends ?m) cs" by (elim exE conjE) simp
  have own: "owned E (w_kn w) live False" using None by (simp add: gate_iff)
  have sent: "obj_Kind x = obj_Kind desired \<and> obj_key x = obj_key desired \<and> obj_Body x = WebhooksBody (keep_bundles ds ls)"
    if "c \<in> set (cs @ [?read])" and "written c = Some x" for c x
  proof -
    have "c \<noteq> ?read" using that(2) by auto
    with that(1) cs(2) have "sends ?m c" by (simp add: list_all_iff)
    with that(2) show ?thesis by (simp add: sends_def body)
  qed
  have "w_trace w' = (cs @ [?read]) @ w_trace w" using cs(1) by simp
  moreover have "\<forall>c \<in> set (cs @ [?read]). \<forall>x. written c = Some x \<longrightarrow>
      owned E (w_kn w) live False \<and> obj_Kind x = obj_Kind desired \<and> obj_key x = obj_key desired \<and>
      (\<exists>hs. obj_Body x = WebhooksBody hs \<and> keeps_bundles ds ls hs)"
    using own sent keep_bundles_correct by blast
  ultimately show ?thesis using own by blast
next
  case (Some e)
  from run_ensureWebhookConfiguration_refused [OF assms(1) Some assms(4)]
  show ?thesis by (auto simp: list_all_iff)
qed

definition live_webhooks :: kobj where
  "live_webhooks = StampOwnership sample_kn (MutatingWebhookConfigurationWithCABundle sample_kn ''injected'')"

lemma webhook_meta_sels [simp]:
  "obj_Annotations (webhook_meta kn kind suffix) = [OCPServiceCAInjectAnnotation \<mapsto> ''true'']"
  "obj_Kind (webhook_meta kn kind suffix) = kind" "obj_key (webhook_meta kn kind suffix) = ('''', kn_Namespace kn @ suffix)"
  "obj_Owners (webhook_meta kn kind suffix) = []" "meta_DeletionTimestamp (obj_Meta (webhook_meta kn kind suffix)) = None"
  "obj_Namespace (webhook_meta kn kind suffix) = ''''"
  by (simp_all add: webhook_meta_def zero_object_meta_def obj_key_def)

lemma live_webhooks_sels:
  "obj_Kind live_webhooks = ''MutatingWebhookConfiguration''"
  "obj_key live_webhooks = obj_key (MutatingWebhookConfiguration sample_kn)"
  "obj_Body live_webhooks = WebhooksBody (map (\<lambda>h. h\<lparr>hook_CABundle := ''injected''\<rparr>) (mutating_hooks sample_kn))"
  by (simp_all add: live_webhooks_def MutatingWebhookConfigurationWithCABundle_def MutatingWebhookConfiguration_def
      with_ca_bundle_def without_service_ca_def mutating_webhook_meta_def obj_key_def)

lemma live_webhooks_owned: "ResourceOwnershipError sample_env sample_kn live_webhooks False = None"
  unfolding gate_iff live_webhooks_def
  by (rule stamped_owned) (simp_all add: live_webhooks_def MutatingWebhookConfigurationWithCABundle_def MutatingWebhookConfiguration_def
      with_ca_bundle_def without_service_ca_def mutating_webhook_meta_def)

lemma keeps_bundles_live:
  assumes "keeps_bundles ds ls hs" and "length ls = length ds" and "\<And>d. d \<in> set ds \<Longrightarrow> hook_CABundle d = ''''"
  shows "map hook_CABundle hs = map hook_CABundle ls"
  using assms by (intro nth_equalityI) (auto simp: keeps_bundles_def)

lemma mutating_hooks_empty: "d \<in> set (mutating_hooks kn) \<Longrightarrow> hook_CABundle d = ''''"
  by (auto simp: mutating_hooks_def authwebhook_hook_def)

theorem ca_bundle_survives_witness:
  "\<exists>cs. w_trace (snd (run_state (ensureWebhookConfiguration sample_env (MutatingWebhookConfiguration sample_kn))
       (sample_world [live_webhooks]))) = cs \<and>
     (\<forall>c \<in> set cs. \<forall>x. written c = Some x \<longrightarrow> (\<exists>hs. obj_Body x = WebhooksBody hs \<and>
        map hook_CABundle hs = [''injected'', ''injected'', ''injected'']))"
proof -
  let ?d = "MutatingWebhookConfiguration sample_kn" and ?w = "sample_world [live_webhooks]"
  let ?ls = "map (\<lambda>h. h\<lparr>hook_CABundle := ''injected''\<rparr>) (mutating_hooks sample_kn)"
  let ?r = "run_state (ensureWebhookConfiguration sample_env ?d) ?w"
  have kind: "obj_Kind ?d = obj_Kind live_webhooks"
    by (simp add: live_webhooks_sels MutatingWebhookConfiguration_def mutating_webhook_meta_def)
  have get: "e_get sample_env (w_cluster ?w) (obj_Kind ?d) (obj_key ?d) = (Inr live_webhooks, w_cluster ?w)"
    by (simp add: sample_get_def is_at_def kind live_webhooks_sels(2))
  have body: "obj_Body ?d = WebhooksBody (mutating_hooks sample_kn)" by (simp add: MutatingWebhookConfiguration_def)
  have ls: "map hook_CABundle ?ls = [''injected'', ''injected'', ''injected'']" by (simp add: mutating_hooks_def)
  have injected: "map hook_CABundle hs = [''injected'', ''injected'', ''injected'']"
    if "keeps_bundles (mutating_hooks sample_kn) ?ls hs" for hs
    using keeps_bundles_live [OF that _ mutating_hooks_empty] ls by simp
  have "w_trace ?w = []" by simp
  with ca_bundle_survives [OF get body live_webhooks_sels(3) surjective_pairing [of ?r]] injected show ?thesis
    by (metis append_Nil2)
qed

definition fails_closed :: "Kubernaut \<Rightarrow> webhook \<Rightarrow> bool" where
  "fails_closed kn h \<longleftrightarrow> hook_FailurePolicy h = ''Fail'' \<and> hook_Service h = (kn_Namespace kn, ''authwebhook-service'') \<and>
     list_all (\<lambda>r. hookRule_APIGroups r = [''kubernaut.ai''] \<and> hookRule_Scope r = ''Namespaced'') (hook_Rules h)"

lemma fails_closed_bundle [simp]: "fails_closed kn (h\<lparr>hook_CABundle := b\<rparr>) = fails_closed kn h"
  by (simp add: fails_closed_def)

lemma keep_bundles_fails_closed: "list_all (fails_closed kn) ds \<Longrightarrow> list_all (fails_closed kn) (keep_bundles ds ls)"
  by (induction ds ls rule: keep_bundles.induct) auto

lemma authwebhook_hook_fails_closed [simp]:
  "fails_closed kn (authwebhook_hook kn name effects timeout path selector (kubernaut_rule ops version resource))"
  by (simp add: fails_closed_def authwebhook_hook_def kubernaut_rule_def)

lemmas configuration_variants = mutatingWebhookConfigurationForTLS_def validatingWebhookConfigurationForTLS_def
  MutatingWebhookConfigurationWithCABundle_def ValidatingWebhookConfigurationWithCABundle_def
  MutatingWebhookConfigurationWithCertManagerInjection_def ValidatingWebhookConfigurationWithCertManagerInjection_def
  MutatingWebhookConfiguration_def ValidatingWebhookConfiguration_def mutating_webhook_meta_def validating_webhook_meta_def
  with_ca_bundle_def without_service_ca_def with_injection_def

lemma configuration_hooks:
  assumes "desired \<in> {mutatingWebhookConfigurationForTLS kn material bundle, validatingWebhookConfigurationForTLS kn material bundle}"
  shows "\<exists>hs. obj_Body desired = WebhooksBody hs \<and> hs \<noteq> [] \<and> list_all (fails_closed kn) hs"
  using assms
  by (auto simp: configuration_variants mutating_hooks_def notificationRequestValidatingWebhook_def
      remediationWorkflowValidatingWebhook_def actionTypeValidatingWebhook_def agentSessionValidatingWebhook_def)

lemma annotations_distinct [simp]: "OCPServiceCAInjectAnnotation \<noteq> injectCAFrom" "injectCAFrom \<noteq> OCPServiceCAInjectAnnotation"
  by (simp_all add: OCPServiceCAInjectAnnotation_def injectCAFrom_def)

lemma sources_distinct [simp]: "TLSMaterialSourceServiceCA \<noteq> TLSMaterialSourceCertManager"
  by (simp add: TLSMaterialSourceServiceCA_def TLSMaterialSourceCertManager_def)

lemma configuration_annotations:
  assumes "desired \<in> {mutatingWebhookConfigurationForTLS kn material bundle, validatingWebhookConfigurationForTLS kn material bundle}"
  shows "obj_Annotations desired OCPServiceCAInjectAnnotation =
       (if tlsMaterial_Source material = TLSMaterialSourceServiceCA then Some ''true'' else None)"
    and "obj_Annotations desired injectCAFrom =
       (if tlsMaterial_Source material = TLSMaterialSourceCertManager \<and> CertManagerTLSProvisioningEnabled kn
        then Some (kn_Namespace kn @ ''/authwebhook-cert'') else None)"
  using assms sources_distinct [symmetric]
  by (auto simp: configuration_variants)

text \<open>Two sources of a CA bundle never compete for one webhook configuration: whatever annotations a
  live configuration has from an earlier TLS mode, the converged one asks the service CA for a bundle
  exactly when the service CA issues the certificates, and asks cert-manager exactly when the operator
  lets it provision them. Every webhook fails closed, calls the AuthWebhook Service of this instance's
  namespace and matches only namespaced resources of the group kubernaut.ai.\<close>

lemma webhook_ca_source_unique:
  assumes "desired \<in> {mutatingWebhookConfigurationForTLS kn material bundle, validatingWebhookConfigurationForTLS kn material bundle}"
    and "obj_Body live = WebhooksBody ls"
  shows "obj_Annotations (merged_webhook desired live) OCPServiceCAInjectAnnotation =
       (if tlsMaterial_Source material = TLSMaterialSourceServiceCA then Some ''true'' else None) \<and>
     obj_Annotations (merged_webhook desired live) injectCAFrom =
       (if tlsMaterial_Source material = TLSMaterialSourceCertManager \<and> CertManagerTLSProvisioningEnabled kn
        then Some (kn_Namespace kn @ ''/authwebhook-cert'') else None) \<and>
     (\<exists>hs. obj_Body (merged_webhook desired live) = WebhooksBody hs \<and> hs \<noteq> [] \<and> list_all (fails_closed kn) hs)"
proof -
  obtain ds where ds: "obj_Body desired = WebhooksBody ds" "ds \<noteq> []" "list_all (fails_closed kn) ds"
    using configuration_hooks [OF assms(1)] by blast
  have "keep_bundles ds ls \<noteq> []" using ds(2) keep_bundles_length [of ds ls] by force
  with ds keep_bundles_fails_closed [OF ds(3)] configuration_annotations [OF assms(1)] merged_webhook_body [OF ds(1) assms(2)]
  show ?thesis
    by (simp add: webhook_annotations_def mergeStringMap_def map_add_def Let_def)
qed

definition manual_material :: TLSMaterial where
  "manual_material = \<lparr>tlsMaterial_Source = TLSMaterialSourceManual, tlsMaterial_InternalCASecretName = '''',
     tlsMaterial_InternalCAConfigMapName = '''', tlsMaterial_ServiceTLSSecretNames = Map.empty, tlsMaterial_OwnsSecrets = False\<rparr>"

lemma webhook_ca_source_unique_example:
  "obj_Annotations (merged_webhook (mutatingWebhookConfigurationForTLS sample_kn manual_material ''bundle'')
     (MutatingWebhookConfiguration sample_kn)) OCPServiceCAInjectAnnotation = None"
  using webhook_ca_source_unique [of "mutatingWebhookConfigurationForTLS sample_kn manual_material ''bundle''" sample_kn
      manual_material "''bundle''" "MutatingWebhookConfiguration sample_kn" "mutating_hooks sample_kn"]
  by (simp add: MutatingWebhookConfiguration_def manual_material_def TLSMaterialSourceManual_def TLSMaterialSourceServiceCA_def)


subsection \<open>Write safety\<close>

lemma safe_check_only [triple_rules]:
  "identity_stable E \<Longrightarrow> keeps (safe ok me) (checkResourceOwnership E x co)"
  unfolding checkResourceOwnership_def by (intro triple_rules) simp_all

lemma safe_ensureWebhookConfiguration [triple_rules]:
  assumes "identity_stable E" and "\<And>y. mine E me y \<Longrightarrow> ok y"
  shows "keeps (safe ok me) (ensureWebhookConfiguration E desired)"
  unfolding ensureWebhookConfiguration_def
  by (intro triple_rules assms) (simp_all add: assms)

lemma safe_deployAdmissionWebhooks [triple_rules]:
  assumes "identity_stable E" and "\<And>y. mine E me y \<Longrightarrow> ok y"
  shows "keeps (safe ok me) (deployAdmissionWebhooks E tlsMaterial tlsBundle)"
  unfolding deployAdmissionWebhooks_def by (intro triple_rules assms) (simp_all add: assms)

text \<open>Uninstalling addresses the configurations by kind and name, so the objects built without webhooks there
  stand for the full ones.\<close>

lemma deleteIfExists_addressed:
  "obj_Kind x = obj_Kind y \<Longrightarrow> obj_key x = obj_key y \<Longrightarrow> deleteIfExists E x = deleteIfExists E y"
  by (simp add: deleteIfExists_def)

lemma delete_configurations:
  "deleteIfExists E (MutatingWebhookConfiguration kn) = deleteIfExists E (mutating_webhook_meta kn)"
  "deleteIfExists E (ValidatingWebhookConfiguration kn) = deleteIfExists E (validating_webhook_meta kn)"
  by (rule deleteIfExists_addressed; simp add: MutatingWebhookConfiguration_def ValidatingWebhookConfiguration_def obj_key_def)+

end
