(* ===== verification/Runtime_TLS.thy ===== *)
theory Runtime_TLS
  imports Admission Certificates Evidence
begin

text \<open>
  The reconciler's part in TLS (\<^verbatim>\<open>internal/controller/kubernaut_controller.go\<close>): the checks of the selected
  source before anything is deployed, the resolution of the cert-manager issuer, the convergence of the
  cert-manager objects, and the publication of the CA.
\<close>

record tls_env =
  t_decoders :: decoders
  t_x509 :: x509_checks
  t_range :: "smap \<Rightarrow> string list" \<comment> \<open>the order in which a run ranges over a map\<close>

subsection \<open>Choosing the issuer\<close>

definition certManagerIssuerKind :: string where "certManagerIssuerKind = ''Issuer''"
definition certManagerClusterIssuerKind :: string where "certManagerClusterIssuerKind = ''ClusterIssuer''"

record certManagerIssuerReference =
  cir_name :: string
  cir_kind :: string
  cir_group :: string

text \<open>Kinds of cert-manager's own group go by their bare name in the model, those of another group by the
  qualified one.\<close>

definition issuer_gvk :: "string \<Rightarrow> string \<Rightarrow> string" where
  "issuer_gvk grp kind = (if grp = defaultCertManagerGroup then kind else kind @ ''.'' @ grp)"

definition currentCertManagerIssuerController :: "Kubernaut \<Rightarrow> kobj \<Rightarrow> bool" where
  "currentCertManagerIssuerController kn x =
     (case find (\<lambda>r. owner_Controller r = Some True) (obj_Owners x) of
        None \<Rightarrow> False
      | Some owner \<Rightarrow> kn_UID kn \<noteq> '''' \<and> owner_UID owner = kn_UID kn \<and> owner_APIVersion owner = ''kubernaut.ai/v1alpha2'' \<and>
          owner_Kind owner = ''Kubernaut'' \<and> owner_Name owner = kn_Name kn)"

definition internal_issuer_names :: "Kubernaut \<Rightarrow> string \<Rightarrow> string \<Rightarrow> string list" where
  "internal_issuer_names kn grp kind =
     (if kind = certManagerIssuerKind \<and> grp = ''cert-manager.io'' then CertManagerBootstrapIssuerNames kn else [])"

definition issuer_candidates :: "Kubernaut \<Rightarrow> string \<Rightarrow> string \<Rightarrow> kobj list \<Rightarrow> string list" where
  "issuer_candidates kn grp kind items =
     map obj_Name (filter (\<lambda>x. \<not> (obj_Name x \<in> set (internal_issuer_names kn grp kind) \<and> currentCertManagerIssuerController kn x)) items)"

definition selectSingleCertManagerIssuer :: "'s env \<Rightarrow> string \<Rightarrow> string \<Rightarrow> ('s, string go) prog" where
  "selectSingleCertManagerIssuer E grp kind = do {
     kn \<leftarrow> the_kn;
     r \<leftarrow> ListObjs E (issuer_gvk grp kind) (if kind = certManagerIssuerKind then Some (kn_Namespace kn) else None) [];
     State_Monad.return (case r of
        Inl e \<Rightarrow> Inl (Wrap (''listing cert-manager '' @ kind @ '' resources'') (API e))
      | Inr items \<Rightarrow>
         (case issuer_candidates kn grp kind items of
            [] \<Rightarrow> Inl (Msg (''no cert-manager '' @ kind @ '' found for automatic issuer selection''))
          | [name] \<Rightarrow> Inr name
          | _ \<Rightarrow> Inl (Msg (''multiple cert-manager '' @ kind @ '' resources found; set tls.certManager.issuer.name'')))) }"

definition resolveCertManagerIssuer :: "'s env \<Rightarrow> ('s, certManagerIssuerReference go) prog" where
  "resolveCertManagerIssuer E = do {
     kn \<leftarrow> the_kn;
     (case tlsConfig_CertManager (kn_TLS kn) of
        None \<Rightarrow> State_Monad.return (Inl (Msg ''tls.certManager is required''))
      | Some cfg \<Rightarrow> do {
          let issuerConfig = EffectiveIssuerRef (Some cfg);
          let grp = (if tlsIssuerRef_Group issuerConfig = '''' then ''cert-manager.io'' else tlsIssuerRef_Group issuerConfig);
          let kind = (if tlsIssuerRef_Kind issuerConfig = '''' then certManagerClusterIssuerKind else tlsIssuerRef_Kind issuerConfig);
          (if kind \<noteq> certManagerIssuerKind \<and> kind \<noteq> certManagerClusterIssuerKind
           then State_Monad.return (Inl (Msg (''tls.certManager.issuer.kind '' @ kind @ '' is unsupported'')))
           else do {
             let plural = (if kind = certManagerClusterIssuerKind then ''clusterissuers'' else ''issuers'');
             installed \<leftarrow> hasCRD E (plural @ ''.'' @ grp);
             (if \<not> installed then State_Monad.return (Inl (Msg (''cert-manager api is not installed: '' @ grp)))
              else do {
                selected \<leftarrow> (if tlsIssuerRef_Name issuerConfig = '''' then selectSingleCertManagerIssuer E grp kind
                             else State_Monad.return (Inr (tlsIssuerRef_Name issuerConfig)));
                (case selected of
                   Inl e \<Rightarrow> State_Monad.return (Inl e)
                 | Inr name \<Rightarrow> do {
                     r \<leftarrow> Get E (issuer_gvk grp kind) (if kind = certManagerClusterIssuerKind then '''' else kn_Namespace kn, name);
                     State_Monad.return (case r of
                        Inl e \<Rightarrow> Inl (Wrap (''reading cert-manager '' @ kind @ '' '' @ name) (API e))
                      | Inr _ \<Rightarrow> Inr \<lparr>cir_name = name, cir_kind = kind, cir_group = grp\<rparr>) }) }) }) }) }"

definition validateCertManagerIssuer :: "'s env \<Rightarrow> ('s, go_error option) prog" where
  "validateCertManagerIssuer E = do {
     r \<leftarrow> resolveCertManagerIssuer E;
     State_Monad.return (case r of Inl e \<Rightarrow> Some e | Inr _ \<Rightarrow> None) }"

subsection \<open>Converging the cert-manager objects\<close>

fun add_missing :: "string list \<Rightarrow> string list \<Rightarrow> string list" where
  "add_missing merged [] = merged"
| "add_missing merged (v # vs) = (if v \<in> set merged then add_missing merged vs else add_missing (merged @ [v]) vs)"

definition mergeStringSlice :: "string list \<Rightarrow> string list \<Rightarrow> string list" where
  "mergeStringSlice existing desired = add_missing (add_missing [] existing) desired"

definition set_finalizers :: "string list \<Rightarrow> kobj \<Rightarrow> kobj" where
  "set_finalizers fs x = x\<lparr>obj_Meta := (obj_Meta x)\<lparr>meta_Finalizers := fs\<rparr>\<rparr>"

definition merged_cert_object :: "kobj \<Rightarrow> kobj \<Rightarrow> kobj" where
  "merged_cert_object desired live =
     set_finalizers (mergeStringSlice (meta_Finalizers (obj_Meta live)) (meta_Finalizers (obj_Meta desired)))
       (set_annotations (mergeStringMap (obj_Annotations live) (obj_Annotations desired))
         (set_labels (mergeStringMap (obj_Labels live) (obj_Labels desired))
           (set_rv (obj_RV live) desired)))"

definition convergeCertManagerResource :: "'s env \<Rightarrow> kobj \<Rightarrow> kobj \<Rightarrow> ('s, go_error option) prog" where
  "convergeCertManagerResource E desired live = do {
     err \<leftarrow> checkResourceOwnership E live True;
     (case err of
        Some e \<Rightarrow> State_Monad.return (Some e)
      | None \<Rightarrow>
         (if mget (obj_Annotations live) AnnotationSpecHash = mget (obj_Annotations desired) AnnotationSpecHash \<and>
             ownershipMetadataMatches desired live
          then State_Monad.return None
          else do {
            u \<leftarrow> Update E (merged_cert_object desired live);
            State_Monad.return (case u of
               Inl e \<Rightarrow> Some (Wrap ''updating cert-manager resource'' (API e)) | Inr _ \<Rightarrow> None) })) }"

definition ensureCertManagerResource :: "'s env \<Rightarrow> kobj \<Rightarrow> ('s, go_error option) prog" where
  "ensureCertManagerResource E x = do {
     kn \<leftarrow> the_kn;
     (case e_setControllerReference E kn x of
        Inl e \<Rightarrow> State_Monad.return (Some e)
      | Inr y \<Rightarrow> do {
          let desired = stamped_desired E kn y;
          r \<leftarrow> Get E (obj_Kind desired) (obj_key desired);
          (case r of
             Inl e \<Rightarrow>
               (if IsNotFound e then do {
                  c \<leftarrow> createOrReadExisting E desired;
                  (case c of
                     Inl err \<Rightarrow> State_Monad.return (Some err)
                   | Inr (Inl created) \<Rightarrow> State_Monad.return None
                   | Inr (Inr live) \<Rightarrow> convergeCertManagerResource E desired live) }
                else State_Monad.return (Some (Wrap ''getting'' (API e))))
           | Inr live \<Rightarrow> convergeCertManagerResource E desired live) }) }"

definition ensureCertManagerDesiredTLSResources :: "'s env \<Rightarrow> Kubernaut \<Rightarrow> ('s, go_error option) prog" where
  "ensureCertManagerDesiredTLSResources E desiredKn =
     for_each (\<lambda>x. do {
         r \<leftarrow> ensureCertManagerResource E x;
         State_Monad.return (map_option (Wrap (''ensuring cert-manager '' @ obj_Kind x @ '' '' @ obj_Name x)) r) })
       (CertManagerTLSResources desiredKn)"

definition with_issuer :: "certManagerIssuerReference \<Rightarrow> Kubernaut \<Rightarrow> Kubernaut" where
  "with_issuer ref kn =
     kn\<lparr>kn_Spec := (kn_Spec kn)\<lparr>spec_TLS := (kn_TLS kn)\<lparr>tlsConfig_CertManager :=
       map_option (\<lambda>cfg. cfg\<lparr>certManagerTLSConfig_IssuerRef := \<lparr>tlsIssuerRef_Name = cir_name ref,
         tlsIssuerRef_Kind = cir_kind ref, tlsIssuerRef_Group = cir_group ref\<rparr>\<rparr>) (tlsConfig_CertManager (kn_TLS kn))\<rparr>\<rparr>\<rparr>"

definition ensureCertManagerTLSResources :: "'s env \<Rightarrow> ('s, go_error option) prog" where
  "ensureCertManagerTLSResources E = do {
     kn \<leftarrow> the_kn;
     (if \<not> CertManagerTLSProvisioningEnabled kn then State_Monad.return None
      else do {
        ref \<leftarrow> resolveCertManagerIssuer E;
        (case ref of
           Inl e \<Rightarrow> State_Monad.return (Some e)
         | Inr issuerRef \<Rightarrow> do {
             installed \<leftarrow> hasCRD E ''certificates.cert-manager.io'';
             (if \<not> installed then State_Monad.return (Some (Msg ''cert-manager api is not installed: certificates''))
              else ensureCertManagerDesiredTLSResources E (with_issuer issuerRef kn)) }) }) }"

subsection \<open>Readiness of Certificates and webhooks\<close>

fun certManagerReadyCondition :: "cm_condition option list \<Rightarrow> bool \<times> string \<times> string" where
  "certManagerReadyCondition [] = (False, ''Ready condition is absent'', '''')"
| "certManagerReadyCondition (None # cs) = certManagerReadyCondition cs"
| "certManagerReadyCondition (Some c # cs) =
     (if cmCond_Type c \<noteq> ''Ready'' then certManagerReadyCondition cs
      else (cmCond_Status c = ''True'', cmCond_Reason c, cmCond_Message c))"

definition certificate_conditions :: "kobj \<Rightarrow> cm_conditions" where
  "certificate_conditions x = (case obj_Body x of CertificateBody _ cs \<Rightarrow> cs | _ \<Rightarrow> ConditionsAbsent)"

definition certificate_not_ready :: "string \<Rightarrow> kobj \<Rightarrow> go_error option" where
  "certificate_not_ready name certificate =
     (case certificate_conditions certificate of
        ConditionsMalformed \<Rightarrow> Some (Msg (''reading cert-manager Certificate '' @ name @ '' conditions''))
      | ConditionsAbsent \<Rightarrow> Some (Msg (''cert-manager Certificate '' @ name @ '' is not ready: Ready condition is absent''))
      | Conditions cs \<Rightarrow>
         (let (ready, reason, message) = certManagerReadyCondition cs;
              status = (if reason = '''' then ''unknown'' else reason) @ (if message = '''' then '''' else '': '' @ message)
          in if ready then None else Some (Msg (''cert-manager Certificate '' @ name @ '' is not ready ('' @ status @ '')''))))"

definition certificate_ready_check :: "'s env \<Rightarrow> kobj \<Rightarrow> ('s, go_error option) prog" where
  "certificate_ready_check E desired =
     (if obj_Kind desired \<noteq> ''Certificate'' then State_Monad.return None
      else do {
        r \<leftarrow> Get E (obj_Kind desired) (obj_key desired);
        State_Monad.return (case r of
           Inl e \<Rightarrow> Some (Wrap (''reading cert-manager Certificate '' @ obj_Name desired) (API e))
         | Inr certificate \<Rightarrow> certificate_not_ready (obj_Name desired) certificate) })"

definition validateCertManagerCertificatesReady :: "'s env \<Rightarrow> ('s, go_error option) prog" where
  "validateCertManagerCertificatesReady E = do {
     kn \<leftarrow> the_kn;
     for_each (certificate_ready_check E) (CertManagerTLSResources kn) }"

definition ensureCertManagerWebhookConfigurations :: "'s env \<Rightarrow> ('s, go_error option) prog" where
  "ensureCertManagerWebhookConfigurations E = do {
     kn \<leftarrow> the_kn;
     m \<leftarrow> ensureWebhookConfiguration E (MutatingWebhookConfigurationWithCertManagerInjection kn);
     (case m of
        Some e \<Rightarrow> State_Monad.return (Some (Wrap ''ensuring cert-manager MutatingWebhookConfiguration'' e))
      | None \<Rightarrow> do {
          v \<leftarrow> ensureWebhookConfiguration E (ValidatingWebhookConfigurationWithCertManagerInjection kn);
          State_Monad.return (map_option (Wrap ''ensuring cert-manager ValidatingWebhookConfiguration'') v) }) }"

definition ensureManualWebhookConfigurations :: "'s env \<Rightarrow> ('s, go_error option) prog" where
  "ensureManualWebhookConfigurations E = do {
     kn \<leftarrow> the_kn;
     m \<leftarrow> ensureWebhookConfiguration E (without_service_ca (MutatingWebhookConfiguration kn));
     (case m of
        Some e \<Rightarrow> State_Monad.return (Some (Wrap ''ensuring manual MutatingWebhookConfiguration'' e))
      | None \<Rightarrow> do {
          v \<leftarrow> ensureWebhookConfiguration E (without_service_ca (ValidatingWebhookConfiguration kn));
          State_Monad.return (map_option (Wrap ''ensuring manual ValidatingWebhookConfiguration'') v) }) }"

definition webhooks_of :: "kobj \<Rightarrow> webhook list" where
  "webhooks_of x = (case obj_Body x of WebhooksBody hs \<Rightarrow> hs | _ \<Rightarrow> [])"

definition webhookCABundleReady :: "webhook list \<Rightarrow> go_error option" where
  "webhookCABundleReady hooks =
     (if hooks = [] then Some (Msg ''no webhook entries exist'')
      else if list_ex (\<lambda>h. hook_CABundle h = '''') hooks then Some (Msg ''a webhook has an empty caBundle'') else None)"

definition webhookCABundleReadyMutating :: "webhook list \<Rightarrow> go_error option" where
  "webhookCABundleReadyMutating = webhookCABundleReady"

definition webhookCABundleReadyValidating :: "webhook list \<Rightarrow> go_error option" where
  "webhookCABundleReadyValidating = webhookCABundleReady"

definition validateWebhookCABundles :: "'s env \<Rightarrow> ('s, go_error option) prog" where
  "validateWebhookCABundles E = do {
     kn \<leftarrow> the_kn;
     m \<leftarrow> Get E ''MutatingWebhookConfiguration'' ('''', kn_Namespace kn @ ''-authwebhook-mutating'');
     (case m of
        Inl e \<Rightarrow> State_Monad.return (Some (Wrap ''reading AuthWebhook MutatingWebhookConfiguration for CA injection'' (API e)))
      | Inr mwc \<Rightarrow>
         (case webhookCABundleReadyMutating (webhooks_of mwc) of
            Some e \<Rightarrow> State_Monad.return (Some (Wrap ''AuthWebhook MutatingWebhookConfiguration CA bundle is not ready'' e))
          | None \<Rightarrow> do {
              v \<leftarrow> Get E ''ValidatingWebhookConfiguration'' ('''', kn_Namespace kn @ ''-authwebhook-validating'');
              State_Monad.return (case v of
                 Inl e \<Rightarrow> Some (Wrap ''reading AuthWebhook ValidatingWebhookConfiguration for CA injection'' (API e))
               | Inr vwc \<Rightarrow> map_option (Wrap ''AuthWebhook ValidatingWebhookConfiguration CA bundle is not ready'')
                   (webhookCABundleReadyValidating (webhooks_of vwc))) })) }"

subsection \<open>The checks before a deployment\<close>

definition ca_secret_from :: "Kubernaut \<Rightarrow> string \<Rightarrow> kobj \<Rightarrow> kobj" where
  "ca_secret_from kn name configMap =
     (let caPEM = (if gget (configmap_data configMap) ''ca.crt'' \<noteq> '''' then gget (configmap_data configMap) ''ca.crt''
                   else gget (configmap_data configMap) ''service-ca.crt'')
      in \<lparr>obj_Kind = ''Secret'', obj_Meta = zero_object_meta\<lparr>meta_Name := name, meta_Namespace := kn_Namespace kn\<rparr>,
          obj_Body = SecretBody [(''ca.crt'', caPEM)] None ''''\<rparr>)"

definition readRuntimeTLSCA :: "'s env \<Rightarrow> TLSMaterial \<Rightarrow> ('s, kobj go) prog" where
  "readRuntimeTLSCA E material = do {
     kn \<leftarrow> the_kn;
     (if tlsMaterial_InternalCAConfigMapName material \<noteq> '''' then do {
        let name = tlsMaterial_InternalCAConfigMapName material;
        r \<leftarrow> Get E ''ConfigMap'' (kn_Namespace kn, name);
        State_Monad.return (case r of
           Inl e \<Rightarrow> Inl (Wrap (''reading runtime TLS CA ConfigMap '' @ name) (API e))
         | Inr configMap \<Rightarrow> Inr (ca_secret_from kn name configMap)) }
      else do {
        let name = tlsMaterial_InternalCASecretName material;
        r \<leftarrow> Get E ''Secret'' (kn_Namespace kn, name);
        State_Monad.return (case r of
           Inl e \<Rightarrow> Inl (Wrap (''reading runtime TLS CA secret '' @ name) (API e))
         | Inr ca \<Rightarrow> Inr ca) }) }"

definition validateDataStorageSigningCertificate :: "'s env \<Rightarrow> tls_env \<Rightarrow> ('s, go_error option) prog" where
  "validateDataStorageSigningCertificate E T = do {
     kn \<leftarrow> the_kn;
     let name = DataStorageSigningSecretName kn;
     (if name = '''' then State_Monad.return None
      else do {
        r \<leftarrow> Get E ''Secret'' (kn_Namespace kn, name);
        State_Monad.return (case r of
           Inl e \<Rightarrow> Some (Wrap (''reading DataStorage signing certificate Secret '' @ name) (API e))
         | Inr secret \<Rightarrow> map_option (Wrap (''validating DataStorage signing certificate Secret '' @ name))
             (ValidateDataStorageSigningTLSSecret (t_decoders T) (t_x509 T) secret)) }) }"

definition own_webhook_trust :: "Kubernaut \<Rightarrow> TLSMaterial \<Rightarrow> string \<Rightarrow> bool" where
  "own_webhook_trust kn material serviceKey \<longleftrightarrow> serviceKey = TLSServiceAuthWebhook \<and>
     (tlsMaterial_Source material = TLSMaterialSourceCertManager \<and> CertManagerTLSProvisioningEnabled kn \<or>
      tlsConfig_Mode (kn_TLS kn) = TLSModeManual)"

definition validateRuntimeTLSSecret ::
  "'s env \<Rightarrow> tls_env \<Rightarrow> TLSMaterial \<Rightarrow> kobj \<Rightarrow> string \<Rightarrow> string \<Rightarrow> ('s, go_error option) prog" where
  "validateRuntimeTLSSecret E T material ca serviceKey secretName = do {
     kn \<leftarrow> the_kn;
     r \<leftarrow> Get E ''Secret'' (kn_Namespace kn, secretName);
     State_Monad.return (case r of
        Inl e \<Rightarrow> Some (Wrap (''reading runtime TLS secret '' @ secretName @ '' for '' @ serviceKey) (API e))
      | Inr secret \<Rightarrow>
         if own_webhook_trust kn material serviceKey
         then map_option (Wrap (''validating AuthWebhook TLS secret '' @ secretName))
                (ValidateAuthWebhookTLSSecret (t_decoders T) (t_x509 T) secret (kn_Namespace kn))
         else map_option (Wrap (''validating runtime TLS secret '' @ secretName @ '' for '' @ serviceKey))
                (ValidateServingTLSSecretForServiceWithSource (t_decoders T) (t_x509 T) secret ca serviceKey
                   (kn_Namespace kn) (tlsMaterial_Source material))) }"

definition validateRuntimeTLSSecrets :: "'s env \<Rightarrow> tls_env \<Rightarrow> TLSMaterial \<Rightarrow> kobj \<Rightarrow> ('s, go_error option) prog" where
  "validateRuntimeTLSSecrets E T material ca =
     for_each (\<lambda>serviceKey. validateRuntimeTLSSecret E T material ca serviceKey (mget (tlsMaterial_ServiceTLSSecretNames material) serviceKey))
       (t_range T (tlsMaterial_ServiceTLSSecretNames material))"

definition validateTLSWebhookReadiness :: "'s env \<Rightarrow> TLSMaterial \<Rightarrow> ('s, go_error option) prog" where
  "validateTLSWebhookReadiness E material = do {
     kn \<leftarrow> the_kn;
     (if tlsMaterial_Source material = TLSMaterialSourceCertManager \<and> CertManagerTLSProvisioningEnabled kn then do {
        err \<leftarrow> ensureCertManagerWebhookConfigurations E;
        (case err of Some e \<Rightarrow> State_Monad.return (Some e) | None \<Rightarrow> validateWebhookCABundles E) }
      else if tlsConfig_Mode (kn_TLS kn) = TLSModeManual then do {
        err \<leftarrow> ensureManualWebhookConfigurations E;
        (case err of Some e \<Rightarrow> State_Monad.return (Some e) | None \<Rightarrow> validateWebhookCABundles E) }
      else State_Monad.return None) }"

definition validateCertManagerTLS :: "'s env \<Rightarrow> ('s, go_error option) prog" where
  "validateCertManagerTLS E = do {
     kn \<leftarrow> the_kn;
     (if CertManagerTLSProvisioningEnabled kn then do {
        err \<leftarrow> ensureCertManagerTLSResources E;
        (case err of Some e \<Rightarrow> State_Monad.return (Some e) | None \<Rightarrow> validateCertManagerCertificatesReady E) }
      else validateCertManagerIssuer E) }"

definition validateExplicitTLS :: "'s env \<Rightarrow> tls_env \<Rightarrow> TLSMaterial \<Rightarrow> ('s, go_error option) prog" where
  "validateExplicitTLS E T material = do {
     err \<leftarrow> (if tlsMaterial_Source material = TLSMaterialSourceCertManager then validateCertManagerTLS E else State_Monad.return None);
     (case err of Some e \<Rightarrow> State_Monad.return (Some e) | None \<Rightarrow> do {
     r \<leftarrow> readRuntimeTLSCA E material;
     (case r of Inl e \<Rightarrow> State_Monad.return (Some e) | Inr ca \<Rightarrow>
     (case ValidateInternalCASecretForSource (t_decoders T) ca (tlsMaterial_Source material) of
        Some e \<Rightarrow> State_Monad.return (Some e) | None \<Rightarrow> do {
     err \<leftarrow> validateRuntimeTLSSecrets E T material ca;
     (case err of Some e \<Rightarrow> State_Monad.return (Some e) | None \<Rightarrow> do {
     err \<leftarrow> validateDataStorageSigningCertificate E T;
     (case err of Some e \<Rightarrow> State_Monad.return (Some e) | None \<Rightarrow> validateTLSWebhookReadiness E material) }) })) }) }"

definition validateTLSConfiguration :: "'s env \<Rightarrow> tls_env \<Rightarrow> ('s, TLSMaterial go) prog" where
  "validateTLSConfiguration E T = do {
     kn \<leftarrow> the_kn;
     (case ResolveTLSMaterial kn of
        Inl e \<Rightarrow> State_Monad.return (Inl e)
      | Inr material \<Rightarrow>
         (if tlsMaterial_Source material = TLSMaterialSourceServiceCA then do {
            openShift \<leftarrow> openShiftPlatformDetected E;
            State_Monad.return (if openShift then Inr material
              else Inl (Msg ''tls.mode is unset or service-ca and OpenShift service-CA capability was not discovered; select manual or cert-manager'')) }
          else do {
            err \<leftarrow> validateExplicitTLS E T material;
            State_Monad.return (case err of Some e \<Rightarrow> Inl e | None \<Rightarrow> Inr material) })) }"

subsection \<open>TLS of a deployment\<close>

definition ensureRuntimeTLS :: "'s env \<Rightarrow> tls_env \<Rightarrow> ('s, (TLSMaterial \<times> string) go) prog" where
  "ensureRuntimeTLS E T = do {
     kn \<leftarrow> the_kn;
     (case ResolveTLSMaterial kn of
        Inl e \<Rightarrow> State_Monad.return (Inl e)
      | Inr material \<Rightarrow>
         (if tlsMaterial_Source material = TLSMaterialSourceServiceCA then State_Monad.return (Inr (material, ''''))
          else do {
            err \<leftarrow> (if tlsMaterial_Source material = TLSMaterialSourceCertManager \<and> CertManagerTLSProvisioningEnabled kn
                    then ensureCertManagerTLSResources E else State_Monad.return None);
            (case err of Some e \<Rightarrow> State_Monad.return (Inl e) | None \<Rightarrow> do {
            r \<leftarrow> readRuntimeTLSCA E material;
            (case r of Inl e \<Rightarrow> State_Monad.return (Inl e) | Inr ca \<Rightarrow>
            (case InternalCAPEMForSource (t_decoders T) ca (tlsMaterial_Source material) of
               Inl e \<Rightarrow> State_Monad.return (Inl e) | Inr caPEM \<Rightarrow> do {
            err \<leftarrow> validateDataStorageSigningCertificate E T;
            State_Monad.return (case err of Some e \<Rightarrow> Inl e | None \<Rightarrow> Inr (material, caPEM)) })) }) })) }"

definition ensureGenericTLSConfigMaps :: "'s env \<Rightarrow> string \<Rightarrow> ('s, go_error option) prog" where
  "ensureGenericTLSConfigMaps E caBundle = do {
     kn \<leftarrow> the_kn;
     (if tlsConfig_Mode (kn_TLS kn) = TLSModeManual then State_Monad.return None
      else if caBundle = '''' then State_Monad.return (Some (Msg ''generic runtime TLS CA bundle is empty''))
      else for_each (\<lambda>configMap. do {
          r \<leftarrow> ensureNamespaced E configMap;
          State_Monad.return (map_option (Wrap (''ensuring generic TLS ConfigMap '' @ obj_Name configMap)) r) })
        (GenericTLSConfigMaps kn caBundle)) }"

definition ensureTLSConfigMapsForMaterial :: "'s env \<Rightarrow> TLSMaterial \<Rightarrow> string \<Rightarrow> ('s, go_error option) prog" where
  "ensureTLSConfigMapsForMaterial E material caBundle =
     (if tlsMaterial_Source material = TLSMaterialSourceServiceCA then State_Monad.return None
      else ensureGenericTLSConfigMaps E caBundle)"

subsection \<open>The issuer\<close>

definition own_bootstrap_issuer :: "Kubernaut \<Rightarrow> string \<Rightarrow> string \<Rightarrow> kobj \<Rightarrow> bool" where
  "own_bootstrap_issuer kn grp kind x \<longleftrightarrow>
     obj_Name x \<in> set (internal_issuer_names kn grp kind) \<and> currentCertManagerIssuerController kn x"

lemma filter_single:
  "filter P xs = [x] \<Longrightarrow> \<exists>us vs. xs = us @ x # vs \<and> P x \<and> list_all (\<lambda>y. \<not> P y) (us @ vs)"
  by (simp add: filter_eq_Cons_iff filter_empty_conv list_all_iff eq_commute [of "[]"]) blast

text \<open>The issuer that is chosen when none is named is not a guess: it is listed, it is not one of the bootstrap
  issuers that this instance controls itself, and every other listed issuer is one of those. With no such
  issuer or with several the selection is an error.\<close>

lemma selected_issuer_is_the_only_candidate:
  assumes "run_state (selectSingleCertManagerIssuer E grp kind) w = (Inr name, w')"
    and "e_list E (w_cluster w) (issuer_gvk grp kind) (if kind = certManagerIssuerKind then Some (kn_Namespace (w_kn w)) else None) [] = (Inr items, s)"
  shows "\<exists>us x vs. items = us @ x # vs \<and> obj_Name x = name \<and> \<not> own_bootstrap_issuer (w_kn w) grp kind x \<and>
     list_all (own_bootstrap_issuer (w_kn w) grp kind) (us @ vs)"
proof -
  have "issuer_candidates (w_kn w) grp kind items = [name]"
    using assms by (auto simp: selectSingleCertManagerIssuer_def call_defs split: list.splits)
  then obtain x where x: "filter (\<lambda>x. \<not> own_bootstrap_issuer (w_kn w) grp kind x) items = [x]" "obj_Name x = name"
    by (auto simp: issuer_candidates_def own_bootstrap_issuer_def)
  from filter_single [OF x(1)] x(2) show ?thesis by auto
qed


definition issuer_named :: "string \<Rightarrow> kobj" where
  "issuer_named name = sample_object ''Issuer'' name (IssuerBody SelfSigned)"

lemma selected_issuer_is_the_only_candidate_example:
  "\<exists>us x vs. [issuer_named ''corporate''] = us @ x # vs \<and> obj_Name x = ''corporate'' \<and> list_all (own_bootstrap_issuer sample_kn ''cert-manager.io'' ''Issuer'') (us @ vs)"
proof -
  have list: "e_list sample_env (w_cluster (sample_world [issuer_named ''corporate''])) (issuer_gvk ''cert-manager.io'' ''Issuer'')
      (if ''Issuer'' = certManagerIssuerKind then Some (kn_Namespace (w_kn (sample_world [issuer_named ''corporate'']))) else None) [] =
      (Inr [issuer_named ''corporate''], w_cluster (sample_world [issuer_named ''corporate'']))"
    by (simp add: sample_list_def issuer_gvk_def defaultCertManagerGroup_def certManagerIssuerKind_def issuer_named_def)
  have candidates: "issuer_candidates sample_kn ''cert-manager.io'' ''Issuer'' [issuer_named ''corporate''] = [''corporate'']"
    by (simp add: issuer_candidates_def currentCertManagerIssuerController_def issuer_named_def)
  have "fst (run_state (selectSingleCertManagerIssuer sample_env ''cert-manager.io'' ''Issuer'') (sample_world [issuer_named ''corporate''])) = Inr ''corporate''"
    using candidates
    by (simp add: selectSingleCertManagerIssuer_def call_defs sample_list_def issuer_gvk_def defaultCertManagerGroup_def
        certManagerIssuerKind_def issuer_named_def)
  then have run: "run_state (selectSingleCertManagerIssuer sample_env ''cert-manager.io'' ''Issuer'') (sample_world [issuer_named ''corporate'']) =
      (Inr ''corporate'', snd (run_state (selectSingleCertManagerIssuer sample_env ''cert-manager.io'' ''Issuer'') (sample_world [issuer_named ''corporate''])))"
    by (simp add: prod_eq_iff)
  from selected_issuer_is_the_only_candidate [OF run list] show ?thesis by auto
qed

subsection \<open>Calls and steadiness of the steps\<close>

lemma emits_any_mono: "emits P m \<Longrightarrow> emits (\<lambda>_. True) m"
  by (rule emits_mono) simp_all

lemma reads_hasCRD [emits_rules]: "emits (\<lambda>c. \<not> is_write c) (hasCRD E n)"
  unfolding hasCRD_def by (intro emits_rules) simp

lemma steady_hasCRD [steady_rules]: "steady g (hasCRD E n)"
  unfolding hasCRD_def by (intro steady_rules)

lemma steady_ensureWebhookConfiguration [steady_rules]: "steady (\<lambda>r. r = None) (ensureWebhookConfiguration E d)"
  unfolding ensureWebhookConfiguration_def
  by (intro steady_rules steady_bind_map) (simp_all | rule steady_rules)+

lemma steady_convergeCertManagerResource [steady_rules]: "steady (\<lambda>r. r = None) (convergeCertManagerResource E d live)"
  unfolding convergeCertManagerResource_def by (rule steady_bind_option) (intro steady_rules | simp)+

lemma steady_ensureCertManagerResource [steady_rules]: "steady (\<lambda>r. r = None) (ensureCertManagerResource E x)"
  unfolding ensureCertManagerResource_def createOrReadExisting_def by (intro steady_rules)

lemma steady_resolveCertManagerIssuer [steady_rules]: "steady g (resolveCertManagerIssuer E)"
  unfolding resolveCertManagerIssuer_def selectSingleCertManagerIssuer_def by (intro steady_rules)

lemma steady_ensureCertManagerTLSResources [steady_rules]: "steady (\<lambda>r. r = None) (ensureCertManagerTLSResources E)"
  unfolding ensureCertManagerTLSResources_def ensureCertManagerDesiredTLSResources_def
  by (intro steady_rules steady_for_each steady_bind_map) simp_all

lemma steady_validateCertManagerTLS [steady_rules]: "steady (\<lambda>r. r = None) (validateCertManagerTLS E)"
  unfolding validateCertManagerTLS_def validateCertManagerCertificatesReady_def certificate_ready_check_def
    validateCertManagerIssuer_def
  by (intro steady_rules steady_for_each) simp_all

lemma steady_readRuntimeTLSCA [steady_rules]: "steady g (readRuntimeTLSCA E m)"
  unfolding readRuntimeTLSCA_def by (intro steady_rules)

lemma steady_validateRuntimeTLSSecret [steady_rules]: "steady g (validateRuntimeTLSSecret E T m ca k n)"
  unfolding validateRuntimeTLSSecret_def by (intro steady_rules)

lemma steady_validateDataStorageSigningCertificate [steady_rules]: "steady g (validateDataStorageSigningCertificate E T)"
  unfolding validateDataStorageSigningCertificate_def by (intro steady_rules)

subsection \<open>What the checks show\<close>

text \<open>A serving certificate as the operator demands it: a matching key pair whose leaf is valid for a DNS name of the
  service; the AuthWebhook's own trust aside, below a root of the inter-service CA.\<close>

definition certificate_serves :: "tls_env \<Rightarrow> Kubernaut \<Rightarrow> TLSMaterial \<Rightarrow> kobj \<Rightarrow> string \<Rightarrow> kobj \<Rightarrow> bool" where
  "certificate_serves T kn m ca k secret \<longleftrightarrow>
     (let crt = gget (secret_data secret) TLSCertKey; key = gget (secret_data secret) TLSPrivateKeyKey in
      crt \<noteq> '''' \<and> key \<noteq> '''' \<and> d_x509KeyPair (t_decoders T) crt key = None \<and>
      (\<exists>leaf. parseCertificate (t_decoders T) crt = Inr leaf \<and>
        (if own_webhook_trust kn m k
         then \<exists>dns \<in> set (TLSServiceDNSNames k (kn_Namespace kn)). x_verifyHostname (t_x509 T) leaf dns
         else \<exists>roots data. internalCAMaterialForSource (t_decoders T) ca (tlsMaterial_Source m) = Inr (roots, data) \<and>
                list_all cert_IsCA roots \<and>
                (\<exists>dns \<in> set (TLSServiceDNSNames k (kn_Namespace kn)). x_verify (t_x509 T) roots leaf dns))))"

lemma serving_checks_sound:
  "ValidateAuthWebhookTLSSecret (t_decoders T) (t_x509 T) secret (kn_Namespace kn) = None \<Longrightarrow> own_webhook_trust kn m k \<Longrightarrow>
     certificate_serves T kn m ca k secret"
  "ValidateServingTLSSecretForServiceWithSource (t_decoders T) (t_x509 T) secret ca k (kn_Namespace kn) (tlsMaterial_Source m) = None \<Longrightarrow>
     \<not> own_webhook_trust kn m k \<Longrightarrow> certificate_serves T kn m ca k secret"
  by (auto simp: ValidateAuthWebhookTLSSecret_def ValidateServingTLSSecretForServiceWithSource_def ValidateServingTLSSecret_def
      certificate_serves_def own_webhook_trust_def Let_def list_ex_iff split: option.splits sum.splits if_splits
      dest: internalCAMaterial_all_CA)

definition serving_evidence :: "tls_env \<Rightarrow> TLSMaterial \<Rightarrow> kobj \<Rightarrow> Kubernaut \<Rightarrow> call set \<Rightarrow> string \<Rightarrow> bool" where
  "serving_evidence T m ca kn S k \<longleftrightarrow> (\<exists>secret.
     Read ''Secret'' (kn_Namespace kn, mget (tlsMaterial_ServiceTLSSecretNames m) k) secret \<in> S \<and> certificate_serves T kn m ca k secret)"

lemma accepted_serving:
  assumes "run_state (validateRuntimeTLSSecret E T m ca k (mget (tlsMaterial_ServiceTLSSecretNames m) k)) w = (None, w')"
  shows "serving_evidence T m ca (w_kn w) (set (w_trace w')) k"
proof -
  have "\<exists>secret. Read ''Secret'' (kn_Namespace (w_kn w), mget (tlsMaterial_ServiceTLSSecretNames m) k) secret \<in> set (w_trace w') \<and>
      (if own_webhook_trust (w_kn w) m k
       then ValidateAuthWebhookTLSSecret (t_decoders T) (t_x509 T) secret (kn_Namespace (w_kn w)) = None
       else ValidateServingTLSSecretForServiceWithSource (t_decoders T) (t_x509 T) secret ca k (kn_Namespace (w_kn w)) (tlsMaterial_Source m) = None)"
    using assms
    by (auto simp: validateRuntimeTLSSecret_def call_defs reads_of_def split: prod.splits sum.splits if_splits)
  then show ?thesis unfolding serving_evidence_def by (metis serving_checks_sound)
qed

interpretation serving: evidence_check
  "\<lambda>k. validateRuntimeTLSSecret E T m ca k (mget (tlsMaterial_ServiceTLSSecretNames m) k)" "serving_evidence T m ca"
  for E :: "'s env" and T m ca
proof unfold_locales
  show "emits (\<lambda>c. \<not> is_write c) (validateRuntimeTLSSecret E T m ca k (mget (tlsMaterial_ServiceTLSSecretNames m) k))" for k
    unfolding validateRuntimeTLSSecret_def by (intro emits_rules) simp
qed (rule steady_rules, erule accepted_serving, auto simp: serving_evidence_def)

definition ready_evidence :: "Kubernaut \<Rightarrow> call set \<Rightarrow> kobj \<Rightarrow> bool" where
  "ready_evidence kn S desired \<longleftrightarrow> (obj_Kind desired = ''Certificate'' \<longrightarrow>
     (\<exists>certificate cs c. Read ''Certificate'' (obj_key desired) certificate \<in> S \<and> certificate_conditions certificate = Conditions cs \<and>
        Some c \<in> set cs \<and> cmCond_Type c = ''Ready'' \<and> cmCond_Status c = ''True''))"

lemma ready_condition: "fst (certManagerReadyCondition cs) \<Longrightarrow> \<exists>c. Some c \<in> set cs \<and> cmCond_Type c = ''Ready'' \<and> cmCond_Status c = ''True''"
  by (induction cs rule: certManagerReadyCondition.induct) (auto split: if_splits)

lemma not_unready:
  "certificate_not_ready n x = None \<Longrightarrow> \<exists>cs c. certificate_conditions x = Conditions cs \<and> Some c \<in> set cs \<and> cmCond_Type c = ''Ready'' \<and> cmCond_Status c = ''True''"
  using ready_condition by (fastforce simp: certificate_not_ready_def Let_def split: cm_conditions.splits if_splits prod.splits)

interpretation ready: evidence_check "certificate_ready_check E" ready_evidence for E :: "'s env"
proof unfold_locales
  show "emits (\<lambda>c. \<not> is_write c) (certificate_ready_check E x)" for x
    unfolding certificate_ready_check_def by (intro emits_rules) simp
  show "steady (\<lambda>_. True) (certificate_ready_check E x)" for x
    unfolding certificate_ready_check_def by (intro steady_rules)
  show "run_state (certificate_ready_check E x) w = (None, w') \<Longrightarrow> ready_evidence (w_kn w) (set (w_trace w')) x" for x w w'
    using not_unready
    by (fastforce simp: certificate_ready_check_def ready_evidence_def call_defs reads_of_def split: prod.splits sum.splits if_splits)
qed (auto simp: ready_evidence_def)

lemma run_option_chain:
  "run_state (State_Monad.bind m (\<lambda>r. case r of Some e \<Rightarrow> State_Monad.return (Some e) | None \<Rightarrow> n)) w = (None, w') \<longleftrightarrow>
     (\<exists>v. run_state m w = (None, v) \<and> run_state n v = (None, w'))"
  by (auto simp: State_Monad.return_def split: prod.splits option.splits)

lemma run_sum_chain:
  "run_state (State_Monad.bind m (\<lambda>r. case r of Inl e \<Rightarrow> State_Monad.return (Some (h e)) | Inr v \<Rightarrow> n v)) w = (None, w') \<longleftrightarrow>
     (\<exists>x v. run_state m w = (Inr x, v) \<and> run_state (n x) v = (None, w'))"
  by (auto simp: State_Monad.return_def split: prod.splits sum.splits)

lemma run_option_case:
  "run_state (case x of Some e \<Rightarrow> State_Monad.return (Some e) | None \<Rightarrow> n) w = (None, w') \<longleftrightarrow> x = None \<and> run_state n w = (None, w')"
  by (cases x) (simp_all add: State_Monad.return_def)

definition ca_evidence :: "TLSMaterial \<Rightarrow> Kubernaut \<Rightarrow> call set \<Rightarrow> kobj \<Rightarrow> bool" where
  "ca_evidence m kn S ca \<longleftrightarrow>
     (if tlsMaterial_InternalCAConfigMapName m \<noteq> ''''
      then \<exists>cm. Read ''ConfigMap'' (kn_Namespace kn, tlsMaterial_InternalCAConfigMapName m) cm \<in> S \<and>
             ca = ca_secret_from kn (tlsMaterial_InternalCAConfigMapName m) cm
      else Read ''Secret'' (kn_Namespace kn, tlsMaterial_InternalCASecretName m) ca \<in> S)"

lemma read_ca_evidence:
  "run_state (readRuntimeTLSCA E m) w = (Inr ca, w') \<Longrightarrow> ca_evidence m (w_kn w) (set (w_trace w')) ca"
  by (auto simp: readRuntimeTLSCA_def ca_evidence_def call_defs reads_of_def Let_def split: prod.splits sum.splits if_splits)

lemma ca_evidence_mono: "ca_evidence m kn S ca \<Longrightarrow> S \<subseteq> S' \<Longrightarrow> ca_evidence m kn S' ca"
  by (auto simp: ca_evidence_def split: if_splits)

definition signing_evidence :: "tls_env \<Rightarrow> Kubernaut \<Rightarrow> call set \<Rightarrow> bool" where
  "signing_evidence T kn S \<longleftrightarrow> (DataStorageSigningSecretName kn \<noteq> '''' \<longrightarrow>
     (\<exists>secret. Read ''Secret'' (kn_Namespace kn, DataStorageSigningSecretName kn) secret \<in> S \<and>
        x_rsaBits (t_x509 T) (gget (secret_data secret) TLSCertKey) (gget (secret_data secret) TLSPrivateKeyKey) = Some 2048))"

lemma signing_check:
  assumes "run_state (validateDataStorageSigningCertificate E T) w = (None, w')"
  shows "signing_evidence T (w_kn w) (set (w_trace w'))"
  using assms
  by (auto simp: validateDataStorageSigningCertificate_def signing_evidence_def ValidateDataStorageSigningTLSSecret_def
      call_defs reads_of_def Let_def split: prod.splits sum.splits if_splits option.splits)

lemma signing_evidence_mono: "signing_evidence T kn S \<Longrightarrow> S \<subseteq> S' \<Longrightarrow> signing_evidence T kn S'"
  by (auto simp: signing_evidence_def)

lemma extends_rest:
  "emits (\<lambda>_. True) (validateDataStorageSigningCertificate E T)" "emits (\<lambda>_. True) (validateTLSWebhookReadiness E m)"
proof -
  have "emits (\<lambda>_. True) (ensureWebhookConfiguration E d)" for d
    unfolding ensureWebhookConfiguration_def by (intro emits_rules emits_any_mono [OF emits_ensureUnowned]) simp_all
  then show "emits (\<lambda>_. True) (validateTLSWebhookReadiness E m)"
    unfolding validateTLSWebhookReadiness_def ensureCertManagerWebhookConfigurations_def ensureManualWebhookConfigurations_def
      validateWebhookCABundles_def
    by (intro emits_rules) simp_all
  show "emits (\<lambda>_. True) (validateDataStorageSigningCertificate E T)"
    unfolding validateDataStorageSigningCertificate_def by (intro emits_rules) simp_all
qed

lemma explicit_tls_evidence:
  assumes "run_state (validateExplicitTLS E T m) w = (None, w')"
  shows "\<exists>ca. ca_evidence m (w_kn w) (set (w_trace w')) ca \<and> signing_evidence T (w_kn w) (set (w_trace w')) \<and>
     (\<forall>k \<in> set (t_range T (tlsMaterial_ServiceTLSSecretNames m)). serving_evidence T m ca (w_kn w) (set (w_trace w')) k)"
proof -
  let ?pre = "if tlsMaterial_Source m = TLSMaterialSourceCertManager then validateCertManagerTLS E else State_Monad.return None"
  obtain v1 ca v2 v3 v4 where
    1: "run_state ?pre w = (None, v1)" and 2: "run_state (readRuntimeTLSCA E m) v1 = (Inr ca, v2)" and
    3: "run_state (validateRuntimeTLSSecrets E T m ca) v2 = (None, v3)" and
    4: "run_state (validateDataStorageSigningCertificate E T) v3 = (None, v4)" and
    5: "run_state (validateTLSWebhookReadiness E m) v4 = (None, w')"
    using assms unfolding validateExplicitTLS_def
    by (auto simp: run_option_chain run_sum_chain [where h = "\<lambda>e. e"] run_option_case simp del: run_state_bind)
  have kn1: "w_kn v1 = w_kn w"
    using steadyD [OF steady_if [OF steady_validateCertManagerTLS steady_return] 1] by simp
  have kn2: "w_kn v2 = w_kn w" using steadyD [OF steady_readRuntimeTLSCA 2, of "\<lambda>_. True"] kn1 by simp
  have kn3: "w_kn v3 = w_kn w" using serving.for_each_steady [OF 3 [unfolded validateRuntimeTLSSecrets_def]] kn2 by simp
  have 45: "set (w_trace v3) \<subseteq> set (w_trace v4)" "set (w_trace v4) \<subseteq> set (w_trace w')"
    using emits_extends [OF extends_rest(1) 4] emits_extends [OF extends_rest(2) 5] by blast+
  have 23: "set (w_trace v2) \<subseteq> set (w_trace v3)"
    using emits_extends [OF serving.for_each_reads_only 3 [unfolded validateRuntimeTLSSecrets_def]] .
  have "ca_evidence m (w_kn w) (set (w_trace w')) ca"
    using ca_evidence_mono [OF read_ca_evidence [OF 2]] 23 45 kn1 by (metis order_trans)
  moreover have "signing_evidence T (w_kn w) (set (w_trace w'))"
    using signing_evidence_mono [OF signing_check [OF 4] 45(2)] kn3 by simp
  moreover have "serving_evidence T m ca (w_kn w) (set (w_trace w')) k" if "k \<in> set (t_range T (tlsMaterial_ServiceTLSSecretNames m))" for k
    using serving.evidence_mono [OF serving.all_accepted [OF 3 [unfolded validateRuntimeTLSSecrets_def] that]] 45 kn2 by (metis order_trans)
  ultimately show ?thesis by blast
qed

text \<open>C13: No workload is deployed on a certificate that nobody checked: when the TLS configuration is accepted and the
  certificates are the administrator's or cert-manager's, the run has read the CA that the configuration names, and
  for every service it has read the very Secret the service will mount and found a matching key pair in it whose
  certificate is valid for a DNS name of the service and signed below that CA, in which every certificate is a CA
  (the AuthWebhook's certificate, when its trust is separate, is checked for its host name); the signing
  key of the audit trail, when one is configured, is an RSA key of 2048 bits.\<close>

theorem accepted_tls_is_verified:
  assumes "run_state (validateTLSConfiguration E T) w = (Inr m, w')" and "tlsMaterial_Source m \<noteq> TLSMaterialSourceServiceCA"
    and "set (t_range T (tlsMaterial_ServiceTLSSecretNames m)) = dom (tlsMaterial_ServiceTLSSecretNames m)"
  shows "ResolveTLSMaterial (w_kn w) = Inr m \<and> (\<exists>ca. ca_evidence m (w_kn w) (set (w_trace w')) ca \<and>
     (\<forall>k \<in> dom (tlsMaterial_ServiceTLSSecretNames m). serving_evidence T m ca (w_kn w) (set (w_trace w')) k)) \<and>
     signing_evidence T (w_kn w) (set (w_trace w'))"
proof -
  obtain m' where m': "ResolveTLSMaterial (w_kn w) = Inr m'"
    using assms(1) by (cases "ResolveTLSMaterial (w_kn w)") (auto simp: validateTLSConfiguration_def call_defs)
  have "m' = m \<and> run_state (validateExplicitTLS E T m) w = (None, w')"
    using assms(1,2) m'
    by (auto simp: validateTLSConfiguration_def call_defs State_Monad.return_def split: if_splits prod.splits option.splits)
  with m' explicit_tls_evidence [of E T m w w'] assms(3) show ?thesis by auto
qed

definition verified_config :: CertManagerTLSConfig where
  "verified_config = zero_CertManagerTLSConfig\<lparr>certManagerTLSConfig_Issuer := zero_TLSIssuerRef\<lparr>tlsIssuerRef_Name := ''corporate''\<rparr>,
     certManagerTLSConfig_InternalCASecretName := ''internal-ca'',
     certManagerTLSConfig_ServiceTLSSecretNames := map (\<lambda>k. (k, ''serving-tls'')) (required_tls_keys False)\<rparr>"

definition verified_kn :: Kubernaut where
  "verified_kn = sample_kn\<lparr>kn_Spec := (kn_Spec sample_kn)\<lparr>spec_TLS := zero_TLSConfigSpec\<lparr>tlsConfig_Mode := TLSModeCertManager,
     tlsConfig_CertManager := Some verified_config\<rparr>\<rparr>\<rparr>"

definition verified_material :: TLSMaterial where
  "verified_material = \<lparr>tlsMaterial_Source = TLSMaterialSourceCertManager, tlsMaterial_InternalCASecretName = ''internal-ca'',
     tlsMaterial_InternalCAConfigMapName = '''',
     tlsMaterial_ServiceTLSSecretNames = [TLSServiceGateway \<mapsto> ''serving-tls'', TLSServiceDataStorage \<mapsto> ''serving-tls'',
       TLSServiceKubernautAgent \<mapsto> ''serving-tls'', TLSServiceAPIFrontend \<mapsto> ''serving-tls'', TLSServiceAuthWebhook \<mapsto> ''serving-tls''],
     tlsMaterial_OwnsSecrets = False\<rparr>"

definition sample_tls :: tls_env where
  "sample_tls = \<lparr>t_decoders = sample_decoders, t_x509 = \<lparr>x_verify = (\<lambda>roots leaf dns. cert_Raw leaf = ''leaf'' \<and> roots \<noteq> []),
       x_verifyHostname = (\<lambda>leaf dns. True), x_rsaBits = (\<lambda>c k. Some 2048)\<rparr>,
     t_range = (\<lambda>m. required_tls_keys False)\<rparr>"

definition verified_world :: "cluster world" where
  "verified_world = (sample_world
     [\<lparr>obj_Kind = CRDKind, obj_Meta = zero_object_meta\<lparr>meta_Name := ''clusterissuers.cert-manager.io''\<rparr>, obj_Body = NoBody\<rparr>,
      \<lparr>obj_Kind = ''ClusterIssuer'', obj_Meta = zero_object_meta\<lparr>meta_Name := ''corporate''\<rparr>, obj_Body = IssuerBody SelfSigned\<rparr>,
      sample_object ''Secret'' ''internal-ca'' (SecretBody [(''ca.crt'', ''root'')] None ''''),
      sample_object ''Secret'' ''serving-tls'' (SecretBody [(''tls.crt'', ''leaf''), (''tls.key'', ''key'')] None '''')])\<lparr>w_kn := verified_kn\<rparr>"

lemma verified_kn_sels [simp]:
  "kn_Namespace verified_kn = ''kubernaut-system''" "tlsConfig_Mode (kn_TLS verified_kn) = TLSModeCertManager"
  "tlsConfig_CertManager (kn_TLS verified_kn) = Some verified_config"
  "dataStorage_Audit (spec_DataStorage (kn_Spec verified_kn)) = None" "spec_Fleet (kn_Spec verified_kn) = zero_FleetSpec"
  by (simp_all add: verified_kn_def zero_Kubernaut_def zero_KubernautSpec_def zero_DataStorageSpec_def)

lemma verified_kn_switches [simp]:
  "\<not> FleetMetadataCacheEnabled (kn_Spec verified_kn)" "\<not> CertManagerTLSProvisioningEnabled verified_kn"
  "DataStorageSigningSecretName verified_kn = ''''"
  by (simp_all add: FleetMetadataCacheEnabled_def FleetEnabled_def zero_FleetSpec_def CertManagerTLSProvisioningEnabled_def verified_config_def
      zero_CertManagerTLSConfig_def DataStorageSigningSecretName_def signing_secret_override_def TLSModeCertManager_def TLSModeManual_def)

lemma verified_config_sels [simp]:
  "EffectiveIssuerRef (Some verified_config) = \<lparr>tlsIssuerRef_Name = ''corporate'', tlsIssuerRef_Kind = '''', tlsIssuerRef_Group = ''''\<rparr>"
  "certManagerTLSConfig_InternalCASecretName verified_config = ''internal-ca''"
  "certManagerTLSConfig_ServiceTLSSecretNames verified_config = map (\<lambda>k. (k, ''serving-tls'')) (required_tls_keys False)"
  by (simp_all add: verified_config_def zero_CertManagerTLSConfig_def EffectiveIssuerRef_def zero_TLSIssuerRef_def)

lemma verified_resolves: "ResolveTLSMaterial verified_kn = Inr verified_material"
proof -
  have "requiredServiceTLSSecretNames (map (\<lambda>k. (k, ''serving-tls'')) (required_tls_keys False)) False =
      Inr (tlsMaterial_ServiceTLSSecretNames verified_material)"
    by (simp add: requiredServiceTLSSecretNames_def required_tls_keys_def gget_def mget_def verified_material_def)
  then show ?thesis
    by (simp add: ResolveTLSMaterial_def resolveCertManagerTLS_def Let_def)
      (simp add: TLSModeCertManager_def TLSModeServiceCA_def verified_material_def)
qed

definition verified_ca :: kobj where
  "verified_ca = sample_object ''Secret'' ''internal-ca'' (SecretBody [(''ca.crt'', ''root'')] None '''')"

definition verified_serving :: kobj where
  "verified_serving = sample_object ''Secret'' ''serving-tls'' (SecretBody [(''tls.crt'', ''leaf''), (''tls.key'', ''key'')] None '''')"

lemma verified_ca_material:
  "\<exists>c. internalCAMaterialForSource sample_decoders verified_ca source = Inr ([c], ''root'')"
  by (simp add: internalCAMaterialForSource_def ca_material_key_def verified_ca_def secret_data_def gget_def Let_def
      tlsCACertificateKey_def TLSCertKey_def parseCertificates_def sample_decoders_def trim_space_def is_space_def
      bundle_certificates.simps)

lemma verified_serving_ok:
  "k \<in> set (required_tls_keys False) \<Longrightarrow>
   ValidateServingTLSSecretForServiceWithSource sample_decoders (t_x509 sample_tls) verified_serving verified_ca k ns source = None"
  using verified_ca_material [of source]
  by (auto simp: ValidateServingTLSSecretForServiceWithSource_def ValidateServingTLSSecret_def verified_serving_def secret_data_def
      gget_def Let_def TLSCertKey_def TLSPrivateKeyKey_def parseCertificate_def sample_decoders_def sample_tls_def
      required_tls_keys_def TLSServiceDNSNames_def tlsServiceNames_def dns_names_def)

definition verified :: "cluster world \<Rightarrow> bool" where
  "verified w \<longleftrightarrow> w_cluster w = w_cluster verified_world \<and> w_kn w = verified_kn"

lemma verified_gets:
  "\<exists>x. sample_get (w_cluster verified_world) CRDKind ('''', ''clusterissuers.cert-manager.io'') = (Inr x, w_cluster verified_world)"
  "\<exists>x. sample_get (w_cluster verified_world) ''ClusterIssuer'' ('''', ''corporate'') = (Inr x, w_cluster verified_world)"
  "sample_get (w_cluster verified_world) ''Secret'' (''kubernaut-system'', ''internal-ca'') = (Inr verified_ca, w_cluster verified_world)"
  "sample_get (w_cluster verified_world) ''Secret'' (''kubernaut-system'', ''serving-tls'') = (Inr verified_serving, w_cluster verified_world)"
  by (simp_all add: verified_world_def sample_get_def is_at_def obj_key_def CRDKind_def zero_object_meta_def verified_ca_def verified_serving_def)

lemma verified_issuer: "triple verified (validateCertManagerTLS sample_env) (\<lambda>r w. r = None \<and> verified w)"
  using verified_gets(1,2)
  by (auto intro!: tripleI simp: verified_def validateCertManagerTLS_def validateCertManagerIssuer_def resolveCertManagerIssuer_def
      hasCRD_def call_defs certManagerIssuerKind_def certManagerClusterIssuerKind_def issuer_gvk_def defaultCertManagerGroup_def Let_def)

lemma verified_read_ca: "triple verified (readRuntimeTLSCA sample_env verified_material) (\<lambda>r w. r = Inr verified_ca \<and> verified w)"
  using verified_gets(3)
  by (auto intro!: tripleI simp: verified_def readRuntimeTLSCA_def call_defs verified_material_def Let_def)

lemma verified_check:
  "k \<in> set (required_tls_keys False) \<Longrightarrow>
   triple verified (validateRuntimeTLSSecret sample_env sample_tls verified_material verified_ca k ''serving-tls'') (\<lambda>r w. r = None \<and> verified w)"
  using verified_gets(4) verified_serving_ok
  by (auto intro!: tripleI simp: verified_def validateRuntimeTLSSecret_def call_defs own_webhook_trust_def TLSModeCertManager_def TLSModeManual_def)
    (simp_all add: sample_tls_def)

lemma triple_for_each_None:
  "(\<And>x. x \<in> set xs \<Longrightarrow> triple I (f x) (\<lambda>r w. r = None \<and> I w)) \<Longrightarrow> triple I (for_each f xs) (\<lambda>r w. r = None \<and> I w)"
proof (induction xs)
  case (Cons x xs)
  have "triple I (for_each f xs) (\<lambda>r w. r = None \<and> I w)" by (rule Cons.IH) (use Cons.prems in simp)
  moreover have "triple I (f x) (\<lambda>r w. r = None \<and> I w)" using Cons.prems by simp
  ultimately show ?case
    unfolding for_each.simps by (intro triple_bind [where R = "\<lambda>r w. r = None \<and> I w"]) (auto simp: triple_def split: option.splits)
qed (simp add: triple_return)

lemma verified_secrets:
  "triple verified (validateRuntimeTLSSecrets sample_env sample_tls verified_material verified_ca) (\<lambda>r w. r = None \<and> verified w)"
  unfolding validateRuntimeTLSSecrets_def
proof (rule triple_for_each_None)
  fix k assume "k \<in> set (t_range sample_tls (tlsMaterial_ServiceTLSSecretNames verified_material))"
  then have k: "k \<in> set (required_tls_keys False)" by (simp add: sample_tls_def)
  then have "mget (tlsMaterial_ServiceTLSSecretNames verified_material) k = ''serving-tls''"
    by (auto simp: required_tls_keys_def verified_material_def mget_def)
  with verified_check [OF k] show "triple verified (validateRuntimeTLSSecret sample_env sample_tls verified_material verified_ca k
      (mget (tlsMaterial_ServiceTLSSecretNames verified_material) k)) (\<lambda>r w. r = None \<and> verified w)" by simp
qed

lemma verified_run: "\<exists>w'. run_state (validateTLSConfiguration sample_env sample_tls) verified_world = (Inr verified_material, w')"
proof -
  have start: "verified verified_world" by (simp add: verified_def verified_world_def)
  from tripleD [OF verified_issuer start surjective_pairing] obtain v1 where
    1: "run_state (validateCertManagerTLS sample_env) verified_world = (None, v1)" "verified v1" by (metis surjective_pairing)
  from tripleD [OF verified_read_ca 1(2) surjective_pairing] obtain v2 where
    2: "run_state (readRuntimeTLSCA sample_env verified_material) v1 = (Inr verified_ca, v2)" "verified v2" by (metis surjective_pairing)
  from tripleD [OF verified_secrets 2(2) surjective_pairing] obtain v3 where
    3: "run_state (validateRuntimeTLSSecrets sample_env sample_tls verified_material verified_ca) v2 = (None, v3)" "verified v3"
    by (metis surjective_pairing)
  have source: "tlsMaterial_Source verified_material = TLSMaterialSourceCertManager" by (simp add: verified_material_def)
  have ca: "ValidateInternalCASecretForSource (t_decoders sample_tls) verified_ca TLSMaterialSourceCertManager = None"
    using verified_ca_material [of TLSMaterialSourceCertManager]
    by (auto simp: ValidateInternalCASecretForSource_def InternalCAPEMForSource_def sample_tls_def)
  have signing: "run_state (validateDataStorageSigningCertificate sample_env sample_tls) v3 = (None, v3)"
    using 3(2) by (simp add: validateDataStorageSigningCertificate_def call_defs verified_def Let_def)
  have webhooks: "run_state (validateTLSWebhookReadiness sample_env verified_material) v3 = (None, v3)"
    using 3(2) by (simp add: validateTLSWebhookReadiness_def call_defs verified_def TLSModeCertManager_def TLSModeManual_def)
  have "run_state (validateExplicitTLS sample_env sample_tls verified_material) verified_world = (None, v3)"
    by (simp add: validateExplicitTLS_def 1 2 3 source ca signing webhooks)
  moreover have "w_kn verified_world = verified_kn" using start by (simp add: verified_def)
  ultimately show ?thesis
    using verified_resolves source sources_distinct [symmetric]
    by (simp add: validateTLSConfiguration_def the_kn_def)
qed

theorem accepted_tls_is_verified_witness:
  "\<exists>w'. run_state (validateTLSConfiguration sample_env sample_tls) verified_world = (Inr verified_material, w') \<and>
     (\<exists>ca. serving_evidence sample_tls verified_material ca verified_kn (set (w_trace w')) TLSServiceGateway)"
proof -
  obtain w' where run: "run_state (validateTLSConfiguration sample_env sample_tls) verified_world = (Inr verified_material, w')"
    using verified_run by blast
  have source: "tlsMaterial_Source verified_material \<noteq> TLSMaterialSourceServiceCA"
    by (simp add: verified_material_def TLSMaterialSourceCertManager_def TLSMaterialSourceServiceCA_def)
  have range: "set (t_range sample_tls (tlsMaterial_ServiceTLSSecretNames verified_material)) = dom (tlsMaterial_ServiceTLSSecretNames verified_material)"
    by (auto simp: sample_tls_def verified_material_def required_tls_keys_def)
  have "TLSServiceGateway \<in> dom (tlsMaterial_ServiceTLSSecretNames verified_material)" by (auto simp: verified_material_def)
  with accepted_tls_is_verified [OF run source range] run show ?thesis by (auto simp: verified_world_def)
qed

subsection \<open>Write safety and what an update keeps\<close>

lemma add_missing_set [simp]: "set (add_missing ms vs) = set ms \<union> set vs"
  by (induction ms vs rule: add_missing.induct) auto

lemma add_missing_distinct: "distinct ms \<Longrightarrow> distinct (add_missing ms vs)"
  by (induction ms vs rule: add_missing.induct) auto

lemma mergeStringSlice_correct:
  "set (mergeStringSlice existing desired) = set existing \<union> set desired" "distinct (mergeStringSlice existing desired)"
  by (simp_all add: mergeStringSlice_def add_missing_distinct)

lemma merged_cert_object_sels [simp]:
  "obj_Kind (merged_cert_object d live) = obj_Kind d" "obj_key (merged_cert_object d live) = obj_key d"
  "obj_RV (merged_cert_object d live) = obj_RV live" "obj_Body (merged_cert_object d live) = obj_Body d"
  "obj_Owners (merged_cert_object d live) = obj_Owners d"
  "obj_Annotations (merged_cert_object d live) = obj_Annotations live ++ obj_Annotations d"
  "obj_Labels (merged_cert_object d live) = obj_Labels live ++ obj_Labels d"
  "set (meta_Finalizers (obj_Meta (merged_cert_object d live))) = set (meta_Finalizers (obj_Meta live)) \<union> set (meta_Finalizers (obj_Meta d))"
  by (simp_all add: merged_cert_object_def set_finalizers_def object_setters obj_key_def mergeStringMap_def mergeStringSlice_correct)

lemma safe_convergeCertManagerResource:
  assumes "identity_stable E" and "\<And>y. mine E me y \<Longrightarrow> ok y" and "obj_Kind d = kind" and "obj_key d = k"
  shows "triple (\<lambda>w. safe ok me w \<and> seen kind k live w) (convergeCertManagerResource E d live) (\<lambda>_. safe ok me)"
  unfolding convergeCertManagerResource_def
proof (rule triple_bind [OF safe_checkResourceOwnership [OF assms(1)]], rule triple_case_option)
  fix r assume r: "r = None"
  have upd: "triple (\<lambda>w. safe ok me w \<and> seen kind k live w \<and> ok live) (Update E (merged_cert_object d live)) (\<lambda>_. safe ok me)"
    by (rule triple_conseq [OF safe_Update [where y = live]]) (auto intro!: addressesI simp: assms)
  show "triple (\<lambda>w. safe ok me w \<and> (r = None \<longrightarrow> seen kind k live w \<and> mine E me live))
     (if mget (obj_Annotations live) AnnotationSpecHash = mget (obj_Annotations d) AnnotationSpecHash \<and> ownershipMetadataMatches d live
      then State_Monad.return None
      else do {
        u \<leftarrow> Update E (merged_cert_object d live);
        State_Monad.return (case u of Inl e \<Rightarrow> Some (Wrap ''updating cert-manager resource'' (API e)) | Inr _ \<Rightarrow> None) })
     (\<lambda>_. safe ok me)"
    unfolding r
    by (rule triple_seen_mine [OF assms(2)], assumption)
      (intro triple_if triple_return triple_bind [OF upd], simp_all)
qed (simp add: triple_return)

lemma safe_ensureCertManagerResource [triple_rules]:
  assumes "identity_stable E" and "\<And>y. mine E me y \<Longrightarrow> ok y"
  shows "keeps (safe ok me) (ensureCertManagerResource E x)"
proof -
  have existing: "triple (\<lambda>w. safe ok me w \<and> seen (obj_Kind y) (obj_key y) live w)
      (convergeCertManagerResource E (stamped_desired E kn y) live) (\<lambda>_. safe ok me)" for kn y live
    by (rule safe_convergeCertManagerResource [OF assms]) simp_all
  show ?thesis
    unfolding keeps_def ensureCertManagerResource_def Let_def stamped_desired_sels
    by (rule triple_bind [OF safe_the_kn [unfolded keeps_def]], rule triple_case_sum, simp add: triple_return,
        rule triple_bind [OF safe_Get],
        intro triple_case_sum triple_if triple_return triple_bind_from [OF safe_createOrReadExisting])
      (auto intro!: triple_strengthen [OF existing])
qed

lemma safe_runtime_tls [triple_rules]:
  assumes "identity_stable E" and "\<And>y. mine E me y \<Longrightarrow> ok y"
  shows "keeps (safe ok me) (ensureCertManagerTLSResources E)" "keeps (safe ok me) (validateTLSConfiguration E T)"
    "keeps (safe ok me) (ensureRuntimeTLS E T)" "keeps (safe ok me) (ensureTLSConfigMapsForMaterial E m b)"
proof -
  have crd: "keeps (safe ok me) (hasCRD E n)" for n unfolding hasCRD_def by (intro triple_rules)
  have issuer: "keeps (safe ok me) (resolveCertManagerIssuer E)"
    unfolding resolveCertManagerIssuer_def selectSingleCertManagerIssuer_def by (intro triple_rules crd)
  have objects: "keeps (safe ok me) (ensureCertManagerTLSResources E)"
    unfolding ensureCertManagerTLSResources_def ensureCertManagerDesiredTLSResources_def
    by (intro triple_rules crd issuer assms) (simp_all add: assms)
  have signing: "keeps (safe ok me) (validateDataStorageSigningCertificate E T)"
    unfolding validateDataStorageSigningCertificate_def by (intro triple_rules)
  have ca: "keeps (safe ok me) (readRuntimeTLSCA E m)" for m unfolding readRuntimeTLSCA_def by (intro triple_rules)
  have hooks: "keeps (safe ok me) (validateTLSWebhookReadiness E m)" for m
    unfolding validateTLSWebhookReadiness_def ensureCertManagerWebhookConfigurations_def ensureManualWebhookConfigurations_def
      validateWebhookCABundles_def
    by (intro triple_rules assms) (simp_all add: assms)
  have cm: "keeps (safe ok me) (validateCertManagerTLS E)"
    unfolding validateCertManagerTLS_def validateCertManagerCertificatesReady_def certificate_ready_check_def validateCertManagerIssuer_def
    by (intro triple_rules objects issuer)
  have openshift: "keeps (safe ok me) (openShiftPlatformDetected E)" unfolding openShiftPlatformDetected_def by (intro triple_rules)
  show "keeps (safe ok me) (ensureCertManagerTLSResources E)" by (rule objects)
  show "keeps (safe ok me) (validateTLSConfiguration E T)"
    unfolding validateTLSConfiguration_def validateExplicitTLS_def validateRuntimeTLSSecrets_def validateRuntimeTLSSecret_def
    by (intro triple_rules cm ca signing hooks openshift)
  show "keeps (safe ok me) (ensureRuntimeTLS E T)"
    unfolding ensureRuntimeTLS_def by (intro triple_rules objects ca signing)
  show "keeps (safe ok me) (ensureTLSConfigMapsForMaterial E m b)"
    unfolding ensureTLSConfigMapsForMaterial_def ensureGenericTLSConfigMaps_def
    by (intro triple_rules assms) (simp_all add: assms)
qed

end
