(* ===== verification/Workloads.thy ===== *)
theory Workloads
  imports Console Monitoring Revisions Runtime_TLS
begin

text \<open>
  Bringing the platform's workloads up (\<^verbatim>\<open>internal/controller/kubernaut_controller.go\<close>): the ConfigMaps with the hashes that force a
  rollout, the Deployments of the enabled components with the clean-up of the disabled ones, the Services, and what goes with them.

  The documents that the component ConfigMaps hold (\<^verbatim>\<open>internal/resources/configmaps.go\<close>) are built by the functions of the record
  \<open>configs\<close>; the two live reads of the trust bundle are an argument too.
\<close>

subsection \<open>ConfigMaps\<close>

text \<open>The builders of the component ConfigMaps; \<open>Inr None\<close> is the sentinel \<^verbatim>\<open>nil, nil\<close> for a ConfigMap that is not built.\<close>

record configs =
  c_DataStorage :: "Kubernaut \<Rightarrow> Kubernaut \<Rightarrow> string \<Rightarrow> string \<Rightarrow> string \<Rightarrow> kobj go" \<comment> \<open>database name, user and TLS profile\<close>
  c_AIAnalysis :: "Kubernaut \<Rightarrow> Kubernaut \<Rightarrow> string \<Rightarrow> kobj go"
  c_SignalProcessing :: "Kubernaut \<Rightarrow> Kubernaut \<Rightarrow> string \<Rightarrow> kobj go"
  c_RemediationOrchestrator :: "Kubernaut \<Rightarrow> Kubernaut \<Rightarrow> string \<Rightarrow> kobj go"
  c_WorkflowExecution :: "Kubernaut \<Rightarrow> Kubernaut \<Rightarrow> string \<Rightarrow> kobj go"
  c_EffectivenessMonitor :: "Kubernaut \<Rightarrow> Kubernaut \<Rightarrow> string \<Rightarrow> kobj go"
  c_NotificationController :: "Kubernaut \<Rightarrow> Kubernaut \<Rightarrow> string \<Rightarrow> kobj go"
  c_NotificationRouting :: "Kubernaut \<Rightarrow> kobj go"
  c_KubernautAgent :: "Kubernaut \<Rightarrow> Kubernaut \<Rightarrow> string \<Rightarrow> kobj go"
  c_AuthWebhook :: "Kubernaut \<Rightarrow> Kubernaut \<Rightarrow> string \<Rightarrow> kobj go"
  c_Gateway :: "Kubernaut \<Rightarrow> Kubernaut \<Rightarrow> string \<Rightarrow> kobj go"
  c_APIFrontend :: "Kubernaut \<Rightarrow> Kubernaut \<Rightarrow> kobj go"
  c_FleetMetadataCache :: "Kubernaut \<Rightarrow> Kubernaut \<Rightarrow> kobj go"
  c_ConsoleOAuth2Proxy :: "Kubernaut \<Rightarrow> kobj go"
  c_ProactiveSignalMappings :: "Kubernaut \<Rightarrow> kobj"
  c_KubernautAgentLLMRuntime :: "Kubernaut \<Rightarrow> kobj option go"

type_synonym cmBuilder = "string \<times> kobj option go" \<comment> \<open>its name and what it returns\<close>

definition config_map_data :: "kobj \<Rightarrow> string gomap" where
  "config_map_data cm = (case obj_Body cm of ConfigMapBody d _ \<Rightarrow> d | _ \<Rightarrow> [])"

fun buildConfigMapSet :: "cmBuilder list \<Rightarrow> kobj list \<Rightarrow> string gomap \<Rightarrow> (kobj list \<times> string gomap) go" where
  "buildConfigMapSet [] configMaps cmHashes = Inr (configMaps, cmHashes)"
| "buildConfigMapSet ((name, built) # builders) configMaps cmHashes =
     (case built of
        Inl e \<Rightarrow> Inl (Wrap (''building '' @ name @ '' ConfigMap'') e)
      | Inr None \<Rightarrow> buildConfigMapSet builders configMaps cmHashes
      | Inr (Some cm) \<Rightarrow> buildConfigMapSet builders (configMaps @ [cm]) (gput name (ConfigMapDataHash (config_map_data cm)) cmHashes))"

abbreviation always :: "kobj go \<Rightarrow> kobj option go" where
  "always r \<equiv> map_sum id Some r"

definition core_builders :: "configs \<Rightarrow> Kubernaut \<Rightarrow> Kubernaut \<Rightarrow> string \<Rightarrow> string \<Rightarrow> string \<Rightarrow> cmBuilder list" where
  "core_builders C kn knV2 tlsProfile dbName dbUser =
     [(''datastorage'', always (c_DataStorage C kn knV2 dbName dbUser tlsProfile)),
      (''aianalysis'', always (c_AIAnalysis C kn knV2 tlsProfile)),
      (''signalprocessing'', always (c_SignalProcessing C kn knV2 tlsProfile)),
      (''remediationorchestrator'', always (c_RemediationOrchestrator C kn knV2 tlsProfile)),
      (''workflowexecution'', always (c_WorkflowExecution C kn knV2 tlsProfile)),
      (''effectivenessmonitor'', always (c_EffectivenessMonitor C kn knV2 tlsProfile)),
      (''notification-controller'', always (c_NotificationController C kn knV2 tlsProfile)),
      (''notification-routing'',
        (if (case notification_Routing (spec_Notification (kn_Spec kn)) of None \<Rightarrow> False | Some r \<Rightarrow> configMapRef_ConfigMapName r \<noteq> '''')
         then Inr None else always (c_NotificationRouting C kn))),
      (''kubernaut-agent'', always (c_KubernautAgent C kn knV2 tlsProfile)),
      (''authwebhook'', always (c_AuthWebhook C kn knV2 tlsProfile))]"

definition buildCoreConfigMaps :: "configs \<Rightarrow> Kubernaut \<Rightarrow> Kubernaut \<Rightarrow> string \<Rightarrow> string \<Rightarrow> string \<Rightarrow> (kobj list \<times> string gomap) go" where
  "buildCoreConfigMaps C kn knV2 tlsProfile dbName dbUser =
     (case buildConfigMapSet (core_builders C kn knV2 tlsProfile dbName dbUser) [] [] of
        Inl e \<Rightarrow> Inl e
      | Inr (configMaps, cmHashes) \<Rightarrow>
         (let configMaps = configMaps @ [c_ProactiveSignalMappings C kn] in
          case c_KubernautAgentLLMRuntime C kn of
            Inl e \<Rightarrow> Inl (Wrap ''building kubernaut-agent-llm-runtime ConfigMap'' e)
          | Inr None \<Rightarrow> Inr (configMaps, cmHashes)
          | Inr (Some llmRuntimeCM) \<Rightarrow>
             (let llmHash = ConfigMapDataHash (config_map_data llmRuntimeCM) in
              Inr (configMaps @ [llmRuntimeCM],
                (case map_of cmHashes ''kubernaut-agent'' of
                   None \<Rightarrow> cmHashes
                 | Some agentHash \<Rightarrow> gput ''kubernaut-agent'' (agentHash @ ''+'' @ llmHash) cmHashes)))))"

definition optional_builders :: "configs \<Rightarrow> Kubernaut \<Rightarrow> Kubernaut \<Rightarrow> string \<Rightarrow> cmBuilder list" where
  "optional_builders C kn knV2 tlsProfile =
     (if GatewayEnabled (kn_Spec kn) then [(''gateway'', always (c_Gateway C kn knV2 tlsProfile))] else [])
     @ (if APIFrontendEnabled (kn_Spec kn) then [(''apifrontend'', always (c_APIFrontend C kn knV2))] else [])
     @ (if FleetMetadataCacheEnabled (kn_Spec knV2) then [(''fleetmetadatacache'', always (c_FleetMetadataCache C kn knV2))] else [])
     @ (if ConsoleEnabled (kn_Spec kn)
        then [(''console'', Inr (Some (ConsoleNginxConfigMap kn))), (''console-oauth2-proxy'', always (c_ConsoleOAuth2Proxy C kn))] else [])"

definition gdelete :: "string \<Rightarrow> 'v gomap \<Rightarrow> 'v gomap" where
  "gdelete k m = filter (\<lambda>p. fst p \<noteq> k) m"

definition appendOptionalComponentConfigMaps ::
  "configs \<Rightarrow> Kubernaut \<Rightarrow> Kubernaut \<Rightarrow> string \<Rightarrow> kobj list \<Rightarrow> string gomap \<Rightarrow> (kobj list \<times> string gomap) go" where
  "appendOptionalComponentConfigMaps C kn knV2 tlsProfile configMaps cmHashes =
     (case buildConfigMapSet (optional_builders C kn knV2 tlsProfile) configMaps cmHashes of
        Inl e \<Rightarrow> Inl e
      | Inr (configMaps, cmHashes) \<Rightarrow>
         Inr (configMaps,
           if ConsoleEnabled (kn_Spec kn)
           then gdelete ''console-oauth2-proxy'' (gput ''console'' (gget cmHashes ''console'' @ ''+'' @ gget cmHashes ''console-oauth2-proxy'') cmHashes)
           else cmHashes))"

text \<open>ConfigMaps that OpenShift's service CA fills in.\<close>

definition serviceCAConfigMap :: "Kubernaut \<Rightarrow> string \<Rightarrow> string \<Rightarrow> kobj" where
  "serviceCAConfigMap kn name component = \<lparr>obj_Kind = ''ConfigMap'',
     obj_Meta = (ObjectMeta kn name component)\<lparr>meta_Annotations := [OCPServiceCAInjectAnnotation \<mapsto> ''true'']\<rparr>, obj_Body = ConfigMapBody [] []\<rparr>"

definition InterServiceCAConfigMap :: "Kubernaut \<Rightarrow> kobj" where
  "InterServiceCAConfigMap kn = serviceCAConfigMap kn InterServiceCAConfigMapName ''inter-service-tls''"

definition EffectivenessMonitorServiceCAConfigMap :: "Kubernaut \<Rightarrow> kobj" where
  "EffectivenessMonitorServiceCAConfigMap kn = serviceCAConfigMap kn ''effectivenessmonitor-service-ca'' ComponentEffectivenessMonitor"

definition KubernautAgentServiceCAConfigMap :: "Kubernaut \<Rightarrow> kobj" where
  "KubernautAgentServiceCAConfigMap kn = serviceCAConfigMap kn ''kubernaut-agent-service-ca'' ComponentKubernautAgent"

definition APIFrontendServiceCAConfigMap :: "Kubernaut \<Rightarrow> kobj" where
  "APIFrontendServiceCAConfigMap kn = serviceCAConfigMap kn ''apifrontend-service-ca'' ComponentAPIFrontend"

type_synonym trust_reads = "string go \<times> string go" \<comment> \<open>the service CA and the default ingress certificate\<close>

definition appendServiceCAConfigMaps :: "trust_reads \<Rightarrow> Kubernaut \<Rightarrow> kobj list \<Rightarrow> kobj list" where
  "appendServiceCAConfigMaps trust kn configMaps =
     (if (case ResolveTLSMaterial kn of Inl _ \<Rightarrow> False | Inr material \<Rightarrow> tlsMaterial_Source material \<noteq> TLSMaterialSourceServiceCA)
      then configMaps
      else configMaps @ [InterServiceCAConfigMap kn, TrustBundleConfigMap (fst trust) (snd trust) kn]
        @ [EffectivenessMonitorServiceCAConfigMap kn, KubernautAgentServiceCAConfigMap kn, APIFrontendServiceCAConfigMap kn])"

text \<open>The loop that writes the ConfigMaps; the hash of the console changes with the resource version of a repaired proxy configuration.\<close>

fun ensure_config_maps :: "'s env \<Rightarrow> string gomap \<Rightarrow> kobj list \<Rightarrow> ('s, string gomap go) prog" where
  "ensure_config_maps E cmHashes [] = State_Monad.return (Inr cmHashes)"
| "ensure_config_maps E cmHashes (cm # cms) = do {
     r \<leftarrow> (if obj_Name cm = ComponentConsole @ ''-oauth2-proxy''
           then do {
             c \<leftarrow> ensureNamespacedChanged E cm;
             State_Monad.return (map_sum id fst c) }
           else do {
             e \<leftarrow> ensureNamespaced E cm;
             State_Monad.return (case e of Some err \<Rightarrow> Inl err | None \<Rightarrow> Inr False) });
     (case r of
        Inl e \<Rightarrow> State_Monad.return (Inl (Wrap (''ensuring ConfigMap '' @ obj_Name cm) e))
      | Inr False \<Rightarrow> ensure_config_maps E cmHashes cms
      | Inr True \<Rightarrow> do {
          live \<leftarrow> OwnershipGet E ''ConfigMap'' (obj_key cm);
          (case live of
             Inl e \<Rightarrow> State_Monad.return (Inl (Wrap ''reading console oauth2-proxy configmap revision'' (API e)))
           | Inr x \<Rightarrow> ensure_config_maps E (gput ''console'' (gget cmHashes ''console'' @ ''+resourceVersion:'' @ obj_RV x) cmHashes) cms) }) }"

definition deployConfigMaps :: "configs \<Rightarrow> trust_reads \<Rightarrow> 's env \<Rightarrow> Kubernaut \<Rightarrow> string \<Rightarrow> string \<Rightarrow> string \<Rightarrow> ('s, string gomap go) prog" where
  "deployConfigMaps C trust E knV2 dbName dbUser tlsProfile = do {
     kn \<leftarrow> the_kn;
     (case buildCoreConfigMaps C kn knV2 tlsProfile dbName dbUser of
        Inl e \<Rightarrow> State_Monad.return (Inl e)
      | Inr (configMaps, cmHashes) \<Rightarrow>
         (case appendOptionalComponentConfigMaps C kn knV2 tlsProfile configMaps cmHashes of
            Inl e \<Rightarrow> State_Monad.return (Inl e)
          | Inr (configMaps, cmHashes) \<Rightarrow> ensure_config_maps E cmHashes (appendServiceCAConfigMaps trust kn configMaps))) }"

subsection \<open>Disabled components\<close>

definition in_namespace :: "Kubernaut \<Rightarrow> string \<Rightarrow> string \<Rightarrow> kobj" where
  "in_namespace kn kind name = \<lparr>obj_Kind = kind, obj_Meta = zero_object_meta\<lparr>meta_Name := name, meta_Namespace := kn_Namespace kn\<rparr>, obj_Body = NoBody\<rparr>"

text \<open>Each returns the errors of its deletions; \<^verbatim>\<open>errors.Join\<close> is applied where the list is used.\<close>

definition cleanupDisabledGateway :: "'s env \<Rightarrow> ('s, go_error list) prog" where
  "cleanupDisabledGateway E = do {
     kn \<leftarrow> the_kn;
     errs \<leftarrow> delete_each E [(''deleting gateway Deployment'', in_namespace kn ''Deployment'' (DeploymentName ComponentGateway)),
       (''deleting gateway Service'', in_namespace kn ''Service'' ''gateway-service''),
       (''deleting gateway ServiceAccount'', in_namespace kn ''ServiceAccount'' (ServiceAccountName ComponentGateway)),
       (''deleting gateway ConfigMap'', in_namespace kn ''ConfigMap'' ''gateway-config'')];
     available \<leftarrow> hasCRD E ''alertmanagerconfigs.monitoring.coreos.com'';
     more \<leftarrow> (if available
       then delete_each E [(''deleting gateway AlertManagerConfig'', in_namespace kn ''AlertmanagerConfig'' ''kubernaut-gateway-alerts'')]
       else State_Monad.return []);
     State_Monad.return (errs @ more) }"

definition cleanupDisabledFleetMetadataCache :: "'s env \<Rightarrow> ('s, go_error list) prog" where
  "cleanupDisabledFleetMetadataCache E = do {
     kn \<leftarrow> the_kn;
     delete_each E [(''deleting fleetmetadatacache Deployment'', in_namespace kn ''Deployment'' (DeploymentName ComponentFleetMetadataCache)),
       (''deleting fleetmetadatacache Service'', in_namespace kn ''Service'' ''fleetmetadatacache-service''),
       (''deleting fleetmetadatacache ConfigMap'', in_namespace kn ''ConfigMap'' ''fleetmetadatacache-config'')] }"

definition cleanupDisabledConsole :: "'s env \<Rightarrow> ('s, go_error list) prog" where
  "cleanupDisabledConsole E = do {
     kn \<leftarrow> the_kn;
     delete_each E ([(''deleting console deployment'', in_namespace kn ''Deployment'' (DeploymentName ComponentConsole)),
       (''deleting console service'', in_namespace kn ''Service'' ComponentConsole)]
       @ map (\<lambda>name. (''deleting console config map '' @ name, in_namespace kn ''ConfigMap'' name))
           [ComponentConsole @ ''-nginx'', ComponentConsole @ ''-oauth2-proxy'']) }"

subsection \<open>Deployments\<close>

text \<open>What the process relies on besides the cluster: the URL parsers, the name checks of the policies, the environment and the name service.\<close>

record process =
  p_validators :: validators
  p_validation :: validation
  p_getenv :: "string \<Rightarrow> string"
  p_lookup :: "string \<Rightarrow> string list"

type_synonym deploymentBuilderFunc = "Kubernaut \<Rightarrow> Kubernaut \<Rightarrow> kobj go"

definition core_deployments :: "process \<Rightarrow> deploymentBuilderFunc list" where
  "core_deployments P =
     (let getenv = p_getenv P in
      [\<lambda>kn knV2. DataStorageDeployment getenv (p_lookup P) kn, AIAnalysisDeployment getenv, SignalProcessingDeployment getenv,
       RemediationOrchestratorDeployment getenv, WorkflowExecutionDeployment getenv, EffectivenessMonitorDeployment getenv,
       NotificationDeployment getenv, KubernautAgentDeployment getenv, AuthWebhookDeployment getenv])"

text \<open>An optional component adds its builder, or else its clean-up runs and must succeed.\<close>

definition toggled :: "bool \<Rightarrow> deploymentBuilderFunc \<Rightarrow> string \<Rightarrow> ('s, go_error list) prog \<Rightarrow> ('s, deploymentBuilderFunc list go) prog" where
  "toggled enabled build message cleanup =
     (if enabled then State_Monad.return (Inr [build])
      else do {
        r \<leftarrow> joined message cleanup;
        State_Monad.return (case r of Some e \<Rightarrow> Inl e | None \<Rightarrow> Inr []) })"

definition enabledDeploymentBuilders :: "process \<Rightarrow> 's env \<Rightarrow> Kubernaut \<Rightarrow> ('s, deploymentBuilderFunc list go) prog" where
  "enabledDeploymentBuilders P E knV2 = do {
     kn \<leftarrow> the_kn;
     gateway \<leftarrow> toggled (GatewayEnabled (kn_Spec kn)) (GatewayDeployment (p_getenv P)) ''cleaning up disabled gateway'' (cleanupDisabledGateway E);
     (case gateway of
        Inl e \<Rightarrow> State_Monad.return (Inl e)
      | Inr gw \<Rightarrow> do {
          console \<leftarrow> toggled (ConsoleEnabled (kn_Spec kn)) (\<lambda>kn knV2. ConsoleDeployment (p_validators P) (p_getenv P) kn)
            ''cleaning up disabled console'' (cleanupDisabledConsole E);
          (case console of
             Inl e \<Rightarrow> State_Monad.return (Inl e)
           | Inr con \<Rightarrow> do {
               cache \<leftarrow> toggled (FleetMetadataCacheEnabled (kn_Spec knV2)) (FleetMetadataCacheDeployment (p_getenv P))
                 ''cleaning up disabled fleetmetadatacache'' (cleanupDisabledFleetMetadataCache E);
               State_Monad.return (case cache of
                  Inl e \<Rightarrow> Inl e
                | Inr fmc \<Rightarrow> Inr (core_deployments P @ gw
                    @ (if APIFrontendEnabled (kn_Spec kn) then [APIFrontendDeployment (p_getenv P)] else []) @ con @ fmc)) }) }) }"

definition ensureDeployments ::
  "'s env \<Rightarrow> Kubernaut \<Rightarrow> deploymentBuilderFunc list \<Rightarrow> string gomap \<Rightarrow> telemetryMaterialRevisionSet \<Rightarrow> ('s, go_error option) prog" where
  "ensureDeployments E knV2 builders cmHashes telemetryRevisions = for_each (\<lambda>build. do {
     kn \<leftarrow> the_kn;
     (case build kn knV2 of
        Inl e \<Rightarrow> State_Monad.return (Some (Wrap ''building deployment'' e))
      | Inr dep \<Rightarrow>
         (let dep = stamped cmHashes telemetryRevisions dep
          in wrapping (''ensuring Deployment '' @ obj_Name dep) (ensureNamespaced E dep))) }) builders"

subsection \<open>Services\<close>

definition errAnnotation :: string where "errAnnotation = ''service.beta.openshift.io/serving-cert-generation-error''"
definition errNumAnnotation :: string where "errNumAnnotation = ''service.beta.openshift.io/serving-cert-generation-error-num''"
definition alphaErrAnnotation :: string where "alphaErrAnnotation = ''service.alpha.openshift.io/serving-cert-generation-error''"
definition alphaErrNumAnnotation :: string where "alphaErrNumAnnotation = ''service.alpha.openshift.io/serving-cert-generation-error-num''"

definition without_cert_errors :: "kobj \<Rightarrow> kobj" where
  "without_cert_errors live = set_annotations ((obj_Annotations live)(errAnnotation := None, errNumAnnotation := None,
     alphaErrAnnotation := None, alphaErrNumAnnotation := None)) live"

definition retry_serving_cert :: "'s env \<Rightarrow> kobj \<Rightarrow> string \<Rightarrow> kobj \<Rightarrow> ('s, go_error option) prog" where
  "retry_serving_cert E desired secretName live =
     (if mget (obj_Annotations live) errAnnotation = '''' \<and> mget (obj_Annotations live) alphaErrAnnotation = ''''
      then State_Monad.return None
      else do {
        secret \<leftarrow> Get E ''Secret'' (meta_Namespace (obj_Meta desired), secretName);
        (case secret of
           Inr _ \<Rightarrow> State_Monad.return None
         | Inl e \<Rightarrow>
            (if \<not> IsNotFound e then State_Monad.return (Some (API e))
             else do {
               u \<leftarrow> Update E (without_cert_errors live);
               State_Monad.return (case u of Inl e \<Rightarrow> Some (API e) | Inr _ \<Rightarrow> None) })) })"

definition clearStaleServingCertErrors :: "'s env \<Rightarrow> kobj \<Rightarrow> ('s, go_error option) prog" where
  "clearStaleServingCertErrors E desired =
     (let secretName = mget (obj_Annotations desired) OCPServingCertAnnotation in
      if secretName = '''' then State_Monad.return None
      else do {
        r \<leftarrow> Get E ''Service'' (obj_key desired);
        (case r of
           Inl e \<Rightarrow> State_Monad.return (if IsNotFound e then None else Some (API e))
         | Inr live \<Rightarrow> do {
             conflict \<leftarrow> checkResourceOwnership E live True;
             (case conflict of
                Some e \<Rightarrow> State_Monad.return (Some e)
              | None \<Rightarrow> retry_serving_cert E desired secretName live) }) })"

definition ensureServices :: "'s env \<Rightarrow> Kubernaut \<Rightarrow> ('s, go_error option) prog" where
  "ensureServices E knV2 = do {
     kn \<leftarrow> the_kn;
     and_then (for_each (\<lambda>svc. and_then (wrapping (''ensuring Service '' @ obj_Name svc) (ensureNamespaced E svc))
         (wrapping (''clearing stale serving-cert annotations on '' @ obj_Name svc) (clearStaleServingCertErrors E svc))) (Services kn knV2))
     (and_then (ensure_each (ensureNamespaced E) (\<lambda>svc. ''ensuring metrics Service '' @ obj_Name svc) (MetricsServices kn))
     (if ConsoleEnabled (kn_Spec kn) then wrapping ''ensuring Console Service'' (ensureNamespaced E (ConsoleService kn))
      else State_Monad.return None)) }"

subsection \<open>All of it\<close>

definition deployWorkloads ::
  "process \<Rightarrow> 's env \<Rightarrow> Kubernaut \<Rightarrow> string gomap \<Rightarrow> telemetryMaterialRevisionSet \<Rightarrow> ('s, go_error option) prog" where
  "deployWorkloads P E knV2 cmHashes telemetryRevisions =
     and_then (reconcileNetworkPolicies E (p_validation P) knV2) (do {
       builders \<leftarrow> enabledDeploymentBuilders P E knV2;
       (case builders of
          Inl e \<Rightarrow> State_Monad.return (Some e)
        | Inr depBuilders \<Rightarrow>
           and_then (ensureDeployments E knV2 depBuilders cmHashes telemetryRevisions)
           (and_then (ensureServices E knV2) (do {
              kn \<leftarrow> the_kn;
              and_then (ensure_each (ensureNamespaced E) (\<lambda>pdb. ''ensuring PDB '' @ obj_Name pdb) (PodDisruptionBudgets kn knV2))
              (and_then (wrapping ''ensuring DS HPA'' (ensureNamespaced E (DataStorageHPA kn)))
              (and_then (reconcileMonitoringAndAlerts E knV2)
              (if APIFrontendEnabled (kn_Spec kn) then deployAPIFrontendExtras E else State_Monad.return None))) }))) })"

subsection \<open>Writes stay safe\<close>

lemma safe_joined [triple_rules]: "keeps I m \<Longrightarrow> keeps I (joined message m)"
  unfolding joined_def by (intro triple_rules)

lemma safe_retry_serving_cert:
  assumes "\<And>y. mine E me y \<Longrightarrow> ok y"
  shows "triple (\<lambda>w. safe ok me w \<and> seen kind k live w \<and> mine E me live) (retry_serving_cert E desired secretName live) (\<lambda>_. safe ok me)"
proof -
  have get: "triple (\<lambda>w. safe ok me w \<and> seen kind k live w \<and> mine E me live) (Get E kind' k')
      (\<lambda>r w. safe ok me w \<and> seen kind k live w \<and> mine E me live)" for kind' k'
    by (rule tripleI) (auto simp: call_defs safe_def seen_def reads_of_def split: prod.splits sum.splits)
  have upd: "triple (\<lambda>w. safe ok me w \<and> seen kind k live w \<and> mine E me live) (Update E (without_cert_errors live)) (\<lambda>_. safe ok me)"
    by (rule triple_conseq [OF safe_Update [where y = live]]) (auto simp: addresses_def without_cert_errors_def assms)
  show ?thesis
    unfolding retry_serving_cert_def
    by (intro triple_if triple_bind [OF get] triple_bind [OF upd] triple_case_sum triple_return) simp_all
qed

lemma safe_clearStaleServingCertErrors [triple_rules]:
  assumes "identity_stable E" and "\<And>y. mine E me y \<Longrightarrow> ok y"
  shows "keeps (safe ok me) (clearStaleServingCertErrors E desired)"
proof -
  have owned: "triple (\<lambda>w. safe ok me w \<and> seen kind k live w) (do {
      conflict \<leftarrow> checkResourceOwnership E live True;
      (case conflict of Some e \<Rightarrow> State_Monad.return (Some e) | None \<Rightarrow> retry_serving_cert E desired secretName live) }) (\<lambda>_. safe ok me)"
    for kind k live secretName
    by (rule triple_bind [OF safe_checkResourceOwnership [OF assms(1)]], rule triple_case_option)
      (auto intro: safe_retry_serving_cert assms(2) simp: triple_return)
  show ?thesis
    unfolding keeps_def clearStaleServingCertErrors_def Let_def
    by (intro triple_if triple_bind [OF safe_Get] triple_case_sum triple_return) (auto intro!: triple_strengthen [OF owned])
qed

lemma bool_case_keeps: "keeps I m \<Longrightarrow> keeps I n \<Longrightarrow> keeps I (case b of True \<Rightarrow> m | False \<Rightarrow> n)"
  by (cases b) simp_all

lemma safe_ensure_config_maps [triple_rules]:
  assumes "identity_stable E" and "\<And>y. mine E me y \<Longrightarrow> ok y"
  shows "keeps (safe ok me) (ensure_config_maps E cmHashes cms)"
proof (induction cms arbitrary: cmHashes)
  case Nil
  then show ?case unfolding ensure_config_maps.simps by (intro triple_rules)
next
  case (Cons cm cms)
  show ?case unfolding ensure_config_maps.simps
    by (intro triple_rules assms Cons.IH bool_case_keeps; assumption?)+
qed

lemma safe_workloads [triple_rules]:
  assumes "identity_stable E" and "\<And>y. mine E me y \<Longrightarrow> ok y"
  shows "keeps (safe ok me) (deployConfigMaps C trust E knV2 dbName dbUser tlsProfile)"
    and "keeps (safe ok me) (enabledDeploymentBuilders P E knV2)"
    and "keeps (safe ok me) (ensureDeployments E knV2 builders cmHashes revisions)"
    and "keeps (safe ok me) (ensureServices E knV2)"
  unfolding deployConfigMaps_def enabledDeploymentBuilders_def toggled_def cleanupDisabledGateway_def cleanupDisabledConsole_def
    cleanupDisabledFleetMetadataCache_def delete_each_def ensureDeployments_def ensureServices_def ensure_each_def Let_def
  by (intro triple_rules assms; assumption?)+

lemma safe_deployWorkloads:
  assumes "identity_stable E" and "sets_only_owners E" and "\<And>y. mine E me y \<Longrightarrow> ok y" and "\<And>y. policy_ok me y \<Longrightarrow> ok y"
    and "fst (snd me) \<noteq> ''''"
  shows "keeps (safe ok me) (deployWorkloads P E knV2 cmHashes revisions)"
  unfolding deployWorkloads_def ensure_each_def
  by (intro triple_rules safe_reconcileNetworkPolicies assms; (assumption | rule assms)?)+

subsection \<open>A change of configuration rolls the pods\<close>

lemma triple_any: "triple P m (\<lambda>_ _. True)"
  by (simp add: triple_def)

lemma bool_case_triple: "(b \<Longrightarrow> triple P m Q) \<Longrightarrow> (\<not> b \<Longrightarrow> triple P n Q) \<Longrightarrow> triple P (case b of True \<Rightarrow> m | False \<Rightarrow> n) Q"
  by (cases b) simp_all

text \<open>The stamps that come after the hash write other annotations.\<close>

lemma annotate_annotations:
  "pod_annotations (annotate_pods k v dep) x = (if x = k \<and> (\<exists>r s l a p. obj_Body dep = DeploymentBody r s l a p) then Some v else pod_annotations dep x)"
  by (simp add: annotate_pods_def pod_annotations_def split: body.split)

lemma other_stamps:
  "pod_annotations (stampTelemetryMaterialRevision revisions dep) AnnotationConfigMapHash = pod_annotations dep AnnotationConfigMapHash"
  "pod_annotations (stampFleetMCPGatewayMaterialRevision revisions dep) AnnotationConfigMapHash = pod_annotations dep AnnotationConfigMapHash"
  "pod_annotations (stampDataStorageSigningMaterialRevision revisions dep) AnnotationConfigMapHash = pod_annotations dep AnnotationConfigMapHash"
  "pod_annotations (stampDataStorageDependencyRevision revisions dep) AnnotationConfigMapHash = pod_annotations dep AnnotationConfigMapHash"
  "pod_annotations (stampMonitoringMaterialRevision revisions dep) AnnotationConfigMapHash = pod_annotations dep AnnotationConfigMapHash"
  by (simp_all add: stampMonitoringMaterialRevision_def stampDataStorageDependencyRevision_def stampDataStorageSigningMaterialRevision_def
      stampFleetMCPGatewayMaterialRevision_def stampTelemetryMaterialRevision_def annotate_annotations AnnotationConfigMapHash_def
      AnnotationTelemetryMaterialRevision_def AnnotationFleetMCPGatewayMaterialRevision_def AnnotationDataStorageSigningMaterialRevision_def
      AnnotationDataStorageDependencyRevision_def AnnotationMonitoringMaterialRevision_def split: option.split)

lemma stamped_config_hash:
  assumes "obj_Body dep = DeploymentBody replicas ready labels annotations spec" and "componentCMHashKey (pod_app dep) = Some name"
    and "map_of cmHashes name = Some h"
  shows "pod_annotations (stamped cmHashes revisions dep) AnnotationConfigMapHash = Some h"
  by (simp add: stamped_def other_stamps stampConfigMapHash_def assms annotate_annotations)

text \<open>The hash recorded for a ConfigMap, possibly followed by others.\<close>

definition records :: "string gomap \<Rightarrow> string \<Rightarrow> string \<Rightarrow> bool" where
  "records cmHashes name hash \<longleftrightarrow> (\<exists>suffix. map_of cmHashes name = Some (hash @ suffix))"

lemma map_of_gdelete [simp]: "map_of (gdelete k m) x = (if x = k then None else map_of m x)"
  by (simp add: gdelete_def map_of_filter_key)

lemma records_gput_suffix: "records m name hash \<Longrightarrow> records (gput k (gget m k @ s) m) name hash"
  by (auto simp: records_def gget_def mget_def)

lemma buildConfigMapSet_fresh:
  "buildConfigMapSet bs cms h = Inr (cms', h') \<Longrightarrow> name \<notin> fst ` set bs \<Longrightarrow> map_of h' name = map_of h name"
  by (induction bs cms h rule: buildConfigMapSet.induct) (auto split: sum.splits option.splits)

lemma buildConfigMapSet_records:
  "buildConfigMapSet bs cms h = Inr (cms', h') \<Longrightarrow> distinct (map fst bs) \<Longrightarrow> (name, Inr (Some cm)) \<in> set bs \<Longrightarrow>
   map_of h' name = Some (ConfigMapDataHash (config_map_data cm))"
  by (induction bs cms h rule: buildConfigMapSet.induct) (auto dest: buildConfigMapSet_fresh split: sum.splits option.splits)

lemma core_names: "map fst (core_builders C kn knV2 tls db user) = [''datastorage'', ''aianalysis'', ''signalprocessing'', ''remediationorchestrator'',
    ''workflowexecution'', ''effectivenessmonitor'', ''notification-controller'', ''notification-routing'', ''kubernaut-agent'', ''authwebhook'']"
  by (simp add: core_builders_def)

lemma optional_names:
  "set (map fst (optional_builders C kn knV2 tls)) \<subseteq> {''gateway'', ''apifrontend'', ''fleetmetadatacache'', ''console'', ''console-oauth2-proxy''}"
  "distinct (map fst (optional_builders C kn knV2 tls))"
  by (auto simp: optional_builders_def)

lemma core_records:
  assumes "buildCoreConfigMaps C kn knV2 tls db user = Inr (cms, h)" and "(name, Inr (Some cm)) \<in> set (core_builders C kn knV2 tls db user)"
  shows "records h name (ConfigMapDataHash (config_map_data cm))"
proof -
  obtain cms0 h0 where build: "buildConfigMapSet (core_builders C kn knV2 tls db user) [] [] = Inr (cms0, h0)"
    using assms(1) by (auto simp: buildCoreConfigMaps_def split: sum.splits)
  have "map_of h0 name = Some (ConfigMapDataHash (config_map_data cm))"
    by (rule buildConfigMapSet_records [OF build _ assms(2)]) (simp add: core_names)
  then show ?thesis
    using assms(1) by (auto simp: records_def buildCoreConfigMaps_def build Let_def split: sum.splits option.splits if_splits)
qed

lemma optional_records:
  assumes "appendOptionalComponentConfigMaps C kn knV2 tls cms h = Inr (cms', h')"
  shows "name \<notin> {''gateway'', ''apifrontend'', ''fleetmetadatacache'', ''console'', ''console-oauth2-proxy''} \<Longrightarrow> records h name hash \<Longrightarrow> records h' name hash"
    and "(name, Inr (Some cm)) \<in> set (optional_builders C kn knV2 tls) \<Longrightarrow> name \<noteq> ''console-oauth2-proxy'' \<Longrightarrow>
      records h' name (ConfigMapDataHash (config_map_data cm))"
proof -
  obtain h0 where build: "buildConfigMapSet (optional_builders C kn knV2 tls) cms h = Inr (cms', h0)"
    and h': "h' = (if ConsoleEnabled (kn_Spec kn)
      then gdelete ''console-oauth2-proxy'' (gput ''console'' (gget h0 ''console'' @ ''+'' @ gget h0 ''console-oauth2-proxy'') h0) else h0)"
    using assms by (auto simp: appendOptionalComponentConfigMaps_def split: sum.splits)
  show "records h' name hash" if "name \<notin> {''gateway'', ''apifrontend'', ''fleetmetadatacache'', ''console'', ''console-oauth2-proxy''}" "records h name hash"
  proof -
    have "name \<notin> fst ` set (optional_builders C kn knV2 tls)" using that(1) optional_names(1) [of C kn knV2 tls] by auto
    then show ?thesis using that buildConfigMapSet_fresh [OF build, of name] by (auto simp: records_def h')
  qed
  show "records h' name (ConfigMapDataHash (config_map_data cm))"
    if "(name, Inr (Some cm)) \<in> set (optional_builders C kn knV2 tls)" "name \<noteq> ''console-oauth2-proxy''"
    using buildConfigMapSet_records [OF build optional_names(2) that(1)] that(2) by (auto simp: records_def h' gget_def mget_def)
qed

lemma ensure_config_maps_records:
  assumes "records h name hash"
  shows "triple (\<lambda>_. True) (ensure_config_maps E h cms) (\<lambda>r _. \<forall>h'. r = Inr h' \<longrightarrow> records h' name hash)"
  using assms
proof (induction cms arbitrary: h)
  case Nil
  then show ?case by (auto intro: triple_return)
next
  case (Cons cm cms)
  show ?case
    unfolding ensure_config_maps.simps
    by (rule triple_bind [OF triple_any], intro triple_case_sum triple_return bool_case_triple triple_bind [OF triple_any])
      (auto intro: Cons.IH Cons.prems records_gput_suffix)
qed

lemma core_not_optional:
  "name \<in> set (map fst (core_builders C kn knV2 tls db user)) \<Longrightarrow>
   name \<notin> {''gateway'', ''apifrontend'', ''fleetmetadatacache'', ''console'', ''console-oauth2-proxy''}"
  unfolding core_names list.set insert_iff empty_iff by (elim disjE) auto

lemma hash_key_names: "componentCMHashKey c = Some name \<Longrightarrow> name \<noteq> ''console-oauth2-proxy''"
  unfolding componentCMHashKey_def map_upd_Some_unfold by (elim disjE conjE) auto

lemma deployConfigMaps_cases:
  assumes "run_state (deployConfigMaps C trust E knV2 dbName dbUser tlsProfile) w = (Inr cmHashes, w')"
  obtains cms h cms' h' where "buildCoreConfigMaps C (w_kn w) knV2 tlsProfile dbName dbUser = Inr (cms, h)"
    and "appendOptionalComponentConfigMaps C (w_kn w) knV2 tlsProfile cms h = Inr (cms', h')"
    and "run_state (ensure_config_maps E h' (appendServiceCAConfigMaps trust (w_kn w) cms')) w = (Inr cmHashes, w')"
  using assms by (simp add: deployConfigMaps_def the_kn_def State_Monad.return_def split: sum.splits prod.splits)


text \<open>A server that holds nothing and accepts every create.\<close>

definition bare_env :: "cluster env" where
  "bare_env = sample_env\<lparr>e_get := (\<lambda>s _ _. (api_fail NotFound, s)), e_create := (\<lambda>s x. (Inr x, s)), e_setControllerReference := (\<lambda>kn x. Inr x)\<rparr>"

lemma bare_ensure: "fst (run_state (ensureNamespaced bare_env x) w) = None"
  by (simp add: ensureNamespaced_def ensureNamespacedChanged_def ensureResourceChanged_def createOrReadExisting_def call_defs bare_env_def
      api_fail_def IsNotFound_def State_Monad.return_def Let_def)

lemma bare_config_maps:
  "list_all (\<lambda>cm. obj_Name cm \<noteq> ComponentConsole @ ''-oauth2-proxy'') cms \<Longrightarrow> fst (run_state (ensure_config_maps bare_env h cms) w) = Inr h"
proof (induction cms arbitrary: w)
  case Nil
  then show ?case by (simp add: State_Monad.return_def)
next
  case (Cons cm cms)
  obtain w1 where "run_state (ensureNamespaced bare_env cm) w = (None, w1)" using bare_ensure [of cm w] by (metis prod.collapse)
  with Cons show ?case by (simp add: State_Monad.return_def)
qed

definition plain_config :: kobj where
  "plain_config = \<lparr>obj_Kind = ''ConfigMap'', obj_Meta = zero_object_meta\<lparr>meta_Name := ''config''\<rparr>, obj_Body = ConfigMapBody [(''a'', ''b'')] []\<rparr>"

definition sample_configs :: configs where
  "sample_configs = (let c = Inr plain_config in
     \<lparr>c_DataStorage = (\<lambda>_ _ _ _ _. c), c_AIAnalysis = (\<lambda>_ _ _. c), c_SignalProcessing = (\<lambda>_ _ _. c), c_RemediationOrchestrator = (\<lambda>_ _ _. c),
      c_WorkflowExecution = (\<lambda>_ _ _. c), c_EffectivenessMonitor = (\<lambda>_ _ _. c), c_NotificationController = (\<lambda>_ _ _. c), c_NotificationRouting = (\<lambda>_. c),
      c_KubernautAgent = (\<lambda>_ _ _. c), c_AuthWebhook = (\<lambda>_ _ _. c), c_Gateway = (\<lambda>_ _ _. c), c_APIFrontend = (\<lambda>_ _. c),
      c_FleetMetadataCache = (\<lambda>_ _. c), c_ConsoleOAuth2Proxy = (\<lambda>_. c), c_ProactiveSignalMappings = (\<lambda>_. plain_config),
      c_KubernautAgentLLMRuntime = (\<lambda>_. Inr (Some plain_config))\<rparr>)"

lemma sample_deploys:
  "\<exists>cmHashes w'. run_state (deployConfigMaps sample_configs (Inr '''', Inr '''') bare_env sample_kn '''' '''' '''') (sample_world []) = (Inr cmHashes, w')"
proof -
  obtain cms h where core: "buildCoreConfigMaps sample_configs sample_kn sample_kn '''' '''' '''' = Inr (cms, h)" "set cms \<subseteq> {plain_config}"
    by (simp add: buildCoreConfigMaps_def core_builders_def sample_configs_def sample_kn_def zero_Kubernaut_def zero_KubernautSpec_def
        zero_NotificationSpec_def Let_def split: option.split)
  obtain cms' h' where opt: "appendOptionalComponentConfigMaps sample_configs sample_kn sample_kn '''' cms h = Inr (cms', h')" "set cms' \<subseteq> {plain_config}"
    using core(2) by (simp add: appendOptionalComponentConfigMaps_def optional_builders_def sample_configs_def Let_def GatewayEnabled_def
        APIFrontendEnabled_def FleetMetadataCacheEnabled_def FleetEnabled_def ConsoleEnabled_def deref_or_def sample_kn_def zero_Kubernaut_def zero_KubernautSpec_def
        zero_GatewaySpec_def zero_APIFrontendSpec_def zero_ConsoleSpec_def zero_FleetSpec_def)
  have "list_all (\<lambda>cm. obj_Name cm \<noteq> ComponentConsole @ ''-oauth2-proxy'') (appendServiceCAConfigMaps (Inr '''', Inr '''') sample_kn cms')"
    using opt(2) by (auto simp: list_all_iff appendServiceCAConfigMaps_def InterServiceCAConfigMap_def TrustBundleConfigMap_def
        EffectivenessMonitorServiceCAConfigMap_def KubernautAgentServiceCAConfigMap_def APIFrontendServiceCAConfigMap_def serviceCAConfigMap_def
        plain_config_def ObjectMeta_def ComponentConsole_def InterServiceCAConfigMapName_def TrustBundleConfigMapName_def Let_def)
  from bare_config_maps [OF this]
  show ?thesis using core(1) opt(1) by (simp add: deployConfigMaps_def the_kn_def) (metis prod.collapse)
qed

definition sample_agent :: kobj where
  "sample_agent = \<lparr>obj_Kind = ''Deployment'', obj_Meta = zero_object_meta, obj_Body = DeploymentBody (Some 1) 0 [''app'' \<mapsto> ComponentKubernautAgent] Map.empty
     \<lparr>deployment_Selector = Map.empty, deployment_Strategy = '''', deployment_Pod = zero_pod_spec\<rparr>\<rparr>"


end
