(* ===== verification/Accepted.thy ===== *)
theory Accepted
  imports Console
begin

text \<open>
  What the acceptance of a custom resource guarantees: theorems about the checks of \<open>Validation\<close>, the Deployments that can be built
  from an accepted resource, and a resource that passes them all.
\<close>

subsection \<open>What acceptance means: LLM profiles and Fleet credentials\<close>

definition complete_profile :: "LLMProfileSpec \<Rightarrow> bool" where
  "complete_profile p \<longleftrightarrow> llmProfile_Provider p \<noteq> '''' \<and> llmProfile_Model p \<noteq> '''' \<and> llmProfile_CredentialsSecretName p \<noteq> '''' \<and>
     (llmProfile_Provider p = LLMProviderOpenAI \<longrightarrow> llmProfile_Endpoint p \<noteq> '''')"

text \<open>The profiles that the enabled consumers of a resource ask for.\<close>

definition consumer_refs :: "Kubernaut \<Rightarrow> string list" where
  "consumer_refs kn = [EffectiveInvestigationLLMProfileRef kn, EffectiveWorkflowDiscoveryLLMProfileRef kn]
     @ (if alignmentCheck_Enabled (kubernautAgent_AlignmentCheck (spec_KubernautAgent (kn_Spec kn))) then [EffectiveAlignmentCheckLLMProfileRef kn] else [])
     @ (if APIFrontendEnabled (kn_Spec kn) then [AFLLMProfileRef kn] else [])"

lemma required_profile: "validateRequiredEffectiveProfile profiles ref path = [] \<Longrightarrow> ref \<noteq> '''' \<and> map_of profiles ref \<noteq> None"
  by (auto simp: validateRequiredEffectiveProfile_def lookupProfileRef_def split: if_splits)

lemma accepted_profiles:
  assumes "validateLLMProfiles L kn = []" and "map_of (spec_LLMProfiles (kn_Spec kn)) ref = Some p"
  shows "validateLLMProfileContent L ref p = []"
  using assms map_of_SomeD [OF assms(2)] by (auto simp: validateLLMProfiles_def)

lemma accepted_content: "validateLLMProfileContent L name p = [] \<Longrightarrow> complete_profile p"
  by (simp add: validateLLMProfileContent_def complete_profile_def Let_def)

lemma accepted_refs:
  assumes "validateLLMProfiles L kn = []" and "ref \<in> set (consumer_refs kn)"
  shows "\<exists>p. ResolveLLMProfile kn ref = Some p \<and> complete_profile p"
proof -
  have "ref \<noteq> '''' \<and> map_of (spec_LLMProfiles (kn_Spec kn)) ref \<noteq> None"
    using assms by (auto simp: validateLLMProfiles_def validateLLMProfileRefs_def validateAFLLMProfileRefs_def consumer_refs_def Let_def
        dest!: required_profile split: if_splits)
  then show ?thesis using accepted_content [OF accepted_profiles [OF assms(1)]] by (auto simp: ResolveLLMProfile_def)
qed

definition effective_credentials :: "Kubernaut \<Rightarrow> FleetOverrideSpec option \<Rightarrow> string" where
  "effective_credentials kn override = effectiveFleetOAuth2SecretRef override (fleetOAuth2_CredentialsSecretRef (fleet_OAuth2 (spec_Fleet (kn_Spec kn))))"

text \<open>C24: An accepted specification is complete where it matters at run time. When validation finds no error, every consumer of a language
  model that is enabled resolves to a profile with provider, model and credentials (and an endpoint for OpenAI). When Fleet is enabled
  its token URL and gateway address parse as https URLs with a host and without user information, its namespace is set, each of the fleet
  clients has credentials, and workflow execution has its own, which never come from the shared reference.\<close>

theorem accepted_spec_is_complete:
  assumes "ValidateKubernaut L kn = []" and "ValidateFleet L kn = []"
  shows "list_all (\<lambda>ref. \<exists>p. ResolveLLMProfile kn ref = Some p \<and> complete_profile p) (consumer_refs kn) \<and>
    (fleet_Enabled (spec_Fleet (kn_Spec kn)) = Some True \<longrightarrow>
       list_all (\<lambda>url. \<exists>u. l_Parse L url = Some u \<and> url_Scheme u = ''https'' \<and> url_Host u \<noteq> '''' \<and> \<not> url_User u)
         [fleetOAuth2_TokenURL (fleet_OAuth2 (spec_Fleet (kn_Spec kn))), fleetMCPGateway_Endpoint (fleet_MCPGateway (spec_Fleet (kn_Spec kn)))] \<and>
       fleetMCPGateway_Namespace (fleet_MCPGateway (spec_Fleet (kn_Spec kn))) \<noteq> '''' \<and>
       list_all (\<lambda>(_, override). effective_credentials kn override \<noteq> '''') (fleet_overrides kn) \<and>
       (FleetMetadataCacheEnabled (kn_Spec kn) \<longrightarrow> effective_credentials kn (fleetMetadataCache_Fleet (spec_FleetMetadataCache (kn_Spec kn))) \<noteq> '''') \<and>
       workflowExecutionFleet_OAuth2CredentialsSecretRef (workflowExecution_Fleet (spec_WorkflowExecution (kn_Spec kn))) \<noteq> '''')"
proof -
  have https: "validateFleetHTTPSURL L path v = None \<Longrightarrow>
      \<exists>u. l_Parse L v = Some u \<and> url_Scheme u = ''https'' \<and> url_Host u \<noteq> '''' \<and> \<not> url_User u" for path v
    by (auto simp: validateFleetHTTPSURL_def httpsURLScheme_def split: if_splits option.splits)
  have profiles: "validateLLMProfiles L kn = []" using assms(1) by (simp add: ValidateKubernaut_def)
  let ?fleet = "spec_Fleet (kn_Spec kn)"
  have fleet: "validateFleetOAuth2 L kn ?fleet = []" "validateFleetMCPGateway L (fleet_MCPGateway ?fleet) ''spec.fleet'' = []"
    if "fleet_Enabled ?fleet = Some True"
    using assms(2) that by (simp_all add: ValidateFleet_def validateFleetConfig_def Let_def)
  have "fleet_Enabled ?fleet = Some True \<Longrightarrow> list_all (\<lambda>(_, override). effective_credentials kn override \<noteq> '''') (fleet_overrides kn)"
    using fleet(1) by (auto simp: validateFleetOAuth2_def effective_credentials_def list_all_iff filter_empty_conv Let_def split: if_splits)
  moreover have "FleetMetadataCacheEnabled (kn_Spec kn) \<Longrightarrow> effective_credentials kn (fleetMetadataCache_Fleet (spec_FleetMetadataCache (kn_Spec kn))) \<noteq> ''''"
    using assms(2) by (auto simp: ValidateFleet_def validateFleetMetadataCache_def effective_credentials_def)
  ultimately show ?thesis
    using fleet accepted_refs [OF profiles]
    by (auto simp: list_all_iff validateFleetOAuth2_def validateFleetMCPGateway_def Let_def dest: https split: if_splits)
qed

subsection \<open>An accepted resource can be deployed\<close>

definition component_images :: "string list" where
  "component_images = [''gateway'', ''datastorage'', ''aianalysis'', ''signalprocessing'', ''remediationorchestrator'', ''workflowexecution'',
     ''effectivenessmonitor'', ''notification'', ''kubernautagent'', ''authwebhook'', ''apifrontend'', ''fleetmetadatacache'', ''console'', ''oauth2-proxy'',
     ''db-migrate'', ''init-ubi-minimal'']"

text \<open>The builders of the Deployments of a custom resource, the console's when it is enabled.\<close>

definition all_builders :: "validators \<Rightarrow> (string \<Rightarrow> string) \<Rightarrow> (string \<Rightarrow> string list) \<Rightarrow> Kubernaut \<Rightarrow> (Kubernaut \<Rightarrow> Kubernaut \<Rightarrow> kobj go) list" where
  "all_builders L getenv lookup kn = component_builders getenv lookup
     @ (if ConsoleEnabled (kn_Spec kn) then [\<lambda>kn knV2. ConsoleDeployment L getenv kn] else [])"

lemma resolved_image:
  assumes "list_all (\<lambda>n. \<exists>img. ResolveImage getenv kn n = Inr img) component_images" and "n \<in> set component_images"
  obtains img where "ResolveImage getenv kn n = Inr img"
  using assms by (auto simp: list_all_iff)

lemma buildDeployment_total:
  assumes "list_all (\<lambda>n. \<exists>img. ResolveImage getenv kn n = Inr img) component_images" and "params_ImageName p \<in> set component_images"
  shows "\<exists>dep. buildDeployment getenv kn p = Inr dep"
proof -
  obtain img where "ResolveImage getenv kn (params_ImageName p) = Inr img" using assms by (rule resolved_image)
  then show ?thesis by (simp add: buildDeployment_def)
qed

lemma components_deploy:
  assumes images: "list_all (\<lambda>n. \<exists>img. ResolveImage getenv kn n = Inr img) component_images"
    and profile: "llmProfile_CredentialsSecretName (profile_or_zero kn (EffectiveInvestigationLLMProfileRef kn)) \<noteq> ''''"
    and "build \<in> set (component_builders getenv lookup)"
  shows "\<exists>dep. build kn kn = Inr dep"
proof -
  obtain migrate where migrate: "ResolveImage getenv kn ''db-migrate'' = Inr migrate"
    by (rule resolved_image [OF images, of "''db-migrate''"]) (simp_all add: component_images_def)
  obtain ubi where ubi: "ResolveImage getenv kn ''init-ubi-minimal'' = Inr ubi"
    by (rule resolved_image [OF images, of "''init-ubi-minimal''"]) (simp_all add: component_images_def)
  have total: "\<exists>dep. (case parts of (volumes, mounts) \<Rightarrow> buildDeployment getenv kn (p volumes mounts)) = Inr dep"
    if "\<And>volumes mounts. params_ImageName (p volumes mounts) \<in> set component_images" for parts p
    using buildDeployment_total [OF images] that by (cases parts) simp
  have "\<exists>dep. DataStorageDeployment getenv lookup kn = Inr dep"
    unfolding DataStorageDeployment_def dataStorageInitContainer_def migrate Let_def sum.case by (rule total) (simp add: component_images_def)
  moreover have "\<exists>dep. AIAnalysisDeployment getenv kn kn = Inr dep"
    unfolding AIAnalysisDeployment_def by (rule total) (simp add: component_images_def)
  moreover have "\<exists>dep. SignalProcessingDeployment getenv kn kn = Inr dep"
    unfolding SignalProcessingDeployment_def by (rule total) (simp add: component_images_def)
  moreover have "\<exists>dep. RemediationOrchestratorDeployment getenv kn kn = Inr dep"
    unfolding RemediationOrchestratorDeployment_def by (rule total) (simp add: component_images_def)
  moreover have "\<exists>dep. NotificationDeployment getenv kn kn = Inr dep"
    unfolding NotificationDeployment_def by (rule total) (simp add: component_images_def)
  moreover have "\<exists>dep. AuthWebhookDeployment getenv kn kn = Inr dep"
    unfolding AuthWebhookDeployment_def by (rule total) (simp add: component_images_def)
  moreover have "\<exists>dep. GatewayDeployment getenv kn kn = Inr dep"
    unfolding GatewayDeployment_def by (rule total) (simp add: component_images_def)
  moreover have "\<exists>dep. WorkflowExecutionDeployment getenv kn kn = Inr dep"
    unfolding WorkflowExecutionDeployment_def Let_def ubi sum.case
    by (auto simp: component_images_def workflow_params_def intro!: buildDeployment_total [OF images] split: option.split)
  moreover have "\<exists>dep. EffectivenessMonitorDeployment getenv kn kn = Inr dep"
  proof -
    obtain inits where "monitor_init getenv kn = Inr inits" using ubi by (cases "usesOpenShiftServiceCA kn") (auto simp: monitor_init_def)
    then show ?thesis unfolding EffectivenessMonitorDeployment_def by (simp only: sum.case) (rule total, simp add: component_images_def)
  qed
  moreover have "\<exists>dep. KubernautAgentDeployment getenv kn kn = Inr dep"
    unfolding KubernautAgentDeployment_def Let_def if_not_P [OF profile] by (rule total) (simp add: component_images_def)
  moreover have "\<exists>dep. APIFrontendDeployment getenv kn kn = Inr dep"
    unfolding APIFrontendDeployment_def Let_def by (cases "apifrontendPorts kn") (simp only: prod.case, rule total, simp add: component_images_def)
  moreover have "\<exists>dep. FleetMetadataCacheDeployment getenv kn kn = Inr dep"
    unfolding FleetMetadataCacheDeployment_def Let_def by (rule total) (simp add: component_images_def)
  ultimately show ?thesis using assms(3) by (auto simp: component_builders_def)
qed

lemma console_deploys:
  assumes images: "list_all (\<lambda>n. \<exists>img. ResolveImage getenv kn n = Inr img) component_images"
    and "validateConsoleEffectiveIssuer kn = None" "validateConsoleRedirectURL L kn = None" "validateConsoleProviderLogoutURL L kn = None"
    and "consoleAuth_SecretName (console_auth kn) \<noteq> ''''"
  shows "\<exists>dep. ConsoleDeployment L getenv kn = Inr dep"
proof -
  have "\<exists>img. ResolveImage getenv kn n = Inr img" if "n \<in> set component_images" for n
    using that images by (auto simp: list_all_iff)
  from this [of "''console''"] this [of "''oauth2-proxy''"] this [of "''init-ubi-minimal''"]
  obtain a b c where "ResolveImage getenv kn ''console'' = Inr a" "ResolveImage getenv kn ''oauth2-proxy'' = Inr b"
    "ResolveImage getenv kn ''init-ubi-minimal'' = Inr c" by (auto simp: component_images_def)
  then show ?thesis using assms(2-5) by (simp add: ConsoleDeployment_def console_checks_def consoleLogoutTLSSettings_def)
qed

text \<open>C23: What validation accepts can be deployed. When validation finds no error, the images of the components resolve, and an enabled
  console names its Secret (which the schema demands), then each builder of a Deployment, the console's among them, returns one, and it is
  well formed: no error of a builder can come up later than validation.\<close>

theorem accepted_spec_deploys:
  assumes "ValidateKubernaut L kn = []" and "list_all (\<lambda>n. \<exists>img. ResolveImage getenv kn n = Inr img) component_images"
    and "ConsoleEnabled (kn_Spec kn) \<Longrightarrow> consoleAuth_SecretName (console_auth kn) \<noteq> ''''"
  shows "list_all (\<lambda>build. \<exists>dep. build kn kn = Inr dep \<and> well_formed_deployment dep) (all_builders L getenv lookup kn)"
proof -
  have profiles: "validateLLMProfiles L kn = []" and console: "validateConsoleEffectiveIssuer kn = None" "validateConsoleRedirectURL L kn = None"
    "validateConsoleProviderLogoutURL L kn = None" using assms(1) by (simp_all add: ValidateKubernaut_def)
  obtain p where "ResolveLLMProfile kn (EffectiveInvestigationLLMProfileRef kn) = Some p" "complete_profile p"
    using accepted_refs [OF profiles, of "EffectiveInvestigationLLMProfileRef kn"] by (auto simp: consumer_refs_def)
  then have "llmProfile_CredentialsSecretName (profile_or_zero kn (EffectiveInvestigationLLMProfileRef kn)) \<noteq> ''''"
    by (simp add: profile_or_zero_def complete_profile_def)
  note components = components_deploy [OF assms(2) this]
  have "\<exists>dep. build kn kn = Inr dep \<and> well_formed_deployment dep" if "build \<in> set (component_builders getenv lookup)" for build
    using components [OF that] that by (auto simp: component_builders_def intro: builders_well_formed)
  then show ?thesis
    using console_deploys [OF assms(2) console] assms(3) by (auto simp: all_builders_def list_all_iff intro: ConsoleDeployment_well_formed)
qed

subsection \<open>The console behind its proxy\<close>

text \<open>C34: The console is only reached through its proxy. Whenever the console's Deployment is built it is well formed (restricted pod, mounts
  that resolve, distinct volumes, probes on declared ports) and its Service selects it; each port of the Service leads to the oauth2-proxy
  container and to no other, the proxy listens on that port and its only upstream is the port of the console container on the loopback
  interface. The credentials reach the proxy as references to the Secret of the specification, and its configuration holds placeholders in
  their place. The accepted callback is an https URL.\<close>

theorem console_is_behind_the_proxy:
  assumes "ConsoleDeployment L getenv kn = Inr dep" and "ConsoleEnabled (kn_Spec kn)"
  shows "well_formed_deployment dep \<and> selects (ConsoleService kn) dep \<and>
    (\<exists>proxy app. pod_Containers (pod_of dep) = [proxy, app] \<and>
       list_all (\<lambda>sp. reached (port_TargetPort sp) (pod_of dep) = [proxy] \<and> port_Port sp = consoleProxyPort) (service_Ports (body_Service (obj_Body (ConsoleService kn)))) \<and>
       proxyServer_BindAddress (proxy_Server (console_proxy_config kn)) = ''0.0.0.0:'' @ show_int (containerPort_Port (hd (container_Ports proxy))) \<and>
       map upstream_URI (upstreamConfig_Upstreams (proxy_UpstreamConfig (console_proxy_config kn))) =
         map (\<lambda>p. ''http://localhost:'' @ show_int (containerPort_Port p)) (container_Ports app) \<and>
       list_all (\<lambda>(name, k). env_secret name (consoleAuth_SecretName (console_auth kn)) k \<in> set (container_Env proxy))
         [(''OAUTH2_PROXY_CLIENT_ID'', ''client-id''), (''OAUTH2_PROXY_CLIENT_SECRET'', ''client-secret''), (''OAUTH2_PROXY_COOKIE_SECRET'', ''cookie-secret'')] \<and>
       list_all (\<lambda>p. provider_ClientSecret p = LiteralScalar ''${OAUTH2_PROXY_CLIENT_SECRET}'') (proxy_Providers (console_proxy_config kn)) \<and>
       ''--redirect-url='' @ consoleAuth_RedirectURL (console_auth kn) \<in> set (container_Args proxy)) \<and>
    (\<exists>u. l_Parse L (consoleAuth_RedirectURL (console_auth kn)) = Some u \<and> EqualFold (url_Scheme u) ''https'' \<and> url_Host u \<noteq> '''' \<and>
       url_EscapedPath u = ''/oauth2/callback'')"
proof -
  obtain consoleImage proxyImage combined inits where body: "obj_Body dep = DeploymentBody (Some 1) 0 (ComponentLabels kn ComponentConsole) Map.empty
       \<lparr>deployment_Selector = SelectorLabels ComponentConsole, deployment_Strategy = '''',
        deployment_Pod = console_pod kn consoleImage proxyImage combined inits\<rparr>" and checks: "console_checks L kn = None"
    using assms(1) by (rule ConsoleDeployment_cases)
  have ports: "show_int consoleProxyPort = ''4180''" "show_int consoleStaticPort = ''8080''"
    by (simp_all add: show_int_def digits.simps [of 4180] digits.simps [of 418] digits.simps [of 41] digits.simps [of 4] digits.simps [of 8080]
        digits.simps [of 808] digits.simps [of 80] digits.simps [of 8] consoleProxyPort_def consoleStaticPort_def char_of_def bit_iff_odd)
  have "validateConsoleRedirectURL L kn = None" using checks by (auto simp: console_checks_def split: option.splits if_splits)
  then have url: "\<exists>u. l_Parse L (consoleAuth_RedirectURL (console_auth kn)) = Some u \<and> EqualFold (url_Scheme u) ''https'' \<and> url_Host u \<noteq> '''' \<and>
       url_EscapedPath u = ''/oauth2/callback''"
    using assms(2) by (auto simp: validateConsoleRedirectURL_def httpsURLScheme_def Let_def split: if_splits option.splits)
  have sel: "selects (ConsoleService kn) dep"
    by (simp add: selects_def ConsoleService_def service_object_def deployment_labels_def body selector_selects)
  let ?r = "consoleContainerResources kn"
  let ?proxy = "consoleOAuth2ProxyContainer proxyImage (consoleOAuthArgs (consoleRedirectURL kn)) (consoleAuth_SecretName (console_auth kn))
    (InterServiceTLSCADirFor kn) combined ?r"
  let ?app = "consoleAppContainer kn consoleImage ?r"
  have pod: "pod_Containers (pod_of dep) = [?proxy, ?app]" by (simp add: pod_of_def body console_pod_def Let_def)
  have services: "list_all (\<lambda>sp. reached (port_TargetPort sp) (pod_of dep) = [?proxy] \<and> port_Port sp = consoleProxyPort)
      (service_Ports (body_Service (obj_Body (ConsoleService kn))))"
    by (simp add: reached_def pod console_containers tcp_port_def ConsoleService_def service_object_def)
  have listens: "proxyServer_BindAddress (proxy_Server (console_proxy_config kn)) = ''0.0.0.0:'' @ show_int (containerPort_Port (hd (container_Ports ?proxy)))"
    by (simp add: console_proxy_config_def console_containers tcp_port_def ports)
  have forwards: "map upstream_URI (upstreamConfig_Upstreams (proxy_UpstreamConfig (console_proxy_config kn))) =
      map (\<lambda>p. ''http://localhost:'' @ show_int (containerPort_Port p)) (container_Ports ?app)"
    by (simp add: console_proxy_config_def console_containers tcp_port_def ports)
  have env: "list_all (\<lambda>(name, k). env_secret name (consoleAuth_SecretName (console_auth kn)) k \<in> set (container_Env ?proxy))
      [(''OAUTH2_PROXY_CLIENT_ID'', ''client-id''), (''OAUTH2_PROXY_CLIENT_SECRET'', ''client-secret''), (''OAUTH2_PROXY_COOKIE_SECRET'', ''cookie-secret'')]"
    by (simp add: consoleOAuth2ProxyContainer_def)
  have hidden: "list_all (\<lambda>p. provider_ClientSecret p = LiteralScalar ''${OAUTH2_PROXY_CLIENT_SECRET}'') (proxy_Providers (console_proxy_config kn))"
    by (simp add: console_proxy_config_def)
  have args: "''--redirect-url='' @ consoleAuth_RedirectURL (console_auth kn) \<in> set (container_Args ?proxy)"
    by (simp add: consoleOAuth2ProxyContainer_def consoleOAuthArgs_def consoleRedirectURL_def)
  show ?thesis
    using ConsoleDeployment_well_formed [OF assms(1)] sel url pod services listens forwards env hidden args by blast
qed

subsection \<open>A resource that is accepted\<close>

text \<open>A parser for the URLs \<^verbatim>\<open>https://host/path\<close> without escapes, enough for the examples.\<close>

definition sample_Parse :: "string \<Rightarrow> url option" where
  "sample_Parse s = (if \<not> has_prefix s ''https://'' then None
     else let rest = drop 8 s; path = dropWhile (\<lambda>c. c \<noteq> CHR ''/'') rest
       in Some \<lparr>url_Scheme = ''https'', url_Opaque = '''', url_User = False, url_Host = takeWhile (\<lambda>c. c \<noteq> CHR ''/'') rest,
            url_Path = path, url_EscapedPath = path, url_RawQuery = '''', url_Fragment = ''''\<rparr>)"

definition sample_validators :: validators where
  "sample_validators = \<lparr>l_Parse = sample_Parse, l_ParseQuery = (\<lambda>q. Some []), l_finite_float = (\<lambda>_. True), l_fraction = (\<lambda>f u e. f * u div 10 ^ e),
     l_DurationString = show_int, l_DurationError = (\<lambda>s. s), l_IsDNS1123Subdomain = (\<lambda>s. s \<noteq> ''''), l_IsConfigMapKey = (\<lambda>s. s \<noteq> ''''),
     l_IsValidLabelValue = (\<lambda>_. True)\<rparr>"

definition sample_profile :: LLMProfileSpec where
  "sample_profile = zero_LLMProfileSpec\<lparr>llmProfile_Provider := ''anthropic'', llmProfile_Model := ''m'', llmProfile_CredentialsSecretName := ''llm''\<rparr>"

definition accepted_apiFrontend :: APIFrontendSpec where
  "accepted_apiFrontend = zero_APIFrontendSpec\<lparr>apiFrontend_Enabled := Some True,
     apiFrontend_Auth := zero_APIFrontendAuthSpec\<lparr>apiFrontendAuth_IssuerURL := ''https://sso.example''\<rparr>\<rparr>"

definition accepted_console :: ConsoleSpec where
  "accepted_console = zero_ConsoleSpec\<lparr>console_Enabled := Some True, console_Auth := zero_ConsoleAuthSpec\<lparr>consoleAuth_SecretName := ''oidc'',
     consoleAuth_RedirectURL := ''https://console.example/oauth2/callback'', consoleAuth_ProviderLogoutURL := ''https://SSO.example:443/logout''\<rparr>\<rparr>"

definition accepted_fleet :: FleetSpec where
  "accepted_fleet = zero_FleetSpec\<lparr>fleet_Enabled := Some True,
     fleet_ScopeCheck := zero_FleetScopeCheckSpec\<lparr>fleetScopeCheck_Backend := ComponentFleetMetadataCache\<rparr>,
     fleet_MCPGateway := zero_FleetMCPGatewaySpec\<lparr>fleetMCPGateway_Type := mcpGatewayTypeKuadrant, fleetMCPGateway_Endpoint := ''https://mcp.example'',
       fleetMCPGateway_Namespace := ''mcp''\<rparr>,
     fleet_OAuth2 := zero_FleetOAuth2Spec\<lparr>fleetOAuth2_TokenURL := ''https://sso.example/token'', fleetOAuth2_CredentialsSecretRef := ''reader''\<rparr>\<rparr>"

definition accepted_kn :: Kubernaut where
  "accepted_kn = zero_Kubernaut\<lparr>kn_Spec := zero_KubernautSpec\<lparr>spec_LLMProfiles := [(''main'', sample_profile)],
     spec_APIFrontend := accepted_apiFrontend, spec_Console := accepted_console, spec_Fleet := accepted_fleet,
     spec_WorkflowExecution := zero_WorkflowExecutionSpec\<lparr>workflowExecution_Fleet := \<lparr>workflowExecutionFleet_OAuth2CredentialsSecretRef = ''writer''\<rparr>\<rparr>\<rparr>\<rparr>"

lemma sample_validators_sels [simp]:
  "l_Parse sample_validators = sample_Parse" "l_ParseQuery sample_validators = (\<lambda>q. Some [])" "l_IsDNS1123Subdomain sample_validators = (\<lambda>s. s \<noteq> '''')"
  by (simp_all add: sample_validators_def)

lemma accepted_kn_sels [simp]:
  "spec_LLMProfiles (kn_Spec accepted_kn) = [(''main'', sample_profile)]" "spec_APIFrontend (kn_Spec accepted_kn) = accepted_apiFrontend"
  "spec_Console (kn_Spec accepted_kn) = accepted_console" "spec_Fleet (kn_Spec accepted_kn) = accepted_fleet"
  "spec_PostgreSQL (kn_Spec accepted_kn) = zero_PostgreSQLSpec" "spec_Notification (kn_Spec accepted_kn) = zero_NotificationSpec"
  "spec_Gateway (kn_Spec accepted_kn) = zero_GatewaySpec" "spec_DataStorage (kn_Spec accepted_kn) = zero_DataStorageSpec"
  "spec_KubernautAgent (kn_Spec accepted_kn) = zero_KubernautAgentSpec" "spec_Monitoring (kn_Spec accepted_kn) = zero_MonitoringSpec"
  "spec_RemediationOrchestrator (kn_Spec accepted_kn) = zero_RemediationOrchestratorSpec"
  "spec_SignalProcessing (kn_Spec accepted_kn) = zero_SignalProcessingSpec"
  "spec_EffectivenessMonitor (kn_Spec accepted_kn) = zero_EffectivenessMonitorSpec"
  "spec_FleetMetadataCache (kn_Spec accepted_kn) = zero_FleetMetadataCacheSpec"
  "workflowExecution_Fleet (spec_WorkflowExecution (kn_Spec accepted_kn)) = \<lparr>workflowExecutionFleet_OAuth2CredentialsSecretRef = ''writer''\<rparr>"
  by (simp_all add: accepted_kn_def zero_KubernautSpec_def)

lemma accepted_enabled [simp]:
  "APIFrontendEnabled (kn_Spec accepted_kn)" "ConsoleEnabled (kn_Spec accepted_kn)" "GatewayEnabled (kn_Spec accepted_kn)"
  by (simp_all add: APIFrontendEnabled_def ConsoleEnabled_def GatewayEnabled_def accepted_apiFrontend_def accepted_console_def zero_GatewaySpec_def)

lemma accepted_profiles_ok: "validateLLMProfiles sample_validators accepted_kn = []"
  by code_simp

lemma accepted_telemetry_ok: "validateTelemetry sample_validators accepted_kn = []"
  by code_simp

lemma accepted_apiFrontend_ok: "validateAPIFrontend sample_validators accepted_kn = []"
  by code_simp

lemma accepted_console_ok:
  "validateConsoleEffectiveIssuer accepted_kn = None" "validateConsoleRedirectURL sample_validators accepted_kn = None"
  by code_simp+

lemma accepted_logout_ok: "validateConsoleProviderLogoutURL sample_validators accepted_kn = None"
  by code_simp

lemma accepted_rest_ok:
  "validatePostgreSQLSSLMode accepted_kn = []" "validateNotificationCredentials sample_validators accepted_kn = []"
  "validateMonitoringEndpoints sample_validators accepted_kn = []" "validateMonitoringTLS_spec sample_validators accepted_kn = []"
  "validateAlignmentCheck sample_validators accepted_kn = []" "validateDryRun sample_validators accepted_kn = []"
  "validateInteractive sample_validators accepted_kn = []" "validateDataStorage sample_validators accepted_kn = []"
  by code_simp+

lemma accepted_fleet_ok: "ValidateFleet sample_validators accepted_kn = []"
  by code_simp

lemma accepted_sample: "ValidateKubernaut sample_validators accepted_kn = []"
  by (simp add: ValidateKubernaut_def validatePolicyPrerequisites_def accepted_profiles_ok accepted_telemetry_ok accepted_apiFrontend_ok accepted_console_ok
      accepted_logout_ok accepted_rest_ok)

theorem accepted_spec_is_complete_witness:
  "ResolveLLMProfile accepted_kn ''main'' = Some sample_profile \<and> consumer_refs accepted_kn = [''main'', ''main'', ''main''] \<and>
   list_all (\<lambda>ref. \<exists>p. ResolveLLMProfile accepted_kn ref = Some p \<and> complete_profile p) (consumer_refs accepted_kn)"
  using accepted_spec_is_complete [OF accepted_sample accepted_fleet_ok]
  by (simp add: ResolveLLMProfile_def consumer_refs_def EffectiveInvestigationLLMProfileRef_def EffectiveWorkflowDiscoveryLLMProfileRef_def
      AFLLMProfileRef_def effectiveLLMProfileRef_def zero_KubernautAgentSpec_def zero_InvestigationSpec_def
      zero_WorkflowDiscoverySpec_def zero_AlignmentCheckSpec_def accepted_apiFrontend_def zero_APIFrontendSpec_def)

lemma accepted_images: "list_all (\<lambda>n. \<exists>img. ResolveImage (\<lambda>_. ''img'') accepted_kn n = Inr img) component_images"
proof -
  have "ResolveImage (\<lambda>_. ''img'') accepted_kn n = Inr ''img''" for n
    by (simp add: ResolveImage_def related_image_def accepted_kn_def zero_KubernautSpec_def zero_ImageSpec_def)
  then show ?thesis by (simp add: list_all_iff)
qed

lemma accepted_secret: "consoleAuth_SecretName (console_auth accepted_kn) \<noteq> ''''"
  by (simp add: accepted_console_def)

theorem accepted_spec_deploys_witness:
  "list_all (\<lambda>build. \<exists>dep. build accepted_kn accepted_kn = Inr dep \<and> well_formed_deployment dep)
     (all_builders sample_validators (\<lambda>_. ''img'') (\<lambda>_. []) accepted_kn) \<and>
   (\<lambda>kn knV2. ConsoleDeployment sample_validators (\<lambda>_. ''img'') kn) \<in> set (all_builders sample_validators (\<lambda>_. ''img'') (\<lambda>_. []) accepted_kn)"
  using accepted_spec_deploys [OF accepted_sample accepted_images accepted_secret] by (simp add: all_builders_def)

theorem console_is_behind_the_proxy_witness:
  "\<exists>dep. ConsoleDeployment sample_validators (\<lambda>_. ''img'') accepted_kn = Inr dep \<and> selects (ConsoleService accepted_kn) dep"
proof -
  obtain dep where "ConsoleDeployment sample_validators (\<lambda>_. ''img'') accepted_kn = Inr dep"
    using console_deploys [OF accepted_images accepted_console_ok accepted_logout_ok accepted_secret] by blast
  then show ?thesis using console_is_behind_the_proxy [of sample_validators "\<lambda>_. ''img''" accepted_kn dep] by simp
qed

subsection \<open>Gaps\<close>

text \<open>A console pod never carries the pull secrets of the specification.\<close>

lemma console_ignores_pull_secrets: "ConsoleDeployment L getenv kn = Inr dep \<Longrightarrow> pod_ImagePullSecrets (pod_of dep) = []"
  by (erule ConsoleDeployment_cases) (simp add: pod_of_def console_pod_def zero_pod_spec_def Let_def)

text \<open>A parameter with the empty name is itself unsupported, but its name reads as ``none'' and shadows the unsupported ones after it.\<close>

lemma unsupported_parameter_hidden: "unsupportedConsoleLogoutQueryParameter (('''', vs) # query) = ''''"
  by (simp add: unsupportedConsoleLogoutQueryParameter_def logout_parameters_def ToLower.simps)

end
