(* ===== verification/Reconcile.thy ===== *)
theory Reconcile
  imports Workloads Accepted Rbac_Deploy Cleanup Running Startup_Inputs
begin

text \<open>
  The reconciler's driver (\<^verbatim>\<open>internal/controller/kubernaut_controller.go\<close>, with two steps of \<^verbatim>\<open>telemetry.go\<close>): \<^verbatim>\<open>Reconcile\<close>, the
  authorization of the singleton, and the phases Validate, Migrate and Deploy with everything they call; Running is in \<open>Running\<close>.

  The Go code passes the custom resource twice, as \<^verbatim>\<open>kn\<close> and \<^verbatim>\<open>knV2\<close>, and both are the same pointer: here it is the resource of the
  world, read again where a step needs it. What the process relies on besides the cluster is the record \<open>operator\<close>.
\<close>

record operator =
  o_process :: process
  o_configs :: configs
  o_material :: material
  o_tls :: tls_env
  o_assets :: assets
  o_newDynamic :: "go_error option" \<comment> \<open>why \<^verbatim>\<open>dynamic.NewForConfig\<close> failed, if it did\<close>
  o_now :: int
  o_trust :: "nat \<Rightarrow> trust_reads" \<comment> \<open>the live reads of the trust bundle, by the step that builds it\<close>

abbreviation o_decoders :: "operator \<Rightarrow> decoders" where "o_decoders O' \<equiv> t_decoders (o_tls O')"

definition ConditionBYOValidated :: string where "ConditionBYOValidated = ''BYOValidated''"
definition ConditionPlatformCapabilitiesReady :: string where "ConditionPlatformCapabilitiesReady = ''PlatformCapabilitiesReady''"
definition ConditionTLSReady :: string where "ConditionTLSReady = ''TLSReady''"
definition ReasonSecretsValid :: string where "ReasonSecretsValid = ''SecretsValid''"
definition ReasonPrecreatedConfigurationInvalid :: string where "ReasonPrecreatedConfigurationInvalid = ''PrecreatedConfigurationInvalid''"
definition ReasonPlatformCapabilitiesReady :: string where "ReasonPlatformCapabilitiesReady = ''CapabilitiesDiscovered''"
definition ReasonTLSReady :: string where "ReasonTLSReady = ''TLSReady''"
definition ReasonTLSNotReady :: string where "ReasonTLSNotReady = ''TLSNotReady''"
definition ReasonTLSWaitingForServiceCA :: string where "ReasonTLSWaitingForServiceCA = ''WaitingForServiceCA''"
definition ReasonFleetTrustSecretInvalid :: string where "ReasonFleetTrustSecretInvalid = ''FleetTrustSecretInvalid''"
definition ReasonFleetTokenSecretInvalid :: string where "ReasonFleetTokenSecretInvalid = ''FleetTokenSecretInvalid''"
definition ReasonMonitoringTLSNotReady :: string where "ReasonMonitoringTLSNotReady = ''MonitoringTLSNotReady''"
definition ReasonTelemetrySecretInvalid :: string where "ReasonTelemetrySecretInvalid = ''TelemetrySecretInvalid''"
definition ReasonTelemetryAmbientInvalid :: string where "ReasonTelemetryAmbientInvalid = ''TelemetryAmbientTrustInvalid''"
definition ReasonAuditHashKeyInvalid :: string where "ReasonAuditHashKeyInvalid = ''AuditHashKeyInvalid''"

subsection \<open>Validate\<close>

text \<open>A check that has handled a failure returns what the phase then returns; \<open>None\<close> goes on.\<close>

type_synonym 's check = "('s, (result \<times> go_error option) option) prog"

fun checks :: "'s check list \<Rightarrow> 's check" where
  "checks [] = State_Monad.return None"
| "checks (c # cs) = do {
     r \<leftarrow> c;
     (case r of Some x \<Rightarrow> State_Monad.return (Some x) | None \<Rightarrow> checks cs) }"

text \<open>Run a validation; on an error, publish it as a condition (and an event, where the code sends one) and requeue.\<close>

definition failing_with :: "'s env \<Rightarrow> string \<Rightarrow> string \<Rightarrow> (go_error \<Rightarrow> string) \<Rightarrow> bool \<Rightarrow> ('s, go_error option) prog \<Rightarrow> 's check" where
  "failing_with E cond reason message event m = do {
     r \<leftarrow> m;
     (case r of
        None \<Rightarrow> State_Monad.return None
      | Some err \<Rightarrow> do {
          (if event then Eventf Warning reason else State_Monad.return ());
          x \<leftarrow> setConditionAndRequeue E cond reason (message err);
          State_Monad.return (Some x) }) }"

definition database_check :: "'s env \<Rightarrow> ('s, go_error option) prog \<times> string \<times> string \<Rightarrow> 's check" where
  "database_check E = (\<lambda>(validation, reason, message).
     failing_with E ConditionBYOValidated reason (\<lambda>err. message @ '': '' @ error_text err) True validation)"

definition validateDatabaseInputs :: "'s env \<Rightarrow> operator \<Rightarrow> 's check" where
  "validateDatabaseInputs E O' = do {
     kn \<leftarrow> the_kn;
     checks (map (database_check E)
       [(ensureDataStorageAuditHashKey E (o_material O'), ReasonAuditHashKeyInvalid, ''DataStorage audit HMAC key validation failed''),
        (State_Monad.return (ValidateHostname (postgreSQL_Host (spec_PostgreSQL (kn_Spec kn)))), ''PostgreSQLHostInvalid'', ''PostgreSQL host validation failed''),
        (State_Monad.return (ValidateHostname (valkey_Host (spec_Valkey (kn_Spec kn)))), ''ValkeyHostInvalid'', ''Valkey host validation failed''),
        (validatePostgreSQLSecret E (o_decoders O'), ''PostgreSQLSecretInvalid'', ''PostgreSQL secret validation failed''),
        (validateValkeySecret E (o_decoders O'), ''ValkeySecretInvalid'', ''Valkey secret validation failed'')]) }"

definition handleSpecValidationFailure :: "'s env \<Rightarrow> go_error list \<Rightarrow> ('s, result \<times> go_error option) prog" where
  "handleSpecValidationFailure E validationErrs = do {
     Eventf Warning ''SpecValidationFailed'';
     setConditionAndRequeue E ConditionBYOValidated ''SpecValidationFailed''
       (''CR validation failed: '' @ join_strings ''; '' (map error_text validationErrs)) }"

definition validate_spec :: "'s env \<Rightarrow> operator \<Rightarrow> 's check" where
  "validate_spec E O' = do {
     kn \<leftarrow> the_kn;
     let L = p_validators (o_process O');
     let validationErrs = ValidateKubernaut L kn @ ValidateFleet L kn;
     (if validationErrs = [] then State_Monad.return None
      else do {
        x \<leftarrow> handleSpecValidationFailure E validationErrs;
        State_Monad.return (Some x) }) }"

definition validatePrecreatedConfigurationPhase :: "'s env \<Rightarrow> operator \<Rightarrow> 's check" where
  "validatePrecreatedConfigurationPhase E O' = failing_with E ConditionBYOValidated ReasonPrecreatedConfigurationInvalid error_text True
     (validatePrecreatedConfiguration E (o_decoders O'))"

definition validateTelemetryMaterial :: "'s env \<Rightarrow> operator \<Rightarrow> 's check" where
  "validateTelemetryMaterial E O' = failing_with E ConditionBYOValidated ReasonTelemetrySecretInvalid
     (\<lambda>err. ''telemetry material validation failed: '' @ error_text err) False (validateTelemetrySecrets E (o_decoders O'))"

definition ensureTelemetryAmbientTrustSource :: "'s env \<Rightarrow> operator \<Rightarrow> ('s, go_error option) prog" where
  "ensureTelemetryAmbientTrustSource E O' = do {
     kn \<leftarrow> the_kn;
     (if \<not> hasNetworkTelemetry kn then State_Monad.return None
      else do {
        r \<leftarrow> ensureRuntimeTLS E (o_tls O');
        (case r of
           Inl e \<Rightarrow> State_Monad.return (Some (Wrap ''ensuring runtime trust source'' e))
         | Inr (material, caBundle) \<Rightarrow>
            (if tlsMaterial_Source material = TLSMaterialSourceServiceCA then do {
               kn \<leftarrow> the_kn;
               and_then (wrapping ''ensuring inter-service CA ConfigMap'' (ensureNamespaced E (InterServiceCAConfigMap kn)))
                 (wrapping ''ensuring ambient trust bundle ConfigMap''
                   (ensureNamespaced E (TrustBundleConfigMap (fst (o_trust O' 0)) (snd (o_trust O' 0)) kn))) }
             else wrapping ''ensuring explicit ambient trust bundle'' (ensureGenericTLSConfigMaps E caBundle))) }) }"

definition setTelemetryAmbientTrustPending :: "'s env \<Rightarrow> string \<Rightarrow> ('s, result \<times> go_error option) prog" where
  "setTelemetryAmbientTrustPending E message = do {
     err \<leftarrow> patchStatus E (\<lambda>kn. setPhase PhaseValidating
       (set_condition E ConditionTLSReady ConditionFalse ReasonTLSWaitingForServiceCA message
         (set_condition E ConditionBYOValidated ConditionFalse ReasonTLSWaitingForServiceCA message kn)));
     State_Monad.return (case err of Some e \<Rightarrow> (0, Some e) | None \<Rightarrow> (requeueMigrationPoll, None)) }"

definition validateTelemetryTrust :: "'s env \<Rightarrow> operator \<Rightarrow> 's check" where
  "validateTelemetryTrust E O' = checks
     [failing_with E ConditionBYOValidated ReasonTelemetryAmbientInvalid
        (\<lambda>err. ''ambient telemetry trust preparation failed: '' @ error_text err) False (ensureTelemetryAmbientTrustSource E O'),
      do {
        r \<leftarrow> validateTelemetryAmbientTrust E (o_decoders O');
        (case r of
           None \<Rightarrow> State_Monad.return None
         | Some (AmbientPending message) \<Rightarrow> do {
             x \<leftarrow> setTelemetryAmbientTrustPending E message;
             State_Monad.return (Some x) }
         | Some (AmbientInvalid err) \<Rightarrow> do {
             x \<leftarrow> setConditionAndRequeue E ConditionBYOValidated ReasonTelemetryAmbientInvalid
               (''ambient telemetry trust validation failed: '' @ error_text err);
             State_Monad.return (Some x) }) }]"

definition input_checks :: "'s env \<Rightarrow> operator \<Rightarrow> 's check" where
  "input_checks E O' = checks
     [validateDatabaseInputs E O', validate_spec E O', validatePrecreatedConfigurationPhase E O', validateTelemetryMaterial E O',
      failing_with E ConditionBYOValidated ReasonFleetTrustSecretInvalid (\<lambda>err. ''Fleet trust material validation failed: '' @ error_text err) False
        (validateFleetTrustSecrets E (o_decoders O')),
      failing_with E ConditionBYOValidated ReasonFleetTokenSecretInvalid (\<lambda>err. ''Fleet token Secret validation failed: '' @ error_text err) False
        (validateFleetTokenSecret E),
      failing_with E ConditionBYOValidated ReasonMonitoringTLSNotReady (\<lambda>err. ''monitoring TLS trust validation failed: '' @ error_text err) False
        (validateMonitoringTLS E (o_decoders O'))]"

definition validated_status :: "'s env \<Rightarrow> TLSMaterial \<Rightarrow> Kubernaut \<Rightarrow> Kubernaut" where
  "validated_status E tlsMaterial kn =
     (let tlsMode = (if tlsConfig_Mode (kn_TLS kn) = '''' then TLSModeServiceCA else tlsConfig_Mode (kn_TLS kn));
          platformMessage = (if tlsMaterial_Source tlsMaterial = TLSMaterialSourceServiceCA
            then ''OpenShift capabilities detected; optional platform adapters are enabled''
            else ''generic Kubernetes capabilities detected; optional OpenShift and monitoring APIs are not required'')
      in setPhase PhaseValidating
        (set_condition E ConditionTLSReady ConditionTrue ReasonTLSReady (''runtime TLS mode '' @ tlsMode @ '' is configured'')
        (set_condition E ConditionPlatformCapabilitiesReady ConditionTrue ReasonPlatformCapabilitiesReady platformMessage
        (set_condition E ConditionBYOValidated ConditionTrue ReasonSecretsValid
          ''pre-created startup configuration and database/cache inputs are valid'' kn))))"

definition phaseValidate :: "'s env \<Rightarrow> operator \<Rightarrow> ('s, result \<times> go_error option) prog" where
  "phaseValidate E O' = do {
     inputs \<leftarrow> input_checks E O';
     (case inputs of
        Some x \<Rightarrow> State_Monad.return x
      | None \<Rightarrow> do {
          tls \<leftarrow> validateTLSConfiguration E (o_tls O');
          (case tls of
             Inl e \<Rightarrow> setConditionAndRequeue E ConditionTLSReady ReasonTLSNotReady (error_text e)
           | Inr tlsMaterial \<Rightarrow> do {
               trust \<leftarrow> validateTelemetryTrust E O';
               (case trust of
                  Some x \<Rightarrow> State_Monad.return x
                | None \<Rightarrow> do {
                    err \<leftarrow> patchStatus E (validated_status E tlsMaterial);
                    State_Monad.return (0, err) }) }) }) }"

subsection \<open>Migrate\<close>

definition EnsureCRDs :: "'s env \<Rightarrow> operator \<Rightarrow> ('s, go_error option) prog" where
  "EnsureCRDs E O' = (case o_newDynamic O' of
     Some e \<Rightarrow> State_Monad.return (Some (Wrap ''creating dynamic client for CRDs'' e))
   | None \<Rightarrow> ensureEmbeddedCRDs E (o_assets O'))"

definition ensureMigrationPrereqs :: "'s env \<Rightarrow> operator \<Rightarrow> ('s, go_error option) prog" where
  "ensureMigrationPrereqs E O' = and_then (EnsureCRDs E O') (do {
     r \<leftarrow> ensureRuntimeTLS E (o_tls O');
     (case r of
        Inl e \<Rightarrow> State_Monad.return (Some (Wrap ''ensuring runtime TLS before migration'' e))
      | Inr (tlsMaterial, tlsBundle) \<Rightarrow>
         and_then (wrapping ''ensuring generic TLS trust before migration'' (ensureTLSConfigMapsForMaterial E tlsMaterial tlsBundle)) (do {
           kn \<leftarrow> the_kn;
           (case MigrationConfigMap (o_assets O') kn of
              Inl e \<Rightarrow> State_Monad.return (Some (Wrap ''building migration configmap'' e))
            | Inr migrationCM \<Rightarrow>
               and_then (wrapping ''ensuring migration configmap'' (ensureNamespaced E migrationCM))
               (if tlsMaterial_Source tlsMaterial = TLSMaterialSourceServiceCA
                then and_then (wrapping ''ensuring inter-service-ca configmap'' (ensureNamespaced E (InterServiceCAConfigMap kn)))
                  (wrapping ''ensuring inter-service-trust-bundle configmap''
                    (ensureNamespaced E (TrustBundleConfigMap (fst (o_trust O' 1)) (snd (o_trust O' 1)) kn)))
                else State_Monad.return None)) })) })"

definition phaseMigrate :: "'s env \<Rightarrow> operator \<Rightarrow> ('s, result \<times> go_error option) prog" where
  "phaseMigrate E O' = do {
     prereqs \<leftarrow> ensureMigrationPrereqs E O';
     (case prereqs of
        Some err \<Rightarrow> do {
          (if is_ownership_conflict err then Eventf Warning ''OwnershipConflict'' else State_Monad.return ());
          setConditionAndRequeue E ConditionCRDsInstalled ''CRDInstallFailed'' (error_text err) }
      | None \<Rightarrow> do {
          job \<leftarrow> ensureMigrationJob E (p_getenv (o_process O')) (o_now O');
          (if snd job \<noteq> None \<or> fst job > 0 then State_Monad.return job
           else do {
             Eventf Normal ReasonMigrationComplete;
             err \<leftarrow> patchStatus E (\<lambda>kn. set_condition E ConditionMigrationComplete ConditionTrue ReasonMigrationComplete
               ''Database migration job succeeded'' (setCRDsReady E (setPhase PhaseDeploying kn)));
             State_Monad.return (0, err) }) }) }"

subsection \<open>Deploy\<close>

text \<open>Bind the value of a fallible step, or return its error under a message.\<close>

definition with_value :: "(go_error \<Rightarrow> go_error) \<Rightarrow> ('s, 'a go) prog \<Rightarrow> ('a \<Rightarrow> ('s, go_error option) prog) \<Rightarrow> ('s, go_error option) prog" where
  "with_value wrap m f = do {
     r \<leftarrow> m;
     (case r of Inl e \<Rightarrow> State_Monad.return (Some (wrap e)) | Inr v \<Rightarrow> f v) }"

definition runtime_tls_for_deploy :: "'s env \<Rightarrow> operator \<Rightarrow> ('s, (TLSMaterial \<times> string) go) prog" where
  "runtime_tls_for_deploy E O' = do {
     r \<leftarrow> ensureRuntimeTLS E (o_tls O');
     (case r of
        Inr v \<Rightarrow> State_Monad.return (Inr v)
      | Inl e \<Rightarrow> do {
          _ \<leftarrow> patchStatus E (set_condition E ConditionTLSReady ConditionFalse ReasonTLSNotReady (error_text e));
          State_Monad.return (Inl (Wrap ''ensuring runtime TLS'' e)) }) }"

definition rollout_revisions :: "'s env \<Rightarrow> operator \<Rightarrow> (telemetryMaterialRevisionSet \<Rightarrow> ('s, go_error option) prog) \<Rightarrow> ('s, go_error option) prog" where
  "rollout_revisions E O' f =
     with_value (Wrap ''resolving telemetry material revision'') (telemetryMaterialRevisions E (o_decoders O')) (\<lambda>telemetryRevisions.
     with_value (Wrap ''resolving fleet MCP Gateway trust revision'') (fleetMCPGatewayTrustRevision E) (\<lambda>fleetMCPGatewayRevision.
     with_value (Wrap ''resolving DataStorage signing material revision'') (dataStorageSigningMaterialRevision E) (\<lambda>signingRevision.
     with_value (Wrap ''resolving DataStorage dependency revision'') (dataStorageDependencyRevision E) (\<lambda>dependencyRevision.
       f (telemetryRevisions\<lparr>rev_FleetMCPGateway := fleetMCPGatewayRevision, rev_DataStorageSigning := signingRevision,
         rev_DataStorageDependency := dependencyRevision\<rparr>)))))"

definition database_names :: "'s env \<Rightarrow> ('s, (string \<times> string) go) prog" where
  "database_names E = do {
     kn \<leftarrow> the_kn;
     r \<leftarrow> Get E ''Secret'' (kn_Namespace kn, postgreSQL_SecretName (spec_PostgreSQL (kn_Spec kn)));
     State_Monad.return (case r of
        Inl e \<Rightarrow> Inl (Wrap ''fetching pg secret for config'' (API e))
      | Inr pgSecret \<Rightarrow> Inr (gget (secret_data pgSecret) ''POSTGRES_DB'', gget (secret_data pgSecret) ''POSTGRES_USER'')) }"

definition deploy_configured :: "'s env \<Rightarrow> operator \<Rightarrow> string \<times> string \<Rightarrow> ('s, go_error option) prog" where
  "deploy_configured E O' = (\<lambda>(dbName, dbUser). do {
     tlsProfile \<leftarrow> resolveClusterTLSProfile E;
     with_value id (runtime_tls_for_deploy E O') (\<lambda>(tlsMaterial, tlsBundle). do {
       kn \<leftarrow> the_kn;
       runtimeKnV2 \<leftarrow> monitoringConfigView E kn;
       with_value id (deployConfigMaps (o_configs O') (o_trust O' 2) E runtimeKnV2 dbName dbUser tlsProfile) (\<lambda>cmHashes.
       and_then (ensureTLSConfigMapsForMaterial E tlsMaterial tlsBundle)
       (rollout_revisions E O' (\<lambda>telemetryRevisions.
       and_then (deployAdmissionWebhooks E tlsMaterial tlsBundle)
       (and_then (deployWorkloads (o_process O') E runtimeKnV2 cmHashes telemetryRevisions) (do {
          Eventf Normal ReasonManifestsApplied;
          finalizeDeployStatus E }))))) }) })"

definition phaseDeploy :: "'s env \<Rightarrow> operator \<Rightarrow> ('s, go_error option) prog" where
  "phaseDeploy E O' =
     and_then (deployWorkflowNamespace E)
     (and_then (deployServiceAccounts E) (do {
        rbac \<leftarrow> deployRBAC E;
        (case rbac of
           Some e \<Rightarrow> do {
             err \<leftarrow> handleRBACDeployError E e;
             State_Monad.return (Some err) }
         | None \<Rightarrow> with_value id (database_names E) (deploy_configured E O')) }))"

subsection \<open>The driver\<close>

definition refresh :: "'s env \<Rightarrow> ('s, go_error option) prog" where
  "refresh E = do {
     kn \<leftarrow> the_kn;
     r \<leftarrow> GetKn E (kn_Namespace kn, kn_Name kn);
     (case r of
        Inl e \<Rightarrow> State_Monad.return (Some (API e))
      | Inr live \<Rightarrow> do { set_kn live; State_Monad.return None }) }"

text \<open>Go on when a phase neither failed nor asked to be called again.\<close>

definition after_phase ::
  "('s, result \<times> go_error option) prog \<Rightarrow> ('s, result \<times> go_error option) prog \<Rightarrow> ('s, result \<times> go_error option) prog" where
  "after_phase m n = do {
     r \<leftarrow> m;
     (if snd r \<noteq> None \<or> fst r > 0 then State_Monad.return r else n) }"

definition after_step :: "('s, go_error option) prog \<Rightarrow> ('s, result \<times> go_error option) prog \<Rightarrow> ('s, result \<times> go_error option) prog" where
  "after_step m n = do {
     r \<leftarrow> m;
     (case r of Some e \<Rightarrow> State_Monad.return (0, Some e) | None \<Rightarrow> n) }"

definition isolate :: "'s env \<Rightarrow> operator \<Rightarrow> ('s, go_error option) prog" where
  "isolate E O' = do {
     kn \<leftarrow> the_kn;
     reconcileNetworkPolicies E (p_validation (o_process O')) kn }"

definition reconcilePhases :: "'s env \<Rightarrow> operator \<Rightarrow> ('s, result \<times> go_error option) prog" where
  "reconcilePhases E O' =
     after_phase (phaseValidate E O')
     (after_step (refresh E)
     (after_step (isolate E O')
     (after_phase (phaseMigrate E O')
     (after_step (refresh E)
     (after_step (phaseDeploy E O')
     (after_step (refresh E)
     (phaseRunning E)))))))"

definition authorizeSingleton :: "'s env \<Rightarrow> ('s, go_error option) prog" where
  "authorizeSingleton E = do {
     kn \<leftarrow> the_kn;
     r \<leftarrow> ListKn E;
     State_Monad.return (case r of
        Inl e \<Rightarrow> Some (Wrap ''checking cluster-wide singleton'' (API e))
      | Inr items \<Rightarrow>
         (case items of
            [sole] \<Rightarrow>
              (if (kn_Namespace sole, kn_Name sole) \<noteq> (kn_Namespace kn, kn_Name kn) \<or> kn_UID sole \<noteq> kn_UID kn
                 \<or> meta_DeletionTimestamp (kn_ObjectMeta sole) \<noteq> None
               then Some (Msg ''cluster-wide singleton is absent, replaced or terminating; activation denied'') else None)
          | _ \<Rightarrow> Some (Msg (''cluster-wide singleton conflict: found '' @ show_int (int (length items))
              @ '' Kubernaut CRs; remove competing objects before retrying'')))) }"

definition add_finalizer :: "'s env \<Rightarrow> ('s, result \<times> go_error option) prog" where
  "add_finalizer E = do {
     kn \<leftarrow> the_kn;
     let kn' = kn\<lparr>kn_ObjectMeta := (kn_ObjectMeta kn)\<lparr>meta_Finalizers := e_addFinalizer E (meta_Finalizers (kn_ObjectMeta kn)) FinalizerName\<rparr>\<rparr>;
     set_kn kn';
     r \<leftarrow> UpdateKn E kn';
     (case r of
        Inl e \<Rightarrow> State_Monad.return (0, Some (API e))
      | Inr updated \<Rightarrow> do { set_kn updated; State_Monad.return (0, None) }) }"

definition Reconcile :: "'s env \<Rightarrow> operator \<Rightarrow> key \<Rightarrow> ('s, result \<times> go_error option) prog" where
  "Reconcile E O' req = do {
     r \<leftarrow> GetKn E req;
     (case r of
        Inl e \<Rightarrow> State_Monad.return (0, if IsNotFound e then None else Some (API e))
      | Inr kn \<Rightarrow> do {
          set_kn kn;
          (if kn_Name kn \<noteq> SingletonName then State_Monad.return (0, None)
           else if meta_DeletionTimestamp (kn_ObjectMeta kn) \<noteq> None then reconcileDelete E
           else after_step (authorizeSingleton E)
             (if \<not> e_containsFinalizer E (meta_Finalizers (kn_ObjectMeta kn)) FinalizerName then add_finalizer E
              else reconcilePhases E O')) }) }"

subsection \<open>Writes stay safe\<close>

lemma keeps_with_value [triple_rules]: "keeps I m \<Longrightarrow> (\<And>v. keeps I (f v)) \<Longrightarrow> keeps I (with_value wrap m f)"
  unfolding with_value_def by (intro triple_rules)

lemma keeps_checks [triple_rules]: "(\<And>c. c \<in> set cs \<Longrightarrow> keeps I c) \<Longrightarrow> keeps I (checks cs)"
  by (induction cs) (auto intro!: triple_rules)

lemma keeps_failing_with [triple_rules]:
  assumes "identity_stable E" and "keeps (safe ok me) m"
  shows "keeps (safe ok me) (failing_with E cond reason message event m)"
  unfolding failing_with_def by (intro triple_rules assms)

lemma safe_validateSecret [triple_rules]: "keeps (safe ok me) (validateSecret E ns name keys)"
  unfolding validateSecret_def by (intro triple_rules)

lemma safe_validations [triple_rules]:
  "keeps (safe ok me) (validatePostgreSQLSecret E D)" "keeps (safe ok me) (validateValkeySecret E D)"
  "keeps (safe ok me) (validateTelemetryAmbientTrust E D)" "keeps (safe ok me) (validateMonitoringTLS E D)"
  "keeps (safe ok me) (validateFleetTrustSecrets E D)" "keeps (safe ok me) (validateFleetTokenSecret E)"
  "keeps (safe ok me) (validateTelemetrySecrets E D)"
  unfolding validatePostgreSQLSecret_def validateValkeySecret_def validateTelemetryAmbientTrust_def Let_def
    validateMonitoringTLS_def validateMonitoringTLSSecret_def validateFleetTrustSecrets_def validate_trust_secret_def validateFleetTokenSecret_def
    validateTelemetrySecrets_def validate_telemetry_reference_def
  by (intro triple_rules)+

lemma safe_validatePrecreatedConfiguration [triple_rules]: "keeps (safe ok me) (validatePrecreatedConfiguration E D)"
proof -
  have "keeps (safe ok me) (validatePrecreatedReference E D ns r)" for ns r
    unfolding validatePrecreatedReference_def by (cases "pre_kind r") (simp_all, (intro triple_rules)+)
  then show ?thesis unfolding validatePrecreatedConfiguration_def by (intro triple_rules)
qed

lemma safe_serviceStatuses [triple_rules]: "keeps (safe ok me) (serviceStatuses E ns components)"
  by (induction components) (auto intro!: triple_rules simp: Let_def)

lemma safe_running [triple_rules]:
  assumes "identity_stable E"
  shows "keeps (safe ok me) (phaseRunning E)" "keeps (safe ok me) (finalizeDeployStatus E)" "keeps (safe ok me) (handleRBACDeployError E e)"
  unfolding phaseRunning_def finalizeDeployStatus_def handleRBACDeployError_def monitoringCondition_def validateAnsibleConfig_def
    validateAlertManagerAuthConfig_def warn_if_false_def openShiftPlatformDetected_def Let_def
  by (intro triple_rules assms)+

lemma safe_reference_inputs [triple_rules]: "keeps (safe ok me) (reference_inputs E ns refs)"
  by (induction refs) (auto intro!: triple_rules)

lemma safe_lane_revisions [triple_rules]: "keeps (safe ok me) (lane_revisions E ns ambient lanes revisions)"
  by (induction lanes arbitrary: revisions) (auto intro!: triple_rules)

lemma keeps_case_ambient [triple_rules]:
  "(\<And>m. r = AmbientPending m \<Longrightarrow> keeps I (f m)) \<Longrightarrow> (\<And>e. r = AmbientInvalid e \<Longrightarrow> keeps I (g e)) \<Longrightarrow>
   keeps I (case r of AmbientPending m \<Rightarrow> f m | AmbientInvalid e \<Rightarrow> g e)"
  by (cases r) simp_all

lemma safe_revisions [triple_rules]:
  "keeps (safe ok me) (telemetryMaterialRevisions E D)" "keeps (safe ok me) (fleetMCPGatewayTrustRevision E)"
  "keeps (safe ok me) (dataStorageSigningMaterialRevision E)" "keeps (safe ok me) (dataStorageDependencyRevision E)"
  unfolding telemetryMaterialRevisions_def networkTelemetryMaterialRevisions_def telemetryAmbientTrustRevision_def monitoringTLSMaterialRevision_def
    fleetMCPGatewayTrustRevision_def dataStorageSigningMaterialRevision_def dataStorageDependencyRevision_def postgresqlCredentialRevision_def Let_def
  by (intro triple_rules)+

lemma safe_phaseValidate:
  assumes "identity_stable E" and "\<And>y. mine E me y \<Longrightarrow> ok y"
  shows "keeps (safe ok me) (phaseValidate E O')"
proof -
  have source: "keeps (safe ok me) (ensureTelemetryAmbientTrustSource E O')" "keeps (safe ok me) (ensureGenericTLSConfigMaps E caBundle)" for caBundle
    unfolding ensureTelemetryAmbientTrustSource_def ensureGenericTLSConfigMaps_def by (intro triple_rules assms; assumption?)+
  have trust: "keeps (safe ok me) (validateTelemetryTrust E O')"
    unfolding validateTelemetryTrust_def setTelemetryAmbientTrustPending_def by (auto intro!: triple_rules source assms)
  have inputs: "keeps (safe ok me) (input_checks E O')"
    unfolding input_checks_def validateDatabaseInputs_def validate_spec_def handleSpecValidationFailure_def validatePrecreatedConfigurationPhase_def
      validateTelemetryMaterial_def database_check_def Let_def
    by (auto intro!: triple_rules assms)
  show ?thesis unfolding phaseValidate_def by (intro triple_rules trust inputs assms; assumption?)+
qed

lemma safe_ensureMigrationPrereqs:
  assumes "identity_stable E" and "\<And>y. mine E me y \<Longrightarrow> ok y" and "\<And>y. crd_ok y \<Longrightarrow> ok y" and "crd_assets (o_assets O')"
  shows "keeps (safe ok me) (ensureMigrationPrereqs E O')"
  unfolding ensureMigrationPrereqs_def EnsureCRDs_def by (intro triple_rules safe_ensureEmbeddedCRDs assms; (assumption | rule assms)?)+

lemma safe_phaseDeploy:
  assumes "identity_stable E" and "sets_only_owners E" and "\<And>y. mine E me y \<Longrightarrow> ok y" and "\<And>y. policy_ok me y \<Longrightarrow> ok y" and "fst (snd me) \<noteq> ''''"
  shows "keeps (safe ok me) (phaseDeploy E O')"
  unfolding phaseDeploy_def database_names_def deploy_configured_def runtime_tls_for_deploy_def rollout_revisions_def
  by (intro triple_rules safe_deployWorkloads assms; (assumption | rule assms)?)+

lemma safe_isolate:
  assumes "identity_stable E" and "sets_only_owners E" and "\<And>y. policy_ok me y \<Longrightarrow> ok y" and "fst (snd me) \<noteq> ''''"
  shows "keeps (safe ok me) (isolate E O')"
  unfolding isolate_def by (intro triple_rules safe_reconcileNetworkPolicies assms; (assumption | rule assms)?)+

text \<open>The deletion of a finished migration Job ends the run that sends it.\<close>

definition retires_job :: "(kobj \<Rightarrow> bool) \<Rightarrow> 's world \<Rightarrow> bool" where
  "retires_job ok w \<longleftrightarrow> (\<exists>job tr. w_trace w = DeleteCall job # tr \<and> guarded ok tr \<and> job_outcome (job_conditions job) \<noteq> None)"

lemma triple_case_outcome:
  "(x = Complete \<Longrightarrow> triple P f Q) \<Longrightarrow> (x = Failed \<Longrightarrow> triple P g Q) \<Longrightarrow> triple P (case x of Complete \<Rightarrow> f | Failed \<Rightarrow> g) Q"
  by (cases x) simp_all

lemma safe_checkMigrationJob:
  assumes "identity_stable E"
  shows "triple (safe ok me) (checkMigrationJob E now job h rv)
    (\<lambda>r w. safe ok me w \<or> (retires_job ok w \<and> (snd r \<noteq> None \<or> fst r > 0)))"
proof -
  have retire: "triple (safe ok me) (delete_stale_job E message job) (\<lambda>r w. safe ok me w \<or> (retires_job ok w \<and> (snd r \<noteq> None \<or> fst r > 0)))"
    if "job_outcome (job_conditions job) \<noteq> None" for message
    using that by (intro tripleI) (auto simp: delete_stale_job_def call_defs safe_def retires_job_def requeue_defs State_Monad.return_def
        split: prod.splits option.splits if_splits)
  have "keeps (safe ok me) (patchStatus E f)" "keeps (safe ok me) (setConditionAndRequeue E c r m)" "keeps (safe ok me) (await_migration E)" for f c r m
    unfolding await_migration_def by (intro triple_rules assms)+
  note patch = this [unfolded keeps_def]
  have weak: "triple (safe ok me) m (\<lambda>r w. safe ok me w \<or> (retires_job ok w \<and> (snd r \<noteq> None \<or> fst r > 0)))" if "keeps (safe ok me) m"
    for m :: "('a, result \<times> go_error option) prog"
    using that unfolding keeps_def by (rule triple_conseq) auto
  have rest: "keeps (safe ok me) (do {
      err \<leftarrow> patchStatus E f;
      State_Monad.return (0, err) })" for f :: "Kubernaut \<Rightarrow> Kubernaut" by (intro triple_rules assms)
  have failed: "keeps (safe ok me) (do { Eventf Warning ReasonMigrationFailed; setConditionAndRequeue E c r m })" for c r m
    by (intro triple_rules assms)
  have waiting: "keeps (safe ok me) (do {
      kn \<leftarrow> the_kn;
      (if status_LastMigrationHash (kn_Status kn) = h then State_Monad.return (0, None) else await_migration E) })"
    unfolding await_migration_def by (intro triple_rules assms)
  show ?thesis
    unfolding checkMigrationJob_def handleCompleteMigrationJob_def handleFailedMigrationJob_def
    by (intro triple_case_option triple_case_outcome triple_if retire weak [OF rest] weak [OF failed] weak [OF waiting]) simp_all
qed

lemma safe_ensureMigrationJob:
  assumes "identity_stable E" and "\<And>y. mine E me y \<Longrightarrow> ok y"
  shows "triple (safe ok me) (ensureMigrationJob E getenv now) (\<lambda>r w. safe ok me w \<or> (retires_job ok w \<and> (snd r \<noteq> None \<or> fst r > 0)))"
proof -
  have "keeps (safe ok me) (postgresqlCredentialRevision E)" "keeps (safe ok me) (createIfNotFound E x)" for x
    unfolding postgresqlCredentialRevision_def by (intro triple_rules assms; assumption?)+
  note steps = this [unfolded keeps_def]
  show ?thesis
    unfolding ensureMigrationJob_def Let_def
    by (intro triple_bind [OF safe_the_kn [unfolded keeps_def]] triple_case_sum triple_return triple_bind [OF steps(1)] triple_bind [OF steps(2)]
        safe_checkMigrationJob assms) simp_all
qed

lemma safe_phaseMigrate:
  assumes "identity_stable E" and "\<And>y. mine E me y \<Longrightarrow> ok y" and "\<And>y. crd_ok y \<Longrightarrow> ok y" and "crd_assets (o_assets O')"
  shows "triple (safe ok me) (phaseMigrate E O') (\<lambda>r w. safe ok me w \<or> (retires_job ok w \<and> (snd r \<noteq> None \<or> fst r > 0)))"
    (is "triple _ _ ?Q")
proof -
  have weak: "triple (safe ok me) m ?Q" if "keeps (safe ok me) m" for m :: "('a, result \<times> go_error option) prog"
    using that unfolding keeps_def by (rule triple_conseq) auto
  have failed: "keeps (safe ok me) (do {
      (if is_ownership_conflict err then Eventf Warning ''OwnershipConflict'' else State_Monad.return ());
      setConditionAndRequeue E c r m })" for err c r m by (intro triple_rules assms)
  have completed: "keeps (safe ok me) (do {
      Eventf Normal ReasonMigrationComplete;
      err \<leftarrow> patchStatus E f;
      State_Monad.return (0, err) })" for f by (intro triple_rules assms)
  have ending: "triple (\<lambda>w. safe ok me w \<or> (retires_job ok w \<and> (snd job \<noteq> None \<or> fst job > 0)))
      (if snd job \<noteq> None \<or> fst job > 0 then State_Monad.return job
       else do {
         Eventf Normal ReasonMigrationComplete;
         err \<leftarrow> patchStatus E f;
         State_Monad.return (0, err) }) ?Q" for job f
    by (rule triple_if; (rule triple_return | rule triple_strengthen [OF weak [OF completed]])) auto
  show ?thesis
    unfolding phaseMigrate_def
    by (intro triple_bind [OF safe_ensureMigrationPrereqs [OF assms, unfolded keeps_def]] triple_case_option weak [OF failed]
        triple_bind [OF safe_ensureMigrationJob [OF assms(1,2)]] ending)
qed

subsection \<open>A whole run\<close>

text \<open>What a run for the instance of a namespace may change or delete: objects of the instance of that name, whatever its UID (the resource
  is read again between phases), its network policies, and shared definitions of the operator.\<close>

definition within_reach :: "'s env \<Rightarrow> string \<Rightarrow> kobj \<Rightarrow> bool" where
  "within_reach E ns y \<longleftrightarrow> (\<exists>uid. mine E (ns, SingletonName, uid) y) \<or> policy_ok (ns, SingletonName, '''') y \<or> crd_ok y"

lemma within_reachI:
  "mine E (ns, SingletonName, uid) y \<Longrightarrow> within_reach E ns y" "policy_ok (ns, SingletonName, uid) y \<Longrightarrow> within_reach E ns y" "crd_ok y \<Longrightarrow> within_reach E ns y"
  by (auto simp: within_reach_def policy_ok_def)

definition on_course :: "'s env \<Rightarrow> string \<Rightarrow> 's world \<Rightarrow> bool" where
  "on_course E ns w \<longleftrightarrow> kn_Namespace (w_kn w) = ns \<and> kn_Name (w_kn w) = SingletonName \<and> guarded (within_reach E ns) (w_trace w)"

lemma on_course_triple:
  assumes "\<And>uid. triple (safe (within_reach E ns) (ns, SingletonName, uid)) m Q"
  shows "triple (on_course E ns) m Q"
proof (rule tripleI)
  fix w r w'
  assume "on_course E ns w" and run: "run_state m w = (r, w')"
  then have "safe (within_reach E ns) (ns, SingletonName, kn_UID (w_kn w)) w" by (simp add: on_course_def safe_def ident_def)
  with assms show "Q r w'" using run by (rule tripleD)
qed

lemma on_course_safe: "safe (within_reach E ns) (ns, SingletonName, uid) w \<Longrightarrow> on_course E ns w"
  by (auto simp: on_course_def safe_def ident_def)

lemma on_course_keeps:
  assumes "\<And>uid. keeps (safe (within_reach E ns) (ns, SingletonName, uid)) m"
  shows "triple (on_course E ns) m (\<lambda>_. on_course E ns)"
  by (rule on_course_triple, rule triple_conseq [OF assms [unfolded keeps_def]]) (auto intro: on_course_safe)

lemma on_course_refresh:
  assumes "identity_stable E"
  shows "triple (on_course E ns) (refresh E) (\<lambda>_. on_course E ns)"
proof (rule tripleI)
  fix w r w'
  assume pre: "on_course E ns w" and run: "run_state (refresh E) w = (r, w')"
  obtain res s where get: "e_getKn E (w_cluster w) (kn_Namespace (w_kn w), kn_Name (w_kn w)) = (res, s)" by fastforce
  show "on_course E ns w'"
  proof (cases res)
    case (Inl e)
    then have "w' = w\<lparr>w_cluster := s\<rparr>" using run by (simp add: refresh_def call_defs get State_Monad.return_def)
    then show ?thesis using pre by (simp add: on_course_def)
  next
    case (Inr live)
    then have "(kn_Namespace (w_kn w), kn_Name (w_kn w)) = (kn_Namespace live, kn_Name live)"
      using assms get unfolding identity_stable_def by metis
    moreover have "w' = w\<lparr>w_cluster := s, w_kn := live\<rparr>" using run Inr by (simp add: refresh_def call_defs get State_Monad.return_def)
    ultimately show ?thesis using pre by (simp add: on_course_def)
  qed
qed

abbreviation ended :: "'s env \<Rightarrow> string \<Rightarrow> result \<times> go_error option \<Rightarrow> 's world \<Rightarrow> bool" where
  "ended E ns r w \<equiv> on_course E ns w \<or> (retires_job (within_reach E ns) w \<and> (snd r \<noteq> None \<or> fst r > 0))"

lemma ended_after_step:
  assumes "triple (on_course E ns) m (\<lambda>_. on_course E ns)" and "triple (on_course E ns) n (ended E ns)"
  shows "triple (on_course E ns) (after_step m n) (ended E ns)"
  unfolding after_step_def by (intro triple_bind [OF assms(1)] triple_case_option assms(2) triple_return) simp

lemma ended_after_phase:
  assumes "triple (on_course E ns) m (ended E ns)" and "triple (on_course E ns) n (ended E ns)"
  shows "triple (on_course E ns) (after_phase m n) (ended E ns)"
  unfolding after_phase_def
  by (rule triple_bind [OF assms(1)], rule triple_if, rule triple_return, simp) (rule triple_strengthen [OF assms(2)], auto)

lemma on_course_ended: "triple (on_course E ns) m (\<lambda>_. on_course E ns) \<Longrightarrow> triple (on_course E ns) m (ended E ns)"
  by (erule triple_conseq) auto

lemma reconcilePhases_ended:
  assumes "identity_stable E" and "sets_only_owners E" and "crd_assets (o_assets O')"
  shows "triple (on_course E ns) (reconcilePhases E O') (ended E ns)"
proof -
  have name: "fst (snd (ns, SingletonName, uid)) \<noteq> ''''" for uid :: string by (simp add: SingletonName_def)
  note reach = within_reachI
  have migrate: "triple (on_course E ns) (phaseMigrate E O') (ended E ns)"
    by (rule on_course_triple, rule triple_conseq [OF safe_phaseMigrate [OF assms(1) reach(1) reach(3) assms(3)]]) (auto intro: on_course_safe)
  have steps: "triple (on_course E ns) (phaseValidate E O') (\<lambda>_. on_course E ns)" "triple (on_course E ns) (isolate E O') (\<lambda>_. on_course E ns)"
    "triple (on_course E ns) (phaseDeploy E O') (\<lambda>_. on_course E ns)" "triple (on_course E ns) (phaseRunning E) (\<lambda>_. on_course E ns)"
    by (rule on_course_keeps, rule safe_phaseValidate safe_isolate safe_phaseDeploy safe_running; (rule assms | rule name | erule reach))+
  show ?thesis
    unfolding reconcilePhases_def
    by (intro ended_after_phase ended_after_step migrate on_course_ended steps on_course_refresh assms)
qed

lemma on_course_add_finalizer:
  assumes "identity_stable E"
  shows "triple (on_course E ns) (add_finalizer E) (\<lambda>_. on_course E ns)"
proof (rule tripleI)
  fix w r w'
  assume pre: "on_course E ns w" and run: "run_state (add_finalizer E) w = (r, w')"
  let ?kn = "(w_kn w)\<lparr>kn_ObjectMeta := (kn_ObjectMeta (w_kn w))\<lparr>meta_Finalizers := e_addFinalizer E (meta_Finalizers (kn_ObjectMeta (w_kn w))) FinalizerName\<rparr>\<rparr>"
  obtain res s where upd: "e_updateKn E (w_cluster w) ?kn = (res, s)" by fastforce
  have same: "kn_Namespace ?kn = kn_Namespace (w_kn w)" "kn_Name ?kn = kn_Name (w_kn w)" by simp_all
  show "on_course E ns w'"
  proof (cases res)
    case (Inl e)
    then show ?thesis using pre run upd same by (auto simp: add_finalizer_def call_defs on_course_def State_Monad.return_def Let_def)
  next
    case (Inr updated)
    then have "ident updated = ident ?kn" using assms upd unfolding identity_stable_def by metis
    then show ?thesis using pre run Inr upd same by (auto simp: add_finalizer_def call_defs on_course_def State_Monad.return_def ident_def Let_def)
  qed
qed



definition sample_operator :: operator where
  "sample_operator = \<lparr>o_process = \<lparr>p_validators = sample_validators, p_validation = sample_validation, p_getenv = (\<lambda>_. ''''), p_lookup = (\<lambda>_. [])\<rparr>,
    o_configs = sample_configs, o_material = sample_material, o_tls = sample_tls, o_assets = sample_assets, o_newDynamic = None, o_now = 0,
    o_trust = (\<lambda>_. (Inr '''', Inr ''''))\<rparr>"


end
