(* ===== verification/Activation.thy ===== *)
theory Activation
  imports Reconcile
begin

text \<open>
  What must have happened before the operator acts: only the one instance of the cluster acts at all, and no migration Job and no
  Deployment is written before the inputs have been checked and the namespace has been isolated.
\<close>

subsection \<open>The singleton\<close>

lemma silent_authorizeSingleton: "w_trace (snd (run_state (authorizeSingleton E) w)) = w_trace w"
  by (simp add: authorizeSingleton_def call_defs State_Monad.return_def split: prod.splits)

lemma authorizeSingleton_accepts:
  assumes "fst (run_state (authorizeSingleton E) w) = None"
  shows "\<exists>sole s. e_listKn E (w_cluster w) = (Inr [sole], s) \<and> ident sole = ident (w_kn w) \<and> meta_DeletionTimestamp (kn_ObjectMeta sole) = None"
  using assms
  by (auto simp: authorizeSingleton_def call_defs State_Monad.return_def ident_def split: prod.splits sum.splits list.splits if_splits)

text \<open>C3: Only the singleton acts. Whatever the server answers: if a run touches an object of the cluster, the custom resource or its status at
  all, then the resource it was called for exists under the one reserved name, and either it is being deleted, or the list of all instances
  of the cluster held exactly that one, with the same namespace, name and UID, and not being deleted.\<close>

theorem only_the_singleton_acts:
  assumes "run_state (Reconcile E O' req) w = (r, w')" and "w_trace w' \<noteq> w_trace w"
  shows "\<exists>kn s. e_getKn E (w_cluster w) req = (Inr kn, s) \<and> kn_Name kn = SingletonName \<and>
    (meta_DeletionTimestamp (kn_ObjectMeta kn) \<noteq> None \<or>
     (\<exists>sole s'. e_listKn E s = (Inr [sole], s') \<and> ident sole = ident kn \<and> meta_DeletionTimestamp (kn_ObjectMeta sole) = None))"
proof -
  obtain res s where get: "e_getKn E (w_cluster w) req = (res, s)" by fastforce
  show ?thesis
  proof (cases res)
    case (Inl e)
    then show ?thesis using assms by (auto simp: Reconcile_def call_defs get State_Monad.return_def)
  next
    case (Inr kn)
    let ?v = "w\<lparr>w_cluster := s, w_kn := kn\<rparr>"
    let ?next = "if \<not> e_containsFinalizer E (meta_Finalizers (kn_ObjectMeta kn)) FinalizerName then add_finalizer E else reconcilePhases E O'"
    have run: "run_state (if kn_Name kn \<noteq> SingletonName then State_Monad.return (0, None)
        else if meta_DeletionTimestamp (kn_ObjectMeta kn) \<noteq> None then reconcileDelete E
        else after_step (authorizeSingleton E) ?next) ?v = (r, w')"
      using assms(1) Inr by (simp add: Reconcile_def call_defs get)
    have name: "kn_Name kn = SingletonName" using run assms(2) by (auto simp: State_Monad.return_def split: if_splits)
    have "fst (run_state (authorizeSingleton E) ?v) = None" if "meta_DeletionTimestamp (kn_ObjectMeta kn) = None"
    proof (rule ccontr)
      assume "fst (run_state (authorizeSingleton E) ?v) \<noteq> None"
      then obtain e v where step: "run_state (authorizeSingleton E) ?v = (Some e, v)" by (metis not_None_eq prod.collapse)
      then have "w' = v" using run name that by (simp add: after_step_def State_Monad.return_def)
      with step assms(2) silent_authorizeSingleton [of E ?v] show False by simp
    qed
    from authorizeSingleton_accepts [OF this] show ?thesis using get Inr name by auto
  qed
qed

lemma first_run_acts:
  "w_trace (snd (run_state (Reconcile sample_env sample_operator (''kubernaut-system'', ''kubernaut'')) (sample_world []))) \<noteq> w_trace (sample_world [])"
  by (simp add: Reconcile_def after_step_def authorizeSingleton_def add_finalizer_def call_defs sample_defs State_Monad.return_def
      SingletonName_def zero_Kubernaut_def Let_def)

theorem only_the_singleton_acts_witness:
  "\<exists>kn s. e_getKn sample_env (w_cluster (sample_world [])) (''kubernaut-system'', ''kubernaut'') = (Inr kn, s) \<and> kn_Name kn = SingletonName \<and>
    (meta_DeletionTimestamp (kn_ObjectMeta kn) \<noteq> None \<or>
     (\<exists>sole s'. e_listKn sample_env s = (Inr [sole], s') \<and> ident sole = ident kn \<and> meta_DeletionTimestamp (kn_ObjectMeta sole) = None))"
  using only_the_singleton_acts [OF prod.collapse [symmetric] first_run_acts] .


subsection \<open>Calls that start something\<close>

text \<open>The calls that can start the operator's programs: writing a Job or a Deployment.\<close>

fun activates :: "call \<Rightarrow> bool" where
  "activates (CreateCall x) = (obj_Kind x \<in> {''Job'', ''Deployment''})"
| "activates (UpdateCall x) = (obj_Kind x \<in> {''Job'', ''Deployment''})"
| "activates c = False"

abbreviation idle :: "('s, 'a) prog \<Rightarrow> bool" where
  "idle m \<equiv> emits (\<lambda>c. \<not> activates c) m"

lemma idle_reads: "emits (\<lambda>c. \<not> is_write c) m \<Longrightarrow> idle m"
  by (erule emits_mono) (auto elim: activates.elims)

lemma concerns_idle: "concerns kind k c \<Longrightarrow> kind \<noteq> ''Job'' \<Longrightarrow> kind \<noteq> ''Deployment'' \<Longrightarrow> \<not> activates c"
  by (cases c) (auto simp: concerns_def)

lemma idle_ensureUnowned: "obj_Kind x \<noteq> ''Job'' \<Longrightarrow> obj_Kind x \<noteq> ''Deployment'' \<Longrightarrow> idle (ensureUnowned E x)"
  by (rule emits_mono [OF emits_ensureUnowned]) (auto dest: concerns_idle)

lemma idle_ensureNamespaced:
  assumes "sets_only_owners E" and "obj_Kind x \<noteq> ''Job''" and "obj_Kind x \<noteq> ''Deployment''"
  shows "idle (ensureNamespaced E x)"
proof -
  have "idle (ensureResourceChanged E y)" if "e_setControllerReference E kn x = Inr y" for kn y
    using emits_ensureResourceChanged [of y E] sets_only_ownersD [OF assms(1) that] assms(2,3)
    by (auto elim!: emits_mono dest: concerns_idle)
  then show ?thesis unfolding ensureNamespaced_def ensureNamespacedChanged_def by (intro emits_rules) auto
qed


subsection \<open>Validation and isolation start nothing\<close>

lemma emits_checks [emits_rules]: "(\<And>c. c \<in> set cs \<Longrightarrow> emits P c) \<Longrightarrow> emits P (checks cs)"
  by (induction cs) (auto intro!: emits_rules)

lemma idle_failing_with [emits_rules]: "idle m \<Longrightarrow> idle (failing_with E cond reason message event m)"
  unfolding failing_with_def by (intro emits_rules) simp_all

lemma emits_case_ambient [emits_rules]:
  "(\<And>m. r = AmbientPending m \<Longrightarrow> emits P (f m)) \<Longrightarrow> (\<And>e. r = AmbientInvalid e \<Longrightarrow> emits P (g e)) \<Longrightarrow>
   emits P (case r of AmbientPending m \<Rightarrow> f m | AmbientInvalid e \<Rightarrow> g e)"
  by (cases r) simp_all

lemma reads_validations:
  "emits (\<lambda>c. \<not> is_write c) (validatePostgreSQLSecret E D)" "emits (\<lambda>c. \<not> is_write c) (validateValkeySecret E D)"
  "emits (\<lambda>c. \<not> is_write c) (validateTelemetryAmbientTrust E D)" "emits (\<lambda>c. \<not> is_write c) (validateMonitoringTLS E D)"
  "emits (\<lambda>c. \<not> is_write c) (validateFleetTrustSecrets E D)" "emits (\<lambda>c. \<not> is_write c) (validateFleetTokenSecret E)"
  "emits (\<lambda>c. \<not> is_write c) (validateTelemetrySecrets E D)" "emits (\<lambda>c. \<not> is_write c) (validatePrecreatedConfiguration E D)"
  unfolding validatePostgreSQLSecret_def validateValkeySecret_def validateSecret_def validateTelemetryAmbientTrust_def Let_def
    validateMonitoringTLS_def validateMonitoringTLSSecret_def validateFleetTrustSecrets_def validate_trust_secret_def validateFleetTokenSecret_def
    validateTelemetrySecrets_def validate_telemetry_reference_def validatePrecreatedConfiguration_def
  by (intro emits_rules emits_validatePrecreatedReference; simp)+

lemma idle_audit_key: "idle (ensureDataStorageAuditHashKey E M)"
  by (rule emits_mono [OF emits_ensureDataStorageAuditHashKey]) (auto simp: audit_write_def elim: activates.elims)

lemma idle_input_checks: "idle (input_checks E O')"
  unfolding input_checks_def validateDatabaseInputs_def validate_spec_def handleSpecValidationFailure_def validatePrecreatedConfigurationPhase_def
    validateTelemetryMaterial_def database_check_def Let_def
  by (auto intro!: emits_rules reads_validations [THEN idle_reads] idle_audit_key)


lemma idle_ensureWebhookConfiguration:
  assumes "obj_Kind d \<noteq> ''Job''" and "obj_Kind d \<noteq> ''Deployment''"
  shows "idle (ensureWebhookConfiguration E d)"
proof -
  have "obj_Kind (merged_webhook d live) = obj_Kind d" for live
    by (simp add: merged_webhook_def preserveWebhookCABundle_def split: body.splits)
  then have "idle (ensureUnowned E d)" "idle (ensureUnowned E (merged_webhook d live))" for live
    using assms by (auto intro!: idle_ensureUnowned)
  then show ?thesis unfolding ensureWebhookConfiguration_def by (intro emits_rules) simp_all
qed

lemma webhook_kinds:
  "obj_Kind (MutatingWebhookConfigurationWithCertManagerInjection kn) = ''MutatingWebhookConfiguration''"
  "obj_Kind (ValidatingWebhookConfigurationWithCertManagerInjection kn) = ''ValidatingWebhookConfiguration''"
  "obj_Kind (without_service_ca (MutatingWebhookConfiguration kn)) = ''MutatingWebhookConfiguration''"
  "obj_Kind (without_service_ca (ValidatingWebhookConfiguration kn)) = ''ValidatingWebhookConfiguration''"
  by (simp_all add: MutatingWebhookConfigurationWithCertManagerInjection_def ValidatingWebhookConfigurationWithCertManagerInjection_def
      with_injection_def without_service_ca_def MutatingWebhookConfiguration_def ValidatingWebhookConfiguration_def
      mutating_webhook_meta_def validating_webhook_meta_def webhook_meta_def)

lemma cert_manager_kinds: "x \<in> set (CertManagerTLSResources kn) \<Longrightarrow> obj_Kind x \<in> {''Issuer'', ''Certificate''}"
  by (auto simp: CertManagerTLSResources_def certManagerBootstrapResources_def certManagerLeafResources_def certManagerCertificate_def certManagerIssuer_def certManagerObject_def
      certManagerLeafCertificate_def
      certManagerAuthWebhookCertificate_def certManagerSigningCertificate_def Let_def split: option.splits if_splits)


lemma idle_cert_manager:
  assumes "sets_only_owners E"
  shows "idle (ensureCertManagerTLSResources E)"
proof -
  have kind: "obj_Kind (stamped_desired E kn y) = obj_Kind y" "obj_Kind (merged_cert_object d live) = obj_Kind d" for kn y d live
    by (simp_all add: stamped_desired_def merged_cert_object_def set_finalizers_def setHashAnnotation_def StampOwnership_def Let_def)
  have converge: "idle (convergeCertManagerResource E d live)" if "obj_Kind d \<in> {''Issuer'', ''Certificate''}" for d live
    using that unfolding convergeCertManagerResource_def by (intro emits_rules) (auto simp: kind)
  have "idle (ensureCertManagerResource E x)" if x: "obj_Kind x \<in> {''Issuer'', ''Certificate''}" for x
  proof -
    have "obj_Kind (stamped_desired E kn y) \<in> {''Issuer'', ''Certificate''}" if "e_setControllerReference E kn x = Inr y" for kn y
      using x sets_only_ownersD [OF assms that] by (simp add: kind)
    then show ?thesis unfolding ensureCertManagerResource_def createOrReadExisting_def
      by (intro emits_rules converge) fastforce+
  qed
  then have "idle (ensureCertManagerDesiredTLSResources E kn)" for kn
    unfolding ensureCertManagerDesiredTLSResources_def using cert_manager_kinds by (intro emits_rules) auto
  moreover have "emits (\<lambda>c. \<not> is_write c) (resolveCertManagerIssuer E)"
    unfolding resolveCertManagerIssuer_def selectSingleCertManagerIssuer_def Let_def by (intro emits_rules) simp_all
  ultimately show ?thesis
    unfolding ensureCertManagerTLSResources_def by (intro emits_rules) (simp_all add: idle_reads reads_hasCRD)
qed


lemma idle_validateTLSConfiguration:
  assumes "sets_only_owners E"
  shows "idle (validateTLSConfiguration E T)"
proof -
  have "emits (\<lambda>c. \<not> is_write c) (validateCertManagerIssuer E)" "emits (\<lambda>c. \<not> is_write c) (validateCertManagerCertificatesReady E)"
    "emits (\<lambda>c. \<not> is_write c) (readRuntimeTLSCA E m)" "emits (\<lambda>c. \<not> is_write c) (validateRuntimeTLSSecrets E T m ca)"
    "emits (\<lambda>c. \<not> is_write c) (validateDataStorageSigningCertificate E T)" "emits (\<lambda>c. \<not> is_write c) (validateWebhookCABundles E)"
    "emits (\<lambda>c. \<not> is_write c) (openShiftPlatformDetected E)" for m ca
    unfolding validateCertManagerIssuer_def resolveCertManagerIssuer_def selectSingleCertManagerIssuer_def validateCertManagerCertificatesReady_def
      certificate_ready_check_def readRuntimeTLSCA_def validateRuntimeTLSSecrets_def validateRuntimeTLSSecret_def validateWebhookCABundles_def
      validateDataStorageSigningCertificate_def openShiftPlatformDetected_def Let_def
    by (intro emits_rules; simp)+
  note reads = this [THEN idle_reads]
  have "idle (validateTLSWebhookReadiness E m)" for m
    unfolding validateTLSWebhookReadiness_def ensureCertManagerWebhookConfigurations_def ensureManualWebhookConfigurations_def
    by (intro emits_rules reads idle_ensureWebhookConfiguration) (simp_all add: webhook_kinds)
  then show ?thesis
    unfolding validateTLSConfiguration_def validateExplicitTLS_def validateCertManagerTLS_def
    by (intro emits_rules reads idle_cert_manager assms)
qed

lemma idle_ambient_trust:
  assumes "sets_only_owners E"
  shows "idle (ensureTelemetryAmbientTrustSource E O')"
proof -
  have runtime: "idle (ensureRuntimeTLS E T)" for T
    unfolding ensureRuntimeTLS_def readRuntimeTLSCA_def validateDataStorageSigningCertificate_def Let_def by (intro emits_rules idle_cert_manager assms) simp_all
  have "idle (ensureGenericTLSConfigMaps E b)" for b
    unfolding ensureGenericTLSConfigMaps_def GenericTLSConfigMaps_def
    by (intro emits_rules idle_ensureNamespaced assms) auto
  then show ?thesis
    unfolding ensureTelemetryAmbientTrustSource_def
    by (intro emits_rules runtime idle_ensureNamespaced assms) (simp_all add: InterServiceCAConfigMap_def serviceCAConfigMap_def TrustBundleConfigMap_def)
qed

lemma idle_phaseValidate:
  assumes "sets_only_owners E"
  shows "idle (phaseValidate E O')"
proof -
  have "idle (validateTelemetryTrust E O')"
    unfolding validateTelemetryTrust_def setTelemetryAmbientTrustPending_def
    by (auto intro!: emits_rules idle_ambient_trust assms reads_validations [THEN idle_reads])
  then show ?thesis
    unfolding phaseValidate_def by (intro emits_rules idle_input_checks idle_validateTLSConfiguration assms) simp_all
qed

lemma idle_isolate:
  assumes "sets_only_owners E"
  shows "idle (isolate E O')"
proof -
  have update: "idle (updateNetworkPolicy E existing d h)" if "obj_Kind d = ''NetworkPolicy''" for existing d h
    using that unfolding updateNetworkPolicy_def by (intro emits_rules) simp_all
  have "idle (ensureNetworkPolicy E d)" if "obj_Kind d = ''NetworkPolicy''" for d
    using that unfolding ensureNetworkPolicy_def Let_def by (intro emits_rules update) simp_all
  then have ensure: "idle (ensureRenderedNetworkPolicies E xs)" if "list_all (\<lambda>x. obj_Kind x = ''NetworkPolicy'') xs" for xs
    using that by (induction xs) (auto intro!: emits_rules dest: sets_only_ownersD [OF assms])
  have rendered: "list_all (\<lambda>x. obj_Kind x = ''NetworkPolicy'') objects" if "Render V i = Inr objects" for V i objects
    using Render_Inr [OF that] by (auto simp: list_all_iff renderPolicy_def Let_def)
  show ?thesis
    unfolding isolate_def reconcileNetworkPolicies_def pruneNetworkPolicies_def patchNetworkPolicyStatus_def Let_def
    by (intro emits_rules ensure rendered) (auto intro!: emits_rules)
qed


subsection \<open>The gate\<close>

lemma idle_run: "idle m \<Longrightarrow> run_state m w = (a, w') \<Longrightarrow> list_all (\<lambda>c. \<not> activates c) (w_trace w) \<Longrightarrow> list_all (\<lambda>c. \<not> activates c) (w_trace w')"
  by (drule (1) emitsD) auto

lemma after_phase_cases:
  assumes "run_state (after_phase m n) w = (r, w')"
  obtains "run_state m w = (r, w')"
    | t v where "run_state m w = ((t, None), v)" and "t \<le> 0" and "run_state n v = (r, w')"
  using assms unfolding after_phase_def by (cases "run_state m w") (auto simp: State_Monad.return_def split: if_splits)

lemma after_step_cases:
  assumes "run_state (after_step m n) w = (r, w')"
  obtains e where "run_state m w = (Some e, w')"
    | v where "run_state m w = (None, v)" and "run_state n v = (r, w')"
  using assms unfolding after_step_def by (cases "run_state m w") (auto simp: State_Monad.return_def split: option.splits)

lemma checks_accept: "run_state (checks (c # cs)) w = (None, w') \<Longrightarrow> \<exists>v. run_state c w = (None, v) \<and> run_state (checks cs) v = (None, w')"
  by (cases "run_state c w") (auto simp: State_Monad.return_def split: option.splits)

text \<open>A phase that asks for nothing more has made every check of the inputs with success.\<close>

definition insistent :: "'s check \<Rightarrow> bool" where
  "insistent c \<longleftrightarrow> (\<forall>w t w'. run_state c w = (Some (t, None), w') \<longrightarrow> t > 0)"

lemma setCondition_requeues: "run_state (setConditionAndRequeue E cond reason message) w = ((t, None), w') \<Longrightarrow> t > 0"
  by (auto simp: setConditionAndRequeue_def requeueError_def second_def State_Monad.return_def split: prod.splits option.splits)

lemma insistent_failing_with: "insistent (failing_with E cond reason message event m)"
  by (auto simp: insistent_def failing_with_def State_Monad.return_def split: option.splits if_splits prod.splits dest!: setCondition_requeues)

lemma insistent_checks: "list_all insistent cs \<Longrightarrow> insistent (checks cs)"
proof (induction cs)
  case (Cons c cs)
  then have "insistent c" "insistent (checks cs)" by simp_all
  then show ?case by (auto simp: insistent_def State_Monad.return_def split: prod.splits option.splits)
qed (simp add: insistent_def State_Monad.return_def)

lemma insistent_input_checks: "insistent (input_checks E O')"
proof -
  have "insistent (validate_spec E O')"
    by (auto simp: insistent_def validate_spec_def handleSpecValidationFailure_def Let_def State_Monad.return_def
        split: if_splits prod.splits dest!: setCondition_requeues)
  moreover have "insistent (do { kn \<leftarrow> the_kn; checks (map (database_check E) (f kn)) })" for f
  proof -
    have "insistent (checks (map (database_check E) xs))" for xs
      by (rule insistent_checks) (simp add: list_all_iff database_check_def insistent_failing_with split: prod.splits)
    then show ?thesis by (simp add: insistent_def the_kn_def)
  qed
  then have "insistent (validateDatabaseInputs E O')" unfolding validateDatabaseInputs_def .
  ultimately show ?thesis
    unfolding input_checks_def validatePrecreatedConfigurationPhase_def validateTelemetryMaterial_def
    by (intro insistent_checks) (simp add: insistent_failing_with)
qed

lemma phaseValidate_accepts:
  assumes "run_state (phaseValidate E O') w = ((t, None), w')" and "t \<le> 0"
  shows "\<exists>u. run_state (validateDatabaseInputs E O') w = (None, u) \<and>
    ValidateKubernaut (p_validators (o_process O')) (w_kn u) = [] \<and> ValidateFleet (p_validators (o_process O')) (w_kn u) = []"
proof -
  have "fst (run_state (input_checks E O') w) = None"
  proof (cases "run_state (input_checks E O') w")
    case (Pair x v)
    with assms have "x = None \<or> x = Some (t, None) \<and> v = w'"
      by (cases x) (auto simp: phaseValidate_def State_Monad.return_def)
    with Pair assms(2) insistent_input_checks [of E O'] show ?thesis unfolding insistent_def by fastforce
  qed
  then obtain v where "run_state (input_checks E O') w = (None, v)" by (metis prod.collapse)
  then obtain u u' where db: "run_state (validateDatabaseInputs E O') w = (None, u)" and spec: "run_state (validate_spec E O') u = (None, u')"
    unfolding input_checks_def by (auto dest!: checks_accept simp del: checks.simps)
  from spec have "ValidateKubernaut (p_validators (o_process O')) (w_kn u) @ ValidateFleet (p_validators (o_process O')) (w_kn u) = []"
    by (auto simp: validate_spec_def the_kn_def Let_def State_Monad.return_def split: if_splits prod.splits)
  with db show ?thesis by simp
qed


text \<open>What a step of isolation that reports success has done: it has rendered the policies of the instance, and each of them, with the
  instance as its owner, has been ensured.\<close>

definition isolated :: "'s env \<Rightarrow> validation \<Rightarrow> Kubernaut \<Rightarrow> bool" where
  "isolated E V kn \<longleftrightarrow> (\<exists>intent policies. BuildIntent (kn_Namespace kn) (ActiveComponents kn kn) = Inr intent \<and>
     Render V (policy_intent kn intent) = Inr policies \<and>
     (\<forall>x \<in> set policies. \<exists>y wa wb. e_setControllerReference E (w_kn wa) x = Inr y \<and> run_state (ensureNetworkPolicy E y) wa = (None, wb)))"

lemma ensureRendered_all:
  "run_state (ensureRenderedNetworkPolicies E xs) w = (Inr ks, w') \<Longrightarrow>
     \<forall>x \<in> set xs. \<exists>y wa wb. e_setControllerReference E (w_kn wa) x = Inr y \<and> run_state (ensureNetworkPolicy E y) wa = (None, wb)"
proof (induction xs arbitrary: w ks)
  case (Cons x xs)
  obtain y where y: "e_setControllerReference E (w_kn w) x = Inr y"
    using Cons.prems by (auto simp: the_kn_def State_Monad.return_def split: sum.splits)
  moreover obtain v where ok: "run_state (ensureNetworkPolicy E y) w = (None, v)"
    using Cons.prems y by (cases "run_state (ensureNetworkPolicy E y) w")
      (auto simp: the_kn_def Eventf_def State_Monad.return_def split: option.splits if_splits)
  ultimately obtain ks' where "run_state (ensureRenderedNetworkPolicies E xs) v = (Inr ks', w')"
    using Cons.prems by (auto simp: the_kn_def State_Monad.return_def split: sum.splits prod.splits)
  from Cons.IH [OF this] show ?case using y ok by auto
qed simp

lemma isolate_isolates:
  assumes "run_state (isolate E O') w = (None, w')"
  shows "isolated E (p_validation (o_process O')) (w_kn w)"
proof -
  have fails: "run_state (patchNetworkPolicyStatus E False (Some e)) v \<noteq> (None, v')" for e v v'
    by (auto simp: patchNetworkPolicyStatus_def Let_def State_Monad.return_def split: prod.splits option.splits)
  let ?kn = "w_kn w" and ?V = "p_validation (o_process O')"
  note run = assms [unfolded isolate_def reconcileNetworkPolicies_def]
  obtain intent where intent: "BuildIntent (kn_Namespace ?kn) (ActiveComponents ?kn ?kn) = Inr intent"
    using run by (auto simp: the_kn_def fails split: option.splits sum.splits)
  obtain policies where rendered: "Render ?V (policy_intent ?kn intent) = Inr policies"
    using run intent by (auto simp: the_kn_def fails split: option.splits sum.splits)
  obtain ks v where "run_state (ensureRenderedNetworkPolicies E policies) w = (Inr ks, v)"
    using run intent rendered by (cases "run_state (ensureRenderedNetworkPolicies E policies) w")
      (auto simp: the_kn_def fails split: option.splits sum.splits)
  from ensureRendered_all [OF this] show ?thesis using intent rendered unfolding isolated_def by blast
qed

definition activation_phases :: "'s env \<Rightarrow> operator \<Rightarrow> ('s, result \<times> go_error option) prog" where
  "activation_phases E O' =
     after_phase (phaseMigrate E O') (after_step (refresh E) (after_step (phaseDeploy E O') (after_step (refresh E) (phaseRunning E))))"

lemma idle_refresh: "idle (refresh E)"
  unfolding refresh_def by (intro emits_rules)

lemma phases_gate:
  assumes "sets_only_owners E" and "run_state (reconcilePhases E O') w = (r, w')"
    and "list_all (\<lambda>c. \<not> activates c) (w_trace w)" and "\<not> list_all (\<lambda>c. \<not> activates c) (w_trace w')"
  shows "\<exists>t v1 v2 v3. run_state (phaseValidate E O') w = ((t, None), v1) \<and> t \<le> 0 \<and> run_state (refresh E) v1 = (None, v2) \<and>
    run_state (isolate E O') v2 = (None, v3) \<and> run_state (activation_phases E O') v3 = (r, w') \<and> list_all (\<lambda>c. \<not> activates c) (w_trace v3)"
  using assms(2,3,4) unfolding reconcilePhases_def activation_phases_def [symmetric]
  by (elim after_phase_cases after_step_cases)
    (blast dest: idle_run [OF idle_phaseValidate [OF assms(1)]] idle_run [OF idle_refresh] idle_run [OF idle_isolate [OF assms(1)]])+


text \<open>A trace in which nothing was started.\<close>

definition quiet :: "'s world \<Rightarrow> bool" where
  "quiet w \<longleftrightarrow> list_all (\<lambda>c. \<not> activates c) (w_trace w)"

text \<open>C2: Nothing starts before the inputs are validated and the namespace is isolated. A run of the reconciler either writes no Job and no
  Deployment at all, or it has come this far: the checks of the database inputs and of the specification found no error, the whole
  validation phase ended without an error and without asking for a new run, the resource was read again, the network policies that isolate
  that resource were rendered and each of them ensured without an error, up to there no Job and no Deployment was written, and all that was
  written then was written by the migration, deployment and running phases that started from this point.\<close>

theorem activation_follows_isolation:
  assumes "sets_only_owners E" and "w_trace w = []" and "run_state (Reconcile E O' req) w = (r, w')"
  shows "quiet w' \<or> (\<exists>v u t v1 v2 v3. w_trace v = [] \<and> run_state (validateDatabaseInputs E O') v = (None, u) \<and>
      ValidateKubernaut (p_validators (o_process O')) (w_kn u) = [] \<and> ValidateFleet (p_validators (o_process O')) (w_kn u) = [] \<and>
      run_state (phaseValidate E O') v = ((t, None), v1) \<and> t \<le> 0 \<and> run_state (refresh E) v1 = (None, v2) \<and>
      run_state (isolate E O') v2 = (None, v3) \<and> isolated E (p_validation (o_process O')) (w_kn v2) \<and> quiet v3 \<and>
      run_state (activation_phases E O') v3 = (r, w'))"
proof (rule disjCI)
  assume "\<not> (\<exists>v u t v1 v2 v3. w_trace v = [] \<and> run_state (validateDatabaseInputs E O') v = (None, u) \<and>
      ValidateKubernaut (p_validators (o_process O')) (w_kn u) = [] \<and> ValidateFleet (p_validators (o_process O')) (w_kn u) = [] \<and>
      run_state (phaseValidate E O') v = ((t, None), v1) \<and> t \<le> 0 \<and> run_state (refresh E) v1 = (None, v2) \<and>
      run_state (isolate E O') v2 = (None, v3) \<and> isolated E (p_validation (o_process O')) (w_kn v2) \<and> quiet v3 \<and>
      run_state (activation_phases E O') v3 = (r, w'))"
  then have phases: "quiet w'" if "run_state (reconcilePhases E O') v = (r, w')" "w_trace v = []" for v
    using phases_gate [OF assms(1) that(1)] that(2) phaseValidate_accepts [of E O' v] isolate_isolates [of E O'] unfolding quiet_def by fastforce
  have delete: "idle (reconcileDelete E)"
    by (rule emits_mono [OF emits_reconcileDelete]) (auto elim: activates.elims)
  have finalizer: "idle (add_finalizer E)" unfolding add_finalizer_def Let_def by (intro emits_rules) simp
  obtain res s where get: "e_getKn E (w_cluster w) req = (res, s)" by fastforce
  show "quiet w'"
  proof (cases res)
    case (Inl e)
    then show ?thesis using assms(2,3) by (auto simp: Reconcile_def call_defs get State_Monad.return_def quiet_def)
  next
    case (Inr kn)
    let ?v = "w\<lparr>w_cluster := s, w_kn := kn\<rparr>"
    let ?next = "if \<not> e_containsFinalizer E (meta_Finalizers (kn_ObjectMeta kn)) FinalizerName then add_finalizer E else reconcilePhases E O'"
    have v: "w_trace ?v = []" using assms(2) by simp
    have "run_state (if kn_Name kn \<noteq> SingletonName then State_Monad.return (0, None)
        else if meta_DeletionTimestamp (kn_ObjectMeta kn) \<noteq> None then reconcileDelete E
        else after_step (authorizeSingleton E) ?next) ?v = (r, w')"
      using assms(3) Inr by (simp add: Reconcile_def call_defs get)
    then consider "w' = ?v" | "run_state (reconcileDelete E) ?v = (r, w')" | "run_state (after_step (authorizeSingleton E) ?next) ?v = (r, w')"
      by (auto simp: State_Monad.return_def split: if_splits)
    then show ?thesis
    proof cases
      case 3
      then show ?thesis
      proof (cases rule: after_step_cases)
        case (1 e)
        then show ?thesis using silent_authorizeSingleton [of E ?v] v by (simp add: quiet_def)
      next
        case (2 u)
        then have u: "w_trace u = []" using silent_authorizeSingleton [of E ?v] v by simp
        then show ?thesis using 2(2) phases [of u] idle_run [OF finalizer, of u] by (auto simp: quiet_def split: if_splits)
      qed
    qed (use v idle_run [OF delete] in \<open>auto simp: quiet_def\<close>)
  qed
qed

theorem activation_follows_isolation_witness:
  "let w' = snd (run_state (Reconcile sample_env sample_operator (''kubernaut-system'', ''kubernaut'')) (sample_world [])) in
   sets_only_owners sample_env \<and> w_trace (sample_world []) = [] \<and>
   (quiet w' \<or> (\<exists>v. isolated sample_env sample_validation (w_kn v) \<and> fst (run_state (isolate sample_env sample_operator) v) = None))"
  using activation_follows_isolation [OF sample_sets_only_owners sample_world_sels(3) prod.collapse [symmetric],
      of sample_operator "(''kubernaut-system'', ''kubernaut'')" "[]"] sample_sets_only_owners
  by (auto simp: Let_def sample_operator_def)

end
