(* ===== verification/Config_Types.thy ===== *)
theory Config_Types
  imports Kube_Prelude "HOL-Library.List_Lexorder" "HOL-Library.Char_ord"
begin

text \<open>
  The configuration documents of the services (the structs of \<^verbatim>\<open>internal/resources/configmaps.go\<close> and
  \<^verbatim>\<open>internal/resources/fleetmetadatacache.go\<close>): one record per Go struct, and for each the document that \<^verbatim>\<open>encoding/json\<close> makes of it by
  its tags, which \<^verbatim>\<open>sigs.k8s.io/yaml\<close> then prints. A field with \<^verbatim>\<open>omitempty\<close> is left out when it has the zero value of its type, except
  that a struct is never left out; the keys of a map are sorted.
\<close>

datatype yaml = YNull | YBool bool | YInt int | YFloat float64 | YStr string | YSeq "yaml list" | YMap "(string \<times> yaml) list"

definition always_field :: "string \<Rightarrow> ('a \<Rightarrow> yaml) \<Rightarrow> 'a \<Rightarrow> (string \<times> yaml) list" where
  "always_field k enc v = [(k, enc v)]"

definition omit_empty :: "'a \<Rightarrow> string \<Rightarrow> ('a \<Rightarrow> yaml) \<Rightarrow> 'a \<Rightarrow> (string \<times> yaml) list" where
  "omit_empty zero k enc v = (if v = zero then [] else [(k, enc v)])"

definition enc_pointer :: "('a \<Rightarrow> yaml) \<Rightarrow> 'a option \<Rightarrow> yaml" where
  "enc_pointer enc v = (case v of None \<Rightarrow> YNull | Some x \<Rightarrow> enc x)"

definition enc_slice :: "('a \<Rightarrow> yaml) \<Rightarrow> 'a list \<Rightarrow> yaml" where
  "enc_slice enc xs = YSeq (map enc xs)"

definition enc_map :: "('a \<Rightarrow> yaml) \<Rightarrow> 'a gomap \<Rightarrow> yaml" where
  "enc_map enc m = YMap (concat (map (\<lambda>k. case map_of m k of None \<Rightarrow> [] | Some v \<Rightarrow> [(k, enc v)]) (sort (map fst m))))"

record controllerConfig =
  controllerConfigY_MetricsAddr :: string
  controllerConfigY_HealthProbeAddr :: string
  controllerConfigY_LeaderElection :: bool
  controllerConfigY_LeaderElectionID :: string

definition enc_controllerConfig :: "controllerConfig \<Rightarrow> yaml" where
  "enc_controllerConfig r = YMap (concat
    [always_field ''metricsAddr'' YStr (controllerConfigY_MetricsAddr r),
     always_field ''healthProbeAddr'' YStr (controllerConfigY_HealthProbeAddr r),
     always_field ''leaderElection'' YBool (controllerConfigY_LeaderElection r),
     always_field ''leaderElectionId'' YStr (controllerConfigY_LeaderElectionID r)])"

record controllerBlock =
  controllerBlockY_controllerConfig :: controllerConfig

definition enc_controllerBlock :: "controllerBlock \<Rightarrow> yaml" where
  "enc_controllerBlock r = enc_controllerConfig (controllerBlockY_controllerConfig r)"

record tlsConfigYAML =
  tlsConfigY_CertDir :: string

definition enc_tlsConfigYAML :: "tlsConfigYAML \<Rightarrow> yaml" where
  "enc_tlsConfigYAML r = YMap (concat
    [always_field ''certDir'' YStr (tlsConfigY_CertDir r)])"

record gatewayServerYAML =
  gatewayServerY_ListenAddr :: string
  gatewayServerY_HealthAddr :: string
  gatewayServerY_MetricsAddr :: string
  gatewayServerY_AuthenticationEnabled :: bool
  gatewayServerY_MaxConcurrentRequests :: int
  gatewayServerY_ReadTimeout :: string
  gatewayServerY_WriteTimeout :: string
  gatewayServerY_IdleTimeout :: string
  gatewayServerY_K8sRequestTimeout :: string
  gatewayServerY_TLS :: tlsConfigYAML

definition enc_gatewayServerYAML :: "gatewayServerYAML \<Rightarrow> yaml" where
  "enc_gatewayServerYAML r = YMap (concat
    [always_field ''listenAddr'' YStr (gatewayServerY_ListenAddr r),
     always_field ''healthAddr'' YStr (gatewayServerY_HealthAddr r),
     always_field ''metricsAddr'' YStr (gatewayServerY_MetricsAddr r),
     always_field ''authenticationEnabled'' YBool (gatewayServerY_AuthenticationEnabled r),
     always_field ''maxConcurrentRequests'' YInt (gatewayServerY_MaxConcurrentRequests r),
     always_field ''readTimeout'' YStr (gatewayServerY_ReadTimeout r),
     always_field ''writeTimeout'' YStr (gatewayServerY_WriteTimeout r),
     always_field ''idleTimeout'' YStr (gatewayServerY_IdleTimeout r),
     always_field ''k8sRequestTimeout'' YStr (gatewayServerY_K8sRequestTimeout r),
     always_field ''tls'' enc_tlsConfigYAML (gatewayServerY_TLS r)])"

record loggingYAML =
  loggingY_Level :: string

definition enc_loggingYAML :: "loggingYAML \<Rightarrow> yaml" where
  "enc_loggingYAML r = YMap (concat
    [always_field ''level'' YStr (loggingY_Level r)])"

record debugYAML =
  debugY_PprofEnabled :: bool

definition enc_debugYAML :: "debugYAML \<Rightarrow> yaml" where
  "enc_debugYAML r = YMap (concat
    [always_field ''pprofEnabled'' YBool (debugY_PprofEnabled r)])"

record gatewayMiddlewareYAML =
  gatewayMiddlewareY_TrustedProxyCIDRs :: "string list"

definition enc_gatewayMiddlewareYAML :: "gatewayMiddlewareYAML \<Rightarrow> yaml" where
  "enc_gatewayMiddlewareYAML r = YMap (concat
    [always_field ''trustedProxyCIDRs'' (enc_slice YStr) (gatewayMiddlewareY_TrustedProxyCIDRs r)])"

record gatewayDeduplicationYAML =
  gatewayDeduplicationY_CooldownPeriod :: string

definition enc_gatewayDeduplicationYAML :: "gatewayDeduplicationYAML \<Rightarrow> yaml" where
  "enc_gatewayDeduplicationYAML r = YMap (concat
    [always_field ''cooldownPeriod'' YStr (gatewayDeduplicationY_CooldownPeriod r)])"

record gatewayRetryYAML =
  gatewayRetryY_MaxAttempts :: int
  gatewayRetryY_InitialBackoff :: string
  gatewayRetryY_MaxBackoff :: string

definition enc_gatewayRetryYAML :: "gatewayRetryYAML \<Rightarrow> yaml" where
  "enc_gatewayRetryYAML r = YMap (concat
    [always_field ''maxAttempts'' YInt (gatewayRetryY_MaxAttempts r),
     always_field ''initialBackoff'' YStr (gatewayRetryY_InitialBackoff r),
     always_field ''maxBackoff'' YStr (gatewayRetryY_MaxBackoff r)])"

record gatewayProcessingYAML =
  gatewayProcessingY_Deduplication :: gatewayDeduplicationYAML
  gatewayProcessingY_Retry :: gatewayRetryYAML

definition enc_gatewayProcessingYAML :: "gatewayProcessingYAML \<Rightarrow> yaml" where
  "enc_gatewayProcessingYAML r = YMap (concat
    [always_field ''deduplication'' enc_gatewayDeduplicationYAML (gatewayProcessingY_Deduplication r),
     always_field ''retry'' enc_gatewayRetryYAML (gatewayProcessingY_Retry r)])"

record dataStorageBufferYAML =
  dataStorageBufferY_BufferSize :: int
  dataStorageBufferY_BatchSize :: int
  dataStorageBufferY_FlushInterval :: string
  dataStorageBufferY_MaxRetries :: int

definition enc_dataStorageBufferYAML :: "dataStorageBufferYAML \<Rightarrow> yaml" where
  "enc_dataStorageBufferYAML r = YMap (concat
    [always_field ''bufferSize'' YInt (dataStorageBufferY_BufferSize r),
     always_field ''batchSize'' YInt (dataStorageBufferY_BatchSize r),
     always_field ''flushInterval'' YStr (dataStorageBufferY_FlushInterval r),
     always_field ''maxRetries'' YInt (dataStorageBufferY_MaxRetries r)])"

record gatewayDatastorageYAML =
  gatewayDatastorageY_URL :: string
  gatewayDatastorageY_HealthURL :: string
  gatewayDatastorageY_Timeout :: string
  gatewayDatastorageY_Buffer :: dataStorageBufferYAML

definition enc_gatewayDatastorageYAML :: "gatewayDatastorageYAML \<Rightarrow> yaml" where
  "enc_gatewayDatastorageYAML r = YMap (concat
    [always_field ''url'' YStr (gatewayDatastorageY_URL r),
     always_field ''healthUrl'' YStr (gatewayDatastorageY_HealthURL r),
     always_field ''timeout'' YStr (gatewayDatastorageY_Timeout r),
     always_field ''buffer'' enc_dataStorageBufferYAML (gatewayDatastorageY_Buffer r)])"

record gatewayCORSYAML =
  gatewayCORSY_AllowedOrigins :: "string list"
  gatewayCORSY_AllowedMethods :: "string list"
  gatewayCORSY_AllowCredentials :: bool
  gatewayCORSY_MaxAge :: int

definition enc_gatewayCORSYAML :: "gatewayCORSYAML \<Rightarrow> yaml" where
  "enc_gatewayCORSYAML r = YMap (concat
    [always_field ''allowedOrigins'' (enc_slice YStr) (gatewayCORSY_AllowedOrigins r),
     always_field ''allowedMethods'' (enc_slice YStr) (gatewayCORSY_AllowedMethods r),
     always_field ''allowCredentials'' YBool (gatewayCORSY_AllowCredentials r),
     always_field ''maxAge'' YInt (gatewayCORSY_MaxAge r)])"

record fleetOAuth2YAML =
  fleetOAuth2Y_Enabled :: bool
  fleetOAuth2Y_TokenURL :: string
  fleetOAuth2Y_CredentialsSecretRef :: string
  fleetOAuth2Y_Scopes :: "string list"
  fleetOAuth2Y_TLSCAFile :: string

definition enc_fleetOAuth2YAML :: "fleetOAuth2YAML \<Rightarrow> yaml" where
  "enc_fleetOAuth2YAML r = YMap (concat
    [always_field ''enabled'' YBool (fleetOAuth2Y_Enabled r),
     omit_empty '''' ''tokenURL'' YStr (fleetOAuth2Y_TokenURL r),
     omit_empty '''' ''credentialsSecretRef'' YStr (fleetOAuth2Y_CredentialsSecretRef r),
     omit_empty [] ''scopes'' (enc_slice YStr) (fleetOAuth2Y_Scopes r),
     omit_empty '''' ''tlsCAFile'' YStr (fleetOAuth2Y_TLSCAFile r)])"

record fleetResilienceYAML =
  fleetResilienceY_InitialInterval :: string
  fleetResilienceY_MaxInterval :: string
  fleetResilienceY_MaxElapsedTime :: string
  fleetResilienceY_TokenRefreshTimeout :: string
  fleetResilienceY_ConnectTimeout :: string
  fleetResilienceY_DiscoverProbeTimeout :: string

definition enc_fleetResilienceYAML :: "fleetResilienceYAML \<Rightarrow> yaml" where
  "enc_fleetResilienceYAML r = YMap (concat
    [omit_empty '''' ''initialInterval'' YStr (fleetResilienceY_InitialInterval r),
     omit_empty '''' ''maxInterval'' YStr (fleetResilienceY_MaxInterval r),
     omit_empty '''' ''maxElapsedTime'' YStr (fleetResilienceY_MaxElapsedTime r),
     omit_empty '''' ''tokenRefreshTimeout'' YStr (fleetResilienceY_TokenRefreshTimeout r),
     omit_empty '''' ''connectTimeout'' YStr (fleetResilienceY_ConnectTimeout r),
     omit_empty '''' ''discoverProbeTimeout'' YStr (fleetResilienceY_DiscoverProbeTimeout r)])"

record fleetConfigYAML =
  fleetConfigY_Enabled :: bool
  fleetConfigY_Backend :: string
  fleetConfigY_Endpoint :: string
  fleetConfigY_TLSCAFile :: string
  fleetConfigY_TokenPath :: string
  fleetConfigY_MCPGatewayEndpoint :: string
  fleetConfigY_MCPGatewayType :: string
  fleetConfigY_MCPGatewayTLSCAFile :: string
  fleetConfigY_OAuth2 :: "fleetOAuth2YAML option"
  fleetConfigY_Namespace :: string
  fleetConfigY_Resilience :: "fleetResilienceYAML option"

definition enc_fleetConfigYAML :: "fleetConfigYAML \<Rightarrow> yaml" where
  "enc_fleetConfigYAML r = YMap (concat
    [always_field ''enabled'' YBool (fleetConfigY_Enabled r),
     omit_empty '''' ''backend'' YStr (fleetConfigY_Backend r),
     omit_empty '''' ''endpoint'' YStr (fleetConfigY_Endpoint r),
     omit_empty '''' ''tlsCAFile'' YStr (fleetConfigY_TLSCAFile r),
     omit_empty '''' ''tokenPath'' YStr (fleetConfigY_TokenPath r),
     omit_empty '''' ''mcpGatewayEndpoint'' YStr (fleetConfigY_MCPGatewayEndpoint r),
     omit_empty '''' ''mcpGatewayType'' YStr (fleetConfigY_MCPGatewayType r),
     omit_empty '''' ''mcpGatewayTLSCAFile'' YStr (fleetConfigY_MCPGatewayTLSCAFile r),
     omit_empty None ''oauth2'' (enc_pointer enc_fleetOAuth2YAML) (fleetConfigY_OAuth2 r),
     omit_empty '''' ''namespace'' YStr (fleetConfigY_Namespace r),
     omit_empty None ''resilience'' (enc_pointer enc_fleetResilienceYAML) (fleetConfigY_Resilience r)])"

record telemetryTLSYAML =
  telemetryTLSY_CAFile :: string
  telemetryTLSY_CertFile :: string
  telemetryTLSY_KeyFile :: string

definition enc_telemetryTLSYAML :: "telemetryTLSYAML \<Rightarrow> yaml" where
  "enc_telemetryTLSYAML r = YMap (concat
    [omit_empty '''' ''caFile'' YStr (telemetryTLSY_CAFile r),
     omit_empty '''' ''certFile'' YStr (telemetryTLSY_CertFile r),
     omit_empty '''' ''keyFile'' YStr (telemetryTLSY_KeyFile r)])"

record telemetryYAML =
  telemetryY_Endpoint :: string
  telemetryY_LogSink :: bool
  telemetryY_TLS :: telemetryTLSYAML

definition enc_telemetryYAML :: "telemetryYAML \<Rightarrow> yaml" where
  "enc_telemetryYAML r = YMap (concat
    [omit_empty '''' ''endpoint'' YStr (telemetryY_Endpoint r),
     omit_empty False ''logSink'' YBool (telemetryY_LogSink r),
     always_field ''tls'' enc_telemetryTLSYAML (telemetryY_TLS r)])"

record gatewayConfigYAML =
  gatewayConfigY_TLSProfile :: string
  gatewayConfigY_TLSCAFile :: string
  gatewayConfigY_Logging :: loggingYAML
  gatewayConfigY_Processing :: gatewayProcessingYAML
  gatewayConfigY_Server :: gatewayServerYAML
  gatewayConfigY_CORS :: gatewayCORSYAML
  gatewayConfigY_Middleware :: gatewayMiddlewareYAML
  gatewayConfigY_Datastorage :: gatewayDatastorageYAML
  gatewayConfigY_Fleet :: "fleetConfigYAML option"
  gatewayConfigY_Telemetry :: "telemetryYAML option"
  gatewayConfigY_Debug :: debugYAML

definition enc_gatewayConfigYAML :: "gatewayConfigYAML \<Rightarrow> yaml" where
  "enc_gatewayConfigYAML r = YMap (concat
    [omit_empty '''' ''tlsProfile'' YStr (gatewayConfigY_TLSProfile r),
     omit_empty '''' ''tlsCaFile'' YStr (gatewayConfigY_TLSCAFile r),
     always_field ''logging'' enc_loggingYAML (gatewayConfigY_Logging r),
     always_field ''processing'' enc_gatewayProcessingYAML (gatewayConfigY_Processing r),
     always_field ''server'' enc_gatewayServerYAML (gatewayConfigY_Server r),
     always_field ''cors'' enc_gatewayCORSYAML (gatewayConfigY_CORS r),
     always_field ''middleware'' enc_gatewayMiddlewareYAML (gatewayConfigY_Middleware r),
     always_field ''datastorage'' enc_gatewayDatastorageYAML (gatewayConfigY_Datastorage r),
     omit_empty None ''fleet'' (enc_pointer enc_fleetConfigYAML) (gatewayConfigY_Fleet r),
     omit_empty None ''telemetry'' (enc_pointer enc_telemetryYAML) (gatewayConfigY_Telemetry r),
     always_field ''debug'' enc_debugYAML (gatewayConfigY_Debug r)])"

record dataStorageRateLimitYAML =
  dataStorageRateLimitY_Enabled :: bool
  dataStorageRateLimitY_RequestsPerSecond :: float64
  dataStorageRateLimitY_Burst :: int

definition enc_dataStorageRateLimitYAML :: "dataStorageRateLimitYAML \<Rightarrow> yaml" where
  "enc_dataStorageRateLimitYAML r = YMap (concat
    [always_field ''enabled'' YBool (dataStorageRateLimitY_Enabled r),
     always_field ''requestsPerSecond'' YFloat (dataStorageRateLimitY_RequestsPerSecond r),
     always_field ''burst'' YInt (dataStorageRateLimitY_Burst r)])"

record dataStorageServerYAML =
  dataStorageServerY_Port :: int
  dataStorageServerY_Host :: string
  dataStorageServerY_HealthPort :: int
  dataStorageServerY_MetricsPort :: int
  dataStorageServerY_ReadTimeout :: string
  dataStorageServerY_WriteTimeout :: string
  dataStorageServerY_EndpointPropagationDelay :: string
  dataStorageServerY_MaxBodySize :: string
  dataStorageServerY_MaxConcurrentRequests :: int
  dataStorageServerY_CORSAllowedOrigins :: "string list"
  dataStorageServerY_RateLimit :: dataStorageRateLimitYAML
  dataStorageServerY_TLS :: tlsConfigYAML
  dataStorageServerY_SignerCertDir :: string

definition enc_dataStorageServerYAML :: "dataStorageServerYAML \<Rightarrow> yaml" where
  "enc_dataStorageServerYAML r = YMap (concat
    [always_field ''port'' YInt (dataStorageServerY_Port r),
     always_field ''host'' YStr (dataStorageServerY_Host r),
     always_field ''healthPort'' YInt (dataStorageServerY_HealthPort r),
     always_field ''metricsPort'' YInt (dataStorageServerY_MetricsPort r),
     always_field ''readTimeout'' YStr (dataStorageServerY_ReadTimeout r),
     always_field ''writeTimeout'' YStr (dataStorageServerY_WriteTimeout r),
     omit_empty '''' ''endpointPropagationDelay'' YStr (dataStorageServerY_EndpointPropagationDelay r),
     omit_empty '''' ''maxBodySize'' YStr (dataStorageServerY_MaxBodySize r),
     always_field ''maxConcurrentRequests'' YInt (dataStorageServerY_MaxConcurrentRequests r),
     omit_empty [] ''corsAllowedOrigins'' (enc_slice YStr) (dataStorageServerY_CORSAllowedOrigins r),
     always_field ''rateLimit'' enc_dataStorageRateLimitYAML (dataStorageServerY_RateLimit r),
     always_field ''tls'' enc_tlsConfigYAML (dataStorageServerY_TLS r),
     omit_empty '''' ''signerCertDir'' YStr (dataStorageServerY_SignerCertDir r)])"

record dataStorageDatabaseYAML =
  dataStorageDatabaseY_Host :: string
  dataStorageDatabaseY_Port :: int
  dataStorageDatabaseY_Name :: string
  dataStorageDatabaseY_User :: string
  dataStorageDatabaseY_SSLMode :: string
  dataStorageDatabaseY_SSLRootCert :: string
  dataStorageDatabaseY_MaxOpenConns :: int
  dataStorageDatabaseY_MaxIdleConns :: int
  dataStorageDatabaseY_ConnMaxLifetime :: string
  dataStorageDatabaseY_ConnMaxIdleTime :: string
  dataStorageDatabaseY_SecretsFile :: string
  dataStorageDatabaseY_UsernameKey :: string
  dataStorageDatabaseY_PasswordKey :: string

definition enc_dataStorageDatabaseYAML :: "dataStorageDatabaseYAML \<Rightarrow> yaml" where
  "enc_dataStorageDatabaseYAML r = YMap (concat
    [always_field ''host'' YStr (dataStorageDatabaseY_Host r),
     always_field ''port'' YInt (dataStorageDatabaseY_Port r),
     always_field ''name'' YStr (dataStorageDatabaseY_Name r),
     always_field ''user'' YStr (dataStorageDatabaseY_User r),
     always_field ''sslMode'' YStr (dataStorageDatabaseY_SSLMode r),
     omit_empty '''' ''sslRootCert'' YStr (dataStorageDatabaseY_SSLRootCert r),
     always_field ''maxOpenConns'' YInt (dataStorageDatabaseY_MaxOpenConns r),
     always_field ''maxIdleConns'' YInt (dataStorageDatabaseY_MaxIdleConns r),
     always_field ''connMaxLifetime'' YStr (dataStorageDatabaseY_ConnMaxLifetime r),
     always_field ''connMaxIdleTime'' YStr (dataStorageDatabaseY_ConnMaxIdleTime r),
     always_field ''secretsFile'' YStr (dataStorageDatabaseY_SecretsFile r),
     always_field ''usernameKey'' YStr (dataStorageDatabaseY_UsernameKey r),
     always_field ''passwordKey'' YStr (dataStorageDatabaseY_PasswordKey r)])"

record dataStorageRedisTLSYAML =
  dataStorageRedisTLSY_Enabled :: bool
  dataStorageRedisTLSY_CAFile :: string
  dataStorageRedisTLSY_CertFile :: string
  dataStorageRedisTLSY_KeyFile :: string

definition enc_dataStorageRedisTLSYAML :: "dataStorageRedisTLSYAML \<Rightarrow> yaml" where
  "enc_dataStorageRedisTLSYAML r = YMap (concat
    [always_field ''enabled'' YBool (dataStorageRedisTLSY_Enabled r),
     omit_empty '''' ''caFile'' YStr (dataStorageRedisTLSY_CAFile r),
     omit_empty '''' ''certFile'' YStr (dataStorageRedisTLSY_CertFile r),
     omit_empty '''' ''keyFile'' YStr (dataStorageRedisTLSY_KeyFile r)])"

record dataStorageRedisYAML =
  dataStorageRedisY_Addr :: string
  dataStorageRedisY_DB :: int
  dataStorageRedisY_DLQStreamName :: string
  dataStorageRedisY_DLQMaxLen :: int
  dataStorageRedisY_DLQConsumerGroup :: string
  dataStorageRedisY_SecretsFile :: string
  dataStorageRedisY_PasswordKey :: string
  dataStorageRedisY_TLS :: "dataStorageRedisTLSYAML option"

definition enc_dataStorageRedisYAML :: "dataStorageRedisYAML \<Rightarrow> yaml" where
  "enc_dataStorageRedisYAML r = YMap (concat
    [always_field ''addr'' YStr (dataStorageRedisY_Addr r),
     always_field ''db'' YInt (dataStorageRedisY_DB r),
     always_field ''dlqStreamName'' YStr (dataStorageRedisY_DLQStreamName r),
     always_field ''dlqMaxLen'' YInt (dataStorageRedisY_DLQMaxLen r),
     always_field ''dlqConsumerGroup'' YStr (dataStorageRedisY_DLQConsumerGroup r),
     always_field ''secretsFile'' YStr (dataStorageRedisY_SecretsFile r),
     always_field ''passwordKey'' YStr (dataStorageRedisY_PasswordKey r),
     omit_empty None ''tls'' (enc_pointer enc_dataStorageRedisTLSYAML) (dataStorageRedisY_TLS r)])"

record dataStorageLoggingYAML =
  dataStorageLoggingY_Level :: string
  dataStorageLoggingY_Format :: string

definition enc_dataStorageLoggingYAML :: "dataStorageLoggingYAML \<Rightarrow> yaml" where
  "enc_dataStorageLoggingYAML r = YMap (concat
    [always_field ''level'' YStr (dataStorageLoggingY_Level r),
     always_field ''format'' YStr (dataStorageLoggingY_Format r)])"

record dataStorageRetentionYAML =
  dataStorageRetentionY_Enabled :: bool
  dataStorageRetentionY_Interval :: string
  dataStorageRetentionY_BatchSize :: int
  dataStorageRetentionY_DefaultDays :: int

definition enc_dataStorageRetentionYAML :: "dataStorageRetentionYAML \<Rightarrow> yaml" where
  "enc_dataStorageRetentionYAML r = YMap (concat
    [always_field ''enabled'' YBool (dataStorageRetentionY_Enabled r),
     always_field ''interval'' YStr (dataStorageRetentionY_Interval r),
     always_field ''batchSize'' YInt (dataStorageRetentionY_BatchSize r),
     always_field ''defaultDays'' YInt (dataStorageRetentionY_DefaultDays r)])"

record dataStorageAuditYAML =
  dataStorageAuditY_HashKeySecretsFile :: string
  dataStorageAuditY_HashKeyKey :: string

definition enc_dataStorageAuditYAML :: "dataStorageAuditYAML \<Rightarrow> yaml" where
  "enc_dataStorageAuditYAML r = YMap (concat
    [always_field ''hashKeySecretsFile'' YStr (dataStorageAuditY_HashKeySecretsFile r),
     always_field ''hashKeyKey'' YStr (dataStorageAuditY_HashKeyKey r)])"

record dataStorageConfigYAML =
  dataStorageConfigY_TLSProfile :: string
  dataStorageConfigY_Server :: dataStorageServerYAML
  dataStorageConfigY_Database :: dataStorageDatabaseYAML
  dataStorageConfigY_Redis :: dataStorageRedisYAML
  dataStorageConfigY_Logging :: dataStorageLoggingYAML
  dataStorageConfigY_Retention :: "dataStorageRetentionYAML option"
  dataStorageConfigY_Audit :: "dataStorageAuditYAML option"
  dataStorageConfigY_Telemetry :: "telemetryYAML option"
  dataStorageConfigY_Debug :: debugYAML

definition enc_dataStorageConfigYAML :: "dataStorageConfigYAML \<Rightarrow> yaml" where
  "enc_dataStorageConfigYAML r = YMap (concat
    [omit_empty '''' ''tlsProfile'' YStr (dataStorageConfigY_TLSProfile r),
     always_field ''server'' enc_dataStorageServerYAML (dataStorageConfigY_Server r),
     always_field ''database'' enc_dataStorageDatabaseYAML (dataStorageConfigY_Database r),
     always_field ''redis'' enc_dataStorageRedisYAML (dataStorageConfigY_Redis r),
     always_field ''logging'' enc_dataStorageLoggingYAML (dataStorageConfigY_Logging r),
     omit_empty None ''retention'' (enc_pointer enc_dataStorageRetentionYAML) (dataStorageConfigY_Retention r),
     always_field ''audit'' (enc_pointer enc_dataStorageAuditYAML) (dataStorageConfigY_Audit r),
     omit_empty None ''telemetry'' (enc_pointer enc_telemetryYAML) (dataStorageConfigY_Telemetry r),
     always_field ''debug'' enc_debugYAML (dataStorageConfigY_Debug r)])"

record aiAnalysisKubernautAgentYAML =
  aiAnalysisKubernautAgentY_URL :: string
  aiAnalysisKubernautAgentY_Timeout :: string
  aiAnalysisKubernautAgentY_SessionPollInterval :: string

definition enc_aiAnalysisKubernautAgentYAML :: "aiAnalysisKubernautAgentYAML \<Rightarrow> yaml" where
  "enc_aiAnalysisKubernautAgentYAML r = YMap (concat
    [always_field ''url'' YStr (aiAnalysisKubernautAgentY_URL r),
     always_field ''timeout'' YStr (aiAnalysisKubernautAgentY_Timeout r),
     always_field ''sessionPollInterval'' YStr (aiAnalysisKubernautAgentY_SessionPollInterval r)])"

record aiAnalysisDatastorageYAML =
  aiAnalysisDatastorageY_URL :: string
  aiAnalysisDatastorageY_HealthURL :: string
  aiAnalysisDatastorageY_Timeout :: string
  aiAnalysisDatastorageY_Buffer :: dataStorageBufferYAML

definition enc_aiAnalysisDatastorageYAML :: "aiAnalysisDatastorageYAML \<Rightarrow> yaml" where
  "enc_aiAnalysisDatastorageYAML r = YMap (concat
    [always_field ''url'' YStr (aiAnalysisDatastorageY_URL r),
     always_field ''healthUrl'' YStr (aiAnalysisDatastorageY_HealthURL r),
     always_field ''timeout'' YStr (aiAnalysisDatastorageY_Timeout r),
     always_field ''buffer'' enc_dataStorageBufferYAML (aiAnalysisDatastorageY_Buffer r)])"

record aiAnalysisRegoYAML =
  aiAnalysisRegoY_PolicyPath :: string
  aiAnalysisRegoY_PolicyConfigMapName :: string
  aiAnalysisRegoY_PolicyConfigMapKey :: string
  aiAnalysisRegoY_ConfidenceThreshold :: "float64 option"
  aiAnalysisRegoY_LowConfidenceFloor :: "float64 option"

definition enc_aiAnalysisRegoYAML :: "aiAnalysisRegoYAML \<Rightarrow> yaml" where
  "enc_aiAnalysisRegoYAML r = YMap (concat
    [always_field ''policyPath'' YStr (aiAnalysisRegoY_PolicyPath r),
     always_field ''policyConfigMapName'' YStr (aiAnalysisRegoY_PolicyConfigMapName r),
     always_field ''policyConfigMapKey'' YStr (aiAnalysisRegoY_PolicyConfigMapKey r),
     omit_empty None ''confidenceThreshold'' (enc_pointer YFloat) (aiAnalysisRegoY_ConfidenceThreshold r),
     omit_empty None ''lowConfidenceFloor'' (enc_pointer YFloat) (aiAnalysisRegoY_LowConfidenceFloor r)])"

record aiAnalysisConfigYAML =
  aiAnalysisConfigY_TLSCAFile :: string
  aiAnalysisConfigY_TLSProfile :: string
  aiAnalysisConfigY_Logging :: loggingYAML
  aiAnalysisConfigY_Controller :: controllerBlock
  aiAnalysisConfigY_Agent :: aiAnalysisKubernautAgentYAML
  aiAnalysisConfigY_Datastorage :: aiAnalysisDatastorageYAML
  aiAnalysisConfigY_Rego :: aiAnalysisRegoYAML
  aiAnalysisConfigY_Debug :: debugYAML

definition enc_aiAnalysisConfigYAML :: "aiAnalysisConfigYAML \<Rightarrow> yaml" where
  "enc_aiAnalysisConfigYAML r = YMap (concat
    [omit_empty '''' ''tlsCaFile'' YStr (aiAnalysisConfigY_TLSCAFile r),
     omit_empty '''' ''tlsProfile'' YStr (aiAnalysisConfigY_TLSProfile r),
     always_field ''logging'' enc_loggingYAML (aiAnalysisConfigY_Logging r),
     always_field ''controller'' enc_controllerBlock (aiAnalysisConfigY_Controller r),
     always_field ''agent'' enc_aiAnalysisKubernautAgentYAML (aiAnalysisConfigY_Agent r),
     always_field ''datastorage'' enc_aiAnalysisDatastorageYAML (aiAnalysisConfigY_Datastorage r),
     always_field ''rego'' enc_aiAnalysisRegoYAML (aiAnalysisConfigY_Rego r),
     always_field ''debug'' enc_debugYAML (aiAnalysisConfigY_Debug r)])"

record signalProcessingEnrichmentYAML =
  signalProcessingEnrichmentY_CacheTTL :: string
  signalProcessingEnrichmentY_Timeout :: string

definition enc_signalProcessingEnrichmentYAML :: "signalProcessingEnrichmentYAML \<Rightarrow> yaml" where
  "enc_signalProcessingEnrichmentYAML r = YMap (concat
    [always_field ''cacheTtl'' YStr (signalProcessingEnrichmentY_CacheTTL r),
     always_field ''timeout'' YStr (signalProcessingEnrichmentY_Timeout r)])"

record signalProcessingClassifierYAML =
  signalProcessingClassifierY_RegoConfigMapName :: string
  signalProcessingClassifierY_RegoConfigMapKey :: string
  signalProcessingClassifierY_HotReloadInterval :: string

definition enc_signalProcessingClassifierYAML :: "signalProcessingClassifierYAML \<Rightarrow> yaml" where
  "enc_signalProcessingClassifierYAML r = YMap (concat
    [always_field ''regoConfigMapName'' YStr (signalProcessingClassifierY_RegoConfigMapName r),
     always_field ''regoConfigMapKey'' YStr (signalProcessingClassifierY_RegoConfigMapKey r),
     always_field ''hotReloadInterval'' YStr (signalProcessingClassifierY_HotReloadInterval r)])"

record signalProcessingBufferYAML =
  signalProcessingBufferY_BufferSize :: int
  signalProcessingBufferY_BatchSize :: int
  signalProcessingBufferY_FlushInterval :: string
  signalProcessingBufferY_MaxRetries :: int

definition enc_signalProcessingBufferYAML :: "signalProcessingBufferYAML \<Rightarrow> yaml" where
  "enc_signalProcessingBufferYAML r = YMap (concat
    [always_field ''bufferSize'' YInt (signalProcessingBufferY_BufferSize r),
     always_field ''batchSize'' YInt (signalProcessingBufferY_BatchSize r),
     always_field ''flushInterval'' YStr (signalProcessingBufferY_FlushInterval r),
     always_field ''maxRetries'' YInt (signalProcessingBufferY_MaxRetries r)])"

record signalProcessingDatastorageYAML =
  signalProcessingDatastorageY_URL :: string
  signalProcessingDatastorageY_HealthURL :: string
  signalProcessingDatastorageY_Timeout :: string
  signalProcessingDatastorageY_Buffer :: signalProcessingBufferYAML

definition enc_signalProcessingDatastorageYAML :: "signalProcessingDatastorageYAML \<Rightarrow> yaml" where
  "enc_signalProcessingDatastorageYAML r = YMap (concat
    [always_field ''url'' YStr (signalProcessingDatastorageY_URL r),
     always_field ''healthUrl'' YStr (signalProcessingDatastorageY_HealthURL r),
     always_field ''timeout'' YStr (signalProcessingDatastorageY_Timeout r),
     always_field ''buffer'' enc_signalProcessingBufferYAML (signalProcessingDatastorageY_Buffer r)])"

record signalProcessingFleetYAML =
  signalProcessingFleetY_Endpoint :: string
  signalProcessingFleetY_OAuth2 :: "fleetOAuth2YAML option"
  signalProcessingFleetY_MCPGatewayType :: string
  signalProcessingFleetY_MCPGatewayTLSCAFile :: string
  signalProcessingFleetY_Namespace :: string
  signalProcessingFleetY_Resilience :: "fleetResilienceYAML option"

definition enc_signalProcessingFleetYAML :: "signalProcessingFleetYAML \<Rightarrow> yaml" where
  "enc_signalProcessingFleetYAML r = YMap (concat
    [always_field ''endpoint'' YStr (signalProcessingFleetY_Endpoint r),
     omit_empty None ''oauth2'' (enc_pointer enc_fleetOAuth2YAML) (signalProcessingFleetY_OAuth2 r),
     omit_empty '''' ''mcpGatewayType'' YStr (signalProcessingFleetY_MCPGatewayType r),
     omit_empty '''' ''mcpGatewayTLSCAFile'' YStr (signalProcessingFleetY_MCPGatewayTLSCAFile r),
     omit_empty '''' ''namespace'' YStr (signalProcessingFleetY_Namespace r),
     omit_empty None ''resilience'' (enc_pointer enc_fleetResilienceYAML) (signalProcessingFleetY_Resilience r)])"

record signalProcessingConfigYAML =
  signalProcessingConfigY_TLSCAFile :: string
  signalProcessingConfigY_TLSProfile :: string
  signalProcessingConfigY_Logging :: loggingYAML
  signalProcessingConfigY_Controller :: controllerBlock
  signalProcessingConfigY_Enrichment :: signalProcessingEnrichmentYAML
  signalProcessingConfigY_Classifier :: signalProcessingClassifierYAML
  signalProcessingConfigY_Datastorage :: signalProcessingDatastorageYAML
  signalProcessingConfigY_Fleet :: "signalProcessingFleetYAML option"
  signalProcessingConfigY_Debug :: debugYAML

definition enc_signalProcessingConfigYAML :: "signalProcessingConfigYAML \<Rightarrow> yaml" where
  "enc_signalProcessingConfigYAML r = YMap (concat
    [omit_empty '''' ''tlsCaFile'' YStr (signalProcessingConfigY_TLSCAFile r),
     omit_empty '''' ''tlsProfile'' YStr (signalProcessingConfigY_TLSProfile r),
     always_field ''logging'' enc_loggingYAML (signalProcessingConfigY_Logging r),
     always_field ''controller'' enc_controllerBlock (signalProcessingConfigY_Controller r),
     always_field ''enrichment'' enc_signalProcessingEnrichmentYAML (signalProcessingConfigY_Enrichment r),
     always_field ''classifier'' enc_signalProcessingClassifierYAML (signalProcessingConfigY_Classifier r),
     always_field ''datastorage'' enc_signalProcessingDatastorageYAML (signalProcessingConfigY_Datastorage r),
     omit_empty None ''fleet'' (enc_pointer enc_signalProcessingFleetYAML) (signalProcessingConfigY_Fleet r),
     always_field ''debug'' enc_debugYAML (signalProcessingConfigY_Debug r)])"

record roTimeoutsYAML =
  roTimeoutsY_Global :: string
  roTimeoutsY_Processing :: string
  roTimeoutsY_Analyzing :: string
  roTimeoutsY_Executing :: string
  roTimeoutsY_AwaitingApproval :: string
  roTimeoutsY_Verifying :: string

definition enc_roTimeoutsYAML :: "roTimeoutsYAML \<Rightarrow> yaml" where
  "enc_roTimeoutsYAML r = YMap (concat
    [always_field ''global'' YStr (roTimeoutsY_Global r),
     always_field ''processing'' YStr (roTimeoutsY_Processing r),
     always_field ''analyzing'' YStr (roTimeoutsY_Analyzing r),
     always_field ''executing'' YStr (roTimeoutsY_Executing r),
     always_field ''awaitingApproval'' YStr (roTimeoutsY_AwaitingApproval r),
     always_field ''verifying'' YStr (roTimeoutsY_Verifying r)])"

record roRoutingYAML =
  roRoutingY_ConsecutiveFailureThreshold :: int
  roRoutingY_ConsecutiveFailureCooldown :: string
  roRoutingY_RecentlyRemediatedCooldown :: string
  roRoutingY_ExponentialBackoffBase :: string
  roRoutingY_ExponentialBackoffMax :: string
  roRoutingY_ExponentialBackoffMaxExponent :: int
  roRoutingY_ScopeBackoffBase :: string
  roRoutingY_ScopeBackoffMax :: string
  roRoutingY_NoActionRequiredDelayHours :: int
  roRoutingY_IneffectiveChainThreshold :: int
  roRoutingY_RecurrenceCountThreshold :: int
  roRoutingY_IneffectiveTimeWindow :: string

definition enc_roRoutingYAML :: "roRoutingYAML \<Rightarrow> yaml" where
  "enc_roRoutingYAML r = YMap (concat
    [always_field ''consecutiveFailureThreshold'' YInt (roRoutingY_ConsecutiveFailureThreshold r),
     always_field ''consecutiveFailureCooldown'' YStr (roRoutingY_ConsecutiveFailureCooldown r),
     always_field ''recentlyRemediatedCooldown'' YStr (roRoutingY_RecentlyRemediatedCooldown r),
     always_field ''exponentialBackoffBase'' YStr (roRoutingY_ExponentialBackoffBase r),
     always_field ''exponentialBackoffMax'' YStr (roRoutingY_ExponentialBackoffMax r),
     always_field ''exponentialBackoffMaxExponent'' YInt (roRoutingY_ExponentialBackoffMaxExponent r),
     always_field ''scopeBackoffBase'' YStr (roRoutingY_ScopeBackoffBase r),
     always_field ''scopeBackoffMax'' YStr (roRoutingY_ScopeBackoffMax r),
     always_field ''noActionRequiredDelayHours'' YInt (roRoutingY_NoActionRequiredDelayHours r),
     always_field ''ineffectiveChainThreshold'' YInt (roRoutingY_IneffectiveChainThreshold r),
     always_field ''recurrenceCountThreshold'' YInt (roRoutingY_RecurrenceCountThreshold r),
     always_field ''ineffectiveTimeWindow'' YStr (roRoutingY_IneffectiveTimeWindow r)])"

record roNotificationsYAML =
  roNotificationsY_NotifySelfResolved :: bool

definition enc_roNotificationsYAML :: "roNotificationsYAML \<Rightarrow> yaml" where
  "enc_roNotificationsYAML r = YMap (concat
    [always_field ''notifySelfResolved'' YBool (roNotificationsY_NotifySelfResolved r)])"

record roRetentionYAML =
  roRetentionY_Period :: string

definition enc_roRetentionYAML :: "roRetentionYAML \<Rightarrow> yaml" where
  "enc_roRetentionYAML r = YMap (concat
    [always_field ''period'' YStr (roRetentionY_Period r)])"

record roEffectivenessYAML =
  roEffectivenessY_StabilizationWindow :: string

definition enc_roEffectivenessYAML :: "roEffectivenessYAML \<Rightarrow> yaml" where
  "enc_roEffectivenessYAML r = YMap (concat
    [always_field ''stabilizationWindow'' YStr (roEffectivenessY_StabilizationWindow r)])"

record roAsyncPropagationYAML =
  roAsyncPropagationY_GitOpsSyncDelay :: string
  roAsyncPropagationY_OperatorReconcileDelay :: string
  roAsyncPropagationY_ProactiveAlertDelay :: string

definition enc_roAsyncPropagationYAML :: "roAsyncPropagationYAML \<Rightarrow> yaml" where
  "enc_roAsyncPropagationYAML r = YMap (concat
    [always_field ''gitOpsSyncDelay'' YStr (roAsyncPropagationY_GitOpsSyncDelay r),
     always_field ''operatorReconcileDelay'' YStr (roAsyncPropagationY_OperatorReconcileDelay r),
     always_field ''proactiveAlertDelay'' YStr (roAsyncPropagationY_ProactiveAlertDelay r)])"

record roDatastorageYAML =
  roDatastorageY_URL :: string
  roDatastorageY_HealthURL :: string
  roDatastorageY_Timeout :: string
  roDatastorageY_Buffer :: dataStorageBufferYAML

definition enc_roDatastorageYAML :: "roDatastorageYAML \<Rightarrow> yaml" where
  "enc_roDatastorageYAML r = YMap (concat
    [always_field ''url'' YStr (roDatastorageY_URL r),
     always_field ''healthUrl'' YStr (roDatastorageY_HealthURL r),
     always_field ''timeout'' YStr (roDatastorageY_Timeout r),
     always_field ''buffer'' enc_dataStorageBufferYAML (roDatastorageY_Buffer r)])"

record remediationOrchestratorConfigYAML =
  remediationOrchestratorConfigY_TLSCAFile :: string
  remediationOrchestratorConfigY_TLSProfile :: string
  remediationOrchestratorConfigY_Controller :: controllerBlock
  remediationOrchestratorConfigY_Logging :: loggingYAML
  remediationOrchestratorConfigY_Timeouts :: roTimeoutsYAML
  remediationOrchestratorConfigY_Datastorage :: roDatastorageYAML
  remediationOrchestratorConfigY_Routing :: roRoutingYAML
  remediationOrchestratorConfigY_EffectivenessAssessment :: roEffectivenessYAML
  remediationOrchestratorConfigY_AsyncPropagation :: roAsyncPropagationYAML
  remediationOrchestratorConfigY_Notifications :: roNotificationsYAML
  remediationOrchestratorConfigY_Retention :: roRetentionYAML
  remediationOrchestratorConfigY_DryRun :: bool
  remediationOrchestratorConfigY_DryRunHoldPeriod :: string
  remediationOrchestratorConfigY_Fleet :: "fleetConfigYAML option"
  remediationOrchestratorConfigY_Debug :: debugYAML

definition enc_remediationOrchestratorConfigYAML :: "remediationOrchestratorConfigYAML \<Rightarrow> yaml" where
  "enc_remediationOrchestratorConfigYAML r = YMap (concat
    [omit_empty '''' ''tlsCaFile'' YStr (remediationOrchestratorConfigY_TLSCAFile r),
     omit_empty '''' ''tlsProfile'' YStr (remediationOrchestratorConfigY_TLSProfile r),
     always_field ''controller'' enc_controllerBlock (remediationOrchestratorConfigY_Controller r),
     always_field ''logging'' enc_loggingYAML (remediationOrchestratorConfigY_Logging r),
     always_field ''timeouts'' enc_roTimeoutsYAML (remediationOrchestratorConfigY_Timeouts r),
     always_field ''datastorage'' enc_roDatastorageYAML (remediationOrchestratorConfigY_Datastorage r),
     always_field ''routing'' enc_roRoutingYAML (remediationOrchestratorConfigY_Routing r),
     always_field ''effectivenessAssessment'' enc_roEffectivenessYAML (remediationOrchestratorConfigY_EffectivenessAssessment r),
     always_field ''asyncPropagation'' enc_roAsyncPropagationYAML (remediationOrchestratorConfigY_AsyncPropagation r),
     always_field ''notifications'' enc_roNotificationsYAML (remediationOrchestratorConfigY_Notifications r),
     always_field ''retention'' enc_roRetentionYAML (remediationOrchestratorConfigY_Retention r),
     always_field ''dryRun'' YBool (remediationOrchestratorConfigY_DryRun r),
     always_field ''dryRunHoldPeriod'' YStr (remediationOrchestratorConfigY_DryRunHoldPeriod r),
     omit_empty None ''fleet'' (enc_pointer enc_fleetConfigYAML) (remediationOrchestratorConfigY_Fleet r),
     always_field ''debug'' enc_debugYAML (remediationOrchestratorConfigY_Debug r)])"

record weExecutionYAML =
  weExecutionY_Namespace :: string
  weExecutionY_CooldownPeriod :: string
  weExecutionY_RetainFailedExecutions :: bool
  weExecutionY_FailedExecutionRetentionSeconds :: int

definition enc_weExecutionYAML :: "weExecutionYAML \<Rightarrow> yaml" where
  "enc_weExecutionYAML r = YMap (concat
    [always_field ''namespace'' YStr (weExecutionY_Namespace r),
     always_field ''cooldownPeriod'' YStr (weExecutionY_CooldownPeriod r),
     always_field ''retainFailedExecutions'' YBool (weExecutionY_RetainFailedExecutions r),
     always_field ''failedExecutionRetentionSeconds'' YInt (weExecutionY_FailedExecutionRetentionSeconds r)])"

record weControllerYAML =
  weControllerY_MetricsAddr :: string
  weControllerY_HealthProbeAddr :: string
  weControllerY_LeaderElection :: bool
  weControllerY_LeaderElectionID :: string

definition enc_weControllerYAML :: "weControllerYAML \<Rightarrow> yaml" where
  "enc_weControllerYAML r = YMap (concat
    [always_field ''metricsAddr'' YStr (weControllerY_MetricsAddr r),
     always_field ''healthProbeAddr'' YStr (weControllerY_HealthProbeAddr r),
     always_field ''leaderElection'' YBool (weControllerY_LeaderElection r),
     always_field ''leaderElectionId'' YStr (weControllerY_LeaderElectionID r)])"

record weDatastorageYAML =
  weDatastorageY_URL :: string
  weDatastorageY_HealthURL :: string
  weDatastorageY_Timeout :: string
  weDatastorageY_Buffer :: dataStorageBufferYAML

definition enc_weDatastorageYAML :: "weDatastorageYAML \<Rightarrow> yaml" where
  "enc_weDatastorageYAML r = YMap (concat
    [always_field ''url'' YStr (weDatastorageY_URL r),
     always_field ''healthUrl'' YStr (weDatastorageY_HealthURL r),
     always_field ''timeout'' YStr (weDatastorageY_Timeout r),
     always_field ''buffer'' enc_dataStorageBufferYAML (weDatastorageY_Buffer r)])"

record weTokenSecretRefYAML =
  weTokenSecretRefY_Name :: string
  weTokenSecretRefY_Namespace :: string
  weTokenSecretRefY_Key :: string

definition enc_weTokenSecretRefYAML :: "weTokenSecretRefYAML \<Rightarrow> yaml" where
  "enc_weTokenSecretRefYAML r = YMap (concat
    [always_field ''name'' YStr (weTokenSecretRefY_Name r),
     omit_empty '''' ''namespace'' YStr (weTokenSecretRefY_Namespace r),
     always_field ''key'' YStr (weTokenSecretRefY_Key r)])"

record workflowExecutionAnsibleYAML =
  workflowExecutionAnsibleY_APIURL :: string
  workflowExecutionAnsibleY_TokenSecretRef :: "weTokenSecretRefYAML option"
  workflowExecutionAnsibleY_OrganizationID :: int

definition enc_workflowExecutionAnsibleYAML :: "workflowExecutionAnsibleYAML \<Rightarrow> yaml" where
  "enc_workflowExecutionAnsibleYAML r = YMap (concat
    [always_field ''apiURL'' YStr (workflowExecutionAnsibleY_APIURL r),
     omit_empty None ''tokenSecretRef'' (enc_pointer enc_weTokenSecretRefYAML) (workflowExecutionAnsibleY_TokenSecretRef r),
     omit_empty 0 ''organizationID'' YInt (workflowExecutionAnsibleY_OrganizationID r)])"

record weTektonYAML =
  weTektonY_Enabled :: "bool option"

definition enc_weTektonYAML :: "weTektonYAML \<Rightarrow> yaml" where
  "enc_weTektonYAML r = YMap (concat
    [omit_empty None ''enabled'' (enc_pointer YBool) (weTektonY_Enabled r)])"

record weFleetYAML =
  weFleetY_Endpoint :: string
  weFleetY_MCPGatewayTLSCAFile :: string
  weFleetY_OAuth2 :: "fleetOAuth2YAML option"
  weFleetY_Resilience :: "fleetResilienceYAML option"

definition enc_weFleetYAML :: "weFleetYAML \<Rightarrow> yaml" where
  "enc_weFleetYAML r = YMap (concat
    [omit_empty '''' ''endpoint'' YStr (weFleetY_Endpoint r),
     omit_empty '''' ''mcpGatewayTLSCAFile'' YStr (weFleetY_MCPGatewayTLSCAFile r),
     omit_empty None ''oauth2'' (enc_pointer enc_fleetOAuth2YAML) (weFleetY_OAuth2 r),
     omit_empty None ''resilience'' (enc_pointer enc_fleetResilienceYAML) (weFleetY_Resilience r)])"

record workflowExecutionConfigYAML =
  workflowExecutionConfigY_TLSCAFile :: string
  workflowExecutionConfigY_TLSProfile :: string
  workflowExecutionConfigY_Logging :: loggingYAML
  workflowExecutionConfigY_Execution :: weExecutionYAML
  workflowExecutionConfigY_Ansible :: "workflowExecutionAnsibleYAML option"
  workflowExecutionConfigY_Tekton :: "weTektonYAML option"
  workflowExecutionConfigY_Datastorage :: weDatastorageYAML
  workflowExecutionConfigY_Controller :: weControllerYAML
  workflowExecutionConfigY_Fleet :: "weFleetYAML option"
  workflowExecutionConfigY_Debug :: debugYAML

definition enc_workflowExecutionConfigYAML :: "workflowExecutionConfigYAML \<Rightarrow> yaml" where
  "enc_workflowExecutionConfigYAML r = YMap (concat
    [omit_empty '''' ''tlsCaFile'' YStr (workflowExecutionConfigY_TLSCAFile r),
     omit_empty '''' ''tlsProfile'' YStr (workflowExecutionConfigY_TLSProfile r),
     always_field ''logging'' enc_loggingYAML (workflowExecutionConfigY_Logging r),
     always_field ''execution'' enc_weExecutionYAML (workflowExecutionConfigY_Execution r),
     omit_empty None ''ansible'' (enc_pointer enc_workflowExecutionAnsibleYAML) (workflowExecutionConfigY_Ansible r),
     omit_empty None ''tekton'' (enc_pointer enc_weTektonYAML) (workflowExecutionConfigY_Tekton r),
     always_field ''datastorage'' enc_weDatastorageYAML (workflowExecutionConfigY_Datastorage r),
     always_field ''controller'' enc_weControllerYAML (workflowExecutionConfigY_Controller r),
     omit_empty None ''fleet'' (enc_pointer enc_weFleetYAML) (workflowExecutionConfigY_Fleet r),
     always_field ''debug'' enc_debugYAML (workflowExecutionConfigY_Debug r)])"

record emAssessmentYAML =
  emAssessmentY_StabilizationWindow :: string
  emAssessmentY_ValidityWindow :: string

definition enc_emAssessmentYAML :: "emAssessmentYAML \<Rightarrow> yaml" where
  "enc_emAssessmentYAML r = YMap (concat
    [always_field ''stabilizationWindow'' YStr (emAssessmentY_StabilizationWindow r),
     always_field ''validityWindow'' YStr (emAssessmentY_ValidityWindow r)])"

record emDatastorageYAML =
  emDatastorageY_URL :: string
  emDatastorageY_HealthURL :: string
  emDatastorageY_Timeout :: string
  emDatastorageY_Buffer :: dataStorageBufferYAML

definition enc_emDatastorageYAML :: "emDatastorageYAML \<Rightarrow> yaml" where
  "enc_emDatastorageYAML r = YMap (concat
    [always_field ''url'' YStr (emDatastorageY_URL r),
     always_field ''healthUrl'' YStr (emDatastorageY_HealthURL r),
     always_field ''timeout'' YStr (emDatastorageY_Timeout r),
     always_field ''buffer'' enc_dataStorageBufferYAML (emDatastorageY_Buffer r)])"

record emExternalYAML =
  emExternalY_PrometheusURL :: string
  emExternalY_PrometheusEnabled :: bool
  emExternalY_AlertManagerURL :: string
  emExternalY_AlertManagerEnabled :: bool
  emExternalY_ConnectionTimeout :: string
  emExternalY_TLSCaFile :: string

definition enc_emExternalYAML :: "emExternalYAML \<Rightarrow> yaml" where
  "enc_emExternalYAML r = YMap (concat
    [always_field ''prometheusUrl'' YStr (emExternalY_PrometheusURL r),
     always_field ''prometheusEnabled'' YBool (emExternalY_PrometheusEnabled r),
     always_field ''alertManagerUrl'' YStr (emExternalY_AlertManagerURL r),
     always_field ''alertManagerEnabled'' YBool (emExternalY_AlertManagerEnabled r),
     omit_empty '''' ''connectionTimeout'' YStr (emExternalY_ConnectionTimeout r),
     omit_empty '''' ''tlsCaFile'' YStr (emExternalY_TLSCaFile r)])"

record effectivenessMonitorConfigYAML =
  effectivenessMonitorConfigY_TLSCAFile :: string
  effectivenessMonitorConfigY_TLSProfile :: string
  effectivenessMonitorConfigY_Logging :: loggingYAML
  effectivenessMonitorConfigY_Assessment :: emAssessmentYAML
  effectivenessMonitorConfigY_Controller :: controllerBlock
  effectivenessMonitorConfigY_Datastorage :: emDatastorageYAML
  effectivenessMonitorConfigY_External :: "emExternalYAML option"
  effectivenessMonitorConfigY_Fleet :: "fleetConfigYAML option"
  effectivenessMonitorConfigY_Debug :: debugYAML

definition enc_effectivenessMonitorConfigYAML :: "effectivenessMonitorConfigYAML \<Rightarrow> yaml" where
  "enc_effectivenessMonitorConfigYAML r = YMap (concat
    [omit_empty '''' ''tlsCaFile'' YStr (effectivenessMonitorConfigY_TLSCAFile r),
     omit_empty '''' ''tlsProfile'' YStr (effectivenessMonitorConfigY_TLSProfile r),
     always_field ''logging'' enc_loggingYAML (effectivenessMonitorConfigY_Logging r),
     always_field ''assessment'' enc_emAssessmentYAML (effectivenessMonitorConfigY_Assessment r),
     always_field ''controller'' enc_controllerBlock (effectivenessMonitorConfigY_Controller r),
     always_field ''datastorage'' enc_emDatastorageYAML (effectivenessMonitorConfigY_Datastorage r),
     omit_empty None ''external'' (enc_pointer enc_emExternalYAML) (effectivenessMonitorConfigY_External r),
     omit_empty None ''fleet'' (enc_pointer enc_fleetConfigYAML) (effectivenessMonitorConfigY_Fleet r),
     always_field ''debug'' enc_debugYAML (effectivenessMonitorConfigY_Debug r)])"

record notificationConsoleYAML =
  notificationConsoleY_Enabled :: bool

definition enc_notificationConsoleYAML :: "notificationConsoleYAML \<Rightarrow> yaml" where
  "enc_notificationConsoleYAML r = YMap (concat
    [always_field ''enabled'' YBool (notificationConsoleY_Enabled r)])"

record notificationFileYAML =
  notificationFileY_OutputDir :: string
  notificationFileY_Format :: string
  notificationFileY_Timeout :: string

definition enc_notificationFileYAML :: "notificationFileYAML \<Rightarrow> yaml" where
  "enc_notificationFileYAML r = YMap (concat
    [always_field ''outputDir'' YStr (notificationFileY_OutputDir r),
     always_field ''format'' YStr (notificationFileY_Format r),
     always_field ''timeout'' YStr (notificationFileY_Timeout r)])"

record notificationLogYAML =
  notificationLogY_Enabled :: bool
  notificationLogY_Format :: string

definition enc_notificationLogYAML :: "notificationLogYAML \<Rightarrow> yaml" where
  "enc_notificationLogYAML r = YMap (concat
    [always_field ''enabled'' YBool (notificationLogY_Enabled r),
     always_field ''format'' YStr (notificationLogY_Format r)])"

record notificationSlackYAML =
  notificationSlackY_Timeout :: string

definition enc_notificationSlackYAML :: "notificationSlackYAML \<Rightarrow> yaml" where
  "enc_notificationSlackYAML r = YMap (concat
    [always_field ''timeout'' YStr (notificationSlackY_Timeout r)])"

record notificationCredentialsYAML =
  notificationCredentialsY_Dir :: string

definition enc_notificationCredentialsYAML :: "notificationCredentialsYAML \<Rightarrow> yaml" where
  "enc_notificationCredentialsYAML r = YMap (concat
    [always_field ''dir'' YStr (notificationCredentialsY_Dir r)])"

record notificationDeliveryYAML =
  notificationDeliveryY_Console :: notificationConsoleYAML
  notificationDeliveryY_File :: notificationFileYAML
  notificationDeliveryY_Log :: notificationLogYAML
  notificationDeliveryY_Slack :: notificationSlackYAML
  notificationDeliveryY_Credentials :: notificationCredentialsYAML

definition enc_notificationDeliveryYAML :: "notificationDeliveryYAML \<Rightarrow> yaml" where
  "enc_notificationDeliveryYAML r = YMap (concat
    [always_field ''console'' enc_notificationConsoleYAML (notificationDeliveryY_Console r),
     always_field ''file'' enc_notificationFileYAML (notificationDeliveryY_File r),
     always_field ''log'' enc_notificationLogYAML (notificationDeliveryY_Log r),
     always_field ''slack'' enc_notificationSlackYAML (notificationDeliveryY_Slack r),
     always_field ''credentials'' enc_notificationCredentialsYAML (notificationDeliveryY_Credentials r)])"

record notificationBufferYAML =
  notificationBufferY_BufferSize :: int
  notificationBufferY_BatchSize :: int
  notificationBufferY_FlushInterval :: string
  notificationBufferY_MaxRetries :: int

definition enc_notificationBufferYAML :: "notificationBufferYAML \<Rightarrow> yaml" where
  "enc_notificationBufferYAML r = YMap (concat
    [always_field ''bufferSize'' YInt (notificationBufferY_BufferSize r),
     always_field ''batchSize'' YInt (notificationBufferY_BatchSize r),
     always_field ''flushInterval'' YStr (notificationBufferY_FlushInterval r),
     always_field ''maxRetries'' YInt (notificationBufferY_MaxRetries r)])"

record notificationDatastorageYAML =
  notificationDatastorageY_URL :: string
  notificationDatastorageY_HealthURL :: string
  notificationDatastorageY_Timeout :: string
  notificationDatastorageY_Buffer :: notificationBufferYAML

definition enc_notificationDatastorageYAML :: "notificationDatastorageYAML \<Rightarrow> yaml" where
  "enc_notificationDatastorageYAML r = YMap (concat
    [always_field ''url'' YStr (notificationDatastorageY_URL r),
     always_field ''healthUrl'' YStr (notificationDatastorageY_HealthURL r),
     always_field ''timeout'' YStr (notificationDatastorageY_Timeout r),
     always_field ''buffer'' enc_notificationBufferYAML (notificationDatastorageY_Buffer r)])"

record notificationControllerConfigYAML =
  notificationControllerConfigY_TLSCAFile :: string
  notificationControllerConfigY_TLSProfile :: string
  notificationControllerConfigY_Logging :: loggingYAML
  notificationControllerConfigY_Controller :: controllerBlock
  notificationControllerConfigY_Delivery :: notificationDeliveryYAML
  notificationControllerConfigY_Datastorage :: notificationDatastorageYAML
  notificationControllerConfigY_Debug :: debugYAML

definition enc_notificationControllerConfigYAML :: "notificationControllerConfigYAML \<Rightarrow> yaml" where
  "enc_notificationControllerConfigYAML r = YMap (concat
    [omit_empty '''' ''tlsCaFile'' YStr (notificationControllerConfigY_TLSCAFile r),
     omit_empty '''' ''tlsProfile'' YStr (notificationControllerConfigY_TLSProfile r),
     always_field ''logging'' enc_loggingYAML (notificationControllerConfigY_Logging r),
     always_field ''controller'' enc_controllerBlock (notificationControllerConfigY_Controller r),
     always_field ''delivery'' enc_notificationDeliveryYAML (notificationControllerConfigY_Delivery r),
     always_field ''datastorage'' enc_notificationDatastorageYAML (notificationControllerConfigY_Datastorage r),
     always_field ''debug'' enc_debugYAML (notificationControllerConfigY_Debug r)])"

record notificationRoutingRoute =
  notificationRoutingRouteY_Receiver :: string
  notificationRoutingRouteY_MatchRE :: "string gomap"

definition enc_notificationRoutingRoute :: "notificationRoutingRoute \<Rightarrow> yaml" where
  "enc_notificationRoutingRoute r = YMap (concat
    [always_field ''receiver'' YStr (notificationRoutingRouteY_Receiver r),
     omit_empty [] ''matchRe'' (enc_map YStr) (notificationRoutingRouteY_MatchRE r)])"

record notificationRoutingConsoleReceiver =
  notificationRoutingConsoleReceiverY_Name :: string
  notificationRoutingConsoleReceiverY_Console :: unit

definition enc_notificationRoutingConsoleReceiver :: "notificationRoutingConsoleReceiver \<Rightarrow> yaml" where
  "enc_notificationRoutingConsoleReceiver r = YMap (concat
    [always_field ''name'' YStr (notificationRoutingConsoleReceiverY_Name r),
     always_field ''console'' (\<lambda>_. YMap []) (notificationRoutingConsoleReceiverY_Console r)])"

record notificationRoutingConsoleYAML =
  notificationRoutingConsoleY_Route :: notificationRoutingRoute
  notificationRoutingConsoleY_Receivers :: "notificationRoutingConsoleReceiver list"

definition enc_notificationRoutingConsoleYAML :: "notificationRoutingConsoleYAML \<Rightarrow> yaml" where
  "enc_notificationRoutingConsoleYAML r = YMap (concat
    [always_field ''route'' enc_notificationRoutingRoute (notificationRoutingConsoleY_Route r),
     always_field ''receivers'' (enc_slice enc_notificationRoutingConsoleReceiver) (notificationRoutingConsoleY_Receivers r)])"

record kubernautAgentServerTLSYAML =
  kubernautAgentServerTLSY_CertDir :: string

definition enc_kubernautAgentServerTLSYAML :: "kubernautAgentServerTLSYAML \<Rightarrow> yaml" where
  "enc_kubernautAgentServerTLSYAML r = YMap (concat
    [always_field ''certDir'' YStr (kubernautAgentServerTLSY_CertDir r)])"

record kaLoggingYAML =
  kaLoggingY_Level :: string
  kaLoggingY_Format :: string

definition enc_kaLoggingYAML :: "kaLoggingYAML \<Rightarrow> yaml" where
  "enc_kaLoggingYAML r = YMap (concat
    [always_field ''level'' YStr (kaLoggingY_Level r),
     always_field ''format'' YStr (kaLoggingY_Format r)])"

record kaRateLimitYAML =
  kaRateLimitY_RequestsPerSecond :: int
  kaRateLimitY_Burst :: int

definition enc_kaRateLimitYAML :: "kaRateLimitYAML \<Rightarrow> yaml" where
  "enc_kaRateLimitYAML r = YMap (concat
    [always_field ''requestsPerSecond'' YInt (kaRateLimitY_RequestsPerSecond r),
     always_field ''burst'' YInt (kaRateLimitY_Burst r)])"

record kaRuntimeServerYAML =
  kaRuntimeServerY_Address :: string
  kaRuntimeServerY_Port :: int
  kaRuntimeServerY_HealthAddr :: string
  kaRuntimeServerY_MetricsAddr :: string
  kaRuntimeServerY_TLS :: kubernautAgentServerTLSYAML
  kaRuntimeServerY_TLSProfile :: string
  kaRuntimeServerY_TLSCAFile :: string
  kaRuntimeServerY_RateLimit :: kaRateLimitYAML

definition enc_kaRuntimeServerYAML :: "kaRuntimeServerYAML \<Rightarrow> yaml" where
  "enc_kaRuntimeServerYAML r = YMap (concat
    [always_field ''address'' YStr (kaRuntimeServerY_Address r),
     always_field ''port'' YInt (kaRuntimeServerY_Port r),
     always_field ''healthAddr'' YStr (kaRuntimeServerY_HealthAddr r),
     always_field ''metricsAddr'' YStr (kaRuntimeServerY_MetricsAddr r),
     always_field ''tls'' enc_kubernautAgentServerTLSYAML (kaRuntimeServerY_TLS r),
     omit_empty '''' ''tlsProfile'' YStr (kaRuntimeServerY_TLSProfile r),
     omit_empty '''' ''tlsCaFile'' YStr (kaRuntimeServerY_TLSCAFile r),
     always_field ''rateLimit'' enc_kaRateLimitYAML (kaRuntimeServerY_RateLimit r)])"

record kaAuditYAML =
  kaAuditY_FlushIntervalSeconds :: float64
  kaAuditY_BufferSize :: int
  kaAuditY_BatchSize :: int

definition enc_kaAuditYAML :: "kaAuditYAML \<Rightarrow> yaml" where
  "enc_kaAuditYAML r = YMap (concat
    [always_field ''flushIntervalSeconds'' YFloat (kaAuditY_FlushIntervalSeconds r),
     always_field ''bufferSize'' YInt (kaAuditY_BufferSize r),
     always_field ''batchSize'' YInt (kaAuditY_BatchSize r)])"

record kaSessionYAML =
  kaSessionY_TTL :: string
  kaSessionY_MaxConcurrentInvestigations :: int

definition enc_kaSessionYAML :: "kaSessionYAML \<Rightarrow> yaml" where
  "enc_kaSessionYAML r = YMap (concat
    [omit_empty '''' ''ttl'' YStr (kaSessionY_TTL r),
     always_field ''maxConcurrentInvestigations'' YInt (kaSessionY_MaxConcurrentInvestigations r)])"

record kaShutdownYAML =
  kaShutdownY_DrainSeconds :: int

definition enc_kaShutdownYAML :: "kaShutdownYAML \<Rightarrow> yaml" where
  "enc_kaShutdownYAML r = YMap (concat
    [always_field ''drainSeconds'' YInt (kaShutdownY_DrainSeconds r)])"

record kaRuntimeYAML =
  kaRuntimeY_Logging :: kaLoggingYAML
  kaRuntimeY_Debug :: debugYAML
  kaRuntimeY_Server :: kaRuntimeServerYAML
  kaRuntimeY_Audit :: "kaAuditYAML option"
  kaRuntimeY_Session :: "kaSessionYAML option"
  kaRuntimeY_Shutdown :: kaShutdownYAML

definition enc_kaRuntimeYAML :: "kaRuntimeYAML \<Rightarrow> yaml" where
  "enc_kaRuntimeYAML r = YMap (concat
    [always_field ''logging'' enc_kaLoggingYAML (kaRuntimeY_Logging r),
     always_field ''debug'' enc_debugYAML (kaRuntimeY_Debug r),
     always_field ''server'' enc_kaRuntimeServerYAML (kaRuntimeY_Server r),
     omit_empty None ''audit'' (enc_pointer enc_kaAuditYAML) (kaRuntimeY_Audit r),
     omit_empty None ''session'' (enc_pointer enc_kaSessionYAML) (kaRuntimeY_Session r),
     always_field ''shutdown'' enc_kaShutdownYAML (kaRuntimeY_Shutdown r)])"

record kaOAuth2YAML =
  kaOAuth2Y_Enabled :: bool
  kaOAuth2Y_TokenURL :: string
  kaOAuth2Y_CredentialsDir :: string
  kaOAuth2Y_Scopes :: "string list"

definition enc_kaOAuth2YAML :: "kaOAuth2YAML \<Rightarrow> yaml" where
  "enc_kaOAuth2YAML r = YMap (concat
    [always_field ''enabled'' YBool (kaOAuth2Y_Enabled r),
     always_field ''tokenURL'' YStr (kaOAuth2Y_TokenURL r),
     always_field ''credentialsDir'' YStr (kaOAuth2Y_CredentialsDir r),
     omit_empty [] ''scopes'' (enc_slice YStr) (kaOAuth2Y_Scopes r)])"

record kaReasoningYAML =
  kaReasoningY_Enabled :: bool
  kaReasoningY_BudgetTokens :: "int option"
  kaReasoningY_Effort :: string
  kaReasoningY_CapabilityOverride :: string

definition enc_kaReasoningYAML :: "kaReasoningYAML \<Rightarrow> yaml" where
  "enc_kaReasoningYAML r = YMap (concat
    [always_field ''enabled'' YBool (kaReasoningY_Enabled r),
     omit_empty None ''budgetTokens'' (enc_pointer YInt) (kaReasoningY_BudgetTokens r),
     omit_empty '''' ''effort'' YStr (kaReasoningY_Effort r),
     omit_empty '''' ''capabilityOverride'' YStr (kaReasoningY_CapabilityOverride r)])"

record kaLLMYAML =
  kaLLMY_Provider :: string
  kaLLMY_VertexProject :: string
  kaLLMY_VertexLocation :: string
  kaLLMY_BedrockRegion :: string
  kaLLMY_AzureApiVersion :: string
  kaLLMY_TLSCaFile :: string
  kaLLMY_TLSCertFile :: string
  kaLLMY_TLSKeyFile :: string
  kaLLMY_OAuth2 :: "kaOAuth2YAML option"
  kaLLMY_Reasoning :: "kaReasoningYAML option"

definition enc_kaLLMYAML :: "kaLLMYAML \<Rightarrow> yaml" where
  "enc_kaLLMYAML r = YMap (concat
    [always_field ''provider'' YStr (kaLLMY_Provider r),
     omit_empty '''' ''vertexProject'' YStr (kaLLMY_VertexProject r),
     omit_empty '''' ''vertexLocation'' YStr (kaLLMY_VertexLocation r),
     omit_empty '''' ''bedrockRegion'' YStr (kaLLMY_BedrockRegion r),
     omit_empty '''' ''azureApiVersion'' YStr (kaLLMY_AzureApiVersion r),
     omit_empty '''' ''tlsCaFile'' YStr (kaLLMY_TLSCaFile r),
     omit_empty '''' ''tlsCertFile'' YStr (kaLLMY_TLSCertFile r),
     omit_empty '''' ''tlsKeyFile'' YStr (kaLLMY_TLSKeyFile r),
     omit_empty None ''oauth2'' (enc_pointer enc_kaOAuth2YAML) (kaLLMY_OAuth2 r),
     omit_empty None ''reasoning'' (enc_pointer enc_kaReasoningYAML) (kaLLMY_Reasoning r)])"

record kaInvestigationYAML =
  kaInvestigationY_MaxTurns :: int
  kaInvestigationY_MaxEvidenceHandoffBytes :: int

definition enc_kaInvestigationYAML :: "kaInvestigationYAML \<Rightarrow> yaml" where
  "enc_kaInvestigationYAML r = YMap (concat
    [always_field ''maxTurns'' YInt (kaInvestigationY_MaxTurns r),
     always_field ''maxEvidenceHandoffBytes'' YInt (kaInvestigationY_MaxEvidenceHandoffBytes r)])"

record kaAlignLLMYAML =
  kaAlignLLMY_Provider :: string
  kaAlignLLMY_Model :: string
  kaAlignLLMY_Endpoint :: string
  kaAlignLLMY_APIKeyFile :: string
  kaAlignLLMY_Temperature :: "float64 option"
  kaAlignLLMY_MaxRetries :: int
  kaAlignLLMY_TimeoutSeconds :: int
  kaAlignLLMY_VertexProject :: string
  kaAlignLLMY_VertexLocation :: string
  kaAlignLLMY_BedrockRegion :: string
  kaAlignLLMY_AzureApiVersion :: string
  kaAlignLLMY_TLSCaFile :: string
  kaAlignLLMY_TLSCertFile :: string
  kaAlignLLMY_TLSKeyFile :: string
  kaAlignLLMY_OAuth2 :: "kaOAuth2YAML option"
  kaAlignLLMY_Reasoning :: "kaReasoningYAML option"

definition enc_kaAlignLLMYAML :: "kaAlignLLMYAML \<Rightarrow> yaml" where
  "enc_kaAlignLLMYAML r = YMap (concat
    [omit_empty '''' ''provider'' YStr (kaAlignLLMY_Provider r),
     omit_empty '''' ''model'' YStr (kaAlignLLMY_Model r),
     omit_empty '''' ''endpoint'' YStr (kaAlignLLMY_Endpoint r),
     omit_empty '''' ''apiKeyFile'' YStr (kaAlignLLMY_APIKeyFile r),
     omit_empty None ''temperature'' (enc_pointer YFloat) (kaAlignLLMY_Temperature r),
     omit_empty 0 ''maxRetries'' YInt (kaAlignLLMY_MaxRetries r),
     omit_empty 0 ''timeoutSeconds'' YInt (kaAlignLLMY_TimeoutSeconds r),
     omit_empty '''' ''vertexProject'' YStr (kaAlignLLMY_VertexProject r),
     omit_empty '''' ''vertexLocation'' YStr (kaAlignLLMY_VertexLocation r),
     omit_empty '''' ''bedrockRegion'' YStr (kaAlignLLMY_BedrockRegion r),
     omit_empty '''' ''azureApiVersion'' YStr (kaAlignLLMY_AzureApiVersion r),
     omit_empty '''' ''tlsCaFile'' YStr (kaAlignLLMY_TLSCaFile r),
     omit_empty '''' ''tlsCertFile'' YStr (kaAlignLLMY_TLSCertFile r),
     omit_empty '''' ''tlsKeyFile'' YStr (kaAlignLLMY_TLSKeyFile r),
     omit_empty None ''oauth2'' (enc_pointer enc_kaOAuth2YAML) (kaAlignLLMY_OAuth2 r),
     omit_empty None ''reasoning'' (enc_pointer enc_kaReasoningYAML) (kaAlignLLMY_Reasoning r)])"

record kaAlignmentYAML =
  kaAlignmentY_Enabled :: bool
  kaAlignmentY_Timeout :: string
  kaAlignmentY_MaxStepTokens :: int
  kaAlignmentY_LLM :: "kaAlignLLMYAML option"

definition enc_kaAlignmentYAML :: "kaAlignmentYAML \<Rightarrow> yaml" where
  "enc_kaAlignmentYAML r = YMap (concat
    [always_field ''enabled'' YBool (kaAlignmentY_Enabled r),
     always_field ''timeout'' YStr (kaAlignmentY_Timeout r),
     always_field ''maxStepTokens'' YInt (kaAlignmentY_MaxStepTokens r),
     omit_empty None ''llm'' (enc_pointer enc_kaAlignLLMYAML) (kaAlignmentY_LLM r)])"

record kaSummarizerYAML =
  kaSummarizerY_Threshold :: int
  kaSummarizerY_MaxToolOutputSize :: int

definition enc_kaSummarizerYAML :: "kaSummarizerYAML \<Rightarrow> yaml" where
  "enc_kaSummarizerYAML r = YMap (concat
    [always_field ''threshold'' YInt (kaSummarizerY_Threshold r),
     always_field ''maxToolOutputSize'' YInt (kaSummarizerY_MaxToolOutputSize r)])"

record kaSanitizationYAML =
  kaSanitizationY_InjectionPatternsEnabled :: bool
  kaSanitizationY_CredentialScrubEnabled :: bool

definition enc_kaSanitizationYAML :: "kaSanitizationYAML \<Rightarrow> yaml" where
  "enc_kaSanitizationYAML r = YMap (concat
    [always_field ''injectionPatternsEnabled'' YBool (kaSanitizationY_InjectionPatternsEnabled r),
     always_field ''credentialScrubEnabled'' YBool (kaSanitizationY_CredentialScrubEnabled r)])"

record kaAnomalyYAML =
  kaAnomalyY_MaxToolCallsPerTool :: int
  kaAnomalyY_MaxTotalToolCalls :: int
  kaAnomalyY_MaxRepeatedFailures :: int

definition enc_kaAnomalyYAML :: "kaAnomalyYAML \<Rightarrow> yaml" where
  "enc_kaAnomalyYAML r = YMap (concat
    [always_field ''maxToolCallsPerTool'' YInt (kaAnomalyY_MaxToolCallsPerTool r),
     always_field ''maxTotalToolCalls'' YInt (kaAnomalyY_MaxTotalToolCalls r),
     always_field ''maxRepeatedFailures'' YInt (kaAnomalyY_MaxRepeatedFailures r)])"

record kaSafetyYAML =
  kaSafetyY_Sanitization :: kaSanitizationYAML
  kaSafetyY_Anomaly :: kaAnomalyYAML

definition enc_kaSafetyYAML :: "kaSafetyYAML \<Rightarrow> yaml" where
  "enc_kaSafetyYAML r = YMap (concat
    [always_field ''sanitization'' enc_kaSanitizationYAML (kaSafetyY_Sanitization r),
     always_field ''anomaly'' enc_kaAnomalyYAML (kaSafetyY_Anomaly r)])"

record kaAIYAML =
  kaAIY_LLM :: kaLLMYAML
  kaAIY_Investigation :: kaInvestigationYAML
  kaAIY_AlignmentCheck :: "kaAlignmentYAML option"
  kaAIY_Summarizer :: "kaSummarizerYAML option"
  kaAIY_Safety :: "kaSafetyYAML option"

definition enc_kaAIYAML :: "kaAIYAML \<Rightarrow> yaml" where
  "enc_kaAIYAML r = YMap (concat
    [always_field ''llm'' enc_kaLLMYAML (kaAIY_LLM r),
     always_field ''investigation'' enc_kaInvestigationYAML (kaAIY_Investigation r),
     omit_empty None ''alignmentCheck'' (enc_pointer enc_kaAlignmentYAML) (kaAIY_AlignmentCheck r),
     omit_empty None ''summarizer'' (enc_pointer enc_kaSummarizerYAML) (kaAIY_Summarizer r),
     omit_empty None ''safety'' (enc_pointer enc_kaSafetyYAML) (kaAIY_Safety r)])"

record kaIntegrationsDataStorageYAML =
  kaIntegrationsDataStorageY_URL :: string
  kaIntegrationsDataStorageY_HealthURL :: string

definition enc_kaIntegrationsDataStorageYAML :: "kaIntegrationsDataStorageYAML \<Rightarrow> yaml" where
  "enc_kaIntegrationsDataStorageYAML r = YMap (concat
    [always_field ''url'' YStr (kaIntegrationsDataStorageY_URL r),
     always_field ''healthUrl'' YStr (kaIntegrationsDataStorageY_HealthURL r)])"

record kaIntegrationsPrometheusYAML =
  kaIntegrationsPrometheusY_URL :: string
  kaIntegrationsPrometheusY_TLSCaFile :: string

definition enc_kaIntegrationsPrometheusYAML :: "kaIntegrationsPrometheusYAML \<Rightarrow> yaml" where
  "enc_kaIntegrationsPrometheusYAML r = YMap (concat
    [always_field ''url'' YStr (kaIntegrationsPrometheusY_URL r),
     omit_empty '''' ''tlsCaFile'' YStr (kaIntegrationsPrometheusY_TLSCaFile r)])"

record kaIntegrationsAlertmanagerYAML =
  kaIntegrationsAlertmanagerY_URL :: string
  kaIntegrationsAlertmanagerY_TLSCaFile :: string

definition enc_kaIntegrationsAlertmanagerYAML :: "kaIntegrationsAlertmanagerYAML \<Rightarrow> yaml" where
  "enc_kaIntegrationsAlertmanagerYAML r = YMap (concat
    [always_field ''url'' YStr (kaIntegrationsAlertmanagerY_URL r),
     omit_empty '''' ''tlsCaFile'' YStr (kaIntegrationsAlertmanagerY_TLSCaFile r)])"

record kaIntegrationsToolsYAML =
  kaIntegrationsToolsY_Prometheus :: kaIntegrationsPrometheusYAML
  kaIntegrationsToolsY_Alertmanager :: "kaIntegrationsAlertmanagerYAML option"

definition enc_kaIntegrationsToolsYAML :: "kaIntegrationsToolsYAML \<Rightarrow> yaml" where
  "enc_kaIntegrationsToolsYAML r = YMap (concat
    [always_field ''prometheus'' enc_kaIntegrationsPrometheusYAML (kaIntegrationsToolsY_Prometheus r),
     omit_empty None ''alertmanager'' (enc_pointer enc_kaIntegrationsAlertmanagerYAML) (kaIntegrationsToolsY_Alertmanager r)])"

record kaFleetOAuth2YAML =
  kaFleetOAuth2Y_Enabled :: bool
  kaFleetOAuth2Y_TokenURL :: string
  kaFleetOAuth2Y_CredentialsSecretRef :: string
  kaFleetOAuth2Y_Scopes :: "string list"
  kaFleetOAuth2Y_TLSCaFile :: string

definition enc_kaFleetOAuth2YAML :: "kaFleetOAuth2YAML \<Rightarrow> yaml" where
  "enc_kaFleetOAuth2YAML r = YMap (concat
    [always_field ''enabled'' YBool (kaFleetOAuth2Y_Enabled r),
     omit_empty '''' ''tokenURL'' YStr (kaFleetOAuth2Y_TokenURL r),
     omit_empty '''' ''credentialsSecretRef'' YStr (kaFleetOAuth2Y_CredentialsSecretRef r),
     omit_empty [] ''scopes'' (enc_slice YStr) (kaFleetOAuth2Y_Scopes r),
     omit_empty '''' ''tlsCaFile'' YStr (kaFleetOAuth2Y_TLSCaFile r)])"

record kaFleetYAML =
  kaFleetY_Endpoint :: string
  kaFleetY_GatewayType :: string
  kaFleetY_MCPGatewayTLSCAFile :: string
  kaFleetY_OAuth2 :: "kaFleetOAuth2YAML option"
  kaFleetY_Resilience :: "fleetResilienceYAML option"

definition enc_kaFleetYAML :: "kaFleetYAML \<Rightarrow> yaml" where
  "enc_kaFleetYAML r = YMap (concat
    [always_field ''endpoint'' YStr (kaFleetY_Endpoint r),
     always_field ''gatewayType'' YStr (kaFleetY_GatewayType r),
     omit_empty '''' ''mcpGatewayTLSCAFile'' YStr (kaFleetY_MCPGatewayTLSCAFile r),
     omit_empty None ''oauth2'' (enc_pointer enc_kaFleetOAuth2YAML) (kaFleetY_OAuth2 r),
     omit_empty None ''resilience'' (enc_pointer enc_fleetResilienceYAML) (kaFleetY_Resilience r)])"

record kaIntegrationsYAML =
  kaIntegrationsY_DataStorage :: kaIntegrationsDataStorageYAML
  kaIntegrationsY_Tools :: "kaIntegrationsToolsYAML option"
  kaIntegrationsY_Fleet :: "kaFleetYAML option"

definition enc_kaIntegrationsYAML :: "kaIntegrationsYAML \<Rightarrow> yaml" where
  "enc_kaIntegrationsYAML r = YMap (concat
    [always_field ''dataStorage'' enc_kaIntegrationsDataStorageYAML (kaIntegrationsY_DataStorage r),
     omit_empty None ''tools'' (enc_pointer enc_kaIntegrationsToolsYAML) (kaIntegrationsY_Tools r),
     omit_empty None ''fleet'' (enc_pointer enc_kaFleetYAML) (kaIntegrationsY_Fleet r)])"

record kaInteractiveYAML =
  kaInteractiveY_Enabled :: bool
  kaInteractiveY_SessionTTL :: string
  kaInteractiveY_InactivityTimeout :: string
  kaInteractiveY_MaxConcurrentSessions :: "int option"
  kaInteractiveY_RateLimitPerUser :: "int option"

definition enc_kaInteractiveYAML :: "kaInteractiveYAML \<Rightarrow> yaml" where
  "enc_kaInteractiveYAML r = YMap (concat
    [always_field ''enabled'' YBool (kaInteractiveY_Enabled r),
     omit_empty '''' ''sessionTTL'' YStr (kaInteractiveY_SessionTTL r),
     omit_empty '''' ''inactivityTimeout'' YStr (kaInteractiveY_InactivityTimeout r),
     omit_empty None ''maxConcurrentSessions'' (enc_pointer YInt) (kaInteractiveY_MaxConcurrentSessions r),
     omit_empty None ''rateLimitPerUser'' (enc_pointer YInt) (kaInteractiveY_RateLimitPerUser r)])"

record kubernautAgentConfigYAML =
  kubernautAgentConfigY_Runtime :: kaRuntimeYAML
  kubernautAgentConfigY_AI :: kaAIYAML
  kubernautAgentConfigY_Integrations :: kaIntegrationsYAML
  kubernautAgentConfigY_Interactive :: "kaInteractiveYAML option"
  kubernautAgentConfigY_Telemetry :: "telemetryYAML option"

definition enc_kubernautAgentConfigYAML :: "kubernautAgentConfigYAML \<Rightarrow> yaml" where
  "enc_kubernautAgentConfigYAML r = YMap (concat
    [always_field ''runtime'' enc_kaRuntimeYAML (kubernautAgentConfigY_Runtime r),
     always_field ''ai'' enc_kaAIYAML (kubernautAgentConfigY_AI r),
     always_field ''integrations'' enc_kaIntegrationsYAML (kubernautAgentConfigY_Integrations r),
     omit_empty None ''interactive'' (enc_pointer enc_kaInteractiveYAML) (kubernautAgentConfigY_Interactive r),
     omit_empty None ''telemetry'' (enc_pointer enc_telemetryYAML) (kubernautAgentConfigY_Telemetry r)])"

record llmPhaseOverrideYAML =
  llmPhaseOverrideY_Provider :: string
  llmPhaseOverrideY_Model :: string
  llmPhaseOverrideY_Endpoint :: string
  llmPhaseOverrideY_APIKeyFile :: string
  llmPhaseOverrideY_Temperature :: "float64 option"
  llmPhaseOverrideY_MaxRetries :: int
  llmPhaseOverrideY_TimeoutSeconds :: int
  llmPhaseOverrideY_VertexProject :: string
  llmPhaseOverrideY_VertexLocation :: string
  llmPhaseOverrideY_BedrockRegion :: string
  llmPhaseOverrideY_AzureApiVersion :: string
  llmPhaseOverrideY_TLSCaFile :: string
  llmPhaseOverrideY_TLSCertFile :: string
  llmPhaseOverrideY_TLSKeyFile :: string
  llmPhaseOverrideY_OAuth2 :: "kaOAuth2YAML option"
  llmPhaseOverrideY_Reasoning :: "kaReasoningYAML option"

definition enc_llmPhaseOverrideYAML :: "llmPhaseOverrideYAML \<Rightarrow> yaml" where
  "enc_llmPhaseOverrideYAML r = YMap (concat
    [omit_empty '''' ''provider'' YStr (llmPhaseOverrideY_Provider r),
     omit_empty '''' ''model'' YStr (llmPhaseOverrideY_Model r),
     omit_empty '''' ''endpoint'' YStr (llmPhaseOverrideY_Endpoint r),
     omit_empty '''' ''apiKeyFile'' YStr (llmPhaseOverrideY_APIKeyFile r),
     omit_empty None ''temperature'' (enc_pointer YFloat) (llmPhaseOverrideY_Temperature r),
     omit_empty 0 ''maxRetries'' YInt (llmPhaseOverrideY_MaxRetries r),
     omit_empty 0 ''timeoutSeconds'' YInt (llmPhaseOverrideY_TimeoutSeconds r),
     omit_empty '''' ''vertexProject'' YStr (llmPhaseOverrideY_VertexProject r),
     omit_empty '''' ''vertexLocation'' YStr (llmPhaseOverrideY_VertexLocation r),
     omit_empty '''' ''bedrockRegion'' YStr (llmPhaseOverrideY_BedrockRegion r),
     omit_empty '''' ''azureApiVersion'' YStr (llmPhaseOverrideY_AzureApiVersion r),
     omit_empty '''' ''tlsCaFile'' YStr (llmPhaseOverrideY_TLSCaFile r),
     omit_empty '''' ''tlsCertFile'' YStr (llmPhaseOverrideY_TLSCertFile r),
     omit_empty '''' ''tlsKeyFile'' YStr (llmPhaseOverrideY_TLSKeyFile r),
     omit_empty None ''oauth2'' (enc_pointer enc_kaOAuth2YAML) (llmPhaseOverrideY_OAuth2 r),
     omit_empty None ''reasoning'' (enc_pointer enc_kaReasoningYAML) (llmPhaseOverrideY_Reasoning r)])"

record llmRuntimeYAML =
  llmRuntimeY_Provider :: string
  llmRuntimeY_Model :: string
  llmRuntimeY_Endpoint :: string
  llmRuntimeY_Temperature :: "float64 option"
  llmRuntimeY_MaxRetries :: int
  llmRuntimeY_TimeoutSeconds :: int
  llmRuntimeY_VertexProject :: string
  llmRuntimeY_VertexLocation :: string
  llmRuntimeY_PhaseModels :: "llmPhaseOverrideYAML gomap"

definition enc_llmRuntimeYAML :: "llmRuntimeYAML \<Rightarrow> yaml" where
  "enc_llmRuntimeYAML r = YMap (concat
    [omit_empty '''' ''provider'' YStr (llmRuntimeY_Provider r),
     always_field ''model'' YStr (llmRuntimeY_Model r),
     omit_empty '''' ''endpoint'' YStr (llmRuntimeY_Endpoint r),
     omit_empty None ''temperature'' (enc_pointer YFloat) (llmRuntimeY_Temperature r),
     always_field ''maxRetries'' YInt (llmRuntimeY_MaxRetries r),
     always_field ''timeoutSeconds'' YInt (llmRuntimeY_TimeoutSeconds r),
     omit_empty '''' ''vertexProject'' YStr (llmRuntimeY_VertexProject r),
     omit_empty '''' ''vertexLocation'' YStr (llmRuntimeY_VertexLocation r),
     omit_empty [] ''phaseModels'' (enc_map enc_llmPhaseOverrideYAML) (llmRuntimeY_PhaseModels r)])"

record authWebhookWebhookYAML =
  authWebhookWebhookY_Port :: int
  authWebhookWebhookY_CertDir :: string
  authWebhookWebhookY_HealthProbeAddr :: string

definition enc_authWebhookWebhookYAML :: "authWebhookWebhookYAML \<Rightarrow> yaml" where
  "enc_authWebhookWebhookYAML r = YMap (concat
    [always_field ''port'' YInt (authWebhookWebhookY_Port r),
     always_field ''certDir'' YStr (authWebhookWebhookY_CertDir r),
     always_field ''healthProbeAddr'' YStr (authWebhookWebhookY_HealthProbeAddr r)])"

record authWebhookBufferYAML =
  authWebhookBufferY_BufferSize :: int
  authWebhookBufferY_BatchSize :: int
  authWebhookBufferY_FlushInterval :: string
  authWebhookBufferY_MaxRetries :: int

definition enc_authWebhookBufferYAML :: "authWebhookBufferYAML \<Rightarrow> yaml" where
  "enc_authWebhookBufferYAML r = YMap (concat
    [always_field ''bufferSize'' YInt (authWebhookBufferY_BufferSize r),
     always_field ''batchSize'' YInt (authWebhookBufferY_BatchSize r),
     always_field ''flushInterval'' YStr (authWebhookBufferY_FlushInterval r),
     always_field ''maxRetries'' YInt (authWebhookBufferY_MaxRetries r)])"

record authWebhookDatastorageYAML =
  authWebhookDatastorageY_URL :: string
  authWebhookDatastorageY_HealthURL :: string
  authWebhookDatastorageY_Timeout :: string
  authWebhookDatastorageY_Buffer :: authWebhookBufferYAML

definition enc_authWebhookDatastorageYAML :: "authWebhookDatastorageYAML \<Rightarrow> yaml" where
  "enc_authWebhookDatastorageYAML r = YMap (concat
    [always_field ''url'' YStr (authWebhookDatastorageY_URL r),
     always_field ''healthUrl'' YStr (authWebhookDatastorageY_HealthURL r),
     always_field ''timeout'' YStr (authWebhookDatastorageY_Timeout r),
     always_field ''buffer'' enc_authWebhookBufferYAML (authWebhookDatastorageY_Buffer r)])"

record authWebhookConfigYAML =
  authWebhookConfigY_TLSCAFile :: string
  authWebhookConfigY_TLSProfile :: string
  authWebhookConfigY_Logging :: loggingYAML
  authWebhookConfigY_Webhook :: authWebhookWebhookYAML
  authWebhookConfigY_Datastorage :: authWebhookDatastorageYAML
  authWebhookConfigY_Debug :: debugYAML

definition enc_authWebhookConfigYAML :: "authWebhookConfigYAML \<Rightarrow> yaml" where
  "enc_authWebhookConfigYAML r = YMap (concat
    [omit_empty '''' ''tlsCaFile'' YStr (authWebhookConfigY_TLSCAFile r),
     omit_empty '''' ''tlsProfile'' YStr (authWebhookConfigY_TLSProfile r),
     always_field ''logging'' enc_loggingYAML (authWebhookConfigY_Logging r),
     always_field ''webhook'' enc_authWebhookWebhookYAML (authWebhookConfigY_Webhook r),
     always_field ''datastorage'' enc_authWebhookDatastorageYAML (authWebhookConfigY_Datastorage r),
     always_field ''debug'' enc_debugYAML (authWebhookConfigY_Debug r)])"

record afTLSYAML =
  afTLSY_CertDir :: string
  afTLSY_Required :: bool

definition enc_afTLSYAML :: "afTLSYAML \<Rightarrow> yaml" where
  "enc_afTLSYAML r = YMap (concat
    [always_field ''certDir'' YStr (afTLSY_CertDir r),
     always_field ''required'' YBool (afTLSY_Required r)])"

record afServerYAML =
  afServerY_Port :: int
  afServerY_MetricsPort :: int
  afServerY_HealthPort :: int
  afServerY_TLS :: afTLSYAML

definition enc_afServerYAML :: "afServerYAML \<Rightarrow> yaml" where
  "enc_afServerYAML r = YMap (concat
    [always_field ''port'' YInt (afServerY_Port r),
     omit_empty 0 ''metricsPort'' YInt (afServerY_MetricsPort r),
     omit_empty 0 ''healthPort'' YInt (afServerY_HealthPort r),
     always_field ''tls'' enc_afTLSYAML (afServerY_TLS r)])"

record afAgentLLMOAuth2YAML =
  afAgentLLMOAuth2Y_Enabled :: bool
  afAgentLLMOAuth2Y_TokenURL :: string
  afAgentLLMOAuth2Y_Scopes :: "string list"
  afAgentLLMOAuth2Y_CredentialsDir :: string

definition enc_afAgentLLMOAuth2YAML :: "afAgentLLMOAuth2YAML \<Rightarrow> yaml" where
  "enc_afAgentLLMOAuth2YAML r = YMap (concat
    [always_field ''enabled'' YBool (afAgentLLMOAuth2Y_Enabled r),
     omit_empty '''' ''tokenURL'' YStr (afAgentLLMOAuth2Y_TokenURL r),
     omit_empty [] ''scopes'' (enc_slice YStr) (afAgentLLMOAuth2Y_Scopes r),
     omit_empty '''' ''credentialsDir'' YStr (afAgentLLMOAuth2Y_CredentialsDir r)])"

record afReasoningYAML =
  afReasoningY_Enabled :: bool
  afReasoningY_BudgetTokens :: "int option"
  afReasoningY_Effort :: string
  afReasoningY_CapabilityOverride :: string

definition enc_afReasoningYAML :: "afReasoningYAML \<Rightarrow> yaml" where
  "enc_afReasoningYAML r = YMap (concat
    [always_field ''enabled'' YBool (afReasoningY_Enabled r),
     omit_empty None ''budgetTokens'' (enc_pointer YInt) (afReasoningY_BudgetTokens r),
     omit_empty '''' ''effort'' YStr (afReasoningY_Effort r),
     omit_empty '''' ''capabilityOverride'' YStr (afReasoningY_CapabilityOverride r)])"

record afAgentLLMYAML =
  afAgentLLMY_Provider :: string
  afAgentLLMY_Model :: string
  afAgentLLMY_Endpoint :: string
  afAgentLLMY_APIKeyFile :: string
  afAgentLLMY_VertexProject :: string
  afAgentLLMY_VertexLocation :: string
  afAgentLLMY_TLSCaFile :: string
  afAgentLLMY_TLSCertFile :: string
  afAgentLLMY_TLSKeyFile :: string
  afAgentLLMY_OAuth2 :: "afAgentLLMOAuth2YAML option"
  afAgentLLMY_Reasoning :: "afReasoningYAML option"

definition enc_afAgentLLMYAML :: "afAgentLLMYAML \<Rightarrow> yaml" where
  "enc_afAgentLLMYAML r = YMap (concat
    [always_field ''provider'' YStr (afAgentLLMY_Provider r),
     always_field ''model'' YStr (afAgentLLMY_Model r),
     omit_empty '''' ''endpoint'' YStr (afAgentLLMY_Endpoint r),
     omit_empty '''' ''apiKeyFile'' YStr (afAgentLLMY_APIKeyFile r),
     omit_empty '''' ''vertexProject'' YStr (afAgentLLMY_VertexProject r),
     omit_empty '''' ''vertexLocation'' YStr (afAgentLLMY_VertexLocation r),
     omit_empty '''' ''tlsCaFile'' YStr (afAgentLLMY_TLSCaFile r),
     omit_empty '''' ''tlsCertFile'' YStr (afAgentLLMY_TLSCertFile r),
     omit_empty '''' ''tlsKeyFile'' YStr (afAgentLLMY_TLSKeyFile r),
     omit_empty None ''oauth2'' (enc_pointer enc_afAgentLLMOAuth2YAML) (afAgentLLMY_OAuth2 r),
     omit_empty None ''reasoning'' (enc_pointer enc_afReasoningYAML) (afAgentLLMY_Reasoning r)])"

record afAgentYAML =
  afAgentY_KABaseURL :: string
  afAgentY_KAMCPEndpoint :: string
  afAgentY_DSBaseURL :: string
  afAgentY_DSHealthURL :: string
  afAgentY_DSBearerTokenFile :: string
  afAgentY_KABearerTokenFile :: string
  afAgentY_KATLSCAFile :: string
  afAgentY_DSTLSCAFile :: string
  afAgentY_LLM :: afAgentLLMYAML

definition enc_afAgentYAML :: "afAgentYAML \<Rightarrow> yaml" where
  "enc_afAgentYAML r = YMap (concat
    [always_field ''kaBaseURL'' YStr (afAgentY_KABaseURL r),
     always_field ''kaMCPEndpoint'' YStr (afAgentY_KAMCPEndpoint r),
     always_field ''dsBaseURL'' YStr (afAgentY_DSBaseURL r),
     always_field ''dsHealthURL'' YStr (afAgentY_DSHealthURL r),
     omit_empty '''' ''dsBearerTokenFile'' YStr (afAgentY_DSBearerTokenFile r),
     omit_empty '''' ''kaBearerTokenFile'' YStr (afAgentY_KABearerTokenFile r),
     always_field ''kaTlsCaFile'' YStr (afAgentY_KATLSCAFile r),
     always_field ''dsTlsCaFile'' YStr (afAgentY_DSTLSCAFile r),
     always_field ''llm'' enc_afAgentLLMYAML (afAgentY_LLM r)])"

record afMCPYAML =
  afMCPY_Enabled :: bool
  afMCPY_SessionIdleTimeout :: string
  afMCPY_ToolTimeout :: string
  afMCPY_ToolTimeouts :: "string gomap"

definition enc_afMCPYAML :: "afMCPYAML \<Rightarrow> yaml" where
  "enc_afMCPYAML r = YMap (concat
    [always_field ''enabled'' YBool (afMCPY_Enabled r),
     omit_empty '''' ''sessionIdleTimeout'' YStr (afMCPY_SessionIdleTimeout r),
     omit_empty '''' ''toolTimeout'' YStr (afMCPY_ToolTimeout r),
     omit_empty [] ''toolTimeouts'' (enc_map YStr) (afMCPY_ToolTimeouts r)])"

record afAgentCardYAML =
  afAgentCardY_Name :: string
  afAgentCardY_URL :: string

definition enc_afAgentCardYAML :: "afAgentCardYAML \<Rightarrow> yaml" where
  "enc_afAgentCardYAML r = YMap (concat
    [omit_empty '''' ''name'' YStr (afAgentCardY_Name r),
     always_field ''url'' YStr (afAgentCardY_URL r)])"

record afReplayCacheYAML =
  afReplayCacheY_Backend :: string
  afReplayCacheY_RedisAddr :: string
  afReplayCacheY_RedisDB :: int
  afReplayCacheY_CredentialsPath :: string

definition enc_afReplayCacheYAML :: "afReplayCacheYAML \<Rightarrow> yaml" where
  "enc_afReplayCacheYAML r = YMap (concat
    [always_field ''backend'' YStr (afReplayCacheY_Backend r),
     omit_empty '''' ''redisAddr'' YStr (afReplayCacheY_RedisAddr r),
     omit_empty 0 ''redisDB'' YInt (afReplayCacheY_RedisDB r),
     omit_empty '''' ''credentialsPath'' YStr (afReplayCacheY_CredentialsPath r)])"

record afClaimMappingsYAML =
  afClaimMappingsY_Username :: string
  afClaimMappingsY_Groups :: string

definition enc_afClaimMappingsYAML :: "afClaimMappingsYAML \<Rightarrow> yaml" where
  "enc_afClaimMappingsYAML r = YMap (concat
    [omit_empty '''' ''username'' YStr (afClaimMappingsY_Username r),
     omit_empty '''' ''groups'' YStr (afClaimMappingsY_Groups r)])"

record afJWTProviderYAML =
  afJWTProviderY_Name :: string
  afJWTProviderY_IssuerURL :: string
  afJWTProviderY_JWKSURL :: string
  afJWTProviderY_Audiences :: "string list"
  afJWTProviderY_ClaimMappings :: "afClaimMappingsYAML option"

definition enc_afJWTProviderYAML :: "afJWTProviderYAML \<Rightarrow> yaml" where
  "enc_afJWTProviderYAML r = YMap (concat
    [always_field ''name'' YStr (afJWTProviderY_Name r),
     always_field ''issuerURL'' YStr (afJWTProviderY_IssuerURL r),
     omit_empty '''' ''jwksURL'' YStr (afJWTProviderY_JWKSURL r),
     always_field ''audiences'' (\<lambda>xs. if xs = [] then YNull else enc_slice YStr xs) (afJWTProviderY_Audiences r),
     omit_empty None ''claimMappings'' (enc_pointer enc_afClaimMappingsYAML) (afJWTProviderY_ClaimMappings r)])"

record afAuthYAML =
  afAuthY_IssuerURL :: string
  afAuthY_Audience :: string
  afAuthY_JWKSURL :: string
  afAuthY_OIDCCAFile :: string
  afAuthY_AllowInsecureIssuers :: bool
  afAuthY_ReplayCache :: "afReplayCacheYAML option"
  afAuthY_JWTProviders :: "afJWTProviderYAML list"

definition enc_afAuthYAML :: "afAuthYAML \<Rightarrow> yaml" where
  "enc_afAuthYAML r = YMap (concat
    [always_field ''issuerURL'' YStr (afAuthY_IssuerURL r),
     always_field ''audience'' YStr (afAuthY_Audience r),
     omit_empty '''' ''jwksURL'' YStr (afAuthY_JWKSURL r),
     omit_empty '''' ''oidcCaFile'' YStr (afAuthY_OIDCCAFile r),
     omit_empty False ''allowInsecureIssuers'' YBool (afAuthY_AllowInsecureIssuers r),
     omit_empty None ''replayCache'' (enc_pointer enc_afReplayCacheYAML) (afAuthY_ReplayCache r),
     omit_empty [] ''jwtProviders'' (enc_slice enc_afJWTProviderYAML) (afAuthY_JWTProviders r)])"

record afRBACYAML =
  afRBACY_SARCacheTTL :: string
  afRBACY_ConsoleAccessAuthorizationCheckEnabled :: bool

definition enc_afRBACYAML :: "afRBACYAML \<Rightarrow> yaml" where
  "enc_afRBACYAML r = YMap (concat
    [always_field ''sarCacheTTL'' YStr (afRBACY_SARCacheTTL r),
     always_field ''consoleAccessAuthorizationCheckEnabled'' YBool (afRBACY_ConsoleAccessAuthorizationCheckEnabled r)])"

record afLoggingYAML =
  afLoggingY_Level :: string

definition enc_afLoggingYAML :: "afLoggingYAML \<Rightarrow> yaml" where
  "enc_afLoggingYAML r = YMap (concat
    [always_field ''level'' YStr (afLoggingY_Level r)])"

record afRateLimitYAML =
  afRateLimitY_IPRequestsPerSec :: int
  afRateLimitY_UserRequestsPerSec :: int
  afRateLimitY_MaxConcurrentSessions :: int
  afRateLimitY_ToolCallsPerMinute :: int

definition enc_afRateLimitYAML :: "afRateLimitYAML \<Rightarrow> yaml" where
  "enc_afRateLimitYAML r = YMap (concat
    [always_field ''ipRequestsPerSec'' YInt (afRateLimitY_IPRequestsPerSec r),
     always_field ''userRequestsPerSec'' YInt (afRateLimitY_UserRequestsPerSec r),
     always_field ''maxConcurrentSessions'' YInt (afRateLimitY_MaxConcurrentSessions r),
     always_field ''toolCallsPerMinute'' YInt (afRateLimitY_ToolCallsPerMinute r)])"

record afShutdownYAML =
  afShutdownY_DrainSeconds :: int

definition enc_afShutdownYAML :: "afShutdownYAML \<Rightarrow> yaml" where
  "enc_afShutdownYAML r = YMap (concat
    [always_field ''drainSeconds'' YInt (afShutdownY_DrainSeconds r)])"

record afSeverityTriageYAML =
  afSeverityTriageY_Enabled :: bool
  afSeverityTriageY_PrometheusURL :: string
  afSeverityTriageY_PrometheusTLSCAFile :: string
  afSeverityTriageY_PrometheusBearerTokenFile :: string
  afSeverityTriageY_CacheTTLSeconds :: int
  afSeverityTriageY_MaxQueriesPerCall :: int
  afSeverityTriageY_MaxRulesEvaluated :: int
  afSeverityTriageY_LLMConfidence :: float64
  afSeverityTriageY_LLM :: "afAgentLLMYAML option"

definition enc_afSeverityTriageYAML :: "afSeverityTriageYAML \<Rightarrow> yaml" where
  "enc_afSeverityTriageYAML r = YMap (concat
    [always_field ''enabled'' YBool (afSeverityTriageY_Enabled r),
     always_field ''prometheusURL'' YStr (afSeverityTriageY_PrometheusURL r),
     omit_empty '''' ''prometheusTlsCaFile'' YStr (afSeverityTriageY_PrometheusTLSCAFile r),
     always_field ''prometheusBearerTokenFile'' YStr (afSeverityTriageY_PrometheusBearerTokenFile r),
     always_field ''cacheTTLSeconds'' YInt (afSeverityTriageY_CacheTTLSeconds r),
     always_field ''maxQueriesPerCall'' YInt (afSeverityTriageY_MaxQueriesPerCall r),
     always_field ''maxRulesEvaluated'' YInt (afSeverityTriageY_MaxRulesEvaluated r),
     always_field ''llmConfidence'' YFloat (afSeverityTriageY_LLMConfidence r),
     omit_empty None ''llm'' (enc_pointer enc_afAgentLLMYAML) (afSeverityTriageY_LLM r)])"

record afCircuitBreakerYAML =
  afCircuitBreakerY_ConnectTimeout :: string
  afCircuitBreakerY_RequestTimeout :: string
  afCircuitBreakerY_CBMaxRequests :: int
  afCircuitBreakerY_CBInterval :: string
  afCircuitBreakerY_CBTimeout :: string
  afCircuitBreakerY_CBFailureThreshold :: int
  afCircuitBreakerY_RetryMax :: int
  afCircuitBreakerY_RetryInitBackoff :: string
  afCircuitBreakerY_RetryMaxBackoff :: string
  afCircuitBreakerY_RetryableStatuses :: "int list"

definition enc_afCircuitBreakerYAML :: "afCircuitBreakerYAML \<Rightarrow> yaml" where
  "enc_afCircuitBreakerYAML r = YMap (concat
    [always_field ''connectTimeout'' YStr (afCircuitBreakerY_ConnectTimeout r),
     always_field ''requestTimeout'' YStr (afCircuitBreakerY_RequestTimeout r),
     always_field ''cbMaxRequests'' YInt (afCircuitBreakerY_CBMaxRequests r),
     always_field ''cbInterval'' YStr (afCircuitBreakerY_CBInterval r),
     always_field ''cbTimeout'' YStr (afCircuitBreakerY_CBTimeout r),
     always_field ''cbFailureThreshold'' YInt (afCircuitBreakerY_CBFailureThreshold r),
     always_field ''retryMax'' YInt (afCircuitBreakerY_RetryMax r),
     omit_empty '''' ''retryInitBackoff'' YStr (afCircuitBreakerY_RetryInitBackoff r),
     omit_empty '''' ''retryMaxBackoff'' YStr (afCircuitBreakerY_RetryMaxBackoff r),
     always_field ''retryableStatuses'' (enc_slice YInt) (afCircuitBreakerY_RetryableStatuses r)])"

record afResilienceYAML =
  afResilienceY_KA :: afCircuitBreakerYAML
  afResilienceY_DS :: afCircuitBreakerYAML
  afResilienceY_K8s :: afCircuitBreakerYAML

definition enc_afResilienceYAML :: "afResilienceYAML \<Rightarrow> yaml" where
  "enc_afResilienceYAML r = YMap (concat
    [always_field ''ka'' enc_afCircuitBreakerYAML (afResilienceY_KA r),
     always_field ''ds'' enc_afCircuitBreakerYAML (afResilienceY_DS r),
     always_field ''k8s'' enc_afCircuitBreakerYAML (afResilienceY_K8s r)])"

record afSessionYAML =
  afSessionY_Namespace :: string
  afSessionY_DisconnectTTL :: string
  afSessionY_RetentionTTL :: string

definition enc_afSessionYAML :: "afSessionYAML \<Rightarrow> yaml" where
  "enc_afSessionYAML r = YMap (concat
    [always_field ''namespace'' YStr (afSessionY_Namespace r),
     omit_empty '''' ''disconnectTTL'' YStr (afSessionY_DisconnectTTL r),
     omit_empty '''' ''retentionTTL'' YStr (afSessionY_RetentionTTL r)])"

record afConfigYAML =
  afConfigY_Server :: afServerYAML
  afConfigY_Agent :: afAgentYAML
  afConfigY_MCP :: afMCPYAML
  afConfigY_AgentCard :: afAgentCardYAML
  afConfigY_Auth :: afAuthYAML
  afConfigY_RBAC :: afRBACYAML
  afConfigY_Logging :: afLoggingYAML
  afConfigY_RateLimit :: afRateLimitYAML
  afConfigY_Shutdown :: afShutdownYAML
  afConfigY_SeverityTriage :: afSeverityTriageYAML
  afConfigY_Resilience :: afResilienceYAML
  afConfigY_Session :: afSessionYAML
  afConfigY_Fleet :: "fleetConfigYAML option"
  afConfigY_Debug :: debugYAML

definition enc_afConfigYAML :: "afConfigYAML \<Rightarrow> yaml" where
  "enc_afConfigYAML r = YMap (concat
    [always_field ''server'' enc_afServerYAML (afConfigY_Server r),
     always_field ''agent'' enc_afAgentYAML (afConfigY_Agent r),
     always_field ''mcp'' enc_afMCPYAML (afConfigY_MCP r),
     always_field ''agentCard'' enc_afAgentCardYAML (afConfigY_AgentCard r),
     always_field ''auth'' enc_afAuthYAML (afConfigY_Auth r),
     always_field ''rbac'' enc_afRBACYAML (afConfigY_RBAC r),
     always_field ''logging'' enc_afLoggingYAML (afConfigY_Logging r),
     always_field ''rateLimit'' enc_afRateLimitYAML (afConfigY_RateLimit r),
     always_field ''shutdown'' enc_afShutdownYAML (afConfigY_Shutdown r),
     always_field ''severityTriage'' enc_afSeverityTriageYAML (afConfigY_SeverityTriage r),
     always_field ''resilience'' enc_afResilienceYAML (afConfigY_Resilience r),
     always_field ''session'' enc_afSessionYAML (afConfigY_Session r),
     omit_empty None ''fleet'' (enc_pointer enc_fleetConfigYAML) (afConfigY_Fleet r),
     always_field ''debug'' enc_debugYAML (afConfigY_Debug r)])"

record fleetMetadataCacheServerTLSYAML =
  fleetMetadataCacheServerTLSY_CertDir :: string

definition enc_fleetMetadataCacheServerTLSYAML :: "fleetMetadataCacheServerTLSYAML \<Rightarrow> yaml" where
  "enc_fleetMetadataCacheServerTLSYAML r = YMap (concat
    [always_field ''certDir'' YStr (fleetMetadataCacheServerTLSY_CertDir r)])"

record fleetMetadataCacheServerYAML =
  fleetMetadataCacheServerY_APIAddr :: string
  fleetMetadataCacheServerY_HealthAddr :: string
  fleetMetadataCacheServerY_MetricsAddr :: string
  fleetMetadataCacheServerY_TLS :: fleetMetadataCacheServerTLSYAML

definition enc_fleetMetadataCacheServerYAML :: "fleetMetadataCacheServerYAML \<Rightarrow> yaml" where
  "enc_fleetMetadataCacheServerYAML r = YMap (concat
    [always_field ''apiAddr'' YStr (fleetMetadataCacheServerY_APIAddr r),
     always_field ''healthAddr'' YStr (fleetMetadataCacheServerY_HealthAddr r),
     always_field ''metricsAddr'' YStr (fleetMetadataCacheServerY_MetricsAddr r),
     always_field ''tls'' enc_fleetMetadataCacheServerTLSYAML (fleetMetadataCacheServerY_TLS r)])"

record fleetMetadataCacheMCPGatewayYAML =
  fleetMetadataCacheMCPGatewayY_Endpoint :: string
  fleetMetadataCacheMCPGatewayY_GatewayType :: string
  fleetMetadataCacheMCPGatewayY_Namespace :: string
  fleetMetadataCacheMCPGatewayY_TLSCAFile :: string
  fleetMetadataCacheMCPGatewayY_Resilience :: "fleetResilienceYAML option"

definition enc_fleetMetadataCacheMCPGatewayYAML :: "fleetMetadataCacheMCPGatewayYAML \<Rightarrow> yaml" where
  "enc_fleetMetadataCacheMCPGatewayYAML r = YMap (concat
    [always_field ''endpoint'' YStr (fleetMetadataCacheMCPGatewayY_Endpoint r),
     always_field ''gatewayType'' YStr (fleetMetadataCacheMCPGatewayY_GatewayType r),
     omit_empty '''' ''namespace'' YStr (fleetMetadataCacheMCPGatewayY_Namespace r),
     omit_empty '''' ''tlsCAFile'' YStr (fleetMetadataCacheMCPGatewayY_TLSCAFile r),
     omit_empty None ''resilience'' (enc_pointer enc_fleetResilienceYAML) (fleetMetadataCacheMCPGatewayY_Resilience r)])"

record fleetMetadataCacheValkeyTLSYAML =
  fleetMetadataCacheValkeyTLSY_Enabled :: bool
  fleetMetadataCacheValkeyTLSY_CAFile :: string
  fleetMetadataCacheValkeyTLSY_CertFile :: string
  fleetMetadataCacheValkeyTLSY_KeyFile :: string

definition enc_fleetMetadataCacheValkeyTLSYAML :: "fleetMetadataCacheValkeyTLSYAML \<Rightarrow> yaml" where
  "enc_fleetMetadataCacheValkeyTLSYAML r = YMap (concat
    [always_field ''enabled'' YBool (fleetMetadataCacheValkeyTLSY_Enabled r),
     omit_empty '''' ''caFile'' YStr (fleetMetadataCacheValkeyTLSY_CAFile r),
     omit_empty '''' ''certFile'' YStr (fleetMetadataCacheValkeyTLSY_CertFile r),
     omit_empty '''' ''keyFile'' YStr (fleetMetadataCacheValkeyTLSY_KeyFile r)])"

record fleetMetadataCacheValkeyYAML =
  fleetMetadataCacheValkeyY_Addr :: string
  fleetMetadataCacheValkeyY_TLS :: "fleetMetadataCacheValkeyTLSYAML option"

definition enc_fleetMetadataCacheValkeyYAML :: "fleetMetadataCacheValkeyYAML \<Rightarrow> yaml" where
  "enc_fleetMetadataCacheValkeyYAML r = YMap (concat
    [always_field ''addr'' YStr (fleetMetadataCacheValkeyY_Addr r),
     omit_empty None ''tls'' (enc_pointer enc_fleetMetadataCacheValkeyTLSYAML) (fleetMetadataCacheValkeyY_TLS r)])"

record fleetMetadataCacheSyncYAML =
  fleetMetadataCacheSyncY_Interval :: string
  fleetMetadataCacheSyncY_KeyTTL :: string

definition enc_fleetMetadataCacheSyncYAML :: "fleetMetadataCacheSyncYAML \<Rightarrow> yaml" where
  "enc_fleetMetadataCacheSyncYAML r = YMap (concat
    [always_field ''interval'' YStr (fleetMetadataCacheSyncY_Interval r),
     always_field ''keyTtl'' YStr (fleetMetadataCacheSyncY_KeyTTL r)])"

record fleetMetadataCacheOAuth2YAML =
  fleetMetadataCacheOAuth2Y_TokenURL :: string
  fleetMetadataCacheOAuth2Y_CredentialsDir :: string
  fleetMetadataCacheOAuth2Y_Scopes :: "string list"
  fleetMetadataCacheOAuth2Y_TLSCaFile :: string

definition enc_fleetMetadataCacheOAuth2YAML :: "fleetMetadataCacheOAuth2YAML \<Rightarrow> yaml" where
  "enc_fleetMetadataCacheOAuth2YAML r = YMap (concat
    [always_field ''tokenUrl'' YStr (fleetMetadataCacheOAuth2Y_TokenURL r),
     always_field ''credentialsDir'' YStr (fleetMetadataCacheOAuth2Y_CredentialsDir r),
     omit_empty [] ''scopes'' (enc_slice YStr) (fleetMetadataCacheOAuth2Y_Scopes r),
     omit_empty '''' ''tlsCaFile'' YStr (fleetMetadataCacheOAuth2Y_TLSCaFile r)])"

record fleetMetadataCacheConfigYAML =
  fleetMetadataCacheConfigY_Server :: fleetMetadataCacheServerYAML
  fleetMetadataCacheConfigY_MCPGateway :: fleetMetadataCacheMCPGatewayYAML
  fleetMetadataCacheConfigY_Valkey :: fleetMetadataCacheValkeyYAML
  fleetMetadataCacheConfigY_Sync :: fleetMetadataCacheSyncYAML
  fleetMetadataCacheConfigY_OAuth2 :: fleetMetadataCacheOAuth2YAML
  fleetMetadataCacheConfigY_Debug :: debugYAML

definition enc_fleetMetadataCacheConfigYAML :: "fleetMetadataCacheConfigYAML \<Rightarrow> yaml" where
  "enc_fleetMetadataCacheConfigYAML r = YMap (concat
    [always_field ''server'' enc_fleetMetadataCacheServerYAML (fleetMetadataCacheConfigY_Server r),
     always_field ''mcpGateway'' enc_fleetMetadataCacheMCPGatewayYAML (fleetMetadataCacheConfigY_MCPGateway r),
     always_field ''valkey'' enc_fleetMetadataCacheValkeyYAML (fleetMetadataCacheConfigY_Valkey r),
     always_field ''sync'' enc_fleetMetadataCacheSyncYAML (fleetMetadataCacheConfigY_Sync r),
     always_field ''oauth2'' enc_fleetMetadataCacheOAuth2YAML (fleetMetadataCacheConfigY_OAuth2 r),
     always_field ''debug'' enc_debugYAML (fleetMetadataCacheConfigY_Debug r)])"

end
