(* ===== verification/Configs.thy ===== *)
theory Configs
  imports Config_Types Workloads
begin

text \<open>
  The builders of the configuration documents (\<^verbatim>\<open>internal/resources/configmaps.go\<close>, with the one of
  \<^verbatim>\<open>internal/resources/fleetmetadatacache.go\<close>): every service gets a ConfigMap with one YAML document, filled from the specification with the
  defaults of the operator.

  Printing the document, and the conversions of \<^verbatim>\<open>strconv\<close> between texts, integers and \<^verbatim>\<open>float64\<close>, are the record \<open>documents\<close>. A
  \<^verbatim>\<open>float64\<close> is its IEEE bit pattern, so a constant of the source is the pattern the compiler stores.
\<close>

record documents =
  d_Marshal :: "yaml \<Rightarrow> string go"
  d_MarshalProxy :: "consoleOAuth2ProxyConfigYAML \<Rightarrow> string go"
  d_ParseFloat :: "string \<Rightarrow> float64 option"
  d_FormatFloat :: "float64 \<Rightarrow> string"
  d_float :: "int \<Rightarrow> float64" \<comment> \<open>the conversion \<^verbatim>\<open>float64(n)\<close>\<close>
  d_validators :: validators

subsection \<open>Defaults\<close>

definition defaultTenMinuteDuration :: string where "defaultTenMinuteDuration = ''10m''"
definition defaultAIAnalysisConfidenceThreshold :: float64 where "defaultAIAnalysisConfidenceThreshold = 0x3FE999999999999A" \<comment> \<open>0.8\<close>

definition intDefault :: "int \<Rightarrow> int \<Rightarrow> int" where
  "intDefault val def = (if val \<noteq> 0 then val else def)"

definition intPtrDefault :: "int option \<Rightarrow> int \<Rightarrow> int" where
  "intPtrDefault val def = (case val of Some v \<Rightarrow> v | None \<Rightarrow> def)"

definition parseFloatDefault :: "documents \<Rightarrow> string \<Rightarrow> float64 \<Rightarrow> float64" where
  "parseFloatDefault D s def = (if s = '''' then def else case d_ParseFloat D s of None \<Rightarrow> def | Some v \<Rightarrow> v)"

fun put_all :: "'v gomap \<Rightarrow> 'v gomap \<Rightarrow> 'v gomap" where
  "put_all [] m = m"
| "put_all ((k, v) # kvs) m = put_all kvs (gput k v m)"

definition mergeStringMapDefaults :: "string gomap \<Rightarrow> string gomap \<Rightarrow> string gomap" where
  "mergeStringMapDefaults overrides defaults = put_all overrides (put_all defaults [])"

definition marshalYAML :: "documents \<Rightarrow> yaml \<Rightarrow> string go" where
  "marshalYAML D v = (case d_Marshal D v of Inl e \<Rightarrow> Inl (Wrap ''resources: yaml marshal'' e) | Inr b \<Rightarrow> Inr b)"

definition yamlConfigMap :: "documents \<Rightarrow> object_meta \<Rightarrow> string \<Rightarrow> string \<Rightarrow> yaml \<Rightarrow> kobj go" where
  "yamlConfigMap D metadata key errorContext config =
     (case marshalYAML D config of
        Inl e \<Rightarrow> Inl (Wrap errorContext e)
      | Inr data \<Rightarrow> Inr \<lparr>obj_Kind = ''ConfigMap'', obj_Meta = metadata, obj_Body = ConfigMapBody [(key, data)] []\<rparr>)"

definition newControllerBlock :: "string \<Rightarrow> controllerBlock" where
  "newControllerBlock leaderElectionID = \<lparr>controllerBlockY_controllerConfig = \<lparr>controllerConfigY_MetricsAddr = '':9090'',
     controllerConfigY_HealthProbeAddr = '':8081'', controllerConfigY_LeaderElection = False, controllerConfigY_LeaderElectionID = leaderElectionID\<rparr>\<rparr>"

abbreviation debug_of :: "Kubernaut \<Rightarrow> debugYAML" where
  "debug_of knV2 \<equiv> \<lparr>debugY_PprofEnabled = debug_PprofEnabled (spec_Debug (kn_Spec knV2))\<rparr>"

abbreviation logging_of :: "LoggingSpec \<Rightarrow> loggingYAML" where
  "logging_of l \<equiv> \<lparr>loggingY_Level = withDefault (logging_Level l) ''info''\<rparr>"

abbreviation buffer_of :: "int \<Rightarrow> int \<Rightarrow> dataStorageBufferYAML" where
  "buffer_of buffer batch \<equiv> \<lparr>dataStorageBufferY_BufferSize = buffer, dataStorageBufferY_BatchSize = batch, dataStorageBufferY_FlushInterval = ''1s'',
     dataStorageBufferY_MaxRetries = 3\<rparr>"

subsection \<open>Telemetry and the fleet\<close>

definition resolveTelemetryConfig :: "documents \<Rightarrow> TelemetrySpec \<Rightarrow> telemetryYAML option" where
  "resolveTelemetryConfig D t =
     (let logSink = (telemetry_LogSink t = Some True) in
      if telemetry_Endpoint t = '''' \<and> \<not> logSink then None
      else let endpoint = (case normalizeTelemetryEndpoint (d_validators D) (telemetry_Endpoint t) of
                 Inr normalized \<Rightarrow> normalized | Inl _ \<Rightarrow> telemetry_Endpoint t);
               material = resolveTelemetryMaterial t
           in Some \<lparr>telemetryY_Endpoint = endpoint, telemetryY_LogSink = logSink, telemetryY_TLS =
                (if \<not> telemetryMaterial_network material
                 then \<lparr>telemetryTLSY_CAFile = '''', telemetryTLSY_CertFile = '''', telemetryTLSY_KeyFile = ''''\<rparr>
                 else \<lparr>telemetryTLSY_CAFile = telemetryMaterial_caFile material, telemetryTLSY_CertFile = telemetryMaterial_certFile material,
                        telemetryTLSY_KeyFile = telemetryMaterial_keyFile material\<rparr>)\<rparr>)"

definition resolveMCPClient :: "Kubernaut \<Rightarrow> fleetResilienceYAML option" where
  "resolveMCPClient knV2 =
     (case fleet_MCPClient (spec_Fleet (kn_Spec knV2)) of
        None \<Rightarrow> None
      | Some client \<Rightarrow>
         (let r = fleetMCPClient_Retry client; t = fleetMCPClient_Timeouts client;
              of_r = (\<lambda>f. case r of None \<Rightarrow> '''' | Some x \<Rightarrow> f x);
              of_t = (\<lambda>f. case t of None \<Rightarrow> '''' | Some x \<Rightarrow> f x)
          in if r = None \<and> t = None then None
             else Some \<lparr>fleetResilienceY_InitialInterval = of_r fleetMCPClientRetry_InitialInterval,
               fleetResilienceY_MaxInterval = of_r fleetMCPClientRetry_MaxInterval, fleetResilienceY_MaxElapsedTime = of_r fleetMCPClientRetry_MaxElapsedTime,
               fleetResilienceY_TokenRefreshTimeout = of_t fleetMCPClientTimeouts_TokenRefresh,
               fleetResilienceY_ConnectTimeout = of_t fleetMCPClientTimeouts_Connect,
               fleetResilienceY_DiscoverProbeTimeout = of_t fleetMCPClientTimeouts_DiscoverProbe\<rparr>))"

definition fleetCAMountPath :: string where "fleetCAMountPath = ''/etc/fleet-tls/scope-check/ca.crt''"
definition fleetOAuth2CAMountPath :: string where "fleetOAuth2CAMountPath = ''/etc/fleet-tls/oauth2/ca.crt''"
definition fleetMCPGatewayCAMountPath :: string where "fleetMCPGatewayCAMountPath = ''/etc/fleet-tls/mcp-gateway/ca.crt''"
definition fleetTokenMountPath :: string where "fleetTokenMountPath = ''/etc/fleet-token/token''"
definition apifrontendTLSCAFile :: string where "apifrontendTLSCAFile = ''/etc/apifrontend/tls-ca/ca.crt''"

definition resolveFleetTrustCAFile :: "FleetTrustSpec option \<Rightarrow> string \<Rightarrow> string \<Rightarrow> string" where
  "resolveFleetTrustCAFile trust defaultCAFile secretCAFile =
     (case trust of
        None \<Rightarrow> defaultCAFile
      | Some t \<Rightarrow>
         (if fleetTrust_Source t = '''' \<or> fleetTrust_Source t = FleetTrustSourceInterService then defaultCAFile
          else if fleetTrust_Source t = FleetTrustSourceSystem then ''''
          else if fleetTrust_Source t = FleetTrustSourceFile then fleetTrust_CAFile t
          else if fleetTrust_Source t = FleetTrustSourceSecret then secretCAFile
          else defaultCAFile))"

definition fleet_oauth2 :: "FleetSpec \<Rightarrow> string \<Rightarrow> string \<Rightarrow> fleetOAuth2YAML" where
  "fleet_oauth2 fleet credentials defaultCAFile = \<lparr>fleetOAuth2Y_Enabled = True, fleetOAuth2Y_TokenURL = fleetOAuth2_TokenURL (fleet_OAuth2 fleet),
     fleetOAuth2Y_CredentialsSecretRef = credentials, fleetOAuth2Y_Scopes = fleetOAuth2_Scopes (fleet_OAuth2 fleet),
     fleetOAuth2Y_TLSCAFile = resolveFleetTrustCAFile (fleetOAuth2_TLS (fleet_OAuth2 fleet)) defaultCAFile fleetOAuth2CAMountPath\<rparr>"

abbreviation gateway_ca :: "FleetSpec \<Rightarrow> string \<Rightarrow> string" where
  "gateway_ca fleet defaultCAFile \<equiv> resolveFleetTrustCAFile (fleetMCPGateway_TLS (fleet_MCPGateway fleet)) defaultCAFile fleetMCPGatewayCAMountPath"

definition resolveFleetConfig :: "Kubernaut \<Rightarrow> string \<Rightarrow> string \<Rightarrow> fleetConfigYAML option" where
  "resolveFleetConfig knV2 credentialsSecretRefOverride defaultOAuth2CAFile =
     (let fleet = spec_Fleet (kn_Spec knV2);
          acm = fleetScopeCheck_ACM (fleet_ScopeCheck fleet);
          scopeTLS = (case acm of None \<Rightarrow> None | Some a \<Rightarrow> fleetACMScopeCheck_TLS a);
          tokenRef = (case acm of None \<Rightarrow> None | Some a \<Rightarrow> fleetACMScopeCheck_TokenSecretRef a)
      in if fleet_Enabled fleet \<noteq> Some True then None
         else Some \<lparr>fleetConfigY_Enabled = True, fleetConfigY_Backend = fleetScopeCheck_Backend (fleet_ScopeCheck fleet),
           fleetConfigY_Endpoint = resolveFleetEndpoint knV2,
           fleetConfigY_TLSCAFile = resolveFleetTrustCAFile scopeTLS defaultOAuth2CAFile fleetCAMountPath,
           fleetConfigY_TokenPath = (case tokenRef of None \<Rightarrow> '''' | Some r \<Rightarrow> if secretKeyRef_Name r = '''' then '''' else fleetTokenMountPath),
           fleetConfigY_MCPGatewayEndpoint = fleetMCPGateway_Endpoint (fleet_MCPGateway fleet),
           fleetConfigY_MCPGatewayType = fleetMCPGateway_Type (fleet_MCPGateway fleet),
           fleetConfigY_MCPGatewayTLSCAFile = gateway_ca fleet defaultOAuth2CAFile,
           fleetConfigY_OAuth2 = Some (fleet_oauth2 fleet
             (withDefault credentialsSecretRefOverride (fleetOAuth2_CredentialsSecretRef (fleet_OAuth2 fleet))) defaultOAuth2CAFile),
           fleetConfigY_Namespace = '''', fleetConfigY_Resilience = resolveMCPClient knV2\<rparr>)"

definition resolveMCPGatewayOnlyFleetConfig :: "Kubernaut \<Rightarrow> string \<Rightarrow> string \<Rightarrow> fleetConfigYAML option" where
  "resolveMCPGatewayOnlyFleetConfig knV2 credentialsSecretRefOverride defaultOAuth2CAFile =
     map_option (\<lambda>cfg. cfg\<lparr>fleetConfigY_Backend := '''', fleetConfigY_Endpoint := '''', fleetConfigY_TLSCAFile := '''', fleetConfigY_TokenPath := '''',
         fleetConfigY_Namespace := fleetMCPGateway_Namespace (fleet_MCPGateway (spec_Fleet (kn_Spec knV2)))\<rparr>)
       (resolveFleetConfig knV2 credentialsSecretRefOverride defaultOAuth2CAFile)"

definition resolveAPIFrontendFleetConfig :: "Kubernaut \<Rightarrow> string \<Rightarrow> string \<Rightarrow> fleetConfigYAML option" where
  "resolveAPIFrontendFleetConfig knV2 credentialsSecretRefOverride defaultOAuth2CAFile =
     map_option (\<lambda>cfg. cfg\<lparr>fleetConfigY_Namespace := fleetMCPGateway_Namespace (fleet_MCPGateway (spec_Fleet (kn_Spec knV2)))\<rparr>)
       (resolveFleetConfig knV2 credentialsSecretRefOverride defaultOAuth2CAFile)"

definition resolveSignalProcessingFleetConfig :: "Kubernaut \<Rightarrow> signalProcessingFleetYAML option" where
  "resolveSignalProcessingFleetConfig knV2 =
     (let fleet = spec_Fleet (kn_Spec knV2) in
      if fleet_Enabled fleet \<noteq> Some True then None
      else Some \<lparr>signalProcessingFleetY_Endpoint = fleetMCPGateway_Endpoint (fleet_MCPGateway fleet),
        signalProcessingFleetY_OAuth2 = Some (fleet_oauth2 fleet (effectiveFleetOAuth2SecretRef
          (signalProcessing_Fleet (spec_SignalProcessing (kn_Spec knV2))) (fleetOAuth2_CredentialsSecretRef (fleet_OAuth2 fleet))) (InterServiceTLSCAFileFor knV2)),
        signalProcessingFleetY_MCPGatewayType = fleetMCPGateway_Type (fleet_MCPGateway fleet),
        signalProcessingFleetY_MCPGatewayTLSCAFile = gateway_ca fleet (InterServiceTLSCAFileFor knV2),
        signalProcessingFleetY_Namespace = fleetMCPGateway_Namespace (fleet_MCPGateway fleet),
        signalProcessingFleetY_Resilience = resolveMCPClient knV2\<rparr>)"

definition resolveWEFleetConfig :: "Kubernaut \<Rightarrow> string \<Rightarrow> weFleetYAML option" where
  "resolveWEFleetConfig knV2 defaultOAuth2CAFile =
     (let fleet = spec_Fleet (kn_Spec knV2) in
      if fleet_Enabled fleet \<noteq> Some True then None
      else Some \<lparr>weFleetY_Endpoint = fleetMCPGateway_Endpoint (fleet_MCPGateway fleet),
        weFleetY_MCPGatewayTLSCAFile = gateway_ca fleet defaultOAuth2CAFile,
        weFleetY_OAuth2 = Some (fleet_oauth2 fleet
          (workflowExecutionFleet_OAuth2CredentialsSecretRef (workflowExecution_Fleet (spec_WorkflowExecution (kn_Spec knV2)))) defaultOAuth2CAFile),
        weFleetY_Resilience = resolveMCPClient knV2\<rparr>)"

definition resolveKAFleetConfig :: "Kubernaut \<Rightarrow> kaFleetYAML option" where
  "resolveKAFleetConfig knV2 =
     (let fleet = spec_Fleet (kn_Spec knV2) in
      if fleet_Enabled fleet \<noteq> Some True then None
      else Some \<lparr>kaFleetY_Endpoint = fleetMCPGateway_Endpoint (fleet_MCPGateway fleet), kaFleetY_GatewayType = fleetMCPGateway_Type (fleet_MCPGateway fleet),
        kaFleetY_MCPGatewayTLSCAFile = gateway_ca fleet (InterServiceTLSCAFileFor knV2),
        kaFleetY_OAuth2 = Some \<lparr>kaFleetOAuth2Y_Enabled = True, kaFleetOAuth2Y_TokenURL = fleetOAuth2_TokenURL (fleet_OAuth2 fleet),
          kaFleetOAuth2Y_CredentialsSecretRef = effectiveFleetOAuth2SecretRef (kubernautAgent_Fleet (spec_KubernautAgent (kn_Spec knV2)))
            (fleetOAuth2_CredentialsSecretRef (fleet_OAuth2 fleet)),
          kaFleetOAuth2Y_Scopes = fleetOAuth2_Scopes (fleet_OAuth2 fleet),
          kaFleetOAuth2Y_TLSCaFile = resolveFleetTrustCAFile (fleetOAuth2_TLS (fleet_OAuth2 fleet)) (InterServiceTLSCAFileFor knV2) fleetOAuth2CAMountPath\<rparr>,
        kaFleetY_Resilience = resolveMCPClient knV2\<rparr>)"


subsection \<open>Gateway\<close>

definition gatewayServerConfig :: "Kubernaut \<Rightarrow> GatewayConfigSpec \<Rightarrow> gatewayServerYAML" where
  "gatewayServerConfig knV2 gwCfg =
     (let s = \<lparr>gatewayServerY_ListenAddr = '':8443'', gatewayServerY_HealthAddr = '':8081'', gatewayServerY_MetricsAddr = '':9090'',
            gatewayServerY_AuthenticationEnabled = AuthenticationEnabled (Some (gateway_Auth (spec_Gateway (kn_Spec knV2)))),
            gatewayServerY_MaxConcurrentRequests = 100, gatewayServerY_ReadTimeout = ''3600s'', gatewayServerY_WriteTimeout = ''3600s'',
            gatewayServerY_IdleTimeout = ''120s'', gatewayServerY_K8sRequestTimeout = withDefault (gatewayConfig_K8sRequestTimeout gwCfg) ''15s'',
            gatewayServerY_TLS = \<lparr>tlsConfigY_CertDir = InterServiceTLSCertDirFor knV2\<rparr>\<rparr>
      in case gatewayConfig_Server (gateway_Config (spec_Gateway (kn_Spec knV2))) of
           None \<Rightarrow> s
         | Some srv \<Rightarrow> s\<lparr>gatewayServerY_MaxConcurrentRequests := intPtrDefault (gatewayServer_MaxConcurrentRequests srv) (gatewayServerY_MaxConcurrentRequests s),
             gatewayServerY_ReadTimeout := withDefault (gatewayServer_ReadTimeout srv) (gatewayServerY_ReadTimeout s),
             gatewayServerY_WriteTimeout := withDefault (gatewayServer_WriteTimeout srv) (gatewayServerY_WriteTimeout s),
             gatewayServerY_IdleTimeout := withDefault (gatewayServer_IdleTimeout srv) (gatewayServerY_IdleTimeout s)\<rparr>)"

definition gatewayRetryConfig :: "Kubernaut \<Rightarrow> gatewayRetryYAML" where
  "gatewayRetryConfig knV2 =
     (let r = \<lparr>gatewayRetryY_MaxAttempts = 3, gatewayRetryY_InitialBackoff = ''100ms'', gatewayRetryY_MaxBackoff = ''5s''\<rparr>
      in case gatewayConfig_Retry (gateway_Config (spec_Gateway (kn_Spec knV2))) of
           None \<Rightarrow> r
         | Some retry \<Rightarrow> r\<lparr>gatewayRetryY_MaxAttempts := intPtrDefault (gatewayRetry_MaxAttempts retry) (gatewayRetryY_MaxAttempts r),
             gatewayRetryY_InitialBackoff := withDefault (gatewayRetry_InitialBackoff retry) (gatewayRetryY_InitialBackoff r),
             gatewayRetryY_MaxBackoff := withDefault (gatewayRetry_MaxBackoff retry) (gatewayRetryY_MaxBackoff r)\<rparr>)"

definition gateway_config :: "documents \<Rightarrow> Kubernaut \<Rightarrow> Kubernaut \<Rightarrow> string \<Rightarrow> gatewayConfigYAML" where
  "gateway_config D kn knV2 tlsProfile =
     (let ns = kn_Namespace kn; gw = spec_Gateway (kn_Spec kn); gwCfg = gateway_Config gw; cors = gatewayConfig_CORS gwCfg
      in \<lparr>gatewayConfigY_TLSProfile = tlsProfile, gatewayConfigY_TLSCAFile = InterServiceTLSCAFileFor knV2,
          gatewayConfigY_Logging = logging_of (gateway_Logging gw),
          gatewayConfigY_Processing = \<lparr>gatewayProcessingY_Deduplication =
              \<lparr>gatewayDeduplicationY_CooldownPeriod = withDefault (gatewayConfig_DeduplicationCooldown gwCfg) ''5m''\<rparr>,
            gatewayProcessingY_Retry = gatewayRetryConfig knV2\<rparr>,
          gatewayConfigY_Server = gatewayServerConfig knV2 gwCfg,
          gatewayConfigY_CORS = \<lparr>
            gatewayCORSY_AllowedOrigins = (if gatewayCORS_AllowedOrigins cors = [] then [''https://no-browser-clients.invalid''] else gatewayCORS_AllowedOrigins cors),
            gatewayCORSY_AllowedMethods = (if gatewayCORS_AllowedMethods cors = [] then [''GET'', ''POST'', ''PUT'', ''PATCH'', ''DELETE'', ''OPTIONS'']
              else gatewayCORS_AllowedMethods cors),
            gatewayCORSY_AllowCredentials = deref_or False (gatewayCORS_AllowCredentials cors),
            gatewayCORSY_MaxAge = intPtrDefault (gatewayCORS_MaxAge cors) 300\<rparr>,
          gatewayConfigY_Middleware = \<lparr>gatewayMiddlewareY_TrustedProxyCIDRs = gatewayConfig_TrustedProxyCIDRs gwCfg\<rparr>,
          gatewayConfigY_Datastorage = \<lparr>gatewayDatastorageY_URL = DataStorageURL ns, gatewayDatastorageY_HealthURL = DataStorageHealthURL ns,
            gatewayDatastorageY_Timeout = ''10s'', gatewayDatastorageY_Buffer = buffer_of 10000 100\<rparr>,
          gatewayConfigY_Fleet = resolveFleetConfig knV2 (effectiveFleetOAuth2SecretRef (gateway_Fleet (spec_Gateway (kn_Spec knV2))) '''') (InterServiceTLSCAFileFor knV2),
          gatewayConfigY_Telemetry = resolveTelemetryConfig D (gatewayConfig_Telemetry (gateway_Config (spec_Gateway (kn_Spec knV2)))),
          gatewayConfigY_Debug = debug_of knV2\<rparr>)"

definition GatewayConfigMap :: "documents \<Rightarrow> Kubernaut \<Rightarrow> Kubernaut \<Rightarrow> string \<Rightarrow> kobj go" where
  "GatewayConfigMap D kn knV2 tlsProfile = yamlConfigMap D (ObjectMeta kn ''gateway-config'' ComponentGateway) ''config.yaml'' ''gateway config''
     (enc_gatewayConfigYAML (gateway_config D kn knV2 tlsProfile))"

subsection \<open>Data storage\<close>

definition DataStorageAuditHashKeySecretsFile :: string where
  "DataStorageAuditHashKeySecretsFile = ''/etc/datastorage/secrets/audit-hmac-key.yaml''"

definition dataStorageRetentionConfig :: "Kubernaut \<Rightarrow> dataStorageRetentionYAML option" where
  "dataStorageRetentionConfig kn =
     (let r = (case dataStorage_Audit (spec_DataStorage (kn_Spec kn)) of None \<Rightarrow> None | Some a \<Rightarrow> dataStorageAudit_Retention a);
          enabled = (case r of None \<Rightarrow> True | Some s \<Rightarrow> deref_or True (retention_Enabled s));
          interval = (case r of None \<Rightarrow> ''24h'' | Some s \<Rightarrow> withDefault (retention_Interval s) ''24h'');
          batchSize = (case r of None \<Rightarrow> 1000 | Some s \<Rightarrow> intPtrDefault (retention_BatchSize s) 1000);
          days = (case r of None \<Rightarrow> 2555 | Some s \<Rightarrow> intPtrDefault (retention_DefaultDays s) 2555)
      in Some \<lparr>dataStorageRetentionY_Enabled = enabled, dataStorageRetentionY_Interval = interval, dataStorageRetentionY_BatchSize = batchSize,
           dataStorageRetentionY_DefaultDays = (if days > 2555 then 2555 else days)\<rparr>)"

definition signer_dir :: "Kubernaut \<Rightarrow> string" where
  "signer_dir knV2 =
     (case dataStorage_Audit (spec_DataStorage (kn_Spec knV2)) of
        None \<Rightarrow> ''/etc/certs''
      | Some a \<Rightarrow> (case dataStorageAudit_SigningCertificate a of
          None \<Rightarrow> ''/etc/certs''
        | Some c \<Rightarrow> (if signingCert_MountPath c = '''' then ''/etc/certs'' else signingCert_MountPath c)))"

definition dataStorageServerConfig :: "documents \<Rightarrow> Kubernaut \<Rightarrow> dataStorageServerYAML" where
  "dataStorageServerConfig D knV2 =
     (let ds = spec_DataStorage (kn_Spec knV2);
          s = \<lparr>dataStorageServerY_Port = 8443, dataStorageServerY_Host = ''0.0.0.0'', dataStorageServerY_HealthPort = 8081,
            dataStorageServerY_MetricsPort = 9090, dataStorageServerY_ReadTimeout = ''30s'', dataStorageServerY_WriteTimeout = ''30s'',
            dataStorageServerY_EndpointPropagationDelay = withDefault (dataStorage_EndpointPropagationDelay ds) ''10s'',
            dataStorageServerY_MaxBodySize = ''5242880'', dataStorageServerY_MaxConcurrentRequests = 100, dataStorageServerY_CORSAllowedOrigins = [],
            dataStorageServerY_RateLimit = \<lparr>dataStorageRateLimitY_Enabled = True, dataStorageRateLimitY_RequestsPerSecond = 0x4049000000000000,
              dataStorageRateLimitY_Burst = 100\<rparr>,
            dataStorageServerY_TLS = \<lparr>tlsConfigY_CertDir = InterServiceTLSCertDirFor knV2\<rparr>, dataStorageServerY_SignerCertDir = signer_dir knV2\<rparr>
      in case dataStorage_Server ds of
           None \<Rightarrow> s
         | Some srv \<Rightarrow> s\<lparr>dataStorageServerY_ReadTimeout := withDefault (dataStorageServer_ReadTimeout srv) (dataStorageServerY_ReadTimeout s),
             dataStorageServerY_WriteTimeout := withDefault (dataStorageServer_WriteTimeout srv) (dataStorageServerY_WriteTimeout s),
             dataStorageServerY_MaxBodySize := withDefault (dataStorageServer_MaxBodySize srv) (dataStorageServerY_MaxBodySize s),
             dataStorageServerY_MaxConcurrentRequests := intPtrDefault (dataStorageServer_MaxConcurrentRequests srv) (dataStorageServerY_MaxConcurrentRequests s),
             dataStorageServerY_CORSAllowedOrigins := dataStorageServer_CORSAllowedOrigins srv,
             dataStorageServerY_RateLimit := (case dataStorageServer_RateLimit srv of
                None \<Rightarrow> dataStorageServerY_RateLimit s
              | Some rate \<Rightarrow> (dataStorageServerY_RateLimit s)\<lparr>
                  dataStorageRateLimitY_RequestsPerSecond := (case dataStorageRateLimit_RequestsPerSecond rate of
                     None \<Rightarrow> dataStorageRateLimitY_RequestsPerSecond (dataStorageServerY_RateLimit s) | Some n \<Rightarrow> d_float D n),
                  dataStorageRateLimitY_Burst := intPtrDefault (dataStorageRateLimit_Burst rate) (dataStorageRateLimitY_Burst (dataStorageServerY_RateLimit s))\<rparr>)\<rparr>)"

definition dataStorageRedisConfig :: "Kubernaut \<Rightarrow> Kubernaut \<Rightarrow> dataStorageRedisYAML" where
  "dataStorageRedisConfig kn knV2 =
     (let valkey = spec_Valkey (kn_Spec kn);
          port = (if valkey_Port valkey = 0 then DefaultValkeyPort else valkey_Port valkey);
          enabled = ValkeyTLSEnabled valkey;
          ca = (case valkey_TLS valkey of None \<Rightarrow> False | Some t \<Rightarrow> valkeyTLS_CASecretName t \<noteq> '''');
          client = (case valkey_TLS valkey of None \<Rightarrow> False | Some t \<Rightarrow> valkeyTLS_ClientCertSecretName t \<noteq> '''')
      in \<lparr>dataStorageRedisY_Addr = valkey_Host valkey @ '':'' @ show_int port, dataStorageRedisY_DB = 0, dataStorageRedisY_DLQStreamName = ''dlq-stream'',
          dataStorageRedisY_DLQMaxLen = (case dataStorage_Redis (spec_DataStorage (kn_Spec knV2)) of
             None \<Rightarrow> 10000 | Some r \<Rightarrow> intPtrDefault (dataStorageRedis_DLQMaxLen r) 10000),
          dataStorageRedisY_DLQConsumerGroup = ''dlq-group'', dataStorageRedisY_SecretsFile = ''/etc/datastorage/secrets/valkey-secrets.yaml'',
          dataStorageRedisY_PasswordKey = ''password'',
          dataStorageRedisY_TLS = Some \<lparr>dataStorageRedisTLSY_Enabled = enabled,
            dataStorageRedisTLSY_CAFile = (if enabled \<and> ca then ''/etc/valkey-tls/ca/ca.crt'' else InterServiceTLSCAFileFor kn),
            dataStorageRedisTLSY_CertFile = (if enabled \<and> client then ''/etc/valkey-tls/client/tls.crt'' else ''''),
            dataStorageRedisTLSY_KeyFile = (if enabled \<and> client then ''/etc/valkey-tls/client/tls.key'' else '''')\<rparr>\<rparr>)"

definition dataStorageDatabaseConfig :: "Kubernaut \<Rightarrow> Kubernaut \<Rightarrow> string \<Rightarrow> string \<Rightarrow> dataStorageDatabaseYAML" where
  "dataStorageDatabaseConfig kn knV2 dbName dbUser =
     (let pg = spec_PostgreSQL (kn_Spec kn);
          sslMode = withDefault (postgreSQL_SSLMode pg) DefaultSSLMode;
          dbCfg = dataStorage_Database (spec_DataStorage (kn_Spec knV2));
          ints = (\<lambda>f def. case dbCfg of None \<Rightarrow> def | Some c \<Rightarrow> intPtrDefault (f c) def);
          texts = (\<lambda>f def. case dbCfg of None \<Rightarrow> def | Some c \<Rightarrow> withDefault (f c) def)
      in \<lparr>dataStorageDatabaseY_Host = postgreSQL_Host pg, dataStorageDatabaseY_Port = PostgreSQLPort kn, dataStorageDatabaseY_Name = dbName,
          dataStorageDatabaseY_User = dbUser, dataStorageDatabaseY_SSLMode = sslMode,
          dataStorageDatabaseY_SSLRootCert = (if sslMode = DefaultSSLMode then InterServiceTLSCAFileFor knV2 else ''''),
          dataStorageDatabaseY_MaxOpenConns = ints dataStorageDatabase_MaxOpenConns 100,
          dataStorageDatabaseY_MaxIdleConns = ints dataStorageDatabase_MaxIdleConns 20,
          dataStorageDatabaseY_ConnMaxLifetime = texts dataStorageDatabase_ConnMaxLifetime ''1h'',
          dataStorageDatabaseY_ConnMaxIdleTime = texts dataStorageDatabase_ConnMaxIdleTime defaultTenMinuteDuration,
          dataStorageDatabaseY_SecretsFile = ''/etc/datastorage/secrets/db-secrets.yaml'',
          dataStorageDatabaseY_UsernameKey = ''username'', dataStorageDatabaseY_PasswordKey = ''password''\<rparr>)"

definition data_storage_config :: "documents \<Rightarrow> Kubernaut \<Rightarrow> Kubernaut \<Rightarrow> string \<Rightarrow> string \<Rightarrow> string \<Rightarrow> dataStorageConfigYAML" where
  "data_storage_config D kn knV2 dbName dbUser tlsProfile = \<lparr>dataStorageConfigY_TLSProfile = tlsProfile,
     dataStorageConfigY_Server = dataStorageServerConfig D knV2, dataStorageConfigY_Database = dataStorageDatabaseConfig kn knV2 dbName dbUser,
     dataStorageConfigY_Redis = dataStorageRedisConfig kn knV2,
     dataStorageConfigY_Logging = \<lparr>dataStorageLoggingY_Level = withDefault (logging_Level (dataStorage_Logging (spec_DataStorage (kn_Spec knV2)))) ''info'',
       dataStorageLoggingY_Format = ''json''\<rparr>,
     dataStorageConfigY_Retention = dataStorageRetentionConfig knV2,
     dataStorageConfigY_Audit = Some \<lparr>dataStorageAuditY_HashKeySecretsFile = DataStorageAuditHashKeySecretsFile,
       dataStorageAuditY_HashKeyKey = ref_SecretKey (DataStorageAuditHashKeyReferenceFor knV2)\<rparr>,
     dataStorageConfigY_Telemetry = resolveTelemetryConfig D (dataStorage_Telemetry (spec_DataStorage (kn_Spec knV2))),
     dataStorageConfigY_Debug = debug_of knV2\<rparr>"

definition DataStorageConfigMap :: "documents \<Rightarrow> Kubernaut \<Rightarrow> Kubernaut \<Rightarrow> string \<Rightarrow> string \<Rightarrow> string \<Rightarrow> kobj go" where
  "DataStorageConfigMap D kn knV2 dbName dbUser tlsProfile = yamlConfigMap D (ObjectMeta kn ''datastorage-config'' ComponentDataStorage)
     ''config.yaml'' ''datastorage config'' (enc_dataStorageConfigYAML (data_storage_config D kn knV2 dbName dbUser tlsProfile))"

end
