(* ===== verification/Controller_Configs.thy ===== *)
theory Controller_Configs
  imports Configs
begin

text \<open>
  The configuration documents of the controllers (\<^verbatim>\<open>internal/resources/configmaps.go\<close>): AI analysis, signal processing, remediation orchestrator,
  workflow execution, effectiveness monitor, notification and the admission webhook.

  The two fractions of the AI analysis are compared as \<^verbatim>\<open>float64\<close> values: the order of their IEEE patterns is spelled out in
  \<open>float_positive\<close> and \<open>float_at_most_one\<close>.
\<close>

subsection \<open>AI analysis\<close>

definition IsNaN :: "float64 \<Rightarrow> bool" where
  "IsNaN v \<longleftrightarrow> 0x7FF0000000000000 < take_bit 63 v"

definition IsInf :: "float64 \<Rightarrow> bool" where
  "IsInf v \<longleftrightarrow> take_bit 63 v = 0x7FF0000000000000"

definition float_positive :: "float64 \<Rightarrow> bool" where \<comment> \<open>\<^verbatim>\<open>v > 0\<close>\<close>
  "float_positive v \<longleftrightarrow> \<not> IsNaN v \<and> 0 < v \<and> v < 0x8000000000000000"

definition float_at_most_one :: "float64 \<Rightarrow> bool" where \<comment> \<open>\<^verbatim>\<open>v <= 1\<close>\<close>
  "float_at_most_one v \<longleftrightarrow> \<not> IsNaN v \<and> (0x8000000000000000 \<le> v \<or> v \<le> 0x3FF0000000000000)"

definition invalidBoundedFraction :: "string \<Rightarrow> string \<Rightarrow> go_error" where
  "invalidBoundedFraction field raw = Msg (''invalid '' @ field @ '' '' @ quoted raw @ '': expected a number greater than 0 and at most 1'')"

definition validateBoundedFraction :: "float64 \<Rightarrow> string \<Rightarrow> string \<Rightarrow> float64 option go" where
  "validateBoundedFraction value field raw =
     (if IsNaN value \<or> IsInf value \<or> \<not> (float_positive value \<and> float_at_most_one value) then Inl (invalidBoundedFraction field raw)
      else Inr (Some value))"

definition parseConfidenceThreshold :: "documents \<Rightarrow> float64 option \<Rightarrow> float64 option go" where
  "parseConfidenceThreshold D raw =
     (case raw of
        None \<Rightarrow> Inr (Some defaultAIAnalysisConfidenceThreshold)
      | Some v \<Rightarrow> validateBoundedFraction v ''aiAnalysis.confidenceThreshold'' (d_FormatFloat D v))"

definition parseLowConfidenceFloor :: "documents \<Rightarrow> string \<Rightarrow> float64 option go" where
  "parseLowConfidenceFloor D raw =
     (if raw = '''' then Inr None
      else case d_ParseFloat D raw of
             None \<Rightarrow> Inl (invalidBoundedFraction ''aiAnalysis.lowConfidenceFloor'' raw)
           | Some v \<Rightarrow> validateBoundedFraction v ''aiAnalysis.lowConfidenceFloor'' raw)"

definition ai_analysis_config :: "Kubernaut \<Rightarrow> Kubernaut \<Rightarrow> string \<Rightarrow> float64 option \<Rightarrow> float64 option \<Rightarrow> aiAnalysisConfigYAML" where
  "ai_analysis_config kn knV2 tlsProfile confidenceThreshold lowConfidenceFloor =
     (let ns = kn_Namespace kn in
      \<lparr>aiAnalysisConfigY_TLSCAFile = InterServiceTLSCAFileFor knV2, aiAnalysisConfigY_TLSProfile = tlsProfile,
       aiAnalysisConfigY_Logging = logging_of (aiAnalysis_Logging (spec_AIAnalysis (kn_Spec kn))),
       aiAnalysisConfigY_Controller = newControllerBlock ''aianalysis.kubernaut.ai'',
       aiAnalysisConfigY_Agent = \<lparr>aiAnalysisKubernautAgentY_URL = ''https://kubernaut-agent.'' @ ns @ ''.svc.cluster.local:8443'',
         aiAnalysisKubernautAgentY_Timeout = ''180s'', aiAnalysisKubernautAgentY_SessionPollInterval = ''15s''\<rparr>,
       aiAnalysisConfigY_Datastorage = \<lparr>aiAnalysisDatastorageY_URL = DataStorageURL ns, aiAnalysisDatastorageY_HealthURL = DataStorageHealthURL ns,
         aiAnalysisDatastorageY_Timeout = ''10s'', aiAnalysisDatastorageY_Buffer = buffer_of 20000 1000\<rparr>,
       aiAnalysisConfigY_Rego = \<lparr>aiAnalysisRegoY_PolicyPath = ''/etc/aianalysis/policies/approval.rego'',
         aiAnalysisRegoY_PolicyConfigMapName = AIAnalysisPolicyName kn, aiAnalysisRegoY_PolicyConfigMapKey = ''approval.rego'',
         aiAnalysisRegoY_ConfidenceThreshold = confidenceThreshold, aiAnalysisRegoY_LowConfidenceFloor = lowConfidenceFloor\<rparr>,
       aiAnalysisConfigY_Debug = debug_of knV2\<rparr>)"

definition AIAnalysisConfigMap :: "documents \<Rightarrow> Kubernaut \<Rightarrow> Kubernaut \<Rightarrow> string \<Rightarrow> kobj go" where
  "AIAnalysisConfigMap D kn knV2 tlsProfile =
     (case parseConfidenceThreshold D (aiAnalysis_ConfidenceThreshold (spec_AIAnalysis (kn_Spec kn))) of
        Inl e \<Rightarrow> Inl e
      | Inr confidenceThreshold \<Rightarrow>
         (case parseLowConfidenceFloor D (aiAnalysis_LowConfidenceFloor (spec_AIAnalysis (kn_Spec kn))) of
            Inl e \<Rightarrow> Inl e
          | Inr lowConfidenceFloor \<Rightarrow>
              yamlConfigMap D (ObjectMeta kn ''aianalysis-config'' ComponentAIAnalysis) ''config.yaml'' ''aianalysis config''
                (enc_aiAnalysisConfigYAML (ai_analysis_config kn knV2 tlsProfile confidenceThreshold lowConfidenceFloor))))"

subsection \<open>Signal processing\<close>

definition signal_processing_config :: "Kubernaut \<Rightarrow> Kubernaut \<Rightarrow> string \<Rightarrow> signalProcessingConfigYAML" where
  "signal_processing_config kn knV2 tlsProfile =
     (let ns = kn_Namespace kn in
      \<lparr>signalProcessingConfigY_TLSCAFile = InterServiceTLSCAFileFor knV2, signalProcessingConfigY_TLSProfile = tlsProfile,
       signalProcessingConfigY_Logging = logging_of (signalProcessing_Logging (spec_SignalProcessing (kn_Spec kn))),
       signalProcessingConfigY_Controller = newControllerBlock ''signalprocessing.kubernaut.ai'',
       signalProcessingConfigY_Enrichment = \<lparr>signalProcessingEnrichmentY_CacheTTL = ''5m'', signalProcessingEnrichmentY_Timeout = ''10s''\<rparr>,
       signalProcessingConfigY_Classifier = \<lparr>signalProcessingClassifierY_RegoConfigMapName = SignalProcessingPolicyName kn,
         signalProcessingClassifierY_RegoConfigMapKey = ''policy.rego'', signalProcessingClassifierY_HotReloadInterval = ''30s''\<rparr>,
       signalProcessingConfigY_Datastorage = \<lparr>signalProcessingDatastorageY_URL = DataStorageURL ns,
         signalProcessingDatastorageY_HealthURL = DataStorageHealthURL ns, signalProcessingDatastorageY_Timeout = ''10s'',
         signalProcessingDatastorageY_Buffer = \<lparr>signalProcessingBufferY_BufferSize = 10000, signalProcessingBufferY_BatchSize = 100,
           signalProcessingBufferY_FlushInterval = ''1s'', signalProcessingBufferY_MaxRetries = 3\<rparr>\<rparr>,
       signalProcessingConfigY_Fleet = resolveSignalProcessingFleetConfig knV2,
       signalProcessingConfigY_Debug = debug_of knV2\<rparr>)"

definition SignalProcessingConfigMap :: "documents \<Rightarrow> Kubernaut \<Rightarrow> Kubernaut \<Rightarrow> string \<Rightarrow> kobj go" where
  "SignalProcessingConfigMap D kn knV2 tlsProfile =
     yamlConfigMap D (ObjectMeta kn ''signalprocessing-config'' ComponentSignalProcessing) ''config.yaml'' ''signalprocessing config''
       (enc_signalProcessingConfigYAML (signal_processing_config kn knV2 tlsProfile))"

definition ProactiveSignalMappingsConfigMap :: "Kubernaut \<Rightarrow> kobj" where
  "ProactiveSignalMappingsConfigMap kn = \<lparr>obj_Kind = ''ConfigMap'',
     obj_Meta = ObjectMeta kn SignalProcessingProactiveSignalMappingsConfigMapName ComponentSignalProcessing,
     obj_Body = ConfigMapBody [(''proactive-signal-mappings.yaml'', text_lines
       [''proactive_signal_mappings:'', ''  PredictedOOMKill: OOMKilled'', ''  PredictedCPUThrottling: CPUThrottling'',
        ''  PredictedDiskPressure: DiskPressure'', ''  PredictedNodeNotReady: NodeNotReady''])] []\<rparr>"

subsection \<open>Remediation orchestrator\<close>

definition ro_routing :: "RORoutingSpec \<Rightarrow> roRoutingYAML" where
  "ro_routing r = \<lparr>roRoutingY_ConsecutiveFailureThreshold = intPtrDefault (roRouting_ConsecutiveFailureThreshold r) 3,
     roRoutingY_ConsecutiveFailureCooldown = withDefault (roRouting_ConsecutiveFailureCooldown r) ''1h'',
     roRoutingY_RecentlyRemediatedCooldown = withDefault (roRouting_RecentlyRemediatedCooldown r) ''5m'',
     roRoutingY_ExponentialBackoffBase = withDefault (roRouting_ExponentialBackoffBase r) ''1m'',
     roRoutingY_ExponentialBackoffMax = withDefault (roRouting_ExponentialBackoffMax r) defaultTenMinuteDuration,
     roRoutingY_ExponentialBackoffMaxExponent = intPtrDefault (roRouting_ExponentialBackoffMaxExponent r) 4,
     roRoutingY_ScopeBackoffBase = withDefault (roRouting_ScopeBackoffBase r) ''5s'',
     roRoutingY_ScopeBackoffMax = withDefault (roRouting_ScopeBackoffMax r) ''5m'',
     roRoutingY_NoActionRequiredDelayHours = intPtrDefault (roRouting_NoActionRequiredDelayHours r) 24,
     roRoutingY_IneffectiveChainThreshold = intPtrDefault (roRouting_IneffectiveChainThreshold r) 3,
     roRoutingY_RecurrenceCountThreshold = intPtrDefault (roRouting_RecurrenceCountThreshold r) 5,
     roRoutingY_IneffectiveTimeWindow = withDefault (roRouting_IneffectiveTimeWindow r) ''4h''\<rparr>"

definition remediation_orchestrator_config :: "Kubernaut \<Rightarrow> Kubernaut \<Rightarrow> string \<Rightarrow> remediationOrchestratorConfigYAML" where
  "remediation_orchestrator_config kn knV2 tlsProfile =
     (let ns = kn_Namespace kn; ro = spec_RemediationOrchestrator (kn_Spec kn); t = remediationOrchestrator_Timeouts ro;
          a = remediationOrchestrator_AsyncPropagation ro
      in \<lparr>remediationOrchestratorConfigY_TLSCAFile = InterServiceTLSCAFileFor knV2, remediationOrchestratorConfigY_TLSProfile = tlsProfile,
       remediationOrchestratorConfigY_Controller = newControllerBlock ''remediationorchestrator.kubernaut.ai'',
       remediationOrchestratorConfigY_Logging = logging_of (remediationOrchestrator_Logging ro),
       remediationOrchestratorConfigY_Timeouts = \<lparr>roTimeoutsY_Global = withDefault (roTimeouts_Global t) ''1h'',
         roTimeoutsY_Processing = withDefault (roTimeouts_Processing t) ''5m'',
         roTimeoutsY_Analyzing = withDefault (roTimeouts_Analyzing t) defaultTenMinuteDuration,
         roTimeoutsY_Executing = withDefault (roTimeouts_Executing t) ''30m'',
         roTimeoutsY_AwaitingApproval = withDefault (roTimeouts_AwaitingApproval t) ''15m'',
         roTimeoutsY_Verifying = withDefault (roTimeouts_Verifying t) ''30m''\<rparr>,
       remediationOrchestratorConfigY_Datastorage = \<lparr>roDatastorageY_URL = DataStorageURL ns, roDatastorageY_HealthURL = DataStorageHealthURL ns,
         roDatastorageY_Timeout = ''10s'', roDatastorageY_Buffer = buffer_of 30000 1000\<rparr>,
       remediationOrchestratorConfigY_Routing = ro_routing (remediationOrchestrator_Routing ro),
       remediationOrchestratorConfigY_EffectivenessAssessment = \<lparr>roEffectivenessY_StabilizationWindow =
         withDefault (roEffectiveness_StabilizationWindow (remediationOrchestrator_EffectivenessAssessment ro)) ''5m''\<rparr>,
       remediationOrchestratorConfigY_AsyncPropagation = \<lparr>roAsyncPropagationY_GitOpsSyncDelay = withDefault (roAsyncPropagation_GitOpsSyncDelay a) ''3m'',
         roAsyncPropagationY_OperatorReconcileDelay = withDefault (roAsyncPropagation_OperatorReconcileDelay a) ''1m'',
         roAsyncPropagationY_ProactiveAlertDelay = withDefault (roAsyncPropagation_ProactiveAlertDelay a) ''5m''\<rparr>,
       remediationOrchestratorConfigY_Notifications = \<lparr>roNotificationsY_NotifySelfResolved =
         roNotifications_NotifySelfResolved (remediationOrchestrator_Notifications ro)\<rparr>,
       remediationOrchestratorConfigY_Retention = \<lparr>roRetentionY_Period = withDefault (roRetention_Period (remediationOrchestrator_Retention ro)) ''24h''\<rparr>,
       remediationOrchestratorConfigY_DryRun = remediationOrchestrator_DryRun ro,
       remediationOrchestratorConfigY_DryRunHoldPeriod = withDefault (remediationOrchestrator_DryRunHoldPeriod ro) ''1h'',
       remediationOrchestratorConfigY_Fleet = resolveFleetConfig knV2
         (effectiveFleetOAuth2SecretRef (remediationOrchestrator_Fleet (spec_RemediationOrchestrator (kn_Spec knV2))) '''') (InterServiceTLSCAFileFor knV2),
       remediationOrchestratorConfigY_Debug = debug_of knV2\<rparr>)"

definition RemediationOrchestratorConfigMap :: "documents \<Rightarrow> Kubernaut \<Rightarrow> Kubernaut \<Rightarrow> string \<Rightarrow> kobj go" where
  "RemediationOrchestratorConfigMap D kn knV2 tlsProfile =
     yamlConfigMap D (ObjectMeta kn ''remediationorchestrator-config'' ComponentRemediationOrchestrator) ''remediationorchestrator.yaml''
       ''remediationorchestrator config'' (enc_remediationOrchestratorConfigYAML (remediation_orchestrator_config kn knV2 tlsProfile))"

subsection \<open>Workflow execution\<close>

definition workflow_execution_ansible :: "Kubernaut \<Rightarrow> workflowExecutionAnsibleYAML option" where
  "workflow_execution_ansible kn =
     (let a = workflowExecution_Ansible (spec_WorkflowExecution (kn_Spec kn)) in
      if \<not> ansible_Enabled a then None
      else Some \<lparr>workflowExecutionAnsibleY_APIURL = ansible_APIURL a,
        workflowExecutionAnsibleY_TokenSecretRef = map_option (\<lambda>r. \<lparr>weTokenSecretRefY_Name = secretKeyRef_Name r,
          weTokenSecretRefY_Namespace = kn_Namespace kn, weTokenSecretRefY_Key = withDefault (secretKeyRef_Key r) ''token''\<rparr>) (ansible_TokenSecretRef a),
        workflowExecutionAnsibleY_OrganizationID = ansible_OrganizationID a\<rparr>)"

definition workflow_execution_config :: "Kubernaut \<Rightarrow> Kubernaut \<Rightarrow> string \<Rightarrow> workflowExecutionConfigYAML" where
  "workflow_execution_config kn knV2 tlsProfile =
     (let ns = kn_Namespace kn; we = spec_WorkflowExecution (kn_Spec kn);
          cooldown = (if workflowExecution_CooldownPeriod we = '''' then ''1m'' else workflowExecution_CooldownPeriod we);
          retentionSeconds = (case workflowExecution_FailedExecutionRetentionSeconds we of None \<Rightarrow> 600 | Some n \<Rightarrow> n);
          tlsCAFile = (case ansible_CACertSecretRef (workflowExecution_Ansible we) of
             None \<Rightarrow> InterServiceTLSCAFileFor knV2 | Some _ \<Rightarrow> ''/etc/combined-ca/ca-bundle.crt'')
      in \<lparr>workflowExecutionConfigY_TLSCAFile = tlsCAFile, workflowExecutionConfigY_TLSProfile = tlsProfile,
       workflowExecutionConfigY_Logging = logging_of (workflowExecution_Logging we),
       workflowExecutionConfigY_Execution = \<lparr>weExecutionY_Namespace = ResolveWorkflowNamespace kn, weExecutionY_CooldownPeriod = cooldown,
         weExecutionY_RetainFailedExecutions = workflowExecution_RetainFailedExecutions we,
         weExecutionY_FailedExecutionRetentionSeconds = retentionSeconds\<rparr>,
       workflowExecutionConfigY_Ansible = workflow_execution_ansible kn,
       workflowExecutionConfigY_Tekton = map_option (\<lambda>b. \<lparr>weTektonY_Enabled = Some b\<rparr>) (tekton_Enabled (workflowExecution_Tekton we)),
       workflowExecutionConfigY_Datastorage = \<lparr>weDatastorageY_URL = DataStorageURL ns, weDatastorageY_HealthURL = DataStorageHealthURL ns,
         weDatastorageY_Timeout = ''10s'', weDatastorageY_Buffer = buffer_of 10000 500\<rparr>,
       workflowExecutionConfigY_Controller = \<lparr>weControllerY_MetricsAddr = '':9090'', weControllerY_HealthProbeAddr = '':8081'',
         weControllerY_LeaderElection = False, weControllerY_LeaderElectionID = ''workflowexecution.kubernaut.ai''\<rparr>,
       workflowExecutionConfigY_Fleet = resolveWEFleetConfig knV2 (InterServiceTLSCAFileFor knV2),
       workflowExecutionConfigY_Debug = debug_of knV2\<rparr>)"

definition WorkflowExecutionConfigMap :: "documents \<Rightarrow> Kubernaut \<Rightarrow> Kubernaut \<Rightarrow> string \<Rightarrow> kobj go" where
  "WorkflowExecutionConfigMap D kn knV2 tlsProfile =
     yamlConfigMap D (ObjectMeta kn ''workflowexecution-config'' ComponentWorkflowExecution) ''workflowexecution.yaml'' ''workflowexecution config''
       (enc_workflowExecutionConfigYAML (workflow_execution_config kn knV2 tlsProfile))"

subsection \<open>Effectiveness monitor\<close>

definition effectiveness_monitor_config :: "Kubernaut \<Rightarrow> Kubernaut \<Rightarrow> string \<Rightarrow> effectivenessMonitorConfigYAML" where
  "effectiveness_monitor_config kn knV2 tlsProfile =
     (let ns = kn_Namespace kn; em = spec_EffectivenessMonitor (kn_Spec kn); monitoring = spec_Monitoring (kn_Spec knV2) in
      \<lparr>effectivenessMonitorConfigY_TLSCAFile = InterServiceTLSCAFileFor knV2, effectivenessMonitorConfigY_TLSProfile = tlsProfile,
       effectivenessMonitorConfigY_Logging = \<lparr>loggingY_Level = withDefault (logging_Level (effectivenessMonitor_Logging em)) ''INFO''\<rparr>,
       effectivenessMonitorConfigY_Assessment = \<lparr>
         emAssessmentY_StabilizationWindow = withDefault (emAssessment_StabilizationWindow (effectivenessMonitor_Assessment em)) ''30s'',
         emAssessmentY_ValidityWindow = withDefault (emAssessment_ValidityWindow (effectivenessMonitor_Assessment em)) ''300s''\<rparr>,
       effectivenessMonitorConfigY_Controller = newControllerBlock ''effectivenessmonitor.kubernaut.ai'',
       effectivenessMonitorConfigY_Datastorage = \<lparr>emDatastorageY_URL = DataStorageURL ns, emDatastorageY_HealthURL = DataStorageHealthURL ns,
         emDatastorageY_Timeout = ''10s'', emDatastorageY_Buffer = buffer_of 100 10\<rparr>,
       effectivenessMonitorConfigY_External = Some \<lparr>emExternalY_PrometheusURL = effectivePrometheusURL knV2,
         emExternalY_PrometheusEnabled = PrometheusEnabled (monitoring_Prometheus monitoring),
         emExternalY_AlertManagerURL = effectiveAlertManagerURL knV2,
         emExternalY_AlertManagerEnabled = AlertManagerEnabled (monitoring_AlertManager monitoring),
         emExternalY_ConnectionTimeout = ''10s'', emExternalY_TLSCaFile = EffectiveMonitoringTLSCAFile knV2\<rparr>,
       effectivenessMonitorConfigY_Fleet = resolveMCPGatewayOnlyFleetConfig knV2
         (effectiveFleetOAuth2SecretRef (effectivenessMonitor_Fleet (spec_EffectivenessMonitor (kn_Spec knV2))) '''') (InterServiceTLSCAFileFor knV2),
       effectivenessMonitorConfigY_Debug = debug_of knV2\<rparr>)"

definition EffectivenessMonitorConfigMap :: "documents \<Rightarrow> Kubernaut \<Rightarrow> Kubernaut \<Rightarrow> string \<Rightarrow> kobj go" where
  "EffectivenessMonitorConfigMap D kn knV2 tlsProfile =
     yamlConfigMap D (ObjectMeta kn ''effectivenessmonitor-config'' ComponentEffectivenessMonitor) ''effectivenessmonitor.yaml''
       ''effectivenessmonitor config'' (enc_effectivenessMonitorConfigYAML (effectiveness_monitor_config kn knV2 tlsProfile))"

subsection \<open>Notification\<close>

definition notification_config :: "Kubernaut \<Rightarrow> Kubernaut \<Rightarrow> string \<Rightarrow> notificationControllerConfigYAML" where
  "notification_config kn knV2 tlsProfile =
     (let ns = kn_Namespace kn in
      \<lparr>notificationControllerConfigY_TLSCAFile = InterServiceTLSCAFileFor knV2, notificationControllerConfigY_TLSProfile = tlsProfile,
       notificationControllerConfigY_Logging = logging_of (notification_Logging (spec_Notification (kn_Spec kn))),
       notificationControllerConfigY_Controller = newControllerBlock ''notification.kubernaut.ai'',
       notificationControllerConfigY_Delivery = \<lparr>notificationDeliveryY_Console = \<lparr>notificationConsoleY_Enabled = True\<rparr>,
         notificationDeliveryY_File = \<lparr>notificationFileY_OutputDir = ''/tmp/notifications'', notificationFileY_Format = ''json'',
           notificationFileY_Timeout = ''5s''\<rparr>,
         notificationDeliveryY_Log = \<lparr>notificationLogY_Enabled = True, notificationLogY_Format = ''json''\<rparr>,
         notificationDeliveryY_Slack = \<lparr>notificationSlackY_Timeout = ''10s''\<rparr>,
         notificationDeliveryY_Credentials = \<lparr>notificationCredentialsY_Dir = ''/etc/notification/credentials''\<rparr>\<rparr>,
       notificationControllerConfigY_Datastorage = \<lparr>notificationDatastorageY_URL = DataStorageURL ns,
         notificationDatastorageY_HealthURL = DataStorageHealthURL ns, notificationDatastorageY_Timeout = ''10s'',
         notificationDatastorageY_Buffer = \<lparr>notificationBufferY_BufferSize = 10000, notificationBufferY_BatchSize = 100,
           notificationBufferY_FlushInterval = ''1s'', notificationBufferY_MaxRetries = 3\<rparr>\<rparr>,
       notificationControllerConfigY_Debug = debug_of knV2\<rparr>)"

definition NotificationControllerConfigMap :: "documents \<Rightarrow> Kubernaut \<Rightarrow> Kubernaut \<Rightarrow> string \<Rightarrow> kobj go" where
  "NotificationControllerConfigMap D kn knV2 tlsProfile =
     yamlConfigMap D (ObjectMeta kn ''notification-controller-config'' ComponentNotification) ''config.yaml'' ''notification-controller config''
       (enc_notificationControllerConfigYAML (notification_config kn knV2 tlsProfile))"

definition NotificationRoutingConfigMap :: "documents \<Rightarrow> Kubernaut \<Rightarrow> kobj go" where
  "NotificationRoutingConfigMap D kn =
     yamlConfigMap D (ObjectMeta kn ''notification-routing-config'' ComponentNotification) ''routing.yaml'' ''notification-routing console config''
       (enc_notificationRoutingConsoleYAML \<lparr>
          notificationRoutingConsoleY_Route = \<lparr>notificationRoutingRouteY_Receiver = ''console'', notificationRoutingRouteY_MatchRE = []\<rparr>,
          notificationRoutingConsoleY_Receivers = [\<lparr>notificationRoutingConsoleReceiverY_Name = ''console'', notificationRoutingConsoleReceiverY_Console = ()\<rparr>]\<rparr>)"

subsection \<open>Admission webhook\<close>

definition auth_webhook_config :: "Kubernaut \<Rightarrow> Kubernaut \<Rightarrow> string \<Rightarrow> authWebhookConfigYAML" where
  "auth_webhook_config kn knV2 tlsProfile =
     (let ns = kn_Namespace kn in
      \<lparr>authWebhookConfigY_TLSCAFile = InterServiceTLSCAFileFor knV2, authWebhookConfigY_TLSProfile = tlsProfile,
       authWebhookConfigY_Logging = logging_of (authWebhook_Logging (spec_AuthWebhook (kn_Spec kn))),
       authWebhookConfigY_Webhook = \<lparr>authWebhookWebhookY_Port = 9443, authWebhookWebhookY_CertDir = ''/tmp/k8s-webhook-server/serving-certs'',
         authWebhookWebhookY_HealthProbeAddr = '':8081''\<rparr>,
       authWebhookConfigY_Datastorage = \<lparr>authWebhookDatastorageY_URL = DataStorageURL ns, authWebhookDatastorageY_HealthURL = DataStorageHealthURL ns,
         authWebhookDatastorageY_Timeout = ''30s'', authWebhookDatastorageY_Buffer = \<lparr>authWebhookBufferY_BufferSize = 1000,
           authWebhookBufferY_BatchSize = 100, authWebhookBufferY_FlushInterval = ''5s'', authWebhookBufferY_MaxRetries = 3\<rparr>\<rparr>,
       authWebhookConfigY_Debug = debug_of knV2\<rparr>)"

definition AuthWebhookConfigMap :: "documents \<Rightarrow> Kubernaut \<Rightarrow> Kubernaut \<Rightarrow> string \<Rightarrow> kobj go" where
  "AuthWebhookConfigMap D kn knV2 tlsProfile =
     yamlConfigMap D (ObjectMeta kn ''authwebhook-config'' ComponentAuthWebhook) ''authwebhook.yaml'' ''authwebhook config''
       (enc_authWebhookConfigYAML (auth_webhook_config kn knV2 tlsProfile))"

end
