(* ===== verification/Agent_Configs.thy ===== *)
theory Agent_Configs
  imports Controller_Configs
begin

text \<open>
  The configuration documents of the agent (\<^verbatim>\<open>internal/resources/configmaps.go\<close>): the document it starts on, with the sections of its models, and the
  runtime document it reloads.
\<close>

subsection \<open>Texts\<close>

definition HasSuffix :: "string \<Rightarrow> string \<Rightarrow> bool" where
  "HasSuffix s suf \<longleftrightarrow> drop (length s - length suf) s = suf"

definition TrimRight :: "string \<Rightarrow> string \<Rightarrow> string" where
  "TrimRight s cutset = rev (dropWhile (\<lambda>c. c \<in> set cutset) (rev s))"

definition llmCredentialsFileAPIKey :: string where "llmCredentialsFileAPIKey = ''api_key''"
definition llmCredentialsFileVertexJSON :: string where "llmCredentialsFileVertexJSON = ''credentials.json''"
definition LLMProviderOpenAICompatible :: string where "LLMProviderOpenAICompatible = ''openai_compatible''"
definition alignmentCredentialsMountPath :: string where "alignmentCredentialsMountPath = ''/etc/kubernaut-agent/alignment-credentials''"
definition alignmentOAuth2MountPath :: string where "alignmentOAuth2MountPath = ''/etc/kubernaut-agent/alignment-oauth2''"
definition workflowOAuth2MountPath :: string where "workflowOAuth2MountPath = ''/etc/kubernaut-agent/oauth2/workflow-discovery''"
definition severityTriageCredentialsMountPath :: string where "severityTriageCredentialsMountPath = ''/etc/apifrontend/severity-triage-credentials''"

subsection \<open>The agent\<close>

definition kaReasoningFromSpec :: "LLMReasoningSpec option \<Rightarrow> kaReasoningYAML option" where
  "kaReasoningFromSpec = map_option (\<lambda>r. \<lparr>kaReasoningY_Enabled = llmReasoning_Enabled r, kaReasoningY_BudgetTokens = llmReasoning_BudgetTokens r,
     kaReasoningY_Effort = llmReasoning_Effort r, kaReasoningY_CapabilityOverride = llmReasoning_CapabilityOverride r\<rparr>)"

definition ka_oauth2 :: "LLMProfileSpec \<Rightarrow> string \<Rightarrow> kaOAuth2YAML option" where
  "ka_oauth2 profile credentialsDir =
     (let o2 = llmProfile_OAuth2 profile in
      if \<not> oAuth2_Enabled o2 then None
      else Some \<lparr>kaOAuth2Y_Enabled = True, kaOAuth2Y_TokenURL = oAuth2_TokenURL o2, kaOAuth2Y_CredentialsDir = credentialsDir,
        kaOAuth2Y_Scopes = oAuth2_Scopes o2\<rparr>)"

definition applyKALLMProfileFieldsForRole :: "kaLLMYAML \<Rightarrow> LLMProfileSpec \<Rightarrow> string \<Rightarrow> kaLLMYAML" where
  "applyKALLMProfileFieldsForRole llmCfg profile role =
     (case llmTLSMaterialPaths profile profile role of (caFile, certFile, keyFile) \<Rightarrow>
        llmCfg\<lparr>kaLLMY_VertexProject := withDefault (llmProfile_VertexProject profile) (kaLLMY_VertexProject llmCfg),
          kaLLMY_VertexLocation := withDefault (llmProfile_VertexLocation profile) (kaLLMY_VertexLocation llmCfg),
          kaLLMY_BedrockRegion := withDefault (llmProfile_BedrockRegion profile) (kaLLMY_BedrockRegion llmCfg),
          kaLLMY_AzureApiVersion := withDefault (llmProfile_AzureAPIVersion profile) (kaLLMY_AzureApiVersion llmCfg),
          kaLLMY_TLSCaFile := withDefault caFile (kaLLMY_TLSCaFile llmCfg),
          kaLLMY_TLSCertFile := withDefault certFile (kaLLMY_TLSCertFile llmCfg),
          kaLLMY_TLSKeyFile := withDefault keyFile (kaLLMY_TLSKeyFile llmCfg),
          kaLLMY_OAuth2 := (if oAuth2_Enabled (llmProfile_OAuth2 profile) then ka_oauth2 profile ''/etc/kubernaut-agent/oauth2'' else kaLLMY_OAuth2 llmCfg),
          kaLLMY_Reasoning := kaReasoningFromSpec (llmProfile_Reasoning profile)\<rparr>)"

definition applyKALLMProfileFields :: "kaLLMYAML \<Rightarrow> LLMProfileSpec \<Rightarrow> kaLLMYAML" where
  "applyKALLMProfileFields llmCfg profile = applyKALLMProfileFieldsForRole llmCfg profile llmTLSRoleInvestigation"

definition parseLLMTemperature :: "documents \<Rightarrow> string \<Rightarrow> float64 option" where
  "parseLLMTemperature D s = (if s = '''' then None else d_ParseFloat D s)"

text \<open>The credentials of a second profile of the agent: its own mounts, or the ones of the investigation.\<close>

definition ka_api_key_file :: "LLMProfileSpec \<Rightarrow> LLMProfileSpec \<Rightarrow> string \<Rightarrow> string" where
  "ka_api_key_file profile kaProfile dedicated =
     (let secret = llmProfile_CredentialsSecretName profile;
          credentialsMountPath = (if secret \<noteq> '''' \<and> secret \<noteq> llmProfile_CredentialsSecretName kaProfile then dedicated
            else ''/etc/kubernaut-agent/credentials'');
          credFile = (if llmProfile_Provider profile = LLMProviderVertexAI then llmCredentialsFileVertexJSON else llmCredentialsFileAPIKey)
      in if secret \<noteq> '''' then credentialsMountPath @ ''/'' @ credFile else '''')"

definition ka_oauth2_dir :: "LLMProfileSpec \<Rightarrow> LLMProfileSpec \<Rightarrow> string \<Rightarrow> string" where
  "ka_oauth2_dir profile kaProfile dedicated =
     (let o2 = llmProfile_OAuth2 profile; base = llmProfile_OAuth2 kaProfile in
      if oAuth2_Enabled base \<and> oAuth2_CredentialsSecretRef o2 \<noteq> '''' \<and> oAuth2_CredentialsSecretRef o2 = oAuth2_CredentialsSecretRef base
      then ''/etc/kubernaut-agent/oauth2'' else dedicated)"

definition kaAlignmentLLMConfig :: "documents \<Rightarrow> LLMProfileSpec \<Rightarrow> LLMProfileSpec \<Rightarrow> kaAlignLLMYAML" where
  "kaAlignmentLLMConfig D profile kaProfile =
     (case llmTLSMaterialPaths profile kaProfile llmTLSRoleAlignment of (caFile, certFile, keyFile) \<Rightarrow>
      \<lparr>kaAlignLLMY_Provider = llmProfile_Provider profile, kaAlignLLMY_Model = llmProfile_Model profile, kaAlignLLMY_Endpoint = llmProfile_Endpoint profile,
       kaAlignLLMY_APIKeyFile = ka_api_key_file profile kaProfile alignmentCredentialsMountPath,
       kaAlignLLMY_Temperature = parseLLMTemperature D (llmProfile_Temperature profile),
       kaAlignLLMY_MaxRetries = intPtrDefault (llmProfile_MaxRetries profile) 3,
       kaAlignLLMY_TimeoutSeconds = intPtrDefault (llmProfile_TimeoutSeconds profile) 120,
       kaAlignLLMY_VertexProject = llmProfile_VertexProject profile, kaAlignLLMY_VertexLocation = llmProfile_VertexLocation profile,
       kaAlignLLMY_BedrockRegion = llmProfile_BedrockRegion profile, kaAlignLLMY_AzureApiVersion = llmProfile_AzureAPIVersion profile,
       kaAlignLLMY_TLSCaFile = caFile, kaAlignLLMY_TLSCertFile = certFile, kaAlignLLMY_TLSKeyFile = keyFile,
       kaAlignLLMY_OAuth2 = ka_oauth2 profile (ka_oauth2_dir profile kaProfile alignmentOAuth2MountPath),
       kaAlignLLMY_Reasoning = kaReasoningFromSpec (llmProfile_Reasoning profile)\<rparr>)"

definition kaAlignmentConfig :: "documents \<Rightarrow> Kubernaut \<Rightarrow> AlignmentCheckSpec \<Rightarrow> LLMProfileSpec \<Rightarrow> kaAlignmentYAML option" where
  "kaAlignmentConfig D kn ac kaProfile =
     (if \<not> alignmentCheck_Enabled ac then None
      else Some \<lparr>kaAlignmentY_Enabled = True, kaAlignmentY_Timeout = withDefault (alignmentCheck_Timeout ac) ''10s'',
        kaAlignmentY_MaxStepTokens = intDefault (alignmentCheck_MaxStepTokens ac) 500,
        kaAlignmentY_LLM = map_option (\<lambda>profile. kaAlignmentLLMConfig D profile kaProfile)
          (ResolveLLMProfile kn (EffectiveAlignmentCheckLLMProfileRef kn))\<rparr>)"

definition kaSafetyConfig :: "SafetySpec \<Rightarrow> kaSafetyYAML option" where
  "kaSafetyConfig safety = Some \<lparr>
     kaSafetyY_Sanitization = \<lparr>
       kaSanitizationY_InjectionPatternsEnabled = deref_or True (sanitization_InjectionPatternsEnabled (safety_Sanitization safety)),
       kaSanitizationY_CredentialScrubEnabled = deref_or True (sanitization_CredentialScrubEnabled (safety_Sanitization safety))\<rparr>,
     kaSafetyY_Anomaly = \<lparr>kaAnomalyY_MaxToolCallsPerTool = intPtrDefault (anomaly_MaxToolCallsPerTool (safety_Anomaly safety)) 10,
       kaAnomalyY_MaxTotalToolCalls = intPtrDefault (anomaly_MaxTotalToolCalls (safety_Anomaly safety)) 40,
       kaAnomalyY_MaxRepeatedFailures = intPtrDefault (anomaly_MaxRepeatedFailures (safety_Anomaly safety)) 3\<rparr>\<rparr>"

definition kaInteractiveConfig :: "InteractiveSpec option \<Rightarrow> kaInteractiveYAML option" where
  "kaInteractiveConfig interactive =
     (let ic = \<lparr>kaInteractiveY_Enabled = True, kaInteractiveY_SessionTTL = ''30m'', kaInteractiveY_InactivityTimeout = defaultTenMinuteDuration,
            kaInteractiveY_MaxConcurrentSessions = Some 100, kaInteractiveY_RateLimitPerUser = Some 20\<rparr>
      in case interactive of
           None \<Rightarrow> Some ic
         | Some i \<Rightarrow>
            (if \<not> InteractiveEnabled i then None
             else Some (ic\<lparr>kaInteractiveY_SessionTTL := withDefault (interactive_SessionTTL i) (kaInteractiveY_SessionTTL ic),
               kaInteractiveY_InactivityTimeout := withDefault (interactive_InactivityTimeout i) (kaInteractiveY_InactivityTimeout ic),
               kaInteractiveY_MaxConcurrentSessions := (case interactive_MaxConcurrentSessions i of
                  None \<Rightarrow> kaInteractiveY_MaxConcurrentSessions ic | Some n \<Rightarrow> Some n),
               kaInteractiveY_RateLimitPerUser := (case interactive_RateLimitPerUser i of
                  None \<Rightarrow> kaInteractiveY_RateLimitPerUser ic | Some n \<Rightarrow> Some n)\<rparr>)))"

definition kaToolsConfig :: "Kubernaut \<Rightarrow> kaIntegrationsToolsYAML option" where
  "kaToolsConfig knV2 = Some \<lparr>
     kaIntegrationsToolsY_Prometheus = \<lparr>kaIntegrationsPrometheusY_URL = effectivePrometheusURL knV2,
       kaIntegrationsPrometheusY_TLSCaFile = EffectiveMonitoringTLSCAFile knV2\<rparr>,
     kaIntegrationsToolsY_Alertmanager = Some \<lparr>kaIntegrationsAlertmanagerY_URL = effectiveAlertManagerURL knV2,
       kaIntegrationsAlertmanagerY_TLSCaFile = EffectiveMonitoringTLSCAFile knV2\<rparr>\<rparr>"

definition kaRateLimitFromSpec :: "KARateLimitSpec option \<Rightarrow> kaRateLimitYAML" where
  "kaRateLimitFromSpec spec =
     (case spec of
        None \<Rightarrow> \<lparr>kaRateLimitY_RequestsPerSecond = 50, kaRateLimitY_Burst = 100\<rparr>
      | Some s \<Rightarrow> \<lparr>kaRateLimitY_RequestsPerSecond = intPtrDefault (kaRateLimit_RequestsPerSecond s) 50,
          kaRateLimitY_Burst = intPtrDefault (kaRateLimit_Burst s) 100\<rparr>)"

definition ka_runtime :: "documents \<Rightarrow> Kubernaut \<Rightarrow> Kubernaut \<Rightarrow> string \<Rightarrow> kaRuntimeYAML" where
  "ka_runtime D kn knV2 tlsProfile =
     (let ka = spec_KubernautAgent (kn_Spec kn); kaAudit = kubernautAgent_Audit (spec_KubernautAgent (kn_Spec knV2)) in
      \<lparr>kaRuntimeY_Logging = \<lparr>kaLoggingY_Level = withDefault (logging_Level (kubernautAgent_Logging ka)) ''info'', kaLoggingY_Format = ''json''\<rparr>,
       kaRuntimeY_Debug = debug_of knV2,
       kaRuntimeY_Server = \<lparr>kaRuntimeServerY_Address = ''0.0.0.0'', kaRuntimeServerY_Port = 8443, kaRuntimeServerY_HealthAddr = '':8081'',
         kaRuntimeServerY_MetricsAddr = '':9090'', kaRuntimeServerY_TLS = \<lparr>kubernautAgentServerTLSY_CertDir = InterServiceTLSCertDirFor knV2\<rparr>,
         kaRuntimeServerY_TLSProfile = tlsProfile, kaRuntimeServerY_TLSCAFile = InterServiceTLSCAFileFor knV2,
         kaRuntimeServerY_RateLimit = kaRateLimitFromSpec (kubernautAgent_ServerRateLimit ka)\<rparr>,
       kaRuntimeY_Audit = (if \<not> AuditEnabled (kubernautAgent_Audit ka) then None
         else Some \<lparr>kaAuditY_FlushIntervalSeconds = parseFloatDefault D (audit_FlushIntervalSeconds kaAudit) 0x3FF0000000000000,
           kaAuditY_BufferSize = intPtrDefault (audit_BufferSize kaAudit) 10000, kaAuditY_BatchSize = intPtrDefault (audit_BatchSize kaAudit) 50\<rparr>),
       kaRuntimeY_Session = Some \<lparr>kaSessionY_TTL = session_TTL (kubernautAgent_Session ka),
         kaSessionY_MaxConcurrentInvestigations = intDefault (session_MaxConcurrentInvestigations (kubernautAgent_Session ka)) 50\<rparr>,
       kaRuntimeY_Shutdown = \<lparr>kaShutdownY_DrainSeconds = intPtrDefault (shutdown_DrainSeconds (kubernautAgent_Shutdown ka)) 30\<rparr>\<rparr>)"

definition ka_ai :: "documents \<Rightarrow> Kubernaut \<Rightarrow> kaAIYAML" where
  "ka_ai D kn =
     (let ka = spec_KubernautAgent (kn_Spec kn);
          kaProfile = profile_or_zero kn (EffectiveInvestigationLLMProfileRef kn);
          threshold = intDefault (summarizer_Threshold (kubernautAgent_Summarizer ka)) 8000;
          maxOutput = intDefault (summarizer_MaxToolOutputSize (kubernautAgent_Summarizer ka)) 100000
      in \<lparr>kaAIY_LLM = applyKALLMProfileFields \<lparr>kaLLMY_Provider = llmProfile_Provider kaProfile, kaLLMY_VertexProject = '''',
            kaLLMY_VertexLocation = '''', kaLLMY_BedrockRegion = '''', kaLLMY_AzureApiVersion = '''', kaLLMY_TLSCaFile = '''',
            kaLLMY_TLSCertFile = '''', kaLLMY_TLSKeyFile = '''', kaLLMY_OAuth2 = None, kaLLMY_Reasoning = None\<rparr> kaProfile,
          kaAIY_Investigation = \<lparr>kaInvestigationY_MaxTurns = intPtrDefault (investigation_MaxTurns (kubernautAgent_Investigation ka)) 40,
            kaInvestigationY_MaxEvidenceHandoffBytes =
              intPtrDefault (workflowDiscovery_MaxEvidenceHandoffBytes (kubernautAgent_WorkflowDiscovery ka)) 262144\<rparr>,
          kaAIY_AlignmentCheck = kaAlignmentConfig D kn (kubernautAgent_AlignmentCheck ka) kaProfile,
          kaAIY_Summarizer = (if threshold \<noteq> 8000 \<or> maxOutput \<noteq> 100000
            then Some \<lparr>kaSummarizerY_Threshold = threshold, kaSummarizerY_MaxToolOutputSize = maxOutput\<rparr> else None),
          kaAIY_Safety = kaSafetyConfig (kubernautAgent_Safety ka)\<rparr>)"

definition kubernaut_agent_config :: "documents \<Rightarrow> Kubernaut \<Rightarrow> Kubernaut \<Rightarrow> string \<Rightarrow> kubernautAgentConfigYAML" where
  "kubernaut_agent_config D kn knV2 tlsProfile =
     (let ns = kn_Namespace kn in
      \<lparr>kubernautAgentConfigY_Runtime = ka_runtime D kn knV2 tlsProfile,
       kubernautAgentConfigY_AI = ka_ai D kn,
       kubernautAgentConfigY_Integrations = \<lparr>kaIntegrationsY_DataStorage = \<lparr>kaIntegrationsDataStorageY_URL = DataStorageURL ns,
           kaIntegrationsDataStorageY_HealthURL = DataStorageHealthURL ns\<rparr>,
         kaIntegrationsY_Tools = kaToolsConfig knV2, kaIntegrationsY_Fleet = resolveKAFleetConfig knV2\<rparr>,
       kubernautAgentConfigY_Interactive = kaInteractiveConfig (kubernautAgent_Interactive (spec_KubernautAgent (kn_Spec kn))),
       kubernautAgentConfigY_Telemetry = resolveTelemetryConfig D (kubernautAgent_Telemetry (spec_KubernautAgent (kn_Spec knV2)))\<rparr>)"

definition KubernautAgentConfigMap :: "documents \<Rightarrow> Kubernaut \<Rightarrow> Kubernaut \<Rightarrow> string \<Rightarrow> kobj go" where
  "KubernautAgentConfigMap D kn knV2 tlsProfile =
     yamlConfigMap D (ObjectMeta kn ''kubernaut-agent-config'' ComponentKubernautAgent) ''config.yaml'' ''kubernaut-agent config''
       (enc_kubernautAgentConfigYAML (kubernaut_agent_config D kn knV2 tlsProfile))"

subsection \<open>The runtime document of the agent\<close>

definition resolveKAPhaseModelOverride :: "documents \<Rightarrow> Kubernaut \<Rightarrow> string \<Rightarrow> string \<Rightarrow> LLMProfileSpec \<Rightarrow> llmPhaseOverrideYAML" where
  "resolveKAPhaseModelOverride D kn phase ref kaProfile =
     (let p = profile_or_zero kn ref in
      case llmTLSMaterialPaths p kaProfile llmTLSRoleWorkflowDiscovery of (caFile, certFile, keyFile) \<Rightarrow>
      \<lparr>llmPhaseOverrideY_Provider = llmProfile_Provider p, llmPhaseOverrideY_Model = llmProfile_Model p, llmPhaseOverrideY_Endpoint = llmProfile_Endpoint p,
       llmPhaseOverrideY_APIKeyFile = ka_api_key_file p kaProfile (phaseCredentialsMountPath phase),
       llmPhaseOverrideY_Temperature = parseLLMTemperature D (llmProfile_Temperature p),
       llmPhaseOverrideY_MaxRetries = intPtrDefault (llmProfile_MaxRetries p) 3,
       llmPhaseOverrideY_TimeoutSeconds = intPtrDefault (llmProfile_TimeoutSeconds p) 120,
       llmPhaseOverrideY_VertexProject = llmProfile_VertexProject p, llmPhaseOverrideY_VertexLocation = llmProfile_VertexLocation p,
       llmPhaseOverrideY_BedrockRegion = llmProfile_BedrockRegion p, llmPhaseOverrideY_AzureApiVersion = llmProfile_AzureAPIVersion p,
       llmPhaseOverrideY_TLSCaFile = caFile, llmPhaseOverrideY_TLSCertFile = certFile, llmPhaseOverrideY_TLSKeyFile = keyFile,
       llmPhaseOverrideY_OAuth2 = ka_oauth2 p (ka_oauth2_dir p kaProfile workflowOAuth2MountPath),
       llmPhaseOverrideY_Reasoning = kaReasoningFromSpec (llmProfile_Reasoning p)\<rparr>)"

definition ka_phase_models :: "documents \<Rightarrow> Kubernaut \<Rightarrow> llmPhaseOverrideYAML gomap" where
  "ka_phase_models D kn =
     (let kaProfile = profile_or_zero kn (EffectiveInvestigationLLMProfileRef kn); workflowProfileRef = EffectiveWorkflowDiscoveryLLMProfileRef kn in
      if workflowProfileRef \<noteq> '''' \<and> workflowProfileRef \<noteq> EffectiveInvestigationLLMProfileRef kn
      then [(''workflow_discovery'', resolveKAPhaseModelOverride D kn ''workflow_discovery'' workflowProfileRef kaProfile)] else [])"

definition llm_runtime :: "documents \<Rightarrow> Kubernaut \<Rightarrow> llmRuntimeYAML" where
  "llm_runtime D kn =
     (let p = profile_or_zero kn (EffectiveInvestigationLLMProfileRef kn) in
      \<lparr>llmRuntimeY_Provider = llmProfile_Provider p, llmRuntimeY_Model = llmProfile_Model p, llmRuntimeY_Endpoint = llmProfile_Endpoint p,
       llmRuntimeY_Temperature = parseLLMTemperature D (llmProfile_Temperature p), llmRuntimeY_MaxRetries = intPtrDefault (llmProfile_MaxRetries p) 3,
       llmRuntimeY_TimeoutSeconds = intPtrDefault (llmProfile_TimeoutSeconds p) 120, llmRuntimeY_VertexProject = llmProfile_VertexProject p,
       llmRuntimeY_VertexLocation = llmProfile_VertexLocation p, llmRuntimeY_PhaseModels = ka_phase_models D kn\<rparr>)"

definition KubernautAgentLLMRuntimeConfigMap :: "documents \<Rightarrow> Kubernaut \<Rightarrow> kobj option go" where
  "KubernautAgentLLMRuntimeConfigMap D kn =
     (if kubernautAgent_RuntimeConfigMapName (spec_KubernautAgent (kn_Spec kn)) \<noteq> '''' then Inr None
      else map_sum id Some (yamlConfigMap D (ObjectMeta kn (KubernautAgentLLMRuntimeConfigName kn) ComponentKubernautAgent) ''llm-runtime.yaml''
        ''kubernaut-agent-llm-runtime config'' (enc_llmRuntimeYAML (llm_runtime D kn))))"

end
