(* ===== verification/Frontend_Configs.thy ===== *)
theory Frontend_Configs
  imports Agent_Configs
begin

text \<open>
  The configuration documents of the API frontend (\<^verbatim>\<open>internal/resources/configmaps.go\<close>) and of the metadata cache of the fleet
  (\<^verbatim>\<open>internal/resources/fleetmetadatacache.go\<close>). At the end the builders of all documents are collected into the record of builders that the
  deployment of the ConfigMaps takes.
\<close>

subsection \<open>The model connection of the frontend\<close>

definition afAgentLLMConfigForRole :: "LLMProfileSpec \<Rightarrow> LLMProfileSpec \<Rightarrow> string \<Rightarrow> afAgentLLMYAML" where
  "afAgentLLMConfigForRole llm base role =
     (let provider = (if llmProfile_Provider llm = '''' then LLMProviderVertexAI else llmProfile_Provider llm);
          afProvider = (if provider = LLMProviderOpenAI then LLMProviderOpenAICompatible else provider);
          endpoint = (if afProvider = LLMProviderOpenAICompatible \<and> llmProfile_Endpoint llm \<noteq> '''' \<and> \<not> HasSuffix (llmProfile_Endpoint llm) ''/v1''
            then TrimRight (llmProfile_Endpoint llm) ''/'' @ ''/v1'' else llmProfile_Endpoint llm)
      in case llmTLSMaterialPaths llm base role of (caFile, certFile, keyFile) \<Rightarrow>
        \<lparr>afAgentLLMY_Provider = afProvider, afAgentLLMY_Model = llmProfile_Model llm, afAgentLLMY_Endpoint = endpoint,
         afAgentLLMY_APIKeyFile = (if llmProfile_CredentialsSecretName llm = '''' then ''''
           else ''/etc/apifrontend/llm-credentials/'' @ (if afProvider = LLMProviderVertexAI then llmCredentialsFileVertexJSON else llmCredentialsFileAPIKey)),
         afAgentLLMY_VertexProject = llmProfile_VertexProject llm, afAgentLLMY_VertexLocation = llmProfile_VertexLocation llm,
         afAgentLLMY_TLSCaFile = caFile, afAgentLLMY_TLSCertFile = certFile, afAgentLLMY_TLSKeyFile = keyFile,
         afAgentLLMY_OAuth2 = (if \<not> oAuth2_Enabled (llmProfile_OAuth2 llm) then None
           else Some \<lparr>afAgentLLMOAuth2Y_Enabled = True, afAgentLLMOAuth2Y_TokenURL = oAuth2_TokenURL (llmProfile_OAuth2 llm),
             afAgentLLMOAuth2Y_Scopes = oAuth2_Scopes (llmProfile_OAuth2 llm), afAgentLLMOAuth2Y_CredentialsDir = ''/etc/apifrontend/oauth2''\<rparr>),
         afAgentLLMY_Reasoning = map_option (\<lambda>r. \<lparr>afReasoningY_Enabled = llmReasoning_Enabled r, afReasoningY_BudgetTokens = llmReasoning_BudgetTokens r,
             afReasoningY_Effort = llmReasoning_Effort r, afReasoningY_CapabilityOverride = llmReasoning_CapabilityOverride r\<rparr>) (llmProfile_Reasoning llm)\<rparr>)"

definition afAgentLLMConfig :: "LLMProfileSpec \<Rightarrow> afAgentLLMYAML" where
  "afAgentLLMConfig llm = afAgentLLMConfigForRole llm llm llmTLSRoleAPIFrontend"

definition zero_afAgentLLMYAML :: afAgentLLMYAML where
  "zero_afAgentLLMYAML = \<lparr>afAgentLLMY_Provider = '''', afAgentLLMY_Model = '''', afAgentLLMY_Endpoint = '''', afAgentLLMY_APIKeyFile = '''',
     afAgentLLMY_VertexProject = '''', afAgentLLMY_VertexLocation = '''', afAgentLLMY_TLSCaFile = '''', afAgentLLMY_TLSCertFile = '''',
     afAgentLLMY_TLSKeyFile = '''', afAgentLLMY_OAuth2 = None, afAgentLLMY_Reasoning = None\<rparr>"

definition serviceAccountTokenFile :: string where
  "serviceAccountTokenFile = ''/var/run/secrets/kubernetes.io/serviceaccount/token''"

text \<open>The model of the triage: none written (the frontend's own is inherited), a zero one (triage by rules only), or the one of its profile.\<close>

definition severity_triage_llm :: "Kubernaut \<Rightarrow> afAgentLLMYAML option" where
  "severity_triage_llm kn =
     (let st = apiFrontend_SeverityTriage (spec_APIFrontend (kn_Spec kn));
          ref = (case st of None \<Rightarrow> '''' | Some s \<Rightarrow> apiFrontendSeverityTriage_LLMProfileRef s)
      in if \<not> LLMTriageEnabled st then Some zero_afAgentLLMYAML
         else if ref = '''' then None
         else map_option (\<lambda>triageProfile.
           let afProfile = profile_or_zero kn (AFLLMProfileRef kn);
               llm = afAgentLLMConfigForRole triageProfile afProfile llmTLSRoleSeverityTriage;
               secret = llmProfile_CredentialsSecretName triageProfile
           in if secret \<noteq> '''' \<and> secret \<noteq> llmProfile_CredentialsSecretName afProfile
              then llm\<lparr>afAgentLLMY_APIKeyFile := severityTriageCredentialsMountPath @ ''/'' @
                (if llmProfile_Provider triageProfile = LLMProviderVertexAI then llmCredentialsFileVertexJSON else llmCredentialsFileAPIKey)\<rparr>
              else llm) (ResolveLLMProfile kn ref))"

definition afSeverityTriageConfig :: "documents \<Rightarrow> Kubernaut \<Rightarrow> Kubernaut \<Rightarrow> afSeverityTriageYAML" where
  "afSeverityTriageConfig D kn knV2 =
     (let stV2 = apiFrontend_SeverityTriage (spec_APIFrontend (kn_Spec knV2)) in
      \<lparr>afSeverityTriageY_Enabled = PrometheusEnabled (monitoring_Prometheus (spec_Monitoring (kn_Spec knV2))),
       afSeverityTriageY_PrometheusURL = effectivePrometheusURL knV2, afSeverityTriageY_PrometheusTLSCAFile = EffectiveMonitoringTLSCAFile knV2,
       afSeverityTriageY_PrometheusBearerTokenFile = serviceAccountTokenFile,
       afSeverityTriageY_CacheTTLSeconds = (case stV2 of None \<Rightarrow> 30 | Some s \<Rightarrow> intPtrDefault (apiFrontendSeverityTriage_CacheTTLSeconds s) 30),
       afSeverityTriageY_MaxQueriesPerCall = 10, afSeverityTriageY_MaxRulesEvaluated = 100,
       afSeverityTriageY_LLMConfidence = (case stV2 of None \<Rightarrow> 0x3FE6666666666666
         | Some s \<Rightarrow> parseFloatDefault D (apiFrontendSeverityTriage_LLMConfidence s) 0x3FE6666666666666),
       afSeverityTriageY_LLM = severity_triage_llm kn\<rparr>)"

subsection \<open>Tokens\<close>

definition afKeycloakJWKSPath :: string where "afKeycloakJWKSPath = ''/protocol/openid-connect/certs''"

definition deriveAFJWKSURL :: "string \<Rightarrow> string" where
  "deriveAFJWKSURL issuerURL = TrimRight issuerURL ''/'' @ afKeycloakJWKSPath"

definition injectConsoleAudience :: "afJWTProviderYAML list \<Rightarrow> afJWTProviderYAML list" where
  "injectConsoleAudience = map (\<lambda>p. if ComponentConsole \<in> set (afJWTProviderY_Audiences p) then p
     else p\<lparr>afJWTProviderY_Audiences := afJWTProviderY_Audiences p @ [ComponentConsole]\<rparr>)"

definition af_provider :: "JWTProviderSpec \<Rightarrow> afJWTProviderYAML" where
  "af_provider p = \<lparr>afJWTProviderY_Name = jwtProvider_Name p, afJWTProviderY_IssuerURL = jwtProvider_IssuerURL p,
     afJWTProviderY_JWKSURL = jwtProvider_JWKSURL p, afJWTProviderY_Audiences = jwtProvider_Audiences p,
     afJWTProviderY_ClaimMappings = map_option (\<lambda>m. \<lparr>afClaimMappingsY_Username = claimMappings_Username m, afClaimMappingsY_Groups = claimMappings_Groups m\<rparr>)
       (jwtProvider_ClaimMappings p)\<rparr>"

definition afAuthConfig :: "Kubernaut \<Rightarrow> afAuthYAML" where
  "afAuthConfig kn =
     (let auth = apiFrontend_Auth (spec_APIFrontend (kn_Spec kn)); issuer = apiFrontendAuth_IssuerURL auth;
          jwks = (if apiFrontendAuth_JWKSURL auth = '''' \<and> issuer \<noteq> '''' then deriveAFJWKSURL issuer else apiFrontendAuth_JWKSURL auth);
          audience = withDefault (apiFrontendAuth_Audience auth) ''kubernaut-apifrontend'';
          console = ConsoleEnabled (kn_Spec kn); valkey = spec_Valkey (kn_Spec kn)
      in \<lparr>afAuthY_IssuerURL = issuer, afAuthY_Audience = audience, afAuthY_JWKSURL = jwks, afAuthY_OIDCCAFile = apiFrontendAuth_OIDCCAFile auth,
          afAuthY_AllowInsecureIssuers = apiFrontendAuth_AllowInsecureIssuers auth,
          afAuthY_ReplayCache = (if valkey_SecretName valkey = '''' then None
            else Some \<lparr>afReplayCacheY_Backend = ''redis'', afReplayCacheY_RedisAddr = ValkeyAddr valkey, afReplayCacheY_RedisDB = 1,
              afReplayCacheY_CredentialsPath = ''/etc/apifrontend/valkey/valkey-secrets.yaml''\<rparr>),
          afAuthY_JWTProviders =
            (if apiFrontendAuth_JWTProviders auth \<noteq> []
             then (if console then injectConsoleAudience (map af_provider (apiFrontendAuth_JWTProviders auth))
                   else map af_provider (apiFrontendAuth_JWTProviders auth))
             else if console \<and> issuer \<noteq> ''''
             then [\<lparr>afJWTProviderY_Name = ''default'', afJWTProviderY_IssuerURL = issuer, afJWTProviderY_JWKSURL = jwks,
                    afJWTProviderY_Audiences = [audience, ComponentConsole], afJWTProviderY_ClaimMappings = None\<rparr>]
             else [])\<rparr>)"

definition afRBACConfig :: "Kubernaut \<Rightarrow> Kubernaut \<Rightarrow> afRBACYAML" where
  "afRBACConfig kn knV2 = \<lparr>
     afRBACY_SARCacheTTL = (case apiFrontend_RBAC (spec_APIFrontend (kn_Spec kn)) of
        None \<Rightarrow> ''30s'' | Some r \<Rightarrow> withDefault (apiFrontendRBAC_SARCacheTTL r) ''30s''),
     afRBACY_ConsoleAccessAuthorizationCheckEnabled = (case apiFrontend_RBAC (spec_APIFrontend (kn_Spec knV2)) of
        None \<Rightarrow> False | Some r \<Rightarrow> deref_or False (apiFrontendRBAC_ConsoleAccessAuthorizationCheckEnabled r))\<rparr>"

subsection \<open>Sessions, tools, server and retries\<close>

definition afSessionConfig :: "Kubernaut \<Rightarrow> string \<Rightarrow> afSessionYAML" where
  "afSessionConfig knV2 ns =
     (let session = apiFrontend_Session (spec_APIFrontend (kn_Spec knV2)) in
      \<lparr>afSessionY_Namespace = ns,
       afSessionY_DisconnectTTL = (case session of None \<Rightarrow> defaultTenMinuteDuration
         | Some s \<Rightarrow> withDefault (apiFrontendSession_DisconnectTTL s) defaultTenMinuteDuration),
       afSessionY_RetentionTTL = (case session of None \<Rightarrow> ''720h'' | Some s \<Rightarrow> withDefault (apiFrontendSession_RetentionTTL s) ''720h'')\<rparr>)"

definition afDefaultToolTimeouts :: "string gomap" where
  "afDefaultToolTimeouts = [(''kubernaut_investigate'', ''15m''), (''kubernaut_await_session'', ''3m''), (''kubernaut_watch'', ''15m''),
     (''kubernaut_discover_workflows'', ''60s'')]"

definition afMCPConfig :: "Kubernaut \<Rightarrow> afMCPYAML" where
  "afMCPConfig knV2 =
     (let cfg = \<lparr>afMCPY_Enabled = True, afMCPY_SessionIdleTimeout = ''30m'', afMCPY_ToolTimeout = ''30s'',
            afMCPY_ToolTimeouts = mergeStringMapDefaults [] afDefaultToolTimeouts\<rparr>
      in case apiFrontend_MCP (spec_APIFrontend (kn_Spec knV2)) of
           None \<Rightarrow> cfg
         | Some mcp \<Rightarrow> cfg\<lparr>afMCPY_SessionIdleTimeout := withDefault (apiFrontendMCP_SessionIdleTimeout mcp) (afMCPY_SessionIdleTimeout cfg),
             afMCPY_ToolTimeout := withDefault (apiFrontendMCP_ToolTimeout mcp) (afMCPY_ToolTimeout cfg),
             afMCPY_ToolTimeouts := mergeStringMapDefaults (apiFrontendMCP_ToolTimeouts mcp) afDefaultToolTimeouts\<rparr>)"

definition afServerConfig :: "APIFrontendSpec \<Rightarrow> afServerYAML" where
  "afServerConfig af = \<lparr>afServerY_Port = PortHTTPS,
     afServerY_MetricsPort = (case apiFrontend_MetricsPort af of None \<Rightarrow> PortMetrics | Some p \<Rightarrow> p),
     afServerY_HealthPort = (case apiFrontend_HealthPort af of None \<Rightarrow> PortHealthProbe | Some p \<Rightarrow> p),
     afServerY_TLS = \<lparr>afTLSY_CertDir = ''/etc/apifrontend/tls'', afTLSY_Required = True\<rparr>\<rparr>"

definition afResilienceConfig :: afResilienceYAML where
  "afResilienceConfig = \<lparr>
     afResilienceY_KA = \<lparr>afCircuitBreakerY_ConnectTimeout = ''5s'', afCircuitBreakerY_RequestTimeout = ''30s'', afCircuitBreakerY_CBMaxRequests = 3,
       afCircuitBreakerY_CBInterval = ''10s'', afCircuitBreakerY_CBTimeout = ''30s'', afCircuitBreakerY_CBFailureThreshold = 5,
       afCircuitBreakerY_RetryMax = 2, afCircuitBreakerY_RetryInitBackoff = ''500ms'', afCircuitBreakerY_RetryMaxBackoff = ''5s'',
       afCircuitBreakerY_RetryableStatuses = [502, 503, 504]\<rparr>,
     afResilienceY_DS = \<lparr>afCircuitBreakerY_ConnectTimeout = ''3s'', afCircuitBreakerY_RequestTimeout = ''10s'', afCircuitBreakerY_CBMaxRequests = 3,
       afCircuitBreakerY_CBInterval = ''10s'', afCircuitBreakerY_CBTimeout = ''15s'', afCircuitBreakerY_CBFailureThreshold = 3,
       afCircuitBreakerY_RetryMax = 3, afCircuitBreakerY_RetryInitBackoff = ''200ms'', afCircuitBreakerY_RetryMaxBackoff = ''3s'',
       afCircuitBreakerY_RetryableStatuses = [502, 503, 504]\<rparr>,
     afResilienceY_K8s = \<lparr>afCircuitBreakerY_ConnectTimeout = ''5s'', afCircuitBreakerY_RequestTimeout = ''30s'', afCircuitBreakerY_CBMaxRequests = 3,
       afCircuitBreakerY_CBInterval = ''10s'', afCircuitBreakerY_CBTimeout = ''30s'', afCircuitBreakerY_CBFailureThreshold = 5,
       afCircuitBreakerY_RetryMax = 0, afCircuitBreakerY_RetryInitBackoff = '''', afCircuitBreakerY_RetryMaxBackoff = '''',
       afCircuitBreakerY_RetryableStatuses = []\<rparr>\<rparr>"

subsection \<open>The document of the frontend\<close>

definition af_agent :: "Kubernaut \<Rightarrow> afAgentYAML" where
  "af_agent kn =
     (let afProfile = profile_or_zero kn (AFLLMProfileRef kn);
          kaBaseURL = ''https://kubernaut-agent.'' @ kn_Namespace kn @ ''.svc.cluster.local:'' @ show_int PortHTTPS;
          dsBaseURL = ''https://data-storage-service.'' @ kn_Namespace kn @ ''.svc.cluster.local:'' @ show_int PortHTTPS
      in \<lparr>afAgentY_KABaseURL = kaBaseURL, afAgentY_KAMCPEndpoint = kaBaseURL @ ''/api/v1/mcp/'', afAgentY_DSBaseURL = dsBaseURL,
          afAgentY_DSHealthURL = dsBaseURL @ ''/readyz'', afAgentY_DSBearerTokenFile = serviceAccountTokenFile,
          afAgentY_KABearerTokenFile = serviceAccountTokenFile, afAgentY_KATLSCAFile = apifrontendTLSCAFile,
          afAgentY_DSTLSCAFile = apifrontendTLSCAFile, afAgentY_LLM = afAgentLLMConfigForRole afProfile afProfile llmTLSRoleAPIFrontend\<rparr>)"

definition api_frontend_config :: "documents \<Rightarrow> Kubernaut \<Rightarrow> Kubernaut \<Rightarrow> afConfigYAML" where
  "api_frontend_config D kn knV2 =
     (let af = spec_APIFrontend (kn_Spec kn); ns = kn_Namespace kn; rate = apiFrontend_RateLimit af;
          agentCardURL = (if apiFrontend_AgentCardURL af = ''''
            then ''https://apifrontend.'' @ ns @ ''.svc.cluster.local:'' @ show_int PortHTTPS @ ''/a2a/invoke'' else apiFrontend_AgentCardURL af)
      in \<lparr>afConfigY_Server = afServerConfig af, afConfigY_Agent = af_agent kn, afConfigY_MCP = afMCPConfig knV2,
          afConfigY_AgentCard = \<lparr>afAgentCardY_Name = ''Kubernaut Agent'', afAgentCardY_URL = agentCardURL\<rparr>,
          afConfigY_Auth = afAuthConfig kn, afConfigY_RBAC = afRBACConfig kn knV2,
          afConfigY_Logging = \<lparr>afLoggingY_Level = withDefault (logging_Level (apiFrontend_Logging af)) ''info''\<rparr>,
          afConfigY_RateLimit = \<lparr>afRateLimitY_IPRequestsPerSec = intPtrDefault (apiFrontendRateLimit_IPRequestsPerSec rate) 50,
            afRateLimitY_UserRequestsPerSec = intPtrDefault (apiFrontendRateLimit_UserRequestsPerSec rate) 20,
            afRateLimitY_MaxConcurrentSessions = intPtrDefault (apiFrontendRateLimit_MaxConcurrentSessions rate) 100,
            afRateLimitY_ToolCallsPerMinute = intPtrDefault (apiFrontendRateLimit_ToolCallsPerMinute rate) 60\<rparr>,
          afConfigY_Shutdown = \<lparr>afShutdownY_DrainSeconds = intPtrDefault (shutdown_DrainSeconds (apiFrontend_Shutdown af)) 15\<rparr>,
          afConfigY_SeverityTriage = afSeverityTriageConfig D kn knV2, afConfigY_Resilience = afResilienceConfig,
          afConfigY_Session = afSessionConfig knV2 ns,
          afConfigY_Fleet = resolveAPIFrontendFleetConfig knV2
            (effectiveFleetOAuth2SecretRef (apiFrontend_Fleet (spec_APIFrontend (kn_Spec knV2))) '''') apifrontendTLSCAFile,
          afConfigY_Debug = debug_of knV2\<rparr>)"

definition APIFrontendConfigMap :: "documents \<Rightarrow> Kubernaut \<Rightarrow> Kubernaut \<Rightarrow> kobj go" where
  "APIFrontendConfigMap D kn knV2 =
     yamlConfigMap D (ObjectMeta kn ''apifrontend-config'' ComponentAPIFrontend) ''config.yaml'' ''apifrontend config''
       (enc_afConfigYAML (api_frontend_config D kn knV2))"

definition APIFrontendRBACRolesConfigMap :: "Kubernaut \<Rightarrow> kobj" where
  "APIFrontendRBACRolesConfigMap kn = \<lparr>obj_Kind = ''ConfigMap'', obj_Meta = ObjectMeta kn ''apifrontend-rbac-roles'' ComponentAPIFrontend,
     obj_Body = ConfigMapBody [(''rbac_roles.yaml'', text_lines [''roles:'', ''  admin: ['' @ quoted ''*'' @ '']'',
       ''  viewer: ['' @ join_strings '', '' (map quoted [''list_investigations'', ''get_investigation'', ''search_signals'']) @ '']''])] []\<rparr>"

subsection \<open>Metadata cache of the fleet\<close>

definition fleetMetadataCacheConfigMapName :: string where "fleetMetadataCacheConfigMapName = ''fleetmetadatacache-config''"

definition resolveFleetMetadataCacheValkeyTLS :: "Kubernaut \<Rightarrow> fleetMetadataCacheValkeyTLSYAML option" where
  "resolveFleetMetadataCacheValkeyTLS kn =
     (let valkey = spec_Valkey (kn_Spec kn);
          ca = (case valkey_TLS valkey of None \<Rightarrow> False | Some t \<Rightarrow> valkeyTLS_CASecretName t \<noteq> '''');
          client = (case valkey_TLS valkey of None \<Rightarrow> False | Some t \<Rightarrow> valkeyTLS_ClientCertSecretName t \<noteq> '''')
      in if \<not> ValkeyTLSEnabled valkey then None
         else Some \<lparr>fleetMetadataCacheValkeyTLSY_Enabled = True,
           fleetMetadataCacheValkeyTLSY_CAFile = (if ca then ''/etc/valkey-tls/ca/ca.crt'' else ''''),
           fleetMetadataCacheValkeyTLSY_CertFile = (if client then ''/etc/valkey-tls/client/tls.crt'' else ''''),
           fleetMetadataCacheValkeyTLSY_KeyFile = (if client then ''/etc/valkey-tls/client/tls.key'' else '''')\<rparr>)"

definition fleet_metadata_cache_config :: "Kubernaut \<Rightarrow> Kubernaut \<Rightarrow> fleetMetadataCacheConfigYAML" where
  "fleet_metadata_cache_config kn knV2 =
     (let fleet = spec_Fleet (kn_Spec knV2); fmc = spec_FleetMetadataCache (kn_Spec knV2) in
      \<lparr>fleetMetadataCacheConfigY_Server = \<lparr>fleetMetadataCacheServerY_APIAddr = '':'' @ show_int fleetMetadataCacheAPIPort,
         fleetMetadataCacheServerY_HealthAddr = '':'' @ show_int PortHealthProbe, fleetMetadataCacheServerY_MetricsAddr = '':'' @ show_int PortMetrics,
         fleetMetadataCacheServerY_TLS = \<lparr>fleetMetadataCacheServerTLSY_CertDir = InterServiceTLSCertDirFor knV2\<rparr>\<rparr>,
       fleetMetadataCacheConfigY_MCPGateway = \<lparr>fleetMetadataCacheMCPGatewayY_Endpoint = fleetMCPGateway_Endpoint (fleet_MCPGateway fleet),
         fleetMetadataCacheMCPGatewayY_GatewayType = fleetMCPGateway_Type (fleet_MCPGateway fleet),
         fleetMetadataCacheMCPGatewayY_Namespace = fleetMCPGateway_Namespace (fleet_MCPGateway fleet),
         fleetMetadataCacheMCPGatewayY_TLSCAFile = gateway_ca fleet (InterServiceTLSCAFileFor knV2),
         fleetMetadataCacheMCPGatewayY_Resilience = resolveMCPClient knV2\<rparr>,
       fleetMetadataCacheConfigY_Valkey = \<lparr>fleetMetadataCacheValkeyY_Addr = ValkeyAddr (spec_Valkey (kn_Spec kn)),
         fleetMetadataCacheValkeyY_TLS = resolveFleetMetadataCacheValkeyTLS kn\<rparr>,
       fleetMetadataCacheConfigY_Sync = \<lparr>fleetMetadataCacheSyncY_Interval = withDefault (fleetMetadataCache_SyncInterval fmc) ''30s'',
         fleetMetadataCacheSyncY_KeyTTL = withDefault (fleetMetadataCache_KeyTTL fmc) ''45s''\<rparr>,
       fleetMetadataCacheConfigY_OAuth2 = \<lparr>fleetMetadataCacheOAuth2Y_TokenURL = fleetOAuth2_TokenURL (fleet_OAuth2 fleet),
         fleetMetadataCacheOAuth2Y_CredentialsDir = fleetMetadataCacheOAuth2Dir, fleetMetadataCacheOAuth2Y_Scopes = fleetOAuth2_Scopes (fleet_OAuth2 fleet),
         fleetMetadataCacheOAuth2Y_TLSCaFile = resolveFleetTrustCAFile (fleetOAuth2_TLS (fleet_OAuth2 fleet)) (InterServiceTLSCAFileFor knV2)
           fleetOAuth2CAMountPath\<rparr>,
       fleetMetadataCacheConfigY_Debug = debug_of knV2\<rparr>)"

definition FleetMetadataCacheConfigMap :: "documents \<Rightarrow> Kubernaut \<Rightarrow> Kubernaut \<Rightarrow> kobj go" where
  "FleetMetadataCacheConfigMap D kn knV2 =
     yamlConfigMap D (ObjectMeta kn fleetMetadataCacheConfigMapName ComponentFleetMetadataCache) ''config.yaml'' ''fleetmetadatacache config''
       (enc_fleetMetadataCacheConfigYAML (fleet_metadata_cache_config kn knV2))"

subsection \<open>All builders\<close>

definition service_configs :: "documents \<Rightarrow> configs" where
  "service_configs D = \<lparr>c_DataStorage = DataStorageConfigMap D, c_AIAnalysis = AIAnalysisConfigMap D, c_SignalProcessing = SignalProcessingConfigMap D,
     c_RemediationOrchestrator = RemediationOrchestratorConfigMap D, c_WorkflowExecution = WorkflowExecutionConfigMap D,
     c_EffectivenessMonitor = EffectivenessMonitorConfigMap D, c_NotificationController = NotificationControllerConfigMap D,
     c_NotificationRouting = NotificationRoutingConfigMap D, c_KubernautAgent = KubernautAgentConfigMap D, c_AuthWebhook = AuthWebhookConfigMap D,
     c_Gateway = GatewayConfigMap D, c_APIFrontend = APIFrontendConfigMap D, c_FleetMetadataCache = FleetMetadataCacheConfigMap D,
     c_ConsoleOAuth2Proxy = ConsoleOAuth2ProxyConfigMap (d_validators D) (d_MarshalProxy D),
     c_ProactiveSignalMappings = ProactiveSignalMappingsConfigMap, c_KubernautAgentLLMRuntime = KubernautAgentLLMRuntimeConfigMap D\<rparr>"

end
