(* ===== verification/Config_Facts.thy ===== *)
theory Config_Facts
  imports Frontend_Configs Accepted
begin

text \<open>
  What holds of the configuration documents themselves: the numbers they carry are in range, the tokens of the console are accepted while the
  console is enabled and only then, and every document of an accepted custom resource can be built.
\<close>

subsection \<open>Numbers in range\<close>

text \<open>The patterns of the numbers above 0 and up to 1 are the words above 0 and up to the pattern of 1.\<close>

abbreviation unit_fraction :: "float64 \<Rightarrow> bool" where
  "unit_fraction w \<equiv> 0 < w \<and> w \<le> 0x3FF0000000000000"

lemma small_pattern:
  assumes "w \<le> (0x3FF0000000000000 :: float64)"
  shows "take_bit 63 w = w"
proof -
  have "unat w \<le> 0x3FF0000000000000" using assms by (simp add: word_le_nat_alt)
  then show ?thesis by (simp add: word_unat_eq_iff unsigned_take_bit_eq take_bit_nat_eq_self)
qed

lemma small_positive:
  assumes "w \<le> (0x3FF0000000000000 :: float64)"
  shows "\<not> IsNaN w" "\<not> IsInf w" "w < 0x8000000000000000"
proof -
  have w: "unat w \<le> 0x3FF0000000000000" using assms by (simp add: word_le_nat_alt)
  then show "\<not> IsNaN w" "w < 0x8000000000000000" by (simp_all add: IsNaN_def small_pattern [OF assms] word_less_nat_alt)
  from w show "\<not> IsInf w" by (auto simp: IsInf_def small_pattern [OF assms])
qed

lemma validateBoundedFraction_iff:
  "validateBoundedFraction v field raw = (if unit_fraction v then Inr (Some v) else Inl (invalidBoundedFraction field raw))"
proof -
  have "\<not> v < 0x8000000000000000" if "0x8000000000000000 \<le> v" using that by simp
  then show ?thesis using small_positive [of v] by (auto simp: validateBoundedFraction_def float_positive_def float_at_most_one_def)
qed

lemma parsed_threshold:
  "parseConfidenceThreshold D raw = Inr x \<Longrightarrow> \<exists>c. x = Some c \<and> unit_fraction c \<and> raw \<in> {None, Some c}"
  by (auto simp: parseConfidenceThreshold_def validateBoundedFraction_iff defaultAIAnalysisConfidenceThreshold_def split: option.splits if_splits)

lemma parsed_floor:
  "parseLowConfidenceFloor D raw = Inr l \<Longrightarrow> case l of None \<Rightarrow> raw = [] | Some f \<Rightarrow> unit_fraction f \<and> d_ParseFloat D raw = Some f"
  by (cases l) (auto simp: parseLowConfidenceFloor_def validateBoundedFraction_iff split: option.splits if_splits)

text \<open>C32: The fractions and limits that reach the services are in range, whatever the custom resource says: when the document of the AI
  analysis is built, its confidence threshold and its floor are numbers above 0 and at most 1 (neither an infinity nor a NaN), and otherwise the build
  fails; the retention the data storage is given never exceeds 2555 days.\<close>

theorem document_numbers_in_range:
  assumes "AIAnalysisConfigMap D kn knV2 tlsProfile = Inr cm"
  shows "\<exists>confidenceThreshold lowConfidenceFloor.
      cm = \<lparr>obj_Kind = ''ConfigMap'', obj_Meta = ObjectMeta kn ''aianalysis-config'' ComponentAIAnalysis,
        obj_Body = ConfigMapBody [(''config.yaml'', projr (d_Marshal D
          (enc_aiAnalysisConfigYAML (ai_analysis_config kn knV2 tlsProfile (Some confidenceThreshold) lowConfidenceFloor))))] []\<rparr> \<and>
      unit_fraction confidenceThreshold \<and>
      (aiAnalysis_ConfidenceThreshold (spec_AIAnalysis (kn_Spec kn)) \<in> {None, Some confidenceThreshold}) \<and>
      (case lowConfidenceFloor of None \<Rightarrow> aiAnalysis_LowConfidenceFloor (spec_AIAnalysis (kn_Spec kn)) = ''''
       | Some f \<Rightarrow> unit_fraction f \<and> d_ParseFloat D (aiAnalysis_LowConfidenceFloor (spec_AIAnalysis (kn_Spec kn))) = Some f) \<and>
      (\<forall>r. dataStorageConfigY_Retention (data_storage_config D kn knV2 dbName dbUser tlsProfile) = Some r \<longrightarrow> dataStorageRetentionY_DefaultDays r \<le> 2555)"
proof -
  have "dataStorageRetentionY_DefaultDays r \<le> 2555"
    if "dataStorageConfigY_Retention (data_storage_config D kn knV2 dbName dbUser tlsProfile) = Some r" for r
    using that by (auto simp: data_storage_config_def dataStorageRetentionConfig_def Let_def)
  moreover obtain x l where xl: "parseConfidenceThreshold D (aiAnalysis_ConfidenceThreshold (spec_AIAnalysis (kn_Spec kn))) = Inr x"
      "parseLowConfidenceFloor D (aiAnalysis_LowConfidenceFloor (spec_AIAnalysis (kn_Spec kn))) = Inr l"
    using assms by (auto simp: AIAnalysisConfigMap_def split: sum.splits)
  moreover obtain c where "x = Some c" "unit_fraction c" "aiAnalysis_ConfidenceThreshold (spec_AIAnalysis (kn_Spec kn)) \<in> {None, Some c}"
    using parsed_threshold [OF xl(1)] by blast
  ultimately show ?thesis using assms parsed_floor [OF xl(2)]
    by (intro exI [of _ c] exI [of _ l]) (auto simp: AIAnalysisConfigMap_def yamlConfigMap_def marshalYAML_def split: sum.splits)
qed


definition sample_documents :: documents where
  "sample_documents = \<lparr>d_Marshal = (\<lambda>_. Inr ''document''), d_MarshalProxy = (\<lambda>_. Inr ''document''), d_ParseFloat = (\<lambda>_. None),
     d_FormatFloat = (\<lambda>_. ''0.5''), d_float = (\<lambda>_. 0), d_validators = sample_validators\<rparr>"

lemma sample_documents_marshal [simp]:
  "yamlConfigMap sample_documents metadata key ctx y =
     Inr \<lparr>obj_Kind = ''ConfigMap'', obj_Meta = metadata, obj_Body = ConfigMapBody [(key, ''document'')] []\<rparr>"
  by (simp add: yamlConfigMap_def marshalYAML_def sample_documents_def)

lemma accepted_analysis [simp]: "spec_AIAnalysis (kn_Spec accepted_kn) = zero_AIAnalysisSpec"
  by (simp add: accepted_kn_def zero_Kubernaut_def zero_KubernautSpec_def)

lemma plain_analysis: "\<exists>cm. AIAnalysisConfigMap sample_documents accepted_kn accepted_kn ''Modern'' = Inr cm"
  by (simp add: AIAnalysisConfigMap_def parseConfidenceThreshold_def parseLowConfidenceFloor_def zero_AIAnalysisSpec_def)

theorem document_numbers_in_range_witness:
  "\<exists>cm threshold. AIAnalysisConfigMap sample_documents accepted_kn accepted_kn ''Modern'' = Inr cm \<and> unit_fraction threshold \<and>
     (\<forall>r. dataStorageConfigY_Retention (data_storage_config sample_documents accepted_kn accepted_kn ''db'' ''user'' ''Modern'') = Some r \<longrightarrow>
        dataStorageRetentionY_DefaultDays r \<le> 2555)"
proof -
  obtain cm where "AIAnalysisConfigMap sample_documents accepted_kn accepted_kn ''Modern'' = Inr cm" using plain_analysis by blast
  with document_numbers_in_range [OF this, of "''db''" "''user''"] show ?thesis by blast
qed

subsection \<open>Tokens of the console\<close>

lemma inject_all: "p \<in> set (injectConsoleAudience ps) \<Longrightarrow> ComponentConsole \<in> set (afJWTProviderY_Audiences p)"
  by (auto simp: injectConsoleAudience_def)

lemma inject_keeps: "map (\<lambda>p. (afJWTProviderY_Name p, afJWTProviderY_IssuerURL p, filter (\<lambda>a. a \<noteq> ComponentConsole) (afJWTProviderY_Audiences p)))
    (injectConsoleAudience ps) = map (\<lambda>p. (afJWTProviderY_Name p, afJWTProviderY_IssuerURL p, filter (\<lambda>a. a \<noteq> ComponentConsole) (afJWTProviderY_Audiences p))) ps"
  by (auto simp: injectConsoleAudience_def)

lemma inject_idempotent: "injectConsoleAudience (injectConsoleAudience ps) = injectConsoleAudience ps"
  by (auto simp: injectConsoleAudience_def)

text \<open>C30: The API frontend accepts the tokens of the console exactly while the console is enabled. With the console enabled and an issuer
  or a list of providers configured, every provider of the frontend's document accepts the console's audience and at least one provider
  is there; the names, the issuers and the other audiences are those of the specification, or the one default provider of the issuer,
  which also accepts the frontend's own audience. With the console disabled the list is the specification's own, unchanged, so
  that no provider accepts the console unless the administrator named its audience.\<close>

theorem console_tokens_follow_the_console:
  "(let auth = apiFrontend_Auth (spec_APIFrontend (kn_Spec kn)); document = afAuthConfig kn; providers = afAuthY_JWTProviders document in
    if ConsoleEnabled (kn_Spec kn) \<and> (apiFrontendAuth_JWTProviders auth \<noteq> [] \<or> apiFrontendAuth_IssuerURL auth \<noteq> '''')
    then providers \<noteq> [] \<and> list_all (\<lambda>p. ComponentConsole \<in> set (afJWTProviderY_Audiences p)) providers \<and>
      (if apiFrontendAuth_JWTProviders auth = []
       then map afJWTProviderY_IssuerURL providers = [apiFrontendAuth_IssuerURL auth] \<and>
         list_all (\<lambda>p. afAuthY_Audience document \<in> set (afJWTProviderY_Audiences p) \<and> afJWTProviderY_JWKSURL p = afAuthY_JWKSURL document) providers
       else map (\<lambda>p. (afJWTProviderY_Name p, afJWTProviderY_IssuerURL p, filter (\<lambda>a. a \<noteq> ComponentConsole) (afJWTProviderY_Audiences p))) providers =
         map (\<lambda>p. (jwtProvider_Name p, jwtProvider_IssuerURL p, filter (\<lambda>a. a \<noteq> ComponentConsole) (jwtProvider_Audiences p))) (apiFrontendAuth_JWTProviders auth))
    else map (\<lambda>p. (afJWTProviderY_Name p, afJWTProviderY_IssuerURL p, afJWTProviderY_Audiences p)) providers =
      map (\<lambda>p. (jwtProvider_Name p, jwtProvider_IssuerURL p, jwtProvider_Audiences p)) (apiFrontendAuth_JWTProviders auth))"
proof -
  have "map (\<lambda>p. (afJWTProviderY_Name p, afJWTProviderY_IssuerURL p, filter (\<lambda>a. a \<noteq> ComponentConsole) (afJWTProviderY_Audiences p)))
      (injectConsoleAudience (map af_provider ps)) =
    map (\<lambda>p. (jwtProvider_Name p, jwtProvider_IssuerURL p, filter (\<lambda>a. a \<noteq> ComponentConsole) (jwtProvider_Audiences p))) ps" for ps
    unfolding inject_keeps by (simp add: af_provider_def)
  moreover have "injectConsoleAudience ps = [] \<longleftrightarrow> ps = []" for ps by (simp add: injectConsoleAudience_def)
  ultimately show ?thesis using inject_all by (auto simp: afAuthConfig_def af_provider_def list_all_iff Let_def)
qed


theorem console_tokens_follow_the_console_witness:
  "ConsoleEnabled (kn_Spec accepted_kn) \<and> map afJWTProviderY_IssuerURL (afAuthY_JWTProviders (afAuthConfig accepted_kn)) = [''https://sso.example''] \<and>
   list_all (\<lambda>p. ComponentConsole \<in> set (afJWTProviderY_Audiences p)) (afAuthY_JWTProviders (afAuthConfig accepted_kn))"
  using console_tokens_follow_the_console [of accepted_kn]
  by (simp add: Let_def ConsoleEnabled_def accepted_console_def accepted_apiFrontend_def zero_APIFrontendSpec_def zero_APIFrontendAuthSpec_def
      zero_ConsoleSpec_def APIFrontendEnabled_def)

subsection \<open>Every document can be built\<close>

text \<open>Printing a document of plain data does not fail.\<close>

definition prints :: "documents \<Rightarrow> bool" where
  "prints D \<longleftrightarrow> (\<forall>v. \<exists>b. d_Marshal D v = Inr b) \<and> (\<forall>v. \<exists>b. d_MarshalProxy D v = Inr b)"

lemma printed: "prints D \<Longrightarrow> yamlConfigMap D metadata key ctx y =
    Inr \<lparr>obj_Kind = ''ConfigMap'', obj_Meta = metadata, obj_Body = ConfigMapBody [(key, projr (d_Marshal D y))] []\<rparr>"
  by (auto simp: prints_def yamlConfigMap_def marshalYAML_def dest: spec [of _ y])

lemma printed_proxy:
  assumes "prints D" "validateConsoleEffectiveIssuer kn = None" "validateConsoleProviderLogoutURL (d_validators D) kn = None"
  shows "ConsoleOAuth2ProxyConfigMap (d_validators D) (d_MarshalProxy D) kn = Inr \<lparr>obj_Kind = ''ConfigMap'',
    obj_Meta = ObjectMeta kn (ComponentConsole @ ''-oauth2-proxy'') ComponentConsole,
    obj_Body = ConfigMapBody [(consoleOAuth2ProxyConfigKey, projr (d_MarshalProxy D (console_proxy_config kn)))] []\<rparr>"
  using assms by (auto simp: prints_def ConsoleOAuth2ProxyConfigMap_def dest: spec [of _ "console_proxy_config kn"] split: sum.splits)

lemma buildConfigMapSet_all:
  assumes "list_all (\<lambda>(n, built). \<exists>cm. built = Inr cm) builders"
  shows "\<exists>hashes. buildConfigMapSet builders cms h = Inr (cms @ List.map_filter (\<lambda>(n, built). projr built) builders, hashes)"
  using assms
proof (induction builders arbitrary: cms h)
  case Nil
  show ?case by (simp add: List.map_filter_def)
next
  case (Cons b builders)
  obtain n cm where b: "b = (n, Inr cm)" using Cons.prems by auto
  show ?case
  proof (cases cm)
    case (Some c)
    then show ?thesis using Cons.IH [of "cms @ [c]" "gput n (ConfigMapDataHash (config_map_data c)) h"] Cons.prems by (simp add: b map_filter_simps)
  qed (use Cons in \<open>simp add: b map_filter_simps\<close>)
qed

text \<open>The names of the ConfigMaps of a custom resource.\<close>

definition core_document_names :: "Kubernaut \<Rightarrow> string list" where
  "core_document_names kn = map snd (filter fst
     [(True, ''datastorage-config''), (True, ''aianalysis-config''), (True, ''signalprocessing-config''), (True, ''remediationorchestrator-config''),
      (True, ''workflowexecution-config''), (True, ''effectivenessmonitor-config''), (True, ''notification-controller-config''),
      (case notification_Routing (spec_Notification (kn_Spec kn)) of None \<Rightarrow> True | Some r \<Rightarrow> configMapRef_ConfigMapName r = '''', ''notification-routing-config''),
      (True, ''kubernaut-agent-config''), (True, ''authwebhook-config''), (True, ''signalprocessing-default-proactive-signal-mappings''),
      (kubernautAgent_RuntimeConfigMapName (spec_KubernautAgent (kn_Spec kn)) = '''', ''kubernaut-agent-llm-runtime'')])"

definition optional_document_names :: "Kubernaut \<Rightarrow> string list" where
  "optional_document_names kn = map snd (filter fst
     [(GatewayEnabled (kn_Spec kn), ''gateway-config''), (APIFrontendEnabled (kn_Spec kn), ''apifrontend-config''),
      (FleetMetadataCacheEnabled (kn_Spec kn), ''fleetmetadatacache-config''), (ConsoleEnabled (kn_Spec kn), ''kubernaut-console-nginx''),
      (ConsoleEnabled (kn_Spec kn), ''kubernaut-console-oauth2-proxy'')])"

lemma document_names_distinct: "distinct (core_document_names kn @ optional_document_names kn)"
  unfolding core_document_names_def optional_document_names_def map_append [symmetric] filter_append [symmetric]
  by (rule distinct_map_filter) simp

abbreviation in_namespace_of :: "Kubernaut \<Rightarrow> kobj \<Rightarrow> bool" where
  "in_namespace_of kn cm \<equiv> obj_Kind cm = ''ConfigMap'' \<and> obj_Namespace cm = kn_Namespace kn"

lemma core_documents_build:
  assumes D: "prints D" and "\<forall>w. aiAnalysis_ConfidenceThreshold (spec_AIAnalysis (kn_Spec kn)) = Some w \<longrightarrow> unit_fraction w"
    and "aiAnalysis_LowConfidenceFloor (spec_AIAnalysis (kn_Spec kn)) = '''' \<or>
      (\<exists>w. d_ParseFloat D (aiAnalysis_LowConfidenceFloor (spec_AIAnalysis (kn_Spec kn))) = Some w \<and> unit_fraction w)"
  shows "\<exists>cms hashes. buildCoreConfigMaps (service_configs D) kn knV2 tlsProfile dbName dbUser = Inr (cms, hashes) \<and>
    map obj_Name cms = core_document_names kn \<and> list_all (in_namespace_of kn) cms"
proof -
  have analysis: "\<exists>y. AIAnalysisConfigMap D kn knV2 tlsProfile = yamlConfigMap D (ObjectMeta kn ''aianalysis-config'' ComponentAIAnalysis) ''config.yaml'' ''aianalysis config'' y"
    using assms(2,3) by (auto simp: AIAnalysisConfigMap_def parseConfidenceThreshold_def parseLowConfidenceFloor_def validateBoundedFraction_iff split: option.split)
  then obtain y where y: "AIAnalysisConfigMap D kn knV2 tlsProfile = yamlConfigMap D (ObjectMeta kn ''aianalysis-config'' ComponentAIAnalysis) ''config.yaml'' ''aianalysis config'' y"
    by blast
  let ?builders = "core_builders (service_configs D) kn knV2 tlsProfile dbName dbUser"
  note builders = core_builders_def service_configs_def printed [OF D] y DataStorageConfigMap_def SignalProcessingConfigMap_def RemediationOrchestratorConfigMap_def
    WorkflowExecutionConfigMap_def EffectivenessMonitorConfigMap_def NotificationControllerConfigMap_def NotificationRoutingConfigMap_def
    KubernautAgentConfigMap_def AuthWebhookConfigMap_def
  have "list_all (\<lambda>(n, built). \<exists>cm. built = Inr cm) ?builders" by (simp add: builders)
  then obtain hashes where built: "buildConfigMapSet ?builders [] [] = Inr (List.map_filter (\<lambda>(n, built). projr built) ?builders, hashes)"
    using buildConfigMapSet_all [of ?builders "[]" "[]"] by auto
  show ?thesis
    by (simp add: buildCoreConfigMaps_def built) (simp add: builders KubernautAgentLLMRuntimeConfigMap_def KubernautAgentLLMRuntimeConfigName_def
        ProactiveSignalMappingsConfigMap_def SignalProcessingProactiveSignalMappingsConfigMapName_def core_document_names_def map_filter_simps ObjectMeta_def
        Let_def split: option.split)
qed

lemma optional_documents_build:
  assumes D: "prints D" and console: "validateConsoleEffectiveIssuer kn = None" "validateConsoleProviderLogoutURL (d_validators D) kn = None"
  shows "\<exists>cms' hashes'. appendOptionalComponentConfigMaps (service_configs D) kn kn tlsProfile cms hashes = Inr (cms @ cms', hashes') \<and>
    map obj_Name cms' = optional_document_names kn \<and> list_all (in_namespace_of kn) cms'"
proof -
  let ?builders = "optional_builders (service_configs D) kn kn tlsProfile"
  note builders = optional_builders_def service_configs_def printed [OF D] printed_proxy [OF D console] GatewayConfigMap_def APIFrontendConfigMap_def
    FleetMetadataCacheConfigMap_def fleetMetadataCacheConfigMapName_def
  have "list_all (\<lambda>(n, built). \<exists>cm. built = Inr cm) ?builders" by (simp add: builders)
  then obtain h where built: "buildConfigMapSet ?builders cms hashes = Inr (cms @ List.map_filter (\<lambda>(n, built). projr built) ?builders, h)"
    using buildConfigMapSet_all [of ?builders cms hashes] by auto
  show ?thesis
    by (simp add: appendOptionalComponentConfigMaps_def built) (simp add: builders ConsoleNginxConfigMap_def ComponentConsole_def optional_document_names_def
        map_filter_simps ObjectMeta_def Let_def)
qed

text \<open>C28: Every configuration of an accepted custom resource can be built. When validation accepts the resource, the confidence threshold is absent or in
  the range of the schema, the optional floor is absent or a number in that range, and the printing of documents does not fail, then the core and the
  optional ConfigMaps are all built: exactly one for each enabled service (and none for a routing or a runtime document that the administrator
  supplies), all in the namespace of the resource and all under different names, so that none replaces another.\<close>

theorem accepted_documents_build:
  assumes "ValidateKubernaut (d_validators D) kn = []" and "prints D"
    and "\<forall>w. aiAnalysis_ConfidenceThreshold (spec_AIAnalysis (kn_Spec kn)) = Some w \<longrightarrow> unit_fraction w"
    and "aiAnalysis_LowConfidenceFloor (spec_AIAnalysis (kn_Spec kn)) = '''' \<or>
      (\<exists>w. d_ParseFloat D (aiAnalysis_LowConfidenceFloor (spec_AIAnalysis (kn_Spec kn))) = Some w \<and> unit_fraction w)"
  shows "\<exists>core coreHashes cms hashes. buildCoreConfigMaps (service_configs D) kn kn tlsProfile dbName dbUser = Inr (core, coreHashes) \<and>
    appendOptionalComponentConfigMaps (service_configs D) kn kn tlsProfile core coreHashes = Inr (cms, hashes) \<and>
    map obj_Name cms = core_document_names kn @ optional_document_names kn \<and> distinct (map obj_Name cms) \<and> list_all (in_namespace_of kn) cms"
proof -
  obtain core coreHashes where core: "buildCoreConfigMaps (service_configs D) kn kn tlsProfile dbName dbUser = Inr (core, coreHashes)"
    "map obj_Name core = core_document_names kn" "list_all (in_namespace_of kn) core"
    using core_documents_build [OF assms(2-4)] by blast
  have "validateConsoleEffectiveIssuer kn = None" "validateConsoleProviderLogoutURL (d_validators D) kn = None"
    using assms(1) by (simp_all add: ValidateKubernaut_def)
  then obtain cms' hashes where "appendOptionalComponentConfigMaps (service_configs D) kn kn tlsProfile core coreHashes = Inr (core @ cms', hashes)"
    "map obj_Name cms' = optional_document_names kn" "list_all (in_namespace_of kn) cms'"
    using optional_documents_build [OF assms(2)] by blast
  then show ?thesis using core document_names_distinct [of kn] 
    by (intro exI [of _ core] exI [of _ coreHashes] exI [of _ "core @ cms'"] exI [of _ hashes]) simp
qed

theorem accepted_documents_build_witness:
  "ValidateKubernaut sample_validators accepted_kn = [] \<and> (\<exists>core coreHashes cms hashes.
     buildCoreConfigMaps (service_configs sample_documents) accepted_kn accepted_kn ''Modern'' ''db'' ''user'' = Inr (core, coreHashes) \<and>
     appendOptionalComponentConfigMaps (service_configs sample_documents) accepted_kn accepted_kn ''Modern'' core coreHashes = Inr (cms, hashes) \<and>
     ''kubernaut-console-oauth2-proxy'' \<in> set (map obj_Name cms) \<and> distinct (map obj_Name cms))"
proof -
  have "prints sample_documents" "d_validators sample_documents = sample_validators" by (simp_all add: prints_def sample_documents_def)
  moreover have "\<forall>w. aiAnalysis_ConfidenceThreshold (spec_AIAnalysis (kn_Spec accepted_kn)) = Some w \<longrightarrow> unit_fraction w"
    "aiAnalysis_LowConfidenceFloor (spec_AIAnalysis (kn_Spec accepted_kn)) = ''''" by (simp_all add: zero_AIAnalysisSpec_def)
  ultimately obtain core coreHashes cms hashes where built:
      "buildCoreConfigMaps (service_configs sample_documents) accepted_kn accepted_kn ''Modern'' ''db'' ''user'' = Inr (core, coreHashes)"
      "appendOptionalComponentConfigMaps (service_configs sample_documents) accepted_kn accepted_kn ''Modern'' core coreHashes = Inr (cms, hashes)"
      "map obj_Name cms = core_document_names accepted_kn @ optional_document_names accepted_kn" "distinct (map obj_Name cms)"
    using accepted_documents_build [of sample_documents accepted_kn "''Modern''" "''db''" "''user''"] accepted_sample by auto
  have "''kubernaut-console-oauth2-proxy'' \<in> set (optional_document_names accepted_kn)"
    by (cases "FleetMetadataCacheEnabled (kn_Spec accepted_kn)") (simp_all add: optional_document_names_def)
  then have "''kubernaut-console-oauth2-proxy'' \<in> set (map obj_Name cms)" unfolding built(3) by simp
  then show ?thesis using accepted_sample built by blast
qed

text \<open>Validation itself accepts a floor that is no number: the resource then passes admission and every reconciliation fails while building the document.\<close>

definition bad_floor_kn :: Kubernaut where
  "bad_floor_kn = accepted_kn\<lparr>kn_Spec := (kn_Spec accepted_kn)\<lparr>spec_AIAnalysis := zero_AIAnalysisSpec\<lparr>aiAnalysis_LowConfidenceFloor := ''high''\<rparr>\<rparr>\<rparr>"

lemma bad_floor_is_accepted: "ValidateKubernaut sample_validators bad_floor_kn = []"
  by code_simp

lemma bad_floor_is_not_built: "AIAnalysisConfigMap sample_documents bad_floor_kn bad_floor_kn tlsProfile = Inl (invalidBoundedFraction ''aiAnalysis.lowConfidenceFloor'' ''high'')"
  by (simp add: AIAnalysisConfigMap_def bad_floor_kn_def parseConfidenceThreshold_def parseLowConfidenceFloor_def sample_documents_def zero_AIAnalysisSpec_def)

end
