(* ===== verification/Config_Mounts.thy ===== *)
theory Config_Mounts
  imports Config_Facts
begin

text \<open>
  The configuration documents against the pods that read them: where a ConfigMap, a Secret or a file shows up in the pod of a Deployment, that
  every service is started on the document built for it, and that the files a document names are mounted from the Secret its profile names.
\<close>

subsection \<open>What is mounted in a pod\<close>

definition deployment_parts :: "kobj \<Rightarrow> pod_parts" where
  "deployment_parts dep = (case obj_Body dep of
     DeploymentBody _ _ _ _ spec \<Rightarrow> (pod_Volumes (deployment_Pod spec), concat (map container_VolumeMounts (pod_Containers (deployment_Pod spec))))
   | _ \<Rightarrow> ([], []))"

text \<open>A volume of the given source, mounted as a whole at the directory or, with a sub-path, as the one file.\<close>

definition mounted :: "pod_parts \<Rightarrow> volume_source \<Rightarrow> string \<Rightarrow> string \<Rightarrow> bool" where
  "mounted p source sub path \<longleftrightarrow> list_ex (\<lambda>v. volume_Source v = source \<and>
     list_ex (\<lambda>m. mount_Name m = volume_Name v \<and> mount_SubPath m = sub \<and> mount_MountPath m = path) (snd p)) (fst p)"

abbreviation secret_at :: "pod_parts \<Rightarrow> string \<Rightarrow> string \<Rightarrow> bool" where
  "secret_at p secret dir \<equiv> mounted p (SecretVolumeSource secret [] None) '''' dir"

abbreviation within :: "pod_parts \<Rightarrow> pod_parts \<Rightarrow> bool" where
  "within p q \<equiv> set (fst p) \<subseteq> set (fst q) \<and> set (snd p) \<subseteq> set (snd q)"

named_theorems growing \<open>what only adds to a pod\<close>
named_theorems stays_mounted \<open>what is mounted stays mounted\<close>

lemma mounted_within: "mounted p s sub d \<Longrightarrow> within p q \<Longrightarrow> mounted q s sub d"
  unfolding mounted_def list_ex_iff by blast

lemma mounted_attach [simp]: "mounted (attach \<lparr>volume_Name = n, volume_Source = s\<rparr> \<lparr>mount_Name = n, mount_MountPath = d, mount_SubPath = sub, mount_ReadOnly = r\<rparr> p) s sub d"
  by (auto simp: mounted_def list_ex_iff attach_def)

lemma mounted_secret [simp]: "secret_at (attach (secretVolume n s) (read_only_mount n d) p) s d"
  and mounted_config [simp]: "mounted (attach (configMapVolume n s) (read_only_mount n d) p) (ConfigMapVolumeSource s [] None) '''' d"
  and mounted_file [simp]: "mounted (attach (configMapVolume n s) (sub_path_mount n d k) p) (ConfigMapVolumeSource s [] None) k d"
  by (simp_all add: secretVolume_def configMapVolume_def read_only_mount_def sub_path_mount_def writable_mount_def)

text \<open>Every step that puts a pod together only adds to it.\<close>

lemma within_attach [growing]: "within p (attach v m p)"
  by (auto simp: attach_def)

lemma within_trust [growing]: "within p (append_trust n d t p)"
  by (auto simp: append_trust_def attach_def split: option.splits)

lemma within_fleet [growing]:
  "within p (appendFleetSecretMountsVariant knV2 dir ref b p)" "within p (appendWorkflowExecutionFleetSecretMount knV2 dir p)"
  by (auto simp: appendFleetSecretMountsVariant_def appendWorkflowExecutionFleetSecretMount_def append_oauth2_credentials_def append_oauth2_trust_def
      append_trust_def append_backend_def appendFleetMCPGatewayCASecretMount_def attach_def Let_def split: option.splits)

lemma within_telemetry [growing]: "within p (AppendTelemetrySecretMounts t p)"
  by (auto simp: AppendTelemetrySecretMounts_def attach_def Let_def)

lemma within_monitoring [growing]: "within p (append_monitoring kn p)"
  by (auto simp: append_monitoring_def attach_def split: option.splits)

lemma within_valkey [growing]: "within p (append_valkey_tls kn p)"
  by (auto simp: append_valkey_tls_def attach_def Let_def split: option.splits)

lemma within_llm_tls [growing]: "within p (append_llm_tls profile base role p)"
  by (auto simp: append_llm_tls_def attach_def split: option.splits)

lemma within_profile [growing]: "within p (append_profile_credentials profile base c o2 role p)"
  by (auto simp: append_profile_credentials_def append_llm_tls_def attach_def Let_def split: prod.splits option.splits)

lemma within_agent_credentials [growing]:
  "within p (appendKAAlignmentCredentialMounts kn kaProfile p)" "within p (appendKAWorkflowDiscoveryCredentialMounts kn kaProfile p)"
  unfolding appendKAAlignmentCredentialMounts_def appendKAWorkflowDiscoveryCredentialMounts_def Let_def
  using within_profile by (simp_all split: option.splits)

lemma within_triage [growing]: "within p (append_severity_triage kn afProfile p)"
  by (auto simp: append_severity_triage_def append_llm_tls_def attach_def Let_def split: option.splits)

lemma mounted_grows [stays_mounted]:
  "mounted p s sub d \<Longrightarrow> mounted (attach v m p) s sub d"
  "mounted p s sub d \<Longrightarrow> mounted (append_trust n dir t p) s sub d"
  "mounted p s sub d \<Longrightarrow> mounted (appendFleetSecretMountsVariant knV2 dir ref b p) s sub d"
  "mounted p s sub d \<Longrightarrow> mounted (appendWorkflowExecutionFleetSecretMount knV2 dir p) s sub d"
  "mounted p s sub d \<Longrightarrow> mounted (AppendTelemetrySecretMounts tel p) s sub d"
  "mounted p s sub d \<Longrightarrow> mounted (append_monitoring kn p) s sub d"
  "mounted p s sub d \<Longrightarrow> mounted (append_valkey_tls kn p) s sub d"
  "mounted p s sub d \<Longrightarrow> mounted (append_llm_tls profile base role p) s sub d"
  "mounted p s sub d \<Longrightarrow> mounted (append_profile_credentials profile base c o2 role p) s sub d"
  "mounted p s sub d \<Longrightarrow> mounted (appendKAAlignmentCredentialMounts kn profile p) s sub d"
  "mounted p s sub d \<Longrightarrow> mounted (appendKAWorkflowDiscoveryCredentialMounts kn profile p) s sub d"
  "mounted p s sub d \<Longrightarrow> mounted (append_severity_triage kn profile p) s sub d"
  by (erule mounted_within, rule growing)+

lemma mounted_attach_if [stays_mounted]:
  "mounted p s sub d \<Longrightarrow> mounted ((if b then attach v m else id) p) s sub d" "mounted p s sub d \<Longrightarrow> mounted (if b then attach v m p else p) s sub d"
  using mounted_grows(1) by (simp_all)


subsection \<open>A service and its document\<close>

definition names_file :: "container \<Rightarrow> string \<Rightarrow> bool" where
  "names_file c path \<longleftrightarrow> list_ex (\<lambda>a. HasSuffix a path) (container_Args c) \<or> list_ex (\<lambda>e. envVar_Source e = EnvValue path) (container_Env c)"

text \<open>
  The service of the Deployment starts on the document of the ConfigMap: both are in one namespace, the ConfigMap holds one document, and the pod
  mounts it at a path that its arguments or variables name.
\<close>

definition starts_on :: "kobj \<Rightarrow> kobj \<Rightarrow> bool" where
  "starts_on dep cm \<longleftrightarrow> obj_Namespace dep = obj_Namespace cm \<and>
     (case (obj_Body dep, obj_Body cm) of
        (DeploymentBody _ _ _ _ spec, ConfigMapBody [(key, _)] []) \<Rightarrow>
          (let p = (pod_Volumes (deployment_Pod spec), container_VolumeMounts (hd (pod_Containers (deployment_Pod spec))));
               config = ConfigMapVolumeSource (obj_Name cm) [] None
           in list_ex (\<lambda>m. (mounted p config '''' (mount_MountPath m) \<and>
                  names_file (hd (pod_Containers (deployment_Pod spec))) (mount_MountPath m @ ''/'' @ key)) \<or>
                (mounted p config key (mount_MountPath m) \<and> names_file (hd (pod_Containers (deployment_Pod spec))) (mount_MountPath m))) (snd p))
      | _ \<Rightarrow> False)"

lemma yamlConfigMap_shape:
  assumes "yamlConfigMap D metadata key ctx y = Inr cm"
  obtains data where "cm = \<lparr>obj_Kind = ''ConfigMap'', obj_Meta = metadata, obj_Body = ConfigMapBody [(key, data)] []\<rparr>"
  using assms by (auto simp: yamlConfigMap_def split: sum.splits)

lemma mounted_path: "mounted p s sub d \<Longrightarrow> \<exists>m\<in>set (snd p). mount_MountPath m = d"
  by (auto simp: mounted_def list_ex_iff)

lemma built_from_params:
  assumes "buildDeployment getenv kn p = Inr dep"
  obtains r n l pa spec where "obj_Namespace dep = kn_Namespace kn" and "obj_Body dep = DeploymentBody r n l pa spec"
    and "pod_Volumes (deployment_Pod spec) = params_Volumes p"
    and "container_VolumeMounts (hd (pod_Containers (deployment_Pod spec))) = params_VolumeMounts p"
    and "container_Args (hd (pod_Containers (deployment_Pod spec))) = params_Args p"
    and "set (params_Env p) \<subseteq> set (container_Env (hd (pod_Containers (deployment_Pod spec))))"
    and "deployment_parts dep = (params_Volumes p, params_VolumeMounts p)"
  using assms by (auto simp: buildDeployment_def ObjectMeta_def component_pod_def main_container_def zero_pod_spec_def deployment_parts_def subset_insertI
      split: sum.splits prod.splits)

lemma starts_onI:
  assumes "mounted parts (ConfigMapVolumeSource name [] None) sub dir"
    and "buildDeployment getenv kn p = Inr dep" and "yamlConfigMap D (ObjectMeta kn name component) key ctx y = Inr cm"
    and "(params_Volumes p, params_VolumeMounts p) = parts"
    and "sub = '''' \<and> file = dir @ ''/'' @ key \<or> sub = key \<and> file = dir"
    and "(\<exists>a\<in>set (params_Args p). HasSuffix a file) \<or> (\<exists>e\<in>set (params_Env p). envVar_Source e = EnvValue file)"
  shows "starts_on dep cm"
proof -
  obtain r n l pa spec where dep: "obj_Namespace dep = kn_Namespace kn" "obj_Body dep = DeploymentBody r n l pa spec"
    "pod_Volumes (deployment_Pod spec) = params_Volumes p" "container_VolumeMounts (hd (pod_Containers (deployment_Pod spec))) = params_VolumeMounts p"
    "container_Args (hd (pod_Containers (deployment_Pod spec))) = params_Args p"
    "set (params_Env p) \<subseteq> set (container_Env (hd (pod_Containers (deployment_Pod spec))))"
    using assms(2) by (rule built_from_params)
  obtain data where cm: "cm = \<lparr>obj_Kind = ''ConfigMap'', obj_Meta = ObjectMeta kn name component, obj_Body = ConfigMapBody [(key, data)] []\<rparr>"
    using assms(3) by (rule yamlConfigMap_shape)
  obtain m where m: "m \<in> set (params_VolumeMounts p)" "mount_MountPath m = dir" using mounted_path [OF assms(1)] assms(4) by auto
  have "names_file (hd (pod_Containers (deployment_Pod spec))) file" using assms(6) dep by (auto simp: names_file_def list_ex_iff)
  then show ?thesis using assms(1,4,5) dep m by (auto simp: starts_on_def cm ObjectMeta_def list_ex_iff Let_def)
qed

lemmas starts_on_directory = starts_onI [where sub = "''''", OF _ _ _ _ disjI1 [OF conjI [OF refl refl]]]
lemmas starts_on_file = starts_onI [OF _ _ _ _ disjI2 [OF conjI [OF refl refl]]]

lemma config_mounts:
  "mounted (gateway_parts kn knV2) (ConfigMapVolumeSource ''gateway-config'' [] None) '''' ''/etc/gateway''"
  "mounted (AppendTelemetrySecretMounts t (dataStorageVolumesAndMounts kn)) (ConfigMapVolumeSource ''datastorage-config'' [] None) '''' ''/etc/datastorage''"
  "mounted (signal_processing_parts kn knV2) (ConfigMapVolumeSource ''signalprocessing-config'' [] None) ''config.yaml'' ''/etc/signalprocessing/config.yaml''"
  "mounted (orchestrator_parts kn knV2) (ConfigMapVolumeSource ''remediationorchestrator-config'' [] None) '''' ''/etc/config''"
  "mounted (workflow_parts kn knV2) (ConfigMapVolumeSource ''workflowexecution-config'' [] None) '''' ''/etc/config''"
  "mounted (monitor_parts kn knV2) (ConfigMapVolumeSource ''effectivenessmonitor-config'' [] None) '''' ''/etc/effectivenessmonitor''"
  "mounted (notification_parts kn) (ConfigMapVolumeSource ''notification-controller-config'' [] None) '''' ''/etc/notification''"
  "mounted (agent_parts kn knV2 kaProfile) (ConfigMapVolumeSource ''kubernaut-agent-config'' [] None) '''' ''/etc/kubernaut-agent''"
  "mounted (authwebhook_parts kn) (ConfigMapVolumeSource ''authwebhook-config'' [] None) '''' ''/etc/authwebhook''"
  "mounted (apifrontend_parts kn knV2) (ConfigMapVolumeSource ''apifrontend-config'' [] None) '''' ''/etc/apifrontend''"
  "mounted (metadata_cache_parts kn knV2) (ConfigMapVolumeSource ''fleetmetadatacache-config'' [] None) '''' ''/etc/fleetmetadatacache''"
  unfolding gateway_parts_def dataStorageVolumesAndMounts_def signal_processing_parts_def orchestrator_parts_def workflow_parts_def monitor_parts_def
    notification_parts_def agent_parts_def kaCredentialVolumesAndMounts_def kaCoreVolumesMounts_def authwebhook_parts_def apifrontend_parts_def
    apifrontendCredentialVolumesMounts_def apifrontendBaseVolumesMounts_def metadata_cache_parts_def append_oauth2_trust_def
    appendFleetMCPGatewayCASecretMount_def appends Let_def
  by (intro stays_mounted mounted_config mounted_file)+


text \<open>The services of the operator, each with the builder of its Deployment and the builder of its document.\<close>

definition configured_services ::
  "(string \<Rightarrow> string) \<Rightarrow> (string \<Rightarrow> string list) \<Rightarrow> configs \<Rightarrow> string \<Rightarrow> string \<Rightarrow> string \<Rightarrow>
   ((Kubernaut \<Rightarrow> Kubernaut \<Rightarrow> kobj go) \<times> (Kubernaut \<Rightarrow> Kubernaut \<Rightarrow> kobj go)) list" where
  "configured_services getenv lookup C tlsProfile dbName dbUser = zip (component_builders getenv lookup)
     [\<lambda>kn knV2. c_DataStorage C kn knV2 dbName dbUser tlsProfile, \<lambda>kn knV2. c_AIAnalysis C kn knV2 tlsProfile,
      \<lambda>kn knV2. c_SignalProcessing C kn knV2 tlsProfile, \<lambda>kn knV2. c_RemediationOrchestrator C kn knV2 tlsProfile,
      \<lambda>kn knV2. c_WorkflowExecution C kn knV2 tlsProfile, \<lambda>kn knV2. c_EffectivenessMonitor C kn knV2 tlsProfile,
      \<lambda>kn knV2. c_NotificationController C kn knV2 tlsProfile, \<lambda>kn knV2. c_KubernautAgent C kn knV2 tlsProfile,
      \<lambda>kn knV2. c_AuthWebhook C kn knV2 tlsProfile, \<lambda>kn knV2. c_Gateway C kn knV2 tlsProfile, c_APIFrontend C, c_FleetMetadataCache C]"

lemma gateway_starts: "GatewayDeployment getenv kn knV2 = Inr dep \<Longrightarrow> GatewayConfigMap D kn knV2 tlsProfile = Inr cm \<Longrightarrow> starts_on dep cm"
  unfolding GatewayDeployment_def GatewayConfigMap_def case_prod_beta
  by (erule (1) starts_on_directory [OF config_mounts(1)]) (simp_all add: zero_params_def HasSuffix_def)

lemma data_storage_starts:
  "DataStorageDeployment getenv lookup kn = Inr dep \<Longrightarrow> DataStorageConfigMap D kn knV2 dbName dbUser tlsProfile = Inr cm \<Longrightarrow> starts_on dep cm"
  unfolding DataStorageDeployment_def DataStorageConfigMap_def case_prod_beta
  by (cases "dataStorageInitContainer getenv lookup kn", simp, simp, erule (1) starts_on_directory [OF config_mounts(2)])
    (simp_all add: zero_params_def env_value_def)


lemma controllers_start:
  "SignalProcessingDeployment getenv kn knV2 = Inr dep \<Longrightarrow> SignalProcessingConfigMap D kn knV2 tlsProfile = Inr cm \<Longrightarrow> starts_on dep cm"
  "RemediationOrchestratorDeployment getenv kn knV2 = Inr dep \<Longrightarrow> RemediationOrchestratorConfigMap D kn knV2 tlsProfile = Inr cm \<Longrightarrow> starts_on dep cm"
  "NotificationDeployment getenv kn knV2 = Inr dep \<Longrightarrow> NotificationControllerConfigMap D kn knV2 tlsProfile = Inr cm \<Longrightarrow> starts_on dep cm"
  "AuthWebhookDeployment getenv kn knV2 = Inr dep \<Longrightarrow> AuthWebhookConfigMap D kn knV2 tlsProfile = Inr cm \<Longrightarrow> starts_on dep cm"
  "FleetMetadataCacheDeployment getenv kn knV2 = Inr dep \<Longrightarrow> FleetMetadataCacheConfigMap D kn knV2 = Inr cm \<Longrightarrow> starts_on dep cm"
  unfolding SignalProcessingDeployment_def SignalProcessingConfigMap_def RemediationOrchestratorDeployment_def RemediationOrchestratorConfigMap_def
    NotificationDeployment_def NotificationControllerConfigMap_def AuthWebhookDeployment_def AuthWebhookConfigMap_def
    FleetMetadataCacheDeployment_def FleetMetadataCacheConfigMap_def fleetMetadataCacheConfigMapName_def case_prod_beta
  subgoal by (erule (1) starts_on_file [OF config_mounts(3)]) (simp_all add: zero_params_def HasSuffix_def)
  subgoal by (erule (1) starts_on_directory [OF config_mounts(4)]) (simp_all add: zero_params_def HasSuffix_def)
  subgoal by (erule (1) starts_on_directory [OF config_mounts(7)]) (simp_all add: zero_params_def HasSuffix_def)
  subgoal by (erule (1) starts_on_directory [OF config_mounts(9)]) (simp_all add: zero_params_def HasSuffix_def)
  subgoal by (erule (1) starts_on_directory [OF config_mounts(11)]) (simp_all add: zero_params_def HasSuffix_def)
  done

lemma ai_analysis_starts:
  "AIAnalysisDeployment getenv kn knV2 = Inr dep \<Longrightarrow> AIAnalysisConfigMap D kn knV2 tlsProfile = Inr cm \<Longrightarrow> starts_on dep cm"
  by (auto simp: AIAnalysisDeployment_def AIAnalysisConfigMap_def case_prod_beta appends zero_params_def HasSuffix_def split: sum.splits
      elim!: starts_on_directory [OF mounted_grows(1) [OF mounted_grows(1) [OF mounted_config]]])

lemma workflow_execution_starts:
  assumes "WorkflowExecutionDeployment getenv kn knV2 = Inr dep" and config: "WorkflowExecutionConfigMap D kn knV2 tlsProfile = Inr cm"
  shows "starts_on dep cm"
proof -
  have mounts: "mounted (ansible_ca_parts ref (workflow_parts kn knV2)) (ConfigMapVolumeSource ''workflowexecution-config'' [] None) '''' ''/etc/config''" for ref
    using config_mounts(5) by (rule mounted_within) (auto simp: ansible_ca_parts_def)
  have started: "starts_on dep cm" if "mounted parts (ConfigMapVolumeSource ''workflowexecution-config'' [] None) '''' ''/etc/config''"
    and "buildDeployment getenv kn (workflow_params kn knV2 parts init) = Inr dep" for parts init
    using starts_on_directory [OF that config [unfolded WorkflowExecutionConfigMap_def]] by (simp add: workflow_params_def zero_params_def HasSuffix_def)
  show ?thesis
    using assms(1) started [OF mounts] started [OF config_mounts(5)]
    by (auto simp: WorkflowExecutionDeployment_def Let_def split: option.splits sum.splits)
qed

lemma effectiveness_monitor_starts:
  "EffectivenessMonitorDeployment getenv kn knV2 = Inr dep \<Longrightarrow> EffectivenessMonitorConfigMap D kn knV2 tlsProfile = Inr cm \<Longrightarrow> starts_on dep cm"
  unfolding EffectivenessMonitorDeployment_def EffectivenessMonitorConfigMap_def case_prod_beta
  by (cases "monitor_init getenv kn", simp, simp, erule (1) starts_on_directory [OF config_mounts(6)]) (simp_all add: zero_params_def HasSuffix_def)

lemma agent_starts:
  "KubernautAgentDeployment getenv kn knV2 = Inr dep \<Longrightarrow> KubernautAgentConfigMap D kn knV2 tlsProfile = Inr cm \<Longrightarrow> starts_on dep cm"
  unfolding KubernautAgentDeployment_def KubernautAgentConfigMap_def case_prod_beta Let_def
  by (simp split: if_splits, erule (1) starts_on_directory [OF config_mounts(8)]) (simp_all add: zero_params_def HasSuffix_def)

lemma frontend_starts:
  "APIFrontendDeployment getenv kn knV2 = Inr dep \<Longrightarrow> APIFrontendConfigMap D kn knV2 = Inr cm \<Longrightarrow> starts_on dep cm"
  unfolding APIFrontendDeployment_def APIFrontendConfigMap_def case_prod_beta Let_def
  by (erule (1) starts_on_directory [OF config_mounts(10)]) (simp_all add: zero_params_def HasSuffix_def)

lemmas services_start = gateway_starts data_storage_starts controllers_start ai_analysis_starts workflow_execution_starts
  effectiveness_monitor_starts agent_starts frontend_starts

text \<open>C27: Every service is started on the document built for it: whenever the builder of a Deployment and the builder of that service's
  configuration both succeed, the ConfigMap holds exactly one document, the pod mounts that ConfigMap by its name from its own namespace, and the
  arguments (or variables) of the container name the path at which the document's key appears.\<close>

theorem services_start_on_their_documents:
  assumes "(build, config) \<in> set (configured_services getenv lookup (service_configs D) tlsProfile dbName dbUser)"
    and "build kn knV2 = Inr dep" and "config kn knV2 = Inr cm"
  shows "starts_on dep cm"
  using assms by (auto simp: configured_services_def component_builders_def service_configs_def intro: services_start)


theorem services_start_on_their_documents_witness:
  "\<exists>dep cm. GatewayDeployment (\<lambda>_. ''img'') sample_kn sample_kn = Inr dep \<and> GatewayConfigMap sample_documents sample_kn sample_kn ''Modern'' = Inr cm \<and>
     starts_on dep cm"
proof -
  obtain dep where dep: "GatewayDeployment (\<lambda>_. ''img'') sample_kn sample_kn = Inr dep" using gateway_builds by blast
  obtain cm where cm: "GatewayConfigMap sample_documents sample_kn sample_kn ''Modern'' = Inr cm" by (simp add: GatewayConfigMap_def)
  show ?thesis
    using services_start_on_their_documents [of "GatewayDeployment (\<lambda>_. ''img'')" "\<lambda>kn knV2. GatewayConfigMap sample_documents kn knV2 ''Modern''"
        "\<lambda>_. ''img''" "\<lambda>_. []" sample_documents "''Modern''" "''''" "''''" sample_kn sample_kn dep cm] dep cm
    by (auto simp: configured_services_def component_builders_def service_configs_def)
qed

subsection \<open>Credentials of the models\<close>

text \<open>The file is a key of the Secret, in the directory where the pod mounts that Secret; without a Secret, no file is named.\<close>

definition reads_key :: "pod_parts \<Rightarrow> string \<Rightarrow> string \<Rightarrow> bool" where
  "reads_key p file secret \<longleftrightarrow>
     (if secret = '''' then file = ''''
      else list_ex (\<lambda>m. secret_at p secret (mount_MountPath m) \<and> file \<in> (\<lambda>k. mount_MountPath m @ ''/'' @ k) ` {llmCredentialsFileAPIKey, llmCredentialsFileVertexJSON})
        (snd p))"

lemma reads_keyI:
  assumes "secret \<noteq> '''' \<Longrightarrow> secret_at p secret dir" and "k \<in> {llmCredentialsFileAPIKey, llmCredentialsFileVertexJSON}"
    and "file = (if secret = '''' then '''' else dir @ ''/'' @ k)"
  shows "reads_key p file secret"
  using assms mounted_path [of p] by (auto simp: reads_key_def list_ex_iff) blast+

lemma agent_base_credentials:
  "secret_at (agent_parts kn knV2 kaProfile) (llmProfile_CredentialsSecretName kaProfile) ''/etc/kubernaut-agent/credentials''"
  "oAuth2_Enabled (llmProfile_OAuth2 kaProfile) \<Longrightarrow>
     secret_at (agent_parts kn knV2 kaProfile) (oAuth2_CredentialsSecretRef (llmProfile_OAuth2 kaProfile)) ''/etc/kubernaut-agent/oauth2''"
  unfolding agent_parts_def kaCredentialVolumesAndMounts_def kaCoreVolumesMounts_def appends
  by ((simp only: if_True)?, intro stays_mounted mounted_secret)+

lemma profile_own_credentials:
  "llmProfile_CredentialsSecretName profile \<notin> {'''', llmProfile_CredentialsSecretName base} \<Longrightarrow>
     secret_at (append_profile_credentials profile base (c, cp) (o2, op) role p) (llmProfile_CredentialsSecretName profile) cp"
  "oAuth2_Enabled (llmProfile_OAuth2 profile) \<Longrightarrow> oAuth2_CredentialsSecretRef (llmProfile_OAuth2 profile) \<noteq> '''' \<Longrightarrow>
   \<not> oAuth2_Enabled (llmProfile_OAuth2 base) \<or> oAuth2_CredentialsSecretRef (llmProfile_OAuth2 profile) \<noteq> oAuth2_CredentialsSecretRef (llmProfile_OAuth2 base) \<Longrightarrow>
     secret_at (append_profile_credentials profile base (c, cp) (o2, op) role p) (oAuth2_CredentialsSecretRef (llmProfile_OAuth2 profile)) op"
  by (auto simp: append_profile_credentials_def Let_def mounted_grows(1,8))

definition reads_oauth2 :: "pod_parts \<Rightarrow> string option \<Rightarrow> LLMProfileSpec \<Rightarrow> bool" where
  "reads_oauth2 p dir profile \<longleftrightarrow>
     (case dir of
        None \<Rightarrow> \<not> oAuth2_Enabled (llmProfile_OAuth2 profile)
      | Some d \<Rightarrow> oAuth2_Enabled (llmProfile_OAuth2 profile) \<and>
          (oAuth2_CredentialsSecretRef (llmProfile_OAuth2 profile) = '''' \<or> secret_at p (oAuth2_CredentialsSecretRef (llmProfile_OAuth2 profile)) d))"

text \<open>A second profile of the agent reads its own Secrets, wherever its dedicated mounts are among those of the pod.\<close>

lemma second_profile_reads:
  assumes base: "secret_at q (llmProfile_CredentialsSecretName base) ''/etc/kubernaut-agent/credentials''"
      "oAuth2_Enabled (llmProfile_OAuth2 base) \<Longrightarrow> secret_at q (oAuth2_CredentialsSecretRef (llmProfile_OAuth2 base)) ''/etc/kubernaut-agent/oauth2''"
    and within: "within (append_profile_credentials profile base (c, cp) (o2, op) role p) q"
  shows "reads_key q (ka_api_key_file profile base cp) (llmProfile_CredentialsSecretName profile)"
    and "reads_oauth2 q (map_option kaOAuth2Y_CredentialsDir (ka_oauth2 profile (ka_oauth2_dir profile base op))) profile"
proof -
  let ?secret = "llmProfile_CredentialsSecretName profile"
  show "reads_key q (ka_api_key_file profile base cp) ?secret"
  proof (rule reads_keyI [where k = "if llmProfile_Provider profile = LLMProviderVertexAI then llmCredentialsFileVertexJSON else llmCredentialsFileAPIKey"])
    show "secret_at q ?secret (if ?secret \<noteq> llmProfile_CredentialsSecretName base then cp else ''/etc/kubernaut-agent/credentials'')" if "?secret \<noteq> ''''"
      using that base(1) mounted_within [OF profile_own_credentials(1) within] by auto
  qed (auto simp: ka_api_key_file_def Let_def)
  show "reads_oauth2 q (map_option kaOAuth2Y_CredentialsDir (ka_oauth2 profile (ka_oauth2_dir profile base op))) profile"
    using base(2) mounted_within [OF profile_own_credentials(2) within]
    by (auto simp: reads_oauth2_def ka_oauth2_def ka_oauth2_dir_def Let_def)
qed

lemma within_trans: "within p q \<Longrightarrow> within q r \<Longrightarrow> within p r"
  by auto

lemma second_profile_mounts:
  "EffectiveWorkflowDiscoveryLLMProfileRef kn \<notin> {[], EffectiveInvestigationLLMProfileRef kn} \<Longrightarrow>
     appendKAWorkflowDiscoveryCredentialMounts kn kaProfile p =
       append_profile_credentials (profile_or_zero kn (EffectiveWorkflowDiscoveryLLMProfileRef kn)) kaProfile
        (phaseCredentialsVolumeName ''workflow_discovery'', phaseCredentialsMountPath ''workflow_discovery'')
        (''workflow-discovery-oauth2'', workflowOAuth2MountPath) llmTLSRoleWorkflowDiscovery p"
  "alignmentCheck_Enabled (kubernautAgent_AlignmentCheck (spec_KubernautAgent (kn_Spec kn))) \<Longrightarrow>
   ResolveLLMProfile kn (EffectiveAlignmentCheckLLMProfileRef kn) = Some profile \<Longrightarrow>
     appendKAAlignmentCredentialMounts kn kaProfile p =
       append_profile_credentials profile kaProfile (''alignment-credentials'', alignmentCredentialsMountPath)
        (''alignment-oauth2-credentials'', alignmentOAuth2MountPath) llmTLSRoleAlignment p"
  by (simp_all add: appendKAWorkflowDiscoveryCredentialMounts_def workflowOAuth2MountPath_def appendKAAlignmentCredentialMounts_def
      alignmentCredentialsMountPath_def alignmentOAuth2MountPath_def Let_def)

lemma agent_second_profiles:
  "EffectiveWorkflowDiscoveryLLMProfileRef kn \<notin> {'''', EffectiveInvestigationLLMProfileRef kn} \<Longrightarrow> \<exists>p.
     within (append_profile_credentials (profile_or_zero kn (EffectiveWorkflowDiscoveryLLMProfileRef kn)) kaProfile
        (phaseCredentialsVolumeName ''workflow_discovery'', phaseCredentialsMountPath ''workflow_discovery'')
        (''workflow-discovery-oauth2'', workflowOAuth2MountPath) llmTLSRoleWorkflowDiscovery p) (agent_parts kn knV2 kaProfile)"
  "alignmentCheck_Enabled (kubernautAgent_AlignmentCheck (spec_KubernautAgent (kn_Spec kn))) \<Longrightarrow>
   ResolveLLMProfile kn (EffectiveAlignmentCheckLLMProfileRef kn) = Some profile \<Longrightarrow> \<exists>p.
     within (append_profile_credentials profile kaProfile (''alignment-credentials'', alignmentCredentialsMountPath)
        (''alignment-oauth2-credentials'', alignmentOAuth2MountPath) llmTLSRoleAlignment p) (agent_parts kn knV2 kaProfile)"
  unfolding agent_parts_def kaCredentialVolumesAndMounts_def appends
  subgoal
    by (rule exI, rule within_trans [OF _ within_attach], rule within_trans [OF _ within_fleet(1)], rule within_trans [OF _ within_agent_credentials(1)])
      (simp only: second_profile_mounts HOL.simp_thms, rule conjI, (rule subset_refl)+)
  subgoal
    by (rule exI, rule within_trans [OF _ within_attach], rule within_trans [OF _ within_fleet(1)])
      (simp only: second_profile_mounts HOL.simp_thms, rule conjI, (rule subset_refl)+)
  done

lemma second_profile_fields [simp]:
  "kaAlignLLMY_APIKeyFile (kaAlignmentLLMConfig D profile base) = ka_api_key_file profile base alignmentCredentialsMountPath"
  "kaAlignLLMY_OAuth2 (kaAlignmentLLMConfig D profile base) = ka_oauth2 profile (ka_oauth2_dir profile base alignmentOAuth2MountPath)"
  "llmPhaseOverrideY_APIKeyFile (resolveKAPhaseModelOverride D kn phase ref base) =
     ka_api_key_file (profile_or_zero kn ref) base (phaseCredentialsMountPath phase)"
  "llmPhaseOverrideY_OAuth2 (resolveKAPhaseModelOverride D kn phase ref base) =
     ka_oauth2 (profile_or_zero kn ref) (ka_oauth2_dir (profile_or_zero kn ref) base workflowOAuth2MountPath)"
  by (simp_all add: kaAlignmentLLMConfig_def resolveKAPhaseModelOverride_def Let_def split: prod.split)

lemma agent_deployment_parts:
  assumes "KubernautAgentDeployment getenv kn knV2 = Inr dep"
  shows "deployment_parts dep = agent_parts kn knV2 (profile_or_zero kn (EffectiveInvestigationLLMProfileRef kn))"
  using assms by (auto simp: KubernautAgentDeployment_def Let_def zero_params_def elim!: built_from_params split: if_splits prod.splits)

abbreviation reads_credentials :: "pod_parts \<Rightarrow> string \<Rightarrow> string option \<Rightarrow> LLMProfileSpec \<Rightarrow> bool" where
  "reads_credentials p keyFile oauth2Dir profile \<equiv>
     reads_key p keyFile (llmProfile_CredentialsSecretName profile) \<and> reads_oauth2 p oauth2Dir profile"

lemma agent_reads_phase_credentials:
  assumes "KubernautAgentDeployment getenv kn knV2 = Inr dep" and "(phase, override) \<in> set (llmRuntimeY_PhaseModels (llm_runtime D kn))"
  shows "reads_credentials (deployment_parts dep) (llmPhaseOverrideY_APIKeyFile override)
      (map_option kaOAuth2Y_CredentialsDir (llmPhaseOverrideY_OAuth2 override)) (profile_or_zero kn (EffectiveWorkflowDiscoveryLLMProfileRef kn))"
proof -
  let ?base = "profile_or_zero kn (EffectiveInvestigationLLMProfileRef kn)"
  have ref: "EffectiveWorkflowDiscoveryLLMProfileRef kn \<notin> {'''', EffectiveInvestigationLLMProfileRef kn}"
    and override: "override = resolveKAPhaseModelOverride D kn ''workflow_discovery'' (EffectiveWorkflowDiscoveryLLMProfileRef kn) ?base"
    using assms(2) by (auto simp: llm_runtime_def ka_phase_models_def Let_def split: if_splits)
  obtain q where q: "within (append_profile_credentials (profile_or_zero kn (EffectiveWorkflowDiscoveryLLMProfileRef kn)) ?base
      (phaseCredentialsVolumeName ''workflow_discovery'', phaseCredentialsMountPath ''workflow_discovery'')
      (''workflow-discovery-oauth2'', workflowOAuth2MountPath) llmTLSRoleWorkflowDiscovery q) (agent_parts kn knV2 ?base)"
    using agent_second_profiles(1) [OF ref] by blast
  show ?thesis using second_profile_reads [OF agent_base_credentials(1) agent_base_credentials(2) q]
    by (simp add: agent_deployment_parts [OF assms(1)] override)
qed

lemma agent_reads_alignment_credentials:
  assumes "KubernautAgentDeployment getenv kn knV2 = Inr dep" and "kaAIY_AlignmentCheck (ka_ai D kn) = Some alignment"
    and "kaAlignmentY_LLM alignment = Some llm"
  shows "\<exists>profile. ResolveLLMProfile kn (EffectiveAlignmentCheckLLMProfileRef kn) = Some profile \<and>
    reads_credentials (deployment_parts dep) (kaAlignLLMY_APIKeyFile llm) (map_option kaOAuth2Y_CredentialsDir (kaAlignLLMY_OAuth2 llm)) profile"
proof -
  let ?base = "profile_or_zero kn (EffectiveInvestigationLLMProfileRef kn)"
  obtain profile where on: "alignmentCheck_Enabled (kubernautAgent_AlignmentCheck (spec_KubernautAgent (kn_Spec kn)))"
    and profile: "ResolveLLMProfile kn (EffectiveAlignmentCheckLLMProfileRef kn) = Some profile" and llm: "llm = kaAlignmentLLMConfig D profile ?base"
    using assms(2,3) by (auto simp: ka_ai_def kaAlignmentConfig_def Let_def split: if_splits)
  obtain q where q: "within (append_profile_credentials profile ?base (''alignment-credentials'', alignmentCredentialsMountPath)
      (''alignment-oauth2-credentials'', alignmentOAuth2MountPath) llmTLSRoleAlignment q) (agent_parts kn knV2 ?base)"
    using agent_second_profiles(2) [OF on profile] by blast
  show ?thesis using second_profile_reads [OF agent_base_credentials(1) agent_base_credentials(2) q] profile
    by (simp add: agent_deployment_parts [OF assms(1)] llm)
qed

lemma agent_reads_base_credentials:
  assumes "KubernautAgentDeployment getenv kn knV2 = Inr dep"
  shows "reads_oauth2 (deployment_parts dep) (map_option kaOAuth2Y_CredentialsDir (kaLLMY_OAuth2 (kaAIY_LLM (ka_ai D kn))))
      (profile_or_zero kn (EffectiveInvestigationLLMProfileRef kn))"
  using agent_base_credentials(2)
  by (simp add: agent_deployment_parts [OF assms] reads_oauth2_def ka_ai_def applyKALLMProfileFields_def applyKALLMProfileFieldsForRole_def ka_oauth2_def
      Let_def split: prod.split)

text \<open>C26: Each model the agent talks to is used with its own credentials. Whatever profiles the specification gives to the investigation, the workflow
  discovery and the alignment check, the key file and the directory of OAuth2 credentials that the agent's documents name for a profile lie in a
  mount of exactly the Secret this profile refers to in the agent's pod, never in the mount of another profile's Secret; a profile without a
  Secret names no file.\<close>

theorem agent_reads_own_credentials:
  assumes "KubernautAgentDeployment getenv kn knV2 = Inr dep"
  shows "reads_oauth2 (deployment_parts dep) (map_option kaOAuth2Y_CredentialsDir (kaLLMY_OAuth2 (kaAIY_LLM (ka_ai D kn))))
      (profile_or_zero kn (EffectiveInvestigationLLMProfileRef kn)) \<and>
    (\<forall>(phase, override) \<in> set (llmRuntimeY_PhaseModels (llm_runtime D kn)).
       reads_credentials (deployment_parts dep) (llmPhaseOverrideY_APIKeyFile override)
         (map_option kaOAuth2Y_CredentialsDir (llmPhaseOverrideY_OAuth2 override)) (profile_or_zero kn (EffectiveWorkflowDiscoveryLLMProfileRef kn))) \<and>
    (\<forall>alignment llm. kaAIY_AlignmentCheck (ka_ai D kn) = Some alignment \<and> kaAlignmentY_LLM alignment = Some llm \<longrightarrow>
       (\<exists>profile. ResolveLLMProfile kn (EffectiveAlignmentCheckLLMProfileRef kn) = Some profile \<and>
          reads_credentials (deployment_parts dep) (kaAlignLLMY_APIKeyFile llm) (map_option kaOAuth2Y_CredentialsDir (kaAlignLLMY_OAuth2 llm)) profile))"
  using agent_reads_base_credentials [OF assms, of D] agent_reads_phase_credentials [OF assms, of _ _ D]
    agent_reads_alignment_credentials [OF assms, of D] by blast

definition two_models_kn :: Kubernaut where
  "two_models_kn = zero_Kubernaut\<lparr>kn_Spec := zero_KubernautSpec\<lparr>
     spec_LLMProfiles := [(''main'', sample_profile), (''planner'', sample_profile\<lparr>llmProfile_CredentialsSecretName := ''planner-key''\<rparr>)],
     spec_KubernautAgent := zero_KubernautAgentSpec\<lparr>kubernautAgent_Investigation := zero_InvestigationSpec\<lparr>investigation_LLMProfileRef := ''main''\<rparr>,
       kubernautAgent_WorkflowDiscovery := zero_WorkflowDiscoverySpec\<lparr>workflowDiscovery_LLMProfileRef := ''planner''\<rparr>\<rparr>\<rparr>\<rparr>"

lemma two_models_refs [simp]:
  "EffectiveInvestigationLLMProfileRef two_models_kn = ''main''" "EffectiveWorkflowDiscoveryLLMProfileRef two_models_kn = ''planner''"
  "profile_or_zero two_models_kn ''main'' = sample_profile"
  "profile_or_zero two_models_kn ''planner'' = sample_profile\<lparr>llmProfile_CredentialsSecretName := ''planner-key''\<rparr>"
  "spec_Image (kn_Spec two_models_kn) = zero_ImageSpec"
  by (simp_all add: EffectiveInvestigationLLMProfileRef_def EffectiveWorkflowDiscoveryLLMProfileRef_def effectiveLLMProfileRef_def two_models_kn_def
      zero_InvestigationSpec_def zero_WorkflowDiscoverySpec_def zero_KubernautAgentSpec_def zero_KubernautSpec_def zero_Kubernaut_def
      profile_or_zero_def ResolveLLMProfile_def)

lemma two_models_agent: "\<exists>dep. KubernautAgentDeployment (\<lambda>_. ''img'') two_models_kn two_models_kn = Inr dep"
  by (simp add: KubernautAgentDeployment_def buildDeployment_def ResolveImage_def related_image_def zero_params_def sample_profile_def Let_def
      zero_ImageSpec_def split: prod.split)

theorem agent_reads_own_credentials_witness:
  "\<exists>dep override. KubernautAgentDeployment (\<lambda>_. ''img'') two_models_kn two_models_kn = Inr dep \<and>
     llmRuntimeY_PhaseModels (llm_runtime sample_documents two_models_kn) = [(''workflow_discovery'', override)] \<and>
     reads_key (deployment_parts dep) (llmPhaseOverrideY_APIKeyFile override) ''planner-key''"
proof -
  obtain dep where dep: "KubernautAgentDeployment (\<lambda>_. ''img'') two_models_kn two_models_kn = Inr dep" using two_models_agent by blast
  show ?thesis using agent_reads_own_credentials [OF dep, of sample_documents] dep by (simp add: llm_runtime_def ka_phase_models_def)
qed


subsection \<open>Credentials of the frontend\<close>

lemma frontend_base_credentials:
  fixes kn
  defines "profile \<equiv> profile_or_zero kn (AFLLMProfileRef kn)"
  shows "llmProfile_CredentialsSecretName profile \<noteq> '''' \<Longrightarrow>
      secret_at (apifrontend_parts kn knV2) (llmProfile_CredentialsSecretName profile) ''/etc/apifrontend/llm-credentials''"
    and "oAuth2_Enabled (llmProfile_OAuth2 profile) \<Longrightarrow>
      secret_at (apifrontend_parts kn knV2) (oAuth2_CredentialsSecretRef (llmProfile_OAuth2 profile)) ''/etc/apifrontend/oauth2''"
    and "valkey_SecretName (spec_Valkey (kn_Spec kn)) \<noteq> '''' \<Longrightarrow>
      secret_at (apifrontend_parts kn knV2) (valkey_SecretName (spec_Valkey (kn_Spec kn))) ''/etc/apifrontend/valkey''"
  unfolding apifrontend_parts_def apifrontendCredentialVolumesMounts_def appends Let_def profile_def
  by (simp only: if_True HOL.simp_thms, intro stays_mounted mounted_secret)+

lemma triage_credentials:
  assumes "apiFrontend_SeverityTriage (spec_APIFrontend (kn_Spec kn)) = Some st"
    and "ResolveLLMProfile kn (apiFrontendSeverityTriage_LLMProfileRef st) = Some profile"
    and "llmProfile_CredentialsSecretName profile \<notin> {'''', llmProfile_CredentialsSecretName (profile_or_zero kn (AFLLMProfileRef kn))}"
  shows "secret_at (apifrontend_parts kn knV2) (llmProfile_CredentialsSecretName profile) severityTriageCredentialsMountPath"
proof -
  have "secret_at (append_severity_triage kn (profile_or_zero kn (AFLLMProfileRef kn)) p) (llmProfile_CredentialsSecretName profile)
      severityTriageCredentialsMountPath" for p
    using assms by (simp add: append_severity_triage_def severityTriageCredentialsMountPath_def Let_def mounted_grows(8))
  then show ?thesis
    unfolding apifrontend_parts_def apifrontendCredentialVolumesMounts_def appends Let_def by (intro mounted_grows(3) mounted_attach_if(1))
qed

lemma reads_key_if:
  "(secret \<noteq> '''' \<Longrightarrow> secret_at p secret dir) \<Longrightarrow>
   reads_key p (if secret = '''' then '''' else dir @ ''/'' @ (if b then llmCredentialsFileVertexJSON else llmCredentialsFileAPIKey)) secret"
  by (rule reads_keyI [where k = "if b then llmCredentialsFileVertexJSON else llmCredentialsFileAPIKey"]) auto

lemma frontend_model_reads:
  assumes "llmProfile_CredentialsSecretName profile \<noteq> '''' \<Longrightarrow> secret_at p (llmProfile_CredentialsSecretName profile) ''/etc/apifrontend/llm-credentials''"
  shows "reads_key p (afAgentLLMY_APIKeyFile (afAgentLLMConfigForRole profile base role)) (llmProfile_CredentialsSecretName profile)"
proof -
  have "\<exists>b. afAgentLLMY_APIKeyFile (afAgentLLMConfigForRole profile base role) = (if llmProfile_CredentialsSecretName profile = '''' then ''''
      else ''/etc/apifrontend/llm-credentials'' @ ''/'' @ (if b then llmCredentialsFileVertexJSON else llmCredentialsFileAPIKey))"
    unfolding afAgentLLMConfigForRole_def Let_def case_prod_beta by (simp only: afAgentLLMYAML.simps append_Cons append_Nil) (rule exI, rule refl)
  then show ?thesis using reads_key_if [OF assms] by auto
qed

lemma frontend_reads_triage_credentials:
  assumes "severity_triage_llm kn = Some llm" and "llm \<noteq> zero_afAgentLLMYAML"
  shows "\<exists>st profile. apiFrontend_SeverityTriage (spec_APIFrontend (kn_Spec kn)) = Some st \<and>
    ResolveLLMProfile kn (apiFrontendSeverityTriage_LLMProfileRef st) = Some profile \<and>
    reads_key (apifrontend_parts kn knV2) (afAgentLLMY_APIKeyFile llm) (llmProfile_CredentialsSecretName profile)"
proof -
  let ?base = "profile_or_zero kn (AFLLMProfileRef kn)"
  obtain st profile where st: "apiFrontend_SeverityTriage (spec_APIFrontend (kn_Spec kn)) = Some st"
    and profile: "ResolveLLMProfile kn (apiFrontendSeverityTriage_LLMProfileRef st) = Some profile"
    using assms by (auto simp: severity_triage_llm_def Let_def split: if_splits option.splits)
  let ?own = "llmProfile_CredentialsSecretName profile \<notin> {'''', llmProfile_CredentialsSecretName ?base}"
  have llm: "llm = (if ?own then (afAgentLLMConfigForRole profile ?base llmTLSRoleSeverityTriage)\<lparr>afAgentLLMY_APIKeyFile := severityTriageCredentialsMountPath @ ''/'' @
        (if llmProfile_Provider profile = LLMProviderVertexAI then llmCredentialsFileVertexJSON else llmCredentialsFileAPIKey)\<rparr>
      else afAgentLLMConfigForRole profile ?base llmTLSRoleSeverityTriage)"
    using assms st profile by (auto simp: severity_triage_llm_def Let_def split: if_splits)
  have "reads_key (apifrontend_parts kn knV2) (afAgentLLMY_APIKeyFile llm) (llmProfile_CredentialsSecretName profile)"
  proof (cases ?own)
    case True
    with reads_key_if [OF triage_credentials [OF st profile True]] show ?thesis by (simp add: llm)
  next
    case False
    then show ?thesis using frontend_model_reads [of profile "apifrontend_parts kn knV2" ?base] frontend_base_credentials(1) [of kn knV2]
      by (auto simp: llm)
  qed
  with st profile show ?thesis by blast
qed


definition triage_profile :: LLMProfileSpec where
  "triage_profile = sample_profile\<lparr>llmProfile_CredentialsSecretName := ''triage-key'', llmProfile_OAuth2 := \<lparr>oAuth2_Enabled = True,
     oAuth2_TokenURL = ''https://sso.example/token'', oAuth2_Scopes = [], oAuth2_CredentialsSecretRef = ''triage-oauth2''\<rparr>\<rparr>"

definition sample_triage :: APIFrontendSeverityTriageSpec where
  "sample_triage = \<lparr>apiFrontendSeverityTriage_LLMProfileRef = ''triage'', apiFrontendSeverityTriage_LLMEnabled = None,
     apiFrontendSeverityTriage_CacheTTLSeconds = None, apiFrontendSeverityTriage_LLMConfidence = ''''\<rparr>"

definition triage_kn :: Kubernaut where
  "triage_kn = zero_Kubernaut\<lparr>kn_Spec := zero_KubernautSpec\<lparr>spec_LLMProfiles := [(''main'', sample_profile), (''triage'', triage_profile)],
     spec_APIFrontend := zero_APIFrontendSpec\<lparr>apiFrontend_LLMProfileRef := ''main'', apiFrontend_SeverityTriage := Some sample_triage\<rparr>\<rparr>\<rparr>"

lemma triage_kn_sels [simp]:
  "spec_Image (kn_Spec triage_kn) = zero_ImageSpec" "apiFrontend_SeverityTriage (spec_APIFrontend (kn_Spec triage_kn)) = Some sample_triage"
  "ResolveLLMProfile triage_kn ''triage'' = Some triage_profile" "apiFrontendSeverityTriage_LLMProfileRef sample_triage = ''triage''"
  "llmProfile_CredentialsSecretName triage_profile = ''triage-key''"
  by (simp_all add: triage_kn_def zero_Kubernaut_def zero_KubernautSpec_def zero_APIFrontendSpec_def ResolveLLMProfile_def sample_triage_def triage_profile_def)

lemma triage_frontend: "\<exists>dep. APIFrontendDeployment (\<lambda>_. ''img'') triage_kn triage_kn = Inr dep"
  by (simp add: APIFrontendDeployment_def buildDeployment_def ResolveImage_def related_image_def zero_params_def zero_ImageSpec_def Let_def
      split: prod.split)

lemma triage_model:
  "map_option afAgentLLMY_APIKeyFile (severity_triage_llm triage_kn) = Some ''/etc/apifrontend/severity-triage-credentials/api_key''"
  "map_option (map_option afAgentLLMOAuth2Y_CredentialsDir \<circ> afAgentLLMY_OAuth2) (severity_triage_llm triage_kn) = Some (Some ''/etc/apifrontend/oauth2'')"
  by code_simp+


text \<open>The OAuth2 credentials of the triage are not mounted: its document names the directory of the frontend's own OAuth2 Secret, which
  the pod does not even have when the frontend's own profile uses a key.\<close>

lemma triage_oauth2_is_not_mounted:
  "map_option (map_option afAgentLLMOAuth2Y_CredentialsDir \<circ> afAgentLLMY_OAuth2) (severity_triage_llm triage_kn) = Some (Some ''/etc/apifrontend/oauth2'')"
  "\<not> list_ex (\<lambda>m. mount_MountPath m = ''/etc/apifrontend/oauth2'') (snd (apifrontend_parts triage_kn triage_kn))"
  subgoal by (rule triage_model(2))
  subgoal by code_simp
  done

subsection \<open>Credentials and trust of the fleet\<close>

text \<open>
  The services that talk to the fleet: the pod, the directory below which the service looks for the credentials its document names, and what the
  document says of them (the Secret, the CA file of the token endpoint and the CA file of the gateway), when it has a fleet section.
\<close>

definition fleet_section :: "fleetConfigYAML option \<Rightarrow> (string \<times> string \<times> string) option" where
  "fleet_section f = (case f of None \<Rightarrow> None | Some c \<Rightarrow>
     map_option (\<lambda>o2. (fleetOAuth2Y_CredentialsSecretRef o2, fleetOAuth2Y_TLSCAFile o2, fleetConfigY_MCPGatewayTLSCAFile c)) (fleetConfigY_OAuth2 c))"

definition fleet_readers :: "documents \<Rightarrow> Kubernaut \<Rightarrow> Kubernaut \<Rightarrow> string \<Rightarrow> (pod_parts \<times> string \<times> (string \<times> string \<times> string) option) list" where
  "fleet_readers D kn knV2 tlsProfile =
     [(gateway_parts kn knV2, ''/etc/gateway'', fleet_section (gatewayConfigY_Fleet (gateway_config D kn knV2 tlsProfile))),
      (orchestrator_parts kn knV2, ''/etc/remediationorchestrator'',
        fleet_section (remediationOrchestratorConfigY_Fleet (remediation_orchestrator_config kn knV2 tlsProfile))),
      (monitor_parts kn knV2, ''/etc/effectivenessmonitor'', fleet_section (effectivenessMonitorConfigY_Fleet (effectiveness_monitor_config kn knV2 tlsProfile))),
      (apifrontend_parts kn knV2, ''/etc/apifrontend'', fleet_section (afConfigY_Fleet (api_frontend_config D kn knV2))),
      (signal_processing_parts kn knV2, ''/etc/signalprocessing'',
        (case signalProcessingConfigY_Fleet (signal_processing_config kn knV2 tlsProfile) of None \<Rightarrow> None | Some f \<Rightarrow>
           map_option (\<lambda>o2. (fleetOAuth2Y_CredentialsSecretRef o2, fleetOAuth2Y_TLSCAFile o2, signalProcessingFleetY_MCPGatewayTLSCAFile f)) (signalProcessingFleetY_OAuth2 f))),
      (workflow_parts kn knV2, ''/etc/workflowexecution'',
        (case workflowExecutionConfigY_Fleet (workflow_execution_config kn knV2 tlsProfile) of None \<Rightarrow> None | Some f \<Rightarrow>
           map_option (\<lambda>o2. (fleetOAuth2Y_CredentialsSecretRef o2, fleetOAuth2Y_TLSCAFile o2, weFleetY_MCPGatewayTLSCAFile f)) (weFleetY_OAuth2 f))),
      (agent_parts kn knV2 (profile_or_zero kn (EffectiveInvestigationLLMProfileRef kn)), ''/etc/kubernaut-agent'',
        (case kaIntegrationsY_Fleet (kubernautAgentConfigY_Integrations (kubernaut_agent_config D kn knV2 tlsProfile)) of None \<Rightarrow> None | Some f \<Rightarrow>
           map_option (\<lambda>o2. (kaFleetOAuth2Y_CredentialsSecretRef o2, kaFleetOAuth2Y_TLSCaFile o2, kaFleetY_MCPGatewayTLSCAFile f)) (kaFleetY_OAuth2 f)))]"

text \<open>Where the administrator gives the trust as a Secret, the file is the CA of that Secret, mounted in the pod.\<close>

definition backed_by_secret :: "pod_parts \<Rightarrow> FleetTrustSpec option \<Rightarrow> string \<Rightarrow> bool" where
  "backed_by_secret p trust file \<longleftrightarrow> (case trust_secret trust of
     None \<Rightarrow> True
   | Some ref \<Rightarrow> list_ex (\<lambda>m. file = mount_MountPath m @ ''/ca.crt'' \<and> mounted p (SecretVolumeSource (caCertSecretRef_Name ref)
       [\<lparr>item_Key = withDefault (caCertSecretRef_Key ref) ''ca.crt'', item_Path = ''ca.crt''\<rparr>] None) '''' (mount_MountPath m)) (snd p))"

lemma mounted_trust: "trust_secret trust = Some ref \<Longrightarrow> mounted (append_trust n dir trust p) (SecretVolumeSource (caCertSecretRef_Name ref)
    [\<lparr>item_Key = withDefault (caCertSecretRef_Key ref) ''ca.crt'', item_Path = ''ca.crt''\<rparr>] None) '''' dir"
  by (simp add: append_trust_def secretKeyVolume_def read_only_mount_def)

lemma resolveFleetTrust_secret: "trust_secret trust = Some ref \<Longrightarrow> resolveFleetTrustCAFile trust def file = file"
  by (auto simp: resolveFleetTrustCAFile_def trust_secret_def FleetTrustSourceSecret_def FleetTrustSourceInterService_def
      FleetTrustSourceSystem_def FleetTrustSourceFile_def split: option.splits if_splits)


text \<open>What the two steps that mount the fleet's material give for the documents of \<open>resolveFleetConfig\<close> and of workflow execution.\<close>

definition fleet_reads :: "pod_parts \<Rightarrow> FleetSpec \<Rightarrow> string \<Rightarrow> (string \<times> string \<times> string) option \<Rightarrow> bool" where
  "fleet_reads p fleet etc section \<longleftrightarrow> (case section of
     None \<Rightarrow> True
   | Some (ref, oauth2CA, gatewayCA) \<Rightarrow> (ref = '''' \<or> secret_at p ref (etc @ ''/'' @ ref)) \<and>
       backed_by_secret p (fleetOAuth2_TLS (fleet_OAuth2 fleet)) oauth2CA \<and> backed_by_secret p (fleetMCPGateway_TLS (fleet_MCPGateway fleet)) gatewayCA)"

lemma backed_by_secretI:
  assumes "\<And>ref. trust_secret trust = Some ref \<Longrightarrow> mounted p (SecretVolumeSource (caCertSecretRef_Name ref)
      [\<lparr>item_Key = withDefault (caCertSecretRef_Key ref) ''ca.crt'', item_Path = ''ca.crt''\<rparr>] None) '''' dir"
  shows "backed_by_secret p trust (resolveFleetTrustCAFile trust def (dir @ ''/ca.crt''))"
  using assms mounted_path [of p] resolveFleetTrust_secret [of trust]
  by (auto simp: backed_by_secret_def list_ex_iff split: option.split) blast

lemma fleet_reads_within: "fleet_reads p fleet etc section \<Longrightarrow> within p q \<Longrightarrow> fleet_reads q fleet etc section"
proof -
  assume reads: "fleet_reads p fleet etc section" and within: "within p q"
  have "backed_by_secret p trust f \<Longrightarrow> backed_by_secret q trust f" for trust f
    using within mounted_within [OF _ within] by (auto simp: backed_by_secret_def list_ex_iff split: option.splits)
  with reads mounted_within [OF _ within] show ?thesis by (auto simp: fleet_reads_def split: option.splits)
qed

lemma within_fleet_steps [growing]: "within p (append_oauth2_credentials etc ref p)" "within p (append_backend fleet p)"
  by (auto simp: append_oauth2_credentials_def append_backend_def append_trust_def attach_def Let_def split: option.splits)

lemma mounted_fleet_steps [stays_mounted]:
  "mounted p s sub d \<Longrightarrow> mounted (append_oauth2_credentials etc ref p) s sub d"
  "mounted p s sub d \<Longrightarrow> mounted ((if b then append_backend fleet else id) p) s sub d"
  using mounted_within [OF _ within_fleet_steps(1)] mounted_within [OF _ within_fleet_steps(2)] by simp_all

lemma fleet_material_reads:
  fixes fleet etc ref b p
  defines "q \<equiv> append_oauth2_credentials etc ref (append_oauth2_trust fleet ((if b then append_backend fleet else id) (appendFleetMCPGatewayCASecretMount fleet p)))"
  shows "fleet_reads q fleet etc (Some (ref, resolveFleetTrustCAFile (fleetOAuth2_TLS (fleet_OAuth2 fleet)) def fleetOAuth2CAMountPath,
    resolveFleetTrustCAFile (fleetMCPGateway_TLS (fleet_MCPGateway fleet)) def fleetMCPGatewayCAMountPath))"
proof -
  have "ref \<noteq> '''' \<Longrightarrow> secret_at q ref (etc @ ''/'' @ ref)" by (simp add: q_def append_oauth2_credentials_def)
  moreover have "backed_by_secret q (fleetOAuth2_TLS (fleet_OAuth2 fleet))
      (resolveFleetTrustCAFile (fleetOAuth2_TLS (fleet_OAuth2 fleet)) def (''/etc/fleet-tls/oauth2'' @ ''/ca.crt''))"
    by (rule backed_by_secretI) (simp add: q_def append_oauth2_trust_def mounted_fleet_steps(1) mounted_trust)
  moreover have "backed_by_secret q (fleetMCPGateway_TLS (fleet_MCPGateway fleet))
      (resolveFleetTrustCAFile (fleetMCPGateway_TLS (fleet_MCPGateway fleet)) def (fleetMCPGatewayCAMountDir @ ''/ca.crt''))"
    unfolding q_def append_oauth2_trust_def appendFleetMCPGatewayCASecretMount_def
    by (rule backed_by_secretI) (intro mounted_fleet_steps mounted_grows(2) mounted_trust)
  ultimately show ?thesis by (auto simp: fleet_reads_def fleetOAuth2CAMountPath_def fleetMCPGatewayCAMountPath_def fleetMCPGatewayCAMountDir_def)
qed

lemma fleet_steps_read:
  assumes "fleet_Enabled (spec_Fleet (kn_Spec knV2)) = Some True"
  defines "fleet \<equiv> spec_Fleet (kn_Spec knV2)"
  defines "files \<equiv> \<lambda>def. (resolveFleetTrustCAFile (fleetOAuth2_TLS (fleet_OAuth2 fleet)) def fleetOAuth2CAMountPath,
      resolveFleetTrustCAFile (fleetMCPGateway_TLS (fleet_MCPGateway fleet)) def fleetMCPGatewayCAMountPath)"
  shows "fleet_reads (appendFleetSecretMountsVariant knV2 etc override b p) fleet etc
      (Some (withDefault override (fleetOAuth2_CredentialsSecretRef (fleet_OAuth2 fleet)), files def))"
    and "fleet_reads (appendWorkflowExecutionFleetSecretMount knV2 etc p) fleet etc
      (Some (workflowExecutionFleet_OAuth2CredentialsSecretRef (workflowExecution_Fleet (spec_WorkflowExecution (kn_Spec knV2))), files def))"
  using fleet_material_reads [of _ _ fleet True] fleet_material_reads [of _ _ fleet False] assms(1)
  by (cases b, simp_all add: appendFleetSecretMountsVariant_def appendWorkflowExecutionFleetSecretMount_def fleet_def files_def Let_def)

lemma effective_override:
  "effectiveFleetOAuth2SecretRef override def = withDefault (effectiveFleetOAuth2SecretRef override '''') def"
  by (auto simp: effectiveFleetOAuth2SecretRef_def withDefault_def split: option.split)

lemma fleet_sections:
  "fleet_section (resolveFleetConfig knV2 override def) = (if fleet_Enabled (spec_Fleet (kn_Spec knV2)) \<noteq> Some True then None else
     Some (withDefault override (fleetOAuth2_CredentialsSecretRef (fleet_OAuth2 (spec_Fleet (kn_Spec knV2)))),
       resolveFleetTrustCAFile (fleetOAuth2_TLS (fleet_OAuth2 (spec_Fleet (kn_Spec knV2)))) def fleetOAuth2CAMountPath,
       gateway_ca (spec_Fleet (kn_Spec knV2)) def))"
  "fleet_section (resolveMCPGatewayOnlyFleetConfig knV2 override def) = fleet_section (resolveFleetConfig knV2 override def)"
  "fleet_section (resolveAPIFrontendFleetConfig knV2 override def) = fleet_section (resolveFleetConfig knV2 override def)"
  by (simp_all add: fleet_section_def resolveFleetConfig_def resolveMCPGatewayOnlyFleetConfig_def resolveAPIFrontendFleetConfig_def fleet_oauth2_def Let_def)

text \<open>C29: Every service that talks to the fleet finds what its document names. In the pods of the gateway, the orchestrator, the effectiveness
  monitor, the API frontend, signal processing, workflow execution and the agent, the Secret with the OAuth2 credentials named by the document's
  fleet section is mounted in the directory of that name below the service's own configuration directory, and where the administrator trusts
  the token endpoint or the gateway by a Secret, the CA file in the document is the key of that Secret in its mount.\<close>

theorem fleet_services_find_their_material:
  assumes "(p, etc, section) \<in> set (fleet_readers D kn knV2 tlsProfile)"
  shows "fleet_reads p (spec_Fleet (kn_Spec knV2)) etc section"
proof (cases "fleet_Enabled (spec_Fleet (kn_Spec knV2)) = Some True")
  case False
  then have "section = None" using assms
    by (auto simp: fleet_readers_def gateway_config_def remediation_orchestrator_config_def effectiveness_monitor_config_def api_frontend_config_def
        signal_processing_config_def workflow_execution_config_def kubernaut_agent_config_def resolveSignalProcessingFleetConfig_def resolveWEFleetConfig_def
        resolveKAFleetConfig_def fleet_sections Let_def)
  then show ?thesis by (simp add: fleet_reads_def)
next
  case True
  note steps = fleet_steps_read [OF True]
  note grown = fleet_reads_within [OF steps(1) within_telemetry] fleet_reads_within [OF steps(1) within_attach] steps
  show ?thesis using assms True
    by (auto simp: fleet_readers_def gateway_config_def remediation_orchestrator_config_def effectiveness_monitor_config_def api_frontend_config_def
        signal_processing_config_def workflow_execution_config_def kubernaut_agent_config_def resolveSignalProcessingFleetConfig_def resolveWEFleetConfig_def
        resolveKAFleetConfig_def fleet_oauth2_def fleet_sections Let_def gateway_parts_def orchestrator_parts_def monitor_parts_def apifrontend_parts_def
        signal_processing_parts_def workflow_parts_def agent_parts_def appends
        effective_override [of _ "fleetOAuth2_CredentialsSecretRef (fleet_OAuth2 (spec_Fleet (kn_Spec knV2)))"] intro: grown)
qed


theorem fleet_services_find_their_material_witness:
  "secret_at (gateway_parts accepted_kn accepted_kn) ''reader'' ''/etc/gateway/reader''"
proof -
  have "(gateway_parts accepted_kn accepted_kn, ''/etc/gateway'', Some (''reader'', InterServiceTLSCAFileFor accepted_kn, InterServiceTLSCAFileFor accepted_kn))
      \<in> set (fleet_readers sample_documents accepted_kn accepted_kn ''Modern'')"
    by (simp add: fleet_readers_def gateway_config_def fleet_sections accepted_fleet_def zero_GatewaySpec_def zero_FleetOAuth2Spec_def
        zero_FleetMCPGatewaySpec_def zero_FleetSpec_def effectiveFleetOAuth2SecretRef_def withDefault_def resolveFleetTrustCAFile_def
        Let_def)
  from fleet_services_find_their_material [OF this] show ?thesis by (simp add: fleet_reads_def)
qed

end
