(* ===== verification/Spec2Isabelle.thy ===== *)
theory Spec2Isabelle
  imports Activation Config_Mounts
begin

text \<open>
  \<^bold>\<open>A verification development of the Kubernaut operator.\<close>

  The operator is a Kubernetes controller for one namespaced custom resource, \<^verbatim>\<open>Kubernaut\<close>, of which a cluster has at most one. A run of
  \<^verbatim>\<open>Reconcile\<close> (\<^verbatim>\<open>internal/controller/kubernaut_controller.go\<close>) reads the resource, checks what the administrator supplied, isolates the
  namespace with network policies, migrates the database, writes the objects of a dozen services and reports a status; when the resource is
  being deleted it removes what garbage collection does not reach and then its finalizer. The objects it writes are built by pure functions
  of \<^verbatim>\<open>internal/resources\<close> and \<^verbatim>\<open>internal/policy\<close>. What makes the operator correct is that it never touches what is not its own, that
  nothing starts before its inputs are checked and the namespace is isolated, that what it grants is what is meant, and that the objects it
  writes fit together.

  \<^bold>\<open>How the code is modelled.\<close>

  \<^item> Go structs are records with the fields of the source, pure functions are HOL functions of the same names, an error is a value of
    \<open>go_error\<close> (a result with an error is \<open>'a go\<close>, an error alone an \<open>option\<close>). A Go map the code ranges over is an association list whose
    order is the order of that range; \<^verbatim>\<open>nil\<close> pointers are \<open>None\<close>.
  \<^item> A method of the reconciler is a program of the state monad on \<open>world\<close>: the cluster, the custom resource in memory, the trace of calls to
    the API server (latest first, with the answers) and the events. Early returns and error wrapping are written out.
  \<^item> What is not in the repository is an argument: the API server and apimachinery are the record \<open>env\<close> (argument \<open>E\<close>), the decoders of
    certificates and JSON, the randomness, the URL and name checks of libraries, the printer of YAML and the
    conversions of floating-point numbers are fields of \<open>decoders\<close>, \<open>tls_env\<close>, \<open>material\<close>, \<open>validators\<close>, \<open>documents\<close> and \<open>operator\<close>. The server may answer anything, so interleaved writers and every error path are covered;
    the few laws used of it (an object has the identity that was asked for, \<open>identity_stable\<close>; \<^verbatim>\<open>SetControllerReference\<close> only sets
    owners, \<open>sets_only_owners\<close>) are named hypotheses, and \<open>Sample_Cluster\<close> is a small server that satisfies them, on which the witnesses run.
  \<^item> All functions are total: loops are recursions over lists or strings, with a measure where they are not structural, and no fuel is used.
    Go's \<^verbatim>\<open>int\<close> is \<open>int\<close> where values come from the schema and are bounded by it; hash words are 32-bit words, and a \<^verbatim>\<open>float64\<close> is its IEEE bit pattern.

  \<^bold>\<open>The theories, in the order they build on each other.\<close>

  \<^item> \<open>Kube_Prelude\<close>, \<open>Go_Crypto\<close>, \<open>Go_Net\<close>, \<open>Go_Text\<close>: maps, strings, the program logic (\<open>triple\<close>, \<open>keeps\<close>, the collection
    \<open>triple_rules\<close>), SHA-256, and the parts of \<^verbatim>\<open>net\<close>, \<^verbatim>\<open>strings\<close>, \<^verbatim>\<open>strconv\<close> and \<^verbatim>\<open>time\<close> the code uses.
  \<^item> \<open>Api_Types\<close>: \<^verbatim>\<open>api/v1alpha2/kubernaut_types.go\<close>. \<open>Kube_World\<close>: objects, errors, the world and its calls. \<open>Status\<close>: phase, conditions
    and the status patch; the phase never moves backwards.
  \<^item> \<open>Ownership\<close>, \<open>Ensure\<close>, \<open>Write_Safety\<close>, \<open>Ensure_Behaviour\<close>, \<open>Evidence\<close>: the ownership gate refines its specification; create-or-update
    refuses foreign objects and converges; a locale of gates gives the invariant \<open>guarded\<close> of traces (each update or delete is for an object
    that was read at that version and that the gate accepts); a locale of checks says what a successful check has read.
  \<^item> \<open>Components\<close>, \<open>Serving\<close>, \<open>Pods\<close>: \<^verbatim>\<open>common.go\<close>, \<^verbatim>\<open>services.go\<close> and the TLS material of each mode.
  \<^item> \<open>Network_Policies\<close>: \<^verbatim>\<open>internal/policy\<close> and its reconciliation; rendered ingress is restricted, a validated specification renders.
  \<^item> \<open>Audit_Key\<close>, \<open>Startup_Inputs\<close>: the audit key, which is only ever created and fails closed, and every administrator-owned input.
  \<^item> \<open>Migration\<close>: shared definitions, the migration Job and the gate on its outcome. \<open>Workflow_Namespace\<close>: the restricted namespace.
  \<^item> \<open>Cleanup\<close>, \<open>Running\<close>: the finalizer goes only after the clean-up, which covers what it must; \<^verbatim>\<open>Running\<close> means ready.
  \<^item> \<open>Admission\<close>, \<open>Certificates\<close>, \<open>Runtime_TLS\<close>: webhooks, certificates and the checks on them; accepted material is verified.
  \<^item> \<open>Rbac_Roles\<close>, \<open>Rbac\<close>, \<open>Rbac_Deploy\<close>: every rule that is granted, closure of the bindings, and their deployment.
  \<^item> \<open>Revisions\<close>, \<open>Deployments\<close>: the digests of inputs and the watches on them; each Deployment, well formed and reached by its Service.
  \<^item> \<open>Monitoring\<close>: \<^verbatim>\<open>monitoring.go\<close>, \<^verbatim>\<open>hpa.go\<close>, \<^verbatim>\<open>pdb.go\<close>, \<^verbatim>\<open>tlsprofile.go\<close>; alerts watch scraped jobs.
  \<^item> \<open>Validation\<close>, \<open>Console\<close>, \<open>Accepted\<close>: \<^verbatim>\<open>validation.go\<close> and \<^verbatim>\<open>console.go\<close>; what validation accepts is complete and can be deployed.
  \<^item> \<open>Workloads\<close>, \<open>Reconcile\<close>, \<open>Activation\<close>: the deployment of ConfigMaps, Deployments and Services, and the driver. A whole run is safe; only
    the one authorized resource acts, and nothing is activated before the namespace is isolated.
  \<^item> \<open>Config_Types\<close>, \<open>Configs\<close>, \<open>Controller_Configs\<close>, \<open>Agent_Configs\<close>, \<open>Frontend_Configs\<close>: the configuration documents of \<^verbatim>\<open>configmaps.go\<close>
    and \<^verbatim>\<open>fleetmetadatacache.go\<close>: each YAML struct as a record with its encoding into a tree (field names, order, \<^verbatim>\<open>omitempty\<close>), and the builder
    of each document; \<open>service_configs\<close> is the record of builders that \<open>Workloads\<close> takes. Printing the tree and the conversions of \<^verbatim>\<open>strconv\<close>
    are the record \<open>documents\<close>.
  \<^item> \<open>Config_Facts\<close>, \<open>Config_Mounts\<close>: the documents of an accepted resource can all be built, their numbers are in range, the frontend accepts the
    console exactly while it is enabled; each service starts on its own document, and the credentials and CA files a document names are mounted
    from the Secrets of the profile or fleet section they belong to.

  \<^bold>\<open>Not modelled.\<close> Logging; \<^verbatim>\<open>cmd/main.go\<close> and \<^verbatim>\<open>SetupWithManager\<close>, which only hand values to controller-runtime (the mapping functions of
  the watches are in \<open>Revisions\<close>); generated deep copies, which are the identity on values.
\<close>

end
